(* ===== verification/Prelude.thy ===== *)
theory Prelude
  imports Main "HOL-Library.State_Monad" "HOL-Library.Monad_Syntax" "HOL-Library.Word"
    "HOL-Library.List_Lexorder" "HOL-Library.Char_ord"
begin

text \<open>
  What every component of the development shares.

  \<^item> \<^emph>\<open>Ordered maps.\<close> The program keeps its tables in \<^verbatim>\<open>std::map\<close>, whose iteration order is the
    key order. \<open>smap\<close> is an association list kept sorted by key, with the operations the
    sources use: \<open>find\<close>, \<open>count\<close>, \<open>operator[]\<close> (insert or overwrite), \<open>erase\<close>, \<open>size\<close>.
  \<^item> \<^emph>\<open>Stateful code.\<close> Operations are values of the state monad. \<open>frames f m\<close> says that \<open>m\<close> leaves
    the projection \<open>f\<close> of the state alone, \<open>hoare P m Q\<close> is the usual triple; both come with one
    rule per construct, so that the component proofs are rule applications.
  \<^item> \<^emph>\<open>Decimal numerals\<close> as \<^verbatim>\<open>std::to_string\<close> prints them, with a reader and the round trip, because
    the program names its delayed tasks by printed identifiers.
\<close>

section \<open>Collections\<close>

named_theorems frame_intros \<open>rules that push a frame condition through a program\<close>
named_theorems hoare_intros \<open>rules that push a triple through a program\<close>
named_theorems run_simps \<open>evaluation of monadic programs\<close>

section \<open>Ordered maps\<close>

type_synonym ('k, 'v) smap = "('k \<times> 'v) list"

definition sm_find :: "'k \<Rightarrow> ('k, 'v) smap \<Rightarrow> 'v option" where
  "sm_find k m = map_of m k"

definition sm_count :: "'k \<Rightarrow> ('k, 'v) smap \<Rightarrow> bool" where
  "sm_count k m \<longleftrightarrow> sm_find k m \<noteq> None"

fun sm_ins :: "'k::linorder \<Rightarrow> 'v \<Rightarrow> ('k, 'v) smap \<Rightarrow> ('k, 'v) smap" where
  "sm_ins k v [] = [(k, v)]"
| "sm_ins k v ((k', v') # m) =
     (if k < k' then (k, v) # (k', v') # m
      else if k = k' then (k, v) # m
      else (k', v') # sm_ins k v m)"

definition sm_erase :: "'k \<Rightarrow> ('k, 'v) smap \<Rightarrow> ('k, 'v) smap" where
  "sm_erase k m = filter (\<lambda>kv. fst kv \<noteq> k) m"

definition sm_size :: "('k, 'v) smap \<Rightarrow> nat" where
  "sm_size m = length m"

text \<open>\<open>sm_get d k m\<close> reads \<open>m[k]\<close> when \<open>operator[]\<close> would create a default \<open>d\<close>.\<close>
definition sm_get :: "'v \<Rightarrow> 'k \<Rightarrow> ('k, 'v) smap \<Rightarrow> 'v" where
  "sm_get d k m = (case sm_find k m of None \<Rightarrow> d | Some v \<Rightarrow> v)"

text \<open>\<open>sm_upd k f m\<close> applies \<open>f\<close> to the value stored under \<open>k\<close>, if there is one.\<close>
definition sm_upd :: "'k \<Rightarrow> ('v \<Rightarrow> 'v) \<Rightarrow> ('k, 'v) smap \<Rightarrow> ('k, 'v) smap" where
  "sm_upd k f m = map (\<lambda>(k', v). (k', if k' = k then f v else v)) m"

text \<open>\<open>sm_touch d k m\<close> is the map after \<open>operator[]\<close> has been applied to \<open>k\<close>: a default \<open>d\<close> if \<open>k\<close> was absent.\<close>
definition sm_touch :: "'v \<Rightarrow> 'k::linorder \<Rightarrow> ('k, 'v) smap \<Rightarrow> ('k, 'v) smap" where
  "sm_touch d k m = (if sm_count k m then m else sm_ins k d m)"

definition sm_keys :: "('k, 'v) smap \<Rightarrow> 'k list" where
  "sm_keys m = map fst m"

definition sm_ok :: "('k::linorder, 'v) smap \<Rightarrow> bool" where
  "sm_ok m \<longleftrightarrow> sorted (sm_keys m) \<and> distinct (sm_keys m)"

lemma sm_find_Nil [simp]: "sm_find k [] = None"
  by (simp add: sm_find_def)

lemma sm_find_Cons: "sm_find k ((k', v) # m) = (if k = k' then Some v else sm_find k m)"
  by (simp add: sm_find_def)

lemma sm_find_ins [simp]: "sm_find k (sm_ins k' v m) = (if k = k' then Some v else sm_find k m)"
  by (induction m) (auto simp: sm_find_Cons)

lemma sm_find_erase [simp]: "sm_find k (sm_erase k' m) = (if k = k' then None else sm_find k m)"
  by (induction m) (auto simp: sm_find_Cons sm_erase_def sm_find_def)

lemma sm_find_upd [simp]:
  "sm_find k (sm_upd k' f m) = (if k = k' then map_option f (sm_find k m) else sm_find k m)"
  by (induction m) (auto simp: sm_find_Cons sm_upd_def sm_find_def)

lemma sm_count_ins [simp]: "sm_count k (sm_ins k' v m) \<longleftrightarrow> k = k' \<or> sm_count k m"
  by (simp add: sm_count_def)

lemma sm_count_erase [simp]: "sm_count k (sm_erase k' m) \<longleftrightarrow> k \<noteq> k' \<and> sm_count k m"
  by (simp add: sm_count_def)

lemma sm_count_Nil [simp]: "\<not> sm_count k []"
  by (simp add: sm_count_def)

lemma sm_get_ins [simp]: "sm_get d k (sm_ins k' v m) = (if k = k' then v else sm_get d k m)"
  by (simp add: sm_get_def)

lemma sm_find_touch [simp]: "sm_find k (sm_touch d k' m) = (if k = k' then Some (sm_get d k m) else sm_find k m)"
  by (auto simp: sm_touch_def sm_count_def sm_get_def)

lemma sm_get_touch [simp]: "sm_get d k (sm_touch d k' m) = sm_get d k m"
  by (auto simp: sm_get_def split: option.splits)

lemma sm_find_None_iff: "sm_find k m = None \<longleftrightarrow> k \<notin> set (sm_keys m)"
  by (simp add: sm_find_def sm_keys_def map_of_eq_None_iff)

lemma sm_count_iff: "sm_count k m \<longleftrightarrow> k \<in> set (sm_keys m)"
  by (simp add: sm_count_def sm_find_None_iff)

lemma sm_find_SomeD: "sm_find k m = Some v \<Longrightarrow> (k, v) \<in> set m"
  by (simp add: sm_find_def map_of_SomeD)

lemma sm_find_mem: "sm_ok m \<Longrightarrow> (k, v) \<in> set m \<Longrightarrow> sm_find k m = Some v"
  by (simp add: sm_find_def sm_ok_def sm_keys_def)

lemma sm_keys_ins: "set (sm_keys (sm_ins k v m)) = insert k (set (sm_keys m))"
proof (induction m)
  case (Cons kv m)
  then show ?case
    by (cases kv) (auto simp: sm_keys_def simp del: image_eqI intro: image_eqI split: if_splits)
qed (simp add: sm_keys_def)

lemma sm_keys_erase: "sm_keys (sm_erase k m) = filter (\<lambda>x. x \<noteq> k) (sm_keys m)"
  by (induction m) (auto simp: sm_keys_def sm_erase_def)

lemma sm_keys_upd [simp]: "sm_keys (sm_upd k f m) = sm_keys m"
  by (induction m) (auto simp: sm_keys_def sm_upd_def)

lemma sm_ok_Nil [simp]: "sm_ok []"
  by (simp add: sm_ok_def sm_keys_def)

lemma sm_ok_ins [simp]: "sm_ok m \<Longrightarrow> sm_ok (sm_ins k v m)"
proof (induction m)
  case (Cons kv m)
  then show ?case
    using sm_keys_ins [of k v m]
    by (cases kv) (fastforce simp: sm_ok_def sm_keys_def)
qed (simp add: sm_ok_def sm_keys_def)

lemma sm_ok_erase [simp]: "sm_ok m \<Longrightarrow> sm_ok (sm_erase k m)"
  by (simp add: sm_ok_def sm_keys_erase sorted_wrt_filter)

lemma sm_ok_upd [simp]: "sm_ok (sm_upd k f m) = sm_ok m"
  by (simp add: sm_ok_def)

lemma sm_ok_touch [simp]: "sm_ok m \<Longrightarrow> sm_ok (sm_touch d k m)"
  by (simp add: sm_touch_def)

lemma sm_size_ins: "sm_ok m \<Longrightarrow> sm_size (sm_ins k v m) = (if sm_count k m then sm_size m else Suc (sm_size m))"
proof (induction m)
  case (Cons kv m)
  then show ?case
    by (cases kv) (force simp: sm_ok_def sm_keys_def sm_size_def sm_count_iff)
qed (simp add: sm_size_def)

lemma sm_size_erase_le: "sm_size (sm_erase k m) \<le> sm_size m"
  by (simp add: sm_size_def sm_erase_def)

lemma sm_erase_absent: "sm_find k m = None \<Longrightarrow> sm_erase k m = m"
  by (induction m) (auto simp: sm_erase_def sm_find_Cons split: if_splits)

section \<open>Programs over a state\<close>

text \<open>A read of the state, an update of it, a conditional command and the two loops the sources use.\<close>

definition gets :: "('s \<Rightarrow> 'a) \<Rightarrow> ('s, 'a) state" where
  "gets f = State (\<lambda>s. (f s, s))"

definition modify :: "('s \<Rightarrow> 's) \<Rightarrow> ('s, unit) state" where
  "modify f = State (\<lambda>s. ((), f s))"

abbreviation ret :: "'a \<Rightarrow> ('s, 'a) state" where
  "ret \<equiv> State_Monad.return"

definition onlyif :: "bool \<Rightarrow> ('s, unit) state \<Rightarrow> ('s, unit) state" where
  "onlyif b m = (if b then m else ret ())"

fun for_each :: "'a list \<Rightarrow> ('a \<Rightarrow> ('s, unit) state) \<Rightarrow> ('s, unit) state" where
  "for_each [] f = ret ()"
| "for_each (x # xs) f = do { f x; for_each xs f }"

fun collect :: "'a list \<Rightarrow> ('a \<Rightarrow> ('s, 'b option) state) \<Rightarrow> ('s, 'b list) state" where
  "collect [] f = ret []"
| "collect (x # xs) f = do {
     y \<leftarrow> f x;
     ys \<leftarrow> collect xs f;
     ret (case y of None \<Rightarrow> ys | Some v \<Rightarrow> v # ys) }"

definition exec :: "('s, 'a) state \<Rightarrow> 's \<Rightarrow> 's" where
  "exec m s = snd (run_state m s)"

definition eval_st :: "('s, 'a) state \<Rightarrow> 's \<Rightarrow> 'a" where
  "eval_st m s = fst (run_state m s)"

lemma run_bind [run_simps]:
  "run_state (m \<bind> f) s = run_state (f (eval_st m s)) (exec m s)"
  by (simp add: State_Monad.bind_def eval_st_def exec_def split_beta)

lemma run_state_pair: "run_state m s = (eval_st m s, exec m s)"
  by (simp add: eval_st_def exec_def)

lemma exec_bind [run_simps]: "exec (m \<bind> f) s = exec (f (eval_st m s)) (exec m s)"
  by (simp add: exec_def eval_st_def State_Monad.bind_def split_beta)

lemma eval_bind [run_simps]: "eval_st (m \<bind> f) s = eval_st (f (eval_st m s)) (exec m s)"
  by (simp add: exec_def eval_st_def State_Monad.bind_def split_beta)

lemma exec_return [run_simps]: "exec (ret x) s = s"
  by (simp add: exec_def State_Monad.return_def)

lemma eval_return [run_simps]: "eval_st (ret x) s = x"
  by (simp add: eval_st_def State_Monad.return_def)

lemma exec_gets [run_simps]: "exec (gets f) s = s"
  by (simp add: exec_def gets_def)

lemma eval_gets [run_simps]: "eval_st (gets f) s = f s"
  by (simp add: eval_st_def gets_def)

lemma exec_modify [run_simps]: "exec (modify f) s = f s"
  by (simp add: exec_def modify_def)

lemma eval_modify [run_simps]: "eval_st (modify f) s = ()"
  by (simp add: eval_st_def modify_def)

lemma exec_when [run_simps]: "exec (onlyif b m) s = (if b then exec m s else s)"
  by (simp add: onlyif_def exec_return)

lemma exec_if [run_simps]: "exec (if b then m else n) s = (if b then exec m s else exec n s)"
  by simp

lemma eval_if [run_simps]: "eval_st (if b then m else n) s = (if b then eval_st m s else eval_st n s)"
  by simp

subsection \<open>Frame conditions\<close>

definition frames :: "('s \<Rightarrow> 'b) \<Rightarrow> ('s, 'a) state \<Rightarrow> bool" where
  "frames f m \<longleftrightarrow> (\<forall>s. f (exec m s) = f s)"

lemma framesI: "(\<And>s. f (exec m s) = f s) \<Longrightarrow> frames f m"
  by (simp add: frames_def)

lemma framesD: "frames f m \<Longrightarrow> f (exec m s) = f s"
  by (simp add: frames_def)

lemma frames_return [frame_intros]: "frames f (ret x)"
  by (simp add: frames_def run_simps)

lemma frames_gets [frame_intros]: "frames f (gets g)"
  by (simp add: frames_def run_simps)

lemma frames_bind [frame_intros]: "frames f m \<Longrightarrow> (\<And>x. frames f (g x)) \<Longrightarrow> frames f (m \<bind> g)"
  by (simp add: frames_def run_simps)

lemma frames_modify: "(\<And>s. f (g s) = f s) \<Longrightarrow> frames f (modify g)"
  by (simp add: frames_def run_simps)

lemma frames_if [frame_intros]: "(b \<Longrightarrow> frames f m) \<Longrightarrow> (\<not> b \<Longrightarrow> frames f n) \<Longrightarrow> frames f (if b then m else n)"
  by simp

lemma frames_when [frame_intros]: "(b \<Longrightarrow> frames f m) \<Longrightarrow> frames f (onlyif b m)"
  by (simp add: onlyif_def frames_return)

lemma frames_case_option [frame_intros]:
  "(x = None \<Longrightarrow> frames f m) \<Longrightarrow> (\<And>v. x = Some v \<Longrightarrow> frames f (n v)) \<Longrightarrow>
   frames f (case x of None \<Rightarrow> m | Some v \<Rightarrow> n v)"
  by (cases x) auto

lemma frames_case_prod [frame_intros]:
  "(\<And>a b. x = (a, b) \<Longrightarrow> frames f (m a b)) \<Longrightarrow> frames f (case x of (a, b) \<Rightarrow> m a b)"
  by (cases x) auto

lemma frames_for_each [frame_intros]: "(\<And>x. x \<in> set xs \<Longrightarrow> frames f (g x)) \<Longrightarrow> frames f (for_each xs g)"
  by (induction xs) (auto intro: frame_intros)

lemma frames_collect [frame_intros]: "(\<And>x. x \<in> set xs \<Longrightarrow> frames f (g x)) \<Longrightarrow> frames f (collect xs g)"
  by (induction xs) (auto intro!: frames_return frames_bind)

lemma frames_Let [frame_intros]: "(\<And>v. v = x \<Longrightarrow> frames f (m v)) \<Longrightarrow> frames f (Let x m)"
  by simp

lemma frames_comp: "frames f m \<Longrightarrow> frames (\<lambda>s. g (f s)) m"
  by (simp add: frames_def)

subsection \<open>Triples\<close>

definition hoare :: "('s \<Rightarrow> bool) \<Rightarrow> ('s, 'a) state \<Rightarrow> ('a \<Rightarrow> 's \<Rightarrow> bool) \<Rightarrow> bool" where
  "hoare P m Q \<longleftrightarrow> (\<forall>s. P s \<longrightarrow> Q (eval_st m s) (exec m s))"

abbreviation preserves :: "('s \<Rightarrow> bool) \<Rightarrow> ('s, 'a) state \<Rightarrow> bool" where
  "preserves P m \<equiv> hoare P m (\<lambda>_. P)"

lemma hoareI: "(\<And>s. P s \<Longrightarrow> Q (eval_st m s) (exec m s)) \<Longrightarrow> hoare P m Q"
  by (simp add: hoare_def)

lemma hoareD: "hoare P m Q \<Longrightarrow> P s \<Longrightarrow> Q (eval_st m s) (exec m s)"
  by (simp add: hoare_def)

lemma preservesD: "preserves P m \<Longrightarrow> P s \<Longrightarrow> P (exec m s)"
  by (simp add: hoare_def)

lemma preserves_return [hoare_intros]: "preserves P (ret x)"
  by (simp add: hoare_def run_simps)

lemma preserves_gets [hoare_intros]: "preserves P (gets f)"
  by (simp add: hoare_def run_simps)

lemma preserves_bind [hoare_intros]:
  "preserves P m \<Longrightarrow> (\<And>x. preserves P (g x)) \<Longrightarrow> preserves P (m \<bind> g)"
  by (simp add: hoare_def run_simps)

lemma hoare_bind: "hoare P m R \<Longrightarrow> (\<And>x. hoare (R x) (g x) Q) \<Longrightarrow> hoare P (m \<bind> g) Q"
  by (simp add: hoare_def run_simps)

lemma hoare_pre: "hoare P' m Q \<Longrightarrow> (\<And>s. P s \<Longrightarrow> P' s) \<Longrightarrow> hoare P m Q"
  by (simp add: hoare_def)

lemma hoare_post: "hoare P m Q' \<Longrightarrow> (\<And>x s. Q' x s \<Longrightarrow> Q x s) \<Longrightarrow> hoare P m Q"
  by (simp add: hoare_def)

lemma hoare_conj: "hoare P m Q \<Longrightarrow> hoare P' m Q' \<Longrightarrow> hoare (\<lambda>s. P s \<and> P' s) m (\<lambda>x s. Q x s \<and> Q' x s)"
  by (simp add: hoare_def)

lemma preserves_modify: "(\<And>s. P s \<Longrightarrow> P (g s)) \<Longrightarrow> preserves P (modify g)"
  by (simp add: hoare_def run_simps)

lemma preserves_if [hoare_intros]:
  "(b \<Longrightarrow> preserves P m) \<Longrightarrow> (\<not> b \<Longrightarrow> preserves P n) \<Longrightarrow> preserves P (if b then m else n)"
  by simp

lemma preserves_when [hoare_intros]: "(b \<Longrightarrow> preserves P m) \<Longrightarrow> preserves P (onlyif b m)"
  by (simp add: onlyif_def preserves_return)

lemma preserves_case_option [hoare_intros]:
  "(x = None \<Longrightarrow> preserves P m) \<Longrightarrow> (\<And>v. x = Some v \<Longrightarrow> preserves P (n v)) \<Longrightarrow>
   preserves P (case x of None \<Rightarrow> m | Some v \<Rightarrow> n v)"
  by (cases x) auto

lemma preserves_case_prod [hoare_intros]:
  "(\<And>a b. x = (a, b) \<Longrightarrow> preserves P (m a b)) \<Longrightarrow> preserves P (case x of (a, b) \<Rightarrow> m a b)"
  by (cases x) auto

lemma preserves_for_each [hoare_intros]:
  "(\<And>x. x \<in> set xs \<Longrightarrow> preserves P (g x)) \<Longrightarrow> preserves P (for_each xs g)"
  by (induction xs) (auto intro: preserves_return preserves_bind)

lemma preserves_collect [hoare_intros]:
  "(\<And>x. x \<in> set xs \<Longrightarrow> preserves P (g x)) \<Longrightarrow> preserves P (collect xs g)"
  by (induction xs) (auto intro!: preserves_return preserves_bind)

lemma preserves_Let [hoare_intros]: "(\<And>v. v = x \<Longrightarrow> preserves P (m v)) \<Longrightarrow> preserves P (Let x m)"
  by simp

lemma frames_preserves: "frames f m \<Longrightarrow> preserves (\<lambda>s. Q (f s)) m"
  by (simp add: hoare_def frames_def)

section \<open>Machine integers and decimal numerals\<close>

definition to_int32 :: "int \<Rightarrow> int" where
  "to_int32 x = signed_take_bit 31 x"

definition to_uint32 :: "int \<Rightarrow> int" where
  "to_uint32 x = take_bit 32 x"

definition to_uint64 :: "int \<Rightarrow> int" where
  "to_uint64 x = take_bit 64 x"

definition is_int32 :: "int \<Rightarrow> bool" where
  "is_int32 x \<longleftrightarrow> - (2 ^ 31) \<le> x \<and> x < 2 ^ 31"

lemma to_int32_range: "is_int32 (to_int32 x)"
  using signed_take_bit_int_less_exp [of 31 x] signed_take_bit_int_greater_eq_minus_exp [of 31 x] by (simp add: is_int32_def to_int32_def)

lemma to_int32_id: "is_int32 x \<Longrightarrow> to_int32 x = x"
  by (simp add: is_int32_def to_int32_def signed_take_bit_int_eq_self)

lemma to_int32_to_uint32 [simp]: "to_int32 (to_uint32 x) = to_int32 x"
  by (simp add: to_int32_def to_uint32_def signed_take_bit_take_bit)

lemma to_uint64_nonneg: "0 \<le> x \<Longrightarrow> x < 2 ^ 64 \<Longrightarrow> to_uint64 x = x"
  by (simp add: to_uint64_def take_bit_int_eq_self)

definition digit_char :: "nat \<Rightarrow> char" where
  "digit_char d = char_of (d + 48)"

definition char_digit :: "char \<Rightarrow> nat" where
  "char_digit c = of_char c - (48::nat)"

fun show_nat :: "nat \<Rightarrow> string" where
  "show_nat n = (if n < 10 then [digit_char n] else show_nat (n div 10) @ [digit_char (n mod 10)])"

declare show_nat.simps [simp del]

text \<open>\<^verbatim>\<open>std::to_string\<close> on the signed integers the sources print.\<close>
definition to_string :: "int \<Rightarrow> string" where
  "to_string i = (if i < 0 then CHR ''-'' # show_nat (nat (- i)) else show_nat (nat i))"

definition read_nat :: "string \<Rightarrow> nat" where
  "read_nat s = foldl (\<lambda>a c. 10 * a + char_digit c) 0 s"

definition read_int :: "string \<Rightarrow> int" where
  "read_int s = (case s of [] \<Rightarrow> 0
     | c # cs \<Rightarrow> if c = CHR ''-'' then - int (read_nat cs) else int (read_nat s))"

lemma char_digit_digit_char: "d < 10 \<Longrightarrow> char_digit (digit_char d) = d"
  by (simp add: char_digit_def digit_char_def of_char_of)

lemma digit_char_not_minus: "d < 10 \<Longrightarrow> digit_char d \<noteq> CHR ''-''"
proof
  assume "d < 10" and "digit_char d = CHR ''-''"
  then have "of_char (digit_char d) = (of_char (CHR ''-'') :: nat)" by simp
  with \<open>d < 10\<close> show False by (simp add: digit_char_def of_char_of)
qed

lemma read_show_nat: "read_nat (show_nat n) = n"
proof (induction n rule: show_nat.induct)
  case (1 n)
  then show ?case
    by (subst show_nat.simps) (auto simp: read_nat_def char_digit_digit_char)
qed

lemma show_nat_head: "\<exists>d cs. d < 10 \<and> show_nat n = digit_char d # cs"
proof (induction n rule: show_nat.induct)
  case (1 n)
  show ?case
  proof (cases "n < 10")
    case True
    then show ?thesis by (subst show_nat.simps) auto
  next
    case False
    then obtain d cs where "d < 10" "show_nat (n div 10) = digit_char d # cs" using 1 by blast
    with False show ?thesis by (subst show_nat.simps) auto
  qed
qed

lemma read_to_string [simp]: "read_int (to_string i) = i"
proof (cases "i < 0")
  case True
  then show ?thesis by (simp add: to_string_def read_int_def read_show_nat)
next
  case False
  obtain d cs where d: "d < 10" "show_nat (nat i) = digit_char d # cs"
    using show_nat_head by blast
  with False show ?thesis
    using read_show_nat [of "nat i"] digit_char_not_minus [OF d(1)]
    by (simp add: to_string_def read_int_def)
qed

lemma to_string_inj [simp]: "to_string i = to_string j \<longleftrightarrow> i = j"
  by (metis read_to_string)

end
