(* ===== verification/Ffrt_Handler.thy ===== *)
theory Ffrt_Handler
  imports Prelude
begin

text \<open>
  The task queues of \<^verbatim>\<open>services/samgr/native/source/ffrt_handler.cpp\<close>: class \<^verbatim>\<open>FFRTHandler\<close>, a serial
  FFRT queue with a table from task names to the handles of the tasks posted under that name.

  The FFRT runtime itself is outside the repository. What the handler relies on is the list
  \<open>submitted\<close> of the tasks the runtime has accepted and neither started nor cancelled, a fresh
  handle per accepted task, and the answer of \<^verbatim>\<open>ffrt_queue_submit_h\<close> (a handle or null), which every
  posting operation takes as its argument \<open>accepted\<close>. Cancelling a handle takes its task out of
  the list; a task that has started is not in it any more, so cancelling it changes nothing.
\<close>

section \<open>State and operations\<close>

record 't ffrt_handler =
  queue :: bool \<comment> \<open>\<^verbatim>\<open>queue_ != nullptr\<close>\<close>
  taskMap :: "(string, nat list) smap" \<comment> \<open>name to queue of task handles\<close>
  qos :: int
  submitted :: "(nat \<times> int \<times> 't) list" \<comment> \<open>handle, delay in microseconds, task\<close>
  nextHandle :: nat

definition CONVERSION_FACTOR :: int where
  "CONVERSION_FACTOR = 1000"

definition MAX_UINT64 :: int where
  "MAX_UINT64 = 2 ^ 64 - 1"

definition FFRTHandler :: "int \<Rightarrow> 't ffrt_handler" where
  "FFRTHandler q = \<lparr> queue = True, taskMap = [], qos = q, submitted = [], nextHandle = 0 \<rparr>"

definition CleanFfrt :: "'t ffrt_handler \<Rightarrow> 't ffrt_handler" where
  "CleanFfrt h = (if \<not> queue h then h else h \<lparr> taskMap := [], queue := False, submitted := [] \<rparr>)"

definition SetFfrt :: "int \<Rightarrow> 't ffrt_handler \<Rightarrow> 't ffrt_handler" where
  "SetFfrt q h = h \<lparr> taskMap := [], queue := True, qos := q, submitted := [] \<rparr>"

definition GetQos :: "'t ffrt_handler \<Rightarrow> int" where
  "GetQos h = qos h"

text \<open>The runtime's side of \<^verbatim>\<open>ffrt_queue_submit_h\<close>: accept a task under a fresh handle.\<close>
definition queue_submit :: "'t \<Rightarrow> int \<Rightarrow> 't ffrt_handler \<Rightarrow> nat \<times> 't ffrt_handler" where
  "queue_submit t d h =
     (nextHandle h, h \<lparr> submitted := submitted h @ [(nextHandle h, d, t)], nextHandle := Suc (nextHandle h) \<rparr>)"

text \<open>The runtime's side of \<^verbatim>\<open>ffrt_queue_cancel\<close>.\<close>
definition queue_cancel :: "nat \<Rightarrow> 't ffrt_handler \<Rightarrow> 't ffrt_handler" where
  "queue_cancel k h = h \<lparr> submitted := filter (\<lambda>(i, d, t). i \<noteq> k) (submitted h) \<rparr>"

definition PostTask :: "bool \<Rightarrow> 't option \<Rightarrow> 't ffrt_handler \<Rightarrow> bool \<times> 't ffrt_handler" where
  "PostTask accepted func h = (case func of
       None \<Rightarrow> (False, h)
     | Some t \<Rightarrow>
         if \<not> queue h then (False, h)
         else if \<not> accepted then (False, h)
         else (True, snd (queue_submit t 0 h)))"

definition PostDelayTask :: "bool \<Rightarrow> 't option \<Rightarrow> int \<Rightarrow> 't ffrt_handler \<Rightarrow> bool \<times> 't ffrt_handler" where
  "PostDelayTask accepted func delayTime h = (case func of
       None \<Rightarrow> (False, h)
     | Some t \<Rightarrow>
         if delayTime > MAX_UINT64 div CONVERSION_FACTOR then (False, h)
         else if \<not> queue h then (False, h)
         else if \<not> accepted then (False, h)
         else (True, snd (queue_submit t (delayTime * CONVERSION_FACTOR) h)))"

definition PostNamedTask ::
  "bool \<Rightarrow> 't option \<Rightarrow> string \<Rightarrow> int \<Rightarrow> 't ffrt_handler \<Rightarrow> bool \<times> 't ffrt_handler" where
  "PostNamedTask accepted func name delayTime h = (case func of
       None \<Rightarrow> (False, h)
     | Some t \<Rightarrow>
         if delayTime > MAX_UINT64 div CONVERSION_FACTOR then (False, h)
         else if \<not> queue h then (False, h)
         else if \<not> accepted then (False, h)
         else let (k, h1) = queue_submit t (delayTime * CONVERSION_FACTOR) h
              in (True, h1 \<lparr> taskMap := sm_ins name (sm_get [] name (taskMap h1) @ [k]) (taskMap h1) \<rparr>))"

text \<open>The loop of \<^verbatim>\<open>RemoveTask\<close>: cancel the front handle and pop it until the queue is empty.\<close>
fun cancel_all :: "nat list \<Rightarrow> 't ffrt_handler \<Rightarrow> 't ffrt_handler" where
  "cancel_all [] h = h"
| "cancel_all (k # ks) h = cancel_all ks (queue_cancel k h)"

definition RemoveTask :: "string \<Rightarrow> 't ffrt_handler \<Rightarrow> 't ffrt_handler" where
  "RemoveTask name h = (case sm_find name (taskMap h) of
       None \<Rightarrow> h
     | Some ks \<Rightarrow> (cancel_all ks h) \<lparr> taskMap := sm_erase name (taskMap h) \<rparr>)"

definition DelTask :: "string \<Rightarrow> 't ffrt_handler \<Rightarrow> 't ffrt_handler" where
  "DelTask name h = (case sm_find name (taskMap h) of
       None \<Rightarrow> h
     | Some ks \<Rightarrow>
         let ks' = (if ks = [] then ks else tl ks)
         in h \<lparr> taskMap := (if ks' = [] then sm_erase name (taskMap h) else sm_ins name ks' (taskMap h)) \<rparr>)"

definition HasInnerEvent :: "string \<Rightarrow> 't ffrt_handler \<Rightarrow> bool" where
  "HasInnerEvent name h \<longleftrightarrow> sm_count name (taskMap h)"

text \<open>The runtime starts a task it holds: the task leaves the queue.\<close>
definition queue_start :: "nat \<Rightarrow> 't ffrt_handler \<Rightarrow> ('t \<times> 't ffrt_handler) option" where
  "queue_start k h = (case find (\<lambda>(i, d, t). i = k) (submitted h) of
       None \<Rightarrow> None
     | Some (i, d, t) \<Rightarrow> Some (t, queue_cancel k h))"

section \<open>Well-formed handlers\<close>

definition handles :: "string \<Rightarrow> 't ffrt_handler \<Rightarrow> nat list" where
  "handles name h = sm_get [] name (taskMap h)"

text \<open>
  Handles are fresh and never shared between two names, a name in the table has at least one
  handle, and a destroyed queue holds nothing.
\<close>
definition ffrt_ok :: "'t ffrt_handler \<Rightarrow> bool" where
  "ffrt_ok h \<longleftrightarrow>
     sm_ok (taskMap h)
   \<and> (\<forall>n ks. sm_find n (taskMap h) = Some ks \<longrightarrow> ks \<noteq> [])
   \<and> (\<forall>n. distinct (handles n h) \<and> (\<forall>k \<in> set (handles n h). k < nextHandle h))
   \<and> (\<forall>n m. n \<noteq> m \<longrightarrow> set (handles n h) \<inter> set (handles m h) = {})
   \<and> distinct (map fst (submitted h)) \<and> (\<forall>x \<in> set (submitted h). fst x < nextHandle h)
   \<and> (\<not> queue h \<longrightarrow> taskMap h = [] \<and> submitted h = [])"

lemma submitted_cancel_all:
  "submitted (cancel_all ks h) = filter (\<lambda>(i, d, t). i \<notin> set ks) (submitted h)"
  by (induction ks arbitrary: h) (auto simp: queue_cancel_def split_beta intro: filter_cong)

lemma cancel_all_fields [simp]:
  "taskMap (cancel_all ks h) = taskMap h"
  "queue (cancel_all ks h) = queue h"
  "nextHandle (cancel_all ks h) = nextHandle h"
  by (induction ks arbitrary: h) (auto simp: queue_cancel_def)

lemma HasInnerEvent_handles: "ffrt_ok h \<Longrightarrow> HasInnerEvent n h \<longleftrightarrow> handles n h \<noteq> []"
  by (auto simp: ffrt_ok_def HasInnerEvent_def sm_count_def handles_def sm_get_def split: option.splits)

lemma handles_RemoveTask [simp]: "handles m (RemoveTask n h) = (if m = n then [] else handles m h)"
  by (auto simp: RemoveTask_def handles_def sm_get_def split: option.splits)

lemma handles_DelTask [simp]: "handles m (DelTask n h) = (if m = n then tl (handles n h) else handles m h)"
  by (auto simp: DelTask_def handles_def sm_get_def Let_def split: option.splits)

lemma handles_PostNamedTask:
  "handles m (snd (PostNamedTask acc (Some t) n d h)) =
     (if fst (PostNamedTask acc (Some t) n d h) \<and> m = n then handles n h @ [nextHandle h] else handles m h)"
  by (auto simp: PostNamedTask_def handles_def queue_submit_def Let_def)

lemma ffrt_ok_new: "ffrt_ok (FFRTHandler q)"
  by (simp add: ffrt_ok_def FFRTHandler_def handles_def sm_get_def)

lemma ffrt_ok_CleanFfrt: "ffrt_ok h \<Longrightarrow> ffrt_ok (CleanFfrt h)"
  by (simp add: ffrt_ok_def CleanFfrt_def handles_def sm_get_def)

lemma ffrt_ok_SetFfrt: "ffrt_ok h \<Longrightarrow> ffrt_ok (SetFfrt q h)"
  by (simp add: ffrt_ok_def SetFfrt_def handles_def sm_get_def)

lemma ffrt_ok_submit: "ffrt_ok h \<Longrightarrow> queue h \<Longrightarrow> ffrt_ok (snd (queue_submit t d h))"
  by (auto simp: ffrt_ok_def queue_submit_def handles_def less_SucI)

lemma ffrt_ok_cancel: "ffrt_ok h \<Longrightarrow> ffrt_ok (queue_cancel k h)"
  by (auto simp: ffrt_ok_def queue_cancel_def handles_def distinct_map_filter)

lemma ffrt_ok_PostTask: "ffrt_ok h \<Longrightarrow> ffrt_ok (snd (PostTask acc f h))"
  by (auto simp: PostTask_def ffrt_ok_submit split: option.splits)

lemma ffrt_ok_PostDelayTask: "ffrt_ok h \<Longrightarrow> ffrt_ok (snd (PostDelayTask acc f d h))"
  by (auto simp: PostDelayTask_def ffrt_ok_submit split: option.splits)

lemma ffrt_ok_queue_start: "ffrt_ok h \<Longrightarrow> queue_start k h = Some (t, h') \<Longrightarrow> ffrt_ok h'"
  by (auto simp: queue_start_def ffrt_ok_cancel split: option.splits)

lemma ffrt_ok_PostNamedTask:
  assumes ok: "ffrt_ok h"
  shows "ffrt_ok (snd (PostNamedTask acc f n d h))"
proof (cases "fst (PostNamedTask acc f n d h)")
  case False
  then show ?thesis
    using ok by (auto simp: PostNamedTask_def Let_def queue_submit_def split: option.splits if_splits)
next
  case True
  then obtain t where f: "f = Some t" and q: "queue h"
    by (auto simp: PostNamedTask_def split: option.splits if_splits)
  let ?h' = "snd (PostNamedTask acc f n d h)"
  have fields: "taskMap ?h' = sm_ins n (handles n h @ [nextHandle h]) (taskMap h)"
    "nextHandle ?h' = Suc (nextHandle h)"
    "submitted ?h' = submitted h @ [(nextHandle h, d * CONVERSION_FACTOR, t)]" "queue ?h' = True"
    using True f q by (auto simp: PostNamedTask_def handles_def queue_submit_def Let_def split: if_splits)
  have hs: "handles m ?h' = (if m = n then handles n h @ [nextHandle h] else handles m h)" for m
    using True f by (simp add: handles_PostNamedTask)
  have fresh: "nextHandle h \<notin> set (handles m h)" for m
    using ok by (auto simp: ffrt_ok_def)
  show ?thesis
    using ok fresh unfolding ffrt_ok_def fields hs
    by (auto simp: less_SucI split: if_splits)
qed

lemma ffrt_ok_RemoveTask:
  assumes ok: "ffrt_ok h"
  shows "ffrt_ok (RemoveTask n h)"
proof (cases "sm_find n (taskMap h)")
  case None
  then show ?thesis using ok by (simp add: RemoveTask_def)
next
  case (Some ks)
  then have fields: "taskMap (RemoveTask n h) = sm_erase n (taskMap h)"
    "nextHandle (RemoveTask n h) = nextHandle h" "queue (RemoveTask n h) = queue h"
    "submitted (RemoveTask n h) = filter (\<lambda>(i, d, t). i \<notin> set ks) (submitted h)"
    by (simp_all add: RemoveTask_def submitted_cancel_all)
  show ?thesis
    using ok unfolding ffrt_ok_def fields handles_RemoveTask
    by (auto simp: distinct_map_filter sm_erase_absent)
qed

lemma ffrt_ok_DelTask:
  assumes ok: "ffrt_ok h"
  shows "ffrt_ok (DelTask n h)"
proof -
  have tl: "set (tl xs) \<subseteq> set xs" for xs :: "nat list" by (cases xs) auto
  have fields: "nextHandle (DelTask n h) = nextHandle h" "queue (DelTask n h) = queue h"
    "submitted (DelTask n h) = submitted h"
    by (simp_all add: DelTask_def Let_def split: option.splits)
  have map: "sm_ok (taskMap (DelTask n h))"
    "sm_find m (taskMap (DelTask n h)) = Some ks \<Longrightarrow> ks \<noteq> []"
    "taskMap h = [] \<Longrightarrow> taskMap (DelTask n h) = []" for m ks
    using ok by (auto simp: DelTask_def ffrt_ok_def Let_def split: option.splits if_splits)
  have hs: "set (handles m (DelTask n h)) \<subseteq> set (handles m h)"
    "distinct (handles m h) \<Longrightarrow> distinct (handles m (DelTask n h))" for m
    using tl by (auto simp: distinct_tl)
  show ?thesis
    using ok map hs unfolding ffrt_ok_def fields by blast
qed

lemmas ffrt_ok_intros =
  ffrt_ok_new ffrt_ok_CleanFfrt ffrt_ok_SetFfrt ffrt_ok_PostTask ffrt_ok_PostDelayTask
  ffrt_ok_PostNamedTask ffrt_ok_RemoveTask ffrt_ok_DelTask ffrt_ok_queue_start

section \<open>The interface the clients rely on\<close>

text \<open>
  A client that names its tasks relies on a count of the outstanding tasks per name: posting
  counts one more, removing resets the count, finishing counts one less, and a name is known
  exactly when its count is positive. The client pattern ``post unless the name is known'', which
  the delayed unload of an ability uses, then keeps at most one task per name.
\<close>
locale named_tasks =
  fixes good :: "'h \<Rightarrow> bool"
    and outstanding :: "string \<Rightarrow> 'h \<Rightarrow> nat"
    and post :: "bool \<Rightarrow> 't \<Rightarrow> string \<Rightarrow> int \<Rightarrow> 'h \<Rightarrow> bool \<times> 'h"
    and remove :: "string \<Rightarrow> 'h \<Rightarrow> 'h"
    and finish :: "string \<Rightarrow> 'h \<Rightarrow> 'h"
    and known :: "string \<Rightarrow> 'h \<Rightarrow> bool"
  assumes good_post: "good h \<Longrightarrow> good (snd (post acc t n d h))"
    and good_remove: "good h \<Longrightarrow> good (remove n h)"
    and good_finish: "good h \<Longrightarrow> good (finish n h)"
    and known_iff: "good h \<Longrightarrow> known n h \<longleftrightarrow> outstanding n h > 0"
    and outstanding_post: "good h \<Longrightarrow>
      outstanding m (snd (post acc t n d h)) =
        (if fst (post acc t n d h) \<and> m = n then Suc (outstanding n h) else outstanding m h)"
    and outstanding_remove: "good h \<Longrightarrow> outstanding m (remove n h) = (if m = n then 0 else outstanding m h)"
    and outstanding_finish: "good h \<Longrightarrow>
      outstanding m (finish n h) = (if m = n then outstanding n h - 1 else outstanding m h)"
begin

definition post_once :: "bool \<Rightarrow> 't \<Rightarrow> string \<Rightarrow> int \<Rightarrow> 'h \<Rightarrow> bool \<times> 'h" where
  "post_once acc t n d h = (if known n h then (True, h) else post acc t n d h)"

lemma post_once_at_most_one:
  "good h \<Longrightarrow> (\<forall>m. outstanding m h \<le> 1) \<Longrightarrow> (\<forall>m. outstanding m (snd (post_once acc t n d h)) \<le> 1)"
  by (auto simp: post_once_def known_iff outstanding_post)

lemma post_once_known: "good h \<Longrightarrow> fst (post_once acc t n d h) \<Longrightarrow> known n (snd (post_once acc t n d h))"
  using good_post [of h acc t n d]
  by (auto simp: post_once_def known_iff outstanding_post split: if_splits)

lemma post_then_remove: "good h \<Longrightarrow> \<not> known n (remove n (snd (post_once acc t n d h)))"
  by (simp add: known_iff good_remove good_post post_once_def outstanding_remove)

lemma finish_last: "good h \<Longrightarrow> outstanding n h \<le> 1 \<Longrightarrow> \<not> known n (finish n h)"
  by (simp add: known_iff good_finish outstanding_finish)

end

interpretation ffrt_named: named_tasks ffrt_ok "\<lambda>n h. length (handles n h)"
  "\<lambda>acc t. PostNamedTask acc (Some t)" RemoveTask DelTask HasInnerEvent
  by unfold_locales
    (auto simp: ffrt_ok_PostNamedTask ffrt_ok_RemoveTask ffrt_ok_DelTask HasInnerEvent_handles
      handles_PostNamedTask)

end
