(* ===== verification/Samgr_Types.thy ===== *)
theory Samgr_Types
  imports Ffrt_Handler
begin

text \<open>
  The data of the program, with the fields and constructors of the sources:
  \<^verbatim>\<open>sa_profiles.h\<close> (profiles and on-demand events), \<^verbatim>\<open>samgr_err_code.h\<close> (error codes),
  \<^verbatim>\<open>schedule/system_ability_state_context.h\<close> (contexts), \<^verbatim>\<open>base_system_ability_manager.h\<close> (the tables of
  the manager) and \<^verbatim>\<open>schedule/system_ability_state_scheduler.h\<close> (the tables of the scheduler).

  A field \<^verbatim>\<open>x_\<close> of a class is the record field \<open>x\<close>; a field whose name two records share carries a
  prefix. A nullable pointer is an \<open>option\<close>, or a \<open>bool\<close> (\<open>True\<close>: not null) when only its being
  null matters. A shared context is named by its key: an ability context by its identifier, a
  process context by its process name.

  Everything outside the repository is an argument: the record \<open>env\<close> holds the answers of the
  kernel, the IPC layer, init, the FFRT runtime and the peer processes during one call; an answer
  that can differ from one question to the next is a function of the question's number, which
  the state counts in \<open>asks\<close>. What the program does to the outside is appended to \<open>effects\<close>. A
  dereference of a null pointer sets \<open>faulted\<close>.
\<close>

section \<open>Profiles and on-demand events\<close>

type_synonym u16string = "16 word list"
type_synonym obj = nat \<comment> \<open>identity of an \<^verbatim>\<open>IRemoteObject\<close>\<close>

text \<open>An interface proxy or stub: its own identity and the remote object it stands for.\<close>
datatype iface = Iface (proxyId: nat) (AsObject: "obj option")

definition u16 :: "string \<Rightarrow> u16string" where
  "u16 s = map of_char s"

definition INTERFACE_CALL :: int where "INTERFACE_CALL = 0"
definition DEVICE_ONLINE :: int where "DEVICE_ONLINE = 1"
definition SETTING_SWITCH :: int where "SETTING_SWITCH = 2"
definition PARAM :: int where "PARAM = 3"
definition COMMON_EVENT :: int where "COMMON_EVENT = 4"
definition TIMED_EVENT :: int where "TIMED_EVENT = 5"
definition UNREF_EVENT :: int where "UNREF_EVENT = 6"
definition START_ON_DEMAND :: int where "START_ON_DEMAND = 1"
definition STOP_ON_DEMAND :: int where "STOP_ON_DEMAND = 2"
definition LOW_PRIORITY :: int where "LOW_PRIORITY = 3"
definition IMMEDIATELY :: int where "IMMEDIATELY = 0"
definition LOW_MEMORY :: int where "LOW_MEMORY = 1"

record OnDemandCondition =
  cond_eventId :: int
  cond_name :: string
  cond_value :: string
  cond_extraMessages :: "(string, string) smap"

record OnDemandEvent =
  eventId :: int
  ev_name :: string
  ev_value :: string
  extraDataId :: int
  persistence :: bool
  conditions :: "OnDemandCondition list"
  ev_enableOnce :: bool
  ev_loadPriority :: int
  extraMessages :: "(string, string) smap"

text \<open>The aggregate initialisation \<^verbatim>\<open>OnDemandEvent{id, name, value}\<close>; the other members are defaulted.\<close>
definition mk_event :: "int \<Rightarrow> string \<Rightarrow> string \<Rightarrow> OnDemandEvent" where
  "mk_event i n v = \<lparr> eventId = i, ev_name = n, ev_value = v, extraDataId = -1, persistence = False,
     conditions = [], ev_enableOnce = False, ev_loadPriority = LOW_PRIORITY, extraMessages = [] \<rparr>"

text \<open>\<^verbatim>\<open>OnDemandEvent::operator==\<close> compares three members only.\<close>
definition event_eq :: "OnDemandEvent \<Rightarrow> OnDemandEvent \<Rightarrow> bool" where
  "event_eq a b \<longleftrightarrow> eventId a = eventId b \<and> ev_name a = ev_name b \<and> ev_value a = ev_value b"

record SaControlInfo =
  ondemandId :: int
  sc_saId :: int
  sc_enableOnce :: bool
  sc_loadPriority :: int
  sc_cacheCommonEvent :: bool

record StartOnDemand =
  start_allowUpdate :: bool
  start_onDemandEvents :: "OnDemandEvent list"

record StopOnDemand =
  stop_allowUpdate :: bool
  unrefUnload :: bool
  delayTime :: int
  unusedTimeout :: int
  stop_onDemandEvents :: "OnDemandEvent list"

record SaProfile =
  process :: u16string
  saId :: int
  libPath :: string
  dependSa :: "int list"
  dependTimeout :: int
  runOnCreate :: bool
  moduleUpdate :: bool
  autoRestart :: bool
  distributed :: bool
  dumpLevel :: int
  bootPhase :: int
  startOnDemand :: StartOnDemand
  stopOnDemand :: StopOnDemand
  recycleStrategy :: int
  extension :: "string list"
  cacheCommonEvent :: bool
  sp_independentUnload :: bool

record CommonSaProfile =
  cp_process :: u16string
  cp_saId :: int
  cp_moduleUpdate :: bool
  cp_distributed :: bool
  cp_cacheCommonEvent :: bool
  startAllowUpdate :: bool
  stopAllowUpdate :: bool
  cp_recycleStrategy :: int
  cp_extension :: "string list"

record SystemProcessInfo =
  spi_processName :: string
  spi_pid :: int
  spi_uid :: int

record IdleProcessInfo =
  ipi_pid :: int
  ipi_processName :: u16string
  ipi_lastIdleTime :: int

section \<open>Error codes\<close>

text \<open>\<open>EXTERNAL r\<close> is a non-zero code \<open>r\<close> that a service outside the repository returned.\<close>
datatype SamgrErrCode =
    ERR_OK | ERR_INVALID_VALUE | ERR_PERMISSION_DENIED
  | INVALID_INPUT_PARA | PROFILE_NOT_EXIST | CALLBACK_NULL | CALLBACK_MAP_SIZE_LIMIT
  | INVALID_CALL_PROC | STATE_SCHEDULER_NULL | PEND_LOAD_EVENT_SIZE_LIMIT | SAVE_FD_FAIL
  | ACTIVE_SA_FAIL | IDLE_SA_FAIL
  | GET_SA_CONTEXT_FAIL | INVALID_SA_STATE | SA_CONTEXT_NULL | SA_STATE_HANDLER_NULL
  | INVALID_SA_NEXT_STATE | INVALID_PROC_NEXT_STATE | TRANSIT_PROC_STATE_FAIL | TRANSIT_SA_STATE_FAIL
  | UPDATE_STATE_COUNT_FAIL | UNLOAD_EVENT_HANDLER_NULL | UNLOAD_REQUEST_NULL | SEND_EVENT_FAIL
  | PROC_CONTEXT_NULL | PROC_STATE_HANDLER_NULL
  | ERR_NULL_OBJECT | ERR_FLATTEN_OBJECT | ERR_INVALID_OPERATION
  | INVALID_CALLING_USER_ID | SA_OPERATION_NOT_ALLOWED
  | EXTERNAL int

definition ext_code :: "int \<Rightarrow> SamgrErrCode" where
  "ext_code r = (if r = 0 then ERR_OK else EXTERNAL r)"

definition LOAD_SA_TIMEOUT :: int where "LOAD_SA_TIMEOUT = 999"

section \<open>Contexts of the scheduler\<close>

datatype SystemAbilityState = NOT_LOADED | LOADING | LOADED | UNLOADABLE | UNLOADING
datatype SystemProcessState = NOT_STARTED | STARTED | STOPPING
datatype PendingEvent = NO_EVENT | LOAD_ABILITY_EVENT | UNLOAD_ABILITY_EVENT

text \<open>The enumerators are numbered in the order of their declaration, which is the key order of the count map.\<close>
fun sa_ord :: "SystemAbilityState \<Rightarrow> nat" where
  "sa_ord NOT_LOADED = 0"
| "sa_ord LOADING = 1"
| "sa_ord LOADED = 2"
| "sa_ord UNLOADABLE = 3"
| "sa_ord UNLOADING = 4"

instantiation SystemAbilityState :: linorder
begin

definition less_eq_SystemAbilityState :: "SystemAbilityState \<Rightarrow> SystemAbilityState \<Rightarrow> bool" where
  "less_eq_SystemAbilityState a b \<longleftrightarrow> sa_ord a \<le> sa_ord b"

definition less_SystemAbilityState :: "SystemAbilityState \<Rightarrow> SystemAbilityState \<Rightarrow> bool" where
  "less_SystemAbilityState a b \<longleftrightarrow> sa_ord a < sa_ord b"

instance
proof
  fix x y :: SystemAbilityState
  show "x \<le> y \<Longrightarrow> y \<le> x \<Longrightarrow> x = y"
    by (cases x; cases y) (simp_all add: less_eq_SystemAbilityState_def)
qed (auto simp: less_eq_SystemAbilityState_def less_SystemAbilityState_def)

end

definition all_sa_states :: "SystemAbilityState list" where
  "all_sa_states = [NOT_LOADED, LOADING, LOADED, UNLOADABLE, UNLOADING]"

lemma all_sa_states_set: "set all_sa_states = UNIV"
  using SystemAbilityState.exhaust by (auto simp: all_sa_states_def)

record LoadRequestInfo =
  deviceId :: string
  lr_callback :: "iface option"
  lr_systemAbilityId :: int
  lr_callingPid :: int
  loadEvent :: OnDemandEvent

record UnloadRequestInfo =
  unloadEvent :: OnDemandEvent
  ur_systemAbilityId :: int
  ur_callingPid :: int

record SystemProcessContext =
  processName :: u16string
  saList :: "int list"
  abilityStateCountMap :: "(SystemAbilityState, 32 word) smap"
  restartCountsCtrl :: "int list"
  pid :: int
  uid :: int
  proc_state :: SystemProcessState
  enableRestart :: bool
  lastStopTime :: int
  pendingLoadFirstTimestamp :: int

record SystemAbilityContext =
  pendingLoadEventCountMap :: "(int, int) smap"
  pendingLoadEventList :: "LoadRequestInfo list"
  ownProcessContext :: "u16string option"
  pendingUnloadEvent :: "UnloadRequestInfo option"
  unloadRequest :: "UnloadRequestInfo option"
  systemAbilityId :: int
  delayUnloadTime :: int
  lastStartTime :: int
  lastIdleTime :: int
  sa_state :: SystemAbilityState
  pendingEvent :: PendingEvent
  isAutoRestart :: bool
  independentUnload :: bool

definition new_process_context :: SystemProcessContext where
  "new_process_context = \<lparr> processName = [], saList = [], abilityStateCountMap = [], restartCountsCtrl = [],
     pid = -1, uid = -1, proc_state = NOT_STARTED, enableRestart = True, lastStopTime = -1,
     pendingLoadFirstTimestamp = 0 \<rparr>"

definition new_ability_context :: SystemAbilityContext where
  "new_ability_context = \<lparr> pendingLoadEventCountMap = [], pendingLoadEventList = [], ownProcessContext = None,
     pendingUnloadEvent = None, unloadRequest = None, systemAbilityId = -1, delayUnloadTime = 0,
     lastStartTime = 0, lastIdleTime = -1, sa_state = NOT_LOADED, pendingEvent = NO_EVENT,
     isAutoRestart = False, independentUnload = False \<rparr>"

record ProcessInfo =
  pi_processName :: u16string
  pi_pid :: int
  pi_uid :: int

datatype AbilityStateEvent = ABILITY_LOAD_SUCCESS_EVENT | ABILITY_LOAD_FAILED_EVENT | ABILITY_UNLOAD_SUCCESS_EVENT
datatype ProcessStateEvent = PROCESS_STARTED_EVENT | PROCESS_STOPPED_EVENT

section \<open>Tasks and effects\<close>

text \<open>The closures the sources post to their queues, by what they capture.\<close>
datatype task =
    UpdateDelayUnloadTimeTask int
  | PendingLoadOverflowTask int u16string
  | TryUnloadAllTask u16string
  | UnloadTimeoutTask u16string
  | TryKillTask u16string
  | PendingUnloadTask int
  | UnloadEventTask int
  | StartOnDemandTask u16string int
  | NotifyAddedTask int "obj option"
  | NotifyRemovedTask int
  | CheckLoadedTask int u16string string iface
  | NotifyLoadFailTask int iface int
  | NotifyLoadedTask int "obj option" "iface option"
  | ListenerNotifyTask int iface
  | UnSubscribeTask obj

datatype ServiceAction = ACTION_START | ACTION_STOP | ACTION_START_ONDEMAND

datatype recipient = AbilityDeath | SystemProcessDeath | AbilityStatusDeath | AbilityCallbackDeath
  | RemoteCallbackDeath | ProcessListenerDeath

text \<open>The reason passed to a peer when an ability is made idle or active again (a JSON object in the sources).\<close>
record reason =
  r_eventId :: int
  r_name :: string
  r_value :: string
  r_extraDataId :: int

datatype effect =
    StartAbility obj int string
  | StopAbility obj int string
  | IdleAbility obj int reason
  | ActiveAbility obj int reason
  | SendStrategyToSA obj int int int string
  | ServiceControlCall string ServiceAction "string option"
  | ServiceWaitForStatus string
  | OnAddSystemAbility iface int string
  | OnRemoveSystemAbility iface int string
  | OnLoadSystemAbilitySuccess iface int "obj option"
  | OnLoadSystemAbilityFail iface int int
  | OnSystemProcessStarted iface SystemProcessInfo
  | OnSystemProcessStopped iface SystemProcessInfo
  | OnSystemProcessActivated iface SystemProcessInfo
  | OnSystemProcessIdled iface SystemProcessInfo
  | AddDeathRecipient obj recipient
  | RemoveDeathRecipient obj recipient
  | SetModuleUpdateParam string string
  | InvalidateSACache
  | SaveCacheCommonEventSaExtraId OnDemandEvent "SaControlInfo list"
  | ClearSaExtraDataId int
  | RemoveWhiteCommonEvent
  | RegisterRemoteProxy int
  | StartDBinderService

end
