(* ===== verification/Samgr_State.thy ===== *)
theory Samgr_State
  imports Samgr_Types
begin

text \<open>
  The state of the running service: the tables of \<^verbatim>\<open>SystemAbilityStateScheduler\<close> and of
  \<^verbatim>\<open>BaseSystemAbilityManager\<close> with the distributed part of \<^verbatim>\<open>SystemAbilityManager\<close>, the environment of a
  call, and the primitive operations every component is written with: reading and updating the two
  tables, asking the environment, emitting an effect, and posting to one of the five queues.
\<close>

section \<open>Tables\<close>

record ProcessListener =
  pl_listener :: iface
  hasDirectSubscription :: bool
  hasForegroundSubscription :: bool

record scheduler =
  abilityContextMap :: "(int, SystemAbilityContext) smap"
  processContextMap :: "(u16string, SystemProcessContext) smap"
  unloadEventHandler :: "task ffrt_handler option option" \<comment> \<open>the handler object, and its \<^verbatim>\<open>handler_\<close>\<close>
  processHandler :: "task ffrt_handler option"
  recoverHandler :: "task ffrt_handler option"
  procListenerMap :: "(u16string, iface list) smap"
  subscribeProcCountMap :: "(int, int) smap"
  processListeners :: "ProcessListener list"
  processListenerDeath :: bool
  startEnableOnceMap :: "(int, OnDemandEvent list) smap"
  stopEnableOnceMap :: "(int, OnDemandEvent list) smap"
  runningProcessList :: "SystemProcessInfo list"
  lowMemoryProcessList :: "u16string list"
  manager :: bool \<comment> \<open>\<^verbatim>\<open>manager_.lock() != nullptr\<close>\<close>

record SAInfo =
  remoteObj :: "obj option"
  isDistributed :: bool

datatype ListenerState = INIT | NOTIFIED

record SAListener =
  sal_listener :: "iface option"
  sal_callingPid :: int
  sal_state :: ListenerState

datatype AbilityState = AS_INIT | AS_STARTING | AS_STARTED

type_synonym CallbackList = "(iface \<times> int) list"

record AbilityItem =
  ai_state :: AbilityState
  callbackMap :: "(string, CallbackList) smap"
  ai_event :: OnDemandEvent

definition new_ability_item :: AbilityItem where
  "new_ability_item = \<lparr> ai_state = AS_INIT, callbackMap = [], ai_event = mk_event 0 [] [] \<rparr>"

record StartingProcessInfo =
  st_procName :: u16string
  st_callingPid :: int
  st_callUid :: int
  st_callPname :: string
  st_calleeSaId :: int
  st_begin :: int

record sa_manager =
  abilityMap :: "(int, SAInfo) smap"
  listenerMap :: "(int, SAListener list) smap"
  subscribeCountMap :: "(int, int) smap"
  onDemandAbilityMap :: "(int, u16string) smap"
  startingAbilityMap :: "(int, AbilityItem) smap"
  systemProcessMap :: "(u16string, obj) smap"
  startingProcessMap :: "(u16string, StartingProcessInfo) smap"
  callbackCountMap :: "(int, int) smap"
  saProfileMap :: "(int, CommonSaProfile) smap"
  onDemandSaIdsSet :: "(int, unit) smap"
  remoteCallbacks :: "(string, iface list) smap"
  saFrequencyMap :: "(64 word, int) smap"
  workHandler :: "task ffrt_handler option"
  deathHandler :: "task ffrt_handler option"
  abilityStateScheduler :: bool
  collectManager :: bool
  abilityDeath :: bool
  systemProcessDeath :: bool
  abilityStatusDeath :: bool
  abilityCallbackDeath :: bool
  remoteCallbackDeath :: bool
  dBinderService :: bool
  rpcCallbackImp :: bool
  isDbinderServiceInit :: bool
  distributedSaList :: "int list"

record samgr =
  sch :: scheduler
  mgr :: sa_manager
  effects :: "effect list"
  asks :: nat
  faulted :: bool

type_synonym 'a M = "(samgr, 'a) state"

section \<open>Environment\<close>

record env =
  e_tick :: "nat \<Rightarrow> int" \<comment> \<open>\<^verbatim>\<open>GetTickCount\<close>\<close>
  e_callingPid :: int
  e_callingUid :: int
  e_getpid :: int
  e_getuid :: int
  e_str16to8 :: "u16string \<Rightarrow> string"
  e_str8to16 :: "string \<Rightarrow> u16string"
  e_cmdline :: "int \<Rightarrow> string" \<comment> \<open>process name in \<^verbatim>\<open>/proc/<pid>/cmdline\<close>\<close>
  e_iface_cast :: "obj \<Rightarrow> bool" \<comment> \<open>whether the object speaks \<^verbatim>\<open>ILocalAbilityManager\<close>\<close>
  e_stopAbility :: "nat \<Rightarrow> bool"
  e_idleAbility :: "nat \<Rightarrow> bool \<times> int" \<comment> \<open>the answer and the delay the ability asks for\<close>
  e_activeAbility :: "nat \<Rightarrow> bool"
  e_serviceControl :: "nat \<Rightarrow> int" \<comment> \<open>return value of \<^verbatim>\<open>ServiceControlWithExtra\<close>\<close>
  e_accept :: "nat \<Rightarrow> bool" \<comment> \<open>\<^verbatim>\<open>ffrt_queue_submit_h\<close> returns a handle\<close>
  e_boolParam :: "nat \<Rightarrow> bool" \<comment> \<open>\<^verbatim>\<open>system::GetBoolParameter\<close>\<close>
  e_processStarted :: "nat \<Rightarrow> bool" \<comment> \<open>\<^verbatim>\<open>SamgrUtil::CheckSystemProcessStarted\<close>, an init parameter\<close>
  e_tokenInfo :: "int \<times> string" \<comment> \<open>\<^verbatim>\<open>GetNativeTokenInfo\<close> of the caller: code and process name\<close>
  e_jsonDump :: "reason \<Rightarrow> string" \<comment> \<open>\<^verbatim>\<open>nlohmann::json::dump\<close> of an event object\<close>
  e_deathPrior :: bool \<comment> \<open>\<^verbatim>\<open>SamgrUtil::CheckSupportSetDeathPrior\<close>\<close>
  e_newStub :: "nat \<Rightarrow> iface" \<comment> \<open>\<^verbatim>\<open>new SystemAbilityLoadCallbackStub()\<close>\<close>
  e_lowMemPrepare :: "int list" \<comment> \<open>\<^verbatim>\<open>collectManager_->GetLowMemPrepareList()\<close>\<close>
  e_userId :: int \<comment> \<open>\<^verbatim>\<open>GetUserId()\<close> of the manager that runs the call, 0 for the base user\<close>
  e_foregroundUser :: bool \<comment> \<open>that user is the foreground user\<close>

section \<open>Primitive operations\<close>

definition modS :: "(scheduler \<Rightarrow> scheduler) \<Rightarrow> unit M" where
  "modS f = modify (\<lambda>s. s \<lparr> sch := f (sch s) \<rparr>)"

definition modM :: "(sa_manager \<Rightarrow> sa_manager) \<Rightarrow> unit M" where
  "modM f = modify (\<lambda>s. s \<lparr> mgr := f (mgr s) \<rparr>)"

definition getS :: "(scheduler \<Rightarrow> 'a) \<Rightarrow> 'a M" where
  "getS f = gets (\<lambda>s. f (sch s))"

definition getM :: "(sa_manager \<Rightarrow> 'a) \<Rightarrow> 'a M" where
  "getM f = gets (\<lambda>s. f (mgr s))"

definition ask :: "(nat \<Rightarrow> 'a) \<Rightarrow> 'a M" where
  "ask f = State (\<lambda>s. (f (asks s), s \<lparr> asks := Suc (asks s) \<rparr>))"

definition emit :: "effect \<Rightarrow> unit M" where
  "emit x = modify (\<lambda>s. s \<lparr> effects := effects s @ [x] \<rparr>)"

definition null_deref :: "unit M" where
  "null_deref = modify (\<lambda>s. s \<lparr> faulted := True \<rparr>)"

definition GetTickCount :: "env \<Rightarrow> int M" where
  "GetTickCount e = ask (e_tick e)"

text \<open>\<^verbatim>\<open>object->AddDeathRecipient(r)\<close> and \<^verbatim>\<open>object->RemoveDeathRecipient(r)\<close> on a possibly null object.\<close>
definition add_death :: "obj option \<Rightarrow> recipient \<Rightarrow> unit M" where
  "add_death ob r = (case ob of None \<Rightarrow> null_deref | Some x \<Rightarrow> emit (AddDeathRecipient x r))"

definition remove_death :: "obj option \<Rightarrow> recipient \<Rightarrow> unit M" where
  "remove_death ob r = (case ob of None \<Rightarrow> null_deref | Some x \<Rightarrow> emit (RemoveDeathRecipient x r))"

subsection \<open>The five queues\<close>

datatype queue_id = WorkHandler | DeathHandler | ProcessHandler | RecoverHandler | UnloadHandler

definition get_queue :: "queue_id \<Rightarrow> samgr \<Rightarrow> task ffrt_handler option" where
  "get_queue q s = (case q of
       WorkHandler \<Rightarrow> workHandler (mgr s)
     | DeathHandler \<Rightarrow> deathHandler (mgr s)
     | ProcessHandler \<Rightarrow> processHandler (sch s)
     | RecoverHandler \<Rightarrow> recoverHandler (sch s)
     | UnloadHandler \<Rightarrow> (case unloadEventHandler (sch s) of None \<Rightarrow> None | Some h \<Rightarrow> h))"

definition put_queue :: "queue_id \<Rightarrow> task ffrt_handler \<Rightarrow> samgr \<Rightarrow> samgr" where
  "put_queue q h s = (case q of
       WorkHandler \<Rightarrow> s \<lparr> mgr := (mgr s) \<lparr> workHandler := Some h \<rparr> \<rparr>
     | DeathHandler \<Rightarrow> s \<lparr> mgr := (mgr s) \<lparr> deathHandler := Some h \<rparr> \<rparr>
     | ProcessHandler \<Rightarrow> s \<lparr> sch := (sch s) \<lparr> processHandler := Some h \<rparr> \<rparr>
     | RecoverHandler \<Rightarrow> s \<lparr> sch := (sch s) \<lparr> recoverHandler := Some h \<rparr> \<rparr>
     | UnloadHandler \<Rightarrow> s \<lparr> sch := (sch s) \<lparr> unloadEventHandler := Some (Some h) \<rparr> \<rparr>)"

text \<open>Run an operation of the queue's handler; on a null handler this is a null dereference.\<close>
definition on_queue :: "queue_id \<Rightarrow> 'a \<Rightarrow> (task ffrt_handler \<Rightarrow> 'a \<times> task ffrt_handler) \<Rightarrow> 'a M" where
  "on_queue q d f = State (\<lambda>s. case get_queue q s of
       None \<Rightarrow> (d, s \<lparr> faulted := True \<rparr>)
     | Some h \<Rightarrow> (fst (f h), put_queue q (snd (f h)) s))"

definition post :: "env \<Rightarrow> queue_id \<Rightarrow> task \<Rightarrow> bool M" where
  "post e q t = do { acc \<leftarrow> ask (e_accept e); on_queue q False (PostTask acc (Some t)) }"

definition post_named :: "env \<Rightarrow> queue_id \<Rightarrow> task \<Rightarrow> string \<Rightarrow> int \<Rightarrow> bool M" where
  "post_named e q t name delay = do {
     acc \<leftarrow> ask (e_accept e);
     on_queue q False (PostNamedTask acc (Some t) name (to_uint64 delay)) }"

definition remove_task :: "queue_id \<Rightarrow> string \<Rightarrow> unit M" where
  "remove_task q name = on_queue q () (\<lambda>h. ((), RemoveTask name h))"

definition del_task :: "queue_id \<Rightarrow> string \<Rightarrow> unit M" where
  "del_task q name = on_queue q () (\<lambda>h. ((), DelTask name h))"

definition has_inner_event :: "queue_id \<Rightarrow> string \<Rightarrow> bool M" where
  "has_inner_event q name = on_queue q False (\<lambda>h. (HasInnerEvent name h, h))"

section \<open>Contexts by name\<close>

text \<open>
  The contexts a pointer of the sources refers to. A pointer is only ever obtained from its table, so
  the default for a missing entry is never read by the code modelled here.
\<close>
definition actx :: "int \<Rightarrow> scheduler \<Rightarrow> SystemAbilityContext" where
  "actx a c = sm_get new_ability_context a (abilityContextMap c)"

definition pctx :: "u16string \<Rightarrow> scheduler \<Rightarrow> SystemProcessContext" where
  "pctx p c = sm_get new_process_context p (processContextMap c)"

definition own :: "int \<Rightarrow> scheduler \<Rightarrow> u16string" where
  "own a c = (case ownProcessContext (actx a c) of None \<Rightarrow> [] | Some p \<Rightarrow> p)"

definition modA :: "int \<Rightarrow> (SystemAbilityContext \<Rightarrow> SystemAbilityContext) \<Rightarrow> unit M" where
  "modA a f = modS (\<lambda>c. c \<lparr> abilityContextMap := sm_upd a f (abilityContextMap c) \<rparr>)"

definition modP :: "u16string \<Rightarrow> (SystemProcessContext \<Rightarrow> SystemProcessContext) \<Rightarrow> unit M" where
  "modP p f = modS (\<lambda>c. c \<lparr> processContextMap := sm_upd p f (processContextMap c) \<rparr>)"

lemmas prim_defs = modS_def modM_def getS_def getM_def ask_def emit_def null_deref_def GetTickCount_def
  modA_def modP_def add_death_def remove_death_def

section \<open>Frame rules of the primitives\<close>

lemma frames_getS [frame_intros]: "frames f (getS g)"
  by (simp add: getS_def frames_gets)

lemma frames_getM [frame_intros]: "frames f (getM g)"
  by (simp add: getM_def frames_gets)

lemma frames_ask: "(\<And>s n. f (s \<lparr> asks := n \<rparr>) = f s) \<Longrightarrow> frames f (ask g)"
  by (simp add: frames_def ask_def exec_def)

lemma frames_emit: "(\<And>s x. f (s \<lparr> effects := x \<rparr>) = f s) \<Longrightarrow> frames f (emit x)"
  by (simp add: emit_def frames_modify)

lemma frames_null_deref: "(\<And>s x. f (s \<lparr> faulted := x \<rparr>) = f s) \<Longrightarrow> frames f null_deref"
  by (simp add: null_deref_def frames_modify)

lemma frames_modM: "(\<And>s. f (s \<lparr> mgr := g (mgr s) \<rparr>) = f s) \<Longrightarrow> frames f (modM g)"
  by (simp add: modM_def frames_modify)

lemma frames_modS: "(\<And>s. f (s \<lparr> sch := g (sch s) \<rparr>) = f s) \<Longrightarrow> frames f (modS g)"
  by (simp add: modS_def frames_modify)

lemma exec_on_queue [run_simps]:
  "exec (on_queue q d f) s = (case get_queue q s of
     None \<Rightarrow> s \<lparr> faulted := True \<rparr> | Some h \<Rightarrow> put_queue q (snd (f h)) s)"
  by (simp add: exec_def on_queue_def split: option.splits)

lemma eval_on_queue [run_simps]:
  "eval_st (on_queue q d f) s = (case get_queue q s of None \<Rightarrow> d | Some h \<Rightarrow> fst (f h))"
  by (simp add: eval_st_def on_queue_def split: option.splits)

lemma exec_ask [run_simps]: "exec (ask f) s = s \<lparr> asks := Suc (asks s) \<rparr>"
  by (simp add: ask_def exec_def)

lemma eval_ask [run_simps]: "eval_st (ask f) s = f (asks s)"
  by (simp add: ask_def eval_st_def)

lemma frames_on_queue:
  "(\<And>s x. f (s \<lparr> faulted := x \<rparr>) = f s) \<Longrightarrow> (\<And>s h. f (put_queue q h s) = f s) \<Longrightarrow> frames f (on_queue q d g)"
  by (auto simp: frames_def run_simps split: option.splits)

end
