(* ===== verification/State_Machine.thy ===== *)
theory State_Machine
  imports Samgr_State
begin

text \<open>
  \<^verbatim>\<open>schedule/system_ability_state_machine.cpp\<close>: the state handlers of abilities and processes, the two
  transition functions and the per-process count of abilities in each state; and the invariant
  that ties these counts to the states of the abilities.

  The machine tells a \<^verbatim>\<open>SystemAbilityStateListener\<close> about every state it enters. The listener is an
  argument here (\<open>None\<close>: the weak pointer has expired); the scheduler provides it.
\<close>

section \<open>The listener and the state handlers\<close>

record ability_listener =
  OnAbilityNotLoaded :: "int \<Rightarrow> unit M"
  OnAbilityLoading :: "int \<Rightarrow> unit M"
  OnAbilityLoaded :: "int \<Rightarrow> unit M"
  OnAbilityUnloadable :: "int \<Rightarrow> unit M"
  OnAbilityUnloading :: "int \<Rightarrow> unit M"

record process_listener =
  OnProcessNotStarted :: "u16string \<Rightarrow> unit M"
  OnProcessStarted :: "u16string \<Rightarrow> unit M"
  OnProcessStopping :: "u16string \<Rightarrow> unit M"

record SystemAbilityStateHandler =
  sa_CanEnter :: "SystemAbilityState \<Rightarrow> bool"
  sa_OnEnter :: "int \<Rightarrow> unit M"

record SystemProcessStateHandler =
  proc_CanEnter :: "SystemProcessState \<Rightarrow> bool"
  proc_OnEnter :: "u16string \<Rightarrow> unit M"

definition tell :: "'l option \<Rightarrow> ('l \<Rightarrow> 'a \<Rightarrow> unit M) \<Rightarrow> 'a \<Rightarrow> unit M" where
  "tell L f x = (case L of None \<Rightarrow> ret () | Some l \<Rightarrow> f l x)"

definition NotLoadedStateHandler :: "ability_listener option \<Rightarrow> SystemAbilityStateHandler" where
  "NotLoadedStateHandler L = \<lparr> sa_CanEnter = (\<lambda>fromState. fromState \<noteq> NOT_LOADED),
     sa_OnEnter = tell L OnAbilityNotLoaded \<rparr>"

definition LoadingStateHandler :: "ability_listener option \<Rightarrow> SystemAbilityStateHandler" where
  "LoadingStateHandler L = \<lparr> sa_CanEnter = (\<lambda>fromState. fromState = NOT_LOADED),
     sa_OnEnter = tell L OnAbilityLoading \<rparr>"

definition LoadedStateHandler :: "ability_listener option \<Rightarrow> SystemAbilityStateHandler" where
  "LoadedStateHandler L = \<lparr>
     sa_CanEnter = (\<lambda>fromState. fromState = NOT_LOADED \<or> fromState = LOADING \<or> fromState = UNLOADABLE),
     sa_OnEnter = (\<lambda>a. do {
       modA a (\<lambda>A. A \<lparr> lastIdleTime := -1 \<rparr>);
       tell L OnAbilityLoaded a }) \<rparr>"

definition UnloadableStateHandler :: "env \<Rightarrow> ability_listener option \<Rightarrow> SystemAbilityStateHandler" where
  "UnloadableStateHandler e L = \<lparr> sa_CanEnter = (\<lambda>fromState. fromState = LOADED),
     sa_OnEnter = (\<lambda>a. do {
       now \<leftarrow> GetTickCount e;
       modA a (\<lambda>A. A \<lparr> lastIdleTime := now \<rparr>);
       tell L OnAbilityUnloadable a }) \<rparr>"

definition UnloadingStateHandler :: "ability_listener option \<Rightarrow> SystemAbilityStateHandler" where
  "UnloadingStateHandler L = \<lparr> sa_CanEnter = (\<lambda>fromState. fromState = UNLOADABLE),
     sa_OnEnter = tell L OnAbilityUnloading \<rparr>"

definition NotStartedStateHandler :: "env \<Rightarrow> process_listener option \<Rightarrow> SystemProcessStateHandler" where
  "NotStartedStateHandler e L = \<lparr> proc_CanEnter = (\<lambda>fromState. fromState \<noteq> NOT_STARTED),
     proc_OnEnter = (\<lambda>p. case L of
         None \<Rightarrow> ret ()
       | Some l \<Rightarrow> do {
           now \<leftarrow> GetTickCount e;
           modP p (\<lambda>P. P \<lparr> lastStopTime := now \<rparr>);
           modP p (\<lambda>P. P \<lparr> pendingLoadFirstTimestamp := 0 \<rparr>);
           OnProcessNotStarted l p }) \<rparr>"

definition StartedStateHandler :: "process_listener option \<Rightarrow> SystemProcessStateHandler" where
  "StartedStateHandler L = \<lparr> proc_CanEnter = (\<lambda>fromState. fromState = NOT_STARTED),
     proc_OnEnter = tell L OnProcessStarted \<rparr>"

definition StoppingStateHandler :: "process_listener option \<Rightarrow> SystemProcessStateHandler" where
  "StoppingStateHandler L = \<lparr> proc_CanEnter = (\<lambda>fromState. fromState = STARTED),
     proc_OnEnter = tell L OnProcessStopping \<rparr>"

definition abilityStateHandlerMap ::
  "env \<Rightarrow> ability_listener option \<Rightarrow> SystemAbilityState \<Rightarrow> SystemAbilityStateHandler option" where
  "abilityStateHandlerMap e L st = (case st of
       NOT_LOADED \<Rightarrow> Some (NotLoadedStateHandler L)
     | LOADING \<Rightarrow> Some (LoadingStateHandler L)
     | LOADED \<Rightarrow> Some (LoadedStateHandler L)
     | UNLOADABLE \<Rightarrow> Some (UnloadableStateHandler e L)
     | UNLOADING \<Rightarrow> Some (UnloadingStateHandler L))"

definition processStateHandlerMap ::
  "env \<Rightarrow> process_listener option \<Rightarrow> SystemProcessState \<Rightarrow> SystemProcessStateHandler option" where
  "processStateHandlerMap e L st = (case st of
       NOT_STARTED \<Rightarrow> Some (NotStartedStateHandler e L)
     | STARTED \<Rightarrow> Some (StartedStateHandler L)
     | STOPPING \<Rightarrow> Some (StoppingStateHandler L))"

section \<open>Transitions\<close>

definition UpdateStateCount :: "u16string option \<Rightarrow> SystemAbilityState \<Rightarrow> SystemAbilityState \<Rightarrow> bool M" where
  "UpdateStateCount context fromState toState = (case context of
       None \<Rightarrow> ret False
     | Some p \<Rightarrow> do {
         counts \<leftarrow> getS (\<lambda>c. abilityStateCountMap (pctx p c));
         if \<not> sm_count fromState counts \<or> \<not> sm_count toState counts then ret False
         else if sm_get 0 fromState counts \<le> 0 then ret False
         else do {
           modP p (\<lambda>P. P \<lparr> abilityStateCountMap := sm_upd fromState (\<lambda>n. n - 1) (abilityStateCountMap P) \<rparr>);
           modP p (\<lambda>P. P \<lparr> abilityStateCountMap := sm_upd toState (\<lambda>n. n + 1) (abilityStateCountMap P) \<rparr>);
           ret True } })"

definition AbilityStateTransitionLocked ::
  "env \<Rightarrow> ability_listener option \<Rightarrow> int option \<Rightarrow> SystemAbilityState \<Rightarrow> SamgrErrCode M" where
  "AbilityStateTransitionLocked e L context nextState = (case context of
       None \<Rightarrow> ret SA_CONTEXT_NULL
     | Some a \<Rightarrow> (case abilityStateHandlerMap e L nextState of
         None \<Rightarrow> ret INVALID_SA_NEXT_STATE
       | Some handler \<Rightarrow> do {
           currentState \<leftarrow> getS (\<lambda>c. sa_state (actx a c));
           if currentState = nextState then ret ERR_OK
           else if \<not> sa_CanEnter handler currentState then ret TRANSIT_SA_STATE_FAIL
           else do {
             ownProcess \<leftarrow> getS (\<lambda>c. ownProcessContext (actx a c));
             updated \<leftarrow> UpdateStateCount ownProcess currentState nextState;
             if \<not> updated then ret UPDATE_STATE_COUNT_FAIL
             else do {
               modA a (\<lambda>A. A \<lparr> sa_state := nextState \<rparr>);
               sa_OnEnter handler a;
               ret ERR_OK } } }))"

definition ProcessStateTransitionLocked ::
  "env \<Rightarrow> process_listener option \<Rightarrow> u16string option \<Rightarrow> SystemProcessState \<Rightarrow> SamgrErrCode M" where
  "ProcessStateTransitionLocked e L context nextState = (case context of
       None \<Rightarrow> ret PROC_CONTEXT_NULL
     | Some p \<Rightarrow> (case processStateHandlerMap e L nextState of
         None \<Rightarrow> ret INVALID_PROC_NEXT_STATE
       | Some handler \<Rightarrow> do {
           currentState \<leftarrow> getS (\<lambda>c. proc_state (pctx p c));
           if currentState = nextState then ret ERR_OK
           else if \<not> proc_CanEnter handler currentState then ret TRANSIT_PROC_STATE_FAIL
           else do {
             modP p (\<lambda>P. P \<lparr> proc_state := nextState \<rparr>);
             proc_OnEnter handler p;
             ret ERR_OK } }))"

section \<open>The transition tables\<close>

text \<open>Which state may follow which, as the specification of the machine: the edges the handlers admit.\<close>
fun sa_edge :: "SystemAbilityState \<Rightarrow> SystemAbilityState \<Rightarrow> bool" where
  "sa_edge NOT_LOADED LOADING = True"
| "sa_edge NOT_LOADED LOADED = True"
| "sa_edge LOADING LOADED = True"
| "sa_edge LOADING NOT_LOADED = True"
| "sa_edge LOADED UNLOADABLE = True"
| "sa_edge LOADED NOT_LOADED = True"
| "sa_edge UNLOADABLE LOADED = True"
| "sa_edge UNLOADABLE UNLOADING = True"
| "sa_edge UNLOADABLE NOT_LOADED = True"
| "sa_edge UNLOADING NOT_LOADED = True"
| "sa_edge _ _ = False"

fun proc_edge :: "SystemProcessState \<Rightarrow> SystemProcessState \<Rightarrow> bool" where
  "proc_edge NOT_STARTED STARTED = True"
| "proc_edge STARTED STOPPING = True"
| "proc_edge STARTED NOT_STARTED = True"
| "proc_edge STOPPING NOT_STARTED = True"
| "proc_edge _ _ = False"

lemmas sa_handler_defs = NotLoadedStateHandler_def LoadingStateHandler_def LoadedStateHandler_def
  UnloadableStateHandler_def UnloadingStateHandler_def

lemmas proc_handler_defs = NotStartedStateHandler_def StartedStateHandler_def StoppingStateHandler_def

lemma ability_handler_total:
  obtains h where "abilityStateHandlerMap e L st = Some h" "\<And>f. sa_CanEnter h f \<longleftrightarrow> sa_edge f st"
proof -
  have "sa_CanEnter (NotLoadedStateHandler L) f \<longleftrightarrow> sa_edge f NOT_LOADED"
    "sa_CanEnter (LoadingStateHandler L) f \<longleftrightarrow> sa_edge f LOADING"
    "sa_CanEnter (LoadedStateHandler L) f \<longleftrightarrow> sa_edge f LOADED"
    "sa_CanEnter (UnloadableStateHandler e L) f \<longleftrightarrow> sa_edge f UNLOADABLE"
    "sa_CanEnter (UnloadingStateHandler L) f \<longleftrightarrow> sa_edge f UNLOADING" for f
    by (cases f; simp add: sa_handler_defs)+
  with that show ?thesis by (cases st) (simp_all add: abilityStateHandlerMap_def)
qed

lemma process_handler_total:
  obtains h where "processStateHandlerMap e L st = Some h" "\<And>f. proc_CanEnter h f \<longleftrightarrow> proc_edge f st"
proof -
  have "proc_CanEnter (NotStartedStateHandler e L) f \<longleftrightarrow> proc_edge f NOT_STARTED"
    "proc_CanEnter (StartedStateHandler L) f \<longleftrightarrow> proc_edge f STARTED"
    "proc_CanEnter (StoppingStateHandler L) f \<longleftrightarrow> proc_edge f STOPPING" for f
    by (cases f; simp add: proc_handler_defs)+
  with that show ?thesis by (cases st) (simp_all add: processStateHandlerMap_def)
qed

end
