(* ===== verification/Scheduler_Inv.thy ===== *)
theory Scheduler_Inv
  imports State_Machine
begin

text \<open>
  The invariant of the scheduler's tables and its preservation by the primitive updates and by the
  state machine.

  \<^item> \<open>counts_ok\<close>: for every process context, each counter of \<^verbatim>\<open>abilityStateCountMap\<close> is the number of
    abilities of \<^verbatim>\<open>saList\<close> in that state, and the two context tables refer to each other.
  \<^item> \<open>bounds_ok\<close>: the numeric limits of the contexts: the delay of an unload, the restart window and
    the number of pending load requests per caller.

  The lemma on \<open>AbilityStateTransitionLocked\<close> is proved once in a locale that states what the machine
  expects of its listener; the scheduler interprets it.
\<close>

section \<open>Limits of \<^verbatim>\<open>system_ability_state_scheduler.cpp\<close>\<close>

definition RESTART_TIME_INTERVAL_LIMIT :: int where "RESTART_TIME_INTERVAL_LIMIT = 20 * 1000"
definition RESTART_TIMES_LIMIT :: nat where "RESTART_TIMES_LIMIT = 4"
definition MAX_SUBSCRIBE_COUNT :: int where "MAX_SUBSCRIBE_COUNT = 256"
definition MAX_PENDING_LOAD_COUNT :: int where "MAX_PENDING_LOAD_COUNT = 50"
definition PENDING_LOAD_TIMEOUT_MS :: int where "PENDING_LOAD_TIMEOUT_MS = 60 * 1000"
definition UNLOAD_TIMEOUT_TIME :: int where "UNLOAD_TIMEOUT_TIME = 5 * 1000"
definition MAX_DELAY_TIME :: int where "MAX_DELAY_TIME = 5 * 60 * 1000"
definition MAX_DURATION :: int where "MAX_DURATION = 10 * 60 * 1000"
definition ONCE_DELAY_TIME :: int where "ONCE_DELAY_TIME = 10 * 1000"
definition TWO_MINUTES_MS :: int where "TWO_MINUTES_MS = 120 * 1000"

definition SAMGR_PROCESS_NAME :: u16string where "SAMGR_PROCESS_NAME = u16 ''samgr''"

section \<open>The invariant\<close>

definition in_state :: "scheduler \<Rightarrow> SystemAbilityState \<Rightarrow> int list \<Rightarrow> nat" where
  "in_state c st as = length (filter (\<lambda>a. sa_state (actx a c) = st) as)"

definition process_ok :: "scheduler \<Rightarrow> u16string \<Rightarrow> SystemProcessContext \<Rightarrow> bool" where
  "process_ok c p P \<longleftrightarrow>
     processName P = p \<and> distinct (saList P) \<and> length (saList P) < 2 ^ 32
   \<and> (\<forall>st. \<exists>n. sm_find st (abilityStateCountMap P) = Some n \<and> unat n = in_state c st (saList P))
   \<and> (\<forall>a \<in> set (saList P). \<exists>A. sm_find a (abilityContextMap c) = Some A \<and> ownProcessContext A = Some p)"

definition ability_linked :: "scheduler \<Rightarrow> int \<Rightarrow> SystemAbilityContext \<Rightarrow> bool" where
  "ability_linked c a A \<longleftrightarrow> systemAbilityId A = a \<and>
     (\<exists>p P. ownProcessContext A = Some p \<and> sm_find p (processContextMap c) = Some P \<and> a \<in> set (saList P))"

text \<open>
  The context that \<^verbatim>\<open>InitSamgrProcessContext\<close> builds for the service's own process does not satisfy
  \<open>process_ok\<close> (it counts one loaded ability, but ability 0 is not in that state); it is left out.
\<close>
definition counts_ok :: "scheduler \<Rightarrow> bool" where
  "counts_ok c \<longleftrightarrow>
     (\<forall>p P. sm_find p (processContextMap c) = Some P \<longrightarrow> p \<noteq> SAMGR_PROCESS_NAME \<longrightarrow> process_ok c p P)
   \<and> (\<forall>a A. sm_find a (abilityContextMap c) = Some A \<longrightarrow> ability_linked c a A)"

definition ability_bounds :: "SystemAbilityContext \<Rightarrow> bool" where
  "ability_bounds A \<longleftrightarrow> 0 \<le> delayUnloadTime A \<and> delayUnloadTime A \<le> MAX_DELAY_TIME
     \<and> (\<forall>q n. sm_find q (pendingLoadEventCountMap A) = Some n \<longrightarrow> n \<le> MAX_PENDING_LOAD_COUNT)"

definition process_bounds :: "SystemProcessContext \<Rightarrow> bool" where
  "process_bounds P \<longleftrightarrow> length (restartCountsCtrl P) \<le> RESTART_TIMES_LIMIT"

definition bounds_ok :: "scheduler \<Rightarrow> bool" where
  "bounds_ok c \<longleftrightarrow>
     (\<forall>a A. sm_find a (abilityContextMap c) = Some A \<longrightarrow> ability_bounds A)
   \<and> (\<forall>p P. sm_find p (processContextMap c) = Some P \<longrightarrow> process_bounds P)"

definition sched_inv :: "scheduler \<Rightarrow> bool" where
  "sched_inv c \<longleftrightarrow> counts_ok c \<and> bounds_ok c"

abbreviation SI :: "samgr \<Rightarrow> bool" where
  "SI s \<equiv> sched_inv (sch s)"

named_theorems si_intros \<open>preservation of the scheduler invariant, operation by operation\<close>

section \<open>Primitive updates\<close>

lemma actx_upd: "actx a (c \<lparr> abilityContextMap := sm_upd b f (abilityContextMap c) \<rparr>) =
  (if a = b \<and> sm_count a (abilityContextMap c) then f (actx a c) else actx a c)"
  by (auto simp: actx_def sm_get_def sm_count_def split: option.splits)

lemma actx_find: "sm_count a (abilityContextMap c) \<Longrightarrow> sm_find a (abilityContextMap c) = Some (actx a c)"
  by (auto simp: actx_def sm_get_def sm_count_def)

lemma pctx_find: "sm_count p (processContextMap c) \<Longrightarrow> sm_find p (processContextMap c) = Some (pctx p c)"
  by (auto simp: pctx_def sm_get_def sm_count_def)

lemma in_state_cong:
  "(\<And>a. a \<in> set as \<Longrightarrow> sa_state (actx a c) = sa_state (actx a c')) \<Longrightarrow> in_state c st as = in_state c' st as"
  by (simp add: in_state_def cong: filter_cong)

lemma counts_ok_upd_ability:
  assumes ok: "counts_ok c"
    and keep: "\<And>A. ownProcessContext (f A) = ownProcessContext A \<and> sa_state (f A) = sa_state A
      \<and> systemAbilityId (f A) = systemAbilityId A"
  shows "counts_ok (c \<lparr> abilityContextMap := sm_upd a f (abilityContextMap c) \<rparr>)"
proof -
  let ?c = "c \<lparr> abilityContextMap := sm_upd a f (abilityContextMap c) \<rparr>"
  have st: "sa_state (actx b ?c) = sa_state (actx b c)" for b
    by (simp add: actx_upd keep)
  then have cnt: "in_state ?c st as = in_state c st as" for st as
    by (intro in_state_cong)
  have pm: "processContextMap ?c = processContextMap c" by simp
  have look: "sm_find b (abilityContextMap ?c) = map_option (if b = a then f else id) (sm_find b (abilityContextMap c))" for b
    by (simp add: option.map_id)
  have "process_ok ?c p P" if "process_ok c p P" for p P
  proof -
    have "\<exists>A. sm_find b (abilityContextMap ?c) = Some A \<and> ownProcessContext A = Some p" if "b \<in> set (saList P)" for b
    proof -
      from that \<open>process_ok c p P\<close> obtain A where "sm_find b (abilityContextMap c) = Some A" "ownProcessContext A = Some p"
        by (auto simp: process_ok_def)
      then show ?thesis unfolding look by (simp add: keep)
    qed
    with that show ?thesis unfolding process_ok_def cnt by blast
  qed
  moreover have "ability_linked ?c b B" if B: "sm_find b (abilityContextMap ?c) = Some B" for b B
  proof -
    from B look obtain A where A: "sm_find b (abilityContextMap c) = Some A" "B = (if b = a then f else id) A"
      by auto
    with ok have "ability_linked c b A" by (simp add: counts_ok_def)
    with A(2) keep show ?thesis by (auto simp: ability_linked_def)
  qed
  ultimately show ?thesis
    using ok unfolding counts_ok_def pm by blast
qed

lemma counts_ok_upd_process:
  assumes ok: "counts_ok c"
    and keep: "\<And>P. processName (f P) = processName P \<and> saList (f P) = saList P
      \<and> abilityStateCountMap (f P) = abilityStateCountMap P"
  shows "counts_ok (c \<lparr> processContextMap := sm_upd p f (processContextMap c) \<rparr>)"
proof -
  let ?c = "c \<lparr> processContextMap := sm_upd p f (processContextMap c) \<rparr>"
  have cnt: "in_state ?c st as = in_state c st as" for st as
    by (intro in_state_cong) (simp add: actx_def)
  have am: "abilityContextMap ?c = abilityContextMap c" by simp
  have look: "sm_find q (processContextMap ?c) = map_option (if q = p then f else id) (sm_find q (processContextMap c))" for q
    by (simp add: option.map_id)
  have "process_ok ?c q Q" if Q: "sm_find q (processContextMap ?c) = Some Q" and q: "q \<noteq> SAMGR_PROCESS_NAME" for q Q
  proof -
    from Q look obtain P where P: "sm_find q (processContextMap c) = Some P" "Q = (if q = p then f else id) P"
      by auto
    with ok q have "process_ok c q P" by (simp add: counts_ok_def)
    with P(2) keep show ?thesis by (auto simp: process_ok_def cnt)
  qed
  moreover have "ability_linked ?c b B" if "ability_linked c b B" for b B
  proof -
    from that obtain r P where "ownProcessContext B = Some r" "sm_find r (processContextMap c) = Some P"
      "b \<in> set (saList P)" "systemAbilityId B = b"
      by (auto simp: ability_linked_def)
    then show ?thesis unfolding ability_linked_def look by (simp add: keep)
  qed
  ultimately show ?thesis
    using ok unfolding counts_ok_def am by blast
qed

lemma sched_inv_cong:
  "abilityContextMap c' = abilityContextMap c \<Longrightarrow> processContextMap c' = processContextMap c \<Longrightarrow>
   sched_inv c' = sched_inv c"
  by (simp add: sched_inv_def counts_ok_def bounds_ok_def process_ok_def ability_linked_def in_state_def actx_def)

lemma SI_modA:
  assumes "\<And>A. ownProcessContext (f A) = ownProcessContext A \<and> sa_state (f A) = sa_state A
      \<and> systemAbilityId (f A) = systemAbilityId A"
    and "\<And>A. ability_bounds A \<Longrightarrow> ability_bounds (f A)"
  shows "preserves SI (modA a f)"
  using assms
  by (auto simp: modA_def modS_def hoare_def run_simps sched_inv_def counts_ok_upd_ability bounds_ok_def
      split: if_splits)

lemma SI_modP:
  assumes "\<And>P. processName (f P) = processName P \<and> saList (f P) = saList P
      \<and> abilityStateCountMap (f P) = abilityStateCountMap P"
    and "\<And>P. process_bounds P \<Longrightarrow> process_bounds (f P)"
  shows "preserves SI (modP p f)"
  using assms
  by (auto simp: modP_def modS_def hoare_def run_simps sched_inv_def counts_ok_upd_process bounds_ok_def
      split: if_splits)

lemma SI_modS:
  assumes "\<And>c. abilityContextMap (f c) = abilityContextMap c \<and> processContextMap (f c) = processContextMap c"
  shows "preserves SI (modS f)"
proof (rule hoareI)
  fix s assume "SI s"
  then show "SI (exec (modS f) s)"
    using assms sched_inv_cong [of "f (sch s)" "sch s"] by (simp add: modS_def run_simps)
qed

lemma SI_frames: "frames sch m \<Longrightarrow> preserves SI m"
  by (simp add: hoare_def frames_def)

lemma SI_modM [si_intros]: "preserves SI (modM f)"
  by (simp add: modM_def hoare_def run_simps)

lemma SI_emit [si_intros]: "preserves SI (emit x)"
  by (simp add: emit_def hoare_def run_simps)

lemma SI_ask [si_intros]: "preserves SI (ask f)"
  by (simp add: hoare_def run_simps)

lemma SI_null_deref [si_intros]: "preserves SI null_deref"
  by (simp add: null_deref_def hoare_def run_simps)

lemma SI_getS [si_intros]: "preserves SI (getS f)"
  by (simp add: getS_def preserves_gets)

lemma SI_getM [si_intros]: "preserves SI (getM f)"
  by (simp add: getM_def preserves_gets)

lemma sched_inv_put_queue [simp]: "sched_inv (sch (put_queue q h s)) = sched_inv (sch s)"
  by (cases q) (auto simp: put_queue_def intro!: sched_inv_cong)

lemma SI_on_queue [si_intros]: "preserves SI (on_queue q d f)"
  by (auto simp: hoare_def run_simps split: option.splits)

lemma SI_GetTickCount [si_intros]: "preserves SI (GetTickCount e)"
  by (simp add: GetTickCount_def SI_ask)

lemma SI_add_death [si_intros]: "preserves SI (add_death ob r)"
  by (simp add: add_death_def SI_emit SI_null_deref split: option.splits)

lemma SI_remove_death [si_intros]: "preserves SI (remove_death ob r)"
  by (simp add: remove_death_def SI_emit SI_null_deref split: option.splits)

lemma SI_post [si_intros]: "preserves SI (post e q t)"
  by (simp add: post_def preserves_bind SI_ask SI_on_queue)

lemma SI_post_named [si_intros]: "preserves SI (post_named e q t n d)"
  by (simp add: post_named_def preserves_bind SI_ask SI_on_queue)

lemma SI_remove_task [si_intros]: "preserves SI (remove_task q n)"
  by (simp add: remove_task_def SI_on_queue)

lemma SI_del_task [si_intros]: "preserves SI (del_task q n)"
  by (simp add: del_task_def SI_on_queue)

lemma SI_has_inner_event [si_intros]: "preserves SI (has_inner_event q n)"
  by (simp add: has_inner_event_def SI_on_queue)

section \<open>A state transition keeps the invariant\<close>

lemma in_state_Cons: "in_state c u (b # as) = (if sa_state (actx b c) = u then 1 else 0) + in_state c u as"
  by (simp add: in_state_def)

lemma in_state_move:
  assumes st: "\<And>b. sa_state (actx b c') = (if b = a then t else sa_state (actx b c))"
    and f: "sa_state (actx a c) = f" and "f \<noteq> t" and "distinct as"
  shows "in_state c' u as + (if u = f \<and> a \<in> set as then 1 else 0) = in_state c u as + (if u = t \<and> a \<in> set as then 1 else 0)"
  using \<open>distinct as\<close>
proof (induction as)
  case (Cons b as)
  then show ?case using st f \<open>f \<noteq> t\<close> by (cases "b = a") (auto simp: in_state_Cons split: if_splits)
qed (simp add: in_state_def)

lemma unat_dec: "unat (n :: 32 word) > 0 \<Longrightarrow> unat (n - 1) = unat n - 1"
  by (metis gr_implies_not0 unat_gt_0 unat_minus_one)

lemma unat_inc: "unat (n :: 32 word) + 1 < 2 ^ 32 \<Longrightarrow> unat (n + 1) = unat n + 1"
  by (simp add: unat_word_ariths unsigned_1)

lemma in_state_le: "in_state c u as \<le> length as"
  by (simp add: in_state_def)

lemma counts_ok_move:
  assumes ok: "counts_ok c" and A: "sm_find a (abilityContextMap c) = Some A"
    and own: "ownProcessContext A = Some p" and f: "sa_state A = f" and ft: "f \<noteq> t"
    and P: "sm_find p (processContextMap c) = Some P"
    and la: "\<And>b. sm_find b (abilityContextMap c') = (if b = a then Some (A \<lparr> sa_state := t \<rparr>) else sm_find b (abilityContextMap c))"
    and lp: "\<And>q. sm_find q (processContextMap c') =
      (if q = p then Some (P \<lparr> abilityStateCountMap :=
         sm_upd t (\<lambda>n. n + 1) (sm_upd f (\<lambda>n. n - 1) (abilityStateCountMap P)) \<rparr>) else sm_find q (processContextMap c))"
  shows "counts_ok c'"
proof -
  have st: "sa_state (actx b c') = (if b = a then t else sa_state (actx b c))" for b
    by (simp add: actx_def sm_get_def la)
  have fa: "sa_state (actx a c) = f"
    by (simp add: actx_def sm_get_def A f)
  have okP: "process_ok c p P" if "p \<noteq> SAMGR_PROCESS_NAME"
    using ok P that by (simp add: counts_ok_def)
  have "ability_linked c a A"
    using ok A by (simp add: counts_ok_def)
  then have aP: "a \<in> set (saList P)" using own P by (auto simp: ability_linked_def)
  have ownership: "\<exists>B. sm_find b (abilityContextMap c') = Some B \<and> ownProcessContext B = Some q"
    if "process_ok c q Q" "b \<in> set (saList Q)" for q Q b
    using that A own by (auto simp: process_ok_def la)
  have "process_ok c' q Q" if Q: "sm_find q (processContextMap c') = Some Q" and q: "q \<noteq> SAMGR_PROCESS_NAME" for q Q
  proof (cases "q = p")
    case False
    with Q q have okQ: "process_ok c q Q" using ok by (simp add: lp counts_ok_def)
    with False A own have "a \<notin> set (saList Q)" by (auto simp: process_ok_def)
    then have "in_state c' u (saList Q) = in_state c u (saList Q)" for u
      using in_state_move [OF st fa ft, of "saList Q" u] okQ by (simp add: process_ok_def)
    with okQ ownership [OF okQ] show ?thesis by (simp add: process_ok_def)
  next
    case True
    with q have okP: "process_ok c p P" by (simp add: okP)
    let ?k = "sm_upd t (\<lambda>n. n + 1) (sm_upd f (\<lambda>n. n - 1) (abilityStateCountMap P))"
    have mv: "in_state c' u (saList P) + (if u = f then 1 else 0) = in_state c u (saList P) + (if u = t then 1 else 0)" for u
      using in_state_move [OF st fa ft, of "saList P" u] okP aP by (simp add: process_ok_def)
    have "\<exists>n. sm_find u ?k = Some n \<and> unat n = in_state c' u (saList P)" for u
    proof -
      from okP obtain n where n: "sm_find u (abilityStateCountMap P) = Some n" "unat n = in_state c u (saList P)"
        by (auto simp: process_ok_def)
      have "in_state c' u (saList P) < 2 ^ 32"
        using in_state_le [of c' u "saList P"] okP by (auto simp: process_ok_def)
      then have "unat (n + 1) = in_state c' u (saList P)" if "u = t"
        using that n mv [of u] ft unat_inc [of n] by simp
      moreover have "unat (n - 1) = in_state c' u (saList P)" if "u = f"
        using that n mv [of u] ft unat_dec [of n] by simp
      moreover have "unat n = in_state c' u (saList P)" if "u \<noteq> f" "u \<noteq> t"
        using that n mv [of u] by simp
      ultimately show ?thesis using n ft by auto
    qed
    with True Q okP ownership [OF okP] show ?thesis
      by (auto simp: process_ok_def lp)
  qed
  moreover have "ability_linked c' b B" if B: "sm_find b (abilityContextMap c') = Some B" for b B
  proof -
    obtain B' where B': "sm_find b (abilityContextMap c) = Some B'" "ownProcessContext B = ownProcessContext B'"
      "systemAbilityId B = systemAbilityId B'"
      using B A by (auto simp: la split: if_splits)
    then have "ability_linked c b B'" using ok by (simp add: counts_ok_def)
    then obtain q Q where "ownProcessContext B' = Some q" "sm_find q (processContextMap c) = Some Q" "b \<in> set (saList Q)"
      "systemAbilityId B' = b"
      by (auto simp: ability_linked_def)
    with B'(2,3) P show ?thesis by (cases "q = p") (auto simp: ability_linked_def lp)
  qed
  ultimately show ?thesis by (simp add: counts_ok_def)
qed

lemma SI_lookup:
  assumes "SI s" and "sm_find a (abilityContextMap (sch s)) = Some A"
  obtains p P where "ownProcessContext A = Some p" "sm_find p (processContextMap (sch s)) = Some P"
    "p \<noteq> SAMGR_PROCESS_NAME \<longrightarrow> process_ok (sch s) p P" "a \<in> set (saList P)" "systemAbilityId A = a"
  using assms unfolding sched_inv_def counts_ok_def ability_linked_def by metis

lemma exec_UpdateStateCount:
  assumes "eval_st (UpdateStateCount (Some p) f t) s"
  shows "exec (UpdateStateCount (Some p) f t) s = s \<lparr> sch := (sch s) \<lparr> processContextMap :=
       sm_upd p (\<lambda>P. P \<lparr> abilityStateCountMap := sm_upd t (\<lambda>n. n + 1) (abilityStateCountMap P) \<rparr>)
        (sm_upd p (\<lambda>P. P \<lparr> abilityStateCountMap := sm_upd f (\<lambda>n. n - 1) (abilityStateCountMap P) \<rparr>)
          (processContextMap (sch s))) \<rparr> \<rparr>"
  using assms by (auto simp: UpdateStateCount_def run_simps getS_def modP_def modS_def split: if_splits)

text \<open>Under the invariant the counters never refuse a change of state: the counter of the old state is positive.\<close>
lemma UpdateStateCount_success:
  assumes SI: "SI s" and A: "sm_find a (abilityContextMap (sch s)) = Some A"
    and own: "ownProcessContext A = Some p" and p: "p \<noteq> SAMGR_PROCESS_NAME"
  shows "eval_st (UpdateStateCount (Some p) (sa_state A) t) s = True"
proof -
  obtain q P where "ownProcessContext A = Some q" and "sm_find q (processContextMap (sch s)) = Some P"
    "q \<noteq> SAMGR_PROCESS_NAME \<longrightarrow> process_ok (sch s) q P" and aP: "a \<in> set (saList P)"
    by (rule SI_lookup [OF SI A])
  then have okP: "process_ok (sch s) p P" and P: "sm_find p (processContextMap (sch s)) = Some P"
    using own p by simp_all
  have "sa_state (actx a (sch s)) = sa_state A" by (simp add: actx_def sm_get_def A)
  then have pos: "in_state (sch s) (sa_state A) (saList P) > 0"
    using aP by (auto simp: in_state_def filter_empty_conv)
  obtain n m where n: "sm_find (sa_state A) (abilityStateCountMap P) = Some n" "unat n = in_state (sch s) (sa_state A) (saList P)"
    and m: "sm_find t (abilityStateCountMap P) = Some m"
    using okP unfolding process_ok_def by metis
  with pos have "n \<noteq> 0" by (metis unat_0 less_irrefl)
  then have guard: "\<not> n \<le> 0" by simp
  have c: "abilityStateCountMap (pctx p (sch s)) = abilityStateCountMap P"
    by (simp add: pctx_def sm_get_def P)
  show ?thesis
    using n m guard c by (simp add: UpdateStateCount_def run_simps getS_def sm_count_def sm_get_def)
qed

lemma SI_move:
  assumes SI: "SI s" and A: "sm_find a (abilityContextMap (sch s)) = Some A"
    and own: "ownProcessContext A = Some p" and ft: "sa_state A \<noteq> t"
    and upd: "eval_st (UpdateStateCount (Some p) (sa_state A) t) s"
  shows "SI (exec (modA a (\<lambda>A. A \<lparr> sa_state := t \<rparr>)) (exec (UpdateStateCount (Some p) (sa_state A) t) s))"
proof -
  obtain P where P: "sm_find p (processContextMap (sch s)) = Some P"
    by (rule SI_lookup [OF SI A]) (use own in simp)
  let ?c = "sch (exec (modA a (\<lambda>A. A \<lparr> sa_state := t \<rparr>)) (exec (UpdateStateCount (Some p) (sa_state A) t) s))"
  have la: "sm_find b (abilityContextMap ?c) = (if b = a then Some (A \<lparr> sa_state := t \<rparr>) else sm_find b (abilityContextMap (sch s)))" for b
    unfolding exec_UpdateStateCount [OF upd] by (simp add: modA_def modS_def run_simps A)
  have lp: "sm_find q (processContextMap ?c) =
      (if q = p then Some (P \<lparr> abilityStateCountMap :=
         sm_upd t (\<lambda>n. n + 1) (sm_upd (sa_state A) (\<lambda>n. n - 1) (abilityStateCountMap P)) \<rparr>)
       else sm_find q (processContextMap (sch s)))" for q
    unfolding exec_UpdateStateCount [OF upd] by (simp add: modA_def modS_def run_simps P)
  have "counts_ok ?c"
    using SI counts_ok_move [OF _ A own refl ft P la lp] by (simp add: sched_inv_def)
  moreover have "bounds_ok ?c"
    using SI A P unfolding sched_inv_def bounds_ok_def la lp ability_bounds_def process_bounds_def
    by (auto split: if_splits)
  ultimately show ?thesis by (simp add: sched_inv_def)
qed

section \<open>What the machine expects of its listeners\<close>

locale ability_listener_contract =
  fixes L :: "ability_listener option" and Inv :: "samgr \<Rightarrow> bool"
  assumes told: "\<And>l a. L = Some l \<Longrightarrow> preserves Inv (OnAbilityNotLoaded l a)"
    "\<And>l a. L = Some l \<Longrightarrow> preserves Inv (OnAbilityLoading l a)"
    "\<And>l a. L = Some l \<Longrightarrow> preserves Inv (OnAbilityLoaded l a)"
    "\<And>l a. L = Some l \<Longrightarrow> preserves Inv (OnAbilityUnloadable l a)"
    "\<And>l a. L = Some l \<Longrightarrow> preserves Inv (OnAbilityUnloading l a)"
    and idle_stamp: "\<And>a t. preserves Inv (modA a (\<lambda>A. A \<lparr> lastIdleTime := t \<rparr>))"
    and clock: "\<And>e. preserves Inv (GetTickCount e)"
    and move: "\<And>s a A p t. Inv s \<Longrightarrow> sm_find a (abilityContextMap (sch s)) = Some A \<Longrightarrow>
      ownProcessContext A = Some p \<Longrightarrow> sa_edge (sa_state A) t \<Longrightarrow>
      eval_st (UpdateStateCount (Some p) (sa_state A) t) s \<Longrightarrow>
      Inv (exec (modA a (\<lambda>A. A \<lparr> sa_state := t \<rparr>)) (exec (UpdateStateCount (Some p) (sa_state A) t) s))"
    and refused: "\<And>s p f t. Inv s \<Longrightarrow> \<not> eval_st (UpdateStateCount p f t) s \<Longrightarrow> Inv (exec (UpdateStateCount p f t) s)"
begin

lemma entered: "abilityStateHandlerMap e L st = Some h \<Longrightarrow> preserves Inv (sa_OnEnter h a)"
  unfolding abilityStateHandlerMap_def sa_handler_defs tell_def
  by (cases st) (auto intro!: preserves_bind preserves_return told idle_stamp clock split: option.splits)

lemma transition: "preserves Inv (AbilityStateTransitionLocked e L (Some a) t)"
proof (rule hoareI)
  fix s assume Inv: "Inv s"
  obtain h where h: "abilityStateHandlerMap e L t = Some h" "\<And>f. sa_CanEnter h f \<longleftrightarrow> sa_edge f t"
    by (rule ability_handler_total) blast
  let ?A = "actx a (sch s)"
  show "Inv (exec (AbilityStateTransitionLocked e L (Some a) t) s)"
  proof (cases "sa_state ?A = t \<or> \<not> sa_edge (sa_state ?A) t \<or> \<not> eval_st (UpdateStateCount (ownProcessContext ?A) (sa_state ?A) t) s")
    case True
    then show ?thesis
      using Inv h refused by (auto simp: AbilityStateTransitionLocked_def run_simps getS_def)
  next
    case False
    then obtain p where p: "ownProcessContext ?A = Some p"
      by (cases "ownProcessContext ?A") (auto simp: UpdateStateCount_def run_simps)
    then have "sm_find a (abilityContextMap (sch s)) = Some ?A"
      by (auto simp: actx_def sm_get_def new_ability_context_def split: option.splits)
    from move [OF Inv this p, of t] False entered [OF h(1), of a] h p show ?thesis
      by (simp add: AbilityStateTransitionLocked_def run_simps getS_def hoare_def)
  qed
qed

end

lemma UpdateStateCount_refused: "\<not> eval_st (UpdateStateCount p f t) s \<Longrightarrow> exec (UpdateStateCount p f t) s = s"
  by (auto simp: UpdateStateCount_def run_simps getS_def split: option.splits if_splits)

lemma SI_idle_stamp: "preserves SI (modA a (\<lambda>A. A \<lparr> lastIdleTime := t \<rparr>))"
  by (rule SI_modA) (simp_all add: ability_bounds_def)

text \<open>The contract's side conditions on the invariant of the scheduler; a listener only owes its five callbacks.\<close>
lemma SI_contract:
  assumes "\<And>l a. L = Some l \<Longrightarrow> preserves SI (OnAbilityNotLoaded l a)"
    "\<And>l a. L = Some l \<Longrightarrow> preserves SI (OnAbilityLoading l a)"
    "\<And>l a. L = Some l \<Longrightarrow> preserves SI (OnAbilityLoaded l a)"
    "\<And>l a. L = Some l \<Longrightarrow> preserves SI (OnAbilityUnloadable l a)"
    "\<And>l a. L = Some l \<Longrightarrow> preserves SI (OnAbilityUnloading l a)"
  shows "ability_listener_contract L SI"
proof
  fix s a A p t
  assume "SI s" "sm_find a (abilityContextMap (sch s)) = Some A" "ownProcessContext A = Some p" "sa_edge (sa_state A) t"
    "eval_st (UpdateStateCount (Some p) (sa_state A) t) s"
  moreover from this(4) have "sa_state A \<noteq> t" by (cases t) auto
  ultimately show "SI (exec (modA a (\<lambda>A. A \<lparr> sa_state := t \<rparr>)) (exec (UpdateStateCount (Some p) (sa_state A) t) s))"
    by (simp add: SI_move)
qed (auto simp: assms SI_idle_stamp SI_GetTickCount UpdateStateCount_refused)

end
