(* ===== verification/Event_Handler.thy ===== *)
theory Event_Handler
  imports Scheduler_Inv
begin

text \<open>
  \<^verbatim>\<open>schedule/system_ability_event_handler.cpp\<close>: what a report about an ability (loaded, load failed,
  unloaded) or about a process (started, stopped) does to its context, by the state it is in.
\<close>

section \<open>Ability events\<close>

definition HandleAbilityLoadFailedEventLocked :: "env \<Rightarrow> ability_listener option \<Rightarrow> int \<Rightarrow> SamgrErrCode M" where
  "HandleAbilityLoadFailedEventLocked e L a = do {
     A \<leftarrow> getS (actx a);
     case sa_state A of
       LOADING \<Rightarrow> do {
         onlyif (pendingEvent A = UNLOAD_ABILITY_EVENT) (modA a (\<lambda>A. A \<lparr> pendingEvent := NO_EVENT \<rparr>));
         AbilityStateTransitionLocked e L (Some a) NOT_LOADED }
     | _ \<Rightarrow> ret ERR_INVALID_VALUE }"

definition HandleAbilityLoadSuccessEventLocked :: "env \<Rightarrow> ability_listener option \<Rightarrow> int \<Rightarrow> SamgrErrCode M" where
  "HandleAbilityLoadSuccessEventLocked e L a = do {
     A \<leftarrow> getS (actx a);
     case sa_state A of
       NOT_LOADED \<Rightarrow> AbilityStateTransitionLocked e L (Some a) LOADED
     | LOADING \<Rightarrow> AbilityStateTransitionLocked e L (Some a) LOADED
     | _ \<Rightarrow> ret ERR_INVALID_VALUE }"

definition HandleAbilityUnLoadSuccessEventLocked :: "env \<Rightarrow> ability_listener option \<Rightarrow> int \<Rightarrow> SamgrErrCode M" where
  "HandleAbilityUnLoadSuccessEventLocked e L a = do {
     A \<leftarrow> getS (actx a);
     case sa_state A of
       LOADING \<Rightarrow> do {
         onlyif (pendingEvent A = UNLOAD_ABILITY_EVENT) (modA a (\<lambda>A. A \<lparr> pendingEvent := NO_EVENT \<rparr>));
         AbilityStateTransitionLocked e L (Some a) NOT_LOADED }
     | LOADED \<Rightarrow> AbilityStateTransitionLocked e L (Some a) NOT_LOADED
     | UNLOADABLE \<Rightarrow> AbilityStateTransitionLocked e L (Some a) NOT_LOADED
     | UNLOADING \<Rightarrow> AbilityStateTransitionLocked e L (Some a) NOT_LOADED
     | _ \<Rightarrow> ret ERR_INVALID_VALUE }"

definition HandleAbilityEventLocked ::
  "env \<Rightarrow> ability_listener option \<Rightarrow> int option \<Rightarrow> AbilityStateEvent \<Rightarrow> SamgrErrCode M" where
  "HandleAbilityEventLocked e L context event = (case context of
       None \<Rightarrow> ret ERR_INVALID_VALUE
     | Some a \<Rightarrow> (case event of
         ABILITY_LOAD_FAILED_EVENT \<Rightarrow> HandleAbilityLoadFailedEventLocked e L a
       | ABILITY_LOAD_SUCCESS_EVENT \<Rightarrow> HandleAbilityLoadSuccessEventLocked e L a
       | ABILITY_UNLOAD_SUCCESS_EVENT \<Rightarrow> HandleAbilityUnLoadSuccessEventLocked e L a))"

section \<open>Process events\<close>

definition HandleProcessStartedEventLocked ::
  "env \<Rightarrow> process_listener option \<Rightarrow> u16string \<Rightarrow> ProcessInfo \<Rightarrow> SamgrErrCode M" where
  "HandleProcessStartedEventLocked e L p processInfo = do {
     modP p (\<lambda>P. P \<lparr> pid := pi_pid processInfo \<rparr>);
     modP p (\<lambda>P. P \<lparr> uid := pi_uid processInfo \<rparr>);
     st \<leftarrow> getS (\<lambda>c. proc_state (pctx p c));
     case st of
       NOT_STARTED \<Rightarrow> ProcessStateTransitionLocked e L (Some p) STARTED
     | _ \<Rightarrow> ret ERR_INVALID_VALUE }"

definition HandleProcessStoppedEventLocked ::
  "env \<Rightarrow> process_listener option \<Rightarrow> u16string \<Rightarrow> ProcessInfo \<Rightarrow> SamgrErrCode M" where
  "HandleProcessStoppedEventLocked e L p processInfo = do {
     st \<leftarrow> getS (\<lambda>c. proc_state (pctx p c));
     case st of
       STARTED \<Rightarrow> ProcessStateTransitionLocked e L (Some p) NOT_STARTED
     | STOPPING \<Rightarrow> ProcessStateTransitionLocked e L (Some p) NOT_STARTED
     | _ \<Rightarrow> ret ERR_INVALID_VALUE }"

definition HandleProcessEventLocked ::
  "env \<Rightarrow> process_listener option \<Rightarrow> u16string option \<Rightarrow> ProcessInfo \<Rightarrow> ProcessStateEvent \<Rightarrow> SamgrErrCode M" where
  "HandleProcessEventLocked e L context processInfo event = (case context of
       None \<Rightarrow> ret ERR_INVALID_VALUE
     | Some p \<Rightarrow> (case event of
         PROCESS_STARTED_EVENT \<Rightarrow> HandleProcessStartedEventLocked e L p processInfo
       | PROCESS_STOPPED_EVENT \<Rightarrow> HandleProcessStoppedEventLocked e L p processInfo))"

section \<open>Preservation of the invariant\<close>

lemma preserves_case_sa_state [hoare_intros]:
  "(x = NOT_LOADED \<Longrightarrow> preserves P a) \<Longrightarrow> (x = LOADING \<Longrightarrow> preserves P b) \<Longrightarrow> (x = LOADED \<Longrightarrow> preserves P c) \<Longrightarrow>
   (x = UNLOADABLE \<Longrightarrow> preserves P d) \<Longrightarrow> (x = UNLOADING \<Longrightarrow> preserves P f) \<Longrightarrow>
   preserves P (case x of NOT_LOADED \<Rightarrow> a | LOADING \<Rightarrow> b | LOADED \<Rightarrow> c | UNLOADABLE \<Rightarrow> d | UNLOADING \<Rightarrow> f)"
  by (cases x) auto

lemma preserves_case_proc_state [hoare_intros]:
  "(x = NOT_STARTED \<Longrightarrow> preserves P a) \<Longrightarrow> (x = STARTED \<Longrightarrow> preserves P b) \<Longrightarrow> (x = STOPPING \<Longrightarrow> preserves P c) \<Longrightarrow>
   preserves P (case x of NOT_STARTED \<Rightarrow> a | STARTED \<Rightarrow> b | STOPPING \<Rightarrow> c)"
  by (cases x) auto

lemma SI_pendingEvent [si_intros]: "preserves SI (modA a (\<lambda>A. A \<lparr> pendingEvent := x \<rparr>))"
  by (rule SI_modA) (simp_all add: ability_bounds_def)

lemma SI_pid [si_intros]: "preserves SI (modP p (\<lambda>P. P \<lparr> pid := x \<rparr>))"
  by (rule SI_modP) (simp_all add: process_bounds_def)

lemma SI_uid [si_intros]: "preserves SI (modP p (\<lambda>P. P \<lparr> uid := x \<rparr>))"
  by (rule SI_modP) (simp_all add: process_bounds_def)

lemma SI_proc_state [si_intros]: "preserves SI (modP p (\<lambda>P. P \<lparr> proc_state := x \<rparr>))"
  by (rule SI_modP) (simp_all add: process_bounds_def)

lemma SI_lastStopTime [si_intros]: "preserves SI (modP p (\<lambda>P. P \<lparr> lastStopTime := x \<rparr>))"
  by (rule SI_modP) (simp_all add: process_bounds_def)

lemma SI_pendingLoadFirstTimestamp [si_intros]: "preserves SI (modP p (\<lambda>P. P \<lparr> pendingLoadFirstTimestamp := x \<rparr>))"
  by (rule SI_modP) (simp_all add: process_bounds_def)

text \<open>What the process half of the machine expects of its listener.\<close>
locale process_listener_contract =
  fixes L :: "process_listener option" and Inv :: "samgr \<Rightarrow> bool"
  assumes told: "\<And>l p. L = Some l \<Longrightarrow> preserves Inv (OnProcessNotStarted l p)"
    "\<And>l p. L = Some l \<Longrightarrow> preserves Inv (OnProcessStarted l p)"
    "\<And>l p. L = Some l \<Longrightarrow> preserves Inv (OnProcessStopping l p)"
    and stop_stamp: "\<And>p t. preserves Inv (modP p (\<lambda>P. P \<lparr> lastStopTime := t \<rparr>))"
    and pend_stamp: "\<And>p t. preserves Inv (modP p (\<lambda>P. P \<lparr> pendingLoadFirstTimestamp := t \<rparr>))"
    and state_set: "\<And>p t. preserves Inv (modP p (\<lambda>P. P \<lparr> proc_state := t \<rparr>))"
    and pid_set: "\<And>p t. preserves Inv (modP p (\<lambda>P. P \<lparr> pid := t \<rparr>))"
    and uid_set: "\<And>p t. preserves Inv (modP p (\<lambda>P. P \<lparr> uid := t \<rparr>))"
    and clock: "\<And>e. preserves Inv (GetTickCount e)"
begin

lemma entered: "processStateHandlerMap e L st = Some h \<Longrightarrow> preserves Inv (proc_OnEnter h p)"
  unfolding processStateHandlerMap_def proc_handler_defs tell_def
  by (cases st)
    (auto intro!: preserves_bind preserves_return told stop_stamp pend_stamp clock split: option.splits)

lemma transition: "preserves Inv (ProcessStateTransitionLocked e L (Some p) t)"
proof -
  obtain h where h: "processStateHandlerMap e L t = Some h"
    by (rule process_handler_total)
  show ?thesis
    unfolding ProcessStateTransitionLocked_def getS_def
    by (simp add: h) (intro hoare_intros state_set entered [OF h])
qed

lemma process_event: "preserves Inv (HandleProcessEventLocked e L (Some p) i ev)"
  unfolding HandleProcessEventLocked_def HandleProcessStartedEventLocked_def HandleProcessStoppedEventLocked_def getS_def
  by (cases ev) (simp_all, (intro hoare_intros transition pid_set uid_set)+)

end

lemma process_SI_contract:
  assumes "\<And>l p. L = Some l \<Longrightarrow> preserves SI (OnProcessNotStarted l p)"
    "\<And>l p. L = Some l \<Longrightarrow> preserves SI (OnProcessStarted l p)"
    "\<And>l p. L = Some l \<Longrightarrow> preserves SI (OnProcessStopping l p)"
  shows "process_listener_contract L SI"
  by unfold_locales
    (simp_all add: assms SI_lastStopTime SI_pendingLoadFirstTimestamp SI_proc_state SI_pid SI_uid SI_GetTickCount)


context ability_listener_contract
begin

lemma ability_event:
  assumes "\<And>a x. preserves Inv (modA a (\<lambda>A. A \<lparr> pendingEvent := x \<rparr>))"
  shows "preserves Inv (HandleAbilityEventLocked e L (Some a) ev)"
  unfolding HandleAbilityEventLocked_def HandleAbilityLoadFailedEventLocked_def
    HandleAbilityLoadSuccessEventLocked_def HandleAbilityUnLoadSuccessEventLocked_def getS_def
  by (cases ev) (simp_all, (intro hoare_intros transition assms)+)

end

end
