(* ===== verification/Tools.thy ===== *)
theory Tools
  imports Samgr_Types "HOL-Library.Sublist"
begin

text \<open>
  The string helpers of \<^verbatim>\<open>utils/native/source/tools.cpp\<close>. The loop of \<open>DeleteAllMark\<close> erases the first occurrence of a mark until there is none;
  with an empty mark it would not end, so the function is partial: \<open>None\<close> is a call that does not return.
\<close>

text \<open>\<^verbatim>\<open>std::u16string::find\<close>.\<close>
fun find_mark :: "'a list \<Rightarrow> 'a list \<Rightarrow> nat option" where
  "find_mark mark [] = (if mark = [] then Some 0 else None)"
| "find_mark mark (c # cs) = (if take (length mark) (c # cs) = mark then Some 0 else map_option Suc (find_mark mark cs))"

partial_function (option) DeleteAllMark :: "'a list \<Rightarrow> 'a list \<Rightarrow> 'a list option" where
  "DeleteAllMark s mark = (case find_mark mark s of
       None \<Rightarrow> Some s
     | Some pos \<Rightarrow> DeleteAllMark (take pos s @ drop (pos + length mark) s) mark)"

text \<open>The second to fourth marks are two characters each, a slash and a letter.\<close>
definition DeleteBlank :: "u16string \<Rightarrow> u16string option" where
  "DeleteBlank str = Option.bind (DeleteAllMark str (u16 '' '')) (\<lambda>res. Option.bind (DeleteAllMark res (u16 ''/t'')) (\<lambda>res.
     Option.bind (DeleteAllMark res (u16 ''/n'')) (\<lambda>res. DeleteAllMark res (u16 ''/r''))))"

definition NON_ANONYMIZE_LENGTH :: nat where "NON_ANONYMIZE_LENGTH = 6"

definition AnonymizeDeviceId :: "string \<Rightarrow> string" where
  "AnonymizeDeviceId d = (if length d < NON_ANONYMIZE_LENGTH then [] else take NON_ANONYMIZE_LENGTH d @ ''******'')"

lemma find_mark_Some: "find_mark mark s = Some pos \<Longrightarrow> take (length mark) (drop pos s) = mark \<and> pos \<le> length s"
  by (induction mark s arbitrary: pos rule: find_mark.induct) (auto split: if_splits)

lemma find_mark_None: "find_mark mark s = None \<Longrightarrow> \<not> sublist mark s"
  by (induction mark s rule: find_mark.induct) (auto simp: sublist_Cons_right prefix_def split: if_splits)

text \<open>
  The loop ends for every mark that is not empty. What is left of the string does not contain the mark, and is the string with some
  characters of the mark taken out.
\<close>
lemma DeleteAllMark_ends:
  assumes "mark \<noteq> []"
  shows "\<exists>r. DeleteAllMark s mark = Some r \<and> \<not> sublist mark r \<and> subseq r s \<and> filter (\<lambda>c. c \<notin> set mark) r = filter (\<lambda>c. c \<notin> set mark) s"
proof (induction s rule: length_induct)
  case (1 s)
  show ?case
  proof (cases "find_mark mark s")
    case None
    then show ?thesis using find_mark_None by (subst DeleteAllMark.simps) auto
  next
    case (Some pos)
    let ?s = "take pos s @ drop (pos + length mark) s"
    have at: "take (length mark) (drop pos s) = mark" using find_mark_Some [OF Some] by blast
    then have "length mark \<le> length s - pos" by (metis length_drop length_take min.cobounded1)
    moreover have "0 < length mark" using assms by simp
    ultimately have "length ?s < length s" unfolding length_append length_take length_drop by linarith
    with 1 obtain r where r: "DeleteAllMark ?s mark = Some r" "\<not> sublist mark r" "subseq r ?s"
      "filter (\<lambda>c. c \<notin> set mark) r = filter (\<lambda>c. c \<notin> set mark) ?s" by blast
    have split: "s = take pos s @ mark @ drop (pos + length mark) s"
      using at by (metis append_take_drop_id drop_drop add.commute)
    have "subseq (take pos s @ drop (pos + length mark) s) (take pos s @ mark @ drop (pos + length mark) s)"
      by (intro list_emb_append_mono list_emb_append2) simp_all
    with split have "subseq ?s s" by metis
    moreover have "filter (\<lambda>c. c \<notin> set mark) ?s = filter (\<lambda>c. c \<notin> set mark) (take pos s @ mark @ drop (pos + length mark) s)" by simp
    then have "filter (\<lambda>c. c \<notin> set mark) ?s = filter (\<lambda>c. c \<notin> set mark) s" using split by metis
    ultimately show ?thesis using r Some by (subst DeleteAllMark.simps) (auto intro: subseq_order.trans)
  qed
qed

lemma DeleteBlank_unmarked: "set s \<inter> set (u16 '' /'') = {} \<Longrightarrow> DeleteBlank s = Some s"
proof -
  assume s: "set s \<inter> set (u16 '' /'') = {}"
  have "DeleteAllMark s (u16 m) = Some s" if "m \<noteq> []" "hd m = CHR '' '' \<or> hd m = CHR ''/''" for m
  proof -
    have "find_mark (u16 m) s = None"
    proof (rule ccontr)
      assume "find_mark (u16 m) s \<noteq> None"
      then obtain pos where "take (length (u16 m)) (drop pos s) = u16 m" using find_mark_Some by blast
      then have "set (u16 m) \<subseteq> set s" by (metis in_set_dropD in_set_takeD subsetI)
      then show False using that s by (cases m) (auto simp: u16_def)
    qed
    then show ?thesis by (subst DeleteAllMark.simps) simp
  qed
  then show ?thesis by (simp add: DeleteBlank_def)
qed

lemma delete_mark:
  assumes "m \<noteq> []" "set (u16 m) \<subseteq> K"
  obtains r where "DeleteAllMark s (u16 m) = Some r" "\<not> sublist (u16 m) r" "subseq r s" "filter (\<lambda>c. c \<notin> K) r = filter (\<lambda>c. c \<notin> K) s"
proof -
  obtain r where r: "DeleteAllMark s (u16 m) = Some r" "\<not> sublist (u16 m) r" "subseq r s"
    "filter (\<lambda>c. c \<notin> set (u16 m)) r = filter (\<lambda>c. c \<notin> set (u16 m)) s"
    using DeleteAllMark_ends [of "u16 m" s] assms(1) by (auto simp: u16_def)
  have "filter (\<lambda>c. c \<notin> K) xs = filter (\<lambda>c. c \<notin> K) (filter (\<lambda>c. c \<notin> set (u16 m)) xs)" for xs
    using assms(2) by (induction xs) auto
  with r show ?thesis using that by metis
qed

text \<open>\<open>DeleteBlank\<close> ends on every string. The result is the string with some characters taken out, holds no blank and no slash followed by
  an \<^verbatim>\<open>r\<close>, and keeps every character but blanks, slashes and the letters \<^verbatim>\<open>t\<close>, \<^verbatim>\<open>n\<close> and \<^verbatim>\<open>r\<close>: tabs, line feeds and carriage returns stay.\<close>
theorem delete_blank_ends:
  "\<exists>r. DeleteBlank s = Some r \<and> subseq r s \<and> \<not> sublist (u16 '' '') r \<and> \<not> sublist (u16 ''/r'') r \<and>
    filter (\<lambda>c. c \<notin> set (u16 '' /tnr'')) r = filter (\<lambda>c. c \<notin> set (u16 '' /tnr'')) s"
proof -
  have marks: "set (u16 '' '') \<subseteq> set (u16 '' /tnr'')" "set (u16 ''/t'') \<subseteq> set (u16 '' /tnr'')" "set (u16 ''/n'') \<subseteq> set (u16 '' /tnr'')"
    "set (u16 ''/r'') \<subseteq> set (u16 '' /tnr'')" by (auto simp: u16_def)
  obtain a where a: "DeleteAllMark s (u16 '' '') = Some a" "\<not> sublist (u16 '' '') a" "subseq a s"
    "filter (\<lambda>c. c \<notin> set (u16 '' /tnr'')) a = filter (\<lambda>c. c \<notin> set (u16 '' /tnr'')) s" using delete_mark [OF _ marks(1)] by (metis list.distinct(1))
  obtain b where b: "DeleteAllMark a (u16 ''/t'') = Some b" "subseq b a"
    "filter (\<lambda>c. c \<notin> set (u16 '' /tnr'')) b = filter (\<lambda>c. c \<notin> set (u16 '' /tnr'')) a" using delete_mark [OF _ marks(2)] by (metis list.distinct(1))
  obtain c where c: "DeleteAllMark b (u16 ''/n'') = Some c" "subseq c b"
    "filter (\<lambda>x. x \<notin> set (u16 '' /tnr'')) c = filter (\<lambda>x. x \<notin> set (u16 '' /tnr'')) b" using delete_mark [OF _ marks(3)] by (metis list.distinct(1))
  obtain d where d: "DeleteAllMark c (u16 ''/r'') = Some d" "\<not> sublist (u16 ''/r'') d" "subseq d c"
    "filter (\<lambda>x. x \<notin> set (u16 '' /tnr'')) d = filter (\<lambda>x. x \<notin> set (u16 '' /tnr'')) c" using delete_mark [OF _ marks(4)] by (metis list.distinct(1))
  have "subseq d a" using b(2) c(2) d(3) by (blast intro: subseq_order.trans)
  moreover have "\<not> sublist (u16 '' '') d"
  proof
    assume "sublist (u16 '' '') d"
    then have "subseq (u16 '' '') a" using \<open>subseq d a\<close> by (blast intro: sublist_imp_subseq subseq_order.trans)
    then have "hd (u16 '' '') \<in> set a" by (auto simp: u16_def subseq_singleton_left)
    then show False using a(2) by (auto simp: u16_def sublist_def in_set_conv_decomp)
  qed
  ultimately show ?thesis using a b c d by (auto simp: DeleteBlank_def intro: subseq_order.trans)
qed

end
