(* ===== verification/Manager_Core.thy ===== *)
theory Manager_Core
  imports Samgr_State Tools
begin

unbundle bit_operations_syntax

text \<open>
  The part of \<^verbatim>\<open>base_system_ability_manager.cpp\<close> the scheduler calls into: looking up abilities, profiles
  and processes, starting and stopping abilities on demand, starting processes, the load callbacks,
  and the idle and active requests to a peer; with the helpers of \<^verbatim>\<open>system_ability_manager_util.cpp\<close> they
  use. Nothing here changes the tables of the scheduler, which the frame lemmas at the end state.
\<close>

section \<open>Constants\<close>

definition LOCAL_DEVICE :: string where "LOCAL_DEVICE = ''local''"
definition MAX_SERVICES :: int where "MAX_SERVICES = 1000"
definition MGR_MAX_SUBSCRIBE_COUNT :: int where "MGR_MAX_SUBSCRIBE_COUNT = 256"
definition MAX_SA_FREQUENCY_COUNT :: int where "MAX_SA_FREQUENCY_COUNT = 2147483647 - 1000000"
definition CHECK_LOADED_DELAY_TIME :: int where "CHECK_LOADED_DELAY_TIME = 4 * 1000"
definition MODULE_UPDATE_PARAM :: string where "MODULE_UPDATE_PARAM = ''persist.samgr.moduleupdate''"
definition MAX_NAME_SIZE :: int where "MAX_NAME_SIZE = 200"

section \<open>Lookups\<close>

definition CheckInputSysAbilityId :: "int \<Rightarrow> bool" where
  "CheckInputSysAbilityId sysAbilityId \<longleftrightarrow> sysAbilityId \<ge> 0 \<and> sysAbilityId \<le> 0x00ffffff"

definition IsNameInValid :: "u16string \<Rightarrow> bool" where
  "IsNameInValid name \<longleftrightarrow> name = [] \<or> int (length name) > MAX_NAME_SIZE \<or> DeleteBlank name = Some []"

definition GetSaProfile :: "int \<Rightarrow> CommonSaProfile option M" where
  "GetSaProfile said = getM (\<lambda>m. sm_find said (saProfileMap m))"

definition IsDistributedSystemAbility :: "int \<Rightarrow> bool M" where
  "IsDistributedSystemAbility said = do {
     prof \<leftarrow> GetSaProfile said;
     ret (case prof of None \<Rightarrow> False | Some q \<Rightarrow> cp_distributed q) }"

definition mgr_CheckSaIsImmediatelyRecycle :: "int \<Rightarrow> bool M" where
  "mgr_CheckSaIsImmediatelyRecycle said = do {
     prof \<leftarrow> GetSaProfile said;
     ret (case prof of None \<Rightarrow> True | Some q \<Rightarrow> cp_recycleStrategy q = IMMEDIATELY) }"

definition IsCacheCommonEvent :: "int \<Rightarrow> bool M" where
  "IsCacheCommonEvent said = do {
     prof \<leftarrow> GetSaProfile said;
     ret (case prof of None \<Rightarrow> False | Some q \<Rightarrow> cp_cacheCommonEvent q) }"

definition IsModuleUpdate :: "int \<Rightarrow> bool M" where
  "IsModuleUpdate said = do {
     prof \<leftarrow> GetSaProfile said;
     ret (case prof of None \<Rightarrow> False | Some q \<Rightarrow> cp_moduleUpdate q) }"

text \<open>\<^verbatim>\<open>SamgrUtil::GenerateFreKey\<close>: the caller's uid in the high word, the ability in the low word.\<close>
definition GenerateFreKey :: "int \<Rightarrow> int \<Rightarrow> 64 word" where
  "GenerateFreKey u said = (let uSaid = (word_of_int said :: 32 word); key = (word_of_int u :: 64 word)
     in push_bit 32 key OR ucast uSaid)"

definition UpdateSaFreMap :: "int \<Rightarrow> int \<Rightarrow> int M" where
  "UpdateSaFreMap u said = (if u < 0 then ret (-1)
     else do {
       count \<leftarrow> getM (\<lambda>m. sm_get 0 (GenerateFreKey u said) (saFrequencyMap m));
       let count' = (if count < MAX_SA_FREQUENCY_COUNT then count + 1 else count);
       modM (\<lambda>m. m \<lparr> saFrequencyMap := sm_ins (GenerateFreKey u said) count' (saFrequencyMap m) \<rparr>);
       ret count' })"

definition CheckSystemAbility :: "env \<Rightarrow> int \<Rightarrow> obj option M" where
  "CheckSystemAbility e said = (if \<not> CheckInputSysAbilityId said then ret None
     else do {
       _ \<leftarrow> UpdateSaFreMap (e_callingUid e) said;
       info \<leftarrow> getM (\<lambda>m. sm_find said (abilityMap m));
       ret (case info of None \<Rightarrow> None | Some i \<Rightarrow> remoteObj i) })"

definition GetSystemProcess :: "u16string \<Rightarrow> obj option M" where
  "GetSystemProcess procName = (if procName = [] then ret None
     else getM (\<lambda>m. sm_find procName (systemProcessMap m)))"

text \<open>\<^verbatim>\<open>iface_cast<ILocalAbilityManager>(GetSystemProcess(procName))\<close>\<close>
definition procObject :: "env \<Rightarrow> u16string \<Rightarrow> obj option M" where
  "procObject e procName = do {
     ob \<leftarrow> GetSystemProcess procName;
     ret (case ob of None \<Rightarrow> None | Some x \<Rightarrow> if e_iface_cast e x then Some x else None) }"

definition event_reason :: "OnDemandEvent \<Rightarrow> reason" where
  "event_reason ev = \<lparr> r_eventId = eventId ev, r_name = ev_name ev, r_value = ev_value ev, r_extraDataId = extraDataId ev \<rparr>"

definition EventToStr :: "env \<Rightarrow> OnDemandEvent \<Rightarrow> string" where
  "EventToStr e ev = e_jsonDump e (event_reason ev)"

definition SendUpdateSaState :: "int \<Rightarrow> string \<Rightarrow> unit M" where
  "SendUpdateSaState said updateSaState = do {
     b \<leftarrow> IsModuleUpdate said;
     onlyif b (do {
       emit (SetModuleUpdateParam (MODULE_UPDATE_PARAM @ ''.start'') ''true'');
       emit (SetModuleUpdateParam (MODULE_UPDATE_PARAM @ ''.'' @ to_string said) updateSaState) }) }"

section \<open>Starting and stopping abilities on demand\<close>

definition item :: "int \<Rightarrow> sa_manager \<Rightarrow> AbilityItem" where
  "item said m = sm_get new_ability_item said (startingAbilityMap m)"

definition modItem :: "int \<Rightarrow> (AbilityItem \<Rightarrow> AbilityItem) \<Rightarrow> unit M" where
  "modItem said f = modM (\<lambda>m. m \<lparr> startingAbilityMap := sm_upd said f (startingAbilityMap m) \<rparr>)"

definition touchItem :: "int \<Rightarrow> unit M" where
  "touchItem said = modM (\<lambda>m. m \<lparr> startingAbilityMap := sm_touch new_ability_item said (startingAbilityMap m) \<rparr>)"

definition StartOnDemandAbilityInner :: "env \<Rightarrow> u16string \<Rightarrow> int \<Rightarrow> SamgrErrCode M" where
  "StartOnDemandAbilityInner e procName said = do {
     it \<leftarrow> getM (item said);
     if ai_state it \<noteq> AS_INIT then ret ERR_INVALID_VALUE
     else do {
       po \<leftarrow> procObject e procName;
       case po of
         None \<Rightarrow> ret ERR_INVALID_VALUE
       | Some x \<Rightarrow> do {
           emit (StartAbility x said (EventToStr e (ai_event it)));
           modItem said (\<lambda>i. i \<lparr> ai_state := AS_STARTING \<rparr>);
           ret ERR_OK } } }"

text \<open>\<^verbatim>\<open>StartOnDemandAbilityLocked(procName, id)\<close>\<close>
definition StartOnDemandAbilityLockedProc :: "env \<Rightarrow> u16string \<Rightarrow> int \<Rightarrow> unit M" where
  "StartOnDemandAbilityLockedProc e procName said = do {
     it \<leftarrow> getM (\<lambda>m. sm_find said (startingAbilityMap m));
     case it of
       None \<Rightarrow> ret ()
     | Some _ \<Rightarrow> do { _ \<leftarrow> StartOnDemandAbilityInner e procName said; ret () } }"

text \<open>\<^verbatim>\<open>StartOnDemandAbilityLocked(id, isExist)\<close>: the code and the new \<^verbatim>\<open>isExist\<close>.\<close>
definition StartOnDemandAbilityLocked :: "env \<Rightarrow> int \<Rightarrow> (SamgrErrCode \<times> bool) M" where
  "StartOnDemandAbilityLocked e said = do {
     pn \<leftarrow> getM (\<lambda>m. sm_find said (onDemandAbilityMap m));
     case pn of
       None \<Rightarrow> ret (ERR_INVALID_VALUE, False)
     | Some procName \<Rightarrow> do {
         touchItem said;
         r \<leftarrow> StartOnDemandAbilityInner e procName said;
         ret (r, True) } }"

definition StartOnDemandAbility :: "env \<Rightarrow> int \<Rightarrow> (SamgrErrCode \<times> bool) M" where
  "StartOnDemandAbility e said = StartOnDemandAbilityLocked e said"

definition StartOnDemandAbilityProc :: "env \<Rightarrow> u16string \<Rightarrow> int \<Rightarrow> unit M" where
  "StartOnDemandAbilityProc e name said = StartOnDemandAbilityLockedProc e name said"

definition StopOnDemandAbilityInner :: "env \<Rightarrow> u16string \<Rightarrow> int \<Rightarrow> OnDemandEvent \<Rightarrow> bool M" where
  "StopOnDemandAbilityInner e procName said event = do {
     po \<leftarrow> procObject e procName;
     case po of
       None \<Rightarrow> ret False
     | Some x \<Rightarrow> do {
         emit (StopAbility x said (EventToStr e event));
         ask (e_stopAbility e) } }"

definition StopOnDemandAbility :: "env \<Rightarrow> u16string \<Rightarrow> int \<Rightarrow> OnDemandEvent \<Rightarrow> bool M" where
  "StopOnDemandAbility e name said event = StopOnDemandAbilityInner e name said event"

definition DoLoadOnDemandAbility :: "env \<Rightarrow> int \<Rightarrow> (bool \<times> bool) M" where
  "DoLoadOnDemandAbility e said = do {
     abilityProxy \<leftarrow> CheckSystemAbility e said;
     if abilityProxy \<noteq> None then ret (True, True)
     else do {
       it \<leftarrow> getM (\<lambda>m. sm_find said (startingAbilityMap m));
       if (case it of None \<Rightarrow> False | Some i \<Rightarrow> ai_state i = AS_STARTING) then ret (True, True)
       else do {
         od \<leftarrow> getM (\<lambda>m. sm_find said (onDemandAbilityMap m));
         if od = None then ret (False, False)
         else do {
           touchItem said;
           modItem said (\<lambda>i. i \<lparr> ai_event := mk_event INTERFACE_CALL ''get'' [] \<rparr>);
           (r, isExist) \<leftarrow> StartOnDemandAbilityLocked e said;
           ret (r = ERR_OK, isExist) } } } }"

section \<open>Starting processes\<close>

definition ServiceControlWithExtra :: "env \<Rightarrow> string \<Rightarrow> ServiceAction \<Rightarrow> string option \<Rightarrow> int M" where
  "ServiceControlWithExtra e name action extra = do {
     emit (ServiceControlCall name action extra);
     ask (e_serviceControl e) }"

text \<open>\<^verbatim>\<open>SystemAbilityStateScheduler::IsSystemProcessNeverStartedLocked\<close>\<close>
definition IsSystemProcessNeverStartedLocked :: "u16string \<Rightarrow> bool M" where
  "IsSystemProcessNeverStartedLocked name = getS (\<lambda>c. case sm_find name (processContextMap c) of
     None \<Rightarrow> True | Some P \<Rightarrow> pid P < 0)"

definition WaitForProcessStopped :: "env \<Rightarrow> u16string \<Rightarrow> int \<Rightarrow> unit M" where
  "WaitForProcessStopped e name said = do {
     present \<leftarrow> getM abilityStateScheduler;
     never \<leftarrow> IsSystemProcessNeverStartedLocked name;
     onlyif (present \<and> \<not> never) (emit (ServiceWaitForStatus (e_str16to8 e name))) }"

definition event_argument :: "int \<Rightarrow> OnDemandEvent \<Rightarrow> string" where
  "event_argument said event = to_string said @ ''#'' @ to_string (eventId event) @ ''#'' @ ev_name event @ ''#''
     @ ev_value event @ ''#'' @ to_string (extraDataId event) @ ''#''"

text \<open>\<^verbatim>\<open>MultiSystemAbilityManager::StartDynamicSystemProcess\<close>, of the manager of a user.\<close>
definition multi_StartDynamicSystemProcess :: "env \<Rightarrow> u16string \<Rightarrow> int \<Rightarrow> OnDemandEvent \<Rightarrow> int M" where
  "multi_StartDynamicSystemProcess e name said event = do {
     WaitForProcessStopped e name said;
     _ \<leftarrow> GetTickCount e;
     ServiceControlWithExtra e (e_str16to8 e name) ACTION_START (Some (event_argument said event)) }"

text \<open>\<^verbatim>\<open>BaseSystemAbilityManager::StartDynamicSystemProcess\<close>\<close>
definition base_StartDynamicSystemProcess :: "env \<Rightarrow> u16string \<Rightarrow> int \<Rightarrow> OnDemandEvent \<Rightarrow> int M" where
  "base_StartDynamicSystemProcess e name said event = do {
     let eventStr = event_argument said event;
     _ \<leftarrow> GetTickCount e;
     if ev_name event = ''restart'' then do {
       r \<leftarrow> ServiceControlWithExtra e (e_str16to8 e name) ACTION_START_ONDEMAND (Some eventStr);
       if r \<noteq> 0 then do {
         WaitForProcessStopped e name said;
         ServiceControlWithExtra e (e_str16to8 e name) ACTION_START (Some eventStr) }
       else ret r }
     else do {
       WaitForProcessStopped e name said;
       ServiceControlWithExtra e (e_str16to8 e name) ACTION_START (Some eventStr) } }"

text \<open>The virtual method, as the manager's user selects it.\<close>
definition StartDynamicSystemProcess :: "env \<Rightarrow> u16string \<Rightarrow> int \<Rightarrow> OnDemandEvent \<Rightarrow> SamgrErrCode M" where
  "StartDynamicSystemProcess e name said event = do {
     result \<leftarrow> (if e_userId e = 0 then base_StartDynamicSystemProcess e name said event
       else multi_StartDynamicSystemProcess e name said event);
     _ \<leftarrow> GetTickCount e;
     ret (ext_code result) }"

text \<open>The tail that \<^verbatim>\<open>StartingSystemProcess\<close> and \<^verbatim>\<open>StartingSystemProcessLocked\<close> share: ask init to start the process.\<close>
definition call_init_start :: "env \<Rightarrow> u16string \<Rightarrow> int \<Rightarrow> OnDemandEvent \<Rightarrow> SamgrErrCode M" where
  "call_init_start e procName said event = do {
     starting \<leftarrow> getM (\<lambda>m. sm_count procName (startingProcessMap m));
     if starting then ret ERR_OK
     else do {
       begin' \<leftarrow> GetTickCount e;
       modM (\<lambda>m. m \<lparr> startingProcessMap := sm_ins procName \<lparr> st_procName = procName, st_callingPid = e_callingPid e,
          st_callUid = e_callingUid e, st_callPname = e_cmdline e (e_callingPid e), st_calleeSaId = said,
          st_begin = begin' \<rparr> (startingProcessMap m) \<rparr>);
       result \<leftarrow> StartDynamicSystemProcess e procName said event;
       onlyif (result \<noteq> ERR_OK) (modM (\<lambda>m. m \<lparr> startingProcessMap := sm_erase procName (startingProcessMap m) \<rparr>));
       ret result } }"

definition StartingSystemProcess :: "env \<Rightarrow> u16string \<Rightarrow> int \<Rightarrow> OnDemandEvent \<Rightarrow> SamgrErrCode M" where
  "StartingSystemProcess e procName said event = do {
     isProcessStarted \<leftarrow> getM (\<lambda>m. sm_count procName (systemProcessMap m));
     if isProcessStarted then do { _ \<leftarrow> StartOnDemandAbility e said; ret ERR_OK }
     else call_init_start e procName said event }"

definition StartingSystemProcessLocked :: "env \<Rightarrow> u16string \<Rightarrow> int \<Rightarrow> OnDemandEvent \<Rightarrow> SamgrErrCode M" where
  "StartingSystemProcessLocked e procName said event = do {
     isProcessStarted \<leftarrow> getM (\<lambda>m. sm_count procName (systemProcessMap m));
     if isProcessStarted then do { _ \<leftarrow> StartOnDemandAbilityLocked e said; ret ERR_OK }
     else call_init_start e procName said event }"

section \<open>Messages posted to the work queue\<close>

definition workHandler_present :: "bool M" where
  "workHandler_present = getM (\<lambda>m. workHandler m \<noteq> None)"

definition SendSystemAbilityRemovedMsg :: "env \<Rightarrow> int \<Rightarrow> unit M" where
  "SendSystemAbilityRemovedMsg e said = do {
     w \<leftarrow> workHandler_present;
     if \<not> w then ret ()
     else do { _ \<leftarrow> post e WorkHandler (NotifyRemovedTask said); ret () } }"

definition SendLoadedSystemAbilityMsg :: "env \<Rightarrow> int \<Rightarrow> obj option \<Rightarrow> iface option \<Rightarrow> unit M" where
  "SendLoadedSystemAbilityMsg e said remoteObject callback = do {
     w \<leftarrow> workHandler_present;
     if \<not> w then ret ()
     else do { _ \<leftarrow> post e WorkHandler (NotifyLoadedTask said remoteObject callback); ret () } }"

definition SendCheckLoadedMsg :: "env \<Rightarrow> int \<Rightarrow> u16string \<Rightarrow> string \<Rightarrow> iface \<Rightarrow> unit M" where
  "SendCheckLoadedMsg e said name srcDeviceId callback = do {
     w \<leftarrow> workHandler_present;
     if \<not> w then ret ()
     else do {
       _ \<leftarrow> post_named e WorkHandler (CheckLoadedTask said name srcDeviceId callback) (to_string said) CHECK_LOADED_DELAY_TIME;
       ret () } }"

definition RemoveCheckLoadedMsg :: "int \<Rightarrow> unit M" where
  "RemoveCheckLoadedMsg said = do {
     w \<leftarrow> workHandler_present;
     if \<not> w then ret () else remove_task WorkHandler (to_string said) }"

section \<open>Loading an ability\<close>

text \<open>\<open>abilityItem.callbackMap[device]\<close> of an item.\<close>
definition callbacks_of :: "string \<Rightarrow> AbilityItem \<Rightarrow> CallbackList" where
  "callbacks_of dev i = sm_get [] dev (callbackMap i)"

definition DoLoadSystemAbility ::
  "env \<Rightarrow> int \<Rightarrow> u16string \<Rightarrow> iface option \<Rightarrow> int \<Rightarrow> OnDemandEvent \<Rightarrow> SamgrErrCode M" where
  "DoLoadSystemAbility e said procName callback callingPid event = do {
     targetObject \<leftarrow> CheckSystemAbility e said;
     if targetObject \<noteq> None then
       (if eventId event \<noteq> INTERFACE_CALL then ret ERR_OK
        else do { SendLoadedSystemAbilityMsg e said targetObject callback; ret ERR_OK })
     else (case callback of
       None \<Rightarrow> do { null_deref; ret ERR_INVALID_VALUE }
     | Some cb \<Rightarrow> do {
         touchItem said;
         modItem said (\<lambda>i. i \<lparr> callbackMap := sm_touch [] LOCAL_DEVICE (callbackMap i) \<rparr>);
         existing \<leftarrow> getM (\<lambda>m. callbacks_of LOCAL_DEVICE (item said m));
         if list_ex (\<lambda>ic. AsObject cb = AsObject (fst ic)) existing then ret ERR_OK
         else do {
           count \<leftarrow> getM (\<lambda>m. sm_get 0 callingPid (callbackCountMap m));
           if count \<ge> MGR_MAX_SUBSCRIBE_COUNT then ret CALLBACK_MAP_SIZE_LIMIT
           else do {
             modM (\<lambda>m. m \<lparr> callbackCountMap := sm_ins callingPid (count + 1) (callbackCountMap m) \<rparr>);
             modItem said (\<lambda>i. i \<lparr> callbackMap := sm_ins LOCAL_DEVICE (callbacks_of LOCAL_DEVICE i @ [(cb, callingPid)]) (callbackMap i) \<rparr>);
             modItem said (\<lambda>i. i \<lparr> ai_event := event \<rparr>);
             d \<leftarrow> getM abilityCallbackDeath;
             onlyif d (add_death (AsObject cb) AbilityCallbackDeath);
             result \<leftarrow> StartingSystemProcess e procName said event;
             SendCheckLoadedMsg e said procName LOCAL_DEVICE cb;
             ret result } } }) }"

text \<open>\<^verbatim>\<open>SystemAbilityManager::DoLoadSystemAbilityFromRpc\<close>\<close>
definition DoLoadSystemAbilityFromRpc ::
  "env \<Rightarrow> string \<Rightarrow> int \<Rightarrow> u16string \<Rightarrow> iface option \<Rightarrow> OnDemandEvent \<Rightarrow> SamgrErrCode M" where
  "DoLoadSystemAbilityFromRpc e srcDeviceId said procName callback event = do {
     targetObject \<leftarrow> CheckSystemAbility e said;
     if targetObject \<noteq> None then do { SendLoadedSystemAbilityMsg e said targetObject callback; ret ERR_OK }
     else (case callback of
       None \<Rightarrow> do { null_deref; ret ERR_INVALID_VALUE }
     | Some cb \<Rightarrow> do {
         touchItem said;
         modItem said (\<lambda>i. i \<lparr> callbackMap := sm_ins srcDeviceId (callbacks_of srcDeviceId i @ [(cb, 0)]) (callbackMap i) \<rparr>);
         _ \<leftarrow> StartingSystemProcessLocked e procName said event;
         SendCheckLoadedMsg e said procName srcDeviceId cb;
         ret ERR_OK }) }"

section \<open>Unloading, idling and activating an ability\<close>

definition DoUnloadSystemAbility :: "env \<Rightarrow> int \<Rightarrow> u16string \<Rightarrow> OnDemandEvent \<Rightarrow> SamgrErrCode M" where
  "DoUnloadSystemAbility e said procName event = do {
     targetObject \<leftarrow> CheckSystemAbility e said;
     if targetObject = None then ret ERR_OK
     else do {
       result \<leftarrow> StopOnDemandAbilityInner e procName said event;
       if \<not> result then ret ERR_INVALID_VALUE
       else do {
         SendUpdateSaState said ''unload'';
         ret ERR_OK } } }"

text \<open>The answer of the peer and the delay it asks for; \<open>delayTime\<close> is the caller's initial value.\<close>
definition IdleSystemAbility :: "env \<Rightarrow> int \<Rightarrow> u16string \<Rightarrow> reason \<Rightarrow> int \<Rightarrow> (bool \<times> int) M" where
  "IdleSystemAbility e said procName idleReason delay = do {
     targetObject \<leftarrow> CheckSystemAbility e said;
     if targetObject = None then ret (False, delay)
     else do {
       po \<leftarrow> procObject e procName;
       case po of
         None \<Rightarrow> ret (False, delay)
       | Some x \<Rightarrow> do {
           emit (IdleAbility x said idleReason);
           ask (e_idleAbility e) } } }"

definition ActiveSystemAbility :: "env \<Rightarrow> int \<Rightarrow> u16string \<Rightarrow> reason \<Rightarrow> bool M" where
  "ActiveSystemAbility e said procName activeReason = do {
     targetObject \<leftarrow> CheckSystemAbility e said;
     if targetObject = None then ret False
     else do {
       po \<leftarrow> procObject e procName;
       case po of
         None \<Rightarrow> ret False
       | Some x \<Rightarrow> do {
           emit (ActiveAbility x said activeReason);
           ask (e_activeAbility e) } } }"

section \<open>Cleaning up after a process that died\<close>

definition RemoveOnDemandSaInDiedProc :: "int list \<Rightarrow> unit M" where
  "RemoveOnDemandSaInDiedProc sas =
     for_each sas (\<lambda>a. modM (\<lambda>m. m \<lparr> onDemandAbilityMap := sm_erase a (onDemandAbilityMap m) \<rparr>))"

definition RemoveDiedSystemAbility :: "env \<Rightarrow> int \<Rightarrow> SamgrErrCode M" where
  "RemoveDiedSystemAbility e said = do {
     info \<leftarrow> getM (\<lambda>m. sm_find said (abilityMap m));
     case info of
       None \<Rightarrow> ret ERR_OK
     | Some i \<Rightarrow> do {
         d \<leftarrow> getM abilityDeath;
         onlyif (remoteObj i \<noteq> None \<and> d) (remove_death (remoteObj i) AbilityDeath);
         modM (\<lambda>m. m \<lparr> abilityMap := sm_erase said (abilityMap m) \<rparr>);
         SendSystemAbilityRemovedMsg e said;
         ret ERR_OK } }"

definition mgr_RemoveWhiteCommonEvent :: "unit M" where
  "mgr_RemoveWhiteCommonEvent = do {
     c \<leftarrow> getM collectManager;
     onlyif c (emit RemoveWhiteCommonEvent) }"

section \<open>None of this touches the scheduler\<close>

named_theorems frame_sch \<open>operations that leave the scheduler's tables alone\<close>

lemma sch_modM [frame_sch]: "frames sch (modM f)"
  by (rule frames_modM) simp

lemma sch_emit [frame_sch]: "frames sch (emit x)"
  by (rule frames_emit) simp

lemma sch_ask [frame_sch]: "frames sch (ask f)"
  by (rule frames_ask) simp

lemma sch_null_deref [frame_sch]: "frames sch null_deref"
  by (rule frames_null_deref) simp

lemma sch_on_work [frame_sch]: "frames sch (on_queue WorkHandler d f)" "frames sch (on_queue DeathHandler d f)"
  by (rule frames_on_queue; simp add: put_queue_def)+

lemma sch_GetTickCount [frame_sch]: "frames sch (GetTickCount e)"
  unfolding GetTickCount_def by (rule frame_sch)

lemma sch_death [frame_sch]: "frames sch (add_death ob r)" "frames sch (remove_death ob r)"
  unfolding add_death_def remove_death_def by (intro frame_intros frame_sch)+

lemma sch_post_work [frame_sch]:
  "frames sch (post e WorkHandler t)" "frames sch (post_named e WorkHandler t n d)" "frames sch (remove_task WorkHandler n)"
  "frames sch (del_task WorkHandler n)" "frames sch (post e DeathHandler t)"
  unfolding post_def post_named_def remove_task_def del_task_def by (intro frame_intros frame_sch)+

lemmas manager_lookup_defs = GetSaProfile_def IsDistributedSystemAbility_def mgr_CheckSaIsImmediatelyRecycle_def
  IsCacheCommonEvent_def IsModuleUpdate_def UpdateSaFreMap_def CheckSystemAbility_def GetSystemProcess_def
  procObject_def SendUpdateSaState_def workHandler_present_def IsSystemProcessNeverStartedLocked_def

lemma sch_lookups [frame_sch]:
  "frames sch (GetSaProfile a)" "frames sch (IsDistributedSystemAbility a)" "frames sch (mgr_CheckSaIsImmediatelyRecycle a)"
  "frames sch (IsCacheCommonEvent a)" "frames sch (IsModuleUpdate a)" "frames sch (UpdateSaFreMap u a)"
  "frames sch (CheckSystemAbility e a)" "frames sch (GetSystemProcess p)" "frames sch (procObject e p)"
  "frames sch (SendUpdateSaState a x)" "frames sch workHandler_present" "frames sch (IsSystemProcessNeverStartedLocked p)"
  unfolding manager_lookup_defs Let_def by (intro frame_intros frame_sch)+

lemma sch_items [frame_sch]: "frames sch (modItem a f)" "frames sch (touchItem a)"
  unfolding modItem_def touchItem_def by (intro frame_sch)+

lemma sch_start_inner [frame_sch]: "frames sch (StartOnDemandAbilityInner e p a)"
  unfolding StartOnDemandAbilityInner_def by (intro frame_intros frame_sch)

lemma sch_start_stop [frame_sch]:
  "frames sch (StartOnDemandAbilityLockedProc e p a)" "frames sch (StartOnDemandAbilityLocked e a)"
  "frames sch (StartOnDemandAbilityProc e p a)" "frames sch (StartOnDemandAbility e a)"
  "frames sch (StopOnDemandAbilityInner e p a ev)" "frames sch (StopOnDemandAbility e p a ev)"
  unfolding StartOnDemandAbilityLockedProc_def StartOnDemandAbilityLocked_def StartOnDemandAbilityProc_def
    StartOnDemandAbility_def StopOnDemandAbilityInner_def StopOnDemandAbility_def
  by (intro frame_intros frame_sch)+

lemma sch_DoLoadOnDemandAbility [frame_sch]: "frames sch (DoLoadOnDemandAbility e a)"
  unfolding DoLoadOnDemandAbility_def by (intro frame_intros frame_sch)

lemma sch_wait [frame_sch]: "frames sch (WaitForProcessStopped e p a)" "frames sch (ServiceControlWithExtra e n x y)"
  unfolding WaitForProcessStopped_def ServiceControlWithExtra_def by (intro frame_intros frame_sch)+

lemma sch_start_process [frame_sch]: "frames sch (StartDynamicSystemProcess e p a ev)"
  unfolding StartDynamicSystemProcess_def base_StartDynamicSystemProcess_def multi_StartDynamicSystemProcess_def Let_def
  by (intro frame_intros frame_sch)

lemma sch_call_init [frame_sch]: "frames sch (call_init_start e p a ev)"
  unfolding call_init_start_def by (intro frame_intros frame_sch)

lemma sch_starting [frame_sch]: "frames sch (StartingSystemProcess e p a ev)" "frames sch (StartingSystemProcessLocked e p a ev)"
  unfolding StartingSystemProcess_def StartingSystemProcessLocked_def by (intro frame_intros frame_sch)+

lemma sch_messages [frame_sch]:
  "frames sch (SendSystemAbilityRemovedMsg e a)" "frames sch (SendLoadedSystemAbilityMsg e a ob cb)"
  "frames sch (SendCheckLoadedMsg e a p dev c)" "frames sch (RemoveCheckLoadedMsg a)"
  unfolding SendSystemAbilityRemovedMsg_def SendLoadedSystemAbilityMsg_def SendCheckLoadedMsg_def RemoveCheckLoadedMsg_def
  by (intro frame_intros frame_sch)+

lemma sch_DoLoadSystemAbility [frame_sch]: "frames sch (DoLoadSystemAbility e a p cb q ev)"
  unfolding DoLoadSystemAbility_def by (intro frame_intros frame_sch)

lemma sch_DoLoadSystemAbilityFromRpc [frame_sch]: "frames sch (DoLoadSystemAbilityFromRpc e dev a p cb ev)"
  unfolding DoLoadSystemAbilityFromRpc_def by (intro frame_intros frame_sch)

lemma sch_unload_idle [frame_sch]:
  "frames sch (DoUnloadSystemAbility e a p ev)" "frames sch (IdleSystemAbility e a p r d)" "frames sch (ActiveSystemAbility e a p r)"
  unfolding DoUnloadSystemAbility_def IdleSystemAbility_def ActiveSystemAbility_def
  by (intro frame_intros frame_sch)+

lemma sch_cleanup [frame_sch]:
  "frames sch (RemoveOnDemandSaInDiedProc sas)" "frames sch (RemoveDiedSystemAbility e a)" "frames sch mgr_RemoveWhiteCommonEvent"
  unfolding RemoveOnDemandSaInDiedProc_def RemoveDiedSystemAbility_def mgr_RemoveWhiteCommonEvent_def
  by (intro frame_intros frame_sch)+

end
