(* ===== verification/Scheduler.thy ===== *)
theory Scheduler
  imports Event_Handler Manager_Core
begin

text \<open>
  \<^verbatim>\<open>schedule/system_ability_state_scheduler.cpp\<close>: class \<^verbatim>\<open>SystemAbilityStateScheduler\<close>, the owner of the
  ability and process contexts, and its inner class \<^verbatim>\<open>UnloadEventHandler\<close>.

  The class is also the listener of its state machine. Entering \<^verbatim>\<open>UNLOADABLE\<close> can start an unload,
  which is itself a transition (to \<^verbatim>\<open>UNLOADING\<close>); so the listener is built in two steps:
  \<open>listener0\<close> has every callback but the one for \<^verbatim>\<open>UNLOADABLE\<close>, \<open>DoUnloadSystemAbilityLocked\<close> is
  written with it, and \<open>listener\<close> adds the missing callback. \<open>DoUnload_listener\<close> shows that
  this is the definition with the whole listener.
\<close>

section \<open>Constants\<close>

definition SUBSYS_ACCOUNT_SYS_ABILITY_ID_BEGIN :: int where "SUBSYS_ACCOUNT_SYS_ABILITY_ID_BEGIN = 200"
definition KEY_UNLOAD_TIMEOUT :: string where "KEY_UNLOAD_TIMEOUT = ''unloadTimeout''"
definition CANCEL_UNLOAD :: string where "CANCEL_UNLOAD = ''cancelUnload''"
definition PARAM_LOW_MEM_PREPARE_NAME :: string where
  "PARAM_LOW_MEM_PREPARE_NAME = ''resourceschedule.memmgr.low.memory.prepare''"

section \<open>Contexts\<close>

definition LimitDelayUnloadTime :: "int \<Rightarrow> int" where
  "LimitDelayUnloadTime t = (if t < 0 then 0 else if t > MAX_DELAY_TIME then MAX_DELAY_TIME else t)"

text \<open>Whether the context exists and belongs to a process; the caller then uses it by its identifier.\<close>
definition GetSystemAbilityContext :: "int \<Rightarrow> bool M" where
  "GetSystemAbilityContext a = getS (\<lambda>c. case sm_find a (abilityContextMap c) of
     None \<Rightarrow> False | Some A \<Rightarrow> ownProcessContext A \<noteq> None)"

definition GetSystemProcessContext :: "u16string \<Rightarrow> bool M" where
  "GetSystemProcessContext p = getS (\<lambda>c. sm_count p (processContextMap c))"

definition IsSystemAbilityUnloading :: "int \<Rightarrow> bool M" where
  "IsSystemAbilityUnloading a = do {
     found \<leftarrow> GetSystemAbilityContext a;
     if \<not> found then ret False
     else getS (\<lambda>c. sa_state (actx a c) = UNLOADING \<or> proc_state (pctx (own a c) c) = STOPPING) }"

section \<open>\<^verbatim>\<open>UnloadEventHandler\<close>\<close>

definition unload_handler_present :: "bool M" where
  "unload_handler_present = getS (\<lambda>c. case unloadEventHandler c of Some (Some _) \<Rightarrow> True | _ \<Rightarrow> False)"

definition UEH_SendEvent :: "env \<Rightarrow> int \<Rightarrow> int \<Rightarrow> bool M" where
  "UEH_SendEvent e evId delay = do {
     present \<leftarrow> unload_handler_present;
     if \<not> present then ret False
     else post_named e UnloadHandler (UnloadEventTask evId) (to_string evId) delay }"

definition UEH_RemoveEvent :: "int \<Rightarrow> unit M" where
  "UEH_RemoveEvent evId = do {
     present \<leftarrow> unload_handler_present;
     if \<not> present then ret () else remove_task UnloadHandler (to_string evId) }"

definition UEH_HasInnerEvent :: "int \<Rightarrow> bool M" where
  "UEH_HasInnerEvent evId = do {
     present \<leftarrow> unload_handler_present;
     if \<not> present then ret False else has_inner_event UnloadHandler (to_string evId) }"

section \<open>Delayed and pending unloads\<close>

definition SendDelayUnloadEventLocked :: "env \<Rightarrow> int \<Rightarrow> int \<Rightarrow> SamgrErrCode M" where
  "SendDelayUnloadEventLocked e a delay = do {
     present \<leftarrow> getS (\<lambda>c. unloadEventHandler c \<noteq> None);
     if \<not> present then ret UNLOAD_EVENT_HANDLER_NULL
     else do {
       known \<leftarrow> UEH_HasInnerEvent (to_uint32 a);
       if known then ret ERR_OK
       else do {
         sent \<leftarrow> UEH_SendEvent e (to_uint32 a) delay;
         if \<not> sent then ret SEND_EVENT_FAIL else ret ERR_OK } } }"

definition RemoveDelayUnloadEventLocked :: "int \<Rightarrow> SamgrErrCode M" where
  "RemoveDelayUnloadEventLocked a = do {
     present \<leftarrow> getS (\<lambda>c. unloadEventHandler c \<noteq> None);
     if \<not> present then ret UNLOAD_EVENT_HANDLER_NULL
     else do {
       known \<leftarrow> UEH_HasInnerEvent (to_uint32 a);
       if \<not> known then ret ERR_OK
       else do { UEH_RemoveEvent (to_uint32 a); ret ERR_OK } } }"

definition PendUnloadEventLocked :: "int \<Rightarrow> UnloadRequestInfo \<Rightarrow> SamgrErrCode M" where
  "PendUnloadEventLocked a req = do {
     modA a (\<lambda>A. A \<lparr> pendingEvent := UNLOAD_ABILITY_EVENT \<rparr>);
     modA a (\<lambda>A. A \<lparr> pendingUnloadEvent := Some req \<rparr>);
     ret ERR_OK }"

definition RemovePendingUnloadEventLocked :: "int \<Rightarrow> SamgrErrCode M" where
  "RemovePendingUnloadEventLocked a = do {
     pe \<leftarrow> getS (\<lambda>c. pendingEvent (actx a c));
     onlyif (pe = UNLOAD_ABILITY_EVENT) (modA a (\<lambda>A. A \<lparr> pendingEvent := NO_EVENT \<rparr>));
     ret ERR_OK }"

section \<open>Tasks posted by the listener\<close>

definition PostTryUnloadAllAbilityTask :: "env \<Rightarrow> u16string \<Rightarrow> SamgrErrCode M" where
  "PostTryUnloadAllAbilityTask e p = do {
     ok \<leftarrow> post e ProcessHandler (TryUnloadAllTask p);
     if \<not> ok then ret ERR_INVALID_VALUE else ret ERR_OK }"

definition PostTryKillProcessTask :: "env \<Rightarrow> u16string \<Rightarrow> SamgrErrCode M" where
  "PostTryKillProcessTask e p = do {
     ok \<leftarrow> post e ProcessHandler (TryKillTask p);
     if \<not> ok then ret ERR_INVALID_VALUE else ret ERR_OK }"

definition PostUnloadTimeoutTask :: "env \<Rightarrow> u16string \<Rightarrow> SamgrErrCode M" where
  "PostUnloadTimeoutTask e p = do {
     ok \<leftarrow> post_named e ProcessHandler (UnloadTimeoutTask p) (KEY_UNLOAD_TIMEOUT @ e_str16to8 e p) UNLOAD_TIMEOUT_TIME;
     if \<not> ok then ret ERR_INVALID_VALUE else ret ERR_OK }"

definition RemoveUnloadTimeoutTask :: "env \<Rightarrow> u16string \<Rightarrow> unit M" where
  "RemoveUnloadTimeoutTask e p = remove_task ProcessHandler (KEY_UNLOAD_TIMEOUT @ e_str16to8 e p)"

section \<open>Process listeners\<close>

definition process_info :: "env \<Rightarrow> SystemProcessContext \<Rightarrow> SystemProcessInfo" where
  "process_info e P = \<lparr> spi_processName = e_str16to8 e (processName P), spi_pid = pid P, spi_uid = uid P \<rparr>"

text \<open>
  A listener that subscribed for the foreground user is skipped by the manager of another user; the base user's manager
  skips no listener.
\<close>
definition is_foreground_user :: "env \<Rightarrow> bool" where
  "is_foreground_user e \<longleftrightarrow> e_userId e = 0 \<or> e_foregroundUser e"

definition notified_listeners :: "env \<Rightarrow> ProcessListener list \<Rightarrow> ProcessListener list" where
  "notified_listeners e items = filter (\<lambda>i. \<not> (\<not> hasDirectSubscription i \<and> hasForegroundSubscription i \<and> \<not> is_foreground_user e)
     \<and> AsObject (pl_listener i) \<noteq> None) items"

definition NotifyProcessStarted :: "env \<Rightarrow> u16string \<Rightarrow> unit M" where
  "NotifyProcessStarted e p = do {
     items \<leftarrow> getS processListeners;
     P \<leftarrow> getS (pctx p);
     for_each (notified_listeners e items)
       (\<lambda>i. emit (OnSystemProcessStarted (pl_listener i) (process_info e P))) }"

definition NotifyProcessStopped :: "env \<Rightarrow> u16string \<Rightarrow> unit M" where
  "NotifyProcessStopped e p = do {
     items \<leftarrow> getS processListeners;
     P \<leftarrow> getS (pctx p);
     for_each (notified_listeners e items)
       (\<lambda>i. emit (OnSystemProcessStopped (pl_listener i) (process_info e P))) }"

definition NotifyProcessActivated :: "env \<Rightarrow> u16string \<Rightarrow> unit M" where
  "NotifyProcessActivated e p = do {
     P \<leftarrow> getS (pctx p);
     modS (\<lambda>c. c \<lparr> procListenerMap := sm_touch [] (processName P) (procListenerMap c) \<rparr>);
     items \<leftarrow> getS (\<lambda>c. sm_get [] (processName P) (procListenerMap c));
     for_each (filter (\<lambda>l. AsObject l \<noteq> None) items) (\<lambda>l. emit (OnSystemProcessActivated l (process_info e P))) }"

definition NotifyProcessIdled :: "env \<Rightarrow> u16string \<Rightarrow> unit M" where
  "NotifyProcessIdled e p = do {
     P \<leftarrow> getS (pctx p);
     modS (\<lambda>c. c \<lparr> procListenerMap := sm_touch [] (processName P) (procListenerMap c) \<rparr>);
     items \<leftarrow> getS (\<lambda>c. sm_get [] (processName P) (procListenerMap c));
     for_each (filter (\<lambda>l. AsObject l \<noteq> None) items) (\<lambda>l. emit (OnSystemProcessIdled l (process_info e P))) }"

definition count_of :: "SystemAbilityState \<Rightarrow> SystemProcessContext \<Rightarrow> 32 word" where
  "count_of st P = sm_get 0 st (abilityStateCountMap P)"

definition IsProcessActivatedLocked :: "u16string \<Rightarrow> bool M" where
  "IsProcessActivatedLocked p = do {
     P \<leftarrow> getS (pctx p);
     watched \<leftarrow> getS (\<lambda>c. sm_count (processName P) (procListenerMap c));
     if \<not> watched then ret False
     else ret (count_of LOADED P = 1) }"

definition IsProcessIdledLocked :: "u16string \<Rightarrow> bool M" where
  "IsProcessIdledLocked p = do {
     P \<leftarrow> getS (pctx p);
     watched \<leftarrow> getS (\<lambda>c. sm_count (processName P) (procListenerMap c));
     if \<not> watched then ret False
     else ret (count_of LOADED P = 0 \<and> count_of LOADING P = 0) }"

section \<open>The listener of the state machine\<close>

definition OnAbilityNotLoadedLocked :: "env \<Rightarrow> int \<Rightarrow> unit M" where
  "OnAbilityNotLoadedLocked e a = do {
     found \<leftarrow> GetSystemAbilityContext a;
     if \<not> found then ret ()
     else do {
       _ \<leftarrow> RemoveDelayUnloadEventLocked a;
       _ \<leftarrow> RemovePendingUnloadEventLocked a;
       p \<leftarrow> getS (own a);
       st \<leftarrow> getS (\<lambda>c. proc_state (pctx p c));
       if st = STOPPING then do { _ \<leftarrow> PostTryKillProcessTask e p; ret () }
       else if st = STARTED then do { _ \<leftarrow> PostTryUnloadAllAbilityTask e p; ret () }
       else ret () } }"

definition OnAbilityLoadedLocked :: "env \<Rightarrow> int \<Rightarrow> unit M" where
  "OnAbilityLoadedLocked e a = do {
     present \<leftarrow> getS (\<lambda>c. processHandler c \<noteq> None);
     onlyif present (do { _ \<leftarrow> post e ProcessHandler (PendingUnloadTask a); ret () });
     found \<leftarrow> GetSystemAbilityContext a;
     if \<not> found then ret ()
     else do {
       p \<leftarrow> getS (own a);
       activated \<leftarrow> IsProcessActivatedLocked p;
       onlyif activated (NotifyProcessActivated e p) } }"

definition listener0 :: "env \<Rightarrow> ability_listener" where
  "listener0 e = \<lparr> OnAbilityNotLoaded = OnAbilityNotLoadedLocked e,
     OnAbilityLoading = (\<lambda>_. ret ()),
     OnAbilityLoaded = OnAbilityLoadedLocked e,
     OnAbilityUnloadable = (\<lambda>_. null_deref),
     OnAbilityUnloading = (\<lambda>_. ret ()) \<rparr>"

definition DoUnloadSystemAbilityLocked :: "env \<Rightarrow> int \<Rightarrow> SamgrErrCode M" where
  "DoUnloadSystemAbilityLocked e a = do {
     A \<leftarrow> getS (actx a);
     case unloadRequest A of
       None \<Rightarrow> ret ERR_INVALID_VALUE
     | Some req \<Rightarrow> do {
         strongManager \<leftarrow> getS manager;
         if \<not> strongManager then ret ERR_INVALID_VALUE
         else do {
           p \<leftarrow> getS (\<lambda>c. processName (pctx (own a c) c));
           result \<leftarrow> DoUnloadSystemAbility e a p (unloadEvent req);
           if result = ERR_OK then AbilityStateTransitionLocked e (Some (listener0 e)) (Some a) UNLOADING
           else ret result } } }"

definition OnAbilityUnloadableLocked :: "env \<Rightarrow> int \<Rightarrow> unit M" where
  "OnAbilityUnloadableLocked e a = do {
     found \<leftarrow> GetSystemAbilityContext a;
     if \<not> found then ret ()
     else do {
       p \<leftarrow> getS (own a);
       idled \<leftarrow> IsProcessIdledLocked p;
       onlyif idled (NotifyProcessIdled e p);
       indep \<leftarrow> getS (\<lambda>c. independentUnload (actx a c));
       onlyif indep (do { _ \<leftarrow> DoUnloadSystemAbilityLocked e a; ret () });
       _ \<leftarrow> PostTryUnloadAllAbilityTask e p;
       ret () } }"

definition listener :: "env \<Rightarrow> ability_listener" where
  "listener e = (listener0 e) \<lparr> OnAbilityUnloadable := OnAbilityUnloadableLocked e \<rparr>"

abbreviation ability_transition :: "env \<Rightarrow> int \<Rightarrow> SystemAbilityState \<Rightarrow> SamgrErrCode M" where
  "ability_transition e a st \<equiv> AbilityStateTransitionLocked e (Some (listener e)) (Some a) st"

lemma transition_listener0:
  "st \<noteq> UNLOADABLE \<Longrightarrow>
   AbilityStateTransitionLocked e (Some (listener0 e)) (Some a) st = ability_transition e a st"
  unfolding AbilityStateTransitionLocked_def abilityStateHandlerMap_def
  by (cases st) (simp_all add: sa_handler_defs tell_def listener_def cong: if_cong)

text \<open>The unload of an ability, with the whole listener.\<close>
lemma DoUnload_listener:
  "DoUnloadSystemAbilityLocked e a = do {
     A \<leftarrow> getS (actx a);
     case unloadRequest A of
       None \<Rightarrow> ret ERR_INVALID_VALUE
     | Some req \<Rightarrow> do {
         strongManager \<leftarrow> getS manager;
         if \<not> strongManager then ret ERR_INVALID_VALUE
         else do {
           p \<leftarrow> getS (\<lambda>c. processName (pctx (own a c) c));
           result \<leftarrow> DoUnloadSystemAbility e a p (unloadEvent req);
           if result = ERR_OK then ability_transition e a UNLOADING else ret result } } }"
proof -
  have "AbilityStateTransitionLocked e (Some (listener0 e)) (Some a) UNLOADING = ability_transition e a UNLOADING"
    by (rule transition_listener0) simp
  then show ?thesis unfolding DoUnloadSystemAbilityLocked_def by (rule subst) (rule refl)
qed

section \<open>Loading\<close>

definition HandlePendingLoadOverflow :: "env \<Rightarrow> int \<Rightarrow> SamgrErrCode M" where
  "HandlePendingLoadOverflow e a = do {
     strongManager \<leftarrow> getS manager;
     if \<not> strongManager then ret ERR_INVALID_VALUE
     else do {
       p \<leftarrow> getS (own a);
       _ \<leftarrow> post e RecoverHandler (PendingLoadOverflowTask a p);
       ret PEND_LOAD_EVENT_SIZE_LIMIT } }"

definition PendLoadEventLocked :: "env \<Rightarrow> int \<Rightarrow> LoadRequestInfo \<Rightarrow> SamgrErrCode M" where
  "PendLoadEventLocked e a req = (case lr_callback req of
       None \<Rightarrow> ret CALLBACK_NULL
     | Some cb \<Rightarrow> do {
         p \<leftarrow> getS (own a);
         first \<leftarrow> getS (\<lambda>c. pendingLoadFirstTimestamp (pctx p c));
         onlyif (first = 0) (do {
           now \<leftarrow> GetTickCount e;
           modP p (\<lambda>P. P \<lparr> pendingLoadFirstTimestamp := now \<rparr>) });
         now \<leftarrow> GetTickCount e;
         first' \<leftarrow> getS (\<lambda>c. pendingLoadFirstTimestamp (pctx p c));
         let elapsed = now - first';
         pending \<leftarrow> getS (\<lambda>c. pendingLoadEventList (actx a c));
         if list_ex (\<lambda>i. case lr_callback i of None \<Rightarrow> False | Some cb' \<Rightarrow> AsObject cb = AsObject cb') pending then ret ERR_OK
         else do {
           count \<leftarrow> getS (\<lambda>c. sm_get 0 (lr_callingPid req) (pendingLoadEventCountMap (actx a c)));
           modA a (\<lambda>A. A \<lparr> pendingLoadEventCountMap := sm_touch 0 (lr_callingPid req) (pendingLoadEventCountMap A) \<rparr>);
           if count \<ge> MAX_PENDING_LOAD_COUNT \<or> elapsed \<ge> PENDING_LOAD_TIMEOUT_MS then HandlePendingLoadOverflow e a
           else do {
             modA a (\<lambda>A. A \<lparr> pendingLoadEventCountMap := sm_upd (lr_callingPid req) (\<lambda>_. count + 1) (pendingLoadEventCountMap A) \<rparr>);
             modA a (\<lambda>A. A \<lparr> pendingLoadEventList := pendingLoadEventList A @ [req] \<rparr>);
             modA a (\<lambda>A. A \<lparr> pendingEvent := LOAD_ABILITY_EVENT \<rparr>);
             ret ERR_OK } } })"

definition ActiveSystemAbilityLocked :: "env \<Rightarrow> int \<Rightarrow> reason \<Rightarrow> SamgrErrCode M" where
  "ActiveSystemAbilityLocked e a activeReason = do {
     strongManager \<leftarrow> getS manager;
     if \<not> strongManager then ret ACTIVE_SA_FAIL
     else do {
       p \<leftarrow> getS (\<lambda>c. processName (pctx (own a c) c));
       result \<leftarrow> ActiveSystemAbility e a p activeReason;
       if \<not> result then ret ACTIVE_SA_FAIL
       else ability_transition e a LOADED } }"

text \<open>The two calls of \<^verbatim>\<open>DoLoadSystemAbilityLocked\<close> into the manager: a request of this device or of a remote one.\<close>
definition request_load :: "env \<Rightarrow> int \<Rightarrow> u16string \<Rightarrow> LoadRequestInfo \<Rightarrow> SamgrErrCode M" where
  "request_load e a p req = (if deviceId req = LOCAL_DEVICE
     then DoLoadSystemAbility e a p (lr_callback req) (lr_callingPid req) (loadEvent req)
     else DoLoadSystemAbilityFromRpc e (deviceId req) a p (lr_callback req) (loadEvent req))"

lemma sch_request_load [frame_sch]: "frames sch (request_load e a p req)"
  unfolding request_load_def by (intro frame_intros frame_sch)

definition DoLoadSystemAbilityLocked :: "env \<Rightarrow> int \<Rightarrow> LoadRequestInfo \<Rightarrow> SamgrErrCode M" where
  "DoLoadSystemAbilityLocked e a req = do {
     strongManager \<leftarrow> getS manager;
     if \<not> strongManager then ret ERR_INVALID_VALUE
     else do {
       p \<leftarrow> getS (\<lambda>c. processName (pctx (own a c) c));
       result \<leftarrow> request_load e a p req;
       st \<leftarrow> getS (\<lambda>c. sa_state (actx a c));
       if result = ERR_OK \<and> st = NOT_LOADED then ability_transition e a LOADING
       else ret result } }"

definition HandleLoadAbilityEventLocked :: "env \<Rightarrow> int \<Rightarrow> LoadRequestInfo \<Rightarrow> SamgrErrCode M" where
  "HandleLoadAbilityEventLocked e a req = do {
     st \<leftarrow> getS (\<lambda>c. sa_state (actx a c));
     pst \<leftarrow> getS (\<lambda>c. proc_state (pctx (own a c) c));
     if st = UNLOADING \<or> pst = STOPPING then PendLoadEventLocked e a req
     else do {
       result \<leftarrow> (case st of
           LOADING \<Rightarrow> RemovePendingUnloadEventLocked a
         | LOADED \<Rightarrow> RemoveDelayUnloadEventLocked a
         | UNLOADABLE \<Rightarrow> ActiveSystemAbilityLocked e a (event_reason (loadEvent req))
         | NOT_LOADED \<Rightarrow> ret ERR_OK
         | UNLOADING \<Rightarrow> ret INVALID_SA_STATE);
       if result = ERR_OK then DoLoadSystemAbilityLocked e a req else ret result } }"

definition HandleLoadAbilityEvent :: "env \<Rightarrow> LoadRequestInfo \<Rightarrow> SamgrErrCode M" where
  "HandleLoadAbilityEvent e req = do {
     found \<leftarrow> GetSystemAbilityContext (lr_systemAbilityId req);
     if \<not> found then ret GET_SA_CONTEXT_FAIL
     else HandleLoadAbilityEventLocked e (lr_systemAbilityId req) req }"

text \<open>\<^verbatim>\<open>HandleLoadAbilityEvent(systemAbilityId, isExist)\<close>: the code and the new \<^verbatim>\<open>isExist\<close>.\<close>
definition HandleLoadAbilityEventCheck :: "env \<Rightarrow> int \<Rightarrow> bool \<Rightarrow> (SamgrErrCode \<times> bool) M" where
  "HandleLoadAbilityEventCheck e a isExist = do {
     found \<leftarrow> GetSystemAbilityContext a;
     if \<not> found then ret (ERR_INVALID_VALUE, False)
     else do {
       pst \<leftarrow> getS (\<lambda>c. proc_state (pctx (own a c) c));
       st \<leftarrow> getS (\<lambda>c. sa_state (actx a c));
       if pst = NOT_STARTED then ret (ERR_INVALID_VALUE, False)
       else if pst = STARTED \<and> st = NOT_LOADED then do {
         strongManager \<leftarrow> getS manager;
         if \<not> strongManager then ret (ERR_INVALID_VALUE, isExist)
         else do {
           (result, isExist') \<leftarrow> DoLoadOnDemandAbility e a;
           if result then do { r \<leftarrow> ability_transition e a LOADING; ret (r, isExist') }
           else ret (ERR_INVALID_VALUE, isExist') } }
       else ret (ERR_OK, True) } }"

section \<open>Unloading\<close>

definition ProcessDelayUnloadEventLocked :: "env \<Rightarrow> int \<Rightarrow> SamgrErrCode M" where
  "ProcessDelayUnloadEventLocked e a = do {
     found \<leftarrow> GetSystemAbilityContext a;
     if \<not> found then ret GET_SA_CONTEXT_FAIL
     else do {
       A \<leftarrow> getS (actx a);
       case unloadRequest A of
         None \<Rightarrow> ret UNLOAD_REQUEST_NULL
       | Some req \<Rightarrow>
           if sa_state A \<noteq> LOADED then ret ERR_OK
           else do {
             strongManager \<leftarrow> getS manager;
             if \<not> strongManager then ret IDLE_SA_FAIL
             else do {
               p \<leftarrow> getS (\<lambda>c. processName (pctx (own a c) c));
               (result, delay) \<leftarrow> IdleSystemAbility e a p (event_reason (unloadEvent req)) 0;
               if \<not> result then ret IDLE_SA_FAIL
               else if delay < 0 then ret ERR_OK
               else if delay = 0 then ability_transition e a UNLOADABLE
               else SendDelayUnloadEventLocked e a (min delay MAX_DELAY_TIME) } } } }"

definition ProcessDelayUnloadEvent :: "env \<Rightarrow> int \<Rightarrow> SamgrErrCode M" where
  "ProcessDelayUnloadEvent e a = do {
     found \<leftarrow> GetSystemAbilityContext a;
     if \<not> found then ret GET_SA_CONTEXT_FAIL
     else ProcessDelayUnloadEventLocked e a }"

text \<open>\<^verbatim>\<open>UnloadEventHandler::ProcessEvent\<close>, the body of a delayed unload task.\<close>
definition UEH_ProcessEvent :: "env \<Rightarrow> int \<Rightarrow> unit M" where
  "UEH_ProcessEvent e evId = do {
     present \<leftarrow> unload_handler_present;
     onlyif present (del_task UnloadHandler (to_string evId));
     _ \<leftarrow> ProcessDelayUnloadEvent e (to_int32 evId);
     ret () }"

definition HandleUnloadAbilityEventLocked :: "env \<Rightarrow> int \<Rightarrow> UnloadRequestInfo option \<Rightarrow> SamgrErrCode M" where
  "HandleUnloadAbilityEventLocked e a request = (case request of
       None \<Rightarrow> ret UNLOAD_REQUEST_NULL
     | Some req \<Rightarrow> do {
         modA a (\<lambda>A. A \<lparr> unloadRequest := Some req \<rparr>);
         A \<leftarrow> getS (actx a);
         case sa_state A of
           LOADING \<Rightarrow> PendUnloadEventLocked a req
         | LOADED \<Rightarrow>
             if eventId (unloadEvent req) = INTERFACE_CALL \<or> ev_name (unloadEvent req) = PARAM_LOW_MEM_PREPARE_NAME
             then ProcessDelayUnloadEventLocked e a
             else SendDelayUnloadEventLocked e a (delayUnloadTime A)
         | _ \<Rightarrow> ret ERR_OK })"

definition HandleUnloadAbilityEvent :: "env \<Rightarrow> UnloadRequestInfo option \<Rightarrow> SamgrErrCode M" where
  "HandleUnloadAbilityEvent e request = (case request of
       None \<Rightarrow> ret UNLOAD_REQUEST_NULL
     | Some req \<Rightarrow> do {
         found \<leftarrow> GetSystemAbilityContext (ur_systemAbilityId req);
         if \<not> found then ret GET_SA_CONTEXT_FAIL
         else HandleUnloadAbilityEventLocked e (ur_systemAbilityId req) request })"

definition HandlePendingUnloadEventLocked :: "env \<Rightarrow> int \<Rightarrow> SamgrErrCode M" where
  "HandlePendingUnloadEventLocked e a = do {
     A \<leftarrow> getS (actx a);
     if pendingEvent A \<noteq> UNLOAD_ABILITY_EVENT then ret ERR_OK
     else do {
       modA a (\<lambda>A. A \<lparr> pendingEvent := NO_EVENT \<rparr>);
       HandleUnloadAbilityEventLocked e a (pendingUnloadEvent A) } }"

definition HandleCancelUnloadAbilityEvent :: "env \<Rightarrow> int \<Rightarrow> SamgrErrCode M" where
  "HandleCancelUnloadAbilityEvent e a = do {
     found \<leftarrow> GetSystemAbilityContext a;
     if \<not> found then ret ERR_INVALID_VALUE
     else do {
       st \<leftarrow> getS (\<lambda>c. sa_state (actx a c));
       case st of
         UNLOADABLE \<Rightarrow> ActiveSystemAbilityLocked e a
           \<lparr> r_eventId = INTERFACE_CALL, r_name = CANCEL_UNLOAD, r_value = [], r_extraDataId = -1 \<rparr>
       | _ \<Rightarrow> ret ERR_OK } }"

definition SendAbilityStateEvent :: "env \<Rightarrow> int \<Rightarrow> AbilityStateEvent \<Rightarrow> SamgrErrCode M" where
  "SendAbilityStateEvent e a event = do {
     found \<leftarrow> GetSystemAbilityContext a;
     if \<not> found then ret ERR_INVALID_VALUE
     else HandleAbilityEventLocked e (Some (listener e)) (Some a) event }"

section \<open>A process that stops\<close>

text \<open>
  The loop replays the requests that are pending when it starts. Its body appends to the list it runs
  over only when the process is stopping or the ability is unloading, which is not the case where the
  source calls it: the process has just entered \<^verbatim>\<open>NOT_STARTED\<close> and the ability \<^verbatim>\<open>NOT_LOADED\<close>.
\<close>
definition HandlePendingLoadEventLocked :: "env \<Rightarrow> int \<Rightarrow> SamgrErrCode M" where
  "HandlePendingLoadEventLocked e a = do {
     A \<leftarrow> getS (actx a);
     if pendingEvent A \<noteq> LOAD_ABILITY_EVENT then ret ERR_OK
     else do {
       modA a (\<lambda>A. A \<lparr> pendingEvent := NO_EVENT \<rparr>);
       for_each (pendingLoadEventList A) (\<lambda>req. do { _ \<leftarrow> HandleLoadAbilityEventLocked e a req; ret () });
       modA a (\<lambda>A. A \<lparr> pendingLoadEventList := [] \<rparr>);
       modA a (\<lambda>A. A \<lparr> pendingLoadEventCountMap := [] \<rparr>);
       ret ERR_OK } }"

definition CanRestartProcessLocked :: "env \<Rightarrow> u16string \<Rightarrow> bool M" where
  "CanRestartProcessLocked e p = do {
     P \<leftarrow> getS (pctx p);
     if \<not> enableRestart P then ret False
     else do {
       curtime \<leftarrow> GetTickCount e;
       if length (restartCountsCtrl P) < RESTART_TIMES_LIMIT then do {
         modP p (\<lambda>Q. Q \<lparr> restartCountsCtrl := restartCountsCtrl P @ [curtime] \<rparr>);
         ret True }
       else if length (restartCountsCtrl P) = RESTART_TIMES_LIMIT then
         (if curtime - hd (restartCountsCtrl P) < RESTART_TIME_INTERVAL_LIMIT then do {
            modP p (\<lambda>Q. Q \<lparr> enableRestart := False \<rparr>);
            ret False }
          else do {
            modP p (\<lambda>Q. Q \<lparr> restartCountsCtrl := tl (restartCountsCtrl P @ [curtime]) \<rparr>);
            ret True })
       else ret False } }"

definition GetAbnormallyDiedAbilityLocked :: "env \<Rightarrow> u16string \<Rightarrow> int list M" where
  "GetAbnormallyDiedAbilityLocked e p = do {
     sas \<leftarrow> getS (\<lambda>c. saList (pctx p c));
     collect sas (\<lambda>a. do {
       found \<leftarrow> GetSystemAbilityContext a;
       if \<not> found then ret None
       else do {
         A \<leftarrow> getS (actx a);
         if sa_state A \<noteq> LOADED \<and> sa_state A \<noteq> LOADING then ret None
         else do {
           SendUpdateSaState (systemAbilityId A) ''crash'';
           onlyif (systemAbilityId A = SUBSYS_ACCOUNT_SYS_ABILITY_ID_BEGIN) (do {
             strongManager \<leftarrow> getS manager;
             onlyif strongManager mgr_RemoveWhiteCommonEvent });
           if \<not> isAutoRestart A then ret None
           else do {
             watermark \<leftarrow> ask (e_boolParam e);
             if watermark then ret None else ret (Some a) } } } }) }"

definition HandleAbnormallyDiedAbilityLocked :: "env \<Rightarrow> u16string \<Rightarrow> int list \<Rightarrow> SamgrErrCode M" where
  "HandleAbnormallyDiedAbilityLocked e p died = (if died = [] then ret ERR_OK
     else do {
       can \<leftarrow> CanRestartProcessLocked e p;
       if \<not> can then ret ERR_OK
       else do {
         callback \<leftarrow> ask (e_newStub e);
         for_each died (\<lambda>a. do {
           strongManager \<leftarrow> getS manager;
           onlyif strongManager (do { _ \<leftarrow> RemoveDiedSystemAbility e a; ret () });
           _ \<leftarrow> HandleLoadAbilityEventLocked e a \<lparr> deviceId = LOCAL_DEVICE, lr_callback = Some callback,
              lr_systemAbilityId = a, lr_callingPid = -1, loadEvent = mk_event INTERFACE_CALL ''restart'' [] \<rparr>;
           ret () });
         ret ERR_OK } })"

definition OnProcessStartedLocked :: "env \<Rightarrow> u16string \<Rightarrow> unit M" where
  "OnProcessStartedLocked e p = do {
     found \<leftarrow> GetSystemProcessContext p;
     if \<not> found then ret () else NotifyProcessStarted e p }"

definition OnProcessNotStartedLocked :: "env \<Rightarrow> u16string \<Rightarrow> unit M" where
  "OnProcessNotStartedLocked e p = do {
     found \<leftarrow> GetSystemProcessContext p;
     if \<not> found then ret ()
     else do {
       NotifyProcessStopped e p;
       RemoveUnloadTimeoutTask e p;
       strongManager \<leftarrow> getS manager;
       sas \<leftarrow> getS (\<lambda>c. saList (pctx p c));
       onlyif strongManager (RemoveOnDemandSaInDiedProc sas);
       died \<leftarrow> GetAbnormallyDiedAbilityLocked e p;
       for_each sas (\<lambda>a. do {
         found \<leftarrow> GetSystemAbilityContext a;
         if \<not> found then ret ()
         else do {
           result \<leftarrow> ability_transition e a NOT_LOADED;
           if result \<noteq> ERR_OK then ret ()
           else do { _ \<leftarrow> HandlePendingLoadEventLocked e a; ret () } } });
       _ \<leftarrow> HandleAbnormallyDiedAbilityLocked e p died;
       ret () } }"

definition plistener :: "env \<Rightarrow> process_listener" where
  "plistener e = \<lparr> OnProcessNotStarted = OnProcessNotStartedLocked e,
     OnProcessStarted = OnProcessStartedLocked e,
     OnProcessStopping = (\<lambda>_. ret ()) \<rparr>"

abbreviation process_transition :: "env \<Rightarrow> u16string \<Rightarrow> SystemProcessState \<Rightarrow> SamgrErrCode M" where
  "process_transition e p st \<equiv> ProcessStateTransitionLocked e (Some (plistener e)) (Some p) st"

section \<open>Unloading and killing a process\<close>

definition CheckSaIsImmediatelyRecycle :: "u16string \<Rightarrow> bool M" where
  "CheckSaIsImmediatelyRecycle p = do {
     strongManager \<leftarrow> getS manager;
     if \<not> strongManager then ret False
     else do {
       sas \<leftarrow> getS (\<lambda>c. saList (pctx p c));
       hits \<leftarrow> collect sas (\<lambda>a. do { b \<leftarrow> mgr_CheckSaIsImmediatelyRecycle a; ret (if b then Some a else None) });
       ret (hits \<noteq> []) } }"

definition CanUnloadAllSystemAbilityLocked :: "u16string \<Rightarrow> bool \<Rightarrow> bool M" where
  "CanUnloadAllSystemAbilityLocked p isNeedCheckRecycleStrategy = do {
     P \<leftarrow> getS (pctx p);
     let notLoadAbilityCount = count_of NOT_LOADED P;
     let unloadableAbilityCount = count_of UNLOADABLE P;
     let unloadingAbilityCount = count_of UNLOADING P;
     if unloadableAbilityCount = 0 \<and> unloadingAbilityCount = 0 then ret False
     else if unat (notLoadAbilityCount + unloadableAbilityCount + unloadingAbilityCount) = length (saList P) then
       (if isNeedCheckRecycleStrategy then CheckSaIsImmediatelyRecycle p else ret True)
     else ret False }"

definition CanKillSystemProcessLocked :: "u16string \<Rightarrow> bool M" where
  "CanKillSystemProcessLocked p = do {
     P \<leftarrow> getS (pctx p);
     ret (unat (count_of NOT_LOADED P) = length (saList P)) }"

definition sch_ServiceControl :: "env \<Rightarrow> string \<Rightarrow> ServiceAction \<Rightarrow> int M" where
  "sch_ServiceControl e name action = ServiceControlWithExtra e name action None"

definition KillSystemProcessLocked :: "env \<Rightarrow> u16string \<Rightarrow> SamgrErrCode M" where
  "KillSystemProcessLocked e p = do {
     _ \<leftarrow> GetTickCount e;
     n \<leftarrow> getS (\<lambda>c. processName (pctx p c));
     result \<leftarrow> sch_ServiceControl e (e_str16to8 e n) ACTION_STOP;
     _ \<leftarrow> GetTickCount e;
     ret (ext_code result) }"

definition TryKillSystemProcess :: "env \<Rightarrow> u16string option \<Rightarrow> SamgrErrCode M" where
  "TryKillSystemProcess e context = (case context of
       None \<Rightarrow> ret ERR_INVALID_VALUE
     | Some p \<Rightarrow> do {
         can \<leftarrow> CanKillSystemProcessLocked p;
         if can then KillSystemProcessLocked e p else ret ERR_OK })"

text \<open>The body of the timeout task.\<close>
definition UnloadTimeout :: "env \<Rightarrow> u16string \<Rightarrow> unit M" where
  "UnloadTimeout e p = do {
     present \<leftarrow> getS (\<lambda>c. processHandler c \<noteq> None);
     n \<leftarrow> getS (\<lambda>c. processName (pctx p c));
     onlyif present (del_task ProcessHandler (KEY_UNLOAD_TIMEOUT @ e_str16to8 e n));
     st \<leftarrow> getS (\<lambda>c. proc_state (pctx p c));
     onlyif (st = STOPPING) (do { _ \<leftarrow> KillSystemProcessLocked e p; ret () }) }"

definition UnloadAllSystemAbilityLocked :: "env \<Rightarrow> u16string \<Rightarrow> SamgrErrCode M" where
  "UnloadAllSystemAbilityLocked e p = do {
     sas \<leftarrow> getS (\<lambda>c. saList (pctx p c));
     for_each sas (\<lambda>a. do {
       found \<leftarrow> GetSystemAbilityContext a;
       if \<not> found then ret ()
       else do {
         st \<leftarrow> getS (\<lambda>c. sa_state (actx a c));
         onlyif (st = UNLOADABLE) (do { _ \<leftarrow> DoUnloadSystemAbilityLocked e a; ret () }) } });
     _ \<leftarrow> PostUnloadTimeoutTask e p;
     process_transition e p STOPPING }"

definition TryUnloadAllSystemAbility :: "env \<Rightarrow> u16string option \<Rightarrow> SamgrErrCode M" where
  "TryUnloadAllSystemAbility e context = (case context of
       None \<Rightarrow> ret ERR_INVALID_VALUE
     | Some p \<Rightarrow> do {
         can \<leftarrow> CanUnloadAllSystemAbilityLocked p True;
         if can then UnloadAllSystemAbilityLocked e p else ret ERR_OK })"

text \<open>The body shared by the loops of \<^verbatim>\<open>UnloadProcess\<close> and \<^verbatim>\<open>UnloadAllIdleSystemAbility\<close>: the last failure is the result.\<close>
fun unload_each :: "env \<Rightarrow> u16string list \<Rightarrow> SamgrErrCode \<Rightarrow> SamgrErrCode M" where
  "unload_each e [] result = ret result"
| "unload_each e (p # ps) result = do {
     can \<leftarrow> CanUnloadAllSystemAbilityLocked p False;
     r \<leftarrow> (if can then UnloadAllSystemAbilityLocked e p else ret ERR_OK);
     unload_each e ps (if r \<noteq> ERR_OK then r else result) }"

definition UnloadProcess :: "env \<Rightarrow> u16string list \<Rightarrow> SamgrErrCode M" where
  "UnloadProcess e processList = do {
     known \<leftarrow> getS (\<lambda>c. filter (\<lambda>p. sm_count p (processContextMap c)) processList);
     unload_each e known ERR_OK }"

definition UnloadAllIdleSystemAbility :: "env \<Rightarrow> SamgrErrCode M" where
  "UnloadAllIdleSystemAbility e = do {
     ps \<leftarrow> getS (\<lambda>c. sm_keys (processContextMap c));
     unload_each e ps ERR_OK }"

section \<open>Running processes and process events\<close>

definition RemoveRunningProcessLocked :: "env \<Rightarrow> u16string \<Rightarrow> unit M" where
  "RemoveRunningProcessLocked e p = do {
     n \<leftarrow> getS (\<lambda>c. e_str16to8 e (processName (pctx p c)));
     modS (\<lambda>c. c \<lparr> runningProcessList := (case find (\<lambda>i. spi_processName i = n) (runningProcessList c) of
        None \<Rightarrow> runningProcessList c
      | Some i \<Rightarrow> remove1 i (runningProcessList c)) \<rparr>) }"

fun update_first :: "('a \<Rightarrow> bool) \<Rightarrow> ('a \<Rightarrow> 'a) \<Rightarrow> 'a list \<Rightarrow> 'a list" where
  "update_first P f [] = []"
| "update_first P f (x # xs) = (if P x then f x # xs else x # update_first P f xs)"

definition AddRunningProcessLocked :: "env \<Rightarrow> u16string \<Rightarrow> unit M" where
  "AddRunningProcessLocked e p = do {
     P \<leftarrow> getS (pctx p);
     let n = e_str16to8 e (processName P);
     modS (\<lambda>c. c \<lparr> runningProcessList :=
       (if find (\<lambda>i. spi_processName i = n) (runningProcessList c) = None
        then runningProcessList c @ [process_info e P]
        else update_first (\<lambda>i. spi_processName i = n) (\<lambda>i. i \<lparr> spi_pid := pid P, spi_uid := uid P \<rparr>) (runningProcessList c)) \<rparr>) }"

definition SendProcessStateEvent :: "env \<Rightarrow> ProcessInfo \<Rightarrow> ProcessStateEvent \<Rightarrow> SamgrErrCode M" where
  "SendProcessStateEvent e processInfo event = do {
     found \<leftarrow> GetSystemProcessContext (pi_processName processInfo);
     if \<not> found then ret ERR_INVALID_VALUE
     else do {
       r \<leftarrow> HandleProcessEventLocked e (Some (plistener e)) (Some (pi_processName processInfo)) processInfo event;
       onlyif (r = ERR_OK) (case event of
           PROCESS_STARTED_EVENT \<Rightarrow> AddRunningProcessLocked e (pi_processName processInfo)
         | PROCESS_STOPPED_EVENT \<Rightarrow> RemoveRunningProcessLocked e (pi_processName processInfo));
       ret r } }"

section \<open>The invariant holds after every operation\<close>

lemmas SI_manager_ops [si_intros] = frame_sch [THEN SI_frames]

lemma SI_contexts [si_intros]:
  "preserves SI (GetSystemAbilityContext a)" "preserves SI (GetSystemProcessContext p)" "preserves SI (IsSystemAbilityUnloading a)"
  unfolding GetSystemAbilityContext_def GetSystemProcessContext_def IsSystemAbilityUnloading_def
  by (intro hoare_intros si_intros)+

lemma SI_UEH [si_intros]:
  "preserves SI unload_handler_present" "preserves SI (UEH_SendEvent e i d)" "preserves SI (UEH_RemoveEvent i)"
  "preserves SI (UEH_HasInnerEvent i)"
  unfolding UEH_SendEvent_def UEH_RemoveEvent_def UEH_HasInnerEvent_def unload_handler_present_def
  by (intro hoare_intros si_intros)+

lemma SI_unloadRequest [si_intros]: "preserves SI (modA a (\<lambda>A. A \<lparr> unloadRequest := x \<rparr>))"
  by (rule SI_modA) (simp_all add: ability_bounds_def)

lemma SI_pendingUnloadEvent [si_intros]: "preserves SI (modA a (\<lambda>A. A \<lparr> pendingUnloadEvent := x \<rparr>))"
  by (rule SI_modA) (simp_all add: ability_bounds_def)

lemma SI_pendingLoadEventList [si_intros]: "preserves SI (modA a (\<lambda>A. A \<lparr> pendingLoadEventList := g A \<rparr>))"
  by (rule SI_modA) (simp_all add: ability_bounds_def)

lemma SI_pendingLoadEventCountMap_clear [si_intros]: "preserves SI (modA a (\<lambda>A. A \<lparr> pendingLoadEventCountMap := [] \<rparr>))"
  by (rule SI_modA) (simp_all add: ability_bounds_def)

lemma SI_count_touch [si_intros]:
  "preserves SI (modA a (\<lambda>A. A \<lparr> pendingLoadEventCountMap := sm_touch 0 q (pendingLoadEventCountMap A) \<rparr>))"
  by (rule SI_modA) (auto simp: ability_bounds_def MAX_PENDING_LOAD_COUNT_def sm_get_def split: option.splits)

lemma SI_count_set:
  "n \<le> MAX_PENDING_LOAD_COUNT \<Longrightarrow>
   preserves SI (modA a (\<lambda>A. A \<lparr> pendingLoadEventCountMap := sm_upd q (\<lambda>_. n) (pendingLoadEventCountMap A) \<rparr>))"
  by (rule SI_modA) (auto simp: ability_bounds_def split: if_splits)

lemma SI_delay_unload [si_intros]:
  "preserves SI (SendDelayUnloadEventLocked e a d)" "preserves SI (RemoveDelayUnloadEventLocked a)"
  "preserves SI (PendUnloadEventLocked a r)" "preserves SI (RemovePendingUnloadEventLocked a)"
  unfolding SendDelayUnloadEventLocked_def RemoveDelayUnloadEventLocked_def PendUnloadEventLocked_def
    RemovePendingUnloadEventLocked_def
  by (intro hoare_intros si_intros)+

lemma SI_post_tasks [si_intros]:
  "preserves SI (PostTryUnloadAllAbilityTask e p)" "preserves SI (PostTryKillProcessTask e p)"
  "preserves SI (PostUnloadTimeoutTask e p)" "preserves SI (RemoveUnloadTimeoutTask e p)"
  unfolding PostTryUnloadAllAbilityTask_def PostTryKillProcessTask_def PostUnloadTimeoutTask_def RemoveUnloadTimeoutTask_def
  by (intro hoare_intros si_intros)+

lemma SI_procListenerMap [si_intros]: "preserves SI (modS (\<lambda>c. c \<lparr> procListenerMap := g c \<rparr>))"
  by (rule SI_modS) simp

lemma SI_runningProcessList [si_intros]: "preserves SI (modS (\<lambda>c. c \<lparr> runningProcessList := g c \<rparr>))"
  by (rule SI_modS) simp

lemma SI_notify [si_intros]:
  "preserves SI (NotifyProcessStarted e p)" "preserves SI (NotifyProcessStopped e p)"
  "preserves SI (NotifyProcessActivated e p)" "preserves SI (NotifyProcessIdled e p)"
  "preserves SI (IsProcessActivatedLocked p)" "preserves SI (IsProcessIdledLocked p)"
  unfolding NotifyProcessStarted_def NotifyProcessStopped_def NotifyProcessActivated_def NotifyProcessIdled_def
    IsProcessActivatedLocked_def IsProcessIdledLocked_def
  by (intro hoare_intros si_intros)+

lemma SI_OnAbilityNotLoadedLocked [si_intros]: "preserves SI (OnAbilityNotLoadedLocked e a)"
  unfolding OnAbilityNotLoadedLocked_def by (intro hoare_intros si_intros)

lemma SI_OnAbilityLoadedLocked [si_intros]: "preserves SI (OnAbilityLoadedLocked e a)"
  unfolding OnAbilityLoadedLocked_def by (intro hoare_intros si_intros)

interpretation inner_listener: ability_listener_contract "Some (listener0 e)" SI for e
  by (rule SI_contract) (auto simp: listener0_def intro!: hoare_intros si_intros)

lemma SI_DoUnloadSystemAbilityLocked [si_intros]: "preserves SI (DoUnloadSystemAbilityLocked e a)"
  unfolding DoUnloadSystemAbilityLocked_def by (intro hoare_intros si_intros inner_listener.transition)

lemma SI_OnAbilityUnloadableLocked [si_intros]: "preserves SI (OnAbilityUnloadableLocked e a)"
  unfolding OnAbilityUnloadableLocked_def by (intro hoare_intros si_intros)

interpretation sched_listener: ability_listener_contract "Some (listener e)" SI for e
  by (rule SI_contract) (auto simp: listener_def listener0_def intro!: hoare_intros si_intros)

lemmas SI_ability_transition [si_intros] = sched_listener.transition

lemma SI_PendLoadEventLocked [si_intros]: "preserves SI (PendLoadEventLocked e a req)"
  unfolding PendLoadEventLocked_def HandlePendingLoadOverflow_def Let_def
  by (intro hoare_intros si_intros SI_count_set) auto

lemma SI_load [si_intros]:
  "preserves SI (ActiveSystemAbilityLocked e a r)" "preserves SI (DoLoadSystemAbilityLocked e a req)"
  unfolding ActiveSystemAbilityLocked_def DoLoadSystemAbilityLocked_def by (intro hoare_intros si_intros)+

lemma SI_HandleLoadAbilityEventLocked [si_intros]: "preserves SI (HandleLoadAbilityEventLocked e a req)"
  unfolding HandleLoadAbilityEventLocked_def by (intro hoare_intros si_intros)

lemma SI_HandleLoadAbilityEvent [si_intros]: "preserves SI (HandleLoadAbilityEvent e req)"
  unfolding HandleLoadAbilityEvent_def by (intro hoare_intros si_intros)

lemma SI_HandleLoadAbilityEventCheck [si_intros]: "preserves SI (HandleLoadAbilityEventCheck e a x)"
  unfolding HandleLoadAbilityEventCheck_def by (intro hoare_intros si_intros)

lemma SI_ProcessDelayUnloadEventLocked [si_intros]: "preserves SI (ProcessDelayUnloadEventLocked e a)"
  unfolding ProcessDelayUnloadEventLocked_def by (intro hoare_intros si_intros)

lemma SI_delay_events [si_intros]: "preserves SI (ProcessDelayUnloadEvent e a)" "preserves SI (UEH_ProcessEvent e i)"
  unfolding ProcessDelayUnloadEvent_def UEH_ProcessEvent_def by (intro hoare_intros si_intros)+

lemma SI_HandleUnloadAbilityEventLocked [si_intros]: "preserves SI (HandleUnloadAbilityEventLocked e a r)"
  unfolding HandleUnloadAbilityEventLocked_def by (intro hoare_intros si_intros)

lemma SI_unload_events [si_intros]:
  "preserves SI (HandleUnloadAbilityEvent e r)" "preserves SI (HandlePendingUnloadEventLocked e a)"
  "preserves SI (HandleCancelUnloadAbilityEvent e a)"
  unfolding HandleUnloadAbilityEvent_def HandlePendingUnloadEventLocked_def HandleCancelUnloadAbilityEvent_def
  by (intro hoare_intros si_intros)+

lemma SI_SendAbilityStateEvent [si_intros]: "preserves SI (SendAbilityStateEvent e a ev)"
  unfolding SendAbilityStateEvent_def
  by (intro hoare_intros si_intros sched_listener.ability_event)

lemma SI_HandlePendingLoadEventLocked [si_intros]: "preserves SI (HandlePendingLoadEventLocked e a)"
  unfolding HandlePendingLoadEventLocked_def by (intro hoare_intros si_intros)

lemma SI_enableRestart [si_intros]: "preserves SI (modP p (\<lambda>P. P \<lparr> enableRestart := x \<rparr>))"
  by (rule SI_modP) (simp_all add: process_bounds_def)

lemma SI_restartCountsCtrl:
  "length xs \<le> RESTART_TIMES_LIMIT \<Longrightarrow> preserves SI (modP p (\<lambda>P. P \<lparr> restartCountsCtrl := xs \<rparr>))"
  by (rule SI_modP) (simp_all add: process_bounds_def)

lemma SI_CanRestartProcessLocked [si_intros]: "preserves SI (CanRestartProcessLocked e p)"
  unfolding CanRestartProcessLocked_def by (intro hoare_intros si_intros SI_restartCountsCtrl) auto

lemma SI_GetAbnormallyDiedAbilityLocked [si_intros]: "preserves SI (GetAbnormallyDiedAbilityLocked e p)"
  unfolding GetAbnormallyDiedAbilityLocked_def by (intro hoare_intros si_intros)

lemma SI_HandleAbnormallyDiedAbilityLocked [si_intros]: "preserves SI (HandleAbnormallyDiedAbilityLocked e p d)"
  unfolding HandleAbnormallyDiedAbilityLocked_def by (intro hoare_intros si_intros)

lemma SI_OnProcess [si_intros]: "preserves SI (OnProcessStartedLocked e p)" "preserves SI (OnProcessNotStartedLocked e p)"
  unfolding OnProcessStartedLocked_def OnProcessNotStartedLocked_def by (intro hoare_intros si_intros)+

interpretation sched_plistener: process_listener_contract "Some (plistener e)" SI for e
  by (rule process_SI_contract) (auto simp: plistener_def intro!: hoare_intros si_intros)

lemmas SI_process_transition [si_intros] = sched_plistener.transition

lemma SI_unload_checks [si_intros]:
  "preserves SI (CheckSaIsImmediatelyRecycle p)" "preserves SI (CanKillSystemProcessLocked p)"
  "preserves SI (KillSystemProcessLocked e p)"
  unfolding CheckSaIsImmediatelyRecycle_def CanKillSystemProcessLocked_def KillSystemProcessLocked_def sch_ServiceControl_def
  by (intro hoare_intros si_intros)+

lemma SI_CanUnloadAll [si_intros]: "preserves SI (CanUnloadAllSystemAbilityLocked p b)"
  unfolding CanUnloadAllSystemAbilityLocked_def Let_def by (intro hoare_intros si_intros)

lemma SI_UnloadAll [si_intros]: "preserves SI (UnloadAllSystemAbilityLocked e p)"
  unfolding UnloadAllSystemAbilityLocked_def by (intro hoare_intros si_intros)

lemma SI_unload_each [si_intros]: "preserves SI (unload_each e ps r)"
  by (induction ps arbitrary: r) (auto intro!: hoare_intros si_intros)

lemma SI_try [si_intros]:
  "preserves SI (TryUnloadAllSystemAbility e x)" "preserves SI (TryKillSystemProcess e x)" "preserves SI (UnloadTimeout e p)"
  "preserves SI (UnloadProcess e ps)" "preserves SI (UnloadAllIdleSystemAbility e)"
  unfolding TryUnloadAllSystemAbility_def TryKillSystemProcess_def UnloadTimeout_def UnloadProcess_def
    UnloadAllIdleSystemAbility_def
  by (intro hoare_intros si_intros)+

lemma SI_running [si_intros]: "preserves SI (RemoveRunningProcessLocked e p)" "preserves SI (AddRunningProcessLocked e p)"
  unfolding RemoveRunningProcessLocked_def AddRunningProcessLocked_def Let_def by (intro hoare_intros si_intros)+

lemma preserves_case_process_event [hoare_intros]:
  "(x = PROCESS_STARTED_EVENT \<Longrightarrow> preserves P a) \<Longrightarrow> (x = PROCESS_STOPPED_EVENT \<Longrightarrow> preserves P b) \<Longrightarrow>
   preserves P (case x of PROCESS_STARTED_EVENT \<Rightarrow> a | PROCESS_STOPPED_EVENT \<Rightarrow> b)"
  by (cases x) auto

lemma SI_SendProcessStateEvent [si_intros]: "preserves SI (SendProcessStateEvent e i ev)"
  unfolding SendProcessStateEvent_def
  by (intro hoare_intros si_intros sched_plistener.process_event)

end
