(* ===== verification/Scheduler_Admin.thy ===== *)
theory Scheduler_Admin
  imports Scheduler
begin

text \<open>
  The rest of \<^verbatim>\<open>system_ability_state_scheduler.cpp\<close>: building the contexts from the profiles, the
  adaptive unload delay, the enable-once bookkeeping of on-demand events, process subscriptions,
  queries, and the recovery from an overflow of pending load requests.
\<close>

section \<open>Initialisation\<close>

definition zero_counts :: "(SystemAbilityState, 32 word) smap" where
  "zero_counts = [(NOT_LOADED, 0), (LOADING, 0), (LOADED, 0), (UNLOADABLE, 0), (UNLOADING, 0)]"

definition InitStateContext :: "SaProfile list \<Rightarrow> unit M" where
  "InitStateContext saProfiles = for_each saProfiles (\<lambda>pr.
     if process pr = [] then ret ()
     else do {
       known \<leftarrow> getS (\<lambda>c. sm_count (process pr) (processContextMap c));
       onlyif (\<not> known) (modS (\<lambda>c. c \<lparr> processContextMap := sm_ins (process pr)
          (new_process_context \<lparr> processName := process pr, abilityStateCountMap := zero_counts \<rparr>) (processContextMap c) \<rparr>));
       modP (process pr) (\<lambda>P. P \<lparr> saList := saList P @ [saId pr] \<rparr>);
       modP (process pr) (\<lambda>P. P \<lparr> abilityStateCountMap := sm_upd NOT_LOADED (\<lambda>n. n + 1) (abilityStateCountMap P) \<rparr>);
       modS (\<lambda>c. c \<lparr> abilityContextMap := sm_ins (saId pr)
          (new_ability_context \<lparr> systemAbilityId := saId pr, isAutoRestart := autoRestart pr,
             independentUnload := sp_independentUnload pr,
             delayUnloadTime := LimitDelayUnloadTime (delayTime (stopOnDemand pr)),
             ownProcessContext := Some (process pr) \<rparr>) (abilityContextMap c) \<rparr>) })"

definition lowmem_states :: "SaProfile list \<Rightarrow> (u16string, bool) smap" where
  "lowmem_states saProfiles = foldl (\<lambda>m pr.
     if process pr = [] then m
     else if recycleStrategy pr = IMMEDIATELY then sm_ins (process pr) False m
     else sm_touch True (process pr) m) [] saProfiles"

definition InitLowMemProcessList :: "SaProfile list \<Rightarrow> unit M" where
  "InitLowMemProcessList saProfiles = modS (\<lambda>c. c \<lparr> lowMemoryProcessList :=
     lowMemoryProcessList c @ map fst (filter snd (lowmem_states saProfiles)) \<rparr>)"

definition InitSamgrProcessContext :: "env \<Rightarrow> unit M" where
  "InitSamgrProcessContext e = do {
     let P = new_process_context \<lparr> processName := SAMGR_PROCESS_NAME,
       abilityStateCountMap := sm_upd LOADED (\<lambda>_. 1) zero_counts, pid := e_getpid e, uid := e_getuid e,
       saList := [0], proc_state := STARTED \<rparr>;
     modS (\<lambda>c. c \<lparr> processContextMap := sm_ins SAMGR_PROCESS_NAME P (processContextMap c) \<rparr>);
     modS (\<lambda>c. c \<lparr> runningProcessList := runningProcessList c @ [process_info e P] \<rparr>);
     modS (\<lambda>c. c \<lparr> abilityContextMap := sm_ins 0
       (new_ability_context \<lparr> systemAbilityId := 0, isAutoRestart := False, delayUnloadTime := MAX_DELAY_TIME,
          ownProcessContext := Some SAMGR_PROCESS_NAME \<rparr>) (abilityContextMap c) \<rparr>) }"

definition QOS_DEFAULT :: int where "QOS_DEFAULT = 2"

definition sch_Init :: "SaProfile list \<Rightarrow> unit M" where
  "sch_Init saProfiles = do {
     InitStateContext saProfiles;
     InitLowMemProcessList saProfiles;
     modS (\<lambda>c. c \<lparr> processListenerDeath := True \<rparr>);
     modS (\<lambda>c. c \<lparr> unloadEventHandler := Some (Some (FFRTHandler QOS_DEFAULT)) \<rparr>);
     modS (\<lambda>c. c \<lparr> processHandler := Some (FFRTHandler QOS_DEFAULT) \<rparr>);
     modS (\<lambda>c. c \<lparr> recoverHandler := Some (FFRTHandler QOS_DEFAULT) \<rparr>) }"

definition sch_CleanFfrt :: "unit M" where
  "sch_CleanFfrt = do {
     modS (\<lambda>c. c \<lparr> processHandler := map_option CleanFfrt (processHandler c) \<rparr>);
     modS (\<lambda>c. c \<lparr> unloadEventHandler := map_option (map_option CleanFfrt) (unloadEventHandler c) \<rparr>);
     modS (\<lambda>c. c \<lparr> recoverHandler := map_option CleanFfrt (recoverHandler c) \<rparr>) }"

definition sch_SetFfrt :: "unit M" where
  "sch_SetFfrt = do {
     modS (\<lambda>c. c \<lparr> processHandler := map_option (SetFfrt QOS_DEFAULT) (processHandler c) \<rparr>);
     modS (\<lambda>c. c \<lparr> unloadEventHandler := map_option (map_option (SetFfrt QOS_DEFAULT)) (unloadEventHandler c) \<rparr>);
     modS (\<lambda>c. c \<lparr> recoverHandler := map_option (SetFfrt QOS_DEFAULT) (recoverHandler c) \<rparr>) }"

definition CleanResource :: "unit M" where
  "CleanResource = modS (\<lambda>c. c \<lparr> abilityContextMap := [] \<rparr>)"

section \<open>Adaptive unload delay\<close>

definition UpdateLimitDelayUnloadTime :: "env \<Rightarrow> int \<Rightarrow> unit M" where
  "UpdateLimitDelayUnloadTime e a = do {
     present \<leftarrow> getS (\<lambda>c. processHandler c \<noteq> None);
     if \<not> present then ret ()
     else do { _ \<leftarrow> post e ProcessHandler (UpdateDelayUnloadTimeTask a); ret () } }"

definition UpdateLimitDelayUnloadTimeTask :: "env \<Rightarrow> int \<Rightarrow> unit M" where
  "UpdateLimitDelayUnloadTimeTask e a = do {
     found \<leftarrow> GetSystemAbilityContext a;
     if \<not> found then ret ()
     else do {
       A \<leftarrow> getS (actx a);
       onlyif (lastStartTime A \<noteq> 0) (do {
         end' \<leftarrow> GetTickCount e;
         onlyif (end' - lastStartTime A \<le> MAX_DURATION)
           (modA a (\<lambda>B. B \<lparr> delayUnloadTime := LimitDelayUnloadTime (to_int32 (delayUnloadTime A + ONCE_DELAY_TIME)) \<rparr>)) });
       now \<leftarrow> GetTickCount e;
       modA a (\<lambda>B. B \<lparr> lastStartTime := now \<rparr>) } }"

section \<open>Enable-once\<close>

definition IsSameEvent :: "OnDemandEvent \<Rightarrow> OnDemandEvent list \<Rightarrow> bool" where
  "IsSameEvent event enableOnceList \<longleftrightarrow> list_ex (\<lambda>i. eventId event = eventId i \<and> ev_name event = ev_name i
     \<and> ev_value event = ev_value i) enableOnceList"

text \<open>\<^verbatim>\<open>events.remove(event); if (events.empty()) map.erase(saId)\<close>\<close>
definition forget_event :: "OnDemandEvent \<Rightarrow> int \<Rightarrow> (int, OnDemandEvent list) smap \<Rightarrow> (int, OnDemandEvent list) smap" where
  "forget_event event a m = (let es = filter (\<lambda>i. \<not> event_eq i event) (sm_get [] a m)
     in if es = [] then sm_erase a m else sm_ins a es m)"

definition remember_event :: "OnDemandEvent \<Rightarrow> int \<Rightarrow> (int, OnDemandEvent list) smap \<Rightarrow> (int, OnDemandEvent list) smap" where
  "remember_event event a m = sm_ins a (sm_get [] a m @ [event]) m"

definition seen_event :: "OnDemandEvent \<Rightarrow> int \<Rightarrow> (int, OnDemandEvent list) smap \<Rightarrow> bool" where
  "seen_event event a m \<longleftrightarrow> sm_count a m \<and> IsSameEvent event (sm_get [] a m)"

definition CheckStartEnableOnce :: "env \<Rightarrow> OnDemandEvent \<Rightarrow> SaControlInfo \<Rightarrow> iface \<Rightarrow> SamgrErrCode M" where
  "CheckStartEnableOnce e event saControl callback = do {
     seen \<leftarrow> getS (\<lambda>c. seen_event event (sc_saId saControl) (startEnableOnceMap c));
     if sc_enableOnce saControl \<and> seen then ret ERR_INVALID_VALUE
     else do {
       onlyif (sc_enableOnce saControl)
         (modS (\<lambda>c. c \<lparr> startEnableOnceMap := remember_event event (sc_saId saControl) (startEnableOnceMap c) \<rparr>));
       result \<leftarrow> HandleLoadAbilityEvent e \<lparr> deviceId = LOCAL_DEVICE, lr_callback = Some callback,
         lr_systemAbilityId = sc_saId saControl, lr_callingPid = e_callingPid e, loadEvent = event \<rparr>;
       onlyif (sc_enableOnce saControl \<and> result \<noteq> ERR_OK)
         (modS (\<lambda>c. c \<lparr> startEnableOnceMap := forget_event event (sc_saId saControl) (startEnableOnceMap c) \<rparr>));
       ret result } }"

definition CheckStopEnableOnce :: "env \<Rightarrow> OnDemandEvent \<Rightarrow> SaControlInfo \<Rightarrow> SamgrErrCode M" where
  "CheckStopEnableOnce e event saControl = do {
     seen \<leftarrow> getS (\<lambda>c. seen_event event (sc_saId saControl) (stopEnableOnceMap c));
     if sc_enableOnce saControl \<and> seen then ret ERR_INVALID_VALUE
     else do {
       onlyif (sc_enableOnce saControl)
         (modS (\<lambda>c. c \<lparr> stopEnableOnceMap := remember_event event (sc_saId saControl) (stopEnableOnceMap c) \<rparr>));
       result \<leftarrow> HandleUnloadAbilityEvent e (Some \<lparr> unloadEvent = event, ur_systemAbilityId = sc_saId saControl,
         ur_callingPid = e_callingPid e \<rparr>);
       onlyif (sc_enableOnce saControl \<and> result \<noteq> ERR_OK)
         (modS (\<lambda>c. c \<lparr> stopEnableOnceMap := forget_event event (sc_saId saControl) (stopEnableOnceMap c) \<rparr>));
       ret result } }"

definition CheckEnableOnce :: "env \<Rightarrow> OnDemandEvent \<Rightarrow> SaControlInfo list \<Rightarrow> unit M" where
  "CheckEnableOnce e event saControlList = do {
     callback \<leftarrow> ask (e_newStub e);
     for_each saControlList (\<lambda>saControl.
       if ondemandId saControl = START_ON_DEMAND then do { _ \<leftarrow> CheckStartEnableOnce e event saControl callback; ret () }
       else if ondemandId saControl = STOP_ON_DEMAND then do { _ \<leftarrow> CheckStopEnableOnce e event saControl; ret () }
       else ret ()) }"

section \<open>Process subscriptions\<close>

definition same_object :: "iface \<Rightarrow> ProcessListener \<Rightarrow> bool" where
  "same_object l i \<longleftrightarrow> AsObject (pl_listener i) = AsObject l"

definition sch_SubscribeSystemProcess :: "iface option \<Rightarrow> bool \<Rightarrow> SamgrErrCode M" where
  "sch_SubscribeSystemProcess listener' foregroundOnly = (case listener' of
       None \<Rightarrow> ret ERR_INVALID_VALUE
     | Some l \<Rightarrow>
         if AsObject l = None then ret ERR_INVALID_VALUE
         else do {
           items \<leftarrow> getS processListeners;
           (if \<not> list_ex (same_object l) items then do {
              d \<leftarrow> getS processListenerDeath;
              onlyif d (add_death (AsObject l) ProcessListenerDeath);
              modS (\<lambda>c. c \<lparr> processListeners := processListeners c @ [\<lparr> pl_listener = l,
                hasDirectSubscription = \<not> foregroundOnly, hasForegroundSubscription = foregroundOnly \<rparr>] \<rparr>) }
            else modS (\<lambda>c. c \<lparr> processListeners := update_first (same_object l)
              (\<lambda>i. if foregroundOnly then i \<lparr> hasForegroundSubscription := True \<rparr> else i \<lparr> hasDirectSubscription := True \<rparr>)
              (processListeners c) \<rparr>));
           ret ERR_OK })"

definition sch_UnSubscribeSystemProcess :: "iface option \<Rightarrow> bool \<Rightarrow> SamgrErrCode M" where
  "sch_UnSubscribeSystemProcess listener' foregroundOnly = (case listener' of
       None \<Rightarrow> ret ERR_INVALID_VALUE
     | Some l \<Rightarrow>
         if AsObject l = None then ret ERR_INVALID_VALUE
         else do {
           items \<leftarrow> getS processListeners;
           (case find (same_object l) items of
              None \<Rightarrow> ret ()
            | Some i \<Rightarrow> do {
                let i' = (if foregroundOnly then i \<lparr> hasForegroundSubscription := False \<rparr> else i \<lparr> hasDirectSubscription := False \<rparr>);
                if \<not> hasDirectSubscription i' \<and> \<not> hasForegroundSubscription i' then do {
                  d \<leftarrow> getS processListenerDeath;
                  onlyif d (remove_death (AsObject l) ProcessListenerDeath);
                  modS (\<lambda>c. c \<lparr> processListeners := remove1 i (processListeners c) \<rparr>) }
                else modS (\<lambda>c. c \<lparr> processListeners := update_first (same_object l) (\<lambda>_. i') (processListeners c) \<rparr>) });
           ret ERR_OK })"

text \<open>\<^verbatim>\<open>UnSubscribeSystemProcess(remoteObject)\<close>, called when a listener's process dies.\<close>
definition sch_UnSubscribeSystemProcessDied :: "obj option \<Rightarrow> unit M" where
  "sch_UnSubscribeSystemProcessDied remoteObject = (case remoteObject of
       None \<Rightarrow> ret ()
     | Some x \<Rightarrow> modS (\<lambda>c. c \<lparr> processListeners :=
         filter (\<lambda>i. AsObject (pl_listener i) \<noteq> Some x) (processListeners c) \<rparr>))"

fun subscribe_loop :: "env \<Rightarrow> iface \<Rightarrow> u16string list \<Rightarrow> SamgrErrCode M" where
  "subscribe_loop e l [] = ret ERR_OK"
| "subscribe_loop e l (p # ps) = do {
     found \<leftarrow> GetSystemProcessContext p;
     if \<not> found then subscribe_loop e l ps
     else do {
       modS (\<lambda>c. c \<lparr> procListenerMap := sm_touch [] p (procListenerMap c) \<rparr>);
       ls \<leftarrow> getS (\<lambda>c. sm_get [] p (procListenerMap c));
       if l \<in> set ls then subscribe_loop e l ps
       else do {
         modS (\<lambda>c. c \<lparr> subscribeProcCountMap := sm_touch 0 (e_callingPid e) (subscribeProcCountMap c) \<rparr>);
         count \<leftarrow> getS (\<lambda>c. sm_get 0 (e_callingPid e) (subscribeProcCountMap c));
         if count \<ge> MAX_SUBSCRIBE_COUNT then ret ERR_PERMISSION_DENIED
         else do {
           d \<leftarrow> getS processListenerDeath;
           onlyif d (do {
             add_death (AsObject l) ProcessListenerDeath;
             modS (\<lambda>c. c \<lparr> procListenerMap := sm_ins p (ls @ [l]) (procListenerMap c) \<rparr>);
             modS (\<lambda>c. c \<lparr> subscribeProcCountMap := sm_ins (e_callingPid e) (count + 1) (subscribeProcCountMap c) \<rparr>) });
           subscribe_loop e l ps } } } }"

definition SubscribeSystemProcessList :: "env \<Rightarrow> u16string list \<Rightarrow> iface option \<Rightarrow> SamgrErrCode M" where
  "SubscribeSystemProcessList e procNames listener' = (case listener' of
       None \<Rightarrow> ret ERR_INVALID_VALUE | Some l \<Rightarrow> subscribe_loop e l procNames)"

definition UnSubscribeSystemProcessListLocked :: "env \<Rightarrow> u16string \<Rightarrow> obj option \<Rightarrow> unit M" where
  "UnSubscribeSystemProcessListLocked e p ob = do {
     ls \<leftarrow> getS (\<lambda>c. sm_get [] p (procListenerMap c));
     case find (\<lambda>i. AsObject i = ob) ls of
       None \<Rightarrow> ret ()
     | Some i \<Rightarrow> do {
         modS (\<lambda>c. c \<lparr> procListenerMap := sm_ins p (remove1 i ls) (procListenerMap c) \<rparr>);
         n \<leftarrow> getS (\<lambda>c. sm_find (e_callingPid e) (subscribeProcCountMap c));
         case n of
           None \<Rightarrow> ret ()
         | Some k \<Rightarrow> modS (\<lambda>c. c \<lparr> subscribeProcCountMap :=
             (if k - 1 \<le> 0 then sm_erase (e_callingPid e) (subscribeProcCountMap c)
              else sm_ins (e_callingPid e) (k - 1) (subscribeProcCountMap c)) \<rparr>) } }"

definition UnSubscribeSystemProcessList :: "env \<Rightarrow> u16string list \<Rightarrow> iface option \<Rightarrow> SamgrErrCode M" where
  "UnSubscribeSystemProcessList e procNames listener' = (case listener' of
       None \<Rightarrow> ret ERR_INVALID_VALUE
     | Some l \<Rightarrow> do {
         for_each procNames (\<lambda>p. do {
           watched \<leftarrow> getS (\<lambda>c. sm_count p (procListenerMap c));
           if \<not> watched then ret ()
           else do {
             UnSubscribeSystemProcessListLocked e p (AsObject l);
             d \<leftarrow> getS processListenerDeath;
             onlyif d (remove_death (AsObject l) ProcessListenerDeath) } });
         ret ERR_OK })"

definition sch_SubscribeLowMemSystemProcess :: "env \<Rightarrow> iface option \<Rightarrow> SamgrErrCode M" where
  "sch_SubscribeLowMemSystemProcess e listener' = (if listener' = None then ret ERR_INVALID_VALUE
     else do { ps \<leftarrow> getS lowMemoryProcessList; SubscribeSystemProcessList e ps listener' })"

definition sch_UnSubscribeLowMemSystemProcess :: "env \<Rightarrow> iface option \<Rightarrow> SamgrErrCode M" where
  "sch_UnSubscribeLowMemSystemProcess e listener' = (if listener' = None then ret ERR_INVALID_VALUE
     else do { ps \<leftarrow> getS lowMemoryProcessList; UnSubscribeSystemProcessList e ps listener' })"

section \<open>Queries\<close>

definition sch_GetSystemProcessInfo :: "env \<Rightarrow> int \<Rightarrow> (SamgrErrCode \<times> SystemProcessInfo option) M" where
  "sch_GetSystemProcessInfo e a = do {
     found \<leftarrow> GetSystemAbilityContext a;
     if \<not> found then ret (ERR_INVALID_VALUE, None)
     else do {
       P \<leftarrow> getS (\<lambda>c. pctx (own a c) c);
       ret (ERR_OK, Some (process_info e P)) } }"

definition sch_GetRunningSystemProcess :: "(SamgrErrCode \<times> SystemProcessInfo list) M" where
  "sch_GetRunningSystemProcess = do { ps \<leftarrow> getS runningProcessList; ret (ERR_OK, ps) }"

definition GetProcessNameByProcessId :: "int \<Rightarrow> (SamgrErrCode \<times> u16string) M" where
  "GetProcessNameByProcessId i = getS (\<lambda>c. case find (\<lambda>(p, P). pid P = i) (processContextMap c) of
     None \<Rightarrow> (ERR_INVALID_VALUE, []) | Some (p, P) \<Rightarrow> (ERR_OK, processName P))"

definition GetIdleProcessInfo :: "env \<Rightarrow> int \<Rightarrow> IdleProcessInfo option M" where
  "GetIdleProcessInfo e a = do {
     found \<leftarrow> GetSystemAbilityContext a;
     if \<not> found then ret None
     else do {
       A \<leftarrow> getS (actx a);
       P \<leftarrow> getS (\<lambda>c. pctx (own a c) c);
       if sa_state A \<noteq> UNLOADABLE \<or> proc_state P = NOT_STARTED then ret None
       else do {
         recent \<leftarrow> (if lastStopTime P \<noteq> -1 then do { now \<leftarrow> GetTickCount e; ret (now - lastStopTime P < TWO_MINUTES_MS) }
                    else ret False);
         if recent then ret None
         else ret (Some \<lparr> ipi_pid = pid P, ipi_processName = processName P, ipi_lastIdleTime = lastIdleTime A \<rparr>) } } }"

definition IsSystemProcessCanUnload :: "u16string \<Rightarrow> bool M" where
  "IsSystemProcessCanUnload p = do {
     found \<leftarrow> GetSystemProcessContext p;
     if \<not> found then ret False else CanUnloadAllSystemAbilityLocked p False }"

definition HandleAbilityDiedEvent :: "int \<Rightarrow> SamgrErrCode M" where
  "HandleAbilityDiedEvent a = ret ERR_OK"

section \<open>The invariant\<close>

lemma LimitDelayUnloadTime_bounds [simp]: "0 \<le> LimitDelayUnloadTime t" "LimitDelayUnloadTime t \<le> MAX_DELAY_TIME"
  by (auto simp: LimitDelayUnloadTime_def MAX_DELAY_TIME_def)

lemma SI_delayUnloadTime [si_intros]: "preserves SI (modA a (\<lambda>A. A \<lparr> delayUnloadTime := LimitDelayUnloadTime t \<rparr>))"
  by (rule SI_modA) (simp_all add: ability_bounds_def)

lemma SI_lastStartTime [si_intros]: "preserves SI (modA a (\<lambda>A. A \<lparr> lastStartTime := t \<rparr>))"
  by (rule SI_modA) (simp_all add: ability_bounds_def)

lemma SI_tables [si_intros]:
  "preserves SI (modS (\<lambda>c. c \<lparr> startEnableOnceMap := f1 c \<rparr>))" "preserves SI (modS (\<lambda>c. c \<lparr> stopEnableOnceMap := f1 c \<rparr>))"
  "preserves SI (modS (\<lambda>c. c \<lparr> processListeners := f2 c \<rparr>))" "preserves SI (modS (\<lambda>c. c \<lparr> subscribeProcCountMap := f3 c \<rparr>))"
  "preserves SI (modS (\<lambda>c. c \<lparr> lowMemoryProcessList := f4 c \<rparr>))" "preserves SI (modS (\<lambda>c. c \<lparr> processListenerDeath := f5 c \<rparr>))"
  "preserves SI (modS (\<lambda>c. c \<lparr> unloadEventHandler := f6 c \<rparr>))" "preserves SI (modS (\<lambda>c. c \<lparr> processHandler := f7 c \<rparr>))"
  "preserves SI (modS (\<lambda>c. c \<lparr> recoverHandler := f8 c \<rparr>))"
  by (rule SI_modS; simp)+

lemma SI_update_delay [si_intros]:
  "preserves SI (UpdateLimitDelayUnloadTime e a)" "preserves SI (UpdateLimitDelayUnloadTimeTask e a)"
  unfolding UpdateLimitDelayUnloadTime_def UpdateLimitDelayUnloadTimeTask_def by (intro hoare_intros si_intros)+

lemma SI_enable_once [si_intros]:
  "preserves SI (CheckStartEnableOnce e ev sc cb)" "preserves SI (CheckStopEnableOnce e ev sc)"
  unfolding CheckStartEnableOnce_def CheckStopEnableOnce_def by (intro hoare_intros si_intros)+

lemma SI_CheckEnableOnce [si_intros]: "preserves SI (CheckEnableOnce e ev scs)"
  unfolding CheckEnableOnce_def by (intro hoare_intros si_intros)

lemma SI_subscribe [si_intros]:
  "preserves SI (sch_SubscribeSystemProcess l b)" "preserves SI (sch_UnSubscribeSystemProcess l b)"
  "preserves SI (sch_UnSubscribeSystemProcessDied ob)"
  unfolding sch_SubscribeSystemProcess_def sch_UnSubscribeSystemProcess_def sch_UnSubscribeSystemProcessDied_def Let_def
  by (intro hoare_intros si_intros)+

lemma SI_subscribe_loop [si_intros]: "preserves SI (subscribe_loop e l ps)"
  by (induction ps) (auto intro!: hoare_intros si_intros)

lemma SI_subscribe_list [si_intros]:
  "preserves SI (SubscribeSystemProcessList e ps l)" "preserves SI (UnSubscribeSystemProcessListLocked e p ob)"
  "preserves SI (UnSubscribeSystemProcessList e ps l)" "preserves SI (sch_SubscribeLowMemSystemProcess e l)"
  "preserves SI (sch_UnSubscribeLowMemSystemProcess e l)"
  unfolding SubscribeSystemProcessList_def UnSubscribeSystemProcessListLocked_def UnSubscribeSystemProcessList_def
    sch_SubscribeLowMemSystemProcess_def sch_UnSubscribeLowMemSystemProcess_def
  by (intro hoare_intros si_intros)+

lemma SI_queries [si_intros]:
  "preserves SI (sch_GetSystemProcessInfo e a)" "preserves SI sch_GetRunningSystemProcess" "preserves SI (GetProcessNameByProcessId i)"
  "preserves SI (GetIdleProcessInfo e a)" "preserves SI (IsSystemProcessCanUnload p)" "preserves SI (HandleAbilityDiedEvent a)"
  unfolding sch_GetSystemProcessInfo_def sch_GetRunningSystemProcess_def GetProcessNameByProcessId_def GetIdleProcessInfo_def
    IsSystemProcessCanUnload_def HandleAbilityDiedEvent_def
  by (intro hoare_intros si_intros)+

lemma SI_ffrt [si_intros]: "preserves SI sch_CleanFfrt" "preserves SI sch_SetFfrt"
  unfolding sch_CleanFfrt_def sch_SetFfrt_def by (intro hoare_intros si_intros)+

subsection \<open>Initialisation establishes it\<close>

lemma counts_ok_add:
  assumes ok: "counts_ok c" and new: "sm_find a (abilityContextMap c) = None"
    and p: "p \<noteq> SAMGR_PROCESS_NAME"
    and P: "P = (case sm_find p (processContextMap c) of Some P \<Rightarrow> P
      | None \<Rightarrow> new_process_context \<lparr> processName := p, abilityStateCountMap := zero_counts \<rparr>)"
    and len: "length (saList P) + 1 < 2 ^ 32"
    and A: "ownProcessContext A = Some p" "sa_state A = NOT_LOADED" "systemAbilityId A = a"
    and la: "\<And>b. sm_find b (abilityContextMap c') = (if b = a then Some A else sm_find b (abilityContextMap c))"
    and lp: "\<And>q. sm_find q (processContextMap c') = (if q = p then Some (P \<lparr> saList := saList P @ [a],
      abilityStateCountMap := sm_upd NOT_LOADED (\<lambda>n. n + 1) (abilityStateCountMap P) \<rparr>) else sm_find q (processContextMap c))"
  shows "counts_ok c'"
proof -
  have st: "sa_state (actx b c') = (if b = a then NOT_LOADED else sa_state (actx b c))" for b
    by (simp add: actx_def sm_get_def la A)
  have same: "in_state c' u as = in_state c u as" if "a \<notin> set as" for u as
    using that by (intro in_state_cong) (auto simp: st)
  have okP: "process_ok c p P"
  proof (cases "sm_find p (processContextMap c)")
    case None
    moreover have "\<exists>n. sm_find st zero_counts = Some n \<and> unat n = 0" for st
      by (cases st) (simp_all add: zero_counts_def sm_find_def)
    ultimately show ?thesis
      unfolding P by (simp add: process_ok_def new_process_context_def in_state_def)
  next
    case (Some Q)
    then show ?thesis using ok p unfolding P by (simp add: counts_ok_def)
  qed
  have fresh: "a \<notin> set (saList Q)" if "process_ok c q Q" for q Q
    using that new by (auto simp: process_ok_def)
  have ownership: "\<exists>B. sm_find b (abilityContextMap c') = Some B \<and> ownProcessContext B = Some q"
    if "process_ok c q Q" "b \<in> set (saList Q)" for q Q b
    using that new by (auto simp: process_ok_def la)
  have "process_ok c' q Q" if Q: "sm_find q (processContextMap c') = Some Q" and q: "q \<noteq> SAMGR_PROCESS_NAME" for q Q
  proof (cases "q = p")
    case False
    with Q q ok have okQ: "process_ok c q Q" by (simp add: lp counts_ok_def)
    with same [OF fresh [OF okQ]] ownership [OF okQ] show ?thesis by (simp add: process_ok_def)
  next
    case True
    let ?k = "sm_upd NOT_LOADED (\<lambda>n. n + 1) (abilityStateCountMap P)"
    have cnt: "in_state c' u (saList P @ [a]) = in_state c u (saList P) + (if u = NOT_LOADED then 1 else 0)" for u
    proof -
      have "in_state c' u (saList P @ [a]) = in_state c' u (saList P) + in_state c' u [a]"
        by (simp add: in_state_def)
      then show ?thesis using same [OF fresh [OF okP], of u] by (simp add: in_state_Cons st) (simp add: in_state_def)
    qed
    have "\<exists>n. sm_find u ?k = Some n \<and> unat n = in_state c' u (saList P @ [a])" for u
    proof -
      from okP obtain n where n: "sm_find u (abilityStateCountMap P) = Some n" "unat n = in_state c u (saList P)"
        by (auto simp: process_ok_def)
      then have "unat n + 1 < 2 ^ 32" using in_state_le [of c u "saList P"] len by linarith
      then show ?thesis using n cnt [of u] unat_inc [of n] by auto
    qed
    with True Q okP len fresh [OF okP] ownership [OF okP] A(1) show ?thesis
      by (auto simp: process_ok_def lp la)
  qed
  moreover have "ability_linked c' b B" if B: "sm_find b (abilityContextMap c') = Some B" for b B
  proof (cases "b = a")
    case True
    with B A show ?thesis by (simp add: ability_linked_def la lp)
  next
    case False
    with B ok have "ability_linked c b B" by (simp add: la counts_ok_def)
    then obtain q Q where "ownProcessContext B = Some q" "sm_find q (processContextMap c) = Some Q" "b \<in> set (saList Q)"
      "systemAbilityId B = b"
      by (auto simp: ability_linked_def)
    then show ?thesis by (cases "q = p") (auto simp: ability_linked_def lp P)
  qed
  ultimately show ?thesis by (simp add: counts_ok_def)
qed

text \<open>One profile.\<close>
definition init_one :: "SaProfile \<Rightarrow> unit M" where
  "init_one pr = do {
       known \<leftarrow> getS (\<lambda>c. sm_count (process pr) (processContextMap c));
       onlyif (\<not> known) (modS (\<lambda>c. c \<lparr> processContextMap := sm_ins (process pr)
          (new_process_context \<lparr> processName := process pr, abilityStateCountMap := zero_counts \<rparr>) (processContextMap c) \<rparr>));
       modP (process pr) (\<lambda>P. P \<lparr> saList := saList P @ [saId pr] \<rparr>);
       modP (process pr) (\<lambda>P. P \<lparr> abilityStateCountMap := sm_upd NOT_LOADED (\<lambda>n. n + 1) (abilityStateCountMap P) \<rparr>);
       modS (\<lambda>c. c \<lparr> abilityContextMap := sm_ins (saId pr)
          (new_ability_context \<lparr> systemAbilityId := saId pr, isAutoRestart := autoRestart pr,
             independentUnload := sp_independentUnload pr,
             delayUnloadTime := LimitDelayUnloadTime (delayTime (stopOnDemand pr)),
             ownProcessContext := Some (process pr) \<rparr>) (abilityContextMap c) \<rparr>) }"

lemma InitStateContext_Cons:
  "InitStateContext (pr # prs) = do { (if process pr = [] then ret () else init_one pr); InitStateContext prs }"
  by (simp add: InitStateContext_def init_one_def)

text \<open>No process gets more abilities than there are profiles.\<close>
definition sas_le :: "nat \<Rightarrow> scheduler \<Rightarrow> bool" where
  "sas_le n c \<longleftrightarrow> (\<forall>p P. sm_find p (processContextMap c) = Some P \<longrightarrow> length (saList P) \<le> n)"

lemma init_one_step:
  assumes SI: "SI s" and le: "sas_le n (sch s)" and n: "n + 1 < 2 ^ 32"
    and new: "sm_find (saId pr) (abilityContextMap (sch s)) = None" and p: "process pr \<noteq> SAMGR_PROCESS_NAME"
  shows "SI (exec (init_one pr) s)" "sas_le (n + 1) (sch (exec (init_one pr) s))"
    "sm_find b (abilityContextMap (sch (exec (init_one pr) s))) = None \<longleftrightarrow>
       b \<noteq> saId pr \<and> sm_find b (abilityContextMap (sch s)) = None"
proof -
  let ?p = "process pr" and ?a = "saId pr" and ?c = "sch s" and ?c' = "sch (exec (init_one pr) s)"
  define A where "A = new_ability_context \<lparr> systemAbilityId := ?a, isAutoRestart := autoRestart pr,
    independentUnload := sp_independentUnload pr, delayUnloadTime := LimitDelayUnloadTime (delayTime (stopOnDemand pr)),
    ownProcessContext := Some ?p \<rparr>"
  define P where "P = (case sm_find ?p (processContextMap ?c) of Some P \<Rightarrow> P
      | None \<Rightarrow> new_process_context \<lparr> processName := ?p, abilityStateCountMap := zero_counts \<rparr>)"
  have la: "sm_find b (abilityContextMap ?c') = (if b = ?a then Some A else sm_find b (abilityContextMap ?c))" for b
    by (simp add: init_one_def run_simps getS_def modP_def modS_def A_def)
  have lp: "sm_find q (processContextMap ?c') = (if q = ?p then Some (P \<lparr> saList := saList P @ [?a],
      abilityStateCountMap := sm_upd NOT_LOADED (\<lambda>n. n + 1) (abilityStateCountMap P) \<rparr>) else sm_find q (processContextMap ?c))" for q
    by (auto simp: init_one_def run_simps getS_def modP_def modS_def P_def sm_count_def)
  have lenP: "length (saList P) \<le> n"
    using le by (auto simp: P_def sas_le_def new_process_context_def split: option.splits)
  have "counts_ok ?c'"
    using SI lenP n counts_ok_add [OF _ new p P_def _ _ _ _ la lp]
    by (simp add: sched_inv_def A_def new_ability_context_def)
  moreover have "process_bounds P"
    using SI by (auto simp: P_def sched_inv_def bounds_ok_def process_bounds_def new_process_context_def split: option.splits)
  then have "bounds_ok ?c'"
    using SI unfolding sched_inv_def bounds_ok_def la lp
    by (auto simp: ability_bounds_def process_bounds_def A_def new_ability_context_def split: if_splits)
  ultimately show "SI (exec (init_one pr) s)" by (simp add: sched_inv_def)
  show "sas_le (n + 1) ?c'"
    using le lenP unfolding sas_le_def lp by (auto intro: le_SucI split: if_splits)
  show "sm_find b (abilityContextMap ?c') = None \<longleftrightarrow> b \<noteq> ?a \<and> sm_find b (abilityContextMap ?c) = None"
    by (simp add: la)
qed

definition managed :: "SaProfile list \<Rightarrow> SaProfile list" where
  "managed prs = filter (\<lambda>pr. process pr \<noteq> []) prs"

lemma init_one_other:
  "b \<noteq> saId pr \<Longrightarrow> sm_find b (abilityContextMap (sch (exec (init_one pr) s))) = sm_find b (abilityContextMap (sch s))"
  "q \<noteq> process pr \<Longrightarrow> sm_find q (processContextMap (sch (exec (init_one pr) s))) = sm_find q (processContextMap (sch s))"
  by (simp_all add: init_one_def run_simps getS_def modP_def modS_def)

lemma InitStateContext_other:
  "b \<notin> saId ` set (managed prs) \<Longrightarrow>
     sm_find b (abilityContextMap (sch (exec (InitStateContext prs) s))) = sm_find b (abilityContextMap (sch s))"
  "q \<notin> process ` set (managed prs) \<Longrightarrow>
     sm_find q (processContextMap (sch (exec (InitStateContext prs) s))) = sm_find q (processContextMap (sch s))"
  by (induction prs arbitrary: s)
    (auto simp: InitStateContext_Cons managed_def run_simps init_one_other, simp_all add: InitStateContext_def run_simps)

lemma InitStateContext_SI:
  assumes "SI s" "sas_le n (sch s)" "n + length (managed prs) < 2 ^ 32"
    and "distinct (map saId (managed prs))"
    and "\<forall>pr \<in> set (managed prs). sm_find (saId pr) (abilityContextMap (sch s)) = None \<and> process pr \<noteq> SAMGR_PROCESS_NAME"
  shows "SI (exec (InitStateContext prs) s)"
  using assms
proof (induction prs arbitrary: s n)
  case Nil
  then show ?case by (simp add: InitStateContext_def run_simps)
next
  case (Cons pr prs)
  show ?case
  proof (cases "process pr = []")
    case True
    with Cons show ?thesis by (simp add: InitStateContext_Cons managed_def run_simps)
  next
    case False
    then have new: "sm_find (saId pr) (abilityContextMap (sch s)) = None" and n: "n + 1 < 2 ^ 32"
      and p: "process pr \<noteq> SAMGR_PROCESS_NAME"
      using Cons.prems by (simp_all add: managed_def)
    note step = init_one_step [OF Cons.prems(1,2) n new p]
    have "SI (exec (InitStateContext prs) (exec (init_one pr) s))"
      using Cons.prems False step by (intro Cons.IH [of _ "n + 1"]) (auto simp: managed_def intro: rev_image_eqI)
    with False show ?thesis by (simp add: InitStateContext_Cons run_simps)
  qed
qed

text \<open>
  The service adds a context for its own process and for ability 0. The other contexts are not
  affected as long as no profile has used that process name or that identifier.
\<close>
lemma InitSamgrProcessContext_SI:
  assumes SI: "SI s" and a: "sm_find 0 (abilityContextMap (sch s)) = None"
    and p: "sm_find SAMGR_PROCESS_NAME (processContextMap (sch s)) = None"
  shows "SI (exec (InitSamgrProcessContext e) s)"
proof -
  let ?c = "sch s" and ?c' = "sch (exec (InitSamgrProcessContext e) s)"
  define A where "A = new_ability_context \<lparr> systemAbilityId := 0, isAutoRestart := False,
    delayUnloadTime := MAX_DELAY_TIME, ownProcessContext := Some SAMGR_PROCESS_NAME \<rparr>"
  define P where "P = new_process_context \<lparr> processName := SAMGR_PROCESS_NAME,
    abilityStateCountMap := sm_upd LOADED (\<lambda>_. 1) zero_counts, pid := e_getpid e, uid := e_getuid e,
    saList := [0], proc_state := STARTED \<rparr>"
  have la: "sm_find b (abilityContextMap ?c') = (if b = 0 then Some A else sm_find b (abilityContextMap ?c))" for b
    by (simp add: InitSamgrProcessContext_def Let_def run_simps modS_def A_def)
  have lp: "sm_find q (processContextMap ?c') = (if q = SAMGR_PROCESS_NAME then Some P else sm_find q (processContextMap ?c))" for q
    by (simp add: InitSamgrProcessContext_def Let_def run_simps modS_def P_def)
  have "process_ok ?c' q Q" if Q: "sm_find q (processContextMap ?c') = Some Q" and q: "q \<noteq> SAMGR_PROCESS_NAME" for q Q
  proof -
    have okQ: "process_ok ?c q Q" using Q q SI by (simp add: lp sched_inv_def counts_ok_def)
    then have "0 \<notin> set (saList Q)" using a by (auto simp: process_ok_def)
    then have "in_state ?c' u (saList Q) = in_state ?c u (saList Q)" for u
      by (intro in_state_cong) (auto simp: actx_def sm_get_def la)
    with okQ show ?thesis using a by (auto simp: process_ok_def la)
  qed
  moreover have "ability_linked ?c' b B" if B: "sm_find b (abilityContextMap ?c') = Some B" for b B
  proof (cases "b = 0")
    case True
    with B have "B = A" by (simp add: la)
    then show ?thesis using True by (auto simp: lp ability_linked_def A_def P_def)
  next
    case False
    with B SI have "ability_linked ?c b B" by (simp add: la sched_inv_def counts_ok_def)
    then obtain q Q where "ownProcessContext B = Some q" "sm_find q (processContextMap ?c) = Some Q" "b \<in> set (saList Q)"
      "systemAbilityId B = b"
      by (auto simp: ability_linked_def)
    with p show ?thesis by (cases "q = SAMGR_PROCESS_NAME") (auto simp: ability_linked_def lp)
  qed
  moreover have "bounds_ok ?c'"
    using SI unfolding sched_inv_def bounds_ok_def la lp
    by (auto simp: A_def P_def ability_bounds_def process_bounds_def new_ability_context_def new_process_context_def
        MAX_DELAY_TIME_def split: if_splits)
  ultimately show ?thesis by (simp add: sched_inv_def counts_ok_def)
qed

end
