(* ===== verification/Manager.thy ===== *)
theory Manager
  imports Scheduler_Admin
begin

text \<open>
  The interface of \<^verbatim>\<open>base_system_ability_manager.cpp\<close>, with the parts of \<^verbatim>\<open>system_ability_manager.cpp\<close> that the
  single-instance build adds to it: registering and removing abilities, status listeners, load
  callbacks, processes, loading and unloading requests, and the life cycle of the manager itself.
\<close>

section \<open>Status listeners\<close>

datatype SamgrInterfaceCode = ADD_SYSTEM_ABILITY_TRANSACTION | REMOVE_SYSTEM_ABILITY_TRANSACTION

definition NotifySystemAbilityChanged :: "int \<Rightarrow> string \<Rightarrow> SamgrInterfaceCode \<Rightarrow> iface option \<Rightarrow> unit M" where
  "NotifySystemAbilityChanged said dev code l = (case l of
       None \<Rightarrow> ret ()
     | Some x \<Rightarrow> (case code of
         ADD_SYSTEM_ABILITY_TRANSACTION \<Rightarrow> emit (OnAddSystemAbility x said dev)
       | REMOVE_SYSTEM_ABILITY_TRANSACTION \<Rightarrow> emit (OnRemoveSystemAbility x said dev)))"

definition listeners_of :: "int \<Rightarrow> sa_manager \<Rightarrow> SAListener list" where
  "listeners_of said m = sm_get [] said (listenerMap m)"

text \<open>
  The notification of the listeners. Compiled for several users the method returns at once in the manager of a user who is
  not in the foreground (\<open>base_FindSystemAbilityNotify\<close> in theory \<open>Multi_Manager\<close>); this test never holds for the base user.
\<close>
definition FindSystemAbilityNotify :: "int \<Rightarrow> string \<Rightarrow> SamgrInterfaceCode \<Rightarrow> SamgrErrCode M" where
  "FindSystemAbilityNotify said dev code = do {
     known \<leftarrow> getM (\<lambda>m. sm_find said (listenerMap m));
     case known of
       None \<Rightarrow> ret ERR_OK
     | Some items \<Rightarrow> (case code of
         ADD_SYSTEM_ABILITY_TRANSACTION \<Rightarrow> do {
           for_each items (\<lambda>i. onlyif (sal_state i = INIT) (NotifySystemAbilityChanged said dev code (sal_listener i)));
           modM (\<lambda>m. m \<lparr> listenerMap := sm_ins said
             (map (\<lambda>i. if sal_state i = INIT then i \<lparr> sal_state := NOTIFIED \<rparr> else i) items) (listenerMap m) \<rparr>);
           ret ERR_OK }
       | REMOVE_SYSTEM_ABILITY_TRANSACTION \<Rightarrow> do {
           for_each items (\<lambda>i. NotifySystemAbilityChanged said dev code (sal_listener i));
           modM (\<lambda>m. m \<lparr> listenerMap := sm_ins said (map (\<lambda>i. i \<lparr> sal_state := INIT \<rparr>) items) (listenerMap m) \<rparr>);
           ret ERR_OK }) }"

definition NotifySystemAbilityAddedByAsync :: "env \<Rightarrow> int \<Rightarrow> iface \<Rightarrow> unit M" where
  "NotifySystemAbilityAddedByAsync e said l = do {
     w \<leftarrow> workHandler_present;
     if \<not> w then ret ()
     else do { _ \<leftarrow> post e WorkHandler (ListenerNotifyTask said l); ret () } }"

text \<open>Whether a registered listener stands for the same remote object.\<close>
definition is_listener :: "obj option \<Rightarrow> SAListener \<Rightarrow> bool" where
  "is_listener ob i \<longleftrightarrow> map_option AsObject (sal_listener i) = Some ob"

definition CheckListenerNotify :: "env \<Rightarrow> int \<Rightarrow> iface \<Rightarrow> unit M" where
  "CheckListenerNotify e said l = do {
     targetObject \<leftarrow> CheckSystemAbility e said;
     if targetObject = None then ret ()
     else do {
       modM (\<lambda>m. m \<lparr> listenerMap := sm_touch [] said (listenerMap m) \<rparr>);
       items \<leftarrow> getM (listeners_of said);
       case find (is_listener (AsObject l)) items of
         None \<Rightarrow> ret ()
       | Some i \<Rightarrow> onlyif (sal_state i = INIT) (do {
           NotifySystemAbilityAddedByAsync e said l;
           modM (\<lambda>m. m \<lparr> listenerMap := sm_ins said
             (update_first (is_listener (AsObject l)) (\<lambda>i. i \<lparr> sal_state := NOTIFIED \<rparr>) items) (listenerMap m) \<rparr>) }) } }"

definition SubscribeSystemAbilityInner :: "env \<Rightarrow> int \<Rightarrow> iface option \<Rightarrow> int \<Rightarrow> SamgrErrCode M" where
  "SubscribeSystemAbilityInner e said listener' callingPid =
     (if \<not> CheckInputSysAbilityId said then ret ERR_INVALID_VALUE
      else (case listener' of
        None \<Rightarrow> ret ERR_INVALID_VALUE
      | Some l \<Rightarrow> do {
          modM (\<lambda>m. m \<lparr> listenerMap := sm_touch [] said (listenerMap m) \<rparr>);
          items \<leftarrow> getM (listeners_of said);
          if list_ex (is_listener (AsObject l)) items then ret ERR_OK
          else do {
            modM (\<lambda>m. m \<lparr> subscribeCountMap := sm_touch 0 callingPid (subscribeCountMap m) \<rparr>);
            count \<leftarrow> getM (\<lambda>m. sm_get 0 callingPid (subscribeCountMap m));
            if count \<ge> MGR_MAX_SUBSCRIBE_COUNT then ret ERR_PERMISSION_DENIED
            else do {
              modM (\<lambda>m. m \<lparr> subscribeCountMap := sm_ins callingPid (count + 1) (subscribeCountMap m) \<rparr>);
              d \<leftarrow> getM abilityStatusDeath;
              onlyif d (do {
                add_death (AsObject l) AbilityStatusDeath;
                modM (\<lambda>m. m \<lparr> listenerMap := sm_ins said (listeners_of said m @ [\<lparr> sal_listener = Some l,
                  sal_callingPid = callingPid, sal_state = INIT \<rparr>]) (listenerMap m) \<rparr>) });
              CheckListenerNotify e said l;
              ret ERR_OK } } }))"

definition SubscribeSystemAbility :: "env \<Rightarrow> int \<Rightarrow> iface option \<Rightarrow> SamgrErrCode M" where
  "SubscribeSystemAbility e said listener' = SubscribeSystemAbilityInner e said listener' (e_callingPid e)"

text \<open>The search stops at a null listener; otherwise it finds the first listener of the object.\<close>
fun find_listener :: "obj option \<Rightarrow> SAListener list \<Rightarrow> SAListener option" where
  "find_listener ob [] = None"
| "find_listener ob (i # is) = (case sal_listener i of
     None \<Rightarrow> None | Some l \<Rightarrow> if AsObject l = ob then Some i else find_listener ob is)"

definition UnSubscribeSystemAbilityLocked :: "int \<Rightarrow> obj option \<Rightarrow> unit M" where
  "UnSubscribeSystemAbilityLocked said ob = do {
     items \<leftarrow> getM (listeners_of said);
     case find_listener ob items of
       None \<Rightarrow> ret ()
     | Some i \<Rightarrow> do {
         n \<leftarrow> getM (\<lambda>m. sm_find (sal_callingPid i) (subscribeCountMap m));
         (case n of
            None \<Rightarrow> ret ()
          | Some k \<Rightarrow> modM (\<lambda>m. m \<lparr> subscribeCountMap :=
              (if k - 1 = 0 then sm_erase (sal_callingPid i) (subscribeCountMap m)
               else sm_ins (sal_callingPid i) (k - 1) (subscribeCountMap m)) \<rparr>));
         modM (\<lambda>m. m \<lparr> listenerMap := sm_ins said (remove1 i items) (listenerMap m) \<rparr>) } }"

definition UnSubscribeSystemAbility :: "int \<Rightarrow> iface option \<Rightarrow> SamgrErrCode M" where
  "UnSubscribeSystemAbility said listener' =
     (if \<not> CheckInputSysAbilityId said then ret ERR_INVALID_VALUE
      else (case listener' of
        None \<Rightarrow> ret ERR_INVALID_VALUE
      | Some l \<Rightarrow> do {
          modM (\<lambda>m. m \<lparr> listenerMap := sm_touch [] said (listenerMap m) \<rparr>);
          UnSubscribeSystemAbilityLocked said (AsObject l);
          d \<leftarrow> getM abilityStatusDeath;
          onlyif d (remove_death (AsObject l) AbilityStatusDeath);
          ret ERR_OK }))"

text \<open>\<^verbatim>\<open>UnSubscribeSystemAbility(remoteObject)\<close>: the listener's process died.\<close>
definition UnSubscribeSystemAbilityDied :: "obj option \<Rightarrow> unit M" where
  "UnSubscribeSystemAbilityDied ob = do {
     sas \<leftarrow> getM (\<lambda>m. sm_keys (listenerMap m));
     for_each sas (\<lambda>said. UnSubscribeSystemAbilityLocked said ob);
     d \<leftarrow> getM abilityStatusDeath;
     onlyif d (remove_death ob AbilityStatusDeath) }"

definition AsyncUnSubscribeSystemAbility :: "env \<Rightarrow> obj option \<Rightarrow> unit M" where
  "AsyncUnSubscribeSystemAbility e ob = (case ob of
       None \<Rightarrow> ret ()
     | Some x \<Rightarrow> do {
         present \<leftarrow> getM (\<lambda>m. deathHandler m \<noteq> None);
         if \<not> present then UnSubscribeSystemAbilityDied ob
         else do {
           posted \<leftarrow> post e DeathHandler (UnSubscribeTask x);
           if \<not> posted then UnSubscribeSystemAbilityDied ob else ret () } })"

definition RefreshListenerState :: "int \<Rightarrow> unit M" where
  "RefreshListenerState said = modM (\<lambda>m. m \<lparr> listenerMap :=
     sm_upd said (map (\<lambda>i. i \<lparr> sal_state := INIT \<rparr>)) (listenerMap m) \<rparr>)"

section \<open>Registering and removing abilities\<close>

definition SOFTBUS_SERVER_SA_ID :: int where "SOFTBUS_SERVER_SA_ID = 4700"

definition RegisterDistribute :: "int \<Rightarrow> bool \<Rightarrow> unit M" where
  "RegisterDistribute said distributed' = do {
     db \<leftarrow> getM dBinderService;
     onlyif distributed' (if db then emit (RegisterRemoteProxy said)
       else do {
         inited \<leftarrow> getM isDbinderServiceInit;
         onlyif (\<not> inited) (modM (\<lambda>m. m \<lparr> distributedSaList := distributedSaList m @ [said] \<rparr>)) });
     rpc \<leftarrow> getM rpcCallbackImp;
     onlyif (said = SOFTBUS_SERVER_SA_ID \<and> db \<and> rpc) (emit StartDBinderService) }"

definition InitDbinderService :: "env \<Rightarrow> bool \<Rightarrow> unit M" where
  "InitDbinderService e instance' = do {
     inited \<leftarrow> getM isDbinderServiceInit;
     onlyif (\<not> inited) (do {
       modM (\<lambda>m. m \<lparr> dBinderService := instance' \<rparr>);
       modM (\<lambda>m. m \<lparr> rpcCallbackImp := True \<rparr>);
       onlyif instance' (do {
         sas \<leftarrow> getM distributedSaList;
         for_each sas (\<lambda>said. emit (RegisterRemoteProxy said));
         modM (\<lambda>m. m \<lparr> distributedSaList := [] \<rparr>) });
       modM (\<lambda>m. m \<lparr> isDbinderServiceInit := True \<rparr>) });
     softbus \<leftarrow> CheckSystemAbility e SOFTBUS_SERVER_SA_ID;
     db \<leftarrow> getM dBinderService;
     rpc \<leftarrow> getM rpcCallbackImp;
     onlyif (softbus \<noteq> None \<and> db \<and> rpc) (emit StartDBinderService) }"

definition SystemAbilityInvalidateCache :: "int \<Rightarrow> unit M" where
  "SystemAbilityInvalidateCache said = do {
     onDemand \<leftarrow> getM (\<lambda>m. sm_count said (onDemandSaIdsSet m));
     if onDemand then ret () else emit InvalidateSACache }"

definition SendSystemAbilityAddedMsg :: "env \<Rightarrow> int \<Rightarrow> obj option \<Rightarrow> unit M" where
  "SendSystemAbilityAddedMsg e said remoteObject = do {
     w \<leftarrow> workHandler_present;
     if \<not> w then ret ()
     else do { _ \<leftarrow> post e WorkHandler (NotifyAddedTask said remoteObject); ret () } }"

definition AddSystemAbility :: "env \<Rightarrow> int \<Rightarrow> obj option \<Rightarrow> bool \<Rightarrow> SamgrErrCode M" where
  "AddSystemAbility e said ability extraDistributed =
     (if \<not> CheckInputSysAbilityId said \<or> ability = None then ret ERR_INVALID_VALUE
      else do {
        RefreshListenerState said;
        profDistributed \<leftarrow> IsDistributedSystemAbility said;
        if extraDistributed \<noteq> profDistributed then ret ERR_INVALID_VALUE
        else do {
          saSize \<leftarrow> getM (\<lambda>m. sm_size (abilityMap m));
          if int saSize \<ge> MAX_SERVICES then ret ERR_INVALID_VALUE
          else do {
            covered \<leftarrow> getM (\<lambda>m. sm_count said (abilityMap m));
            onlyif covered (do {
              SystemAbilityInvalidateCache said;
              SendSystemAbilityRemovedMsg e said });
            modM (\<lambda>m. m \<lparr> abilityMap := sm_ins said \<lparr> remoteObj = ability, isDistributed = extraDistributed \<rparr> (abilityMap m) \<rparr>);
            RemoveCheckLoadedMsg said;
            RegisterDistribute said extraDistributed;
            d \<leftarrow> getM abilityDeath;
            onlyif d (add_death ability AbilityDeath);
            present \<leftarrow> getM abilityStateScheduler;
            if \<not> present then ret ERR_INVALID_VALUE
            else do {
              UpdateLimitDelayUnloadTime e said;
              _ \<leftarrow> SendAbilityStateEvent e said ABILITY_LOAD_SUCCESS_EVENT;
              SendSystemAbilityAddedMsg e said ability;
              ret ERR_OK } } } })"

definition clear_extra_data :: "int \<Rightarrow> unit M" where
  "clear_extra_data said = do {
     cached \<leftarrow> IsCacheCommonEvent said;
     c \<leftarrow> getM collectManager;
     onlyif (cached \<and> c) (emit (ClearSaExtraDataId said)) }"

definition RemoveSystemAbility :: "env \<Rightarrow> int \<Rightarrow> SamgrErrCode M" where
  "RemoveSystemAbility e said =
     (if \<not> CheckInputSysAbilityId said then ret ERR_INVALID_VALUE
      else do {
        info \<leftarrow> getM (\<lambda>m. sm_find said (abilityMap m));
        case info of
          None \<Rightarrow> ret ERR_INVALID_VALUE
        | Some i \<Rightarrow> do {
            d \<leftarrow> getM abilityDeath;
            onlyif (remoteObj i \<noteq> None \<and> d) (remove_death (remoteObj i) AbilityDeath);
            modM (\<lambda>m. m \<lparr> abilityMap := sm_erase said (abilityMap m) \<rparr>);
            present \<leftarrow> getM abilityStateScheduler;
            if \<not> present then ret ERR_INVALID_VALUE
            else do {
              SystemAbilityInvalidateCache said;
              _ \<leftarrow> SendAbilityStateEvent e said ABILITY_UNLOAD_SUCCESS_EVENT;
              SendSystemAbilityRemovedMsg e said;
              clear_extra_data said;
              ret ERR_OK } } })"

text \<open>\<^verbatim>\<open>RemoveSystemAbility(ability)\<close>: the ability's process died.\<close>
definition RemoveSystemAbilityDied :: "env \<Rightarrow> obj option \<Rightarrow> SamgrErrCode M" where
  "RemoveSystemAbilityDied e ability = (case ability of
       None \<Rightarrow> ret ERR_INVALID_VALUE
     | Some x \<Rightarrow> do {
         hit \<leftarrow> getM (\<lambda>m. find (\<lambda>(k, i). remoteObj i = Some x) (abilityMap m));
         case hit of
           None \<Rightarrow> ret ERR_OK
         | Some (said, i) \<Rightarrow> do {
             modM (\<lambda>m. m \<lparr> abilityMap := sm_erase said (abilityMap m) \<rparr>);
             d \<leftarrow> getM abilityDeath;
             onlyif d (remove_death ability AbilityDeath);
             if said = 0 then ret ERR_OK
             else do {
               SystemAbilityInvalidateCache said;
               clear_extra_data said;
               present \<leftarrow> getM abilityStateScheduler;
               if \<not> present then ret ERR_INVALID_VALUE
               else do {
                 _ \<leftarrow> HandleAbilityDiedEvent said;
                 SendSystemAbilityRemovedMsg e said;
                 ret ERR_OK } } } })"

definition ListSystemAbilities :: "env \<Rightarrow> u16string list M" where
  "ListSystemAbilities e = getM (\<lambda>m. map (\<lambda>k. e_str8to16 e (to_string k)) (sm_keys (abilityMap m)))"

text \<open>\<^verbatim>\<open>CheckSystemAbility(id, isExist)\<close>: the object and the new \<^verbatim>\<open>isExist\<close>.\<close>
definition CheckSystemAbilityExist :: "env \<Rightarrow> int \<Rightarrow> bool \<Rightarrow> (obj option \<times> bool) M" where
  "CheckSystemAbilityExist e said isExist =
     (if \<not> CheckInputSysAbilityId said then ret (None, isExist)
      else do {
        present \<leftarrow> getM abilityStateScheduler;
        if \<not> present then ret (None, isExist)
        else do {
          unloading \<leftarrow> IsSystemAbilityUnloading said;
          if unloading then ret (None, isExist)
          else do {
            proxy \<leftarrow> CheckSystemAbility e said;
            case proxy of
              None \<Rightarrow> do { (_, x) \<leftarrow> HandleLoadAbilityEventCheck e said isExist; ret (None, x) }
            | Some x \<Rightarrow> ret (proxy, True) } } })"

definition AddSamgrToAbilityMap :: "env \<Rightarrow> obj \<Rightarrow> unit M" where
  "AddSamgrToAbilityMap e this = do {
     modM (\<lambda>m. m \<lparr> abilityMap := sm_ins 0 \<lparr> remoteObj = Some this, isDistributed = False \<rparr> (abilityMap m) \<rparr>);
     present \<leftarrow> getM abilityStateScheduler;
     onlyif present (InitSamgrProcessContext e) }"

definition GetSystemAbilityFromRemote :: "int \<Rightarrow> obj option M" where
  "GetSystemAbilityFromRemote said =
     (if \<not> CheckInputSysAbilityId said then ret None
      else getM (\<lambda>m. case sm_find said (abilityMap m) of
        None \<Rightarrow> None | Some i \<Rightarrow> if isDistributed i then remoteObj i else None))"

section \<open>Processes\<close>

definition AddSystemProcess :: "env \<Rightarrow> u16string \<Rightarrow> obj option \<Rightarrow> SamgrErrCode M" where
  "AddSystemProcess e procName procObject' = (case procObject' of
       None \<Rightarrow> ret ERR_INVALID_VALUE
     | Some x \<Rightarrow>
         if procName = [] then ret ERR_INVALID_VALUE
         else do {
           procNum \<leftarrow> getM (\<lambda>m. sm_size (systemProcessMap m));
           if int procNum \<ge> MAX_SERVICES then ret ERR_INVALID_VALUE
           else do {
             modM (\<lambda>m. m \<lparr> systemProcessMap := sm_ins procName x (systemProcessMap m) \<rparr>);
             d \<leftarrow> getM systemProcessDeath;
             onlyif d (add_death (Some x) SystemProcessDeath);
             starting \<leftarrow> getM (\<lambda>m. sm_count procName (startingProcessMap m));
             onlyif starting (do {
               _ \<leftarrow> GetTickCount e;
               modM (\<lambda>m. m \<lparr> startingProcessMap := sm_erase procName (startingProcessMap m) \<rparr>) });
             present \<leftarrow> getM abilityStateScheduler;
             if \<not> present then ret ERR_INVALID_VALUE
             else do {
               _ \<leftarrow> SendProcessStateEvent e \<lparr> pi_processName = procName, pi_pid = e_callingPid e, pi_uid = e_callingUid e \<rparr>
                 PROCESS_STARTED_EVENT;
               ret ERR_OK } } })"

definition RemoveSystemProcess :: "env \<Rightarrow> obj option \<Rightarrow> SamgrErrCode M" where
  "RemoveSystemProcess e procObject' = (case procObject' of
       None \<Rightarrow> ret ERR_INVALID_VALUE
     | Some x \<Rightarrow> do {
         d \<leftarrow> getM systemProcessDeath;
         onlyif d (remove_death (Some x) SystemProcessDeath);
         hit \<leftarrow> getM (\<lambda>m. find (\<lambda>(p, ob). ob = x) (systemProcessMap m));
         case hit of
           None \<Rightarrow> ret ERR_INVALID_VALUE
         | Some (procName, _) \<Rightarrow> do {
             modM (\<lambda>m. m \<lparr> systemProcessMap := sm_erase procName (systemProcessMap m) \<rparr>);
             present \<leftarrow> getM abilityStateScheduler;
             if \<not> present then ret ERR_INVALID_VALUE
             else do {
               _ \<leftarrow> SendProcessStateEvent e \<lparr> pi_processName = procName, pi_pid = -1, pi_uid = -1 \<rparr> PROCESS_STOPPED_EVENT;
               ret ERR_OK } } })"

text \<open>\<^verbatim>\<open>SystemAbilityStateScheduler::ProcessPendingLoadOverflow\<close>, the body of the recovery task.\<close>
definition ProcessPendingLoadOverflow :: "env \<Rightarrow> int \<Rightarrow> u16string \<Rightarrow> unit M" where
  "ProcessPendingLoadOverflow e a p = do {
     strongManager \<leftarrow> getS manager;
     st \<leftarrow> getS (\<lambda>c. proc_state (pctx p c));
     if \<not> strongManager \<or> st \<noteq> STOPPING then ret ()
     else do {
       modA a (\<lambda>A. A \<lparr> pendingLoadEventList := [] \<rparr>);
       modA a (\<lambda>A. A \<lparr> pendingLoadEventCountMap := [] \<rparr>);
       modP p (\<lambda>P. P \<lparr> pendingLoadFirstTimestamp := 0 \<rparr>);
       n \<leftarrow> getS (\<lambda>c. processName (pctx p c));
       started \<leftarrow> ask (e_processStarted e);
       if started then do { _ \<leftarrow> sch_ServiceControl e (e_str16to8 e n) ACTION_STOP; ret () }
       else do {
         ob \<leftarrow> GetSystemProcess n;
         if ob = None then ret () else do { _ \<leftarrow> RemoveSystemProcess e ob; ret () } } } }"

definition AddOnDemandSystemAbilityInfo :: "env \<Rightarrow> int \<Rightarrow> u16string \<Rightarrow> SamgrErrCode M" where
  "AddOnDemandSystemAbilityInfo e said procName =
     (if \<not> CheckInputSysAbilityId said \<or> IsNameInValid procName then ret ERR_INVALID_VALUE
      else do {
        onDemandSaSize \<leftarrow> getM (\<lambda>m. sm_size (onDemandAbilityMap m));
        if int onDemandSaSize \<ge> MAX_SERVICES then ret ERR_INVALID_VALUE
        else do {
          running \<leftarrow> getM (\<lambda>m. sm_count procName (systemProcessMap m));
          if \<not> running then ret ERR_INVALID_VALUE
          else do {
            modM (\<lambda>m. m \<lparr> onDemandAbilityMap := sm_ins said procName (onDemandAbilityMap m) \<rparr>);
            waiting \<leftarrow> getM (\<lambda>m. sm_count said (startingAbilityMap m) \<and> workHandler m \<noteq> None);
            onlyif waiting (do { _ \<leftarrow> post e WorkHandler (StartOnDemandTask procName said); ret () });
            ret ERR_OK } } })"

definition GetLocalAbilityManagerProxy :: "int \<Rightarrow> obj option M" where
  "GetLocalAbilityManagerProxy said = do {
     prof \<leftarrow> GetSaProfile said;
     case prof of None \<Rightarrow> ret None | Some q \<Rightarrow> GetSystemProcess (cp_process q) }"

section \<open>Load callbacks\<close>

definition RemoveStartingAbilityCallbackLocked :: "iface \<times> int \<Rightarrow> unit M" where
  "RemoveStartingAbilityCallbackLocked itemPair = do {
     d \<leftarrow> getM abilityCallbackDeath;
     onlyif d (remove_death (AsObject (fst itemPair)) AbilityCallbackDeath);
     n \<leftarrow> getM (\<lambda>m. sm_find (snd itemPair) (callbackCountMap m));
     case n of
       None \<Rightarrow> ret ()
     | Some k \<Rightarrow> modM (\<lambda>m. m \<lparr> callbackCountMap :=
         (if k - 1 = 0 then sm_erase (snd itemPair) (callbackCountMap m)
          else sm_ins (snd itemPair) (k - 1) (callbackCountMap m)) \<rparr>) }"

definition NotifySystemAbilityLoadedTo :: "int \<Rightarrow> obj option \<Rightarrow> iface option \<Rightarrow> unit M" where
  "NotifySystemAbilityLoadedTo said remoteObject callback = (case callback of
     None \<Rightarrow> ret () | Some cb \<Rightarrow> emit (OnLoadSystemAbilitySuccess cb said remoteObject))"

definition NotifySystemAbilityLoadFail :: "int \<Rightarrow> iface option \<Rightarrow> int \<Rightarrow> unit M" where
  "NotifySystemAbilityLoadFail said callback errCode = (case callback of
     None \<Rightarrow> ret () | Some cb \<Rightarrow> emit (OnLoadSystemAbilityFail cb said errCode))"

text \<open>All callbacks of an item, device by device, in the order of the nested loops.\<close>
definition all_callbacks :: "AbilityItem \<Rightarrow> (iface \<times> int) list" where
  "all_callbacks i = concat (map snd (callbackMap i))"

definition erase_item :: "int \<Rightarrow> unit M" where
  "erase_item said = modM (\<lambda>m. m \<lparr> startingAbilityMap := sm_erase said (startingAbilityMap m) \<rparr>)"

definition NotifySystemAbilityLoaded :: "int \<Rightarrow> obj option \<Rightarrow> unit M" where
  "NotifySystemAbilityLoaded said remoteObject = do {
     it \<leftarrow> getM (\<lambda>m. sm_find said (startingAbilityMap m));
     case it of
       None \<Rightarrow> ret ()
     | Some i \<Rightarrow> do {
         for_each (all_callbacks i) (\<lambda>c. do {
           NotifySystemAbilityLoadedTo said remoteObject (Some (fst c));
           RemoveStartingAbilityCallbackLocked c });
         erase_item said } }"

definition CleanCallbackForLoadFailed :: "env \<Rightarrow> int \<Rightarrow> u16string \<Rightarrow> string \<Rightarrow> iface \<Rightarrow> unit M" where
  "CleanCallbackForLoadFailed e said name srcDeviceId callback = do {
     modM (\<lambda>m. m \<lparr> startingProcessMap := sm_erase name (startingProcessMap m) \<rparr>);
     it \<leftarrow> getM (\<lambda>m. sm_find said (startingAbilityMap m));
     case it of
       None \<Rightarrow> ret ()
     | Some i \<Rightarrow> do {
         modItem said (\<lambda>i. i \<lparr> callbackMap := sm_touch [] srcDeviceId (callbackMap i) \<rparr>);
         let hit = find (\<lambda>c. AsObject callback = AsObject (fst c)) (callbacks_of srcDeviceId i);
         w \<leftarrow> workHandler_present;
         if hit \<noteq> None \<and> \<not> w then ret ()
         else do {
           (case hit of
              None \<Rightarrow> ret ()
            | Some c \<Rightarrow> do {
                _ \<leftarrow> post e WorkHandler (NotifyLoadFailTask said (fst c) LOAD_SA_TIMEOUT);
                RemoveStartingAbilityCallbackLocked c;
                modItem said (\<lambda>i. i \<lparr> callbackMap := sm_ins srcDeviceId (removeAll c (callbacks_of srcDeviceId i)) (callbackMap i) \<rparr>) });
           modItem said (\<lambda>i. if callbacks_of srcDeviceId i = [] then i \<lparr> callbackMap := sm_erase srcDeviceId (callbackMap i) \<rparr> else i);
           empty \<leftarrow> getM (\<lambda>m. callbackMap (item said m) = []);
           onlyif empty (erase_item said) } } }"

text \<open>The body of the delayed task that \<^verbatim>\<open>SendCheckLoadedMsg\<close> posts.\<close>
definition CheckLoaded :: "env \<Rightarrow> int \<Rightarrow> u16string \<Rightarrow> string \<Rightarrow> iface \<Rightarrow> unit M" where
  "CheckLoaded e said name srcDeviceId callback = do {
     w \<leftarrow> workHandler_present;
     onlyif w (del_task WorkHandler (to_string said));
     target \<leftarrow> CheckSystemAbility e said;
     if target \<noteq> None then ret ()
     else do {
       CleanCallbackForLoadFailed e said name srcDeviceId callback;
       present \<leftarrow> getM abilityStateScheduler;
       if \<not> present then ret ()
       else do {
         SendUpdateSaState said ''loadfail'';
         clear_extra_data said;
         _ \<leftarrow> SendAbilityStateEvent e said ABILITY_LOAD_FAILED_EVENT;
         _ \<leftarrow> GetSystemProcess name;
         ret () } } }"

text \<open>\<^verbatim>\<open>OnStartSystemAbilityFail\<close> after its look at the registry, for an ability that is not registered there.\<close>
definition OnStartSystemAbilityFail_absent :: "env \<Rightarrow> int \<Rightarrow> int \<Rightarrow> SamgrErrCode M" where
  "OnStartSystemAbilityFail_absent e said errCode = do {
     prof \<leftarrow> GetSaProfile said;
     case prof of
       None \<Rightarrow> ret ERR_INVALID_VALUE
     | Some q \<Rightarrow>
         if e_str16to8 e (cp_process q) \<noteq> e_cmdline e (e_callingPid e) then ret INVALID_CALL_PROC
         else do {
           modM (\<lambda>m. m \<lparr> onDemandAbilityMap := sm_touch (cp_process q) said (onDemandAbilityMap m) \<rparr>);
           it \<leftarrow> getM (\<lambda>m. sm_find said (startingAbilityMap m));
           case it of
             None \<Rightarrow> ret ERR_OK
           | Some i \<Rightarrow> do {
               RemoveCheckLoadedMsg said;
               for_each (all_callbacks i) (\<lambda>c. do {
                 NotifySystemAbilityLoadFail said (Some (fst c)) errCode;
                 RemoveStartingAbilityCallbackLocked c });
               erase_item said;
               ret ERR_OK } } }"

definition OnStartSystemAbilityFail :: "env \<Rightarrow> int \<Rightarrow> int \<Rightarrow> SamgrErrCode M" where
  "OnStartSystemAbilityFail e said errCode = do {
     targetObject \<leftarrow> CheckSystemAbility e said;
     if targetObject \<noteq> None then ret ERR_OK else OnStartSystemAbilityFail_absent e said errCode }"

text \<open>\<^verbatim>\<open>RemoveStartingAbilityCallback\<close>: drop the first callback of the dead object from one device's list.\<close>
definition RemoveStartingAbilityCallback :: "int \<Rightarrow> string \<Rightarrow> obj \<Rightarrow> unit M" where
  "RemoveStartingAbilityCallback said dev ob = do {
     cbs \<leftarrow> getM (\<lambda>m. callbacks_of dev (item said m));
     case find (\<lambda>c. AsObject (fst c) = Some ob) cbs of
       None \<Rightarrow> ret ()
     | Some c \<Rightarrow> do {
         RemoveStartingAbilityCallbackLocked c;
         modItem said (\<lambda>i. i \<lparr> callbackMap := sm_ins dev (remove1 c cbs) (callbackMap i) \<rparr>) } }"

definition RemoveStartingAbilityCallbackForDevice :: "int \<Rightarrow> obj \<Rightarrow> unit M" where
  "RemoveStartingAbilityCallbackForDevice said ob = do {
     devs \<leftarrow> getM (\<lambda>m. sm_keys (callbackMap (item said m)));
     for_each devs (\<lambda>dev. do {
       RemoveStartingAbilityCallback said dev ob;
       modItem said (\<lambda>i. if callbacks_of dev i = [] then i \<lparr> callbackMap := sm_erase dev (callbackMap i) \<rparr> else i) }) }"

definition OnAbilityCallbackDied :: "obj option \<Rightarrow> unit M" where
  "OnAbilityCallbackDied remoteObject = (case remoteObject of
       None \<Rightarrow> ret ()
     | Some ob \<Rightarrow> do {
         sas \<leftarrow> getM (\<lambda>m. sm_keys (startingAbilityMap m));
         for_each sas (\<lambda>said. do {
           RemoveStartingAbilityCallbackForDevice said ob;
           empty \<leftarrow> getM (\<lambda>m. callbackMap (item said m) = []);
           onlyif empty (erase_item said) }) })"

definition RemoveRemoteCallbackLocked :: "string \<Rightarrow> obj \<Rightarrow> unit M" where
  "RemoveRemoteCallbackLocked key ob = do {
     cbs \<leftarrow> getM (\<lambda>m. sm_get [] key (remoteCallbacks m));
     case find (\<lambda>c. AsObject c = Some ob) cbs of
       None \<Rightarrow> ret ()
     | Some c \<Rightarrow> do {
         d \<leftarrow> getM remoteCallbackDeath;
         onlyif d (remove_death (AsObject c) RemoteCallbackDeath);
         modM (\<lambda>m. m \<lparr> remoteCallbacks := sm_ins key (removeAll c cbs) (remoteCallbacks m) \<rparr>) } }"

definition OnRemoteCallbackDied :: "obj option \<Rightarrow> unit M" where
  "OnRemoteCallbackDied remoteObject = (case remoteObject of
       None \<Rightarrow> ret ()
     | Some ob \<Rightarrow> do {
         keys \<leftarrow> getM (\<lambda>m. sm_keys (remoteCallbacks m));
         for_each keys (\<lambda>key. do {
           RemoveRemoteCallbackLocked key ob;
           empty \<leftarrow> getM (\<lambda>m. sm_get [] key (remoteCallbacks m) = []);
           onlyif empty (modM (\<lambda>m. m \<lparr> remoteCallbacks := sm_erase key (remoteCallbacks m) \<rparr>)) }) })"

section \<open>Loading and unloading requests\<close>

definition CheckCallerProcessName :: "env \<Rightarrow> string \<Rightarrow> bool" where
  "CheckCallerProcessName e callProcess \<longleftrightarrow> fst (e_tokenInfo e) = 0 \<and> snd (e_tokenInfo e) = callProcess"

definition CheckCallerProcess :: "env \<Rightarrow> CommonSaProfile \<Rightarrow> bool" where
  "CheckCallerProcess e prof \<longleftrightarrow> CheckCallerProcessName e (e_str16to8 e (cp_process prof))"

definition LoadSystemAbility :: "env \<Rightarrow> int \<Rightarrow> iface option \<Rightarrow> SamgrErrCode M" where
  "LoadSystemAbility e said callback =
     (if \<not> CheckInputSysAbilityId said \<or> callback = None then ret INVALID_INPUT_PARA
      else do {
        prof \<leftarrow> GetSaProfile said;
        if prof = None then ret PROFILE_NOT_EXIST
        else do {
          present \<leftarrow> getM abilityStateScheduler;
          if \<not> present then ret STATE_SCHEDULER_NULL
          else HandleLoadAbilityEvent e \<lparr> deviceId = LOCAL_DEVICE, lr_callback = callback, lr_systemAbilityId = said,
            lr_callingPid = e_callingPid e, loadEvent = mk_event INTERFACE_CALL ''load'' [] \<rparr> } })"

definition LoadSystemAbilityFromRpc :: "env \<Rightarrow> string \<Rightarrow> int \<Rightarrow> iface option \<Rightarrow> bool M" where
  "LoadSystemAbilityFromRpc e srcDeviceId said callback =
     (if \<not> CheckInputSysAbilityId said \<or> callback = None then ret False
      else do {
        dist \<leftarrow> IsDistributedSystemAbility said;
        if \<not> dist then ret False
        else do {
          present \<leftarrow> getM abilityStateScheduler;
          if \<not> present then ret False
          else do {
            r \<leftarrow> HandleLoadAbilityEvent e \<lparr> deviceId = srcDeviceId, lr_callback = callback, lr_systemAbilityId = said,
              lr_callingPid = -1, loadEvent = mk_event INTERFACE_CALL ''loadFromRpc'' [] \<rparr>;
            ret (r = ERR_OK) } } })"

definition UnloadSystemAbility :: "env \<Rightarrow> int \<Rightarrow> SamgrErrCode M" where
  "UnloadSystemAbility e said = do {
     prof \<leftarrow> GetSaProfile said;
     case prof of
       None \<Rightarrow> ret PROFILE_NOT_EXIST
     | Some q \<Rightarrow>
         if \<not> CheckCallerProcess e q then ret INVALID_CALL_PROC
         else do {
           present \<leftarrow> getM abilityStateScheduler;
           if \<not> present then ret STATE_SCHEDULER_NULL
           else HandleUnloadAbilityEvent e (Some \<lparr> unloadEvent = mk_event INTERFACE_CALL ''unload'' [],
             ur_systemAbilityId = said, ur_callingPid = e_callingPid e \<rparr>) } }"

definition CancelUnloadSystemAbility :: "env \<Rightarrow> int \<Rightarrow> SamgrErrCode M" where
  "CancelUnloadSystemAbility e said =
     (if \<not> CheckInputSysAbilityId said then ret ERR_INVALID_VALUE
      else do {
        prof \<leftarrow> GetSaProfile said;
        case prof of
          None \<Rightarrow> ret ERR_INVALID_VALUE
        | Some q \<Rightarrow>
            if \<not> CheckCallerProcess e q then ret ERR_INVALID_VALUE
            else do {
              present \<leftarrow> getM abilityStateScheduler;
              if \<not> present then ret ERR_INVALID_VALUE
              else HandleCancelUnloadAbilityEvent e said } })"

definition mgr_UnloadAllIdleSystemAbility :: "env \<Rightarrow> SamgrErrCode M" where
  "mgr_UnloadAllIdleSystemAbility e =
     (if \<not> CheckCallerProcessName e ''memmgrservice'' then ret ERR_PERMISSION_DENIED
      else do {
        present \<leftarrow> getM abilityStateScheduler;
        if \<not> present then ret ERR_INVALID_VALUE else UnloadAllIdleSystemAbility e })"

definition mgr_UnloadProcess :: "env \<Rightarrow> u16string list \<Rightarrow> SamgrErrCode M" where
  "mgr_UnloadProcess e processList = do {
     present \<leftarrow> getM abilityStateScheduler;
     if \<not> present then ret ERR_INVALID_VALUE else UnloadProcess e processList }"

text \<open>Of the infos of one process, the one with the latest idle time; the first one when they tie.\<close>
definition merge_idle :: "IdleProcessInfo \<Rightarrow> (u16string, IdleProcessInfo) smap \<Rightarrow> (u16string, IdleProcessInfo) smap" where
  "merge_idle info m = (case sm_find (ipi_processName info) m of
       None \<Rightarrow> sm_ins (ipi_processName info) info m
     | Some old \<Rightarrow> if ipi_lastIdleTime old < ipi_lastIdleTime info then sm_ins (ipi_processName info) info m else m)"

definition GetLruIdleSystemAbilityProc :: "env \<Rightarrow> (SamgrErrCode \<times> IdleProcessInfo list) M" where
  "GetLruIdleSystemAbilityProc e = do {
     present \<leftarrow> getM (\<lambda>m. collectManager m \<and> abilityStateScheduler m);
     if \<not> present then ret (ERR_INVALID_VALUE, [])
     else do {
       infos \<leftarrow> collect (e_lowMemPrepare e) (GetIdleProcessInfo e);
       let procInfos = foldl (\<lambda>m i. merge_idle i m) [] infos;
       unloadable \<leftarrow> collect procInfos (\<lambda>(p, i). do {
         can \<leftarrow> IsSystemProcessCanUnload p;
         ret (if can then Some i else None) });
       ret (ERR_OK, sort_key ipi_lastIdleTime unloadable) } }"

definition ProcessOnDemandEvent :: "env \<Rightarrow> OnDemandEvent \<Rightarrow> SaControlInfo list \<Rightarrow> unit M" where
  "ProcessOnDemandEvent e event saControlList = do {
     c \<leftarrow> getM collectManager;
     onlyif c (emit (SaveCacheCommonEventSaExtraId event saControlList));
     present \<leftarrow> getM abilityStateScheduler;
     if \<not> present then ret () else CheckEnableOnce e event saControlList }"

section \<open>Requests forwarded to the scheduler\<close>

definition mgr_SubscribeSystemProcess :: "iface option \<Rightarrow> SamgrErrCode M" where
  "mgr_SubscribeSystemProcess l = do {
     present \<leftarrow> getM abilityStateScheduler;
     if \<not> present then ret ERR_INVALID_VALUE else sch_SubscribeSystemProcess l False }"

definition mgr_UnSubscribeSystemProcess :: "iface option \<Rightarrow> SamgrErrCode M" where
  "mgr_UnSubscribeSystemProcess l = do {
     present \<leftarrow> getM abilityStateScheduler;
     if \<not> present then ret ERR_INVALID_VALUE else sch_UnSubscribeSystemProcess l False }"

definition mgr_UnSubscribeSystemProcessDied :: "obj option \<Rightarrow> unit M" where
  "mgr_UnSubscribeSystemProcessDied ob = do {
     present \<leftarrow> getM abilityStateScheduler;
     if \<not> present then ret () else sch_UnSubscribeSystemProcessDied ob }"

definition mgr_SubscribeLowMemSystemProcess :: "env \<Rightarrow> iface option \<Rightarrow> SamgrErrCode M" where
  "mgr_SubscribeLowMemSystemProcess e l = do {
     present \<leftarrow> getM abilityStateScheduler;
     if \<not> present then ret ERR_INVALID_VALUE else sch_SubscribeLowMemSystemProcess e l }"

definition mgr_UnSubscribeLowMemSystemProcess :: "env \<Rightarrow> iface option \<Rightarrow> SamgrErrCode M" where
  "mgr_UnSubscribeLowMemSystemProcess e l = do {
     present \<leftarrow> getM abilityStateScheduler;
     if \<not> present then ret ERR_INVALID_VALUE else sch_UnSubscribeLowMemSystemProcess e l }"

definition mgr_GetSystemProcessInfo :: "env \<Rightarrow> int \<Rightarrow> (SamgrErrCode \<times> SystemProcessInfo option) M" where
  "mgr_GetSystemProcessInfo e said = do {
     present \<leftarrow> getM abilityStateScheduler;
     if \<not> present then ret (ERR_INVALID_VALUE, None) else sch_GetSystemProcessInfo e said }"

definition mgr_GetRunningSystemProcess :: "(SamgrErrCode \<times> SystemProcessInfo list) M" where
  "mgr_GetRunningSystemProcess = do {
     present \<leftarrow> getM abilityStateScheduler;
     if \<not> present then ret (ERR_INVALID_VALUE, []) else sch_GetRunningSystemProcess }"

section \<open>Strategies and extensions\<close>

definition RESOURCE_SCHEDULE_PROCESS_NAME :: string where "RESOURCE_SCHEDULE_PROCESS_NAME = ''resource_schedule_service''"

fun send_strategy :: "env \<Rightarrow> int \<Rightarrow> int \<Rightarrow> string \<Rightarrow> int list \<Rightarrow> SamgrErrCode M" where
  "send_strategy e type level action [] = ret ERR_OK"
| "send_strategy e type level action (said # sas) = do {
     prof \<leftarrow> GetSaProfile said;
     case prof of
       None \<Rightarrow> ret ERR_INVALID_VALUE
     | Some q \<Rightarrow> do {
         po \<leftarrow> procObject e (cp_process q);
         case po of
           None \<Rightarrow> ret ERR_INVALID_VALUE
         | Some x \<Rightarrow> do {
             emit (SendStrategyToSA x type said level action);
             send_strategy e type level action sas } } }"

definition SendStrategy :: "env \<Rightarrow> int \<Rightarrow> int list \<Rightarrow> int \<Rightarrow> string \<Rightarrow> SamgrErrCode M" where
  "SendStrategy e type sas level action =
     (if fst (e_tokenInfo e) \<noteq> 0 \<or> snd (e_tokenInfo e) \<noteq> RESOURCE_SCHEDULE_PROCESS_NAME then ret ERR_PERMISSION_DENIED
      else send_strategy e type level action sas)"

definition GetExtensionSaIds :: "string \<Rightarrow> int list M" where
  "GetExtensionSaIds ext = getM (\<lambda>m. map fst (filter (\<lambda>(k, q). ext \<in> set (cp_extension q)) (saProfileMap m)))"

definition running_obj :: "int \<Rightarrow> sa_manager \<Rightarrow> obj option" where
  "running_obj said m = (case sm_find said (abilityMap m) of None \<Rightarrow> None | Some i \<Rightarrow> remoteObj i)"

definition GetExtensionRunningSaList :: "string \<Rightarrow> obj list M" where
  "GetExtensionRunningSaList ext = getM (\<lambda>m. List.map_filter (\<lambda>(k, q). running_obj k m)
     (filter (\<lambda>(k, q). ext \<in> set (cp_extension q)) (saProfileMap m)))"

definition GetRunningSaExtensionInfoList :: "string \<Rightarrow> (int \<times> obj) list M" where
  "GetRunningSaExtensionInfoList ext = getM (\<lambda>m. List.map_filter (\<lambda>(k, q).
     case (if cp_process q = [] then None else sm_find (cp_process q) (systemProcessMap m)) of
       None \<Rightarrow> None | Some ob \<Rightarrow> if running_obj k m = None then None else Some (k, ob))
     (filter (\<lambda>(k, q). ext \<in> set (cp_extension q)) (saProfileMap m)))"

definition GetOnDemandSystemAbilityIds :: "(SamgrErrCode \<times> int list) M" where
  "GetOnDemandSystemAbilityIds = getM (\<lambda>m. if onDemandSaIdsSet m = [] then (ERR_INVALID_VALUE, [])
     else (ERR_OK, sm_keys (onDemandSaIdsSet m)))"

section \<open>Life cycle of the manager\<close>

definition DEVICE_INFO_SERVICE_SA :: int where "DEVICE_INFO_SERVICE_SA = 3902"
definition HIDUMPER_SERVICE_SA :: int where "HIDUMPER_SERVICE_SA = 1212"
definition MEDIA_ANALYSIS_SERVICE_SA :: int where "MEDIA_ANALYSIS_SERVICE_SA = 10120"

definition FilterCommonSaProfile :: "SaProfile \<Rightarrow> CommonSaProfile" where
  "FilterCommonSaProfile old = \<lparr> cp_process = process old, cp_saId = saId old, cp_moduleUpdate = moduleUpdate old,
     cp_distributed = distributed old, cp_cacheCommonEvent = cacheCommonEvent old,
     startAllowUpdate = start_allowUpdate (startOnDemand old), stopAllowUpdate = stop_allowUpdate (stopOnDemand old),
     cp_recycleStrategy = recycleStrategy old, cp_extension = extension old \<rparr>"

text \<open>\<^verbatim>\<open>InitSaProfile\<close> after the profile files have been parsed into \<open>saInfos\<close>.\<close>
definition InitSaProfile :: "SaProfile list \<Rightarrow> unit M" where
  "InitSaProfile saInfos = do {
     present \<leftarrow> getM abilityStateScheduler;
     onlyif present (sch_Init saInfos);
     modM (\<lambda>m. m \<lparr> onDemandSaIdsSet := sm_ins MEDIA_ANALYSIS_SERVICE_SA () (sm_ins HIDUMPER_SERVICE_SA ()
       (sm_ins DEVICE_INFO_SERVICE_SA () (onDemandSaIdsSet m))) \<rparr>);
     for_each saInfos (\<lambda>pr. do {
       modM (\<lambda>m. m \<lparr> saProfileMap := sm_ins (saId pr) (FilterCommonSaProfile pr) (saProfileMap m) \<rparr>);
       onlyif (\<not> runOnCreate pr) (modM (\<lambda>m. m \<lparr> onDemandSaIdsSet := sm_ins (saId pr) () (onDemandSaIdsSet m) \<rparr>)) }) }"

definition QOS_USER_INTERACTIVE :: int where "QOS_USER_INTERACTIVE = 5"

definition mgr_Init :: "env \<Rightarrow> SaProfile list \<Rightarrow> unit M" where
  "mgr_Init e saInfos = do {
     modM (\<lambda>m. m \<lparr> abilityDeath := True, systemProcessDeath := True, abilityStatusDeath := True,
       abilityCallbackDeath := True, remoteCallbackDeath := True \<rparr>);
     modM (\<lambda>m. m \<lparr> workHandler := (case workHandler m of None \<Rightarrow> Some (FFRTHandler QOS_DEFAULT) | Some h \<Rightarrow> Some h) \<rparr>);
     modM (\<lambda>m. m \<lparr> deathHandler := (case deathHandler m of
         None \<Rightarrow> if e_deathPrior e then Some (FFRTHandler QOS_USER_INTERACTIVE) else None | Some h \<Rightarrow> Some h) \<rparr>);
     modM (\<lambda>m. m \<lparr> collectManager := True, abilityStateScheduler := True \<rparr>);
     modS (\<lambda>c. c \<lparr> manager := True \<rparr>);
     InitSaProfile saInfos }"

definition mgr_CleanFfrt :: "unit M" where
  "mgr_CleanFfrt = do {
     modM (\<lambda>m. m \<lparr> workHandler := map_option CleanFfrt (workHandler m) \<rparr>);
     modM (\<lambda>m. m \<lparr> deathHandler := map_option CleanFfrt (deathHandler m) \<rparr>);
     present \<leftarrow> getM abilityStateScheduler;
     onlyif present sch_CleanFfrt }"

definition mgr_SetFfrt :: "unit M" where
  "mgr_SetFfrt = do {
     modM (\<lambda>m. m \<lparr> workHandler := map_option (SetFfrt QOS_DEFAULT) (workHandler m) \<rparr>);
     modM (\<lambda>m. m \<lparr> deathHandler := map_option (\<lambda>h. SetFfrt (GetQos h) h) (deathHandler m) \<rparr>);
     present \<leftarrow> getM abilityStateScheduler;
     onlyif present sch_SetFfrt }"

definition RemoveAbilityDeathRecipients :: "unit M" where
  "RemoveAbilityDeathRecipients = do {
     infos \<leftarrow> getM (\<lambda>m. map snd (abilityMap m));
     d \<leftarrow> getM abilityDeath;
     for_each infos (\<lambda>i. onlyif (remoteObj i \<noteq> None \<and> d) (remove_death (remoteObj i) AbilityDeath));
     modM (\<lambda>m. m \<lparr> abilityMap := [] \<rparr>) }"

definition RemoveProcessDeathRecipients :: "unit M" where
  "RemoveProcessDeathRecipients = do {
     objs \<leftarrow> getM (\<lambda>m. map snd (systemProcessMap m));
     d \<leftarrow> getM systemProcessDeath;
     for_each objs (\<lambda>x. onlyif d (remove_death (Some x) SystemProcessDeath));
     modM (\<lambda>m. m \<lparr> systemProcessMap := [] \<rparr>) }"

definition RemoveListenerDeathRecipients :: "unit M" where
  "RemoveListenerDeathRecipients = do {
     items \<leftarrow> getM (\<lambda>m. concat (map snd (listenerMap m)));
     d \<leftarrow> getM abilityStatusDeath;
     for_each items (\<lambda>i. case sal_listener i of None \<Rightarrow> ret () | Some l \<Rightarrow> onlyif d (remove_death (AsObject l) AbilityStatusDeath));
     modM (\<lambda>m. m \<lparr> listenerMap := [] \<rparr>);
     modM (\<lambda>m. m \<lparr> subscribeCountMap := [] \<rparr>) }"

definition RemoveOnDemandDeathRecipients :: "unit M" where
  "RemoveOnDemandDeathRecipients = do {
     cbs \<leftarrow> getM (\<lambda>m. concat (map (all_callbacks \<circ> snd) (startingAbilityMap m)));
     d \<leftarrow> getM abilityCallbackDeath;
     for_each cbs (\<lambda>c. onlyif d (remove_death (AsObject (fst c)) AbilityCallbackDeath));
     modM (\<lambda>m. m \<lparr> startingAbilityMap := [], onDemandAbilityMap := [], startingProcessMap := [], callbackCountMap := [] \<rparr>) }"

definition RemoveRemoteCallbackDeathRecipients :: "unit M" where
  "RemoveRemoteCallbackDeathRecipients = do {
     cbs \<leftarrow> getM (\<lambda>m. concat (map snd (remoteCallbacks m)));
     d \<leftarrow> getM remoteCallbackDeath;
     for_each cbs (\<lambda>c. onlyif d (remove_death (AsObject c) RemoteCallbackDeath));
     modM (\<lambda>m. m \<lparr> remoteCallbacks := [] \<rparr>) }"

definition RemoveAllDeathRecipients :: "unit M" where
  "RemoveAllDeathRecipients = do {
     RemoveAbilityDeathRecipients;
     RemoveProcessDeathRecipients;
     RemoveListenerDeathRecipients;
     RemoveOnDemandDeathRecipients;
     RemoveRemoteCallbackDeathRecipients;
     modM (\<lambda>m. m \<lparr> abilityDeath := False, systemProcessDeath := False, abilityStatusDeath := False,
       abilityCallbackDeath := False, remoteCallbackDeath := False \<rparr>) }"

definition ReleaseSubSystems :: "unit M" where
  "ReleaseSubSystems = do {
     modM (\<lambda>m. m \<lparr> collectManager := False \<rparr>);
     CleanResource;
     modM (\<lambda>m. m \<lparr> abilityStateScheduler := False \<rparr>);
     modM (\<lambda>m. m \<lparr> workHandler := None, deathHandler := None \<rparr>) }"

definition Destroy :: "unit M" where
  "Destroy = do {
     mgr_CleanFfrt;
     RemoveAllDeathRecipients;
     ReleaseSubSystems;
     modS (\<lambda>c. c \<lparr> manager := False \<rparr>) }"

section \<open>What the manager does to the scheduler's tables\<close>

lemma frames_case_code [frame_intros]:
  "(x = ADD_SYSTEM_ABILITY_TRANSACTION \<Longrightarrow> frames f a) \<Longrightarrow> (x = REMOVE_SYSTEM_ABILITY_TRANSACTION \<Longrightarrow> frames f b) \<Longrightarrow>
   frames f (case x of ADD_SYSTEM_ABILITY_TRANSACTION \<Rightarrow> a | REMOVE_SYSTEM_ABILITY_TRANSACTION \<Rightarrow> b)"
  by (cases x) auto

lemma sch_notify [frame_sch]:
  "frames sch (NotifySystemAbilityChanged a dev code l)" "frames sch (NotifySystemAbilityAddedByAsync e a l')"
  unfolding NotifySystemAbilityChanged_def NotifySystemAbilityAddedByAsync_def by (intro frame_intros frame_sch)+

lemma sch_listeners [frame_sch]:
  "frames sch (FindSystemAbilityNotify a dev code)" "frames sch (CheckListenerNotify e a l)"
  "frames sch (UnSubscribeSystemAbilityLocked a ob)" "frames sch (RefreshListenerState a)"
  unfolding FindSystemAbilityNotify_def CheckListenerNotify_def UnSubscribeSystemAbilityLocked_def RefreshListenerState_def
  by (intro frame_intros frame_sch)+

lemma sch_subscriptions [frame_sch]:
  "frames sch (SubscribeSystemAbilityInner e a l q)" "frames sch (SubscribeSystemAbility e a l)"
  "frames sch (UnSubscribeSystemAbility a l)" "frames sch (UnSubscribeSystemAbilityDied ob)"
  unfolding SubscribeSystemAbility_def SubscribeSystemAbilityInner_def UnSubscribeSystemAbility_def UnSubscribeSystemAbilityDied_def
  by (intro frame_intros frame_sch)+

lemma sch_async_unsubscribe [frame_sch]: "frames sch (AsyncUnSubscribeSystemAbility e ob)"
  unfolding AsyncUnSubscribeSystemAbility_def by (intro frame_intros frame_sch)

lemma sch_registration [frame_sch]:
  "frames sch (RegisterDistribute a b)" "frames sch (InitDbinderService e b)" "frames sch (SystemAbilityInvalidateCache a)"
  "frames sch (SendSystemAbilityAddedMsg e a ob)" "frames sch (clear_extra_data a)"
  unfolding RegisterDistribute_def InitDbinderService_def SystemAbilityInvalidateCache_def SendSystemAbilityAddedMsg_def
    clear_extra_data_def
  by (intro frame_intros frame_sch)+

lemma sch_RemoveStartingAbilityCallbackLocked [frame_sch]: "frames sch (RemoveStartingAbilityCallbackLocked c)"
  unfolding RemoveStartingAbilityCallbackLocked_def by (intro frame_intros frame_sch)

lemma sch_callbacks [frame_sch]:
  "frames sch (NotifySystemAbilityLoadedTo a ob cb)" "frames sch (NotifySystemAbilityLoadFail a cb code)" "frames sch (erase_item a)"
  "frames sch (RemoveStartingAbilityCallback a dev x)"
  unfolding NotifySystemAbilityLoadedTo_def NotifySystemAbilityLoadFail_def erase_item_def RemoveStartingAbilityCallback_def
  by (intro frame_intros frame_sch)+

lemma sch_callback_lists [frame_sch]:
  "frames sch (NotifySystemAbilityLoaded a ob)" "frames sch (CleanCallbackForLoadFailed e a p dev cb)"
  "frames sch (OnStartSystemAbilityFail_absent e a code)" "frames sch (OnStartSystemAbilityFail e a code)"
  "frames sch (RemoveStartingAbilityCallbackForDevice a x)"
  unfolding NotifySystemAbilityLoaded_def CleanCallbackForLoadFailed_def OnStartSystemAbilityFail_def OnStartSystemAbilityFail_absent_def
    RemoveStartingAbilityCallbackForDevice_def Let_def
  by (intro frame_intros frame_sch)+

lemma sch_callback_died [frame_sch]:
  "frames sch (OnAbilityCallbackDied ob)" "frames sch (RemoveRemoteCallbackLocked k x)"
  unfolding OnAbilityCallbackDied_def RemoveRemoteCallbackLocked_def by (intro frame_intros frame_sch)+

lemma sch_remote_died [frame_sch]: "frames sch (OnRemoteCallbackDied ob)"
  unfolding OnRemoteCallbackDied_def by (intro frame_intros frame_sch)

lemma sch_misc [frame_sch]:
  "frames sch (AddOnDemandSystemAbilityInfo e a p)" "frames sch (GetLocalAbilityManagerProxy a)" "frames sch (ListSystemAbilities e)"
  "frames sch (GetSystemAbilityFromRemote a)"
  unfolding AddOnDemandSystemAbilityInfo_def GetLocalAbilityManagerProxy_def ListSystemAbilities_def GetSystemAbilityFromRemote_def
  by (intro frame_intros frame_sch)+

lemma sch_send_strategy [frame_sch]: "frames sch (send_strategy e t l ac sas)"
  by (induction sas) (auto intro!: frame_intros frame_sch)

lemma sch_SendStrategy [frame_sch]: "frames sch (SendStrategy e t sas l ac)"
  unfolding SendStrategy_def by (intro frame_intros frame_sch)

lemmas SI_manager_interface [si_intros] =
  sch_notify [THEN SI_frames] sch_listeners [THEN SI_frames] sch_subscriptions [THEN SI_frames]
  sch_async_unsubscribe [THEN SI_frames] sch_registration [THEN SI_frames] sch_callbacks [THEN SI_frames]
  sch_callback_lists [THEN SI_frames] sch_callback_died [THEN SI_frames] sch_remote_died [THEN SI_frames]
  sch_misc [THEN SI_frames] sch_SendStrategy [THEN SI_frames]

lemma SI_abilities [si_intros]:
  "preserves SI (AddSystemAbility e a ob d)" "preserves SI (RemoveSystemAbility e a)" "preserves SI (RemoveSystemAbilityDied e ob)"
  "preserves SI (CheckSystemAbilityExist e a x)"
  unfolding AddSystemAbility_def RemoveSystemAbility_def RemoveSystemAbilityDied_def CheckSystemAbilityExist_def
  by (intro hoare_intros si_intros)+

lemma SI_processes [si_intros]: "preserves SI (AddSystemProcess e p ob)" "preserves SI (RemoveSystemProcess e ob)"
  unfolding AddSystemProcess_def RemoveSystemProcess_def by (intro hoare_intros si_intros)+

lemma SI_overflow [si_intros]: "preserves SI (ProcessPendingLoadOverflow e a p)"
  unfolding ProcessPendingLoadOverflow_def sch_ServiceControl_def by (intro hoare_intros si_intros)

lemma SI_CheckLoaded [si_intros]: "preserves SI (CheckLoaded e a p dev cb)"
  unfolding CheckLoaded_def by (intro hoare_intros si_intros)

lemma SI_requests [si_intros]:
  "preserves SI (LoadSystemAbility e a cb)" "preserves SI (LoadSystemAbilityFromRpc e dev a cb)"
  "preserves SI (UnloadSystemAbility e a)" "preserves SI (CancelUnloadSystemAbility e a)"
  "preserves SI (mgr_UnloadAllIdleSystemAbility e)" "preserves SI (mgr_UnloadProcess e ps)"
  "preserves SI (GetLruIdleSystemAbilityProc e)" "preserves SI (ProcessOnDemandEvent e ev cs)"
  unfolding LoadSystemAbility_def LoadSystemAbilityFromRpc_def UnloadSystemAbility_def CancelUnloadSystemAbility_def
    mgr_UnloadAllIdleSystemAbility_def mgr_UnloadProcess_def GetLruIdleSystemAbilityProc_def ProcessOnDemandEvent_def Let_def
  by (intro hoare_intros si_intros)+

lemma SI_forwarded [si_intros]:
  "preserves SI (mgr_SubscribeSystemProcess l)" "preserves SI (mgr_UnSubscribeSystemProcess l)"
  "preserves SI (mgr_UnSubscribeSystemProcessDied ob)" "preserves SI (mgr_SubscribeLowMemSystemProcess e l)"
  "preserves SI (mgr_UnSubscribeLowMemSystemProcess e l)" "preserves SI mgr_CleanFfrt" "preserves SI mgr_SetFfrt"
  unfolding mgr_SubscribeSystemProcess_def mgr_UnSubscribeSystemProcess_def mgr_UnSubscribeSystemProcessDied_def
    mgr_SubscribeLowMemSystemProcess_def mgr_UnSubscribeLowMemSystemProcess_def mgr_CleanFfrt_def mgr_SetFfrt_def
  by (intro hoare_intros si_intros)+

end
