(* ===== verification/System.thy ===== *)
theory System
  imports Manager
begin

text \<open>
  The service as a transition system. A step is either a request (an IPC call, a death notice, an
  on-demand event) executed to its end, or a task the FFRT runtime starts from one of the queues. The
  environment of a step is arbitrary, so every answer of the outside world is covered. The sources
  serialise a request by the locks it takes; the model runs each step without interruption.
\<close>

section \<open>Bodies of the posted closures\<close>

definition run_task :: "env \<Rightarrow> task \<Rightarrow> unit M" where
  "run_task e t = (case t of
       UpdateDelayUnloadTimeTask a \<Rightarrow> UpdateLimitDelayUnloadTimeTask e a
     | PendingLoadOverflowTask a p \<Rightarrow> ProcessPendingLoadOverflow e a p
     | TryUnloadAllTask p \<Rightarrow> do { _ \<leftarrow> TryUnloadAllSystemAbility e (Some p); ret () }
     | UnloadTimeoutTask p \<Rightarrow> UnloadTimeout e p
     | TryKillTask p \<Rightarrow> do { _ \<leftarrow> TryKillSystemProcess e (Some p); ret () }
     | PendingUnloadTask a \<Rightarrow> do {
         found \<leftarrow> GetSystemAbilityContext a;
         if \<not> found then ret () else do { _ \<leftarrow> HandlePendingUnloadEventLocked e a; ret () } }
     | UnloadEventTask i \<Rightarrow> UEH_ProcessEvent e i
     | StartOnDemandTask p a \<Rightarrow> StartOnDemandAbilityProc e p a
     | NotifyAddedTask a ob \<Rightarrow> do {
         _ \<leftarrow> FindSystemAbilityNotify a [] ADD_SYSTEM_ABILITY_TRANSACTION;
         NotifySystemAbilityLoaded a ob }
     | NotifyRemovedTask a \<Rightarrow> do { _ \<leftarrow> FindSystemAbilityNotify a [] REMOVE_SYSTEM_ABILITY_TRANSACTION; ret () }
     | CheckLoadedTask a p dev cb \<Rightarrow> CheckLoaded e a p dev cb
     | NotifyLoadFailTask a cb code \<Rightarrow> NotifySystemAbilityLoadFail a (Some cb) code
     | NotifyLoadedTask a ob cb \<Rightarrow> NotifySystemAbilityLoadedTo a ob cb
     | ListenerNotifyTask a l \<Rightarrow> NotifySystemAbilityChanged a [] ADD_SYSTEM_ABILITY_TRANSACTION (Some l)
     | UnSubscribeTask ob \<Rightarrow> UnSubscribeSystemAbilityDied (Some ob))"

section \<open>Requests\<close>

datatype request =
    ReqCheckSystemAbility int
  | ReqCheckSystemAbilityExist int bool
  | ReqAddSystemAbility int "obj option" bool
  | ReqRemoveSystemAbility int
  | ReqSubscribeSystemAbility int "iface option"
  | ReqUnSubscribeSystemAbility int "iface option"
  | ReqAddOnDemandSystemAbilityInfo int u16string
  | ReqAddSystemProcess u16string "obj option"
  | ReqLoadSystemAbility int "iface option"
  | ReqLoadSystemAbilityFromRpc string int "iface option"
  | ReqUnloadSystemAbility int
  | ReqCancelUnloadSystemAbility int
  | ReqUnloadAllIdleSystemAbility
  | ReqUnloadProcess "u16string list"
  | ReqGetLruIdleSystemAbilityProc
  | ReqOnStartSystemAbilityFail int int
  | ReqSubscribeSystemProcess "iface option"
  | ReqUnSubscribeSystemProcess "iface option"
  | ReqSubscribeLowMemSystemProcess "iface option"
  | ReqUnSubscribeLowMemSystemProcess "iface option"
  | ReqProcessOnDemandEvent OnDemandEvent "SaControlInfo list"
  | ReqSendStrategy int "int list" int string
  | ReqInitDbinderService bool
  | ReqSetFfrt
  | ReqCleanFfrt
  | AbilityDied obj
  | ProcessDied obj
  | StatusListenerDied obj
  | CallbackDied obj
  | RemoteCallbackDied obj
  | ProcessListenerDied obj

definition run_request :: "env \<Rightarrow> request \<Rightarrow> unit M" where
  "run_request e r = (case r of
       ReqCheckSystemAbility a \<Rightarrow> do { _ \<leftarrow> CheckSystemAbility e a; ret () }
     | ReqCheckSystemAbilityExist a x \<Rightarrow> do { _ \<leftarrow> CheckSystemAbilityExist e a x; ret () }
     | ReqAddSystemAbility a ob d \<Rightarrow> do { _ \<leftarrow> AddSystemAbility e a ob d; ret () }
     | ReqRemoveSystemAbility a \<Rightarrow> do { _ \<leftarrow> RemoveSystemAbility e a; ret () }
     | ReqSubscribeSystemAbility a l \<Rightarrow> do { _ \<leftarrow> SubscribeSystemAbility e a l; ret () }
     | ReqUnSubscribeSystemAbility a l \<Rightarrow> do { _ \<leftarrow> UnSubscribeSystemAbility a l; ret () }
     | ReqAddOnDemandSystemAbilityInfo a p \<Rightarrow> do { _ \<leftarrow> AddOnDemandSystemAbilityInfo e a p; ret () }
     | ReqAddSystemProcess p ob \<Rightarrow> do { _ \<leftarrow> AddSystemProcess e p ob; ret () }
     | ReqLoadSystemAbility a cb \<Rightarrow> do { _ \<leftarrow> LoadSystemAbility e a cb; ret () }
     | ReqLoadSystemAbilityFromRpc dev a cb \<Rightarrow> do { _ \<leftarrow> LoadSystemAbilityFromRpc e dev a cb; ret () }
     | ReqUnloadSystemAbility a \<Rightarrow> do { _ \<leftarrow> UnloadSystemAbility e a; ret () }
     | ReqCancelUnloadSystemAbility a \<Rightarrow> do { _ \<leftarrow> CancelUnloadSystemAbility e a; ret () }
     | ReqUnloadAllIdleSystemAbility \<Rightarrow> do { _ \<leftarrow> mgr_UnloadAllIdleSystemAbility e; ret () }
     | ReqUnloadProcess ps \<Rightarrow> do { _ \<leftarrow> mgr_UnloadProcess e ps; ret () }
     | ReqGetLruIdleSystemAbilityProc \<Rightarrow> do { _ \<leftarrow> GetLruIdleSystemAbilityProc e; ret () }
     | ReqOnStartSystemAbilityFail a code \<Rightarrow> do { _ \<leftarrow> OnStartSystemAbilityFail e a code; ret () }
     | ReqSubscribeSystemProcess l \<Rightarrow> do { _ \<leftarrow> mgr_SubscribeSystemProcess l; ret () }
     | ReqUnSubscribeSystemProcess l \<Rightarrow> do { _ \<leftarrow> mgr_UnSubscribeSystemProcess l; ret () }
     | ReqSubscribeLowMemSystemProcess l \<Rightarrow> do { _ \<leftarrow> mgr_SubscribeLowMemSystemProcess e l; ret () }
     | ReqUnSubscribeLowMemSystemProcess l \<Rightarrow> do { _ \<leftarrow> mgr_UnSubscribeLowMemSystemProcess e l; ret () }
     | ReqProcessOnDemandEvent ev cs \<Rightarrow> ProcessOnDemandEvent e ev cs
     | ReqSendStrategy t sas l ac \<Rightarrow> do { _ \<leftarrow> SendStrategy e t sas l ac; ret () }
     | ReqInitDbinderService x \<Rightarrow> InitDbinderService e x
     | ReqSetFfrt \<Rightarrow> mgr_SetFfrt
     | ReqCleanFfrt \<Rightarrow> mgr_CleanFfrt
     | AbilityDied ob \<Rightarrow> do { _ \<leftarrow> RemoveSystemAbilityDied e (Some ob); ret () }
     | ProcessDied ob \<Rightarrow> do { _ \<leftarrow> RemoveSystemProcess e (Some ob); ret () }
     | StatusListenerDied ob \<Rightarrow>
         if e_deathPrior e then AsyncUnSubscribeSystemAbility e (Some ob) else UnSubscribeSystemAbilityDied (Some ob)
     | CallbackDied ob \<Rightarrow> OnAbilityCallbackDied (Some ob)
     | RemoteCallbackDied ob \<Rightarrow> OnRemoteCallbackDied (Some ob)
     | ProcessListenerDied ob \<Rightarrow> mgr_UnSubscribeSystemProcessDied (Some ob))"

inductive step :: "samgr \<Rightarrow> samgr \<Rightarrow> bool" where
  request: "step s (exec (run_request e r) s)"
| task: "get_queue q s = Some h \<Longrightarrow> queue_start k h = Some (t, h') \<Longrightarrow> step s (exec (run_task e t) (put_queue q h' s))"

inductive_cases stepE: "step s s'"

section \<open>Boot\<close>

definition empty_scheduler :: scheduler where
  "empty_scheduler = \<lparr> abilityContextMap = [], processContextMap = [], unloadEventHandler = None, processHandler = None,
     recoverHandler = None, procListenerMap = [], subscribeProcCountMap = [], processListeners = [],
     processListenerDeath = False, startEnableOnceMap = [], stopEnableOnceMap = [], runningProcessList = [],
     lowMemoryProcessList = [], manager = False \<rparr>"

definition empty_manager :: sa_manager where
  "empty_manager = \<lparr> abilityMap = [], listenerMap = [], subscribeCountMap = [], onDemandAbilityMap = [],
     startingAbilityMap = [], systemProcessMap = [], startingProcessMap = [], callbackCountMap = [],
     saProfileMap = [], onDemandSaIdsSet = [], remoteCallbacks = [], saFrequencyMap = [],
     workHandler = None, deathHandler = None, abilityStateScheduler = False, collectManager = False,
     abilityDeath = False, systemProcessDeath = False, abilityStatusDeath = False, abilityCallbackDeath = False,
     remoteCallbackDeath = False, dBinderService = False, rpcCallbackImp = False, isDbinderServiceInit = False,
     distributedSaList = [] \<rparr>"

definition empty_samgr :: samgr where
  "empty_samgr = \<lparr> sch = empty_scheduler, mgr = empty_manager, effects = [], asks = 0, faulted = False \<rparr>"

text \<open>\<^verbatim>\<open>main.cpp\<close>: initialise the manager from the parsed profiles, then register the service itself.\<close>
definition boot :: "env \<Rightarrow> SaProfile list \<Rightarrow> obj \<Rightarrow> samgr" where
  "boot e profiles this = exec (do { mgr_Init e profiles; AddSamgrToAbilityMap e this }) empty_samgr"

text \<open>What the profile files of a device must satisfy: identifiers are not reused, and neither the service's own
  process name nor its identifier is taken.\<close>
definition profiles_ok :: "SaProfile list \<Rightarrow> bool" where
  "profiles_ok prs \<longleftrightarrow> length prs < 2 ^ 32 \<and> distinct (map saId (managed prs))
     \<and> (\<forall>pr \<in> set (managed prs). saId pr \<noteq> 0 \<and> process pr \<noteq> SAMGR_PROCESS_NAME)"

inductive reachable :: "SaProfile list \<Rightarrow> samgr \<Rightarrow> bool" for profiles where
  boot: "reachable profiles (boot e profiles this)"
| step: "reachable profiles s \<Longrightarrow> step s s' \<Longrightarrow> reachable profiles s'"

section \<open>The scheduler invariant in every reachable state\<close>

lemma SI_run_task: "preserves SI (run_task e t)"
  unfolding run_task_def
  by (cases t; simp only: task.case; intro hoare_intros si_intros)

lemma SI_run_request: "preserves SI (run_request e r)"
  unfolding run_request_def
  by (cases r; simp only: request.case; intro hoare_intros si_intros)

lemma SI_step: "step s s' \<Longrightarrow> SI s \<Longrightarrow> SI s'"
  by (erule stepE) (auto intro!: preservesD [OF SI_run_task] preservesD [OF SI_run_request])

text \<open>The state after boot.\<close>
lemma SI_empty: "sched_inv empty_scheduler"
  by (simp add: sched_inv_def counts_ok_def bounds_ok_def empty_scheduler_def)

lemma sch_Init_tables:
  "abilityContextMap (sch (exec (sch_Init prs) s)) = abilityContextMap (sch (exec (InitStateContext prs) s))"
  "processContextMap (sch (exec (sch_Init prs) s)) = processContextMap (sch (exec (InitStateContext prs) s))"
  by (simp_all add: sch_Init_def InitLowMemProcessList_def run_simps modS_def)

lemma InitSaProfile_sch:
  "abilityStateScheduler (mgr s) \<Longrightarrow> sch (exec (InitSaProfile prs) s) = sch (exec (sch_Init prs) s)"
proof -
  assume a: "abilityStateScheduler (mgr s)"
  have "frames sch (for_each prs (\<lambda>pr. do {
       modM (\<lambda>m. m \<lparr> saProfileMap := sm_ins (saId pr) (FilterCommonSaProfile pr) (saProfileMap m) \<rparr>);
       onlyif (\<not> runOnCreate pr) (modM (\<lambda>m. m \<lparr> onDemandSaIdsSet := sm_ins (saId pr) () (onDemandSaIdsSet m) \<rparr>)) }))"
    by (intro frame_intros frame_sch)
  with a show ?thesis
    by (simp add: InitSaProfile_def run_simps getM_def framesD) (simp add: modM_def run_simps)
qed

lemma mgr_Init_sch:
  "\<exists>s1. sch s1 = (sch s) \<lparr> manager := True \<rparr> \<and> abilityStateScheduler (mgr s1) \<and>
     exec (mgr_Init e prs) s = exec (InitSaProfile prs) s1"
  unfolding mgr_Init_def exec_bind modM_def modS_def exec_modify
  by (intro exI conjI refl) simp_all

lemma SI_boot:
  assumes ok: "profiles_ok prs"
  shows "SI (boot e prs this)"
proof -
  obtain s1 where s1: "sch s1 = empty_scheduler \<lparr> manager := True \<rparr>" "abilityStateScheduler (mgr s1)"
    and init: "exec (mgr_Init e prs) empty_samgr = exec (InitSaProfile prs) s1"
    using mgr_Init_sch [of empty_samgr e prs] by (auto simp: empty_samgr_def)
  let ?s2 = "exec (InitStateContext prs) s1" and ?s3 = "exec (mgr_Init e prs) empty_samgr"
  have SI1: "SI s1"
    unfolding s1(1) using SI_empty by (simp add: sched_inv_cong [of "empty_scheduler \<lparr> manager := True \<rparr>" empty_scheduler])
  have "length (managed prs) < 2 ^ 32"
    using ok by (auto simp: profiles_ok_def managed_def intro: le_less_trans [OF length_filter_le])
  then have SI2: "SI ?s2"
    using ok SI1 by (intro InitStateContext_SI [of _ 0]) (auto simp: profiles_ok_def s1 sas_le_def empty_scheduler_def)
  have tables: "abilityContextMap (sch ?s3) = abilityContextMap (sch ?s2)" "processContextMap (sch ?s3) = processContextMap (sch ?s2)"
    unfolding init InitSaProfile_sch [OF s1(2)] by (simp_all add: sch_Init_tables)
  then have SI3: "SI ?s3" using SI2 sched_inv_cong by blast
  have "0 \<notin> saId ` set (managed prs)" "SAMGR_PROCESS_NAME \<notin> process ` set (managed prs)"
    using ok by (auto simp: profiles_ok_def)
  then have new: "sm_find 0 (abilityContextMap (sch ?s3)) = None" "sm_find SAMGR_PROCESS_NAME (processContextMap (sch ?s3)) = None"
    unfolding tables by (simp_all add: InitStateContext_other s1 empty_scheduler_def)
  show ?thesis
    using SI3 new InitSamgrProcessContext_SI
    by (simp add: boot_def AddSamgrToAbilityMap_def run_simps modM_def getM_def)
qed

lemma SI_reachable: "reachable prs s \<Longrightarrow> profiles_ok prs \<Longrightarrow> SI s"
  by (induction rule: reachable.induct) (auto intro: SI_boot SI_step)

end
