(* ===== verification/Samples.thy ===== *)
theory Samples
  imports System
begin

text \<open>
  A small device on which the properties are exercised: three profiles in two processes, of which
  ability 401 may be unloaded on its own, an environment in which every request to the outside
  succeeds, and the states of the service after boot and after a process and an ability registered. Nothing here models code; the witnesses of the properties evaluate the model on it.
\<close>

definition sample_env :: env where
  "sample_env = \<lparr> e_tick = (\<lambda>n. 1000 + int n), e_callingPid = 42, e_callingUid = 1000, e_getpid = 9, e_getuid = 0,
     e_str16to8 = map (\<lambda>w. char_of (unat w)), e_str8to16 = u16,
     e_cmdline = (\<lambda>_. ''client''), e_iface_cast = (\<lambda>_. True),
     e_stopAbility = (\<lambda>_. True), e_idleAbility = (\<lambda>_. (True, 0)), e_activeAbility = (\<lambda>_. True),
     e_serviceControl = (\<lambda>_. 0), e_accept = (\<lambda>_. True), e_boolParam = (\<lambda>_. False), e_processStarted = (\<lambda>_. True),
     e_tokenInfo = (0, ''foundation''), e_jsonDump = (\<lambda>r. to_string (r_eventId r)), e_deathPrior = True,
     e_newStub = (\<lambda>n. Iface n (Some (100 + n))), e_lowMemPrepare = [401], e_userId = 0, e_foregroundUser = False \<rparr>"

definition sample_profile :: "string \<Rightarrow> int \<Rightarrow> SaProfile" where
  "sample_profile p a = \<lparr> process = u16 p, saId = a, libPath = ''lib.so'', dependSa = [], dependTimeout = 0,
     runOnCreate = False, moduleUpdate = False, autoRestart = True, distributed = False, dumpLevel = 0, bootPhase = 3,
     startOnDemand = \<lparr> start_allowUpdate = False, start_onDemandEvents = [] \<rparr>,
     stopOnDemand = \<lparr> stop_allowUpdate = False, unrefUnload = False, delayTime = 20000, unusedTimeout = -1,
       stop_onDemandEvents = [] \<rparr>,
     recycleStrategy = IMMEDIATELY, extension = [], cacheCommonEvent = False, sp_independentUnload = (a = 401) \<rparr>"

definition sample_profiles :: "SaProfile list" where
  "sample_profiles = [sample_profile ''foo'' 401, sample_profile ''bar'' 402, sample_profile ''foo'' 403]"

definition foo :: u16string where "foo = u16 ''foo''"

definition booted :: samgr where
  "booted = boot sample_env sample_profiles 7"

lemma sample_profiles_ok: "profiles_ok sample_profiles"
  by (simp add: profiles_ok_def sample_profiles_def managed_def sample_profile_def u16_def SAMGR_PROCESS_NAME_def)

lemma booted_reachable: "reachable sample_profiles booted"
  unfolding booted_def by (rule reachable.intros)

text \<open>Process \<^verbatim>\<open>foo\<close> registers, and ability 401 registers from it.\<close>
definition loaded :: samgr where
  "loaded = exec (AddSystemAbility sample_env 401 (Some 11) False) (exec (AddSystemProcess sample_env foo (Some 10)) booted)"

lemma loaded_reachable: "reachable sample_profiles loaded"
proof -
  have "reachable sample_profiles (exec (run_request sample_env (ReqAddSystemAbility 401 (Some 11) False))
      (exec (run_request sample_env (ReqAddSystemProcess foo (Some 10))) booted))"
    by (intro reachable.step [OF _ step.request] booted_reachable)
  then show ?thesis by (simp add: run_request_def loaded_def run_simps)
qed

text \<open>What the witnesses read of a state, evaluated once per state.\<close>
definition probe :: "scheduler \<Rightarrow> bool \<times> int list \<times> SystemAbilityState list \<times> SystemProcessState \<times> bool" where
  "probe c = (sm_count foo (processContextMap c), saList (pctx foo c), map (\<lambda>a. sa_state (actx a c)) [401, 403],
     proc_state (pctx foo c), list_all (\<lambda>a. sm_count a (abilityContextMap c) \<and> ownProcessContext (actx a c) = Some foo) [401, 403])"

lemma loaded_eval: "probe (sch loaded) = (True, [401, 403], [LOADED, NOT_LOADED], STARTED, True)"
  by code_simp

lemma loaded_facts:
  "sm_count foo (processContextMap (sch loaded))" "foo \<noteq> SAMGR_PROCESS_NAME" "saList (pctx foo (sch loaded)) = [401, 403]"
  "sa_state (actx 401 (sch loaded)) = LOADED" "sa_state (actx 403 (sch loaded)) = NOT_LOADED"
  "proc_state (pctx foo (sch loaded)) = STARTED" "sm_count 401 (abilityContextMap (sch loaded))"
  "ownProcessContext (actx 401 (sch loaded)) = Some foo" "sm_count 403 (abilityContextMap (sch loaded))"
  "ownProcessContext (actx 403 (sch loaded)) = Some foo"
  using loaded_eval by (simp_all add: probe_def) (simp_all add: foo_def SAMGR_PROCESS_NAME_def u16_def)

end
