(* ===== verification/Lifecycle.thy ===== *)
theory Lifecycle
  imports Scheduler_Admin
begin

text \<open>
  What the operations of the scheduler do to the states of abilities and processes.

  \<open>core\<close> is the part of the tables the state machine decides on: the state and the owner of each
  ability, the state, the abilities and the counters of each process. Most operations leave it alone
  (\<open>frame_core\<close>); a transition changes one ability. On top of that: loading, and what a
  stopped process leaves behind.
\<close>

section \<open>The states the machine decides on\<close>

definition ability_core :: "SystemAbilityContext \<Rightarrow> SystemAbilityState \<times> u16string option" where
  "ability_core A = (sa_state A, ownProcessContext A)"

definition process_core ::
  "SystemProcessContext \<Rightarrow> SystemProcessState \<times> int list \<times> (SystemAbilityState, 32 word) smap \<times> u16string" where
  "process_core P = (proc_state P, saList P, abilityStateCountMap P, processName P)"

definition core :: "samgr \<Rightarrow> (int \<Rightarrow> (SystemAbilityState \<times> u16string option) option) \<times>
  (u16string \<Rightarrow> (SystemProcessState \<times> int list \<times> (SystemAbilityState, 32 word) smap \<times> u16string) option)" where
  "core s = ((\<lambda>a. map_option ability_core (sm_find a (abilityContextMap (sch s)))),
             (\<lambda>p. map_option process_core (sm_find p (processContextMap (sch s)))))"

lemma core_ability:
  assumes "core s = core s'"
  shows "sa_state (actx a (sch s)) = sa_state (actx a (sch s'))"
    "ownProcessContext (actx a (sch s)) = ownProcessContext (actx a (sch s'))"
    "sm_find a (abilityContextMap (sch s)) = None \<longleftrightarrow> sm_find a (abilityContextMap (sch s')) = None"
proof -
  have "map_option ability_core (sm_find a (abilityContextMap (sch s))) = map_option ability_core (sm_find a (abilityContextMap (sch s')))"
    using assms by (auto simp: core_def dest: fun_cong)
  then show "sa_state (actx a (sch s)) = sa_state (actx a (sch s'))"
    "ownProcessContext (actx a (sch s)) = ownProcessContext (actx a (sch s'))"
    "sm_find a (abilityContextMap (sch s)) = None \<longleftrightarrow> sm_find a (abilityContextMap (sch s')) = None"
    by (cases "sm_find a (abilityContextMap (sch s))"; cases "sm_find a (abilityContextMap (sch s'))";
        simp add: actx_def sm_get_def ability_core_def)+
qed

lemma core_process:
  assumes "core s = core s'"
  shows "proc_state (pctx p (sch s)) = proc_state (pctx p (sch s'))" "saList (pctx p (sch s)) = saList (pctx p (sch s'))"
    "abilityStateCountMap (pctx p (sch s)) = abilityStateCountMap (pctx p (sch s'))"
    "sm_find p (processContextMap (sch s)) = None \<longleftrightarrow> sm_find p (processContextMap (sch s')) = None"
proof -
  have "map_option process_core (sm_find p (processContextMap (sch s))) = map_option process_core (sm_find p (processContextMap (sch s')))"
    using assms by (auto simp: core_def dest: fun_cong)
  then show "proc_state (pctx p (sch s)) = proc_state (pctx p (sch s'))" "saList (pctx p (sch s)) = saList (pctx p (sch s'))"
    "abilityStateCountMap (pctx p (sch s)) = abilityStateCountMap (pctx p (sch s'))"
    "sm_find p (processContextMap (sch s)) = None \<longleftrightarrow> sm_find p (processContextMap (sch s')) = None"
    by (cases "sm_find p (processContextMap (sch s))"; cases "sm_find p (processContextMap (sch s'))";
        simp add: pctx_def sm_get_def process_core_def)+
qed

section \<open>Operations that keep them\<close>

named_theorems frame_core \<open>operations that keep the states of abilities and processes\<close>

lemma core_sch: "frames sch m \<Longrightarrow> frames core m"
  by (simp add: frames_def core_def)

lemmas core_manager_ops [frame_core] = frame_sch [THEN core_sch]

lemma core_modA: "(\<And>A. ability_core (f A) = ability_core A) \<Longrightarrow> frames core (modA a f)"
  by (auto simp: frames_def core_def modA_def modS_def run_simps fun_eq_iff option.map_comp comp_def)

lemma core_modP: "(\<And>P. process_core (f P) = process_core P) \<Longrightarrow> frames core (modP p f)"
  by (auto simp: frames_def core_def modP_def modS_def run_simps fun_eq_iff option.map_comp comp_def)

lemma core_modS:
  "(\<And>c. abilityContextMap (f c) = abilityContextMap c \<and> processContextMap (f c) = processContextMap c) \<Longrightarrow> frames core (modS f)"
  by (simp add: frames_def core_def modS_def run_simps)

lemma core_put_queue [simp]: "core (put_queue q h s) = core s"
  by (cases q) (simp_all add: core_def put_queue_def)

lemma core_on_queue [frame_core]: "frames core (on_queue q d f)"
  by (rule frames_on_queue) (simp_all, simp add: core_def)

lemma core_queue_ops [frame_core]:
  "frames core (post e q t)" "frames core (post_named e q t n d)" "frames core (remove_task q n)"
  "frames core (del_task q n)" "frames core (has_inner_event q n)"
  unfolding post_def post_named_def remove_task_def del_task_def has_inner_event_def
  by (intro frame_intros frame_core)+

lemma core_fields [frame_core]:
  "frames core (modA a (\<lambda>A. A \<lparr> lastIdleTime := x1 \<rparr>))" "frames core (modA a (\<lambda>A. A \<lparr> pendingEvent := x2 \<rparr>))"
  "frames core (modA a (\<lambda>A. A \<lparr> pendingUnloadEvent := x3 \<rparr>))" "frames core (modA a (\<lambda>A. A \<lparr> unloadRequest := x4 \<rparr>))"
  "frames core (modA a (\<lambda>A. A \<lparr> pendingLoadEventList := x5 A \<rparr>))"
  "frames core (modA a (\<lambda>A. A \<lparr> pendingLoadEventCountMap := x6 A \<rparr>))"
  "frames core (modP p (\<lambda>P. P \<lparr> pendingLoadFirstTimestamp := y1 \<rparr>))" "frames core (modP p (\<lambda>P. P \<lparr> restartCountsCtrl := y2 \<rparr>))"
  "frames core (modP p (\<lambda>P. P \<lparr> enableRestart := y3 \<rparr>))" "frames core (modP p (\<lambda>P. P \<lparr> lastStopTime := y4 \<rparr>))"
  "frames core (modS (\<lambda>c. c \<lparr> procListenerMap := z1 c \<rparr>))"
  by (rule core_modA core_modP core_modS; simp add: ability_core_def process_core_def)+

lemma core_contexts [frame_core]:
  "frames core (GetSystemAbilityContext a)" "frames core (GetSystemProcessContext p)" "frames core unload_handler_present"
  unfolding GetSystemAbilityContext_def GetSystemProcessContext_def unload_handler_present_def
  by (intro frame_intros frame_core)+

lemma core_delayed_unload [frame_core]:
  "frames core (UEH_SendEvent e i d)" "frames core (UEH_RemoveEvent i)" "frames core (UEH_HasInnerEvent i)"
  unfolding UEH_SendEvent_def UEH_RemoveEvent_def UEH_HasInnerEvent_def by (intro frame_intros frame_core)+

lemma core_unload_events [frame_core]:
  "frames core (SendDelayUnloadEventLocked e a d)" "frames core (RemoveDelayUnloadEventLocked a)"
  "frames core (PendUnloadEventLocked a r)" "frames core (RemovePendingUnloadEventLocked a)"
  unfolding SendDelayUnloadEventLocked_def RemoveDelayUnloadEventLocked_def PendUnloadEventLocked_def
    RemovePendingUnloadEventLocked_def
  by (intro frame_intros frame_core)+

lemma core_posts [frame_core]:
  "frames core (PostTryUnloadAllAbilityTask e p)" "frames core (PostTryKillProcessTask e p)"
  "frames core (PostUnloadTimeoutTask e p)" "frames core (RemoveUnloadTimeoutTask e p)"
  unfolding PostTryUnloadAllAbilityTask_def PostTryKillProcessTask_def PostUnloadTimeoutTask_def RemoveUnloadTimeoutTask_def
  by (intro frame_intros frame_core)+

lemma core_notify [frame_core]:
  "frames core (NotifyProcessStarted e p)" "frames core (NotifyProcessStopped e p)"
  "frames core (NotifyProcessActivated e p)" "frames core (NotifyProcessIdled e p)"
  "frames core (IsProcessActivatedLocked p)" "frames core (IsProcessIdledLocked p)"
  unfolding NotifyProcessStarted_def NotifyProcessStopped_def NotifyProcessActivated_def NotifyProcessIdled_def
    IsProcessActivatedLocked_def IsProcessIdledLocked_def
  by (intro frame_intros frame_core)+

lemma core_listener [frame_core]: "frames core (OnAbilityNotLoadedLocked e a)" "frames core (OnAbilityLoadedLocked e a)"
  unfolding OnAbilityNotLoadedLocked_def OnAbilityLoadedLocked_def by (intro frame_intros frame_core)+

lemma core_PendLoadEventLocked [frame_core]: "frames core (PendLoadEventLocked e a req)"
  unfolding PendLoadEventLocked_def HandlePendingLoadOverflow_def Let_def by (intro frame_intros frame_core)

lemma core_restart [frame_core]: "frames core (CanRestartProcessLocked e p)" "frames core (GetAbnormallyDiedAbilityLocked e p)"
  unfolding CanRestartProcessLocked_def GetAbnormallyDiedAbilityLocked_def by (intro frame_intros frame_core)+

lemma core_OnEnter:
  assumes "abilityStateHandlerMap e (Some (listener e)) t = Some h" "t \<noteq> UNLOADABLE"
  shows "frames core (sa_OnEnter h a)"
  using assms unfolding abilityStateHandlerMap_def sa_handler_defs tell_def
  by (cases t) (auto simp: listener_def listener0_def intro!: frame_intros frame_core)

section \<open>A transition\<close>

lemma transition_unchanged:
  assumes "sa_state (actx a (sch s)) = t \<or> \<not> sa_edge (sa_state (actx a (sch s))) t"
  shows "exec (AbilityStateTransitionLocked e L (Some a) t) s = s"
    "eval_st (AbilityStateTransitionLocked e L (Some a) t) s = (if sa_state (actx a (sch s)) = t then ERR_OK else TRANSIT_SA_STATE_FAIL)"
proof -
  obtain h where h: "abilityStateHandlerMap e L t = Some h" "\<And>f. sa_CanEnter h f \<longleftrightarrow> sa_edge f t"
    by (rule ability_handler_total) blast
  then show "exec (AbilityStateTransitionLocked e L (Some a) t) s = s"
    "eval_st (AbilityStateTransitionLocked e L (Some a) t) s = (if sa_state (actx a (sch s)) = t then ERR_OK else TRANSIT_SA_STATE_FAIL)"
    using assms by (auto simp: AbilityStateTransitionLocked_def run_simps getS_def)
qed

text \<open>An admitted transition: count, set the state, tell the listener.\<close>
lemma transition_admitted:
  assumes SI: "SI s" and A: "sm_find a (abilityContextMap (sch s)) = Some A"
    and own: "ownProcessContext A = Some p" and p: "p \<noteq> SAMGR_PROCESS_NAME" and edge: "sa_edge (sa_state A) t"
  obtains h where "abilityStateHandlerMap e L t = Some h"
    "eval_st (AbilityStateTransitionLocked e L (Some a) t) s = ERR_OK"
    "exec (AbilityStateTransitionLocked e L (Some a) t) s =
       exec (sa_OnEnter h a) (exec (modA a (\<lambda>A. A \<lparr> sa_state := t \<rparr>)) (exec (UpdateStateCount (Some p) (sa_state A) t) s))"
proof -
  obtain h where h: "abilityStateHandlerMap e L t = Some h" "\<And>f. sa_CanEnter h f \<longleftrightarrow> sa_edge f t"
    by (rule ability_handler_total) blast
  have actx: "actx a (sch s) = A" by (simp add: actx_def sm_get_def A)
  have ne: "sa_state A \<noteq> t" using edge by (cases t) auto
  have upd: "eval_st (UpdateStateCount (Some p) (sa_state A) t) s" by (simp add: UpdateStateCount_success [OF SI A own p])
  show ?thesis
    using h edge ne upd own
    by (intro that [of h]) (auto simp: AbilityStateTransitionLocked_def run_simps getS_def actx)
qed

text \<open>The two states differ in the state of one ability only, as far as \<open>core\<close> without the counters goes.\<close>
definition moved :: "int \<Rightarrow> SystemAbilityState \<Rightarrow> samgr \<Rightarrow> samgr \<Rightarrow> bool" where
  "moved a t s s' \<longleftrightarrow>
     (\<forall>b. sa_state (actx b (sch s')) = (if b = a then t else sa_state (actx b (sch s)))
        \<and> ownProcessContext (actx b (sch s')) = ownProcessContext (actx b (sch s)))
   \<and> (\<forall>q. proc_state (pctx q (sch s')) = proc_state (pctx q (sch s)) \<and> saList (pctx q (sch s')) = saList (pctx q (sch s)))"

lemma moved_core: "core s' = core s \<Longrightarrow> sa_state (actx a (sch s)) = t \<Longrightarrow> moved a t s s'"
  using core_ability [of s' s] core_process [of s' s] by (auto simp: moved_def)

lemma moved_trans: "moved a t s s' \<Longrightarrow> moved a u s' s'' \<Longrightarrow> moved a u s s''"
  by (auto simp: moved_def)

lemma moved_count:
  assumes A: "sm_find a (abilityContextMap (sch s)) = Some A" and upd: "eval_st (UpdateStateCount (Some p) f t) s"
  shows "moved a t s (exec (modA a (\<lambda>A. A \<lparr> sa_state := t \<rparr>)) (exec (UpdateStateCount (Some p) f t) s))"
  unfolding moved_def exec_UpdateStateCount [OF upd]
  by (auto simp: modA_def modS_def run_simps actx_def pctx_def sm_get_def A split: option.splits)

text \<open>A transition to any state but \<^verbatim>\<open>UNLOADABLE\<close>, whose entry may start an unload, moves this ability and nothing else.\<close>
lemma transition_moves:
  assumes SI: "SI s" and A: "sm_find a (abilityContextMap (sch s)) = Some A"
    and own: "ownProcessContext A = Some p" and p: "p \<noteq> SAMGR_PROCESS_NAME"
    and edge: "sa_state A = t \<or> sa_edge (sa_state A) t" and t: "t \<noteq> UNLOADABLE"
  shows "eval_st (ability_transition e a t) s = ERR_OK" "moved a t s (exec (ability_transition e a t) s)"
proof -
  have actx: "actx a (sch s) = A" by (simp add: actx_def sm_get_def A)
  have "eval_st (ability_transition e a t) s = ERR_OK \<and> moved a t s (exec (ability_transition e a t) s)"
  proof (cases "sa_state A = t")
    case True
    then show ?thesis using transition_unchanged [of a s t] by (simp add: actx moved_core)
  next
    case False
    with edge have edge': "sa_edge (sa_state A) t" by simp
    obtain h where h: "abilityStateHandlerMap e (Some (listener e)) t = Some h"
      "eval_st (ability_transition e a t) s = ERR_OK"
      "exec (ability_transition e a t) s =
         exec (sa_OnEnter h a) (exec (modA a (\<lambda>A. A \<lparr> sa_state := t \<rparr>)) (exec (UpdateStateCount (Some p) (sa_state A) t) s))"
      by (rule transition_admitted [OF SI A own p edge'])
    let ?s1 = "exec (modA a (\<lambda>A. A \<lparr> sa_state := t \<rparr>)) (exec (UpdateStateCount (Some p) (sa_state A) t) s)"
    have m: "moved a t s ?s1"
      by (rule moved_count [OF A]) (simp add: UpdateStateCount_success [OF SI A own p])
    then have "sa_state (actx a (sch ?s1)) = t" by (simp add: moved_def)
    then have "moved a t ?s1 (exec (sa_OnEnter h a) ?s1)"
      by (rule moved_core [OF framesD [OF core_OnEnter [OF h(1) t]]])
    with m h(2,3) show ?thesis by (simp add: moved_trans)
  qed
  then show "eval_st (ability_transition e a t) s = ERR_OK" "moved a t s (exec (ability_transition e a t) s)"
    by simp_all
qed

section \<open>Loading\<close>

text \<open>An ability with a context, owned by a process other than the service's own.\<close>
definition client_ability :: "int \<Rightarrow> samgr \<Rightarrow> bool" where
  "client_ability a s \<longleftrightarrow> (\<exists>A p. sm_find a (abilityContextMap (sch s)) = Some A \<and> ownProcessContext A = Some p \<and> p \<noteq> SAMGR_PROCESS_NAME)"

lemma client_ability_moved:
  assumes "client_ability b s" "moved a t s s'"
  shows "client_ability b s'"
proof -
  from assms(1) obtain A p where A: "sm_find b (abilityContextMap (sch s)) = Some A" "ownProcessContext A = Some p"
    "p \<noteq> SAMGR_PROCESS_NAME"
    by (auto simp: client_ability_def)
  then have "ownProcessContext (actx b (sch s')) = Some p" using assms(2) by (simp add: moved_def actx_def sm_get_def)
  with A(3) show ?thesis
    by (auto simp: client_ability_def actx_def sm_get_def new_ability_context_def split: option.splits)
qed

lemma client_ability_transition:
  assumes "SI s" "client_ability a s" "sa_state (actx a (sch s)) = t \<or> sa_edge (sa_state (actx a (sch s))) t" "t \<noteq> UNLOADABLE"
  shows "eval_st (ability_transition e a t) s = ERR_OK" "moved a t s (exec (ability_transition e a t) s)"
  using assms transition_moves [of s a "actx a (sch s)"]
  by (auto simp: client_ability_def actx_def sm_get_def)

lemma moved_same_sch: "sch s1 = sch s \<Longrightarrow> moved a t s s' = moved a t s1 s'"
  by (simp add: moved_def)

lemma DoLoad_moves:
  assumes SI: "SI s" and a: "client_ability a s"
  shows "\<exists>t. moved a t s (exec (DoLoadSystemAbilityLocked e a req) s) \<and>
    (t = sa_state (actx a (sch s)) \<or> sa_state (actx a (sch s)) = NOT_LOADED \<and> t = LOADING)"
proof -
  define m where "m = request_load e a (processName (pctx (own a (sch s)) (sch s))) req"
  have same: "sch (exec m s) = sch s" unfolding m_def by (intro framesD frame_sch)
  have run: "exec (DoLoadSystemAbilityLocked e a req) s = (if \<not> manager (sch s) then s
      else if eval_st m s = ERR_OK \<and> sa_state (actx a (sch s)) = NOT_LOADED then exec (ability_transition e a LOADING) (exec m s)
      else exec m s)"
    by (simp add: DoLoadSystemAbilityLocked_def run_simps getS_def m_def [symmetric] same)
  show ?thesis
  proof (cases "manager (sch s) \<and> eval_st m s = ERR_OK \<and> sa_state (actx a (sch s)) = NOT_LOADED")
    case True
    have "moved a LOADING (exec m s) (exec (ability_transition e a LOADING) (exec m s))"
      using SI a True by (intro client_ability_transition) (simp_all add: same client_ability_def)
    with True show ?thesis
      unfolding run using moved_same_sch [OF same] by (intro exI [of _ LOADING]) simp
  next
    case False
    then have "sch (exec (DoLoadSystemAbilityLocked e a req) s) = sch s"
      unfolding run by (auto simp: same)
    then show ?thesis by (auto simp: moved_def)
  qed
qed

text \<open>
  A load request for an ability that is neither unloading nor in a stopping process, and that is not
  loaded yet, leaves it not loaded or loading.
\<close>
lemma HandleLoad_moves:
  assumes SI: "SI s" and a: "client_ability a s"
    and st: "sa_state (actx a (sch s)) \<in> {NOT_LOADED, LOADING}" and ps: "proc_state (pctx (own a (sch s)) (sch s)) \<noteq> STOPPING"
  shows "\<exists>t \<in> {NOT_LOADED, LOADING}. moved a t s (exec (HandleLoadAbilityEventLocked e a req) s)"
proof (cases "sa_state (actx a (sch s)) = NOT_LOADED")
  case True
  then have "exec (HandleLoadAbilityEventLocked e a req) s = exec (DoLoadSystemAbilityLocked e a req) s"
    using ps by (simp add: HandleLoadAbilityEventLocked_def run_simps getS_def)
  with DoLoad_moves [OF SI a] True show ?thesis by auto
next
  case False
  with st have L: "sa_state (actx a (sch s)) = LOADING" by simp
  let ?s1 = "exec (RemovePendingUnloadEventLocked a) s"
  have "eval_st (RemovePendingUnloadEventLocked a) s = ERR_OK"
    by (simp add: RemovePendingUnloadEventLocked_def run_simps)
  then have ex: "exec (HandleLoadAbilityEventLocked e a req) s = exec (DoLoadSystemAbilityLocked e a req) ?s1"
    using L ps by (simp add: HandleLoadAbilityEventLocked_def run_simps getS_def)
  have "core ?s1 = core s" by (intro framesD frame_core)
  then have m: "moved a LOADING s ?s1" using L by (rule moved_core)
  have "SI ?s1" by (rule preservesD [where P = SI, OF _ SI]) (intro si_intros)
  moreover have "client_ability a ?s1" using a m by (rule client_ability_moved)
  moreover have "sa_state (actx a (sch ?s1)) = LOADING" using m by (simp add: moved_def)
  ultimately have "moved a LOADING ?s1 (exec (DoLoadSystemAbilityLocked e a req) ?s1)"
    using DoLoad_moves [of ?s1 a e req] by auto
  with m ex show ?thesis by (auto intro: moved_trans)
qed

section \<open>A process that stops\<close>

text \<open>
  \<open>settled p sas X\<close>: process \<open>p\<close> with abilities \<open>sas\<close> is not running, and of these the ones in
  \<open>X\<close> are not loaded, or loading again.
\<close>
definition settled :: "u16string \<Rightarrow> int list \<Rightarrow> int set \<Rightarrow> samgr \<Rightarrow> bool" where
  "settled p sas X s \<longleftrightarrow> SI s \<and> p \<noteq> SAMGR_PROCESS_NAME \<and> proc_state (pctx p (sch s)) = NOT_STARTED \<and> saList (pctx p (sch s)) = sas
     \<and> (\<forall>b \<in> set sas. ownProcessContext (actx b (sch s)) = Some p)
     \<and> (\<forall>b \<in> X. sa_state (actx b (sch s)) \<in> {NOT_LOADED, LOADING})"

lemma settled_client: "settled p sas X s \<Longrightarrow> a \<in> set sas \<Longrightarrow> client_ability a s"
  by (auto simp: settled_def client_ability_def actx_def sm_get_def new_ability_context_def split: option.splits)

lemma settled_moved:
  "settled p sas X s \<Longrightarrow> moved a t s s' \<Longrightarrow> SI s' \<Longrightarrow> t \<in> {NOT_LOADED, LOADING} \<Longrightarrow> settled p sas (insert a X) s'"
  by (auto simp: settled_def moved_def)

lemma settled_frame: "frames core m \<Longrightarrow> preserves SI m \<Longrightarrow> preserves (settled p sas X) m"
proof (rule hoareI)
  fix s assume m: "frames core m" "preserves SI m" and s: "settled p sas X s"
  then have "core (exec m s) = core s" "SI (exec m s)"
    by (simp_all add: framesD settled_def preservesD [where P = SI])
  note same = core_ability [OF this(1)] core_process [OF this(1)] this(2)
  from s show "settled p sas X (exec m s)" by (simp add: settled_def same)
qed

lemma settled_sch: "frames sch m \<Longrightarrow> preserves (settled p sas X) m"
  by (intro settled_frame core_sch SI_frames)

lemma settled_HandleLoad:
  assumes "a \<in> set sas" "a \<in> X"
  shows "preserves (settled p sas X) (HandleLoadAbilityEventLocked e a req)"
proof (rule hoareI)
  fix s assume s: "settled p sas X s"
  have "own a (sch s) = p" using s assms by (simp add: settled_def own_def)
  then obtain t where "t \<in> {NOT_LOADED, LOADING}" "moved a t s (exec (HandleLoadAbilityEventLocked e a req) s)"
    using HandleLoad_moves [of s a e req] s assms settled_client [OF s] by (auto simp: settled_def)
  moreover have "SI (exec (HandleLoadAbilityEventLocked e a req) s)"
    using s by (intro preservesD [where P = SI, OF SI_HandleLoadAbilityEventLocked]) (simp add: settled_def)
  ultimately have "settled p sas (insert a X) (exec (HandleLoadAbilityEventLocked e a req) s)"
    using s settled_moved by blast
  with assms(2) show "settled p sas X (exec (HandleLoadAbilityEventLocked e a req) s)" by (simp add: insert_absorb)
qed

lemma settled_HandlePendingLoad:
  assumes "a \<in> set sas" "a \<in> X"
  shows "preserves (settled p sas X) (HandlePendingLoadEventLocked e a)"
  unfolding HandlePendingLoadEventLocked_def
  by (intro hoare_intros settled_HandleLoad [OF assms]) (intro settled_frame frame_intros frame_core si_intros)+

lemma settled_transition:
  assumes "a \<in> set sas"
  shows "hoare (settled p sas X) (ability_transition e a NOT_LOADED) (\<lambda>r s. r = ERR_OK \<and> settled p sas (insert a X) s)"
proof (rule hoareI)
  fix s assume s: "settled p sas X s"
  have "sa_state (actx a (sch s)) = NOT_LOADED \<or> sa_edge (sa_state (actx a (sch s))) NOT_LOADED"
    by (cases "sa_state (actx a (sch s))") auto
  with s assms have "eval_st (ability_transition e a NOT_LOADED) s = ERR_OK"
    "moved a NOT_LOADED s (exec (ability_transition e a NOT_LOADED) s)"
    by (auto intro!: client_ability_transition intro: settled_client simp: settled_def)
  moreover have "SI (exec (ability_transition e a NOT_LOADED) s)"
    using s by (intro preservesD [where P = SI, OF SI_ability_transition]) (simp add: settled_def)
  ultimately show "eval_st (ability_transition e a NOT_LOADED) s = ERR_OK \<and>
      settled p sas (insert a X) (exec (ability_transition e a NOT_LOADED) s)"
    using s settled_moved by blast
qed

lemma hoare_for_each:
  assumes "\<And>a X. a \<in> set as \<Longrightarrow> hoare (P X) (f a) (\<lambda>_. P (insert a X))"
  shows "hoare (P X) (for_each as f) (\<lambda>_. P (X \<union> set as))"
  using assms
proof (induction as arbitrary: X)
  case Nil
  then show ?case by (simp add: preserves_return)
next
  case (Cons a as)
  have "hoare (P X) (f a) (\<lambda>_. P (insert a X))" by (rule Cons.prems) simp
  moreover have "hoare (P (insert a X)) (for_each as f) (\<lambda>_. P (insert a X \<union> set as))"
    by (rule Cons.IH) (simp add: Cons.prems)
  ultimately show ?case by (simp add: hoare_def run_simps)
qed

lemma set_collect:
  assumes "\<And>x s. eval_st (f x) s \<in> {None, Some x}"
  shows "set (eval_st (collect xs f) s) \<subseteq> set xs"
proof (induction xs arbitrary: s)
  case (Cons x xs)
  have "eval_st (f x) s = None \<or> eval_st (f x) s = Some x" using assms by auto
  with Cons [of "exec (f x) s"] show ?case by (auto simp: run_simps)
qed (simp add: run_simps)

lemma abnormally_died_subset: "set (eval_st (GetAbnormallyDiedAbilityLocked e p) s) \<subseteq> set (saList (pctx p (sch s)))"
  unfolding GetAbnormallyDiedAbilityLocked_def by (simp add: run_simps getS_def) (rule set_collect, auto simp: run_simps)

lemma settled_HandleAbnormallyDied:
  assumes "set died \<subseteq> set sas" "set died \<subseteq> X"
  shows "preserves (settled p sas X) (HandleAbnormallyDiedAbilityLocked e p died)"
proof -
  have load: "preserves (settled p sas X) (HandleLoadAbilityEventLocked e a req)" if "a \<in> set died" for a req
    using that assms by (intro settled_HandleLoad) auto
  show ?thesis
    unfolding HandleAbnormallyDiedAbilityLocked_def
    by (intro hoare_intros load) (assumption | intro settled_frame frame_intros frame_core hoare_intros si_intros)+
qed

text \<open>The loop over the abilities of the stopped process.\<close>
lemma settled_reset:
  assumes a: "a \<in> set sas"
  shows "hoare (settled p sas X) (do {
      found \<leftarrow> GetSystemAbilityContext a;
      if \<not> found then ret ()
      else do {
        result \<leftarrow> ability_transition e a NOT_LOADED;
        if result \<noteq> ERR_OK then ret () else do { _ \<leftarrow> HandlePendingLoadEventLocked e a; ret () } } })
    (\<lambda>_. settled p sas (insert a X))"
proof (rule hoareI)
  fix s assume s: "settled p sas X s"
  then have found: "eval_st (GetSystemAbilityContext a) s" "exec (GetSystemAbilityContext a) s = s"
    using settled_client [OF s a] by (auto simp: GetSystemAbilityContext_def getS_def run_simps client_ability_def)
  let ?s1 = "exec (ability_transition e a NOT_LOADED) s"
  have s1: "eval_st (ability_transition e a NOT_LOADED) s = ERR_OK" "settled p sas (insert a X) ?s1"
    using hoareD [OF settled_transition [OF a] s] by simp_all
  have "settled p sas (insert a X) (exec (HandlePendingLoadEventLocked e a) ?s1)"
    using s1(2) a by (intro preservesD [where P = "settled p sas (insert a X)", OF settled_HandlePendingLoad]) auto
  with found s1(1) show "settled p sas (insert a X) (exec (do {
      found \<leftarrow> GetSystemAbilityContext a;
      if \<not> found then ret ()
      else do {
        result \<leftarrow> ability_transition e a NOT_LOADED;
        if result \<noteq> ERR_OK then ret () else do { _ \<leftarrow> HandlePendingLoadEventLocked e a; ret () } } }) s)"
    by (simp add: run_simps)
qed

text \<open>The callback of the machine for a process that has stopped resets all its abilities.\<close>
lemma settled_OnProcessNotStarted:
  assumes s: "settled p sas {} s" and p: "sm_find p (processContextMap (sch s)) \<noteq> None"
  shows "settled p sas (set sas) (exec (OnProcessNotStartedLocked e p) s)"
proof -
  define reset where "reset = (\<lambda>a. do {
      found \<leftarrow> GetSystemAbilityContext a;
      if \<not> found then ret ()
      else do {
        result \<leftarrow> ability_transition e a NOT_LOADED;
        if result \<noteq> ERR_OK then ret () else do { _ \<leftarrow> HandlePendingLoadEventLocked e a; ret () } } })"
  define prefix where "prefix = (do {
      NotifyProcessStopped e p; RemoveUnloadTimeoutTask e p;
      strongManager \<leftarrow> getS manager; sas \<leftarrow> getS (\<lambda>c. saList (pctx p c));
      onlyif strongManager (RemoveOnDemandSaInDiedProc sas) })"
  have "preserves (settled p sas {}) prefix"
    unfolding prefix_def by (intro settled_frame frame_intros frame_core hoare_intros si_intros)
  then have s1: "settled p sas {} (exec prefix s)" using s by (rule preservesD [where P = "settled p sas {}"])
  let ?s1 = "exec prefix s" and ?died = "eval_st (GetAbnormallyDiedAbilityLocked e p) (exec prefix s)"
  let ?s2 = "exec (GetAbnormallyDiedAbilityLocked e p) ?s1"
  have "preserves (settled p sas {}) (GetAbnormallyDiedAbilityLocked e p)"
    by (intro settled_frame frame_core si_intros)
  then have s2: "settled p sas {} ?s2" using s1 by (rule preservesD [where P = "settled p sas {}"])
  have died: "set ?died \<subseteq> set sas" using abnormally_died_subset [of e p ?s1] s1 by (simp add: settled_def)
  have "hoare (settled p sas {}) (for_each sas reset) (\<lambda>_. settled p sas ({} \<union> set sas))"
    unfolding reset_def by (rule hoare_for_each) (rule settled_reset)
  then have s3: "settled p sas (set sas) (exec (for_each sas reset) ?s2)" using s2 by (auto simp: hoare_def)
  have s4: "settled p sas (set sas) (exec (HandleAbnormallyDiedAbilityLocked e p ?died) (exec (for_each sas reset) ?s2))"
    using settled_HandleAbnormallyDied [OF died died] s3 by (rule preservesD [where P = "settled p sas (set sas)"])
  have "core (exec (RemoveUnloadTimeoutTask e p) (exec (NotifyProcessStopped e p) s)) = core s"
    using framesD [OF core_notify(2)] framesD [OF core_posts(4)] by simp
  then have sas: "saList (pctx p (sch (exec (RemoveUnloadTimeoutTask e p) (exec (NotifyProcessStopped e p) s)))) = sas"
    using s core_process(2) by (metis settled_def)
  have "exec (OnProcessNotStartedLocked e p) s = exec (HandleAbnormallyDiedAbilityLocked e p ?died) (exec (for_each sas reset) ?s2)"
    using p sas unfolding OnProcessNotStartedLocked_def reset_def [symmetric] prefix_def
    by (simp add: run_simps GetSystemProcessContext_def getS_def sm_count_def)
  with s4 show ?thesis by simp
qed

text \<open>What the machine does before it tells the scheduler that the process has stopped.\<close>
definition stop_process :: "env \<Rightarrow> u16string \<Rightarrow> unit M" where
  "stop_process e p = do {
     modP p (\<lambda>P. P \<lparr> proc_state := NOT_STARTED \<rparr>);
     now \<leftarrow> GetTickCount e;
     modP p (\<lambda>P. P \<lparr> lastStopTime := now \<rparr>);
     modP p (\<lambda>P. P \<lparr> pendingLoadFirstTimestamp := 0 \<rparr>) }"

lemma stop_process_settled:
  assumes SI: "SI s" and P: "sm_find p (processContextMap (sch s)) = Some P" and p: "p \<noteq> SAMGR_PROCESS_NAME"
  shows "settled p (saList P) {} (exec (stop_process e p) s)" "sm_find p (processContextMap (sch (exec (stop_process e p) s))) \<noteq> None"
proof -
  have "preserves SI (stop_process e p)" unfolding stop_process_def by (intro hoare_intros si_intros)
  then have SI': "SI (exec (stop_process e p) s)" using SI by (rule preservesD [where P = SI])
  have "process_ok (sch s) p P" using SI P p by (simp add: sched_inv_def counts_ok_def)
  then have own: "ownProcessContext (actx b (sch s)) = Some p" if "b \<in> set (saList P)" for b
    using that by (auto simp: process_ok_def actx_def sm_get_def)
  show "settled p (saList P) {} (exec (stop_process e p) s)"
    unfolding settled_def using SI' p own P
    by (simp add: stop_process_def run_simps modP_def modS_def GetTickCount_def pctx_def actx_def sm_get_def)
  show "sm_find p (processContextMap (sch (exec (stop_process e p) s))) \<noteq> None"
    using P by (simp add: stop_process_def run_simps modP_def modS_def GetTickCount_def)
qed

lemma core_running [frame_core]: "frames core (RemoveRunningProcessLocked e p)" "frames core (AddRunningProcessLocked e p)"
  unfolding RemoveRunningProcessLocked_def AddRunningProcessLocked_def Let_def
  by (intro frame_intros core_modS; simp)+

lemma process_stopped_settles:
  assumes SI: "SI s" and P: "sm_find (pi_processName i) (processContextMap (sch s)) = Some P"
    and p: "pi_processName i \<noteq> SAMGR_PROCESS_NAME" and st: "proc_state P \<noteq> NOT_STARTED"
  shows "eval_st (SendProcessStateEvent e i PROCESS_STOPPED_EVENT) s = ERR_OK"
    "settled (pi_processName i) (saList P) (set (saList P)) (exec (SendProcessStateEvent e i PROCESS_STOPPED_EVENT) s)"
proof -
  let ?p = "pi_processName i"
  have "proc_state (pctx ?p (sch s)) = STARTED \<or> proc_state (pctx ?p (sch s)) = STOPPING"
    using P st by (cases "proc_state P") (simp_all add: pctx_def sm_get_def)
  then have trans: "exec (HandleProcessEventLocked e (Some (plistener e)) (Some ?p) i PROCESS_STOPPED_EVENT) s =
      exec (OnProcessNotStartedLocked e ?p) (exec (stop_process e ?p) s)"
    "eval_st (HandleProcessEventLocked e (Some (plistener e)) (Some ?p) i PROCESS_STOPPED_EVENT) s = ERR_OK"
    by (auto simp: HandleProcessEventLocked_def HandleProcessStoppedEventLocked_def ProcessStateTransitionLocked_def
        processStateHandlerMap_def NotStartedStateHandler_def plistener_def stop_process_def run_simps getS_def)
  have found: "eval_st (GetSystemProcessContext ?p) s" "exec (GetSystemProcessContext ?p) s = s"
    using P by (simp_all add: GetSystemProcessContext_def getS_def run_simps sm_count_def)
  show "eval_st (SendProcessStateEvent e i PROCESS_STOPPED_EVENT) s = ERR_OK"
    using found trans(2) by (simp add: SendProcessStateEvent_def run_simps)
  have "settled ?p (saList P) (set (saList P)) (exec (OnProcessNotStartedLocked e ?p) (exec (stop_process e ?p) s))"
    using stop_process_settled [OF SI P p] by (rule settled_OnProcessNotStarted)
  then have "settled ?p (saList P) (set (saList P))
      (exec (RemoveRunningProcessLocked e ?p) (exec (OnProcessNotStartedLocked e ?p) (exec (stop_process e ?p) s)))"
    by (rule preservesD [where P = "settled ?p (saList P) (set (saList P))", rotated]) (intro settled_frame frame_core si_intros)
  with found trans show "settled ?p (saList P) (set (saList P)) (exec (SendProcessStateEvent e i PROCESS_STOPPED_EVENT) s)"
    by (simp add: SendProcessStateEvent_def run_simps)
qed

end
