(* ===== verification/Scheduler_Frames.thy ===== *)
theory Scheduler_Frames
  imports Scheduler_Admin
begin

text \<open>
  What loading and unloading leave alone. A table of the scheduler that is neither a context table,
  nor the process listener table, nor a queue is not touched by any operation between a request and
  its end. The locale proves this once for every such table; it is interpreted on the enable-once
  tables, the subscription tables and the back pointer to the manager.
\<close>

named_theorems frame_ctx \<open>operations that only touch contexts, process listeners and queues\<close>

locale context_frame =
  fixes f :: "scheduler \<Rightarrow> 'b"
  assumes ignores: "\<And>c x. f (c \<lparr> abilityContextMap := x \<rparr>) = f c" "\<And>c x. f (c \<lparr> processContextMap := x \<rparr>) = f c"
    "\<And>c x. f (c \<lparr> procListenerMap := x \<rparr>) = f c" "\<And>c x. f (c \<lparr> unloadEventHandler := x \<rparr>) = f c"
    "\<And>c x. f (c \<lparr> processHandler := x \<rparr>) = f c" "\<And>c x. f (c \<lparr> recoverHandler := x \<rparr>) = f c"
begin

lemma of_sch: "frames sch m \<Longrightarrow> frames (\<lambda>s. f (sch s)) m"
  by (rule frames_comp)

lemmas manager_ops [frame_ctx] = frame_sch [THEN of_sch]

lemma modA_ctx [frame_ctx]: "frames (\<lambda>s. f (sch s)) (modA a g)"
  unfolding modA_def by (rule frames_modS) (simp add: ignores)

lemma modP_ctx [frame_ctx]: "frames (\<lambda>s. f (sch s)) (modP p g)"
  unfolding modP_def by (rule frames_modS) (simp add: ignores)

lemma listeners_ctx [frame_ctx]: "frames (\<lambda>s. f (sch s)) (modS (\<lambda>c. c \<lparr> procListenerMap := g c \<rparr>))"
  by (rule frames_modS) (simp add: ignores)

lemma queue_ctx [frame_ctx]: "frames (\<lambda>s. f (sch s)) (on_queue q d g)"
  by (rule frames_on_queue) (simp, cases q, simp_all add: put_queue_def ignores)

lemma queue_ops_ctx [frame_ctx]:
  "frames (\<lambda>s. f (sch s)) (post e q t)" "frames (\<lambda>s. f (sch s)) (post_named e q t n d)" "frames (\<lambda>s. f (sch s)) (remove_task q n)"
  "frames (\<lambda>s. f (sch s)) (del_task q n)" "frames (\<lambda>s. f (sch s)) (has_inner_event q n)"
  unfolding post_def post_named_def remove_task_def del_task_def has_inner_event_def by (intro frame_intros frame_ctx)+

lemma lookups_ctx [frame_ctx]:
  "frames (\<lambda>s. f (sch s)) (GetSystemAbilityContext a)" "frames (\<lambda>s. f (sch s)) (GetSystemProcessContext p)"
  "frames (\<lambda>s. f (sch s)) unload_handler_present"
  unfolding GetSystemAbilityContext_def GetSystemProcessContext_def unload_handler_present_def by (intro frame_intros)+

lemma delay_ctx [frame_ctx]:
  "frames (\<lambda>s. f (sch s)) (SendDelayUnloadEventLocked e a d)" "frames (\<lambda>s. f (sch s)) (RemoveDelayUnloadEventLocked a)"
  "frames (\<lambda>s. f (sch s)) (PendUnloadEventLocked a r)" "frames (\<lambda>s. f (sch s)) (RemovePendingUnloadEventLocked a)"
  unfolding SendDelayUnloadEventLocked_def RemoveDelayUnloadEventLocked_def PendUnloadEventLocked_def
    RemovePendingUnloadEventLocked_def UEH_SendEvent_def UEH_RemoveEvent_def UEH_HasInnerEvent_def
  by (intro frame_intros frame_ctx)+

lemma posts_ctx [frame_ctx]:
  "frames (\<lambda>s. f (sch s)) (PostTryUnloadAllAbilityTask e p)" "frames (\<lambda>s. f (sch s)) (PostTryKillProcessTask e p)"
  "frames (\<lambda>s. f (sch s)) (NotifyProcessActivated e p)" "frames (\<lambda>s. f (sch s)) (NotifyProcessIdled e p)"
  "frames (\<lambda>s. f (sch s)) (IsProcessActivatedLocked p)" "frames (\<lambda>s. f (sch s)) (IsProcessIdledLocked p)"
  unfolding PostTryUnloadAllAbilityTask_def PostTryKillProcessTask_def NotifyProcessActivated_def NotifyProcessIdled_def
    IsProcessActivatedLocked_def IsProcessIdledLocked_def
  by (intro frame_intros frame_ctx)+

lemma callbacks_ctx [frame_ctx]:
  "frames (\<lambda>s. f (sch s)) (OnAbilityNotLoadedLocked e a)" "frames (\<lambda>s. f (sch s)) (OnAbilityLoadedLocked e a)"
  unfolding OnAbilityNotLoadedLocked_def OnAbilityLoadedLocked_def by (intro frame_intros frame_ctx)+

lemma count_ctx [frame_ctx]: "frames (\<lambda>s. f (sch s)) (UpdateStateCount p u t)"
  unfolding UpdateStateCount_def by (intro frame_intros frame_ctx)

lemma transition_ctx:
  assumes "\<And>h. abilityStateHandlerMap e L t = Some h \<Longrightarrow> frames (\<lambda>s. f (sch s)) (sa_OnEnter h a)"
  shows "frames (\<lambda>s. f (sch s)) (AbilityStateTransitionLocked e L (Some a) t)"
proof -
  obtain h where h: "abilityStateHandlerMap e L t = Some h" by (rule ability_handler_total)
  then show ?thesis
    unfolding AbilityStateTransitionLocked_def by (simp add: h) (intro frame_intros frame_ctx assms [OF h])
qed

lemma unload_ctx [frame_ctx]: "frames (\<lambda>s. f (sch s)) (DoUnloadSystemAbilityLocked e a)"
  unfolding DoUnloadSystemAbilityLocked_def
  by (intro frame_intros frame_ctx transition_ctx)
    (auto simp: abilityStateHandlerMap_def UnloadingStateHandler_def tell_def listener0_def intro!: frame_intros)

lemma unloadable_ctx [frame_ctx]: "frames (\<lambda>s. f (sch s)) (OnAbilityUnloadableLocked e a)"
  unfolding OnAbilityUnloadableLocked_def by (intro frame_intros frame_ctx)

lemma ability_transition_ctx [frame_ctx]: "frames (\<lambda>s. f (sch s)) (ability_transition e a t)"
  by (rule transition_ctx)
    (cases t; auto simp: abilityStateHandlerMap_def sa_handler_defs tell_def listener_def listener0_def
      intro!: frame_intros frame_ctx)

lemma pend_ctx [frame_ctx]: "frames (\<lambda>s. f (sch s)) (PendLoadEventLocked e a req)"
  unfolding PendLoadEventLocked_def HandlePendingLoadOverflow_def Let_def by (intro frame_intros frame_ctx)

lemma frames_case_sa_state:
  "frames g m1 \<Longrightarrow> frames g m2 \<Longrightarrow> frames g m3 \<Longrightarrow> frames g m4 \<Longrightarrow> frames g m5 \<Longrightarrow>
   frames g (case x of NOT_LOADED \<Rightarrow> m1 | LOADING \<Rightarrow> m2 | LOADED \<Rightarrow> m3 | UNLOADABLE \<Rightarrow> m4 | UNLOADING \<Rightarrow> m5)"
  by (cases x) auto

lemma load_ctx [frame_ctx]: "frames (\<lambda>s. f (sch s)) (HandleLoadAbilityEventLocked e a req)"
  unfolding HandleLoadAbilityEventLocked_def ActiveSystemAbilityLocked_def DoLoadSystemAbilityLocked_def
  by (intro frame_intros frame_ctx frames_case_sa_state)

lemma load_event_ctx [frame_ctx]: "frames (\<lambda>s. f (sch s)) (HandleLoadAbilityEvent e req)"
  unfolding HandleLoadAbilityEvent_def by (intro frame_intros frame_ctx)

lemma unload_event_ctx [frame_ctx]: "frames (\<lambda>s. f (sch s)) (HandleUnloadAbilityEvent e r)"
  unfolding HandleUnloadAbilityEvent_def HandleUnloadAbilityEventLocked_def ProcessDelayUnloadEventLocked_def
  by (intro frame_intros frame_ctx frames_case_sa_state)

end

interpretation once_tables: context_frame "\<lambda>c. (startEnableOnceMap c, stopEnableOnceMap c)"
  by unfold_locales simp_all

interpretation subscriptions: context_frame "\<lambda>c. (processListeners c, subscribeProcCountMap c, lowMemoryProcessList c)"
  by unfold_locales simp_all

interpretation back_pointer: context_frame manager
  by unfold_locales simp_all

end
