(* ===== verification/Scheduler_Props.thy ===== *)
theory Scheduler_Props
  imports Samples Lifecycle Scheduler_Frames
begin

text \<open>
  The properties of the scheduler: its counters and limits in every reachable state, the decisions it
  takes from them, what a stopped process leaves behind, restarts, and the treatment of load
  requests that arrive while an ability is being unloaded. Each is followed by a witness on the
  sample device.
\<close>

section \<open>Counters\<close>

lemma in_state_card: "distinct as \<Longrightarrow> in_state c st as = card {a \<in> set as. sa_state (actx a c) = st}"
  by (simp add: in_state_def distinct_card [symmetric] set_filter [symmetric] del: set_filter)

lemma reachable_process_ok:
  "reachable prs s \<Longrightarrow> profiles_ok prs \<Longrightarrow> sm_find p (processContextMap (sch s)) = Some P \<Longrightarrow> p \<noteq> SAMGR_PROCESS_NAME \<Longrightarrow>
   process_ok (sch s) p P"
  using SI_reachable by (auto simp: sched_inv_def counts_ok_def)

text \<open>
  C1. In every reachable state of a service whose profiles have distinct identifiers and use neither the service's own
  process name nor its identifier 0, and for every process other than the service itself, each counter of the process
  context is the number of that process's abilities in that state. This is what the unload and kill decisions rest
  on. The context of the service's own process is left out: it is created with counters that do not agree with the state of ability 0.
\<close>
theorem reachable_state_counts:
  assumes "profiles_ok prs" and "reachable prs s"
    and "sm_find p (processContextMap (sch s)) = Some P" and "p \<noteq> SAMGR_PROCESS_NAME"
  shows "\<exists>n. sm_find st (abilityStateCountMap P) = Some n \<and> unat n = card {a \<in> set (saList P). sa_state (actx a (sch s)) = st}"
  using reachable_process_ok [OF assms(2,1,3,4)] in_state_card [of "saList P" "sch s" st] unfolding process_ok_def by metis

theorem reachable_state_counts_witness:
  "\<exists>n. sm_find LOADED (abilityStateCountMap (pctx foo (sch loaded))) = Some n \<and> unat n = 1"
proof -
  have "{a. (a = 401 \<or> a = 403) \<and> sa_state (actx a (sch loaded)) = LOADED} = {401}"
    using loaded_facts by auto
  then show ?thesis
    using reachable_state_counts [OF sample_profiles_ok loaded_reachable pctx_find [OF loaded_facts(1)] loaded_facts(2), of LOADED]
      loaded_facts by simp
qed

section \<open>Decisions\<close>

lemma length_filter_all: "length (filter P as) = length as \<longleftrightarrow> (\<forall>a \<in> set as. P a)"
proof
  assume "length (filter P as) = length as"
  then show "\<forall>a \<in> set as. P a" using length_filter_less [of _ as P] by force
qed simp

lemma in_state_all: "in_state c st as = length as \<longleftrightarrow> (\<forall>a \<in> set as. sa_state (actx a c) = st)"
  by (simp add: in_state_def length_filter_all)

lemma in_state_0: "in_state c st as = 0 \<longleftrightarrow> (\<forall>a \<in> set as. sa_state (actx a c) \<noteq> st)"
  by (simp add: in_state_def filter_empty_conv)

lemma in_state_three:
  "in_state c NOT_LOADED as + in_state c UNLOADABLE as + in_state c UNLOADING as =
     length (filter (\<lambda>a. sa_state (actx a c) \<in> {NOT_LOADED, UNLOADABLE, UNLOADING}) as)"
  by (induction as) (auto simp: in_state_def)

lemma process_ok_count:
  assumes "process_ok c p P" "sm_find p (processContextMap c) = Some P"
  shows "unat (count_of st (pctx p c)) = in_state c st (saList P)" "pctx p c = P"
proof -
  show "pctx p c = P" using assms(2) by (simp add: pctx_def sm_get_def)
  then show "unat (count_of st (pctx p c)) = in_state c st (saList P)"
    using assms(1) unfolding process_ok_def count_of_def sm_get_def by (metis option.simps(5))
qed

lemma can_kill_iff:
  assumes "process_ok (sch s) p P" "sm_find p (processContextMap (sch s)) = Some P"
  shows "eval_st (CanKillSystemProcessLocked p) s \<longleftrightarrow> (\<forall>a \<in> set (saList P). sa_state (actx a (sch s)) = NOT_LOADED)"
  using process_ok_count [OF assms] by (simp add: CanKillSystemProcessLocked_def run_simps getS_def in_state_all)

text \<open>
  C2. When the service tries to kill a process, it asks init to stop the process exactly when every
  ability of that process is \<^verbatim>\<open>NOT_LOADED\<close>; otherwise the attempt has no effect outside. The process is one of
  a profile, not the service itself.
\<close>
theorem try_kill_iff_all_not_loaded:
  assumes "profiles_ok prs" and "reachable prs s"
    and "sm_find p (processContextMap (sch s)) = Some P" and "p \<noteq> SAMGR_PROCESS_NAME"
  shows "effects (exec (TryKillSystemProcess e (Some p)) s) = effects s @
    (if \<forall>a \<in> set (saList P). sa_state (actx a (sch s)) = NOT_LOADED
     then [ServiceControlCall (e_str16to8 e p) ACTION_STOP None] else [])"
proof -
  have ok: "process_ok (sch s) p P" by (rule reachable_process_ok [OF assms(2,1,3,4)])
  have "exec (CanKillSystemProcessLocked p) s = s" by (simp add: CanKillSystemProcessLocked_def run_simps getS_def)
  with ok assms(3) show ?thesis
    by (simp add: TryKillSystemProcess_def can_kill_iff [OF ok assms(3)] KillSystemProcessLocked_def sch_ServiceControl_def
        ServiceControlWithExtra_def run_simps getS_def emit_def GetTickCount_def pctx_def sm_get_def process_ok_def)
qed

theorem try_kill_iff_all_not_loaded_witness:
  "effects (exec (TryKillSystemProcess sample_env (Some foo)) loaded) = effects loaded"
  using try_kill_iff_all_not_loaded [OF sample_profiles_ok loaded_reachable pctx_find [OF loaded_facts(1)] loaded_facts(2), of sample_env]
    loaded_facts by simp

lemma can_unload_all_iff:
  assumes ok: "process_ok (sch s) p P" and P: "sm_find p (processContextMap (sch s)) = Some P"
  shows "eval_st (CanUnloadAllSystemAbilityLocked p False) s \<longleftrightarrow>
     (\<exists>a \<in> set (saList P). sa_state (actx a (sch s)) \<in> {UNLOADABLE, UNLOADING}) \<and>
     (\<forall>a \<in> set (saList P). sa_state (actx a (sch s)) \<in> {NOT_LOADED, UNLOADABLE, UNLOADING})"
proof -
  let ?n = "\<lambda>st. count_of st (pctx p (sch s))" and ?i = "\<lambda>st. in_state (sch s) st (saList P)"
  have i: "unat (?n st) = ?i st" for st by (rule process_ok_count [OF ok P])
  have three: "?i NOT_LOADED + ?i UNLOADABLE + ?i UNLOADING =
      length (filter (\<lambda>a. sa_state (actx a (sch s)) \<in> {NOT_LOADED, UNLOADABLE, UNLOADING}) (saList P))"
    by (rule in_state_three)
  also have "\<dots> \<le> length (saList P)" by simp
  finally have "?i NOT_LOADED + ?i UNLOADABLE + ?i UNLOADING < 2 ^ 32"
    using ok by (simp add: process_ok_def)
  then have sum: "unat (?n NOT_LOADED + ?n UNLOADABLE + ?n UNLOADING) = ?i NOT_LOADED + ?i UNLOADABLE + ?i UNLOADING"
    by (simp add: unat_word_ariths i)
  have zero: "?n st = 0 \<longleftrightarrow> (\<forall>a \<in> set (saList P). sa_state (actx a (sch s)) \<noteq> st)" for st
    using i [of st] in_state_0 [of "sch s" st "saList P"] by (metis unat_eq_0)
  have "eval_st (CanUnloadAllSystemAbilityLocked p False) s \<longleftrightarrow>
     \<not> (?n UNLOADABLE = 0 \<and> ?n UNLOADING = 0) \<and> unat (?n NOT_LOADED + ?n UNLOADABLE + ?n UNLOADING) = length (saList P)"
    using process_ok_count(2) [OF ok P] by (auto simp: CanUnloadAllSystemAbilityLocked_def run_simps getS_def Let_def)
  then show ?thesis unfolding sum three length_filter_all zero by auto
qed

text \<open>
  The service considers a process unloadable exactly when at least one of its abilities is
  \<^verbatim>\<open>UNLOADABLE\<close> or \<^verbatim>\<open>UNLOADING\<close> and none is \<^verbatim>\<open>LOADING\<close> or \<^verbatim>\<open>LOADED\<close>; the sum of the 32-bit counters does not wrap.
\<close>
theorem can_unload_all_characterised:
  assumes "profiles_ok prs" and "reachable prs s"
    and "sm_find p (processContextMap (sch s)) = Some P" and "p \<noteq> SAMGR_PROCESS_NAME"
  shows "eval_st (CanUnloadAllSystemAbilityLocked p False) s \<longleftrightarrow>
     (\<exists>a \<in> set (saList P). sa_state (actx a (sch s)) \<in> {UNLOADABLE, UNLOADING}) \<and>
     (\<forall>a \<in> set (saList P). sa_state (actx a (sch s)) \<notin> {LOADING, LOADED})"
proof -
  have "st \<in> {NOT_LOADED, UNLOADABLE, UNLOADING} \<longleftrightarrow> st \<notin> {LOADING, LOADED}" for st by (cases st) auto
  then show ?thesis
    using can_unload_all_iff [OF reachable_process_ok [OF assms(2,1,3,4)] assms(3)] by auto
qed

theorem can_unload_all_characterised_witness: "\<not> eval_st (CanUnloadAllSystemAbilityLocked foo False) loaded"
  using can_unload_all_characterised [OF sample_profiles_ok loaded_reachable pctx_find [OF loaded_facts(1)] loaded_facts(2)]
    loaded_facts by simp

section \<open>Transitions\<close>

text \<open>
  C28. In every reachable state, asking the machine to move an ability of a client process to another state
  succeeds exactly on the edges of the transition table; any other request is refused with
  \<^verbatim>\<open>TRANSIT_SA_STATE_FAIL\<close> and changes nothing. In particular the counters never refuse a transition.
\<close>
theorem reachable_transition_result:
  assumes "profiles_ok prs" and "reachable prs s"
    and "sm_find a (abilityContextMap (sch s)) = Some A" and "ownProcessContext A \<noteq> Some SAMGR_PROCESS_NAME"
  shows "if sa_state A = t \<or> sa_edge (sa_state A) t then eval_st (ability_transition e a t) s = ERR_OK
    else eval_st (ability_transition e a t) s = TRANSIT_SA_STATE_FAIL \<and> exec (ability_transition e a t) s = s"
proof -
  have SI: "SI s" using assms SI_reachable by blast
  obtain p where p: "ownProcessContext A = Some p" "p \<noteq> SAMGR_PROCESS_NAME"
    by (rule SI_lookup [OF SI assms(3)]) (use assms(4) in auto)
  have actx: "actx a (sch s) = A" using assms(3) by (simp add: actx_def sm_get_def)
  show ?thesis
  proof (cases "sa_edge (sa_state A) t")
    case True
    then have "eval_st (ability_transition e a t) s = ERR_OK" by (rule transition_admitted [OF SI assms(3) p])
    then show ?thesis using True by simp
  next
    case False
    then show ?thesis using transition_unchanged [of a s t e] by (auto simp: actx)
  qed
qed

theorem reachable_transition_result_witness:
  "eval_st (ability_transition sample_env 401 UNLOADABLE) loaded = ERR_OK \<and>
   eval_st (ability_transition sample_env 401 UNLOADING) loaded = TRANSIT_SA_STATE_FAIL"
  using reachable_transition_result [OF sample_profiles_ok loaded_reachable actx_find [OF loaded_facts(7)], of UNLOADABLE sample_env]
    reachable_transition_result [OF sample_profiles_ok loaded_reachable actx_find [OF loaded_facts(7)], of UNLOADING sample_env]
    loaded_facts by simp

section \<open>A process that stops\<close>

text \<open>
  C29. When a started or stopping process is reported as stopped, the event is accepted, the process
  becomes \<^verbatim>\<open>NOT_STARTED\<close>, and each of its abilities ends up \<^verbatim>\<open>NOT_LOADED\<close>, or \<^verbatim>\<open>LOADING\<close> when a pending
  request or the automatic restart loads it again; none stays \<^verbatim>\<open>LOADED\<close>, \<^verbatim>\<open>UNLOADABLE\<close> or \<^verbatim>\<open>UNLOADING\<close>.
\<close>
theorem stopped_process_resets_abilities:
  assumes "profiles_ok prs" and "reachable prs s"
    and "sm_find p (processContextMap (sch s)) = Some P" and "p \<noteq> SAMGR_PROCESS_NAME" and "proc_state P \<noteq> NOT_STARTED"
  shows "let m = SendProcessStateEvent e \<lparr> pi_processName = p, pi_pid = -1, pi_uid = -1 \<rparr> PROCESS_STOPPED_EVENT;
           s' = exec m s
         in eval_st m s = ERR_OK \<and> proc_state (pctx p (sch s')) = NOT_STARTED
          \<and> (\<forall>a \<in> set (saList P). sa_state (actx a (sch s')) \<in> {NOT_LOADED, LOADING})"
proof -
  have "SI s" using assms SI_reachable by blast
  then show ?thesis
    using process_stopped_settles [of s "\<lparr> pi_processName = p, pi_pid = -1, pi_uid = -1 \<rparr>" P e] assms(3-5)
    by (simp add: Let_def settled_def)
qed

theorem stopped_process_resets_abilities_witness:
  "sa_state (actx 401 (sch (exec (SendProcessStateEvent sample_env \<lparr> pi_processName = foo, pi_pid = -1, pi_uid = -1 \<rparr>
     PROCESS_STOPPED_EVENT) loaded))) \<in> {NOT_LOADED, LOADING}"
proof -
  have "proc_state (pctx foo (sch loaded)) \<noteq> NOT_STARTED" using loaded_facts by simp
  from stopped_process_resets_abilities [OF sample_profiles_ok loaded_reachable pctx_find [OF loaded_facts(1)] loaded_facts(2) this,
      of sample_env]
  show ?thesis using loaded_facts by (simp add: Let_def)
qed

section \<open>Restarts\<close>

text \<open>The times at which a restart of the process is granted, when it is asked for at the times of a list.\<close>
fun restarts :: "env \<Rightarrow> u16string \<Rightarrow> int list \<Rightarrow> samgr \<Rightarrow> int list" where
  "restarts e p [] s = []"
| "restarts e p (t # ts) s = (let m = CanRestartProcessLocked (e \<lparr> e_tick := \<lambda>_. t \<rparr>) p
     in (if eval_st m s then [t] else []) @ restarts e p ts (exec m s))"

definition last4 :: "int list \<Rightarrow> int list" where
  "last4 g = drop (length g - 4) g"

definition spaced :: "int list \<Rightarrow> bool" where
  "spaced g \<longleftrightarrow> (\<forall>i. i + 4 < length g \<longrightarrow> g ! (i + 4) - g ! i \<ge> 20 * 1000)"

lemma last4_snoc: "length g \<ge> 4 \<Longrightarrow> last4 (g @ [t]) = tl (last4 g @ [t])"
proof -
  assume "length g \<ge> 4"
  then have "length g - 3 = Suc (length g - 4)" by simp
  then have "drop (length g - 3) g = tl (drop (length g - 4) g)" by (simp only: drop_Suc tl_drop)
  with \<open>length g \<ge> 4\<close> show ?thesis by (simp add: last4_def tl_append2)
qed

lemma spaced_snoc:
  assumes "spaced g" "length g < 4 \<or> t - hd (last4 g) \<ge> 20 * 1000"
  shows "spaced (g @ [t])"
proof -
  have "(g @ [t]) ! (i + 4) - (g @ [t]) ! i \<ge> 20 * 1000" if "i + 4 < Suc (length g)" for i
  proof (cases "i + 4 < length g")
    case True
    then show ?thesis using assms(1) by (simp add: spaced_def nth_append)
  next
    case False
    with that have "i + 4 = length g" "i = length g - 4" by simp_all
    then show ?thesis using assms(2) by (auto simp: last4_def nth_append hd_drop_conv_nth)
  qed
  then show ?thesis by (simp add: spaced_def)
qed

lemma CanRestart_step:
  fixes e :: env and t :: int
  assumes p: "sm_count p (processContextMap (sch s))" and ctl: "restartCountsCtrl (pctx p (sch s)) = last4 g" and g: "spaced g"
  defines "m \<equiv> CanRestartProcessLocked (e \<lparr> e_tick := \<lambda>_. t \<rparr>) p"
  shows "sm_count p (processContextMap (sch (exec m s)))"
    "restartCountsCtrl (pctx p (sch (exec m s))) = last4 (g @ (if eval_st m s then [t] else []))"
    "spaced (g @ (if eval_st m s then [t] else []))"
proof -
  have len: "length (last4 g) = min 4 (length g)" by (simp add: last4_def)
  have small: "last4 (g @ [t]) = last4 g @ [t]" if "length g < 4"
    using that by (simp add: last4_def)
  show "sm_count p (processContextMap (sch (exec m s)))"
    using p by (simp add: m_def CanRestartProcessLocked_def run_simps getS_def modP_def modS_def GetTickCount_def sm_count_iff)
  show "restartCountsCtrl (pctx p (sch (exec m s))) = last4 (g @ (if eval_st m s then [t] else []))"
    using p ctl len small last4_snoc [of g t]
    by (auto simp: m_def CanRestartProcessLocked_def run_simps getS_def modP_def modS_def GetTickCount_def pctx_def sm_get_def
        sm_count_def RESTART_TIMES_LIMIT_def min_def split: if_splits option.splits)
  show "spaced (g @ (if eval_st m s then [t] else []))"
    using g ctl len spaced_snoc [OF g, of t]
    by (auto simp: m_def CanRestartProcessLocked_def run_simps getS_def GetTickCount_def
        RESTART_TIMES_LIMIT_def RESTART_TIME_INTERVAL_LIMIT_def min_def split: if_splits)
qed

lemma restarts_spaced:
  assumes "sm_count p (processContextMap (sch s))" "restartCountsCtrl (pctx p (sch s)) = last4 g" "spaced g"
  shows "spaced (g @ restarts e p ts s)"
  using assms
proof (induction ts arbitrary: s g)
  case (Cons t ts)
  let ?m = "CanRestartProcessLocked (e \<lparr> e_tick := \<lambda>_. t \<rparr>) p"
  have "spaced ((g @ (if eval_st ?m s then [t] else [])) @ restarts e p ts (exec ?m s))"
    by (rule Cons.IH) (rule CanRestart_step [OF Cons.prems])+
  then show ?case by (simp add: Let_def)
qed simp

text \<open>
  C32. The restart limiter: whatever the times at which an abnormally died process asks to be restarted, any
  five consecutive restarts that are granted span at least 20 seconds.
\<close>
theorem restarts_rate_limited:
  assumes "sm_count p (processContextMap (sch s))" and "restartCountsCtrl (pctx p (sch s)) = []"
    and "i + 4 < length (restarts e p ts s)"
  shows "restarts e p ts s ! (i + 4) - restarts e p ts s ! i \<ge> 20 * 1000"
  using restarts_spaced [of p s "[]" e ts] assms by (simp add: last4_def spaced_def)

theorem restarts_rate_limited_witness:
  "restarts sample_env foo [0, 1, 2, 3, 20000] booted = [0, 1, 2, 3, 20000] \<and>
   restarts sample_env foo [0, 1, 2, 3, 20000] booted ! 4 - restarts sample_env foo [0, 1, 2, 3, 20000] booted ! 0 \<ge> 20 * 1000"
proof -
  have "sm_count foo (processContextMap (sch booted))" "restartCountsCtrl (pctx foo (sch booted)) = []"
    "restarts sample_env foo [0, 1, 2, 3, 20000] booted = [0, 1, 2, 3, 20000]"
    by code_simp+
  then show ?thesis using restarts_rate_limited [of foo booted 0 sample_env "[0, 1, 2, 3, 20000]"] by simp
qed

text \<open>
  A refused restart is final: once the limiter has refused to restart a process, it refuses the next
  request at whatever time it is made.
\<close>
theorem restart_refusal_is_final:
  assumes "sm_find p (processContextMap (sch s)) = Some P" and "\<not> eval_st (CanRestartProcessLocked e p) s"
  shows "\<not> eval_st (CanRestartProcessLocked e' p) (exec (CanRestartProcessLocked e p) s)"
  using assms
  by (auto simp: CanRestartProcessLocked_def run_simps getS_def modP_def modS_def GetTickCount_def pctx_def sm_get_def
      split: if_splits)

definition worn_out :: samgr where
  "worn_out = exec (modP foo (\<lambda>P. P \<lparr> restartCountsCtrl := [1000, 1001, 1002, 1003] \<rparr>)) booted"

theorem restart_refusal_is_final_witness:
  "\<not> eval_st (CanRestartProcessLocked sample_env foo) (exec (CanRestartProcessLocked sample_env foo) worn_out)"
proof -
  have "sm_count foo (processContextMap (sch worn_out))" "\<not> eval_st (CanRestartProcessLocked sample_env foo) worn_out"
    by code_simp+
  then show ?thesis by (intro restart_refusal_is_final [OF pctx_find])
qed

section \<open>Limits\<close>

text \<open>
  In every reachable state the limits of the sources hold: the unload delay of an ability is between 0
  and five minutes, a caller has at most 50 pending load requests per ability, and a process
  remembers at most four restarts.
\<close>
theorem reachable_limits:
  assumes "profiles_ok prs" and "reachable prs s"
  shows "(\<forall>a A. sm_find a (abilityContextMap (sch s)) = Some A \<longrightarrow>
       0 \<le> delayUnloadTime A \<and> delayUnloadTime A \<le> 300000 \<and>
       (\<forall>q n. sm_find q (pendingLoadEventCountMap A) = Some n \<longrightarrow> n \<le> 50)) \<and>
     (\<forall>p P. sm_find p (processContextMap (sch s)) = Some P \<longrightarrow> length (restartCountsCtrl P) \<le> 4)"
  using SI_reachable [OF assms(2,1)]
  by (auto simp: sched_inv_def bounds_ok_def ability_bounds_def process_bounds_def MAX_DELAY_TIME_def
      MAX_PENDING_LOAD_COUNT_def RESTART_TIMES_LIMIT_def)

theorem reachable_limits_witness: "delayUnloadTime (actx 401 (sch loaded)) \<le> 300000"
  using reachable_limits [OF sample_profiles_ok loaded_reachable] actx_find [OF loaded_facts(7)] by auto

section \<open>Load requests while an ability is being unloaded\<close>

lemma put_queue_frames [simp]: "effects (put_queue q h s) = effects s"
  by (cases q) (simp_all add: put_queue_def)

lemma mgr_put_recover [simp]: "mgr (put_queue RecoverHandler h s) = mgr s"
  by (simp add: put_queue_def)

lemma pend_frames:
  "frames effects (PendLoadEventLocked e a req)" "frames mgr (PendLoadEventLocked e a req)"
  unfolding PendLoadEventLocked_def HandlePendingLoadOverflow_def Let_def modA_def modP_def GetTickCount_def post_def
  by (intro frame_intros frames_modS frames_ask frames_on_queue; simp)+

text \<open>The request is in the list, or one for the same callback object was.\<close>
definition pended :: "iface \<Rightarrow> SystemAbilityContext \<Rightarrow> bool" where
  "pended cb A \<longleftrightarrow> list_ex (\<lambda>i. map_option AsObject (lr_callback i) = Some (AsObject cb)) (pendingLoadEventList A)"

lemma pend_adds:
  assumes cb: "lr_callback req = Some cb" and a: "sm_count a (abilityContextMap (sch s))"
    and ok: "eval_st (PendLoadEventLocked e a req) s = ERR_OK"
  shows "pended cb (actx a (sch (exec (PendLoadEventLocked e a req) s)))"
proof -
  have ex: "(case lr_callback i of None \<Rightarrow> False | Some cb' \<Rightarrow> AsObject cb = AsObject cb') \<longleftrightarrow>
      map_option AsObject (lr_callback i) = Some (AsObject cb)" for i
    by (auto split: option.splits)
  show ?thesis
    using ok a unfolding PendLoadEventLocked_def HandlePendingLoadOverflow_def pended_def
    by (auto simp: cb ex run_simps getS_def modA_def modP_def modS_def GetTickCount_def actx_def sm_get_def sm_count_def Let_def
        split: if_splits option.splits)
qed

text \<open>
  A load request for an ability that is unloading, or whose process is stopping, starts nothing: it calls no
  peer and changes neither the state of any ability or process nor the tables of the manager; if
  it is accepted, its callback is pending for the ability.
\<close>
theorem load_while_unloading_pends:
  assumes "sa_state (actx a (sch s)) = UNLOADING \<or> proc_state (pctx (own a (sch s)) (sch s)) = STOPPING"
    and "sm_count a (abilityContextMap (sch s))" and "lr_callback req = Some cb"
  shows "let m = HandleLoadAbilityEventLocked e a req; s' = exec m s
    in effects s' = effects s \<and> mgr s' = mgr s \<and> core s' = core s
     \<and> (eval_st m s = ERR_OK \<longrightarrow> pended cb (actx a (sch s')))"
proof -
  have "exec (HandleLoadAbilityEventLocked e a req) s = exec (PendLoadEventLocked e a req) s"
    "eval_st (HandleLoadAbilityEventLocked e a req) s = eval_st (PendLoadEventLocked e a req) s"
    using assms(1) by (auto simp: HandleLoadAbilityEventLocked_def run_simps getS_def)
  then show ?thesis
    using framesD [OF pend_frames(1)] framesD [OF pend_frames(2)] framesD [OF core_PendLoadEventLocked]
      pend_adds [OF assms(3,2)] by (simp add: Let_def)
qed

definition closing :: samgr where
  "closing = exec (modA 401 (\<lambda>A. A \<lparr> sa_state := UNLOADING \<rparr>)) booted"

definition sample_request :: LoadRequestInfo where
  "sample_request = \<lparr> deviceId = LOCAL_DEVICE, lr_callback = Some (Iface 5 (Some 50)), lr_systemAbilityId = 401, lr_callingPid = 42,
     loadEvent = mk_event INTERFACE_CALL ''load'' [] \<rparr>"

theorem load_while_unloading_pends_witness:
  "pended (Iface 5 (Some 50)) (actx 401 (sch (exec (HandleLoadAbilityEventLocked sample_env 401 sample_request) closing)))"
proof -
  have "sa_state (actx 401 (sch closing)) = UNLOADING" "sm_count 401 (abilityContextMap (sch closing))"
    "lr_callback sample_request = Some (Iface 5 (Some 50))"
    "eval_st (HandleLoadAbilityEventLocked sample_env 401 sample_request) closing = ERR_OK"
    by code_simp+
  then show ?thesis
    using load_while_unloading_pends [of 401 closing sample_request "Iface 5 (Some 50)" sample_env] by (simp add: Let_def)
qed

text \<open>
  The per-caller limit on pending load requests: while an ability is unloading, a caller that already
  has 50 requests pending for it gets \<^verbatim>\<open>PEND_LOAD_EVENT_SIZE_LIMIT\<close> for a further callback object, and the
  list of pending requests does not grow.
\<close>
theorem pend_load_limit:
  assumes "sm_find a (abilityContextMap (sch s)) = Some A" and "manager (sch s)" and "lr_callback req = Some cb"
    and "\<not> pended cb A" and "sm_find (lr_callingPid req) (pendingLoadEventCountMap A) = Some 50"
  shows "eval_st (PendLoadEventLocked e a req) s = PEND_LOAD_EVENT_SIZE_LIMIT \<and>
    pendingLoadEventList (actx a (sch (exec (PendLoadEventLocked e a req) s))) = pendingLoadEventList A"
proof -
  have ex: "(case lr_callback i of None \<Rightarrow> False | Some cb' \<Rightarrow> AsObject cb = AsObject cb') \<longleftrightarrow>
      map_option AsObject (lr_callback i) = Some (AsObject cb)" for i
    by (auto split: option.splits)
  have tables: "abilityContextMap (sch (put_queue RecoverHandler h u)) = abilityContextMap (sch u)" for h u
    by (simp add: put_queue_def)
  show ?thesis
    using assms unfolding PendLoadEventLocked_def HandlePendingLoadOverflow_def pended_def
    by (auto simp: ex run_simps getS_def modA_def modP_def modS_def GetTickCount_def post_def tables actx_def sm_get_def
        MAX_PENDING_LOAD_COUNT_def Let_def split: if_splits option.splits)
qed

definition crowded :: samgr where
  "crowded = exec (modA 401 (\<lambda>A. A \<lparr> pendingLoadEventCountMap := [(42, 50)] \<rparr>)) closing"

theorem pend_load_limit_witness:
  "eval_st (PendLoadEventLocked sample_env 401 sample_request) crowded = PEND_LOAD_EVENT_SIZE_LIMIT"
proof -
  have "sm_count 401 (abilityContextMap (sch crowded))" "manager (sch crowded)" "lr_callback sample_request = Some (Iface 5 (Some 50))"
    "\<not> pended (Iface 5 (Some 50)) (actx 401 (sch crowded))"
    "sm_find (lr_callingPid sample_request) (pendingLoadEventCountMap (actx 401 (sch crowded))) = Some 50"
    by code_simp+
  then show ?thesis using pend_load_limit [OF actx_find, of 401 crowded sample_request "Iface 5 (Some 50)" sample_env] by simp
qed

section \<open>Enable-once\<close>

lemma event_eq_IsSameEvent: "IsSameEvent x es \<longleftrightarrow> list_ex (\<lambda>i. event_eq x i) es"
  by (simp add: IsSameEvent_def event_eq_def)

lemma seen_event_get: "seen_event x b m \<longleftrightarrow> list_ex (event_eq x) (sm_get [] b m)"
  by (auto simp: seen_event_def event_eq_IsSameEvent sm_count_def sm_get_def split: option.splits)

lemma seen_remember: "seen_event x b (remember_event ev a m) \<longleftrightarrow> seen_event x b m \<or> b = a \<and> event_eq x ev"
  by (auto simp: seen_event_get remember_event_def)

lemma seen_forget:
  assumes "\<not> seen_event ev a m"
  shows "seen_event x b (forget_event ev a (remember_event ev a m)) \<longleftrightarrow> seen_event x b m"
proof -
  have "filter (\<lambda>i. \<not> event_eq i ev) (sm_get [] a m) = sm_get [] a m"
    using assms by (auto simp: filter_id_conv seen_event_get list_ex_iff event_eq_def)
  then show ?thesis
    by (auto simp: seen_event_get forget_event_def remember_event_def event_eq_def Let_def sm_get_def list_ex_iff
        split: option.splits)
qed

lemma once_tables_load [simp]:
  "startEnableOnceMap (sch (exec (HandleLoadAbilityEvent e req) s)) = startEnableOnceMap (sch s)"
  "stopEnableOnceMap (sch (exec (HandleLoadAbilityEvent e req) s)) = stopEnableOnceMap (sch s)"
  using framesD [OF once_tables.load_event_ctx] by auto

lemma once_tables_unload [simp]:
  "startEnableOnceMap (sch (exec (HandleUnloadAbilityEvent e r) s)) = startEnableOnceMap (sch s)"
  "stopEnableOnceMap (sch (exec (HandleUnloadAbilityEvent e r) s)) = stopEnableOnceMap (sch s)"
  using framesD [OF once_tables.unload_event_ctx] by auto

text \<open>
  Enable-once on start: an on-demand event with enable-once is remembered for its ability exactly when
  the load it asked for was accepted; a failed load forgets it again, other events and other
  abilities are not affected.
\<close>
theorem start_enable_once_remembers:
  assumes "sc_enableOnce sc"
  shows "seen_event x b (startEnableOnceMap (sch (exec (CheckStartEnableOnce e ev sc cb) s))) \<longleftrightarrow>
    seen_event x b (startEnableOnceMap (sch s)) \<or>
    eval_st (CheckStartEnableOnce e ev sc cb) s = ERR_OK \<and> b = sc_saId sc \<and> event_eq x ev"
  using assms
  by (auto simp: CheckStartEnableOnce_def run_simps getS_def modS_def seen_remember seen_forget)

definition once_event :: OnDemandEvent where
  "once_event = mk_event COMMON_EVENT ''usual.event.BOOT'' []"

definition once_control :: SaControlInfo where
  "once_control = \<lparr> ondemandId = START_ON_DEMAND, sc_saId = 403, sc_enableOnce = True, sc_loadPriority = LOW_PRIORITY,
     sc_cacheCommonEvent = False \<rparr>"

theorem start_enable_once_remembers_witness:
  "seen_event once_event 403 (startEnableOnceMap (sch (exec (CheckStartEnableOnce sample_env once_event once_control (Iface 1 (Some 2))) loaded)))"
proof -
  have "sc_enableOnce once_control" "sc_saId once_control = 403" "event_eq once_event once_event"
    "eval_st (CheckStartEnableOnce sample_env once_event once_control (Iface 1 (Some 2))) loaded = ERR_OK"
    by code_simp+
  then show ?thesis using start_enable_once_remembers [of once_control once_event 403 sample_env once_event "Iface 1 (Some 2)" loaded] by simp
qed

text \<open>
  Enable-once on stop: the same for the events that unload an ability.
\<close>
theorem stop_enable_once_remembers:
  assumes "sc_enableOnce sc"
  shows "seen_event x b (stopEnableOnceMap (sch (exec (CheckStopEnableOnce e ev sc) s))) \<longleftrightarrow>
    seen_event x b (stopEnableOnceMap (sch s)) \<or>
    eval_st (CheckStopEnableOnce e ev sc) s = ERR_OK \<and> b = sc_saId sc \<and> event_eq x ev"
  using assms
  by (auto simp: CheckStopEnableOnce_def run_simps getS_def modS_def seen_remember seen_forget)

theorem stop_enable_once_remembers_witness:
  "seen_event once_event 403 (stopEnableOnceMap (sch (exec (CheckStopEnableOnce sample_env once_event once_control) loaded)))"
proof -
  have "sc_enableOnce once_control" "sc_saId once_control = 403" "event_eq once_event once_event"
    "eval_st (CheckStopEnableOnce sample_env once_event once_control) loaded = ERR_OK"
    by code_simp+
  then show ?thesis using stop_enable_once_remembers [of once_control once_event 403 sample_env once_event loaded] by simp
qed

text \<open>
  An event that is remembered is refused: the second occurrence of an enable-once event whose load was
  accepted returns \<^verbatim>\<open>ERR_INVALID_VALUE\<close> and changes nothing at all.
\<close>
theorem start_enable_once_second_refused:
  assumes "sc_enableOnce sc" and "eval_st (CheckStartEnableOnce e ev sc cb) s = ERR_OK" and "event_eq ev' ev"
  shows "let s' = exec (CheckStartEnableOnce e ev sc cb) s
    in run_state (CheckStartEnableOnce e' ev' sc cb') s' = (ERR_INVALID_VALUE, s')"
proof -
  let ?s' = "exec (CheckStartEnableOnce e ev sc cb) s"
  have "seen_event ev' (sc_saId sc) (startEnableOnceMap (sch ?s'))"
    using assms by (auto simp: CheckStartEnableOnce_def run_simps getS_def modS_def seen_remember split: if_splits)
  then have "eval_st (CheckStartEnableOnce e' ev' sc cb') ?s' = ERR_INVALID_VALUE"
    "exec (CheckStartEnableOnce e' ev' sc cb') ?s' = ?s'"
    using assms(1) by (simp_all add: CheckStartEnableOnce_def [of e' ev'] run_simps getS_def)
  then show ?thesis by (simp add: Let_def run_state_pair)
qed

theorem start_enable_once_second_refused_witness:
  "eval_st (CheckStartEnableOnce sample_env once_event once_control (Iface 1 (Some 2)))
     (exec (CheckStartEnableOnce sample_env once_event once_control (Iface 1 (Some 2))) loaded) = ERR_INVALID_VALUE"
proof -
  have "sc_enableOnce once_control" "event_eq once_event once_event"
    "eval_st (CheckStartEnableOnce sample_env once_event once_control (Iface 1 (Some 2))) loaded = ERR_OK"
    by code_simp+
  then show ?thesis
    using start_enable_once_second_refused [of once_control sample_env once_event "Iface 1 (Some 2)" loaded once_event sample_env "Iface 1 (Some 2)"]
    by (simp add: Let_def run_state_pair)
qed

end
