(* ===== verification/Manager_Frames.thy ===== *)
theory Manager_Frames
  imports Manager
begin

text \<open>
  What the operations leave of the tables of the manager. \<open>tables\<close> is the manager without its two
  queues and without the access counters, which every lookup updates; the events the manager sends
  to the scheduler, and the messages it posts, keep it.
\<close>

definition tables :: "sa_manager \<Rightarrow> sa_manager" where
  "tables m = m \<lparr> workHandler := None, deathHandler := None, saFrequencyMap := [] \<rparr>"

lemma tables_fields [simp]:
  "abilityMap (tables m) = abilityMap m" "listenerMap (tables m) = listenerMap m" "subscribeCountMap (tables m) = subscribeCountMap m"
  "onDemandAbilityMap (tables m) = onDemandAbilityMap m" "startingAbilityMap (tables m) = startingAbilityMap m"
  "systemProcessMap (tables m) = systemProcessMap m" "startingProcessMap (tables m) = startingProcessMap m"
  "callbackCountMap (tables m) = callbackCountMap m" "saProfileMap (tables m) = saProfileMap m"
  "abilityStateScheduler (tables m) = abilityStateScheduler m" "abilityDeath (tables m) = abilityDeath m"
  "abilityCallbackDeath (tables m) = abilityCallbackDeath m" "abilityStatusDeath (tables m) = abilityStatusDeath m"
  "collectManager (tables m) = collectManager m"
  by (simp_all add: tables_def)

lemma tables_cong:
  assumes "tables m = tables m'"
  shows "abilityMap m = abilityMap m'" "listenerMap m = listenerMap m'" "subscribeCountMap m = subscribeCountMap m'"
    "onDemandAbilityMap m = onDemandAbilityMap m'" "startingAbilityMap m = startingAbilityMap m'"
    "systemProcessMap m = systemProcessMap m'" "startingProcessMap m = startingProcessMap m'"
    "callbackCountMap m = callbackCountMap m'" "saProfileMap m = saProfileMap m'"
    "abilityStateScheduler m = abilityStateScheduler m'" "abilityDeath m = abilityDeath m'" "collectManager m = collectManager m'"
  using assms by (metis tables_fields)+

named_theorems frame_tables \<open>operations that keep the tables of the manager\<close>

lemma tables_prims [frame_tables]:
  "frames (\<lambda>s. tables (mgr s)) (modS f)" "frames (\<lambda>s. tables (mgr s)) (emit x)" "frames (\<lambda>s. tables (mgr s)) (ask g)"
  "frames (\<lambda>s. tables (mgr s)) null_deref" "frames (\<lambda>s. tables (mgr s)) (GetTickCount e)"
  unfolding GetTickCount_def by (rule frames_modS frames_emit frames_ask frames_null_deref; simp)+

lemma tables_put_queue [simp]: "tables (mgr (put_queue q h s)) = tables (mgr s)"
  by (cases q) (simp_all add: put_queue_def tables_def)

lemma tables_on_queue [frame_tables]: "frames (\<lambda>s. tables (mgr s)) (on_queue q d f)"
  by (rule frames_on_queue) simp_all

lemma tables_queue_ops [frame_tables]:
  "frames (\<lambda>s. tables (mgr s)) (post e q t)" "frames (\<lambda>s. tables (mgr s)) (post_named e q t n d)"
  "frames (\<lambda>s. tables (mgr s)) (remove_task q n)" "frames (\<lambda>s. tables (mgr s)) (del_task q n)"
  "frames (\<lambda>s. tables (mgr s)) (has_inner_event q n)" "frames (\<lambda>s. tables (mgr s)) (add_death ob r)"
  "frames (\<lambda>s. tables (mgr s)) (remove_death ob r)" "frames (\<lambda>s. tables (mgr s)) (modA a fa)" "frames (\<lambda>s. tables (mgr s)) (modP p fp)"
  unfolding post_def post_named_def remove_task_def del_task_def has_inner_event_def add_death_def remove_death_def modA_def modP_def
  by (intro frame_intros frame_tables)+

lemma tables_UpdateSaFreMap [frame_tables]: "frames (\<lambda>s. tables (mgr s)) (UpdateSaFreMap u a)"
  unfolding UpdateSaFreMap_def Let_def by (intro frame_intros frames_modM) (simp add: tables_def)

lemma tables_lookups [frame_tables]:
  "frames (\<lambda>s. tables (mgr s)) (GetSaProfile a)" "frames (\<lambda>s. tables (mgr s)) (IsDistributedSystemAbility a)"
  "frames (\<lambda>s. tables (mgr s)) (IsCacheCommonEvent a)" "frames (\<lambda>s. tables (mgr s)) (IsModuleUpdate a)"
  "frames (\<lambda>s. tables (mgr s)) (CheckSystemAbility e a)" "frames (\<lambda>s. tables (mgr s)) (GetSystemProcess p)"
  "frames (\<lambda>s. tables (mgr s)) (procObject e p)" "frames (\<lambda>s. tables (mgr s)) (SendUpdateSaState a x)"
  "frames (\<lambda>s. tables (mgr s)) workHandler_present"
  unfolding GetSaProfile_def IsDistributedSystemAbility_def IsCacheCommonEvent_def IsModuleUpdate_def CheckSystemAbility_def
    GetSystemProcess_def procObject_def SendUpdateSaState_def workHandler_present_def
  by (intro frame_intros frame_tables)+

lemma tables_peer_calls [frame_tables]:
  "frames (\<lambda>s. tables (mgr s)) (StopOnDemandAbilityInner e p a ev)" "frames (\<lambda>s. tables (mgr s)) (DoUnloadSystemAbility e a p ev)"
  "frames (\<lambda>s. tables (mgr s)) (IdleSystemAbility e a p r d)" "frames (\<lambda>s. tables (mgr s)) (ActiveSystemAbility e a p r)"
  unfolding StopOnDemandAbilityInner_def DoUnloadSystemAbility_def IdleSystemAbility_def ActiveSystemAbility_def
  by (intro frame_intros frame_tables)+

lemma tables_messages [frame_tables]:
  "frames (\<lambda>s. tables (mgr s)) (SendSystemAbilityRemovedMsg e a)" "frames (\<lambda>s. tables (mgr s)) (SendLoadedSystemAbilityMsg e a ob cb)"
  "frames (\<lambda>s. tables (mgr s)) (SendCheckLoadedMsg e a p dev c)" "frames (\<lambda>s. tables (mgr s)) (RemoveCheckLoadedMsg a)"
  "frames (\<lambda>s. tables (mgr s)) (SendSystemAbilityAddedMsg e a ob)" "frames (\<lambda>s. tables (mgr s)) (SystemAbilityInvalidateCache a)"
  "frames (\<lambda>s. tables (mgr s)) (clear_extra_data a)" "frames (\<lambda>s. tables (mgr s)) (UpdateLimitDelayUnloadTime e a)"
  unfolding SendSystemAbilityRemovedMsg_def SendLoadedSystemAbilityMsg_def SendCheckLoadedMsg_def RemoveCheckLoadedMsg_def
    SendSystemAbilityAddedMsg_def SystemAbilityInvalidateCache_def clear_extra_data_def UpdateLimitDelayUnloadTime_def
  by (intro frame_intros frame_tables)+

section \<open>Events sent to the scheduler\<close>

lemma tables_contexts [frame_tables]:
  "frames (\<lambda>s. tables (mgr s)) (GetSystemAbilityContext a)" "frames (\<lambda>s. tables (mgr s)) unload_handler_present"
  unfolding GetSystemAbilityContext_def unload_handler_present_def by (intro frame_intros)+

lemma tables_unload_events [frame_tables]:
  "frames (\<lambda>s. tables (mgr s)) (RemoveDelayUnloadEventLocked a)" "frames (\<lambda>s. tables (mgr s)) (RemovePendingUnloadEventLocked a)"
  "frames (\<lambda>s. tables (mgr s)) (PostTryUnloadAllAbilityTask e p)" "frames (\<lambda>s. tables (mgr s)) (PostTryKillProcessTask e p)"
  "frames (\<lambda>s. tables (mgr s)) (NotifyProcessActivated e p)" "frames (\<lambda>s. tables (mgr s)) (NotifyProcessIdled e p)"
  "frames (\<lambda>s. tables (mgr s)) (IsProcessActivatedLocked p)" "frames (\<lambda>s. tables (mgr s)) (IsProcessIdledLocked p)"
  unfolding RemoveDelayUnloadEventLocked_def RemovePendingUnloadEventLocked_def UEH_RemoveEvent_def UEH_HasInnerEvent_def
    PostTryUnloadAllAbilityTask_def PostTryKillProcessTask_def NotifyProcessActivated_def NotifyProcessIdled_def
    IsProcessActivatedLocked_def IsProcessIdledLocked_def
  by (intro frame_intros frame_tables)+

lemma tables_callbacks [frame_tables]:
  "frames (\<lambda>s. tables (mgr s)) (OnAbilityNotLoadedLocked e a)" "frames (\<lambda>s. tables (mgr s)) (OnAbilityLoadedLocked e a)"
  "frames (\<lambda>s. tables (mgr s)) (UpdateStateCount p u t)"
  unfolding OnAbilityNotLoadedLocked_def OnAbilityLoadedLocked_def UpdateStateCount_def by (intro frame_intros frame_tables)+

lemma tables_transition:
  assumes "\<And>h. abilityStateHandlerMap e L t = Some h \<Longrightarrow> frames (\<lambda>s. tables (mgr s)) (sa_OnEnter h a)"
  shows "frames (\<lambda>s. tables (mgr s)) (AbilityStateTransitionLocked e L (Some a) t)"
proof -
  obtain h where h: "abilityStateHandlerMap e L t = Some h" by (rule ability_handler_total)
  then show ?thesis
    unfolding AbilityStateTransitionLocked_def by (simp add: h) (intro frame_intros frame_tables assms [OF h])
qed

lemma tables_unload [frame_tables]: "frames (\<lambda>s. tables (mgr s)) (DoUnloadSystemAbilityLocked e a)"
  unfolding DoUnloadSystemAbilityLocked_def
  by (intro frame_intros frame_tables tables_transition)
    (auto simp: abilityStateHandlerMap_def UnloadingStateHandler_def tell_def listener0_def intro!: frame_intros)

lemma tables_unloadable [frame_tables]: "frames (\<lambda>s. tables (mgr s)) (OnAbilityUnloadableLocked e a)"
  unfolding OnAbilityUnloadableLocked_def by (intro frame_intros frame_tables)

lemma tables_ability_transition [frame_tables]: "frames (\<lambda>s. tables (mgr s)) (ability_transition e a t)"
  by (rule tables_transition)
    (cases t; auto simp: abilityStateHandlerMap_def sa_handler_defs tell_def listener_def listener0_def
      intro!: frame_intros frame_tables)

lemma frames_case_state [frame_intros]:
  "frames g m1 \<Longrightarrow> frames g m2 \<Longrightarrow> frames g m3 \<Longrightarrow> frames g m4 \<Longrightarrow> frames g m5 \<Longrightarrow>
   frames g (case x of NOT_LOADED \<Rightarrow> m1 | LOADING \<Rightarrow> m2 | LOADED \<Rightarrow> m3 | UNLOADABLE \<Rightarrow> m4 | UNLOADING \<Rightarrow> m5)"
  by (cases x) auto

lemma frames_case_ability_event:
  "frames g m1 \<Longrightarrow> frames g m2 \<Longrightarrow> frames g m3 \<Longrightarrow>
   frames g (case x of ABILITY_LOAD_SUCCESS_EVENT \<Rightarrow> m1 | ABILITY_LOAD_FAILED_EVENT \<Rightarrow> m2 | ABILITY_UNLOAD_SUCCESS_EVENT \<Rightarrow> m3)"
  by (cases x) auto

lemma tables_SendAbilityStateEvent [frame_tables]: "frames (\<lambda>s. tables (mgr s)) (SendAbilityStateEvent e a ev)"
  unfolding SendAbilityStateEvent_def HandleAbilityEventLocked_def HandleAbilityLoadFailedEventLocked_def
    HandleAbilityLoadSuccessEventLocked_def HandleAbilityUnLoadSuccessEventLocked_def
  by (intro frame_intros frame_tables frames_case_ability_event)

end
