(* ===== verification/Manager_Props.thy ===== *)
theory Manager_Props
  imports Samples Manager_Frames
begin

text \<open>
  The properties of the manager: what a lookup returns after a registration or a removal, who is
  notified and how often, the limits of its tables, the access counters, and the callbacks of load
  requests. Each is followed by a witness on the sample device.
\<close>

section \<open>Registering and looking up\<close>

lemmas abilityMap_frames = frame_tables [THEN framesD, THEN tables_cong(1)]
lemmas profileMap_frames = frame_tables [THEN framesD, THEN tables_cong(9)]
lemmas schedulerFlag_frames = frame_tables [THEN framesD, THEN tables_cong(10)]

definition profile_distributed :: "int \<Rightarrow> sa_manager \<Rightarrow> bool" where
  "profile_distributed a m = (case sm_find a (saProfileMap m) of None \<Rightarrow> False | Some q \<Rightarrow> cp_distributed q)"

lemma RefreshListenerState_run:
  "exec (RefreshListenerState a) s = s \<lparr> mgr := (mgr s) \<lparr> listenerMap := sm_upd a (map (\<lambda>i. i \<lparr> sal_state := INIT \<rparr>)) (listenerMap (mgr s)) \<rparr> \<rparr>"
  by (simp add: RefreshListenerState_def modM_def run_simps)

lemma IsDistributed_run:
  "eval_st (IsDistributedSystemAbility a) s = profile_distributed a (mgr s)" "exec (IsDistributedSystemAbility a) s = s"
  by (simp_all add: IsDistributedSystemAbility_def GetSaProfile_def getM_def run_simps profile_distributed_def)

lemma RegisterDistribute_tables:
  "abilityMap (mgr (exec (RegisterDistribute a d) s)) = abilityMap (mgr s)"
  "abilityStateScheduler (mgr (exec (RegisterDistribute a d) s)) = abilityStateScheduler (mgr s)"
  by (simp_all add: RegisterDistribute_def run_simps getM_def modM_def emit_def)

text \<open>The arguments and the state for which a registration is accepted.\<close>
definition can_add :: "int \<Rightarrow> obj option \<Rightarrow> bool \<Rightarrow> sa_manager \<Rightarrow> bool" where
  "can_add a ob d m \<longleftrightarrow> 0 \<le> a \<and> a \<le> 0x00ffffff \<and> ob \<noteq> None \<and> d = profile_distributed a m
     \<and> sm_size (abilityMap m) < 1000 \<and> abilityStateScheduler m"

lemma AddSystemAbility_result:
  "eval_st (AddSystemAbility e a ob d) s = (if can_add a ob d (mgr s) then ERR_OK else ERR_INVALID_VALUE)"
  "can_add a ob d (mgr s) \<Longrightarrow> abilityMap (mgr (exec (AddSystemAbility e a ob d) s)) =
     sm_ins a \<lparr> remoteObj = ob, isDistributed = d \<rparr> (abilityMap (mgr s))"
  unfolding AddSystemAbility_def can_add_def
  by (auto simp: CheckInputSysAbilityId_def MAX_SERVICES_def RefreshListenerState_run IsDistributed_run profile_distributed_def
      run_simps getM_def modM_def abilityMap_frames schedulerFlag_frames RegisterDistribute_tables)

lemma CheckSystemAbility_result:
  "eval_st (CheckSystemAbility e a) s = (if CheckInputSysAbilityId a then running_obj a (mgr s) else None)"
  by (simp add: CheckSystemAbility_def run_simps getM_def abilityMap_frames running_obj_def)

text \<open>
  C33. Registering an ability succeeds exactly when the identifier is in range, the object is not null, the
  distributed flag agrees with the profile, fewer than 1000 abilities are registered and the
  scheduler exists; every other request returns \<^verbatim>\<open>ERR_INVALID_VALUE\<close>.
\<close>
theorem add_system_ability_code:
  "eval_st (AddSystemAbility e a ob d) s = (if can_add a ob d (mgr s) then ERR_OK else ERR_INVALID_VALUE)"
  by (rule AddSystemAbility_result)

text \<open>
  Round trip of registration and lookup: after an accepted registration a lookup of that identifier
  returns the registered object, and lookups of other identifiers return what they returned before.
\<close>
theorem add_then_check:
  assumes "eval_st (AddSystemAbility e a ob d) s = ERR_OK"
  shows "eval_st (CheckSystemAbility e' b) (exec (AddSystemAbility e a ob d) s) =
    (if b = a then ob else eval_st (CheckSystemAbility e' b) s)"
proof -
  have ok: "can_add a ob d (mgr s)" using assms by (auto simp: AddSystemAbility_result(1) split: if_splits)
  then show ?thesis
    by (auto simp: CheckSystemAbility_result running_obj_def AddSystemAbility_result(2) [OF ok])
      (simp add: can_add_def CheckInputSysAbilityId_def)
qed

theorem add_then_check_witness:
  "eval_st (CheckSystemAbility sample_env 401) (exec (AddSystemAbility sample_env 401 (Some 11) False) booted) = Some 11"
proof -
  have "eval_st (AddSystemAbility sample_env 401 (Some 11) False) booted = ERR_OK" by code_simp
  then show ?thesis using add_then_check [of sample_env 401 "Some 11" False booted sample_env 401] by simp
qed

lemma RemoveSystemAbility_result:
  "eval_st (RemoveSystemAbility e a) s =
     (if CheckInputSysAbilityId a \<and> sm_count a (abilityMap (mgr s)) \<and> abilityStateScheduler (mgr s) then ERR_OK else ERR_INVALID_VALUE)"
  "abilityMap (mgr (exec (RemoveSystemAbility e a) s)) =
     (if CheckInputSysAbilityId a then sm_erase a (abilityMap (mgr s)) else abilityMap (mgr s))"
  unfolding RemoveSystemAbility_def
  by (auto simp: run_simps getM_def modM_def abilityMap_frames schedulerFlag_frames sm_count_def sm_erase_absent
      split: option.splits)

text \<open>
  Removing an ability: it succeeds exactly for a registered identifier, and afterwards a lookup of that
  identifier finds nothing, a second removal fails, and other lookups are unchanged.
\<close>
theorem remove_then_check:
  assumes "abilityStateScheduler (mgr s)" and "CheckInputSysAbilityId a"
  shows "eval_st (RemoveSystemAbility e a) s = (if sm_count a (abilityMap (mgr s)) then ERR_OK else ERR_INVALID_VALUE) \<and>
    (let s' = exec (RemoveSystemAbility e a) s
     in eval_st (CheckSystemAbility e' b) s' = (if b = a then None else eval_st (CheckSystemAbility e' b) s)
      \<and> eval_st (RemoveSystemAbility e a) s' = ERR_INVALID_VALUE)"
  using assms by (auto simp: RemoveSystemAbility_result CheckSystemAbility_result running_obj_def Let_def)

theorem remove_then_check_witness:
  "eval_st (RemoveSystemAbility sample_env 401) loaded = ERR_OK \<and>
   eval_st (CheckSystemAbility sample_env 401) (exec (RemoveSystemAbility sample_env 401) loaded) = None"
proof -
  have "abilityStateScheduler (mgr loaded)" "CheckInputSysAbilityId 401" "sm_count 401 (abilityMap (mgr loaded))"
    by code_simp+
  then show ?thesis using remove_then_check [of loaded 401 sample_env sample_env 401] by (simp add: Let_def)
qed

section \<open>Load callbacks\<close>

text \<open>The answers to load requests among the effects.\<close>
definition load_notices :: "effect list \<Rightarrow> effect list" where
  "load_notices xs = filter (\<lambda>x. case x of OnLoadSystemAbilitySuccess _ _ _ \<Rightarrow> True | OnLoadSystemAbilityFail _ _ _ \<Rightarrow> True | _ \<Rightarrow> False) xs"

lemma load_notices_append [simp]: "load_notices (xs @ ys) = load_notices xs @ load_notices ys"
  by (simp add: load_notices_def)

lemma drop_callback_frames:
  "load_notices (effects (exec (RemoveStartingAbilityCallbackLocked c) s)) = load_notices (effects s)"
  "startingAbilityMap (mgr (exec (RemoveStartingAbilityCallbackLocked c) s)) = startingAbilityMap (mgr s)"
  "sch (exec (RemoveStartingAbilityCallbackLocked c) s) = sch s"
  by (auto simp: RemoveStartingAbilityCallbackLocked_def run_simps getM_def modM_def remove_death_def null_deref_def emit_def
      load_notices_def split: option.splits)

text \<open>A loop that answers every callback and drops it, as \<^verbatim>\<open>NotifySystemAbilityLoaded\<close> and \<^verbatim>\<open>OnStartSystemAbilityFail\<close> run it.\<close>
lemma answer_all:
  assumes "\<And>c. load_notices [ans c] = [ans c]"
  shows "(\<lambda>s'. load_notices (effects s') = load_notices (effects s) @ map ans cs \<and>
      startingAbilityMap (mgr s') = startingAbilityMap (mgr s) \<and> sch s' = sch s)
    (exec (for_each cs (\<lambda>c. do { emit (ans c); RemoveStartingAbilityCallbackLocked c })) s)"
proof (induction cs arbitrary: s)
  case (Cons c cs)
  show ?case
    using Cons [of "exec (RemoveStartingAbilityCallbackLocked c) (s \<lparr> effects := effects s @ [ans c] \<rparr>)"] assms(1) [of c]
    by (simp add: run_simps emit_def drop_callback_frames)
qed (simp add: run_simps)

text \<open>
  When an ability has been loaded, every callback that waits for it is told of the success exactly once, in
  the order in which the callbacks are stored, no other load request is answered, and the
  waiting list of the ability is gone.
\<close>
theorem loaded_callbacks_notified_once:
  assumes "sm_find a (startingAbilityMap (mgr s)) = Some i"
  shows "let s' = exec (NotifySystemAbilityLoaded a ob) s
    in load_notices (effects s') = load_notices (effects s) @ map (\<lambda>c. OnLoadSystemAbilitySuccess (fst c) a ob) (all_callbacks i)
     \<and> startingAbilityMap (mgr s') = sm_erase a (startingAbilityMap (mgr s))"
  using answer_all [of "\<lambda>c. OnLoadSystemAbilitySuccess (fst c) a ob" "all_callbacks i" s] assms
  by (simp add: NotifySystemAbilityLoaded_def NotifySystemAbilityLoadedTo_def run_simps getM_def erase_item_def modM_def Let_def
      load_notices_def)

definition waiting :: samgr where
  "waiting = exec (LoadSystemAbility sample_env 403 (Some (Iface 5 (Some 50)))) loaded"

theorem loaded_callbacks_notified_once_witness:
  "load_notices (effects (exec (NotifySystemAbilityLoaded 403 (Some 12)) waiting)) =
     load_notices (effects waiting) @ [OnLoadSystemAbilitySuccess (Iface 5 (Some 50)) 403 (Some 12)]"
proof -
  have "sm_count 403 (startingAbilityMap (mgr waiting))" "all_callbacks (item 403 (mgr waiting)) = [(Iface 5 (Some 50), 42)]"
    by code_simp+
  then have "sm_find 403 (startingAbilityMap (mgr waiting)) = Some (item 403 (mgr waiting))"
    by (auto simp: item_def sm_get_def sm_count_def)
  from loaded_callbacks_notified_once [OF this, of "Some 12"]
  show ?thesis using \<open>all_callbacks (item 403 (mgr waiting)) = [(Iface 5 (Some 50), 42)]\<close> by (simp add: Let_def)
qed

text \<open>
  When a process reports that it failed to start one of its abilities, every waiting callback is told of
  the failure exactly once and the waiting list is dropped; but the scheduler is not told, so the
  ability keeps the state it had, which is \<^verbatim>\<open>LOADING\<close> for an ability that was being loaded.
\<close>
theorem start_fail_answers_and_keeps_state:
  assumes "running_obj a (mgr s) = None" and "sm_find a (saProfileMap (mgr s)) = Some q"
    and "e_str16to8 e (cp_process q) = e_cmdline e (e_callingPid e)" and "sm_find a (startingAbilityMap (mgr s)) = Some i"
  shows "let m = OnStartSystemAbilityFail e a code; s' = exec m s
    in eval_st m s = ERR_OK \<and> sch s' = sch s
     \<and> load_notices (effects s') = load_notices (effects s) @ map (\<lambda>c. OnLoadSystemAbilityFail (fst c) a code) (all_callbacks i)
     \<and> startingAbilityMap (mgr s') = sm_erase a (startingAbilityMap (mgr s))"
proof -
  define ob where "ob = eval_st (CheckSystemAbility e a) s"
  have none: "ob = None" using assms(1) by (simp add: ob_def CheckSystemAbility_result)
  define s1 where "s1 = exec (CheckSystemAbility e a) s"
  have s1: "tables (mgr s1) = tables (mgr s)" "sch s1 = sch s" "effects s1 = effects s"
    unfolding s1_def
    by (intro framesD [where f = "\<lambda>s. tables (mgr s)"] frame_tables, intro framesD frame_sch,
        simp add: CheckSystemAbility_def UpdateSaFreMap_def Let_def run_simps getM_def modM_def)
  define s2 where "s2 = exec (RemoveCheckLoadedMsg a)
    (s1 \<lparr> mgr := (mgr s1) \<lparr> onDemandAbilityMap := sm_touch (cp_process q) a (onDemandAbilityMap (mgr s1)) \<rparr> \<rparr>)"
  have "effects (exec (RemoveCheckLoadedMsg a) u) = effects u" for u
    by (simp add: RemoveCheckLoadedMsg_def workHandler_present_def remove_task_def run_simps getM_def put_queue_def split: option.splits)
  then have s2: "sch s2 = sch s" "effects s2 = effects s" "startingAbilityMap (mgr s2) = startingAbilityMap (mgr s)"
    using framesD [OF sch_messages(4), of a] tables_messages(4) [THEN framesD, THEN tables_cong(5), of a] s1 tables_cong(5) [OF s1(1)]
    by (simp_all add: s2_def)
  have prof: "sm_find a (saProfileMap (mgr s1)) = Some q" "sm_find a (startingAbilityMap (mgr s1)) = Some i"
    using assms(2,4) tables_cong(5,9) [OF s1(1)] by simp_all
  show ?thesis
    using answer_all [of "\<lambda>c. OnLoadSystemAbilityFail (fst c) a code" "all_callbacks i" s2] prof s2 none assms(3)
    unfolding OnStartSystemAbilityFail_def OnStartSystemAbilityFail_absent_def
    by (simp add: run_simps ob_def [symmetric] s1_def [symmetric] GetSaProfile_def getM_def modM_def s2_def [symmetric]
        NotifySystemAbilityLoadFail_def erase_item_def Let_def load_notices_def)
qed

definition foo_env :: env where
  "foo_env = sample_env \<lparr> e_cmdline := \<lambda>_. ''foo'' \<rparr>"

theorem start_fail_answers_and_keeps_state_witness:
  "sa_state (actx 403 (sch waiting)) = LOADING \<and>
   sa_state (actx 403 (sch (exec (OnStartSystemAbilityFail foo_env 403 7) waiting))) = LOADING"
proof -
  have eval: "sa_state (actx 403 (sch waiting)) = LOADING \<and> running_obj 403 (mgr waiting) = None \<and>
      sm_find 403 (saProfileMap (mgr waiting)) = Some (FilterCommonSaProfile (sample_profile ''foo'' 403)) \<and>
      e_str16to8 foo_env (cp_process (FilterCommonSaProfile (sample_profile ''foo'' 403))) = e_cmdline foo_env (e_callingPid foo_env) \<and>
      sm_count 403 (startingAbilityMap (mgr waiting))"
    by code_simp
  then have "sm_find 403 (startingAbilityMap (mgr waiting)) = Some (item 403 (mgr waiting))"
    by (auto simp: item_def sm_get_def sm_count_def)
  with eval show ?thesis
    using start_fail_answers_and_keeps_state [of 403 waiting "FilterCommonSaProfile (sample_profile ''foo'' 403)" foo_env _ 7]
    by (simp add: Let_def)
qed

section \<open>Status listeners\<close>

text \<open>The notifications of an added ability for a list of listeners that have not been told yet.\<close>
definition add_notices :: "int \<Rightarrow> string \<Rightarrow> SAListener list \<Rightarrow> effect list" where
  "add_notices a dev is = List.map_filter (\<lambda>i. if sal_state i = INIT then map_option (\<lambda>l. OnAddSystemAbility l a dev) (sal_listener i) else None) is"

lemma notify_loop:
  "exec (for_each is (\<lambda>i. onlyif (sal_state i = INIT) (NotifySystemAbilityChanged a dev ADD_SYSTEM_ABILITY_TRANSACTION (sal_listener i)))) s =
     s \<lparr> effects := effects s @ add_notices a dev is \<rparr>"
proof (induction "is" arbitrary: s)
  case (Cons i "is")
  then show ?case
    by (cases "sal_listener i") (simp_all add: run_simps NotifySystemAbilityChanged_def emit_def add_notices_def List.map_filter_simps)
qed (simp add: run_simps add_notices_def List.map_filter_simps)

text \<open>
  When an ability has been added, exactly the listeners of that ability that were not told of it yet are
  notified, each once; announcing the same ability again, without a removal in between, notifies nobody.
\<close>
theorem added_ability_notified_once:
  assumes "sm_find a (listenerMap (mgr s)) = Some items"
  shows "let s' = exec (FindSystemAbilityNotify a dev ADD_SYSTEM_ABILITY_TRANSACTION) s
    in effects s' = effects s @ add_notices a dev items
     \<and> effects (exec (FindSystemAbilityNotify a dev ADD_SYSTEM_ABILITY_TRANSACTION) s') = effects s'"
proof -
  have again: "add_notices a dev (map (\<lambda>i. if sal_state i = INIT then i \<lparr> sal_state := NOTIFIED \<rparr> else i) items) = []"
    by (induction items) (auto simp: add_notices_def List.map_filter_simps)
  show ?thesis
    using assms again by (simp add: FindSystemAbilityNotify_def run_simps getM_def modM_def notify_loop Let_def)
qed

definition sample_listeners :: "SAListener list" where
  "sample_listeners = [\<lparr> sal_listener = Some (Iface 1 (Some 61)), sal_callingPid = 42, sal_state = INIT \<rparr>,
     \<lparr> sal_listener = Some (Iface 2 (Some 62)), sal_callingPid = 43, sal_state = NOTIFIED \<rparr>]"

definition watched :: samgr where
  "watched = exec (modM (\<lambda>m. m \<lparr> listenerMap := sm_ins 401 sample_listeners (listenerMap m) \<rparr>)) booted"

theorem added_ability_notified_once_witness:
  "effects (exec (FindSystemAbilityNotify 401 [] ADD_SYSTEM_ABILITY_TRANSACTION) watched) =
     effects watched @ [OnAddSystemAbility (Iface 1 (Some 61)) 401 []]"
proof -
  have "sm_find 401 (listenerMap (mgr watched)) = Some sample_listeners" by (simp add: watched_def modM_def run_simps)
  moreover have "add_notices 401 [] sample_listeners = [OnAddSystemAbility (Iface 1 (Some 61)) 401 []]" by code_simp
  ultimately show ?thesis using added_ability_notified_once [of 401 watched sample_listeners "[]"] by (simp add: Let_def)
qed

lemma list_ex_update_first:
  "(\<And>i. Q (f i) = Q i) \<Longrightarrow> list_ex Q (update_first P f xs) = list_ex Q xs"
  by (induction xs) auto

lemma CheckListenerNotify_keeps:
  "list_ex (is_listener x) (listeners_of a (mgr (exec (CheckListenerNotify e a l) s))) = list_ex (is_listener x) (listeners_of a (mgr s))"
proof -
  define s1 where "s1 = exec (CheckSystemAbility e a) s"
  have l1: "listeners_of a (mgr s1) = listeners_of a (mgr s)"
    unfolding s1_def listeners_of_def
    by (metis (no_types) framesD tables_cong(2) tables_lookups(5))
  have l2: "listeners_of a (mgr (exec (NotifySystemAbilityAddedByAsync e a l) u)) = listeners_of a (mgr u)" for u
    unfolding listeners_of_def
    by (rule arg_cong [where f = "sm_get [] a"], rule tables_cong(2), rule framesD [where f = "\<lambda>s. tables (mgr s)"])
      (auto simp: NotifySystemAbilityAddedByAsync_def intro!: frame_intros frame_tables)
  have touch: "listeners_of a (m \<lparr> listenerMap := sm_touch [] a (listenerMap m) \<rparr>) = listeners_of a m" for m
    by (simp add: listeners_of_def)
  show ?thesis
    by (auto simp: CheckListenerNotify_def run_simps s1_def [symmetric] getM_def modM_def touch l1 l2 is_listener_def
        list_ex_update_first listeners_of_def [of a "_ \<lparr> listenerMap := _ \<rparr>"] split: option.splits)
qed

lemma subscribe_registers:
  assumes ok: "eval_st (SubscribeSystemAbility e a (Some l)) s = ERR_OK" and death: "abilityStatusDeath (mgr s)"
  shows "list_ex (is_listener (AsObject l)) (listeners_of a (mgr (exec (SubscribeSystemAbility e a (Some l)) s)))"
    "sm_count a (listenerMap (mgr (exec (SubscribeSystemAbility e a (Some l)) s)))"
proof -
  have add: "mgr (exec (add_death ob r) u) = mgr u" for ob r u
    by (simp add: add_death_def null_deref_def emit_def run_simps split: option.splits)
  have get: "listeners_of a (m \<lparr> listenerMap := x \<rparr>) = sm_get [] a x" for m x by (simp add: listeners_of_def)
  have valid: "CheckInputSysAbilityId a"
    using ok by (auto simp: SubscribeSystemAbility_def SubscribeSystemAbilityInner_def run_simps split: if_splits)
  show reg: "list_ex (is_listener (AsObject l)) (listeners_of a (mgr (exec (SubscribeSystemAbility e a (Some l)) s)))"
    using ok death valid
    by (auto simp: SubscribeSystemAbility_def SubscribeSystemAbilityInner_def run_simps getM_def modM_def add get
        CheckListenerNotify_keeps split: if_splits) (simp_all add: listeners_of_def is_listener_def)
  then show "sm_count a (listenerMap (mgr (exec (SubscribeSystemAbility e a (Some l)) s)))"
    by (auto simp: listeners_of_def sm_get_def sm_count_def split: option.splits)
qed

text \<open>
  Subscribing is idempotent per remote object: after an accepted subscription, a further one of any
  listener that stands for the same object is accepted too and changes nothing, neither the
  listener table nor the subscription count of a caller.
\<close>
theorem subscribe_twice:
  assumes "eval_st (SubscribeSystemAbility e a (Some l)) s = ERR_OK" and "abilityStatusDeath (mgr s)"
    and "AsObject l' = AsObject l"
  shows "let s' = exec (SubscribeSystemAbility e a (Some l)) s
    in run_state (SubscribeSystemAbility e' a (Some l')) s' = (ERR_OK, s')"
proof -
  have valid: "CheckInputSysAbilityId a"
    using assms(1) by (auto simp: SubscribeSystemAbility_def SubscribeSystemAbilityInner_def run_simps split: if_splits)
  define s' where "s' = exec (SubscribeSystemAbility e a (Some l)) s"
  have reg: "list_ex (is_listener (AsObject l)) (listeners_of a (mgr s'))" "sm_count a (listenerMap (mgr s'))"
    using subscribe_registers [OF assms(1,2)] by (simp_all add: s'_def)
  then have same: "sm_touch [] a (listenerMap (mgr s')) = listenerMap (mgr s')" by (simp add: sm_touch_def)
  show ?thesis
    unfolding s'_def [symmetric] Let_def run_state_pair
    using valid reg same assms(3)
    by (simp add: SubscribeSystemAbility_def SubscribeSystemAbilityInner_def run_simps getM_def modM_def)
qed

theorem subscribe_twice_witness:
  "run_state (SubscribeSystemAbility sample_env 401 (Some (Iface 9 (Some 61))))
     (exec (SubscribeSystemAbility sample_env 401 (Some (Iface 8 (Some 61)))) booted) =
   (ERR_OK, exec (SubscribeSystemAbility sample_env 401 (Some (Iface 8 (Some 61)))) booted)"
proof -
  have "eval_st (SubscribeSystemAbility sample_env 401 (Some (Iface 8 (Some 61)))) booted = ERR_OK" "abilityStatusDeath (mgr booted)"
    by code_simp+
  then show ?thesis
    using subscribe_twice [of sample_env 401 "Iface 8 (Some 61)" booted "Iface 9 (Some 61)" sample_env] by (simp add: Let_def)
qed

section \<open>Access counters\<close>

unbundle bit_operations_syntax

lemma bit_GenerateFreKey:
  "bit (GenerateFreKey u a) n \<longleftrightarrow> n < 64 \<and> (if n < 32 then bit a n else bit u (n - 32))"
  by (auto simp: GenerateFreKey_def Let_def bit_or_iff bit_push_bit_iff bit_word_of_int_iff bit_simps)

lemma fre_key_determines:
  assumes "0 \<le> u" "u < 2 ^ 31" "0 \<le> v" "v < 2 ^ 31" and "is_int32 a" "is_int32 b"
    and "GenerateFreKey u a = GenerateFreKey v b"
  shows "u = v \<and> a = b"
proof
  have bits: "bit (GenerateFreKey u a) n = bit (GenerateFreKey v b) n" for n using assms(7) by simp
  have low: "bit a n = bit b n" if "n < 32" for n using bits [of n] that by (simp add: bit_GenerateFreKey)
  have high: "bit u n = bit v n" if "n < 32" for n using bits [of "n + 32"] that by (simp add: bit_GenerateFreKey)
  have "take_bit 32 u = take_bit 32 v" by (rule bit_eqI) (use high in \<open>auto simp: bit_take_bit_iff\<close>)
  moreover have "take_bit 32 u = u" "take_bit 32 v = v" using assms(1-4) by (simp_all add: take_bit_int_eq_self)
  ultimately show "u = v" by simp
  have "signed_take_bit 31 a = signed_take_bit 31 b"
    by (rule bit_eqI) (use low in \<open>auto simp: bit_signed_take_bit_iff min_def\<close>)
  then show "a = b" using to_int32_id [OF assms(5)] to_int32_id [OF assms(6)] by (simp add: to_int32_def)
qed

text \<open>
  The 64-bit key of an access counter determines the caller's uid and the ability: two pairs of
  non-negative 32-bit uids and 32-bit identifiers have the same key only if they are the same pair.
\<close>
theorem fre_key_injective:
  assumes "0 \<le> u" "u < 2 ^ 31" "0 \<le> v" "v < 2 ^ 31" and "is_int32 a" "is_int32 b"
  shows "GenerateFreKey u a = GenerateFreKey v b \<longleftrightarrow> u = v \<and> a = b"
  using fre_key_determines [OF assms] by auto

theorem fre_key_injective_witness: "GenerateFreKey 1000 401 \<noteq> GenerateFreKey 1000 (-401)"
proof
  assume "GenerateFreKey 1000 401 = GenerateFreKey 1000 (-401)"
  then have "(401::int) = -401" using fre_key_injective [of 1000 1000 401 "-401"] by (simp add: is_int32_def)
  then show False by simp
qed

text \<open>
  An access is counted for its caller and its ability only: looking up one ability with one uid adds one
  to that counter, up to a bound at which it stays, and leaves the counters of other callers and
  other abilities alone; a negative uid is not counted.
\<close>
theorem access_counted_once:
  assumes "u < 2 ^ 31" "0 \<le> v" "v < 2 ^ 31" and "is_int32 a" "is_int32 b"
  shows "sm_get 0 (GenerateFreKey v b) (saFrequencyMap (mgr (exec (UpdateSaFreMap u a) s))) =
    (let c = sm_get 0 (GenerateFreKey v b) (saFrequencyMap (mgr s))
     in if v = u \<and> b = a \<and> c < MAX_SA_FREQUENCY_COUNT then c + 1 else c)"
proof (cases "u < 0")
  case True
  then show ?thesis using assms by (simp add: UpdateSaFreMap_def run_simps)
next
  case False
  then have "GenerateFreKey v b = GenerateFreKey u a \<longleftrightarrow> v = u \<and> b = a"
    using fre_key_determines [of v u b a] assms by auto
  then show ?thesis
    using False by (auto simp: UpdateSaFreMap_def Let_def run_simps getM_def modM_def)
qed

theorem access_counted_once_witness:
  "sm_get 0 (GenerateFreKey 1000 401) (saFrequencyMap (mgr (exec (UpdateSaFreMap 1000 401) booted))) = 1"
proof -
  have "sm_get 0 (GenerateFreKey 1000 401) (saFrequencyMap (mgr booted)) = 0" by code_simp
  then show ?thesis
    using access_counted_once [of 1000 1000 401 401 booted] by (simp add: is_int32_def MAX_SA_FREQUENCY_COUNT_def)
qed

end
