(* ===== verification/Queue_Props.thy ===== *)
theory Queue_Props
  imports Samples
begin

text \<open>
  The properties of the task queues and of their use for delayed unloads: what cancelling a name does,
  that a delay does not overflow when it is converted to microseconds, that an ability has at most one
  delayed unload, and that the name of a task identifies its ability.
\<close>

section \<open>Queues\<close>

text \<open>
  Removing the tasks of a name from a well-formed queue takes exactly these tasks out of the runtime: the
  tasks posted under other names, and unnamed ones, stay, and the name is unknown afterwards.
\<close>
theorem remove_task_exact:
  assumes "ffrt_ok h"
  shows "submitted (RemoveTask n h) = filter (\<lambda>x. fst x \<notin> set (handles n h)) (submitted h)
    \<and> \<not> HasInnerEvent n (RemoveTask n h)
    \<and> (\<forall>m x. m \<noteq> n \<and> x \<in> set (submitted h) \<and> fst x \<in> set (handles m h) \<longrightarrow>
         x \<in> set (submitted (RemoveTask n h)) \<and> fst x \<in> set (handles m (RemoveTask n h)))"
proof -
  have sub: "submitted (RemoveTask n h) = filter (\<lambda>x. fst x \<notin> set (handles n h)) (submitted h)"
    by (auto simp: RemoveTask_def handles_def sm_get_def submitted_cancel_all intro!: filter_cong split: option.splits)
  have disj: "set (handles m h) \<inter> set (handles n h) = {}" if "m \<noteq> n" for m
    using assms that by (simp add: ffrt_ok_def)
  have "\<not> HasInnerEvent n (RemoveTask n h)"
    using HasInnerEvent_handles [OF ffrt_ok_RemoveTask [OF assms], of n] by simp
  with sub disj show ?thesis by auto
qed

definition sample_queue :: "task ffrt_handler" where
  "sample_queue = snd (PostNamedTask True (Some (UnloadEventTask 2)) ''b'' 7 (snd (PostNamedTask True (Some (UnloadEventTask 1)) ''a'' 5 (FFRTHandler 2))))"

lemma sample_queue_ok: "ffrt_ok sample_queue"
  unfolding sample_queue_def by (intro ffrt_ok_intros)

theorem remove_task_exact_witness: "submitted (RemoveTask ''a'' sample_queue) = [(1, 7000, UnloadEventTask 2)]"
proof -
  have "handles ''a'' sample_queue = [0] \<and> submitted sample_queue = [(0, 5000, UnloadEventTask 1), (1, 7000, UnloadEventTask 2)]"
    by code_simp
  then show ?thesis using remove_task_exact [OF sample_queue_ok, of "''a''"] by simp
qed

text \<open>
  The conversion of a delay to microseconds does not overflow: a named task is accepted only with a
  delay whose thousandfold fits into 64 bits, and it is queued with exactly that delay; a longer delay is
  refused and leaves the queue as it was.
\<close>
theorem post_named_delay_fits:
  assumes "0 \<le> d"
  shows "if fst (PostNamedTask acc (Some t) n d h)
    then d * 1000 < 2 ^ 64 \<and> submitted (snd (PostNamedTask acc (Some t) n d h)) = submitted h @ [(nextHandle h, d * 1000, t)]
    else snd (PostNamedTask acc (Some t) n d h) = h"
proof -
  have "d * 1000 < 2 ^ 64" if "\<not> d > (2 ^ 64 - 1) div (1000::int)"
    using that by simp
  then show ?thesis
    by (auto simp: PostNamedTask_def queue_submit_def MAX_UINT64_def CONVERSION_FACTOR_def Let_def)
qed

theorem post_named_delay_fits_witness:
  "submitted (snd (PostNamedTask True (Some (UnloadEventTask 1)) ''a'' 20000 (FFRTHandler 2))) = [(0, 20000000, UnloadEventTask 1)]"
proof -
  have "fst (PostNamedTask True (Some (UnloadEventTask 1)) ''a'' 20000 (FFRTHandler 2))"
    by (simp add: PostNamedTask_def FFRTHandler_def MAX_UINT64_def CONVERSION_FACTOR_def queue_submit_def)
  then show ?thesis
    using post_named_delay_fits [of 20000 True "UnloadEventTask 1" "''a''" "FFRTHandler 2"]
    by (simp add: FFRTHandler_def)
qed

section \<open>Delayed unloads\<close>

text \<open>The unload queue is well-formed and has at most one task per name.\<close>
definition single_unloads :: "samgr \<Rightarrow> bool" where
  "single_unloads s \<longleftrightarrow> (\<exists>h. unloadEventHandler (sch s) = Some (Some h) \<and> ffrt_ok h \<and> (\<forall>n. length (handles n h) \<le> 1))"

text \<open>The name under which the delayed unload of an ability is posted.\<close>
definition unload_name :: "int \<Rightarrow> string" where
  "unload_name a = to_string (to_uint32 a)"

lemma SendDelay_run:
  assumes q: "unloadEventHandler (sch s) = Some (Some h)"
  shows "\<exists>acc t d'. unloadEventHandler (sch (exec (SendDelayUnloadEventLocked e a d) s)) =
       Some (Some (snd (ffrt_named.post_once acc t (unload_name a) d' h))) \<and>
     (eval_st (SendDelayUnloadEventLocked e a d) s = ERR_OK \<longleftrightarrow> fst (ffrt_named.post_once acc t (unload_name a) d' h))"
proof -
  have "get_queue UnloadHandler u = Some h" if "sch u = sch s" for u using q that by (simp add: get_queue_def)
  then show ?thesis
    using q by (intro exI [of _ "e_accept e (asks s)"] exI [of _ "UnloadEventTask (to_uint32 a)"] exI [of _ "to_uint64 d"])
      (auto simp: SendDelayUnloadEventLocked_def UEH_HasInnerEvent_def UEH_SendEvent_def unload_handler_present_def
        has_inner_event_def post_named_def run_simps getS_def ffrt_named.post_once_def unload_name_def put_queue_def)
qed

text \<open>
  Posting the delayed unload of an ability keeps at most one delayed unload per ability, and when it is
  accepted the ability has one.
\<close>
theorem delayed_unload_single:
  assumes "single_unloads s"
  shows "let m = SendDelayUnloadEventLocked e a d; s' = exec m s
    in single_unloads s' \<and>
      (eval_st m s = ERR_OK \<longrightarrow> (\<forall>h'. unloadEventHandler (sch s') = Some (Some h') \<longrightarrow> HasInnerEvent (unload_name a) h'))"
proof -
  obtain h where h: "unloadEventHandler (sch s) = Some (Some h)" "ffrt_ok h" "\<forall>n. length (handles n h) \<le> 1"
    using assms by (auto simp: single_unloads_def)
  obtain acc t d' where run: "unloadEventHandler (sch (exec (SendDelayUnloadEventLocked e a d) s)) =
       Some (Some (snd (ffrt_named.post_once acc t (unload_name a) d' h)))"
     "eval_st (SendDelayUnloadEventLocked e a d) s = ERR_OK \<longleftrightarrow> fst (ffrt_named.post_once acc t (unload_name a) d' h)"
    using SendDelay_run [OF h(1)] by blast
  have "ffrt_ok (snd (ffrt_named.post_once acc t (unload_name a) d' h))"
    using h(2) by (simp add: ffrt_named.post_once_def ffrt_ok_PostNamedTask)
  then show ?thesis
    using run ffrt_named.post_once_at_most_one [OF h(2,3)] ffrt_named.post_once_known [OF h(2)]
    by (simp add: Let_def single_unloads_def)
qed

theorem delayed_unload_single_witness:
  "single_unloads (exec (SendDelayUnloadEventLocked sample_env 401 20000) booted)"
proof -
  have "unloadEventHandler (sch booted) = Some (Some (FFRTHandler QOS_DEFAULT))" by code_simp
  then have "single_unloads booted"
    by (auto simp: single_unloads_def ffrt_ok_new) (simp add: FFRTHandler_def handles_def sm_get_def)
  then show ?thesis using delayed_unload_single [of booted sample_env 401 20000] by (simp add: Let_def)
qed

text \<open>
  The name of a delayed unload identifies the ability: distinct 32-bit identifiers, negative ones
  included, have distinct names, and the task posted for an ability unloads that ability.
\<close>
theorem unload_event_identifies_ability:
  assumes "is_int32 a" "is_int32 b"
  shows "(unload_name a = unload_name b \<longleftrightarrow> a = b) \<and> to_int32 (to_uint32 a) = a \<and>
    exec (UEH_ProcessEvent e (to_uint32 a)) s = exec (do {
      present \<leftarrow> unload_handler_present; onlyif present (del_task UnloadHandler (unload_name a));
      _ \<leftarrow> ProcessDelayUnloadEvent e a; ret () }) s"
proof -
  have a: "to_int32 (to_uint32 a) = a" and b: "to_int32 (to_uint32 b) = b" using assms by (simp_all add: to_int32_id)
  then have "to_uint32 a = to_uint32 b \<longleftrightarrow> a = b" by metis
  with a show ?thesis by (simp add: unload_name_def UEH_ProcessEvent_def)
qed

theorem unload_event_identifies_ability_witness: "unload_name 401 \<noteq> unload_name (-401) \<and> to_int32 (to_uint32 (-401)) = -401"
  using unload_event_identifies_ability [of 401 "-401"] unload_event_identifies_ability [of "-401" 401] by (simp add: is_int32_def)

end
