(* ===== verification/Event_Props.thy ===== *)
theory Event_Props
  imports Samples Lifecycle Scheduler_Frames
begin

text \<open>
  Properties of the events and requests of the scheduler: what a report about an ability does, how an
  unload request is treated state by state, what the answer of a peer decides, the adaptive delay, and
  the process subscriptions.
\<close>

section \<open>Reports about an ability\<close>

text \<open>The state an event takes an ability to, or nothing if the event is refused.\<close>
fun event_target :: "AbilityStateEvent \<Rightarrow> SystemAbilityState \<Rightarrow> SystemAbilityState option" where
  "event_target ABILITY_LOAD_SUCCESS_EVENT NOT_LOADED = Some LOADED"
| "event_target ABILITY_LOAD_SUCCESS_EVENT LOADING = Some LOADED"
| "event_target ABILITY_LOAD_FAILED_EVENT LOADING = Some NOT_LOADED"
| "event_target ABILITY_UNLOAD_SUCCESS_EVENT NOT_LOADED = None"
| "event_target ABILITY_UNLOAD_SUCCESS_EVENT _ = Some NOT_LOADED"
| "event_target _ _ = None"

lemma clear_pending_moves:
  fixes x :: bool
  assumes SI: "SI s" and a: "client_ability a s" and st: "sa_state (actx a (sch s)) = LOADING"
  defines "s1 \<equiv> exec (onlyif x (modA a (\<lambda>A. A \<lparr> pendingEvent := NO_EVENT \<rparr>))) s"
  shows "eval_st (ability_transition e a NOT_LOADED) s1 = ERR_OK" "moved a NOT_LOADED s (exec (ability_transition e a NOT_LOADED) s1)"
proof -
  have "core s1 = core s" unfolding s1_def by (intro framesD frame_intros frame_core)
  then have m: "moved a LOADING s s1" using st by (rule moved_core)
  have "SI s1" unfolding s1_def by (rule preservesD [where P = SI, OF _ SI]) (intro hoare_intros si_intros)
  moreover have "client_ability a s1" using a m by (rule client_ability_moved)
  moreover have "sa_state (actx a (sch s1)) = LOADING" using m by (simp add: moved_def)
  ultimately have t: "eval_st (ability_transition e a NOT_LOADED) s1 = ERR_OK"
    "moved a NOT_LOADED s1 (exec (ability_transition e a NOT_LOADED) s1)"
    by (auto intro!: client_ability_transition)
  then show "eval_st (ability_transition e a NOT_LOADED) s1 = ERR_OK" by simp
  show "moved a NOT_LOADED s (exec (ability_transition e a NOT_LOADED) s1)" using m t(2) by (rule moved_trans)
qed

lemma event_outcome:
  assumes SI: "SI s" and a: "client_ability a s"
  shows "case event_target ev (sa_state (actx a (sch s))) of
      None \<Rightarrow> eval_st (SendAbilityStateEvent e a ev) s = ERR_INVALID_VALUE \<and> exec (SendAbilityStateEvent e a ev) s = s
    | Some t \<Rightarrow> eval_st (SendAbilityStateEvent e a ev) s = ERR_OK \<and> moved a t s (exec (SendAbilityStateEvent e a ev) s)"
proof -
  have found: "eval_st (GetSystemAbilityContext a) s" "exec (GetSystemAbilityContext a) s = s"
    using a by (auto simp: GetSystemAbilityContext_def getS_def run_simps client_ability_def)
  note unfold = SendAbilityStateEvent_def HandleAbilityEventLocked_def HandleAbilityLoadFailedEventLocked_def
    HandleAbilityLoadSuccessEventLocked_def HandleAbilityUnLoadSuccessEventLocked_def run_simps getS_def found
  note direct = client_ability_transition [OF SI a, where e = e]
  note pending = clear_pending_moves [OF SI a, where x = "pendingEvent (actx a (sch s)) = UNLOAD_ABILITY_EVENT" and e = e]
  show ?thesis
  proof (cases "sa_state (actx a (sch s)) = LOADING")
    case True
    then show ?thesis using direct [where t = LOADED] pending by (cases ev) (simp_all add: unfold)
  next
    case False
    then show ?thesis
      using direct [where t = LOADED] direct [where t = NOT_LOADED]
      by (cases ev; cases "sa_state (actx a (sch s))") (simp_all add: unfold)
  qed
qed

lemma reachable_client:
  assumes "profiles_ok prs" and "reachable prs s"
    and "sm_find a (abilityContextMap (sch s)) = Some A" and "ownProcessContext A \<noteq> Some SAMGR_PROCESS_NAME"
  shows "SI s" "client_ability a s" "actx a (sch s) = A"
proof -
  show SI: "SI s" using assms SI_reachable by blast
  show "client_ability a s"
    by (rule SI_lookup [OF SI assms(3)]) (use assms(3,4) in \<open>auto simp: client_ability_def\<close>)
  show "actx a (sch s) = A" using assms(3) by (simp add: actx_def sm_get_def)
qed

text \<open>
  C30. What a report about an ability of a client process does, in every reachable state: \<open>event_target\<close> says which reports are accepted in which state
  and where they lead. An accepted report moves exactly the reported ability to that state; a
  refused one returns \<^verbatim>\<open>ERR_INVALID_VALUE\<close> and changes nothing.
\<close>
theorem ability_event_outcome:
  assumes "profiles_ok prs" and "reachable prs s"
    and "sm_find a (abilityContextMap (sch s)) = Some A" and "ownProcessContext A \<noteq> Some SAMGR_PROCESS_NAME"
  shows "case event_target ev (sa_state A) of
      None \<Rightarrow> eval_st (SendAbilityStateEvent e a ev) s = ERR_INVALID_VALUE \<and> exec (SendAbilityStateEvent e a ev) s = s
    | Some t \<Rightarrow> eval_st (SendAbilityStateEvent e a ev) s = ERR_OK \<and>
        (\<forall>b. sa_state (actx b (sch (exec (SendAbilityStateEvent e a ev) s))) = (if b = a then t else sa_state (actx b (sch s))))"
  using event_outcome [OF reachable_client(1,2) [OF assms], where ev = ev and e = e] reachable_client(3) [OF assms]
  by (auto simp: moved_def split: option.splits)

theorem ability_event_outcome_witness:
  "sa_state (actx 401 (sch (exec (SendAbilityStateEvent sample_env 401 ABILITY_UNLOAD_SUCCESS_EVENT) loaded))) = NOT_LOADED \<and>
   eval_st (SendAbilityStateEvent sample_env 401 ABILITY_LOAD_FAILED_EVENT) loaded = ERR_INVALID_VALUE"
proof -
  have own: "ownProcessContext (actx 401 (sch loaded)) \<noteq> Some SAMGR_PROCESS_NAME" using loaded_facts by simp
  note at = ability_event_outcome [OF sample_profiles_ok loaded_reachable actx_find [OF loaded_facts(7)] own, where e = sample_env]
  show ?thesis
    using at [where ev = ABILITY_UNLOAD_SUCCESS_EVENT] at [where ev = ABILITY_LOAD_FAILED_EVENT] loaded_facts by simp
qed

section \<open>Unload requests\<close>

text \<open>
  An unload request for an ability that is still loading is postponed: it is accepted and remembered as the
  pending event of the ability; no peer is called and no state changes.
\<close>
theorem unload_while_loading_pends:
  assumes "sm_find a (abilityContextMap (sch s)) = Some A" and "sa_state A = LOADING"
  shows "let m = HandleUnloadAbilityEventLocked e a (Some req); s' = exec m s
    in eval_st m s = ERR_OK \<and> effects s' = effects s \<and> mgr s' = mgr s \<and> core s' = core s
     \<and> pendingEvent (actx a (sch s')) = UNLOAD_ABILITY_EVENT \<and> pendingUnloadEvent (actx a (sch s')) = Some req
     \<and> unloadRequest (actx a (sch s')) = Some req"
proof -
  let ?p = "do { modA a (\<lambda>A. A \<lparr> unloadRequest := Some req \<rparr>); PendUnloadEventLocked a req }"
  have run: "exec (HandleUnloadAbilityEventLocked e a (Some req)) s = exec ?p s"
    "eval_st (HandleUnloadAbilityEventLocked e a (Some req)) s = ERR_OK"
    using assms by (simp_all add: HandleUnloadAbilityEventLocked_def PendUnloadEventLocked_def run_simps getS_def modA_def modS_def
        actx_def sm_get_def)
  have "core (exec ?p s) = core s" by (intro framesD frame_intros frame_core)
  then show ?thesis
    unfolding Let_def run using assms
    by (simp add: PendUnloadEventLocked_def run_simps modA_def modS_def actx_def sm_get_def)
qed

definition unload_request :: UnloadRequestInfo where
  "unload_request = \<lparr> unloadEvent = mk_event INTERFACE_CALL ''unload'' [], ur_systemAbilityId = 401, ur_callingPid = 42 \<rparr>"

definition loading :: samgr where
  "loading = exec (modA 401 (\<lambda>A. A \<lparr> sa_state := LOADING \<rparr>)) booted"

theorem unload_while_loading_pends_witness:
  "pendingUnloadEvent (actx 401 (sch (exec (HandleUnloadAbilityEventLocked sample_env 401 (Some unload_request)) loading))) = Some unload_request"
proof -
  have "sm_count 401 (abilityContextMap (sch loading)) \<and> sa_state (actx 401 (sch loading)) = LOADING" by code_simp
  then show ?thesis
    using unload_while_loading_pends [OF actx_find, of 401 loading sample_env unload_request] by (simp add: Let_def)
qed

lemma IdleSystemAbility_answer:
  assumes "\<forall>n. e_idleAbility e n = x"
  shows "eval_st (IdleSystemAbility e a p r d) s \<in> {(False, d), x}"
  using assms by (auto simp: IdleSystemAbility_def run_simps emit_def split: option.splits)

text \<open>
  A peer decides whether its ability may be unloaded: when it refuses, or asks for a delay, or asks not to be
  unloaded (a negative delay), the expiry of the unload delay changes the state of no ability and no process.
\<close>
theorem idle_answer_keeps_loaded:
  assumes "\<forall>n. e_idleAbility e n = (r, d)" and "\<not> (r \<and> d = 0)"
  shows "core (exec (ProcessDelayUnloadEventLocked e a) s) = core s"
proof -
  have post: "core (exec (SendDelayUnloadEventLocked e a t) u) = core u" for t u by (intro framesD frame_core)
  show ?thesis
  proof (cases "unloadRequest (actx a (sch s))")
    case None
    then show ?thesis
      by (simp add: ProcessDelayUnloadEventLocked_def GetSystemAbilityContext_def run_simps getS_def split: option.splits)
  next
    case (Some req)
    define m where "m = IdleSystemAbility e a (processName (pctx (own a (sch s)) (sch s))) (event_reason (unloadEvent req)) 0"
    have "eval_st m s = (False, 0) \<or> eval_st m s = (r, d)"
      using IdleSystemAbility_answer [OF assms(1)] unfolding m_def by blast
    then have x: "\<not> (fst (eval_st m s) \<and> snd (eval_st m s) = 0)" using assms(2) by auto
    have "core (exec m s) = core s" unfolding m_def by (intro framesD frame_core)
    then show ?thesis
      using x post Some
      by (auto simp: ProcessDelayUnloadEventLocked_def GetSystemAbilityContext_def run_simps getS_def m_def [symmetric]
          split_beta split: option.splits)
  qed
qed

definition busy_env :: env where
  "busy_env = sample_env \<lparr> e_idleAbility := \<lambda>_. (True, 5000) \<rparr>"

theorem idle_answer_keeps_loaded_witness:
  "core (exec (ProcessDelayUnloadEventLocked busy_env 401) loaded) = core loaded"
  using idle_answer_keeps_loaded [of busy_env True 5000 401 loaded] by (simp add: busy_env_def)

section \<open>Requests that stay pending\<close>

text \<open>What a transition to \<^verbatim>\<open>NOT_LOADED\<close> is made of.\<close>
lemma frames_not_loaded_transition:
  assumes prims: "\<And>c x. frames g (modA c (\<lambda>A. A \<lparr> pendingEvent := x \<rparr>))" "\<And>c x. frames g (modA c (\<lambda>A. A \<lparr> sa_state := x \<rparr>))"
    "\<And>p f. frames g (modP p f)" "\<And>q f. frames g (on_queue q False f)" "\<And>q f. frames g (on_queue q () f)" "\<And>f. frames g (ask (f :: nat \<Rightarrow> bool))"
  shows "frames g (ability_transition e a NOT_LOADED)"
proof -
  have queue_ops: "frames g (UEH_HasInnerEvent i)" "frames g (UEH_RemoveEvent i)" "frames g (post e ProcessHandler t)" for i t
    unfolding UEH_HasInnerEvent_def UEH_RemoveEvent_def unload_handler_present_def has_inner_event_def remove_task_def post_def
    by (intro frame_intros prims)+
  have "frames g (OnAbilityNotLoadedLocked e a)"
    unfolding OnAbilityNotLoadedLocked_def GetSystemAbilityContext_def RemoveDelayUnloadEventLocked_def
      RemovePendingUnloadEventLocked_def PostTryKillProcessTask_def PostTryUnloadAllAbilityTask_def
    by (intro frame_intros prims queue_ops)
  moreover obtain h where h: "abilityStateHandlerMap e (Some (listener e)) NOT_LOADED = Some h"
    by (rule ability_handler_total)
  then have "sa_OnEnter h a = OnAbilityNotLoadedLocked e a"
    by (auto simp: abilityStateHandlerMap_def NotLoadedStateHandler_def tell_def listener_def listener0_def)
  ultimately have enter: "frames g (sa_OnEnter h a)" by simp
  have "frames g (UpdateStateCount p u t)" for p u t
    unfolding UpdateStateCount_def by (intro frame_intros prims)
  then show ?thesis
    unfolding AbilityStateTransitionLocked_def by (simp add: h) (intro frame_intros prims enter; assumption?)
qed

lemma not_loaded_report_frames:
  "frames effects (ability_transition e a NOT_LOADED)"
  "frames (\<lambda>s. pendingLoadEventList (actx b (sch s))) (ability_transition e a NOT_LOADED)"
proof -
  have eff: "effects (put_queue q h s) = effects s" for q h s by (cases q) (simp_all add: put_queue_def)
  have lists: "pendingLoadEventList (actx b (sch (put_queue q h s))) = pendingLoadEventList (actx b (sch s))" for q h s
    by (cases q) (simp_all add: put_queue_def actx_def)
  show "frames effects (ability_transition e a NOT_LOADED)"
    by (rule frames_not_loaded_transition; (unfold modA_def modP_def)?; (rule frames_modS frames_on_queue frames_ask); simp add: eff)
  show "frames (\<lambda>s. pendingLoadEventList (actx b (sch s))) (ability_transition e a NOT_LOADED)"
    by (rule frames_not_loaded_transition; (unfold modA_def modP_def)?; (rule frames_modS frames_on_queue frames_ask);
        simp add: lists actx_upd) (simp_all add: actx_def)
qed

text \<open>
  An ability that is unloaded while its process goes on running becomes \<^verbatim>\<open>NOT_LOADED\<close>, and the load requests that
  were postponed because it was unloading stay in its list: the report starts nothing and answers
  nobody. Only a stop of the process replays them.
\<close>
theorem unloaded_report_keeps_pending_loads:
  assumes "profiles_ok prs" and "reachable prs s"
    and "sm_find a (abilityContextMap (sch s)) = Some A" and "ownProcessContext A \<noteq> Some SAMGR_PROCESS_NAME"
    and "sa_state A = UNLOADING"
  shows "let s' = exec (SendAbilityStateEvent e a ABILITY_UNLOAD_SUCCESS_EVENT) s
    in sa_state (actx a (sch s')) = NOT_LOADED \<and> effects s' = effects s
     \<and> pendingLoadEventList (actx a (sch s')) = pendingLoadEventList A"
proof -
  note facts = reachable_client [OF assms(1-4)]
  have found: "eval_st (GetSystemAbilityContext a) s" "exec (GetSystemAbilityContext a) s = s"
    using facts(2) by (auto simp: GetSystemAbilityContext_def getS_def run_simps client_ability_def)
  have "exec (SendAbilityStateEvent e a ABILITY_UNLOAD_SUCCESS_EVENT) s = exec (ability_transition e a NOT_LOADED) s"
    using assms(5) facts(3)
    by (simp add: SendAbilityStateEvent_def HandleAbilityEventLocked_def HandleAbilityUnLoadSuccessEventLocked_def run_simps getS_def found)
  moreover have "moved a NOT_LOADED s (exec (ability_transition e a NOT_LOADED) s)"
    using facts assms(5) by (intro client_ability_transition) simp_all
  ultimately show ?thesis
    using framesD [OF not_loaded_report_frames(1)] framesD [OF not_loaded_report_frames(2), of a] facts(3)
    by (simp add: Let_def moved_def)
qed

definition foundation_env :: env where
  "foundation_env = sample_env \<lparr> e_tokenInfo := (0, ''foo'') \<rparr>"

text \<open>Ability 401 unloads on its own while its process runs on, and a client asks for it meanwhile.\<close>
definition unloading :: samgr where
  "unloading = exec (LoadSystemAbility sample_env 401 (Some (Iface 5 (Some 50)))) (exec (UnloadSystemAbility foundation_env 401) loaded)"

lemma unloading_reachable: "reachable sample_profiles unloading"
proof -
  have "reachable sample_profiles (exec (run_request sample_env (ReqLoadSystemAbility 401 (Some (Iface 5 (Some 50)))))
      (exec (run_request foundation_env (ReqUnloadSystemAbility 401)) loaded))"
    by (intro reachable.step [OF _ step.request] loaded_reachable)
  then show ?thesis by (simp add: run_request_def unloading_def run_simps)
qed

definition unload_probe :: "scheduler \<Rightarrow> bool" where
  "unload_probe c \<longleftrightarrow> sm_count 401 (abilityContextMap c) \<and> ownProcessContext (actx 401 c) \<noteq> Some SAMGR_PROCESS_NAME
     \<and> sa_state (actx 401 c) = UNLOADING \<and> length (pendingLoadEventList (actx 401 c)) = 1"

theorem unloaded_report_keeps_pending_loads_witness:
  "length (pendingLoadEventList (actx 401 (sch (exec (SendAbilityStateEvent sample_env 401 ABILITY_UNLOAD_SUCCESS_EVENT) unloading)))) = 1"
proof -
  have "unload_probe (sch unloading)" by code_simp
  then show ?thesis
    unfolding unload_probe_def
    using unloaded_report_keeps_pending_loads [OF sample_profiles_ok unloading_reachable actx_find, of 401 sample_env]
    by (simp add: Let_def)
qed

section \<open>The adaptive unload delay\<close>

text \<open>
  The unload delay adapts: when an ability registers again within ten minutes of its last registration,
  its delay grows by ten seconds up to five minutes; otherwise it keeps its delay. In reachable
  states the 32-bit addition does not overflow.
\<close>
theorem unload_delay_adapts:
  assumes "profiles_ok prs" and "reachable prs s"
    and "sm_find a (abilityContextMap (sch s)) = Some A" and "\<forall>n. e_tick e n = now"
  shows "delayUnloadTime (actx a (sch (exec (UpdateLimitDelayUnloadTimeTask e a) s))) =
      (if lastStartTime A \<noteq> 0 \<and> now - lastStartTime A \<le> 600000 then min (delayUnloadTime A + 10000) 300000 else delayUnloadTime A)
    \<and> lastStartTime (actx a (sch (exec (UpdateLimitDelayUnloadTimeTask e a) s))) = now"
proof -
  have SI: "SI s" using assms SI_reachable by blast
  then have bounds: "0 \<le> delayUnloadTime A" "delayUnloadTime A \<le> 300000"
    using assms(3) by (auto simp: sched_inv_def bounds_ok_def ability_bounds_def MAX_DELAY_TIME_def)
  then have "to_int32 (delayUnloadTime A + 10000) = delayUnloadTime A + 10000"
    by (intro to_int32_id) (simp add: is_int32_def)
  then have lim: "LimitDelayUnloadTime (to_int32 (delayUnloadTime A + ONCE_DELAY_TIME)) = min (delayUnloadTime A + 10000) 300000"
    using bounds by (simp add: LimitDelayUnloadTime_def ONCE_DELAY_TIME_def MAX_DELAY_TIME_def)
  obtain p where own: "ownProcessContext A = Some p" by (rule SI_lookup [OF SI assms(3)])
  show ?thesis
    using assms(3,4) own lim
    by (auto simp: UpdateLimitDelayUnloadTimeTask_def GetSystemAbilityContext_def run_simps getS_def modA_def modS_def
        GetTickCount_def actx_def sm_get_def MAX_DURATION_def)
qed

definition noon_env :: env where
  "noon_env = sample_env \<lparr> e_tick := \<lambda>_. 5000 \<rparr>"

theorem unload_delay_adapts_witness:
  "lastStartTime (actx 401 (sch (exec (UpdateLimitDelayUnloadTimeTask noon_env 401) loaded))) = 5000"
  using unload_delay_adapts [OF sample_profiles_ok loaded_reachable actx_find [OF loaded_facts(7)], of noon_env 5000]
  by (simp add: noon_env_def)

section \<open>Process subscriptions\<close>

lemma remove1_snoc: "x \<notin> set xs \<Longrightarrow> remove1 x (xs @ [x]) = xs"
  by (simp add: remove1_append)

lemma find_snoc: "\<not> list_ex P xs \<Longrightarrow> P x \<Longrightarrow> find P (xs @ [x]) = Some x"
  by (induction xs) auto

text \<open>
  Round trip of process subscriptions: subscribing a listener whose object is not subscribed yet, and then
  unsubscribing any listener of the same object in the same mode, restores the listener list.
\<close>
theorem process_subscription_roundtrip:
  assumes "AsObject l = Some x" and "AsObject l' = Some x" and "\<not> list_ex (same_object l) (processListeners (sch s))"
  shows "let s1 = exec (sch_SubscribeSystemProcess (Some l) fg) s; s2 = exec (sch_UnSubscribeSystemProcess (Some l') fg) s1
    in list_ex (same_object l) (processListeners (sch s1)) \<and> processListeners (sch s2) = processListeners (sch s)"
proof -
  let ?i = "\<lparr> pl_listener = l, hasDirectSubscription = \<not> fg, hasForegroundSubscription = fg \<rparr>"
  have death: "sch (exec (add_death ob r) u) = sch u" "sch (exec (remove_death ob r) u) = sch u" for ob r u
    by (intro framesD frame_sch)+
  have add: "processListeners (sch (exec (sch_SubscribeSystemProcess (Some l) fg) s)) = processListeners (sch s) @ [?i]"
    using assms by (simp add: sch_SubscribeSystemProcess_def run_simps getS_def modS_def death)
  have same: "same_object l' = same_object l" using assms by (auto simp: same_object_def fun_eq_iff)
  have i: "same_object l ?i" by (simp add: same_object_def)
  have "?i \<notin> set (processListeners (sch s))" using assms(3) i by (auto simp: list_ex_iff)
  moreover have "find (same_object l') (processListeners (sch s) @ [?i]) = Some ?i"
    unfolding same using assms(3) i by (rule find_snoc)
  ultimately show ?thesis
    using assms(2) i add
    by (cases fg) (simp_all add: Let_def sch_UnSubscribeSystemProcess_def [of "Some l'"] run_simps getS_def modS_def death remove1_snoc)
qed

theorem process_subscription_roundtrip_witness:
  "processListeners (sch (exec (sch_UnSubscribeSystemProcess (Some (Iface 4 (Some 70))) False)
     (exec (sch_SubscribeSystemProcess (Some (Iface 3 (Some 70))) False) booted))) = processListeners (sch booted)"
proof -
  have "processListeners (sch booted) = []" by code_simp
  then show ?thesis using process_subscription_roundtrip [of "Iface 3 (Some 70)" 70 "Iface 4 (Some 70)" booted False] by (simp add: Let_def)
qed

text \<open>Every caller's number of process subscriptions is within the limit.\<close>
definition subscriptions_ok :: "scheduler \<Rightarrow> bool" where
  "subscriptions_ok c \<longleftrightarrow> (\<forall>q n. sm_find q (subscribeProcCountMap c) = Some n \<longrightarrow> n \<le> 256)"

lemma subscribe_loop_ok: "preserves (\<lambda>s. subscriptions_ok (sch s)) (subscribe_loop e l ps)"
proof (induction ps)
  case (Cons p ps)
  have death: "preserves (\<lambda>s. subscriptions_ok (sch s)) (add_death ob r)" for ob r
    by (rule frames_preserves) (rule frame_sch)
  have set: "preserves (\<lambda>s. subscriptions_ok (sch s)) (modS (\<lambda>c. c \<lparr> subscribeProcCountMap := sm_ins q n (subscribeProcCountMap c) \<rparr>))"
    if "n \<le> 256" for q n
    using that by (auto simp: hoare_def modS_def run_simps subscriptions_ok_def)
  have others: "preserves (\<lambda>s. subscriptions_ok (sch s)) (modS (\<lambda>c. c \<lparr> procListenerMap := f c \<rparr>))"
    "preserves (\<lambda>s. subscriptions_ok (sch s)) (modS (\<lambda>c. c \<lparr> subscribeProcCountMap := sm_touch 0 q (subscribeProcCountMap c) \<rparr>))" for f q
    by (auto simp: hoare_def modS_def run_simps subscriptions_ok_def sm_get_def split: option.splits)
  have get: "preserves (\<lambda>s. subscriptions_ok (sch s)) (getS f)" for f
    by (simp add: getS_def preserves_gets)
  show ?case
    by (simp add: GetSystemProcessContext_def)
      (intro hoare_intros get others death Cons set; simp add: MAX_SUBSCRIBE_COUNT_def)
qed (simp add: preserves_return)

text \<open>
  The limit on process subscriptions: subscribing to a list of processes never takes a caller above 256
  subscriptions.
\<close>
theorem process_subscription_limit:
  assumes "subscriptions_ok (sch s)"
  shows "subscriptions_ok (sch (exec (SubscribeSystemProcessList e ps l) s))"
  using preservesD [OF subscribe_loop_ok] assms by (auto simp: SubscribeSystemProcessList_def run_simps split: option.splits)

theorem process_subscription_limit_witness:
  "subscriptions_ok (sch (exec (SubscribeSystemProcessList sample_env [foo] (Some (Iface 3 (Some 70)))) booted))"
proof -
  have "subscribeProcCountMap (sch booted) = []" by code_simp
  then show ?thesis by (intro process_subscription_limit) (simp add: subscriptions_ok_def)
qed

end
