(* ===== verification/Manager_Services.thy ===== *)
theory Manager_Services
  imports Manager_Frames System
begin

text \<open>
  The interface between the scheduler and the manager, seen from the tables of the manager. Of the
  services the scheduler calls, four change these tables: starting a load, starting an on-demand
  ability, forgetting the on-demand abilities of a process that died, and removing a dead ability. A
  property of the tables that these four keep is kept by every operation of the scheduler; the locale proves it once, whatever the property.
\<close>

named_theorems services \<open>operations of the scheduler that keep a property of the manager's tables\<close>

lemma tables_reads [frame_tables]:
  "frames (\<lambda>s. tables (mgr s)) (GetSystemProcessContext p)" "frames (\<lambda>s. tables (mgr s)) (IsSystemAbilityUnloading a)"
  "frames (\<lambda>s. tables (mgr s)) (mgr_CheckSaIsImmediatelyRecycle a)" "frames (\<lambda>s. tables (mgr s)) mgr_RemoveWhiteCommonEvent"
  "frames (\<lambda>s. tables (mgr s)) (ServiceControlWithExtra e n x y)" "frames (\<lambda>s. tables (mgr s)) (IsSystemProcessNeverStartedLocked p)"
  unfolding GetSystemProcessContext_def IsSystemAbilityUnloading_def GetSystemAbilityContext_def mgr_CheckSaIsImmediatelyRecycle_def
    mgr_RemoveWhiteCommonEvent_def ServiceControlWithExtra_def IsSystemProcessNeverStartedLocked_def GetSaProfile_def
  by (intro frame_intros frame_tables)+

lemma tables_delays [frame_tables]:
  "frames (\<lambda>s. tables (mgr s)) (SendDelayUnloadEventLocked e a d)" "frames (\<lambda>s. tables (mgr s)) (PendUnloadEventLocked a r)"
  "frames (\<lambda>s. tables (mgr s)) (PostUnloadTimeoutTask e p)" "frames (\<lambda>s. tables (mgr s)) (RemoveUnloadTimeoutTask e p)"
  "frames (\<lambda>s. tables (mgr s)) (NotifyProcessStarted e p)" "frames (\<lambda>s. tables (mgr s)) (NotifyProcessStopped e p)"
  unfolding SendDelayUnloadEventLocked_def PendUnloadEventLocked_def UEH_SendEvent_def UEH_RemoveEvent_def UEH_HasInnerEvent_def
    PostUnloadTimeoutTask_def RemoveUnloadTimeoutTask_def NotifyProcessStarted_def NotifyProcessStopped_def
  by (intro frame_intros frame_tables)+

lemma tables_pend [frame_tables]: "frames (\<lambda>s. tables (mgr s)) (PendLoadEventLocked e a req)"
  unfolding PendLoadEventLocked_def HandlePendingLoadOverflow_def Let_def by (intro frame_intros frame_tables)

lemma tables_active [frame_tables]: "frames (\<lambda>s. tables (mgr s)) (ActiveSystemAbilityLocked e a r)"
  unfolding ActiveSystemAbilityLocked_def by (intro frame_intros frame_tables)

lemma tables_unload_requests [frame_tables]:
  "frames (\<lambda>s. tables (mgr s)) (ProcessDelayUnloadEvent e a)" "frames (\<lambda>s. tables (mgr s)) (UEH_ProcessEvent e i)"
  "frames (\<lambda>s. tables (mgr s)) (HandleUnloadAbilityEventLocked e a r)" "frames (\<lambda>s. tables (mgr s)) (HandleUnloadAbilityEvent e r)"
  "frames (\<lambda>s. tables (mgr s)) (HandlePendingUnloadEventLocked e a)" "frames (\<lambda>s. tables (mgr s)) (HandleCancelUnloadAbilityEvent e a)"
  unfolding ProcessDelayUnloadEvent_def UEH_ProcessEvent_def HandleUnloadAbilityEvent_def HandlePendingUnloadEventLocked_def
    HandleCancelUnloadAbilityEvent_def HandleUnloadAbilityEventLocked_def ProcessDelayUnloadEventLocked_def
  by (intro frame_intros frame_tables)+

lemma tables_process_checks [frame_tables]:
  "frames (\<lambda>s. tables (mgr s)) (CheckSaIsImmediatelyRecycle p)" "frames (\<lambda>s. tables (mgr s)) (CanKillSystemProcessLocked p)"
  "frames (\<lambda>s. tables (mgr s)) (KillSystemProcessLocked e p)" "frames (\<lambda>s. tables (mgr s)) (CanRestartProcessLocked e p)"
  "frames (\<lambda>s. tables (mgr s)) (GetAbnormallyDiedAbilityLocked e p)"
  "frames (\<lambda>s. tables (mgr s)) (RemoveRunningProcessLocked e p)" "frames (\<lambda>s. tables (mgr s)) (AddRunningProcessLocked e p)"
  unfolding CheckSaIsImmediatelyRecycle_def CanKillSystemProcessLocked_def KillSystemProcessLocked_def sch_ServiceControl_def
    CanRestartProcessLocked_def GetAbnormallyDiedAbilityLocked_def RemoveRunningProcessLocked_def AddRunningProcessLocked_def Let_def
  by (intro frame_intros frame_tables)+

lemma tables_can_unload [frame_tables]: "frames (\<lambda>s. tables (mgr s)) (CanUnloadAllSystemAbilityLocked p b)"
  unfolding CanUnloadAllSystemAbilityLocked_def Let_def by (intro frame_intros frame_tables)

lemma tables_subscribe_loop [frame_tables]: "frames (\<lambda>s. tables (mgr s)) (subscribe_loop e l ps)"
  by (induction ps) (auto intro!: frame_intros frame_tables)

lemma tables_subscriptions [frame_tables]:
  "frames (\<lambda>s. tables (mgr s)) (sch_SubscribeSystemProcess l b)" "frames (\<lambda>s. tables (mgr s)) (sch_UnSubscribeSystemProcess l b)"
  "frames (\<lambda>s. tables (mgr s)) (sch_UnSubscribeSystemProcessDied ob)"
  "frames (\<lambda>s. tables (mgr s)) (sch_SubscribeLowMemSystemProcess e l)" "frames (\<lambda>s. tables (mgr s)) (sch_UnSubscribeLowMemSystemProcess e l)"
  unfolding sch_SubscribeSystemProcess_def sch_UnSubscribeSystemProcess_def sch_UnSubscribeSystemProcessDied_def
    sch_SubscribeLowMemSystemProcess_def sch_UnSubscribeLowMemSystemProcess_def SubscribeSystemProcessList_def
    UnSubscribeSystemProcessList_def UnSubscribeSystemProcessListLocked_def Let_def
  by (intro frame_intros frame_tables)+

lemma tables_queries [frame_tables]:
  "frames (\<lambda>s. tables (mgr s)) (GetIdleProcessInfo e a)" "frames (\<lambda>s. tables (mgr s)) (IsSystemProcessCanUnload p)"
  "frames (\<lambda>s. tables (mgr s)) (UpdateLimitDelayUnloadTimeTask e a)" "frames (\<lambda>s. tables (mgr s)) (HandleAbilityDiedEvent a)"
  "frames (\<lambda>s. tables (mgr s)) sch_CleanFfrt" "frames (\<lambda>s. tables (mgr s)) sch_SetFfrt"
  unfolding GetIdleProcessInfo_def IsSystemProcessCanUnload_def UpdateLimitDelayUnloadTimeTask_def HandleAbilityDiedEvent_def
    sch_CleanFfrt_def sch_SetFfrt_def
  by (intro frame_intros frame_tables)+

section \<open>Properties of the tables that the four services keep\<close>

locale manager_services =
  fixes K :: "sa_manager \<Rightarrow> bool"
  assumes queues: "\<And>m x. K (m \<lparr> workHandler := x \<rparr>) = K m" "\<And>m x. K (m \<lparr> deathHandler := x \<rparr>) = K m"
    and counters: "\<And>m x. K (m \<lparr> saFrequencyMap := x \<rparr>) = K m"
    and start_load: "\<And>e a p req. preserves (\<lambda>s. K (mgr s)) (request_load e a p req)"
    and start_on_demand: "\<And>e a. preserves (\<lambda>s. K (mgr s)) (DoLoadOnDemandAbility e a)"
    and forget: "\<And>sas. preserves (\<lambda>s. K (mgr s)) (RemoveOnDemandSaInDiedProc sas)"
    and remove_died: "\<And>e a. preserves (\<lambda>s. K (mgr s)) (RemoveDiedSystemAbility e a)"
begin

lemma K_tables: "K (tables m) = K m"
  by (simp add: tables_def queues counters)

lemma kept_by_frame: "frames (\<lambda>s. tables (mgr s)) m \<Longrightarrow> preserves (\<lambda>s. K (mgr s)) m"
  using frames_preserves [of "\<lambda>s. tables (mgr s)" m K] by (simp add: K_tables)

lemmas table_frames [services] = frame_tables [THEN kept_by_frame] start_load start_on_demand forget remove_died

lemma reads [services]: "preserves (\<lambda>s. K (mgr s)) (getS f)" "preserves (\<lambda>s. K (mgr s)) (getM g)"
  by (simp_all add: getS_def getM_def preserves_gets)

lemma load_kept [services]: "preserves (\<lambda>s. K (mgr s)) (HandleLoadAbilityEventLocked e a req)"
  unfolding HandleLoadAbilityEventLocked_def DoLoadSystemAbilityLocked_def by (intro hoare_intros services)

lemma load_event_kept [services]:
  "preserves (\<lambda>s. K (mgr s)) (HandleLoadAbilityEvent e req)" "preserves (\<lambda>s. K (mgr s)) (HandleLoadAbilityEventCheck e a x)"
  "preserves (\<lambda>s. K (mgr s)) (HandlePendingLoadEventLocked e a)" "preserves (\<lambda>s. K (mgr s)) (HandleAbnormallyDiedAbilityLocked e p d)"
  unfolding HandleLoadAbilityEvent_def HandleLoadAbilityEventCheck_def HandlePendingLoadEventLocked_def HandleAbnormallyDiedAbilityLocked_def
  by (intro hoare_intros services)+

lemma stopped_kept [services]:
  "preserves (\<lambda>s. K (mgr s)) (OnProcessStartedLocked e p)" "preserves (\<lambda>s. K (mgr s)) (OnProcessNotStartedLocked e p)"
  unfolding OnProcessStartedLocked_def OnProcessNotStartedLocked_def by (intro hoare_intros services)+

lemma listener_kept: "process_listener_contract (Some (plistener e)) (\<lambda>s. K (mgr s))"
  by unfold_locales (auto simp: plistener_def intro!: services preserves_return)

lemmas process_kept [services] =
  listener_kept [THEN process_listener_contract.transition] listener_kept [THEN process_listener_contract.process_event]

lemma unload_all_kept [services]: "preserves (\<lambda>s. K (mgr s)) (UnloadAllSystemAbilityLocked e p)"
  unfolding UnloadAllSystemAbilityLocked_def by (intro hoare_intros services)

lemma unload_each_kept [services]: "preserves (\<lambda>s. K (mgr s)) (unload_each e ps r)"
  by (induction ps arbitrary: r) (auto intro!: hoare_intros services)

lemma tasks_kept [services]:
  "preserves (\<lambda>s. K (mgr s)) (TryUnloadAllSystemAbility e x)" "preserves (\<lambda>s. K (mgr s)) (TryKillSystemProcess e x)"
  "preserves (\<lambda>s. K (mgr s)) (UnloadTimeout e p)" "preserves (\<lambda>s. K (mgr s)) (UnloadProcess e ps)"
  "preserves (\<lambda>s. K (mgr s)) (UnloadAllIdleSystemAbility e)" "preserves (\<lambda>s. K (mgr s)) (SendProcessStateEvent e i ev)"
  unfolding TryUnloadAllSystemAbility_def TryKillSystemProcess_def UnloadTimeout_def UnloadProcess_def
    UnloadAllIdleSystemAbility_def SendProcessStateEvent_def
  by (intro hoare_intros services)+

lemma once_kept [services]:
  "preserves (\<lambda>s. K (mgr s)) (CheckStartEnableOnce e ev sc cb)" "preserves (\<lambda>s. K (mgr s)) (CheckStopEnableOnce e ev sc)"
  "preserves (\<lambda>s. K (mgr s)) (CheckEnableOnce e ev scs)"
  unfolding CheckEnableOnce_def CheckStartEnableOnce_def CheckStopEnableOnce_def
  by (intro hoare_intros services)+

end

end
