(* ===== verification/Registry.thy ===== *)
theory Registry
  imports Manager_Services
begin

text \<open>
  The two registries of the manager, \<^verbatim>\<open>abilityMap_\<close> and \<^verbatim>\<open>systemProcessMap_\<close>: an invariant of every reachable
  state, and their specification as bounded maps from identifiers to remote objects, which every
  step of the service refines.
\<close>

section \<open>The invariant\<close>

definition bounded_maps :: "(int, SAInfo) smap \<Rightarrow> (u16string, obj) smap \<Rightarrow> bool" where
  "bounded_maps m p \<longleftrightarrow> sm_ok m \<and> sm_size m \<le> 1000 \<and> (\<forall>(a, i) \<in> set m. CheckInputSysAbilityId a \<and> remoteObj i \<noteq> None)
     \<and> sm_ok p \<and> sm_size p \<le> 1000"

definition registry_ok :: "sa_manager \<Rightarrow> bool" where
  "registry_ok m \<longleftrightarrow> bounded_maps (abilityMap m) (systemProcessMap m)"

text \<open>The objects behind the entries.\<close>
definition objects :: "(int, SAInfo) smap \<Rightarrow> (int \<rightharpoonup> obj)" where
  "objects m = (\<lambda>a. case sm_find a m of None \<Rightarrow> None | Some i \<Rightarrow> remoteObj i)"

named_theorems frame_view \<open>operations that keep a part of the manager's tables\<close>

text \<open>
  A part of the tables that holds neither listeners, nor what is being started, nor queues and counters. Every operation that does not
  register or remove keeps it; the locale proves this once for every such part.
\<close>
locale manager_view =
  fixes V :: "sa_manager \<Rightarrow> 'v"
  assumes listeners: "\<And>m x. V (m \<lparr> listenerMap := x \<rparr>) = V m" "\<And>m x. V (m \<lparr> subscribeCountMap := x \<rparr>) = V m"
    and starting: "\<And>m x. V (m \<lparr> onDemandAbilityMap := x \<rparr>) = V m" "\<And>m x. V (m \<lparr> startingAbilityMap := x \<rparr>) = V m"
      "\<And>m x. V (m \<lparr> startingProcessMap := x \<rparr>) = V m" "\<And>m x. V (m \<lparr> callbackCountMap := x \<rparr>) = V m"
    and dbinder: "\<And>m x. V (m \<lparr> distributedSaList := x \<rparr>) = V m" "\<And>m x. V (m \<lparr> dBinderService := x \<rparr>) = V m"
      "\<And>m x. V (m \<lparr> rpcCallbackImp := x \<rparr>) = V m" "\<And>m x. V (m \<lparr> isDbinderServiceInit := x \<rparr>) = V m"
    and handlers: "\<And>m x. V (m \<lparr> workHandler := x \<rparr>) = V m" "\<And>m x. V (m \<lparr> deathHandler := x \<rparr>) = V m"
      "\<And>m x. V (m \<lparr> saFrequencyMap := x \<rparr>) = V m"
begin

lemma view_tables: "frames (\<lambda>s. tables (mgr s)) m \<Longrightarrow> frames (\<lambda>s. V (mgr s)) m"
  using frames_comp [of "\<lambda>s. tables (mgr s)" m V] by (simp add: tables_def handlers)

lemmas view_tables_ops [frame_view] = frame_tables [THEN view_tables]

lemma view_modM: "(\<And>m. V (f m) = V m) \<Longrightarrow> frames (\<lambda>s. V (mgr s)) (modM f)"
  by (rule frames_modM) simp

lemma view_updates [frame_view]:
  "frames (\<lambda>s. V (mgr s)) (modM (\<lambda>m. m \<lparr> listenerMap := f1 m \<rparr>))" "frames (\<lambda>s. V (mgr s)) (modM (\<lambda>m. m \<lparr> subscribeCountMap := f2 m \<rparr>))"
  "frames (\<lambda>s. V (mgr s)) (modM (\<lambda>m. m \<lparr> onDemandAbilityMap := f3 m \<rparr>))" "frames (\<lambda>s. V (mgr s)) (modM (\<lambda>m. m \<lparr> startingAbilityMap := f4 m \<rparr>))"
  "frames (\<lambda>s. V (mgr s)) (modM (\<lambda>m. m \<lparr> startingProcessMap := f5 m \<rparr>))" "frames (\<lambda>s. V (mgr s)) (modM (\<lambda>m. m \<lparr> callbackCountMap := f6 m \<rparr>))"
  "frames (\<lambda>s. V (mgr s)) (modM (\<lambda>m. m \<lparr> distributedSaList := f8 m \<rparr>))"
  "frames (\<lambda>s. V (mgr s)) (modM (\<lambda>m. m \<lparr> dBinderService := f9 m \<rparr>))" "frames (\<lambda>s. V (mgr s)) (modM (\<lambda>m. m \<lparr> rpcCallbackImp := f9 m \<rparr>))"
  "frames (\<lambda>s. V (mgr s)) (modM (\<lambda>m. m \<lparr> isDbinderServiceInit := f9 m \<rparr>))" "frames (\<lambda>s. V (mgr s)) (modM (\<lambda>m. m \<lparr> workHandler := f10 m \<rparr>))"
  "frames (\<lambda>s. V (mgr s)) (modM (\<lambda>m. m \<lparr> deathHandler := f10 m \<rparr>))"
  by (rule view_modM, simp add: listeners starting dbinder handlers)+

lemma view_items [frame_view]: "frames (\<lambda>s. V (mgr s)) (modItem a f)" "frames (\<lambda>s. V (mgr s)) (touchItem a)" "frames (\<lambda>s. V (mgr s)) (erase_item a)"
  unfolding modItem_def touchItem_def erase_item_def by (intro frame_view)+

lemma view_start_stop [frame_view]:
  "frames (\<lambda>s. V (mgr s)) (StartOnDemandAbilityInner e p a)" "frames (\<lambda>s. V (mgr s)) (WaitForProcessStopped e p a)"
  unfolding StartOnDemandAbilityInner_def WaitForProcessStopped_def by (intro frame_intros frame_view)+

lemma view_on_demand [frame_view]:
  "frames (\<lambda>s. V (mgr s)) (StartOnDemandAbilityLockedProc e p a)" "frames (\<lambda>s. V (mgr s)) (StartOnDemandAbilityProc e p a)"
  "frames (\<lambda>s. V (mgr s)) (StartDynamicSystemProcess e p a ev)"
  unfolding StartOnDemandAbilityLockedProc_def StartOnDemandAbilityProc_def StartDynamicSystemProcess_def
    base_StartDynamicSystemProcess_def multi_StartDynamicSystemProcess_def Let_def
  by (intro frame_intros frame_view)+

lemma view_start [frame_view]:
  "frames (\<lambda>s. V (mgr s)) (StartOnDemandAbilityLocked e a)" "frames (\<lambda>s. V (mgr s)) (StartOnDemandAbility e a)"
  "frames (\<lambda>s. V (mgr s)) (call_init_start e p a ev)"
  unfolding StartOnDemandAbilityLocked_def StartOnDemandAbility_def call_init_start_def by (intro frame_intros frame_view)+

lemma view_starting [frame_view]:
  "frames (\<lambda>s. V (mgr s)) (StartingSystemProcess e p a ev)" "frames (\<lambda>s. V (mgr s)) (StartingSystemProcessLocked e p a ev)"
  "frames (\<lambda>s. V (mgr s)) (DoLoadOnDemandAbility e a)"
  unfolding StartingSystemProcess_def StartingSystemProcessLocked_def DoLoadOnDemandAbility_def by (intro frame_intros frame_view)+

lemma view_load [frame_view]: "frames (\<lambda>s. V (mgr s)) (request_load e a p req)"
  unfolding request_load_def DoLoadSystemAbility_def DoLoadSystemAbilityFromRpc_def by (intro frame_intros frame_view)

lemma view_notices [frame_view]:
  "frames (\<lambda>s. V (mgr s)) (NotifySystemAbilityChanged a dev code l)" "frames (\<lambda>s. V (mgr s)) (NotifySystemAbilityAddedByAsync e a l')"
  "frames (\<lambda>s. V (mgr s)) (RefreshListenerState a)" "frames (\<lambda>s. V (mgr s)) (RegisterDistribute a b)"
  "frames (\<lambda>s. V (mgr s)) (RemoveStartingAbilityCallbackLocked c)" "frames (\<lambda>s. V (mgr s)) (NotifySystemAbilityLoadedTo a ob cb)"
  "frames (\<lambda>s. V (mgr s)) (NotifySystemAbilityLoadFail a cb k)" "frames (\<lambda>s. V (mgr s)) (InitDbinderService e b)"
  unfolding NotifySystemAbilityChanged_def NotifySystemAbilityAddedByAsync_def RefreshListenerState_def RegisterDistribute_def
    RemoveStartingAbilityCallbackLocked_def NotifySystemAbilityLoadedTo_def NotifySystemAbilityLoadFail_def InitDbinderService_def
  by (intro frame_intros frame_view)+

lemma view_listeners [frame_view]:
  "frames (\<lambda>s. V (mgr s)) (FindSystemAbilityNotify a dev code)" "frames (\<lambda>s. V (mgr s)) (CheckListenerNotify e a l)"
  "frames (\<lambda>s. V (mgr s)) (UnSubscribeSystemAbilityLocked a ob)"
  unfolding FindSystemAbilityNotify_def CheckListenerNotify_def UnSubscribeSystemAbilityLocked_def
  by (intro frame_intros frame_view)+

lemma view_subscriptions [frame_view]:
  "frames (\<lambda>s. V (mgr s)) (SubscribeSystemAbility e a l)" "frames (\<lambda>s. V (mgr s)) (UnSubscribeSystemAbility a l)"
  "frames (\<lambda>s. V (mgr s)) (UnSubscribeSystemAbilityDied ob)"
  unfolding SubscribeSystemAbility_def SubscribeSystemAbilityInner_def UnSubscribeSystemAbility_def UnSubscribeSystemAbilityDied_def
  by (intro frame_intros frame_view)+

lemma view_unsubscribe_async [frame_view]: "frames (\<lambda>s. V (mgr s)) (AsyncUnSubscribeSystemAbility e ob)"
  unfolding AsyncUnSubscribeSystemAbility_def by (intro frame_intros frame_view)

lemma view_drop_callbacks [frame_view]:
  "frames (\<lambda>s. V (mgr s)) (RemoveStartingAbilityCallback a dev x)"
  "frames (\<lambda>s. V (mgr s)) (CleanCallbackForLoadFailed e a p dev cb)" "frames (\<lambda>s. V (mgr s)) (NotifySystemAbilityLoaded a ob)"
  "frames (\<lambda>s. V (mgr s)) (OnStartSystemAbilityFail_absent e a code)" "frames (\<lambda>s. V (mgr s)) (OnStartSystemAbilityFail e a code)"
  unfolding RemoveStartingAbilityCallback_def CleanCallbackForLoadFailed_def NotifySystemAbilityLoaded_def
    OnStartSystemAbilityFail_def OnStartSystemAbilityFail_absent_def Let_def
  by (intro frame_intros frame_view)+

lemma view_callback_died [frame_view]: "frames (\<lambda>s. V (mgr s)) (OnAbilityCallbackDied ob)"
  unfolding OnAbilityCallbackDied_def RemoveStartingAbilityCallbackForDevice_def by (intro frame_intros frame_view)

lemma view_send_strategy: "frames (\<lambda>s. V (mgr s)) (send_strategy e t l ac sas)"
  by (induction sas) (auto intro!: frame_intros frame_view)

lemma view_misc [frame_view]:
  "frames (\<lambda>s. V (mgr s)) (AddOnDemandSystemAbilityInfo e a p)" "frames (\<lambda>s. V (mgr s)) (CheckLoaded e a p dev cb)"
  "frames (\<lambda>s. V (mgr s)) (SendStrategy e t sas l ac)" "frames (\<lambda>s. V (mgr s)) mgr_CleanFfrt" "frames (\<lambda>s. V (mgr s)) mgr_SetFfrt"
  "frames (\<lambda>s. V (mgr s)) (RemoveOnDemandSaInDiedProc sas)"
  unfolding AddOnDemandSystemAbilityInfo_def CheckLoaded_def SendStrategy_def mgr_CleanFfrt_def mgr_SetFfrt_def
    RemoveOnDemandSaInDiedProc_def
  by (intro frame_intros frame_view view_send_strategy)+

end

section \<open>Properties of the tables that removals keep\<close>

text \<open>Requests that may add an entry to a registry.\<close>
definition registers :: "request \<Rightarrow> bool" where
  "registers r \<longleftrightarrow> (case r of ReqAddSystemAbility _ _ _ \<Rightarrow> True | ReqAddSystemProcess _ _ \<Rightarrow> True | _ \<Rightarrow> False)"

text \<open>
  A property of the tables that also survives the removal of an ability, of a process and of a callback is kept by every request that is not
  a registration and by every task.
\<close>
locale step_property = manager_view K for K :: "sa_manager \<Rightarrow> bool" +
  assumes ability_erased: "\<And>m a. K m \<Longrightarrow> K (m \<lparr> abilityMap := sm_erase a (abilityMap m) \<rparr>)"
    and process_erased: "\<And>m p. K m \<Longrightarrow> K (m \<lparr> systemProcessMap := sm_erase p (systemProcessMap m) \<rparr>)"
    and callback_removed: "\<And>m k c. K m \<Longrightarrow> c \<in> set (sm_get [] k (remoteCallbacks m)) \<Longrightarrow>
      K (m \<lparr> remoteCallbacks := sm_ins k (removeAll c (sm_get [] k (remoteCallbacks m))) (remoteCallbacks m) \<rparr>)"
    and callbacks_erased: "\<And>m k. K m \<Longrightarrow> sm_get [] k (remoteCallbacks m) = [] \<Longrightarrow> K (m \<lparr> remoteCallbacks := sm_erase k (remoteCallbacks m) \<rparr>)"
begin

lemma unchanged: "frames (\<lambda>s. K (mgr s)) m \<Longrightarrow> preserves (\<lambda>s. K (mgr s)) m"
  using frames_preserves [of "\<lambda>s. K (mgr s)" m id] by simp

lemma erased:
  "preserves (\<lambda>s. K (mgr s)) (modM (\<lambda>m. m \<lparr> abilityMap := sm_erase a (abilityMap m) \<rparr>))"
  "preserves (\<lambda>s. K (mgr s)) (modM (\<lambda>m. m \<lparr> systemProcessMap := sm_erase p (systemProcessMap m) \<rparr>))"
  by (simp_all add: modM_def preserves_modify ability_erased process_erased)

lemma callback_dropped: "preserves (\<lambda>s. K (mgr s)) (RemoveRemoteCallbackLocked k x)"
proof (rule hoareI)
  fix s :: samgr
  assume s: "K (mgr s)"
  let ?cbs = "sm_get [] k (remoteCallbacks (mgr s))"
  have death: "mgr (exec (remove_death ob r) t) = mgr t" for ob r t
    by (simp add: remove_death_def emit_def null_deref_def run_simps split: option.splits)
  show "K (mgr (exec (RemoveRemoteCallbackLocked k x) s))"
  proof (cases "find (\<lambda>c. AsObject c = Some x) ?cbs")
    case (Some c)
    then have "c \<in> set ?cbs" by (auto simp: find_Some_iff)
    from callback_removed [OF s this] show ?thesis
      using Some by (simp add: RemoveRemoteCallbackLocked_def getM_def modM_def run_simps death)
  qed (use s in \<open>simp add: RemoveRemoteCallbackLocked_def getM_def run_simps\<close>)
qed

lemma remote_died: "preserves (\<lambda>s. K (mgr s)) (OnRemoteCallbackDied ob)"
proof -
  have emptied: "preserves (\<lambda>s. K (mgr s)) (do {
      empty \<leftarrow> getM (\<lambda>m. sm_get [] k (remoteCallbacks m) = []);
      onlyif empty (modM (\<lambda>m. m \<lparr> remoteCallbacks := sm_erase k (remoteCallbacks m) \<rparr>)) })" for k
    by (rule hoareI) (auto simp: getM_def modM_def run_simps intro: callbacks_erased)
  show ?thesis
    unfolding OnRemoteCallbackDied_def by (intro emptied hoare_intros callback_dropped unchanged frame_view frames_getM)
qed

end

sublocale step_property \<subseteq> manager_services K
proof
  show "preserves (\<lambda>s. K (mgr s)) (RemoveDiedSystemAbility e a)" for e a
    unfolding RemoveDiedSystemAbility_def getM_def by (intro hoare_intros erased unchanged frame_view)
qed (auto intro: unchanged frame_view simp: handlers)

context step_property
begin

lemmas kept = frame_view [THEN unchanged] erased remote_died services

lemma removals:
  "preserves (\<lambda>s. K (mgr s)) (RemoveSystemAbility e a)"
  "preserves (\<lambda>s. K (mgr s)) (RemoveSystemAbilityDied e ob)"
  "preserves (\<lambda>s. K (mgr s)) (RemoveSystemProcess e ob)"
  "preserves (\<lambda>s. K (mgr s)) (CheckSystemAbilityExist e a x)"
  unfolding RemoveSystemAbility_def RemoveSystemAbilityDied_def RemoveSystemProcess_def CheckSystemAbilityExist_def
  by (intro hoare_intros kept)+

lemma overflow: "preserves (\<lambda>s. K (mgr s)) (ProcessPendingLoadOverflow e a p)"
  unfolding ProcessPendingLoadOverflow_def sch_ServiceControl_def by (intro hoare_intros kept removals)

lemma requests:
  "preserves (\<lambda>s. K (mgr s)) (LoadSystemAbility e a cb)"
  "preserves (\<lambda>s. K (mgr s)) (LoadSystemAbilityFromRpc e dev a cb)"
  "preserves (\<lambda>s. K (mgr s)) (UnloadSystemAbility e a)"
  "preserves (\<lambda>s. K (mgr s)) (CancelUnloadSystemAbility e a)"
  "preserves (\<lambda>s. K (mgr s)) (mgr_UnloadAllIdleSystemAbility e)"
  "preserves (\<lambda>s. K (mgr s)) (mgr_UnloadProcess e ps)"
  "preserves (\<lambda>s. K (mgr s)) (GetLruIdleSystemAbilityProc e)"
  "preserves (\<lambda>s. K (mgr s)) (ProcessOnDemandEvent e ev cs)"
  unfolding LoadSystemAbility_def LoadSystemAbilityFromRpc_def UnloadSystemAbility_def CancelUnloadSystemAbility_def
    mgr_UnloadAllIdleSystemAbility_def mgr_UnloadProcess_def GetLruIdleSystemAbilityProc_def ProcessOnDemandEvent_def Let_def
  by (intro hoare_intros kept)+

lemma forwarded:
  "preserves (\<lambda>s. K (mgr s)) (mgr_SubscribeSystemProcess l)"
  "preserves (\<lambda>s. K (mgr s)) (mgr_UnSubscribeSystemProcess l)"
  "preserves (\<lambda>s. K (mgr s)) (mgr_UnSubscribeSystemProcessDied ob)"
  "preserves (\<lambda>s. K (mgr s)) (mgr_SubscribeLowMemSystemProcess e l)"
  "preserves (\<lambda>s. K (mgr s)) (mgr_UnSubscribeLowMemSystemProcess e l)"
  unfolding mgr_SubscribeSystemProcess_def mgr_UnSubscribeSystemProcess_def mgr_UnSubscribeSystemProcessDied_def
    mgr_SubscribeLowMemSystemProcess_def mgr_UnSubscribeLowMemSystemProcess_def
  by (intro hoare_intros kept)+

lemma request_kept:
  "\<not> registers r \<Longrightarrow> preserves (\<lambda>s. K (mgr s)) (run_request e r)"
  unfolding run_request_def registers_def
  by (cases r; simp only: request.case simp_thms; intro hoare_intros removals requests forwarded kept)

lemma task_kept: "preserves (\<lambda>s. K (mgr s)) (run_task e t)"
  unfolding run_task_def
  by (cases t; simp only: task.case; intro hoare_intros kept removals overflow)

end

section \<open>The instances\<close>

text \<open>The two registries are such a part, and the table of callbacks for remote abilities is another.\<close>
abbreviation registries :: "samgr \<Rightarrow> (int, SAInfo) smap \<times> (u16string, obj) smap" where
  "registries \<equiv> \<lambda>s. (abilityMap (mgr s), systemProcessMap (mgr s))"

interpretation registry_view: manager_view "\<lambda>m. (abilityMap m, systemProcessMap m)"
  by unfold_locales simp_all

named_theorems frame_reg \<open>operations that keep both registries\<close>

lemmas reg_view_ops [frame_reg] = frame_view

lemma registries_kept: "frames registries m \<Longrightarrow> preserves (\<lambda>s. Q (abilityMap (mgr s)) (systemProcessMap (mgr s))) m"
  using frames_preserves [of registries m "\<lambda>(x, y). Q x y"] by simp

lemma reg_modM: "(\<And>m. abilityMap (f m) = abilityMap m \<and> systemProcessMap (f m) = systemProcessMap m) \<Longrightarrow> frames registries (modM f)"
  by (rule frames_modM) simp

lemma reg_remote_callbacks [frame_reg]:
  "frames registries (modM (\<lambda>m. m \<lparr> remoteCallbacks := f m \<rparr>))" "frames registries (RemoveRemoteCallbackLocked k x)" "frames registries (OnRemoteCallbackDied ob)"
proof -
  show update: "frames registries (modM (\<lambda>m. m \<lparr> remoteCallbacks := f m \<rparr>))" for f by (rule reg_modM) simp
  show remove: "frames registries (RemoveRemoteCallbackLocked k x)" for k x
    unfolding RemoveRemoteCallbackLocked_def by (intro frame_intros frame_reg update)
  show "frames registries (OnRemoteCallbackDied ob)" unfolding OnRemoteCallbackDied_def by (intro frame_intros frame_reg update remove)
qed

interpretation callback_view: manager_view remoteCallbacks
  by unfold_locales simp_all

text \<open>Properties of the registries alone.\<close>
locale registry_property =
  fixes R :: "(int, SAInfo) smap \<Rightarrow> (u16string, obj) smap \<Rightarrow> bool"
  assumes ability_removed: "\<And>m p a. R m p \<Longrightarrow> R (sm_erase a m) p"
    and process_removed: "\<And>m p q. R m p \<Longrightarrow> R m (sm_erase q p)"

sublocale registry_property \<subseteq> step_property "\<lambda>m. R (abilityMap m) (systemProcessMap m)"
  by unfold_locales (simp_all add: ability_removed process_removed)

interpretation bounded: registry_property bounded_maps
proof
  show "bounded_maps (sm_erase a m) p" if "bounded_maps m p" for m p a
    using that sm_size_erase_le [of a m] by (auto simp: bounded_maps_def) (auto simp: sm_erase_def)
  show "bounded_maps m (sm_erase q p)" if "bounded_maps m p" for m p q
    using that sm_size_erase_le [of q p] by (auto simp: bounded_maps_def)
qed

interpretation shrinking: registry_property "\<lambda>m p. objects m \<subseteq>\<^sub>m r \<and> (\<lambda>q. sm_find q p) \<subseteq>\<^sub>m r'" for r r'
  by unfold_locales (auto simp: objects_def map_le_def dom_def split: if_splits)

text \<open>The scheduler itself never touches the process registry.\<close>
interpretation process_table: manager_services "\<lambda>m. objects (abilityMap m) \<subseteq>\<^sub>m r \<and> systemProcessMap m = p" for r p
proof
  note keep = registries_kept [of _ "\<lambda>x y. objects x \<subseteq>\<^sub>m r \<and> y = p"]
  have erase: "preserves (\<lambda>s. objects (abilityMap (mgr s)) \<subseteq>\<^sub>m r \<and> systemProcessMap (mgr s) = p)
      (modM (\<lambda>m. m \<lparr> abilityMap := sm_erase a (abilityMap m) \<rparr>))" for a
    by (auto simp: modM_def objects_def map_le_def dom_def split: if_splits intro!: preserves_modify)
  show "preserves (\<lambda>s. objects (abilityMap (mgr s)) \<subseteq>\<^sub>m r \<and> systemProcessMap (mgr s) = p) (request_load e a q req)" for e a q req
    by (intro keep frame_reg)
  show "preserves (\<lambda>s. objects (abilityMap (mgr s)) \<subseteq>\<^sub>m r \<and> systemProcessMap (mgr s) = p) (DoLoadOnDemandAbility e a)" for e a
    by (intro keep frame_reg)
  show "preserves (\<lambda>s. objects (abilityMap (mgr s)) \<subseteq>\<^sub>m r \<and> systemProcessMap (mgr s) = p) (RemoveOnDemandSaInDiedProc sas)" for sas
    by (intro keep frame_reg)
  show "preserves (\<lambda>s. objects (abilityMap (mgr s)) \<subseteq>\<^sub>m r \<and> systemProcessMap (mgr s) = p) (RemoveDiedSystemAbility e a)" for e a
    unfolding RemoveDiedSystemAbility_def getM_def by (intro hoare_intros erase keep frame_reg)
qed simp_all

end
