(* ===== verification/Registry_Props.thy ===== *)
theory Registry_Props
  imports Manager_Props Registry
begin

text \<open>
  The registries as bounded maps. The specification knows two kinds of step: a registration, which
  sets one entry of a map with fewer than 1000 entries, and a removal, which only drops entries.
  Every request and every task of the service refines it, and the registry invariant holds in every
  reachable state.
\<close>

section \<open>The specification\<close>

definition abilities :: "samgr \<Rightarrow> (int \<rightharpoonup> obj)" where
  "abilities s = (\<lambda>a. running_obj a (mgr s))"

definition processes :: "samgr \<Rightarrow> (u16string \<rightharpoonup> obj)" where
  "processes s = (\<lambda>p. sm_find p (systemProcessMap (mgr s)))"

text \<open>Setting the entry \<open>k\<close> of a bounded map, if the key is acceptable and there is room; or nothing.\<close>
definition set_entry :: "bool \<Rightarrow> 'k \<Rightarrow> obj option \<Rightarrow> ('k \<rightharpoonup> obj) \<Rightarrow> ('k \<rightharpoonup> obj) \<Rightarrow> bool" where
  "set_entry valid k ob r r' \<longleftrightarrow> r' = r \<or> (valid \<and> ob \<noteq> None \<and> card (dom r) < 1000 \<and> r' = r(k := ob))"

definition ability_spec :: "request \<Rightarrow> (int \<rightharpoonup> obj) \<Rightarrow> (int \<rightharpoonup> obj) \<Rightarrow> bool" where
  "ability_spec q r r' = (case q of
     ReqAddSystemAbility a ob d \<Rightarrow> set_entry (CheckInputSysAbilityId a) a ob r r' | _ \<Rightarrow> r' \<subseteq>\<^sub>m r)"

definition process_spec :: "request \<Rightarrow> (u16string \<rightharpoonup> obj) \<Rightarrow> (u16string \<rightharpoonup> obj) \<Rightarrow> bool" where
  "process_spec q r r' = (case q of
     ReqAddSystemProcess p ob \<Rightarrow> set_entry (p \<noteq> []) p ob r r' | _ \<Rightarrow> r' \<subseteq>\<^sub>m r)"

section \<open>Registrations\<close>

lemma abilities_objects: "abilities s = objects (abilityMap (mgr s))"
  by (simp add: abilities_def objects_def running_obj_def)

lemma card_keys: "sm_ok m \<Longrightarrow> card (set (sm_keys m)) = sm_size m"
  using distinct_card [of "sm_keys m"] by (simp add: sm_ok_def sm_size_def sm_keys_def)

lemma dom_processes: "dom (processes s) = set (sm_keys (systemProcessMap (mgr s)))"
  unfolding processes_def dom_def by (auto simp: sm_find_None_iff)

lemma dom_abilities: "registry_ok (mgr s) \<Longrightarrow> dom (abilities s) = set (sm_keys (abilityMap (mgr s)))"
  unfolding abilities_objects objects_def dom_def registry_ok_def bounded_maps_def
  by (auto simp: sm_find_None_iff split: option.splits) (auto dest!: sm_find_SomeD simp: sm_count_iff [symmetric] sm_count_def)

lemma registry_sizes:
  assumes "registry_ok (mgr s)"
  shows "card (dom (abilities s)) = sm_size (abilityMap (mgr s))" "card (dom (processes s)) = sm_size (systemProcessMap (mgr s))"
  using assms by (simp_all add: dom_abilities dom_processes card_keys registry_ok_def bounded_maps_def)

lemma registries_run:
  assumes "frames registries m"
  shows "abilityMap (mgr (exec m s)) = abilityMap (mgr s)" "systemProcessMap (mgr (exec m s)) = systemProcessMap (mgr s)"
  using framesD [OF assms, of s] by (simp_all add:)

lemmas registry_frames = frame_reg [THEN registries_run(1)] frame_reg [THEN registries_run(2)]

lemma AddSystemAbility_registries:
  "registries (exec (AddSystemAbility e a ob d) s) = registries s \<or>
   (CheckInputSysAbilityId a \<and> ob \<noteq> None \<and> sm_size (abilityMap (mgr s)) < 1000 \<and>
    registries (exec (AddSystemAbility e a ob d) s) =
      (sm_ins a \<lparr> remoteObj = ob, isDistributed = d \<rparr> (abilityMap (mgr s)), systemProcessMap (mgr s)))"
  unfolding AddSystemAbility_def
  by (simp add: run_simps getM_def modM_def MAX_SERVICES_def registry_frames)

lemma SendProcessStateEvent_registries:
  "objects (abilityMap (mgr (exec (SendProcessStateEvent e i ev) s))) \<subseteq>\<^sub>m objects (abilityMap (mgr s))"
  "systemProcessMap (mgr (exec (SendProcessStateEvent e i ev) s)) = systemProcessMap (mgr s)"
  using preservesD [OF process_table.tasks_kept(6) [of "objects (abilityMap (mgr s))" "systemProcessMap (mgr s)"], of s e i ev]
  by simp_all

lemma AddSystemProcess_registries:
  "objects (abilityMap (mgr (exec (AddSystemProcess e p ob) s))) \<subseteq>\<^sub>m objects (abilityMap (mgr s)) \<and>
   (systemProcessMap (mgr (exec (AddSystemProcess e p ob) s)) = systemProcessMap (mgr s) \<or>
    (p \<noteq> [] \<and> sm_size (systemProcessMap (mgr s)) < 1000 \<and>
     (\<exists>x. ob = Some x \<and> systemProcessMap (mgr (exec (AddSystemProcess e p ob) s)) = sm_ins p x (systemProcessMap (mgr s)))))"
proof (cases ob)
  case None
  then show ?thesis by (simp add: AddSystemProcess_def run_simps)
next
  case (Some x)
  note le = map_le_trans [OF SendProcessStateEvent_registries(1)]
  show ?thesis
    unfolding AddSystemProcess_def Some
    by (auto simp: run_simps getM_def modM_def MAX_SERVICES_def registry_frames SendProcessStateEvent_registries(2) intro!: le)
qed

section \<open>Refinement\<close>

text \<open>
  C3. Refinement of the registries: on a state that satisfies the registry invariant every request changes
  the registered abilities and processes as the specification allows. Only a registration request can
  make an object appear, under the identifier and the object it names, and only while fewer than
  1000 entries exist; every other request, a process death included, only drops entries.
\<close>
theorem request_refines_registries:
  assumes "registry_ok (mgr s)"
  shows "ability_spec r (abilities s) (abilities (exec (run_request e r) s)) \<and>
    process_spec r (processes s) (processes (exec (run_request e r) s))"
proof (cases "registers r")
  case False
  have "abilities (exec (run_request e r) s) \<subseteq>\<^sub>m abilities s \<and> processes (exec (run_request e r) s) \<subseteq>\<^sub>m processes s"
    using preservesD [OF shrinking.request_kept [OF False, of "abilities s" "processes s"], of s e]
    by (simp add: abilities_objects processes_def)
  then show ?thesis
    using False by (simp add: ability_spec_def process_spec_def registers_def split: request.splits)
next
  case True
  then consider (ability) a ob d where "r = ReqAddSystemAbility a ob d" | (process) p ob where "r = ReqAddSystemProcess p ob"
    by (auto simp: registers_def split: request.splits)
  then show ?thesis
  proof cases
    case ability
    then show ?thesis
      using AddSystemAbility_registries [of e a ob d s] registry_sizes [OF assms]
      by (auto simp: run_request_def run_simps ability_spec_def process_spec_def set_entry_def
          abilities_objects processes_def objects_def fun_eq_iff)
  next
    case process
    then show ?thesis
      using AddSystemProcess_registries [of e p ob s] registry_sizes [OF assms]
      by (auto simp: run_request_def run_simps ability_spec_def process_spec_def set_entry_def
          abilities_objects processes_def fun_eq_iff)
  qed
qed

theorem request_refines_registries_witness:
  "abilities (exec (run_request sample_env (ReqAddSystemAbility 401 (Some 11) False)) booted) = abilities booted \<or>
   abilities (exec (run_request sample_env (ReqAddSystemAbility 401 (Some 11) False)) booted) = (abilities booted)(401 \<mapsto> 11)"
proof -
  have "abilityMap (mgr booted) = [(0, \<lparr> remoteObj = Some 7, isDistributed = False \<rparr>)]" "systemProcessMap (mgr booted) = []"
    by code_simp+
  then have "registry_ok (mgr booted)"
    by (simp add: registry_ok_def bounded_maps_def sm_ok_def sm_keys_def sm_size_def CheckInputSysAbilityId_def)
  from request_refines_registries [OF this, of "ReqAddSystemAbility 401 (Some 11) False" sample_env]
  show ?thesis by (auto simp: ability_spec_def set_entry_def)
qed

section \<open>The invariant in every reachable state\<close>

lemma bounded_ins_ability:
  "bounded_maps m p \<Longrightarrow> CheckInputSysAbilityId a \<Longrightarrow> ob \<noteq> None \<Longrightarrow> sm_size m < 1000 \<Longrightarrow>
   bounded_maps (sm_ins a \<lparr> remoteObj = ob, isDistributed = d \<rparr> m) p"
proof -
  assume b: "bounded_maps m p" and new: "CheckInputSysAbilityId a" "ob \<noteq> None" "sm_size m < 1000"
  have ok: "sm_ok (sm_ins a \<lparr> remoteObj = ob, isDistributed = d \<rparr> m)" using b by (simp add: bounded_maps_def)
  have "CheckInputSysAbilityId k \<and> remoteObj i \<noteq> None" if "(k, i) \<in> set (sm_ins a \<lparr> remoteObj = ob, isDistributed = d \<rparr> m)" for k i
    using sm_find_mem [OF ok that] new b by (auto simp: bounded_maps_def split: if_splits dest!: sm_find_SomeD)
  then show ?thesis using b ok new by (auto simp: bounded_maps_def sm_size_ins)
qed

lemma bounded_ins_process: "bounded_maps m p \<Longrightarrow> sm_size p < 1000 \<Longrightarrow> bounded_maps m (sm_ins q x p)"
  by (auto simp: bounded_maps_def sm_size_ins)

lemma AddSystemAbility_bounded: "registry_ok (mgr s) \<Longrightarrow> registry_ok (mgr (exec (AddSystemAbility e a ob d) s))"
  using AddSystemAbility_registries [of e a ob d s] by (auto simp: registry_ok_def intro!: bounded_ins_ability)

lemma AddSystemProcess_bounded:
  assumes "registry_ok (mgr s)"
  shows "registry_ok (mgr (exec (AddSystemProcess e p ob) s))"
proof (cases ob)
  case None
  then show ?thesis using assms by (simp add: AddSystemProcess_def run_simps)
next
  case (Some x)
  note event = preservesD [OF bounded.tasks_kept(6)]
  show ?thesis
    unfolding AddSystemProcess_def Some registry_ok_def
    using assms
    by (auto simp: run_simps getM_def modM_def MAX_SERVICES_def registry_frames registry_ok_def
        intro!: event bounded_ins_process)
qed

lemma registry_ok_request:
  assumes "registry_ok (mgr s)"
  shows "registry_ok (mgr (exec (run_request e r) s))"
proof (cases "registers r")
  case False
  show ?thesis using preservesD [OF bounded.request_kept [OF False], of s e] assms by (simp add: registry_ok_def)
next
  case True
  then show ?thesis
    using AddSystemAbility_bounded [OF assms] AddSystemProcess_bounded [OF assms]
    by (auto simp: registers_def run_request_def run_simps split: request.splits)
qed

lemma registry_ok_queue: "registry_ok (mgr (put_queue q h s)) = registry_ok (mgr s)"
  by (cases q) (simp_all add: put_queue_def registry_ok_def)

lemma registry_ok_step: "step s s' \<Longrightarrow> registry_ok (mgr s) \<Longrightarrow> registry_ok (mgr s')"
proof (erule stepE)
  fix e q h t h' k
  assume "registry_ok (mgr s)" "s' = exec (run_task e t) (put_queue q h' s)"
  then show "registry_ok (mgr s')"
    using preservesD [OF bounded.task_kept, of "put_queue q h' s" e t] registry_ok_queue [of q h' s] by (simp add: registry_ok_def)
qed (simp add: registry_ok_request)

lemma registries_boot: "registries (boot e prs this) = ([(0, \<lparr> remoteObj = Some this, isDistributed = False \<rparr>)], [])"
proof -
  have "frames registries (mgr_Init e prs)" "frames registries (InitSamgrProcessContext e)"
    unfolding mgr_Init_def InitSaProfile_def sch_Init_def InitStateContext_def InitLowMemProcessList_def InitSamgrProcessContext_def Let_def
    by (intro frame_intros frame_reg reg_modM; simp)+
  note run = this [THEN registries_run(1)] this [THEN registries_run(2)]
  show ?thesis
    by (simp add: boot_def AddSamgrToAbilityMap_def run_simps run getM_def modM_def empty_samgr_def empty_manager_def)
qed

text \<open>
  C31. In every reachable state both registries are ordered maps of at most 1000 entries, and every registered
  ability has an identifier in range and a non-null object.
\<close>
theorem reachable_registry_ok:
  assumes "reachable prs s"
  shows "registry_ok (mgr s)"
  using assms
proof (induction rule: reachable.induct)
  case (boot e this)
  then show ?case
    using registries_boot [of e prs this]
    by (simp add: registry_ok_def bounded_maps_def sm_ok_def sm_keys_def sm_size_def CheckInputSysAbilityId_def)
qed (rule registry_ok_step)

theorem reachable_registry_ok_witness: "registry_ok (mgr loaded)"
  using reachable_registry_ok [OF loaded_reachable] .

end
