(* ===== verification/Parcel.thy ===== *)
theory Parcel
  imports Samgr_Types
begin

text \<open>
  The base of the IPC layer. \<^verbatim>\<open>MessageParcel\<close> belongs to the IPC library, outside the repository: its
  operations are the fields of the record \<open>ipc_ops\<close>, an argument of everything that marshals, together
  with the numeric values of the error codes. What the code relies on is \<open>parcel_laws\<close>: a parcel
  with room takes every item that is written to it, hands the items out in the order in which they were
  written, and has at least as many readable bytes as it has items.

  A call has a request parcel, a reply parcel and the state of the other side. The client writes the
  request and reads the reply, the stub reads the request and writes the reply.
\<close>

section \<open>What the IPC library provides\<close>

text \<open>\<^verbatim>\<open>OnDemandReasonExtraData\<close>, a parcelable of the ability framework: what its constructor takes.\<close>
record OnDemandReasonExtraData =
  xd_code :: int
  xd_data :: string
  xd_want :: "(string, string) smap"

record 'p ipc_ops =
  new_parcel :: 'p
  WriteInterfaceToken :: "u16string \<Rightarrow> 'p \<Rightarrow> bool \<times> 'p"
  WriteInt32 :: "int \<Rightarrow> 'p \<Rightarrow> bool \<times> 'p"
  WriteInt64 :: "int \<Rightarrow> 'p \<Rightarrow> bool \<times> 'p"
  WriteBool :: "bool \<Rightarrow> 'p \<Rightarrow> bool \<times> 'p"
  WriteString :: "string \<Rightarrow> 'p \<Rightarrow> bool \<times> 'p"
  WriteString16 :: "u16string \<Rightarrow> 'p \<Rightarrow> bool \<times> 'p"
  WriteRemoteObject :: "obj option \<Rightarrow> 'p \<Rightarrow> bool \<times> 'p"
  WriteInt32Vector :: "int list \<Rightarrow> 'p \<Rightarrow> bool \<times> 'p"
  WriteInt64Vector :: "int list \<Rightarrow> 'p \<Rightarrow> bool \<times> 'p"
  WriteString16Vector :: "u16string list \<Rightarrow> 'p \<Rightarrow> bool \<times> 'p"
  WriteParcelable :: "OnDemandReasonExtraData \<Rightarrow> 'p \<Rightarrow> bool \<times> 'p"
  ReadInterfaceToken :: "'p \<Rightarrow> u16string \<times> 'p"
  ReadInt32 :: "'p \<Rightarrow> int option \<times> 'p" \<comment> \<open>\<open>None\<close>: the read failed\<close>
  ReadInt64 :: "'p \<Rightarrow> int option \<times> 'p"
  ReadBool :: "'p \<Rightarrow> bool option \<times> 'p"
  ReadString :: "'p \<Rightarrow> string option \<times> 'p"
  ReadString16 :: "'p \<Rightarrow> u16string option \<times> 'p"
  ReadRemoteObject :: "'p \<Rightarrow> obj option \<times> 'p"
  ReadInt32Vector :: "'p \<Rightarrow> int list option \<times> 'p"
  ReadInt64Vector :: "'p \<Rightarrow> int list option \<times> 'p"
  ReadString16Vector :: "'p \<Rightarrow> u16string list option \<times> 'p"
  ReadParcelable :: "'p \<Rightarrow> OnDemandReasonExtraData option \<times> 'p"
  GetReadableBytes :: "'p \<Rightarrow> nat"
  err :: "SamgrErrCode \<Rightarrow> int" \<comment> \<open>the value of a code in \<^verbatim>\<open>errors.h\<close>, \<^verbatim>\<open>ipc_types.h\<close> and \<^verbatim>\<open>samgr_err_code.h\<close>\<close>

section \<open>Calls\<close>

record ('p, 'w) call =
  data :: 'p
  reply :: 'p
  world :: 'w

type_synonym ('p, 'w, 'a) C = "(('p, 'w) call, 'a) state"

text \<open>An operation on the request, on the reply, and of the other side.\<close>
definition on_data :: "('p \<Rightarrow> 'a \<times> 'p) \<Rightarrow> ('p, 'w, 'a) C" where
  "on_data f = State (\<lambda>s. (fst (f (data s)), s \<lparr> data := snd (f (data s)) \<rparr>))"

definition on_reply :: "('p \<Rightarrow> 'a \<times> 'p) \<Rightarrow> ('p, 'w, 'a) C" where
  "on_reply f = State (\<lambda>s. (fst (f (reply s)), s \<lparr> reply := snd (f (reply s)) \<rparr>))"

definition invoke :: "('w, 'a) state \<Rightarrow> ('p, 'w, 'a) C" where
  "invoke m = State (\<lambda>s. (eval_st m (world s), s \<lparr> world := exec m (world s) \<rparr>))"

text \<open>\<^verbatim>\<open>if (!parcel.Write...(x)) return e;\<close> and \<^verbatim>\<open>if (!parcel.Read...(x)) return e;\<close>\<close>
definition write_or :: "('s, bool) state \<Rightarrow> 'a \<Rightarrow> ('s, 'a) state \<Rightarrow> ('s, 'a) state" where
  "write_or m e k = do { ok \<leftarrow> m; if \<not> ok then ret e else k }"

definition read_or :: "('s, 'b option) state \<Rightarrow> 'a \<Rightarrow> ('b \<Rightarrow> ('s, 'a) state) \<Rightarrow> ('s, 'a) state" where
  "read_or m e k = do { x \<leftarrow> m; case x of None \<Rightarrow> ret e | Some v \<Rightarrow> k v }"

text \<open>The value form of a read, \<^verbatim>\<open>x = parcel.Read...()\<close>: the default when the read fails.\<close>
definition or_default :: "'b \<Rightarrow> ('p \<Rightarrow> 'b option \<times> 'p) \<Rightarrow> 'p \<Rightarrow> 'b \<times> 'p" where
  "or_default d f p = (case fst (f p) of None \<Rightarrow> d | Some v \<Rightarrow> v, snd (f p))"

text \<open>A loop that writes one element after the other and stops at the first failure.\<close>
fun write_all :: "('a \<Rightarrow> ('s, bool) state) \<Rightarrow> 'a list \<Rightarrow> ('s, bool) state" where
  "write_all w [] = ret True"
| "write_all w (x # xs) = do { ok \<leftarrow> w x; if \<not> ok then ret False else write_all w xs }"

text \<open>
  A loop that reads \<open>n\<close> elements and stops at the first failure: whether all of them were read, and the
  elements that were.
\<close>
fun read_n :: "nat \<Rightarrow> ('s, 'a option) state \<Rightarrow> ('s, bool \<times> 'a list) state" where
  "read_n 0 r = ret (True, [])"
| "read_n (Suc n) r = do {
     x \<leftarrow> r;
     case x of
       None \<Rightarrow> ret (False, [])
     | Some v \<Rightarrow> do { (ok, vs) \<leftarrow> read_n n r; ret (ok, v # vs) } }"

section \<open>Requests\<close>

datatype MessageOption = TF_SYNC | TF_ASYNC | TF_IMAGE

text \<open>\<^verbatim>\<open>remote->SendRequest\<close>: a code and a request parcel give an error code and a reply parcel. \<^verbatim>\<open>Remote()\<close> is \<open>None\<close> when null.\<close>
type_synonym ('p, 'w) remote = "nat \<Rightarrow> MessageOption \<Rightarrow> 'p \<Rightarrow> ('w, int \<times> 'p) state"

definition SendRequest :: "('p, 'w) remote \<Rightarrow> nat \<Rightarrow> MessageOption \<Rightarrow> ('p, 'w, int) C" where
  "SendRequest R code opt = State (\<lambda>s. let m = R code opt (data s); r = eval_st m (world s)
     in (fst r, s \<lparr> reply := snd r, world := exec m (world s) \<rparr>))"

text \<open>A function of a proxy: its request and its reply start as new parcels.\<close>
definition with_parcels :: "'p ipc_ops \<Rightarrow> ('p, 'w, 'a) C \<Rightarrow> ('w, 'a) state" where
  "with_parcels P m = State (\<lambda>w. let s = \<lparr> data = new_parcel P, reply = new_parcel P, world = w \<rparr>
     in (eval_st m s, world (exec m s)))"

text \<open>\<^verbatim>\<open>if (!b) return e;\<close>\<close>
definition check_or :: "bool \<Rightarrow> 'a \<Rightarrow> ('s, 'a) state \<Rightarrow> ('s, 'a) state" where
  "check_or b e k = (if \<not> b then ret e else k)"

section \<open>What the code relies on\<close>

text \<open>The items of a parcel, from the next one to be read to the last one written.\<close>
datatype item =
    Token (the_token: u16string) | Int32 (the_int32: int) | Int64 (the_int64: int) | Bool (the_bool: bool)
  | String (the_string: string) | String16 (the_string16: u16string) | Object (the_object: obj)
  | Int32Vector (the_int32s: "int list") | Int64Vector (the_int64s: "int list") | String16Vector (the_string16s: "u16string list")
  | ExtraData (the_extra: OnDemandReasonExtraData)

definition writes :: "('p \<Rightarrow> item list) \<Rightarrow> ('p \<Rightarrow> bool \<times> 'p) \<Rightarrow> item list \<Rightarrow> bool" where
  "writes view f is \<longleftrightarrow> (\<forall>p. fst (f p) \<and> view (snd (f p)) = view p @ is)"

definition reads :: "('p \<Rightarrow> item list) \<Rightarrow> ('p \<Rightarrow> 'a \<times> 'p) \<Rightarrow> item list \<Rightarrow> 'a \<Rightarrow> bool" where
  "reads view f is v \<longleftrightarrow> (\<forall>p js. view p = is @ js \<longrightarrow> fst (f p) = v \<and> view (snd (f p)) = js)"

text \<open>A transport that works hands a request to the handler of the other side and carries the reply back.\<close>
definition transports :: "'p ipc_ops \<Rightarrow> ('p, 'w) remote \<Rightarrow> (nat \<Rightarrow> ('p, 'w, int) C) \<Rightarrow> bool" where
  "transports P R handler \<longleftrightarrow> (\<forall>code opt p w. opt \<noteq> TF_ASYNC \<longrightarrow>
     (let s = \<lparr> data = p, reply = new_parcel P, world = w \<rparr>
      in eval_st (R code opt p) w = (eval_st (handler code) s, reply (exec (handler code) s))
       \<and> exec (R code opt p) w = world (exec (handler code) s)))"

definition parcel_laws :: "'p ipc_ops \<Rightarrow> ('p \<Rightarrow> item list) \<Rightarrow> bool" where
  "parcel_laws P view \<longleftrightarrow> view (new_parcel P) = []
     \<and> (\<forall>x. writes view (WriteInterfaceToken P x) [Token x] \<and> reads view (ReadInterfaceToken P) [Token x] x)
     \<and> (\<forall>x. writes view (WriteInt32 P x) [Int32 x] \<and> reads view (ReadInt32 P) [Int32 x] (Some x))
     \<and> (\<forall>x. writes view (WriteInt64 P x) [Int64 x] \<and> reads view (ReadInt64 P) [Int64 x] (Some x))
     \<and> (\<forall>x. writes view (WriteBool P x) [Bool x] \<and> reads view (ReadBool P) [Bool x] (Some x))
     \<and> (\<forall>x. writes view (WriteString P x) [String x] \<and> reads view (ReadString P) [String x] (Some x))
     \<and> (\<forall>x. writes view (WriteString16 P x) [String16 x] \<and> reads view (ReadString16 P) [String16 x] (Some x))
     \<and> (\<forall>x. writes view (WriteRemoteObject P (Some x)) [Object x] \<and> reads view (ReadRemoteObject P) [Object x] (Some x))
     \<and> (\<forall>x. writes view (WriteInt32Vector P x) [Int32Vector x] \<and> reads view (ReadInt32Vector P) [Int32Vector x] (Some x))
     \<and> (\<forall>x. writes view (WriteInt64Vector P x) [Int64Vector x] \<and> reads view (ReadInt64Vector P) [Int64Vector x] (Some x))
     \<and> (\<forall>x. writes view (WriteString16Vector P x) [String16Vector x] \<and> reads view (ReadString16Vector P) [String16Vector x] (Some x))
     \<and> (\<forall>x. writes view (WriteParcelable P x) [ExtraData x] \<and> reads view (ReadParcelable P) [ExtraData x] (Some x))
     \<and> (\<forall>p. length (view p) \<le> GetReadableBytes P p)
     \<and> err P ERR_OK = 0 \<and> (\<forall>e. e \<noteq> ERR_OK \<longrightarrow> e \<noteq> EXTERNAL 0 \<longrightarrow> err P e \<noteq> 0)"

section \<open>Symbolic execution\<close>

lemma case_prod_run [run_simps]:
  "eval_st (case x of (a, b) \<Rightarrow> m a b) s = (case x of (a, b) \<Rightarrow> eval_st (m a b) s)"
  "exec (case x of (a, b) \<Rightarrow> m a b) s = (case x of (a, b) \<Rightarrow> exec (m a b) s)"
  by (simp_all split: prod.split)

lemma case_option_run [run_simps]:
  "eval_st (case x of None \<Rightarrow> m | Some v \<Rightarrow> n v) s = (case x of None \<Rightarrow> eval_st m s | Some v \<Rightarrow> eval_st (n v) s)"
  "exec (case x of None \<Rightarrow> m | Some v \<Rightarrow> n v) s = (case x of None \<Rightarrow> exec m s | Some v \<Rightarrow> exec (n v) s)"
  by (simp_all split: option.split)

lemma State_run [run_simps]: "eval_st (State f) s = fst (f s)" "exec (State f) s = snd (f s)"
  by (simp_all add: eval_st_def exec_def)

lemma on_data_run [run_simps]:
  "eval_st (on_data f) s = fst (f (data s))" "exec (on_data f) s = s \<lparr> data := snd (f (data s)) \<rparr>"
  by (simp_all add: on_data_def eval_st_def exec_def)

lemma on_reply_run [run_simps]:
  "eval_st (on_reply f) s = fst (f (reply s))" "exec (on_reply f) s = s \<lparr> reply := snd (f (reply s)) \<rparr>"
  by (simp_all add: on_reply_def eval_st_def exec_def)

lemma invoke_run [run_simps]:
  "eval_st (invoke m) s = eval_st m (world s)" "exec (invoke m) s = s \<lparr> world := exec m (world s) \<rparr>"
  by (simp_all add: invoke_def eval_st_def exec_def)

lemma write_or_run [run_simps]:
  "eval_st (write_or m e k) s = (if eval_st m s then eval_st k (exec m s) else e)"
  "exec (write_or m e k) s = (if eval_st m s then exec k (exec m s) else exec m s)"
  by (simp_all add: write_or_def run_simps)

lemma read_or_run [run_simps]:
  "eval_st (read_or m e k) s = (case eval_st m s of None \<Rightarrow> e | Some v \<Rightarrow> eval_st (k v) (exec m s))"
  "exec (read_or m e k) s = (case eval_st m s of None \<Rightarrow> exec m s | Some v \<Rightarrow> exec (k v) (exec m s))"
  by (simp_all add: read_or_def run_simps split: option.splits)

lemma check_or_run [run_simps]:
  "eval_st (check_or b e k) s = (if b then eval_st k s else e)" "exec (check_or b e k) s = (if b then exec k s else s)"
  by (simp_all add: check_or_def run_simps)

lemma SendRequest_run [run_simps]:
  "eval_st (SendRequest R code opt) s = fst (eval_st (R code opt (data s)) (world s))"
  "exec (SendRequest R code opt) s = s \<lparr> reply := snd (eval_st (R code opt (data s)) (world s)),
     world := exec (R code opt (data s)) (world s) \<rparr>"
  by (simp_all add: SendRequest_def eval_st_def exec_def Let_def)

lemma with_parcels_run [run_simps]:
  "eval_st (with_parcels P m) w = eval_st m \<lparr> data = new_parcel P, reply = new_parcel P, world = w \<rparr>"
  "exec (with_parcels P m) w = world (exec m \<lparr> data = new_parcel P, reply = new_parcel P, world = w \<rparr>)"
  by (simp_all add: with_parcels_def eval_st_def exec_def Let_def)

lemma write_rules:
  assumes "parcel_laws P view"
  shows "view (new_parcel P) = []"
    "fst (WriteInterfaceToken P t p)" "view (snd (WriteInterfaceToken P t p)) = view p @ [Token t]"
    "fst (WriteInt32 P i p)" "view (snd (WriteInt32 P i p)) = view p @ [Int32 i]"
    "fst (WriteInt64 P i p)" "view (snd (WriteInt64 P i p)) = view p @ [Int64 i]"
    "fst (WriteBool P b p)" "view (snd (WriteBool P b p)) = view p @ [Bool b]"
    "fst (WriteString P c p)" "view (snd (WriteString P c p)) = view p @ [String c]"
    "fst (WriteString16 P t p)" "view (snd (WriteString16 P t p)) = view p @ [String16 t]"
    "fst (WriteRemoteObject P (Some x) p)" "view (snd (WriteRemoteObject P (Some x) p)) = view p @ [Object x]"
    "fst (WriteInt32Vector P xs p)" "view (snd (WriteInt32Vector P xs p)) = view p @ [Int32Vector xs]"
    "fst (WriteInt64Vector P xs p)" "view (snd (WriteInt64Vector P xs p)) = view p @ [Int64Vector xs]"
    "fst (WriteString16Vector P ts p)" "view (snd (WriteString16Vector P ts p)) = view p @ [String16Vector ts]"
    "length (view p) \<le> GetReadableBytes P p"
    "fst (WriteParcelable P d p)" "view (snd (WriteParcelable P d p)) = view p @ [ExtraData d]"
    "err P ERR_OK = 0" "err P ERR_NULL_OBJECT \<noteq> 0" "err P ERR_FLATTEN_OBJECT \<noteq> 0" "err P ERR_INVALID_OPERATION \<noteq> 0"
    "err P ERR_INVALID_VALUE \<noteq> 0" "err P ERR_PERMISSION_DENIED \<noteq> 0"
  using assms by (simp_all add: parcel_laws_def writes_def)

lemma read_rules:
  assumes "parcel_laws P view" and "view p \<noteq> []"
  shows "is_Token (hd (view p)) \<Longrightarrow> fst (ReadInterfaceToken P p) = the_token (hd (view p))"
    "is_Token (hd (view p)) \<Longrightarrow> view (snd (ReadInterfaceToken P p)) = tl (view p)"
    "is_Int32 (hd (view p)) \<Longrightarrow> fst (ReadInt32 P p) = Some (the_int32 (hd (view p)))"
    "is_Int32 (hd (view p)) \<Longrightarrow> view (snd (ReadInt32 P p)) = tl (view p)"
    "is_Int64 (hd (view p)) \<Longrightarrow> fst (ReadInt64 P p) = Some (the_int64 (hd (view p)))"
    "is_Int64 (hd (view p)) \<Longrightarrow> view (snd (ReadInt64 P p)) = tl (view p)"
    "is_Bool (hd (view p)) \<Longrightarrow> fst (ReadBool P p) = Some (the_bool (hd (view p)))"
    "is_Bool (hd (view p)) \<Longrightarrow> view (snd (ReadBool P p)) = tl (view p)"
    "is_String (hd (view p)) \<Longrightarrow> fst (ReadString P p) = Some (the_string (hd (view p)))"
    "is_String (hd (view p)) \<Longrightarrow> view (snd (ReadString P p)) = tl (view p)"
    "is_String16 (hd (view p)) \<Longrightarrow> fst (ReadString16 P p) = Some (the_string16 (hd (view p)))"
    "is_String16 (hd (view p)) \<Longrightarrow> view (snd (ReadString16 P p)) = tl (view p)"
    "is_Object (hd (view p)) \<Longrightarrow> fst (ReadRemoteObject P p) = Some (the_object (hd (view p)))"
    "is_Object (hd (view p)) \<Longrightarrow> view (snd (ReadRemoteObject P p)) = tl (view p)"
    "is_Int32Vector (hd (view p)) \<Longrightarrow> fst (ReadInt32Vector P p) = Some (the_int32s (hd (view p)))"
    "is_Int32Vector (hd (view p)) \<Longrightarrow> view (snd (ReadInt32Vector P p)) = tl (view p)"
    "is_Int64Vector (hd (view p)) \<Longrightarrow> fst (ReadInt64Vector P p) = Some (the_int64s (hd (view p)))"
    "is_Int64Vector (hd (view p)) \<Longrightarrow> view (snd (ReadInt64Vector P p)) = tl (view p)"
    "is_String16Vector (hd (view p)) \<Longrightarrow> fst (ReadString16Vector P p) = Some (the_string16s (hd (view p)))"
    "is_String16Vector (hd (view p)) \<Longrightarrow> view (snd (ReadString16Vector P p)) = tl (view p)"
    "is_ExtraData (hd (view p)) \<Longrightarrow> fst (ReadParcelable P p) = Some (the_extra (hd (view p)))"
    "is_ExtraData (hd (view p)) \<Longrightarrow> view (snd (ReadParcelable P p)) = tl (view p)"
  using assms by (auto simp: parcel_laws_def reads_def neq_Nil_conv is_Token_def is_Int32_def is_Int64_def is_Bool_def is_String_def
      is_String16_def is_Object_def is_Int32Vector_def is_Int64Vector_def is_String16Vector_def is_ExtraData_def)

section \<open>Marshalling of structures\<close>

text \<open>How the items of a structure follow from the items of its parts.\<close>

lemma fst_run: "fst (run_state m s) = eval_st m s" and snd_run: "snd (run_state m s) = exec m s"
  by (simp_all add: eval_st_def exec_def)

lemma writes_iff: "writes view (run_state m) is \<longleftrightarrow> (\<forall>p. eval_st m p \<and> view (exec m p) = view p @ is)"
  by (simp add: writes_def fst_run snd_run)

lemma reads_iff: "reads view (run_state m) is v \<longleftrightarrow> (\<forall>p js. view p = is @ js \<longrightarrow> eval_st m p = v \<and> view (exec m p) = js)"
  by (simp add: reads_def fst_run snd_run)

lemma writes_ret: "writes view (run_state (ret True)) []"
  by (simp add: writes_iff run_simps)

lemma writes_or:
  "writes view (run_state m) is \<Longrightarrow> writes view (run_state k) js \<Longrightarrow> writes view (run_state (write_or m False k)) (is @ js)"
  by (simp add: writes_iff run_simps)

lemma writes_all:
  "(\<And>x. x \<in> set xs \<Longrightarrow> writes view (run_state (w x)) (enc x)) \<Longrightarrow> writes view (run_state (write_all w xs)) (concat (map enc xs))"
  by (induction xs) (simp_all add: writes_iff run_simps)

lemma reads_ret: "reads view (run_state (ret v)) [] v"
  by (simp add: reads_iff run_simps)

lemma reads_or:
  "reads view (run_state m) is (Some v) \<Longrightarrow> reads view (run_state (k v)) js w \<Longrightarrow> reads view (run_state (read_or m e k)) (is @ js) w"
  by (simp add: reads_iff run_simps)

lemma reads_bind:
  "reads view (run_state m) is v \<Longrightarrow> reads view (run_state (k v)) js w \<Longrightarrow> reads view (run_state (m \<bind> k)) (is @ js) w"
  by (simp add: reads_iff run_simps)

lemma reads_n:
  assumes "\<And>x. x \<in> set xs \<Longrightarrow> reads view (run_state r) (enc x) (Some x)"
  shows "reads view (run_state (read_n (length xs) r)) (concat (map enc xs)) (True, xs)"
  using assms
proof (induction xs)
  case (Cons x xs)
  then have "reads view (run_state (read_n (length xs) r)) (concat (map enc xs)) (True, xs)"
    and "reads view (run_state r) (enc x) (Some x)" by simp_all
  then show ?case unfolding reads_iff by (simp add: run_simps)
qed (simp add: reads_iff run_simps)

text \<open>A loop that reads never returns more elements than it is told to read, whatever the parcel holds.\<close>
lemma read_n_length: "length (snd (eval_st (read_n n r) s)) \<le> n"
proof (induction n arbitrary: s)
  case (Suc n)
  show ?case using Suc [of "exec r s"] by (simp add: run_simps split_beta split: option.split)
qed (simp add: run_simps)

end
