(* ===== verification/On_Demand_Codec.thy ===== *)
theory On_Demand_Codec
  imports Parcel
begin

text \<open>
  The codec of on-demand policies, \<^verbatim>\<open>frameworks/native/source/system_ability_on_demand_event.cpp\<close>: the list of
  events, each with its list of conditions, written to and read from a parcel. The reader bounds both list
  sizes by the number of readable bytes before it reads the elements.
\<close>

section \<open>The structures\<close>

record SystemAbilityOnDemandCondition =
  odc_eventId :: int
  odc_name :: string
  odc_value :: string

record SystemAbilityOnDemandEvent =
  ode_eventId :: int
  ode_name :: string
  ode_value :: string
  ode_persistence :: bool
  ode_conditions :: "SystemAbilityOnDemandCondition list"
  ode_enableOnce :: bool

section \<open>Writing\<close>

definition WriteOnDemandConditionToParcel :: "'p ipc_ops \<Rightarrow> SystemAbilityOnDemandCondition \<Rightarrow> ('p, bool) state" where
  "WriteOnDemandConditionToParcel P condition =
     write_or (State (WriteInt32 P (odc_eventId condition))) False (
     write_or (State (WriteString P (odc_name condition))) False (
     write_or (State (WriteString P (odc_value condition))) False (ret True)))"

definition WriteOnDemandEventToParcel :: "'p ipc_ops \<Rightarrow> SystemAbilityOnDemandEvent \<Rightarrow> ('p, bool) state" where
  "WriteOnDemandEventToParcel P event =
     write_or (State (WriteInt32 P (ode_eventId event))) False (
     write_or (State (WriteString P (ode_name event))) False (
     write_or (State (WriteString P (ode_value event))) False (ret True)))"

definition WriteOnDemandEventsToParcel :: "'p ipc_ops \<Rightarrow> SystemAbilityOnDemandEvent list \<Rightarrow> ('p, bool) state" where
  "WriteOnDemandEventsToParcel P events =
     write_or (State (WriteInt32 P (to_int32 (int (length events))))) False (
     write_all (\<lambda>event.
       write_or (WriteOnDemandEventToParcel P event) False (
       write_or (State (WriteBool P (ode_persistence event))) False (
       write_or (State (WriteInt32 P (to_int32 (int (length (ode_conditions event)))))) False (
       write_or (write_all (WriteOnDemandConditionToParcel P) (ode_conditions event)) False (
       write_or (State (WriteBool P (ode_enableOnce event))) False (ret True)))))) events)"

section \<open>Reading\<close>

text \<open>\<^verbatim>\<open>static_cast<size_t>(size) > parcel.GetReadableBytes() || size < 0\<close>\<close>
definition bad_size :: "'p ipc_ops \<Rightarrow> int \<Rightarrow> 'p \<Rightarrow> bool" where
  "bad_size P n p \<longleftrightarrow> to_uint64 n > int (GetReadableBytes P p) \<or> n < 0"

definition ReadOnDemandConditionFromParcel :: "'p ipc_ops \<Rightarrow> ('p, SystemAbilityOnDemandCondition option) state" where
  "ReadOnDemandConditionFromParcel P =
     read_or (State (ReadInt32 P)) None (\<lambda>eventId.
     read_or (State (ReadString P)) None (\<lambda>name.
     read_or (State (ReadString P)) None (\<lambda>value.
     ret (Some \<lparr> odc_eventId = eventId, odc_name = name, odc_value = value \<rparr>))))"

text \<open>The three members that \<^verbatim>\<open>ReadOnDemandEventFromParcel\<close> fills in.\<close>
definition ReadOnDemandEventFromParcel :: "'p ipc_ops \<Rightarrow> ('p, (int \<times> string \<times> string) option) state" where
  "ReadOnDemandEventFromParcel P =
     read_or (State (ReadInt32 P)) None (\<lambda>eventId.
     read_or (State (ReadString P)) None (\<lambda>name.
     read_or (State (ReadString P)) None (\<lambda>value.
     ret (Some (eventId, name, value)))))"

text \<open>One turn of the loop over the events: \<open>None\<close> when it returns \<^verbatim>\<open>false\<close>.\<close>
definition read_event :: "'p ipc_ops \<Rightarrow> ('p, SystemAbilityOnDemandEvent option) state" where
  "read_event P =
     read_or (ReadOnDemandEventFromParcel P) None (\<lambda>(eventId, name, value).
     read_or (State (ReadBool P)) None (\<lambda>persist.
     read_or (State (ReadInt32 P)) None (\<lambda>conditionsSize. do {
       bad \<leftarrow> gets (bad_size P conditionsSize);
       if bad then ret None
       else do {
         (ok, conds) \<leftarrow> read_n (nat conditionsSize) (ReadOnDemandConditionFromParcel P);
         if \<not> ok then ret None
         else read_or (State (ReadBool P)) None (\<lambda>once.
           ret (Some \<lparr> ode_eventId = eventId, ode_name = name, ode_value = value, ode_persistence = persist,
             ode_conditions = conds, ode_enableOnce = once \<rparr>)) } })))"

text \<open>The vector that the caller passes in is appended to, also when the function returns \<^verbatim>\<open>false\<close>.\<close>
definition ReadOnDemandEventsFromParcel ::
  "'p ipc_ops \<Rightarrow> SystemAbilityOnDemandEvent list \<Rightarrow> ('p, bool \<times> SystemAbilityOnDemandEvent list) state" where
  "ReadOnDemandEventsFromParcel P events = read_or (State (ReadInt32 P)) (False, events) (\<lambda>n. do {
     bad \<leftarrow> gets (bad_size P n);
     if bad then ret (False, events)
     else do {
       (ok, evs) \<leftarrow> read_n (nat n) (read_event P);
       ret (ok, events @ evs) } })"

section \<open>The items of a policy\<close>

definition condition_items :: "SystemAbilityOnDemandCondition \<Rightarrow> item list" where
  "condition_items c = [Int32 (odc_eventId c), String (odc_name c), String (odc_value c)]"

definition event_items :: "SystemAbilityOnDemandEvent \<Rightarrow> item list" where
  "event_items v = [Int32 (ode_eventId v), String (ode_name v), String (ode_value v), Bool (ode_persistence v),
     Int32 (to_int32 (int (length (ode_conditions v))))] @ concat (map condition_items (ode_conditions v)) @ [Bool (ode_enableOnce v)]"

definition policy_items :: "SystemAbilityOnDemandEvent list \<Rightarrow> item list" where
  "policy_items vs = Int32 (to_int32 (int (length vs))) # concat (map event_items vs)"

text \<open>Lists whose sizes fit the 32-bit counters of the format.\<close>
definition policy_fits :: "SystemAbilityOnDemandEvent list \<Rightarrow> bool" where
  "policy_fits vs \<longleftrightarrow> int (length vs) < 2 ^ 31 \<and> (\<forall>v \<in> set vs. int (length (ode_conditions v)) < 2 ^ 31)"

lemma to_int32_size: "int n < 2 ^ 31 \<Longrightarrow> to_int32 (int n) = int n"
  by (rule to_int32_id) (simp add: is_int32_def)

lemma length_concat_ge: "(\<And>x. x \<in> set xs \<Longrightarrow> enc x \<noteq> []) \<Longrightarrow> length xs \<le> length (concat (map enc xs))"
  by (induction xs) (auto simp: Suc_le_eq add_less_le_mono intro: trans_le_add2 add_le_mono [of 1, simplified])

text \<open>A size that is at most the number of items still in the parcel passes the check.\<close>
lemma good_size:
  assumes "parcel_laws P view" and "n \<le> length (view p)" and "int n < 2 ^ 31"
  shows "\<not> bad_size P (int n) p"
proof -
  have "n \<le> GetReadableBytes P p" using write_rules(22) [OF assms(1), of p] assms(2) by linarith
  moreover have "to_uint64 (int n) = int n" using assms(3) by (intro to_uint64_nonneg) auto
  ultimately show ?thesis by (simp add: bad_size_def)
qed

lemma event_items_nonempty: "event_items v \<noteq> []" and condition_items_nonempty: "condition_items c \<noteq> []"
  by (simp_all add: event_items_def condition_items_def)

lemma condition_written:
  assumes "parcel_laws P view"
  shows "writes view (run_state (WriteOnDemandConditionToParcel P c)) (condition_items c)"
  unfolding writes_iff WriteOnDemandConditionToParcel_def
  by (simp add: run_simps write_rules [OF assms] condition_items_def)

lemma event_written:
  assumes "parcel_laws P view"
  shows "writes view (run_state (WriteOnDemandEventToParcel P v)) [Int32 (ode_eventId v), String (ode_name v), String (ode_value v)]"
  unfolding writes_iff WriteOnDemandEventToParcel_def
  by (simp add: run_simps write_rules [OF assms])

lemma policy_written:
  assumes laws: "parcel_laws P view"
  shows "writes view (run_state (WriteOnDemandEventsToParcel P vs)) (policy_items vs)"
proof -
  have prim: "writes view (run_state (State (WriteBool P b))) [Bool b]" "writes view (run_state (State (WriteInt32 P i))) [Int32 i]" for b i
    unfolding writes_iff by (simp_all add: run_simps write_rules [OF laws])
  note parts = writes_or [OF event_written [OF laws]] writes_or [OF prim(1)] writes_or [OF prim(2)]
    writes_or [OF writes_all [OF condition_written [OF laws]]] writes_ret
  have "writes view (run_state (
       write_or (WriteOnDemandEventToParcel P event) False (
       write_or (State (WriteBool P (ode_persistence event))) False (
       write_or (State (WriteInt32 P (to_int32 (int (length (ode_conditions event)))))) False (
       write_or (write_all (WriteOnDemandConditionToParcel P) (ode_conditions event)) False (
       write_or (State (WriteBool P (ode_enableOnce event))) False (ret True))))))) (event_items event)" for event
    using parts(1) [OF parts(2) [OF parts(3) [OF parts(4) [OF parts(2) [OF writes_ret]]]]]
    by (simp add: event_items_def)
  then show ?thesis
    unfolding WriteOnDemandEventsToParcel_def policy_items_def
    using writes_or [OF prim(2) writes_all] by fastforce
qed

lemma condition_read:
  assumes "parcel_laws P view"
  shows "reads view (run_state (ReadOnDemandConditionFromParcel P)) (condition_items c) (Some c)"
  unfolding reads_iff ReadOnDemandConditionFromParcel_def
  by (simp add: run_simps read_rules [OF assms] condition_items_def)

lemma event_read:
  assumes laws: "parcel_laws P view" and fits: "int (length (ode_conditions v)) < 2 ^ 31"
  shows "reads view (run_state (read_event P)) (event_items v) (Some v)"
  unfolding reads_iff
proof (intro allI impI)
  fix p js
  assume v: "view p = event_items v @ js"
  let ?p = "snd (ReadInt32 P (snd (ReadBool P (snd (ReadString P (snd (ReadString P (snd (ReadInt32 P p)))))))))"
  have p: "view ?p = concat (map condition_items (ode_conditions v)) @ Bool (ode_enableOnce v) # js"
    using v by (simp add: read_rules [OF laws] event_items_def)
  have "length (ode_conditions v) \<le> length (view ?p)"
    using length_concat_ge [of "ode_conditions v" condition_items] by (simp add: p condition_items_nonempty)
  then have "\<not> bad_size P (int (length (ode_conditions v))) ?p" by (rule good_size [OF laws _ fits])
  moreover have "eval_st (read_n (length (ode_conditions v)) (ReadOnDemandConditionFromParcel P)) ?p = (True, ode_conditions v)"
    "view (exec (read_n (length (ode_conditions v)) (ReadOnDemandConditionFromParcel P)) ?p) = Bool (ode_enableOnce v) # js"
    using reads_n [OF condition_read [OF laws], of "ode_conditions v"] p unfolding reads_iff by blast+
  ultimately show "eval_st (read_event P) p = Some v \<and> view (exec (read_event P) p) = js"
    using v fits unfolding read_event_def ReadOnDemandEventFromParcel_def
    by (simp add: run_simps read_rules [OF laws] event_items_def to_int32_size)
qed

lemma policy_read:
  assumes laws: "parcel_laws P view" and fits: "policy_fits vs"
  shows "reads view (run_state (ReadOnDemandEventsFromParcel P evs)) (policy_items vs) (True, evs @ vs)"
  unfolding reads_iff
proof (intro allI impI)
  fix p js
  assume v: "view p = policy_items vs @ js"
  let ?p = "snd (ReadInt32 P p)"
  have p: "view ?p = concat (map event_items vs) @ js"
    using v by (simp add: read_rules [OF laws] policy_items_def)
  have "length vs \<le> length (view ?p)"
    using length_concat_ge [of vs event_items] by (simp add: p event_items_nonempty)
  then have "\<not> bad_size P (int (length vs)) ?p" using fits good_size [OF laws] by (simp add: policy_fits_def)
  moreover have "eval_st (read_n (length vs) (read_event P)) ?p = (True, vs)" "view (exec (read_n (length vs) (read_event P)) ?p) = js"
    using reads_n [of vs view "read_event P" event_items] event_read [OF laws] p fits unfolding reads_iff policy_fits_def by blast+
  ultimately show "eval_st (ReadOnDemandEventsFromParcel P evs) p = (True, evs @ vs) \<and> view (exec (ReadOnDemandEventsFromParcel P evs) p) = js"
    using v fits unfolding ReadOnDemandEventsFromParcel_def
    by (simp add: run_simps read_rules [OF laws] policy_items_def to_int32_size policy_fits_def)
qed

text \<open>Whatever the parcel holds, the reader returns at most as many new events as the parcel has bytes to read.\<close>
definition reads_int32 :: "'p ipc_ops \<Rightarrow> bool" where
  "reads_int32 P \<longleftrightarrow> (\<forall>p. pred_option is_int32 (fst (ReadInt32 P p)))"

lemma good_size_bound:
  assumes "\<not> bad_size P n p" and "is_int32 n"
  shows "0 \<le> n" "nat n \<le> GetReadableBytes P p"
proof -
  show "0 \<le> n" using assms by (simp add: bad_size_def)
  moreover have "to_uint64 n = n" using assms \<open>0 \<le> n\<close> by (intro to_uint64_nonneg) (auto simp: is_int32_def)
  ultimately show "nat n \<le> GetReadableBytes P p" using assms by (simp add: bad_size_def)
qed

lemma policy_bounded:
  assumes "reads_int32 P"
  shows "length (snd (eval_st (ReadOnDemandEventsFromParcel P evs) p)) \<le> length evs + GetReadableBytes P (snd (ReadInt32 P p))"
proof (cases "fst (ReadInt32 P p)")
  case (Some n)
  show ?thesis
  proof (cases "bad_size P n (snd (ReadInt32 P p))")
    case False
    have "pred_option is_int32 (fst (ReadInt32 P p))" using assms by (simp add: reads_int32_def)
    then have "is_int32 n" by (simp add: Some)
    then have "nat n \<le> GetReadableBytes P (snd (ReadInt32 P p))" using good_size_bound(2) [OF False] by simp
    then show ?thesis
      using False read_n_length [of "nat n" "read_event P" "snd (ReadInt32 P p)"]
      by (simp add: ReadOnDemandEventsFromParcel_def run_simps Some split_beta)
  qed (simp add: ReadOnDemandEventsFromParcel_def run_simps Some)
qed (simp add: ReadOnDemandEventsFromParcel_def run_simps)

end
