(* ===== verification/Stub.thy ===== *)
theory Stub
  imports Manager On_Demand_Codec
begin

text \<open>
  The IPC stub of the service, \<^verbatim>\<open>system_ability_manager_stub.cpp\<close>: one handler per request code, which checks
  the permissions of the caller, reads the arguments from the request, calls the virtual method that
  implements the request and writes the result to the reply.

  The virtual methods are the record \<open>sam_methods\<close>, over any state \<open>'s\<close> of the object; a by-reference result of
  a method is part of its result. The record \<open>caller\<close> holds what the access token kit, SELinux, the IPC skeleton
  and the build configuration answer about the caller. Logging, tracing, the watchdog timer \<^verbatim>\<open>SamgrXCollie\<close>
  and the fault reports are left out.
\<close>

section \<open>The interface\<close>

record SAExtraProp =
  ep_isDistributed :: bool
  ep_dumpFlags :: int
  ep_capability :: u16string
  ep_permission :: u16string

record SaExtensionInfo =
  ext_saId :: int
  ext_processObj :: "obj option"

record ('p, 's) sam_methods =
  m_ListSystemAbilities :: "int \<Rightarrow> ('s, u16string list) state"
  m_SubscribeSystemAbility :: "int \<Rightarrow> iface \<Rightarrow> ('s, int) state"
  m_UnSubscribeSystemAbility :: "int \<Rightarrow> iface \<Rightarrow> ('s, int) state"
  m_GetSystemAbility :: "int \<Rightarrow> ('s, obj option) state"
  m_GetSystemAbilityRemote :: "int \<Rightarrow> string \<Rightarrow> ('s, obj option) state"
  m_CheckSystemAbility :: "int \<Rightarrow> ('s, obj option) state"
  m_CheckSystemAbilityExist :: "int \<Rightarrow> bool \<Rightarrow> ('s, obj option \<times> bool) state"
  m_AddOnDemandSystemAbilityInfo :: "int \<Rightarrow> u16string \<Rightarrow> ('s, int) state"
  m_AddSystemAbility :: "int \<Rightarrow> obj \<Rightarrow> SAExtraProp \<Rightarrow> ('s, int) state"
  m_RemoveSystemAbility :: "int \<Rightarrow> ('s, int) state"
  m_AddSystemProcess :: "u16string \<Rightarrow> obj \<Rightarrow> ('s, int) state"
  m_LoadSystemAbility :: "int \<Rightarrow> iface \<Rightarrow> ('s, int) state"
  m_LoadRemoteSystemAbility :: "int \<Rightarrow> string \<Rightarrow> iface \<Rightarrow> ('s, int) state"
  m_UnloadSystemAbility :: "int \<Rightarrow> ('s, int) state"
  m_CancelUnloadSystemAbility :: "int \<Rightarrow> ('s, int) state"
  m_UnloadAllIdleSystemAbility :: "('s, int) state"
  m_UnloadProcess :: "u16string list \<Rightarrow> ('s, int) state"
  m_GetLruIdleSystemAbilityProc :: "('s, int \<times> IdleProcessInfo list) state"
  m_OnStartSystemAbilityFail :: "int \<Rightarrow> int \<Rightarrow> ('s, int) state"
  m_GetSystemProcessInfo :: "int \<Rightarrow> ('s, int \<times> SystemProcessInfo) state"
  m_GetRunningSystemProcess :: "('s, int \<times> SystemProcessInfo list) state"
  m_SubscribeSystemProcess :: "iface \<Rightarrow> ('s, int) state"
  m_UnSubscribeSystemProcess :: "iface \<Rightarrow> ('s, int) state"
  m_SubscribeLowMemSystemProcess :: "iface \<Rightarrow> ('s, int) state"
  m_UnSubscribeLowMemSystemProcess :: "iface \<Rightarrow> ('s, int) state"
  m_GetOnDemandReasonExtraData :: "int \<Rightarrow> 'p \<Rightarrow> ('s, int \<times> 'p) state"
  m_GetOnDemandPolicy :: "int \<Rightarrow> int \<Rightarrow> ('s, int \<times> SystemAbilityOnDemandEvent list) state"
  m_UpdateOnDemandPolicy :: "int \<Rightarrow> int \<Rightarrow> SystemAbilityOnDemandEvent list \<Rightarrow> ('s, int) state"
  m_SendStrategy :: "int \<Rightarrow> int list \<Rightarrow> int \<Rightarrow> string \<Rightarrow> ('s, int) state"
  m_GetOnDemandSystemAbilityIds :: "('s, int \<times> int list) state"
  m_GetExtensionSaIds :: "string \<Rightarrow> ('s, int \<times> int list) state"
  m_GetExtensionRunningSaList :: "string \<Rightarrow> ('s, int \<times> obj option list) state"
  m_GetRunningSaExtensionInfoList :: "string \<Rightarrow> ('s, int \<times> SaExtensionInfo list) state"
  m_GetCommonEventExtraDataIdlist :: "int \<Rightarrow> string \<Rightarrow> ('s, int \<times> int list) state"
  m_GetLocalAbilityManagerProxy :: "int \<Rightarrow> ('s, obj option) state"
  m_SetSamgrIpcPrior :: "bool \<Rightarrow> ('s, int) state"
  m_OnUserStateChanged :: "int \<Rightarrow> int \<Rightarrow> ('s, int) state"
  m_GetSystemAbilityUser :: "int \<Rightarrow> int \<Rightarrow> ('s, obj option) state"
  m_CheckSystemAbilityUser :: "int \<Rightarrow> int \<Rightarrow> ('s, obj option) state"
  m_CheckSystemAbilityByUserId :: "int \<Rightarrow> bool \<Rightarrow> int \<Rightarrow> ('s, obj option \<times> bool) state"
  m_GetSystemProcessInfoUser :: "int \<Rightarrow> int \<Rightarrow> ('s, int \<times> SystemProcessInfo) state"
  m_GetLocalAbilityManagerProxyUser :: "int \<Rightarrow> int \<Rightarrow> ('s, obj option) state"
  m_LoadSystemAbilityUser :: "int \<Rightarrow> iface \<Rightarrow> int \<Rightarrow> ('s, int) state"
  m_SubscribeSystemAbilityUser :: "int \<Rightarrow> iface \<Rightarrow> int \<Rightarrow> ('s, int) state"
  m_UnSubscribeSystemAbilityUser :: "int \<Rightarrow> iface \<Rightarrow> int \<Rightarrow> ('s, int) state"
  m_SubscribeSystemProcessUser :: "iface \<Rightarrow> int \<Rightarrow> ('s, int) state"
  m_UnSubscribeSystemProcessUser :: "iface \<Rightarrow> int \<Rightarrow> ('s, int) state"

definition USER_STATE_ACTIVATING :: int where "USER_STATE_ACTIVATING = 0"
definition USER_STATE_SWITCHING :: int where "USER_STATE_SWITCHING = 1"
definition USER_STATE_STOPPING :: int where "USER_STATE_STOPPING = 2"

section \<open>Permissions of the caller\<close>

datatype ATokenTypeEnum = TOKEN_NATIVE | OTHER_TOKEN int

record caller =
  c_env :: env
  c_tokenType :: ATokenTypeEnum \<comment> \<open>\<^verbatim>\<open>AccessTokenKit::GetTokenTypeFlag\<close>\<close>
  c_granted :: "string \<Rightarrow> bool" \<comment> \<open>\<^verbatim>\<open>AccessTokenKit::VerifyAccessToken\<close> says \<^verbatim>\<open>PERMISSION_GRANTED\<close>\<close>
  c_selinux :: bool \<comment> \<open>\<^verbatim>\<open>WITH_SELINUX\<close>\<close>
  c_getServiceCheck :: "string \<Rightarrow> int"
  c_addServiceCheck :: "string \<Rightarrow> int"
  c_getRemoteServiceCheck :: "string \<Rightarrow> int"
  c_addRemoteServiceCheck :: "string \<Rightarrow> int"
  c_listServiceCheck :: int
  c_isPengLai :: bool \<comment> \<open>\<^verbatim>\<open>SUPPORT_PENGLAI_MODE\<close> and \<^verbatim>\<open>isPengLai_\<close>\<close>
  c_penglaiFunc :: "(int \<Rightarrow> int \<Rightarrow> bool) option"
  c_cast :: "obj \<Rightarrow> iface option" \<comment> \<open>\<^verbatim>\<open>iface_cast\<close> to the interface the handler expects\<close>
  c_tid :: int
  c_multi :: bool \<comment> \<open>\<^verbatim>\<open>SUPPORT_MULTI_INSTANCE\<close>\<close>

definition CheckGetSAPermission :: "caller \<Rightarrow> int \<Rightarrow> bool" where
  "CheckGetSAPermission c said \<longleftrightarrow> (if c_selinux c then c_getServiceCheck c (to_string said) = 0 else True)"

definition CheckAddOrRemovePermission :: "caller \<Rightarrow> int \<Rightarrow> bool" where
  "CheckAddOrRemovePermission c said \<longleftrightarrow> (if c_selinux c then c_addServiceCheck c (to_string said) = 0 else True)"

definition CheckGetRemoteSAPermission :: "caller \<Rightarrow> int \<Rightarrow> bool" where
  "CheckGetRemoteSAPermission c said \<longleftrightarrow> (if c_selinux c then c_getRemoteServiceCheck c (to_string said) = 0 else True)"

definition CheckAddRemoteSAPermission :: "caller \<Rightarrow> int \<Rightarrow> bool" where
  "CheckAddRemoteSAPermission c said \<longleftrightarrow> (if c_selinux c then c_addRemoteServiceCheck c (to_string said) = 0 else True)"

definition CheckListSAPermission :: "caller \<Rightarrow> bool" where
  "CheckListSAPermission c \<longleftrightarrow> (if c_selinux c then c_listServiceCheck c = 0 else True)"

definition CanRequest :: "caller \<Rightarrow> bool" where
  "CanRequest c \<longleftrightarrow> c_tokenType c = TOKEN_NATIVE"

definition CheckPermission :: "caller \<Rightarrow> string \<Rightarrow> bool" where
  "CheckPermission c permission \<longleftrightarrow> c_granted c permission"

definition CheckPengLaiPermission :: "caller \<Rightarrow> int \<Rightarrow> bool" where
  "CheckPengLaiPermission c said \<longleftrightarrow> (case c_penglaiFunc c of None \<Rightarrow> True | Some f \<Rightarrow> f (e_callingUid (c_env c)) said)"

definition EXT_TRANSACTION_PERMISSION :: string where
  "EXT_TRANSACTION_PERMISSION = ''ohos.permission.ACCESS_EXT_SYSTEM_ABILITY''"

definition PERMISSION_SVC :: string where
  "PERMISSION_SVC = ''ohos.permission.CONTROL_SVC_CMD''"

definition TransformDeviceId :: "string \<Rightarrow> bool \<Rightarrow> string" where
  "TransformDeviceId dev isPrivate = (if isPrivate then [] else dev)"

text \<open>\<^verbatim>\<open>if (isPengLai_ && !SamgrUtil::CheckPengLaiPermission(systemAbilityId)) return ERR_PERMISSION_DENIED;\<close>\<close>
definition penglai_ok :: "caller \<Rightarrow> int \<Rightarrow> bool" where
  "penglai_ok c said \<longleftrightarrow> \<not> (c_isPengLai c \<and> \<not> CheckPengLaiPermission c said)"

section \<open>Common steps of the handlers\<close>

abbreviation OK :: "'p ipc_ops \<Rightarrow> int" where "OK P \<equiv> err P ERR_OK"
abbreviation NULL_OBJECT :: "'p ipc_ops \<Rightarrow> int" where "NULL_OBJECT P \<equiv> err P ERR_NULL_OBJECT"
abbreviation FLATTEN_OBJECT :: "'p ipc_ops \<Rightarrow> int" where "FLATTEN_OBJECT P \<equiv> err P ERR_FLATTEN_OBJECT"
abbreviation INVALID_VALUE :: "'p ipc_ops \<Rightarrow> int" where "INVALID_VALUE P \<equiv> err P ERR_INVALID_VALUE"
abbreviation DENIED :: "'p ipc_ops \<Rightarrow> int" where "DENIED P \<equiv> err P ERR_PERMISSION_DENIED"

text \<open>The identifier is read and checked; both failures return \<open>e\<close>.\<close>
definition read_said :: "'p ipc_ops \<Rightarrow> int \<Rightarrow> (int \<Rightarrow> ('p, 's, int) C) \<Rightarrow> ('p, 's, int) C" where
  "read_said P e k = read_or (on_data (ReadInt32 P)) e (\<lambda>said. check_or (CheckInputSysAbilityId said) e (k said))"

text \<open>A remote object is read and cast to the interface; both failures return \<open>e\<close>.\<close>
definition read_iface :: "'p ipc_ops \<Rightarrow> caller \<Rightarrow> int \<Rightarrow> (iface \<Rightarrow> ('p, 's, int) C) \<Rightarrow> ('p, 's, int) C" where
  "read_iface P c e k = read_or (on_data (ReadRemoteObject P)) e (\<lambda>remoteObject. case c_cast c remoteObject of None \<Rightarrow> ret e | Some l \<Rightarrow> k l)"

text \<open>The result is written to the reply and returned.\<close>
definition answer :: "'p ipc_ops \<Rightarrow> int \<Rightarrow> ('p, 's, int) C" where
  "answer P result = write_or (on_reply (WriteInt32 P result)) (FLATTEN_OBJECT P) (ret result)"

text \<open>The result is written to the reply and the transaction succeeds.\<close>
definition answer_ok :: "'p ipc_ops \<Rightarrow> int \<Rightarrow> ('p, 's, int) C" where
  "answer_ok P result = write_or (on_reply (WriteInt32 P result)) (FLATTEN_OBJECT P) (ret (OK P))"

definition answer_object :: "'p ipc_ops \<Rightarrow> obj option \<Rightarrow> ('p, 's, int) C" where
  "answer_object P remoteObject = (case remoteObject of
       None \<Rightarrow> ret (NULL_OBJECT P)
     | Some x \<Rightarrow> write_or (on_reply (WriteRemoteObject P (Some x))) (FLATTEN_OBJECT P) (ret (OK P)))"

definition SAMANAGER_INTERFACE_TOKEN :: u16string where
  "SAMANAGER_INTERFACE_TOKEN = u16 ''ohos.samgr.accessToken''"

end
