(* ===== verification/Stub_Handlers.thy ===== *)
theory Stub_Handlers
  imports Stub
begin

text \<open>
  The request handlers of \<^verbatim>\<open>system_ability_manager_stub.cpp\<close>, the table that maps request codes to them, and
  \<^verbatim>\<open>OnRemoteRequest\<close>. A handler is a program over the request, the reply and the state of the service object.
\<close>

section \<open>Abilities\<close>

definition ListSystemAbilityInner :: "'p ipc_ops \<Rightarrow> caller \<Rightarrow> ('p, 's) sam_methods \<Rightarrow> ('p, 's, int) C" where
  "ListSystemAbilityInner P c m =
     check_or (CanRequest c) (DENIED P) (
     check_or (CheckListSAPermission c) (DENIED P) (
     read_or (on_data (ReadInt32 P)) (FLATTEN_OBJECT P) (\<lambda>dumpFlag. do {
       saNameVector \<leftarrow> invoke (m_ListSystemAbilities m (to_uint32 dumpFlag));
       if saNameVector = [] then write_or (on_reply (WriteInt32 P (INVALID_VALUE P))) (FLATTEN_OBJECT P) (ret (OK P))
       else write_or (on_reply (WriteInt32 P (OK P))) (FLATTEN_OBJECT P) (
            write_or (on_reply (WriteString16Vector P saNameVector)) (FLATTEN_OBJECT P) (ret (OK P))) })))"

definition SubsSystemAbilityInner :: "'p ipc_ops \<Rightarrow> caller \<Rightarrow> ('p, 's) sam_methods \<Rightarrow> ('p, 's, int) C" where
  "SubsSystemAbilityInner P c m =
     read_said P (NULL_OBJECT P) (\<lambda>said.
     read_iface P c (NULL_OBJECT P) (\<lambda>listener. do {
       result \<leftarrow> invoke (m_SubscribeSystemAbility m said listener);
       answer P result }))"

definition UnSubsSystemAbilityInner :: "'p ipc_ops \<Rightarrow> caller \<Rightarrow> ('p, 's) sam_methods \<Rightarrow> ('p, 's, int) C" where
  "UnSubsSystemAbilityInner P c m =
     read_said P (NULL_OBJECT P) (\<lambda>said.
     read_iface P c (NULL_OBJECT P) (\<lambda>listener. do {
       result \<leftarrow> invoke (m_UnSubscribeSystemAbility m said listener);
       answer P result }))"

definition CheckRemtSystemAbilityInner :: "'p ipc_ops \<Rightarrow> caller \<Rightarrow> ('p, 's) sam_methods \<Rightarrow> ('p, 's, int) C" where
  "CheckRemtSystemAbilityInner P c m =
     check_or (CanRequest c) (DENIED P) (
     read_said P (NULL_OBJECT P) (\<lambda>said.
     check_or (penglai_ok c said) (DENIED P) (
     check_or (CheckGetRemoteSAPermission c said) (DENIED P) (
     read_or (on_data (ReadString P)) (FLATTEN_OBJECT P) (\<lambda>dev. do {
       let uuid = TransformDeviceId dev False;
       remoteObject \<leftarrow> invoke (m_GetSystemAbilityRemote m said uuid);
       answer_object P remoteObject })))))"

definition AddOndemandSystemAbilityInner :: "'p ipc_ops \<Rightarrow> caller \<Rightarrow> ('p, 's) sam_methods \<Rightarrow> ('p, 's, int) C" where
  "AddOndemandSystemAbilityInner P c m =
     check_or (CanRequest c) (DENIED P) (
     read_said P (NULL_OBJECT P) (\<lambda>said.
     check_or (CheckAddOrRemovePermission c said) (DENIED P) (do {
       localManagerName \<leftarrow> on_data (or_default [] (ReadString16 P));
       check_or (localManagerName \<noteq> []) (NULL_OBJECT P) (do {
         result \<leftarrow> invoke (m_AddOnDemandSystemAbilityInfo m said localManagerName);
         answer P result }) })))"

definition CheckSystemAbilityImmeInner :: "'p ipc_ops \<Rightarrow> caller \<Rightarrow> ('p, 's) sam_methods \<Rightarrow> ('p, 's, int) C" where
  "CheckSystemAbilityImmeInner P c m =
     read_said P (NULL_OBJECT P) (\<lambda>said.
     check_or (penglai_ok c said) (DENIED P) (
     check_or (CheckGetSAPermission c said) (DENIED P) (
     read_or (on_data (ReadBool P)) (FLATTEN_OBJECT P) (\<lambda>isExist. do {
       (remoteObject, isExist) \<leftarrow> invoke (m_CheckSystemAbilityExist m said isExist);
       case remoteObject of
         None \<Rightarrow> ret (NULL_OBJECT P)
       | Some x \<Rightarrow>
           write_or (on_reply (WriteRemoteObject P (Some x))) (FLATTEN_OBJECT P) (
           write_or (on_reply (WriteBool P isExist)) (FLATTEN_OBJECT P) (ret (OK P))) }))))"

text \<open>The properties, or the error that the function returns.\<close>
definition UnmarshalingSaExtraProp :: "'p ipc_ops \<Rightarrow> ('p, 's, int + SAExtraProp) C" where
  "UnmarshalingSaExtraProp P =
     read_or (on_data (ReadBool P)) (Inl (FLATTEN_OBJECT P)) (\<lambda>isDistributed.
     read_or (on_data (ReadInt32 P)) (Inl (FLATTEN_OBJECT P)) (\<lambda>dumpFlags.
     check_or (dumpFlags \<ge> 0) (Inl (FLATTEN_OBJECT P)) (do {
       capability \<leftarrow> on_data (or_default [] (ReadString16 P));
       permission \<leftarrow> on_data (or_default [] (ReadString16 P));
       ret (Inr \<lparr> ep_isDistributed = isDistributed, ep_dumpFlags = to_uint32 dumpFlags,
         ep_capability = capability, ep_permission = permission \<rparr>) })))"

definition AddSystemAbilityInner :: "'p ipc_ops \<Rightarrow> caller \<Rightarrow> ('p, 's) sam_methods \<Rightarrow> ('p, 's, int) C" where
  "AddSystemAbilityInner P c m =
     check_or (CanRequest c) (DENIED P) (
     read_said P (NULL_OBJECT P) (\<lambda>said.
     check_or (CheckAddOrRemovePermission c said) (DENIED P) (
     read_or (on_data (ReadRemoteObject P)) (NULL_OBJECT P) (\<lambda>ob. do {
       r \<leftarrow> UnmarshalingSaExtraProp P;
       case r of
         Inl e \<Rightarrow> ret e
       | Inr extraProp \<Rightarrow>
           check_or (\<not> (ep_isDistributed extraProp \<and> \<not> CheckAddRemoteSAPermission c said)) (DENIED P) (do {
             result \<leftarrow> invoke (m_AddSystemAbility m said ob extraProp);
             answer P result }) }))))"

definition GetSystemAbilityInner :: "'p ipc_ops \<Rightarrow> caller \<Rightarrow> ('p, 's) sam_methods \<Rightarrow> ('p, 's, int) C" where
  "GetSystemAbilityInner P c m =
     read_said P (NULL_OBJECT P) (\<lambda>said.
     check_or (penglai_ok c said) (DENIED P) (
     check_or (CheckGetSAPermission c said) (DENIED P) (do {
       remoteObject \<leftarrow> invoke (m_GetSystemAbility m said);
       answer_object P remoteObject })))"

definition CheckSystemAbilityInner :: "'p ipc_ops \<Rightarrow> caller \<Rightarrow> ('p, 's) sam_methods \<Rightarrow> ('p, 's, int) C" where
  "CheckSystemAbilityInner P c m =
     read_said P (NULL_OBJECT P) (\<lambda>said.
     check_or (penglai_ok c said) (DENIED P) (
     check_or (CheckGetSAPermission c said) (DENIED P) (do {
       remoteObject \<leftarrow> invoke (m_CheckSystemAbility m said);
       answer_object P remoteObject })))"

definition RemoveSystemAbilityInner :: "'p ipc_ops \<Rightarrow> caller \<Rightarrow> ('p, 's) sam_methods \<Rightarrow> ('p, 's, int) C" where
  "RemoveSystemAbilityInner P c m =
     check_or (CanRequest c) (DENIED P) (
     read_said P (NULL_OBJECT P) (\<lambda>said.
     check_or (CheckAddOrRemovePermission c said) (DENIED P) (do {
       result \<leftarrow> invoke (m_RemoveSystemAbility m said);
       answer P result })))"

section \<open>Loading and unloading\<close>

definition LoadSACheck :: "'p ipc_ops \<Rightarrow> caller \<Rightarrow> int \<Rightarrow> int" where
  "LoadSACheck P c said =
     (if \<not> CheckInputSysAbilityId said then INVALID_VALUE P
      else if \<not> penglai_ok c said then DENIED P
      else if \<not> CheckGetSAPermission c said then DENIED P
      else OK P)"

definition LoadSystemAbilityInner :: "'p ipc_ops \<Rightarrow> caller \<Rightarrow> ('p, 's) sam_methods \<Rightarrow> ('p, 's, int) C" where
  "LoadSystemAbilityInner P c m =
     read_or (on_data (ReadInt32 P)) (INVALID_VALUE P) (\<lambda>said.
     check_or (LoadSACheck P c said = OK P) (LoadSACheck P c said) (
     read_iface P c (INVALID_VALUE P) (\<lambda>callback. do {
       result \<leftarrow> invoke (m_LoadSystemAbility m said callback);
       answer P result })))"

definition LoadRemoteSACheck :: "'p ipc_ops \<Rightarrow> caller \<Rightarrow> int \<Rightarrow> int" where
  "LoadRemoteSACheck P c said =
     (if \<not> CheckInputSysAbilityId said then INVALID_VALUE P
      else if \<not> penglai_ok c said then DENIED P
      else if \<not> CheckGetRemoteSAPermission c said then DENIED P
      else OK P)"

definition LoadRemoteSystemAbilityInner :: "'p ipc_ops \<Rightarrow> caller \<Rightarrow> ('p, 's) sam_methods \<Rightarrow> ('p, 's, int) C" where
  "LoadRemoteSystemAbilityInner P c m =
     read_or (on_data (ReadInt32 P)) (INVALID_VALUE P) (\<lambda>said.
     check_or (LoadRemoteSACheck P c said = OK P) (LoadRemoteSACheck P c said) (do {
       dev \<leftarrow> on_data (or_default [] (ReadString P));
       check_or (dev \<noteq> []) (INVALID_VALUE P) (
       read_iface P c (INVALID_VALUE P) (\<lambda>callback. do {
         result \<leftarrow> invoke (m_LoadRemoteSystemAbility m said dev callback);
         answer P result })) }))"

definition UnloadSystemAbilityInner :: "'p ipc_ops \<Rightarrow> ('p, 's) sam_methods \<Rightarrow> ('p, 's, int) C" where
  "UnloadSystemAbilityInner P m =
     read_said P (INVALID_VALUE P) (\<lambda>said. do {
       result \<leftarrow> invoke (m_UnloadSystemAbility m said);
       answer P result })"

definition CancelUnloadSystemAbilityInner :: "'p ipc_ops \<Rightarrow> ('p, 's) sam_methods \<Rightarrow> ('p, 's, int) C" where
  "CancelUnloadSystemAbilityInner P m =
     read_said P (INVALID_VALUE P) (\<lambda>said. do {
       result \<leftarrow> invoke (m_CancelUnloadSystemAbility m said);
       answer P result })"

definition UnloadAllIdleSystemAbilityInner :: "('p, 's) sam_methods \<Rightarrow> ('p, 's, int) C" where
  "UnloadAllIdleSystemAbilityInner m = invoke (m_UnloadAllIdleSystemAbility m)"

definition UnloadProcessInner :: "'p ipc_ops \<Rightarrow> caller \<Rightarrow> ('p, 's) sam_methods \<Rightarrow> ('p, 's, int) C" where
  "UnloadProcessInner P c m =
     check_or (CheckCallerProcessName (c_env c) ''memmgrservice'') (DENIED P) (
     read_or (on_data (ReadString16Vector P)) (NULL_OBJECT P) (\<lambda>processList. invoke (m_UnloadProcess m processList)))"

definition OnStartSystemAbilityFailInner :: "'p ipc_ops \<Rightarrow> caller \<Rightarrow> ('p, 's) sam_methods \<Rightarrow> ('p, 's, int) C" where
  "OnStartSystemAbilityFailInner P c m =
     check_or (CanRequest c) (DENIED P) (
     read_or (on_data (ReadInt32 P)) (INVALID_VALUE P) (\<lambda>said.
     read_or (on_data (ReadInt32 P)) (INVALID_VALUE P) (\<lambda>errCode.
     check_or (CheckInputSysAbilityId said) (NULL_OBJECT P) (do {
       result \<leftarrow> invoke (m_OnStartSystemAbilityFail m said errCode);
       answer P result }))))"

section \<open>Processes\<close>

definition AddSystemProcessInner :: "'p ipc_ops \<Rightarrow> caller \<Rightarrow> ('p, 's) sam_methods \<Rightarrow> ('p, 's, int) C" where
  "AddSystemProcessInner P c m =
     check_or (CanRequest c) (DENIED P) (do {
       procName \<leftarrow> on_data (or_default [] (ReadString16 P));
       check_or (procName \<noteq> []) (NULL_OBJECT P) (
       read_or (on_data (ReadRemoteObject P)) (NULL_OBJECT P) (\<lambda>procObj. do {
         result \<leftarrow> invoke (m_AddSystemProcess m procName procObj);
         answer P result })) })"

definition write_idle_process :: "'p ipc_ops \<Rightarrow> IdleProcessInfo \<Rightarrow> ('p, 's, bool) C" where
  "write_idle_process P i =
     write_or (on_reply (WriteInt32 P (ipi_pid i))) False (
     write_or (on_reply (WriteString16 P (ipi_processName i))) False (
     write_or (on_reply (WriteInt64 P (ipi_lastIdleTime i))) False (ret True)))"

definition GetLruIdleSystemAbilityProcInner :: "'p ipc_ops \<Rightarrow> caller \<Rightarrow> ('p, 's) sam_methods \<Rightarrow> ('p, 's, int) C" where
  "GetLruIdleSystemAbilityProcInner P c m =
     check_or (CheckCallerProcessName (c_env c) ''memmgrservice'') (DENIED P) (do {
       (result, infos) \<leftarrow> invoke (m_GetLruIdleSystemAbilityProc m);
       write_or (on_reply (WriteInt32 P result)) (FLATTEN_OBJECT P) (
       check_or (result = OK P) result (
       write_or (on_reply (WriteInt32 P (to_int32 (int (length infos))))) (FLATTEN_OBJECT P) (
       write_or (write_all (write_idle_process P) infos) (FLATTEN_OBJECT P) (ret (OK P))))) })"

definition write_process :: "'p ipc_ops \<Rightarrow> SystemProcessInfo \<Rightarrow> ('p, 's, bool) C" where
  "write_process P i =
     write_or (on_reply (WriteString P (spi_processName i))) False (
     write_or (on_reply (WriteInt32 P (spi_pid i))) False (
     write_or (on_reply (WriteInt32 P (spi_uid i))) False (ret True)))"

definition GetSystemProcessInfoInner :: "'p ipc_ops \<Rightarrow> caller \<Rightarrow> ('p, 's) sam_methods \<Rightarrow> ('p, 's, int) C" where
  "GetSystemProcessInfoInner P c m =
     check_or (CanRequest c) (DENIED P) (
     read_said P (NULL_OBJECT P) (\<lambda>said. do {
       (result, processInfo) \<leftarrow> invoke (m_GetSystemProcessInfo m said);
       write_or (on_reply (WriteInt32 P result)) (FLATTEN_OBJECT P) (
       check_or (result = OK P) (OK P) (
       write_or (write_process P processInfo) (FLATTEN_OBJECT P) (ret (OK P)))) }))"

definition GetRunningSystemProcessInner :: "'p ipc_ops \<Rightarrow> caller \<Rightarrow> ('p, 's) sam_methods \<Rightarrow> ('p, 's, int) C" where
  "GetRunningSystemProcessInner P c m =
     check_or (CanRequest c) (DENIED P) (do {
       (result, systemProcessInfos) \<leftarrow> invoke (m_GetRunningSystemProcess m);
       write_or (on_reply (WriteInt32 P result)) (FLATTEN_OBJECT P) (
       check_or (result = OK P) (OK P) (
       write_or (on_reply (WriteInt32 P (to_int32 (int (length systemProcessInfos))))) (FLATTEN_OBJECT P) (
       write_or (write_all (write_process P) systemProcessInfos) (FLATTEN_OBJECT P) (ret (OK P))))) })"

definition SubscribeSystemProcessInner :: "'p ipc_ops \<Rightarrow> caller \<Rightarrow> ('p, 's) sam_methods \<Rightarrow> ('p, 's, int) C" where
  "SubscribeSystemProcessInner P c m =
     check_or (CanRequest c) (DENIED P) (
     read_iface P c (NULL_OBJECT P) (\<lambda>listener. do {
       result \<leftarrow> invoke (m_SubscribeSystemProcess m listener);
       answer P result }))"

definition UnSubscribeSystemProcessInner :: "'p ipc_ops \<Rightarrow> caller \<Rightarrow> ('p, 's) sam_methods \<Rightarrow> ('p, 's, int) C" where
  "UnSubscribeSystemProcessInner P c m =
     check_or (CanRequest c) (DENIED P) (
     read_iface P c (NULL_OBJECT P) (\<lambda>listener. do {
       result \<leftarrow> invoke (m_UnSubscribeSystemProcess m listener);
       answer P result }))"

definition SubscribeLowMemSystemProcessInner :: "'p ipc_ops \<Rightarrow> caller \<Rightarrow> ('p, 's) sam_methods \<Rightarrow> ('p, 's, int) C" where
  "SubscribeLowMemSystemProcessInner P c m =
     check_or (CanRequest c) (DENIED P) (
     read_iface P c (NULL_OBJECT P) (\<lambda>listener. do {
       result \<leftarrow> invoke (m_SubscribeLowMemSystemProcess m listener);
       answer P result }))"

definition UnSubscribeLowMemSystemProcessInner :: "'p ipc_ops \<Rightarrow> caller \<Rightarrow> ('p, 's) sam_methods \<Rightarrow> ('p, 's, int) C" where
  "UnSubscribeLowMemSystemProcessInner P c m =
     check_or (CanRequest c) (DENIED P) (
     read_iface P c (NULL_OBJECT P) (\<lambda>listener. do {
       result \<leftarrow> invoke (m_UnSubscribeLowMemSystemProcess m listener);
       answer P result }))"

section \<open>Policies, extensions and priorities\<close>

definition GetOnDemandReasonExtraDataInner :: "'p ipc_ops \<Rightarrow> caller \<Rightarrow> ('p, 's) sam_methods \<Rightarrow> ('p, 's, int) C" where
  "GetOnDemandReasonExtraDataInner P c m =
     check_or (CanRequest c) (DENIED P) (
     read_or (on_data (ReadInt64 P)) (FLATTEN_OBJECT P) (\<lambda>dataId. do {
       (result, extraDataParcel) \<leftarrow> invoke (m_GetOnDemandReasonExtraData m dataId (new_parcel P));
       write_or (on_reply (WriteInt32 P result)) (FLATTEN_OBJECT P) (
       case fst (ReadParcelable P extraDataParcel) of
         None \<Rightarrow> ret (FLATTEN_OBJECT P)
       | Some extraData \<Rightarrow>
           write_or (on_reply (WriteParcelable P extraData)) (FLATTEN_OBJECT P) (ret (OK P))) }))"

definition GetOnDemandPolicyInner :: "'p ipc_ops \<Rightarrow> caller \<Rightarrow> ('p, 's) sam_methods \<Rightarrow> ('p, 's, int) C" where
  "GetOnDemandPolicyInner P c m =
     check_or (CanRequest c) (DENIED P) (
     read_or (on_data (ReadInt32 P)) (FLATTEN_OBJECT P) (\<lambda>said.
     read_or (on_data (ReadInt32 P)) (FLATTEN_OBJECT P) (\<lambda>type. do {
       (result, events) \<leftarrow> invoke (m_GetOnDemandPolicy m said type);
       write_or (on_reply (WriteInt32 P result)) (FLATTEN_OBJECT P) (
       write_or (on_reply (run_state (WriteOnDemandEventsToParcel P events))) (FLATTEN_OBJECT P) (ret (OK P))) })))"

definition UpdateOnDemandPolicyInner :: "'p ipc_ops \<Rightarrow> caller \<Rightarrow> ('p, 's) sam_methods \<Rightarrow> ('p, 's, int) C" where
  "UpdateOnDemandPolicyInner P c m =
     check_or (CanRequest c) (DENIED P) (
     read_or (on_data (ReadInt32 P)) (FLATTEN_OBJECT P) (\<lambda>said.
     read_or (on_data (ReadInt32 P)) (FLATTEN_OBJECT P) (\<lambda>type. do {
       (ok, events) \<leftarrow> on_data (run_state (ReadOnDemandEventsFromParcel P []));
       check_or ok (FLATTEN_OBJECT P) (do {
         result \<leftarrow> invoke (m_UpdateOnDemandPolicy m said type events);
         answer_ok P result }) })))"

definition SendStrategyInner :: "'p ipc_ops \<Rightarrow> caller \<Rightarrow> ('p, 's) sam_methods \<Rightarrow> ('p, 's, int) C" where
  "SendStrategyInner P c m =
     check_or (CanRequest c) (DENIED P) (
     read_or (on_data (ReadInt32 P)) (FLATTEN_OBJECT P) (\<lambda>type.
     read_or (on_data (ReadInt32Vector P)) (FLATTEN_OBJECT P) (\<lambda>saids.
     read_or (on_data (ReadInt32 P)) (FLATTEN_OBJECT P) (\<lambda>level.
     read_or (on_data (ReadString P)) (FLATTEN_OBJECT P) (\<lambda>action. do {
       result \<leftarrow> invoke (m_SendStrategy m type saids level action);
       answer_ok P result })))))"

definition GetOnDemandSystemAbilityIdsInner :: "'p ipc_ops \<Rightarrow> ('p, 's) sam_methods \<Rightarrow> ('p, 's, int) C" where
  "GetOnDemandSystemAbilityIdsInner P m = do {
     (result, saids) \<leftarrow> invoke (m_GetOnDemandSystemAbilityIds m);
     check_or (result = OK P) result (
     write_or (on_reply (WriteInt32 P result)) (FLATTEN_OBJECT P) (
     write_or (on_reply (WriteInt32Vector P saids)) (FLATTEN_OBJECT P) (ret (OK P)))) }"

definition GetExtensionSaIdsInner :: "'p ipc_ops \<Rightarrow> caller \<Rightarrow> ('p, 's) sam_methods \<Rightarrow> ('p, 's, int) C" where
  "GetExtensionSaIdsInner P c m =
     check_or (CanRequest c) (DENIED P) (
     read_or (on_data (ReadString P)) (FLATTEN_OBJECT P) (\<lambda>ext. do {
       (result, saIds) \<leftarrow> invoke (m_GetExtensionSaIds m ext);
       check_or (result = OK P) result (
       write_or (on_reply (WriteInt32 P result)) (FLATTEN_OBJECT P) (
       write_or (on_reply (WriteInt32Vector P saIds)) (FLATTEN_OBJECT P) (ret (OK P)))) }))"

definition GetExtensionRunningSaListInner :: "'p ipc_ops \<Rightarrow> caller \<Rightarrow> ('p, 's) sam_methods \<Rightarrow> ('p, 's, int) C" where
  "GetExtensionRunningSaListInner P c m =
     check_or (CanRequest c) (DENIED P) (
     read_or (on_data (ReadString P)) (FLATTEN_OBJECT P) (\<lambda>ext. do {
       (result, sas) \<leftarrow> invoke (m_GetExtensionRunningSaList m ext);
       check_or (result = OK P) result (
       write_or (on_reply (WriteInt32 P result)) (FLATTEN_OBJECT P) (
       write_or (on_reply (WriteInt32 P (to_int32 (int (length sas))))) (FLATTEN_OBJECT P) (
       write_or (write_all (\<lambda>ob. on_reply (WriteRemoteObject P ob)) sas) (FLATTEN_OBJECT P) (ret (OK P))))) }))"

definition GetRunningSaExtensionInfoListInner :: "'p ipc_ops \<Rightarrow> caller \<Rightarrow> ('p, 's) sam_methods \<Rightarrow> ('p, 's, int) C" where
  "GetRunningSaExtensionInfoListInner P c m =
     check_or (CheckPermission c EXT_TRANSACTION_PERMISSION) (DENIED P) (
     read_or (on_data (ReadString P)) (FLATTEN_OBJECT P) (\<lambda>ext. do {
       (result, infoList) \<leftarrow> invoke (m_GetRunningSaExtensionInfoList m ext);
       write_or (on_reply (WriteInt32 P result)) (FLATTEN_OBJECT P) (
       check_or (result = OK P) result (
       write_or (on_reply (WriteInt32 P (to_int32 (int (length infoList))))) (FLATTEN_OBJECT P) (
       write_or (write_all (\<lambda>tmp.
         write_or (on_reply (WriteInt32 P (ext_saId tmp))) False (
         write_or (on_reply (WriteRemoteObject P (ext_processObj tmp))) False (ret True))) infoList) (FLATTEN_OBJECT P) (ret (OK P))))) }))"

definition GetCommonEventExtraDataIdlistInner :: "'p ipc_ops \<Rightarrow> caller \<Rightarrow> ('p, 's) sam_methods \<Rightarrow> ('p, 's, int) C" where
  "GetCommonEventExtraDataIdlistInner P c m =
     check_or (CanRequest c) (DENIED P) (
     read_said P (NULL_OBJECT P) (\<lambda>said.
     read_or (on_data (ReadString P)) (FLATTEN_OBJECT P) (\<lambda>eventName. do {
       (result, extraDataIdList) \<leftarrow> invoke (m_GetCommonEventExtraDataIdlist m said eventName);
       write_or (on_reply (WriteInt32 P result)) (FLATTEN_OBJECT P) (
       check_or (result = OK P) result (
       write_or (on_reply (WriteInt64Vector P extraDataIdList)) (FLATTEN_OBJECT P) (ret (OK P)))) })))"

definition GetLocalAbilityManagerProxyInner :: "'p ipc_ops \<Rightarrow> caller \<Rightarrow> ('p, 's) sam_methods \<Rightarrow> ('p, 's, int) C" where
  "GetLocalAbilityManagerProxyInner P c m =
     check_or (CheckPermission c PERMISSION_SVC) (DENIED P) (
     read_said P (NULL_OBJECT P) (\<lambda>said. do {
       remoteObject \<leftarrow> invoke (m_GetLocalAbilityManagerProxy m said);
       answer_object P remoteObject }))"

definition SetSamgrIpcPriorInner :: "'p ipc_ops \<Rightarrow> caller \<Rightarrow> ('p, 's) sam_methods \<Rightarrow> ('p, 's, int) C" where
  "SetSamgrIpcPriorInner P c m =
     check_or (CheckCallerProcessName (c_env c) ''resource_schedule_service'') (DENIED P) (
     read_or (on_data (ReadBool P)) (FLATTEN_OBJECT P) (\<lambda>enable. do {
       result \<leftarrow> invoke (m_SetSamgrIpcPrior m enable);
       answer_ok P result }))"

section \<open>Requests for a user\<close>

definition OnUserStateChangedInner :: "'p ipc_ops \<Rightarrow> caller \<Rightarrow> ('p, 's) sam_methods \<Rightarrow> ('p, 's, int) C" where
  "OnUserStateChangedInner P c m =
     check_or (CheckCallerProcessName (c_env c) ''accountmgr'') (DENIED P) (
     read_or (on_data (ReadInt32 P)) (FLATTEN_OBJECT P) (\<lambda>userId.
     read_or (on_data (ReadInt32 P)) (FLATTEN_OBJECT P) (\<lambda>userState.
     check_or (\<not> (userState < USER_STATE_ACTIVATING \<or> userState > USER_STATE_STOPPING)) (INVALID_VALUE P) (do {
       result \<leftarrow> invoke (m_OnUserStateChanged m userId userState);
       answer_ok P result }))))"

definition GetSystemAbilityWithUserIdInner :: "'p ipc_ops \<Rightarrow> caller \<Rightarrow> ('p, 's) sam_methods \<Rightarrow> ('p, 's, int) C" where
  "GetSystemAbilityWithUserIdInner P c m =
     read_said P (NULL_OBJECT P) (\<lambda>said.
     check_or (penglai_ok c said) (DENIED P) (
     check_or (CheckGetSAPermission c said) (DENIED P) (
     read_or (on_data (ReadInt32 P)) (NULL_OBJECT P) (\<lambda>userId. do {
       remoteObject \<leftarrow> invoke (m_GetSystemAbilityUser m said userId);
       answer_object P remoteObject }))))"

definition CheckSystemAbilityWithUserIdInner :: "'p ipc_ops \<Rightarrow> caller \<Rightarrow> ('p, 's) sam_methods \<Rightarrow> ('p, 's, int) C" where
  "CheckSystemAbilityWithUserIdInner P c m =
     read_said P (NULL_OBJECT P) (\<lambda>said.
     check_or (penglai_ok c said) (DENIED P) (
     check_or (CheckGetSAPermission c said) (DENIED P) (
     read_or (on_data (ReadInt32 P)) (NULL_OBJECT P) (\<lambda>userId. do {
       remoteObject \<leftarrow> invoke (m_CheckSystemAbilityUser m said userId);
       answer_object P remoteObject }))))"

definition CheckSystemAbilityByUserIdInner :: "'p ipc_ops \<Rightarrow> caller \<Rightarrow> ('p, 's) sam_methods \<Rightarrow> ('p, 's, int) C" where
  "CheckSystemAbilityByUserIdInner P c m =
     read_said P (NULL_OBJECT P) (\<lambda>said.
     check_or (penglai_ok c said) (DENIED P) (
     check_or (CheckGetSAPermission c said) (DENIED P) (
     read_or (on_data (ReadBool P)) (FLATTEN_OBJECT P) (\<lambda>isExist.
     read_or (on_data (ReadInt32 P)) (NULL_OBJECT P) (\<lambda>userId. do {
       (remoteObject, isExist) \<leftarrow> invoke (m_CheckSystemAbilityByUserId m said isExist userId);
       case remoteObject of
         None \<Rightarrow> ret (NULL_OBJECT P)
       | Some x \<Rightarrow>
           write_or (on_reply (WriteRemoteObject P (Some x))) (FLATTEN_OBJECT P) (
           write_or (on_reply (WriteBool P isExist)) (FLATTEN_OBJECT P) (ret (OK P))) })))))"

definition GetSystemProcessInfoWithUserIdInner :: "'p ipc_ops \<Rightarrow> caller \<Rightarrow> ('p, 's) sam_methods \<Rightarrow> ('p, 's, int) C" where
  "GetSystemProcessInfoWithUserIdInner P c m =
     check_or (CanRequest c) (DENIED P) (
     read_said P (NULL_OBJECT P) (\<lambda>said.
     read_or (on_data (ReadInt32 P)) (NULL_OBJECT P) (\<lambda>userId. do {
       (result, processInfo) \<leftarrow> invoke (m_GetSystemProcessInfoUser m said userId);
       write_or (on_reply (WriteInt32 P result)) (FLATTEN_OBJECT P) (
       check_or (result = OK P) (OK P) (
       write_or (write_process P processInfo) (FLATTEN_OBJECT P) (ret (OK P)))) })))"

definition GetLocalAbilityManagerProxyWithUserIdInner :: "'p ipc_ops \<Rightarrow> caller \<Rightarrow> ('p, 's) sam_methods \<Rightarrow> ('p, 's, int) C" where
  "GetLocalAbilityManagerProxyWithUserIdInner P c m =
     check_or (CheckPermission c PERMISSION_SVC) (DENIED P) (
     read_said P (NULL_OBJECT P) (\<lambda>said.
     read_or (on_data (ReadInt32 P)) (NULL_OBJECT P) (\<lambda>userId. do {
       remoteObject \<leftarrow> invoke (m_GetLocalAbilityManagerProxyUser m said userId);
       answer_object P remoteObject })))"

definition LoadSystemAbilityWithUserIdInner :: "'p ipc_ops \<Rightarrow> caller \<Rightarrow> ('p, 's) sam_methods \<Rightarrow> ('p, 's, int) C" where
  "LoadSystemAbilityWithUserIdInner P c m =
     read_or (on_data (ReadInt32 P)) (INVALID_VALUE P) (\<lambda>said.
     check_or (LoadSACheck P c said = OK P) (LoadSACheck P c said) (
     read_iface P c (INVALID_VALUE P) (\<lambda>callback.
     read_or (on_data (ReadInt32 P)) (INVALID_VALUE P) (\<lambda>userId. do {
       result \<leftarrow> invoke (m_LoadSystemAbilityUser m said callback userId);
       answer P result }))))"

definition SubsSystemAbilityWithUserIdInner :: "'p ipc_ops \<Rightarrow> caller \<Rightarrow> ('p, 's) sam_methods \<Rightarrow> ('p, 's, int) C" where
  "SubsSystemAbilityWithUserIdInner P c m =
     read_said P (NULL_OBJECT P) (\<lambda>said.
     read_iface P c (NULL_OBJECT P) (\<lambda>listener.
     read_or (on_data (ReadInt32 P)) (NULL_OBJECT P) (\<lambda>userId. do {
       result \<leftarrow> invoke (m_SubscribeSystemAbilityUser m said listener userId);
       answer P result })))"

definition UnSubsSystemAbilityWithUserIdInner :: "'p ipc_ops \<Rightarrow> caller \<Rightarrow> ('p, 's) sam_methods \<Rightarrow> ('p, 's, int) C" where
  "UnSubsSystemAbilityWithUserIdInner P c m =
     read_said P (NULL_OBJECT P) (\<lambda>said.
     read_iface P c (NULL_OBJECT P) (\<lambda>listener.
     read_or (on_data (ReadInt32 P)) (NULL_OBJECT P) (\<lambda>userId. do {
       result \<leftarrow> invoke (m_UnSubscribeSystemAbilityUser m said listener userId);
       answer P result })))"

definition SubscribeSystemProcessWithUserIdInner :: "'p ipc_ops \<Rightarrow> caller \<Rightarrow> ('p, 's) sam_methods \<Rightarrow> ('p, 's, int) C" where
  "SubscribeSystemProcessWithUserIdInner P c m =
     check_or (CanRequest c) (DENIED P) (
     read_iface P c (NULL_OBJECT P) (\<lambda>listener.
     read_or (on_data (ReadInt32 P)) (NULL_OBJECT P) (\<lambda>userId. do {
       result \<leftarrow> invoke (m_SubscribeSystemProcessUser m listener userId);
       answer P result })))"

definition UnSubscribeSystemProcessWithUserIdInner :: "'p ipc_ops \<Rightarrow> caller \<Rightarrow> ('p, 's) sam_methods \<Rightarrow> ('p, 's, int) C" where
  "UnSubscribeSystemProcessWithUserIdInner P c m =
     check_or (CanRequest c) (DENIED P) (
     read_iface P c (NULL_OBJECT P) (\<lambda>listener.
     read_or (on_data (ReadInt32 P)) (NULL_OBJECT P) (\<lambda>userId. do {
       result \<leftarrow> invoke (m_UnSubscribeSystemProcessUser m listener userId);
       answer P result })))"

section \<open>Dispatch\<close>

text \<open>The request codes of \<^verbatim>\<open>samgr_ipc_interface_code.h\<close> are numbers; the table lists them with the handlers.\<close>
datatype interface_code =
    GET_SYSTEM_ABILITY | CHECK_SYSTEM_ABILITY | ADD_SYSTEM_ABILITY
  | REMOVE_SYSTEM_ABILITY | LIST_SYSTEM_ABILITY | SUBSCRIBE_SYSTEM_ABILITY
  | LOAD_SYSTEM_ABILITY | LOAD_REMOTE_SYSTEM_ABILITY | CHECK_REMOTE_SYSTEM_ABILITY
  | ADD_ONDEMAND_SYSTEM_ABILITY | CHECK_SYSTEM_ABILITY_IMMEDIATELY | CHECK_ONDEMAND_SYSTEM_ABILITY
  | GET_SYSTEM_ABILITYINFOLIST | UNSUBSCRIBE_SYSTEM_ABILITY | ADD_SYSTEM_PROCESS
  | UNLOAD_SYSTEM_ABILITY | CANCEL_UNLOAD_SYSTEM_ABILITY | GET_RUNNING_SYSTEM_PROCESS
  | SUBSCRIBE_SYSTEM_PROCESS | UNSUBSCRIBE_SYSTEM_PROCESS | GET_ONDEMAND_REASON_EXTRA_DATA
  | GET_ONDEAMND_POLICY | UPDATE_ONDEAMND_POLICY | GET_SYSTEM_PROCESS_INFO
  | GET_ONDEMAND_SYSTEM_ABILITY_IDS | SEND_STRATEGY | UNLOAD_ALL_IDLE_SYSTEM_ABILITY
  | GET_EXTENSION_SA_IDS | GET_EXTERNSION_SA_LIST | GET_SA_EXTENSION_INFO
  | GET_COMMON_EVENT_EXTRA_ID_LIST | GET_LOCAL_ABILITY_MANAGER_PROXY | UNLOAD_IDLE_PROCESS_BYLIST
  | GET_LRU_IDLE_SYSTEM_ABILITY_PROCESS | SET_SAMGR_IPC_PRIOR | SUBSCRIBE_LOWMEM_SYSTEM_PROCESS
  | UNSUBSCRIBE_LOWMEM_SYSTEM_PROCESS | ONSTART_SYSTEM_ABILITY_FAIL | ON_USER_STATE_CHANGED
  | GET_SYSTEM_ABILITY_WITH_USERID | CHECK_SYSTEM_ABILITY_WITH_USERID | CHECK_SYSTEM_ABILITY_BY_USERID
  | GET_SYSTEM_PROCESS_INFO_WITH_USERID | GET_LOCAL_ABILITY_MANAGER_PROXY_WITH_USERID | LOAD_SYSTEM_ABILITY_WITH_USERID
  | SUBSCRIBE_SYSTEM_ABILITY_WITH_USERID | UNSUBSCRIBE_SYSTEM_ABILITY_WITH_USERID | SUBSCRIBE_SYSTEM_PROCESS_WITH_USERID
  | UNSUBSCRIBE_SYSTEM_PROCESS_WITH_USERID

fun code_of :: "interface_code \<Rightarrow> nat" where
  "code_of GET_SYSTEM_ABILITY = 1"
| "code_of CHECK_SYSTEM_ABILITY = 2"
| "code_of ADD_SYSTEM_ABILITY = 3"
| "code_of REMOVE_SYSTEM_ABILITY = 4"
| "code_of LIST_SYSTEM_ABILITY = 5"
| "code_of SUBSCRIBE_SYSTEM_ABILITY = 6"
| "code_of LOAD_SYSTEM_ABILITY = 7"
| "code_of LOAD_REMOTE_SYSTEM_ABILITY = 8"
| "code_of CHECK_REMOTE_SYSTEM_ABILITY = 9"
| "code_of ADD_ONDEMAND_SYSTEM_ABILITY = 10"
| "code_of CHECK_SYSTEM_ABILITY_IMMEDIATELY = 12"
| "code_of CHECK_ONDEMAND_SYSTEM_ABILITY = 15"
| "code_of GET_SYSTEM_ABILITYINFOLIST = 17"
| "code_of UNSUBSCRIBE_SYSTEM_ABILITY = 18"
| "code_of ADD_SYSTEM_PROCESS = 20"
| "code_of UNLOAD_SYSTEM_ABILITY = 21"
| "code_of CANCEL_UNLOAD_SYSTEM_ABILITY = 22"
| "code_of GET_RUNNING_SYSTEM_PROCESS = 23"
| "code_of SUBSCRIBE_SYSTEM_PROCESS = 24"
| "code_of UNSUBSCRIBE_SYSTEM_PROCESS = 25"
| "code_of GET_ONDEMAND_REASON_EXTRA_DATA = 26"
| "code_of GET_ONDEAMND_POLICY = 27"
| "code_of UPDATE_ONDEAMND_POLICY = 28"
| "code_of GET_SYSTEM_PROCESS_INFO = 29"
| "code_of GET_ONDEMAND_SYSTEM_ABILITY_IDS = 30"
| "code_of SEND_STRATEGY = 31"
| "code_of UNLOAD_ALL_IDLE_SYSTEM_ABILITY = 32"
| "code_of GET_EXTENSION_SA_IDS = 33"
| "code_of GET_EXTERNSION_SA_LIST = 34"
| "code_of GET_SA_EXTENSION_INFO = 35"
| "code_of GET_COMMON_EVENT_EXTRA_ID_LIST = 36"
| "code_of GET_LOCAL_ABILITY_MANAGER_PROXY = 37"
| "code_of UNLOAD_IDLE_PROCESS_BYLIST = 38"
| "code_of GET_LRU_IDLE_SYSTEM_ABILITY_PROCESS = 39"
| "code_of SET_SAMGR_IPC_PRIOR = 40"
| "code_of SUBSCRIBE_LOWMEM_SYSTEM_PROCESS = 41"
| "code_of UNSUBSCRIBE_LOWMEM_SYSTEM_PROCESS = 42"
| "code_of ONSTART_SYSTEM_ABILITY_FAIL = 43"
| "code_of ON_USER_STATE_CHANGED = 44"
| "code_of GET_SYSTEM_ABILITY_WITH_USERID = 45"
| "code_of CHECK_SYSTEM_ABILITY_WITH_USERID = 46"
| "code_of CHECK_SYSTEM_ABILITY_BY_USERID = 47"
| "code_of GET_SYSTEM_PROCESS_INFO_WITH_USERID = 48"
| "code_of GET_LOCAL_ABILITY_MANAGER_PROXY_WITH_USERID = 49"
| "code_of LOAD_SYSTEM_ABILITY_WITH_USERID = 50"
| "code_of SUBSCRIBE_SYSTEM_ABILITY_WITH_USERID = 51"
| "code_of UNSUBSCRIBE_SYSTEM_ABILITY_WITH_USERID = 52"
| "code_of SUBSCRIBE_SYSTEM_PROCESS_WITH_USERID = 53"
| "code_of UNSUBSCRIBE_SYSTEM_PROCESS_WITH_USERID = 54"

definition SetAbilityFuncMap :: "'p ipc_ops \<Rightarrow> caller \<Rightarrow> ('p, 's) sam_methods \<Rightarrow> (nat \<times> ('p, 's, int) C) list" where
  "SetAbilityFuncMap P c m = [
     (code_of GET_SYSTEM_ABILITY, GetSystemAbilityInner P c m),
     (code_of CHECK_SYSTEM_ABILITY, CheckSystemAbilityInner P c m),
     (code_of ADD_SYSTEM_ABILITY, AddSystemAbilityInner P c m),
     (code_of REMOVE_SYSTEM_ABILITY, RemoveSystemAbilityInner P c m),
     (code_of LIST_SYSTEM_ABILITY, ListSystemAbilityInner P c m),
     (code_of SUBSCRIBE_SYSTEM_ABILITY, SubsSystemAbilityInner P c m),
     (code_of CHECK_REMOTE_SYSTEM_ABILITY, CheckRemtSystemAbilityInner P c m),
     (code_of ADD_ONDEMAND_SYSTEM_ABILITY, AddOndemandSystemAbilityInner P c m),
     (code_of CHECK_SYSTEM_ABILITY_IMMEDIATELY, CheckSystemAbilityImmeInner P c m),
     (code_of UNSUBSCRIBE_SYSTEM_ABILITY, UnSubsSystemAbilityInner P c m),
     (code_of LOAD_SYSTEM_ABILITY, LoadSystemAbilityInner P c m),
     (code_of LOAD_REMOTE_SYSTEM_ABILITY, LoadRemoteSystemAbilityInner P c m),
     (code_of UNLOAD_SYSTEM_ABILITY, UnloadSystemAbilityInner P m),
     (code_of CANCEL_UNLOAD_SYSTEM_ABILITY, CancelUnloadSystemAbilityInner P m)]"

definition SetProcessFuncMap :: "'p ipc_ops \<Rightarrow> caller \<Rightarrow> ('p, 's) sam_methods \<Rightarrow> (nat \<times> ('p, 's, int) C) list" where
  "SetProcessFuncMap P c m = [
     (code_of ADD_SYSTEM_PROCESS, AddSystemProcessInner P c m),
     (code_of GET_SYSTEM_PROCESS_INFO, GetSystemProcessInfoInner P c m),
     (code_of GET_RUNNING_SYSTEM_PROCESS, GetRunningSystemProcessInner P c m),
     (code_of SUBSCRIBE_SYSTEM_PROCESS, SubscribeSystemProcessInner P c m),
     (code_of UNSUBSCRIBE_SYSTEM_PROCESS, UnSubscribeSystemProcessInner P c m),
     (code_of SUBSCRIBE_LOWMEM_SYSTEM_PROCESS, SubscribeLowMemSystemProcessInner P c m),
     (code_of UNSUBSCRIBE_LOWMEM_SYSTEM_PROCESS, UnSubscribeLowMemSystemProcessInner P c m)]"

definition SetMultiInstanceFuncMap :: "'p ipc_ops \<Rightarrow> caller \<Rightarrow> ('p, 's) sam_methods \<Rightarrow> (nat \<times> ('p, 's, int) C) list" where
  "SetMultiInstanceFuncMap P c m = [
     (code_of GET_SYSTEM_ABILITY_WITH_USERID, GetSystemAbilityWithUserIdInner P c m),
     (code_of CHECK_SYSTEM_ABILITY_WITH_USERID, CheckSystemAbilityWithUserIdInner P c m),
     (code_of CHECK_SYSTEM_ABILITY_BY_USERID, CheckSystemAbilityByUserIdInner P c m),
     (code_of GET_SYSTEM_PROCESS_INFO_WITH_USERID, GetSystemProcessInfoWithUserIdInner P c m),
     (code_of GET_LOCAL_ABILITY_MANAGER_PROXY_WITH_USERID, GetLocalAbilityManagerProxyWithUserIdInner P c m),
     (code_of LOAD_SYSTEM_ABILITY_WITH_USERID, LoadSystemAbilityWithUserIdInner P c m),
     (code_of SUBSCRIBE_SYSTEM_ABILITY_WITH_USERID, SubsSystemAbilityWithUserIdInner P c m),
     (code_of UNSUBSCRIBE_SYSTEM_ABILITY_WITH_USERID, UnSubsSystemAbilityWithUserIdInner P c m),
     (code_of SUBSCRIBE_SYSTEM_PROCESS_WITH_USERID, SubscribeSystemProcessWithUserIdInner P c m),
     (code_of UNSUBSCRIBE_SYSTEM_PROCESS_WITH_USERID, UnSubscribeSystemProcessWithUserIdInner P c m)]"

text \<open>The table as the constructor fills it; every code is entered once.\<close>
definition memberFuncMap :: "'p ipc_ops \<Rightarrow> caller \<Rightarrow> ('p, 's) sam_methods \<Rightarrow> (nat \<times> ('p, 's, int) C) list" where
  "memberFuncMap P c m = SetAbilityFuncMap P c m @ SetProcessFuncMap P c m @ [
     (code_of GET_ONDEMAND_REASON_EXTRA_DATA, GetOnDemandReasonExtraDataInner P c m),
     (code_of GET_ONDEAMND_POLICY, GetOnDemandPolicyInner P c m),
     (code_of UPDATE_ONDEAMND_POLICY, UpdateOnDemandPolicyInner P c m),
     (code_of GET_ONDEMAND_SYSTEM_ABILITY_IDS, GetOnDemandSystemAbilityIdsInner P m),
     (code_of SEND_STRATEGY, SendStrategyInner P c m),
     (code_of UNLOAD_ALL_IDLE_SYSTEM_ABILITY, UnloadAllIdleSystemAbilityInner m),
     (code_of GET_EXTENSION_SA_IDS, GetExtensionSaIdsInner P c m),
     (code_of GET_EXTERNSION_SA_LIST, GetExtensionRunningSaListInner P c m),
     (code_of GET_SA_EXTENSION_INFO, GetRunningSaExtensionInfoListInner P c m),
     (code_of GET_COMMON_EVENT_EXTRA_ID_LIST, GetCommonEventExtraDataIdlistInner P c m),
     (code_of GET_LOCAL_ABILITY_MANAGER_PROXY, GetLocalAbilityManagerProxyInner P c m),
     (code_of UNLOAD_IDLE_PROCESS_BYLIST, UnloadProcessInner P c m),
     (code_of GET_LRU_IDLE_SYSTEM_ABILITY_PROCESS, GetLruIdleSystemAbilityProcInner P c m),
     (code_of SET_SAMGR_IPC_PRIOR, SetSamgrIpcPriorInner P c m),
     (code_of ONSTART_SYSTEM_ABILITY_FAIL, OnStartSystemAbilityFailInner P c m)] @
     (if c_multi c then (code_of ON_USER_STATE_CHANGED, OnUserStateChangedInner P c m) # SetMultiInstanceFuncMap P c m else [])"

section \<open>The object\<close>

datatype qos_call = SetThreadQos int | ResetThreadQos int | ResetQosForOtherThread int

text \<open>The members of the stub; a service extends the record with its own state.\<close>
record stub_state =
  isSupportSetPrior :: bool
  priorEnable :: bool
  highPrioTidSet :: "int list"
  qos_calls :: "qos_call list" \<comment> \<open>the calls to the QoS library\<close>

text \<open>\<^verbatim>\<open>SetIpcPrior\<close> reads \<^verbatim>\<open>priorEnable_\<close> before it takes the lock of the set of threads, so it has two steps.\<close>
definition SetIpcPrior_check :: "('a stub_state_scheme, bool) state" where
  "SetIpcPrior_check = gets (\<lambda>s. isSupportSetPrior s \<and> priorEnable s)"

definition SetIpcPrior_boost :: "int \<Rightarrow> ('a stub_state_scheme, unit) state" where
  "SetIpcPrior_boost tid = modify (\<lambda>s. if tid \<in> set (highPrioTidSet s) then s
     else s \<lparr> highPrioTidSet := insort tid (highPrioTidSet s), qos_calls := qos_calls s @ [SetThreadQos tid] \<rparr>)"

definition SetIpcPrior :: "int \<Rightarrow> ('a stub_state_scheme, unit) state" where
  "SetIpcPrior tid = do { enabled \<leftarrow> SetIpcPrior_check; onlyif enabled (SetIpcPrior_boost tid) }"

definition ResetIpcPrior :: "int \<Rightarrow> ('a stub_state_scheme, unit) state" where
  "ResetIpcPrior tid = modify (\<lambda>s. s \<lparr>
     qos_calls := qos_calls s @ [SetThreadQos tid] @ map ResetQosForOtherThread (highPrioTidSet s) @ [ResetThreadQos tid],
     highPrioTidSet := [] \<rparr>)"

definition EnforceInterceToken :: "'p ipc_ops \<Rightarrow> ('p, 's, bool) C" where
  "EnforceInterceToken P = do {
     interfaceToken \<leftarrow> on_data (ReadInterfaceToken P);
     ret (interfaceToken = SAMANAGER_INTERFACE_TOKEN) }"

text \<open>\<open>dflt\<close> is \<^verbatim>\<open>IPCObjectStub::OnRemoteRequest\<close>.\<close>
definition OnRemoteRequest ::
  "'p ipc_ops \<Rightarrow> (nat \<Rightarrow> ('p, 'a stub_state_scheme, int) C) \<Rightarrow> caller \<Rightarrow> ('p, 'a stub_state_scheme) sam_methods
     \<Rightarrow> nat \<Rightarrow> ('p, 'a stub_state_scheme, int) C" where
  "OnRemoteRequest P dflt c m code = do {
     ok \<leftarrow> EnforceInterceToken P;
     check_or ok (DENIED P) (do {
       invoke (SetIpcPrior (c_tid c));
       case map_of (memberFuncMap P c m) code of
         Some handler \<Rightarrow> handler
       | None \<Rightarrow> dflt code }) }"

end
