(* ===== verification/Client.thy ===== *)
theory Client
  imports Stub_Handlers
begin

text \<open>
  The client library: \<^verbatim>\<open>frameworks/native/source/system_ability_manager_proxy.cpp\<close>, the cache of the last query
  (\<^verbatim>\<open>dynamic_cache.h\<close>, \<^verbatim>\<open>dynamic_cache.cpp\<close>) and the table of the abilities of the own process
  (\<^verbatim>\<open>lsamgr/src/local_abilitys.cpp\<close>).

  A function of the proxy is \<open>cl_\<close> and its name; overloads carry a suffix. \<open>R\<close> is \<^verbatim>\<open>Remote()\<close>. Functions
  that only exchange a request work on any state \<open>'w\<close> of the other side; those that use the caches work on the
  record \<open>client\<close>. A by-reference argument is passed in and returned.
\<close>

section \<open>Common steps\<close>

abbreviation INVALID_OPERATION :: "'p ipc_ops \<Rightarrow> int" where "INVALID_OPERATION P \<equiv> err P ERR_INVALID_OPERATION"

definition with_remote :: "'r option \<Rightarrow> 'a \<Rightarrow> ('r \<Rightarrow> ('s, 'a) state) \<Rightarrow> ('s, 'a) state" where
  "with_remote R e k = (case R of None \<Rightarrow> ret e | Some remote \<Rightarrow> k remote)"

definition token_or :: "'p ipc_ops \<Rightarrow> 'a \<Rightarrow> ('p, 'w, 'a) C \<Rightarrow> ('p, 'w, 'a) C" where
  "token_or P e k = write_or (on_data (WriteInterfaceToken P SAMANAGER_INTERFACE_TOKEN)) e k"

text \<open>\<^verbatim>\<open>err = remote->SendRequest(...); if (err != ERR_NONE) return f(err);\<close>\<close>
definition transact :: "'p ipc_ops \<Rightarrow> ('p, 'w) remote \<Rightarrow> interface_code \<Rightarrow> MessageOption \<Rightarrow> (int \<Rightarrow> 'a) \<Rightarrow> ('p, 'w, 'a) C \<Rightarrow> ('p, 'w, 'a) C" where
  "transact P remote code opt f k = do {
     error \<leftarrow> SendRequest remote (code_of code) opt;
     check_or (error = OK P) (f error) k }"

definition read_result :: "'p ipc_ops \<Rightarrow> (int \<Rightarrow> 'a) \<Rightarrow> (int \<Rightarrow> ('p, 'w, 'a) C) \<Rightarrow> ('p, 'w, 'a) C" where
  "read_result P f k = read_or (on_reply (ReadInt32 P)) (f (FLATTEN_OBJECT P)) k"

section \<open>Requests with an identifier\<close>

definition cl_AddOnDemandSystemAbilityInfo :: "'p ipc_ops \<Rightarrow> ('p, 'w) remote option \<Rightarrow> int \<Rightarrow> u16string \<Rightarrow> ('w, int) state" where
  "cl_AddOnDemandSystemAbilityInfo P R said localAbilityManagerName = with_parcels P (
     check_or (\<not> (\<not> CheckInputSysAbilityId said \<or> localAbilityManagerName = [])) (INVALID_VALUE P) (
     with_remote R (INVALID_OPERATION P) (\<lambda>remote.
     token_or P (FLATTEN_OBJECT P) (
     write_or (on_data (WriteInt32 P said)) (FLATTEN_OBJECT P) (
     write_or (on_data (WriteString16 P localAbilityManagerName)) (FLATTEN_OBJECT P) (
     transact P remote ADD_ONDEMAND_SYSTEM_ABILITY TF_SYNC id (
     read_result P id ret)))))))"

text \<open>\<^verbatim>\<open>RemoveSystemAbilityWrapper\<close> and \<^verbatim>\<open>AddSystemAbilityWrapper\<close>: the request is already in the parcel.\<close>
definition cl_RemoveSystemAbilityWrapper :: "'p ipc_ops \<Rightarrow> ('p, 'w) remote option \<Rightarrow> interface_code \<Rightarrow> ('p, 'w, int) C" where
  "cl_RemoveSystemAbilityWrapper P R code =
     with_remote R (INVALID_OPERATION P) (\<lambda>remote.
     transact P remote code TF_SYNC id (
     read_result P id ret))"

definition cl_AddSystemAbilityWrapper :: "'p ipc_ops \<Rightarrow> ('p, 'w) remote option \<Rightarrow> interface_code \<Rightarrow> ('p, 'w, int) C" where
  "cl_AddSystemAbilityWrapper P R code =
     with_remote R (INVALID_OPERATION P) (\<lambda>remote.
     transact P remote code TF_SYNC id (
     read_result P id ret))"

definition cl_ListSystemAbilities :: "'p ipc_ops \<Rightarrow> ('p, 'w) remote option \<Rightarrow> int \<Rightarrow> ('w, u16string list) state" where
  "cl_ListSystemAbilities P R dumpFlags = with_parcels P (
     with_remote R [] (\<lambda>remote.
     token_or P [] (
     write_or (on_data (WriteInt32 P (to_int32 dumpFlags))) [] (
     transact P remote LIST_SYSTEM_ABILITY TF_SYNC (\<lambda>_. []) (do {
       r \<leftarrow> on_reply (or_default 0 (ReadInt32 P));
       check_or (r = OK P) [] (
       read_or (on_reply (ReadString16Vector P)) [] ret) })))))"

definition cl_SubscribeSystemAbilityInner ::
  "'p ipc_ops \<Rightarrow> ('p, 'w) remote option \<Rightarrow> int \<Rightarrow> iface option \<Rightarrow> MessageOption \<Rightarrow> ('w, int) state" where
  "cl_SubscribeSystemAbilityInner P R said lis opt = with_parcels P (
     check_or (\<not> (\<not> CheckInputSysAbilityId said \<or> lis = None)) (INVALID_VALUE P) (
     with_remote R (INVALID_OPERATION P) (\<lambda>remote.
     token_or P (FLATTEN_OBJECT P) (
     write_or (on_data (WriteInt32 P said)) (FLATTEN_OBJECT P) (
     write_or (on_data (WriteRemoteObject P (AsObject (the lis)))) (FLATTEN_OBJECT P) (
     transact P remote SUBSCRIBE_SYSTEM_ABILITY opt id (
     read_result P id ret)))))))"

definition cl_SubscribeSystemAbility :: "'p ipc_ops \<Rightarrow> ('p, 'w) remote option \<Rightarrow> int \<Rightarrow> iface option \<Rightarrow> ('w, int) state" where
  "cl_SubscribeSystemAbility P R said lis = cl_SubscribeSystemAbilityInner P R said lis TF_SYNC"

definition cl_SubscribeSystemAbilityInImage :: "'p ipc_ops \<Rightarrow> ('p, 'w) remote option \<Rightarrow> int \<Rightarrow> iface option \<Rightarrow> ('w, int) state" where
  "cl_SubscribeSystemAbilityInImage P R said lis = cl_SubscribeSystemAbilityInner P R said lis TF_IMAGE"

definition cl_UnSubscribeSystemAbility :: "'p ipc_ops \<Rightarrow> ('p, 'w) remote option \<Rightarrow> int \<Rightarrow> iface option \<Rightarrow> ('w, int) state" where
  "cl_UnSubscribeSystemAbility P R said lis = with_parcels P (
     check_or (\<not> (\<not> CheckInputSysAbilityId said \<or> lis = None)) (INVALID_VALUE P) (
     with_remote R (INVALID_OPERATION P) (\<lambda>remote.
     token_or P (FLATTEN_OBJECT P) (
     write_or (on_data (WriteInt32 P said)) (FLATTEN_OBJECT P) (
     write_or (on_data (WriteRemoteObject P (AsObject (the lis)))) (FLATTEN_OBJECT P) (
     transact P remote UNSUBSCRIBE_SYSTEM_ABILITY TF_SYNC id (
     read_result P id ret)))))))"

definition cl_LoadSystemAbility :: "'p ipc_ops \<Rightarrow> ('p, 'w) remote option \<Rightarrow> int \<Rightarrow> iface option \<Rightarrow> ('w, int) state" where
  "cl_LoadSystemAbility P R said callback = with_parcels P (
     check_or (\<not> (\<not> CheckInputSysAbilityId said \<or> callback = None)) (INVALID_VALUE P) (
     with_remote R (INVALID_OPERATION P) (\<lambda>remote.
     token_or P (FLATTEN_OBJECT P) (
     write_or (on_data (WriteInt32 P said)) (FLATTEN_OBJECT P) (
     write_or (on_data (WriteRemoteObject P (AsObject (the callback)))) (FLATTEN_OBJECT P) (
     transact P remote LOAD_SYSTEM_ABILITY TF_IMAGE id (
     read_result P id ret)))))))"

definition cl_LoadRemoteSystemAbility ::
  "'p ipc_ops \<Rightarrow> ('p, 'w) remote option \<Rightarrow> int \<Rightarrow> string \<Rightarrow> iface option \<Rightarrow> ('w, int) state" where
  "cl_LoadRemoteSystemAbility P R said dev callback = with_parcels P (
     check_or (\<not> (\<not> CheckInputSysAbilityId said \<or> dev = [] \<or> callback = None)) (INVALID_VALUE P) (
     with_remote R (INVALID_OPERATION P) (\<lambda>remote.
     token_or P (FLATTEN_OBJECT P) (
     write_or (on_data (WriteInt32 P said)) (FLATTEN_OBJECT P) (
     write_or (on_data (WriteString P dev)) (FLATTEN_OBJECT P) (
     write_or (on_data (WriteRemoteObject P (AsObject (the callback)))) (FLATTEN_OBJECT P) (
     transact P remote LOAD_REMOTE_SYSTEM_ABILITY TF_IMAGE id (
     read_result P id ret))))))))"

definition cl_UnloadSystemAbility :: "'p ipc_ops \<Rightarrow> ('p, 'w) remote option \<Rightarrow> int \<Rightarrow> ('w, int) state" where
  "cl_UnloadSystemAbility P R said = with_parcels P (
     check_or (CheckInputSysAbilityId said) (INVALID_VALUE P) (
     with_remote R (INVALID_OPERATION P) (\<lambda>remote.
     token_or P (FLATTEN_OBJECT P) (
     write_or (on_data (WriteInt32 P said)) (FLATTEN_OBJECT P) (
     transact P remote UNLOAD_SYSTEM_ABILITY TF_SYNC id (
     read_result P id ret))))))"

definition cl_CancelUnloadSystemAbility :: "'p ipc_ops \<Rightarrow> ('p, 'w) remote option \<Rightarrow> int \<Rightarrow> ('w, int) state" where
  "cl_CancelUnloadSystemAbility P R said = with_parcels P (
     check_or (CheckInputSysAbilityId said) (INVALID_VALUE P) (
     with_remote R (INVALID_OPERATION P) (\<lambda>remote.
     token_or P (FLATTEN_OBJECT P) (
     write_or (on_data (WriteInt32 P said)) (FLATTEN_OBJECT P) (
     transact P remote CANCEL_UNLOAD_SYSTEM_ABILITY TF_SYNC id (
     read_result P id ret))))))"

definition cl_UnloadAllIdleSystemAbility :: "'p ipc_ops \<Rightarrow> ('p, 'w) remote option \<Rightarrow> ('w, int) state" where
  "cl_UnloadAllIdleSystemAbility P R = with_parcels P (
     with_remote R (INVALID_OPERATION P) (\<lambda>remote.
     token_or P (FLATTEN_OBJECT P) (
     transact P remote UNLOAD_ALL_IDLE_SYSTEM_ABILITY TF_ASYNC id (ret (OK P)))))"

definition cl_UnloadProcess :: "'p ipc_ops \<Rightarrow> ('p, 'w) remote option \<Rightarrow> u16string list \<Rightarrow> ('w, int) state" where
  "cl_UnloadProcess P R processList = with_parcels P (
     with_remote R (INVALID_OPERATION P) (\<lambda>remote.
     token_or P (FLATTEN_OBJECT P) (
     write_or (on_data (WriteString16Vector P processList)) (FLATTEN_OBJECT P) (
     transact P remote UNLOAD_IDLE_PROCESS_BYLIST TF_ASYNC id (ret (OK P))))))"

definition cl_OnStartSystemAbilityFail :: "'p ipc_ops \<Rightarrow> ('p, 'w) remote option \<Rightarrow> int \<Rightarrow> int \<Rightarrow> ('w, int) state" where
  "cl_OnStartSystemAbilityFail P R said errCode = with_parcels P (
     check_or (CheckInputSysAbilityId said) (INVALID_VALUE P) (
     with_remote R (INVALID_OPERATION P) (\<lambda>remote.
     token_or P (FLATTEN_OBJECT P) (
     write_or (on_data (WriteInt32 P said)) (FLATTEN_OBJECT P) (
     write_or (on_data (WriteInt32 P errCode)) (FLATTEN_OBJECT P) (
     transact P remote ONSTART_SYSTEM_ABILITY_FAIL TF_SYNC id (
     read_result P id ret)))))))"

section \<open>Processes\<close>

definition read_idle_process :: "'p ipc_ops \<Rightarrow> ('p, 'w, IdleProcessInfo option) C" where
  "read_idle_process P =
     read_or (on_reply (ReadInt32 P)) None (\<lambda>i.
     read_or (on_reply (ReadString16 P)) None (\<lambda>n.
     read_or (on_reply (ReadInt64 P)) None (\<lambda>t.
     ret (Some \<lparr> ipi_pid = i, ipi_processName = n, ipi_lastIdleTime = t \<rparr>))))"

text \<open>The size prefix and the elements of a list; the vector is cleared once the size is read.\<close>
definition read_sized :: "'p ipc_ops \<Rightarrow> ('p, 'w, 'a option) C \<Rightarrow> 'a list \<Rightarrow> ('p, 'w, int \<times> 'a list) C" where
  "read_sized P r out = read_or (on_reply (ReadInt32 P)) (FLATTEN_OBJECT P, out) (\<lambda>n.
     if n = 0 then ret (OK P, [])
     else do {
       bad \<leftarrow> gets (\<lambda>s. bad_size P n (reply s));
       if bad then ret (FLATTEN_OBJECT P, [])
       else do {
         (ok, xs) \<leftarrow> read_n (nat n) r;
         ret (if ok then OK P else FLATTEN_OBJECT P, xs) } })"

definition cl_ReadIdleProcessInfoFromParcel :: "'p ipc_ops \<Rightarrow> IdleProcessInfo list \<Rightarrow> ('p, 'w, int \<times> IdleProcessInfo list) C" where
  "cl_ReadIdleProcessInfoFromParcel P procInfos = read_sized P (read_idle_process P) procInfos"

definition cl_GetLruIdleSystemAbilityProc ::
  "'p ipc_ops \<Rightarrow> ('p, 'w) remote option \<Rightarrow> IdleProcessInfo list \<Rightarrow> ('w, int \<times> IdleProcessInfo list) state" where
  "cl_GetLruIdleSystemAbilityProc P R procInfos = with_parcels P (
     let fail = (\<lambda>e. (e, procInfos)) in
     with_remote R (fail (INVALID_OPERATION P)) (\<lambda>remote.
     token_or P (fail (FLATTEN_OBJECT P)) (
     transact P remote GET_LRU_IDLE_SYSTEM_ABILITY_PROCESS TF_SYNC fail (
     read_result P fail (\<lambda>result.
     check_or (result = OK P) (fail result) (cl_ReadIdleProcessInfoFromParcel P procInfos))))))"

definition cl_AddSystemProcess :: "'p ipc_ops \<Rightarrow> ('p, 'w) remote option \<Rightarrow> u16string \<Rightarrow> obj option \<Rightarrow> ('w, int) state" where
  "cl_AddSystemProcess P R procName procObj = with_parcels P (
     check_or (procName \<noteq> []) (INVALID_VALUE P) (
     token_or P (FLATTEN_OBJECT P) (
     write_or (on_data (WriteString16 P procName)) (FLATTEN_OBJECT P) (
     write_or (on_data (WriteRemoteObject P procObj)) (FLATTEN_OBJECT P) (
     cl_AddSystemAbilityWrapper P R ADD_SYSTEM_PROCESS)))))"

definition cl_ReadProcessInfoFromParcel :: "'p ipc_ops \<Rightarrow> SystemProcessInfo \<Rightarrow> ('p, 'w, int \<times> SystemProcessInfo) C" where
  "cl_ReadProcessInfoFromParcel P info =
     read_or (on_reply (ReadString P)) (FLATTEN_OBJECT P, info) (\<lambda>n.
     read_or (on_reply (ReadInt32 P)) (FLATTEN_OBJECT P, info \<lparr> spi_processName := n \<rparr>) (\<lambda>i.
     read_or (on_reply (ReadInt32 P)) (FLATTEN_OBJECT P, info \<lparr> spi_processName := n, spi_pid := i \<rparr>) (\<lambda>u.
     ret (OK P, info \<lparr> spi_processName := n, spi_pid := i, spi_uid := u \<rparr>))))"

definition cl_GetSystemProcessInfo ::
  "'p ipc_ops \<Rightarrow> ('p, 'w) remote option \<Rightarrow> int \<Rightarrow> SystemProcessInfo \<Rightarrow> ('w, int \<times> SystemProcessInfo) state" where
  "cl_GetSystemProcessInfo P R said info = with_parcels P (
     let fail = (\<lambda>e. (e, info)) in
     with_remote R (fail (INVALID_OPERATION P)) (\<lambda>remote.
     token_or P (fail (FLATTEN_OBJECT P)) (
     write_or (on_data (WriteInt32 P said)) (fail (FLATTEN_OBJECT P)) (
     transact P remote GET_SYSTEM_PROCESS_INFO TF_SYNC fail (
     read_result P fail (\<lambda>result.
     check_or (result = OK P) (fail result) (cl_ReadProcessInfoFromParcel P info)))))))"

definition read_process :: "'p ipc_ops \<Rightarrow> ('p, 'w, SystemProcessInfo option) C" where
  "read_process P =
     read_or (on_reply (ReadString P)) None (\<lambda>n.
     read_or (on_reply (ReadInt32 P)) None (\<lambda>i.
     read_or (on_reply (ReadInt32 P)) None (\<lambda>u.
     ret (Some \<lparr> spi_processName = n, spi_pid = i, spi_uid = u \<rparr>))))"

definition cl_ReadSystemProcessFromParcel :: "'p ipc_ops \<Rightarrow> SystemProcessInfo list \<Rightarrow> ('p, 'w, int \<times> SystemProcessInfo list) C" where
  "cl_ReadSystemProcessFromParcel P systemProcessInfos = read_sized P (read_process P) systemProcessInfos"

definition cl_GetRunningSystemProcess ::
  "'p ipc_ops \<Rightarrow> ('p, 'w) remote option \<Rightarrow> SystemProcessInfo list \<Rightarrow> ('w, int \<times> SystemProcessInfo list) state" where
  "cl_GetRunningSystemProcess P R systemProcessInfos = with_parcels P (
     let fail = (\<lambda>e. (e, systemProcessInfos)) in
     with_remote R (fail (INVALID_OPERATION P)) (\<lambda>remote.
     token_or P (fail (FLATTEN_OBJECT P)) (
     transact P remote GET_RUNNING_SYSTEM_PROCESS TF_SYNC fail (
     read_result P fail (\<lambda>result.
     check_or (result = OK P) (fail result) (cl_ReadSystemProcessFromParcel P systemProcessInfos))))))"

text \<open>The four process subscriptions send the listener and read the result.\<close>
definition process_request ::
  "'p ipc_ops \<Rightarrow> ('p, 'w) remote option \<Rightarrow> interface_code \<Rightarrow> iface option \<Rightarrow> ('w, int) state" where
  "process_request P R code lis = with_parcels P (
     check_or (lis \<noteq> None) (INVALID_VALUE P) (
     with_remote R (INVALID_OPERATION P) (\<lambda>remote.
     token_or P (FLATTEN_OBJECT P) (
     write_or (on_data (WriteRemoteObject P (AsObject (the lis)))) (FLATTEN_OBJECT P) (
     transact P remote code TF_SYNC id (
     read_result P id ret))))))"

definition cl_SubscribeSystemProcess :: "'p ipc_ops \<Rightarrow> ('p, 'w) remote option \<Rightarrow> iface option \<Rightarrow> ('w, int) state" where
  "cl_SubscribeSystemProcess P R lis = process_request P R SUBSCRIBE_SYSTEM_PROCESS lis"

definition cl_UnSubscribeSystemProcess :: "'p ipc_ops \<Rightarrow> ('p, 'w) remote option \<Rightarrow> iface option \<Rightarrow> ('w, int) state" where
  "cl_UnSubscribeSystemProcess P R lis = process_request P R UNSUBSCRIBE_SYSTEM_PROCESS lis"

definition cl_SubscribeLowMemSystemProcess :: "'p ipc_ops \<Rightarrow> ('p, 'w) remote option \<Rightarrow> iface option \<Rightarrow> ('w, int) state" where
  "cl_SubscribeLowMemSystemProcess P R lis = process_request P R SUBSCRIBE_LOWMEM_SYSTEM_PROCESS lis"

definition cl_UnSubscribeLowMemSystemProcess :: "'p ipc_ops \<Rightarrow> ('p, 'w) remote option \<Rightarrow> iface option \<Rightarrow> ('w, int) state" where
  "cl_UnSubscribeLowMemSystemProcess P R lis = process_request P R UNSUBSCRIBE_LOWMEM_SYSTEM_PROCESS lis"

section \<open>Policies, extensions and priorities\<close>

text \<open>The reply parcel is the caller's \<^verbatim>\<open>extraDataParcel\<close>, which the request fills.\<close>
definition cl_GetOnDemandReasonExtraData :: "'p ipc_ops \<Rightarrow> ('p, 'w) remote option \<Rightarrow> int \<Rightarrow> 'p \<Rightarrow> ('w, int \<times> 'p) state" where
  "cl_GetOnDemandReasonExtraData P R dataId extraDataParcel = with_parcels P (do {
     modify (\<lambda>s. s \<lparr> reply := extraDataParcel \<rparr>);
     result \<leftarrow> with_remote R (INVALID_OPERATION P) (\<lambda>remote.
       token_or P (FLATTEN_OBJECT P) (
       write_or (on_data (WriteInt64 P dataId)) (FLATTEN_OBJECT P) (
       transact P remote GET_ONDEMAND_REASON_EXTRA_DATA TF_SYNC id (
       read_result P id ret))));
     p \<leftarrow> gets reply;
     ret (result, p) })"

definition cl_GetOnDemandPolicy ::
  "'p ipc_ops \<Rightarrow> ('p, 'w) remote option \<Rightarrow> int \<Rightarrow> int \<Rightarrow> SystemAbilityOnDemandEvent list \<Rightarrow> ('w, int \<times> SystemAbilityOnDemandEvent list) state" where
  "cl_GetOnDemandPolicy P R said type events = with_parcels P (
     let fail = (\<lambda>e. (e, events)) in
     with_remote R (fail (INVALID_OPERATION P)) (\<lambda>remote.
     token_or P (fail (FLATTEN_OBJECT P)) (
     write_or (on_data (WriteInt32 P said)) (fail (FLATTEN_OBJECT P)) (
     write_or (on_data (WriteInt32 P type)) (fail (FLATTEN_OBJECT P)) (
     transact P remote GET_ONDEAMND_POLICY TF_SYNC fail (
     read_result P fail (\<lambda>result.
     check_or (result = OK P) (fail result) (do {
       (ok, evs) \<leftarrow> on_reply (run_state (ReadOnDemandEventsFromParcel P events));
       ret (if ok then OK P else FLATTEN_OBJECT P, evs) }))))))))"

definition cl_GetOnDemandSystemAbilityIds :: "'p ipc_ops \<Rightarrow> ('p, 'w) remote option \<Rightarrow> int list \<Rightarrow> ('w, int \<times> int list) state" where
  "cl_GetOnDemandSystemAbilityIds P R saids = with_parcels P (
     let fail = (\<lambda>e. (e, saids)) in
     with_remote R (fail (INVALID_OPERATION P)) (\<lambda>remote.
     token_or P (fail (FLATTEN_OBJECT P)) (
     transact P remote GET_ONDEMAND_SYSTEM_ABILITY_IDS TF_IMAGE fail (
     read_result P fail (\<lambda>result.
     check_or (result = OK P) (fail result) (
     read_or (on_reply (ReadInt32Vector P)) (FLATTEN_OBJECT P, []) (\<lambda>ids. ret (OK P, ids))))))))"

definition cl_UpdateOnDemandPolicy ::
  "'p ipc_ops \<Rightarrow> ('p, 'w) remote option \<Rightarrow> int \<Rightarrow> int \<Rightarrow> SystemAbilityOnDemandEvent list \<Rightarrow> ('w, int) state" where
  "cl_UpdateOnDemandPolicy P R said type events = with_parcels P (
     with_remote R (INVALID_OPERATION P) (\<lambda>remote.
     token_or P (FLATTEN_OBJECT P) (
     write_or (on_data (WriteInt32 P said)) (FLATTEN_OBJECT P) (
     write_or (on_data (WriteInt32 P type)) (FLATTEN_OBJECT P) (
     write_or (on_data (run_state (WriteOnDemandEventsToParcel P events))) (FLATTEN_OBJECT P) (
     transact P remote UPDATE_ONDEAMND_POLICY TF_SYNC id (
     read_result P id ret)))))))"

definition cl_SendStrategy :: "'p ipc_ops \<Rightarrow> ('p, 'w) remote option \<Rightarrow> int \<Rightarrow> int list \<Rightarrow> int \<Rightarrow> string \<Rightarrow> ('w, int) state" where
  "cl_SendStrategy P R type saids level action = with_parcels P (
     with_remote R (INVALID_OPERATION P) (\<lambda>remote.
     token_or P (FLATTEN_OBJECT P) (
     write_or (on_data (WriteInt32 P type)) (FLATTEN_OBJECT P) (
     write_or (on_data (WriteInt32Vector P saids)) (FLATTEN_OBJECT P) (
     write_or (on_data (WriteInt32 P level)) (FLATTEN_OBJECT P) (
     write_or (on_data (WriteString P action)) (FLATTEN_OBJECT P) (
     transact P remote SEND_STRATEGY TF_SYNC id (
     read_result P id ret))))))))"

text \<open>The result of the request, with the reply left in the call for the caller to read on.\<close>
definition cl_ListExtensionSendReq :: "'p ipc_ops \<Rightarrow> ('p, 'w) remote option \<Rightarrow> string \<Rightarrow> interface_code \<Rightarrow> ('p, 'w, int) C" where
  "cl_ListExtensionSendReq P R ext cmd =
     with_remote R (INVALID_OPERATION P) (\<lambda>remote.
     token_or P (FLATTEN_OBJECT P) (
     write_or (on_data (WriteString P ext)) (FLATTEN_OBJECT P) (
     transact P remote cmd TF_SYNC id (
     read_result P id ret))))"

definition cl_GetExtensionSaIds :: "'p ipc_ops \<Rightarrow> ('p, 'w) remote option \<Rightarrow> string \<Rightarrow> int list \<Rightarrow> ('w, int \<times> int list) state" where
  "cl_GetExtensionSaIds P R ext saIds = with_parcels P (do {
     r \<leftarrow> cl_ListExtensionSendReq P R ext GET_EXTENSION_SA_IDS;
     check_or (r = OK P) (r, saIds) (
     read_or (on_reply (ReadInt32Vector P)) (FLATTEN_OBJECT P, saIds) (\<lambda>ids. ret (OK P, ids))) })"

definition LAST_SYS_ABILITY_ID :: int where "LAST_SYS_ABILITY_ID = 0x00ffffff"

text \<open>A counted list that is appended to the vector and emptied on a failure; a negative count reads nothing.\<close>
definition read_counted :: "'p ipc_ops \<Rightarrow> ('p, 'w, 'a option) C \<Rightarrow> 'a list \<Rightarrow> ('p, 'w, int \<times> 'a list) C" where
  "read_counted P r out = read_or (on_reply (ReadInt32 P)) (FLATTEN_OBJECT P, out) (\<lambda>n.
     check_or (\<not> n > LAST_SYS_ABILITY_ID) (FLATTEN_OBJECT P, out) (do {
       (ok, xs) \<leftarrow> read_n (nat n) r;
       ret (if ok then (OK P, out @ xs) else (FLATTEN_OBJECT P, [])) }))"

definition cl_GetExtensionRunningSaList :: "'p ipc_ops \<Rightarrow> ('p, 'w) remote option \<Rightarrow> string \<Rightarrow> obj list \<Rightarrow> ('w, int \<times> obj list) state" where
  "cl_GetExtensionRunningSaList P R ext sas = with_parcels P (do {
     r \<leftarrow> cl_ListExtensionSendReq P R ext GET_EXTERNSION_SA_LIST;
     check_or (r = OK P) (r, sas) (read_counted P (on_reply (ReadRemoteObject P)) sas) })"

definition read_extension_info :: "'p ipc_ops \<Rightarrow> ('p, 'w, SaExtensionInfo option) C" where
  "read_extension_info P =
     read_or (on_reply (ReadInt32 P)) None (\<lambda>said.
     read_or (on_reply (ReadRemoteObject P)) None (\<lambda>x.
     ret (Some \<lparr> ext_saId = said, ext_processObj = Some x \<rparr>)))"

definition cl_GetRunningSaExtensionInfoList ::
  "'p ipc_ops \<Rightarrow> ('p, 'w) remote option \<Rightarrow> string \<Rightarrow> SaExtensionInfo list \<Rightarrow> ('w, int \<times> SaExtensionInfo list) state" where
  "cl_GetRunningSaExtensionInfoList P R ext infoList = with_parcels P (do {
     r \<leftarrow> cl_ListExtensionSendReq P R ext GET_SA_EXTENSION_INFO;
     check_or (r = OK P) (r, infoList) (read_counted P (read_extension_info P) infoList) })"

definition cl_GetCommonEventExtraDataIdlist ::
  "'p ipc_ops \<Rightarrow> ('p, 'w) remote option \<Rightarrow> int \<Rightarrow> int list \<Rightarrow> string \<Rightarrow> ('w, int \<times> int list) state" where
  "cl_GetCommonEventExtraDataIdlist P R said extraDataIdList eventName = with_parcels P (
     let fail = (\<lambda>e. (e, extraDataIdList)) in
     with_remote R (fail (INVALID_OPERATION P)) (\<lambda>remote.
     token_or P (fail (FLATTEN_OBJECT P)) (
     write_or (on_data (WriteInt32 P said)) (fail (FLATTEN_OBJECT P)) (
     write_or (on_data (WriteString P eventName)) (fail (FLATTEN_OBJECT P)) (
     transact P remote GET_COMMON_EVENT_EXTRA_ID_LIST TF_SYNC fail (
     read_result P fail (\<lambda>result.
     check_or (result = OK P) (fail result) (
     read_or (on_reply (ReadInt64Vector P)) (FLATTEN_OBJECT P, []) (\<lambda>ids. ret (OK P, ids))))))))))"

definition cl_GetLocalAbilityManagerProxy :: "'p ipc_ops \<Rightarrow> ('p, 'w) remote option \<Rightarrow> int \<Rightarrow> ('w, obj option) state" where
  "cl_GetLocalAbilityManagerProxy P R said = with_parcels P (
     check_or (CheckInputSysAbilityId said) None (
     token_or P None (
     write_or (on_data (WriteInt32 P said)) None (
     with_remote R None (\<lambda>remote.
     transact P remote GET_LOCAL_ABILITY_MANAGER_PROXY TF_SYNC (\<lambda>_. None) (on_reply (ReadRemoteObject P)))))))"

definition cl_SetSamgrIpcPrior :: "'p ipc_ops \<Rightarrow> ('p, 'w) remote option \<Rightarrow> bool \<Rightarrow> ('w, int) state" where
  "cl_SetSamgrIpcPrior P R enable = with_parcels P (
     with_remote R (INVALID_OPERATION P) (\<lambda>remote.
     token_or P (FLATTEN_OBJECT P) (
     write_or (on_data (WriteBool P enable)) (FLATTEN_OBJECT P) (
     transact P remote SET_SAMGR_IPC_PRIOR TF_ASYNC id (ret (OK P))))))"

section \<open>Requests for a user\<close>

text \<open>\<open>multi\<close> is \<^verbatim>\<open>SUPPORT_MULTI_INSTANCE\<close>.\<close>
definition cl_OnUserStateChanged :: "'p ipc_ops \<Rightarrow> bool \<Rightarrow> ('p, 'w) remote option \<Rightarrow> int \<Rightarrow> int \<Rightarrow> ('w, int) state" where
  "cl_OnUserStateChanged P multi R userId userState = with_parcels P (
     if \<not> multi then ret (OK P)
     else with_remote R (INVALID_OPERATION P) (\<lambda>remote.
     token_or P (FLATTEN_OBJECT P) (
     write_or (on_data (WriteInt32 P userId)) (FLATTEN_OBJECT P) (
     write_or (on_data (WriteInt32 P userState)) (FLATTEN_OBJECT P) (
     transact P remote ON_USER_STATE_CHANGED TF_ASYNC id (ret (OK P)))))))"

text \<open>\<^verbatim>\<open>GetSystemAbility\<close>, \<^verbatim>\<open>CheckSystemAbility\<close> and \<^verbatim>\<open>GetLocalAbilityManagerProxy\<close> for a user.\<close>
definition user_object_request ::
  "'p ipc_ops \<Rightarrow> ('p, 'w) remote option \<Rightarrow> interface_code \<Rightarrow> int \<Rightarrow> int \<Rightarrow> ('w, obj option) state" where
  "user_object_request P R code said userId = with_parcels P (
     check_or (CheckInputSysAbilityId said) None (
     with_remote R None (\<lambda>remote.
     token_or P None (
     write_or (on_data (WriteInt32 P said)) None (
     write_or (on_data (WriteInt32 P userId)) None (
     transact P remote code TF_SYNC (\<lambda>_. None) (on_reply (ReadRemoteObject P))))))))"

definition cl_GetSystemAbilityUser :: "'p ipc_ops \<Rightarrow> ('p, 'w) remote option \<Rightarrow> int \<Rightarrow> int \<Rightarrow> ('w, obj option) state" where
  "cl_GetSystemAbilityUser P R said userId = user_object_request P R GET_SYSTEM_ABILITY_WITH_USERID said userId"

definition cl_CheckSystemAbilityUser :: "'p ipc_ops \<Rightarrow> ('p, 'w) remote option \<Rightarrow> int \<Rightarrow> int \<Rightarrow> ('w, obj option) state" where
  "cl_CheckSystemAbilityUser P R said userId = user_object_request P R CHECK_SYSTEM_ABILITY_WITH_USERID said userId"

definition cl_GetLocalAbilityManagerProxyUser :: "'p ipc_ops \<Rightarrow> ('p, 'w) remote option \<Rightarrow> int \<Rightarrow> int \<Rightarrow> ('w, obj option) state" where
  "cl_GetLocalAbilityManagerProxyUser P R said userId = user_object_request P R GET_LOCAL_ABILITY_MANAGER_PROXY_WITH_USERID said userId"

definition cl_CheckSystemAbilityByUserId ::
  "'p ipc_ops \<Rightarrow> ('p, 'w) remote option \<Rightarrow> int \<Rightarrow> bool \<Rightarrow> int \<Rightarrow> ('w, obj option \<times> bool) state" where
  "cl_CheckSystemAbilityByUserId P R said isExist userId = with_parcels P (
     let fail = (None, isExist) in
     check_or (CheckInputSysAbilityId said) fail (
     with_remote R fail (\<lambda>remote.
     token_or P fail (
     write_or (on_data (WriteInt32 P said)) fail (
     write_or (on_data (WriteBool P isExist)) fail (
     write_or (on_data (WriteInt32 P userId)) fail (
     transact P remote CHECK_SYSTEM_ABILITY_BY_USERID TF_SYNC (\<lambda>_. fail) (
     read_or (on_reply (ReadRemoteObject P)) fail (\<lambda>x.
     read_or (on_reply (ReadBool P)) fail (\<lambda>b. ret (Some x, b)))))))))))"

definition cl_GetSystemProcessInfoUser ::
  "'p ipc_ops \<Rightarrow> ('p, 'w) remote option \<Rightarrow> int \<Rightarrow> SystemProcessInfo \<Rightarrow> int \<Rightarrow> ('w, int \<times> SystemProcessInfo) state" where
  "cl_GetSystemProcessInfoUser P R said info userId = with_parcels P (
     let fail = (\<lambda>e. (e, info)) in
     check_or (CheckInputSysAbilityId said) (fail (INVALID_VALUE P)) (
     with_remote R (fail (INVALID_OPERATION P)) (\<lambda>remote.
     token_or P (fail (FLATTEN_OBJECT P)) (
     write_or (on_data (WriteInt32 P said)) (fail (FLATTEN_OBJECT P)) (
     write_or (on_data (WriteInt32 P userId)) (fail (FLATTEN_OBJECT P)) (
     transact P remote GET_SYSTEM_PROCESS_INFO_WITH_USERID TF_SYNC fail (
     read_result P fail (\<lambda>result.
     check_or (result = OK P) (fail result) (cl_ReadProcessInfoFromParcel P info)))))))))"

definition cl_LoadSystemAbilityUser ::
  "'p ipc_ops \<Rightarrow> ('p, 'w) remote option \<Rightarrow> int \<Rightarrow> iface option \<Rightarrow> int \<Rightarrow> ('w, int) state" where
  "cl_LoadSystemAbilityUser P R said callback userId = with_parcels P (
     check_or (\<not> (\<not> CheckInputSysAbilityId said \<or> callback = None)) (INVALID_VALUE P) (
     with_remote R (INVALID_OPERATION P) (\<lambda>remote.
     token_or P (FLATTEN_OBJECT P) (
     write_or (on_data (WriteInt32 P said)) (FLATTEN_OBJECT P) (
     write_or (on_data (WriteRemoteObject P (AsObject (the callback)))) (FLATTEN_OBJECT P) (
     write_or (on_data (WriteInt32 P userId)) (FLATTEN_OBJECT P) (
     transact P remote LOAD_SYSTEM_ABILITY_WITH_USERID TF_IMAGE id (
     read_result P id ret))))))))"

definition cl_SubscribeSystemAbilityUser ::
  "'p ipc_ops \<Rightarrow> ('p, 'w) remote option \<Rightarrow> int \<Rightarrow> iface option \<Rightarrow> int \<Rightarrow> ('w, int) state" where
  "cl_SubscribeSystemAbilityUser P R said lis userId = with_parcels P (
     check_or (\<not> (\<not> CheckInputSysAbilityId said \<or> lis = None)) (INVALID_VALUE P) (
     with_remote R (INVALID_OPERATION P) (\<lambda>remote.
     token_or P (FLATTEN_OBJECT P) (
     write_or (on_data (WriteInt32 P said)) (FLATTEN_OBJECT P) (
     write_or (on_data (WriteRemoteObject P (AsObject (the lis)))) (FLATTEN_OBJECT P) (
     write_or (on_data (WriteInt32 P userId)) (FLATTEN_OBJECT P) (
     transact P remote SUBSCRIBE_SYSTEM_ABILITY_WITH_USERID TF_SYNC id (
     read_result P id ret))))))))"

definition cl_UnSubscribeSystemAbilityUser ::
  "'p ipc_ops \<Rightarrow> ('p, 'w) remote option \<Rightarrow> int \<Rightarrow> iface option \<Rightarrow> int \<Rightarrow> ('w, int) state" where
  "cl_UnSubscribeSystemAbilityUser P R said lis userId = with_parcels P (
     check_or (\<not> (\<not> CheckInputSysAbilityId said \<or> lis = None)) (INVALID_VALUE P) (
     with_remote R (INVALID_OPERATION P) (\<lambda>remote.
     token_or P (FLATTEN_OBJECT P) (
     write_or (on_data (WriteInt32 P said)) (FLATTEN_OBJECT P) (
     write_or (on_data (WriteRemoteObject P (AsObject (the lis)))) (FLATTEN_OBJECT P) (
     write_or (on_data (WriteInt32 P userId)) (FLATTEN_OBJECT P) (
     transact P remote UNSUBSCRIBE_SYSTEM_ABILITY_WITH_USERID TF_SYNC id (
     read_result P id ret))))))))"

definition user_process_request ::
  "'p ipc_ops \<Rightarrow> ('p, 'w) remote option \<Rightarrow> interface_code \<Rightarrow> iface option \<Rightarrow> int \<Rightarrow> ('w, int) state" where
  "user_process_request P R code lis userId = with_parcels P (
     check_or (lis \<noteq> None) (INVALID_VALUE P) (
     with_remote R (INVALID_OPERATION P) (\<lambda>remote.
     token_or P (FLATTEN_OBJECT P) (
     write_or (on_data (WriteRemoteObject P (AsObject (the lis)))) (FLATTEN_OBJECT P) (
     write_or (on_data (WriteInt32 P userId)) (FLATTEN_OBJECT P) (
     transact P remote code TF_SYNC id (
     read_result P id ret)))))))"

definition cl_SubscribeSystemProcessUser :: "'p ipc_ops \<Rightarrow> ('p, 'w) remote option \<Rightarrow> iface option \<Rightarrow> int \<Rightarrow> ('w, int) state" where
  "cl_SubscribeSystemProcessUser P R lis userId = user_process_request P R SUBSCRIBE_SYSTEM_PROCESS_WITH_USERID lis userId"

definition cl_UnSubscribeSystemProcessUser :: "'p ipc_ops \<Rightarrow> ('p, 'w) remote option \<Rightarrow> iface option \<Rightarrow> int \<Rightarrow> ('w, int) state" where
  "cl_UnSubscribeSystemProcessUser P R lis userId = user_process_request P R UNSUBSCRIBE_SYSTEM_PROCESS_WITH_USERID lis userId"

section \<open>Looking up an ability\<close>

text \<open>\<^verbatim>\<open>CheckSystemAbilityWrapper\<close>: the object of the reply and the error code, \<^verbatim>\<open>errCode\<close> when there is none.\<close>
definition cl_CheckSystemAbilityWrapper ::
  "'p ipc_ops \<Rightarrow> ('p, 'w) remote option \<Rightarrow> interface_code \<Rightarrow> int \<Rightarrow> ('p, 'w, obj option \<times> int) C" where
  "cl_CheckSystemAbilityWrapper P R code errCode =
     with_remote R (None, errCode) (\<lambda>remote.
     transact P remote code TF_IMAGE (\<lambda>e. (None, e)) (do {
       x \<leftarrow> on_reply (ReadRemoteObject P);
       ret (x, errCode) }))"

definition cl_CheckSystemAbilityTransaction :: "'p ipc_ops \<Rightarrow> ('p, 'w) remote option \<Rightarrow> int \<Rightarrow> ('w, obj option) state" where
  "cl_CheckSystemAbilityTransaction P R said = with_parcels P (
     token_or P None (
     write_or (on_data (WriteInt32 P said)) None (do {
       (x, _) \<leftarrow> cl_CheckSystemAbilityWrapper P R CHECK_SYSTEM_ABILITY (OK P);
       ret x })))"

definition cl_CheckSystemAbilityRemote ::
  "'p ipc_ops \<Rightarrow> ('p, 'w) remote option \<Rightarrow> int \<Rightarrow> string \<Rightarrow> int \<Rightarrow> ('w, obj option \<times> int) state" where
  "cl_CheckSystemAbilityRemote P R said dev errCode = with_parcels P (
     let fail = (None, errCode) in
     check_or (\<not> (\<not> CheckInputSysAbilityId said \<or> dev = [])) fail (
     with_remote R fail (\<lambda>remote.
     token_or P fail (
     write_or (on_data (WriteInt32 P said)) fail (
     write_or (on_data (WriteString P dev)) fail (
     cl_CheckSystemAbilityWrapper P R CHECK_REMOTE_SYSTEM_ABILITY errCode))))))"

end
