(* ===== verification/Client_Cache.thy ===== *)
theory Client_Cache
  imports Client
begin

text \<open>
  The functions of the client library that keep state: the table of the abilities of the own process
  (\<^verbatim>\<open>LocalAbilitys\<close>), the set of on-demand identifiers, the cache of the last query (\<^verbatim>\<open>DynamicCache\<close>), the retry
  loop of \<^verbatim>\<open>GetSystemAbility\<close> and the blocking \<^verbatim>\<open>LoadSystemAbility\<close>.
\<close>

section \<open>State\<close>

datatype cache_event = CacheAddDeath obj | CacheRemoveDeath obj

record 'w client =
  localSAMap :: "(int, obj option) smap"
  onDemandSystemAbilityIdsSet :: "int list"
  localPara :: "(string, string) smap"
  lastQuerySaId :: int
  lastQuerySaProxy :: "obj option"
  cache_events :: "cache_event list" \<comment> \<open>registrations of the cache as death recipient\<close>
  slept :: int \<comment> \<open>microseconds spent in \<^verbatim>\<open>usleep\<close>\<close>
  service :: 'w \<comment> \<open>the state of the other side\<close>

definition at_service :: "('w, 'a) state \<Rightarrow> ('w client, 'a) state" where
  "at_service m = State (\<lambda>s. (eval_st m (service s), s \<lparr> service := exec m (service s) \<rparr>))"

text \<open>What the platform answers during a query: the value of the parameter \<^verbatim>\<open>samgr.cache.sa\<close> and which objects are dead.\<close>
record query_env =
  waterLine :: string
  isDead :: "obj \<Rightarrow> bool"

section \<open>Abilities of the own process\<close>

definition AddAbility :: "int \<Rightarrow> obj option \<Rightarrow> ('w client, unit) state" where
  "AddAbility said ability = modify (\<lambda>s. s \<lparr> localSAMap := sm_ins said ability (localSAMap s) \<rparr>)"

definition GetAbility :: "int \<Rightarrow> ('w client, obj option) state" where
  "GetAbility said = gets (\<lambda>s. case sm_find said (localSAMap s) of Some x \<Rightarrow> x | None \<Rightarrow> None)"

definition RemoveAbility :: "int \<Rightarrow> ('w client, unit) state" where
  "RemoveAbility said = modify (\<lambda>s. if sm_count said (localSAMap s) then s \<lparr> localSAMap := sm_erase said (localSAMap s) \<rparr> else s)"

definition cl_MarshalSAExtraProp :: "'p ipc_ops \<Rightarrow> SAExtraProp \<Rightarrow> ('p, 'w, int) C" where
  "cl_MarshalSAExtraProp P extraProp =
     write_or (on_data (WriteBool P (ep_isDistributed extraProp))) (FLATTEN_OBJECT P) (
     write_or (on_data (WriteInt32 P (to_int32 (ep_dumpFlags extraProp)))) (FLATTEN_OBJECT P) (
     write_or (on_data (WriteString16 P (ep_capability extraProp))) (FLATTEN_OBJECT P) (
     write_or (on_data (WriteString16 P (ep_permission extraProp))) (FLATTEN_OBJECT P) (ret (OK P)))))"

text \<open>The request of \<^verbatim>\<open>AddSystemAbility\<close>, before its result is used.\<close>
definition add_request :: "'p ipc_ops \<Rightarrow> ('p, 'w) remote option \<Rightarrow> int \<Rightarrow> obj option \<Rightarrow> SAExtraProp \<Rightarrow> ('p, 'w, int) C" where
  "add_request P R said ability extraProp =
     token_or P (FLATTEN_OBJECT P) (
     write_or (on_data (WriteInt32 P said)) (FLATTEN_OBJECT P) (
     write_or (on_data (WriteRemoteObject P ability)) (FLATTEN_OBJECT P) (do {
       r \<leftarrow> cl_MarshalSAExtraProp P extraProp;
       check_or (r = OK P) r (cl_AddSystemAbilityWrapper P R ADD_SYSTEM_ABILITY) })))"

definition cl_AddSystemAbility ::
  "'p ipc_ops \<Rightarrow> ('p, 'w) remote option \<Rightarrow> int \<Rightarrow> obj option \<Rightarrow> SAExtraProp \<Rightarrow> ('w client, int) state" where
  "cl_AddSystemAbility P R said ability extraProp =
     (if \<not> CheckInputSysAbilityId said then ret (INVALID_VALUE P)
      else do {
        result \<leftarrow> at_service (with_parcels P (add_request P R said ability extraProp));
        onlyif (result = OK P) (AddAbility said ability);
        ret result })"

definition remove_request :: "'p ipc_ops \<Rightarrow> ('p, 'w) remote option \<Rightarrow> int \<Rightarrow> ('p, 'w, int) C" where
  "remove_request P R said =
     token_or P (FLATTEN_OBJECT P) (
     write_or (on_data (WriteInt32 P said)) (FLATTEN_OBJECT P) (
     cl_RemoveSystemAbilityWrapper P R REMOVE_SYSTEM_ABILITY))"

definition cl_RemoveSystemAbility :: "'p ipc_ops \<Rightarrow> ('p, 'w) remote option \<Rightarrow> int \<Rightarrow> ('w client, int) state" where
  "cl_RemoveSystemAbility P R said =
     (if \<not> CheckInputSysAbilityId said then ret (INVALID_VALUE P)
      else do {
        result \<leftarrow> at_service (with_parcels P (remove_request P R said));
        onlyif (result = OK P) (RemoveAbility said);
        ret result })"

section \<open>One attempt and the retry loop\<close>

definition check_request :: "'p ipc_ops \<Rightarrow> ('p, 'w) remote option \<Rightarrow> int \<Rightarrow> bool \<Rightarrow> int \<Rightarrow> ('p, 'w, obj option \<times> bool \<times> int) C" where
  "check_request P R said isExist errCode = (
     let fail = (None, isExist, errCode) in
     with_remote R fail (\<lambda>remote.
     token_or P fail (
     write_or (on_data (WriteInt32 P said)) fail (
     write_or (on_data (WriteBool P isExist)) fail (
     transact P remote CHECK_SYSTEM_ABILITY_IMMEDIATELY TF_IMAGE (\<lambda>e. (None, isExist, e)) (
     read_or (on_reply (ReadRemoteObject P)) fail (\<lambda>irsp.
     read_or (on_reply (ReadBool P)) fail (\<lambda>b. ret (Some irsp, b, errCode)))))))))"

text \<open>\<^verbatim>\<open>CheckSystemAbility(systemAbilityId, isExist, errCode)\<close>: the object, \<^verbatim>\<open>isExist\<close> and \<^verbatim>\<open>errCode\<close>.\<close>
definition cl_CheckSystemAbilityExist ::
  "'p ipc_ops \<Rightarrow> ('p, 'w) remote option \<Rightarrow> int \<Rightarrow> bool \<Rightarrow> int \<Rightarrow> ('w client, obj option \<times> bool \<times> int) state" where
  "cl_CheckSystemAbilityExist P R said isExist errCode =
     (if \<not> CheckInputSysAbilityId said then ret (None, isExist, errCode)
      else do {
        proxy \<leftarrow> GetAbility said;
        case proxy of
          Some x \<Rightarrow> ret (Some x, True, errCode)
        | None \<Rightarrow> at_service (with_parcels P (check_request P R said isExist errCode)) })"

definition RETRY_TIME_OUT_NUMBER :: nat where "RETRY_TIME_OUT_NUMBER = 6"
definition SLEEP_INTERVAL_TIME :: int where "SLEEP_INTERVAL_TIME = 200"
definition SLEEP_ONE_MILLI_SECOND_TIME :: int where "SLEEP_ONE_MILLI_SECOND_TIME = 1000"

definition usleep :: "int \<Rightarrow> ('w client, unit) state" where
  "usleep us = modify (\<lambda>s. s \<lparr> slept := slept s + us \<rparr>)"

text \<open>The \<^verbatim>\<open>do ... while (timeout--)\<close> loop, by the value of \<^verbatim>\<open>timeout\<close> at the start of a turn.\<close>
fun wrapper_loop :: "'p ipc_ops \<Rightarrow> ('p, 'w) remote option \<Rightarrow> int \<Rightarrow> string \<Rightarrow> nat \<Rightarrow> bool \<Rightarrow> ('w client, obj option) state" where
  "wrapper_loop P R said dev timeout isExist = do {
     (svc, isExist', errCode) \<leftarrow>
       (if dev = [] then cl_CheckSystemAbilityExist P R said isExist (OK P)
        else do { (x, e) \<leftarrow> at_service (cl_CheckSystemAbilityRemote P R said dev (OK P)); ret (x, isExist, e) });
     if errCode = DENIED P then ret None
     else case svc of
       Some x \<Rightarrow> ret (Some x)
     | None \<Rightarrow> do {
         onlyif (timeout > 0) (usleep (SLEEP_ONE_MILLI_SECOND_TIME * SLEEP_INTERVAL_TIME));
         case timeout of
           0 \<Rightarrow> ret None
         | Suc n \<Rightarrow> wrapper_loop P R said dev n isExist' } }"

declare wrapper_loop.simps [simp del]

definition cl_GetSystemAbilityWrapper :: "'p ipc_ops \<Rightarrow> ('p, 'w) remote option \<Rightarrow> int \<Rightarrow> string \<Rightarrow> ('w client, obj option) state" where
  "cl_GetSystemAbilityWrapper P R said dev =
     (if \<not> CheckInputSysAbilityId said then ret None
      else wrapper_loop P R said dev RETRY_TIME_OUT_NUMBER False)"

section \<open>The cache of the last query\<close>

definition GET_SYSTEM_ABILITY_CODE :: int where "GET_SYSTEM_ABILITY_CODE = 1"
definition CHECK_SYSTEM_ABILITY_CODE :: int where "CHECK_SYSTEM_ABILITY_CODE = 2"
definition cache_key :: string where "cache_key = ''samgr.cache.sa''"

definition ClearCache :: "('w client, unit) state" where
  "ClearCache = modify (\<lambda>s. s \<lparr>
     cache_events := cache_events s @ (case lastQuerySaProxy s of Some x \<Rightarrow> [CacheRemoveDeath x] | None \<Rightarrow> []),
     lastQuerySaId := -1, lastQuerySaProxy := None \<rparr>)"

definition cl_Recompute :: "'p ipc_ops \<Rightarrow> ('p, 'w) remote option \<Rightarrow> int \<Rightarrow> int \<Rightarrow> ('w client, obj option) state" where
  "cl_Recompute P R said code = do {
     ClearCache;
     if code = GET_SYSTEM_ABILITY_CODE then cl_GetSystemAbilityWrapper P R said []
     else at_service (cl_CheckSystemAbilityTransaction P R said) }"

definition CanUseCache :: "query_env \<Rightarrow> int \<Rightarrow> string \<Rightarrow> 'w client \<Rightarrow> bool" where
  "CanUseCache q querySaId defaultValue s \<longleftrightarrow> sm_count cache_key (localPara s) \<and> lastQuerySaId s = querySaId \<and>
     defaultValue \<noteq> waterLine q \<and> sm_find cache_key (localPara s) = Some (waterLine q) \<and>
     lastQuerySaProxy s \<noteq> None \<and> \<not> isDead q (the (lastQuerySaProxy s))"

definition QueryResult :: "'p ipc_ops \<Rightarrow> query_env \<Rightarrow> ('p, 'w) remote option \<Rightarrow> int \<Rightarrow> int \<Rightarrow> ('w client, obj option) state" where
  "QueryResult P q R querySaId code = do {
     hit \<leftarrow> gets (CanUseCache q querySaId ''default'');
     if hit then gets lastQuerySaProxy
     else do {
       res \<leftarrow> cl_Recompute P R querySaId code;
       case res of
         None \<Rightarrow> ret None
       | Some x \<Rightarrow> do {
           modify (\<lambda>s. s \<lparr> localPara := sm_ins cache_key (waterLine q) (localPara s),
             cache_events := cache_events s @ (case lastQuerySaProxy s of Some y \<Rightarrow> [CacheRemoveDeath y] | None \<Rightarrow> []) @ [CacheAddDeath x],
             lastQuerySaId := querySaId, lastQuerySaProxy := Some x \<rparr>);
           ret (Some x) } } }"

text \<open>\<^verbatim>\<open>OnRemoteDied\<close> of the cache.\<close>
definition cache_OnRemoteDied :: "('w client, unit) state" where
  "cache_OnRemoteDied = ClearCache"

definition cl_IsOnDemandSystemAbility :: "'p ipc_ops \<Rightarrow> ('p, 'w) remote option \<Rightarrow> int \<Rightarrow> ('w client, bool) state" where
  "cl_IsOnDemandSystemAbility P R said = do {
     ids \<leftarrow> gets onDemandSystemAbilityIdsSet;
     if ids \<noteq> [] then ret (said \<in> set ids)
     else do {
       (_, onDemandIds) \<leftarrow> at_service (cl_GetOnDemandSystemAbilityIds P R []);
       modify (\<lambda>s. s \<lparr> onDemandSystemAbilityIdsSet := fold (\<lambda>i is. if i \<in> set is then is else insort i is) onDemandIds (onDemandSystemAbilityIdsSet s) \<rparr>);
       gets (\<lambda>s. said \<in> set (onDemandSystemAbilityIdsSet s)) } }"

definition cl_GetSystemAbility :: "'p ipc_ops \<Rightarrow> query_env \<Rightarrow> ('p, 'w) remote option \<Rightarrow> int \<Rightarrow> ('w client, obj option) state" where
  "cl_GetSystemAbility P q R said = do {
     onDemand \<leftarrow> cl_IsOnDemandSystemAbility P R said;
     if onDemand then cl_GetSystemAbilityWrapper P R said []
     else QueryResult P q R said GET_SYSTEM_ABILITY_CODE }"

definition cl_GetSystemAbilityRemote :: "'p ipc_ops \<Rightarrow> ('p, 'w) remote option \<Rightarrow> int \<Rightarrow> string \<Rightarrow> ('w client, obj option) state" where
  "cl_GetSystemAbilityRemote P R said dev = cl_GetSystemAbilityWrapper P R said dev"

definition cl_CheckSystemAbility :: "'p ipc_ops \<Rightarrow> query_env \<Rightarrow> ('p, 'w) remote option \<Rightarrow> int \<Rightarrow> ('w client, obj option) state" where
  "cl_CheckSystemAbility P q R said =
     (if \<not> CheckInputSysAbilityId said then ret None
      else do {
        onDemand \<leftarrow> cl_IsOnDemandSystemAbility P R said;
        if onDemand then at_service (cl_CheckSystemAbilityTransaction P R said)
        else QueryResult P q R said CHECK_SYSTEM_ABILITY_CODE })"

section \<open>The blocking load\<close>

text \<open>
  \<^verbatim>\<open>SystemAbilityProxyCallback\<close>: a report sets \<^verbatim>\<open>loadproxy_\<close> and wakes the waiting thread, which goes on waiting while
  \<^verbatim>\<open>loadproxy_\<close> is null. A report is the time in milliseconds at which it arrives and what it carries.
\<close>
datatype load_report = LoadSuccess "obj option" | LoadFail

definition reported_proxy :: "load_report \<Rightarrow> obj option" where
  "reported_proxy r = (case r of LoadSuccess x \<Rightarrow> x | LoadFail \<Rightarrow> None)"

text \<open>\<^verbatim>\<open>cv_.wait_for\<close>: what the call returns and the time at which the wait ends.\<close>
fun wait_for_load :: "int \<Rightarrow> (int \<times> load_report) list \<Rightarrow> obj option \<times> int" where
  "wait_for_load deadline [] = (None, deadline)"
| "wait_for_load deadline ((t, r) # rs) =
     (if t > deadline then (None, deadline)
      else case reported_proxy r of
        Some x \<Rightarrow> (Some x, t)
      | None \<Rightarrow> wait_for_load deadline rs)"

definition MIN_TIMEOUT :: int where "MIN_TIMEOUT = 0"

text \<open>\<open>extended\<close> is \<^verbatim>\<open>SAMGR_ENABLE_EXTEND_LOAD_TIMEOUT\<close>.\<close>
definition MAX_TIMEOUT :: "bool \<Rightarrow> int" where "MAX_TIMEOUT extended = (if extended then 12 else 4)"

definition clamp_timeout :: "bool \<Rightarrow> int \<Rightarrow> int" where
  "clamp_timeout extended timeout =
     (if timeout < MIN_TIMEOUT then MIN_TIMEOUT else if timeout > MAX_TIMEOUT extended then MAX_TIMEOUT extended else timeout)"

text \<open>The object and the milliseconds the thread waited; \<open>callback\<close> is the new callback object.\<close>
definition cl_LoadSystemAbilityTimeout ::
  "'p ipc_ops \<Rightarrow> bool \<Rightarrow> iface \<Rightarrow> (int \<times> load_report) list \<Rightarrow> ('p, 'w) remote option \<Rightarrow> int \<Rightarrow> int \<Rightarrow> ('w, obj option \<times> int) state" where
  "cl_LoadSystemAbilityTimeout P extended callback reports R said timeout = do {
     r \<leftarrow> cl_LoadSystemAbility P R said (Some callback);
     ret (if r \<noteq> OK P then (None, 0) else wait_for_load (1000 * clamp_timeout extended timeout) reports) }"

definition cl_LoadSystemAbilityTimeoutUser ::
  "'p ipc_ops \<Rightarrow> bool \<Rightarrow> iface \<Rightarrow> (int \<times> load_report) list \<Rightarrow> ('p, 'w) remote option \<Rightarrow> int \<Rightarrow> int \<Rightarrow> int \<Rightarrow> ('w, obj option \<times> int) state" where
  "cl_LoadSystemAbilityTimeoutUser P extended callback reports R said timeout userId = do {
     r \<leftarrow> cl_LoadSystemAbilityUser P R said (Some callback) userId;
     ret (if r \<noteq> OK P then (None, 0) else wait_for_load (1000 * clamp_timeout extended timeout) reports) }"

end
