(* ===== verification/Callbacks.thy ===== *)
theory Callbacks
  imports Stub_Handlers
begin

text \<open>
  Calls to the peers: the proxies through which the service calls a client's load callback and listeners
  (\<^verbatim>\<open>system_ability_load_callback_proxy.cpp\<close>, \<^verbatim>\<open>system_ability_status_change_proxy.cpp\<close>,
  \<^verbatim>\<open>system_process_status_change_proxy.cpp\<close>), the stubs that receive these calls
  (\<^verbatim>\<open>frameworks/native/source/\<close>), and the proxy through which it controls an ability's process
  (\<^verbatim>\<open>lsamgr/src/local_ability_manager_proxy.cpp\<close>). A proxy function is \<open>px_\<close> and its name, a stub function
  \<open>st_\<close> and its name; the virtual methods of a stub are a record.
\<close>

section \<open>Load callbacks\<close>

definition LOAD_CALLBACK_DESCRIPTOR :: u16string where "LOAD_CALLBACK_DESCRIPTOR = u16 ''OHOS.ISystemAbilityLoadCallback''"
definition ON_LOAD_SYSTEM_ABILITY_SUCCESS :: nat where "ON_LOAD_SYSTEM_ABILITY_SUCCESS = 1"
definition ON_LOAD_SYSTEM_ABILITY_FAIL :: nat where "ON_LOAD_SYSTEM_ABILITY_FAIL = 2"
definition ON_LOAD_SYSTEM_ABILITY_COMPLETE_FOR_REMOTE :: nat where "ON_LOAD_SYSTEM_ABILITY_COMPLETE_FOR_REMOTE = 3"
definition ON_LOAD_SYSTEM_ABILITY_FAIL_WITH_CODE :: nat where "ON_LOAD_SYSTEM_ABILITY_FAIL_WITH_CODE = 4"

text \<open>The common beginning of a proxy function that returns nothing: null remote, then the interface token.\<close>
definition notify :: "'p ipc_ops \<Rightarrow> ('p, 'w) remote option \<Rightarrow> u16string \<Rightarrow> (('p, 'w) remote \<Rightarrow> ('p, 'w, unit) C) \<Rightarrow> ('p, 'w, unit) C" where
  "notify P R descriptor k = (case R of
       None \<Rightarrow> ret ()
     | Some remote \<Rightarrow> write_or (on_data (WriteInterfaceToken P descriptor)) () (k remote))"

definition send_async :: "('p, 'w) remote \<Rightarrow> nat \<Rightarrow> ('p, 'w, unit) C" where
  "send_async remote code = do { _ \<leftarrow> SendRequest remote code TF_ASYNC; ret () }"

definition px_OnLoadSystemAbilitySuccess :: "'p ipc_ops \<Rightarrow> ('p, 'w) remote option \<Rightarrow> int \<Rightarrow> obj option \<Rightarrow> ('w, unit) state" where
  "px_OnLoadSystemAbilitySuccess P R said remoteObject = with_parcels P (
     if said \<le> 0 then ret ()
     else notify P R LOAD_CALLBACK_DESCRIPTOR (\<lambda>remote.
       write_or (on_data (WriteInt32 P said)) () (
       if remoteObject = None then ret ()
       else write_or (on_data (WriteRemoteObject P remoteObject)) () (
       send_async remote ON_LOAD_SYSTEM_ABILITY_SUCCESS))))"

definition px_OnLoadSystemAbilityFail :: "'p ipc_ops \<Rightarrow> ('p, 'w) remote option \<Rightarrow> int \<Rightarrow> ('w, unit) state" where
  "px_OnLoadSystemAbilityFail P R said = with_parcels P (
     if said \<le> 0 then ret ()
     else notify P R LOAD_CALLBACK_DESCRIPTOR (\<lambda>remote.
       write_or (on_data (WriteInt32 P said)) () (
       send_async remote ON_LOAD_SYSTEM_ABILITY_FAIL)))"

definition px_OnLoadSystemAbilityFailCode :: "'p ipc_ops \<Rightarrow> ('p, 'w) remote option \<Rightarrow> int \<Rightarrow> int \<Rightarrow> ('w, unit) state" where
  "px_OnLoadSystemAbilityFailCode P R said errCode = with_parcels P (
     if said \<le> 0 then ret ()
     else notify P R LOAD_CALLBACK_DESCRIPTOR (\<lambda>remote.
       write_or (on_data (WriteInt32 P said)) () (
       write_or (on_data (WriteInt32 P errCode)) () (
       send_async remote ON_LOAD_SYSTEM_ABILITY_FAIL_WITH_CODE))))"

definition px_OnLoadSACompleteForRemote ::
  "'p ipc_ops \<Rightarrow> ('p, 'w) remote option \<Rightarrow> string \<Rightarrow> int \<Rightarrow> obj option \<Rightarrow> ('w, unit) state" where
  "px_OnLoadSACompleteForRemote P R dev said remoteObject = with_parcels P (
     if said \<le> 0 then ret ()
     else notify P R LOAD_CALLBACK_DESCRIPTOR (\<lambda>remote.
       write_or (on_data (WriteString P dev)) () (
       write_or (on_data (WriteInt32 P said)) () (do {
         ok \<leftarrow> (if remoteObject = None then on_data (WriteBool P False)
               else do { _ \<leftarrow> on_data (WriteBool P True); on_data (WriteRemoteObject P remoteObject) });
         if \<not> ok then ret () else send_async remote ON_LOAD_SYSTEM_ABILITY_COMPLETE_FOR_REMOTE }))))"

record 's load_callback =
  cb_OnLoadSystemAbilitySuccess :: "int \<Rightarrow> obj option \<Rightarrow> ('s, unit) state"
  cb_OnLoadSystemAbilityFail :: "int \<Rightarrow> ('s, unit) state"
  cb_OnLoadSystemAbilityFailCode :: "int \<Rightarrow> int \<Rightarrow> ('s, unit) state"
  cb_OnLoadSACompleteForRemote :: "string \<Rightarrow> int \<Rightarrow> obj option \<Rightarrow> ('s, unit) state"

definition CheckInputSystemAbilityId :: "int \<Rightarrow> bool" where
  "CheckInputSystemAbilityId said \<longleftrightarrow> said \<ge> 0 \<and> said \<le> 0x00ffffff"

definition st_OnLoadSystemAbilitySuccessInner :: "'p ipc_ops \<Rightarrow> 's load_callback \<Rightarrow> ('p, 's, int) C" where
  "st_OnLoadSystemAbilitySuccessInner P m =
     read_or (on_data (ReadInt32 P)) (INVALID_VALUE P) (\<lambda>said.
     check_or (CheckInputSystemAbilityId said) (INVALID_VALUE P) (do {
       remoteObject \<leftarrow> on_data (ReadRemoteObject P);
       invoke (cb_OnLoadSystemAbilitySuccess m said remoteObject);
       ret (OK P) }))"

definition st_OnLoadSystemAbilityFailInner :: "'p ipc_ops \<Rightarrow> 's load_callback \<Rightarrow> ('p, 's, int) C" where
  "st_OnLoadSystemAbilityFailInner P m =
     read_or (on_data (ReadInt32 P)) (INVALID_VALUE P) (\<lambda>said.
     check_or (CheckInputSystemAbilityId said) (INVALID_VALUE P) (do {
       invoke (cb_OnLoadSystemAbilityFail m said);
       ret (OK P) }))"

definition st_OnLoadSystemAbilityFailWithCodeInner :: "'p ipc_ops \<Rightarrow> 's load_callback \<Rightarrow> ('p, 's, int) C" where
  "st_OnLoadSystemAbilityFailWithCodeInner P m =
     read_or (on_data (ReadInt32 P)) (INVALID_VALUE P) (\<lambda>said.
     read_or (on_data (ReadInt32 P)) (INVALID_VALUE P) (\<lambda>errCode.
     check_or (CheckInputSystemAbilityId said) (INVALID_VALUE P) (do {
       invoke (cb_OnLoadSystemAbilityFailCode m said errCode);
       ret (OK P) })))"

definition st_OnLoadSACompleteForRemoteInner :: "'p ipc_ops \<Rightarrow> 's load_callback \<Rightarrow> ('p, 's, int) C" where
  "st_OnLoadSACompleteForRemoteInner P m = do {
     dev \<leftarrow> on_data (or_default [] (ReadString P));
     read_or (on_data (ReadInt32 P)) (INVALID_VALUE P) (\<lambda>said.
     check_or (CheckInputSystemAbilityId said) (INVALID_VALUE P) (do {
       ok \<leftarrow> on_data (or_default False (ReadBool P));
       remoteObject \<leftarrow> (if ok then on_data (ReadRemoteObject P) else ret None);
       invoke (cb_OnLoadSACompleteForRemote m dev said remoteObject);
       ret (OK P) })) }"

text \<open>The token of a stub must be the descriptor of its interface; \<open>dflt\<close> is \<^verbatim>\<open>IPCObjectStub::OnRemoteRequest\<close>.\<close>
definition enforce_descriptor :: "'p ipc_ops \<Rightarrow> u16string \<Rightarrow> ('p, 's, int) C \<Rightarrow> ('p, 's, int) C" where
  "enforce_descriptor P descriptor k = do {
     interfaceToken \<leftarrow> on_data (ReadInterfaceToken P);
     check_or (interfaceToken = descriptor) (DENIED P) k }"

definition st_load_OnRemoteRequest ::
  "'p ipc_ops \<Rightarrow> (nat \<Rightarrow> ('p, 's, int) C) \<Rightarrow> 's load_callback \<Rightarrow> nat \<Rightarrow> ('p, 's, int) C" where
  "st_load_OnRemoteRequest P dflt m code = enforce_descriptor P LOAD_CALLBACK_DESCRIPTOR (
     if code = ON_LOAD_SYSTEM_ABILITY_SUCCESS then st_OnLoadSystemAbilitySuccessInner P m
     else if code = ON_LOAD_SYSTEM_ABILITY_FAIL then st_OnLoadSystemAbilityFailInner P m
     else if code = ON_LOAD_SYSTEM_ABILITY_COMPLETE_FOR_REMOTE then st_OnLoadSACompleteForRemoteInner P m
     else if code = ON_LOAD_SYSTEM_ABILITY_FAIL_WITH_CODE then st_OnLoadSystemAbilityFailWithCodeInner P m
     else dflt code)"

section \<open>Ability listeners\<close>

definition STATUS_CHANGE_DESCRIPTOR :: u16string where "STATUS_CHANGE_DESCRIPTOR = u16 ''OHOS.ISystemAbilityStatusChange''"
definition ON_ADD_SYSTEM_ABILITY :: nat where "ON_ADD_SYSTEM_ABILITY = 1"
definition ON_REMOVE_SYSTEM_ABILITY :: nat where "ON_REMOVE_SYSTEM_ABILITY = 2"

definition px_status_SendRequestInner :: "'p ipc_ops \<Rightarrow> ('p, 'w) remote option \<Rightarrow> nat \<Rightarrow> int \<Rightarrow> string \<Rightarrow> ('w, bool) state" where
  "px_status_SendRequestInner P R code said dev = with_parcels P (
     if said \<le> 0 then ret False
     else case R of None \<Rightarrow> ret False | Some remote \<Rightarrow>
       write_or (on_data (WriteInterfaceToken P STATUS_CHANGE_DESCRIPTOR)) False (
       write_or (on_data (WriteInt32 P said)) False (
       write_or (on_data (WriteString P dev)) False (do {
         status \<leftarrow> SendRequest remote code TF_ASYNC;
         ret (status = OK P) }))))"

definition px_OnAddSystemAbility :: "'p ipc_ops \<Rightarrow> ('p, 'w) remote option \<Rightarrow> int \<Rightarrow> string \<Rightarrow> ('w, unit) state" where
  "px_OnAddSystemAbility P R said dev = do { _ \<leftarrow> px_status_SendRequestInner P R ON_ADD_SYSTEM_ABILITY said dev; ret () }"

definition px_OnRemoveSystemAbility :: "'p ipc_ops \<Rightarrow> ('p, 'w) remote option \<Rightarrow> int \<Rightarrow> string \<Rightarrow> ('w, unit) state" where
  "px_OnRemoveSystemAbility P R said dev = do { _ \<leftarrow> px_status_SendRequestInner P R ON_REMOVE_SYSTEM_ABILITY said dev; ret () }"

record 's status_change =
  sc_OnAddSystemAbility :: "int \<Rightarrow> string \<Rightarrow> ('s, unit) state"
  sc_OnRemoveSystemAbility :: "int \<Rightarrow> string \<Rightarrow> ('s, unit) state"

definition st_OnAddSystemAbilityInner :: "'p ipc_ops \<Rightarrow> 's status_change \<Rightarrow> ('p, 's, int) C" where
  "st_OnAddSystemAbilityInner P m =
     read_or (on_data (ReadInt32 P)) (NULL_OBJECT P) (\<lambda>said.
     check_or (CheckInputSystemAbilityId said) (NULL_OBJECT P) (do {
       dev \<leftarrow> on_data (or_default [] (ReadString P));
       invoke (sc_OnAddSystemAbility m said dev);
       ret (OK P) }))"

definition st_OnRemoveSystemAbilityInner :: "'p ipc_ops \<Rightarrow> 's status_change \<Rightarrow> ('p, 's, int) C" where
  "st_OnRemoveSystemAbilityInner P m =
     read_or (on_data (ReadInt32 P)) (NULL_OBJECT P) (\<lambda>said.
     check_or (CheckInputSystemAbilityId said) (NULL_OBJECT P) (do {
       dev \<leftarrow> on_data (or_default [] (ReadString P));
       invoke (sc_OnRemoveSystemAbility m said dev);
       ret (OK P) }))"

definition st_status_OnRemoteRequest ::
  "'p ipc_ops \<Rightarrow> (nat \<Rightarrow> ('p, 's, int) C) \<Rightarrow> 's status_change \<Rightarrow> nat \<Rightarrow> ('p, 's, int) C" where
  "st_status_OnRemoteRequest P dflt m code = enforce_descriptor P STATUS_CHANGE_DESCRIPTOR (
     case map_of [(ON_ADD_SYSTEM_ABILITY, st_OnAddSystemAbilityInner P m),
       (ON_REMOVE_SYSTEM_ABILITY, st_OnRemoveSystemAbilityInner P m)] code of
       Some handler \<Rightarrow> handler
     | None \<Rightarrow> dflt code)"

section \<open>Process listeners\<close>

definition PROCESS_CHANGE_DESCRIPTOR :: u16string where "PROCESS_CHANGE_DESCRIPTOR = u16 ''OHOS.ISystemProcessStatusChange''"
definition ON_SYSTEM_PROCESS_STARTED :: nat where "ON_SYSTEM_PROCESS_STARTED = 1"
definition ON_SYSTEM_PROCESS_STOPPED :: nat where "ON_SYSTEM_PROCESS_STOPPED = 2"
definition ON_SYSTEM_PROCESS_ACTIVATED :: nat where "ON_SYSTEM_PROCESS_ACTIVATED = 3"
definition ON_SYSTEM_PROCESS_IDLED :: nat where "ON_SYSTEM_PROCESS_IDLED = 4"

definition px_process_SendRequestInner :: "'p ipc_ops \<Rightarrow> ('p, 'w) remote option \<Rightarrow> nat \<Rightarrow> SystemProcessInfo \<Rightarrow> ('w, bool) state" where
  "px_process_SendRequestInner P R code info = with_parcels P (
     if spi_processName info = [] then ret False
     else case R of None \<Rightarrow> ret False | Some remote \<Rightarrow>
       write_or (on_data (WriteInterfaceToken P PROCESS_CHANGE_DESCRIPTOR)) False (
       write_or (on_data (WriteString P (spi_processName info))) False (
       write_or (on_data (WriteInt32 P (spi_pid info))) False (
       write_or (on_data (WriteInt32 P (spi_uid info))) False (do {
         status \<leftarrow> SendRequest remote code TF_ASYNC;
         ret (status = OK P) })))))"

definition px_OnSystemProcessStarted :: "'p ipc_ops \<Rightarrow> ('p, 'w) remote option \<Rightarrow> SystemProcessInfo \<Rightarrow> ('w, unit) state" where
  "px_OnSystemProcessStarted P R info = do { _ \<leftarrow> px_process_SendRequestInner P R ON_SYSTEM_PROCESS_STARTED info; ret () }"

definition px_OnSystemProcessStopped :: "'p ipc_ops \<Rightarrow> ('p, 'w) remote option \<Rightarrow> SystemProcessInfo \<Rightarrow> ('w, unit) state" where
  "px_OnSystemProcessStopped P R info = do { _ \<leftarrow> px_process_SendRequestInner P R ON_SYSTEM_PROCESS_STOPPED info; ret () }"

definition px_OnSystemProcessActivated :: "'p ipc_ops \<Rightarrow> ('p, 'w) remote option \<Rightarrow> SystemProcessInfo \<Rightarrow> ('w, unit) state" where
  "px_OnSystemProcessActivated P R info = do { _ \<leftarrow> px_process_SendRequestInner P R ON_SYSTEM_PROCESS_ACTIVATED info; ret () }"

definition px_OnSystemProcessIdled :: "'p ipc_ops \<Rightarrow> ('p, 'w) remote option \<Rightarrow> SystemProcessInfo \<Rightarrow> ('w, unit) state" where
  "px_OnSystemProcessIdled P R info = do { _ \<leftarrow> px_process_SendRequestInner P R ON_SYSTEM_PROCESS_IDLED info; ret () }"

record 's process_change =
  pc_OnSystemProcessStarted :: "SystemProcessInfo \<Rightarrow> ('s, unit) state"
  pc_OnSystemProcessStopped :: "SystemProcessInfo \<Rightarrow> ('s, unit) state"
  pc_OnSystemProcessActivated :: "SystemProcessInfo \<Rightarrow> ('s, unit) state"
  pc_OnSystemProcessIdled :: "SystemProcessInfo \<Rightarrow> ('s, unit) state"

definition st_ReadProcessInfo :: "'p ipc_ops \<Rightarrow> ('p, 's, SystemProcessInfo option) C" where
  "st_ReadProcessInfo P =
     read_or (on_data (ReadString P)) None (\<lambda>n.
     read_or (on_data (ReadInt32 P)) None (\<lambda>i.
     read_or (on_data (ReadInt32 P)) None (\<lambda>u.
     ret (Some \<lparr> spi_processName = n, spi_pid = i, spi_uid = u \<rparr>))))"

definition st_OnSystemProcessStartedInner :: "'p ipc_ops \<Rightarrow> 's process_change \<Rightarrow> ('p, 's, int) C" where
  "st_OnSystemProcessStartedInner P m =
     read_or (st_ReadProcessInfo P) (NULL_OBJECT P) (\<lambda>info. do { invoke (pc_OnSystemProcessStarted m info); ret (OK P) })"

definition st_OnSystemProcessStoppedInner :: "'p ipc_ops \<Rightarrow> 's process_change \<Rightarrow> ('p, 's, int) C" where
  "st_OnSystemProcessStoppedInner P m =
     read_or (st_ReadProcessInfo P) (NULL_OBJECT P) (\<lambda>info. do { invoke (pc_OnSystemProcessStopped m info); ret (OK P) })"

definition st_OnSystemProcessActivatedInner :: "'p ipc_ops \<Rightarrow> 's process_change \<Rightarrow> ('p, 's, int) C" where
  "st_OnSystemProcessActivatedInner P m =
     read_or (st_ReadProcessInfo P) (NULL_OBJECT P) (\<lambda>info. do { invoke (pc_OnSystemProcessActivated m info); ret (OK P) })"

definition st_OnSystemProcessIdledInner :: "'p ipc_ops \<Rightarrow> 's process_change \<Rightarrow> ('p, 's, int) C" where
  "st_OnSystemProcessIdledInner P m =
     read_or (st_ReadProcessInfo P) (NULL_OBJECT P) (\<lambda>info. do { invoke (pc_OnSystemProcessIdled m info); ret (OK P) })"

definition st_process_OnRemoteRequest ::
  "'p ipc_ops \<Rightarrow> (nat \<Rightarrow> ('p, 's, int) C) \<Rightarrow> 's process_change \<Rightarrow> nat \<Rightarrow> ('p, 's, int) C" where
  "st_process_OnRemoteRequest P dflt m code = enforce_descriptor P PROCESS_CHANGE_DESCRIPTOR (
     case map_of [(ON_SYSTEM_PROCESS_STARTED, st_OnSystemProcessStartedInner P m),
       (ON_SYSTEM_PROCESS_STOPPED, st_OnSystemProcessStoppedInner P m),
       (ON_SYSTEM_PROCESS_ACTIVATED, st_OnSystemProcessActivatedInner P m),
       (ON_SYSTEM_PROCESS_IDLED, st_OnSystemProcessIdledInner P m)] code of
       Some handler \<Rightarrow> handler
     | None \<Rightarrow> dflt code)"

section \<open>The local ability manager\<close>

datatype SafwkInterfaceCode = START_ABILITY | STOP_ABILITY | ACTIVE_ABILITY | IDLE_ABILITY | SEND_STRATEGY_TO_SA
  | IPC_STAT_CMD | FFRT_DUMPER | SYSTEM_ABILITY_EXT | SERVICE_CONTROL_CMD | FFRT_STAT_CMD

fun safwk_code :: "SafwkInterfaceCode \<Rightarrow> nat" where
  "safwk_code START_ABILITY = 1"
| "safwk_code STOP_ABILITY = 2"
| "safwk_code ACTIVE_ABILITY = 3"
| "safwk_code IDLE_ABILITY = 4"
| "safwk_code SEND_STRATEGY_TO_SA = 5"
| "safwk_code IPC_STAT_CMD = 6"
| "safwk_code FFRT_DUMPER = 7"
| "safwk_code SYSTEM_ABILITY_EXT = 8"
| "safwk_code SERVICE_CONTROL_CMD = 9"
| "safwk_code FFRT_STAT_CMD = 10"

definition LOCAL_ABILITY_MANAGER_INTERFACE_TOKEN :: u16string where
  "LOCAL_ABILITY_MANAGER_INTERFACE_TOKEN = u16 ''ohos.localabilitymanager.accessToken''"

text \<open>\<^verbatim>\<open>status = iro->SendRequest(...); if (status != NO_ERROR) return e;\<close>\<close>
definition safwk_send :: "'p ipc_ops \<Rightarrow> ('p, 'w) remote \<Rightarrow> SafwkInterfaceCode \<Rightarrow> MessageOption \<Rightarrow> 'a \<Rightarrow> ('p, 'w, 'a) C \<Rightarrow> ('p, 'w, 'a) C" where
  "safwk_send P iro code opt e k = do {
     status \<leftarrow> SendRequest iro (safwk_code code) opt;
     check_or (status = OK P) e k }"

text \<open>Null remote, then the interface token.\<close>
definition with_local :: "'p ipc_ops \<Rightarrow> ('p, 'w) remote option \<Rightarrow> 'a \<Rightarrow> (('p, 'w) remote \<Rightarrow> ('p, 'w, 'a) C) \<Rightarrow> ('p, 'w, 'a) C" where
  "with_local P R e k = (case R of
       None \<Rightarrow> ret e
     | Some iro \<Rightarrow> write_or (on_data (WriteInterfaceToken P LOCAL_ABILITY_MANAGER_INTERFACE_TOKEN)) e (k iro))"

definition px_StartAbility :: "'p ipc_ops \<Rightarrow> ('p, 'w) remote option \<Rightarrow> int \<Rightarrow> string \<Rightarrow> ('w, bool) state" where
  "px_StartAbility P R said eventStr = with_parcels P (
     check_or (\<not> said \<le> 0) False (
     check_or (eventStr \<noteq> []) False (
     with_local P R False (\<lambda>iro.
     write_or (on_data (WriteInt32 P said)) False (
     write_or (on_data (WriteString P eventStr)) False (
     safwk_send P iro START_ABILITY TF_ASYNC False (ret True)))))))"

definition px_StopAbility :: "'p ipc_ops \<Rightarrow> ('p, 'w) remote option \<Rightarrow> int \<Rightarrow> string \<Rightarrow> ('w, bool) state" where
  "px_StopAbility P R said eventStr = with_parcels P (
     check_or (\<not> said \<le> 0) False (
     check_or (eventStr \<noteq> []) False (
     with_local P R False (\<lambda>iro.
     write_or (on_data (WriteInt32 P said)) False (
     write_or (on_data (WriteString P eventStr)) False (
     safwk_send P iro STOP_ABILITY TF_ASYNC False (ret True)))))))"

text \<open>\<open>reason\<close> is the text of the JSON object, \<^verbatim>\<open>activeReason.dump()\<close>.\<close>
definition px_ActiveAbility :: "'p ipc_ops \<Rightarrow> ('p, 'w) remote option \<Rightarrow> int \<Rightarrow> string \<Rightarrow> ('w, bool) state" where
  "px_ActiveAbility P R said reason = with_parcels P (
     check_or (\<not> said \<le> 0) False (
     with_local P R False (\<lambda>iro.
     write_or (on_data (WriteInt32 P said)) False (
     write_or (on_data (WriteString P reason)) False (
     safwk_send P iro ACTIVE_ABILITY TF_SYNC False (
     read_or (on_reply (ReadBool P)) False ret))))))"

text \<open>The answer and \<^verbatim>\<open>delayTime\<close>.\<close>
definition px_IdleAbility :: "'p ipc_ops \<Rightarrow> ('p, 'w) remote option \<Rightarrow> int \<Rightarrow> string \<Rightarrow> int \<Rightarrow> ('w, bool \<times> int) state" where
  "px_IdleAbility P R said reason delay = with_parcels P (
     let fail = (False, delay) in
     check_or (\<not> said \<le> 0) fail (
     with_local P R fail (\<lambda>iro.
     write_or (on_data (WriteInt32 P said)) fail (
     write_or (on_data (WriteString P reason)) fail (
     safwk_send P iro IDLE_ABILITY TF_SYNC fail (
     read_or (on_reply (ReadBool P)) fail (\<lambda>result.
     read_or (on_reply (ReadInt32 P)) fail (\<lambda>d. ret (result, d)))))))))"

definition px_SendStrategyToSA :: "'p ipc_ops \<Rightarrow> ('p, 'w) remote option \<Rightarrow> int \<Rightarrow> int \<Rightarrow> int \<Rightarrow> string \<Rightarrow> ('w, bool) state" where
  "px_SendStrategyToSA P R type said level action = with_parcels P (
     check_or (\<not> said \<le> 0) False (
     with_local P R False (\<lambda>iro.
     write_or (on_data (WriteInt32 P type)) False (
     write_or (on_data (WriteInt32 P said)) False (
     write_or (on_data (WriteInt32 P level)) False (
     write_or (on_data (WriteString P action)) False (
     safwk_send P iro SEND_STRATEGY_TO_SA TF_ASYNC False (ret True))))))))"

text \<open>Whether the call succeeded and the dump.\<close>
definition px_FfrtDumperProc :: "'p ipc_ops \<Rightarrow> ('p, 'w) remote option \<Rightarrow> string \<Rightarrow> ('w, bool \<times> string) state" where
  "px_FfrtDumperProc P R ffrtDumperInfo = with_parcels P (
     let fail = (False, ffrtDumperInfo) in
     with_local P R fail (\<lambda>iro.
     safwk_send P iro FFRT_DUMPER TF_SYNC fail (
     read_or (on_reply (ReadString P)) fail (\<lambda>d. ret (True, d)))))"

end
