(* ===== verification/Remote_Calls.thy ===== *)
theory Remote_Calls
  imports Client_Cache Callbacks
begin

text \<open>
  A call through the client library, the transport and the stub. \<open>runs\<close> describes a program on parcels by
  the items that its request and reply hold before and after; it has one rule per construct, so that a call is
  executed by applying the rules.
\<close>

section \<open>Programs on items\<close>

named_theorems call_intros \<open>rules that execute a program on parcels\<close>

text \<open>From a request that holds \<open>is\<close>, a reply that holds \<open>qs\<close> and a world \<open>w\<close>, the program returns \<open>a\<close> and leaves \<open>is'\<close>, \<open>qs'\<close> and \<open>w'\<close>.\<close>
definition runs :: "('p \<Rightarrow> item list) \<Rightarrow> ('p, 'w, 'a) C \<Rightarrow> item list \<Rightarrow> item list \<Rightarrow> 'w \<Rightarrow> 'a \<Rightarrow> item list \<Rightarrow> item list \<Rightarrow> 'w \<Rightarrow> bool" where
  "runs view m is qs w a is' qs' w' \<longleftrightarrow> (\<forall>s. view (data s) = is \<longrightarrow> view (reply s) = qs \<longrightarrow> world s = w \<longrightarrow>
     eval_st m s = a \<and> view (data (exec m s)) = is' \<and> view (reply (exec m s)) = qs' \<and> world (exec m s) = w')"

lemma runs_ret [call_intros]: "a = b \<Longrightarrow> runs view (ret a) is qs w b is qs w"
  by (simp add: runs_def run_simps)

lemma runs_check [call_intros]: "b \<Longrightarrow> runs view k is qs w a is' qs' w' \<Longrightarrow> runs view (check_or b e k) is qs w a is' qs' w'"
  by (simp add: runs_def run_simps)

lemma runs_invoke [call_intros]:
  "runs view (k (eval_st m w)) is qs (exec m w) a is' qs' w' \<Longrightarrow> runs view (invoke m \<bind> k) is qs w a is' qs' w'"
  by (simp add: runs_def run_simps)

lemma runs_bind:
  "runs view m is qs w b js rs w2 \<Longrightarrow> runs view (k b) js rs w2 a is' qs' w' \<Longrightarrow> runs view (m \<bind> k) is qs w a is' qs' w'"
  by (simp add: runs_def run_simps)

lemma runs_read_data:
  "reads view f [i] (Some v) \<Longrightarrow> runs view (k v) is qs w a is' qs' w' \<Longrightarrow> runs view (read_or (on_data f) e k) (i # is) qs w a is' qs' w'"
  by (simp add: runs_def reads_def run_simps)

lemma runs_read_reply:
  "reads view f [i] (Some v) \<Longrightarrow> runs view (k v) is qs w a is' qs' w' \<Longrightarrow> runs view (read_or (on_reply f) e k) is (i # qs) w a is' qs' w'"
  by (simp add: runs_def reads_def run_simps)

lemma runs_get_data:
  "reads view f is v \<Longrightarrow> runs view (k v) js qs w a is' qs' w' \<Longrightarrow> runs view (on_data f \<bind> k) (is @ js) qs w a is' qs' w'"
  by (simp add: runs_def reads_def run_simps)

lemma runs_get_reply:
  "reads view f qs v \<Longrightarrow> runs view (k v) is rs w a is' qs' w' \<Longrightarrow> runs view (on_reply f \<bind> k) is (qs @ rs) w a is' qs' w'"
  by (simp add: runs_def reads_def run_simps)

lemma runs_item_reply:
  "reads view f [i] v \<Longrightarrow> runs view (k v) is qs w a is' qs' w' \<Longrightarrow> runs view (on_reply f \<bind> k) is (i # qs) w a is' qs' w'"
  by (simp add: runs_def reads_def run_simps)

lemma runs_write_data:
  "writes view f js \<Longrightarrow> runs view k (is @ js) qs w a is' qs' w' \<Longrightarrow> runs view (write_or (on_data f) e k) is qs w a is' qs' w'"
  by (simp add: runs_def writes_def run_simps)

lemma runs_write_reply:
  "writes view f js \<Longrightarrow> runs view k is (qs @ js) w a is' qs' w' \<Longrightarrow> runs view (write_or (on_reply f) e k) is qs w a is' qs' w'"
  by (simp add: runs_def writes_def run_simps)

lemma runs_write_each:
  assumes "\<And>x is qs w. x \<in> set xs \<Longrightarrow> runs view (f x) is qs w True is (qs @ enc x) w"
    and "runs view k is (qs @ concat (map enc xs)) w a is' qs' w'"
  shows "runs view (write_or (write_all f xs) e k) is qs w a is' qs' w'"
proof -
  have "runs view (write_all f xs) is qs w True is (qs @ concat (map enc xs)) w" for qs
    using assms(1)
  proof (induction xs arbitrary: qs)
    case (Cons x xs)
    have "runs view (f x) is qs w True is (qs @ enc x) w" using Cons.prems by simp
    moreover have "runs view (write_all f xs) is (qs @ enc x) w True is ((qs @ enc x) @ concat (map enc xs)) w"
      using Cons.IH [of "qs @ enc x"] Cons.prems by simp
    ultimately show ?case by (simp add: runs_def run_simps)
  qed (simp add: runs_def run_simps)
  with assms(2) show ?thesis by (simp add: runs_def run_simps)
qed

lemma runs_read_each:
  assumes "\<And>x qs w is. x \<in> set xs \<Longrightarrow> runs view r is (enc x @ qs) w (Some x) is qs w"
  shows "runs view (read_n (length xs) r) is (concat (map enc xs) @ qs) w (True, xs) is qs w"
  using assms
proof (induction xs)
  case (Cons x xs)
  have "runs view r is (enc x @ concat (map enc xs) @ qs) w (Some x) is (concat (map enc xs) @ qs) w" using Cons.prems by simp
  moreover have "runs view (read_n (length xs) r) is (concat (map enc xs) @ qs) w (True, xs) is qs w" using Cons by simp
  ultimately show ?case by (simp add: runs_def run_simps)
qed (simp add: runs_def run_simps)

lemma runs_remote [call_intros]: "runs view (k R) is qs w a is' qs' w' \<Longrightarrow> runs view (with_remote (Some R) e k) is qs w a is' qs' w'"
  by (simp add: with_remote_def)

lemma with_parcels_runs:
  assumes "parcel_laws P view" and "runs view m [] [] w a xs ys w'"
  shows "eval_st (with_parcels P m) w = a \<and> exec (with_parcels P m) w = w'"
  using assms by (simp add: runs_def run_simps write_rules(1))

section \<open>Reading and writing one item\<close>

lemma item_reads:
  assumes "parcel_laws P view"
  shows "reads view (ReadInt32 P) [Int32 i] (Some i)" "reads view (ReadInt64 P) [Int64 i] (Some i)"
    "reads view (ReadBool P) [Bool b] (Some b)" "reads view (ReadString P) [String t] (Some t)"
    "reads view (ReadString16 P) [String16 u] (Some u)" "reads view (ReadRemoteObject P) [Object x] (Some x)"
    "reads view (ReadInt32Vector P) [Int32Vector l] (Some l)" "reads view (ReadInt64Vector P) [Int64Vector l] (Some l)"
    "reads view (ReadString16Vector P) [String16Vector us] (Some us)"
  using assms by (simp_all add: parcel_laws_def)

text \<open>The value form of a read.\<close>
lemma runs_default_data:
  "reads view f [i] (Some v) \<Longrightarrow> runs view (k v) is qs w a is' qs' w' \<Longrightarrow> runs view (on_data (or_default d f) \<bind> k) (i # is) qs w a is' qs' w'"
  by (simp add: runs_def reads_def or_default_def run_simps)

lemma runs_default_reply:
  "reads view f [i] (Some v) \<Longrightarrow> runs view (k v) is qs w a is' qs' w' \<Longrightarrow> runs view (on_reply (or_default d f) \<bind> k) is (i # qs) w a is' qs' w'"
  by (simp add: runs_def reads_def or_default_def run_simps)

lemma item_writes:
  assumes "parcel_laws P view"
  shows "writes view (WriteInterfaceToken P u) [Token u]" "writes view (WriteInt32 P i) [Int32 i]" "writes view (WriteInt64 P i) [Int64 i]"
    "writes view (WriteBool P b) [Bool b]" "writes view (WriteString P t) [String t]" "writes view (WriteString16 P u) [String16 u]"
    "writes view (WriteRemoteObject P (Some x)) [Object x]" "writes view (WriteInt32Vector P l) [Int32Vector l]"
    "writes view (WriteInt64Vector P l) [Int64Vector l]" "writes view (WriteString16Vector P us) [String16Vector us]"
  using assms by (simp_all add: parcel_laws_def)

lemma token_runs [call_intros]:
  "parcel_laws P view \<Longrightarrow> runs view k (is @ [Token SAMANAGER_INTERFACE_TOKEN]) qs w a is' qs' w' \<Longrightarrow> runs view (token_or P e k) is qs w a is' qs' w'"
  unfolding token_or_def by (rule runs_write_data [OF item_writes(1)])

lemmas read_intros [call_intros] =
  item_reads [THEN runs_read_data] item_reads [THEN runs_read_reply]
  item_reads [THEN runs_default_data] item_reads [THEN runs_default_reply]

lemmas write_intros [call_intros] = item_writes [THEN runs_write_data] item_writes [THEN runs_write_reply]

section \<open>The stub\<close>

lemma codes_distinct: "distinct (map fst (memberFuncMap P c m))"
  by (cases "c_multi c") (simp_all add: memberFuncMap_def SetAbilityFuncMap_def SetProcessFuncMap_def SetMultiInstanceFuncMap_def)

declare code_of.simps [simp del]

text \<open>A code in the table reaches its handler.\<close>
lemma member_func: "(code, h) \<in> set (memberFuncMap P c m) \<Longrightarrow> map_of (memberFuncMap P c m) code = Some h"
  by (rule map_of_is_SomeI [OF codes_distinct])

definition prior_set :: "caller \<Rightarrow> 'a stub_state_scheme \<Rightarrow> 'a stub_state_scheme" where
  "prior_set c w = exec (SetIpcPrior (c_tid c)) w"

lemma dispatch_runs:
  assumes "parcel_laws P view" and "(code, h) \<in> set (memberFuncMap P c m)"
    and "runs view h is qs (prior_set c w) a is' qs' w'"
  shows "runs view (OnRemoteRequest P dflt c m code) (Token SAMANAGER_INTERFACE_TOKEN # is) qs w a is' qs' w'"
  using assms(3) unfolding runs_def
  by (simp add: OnRemoteRequest_def EnforceInterceToken_def run_simps read_rules [OF assms(1)]
      member_func [OF assms(2)] prior_set_def)

text \<open>A request that succeeds, and one that fails with the code \<open>r\<close>.\<close>
lemma transact_runs:
  assumes "transports P R h" and "opt \<noteq> TF_ASYNC" and "view (new_parcel P) = []"
    and h: "runs view (h (code_of code)) is [] w r is2 os w2"
    and k: "r = OK P \<Longrightarrow> runs view k is os w2 a is' qs' w'"
    and f: "r \<noteq> OK P \<Longrightarrow> a = f r \<and> is' = is \<and> qs' = os \<and> w' = w2"
  shows "runs view (transact P R code opt f k) is qs w a is' qs' w'"
  unfolding runs_def
proof (intro allI impI)
  fix s :: "('a, 'b) call"
  assume s: "view (data s) = is" "view (reply s) = qs" "world s = w"
  let ?s = "\<lparr> data = data s, reply = new_parcel P, world = w \<rparr>"
  have "eval_st (h (code_of code)) ?s = r \<and> view (reply (exec (h (code_of code)) ?s)) = os \<and> world (exec (h (code_of code)) ?s) = w2"
    using h s assms(3) by (simp add: runs_def)
  moreover have "eval_st (R (code_of code) opt (data s)) w = (eval_st (h (code_of code)) ?s, reply (exec (h (code_of code)) ?s))"
    "exec (R (code_of code) opt (data s)) w = world (exec (h (code_of code)) ?s)"
    using assms(1,2) by (simp_all add: transports_def Let_def)
  ultimately show "eval_st (transact P R code opt f k) s = a \<and> view (data (exec (transact P R code opt f k) s)) = is' \<and>
      view (reply (exec (transact P R code opt f k) s)) = qs' \<and> world (exec (transact P R code opt f k) s) = w'"
    using s k f by (cases "r = OK P") (simp_all add: transact_def run_simps runs_def)
qed

lemma at_service_run [run_simps]:
  "eval_st (at_service m) s = eval_st m (service s)" "exec (at_service m) s = s \<lparr> service := exec m (service s) \<rparr>"
  by (simp_all add: at_service_def eval_st_def exec_def)

section \<open>Registration\<close>

text \<open>The answer of a handler that writes its result and returns it reaches the client, whatever it is.\<close>
lemma answer_runs: "parcel_laws P view \<Longrightarrow> runs view (answer P r) is [] w r is [Int32 r] w"
  unfolding answer_def using write_intros by (auto intro!: call_intros)

lemma add_handler_runs:
  assumes laws: "parcel_laws P view" and "CheckInputSysAbilityId said" and "CanRequest c" "CheckAddOrRemovePermission c said"
    and "ep_isDistributed prop \<longrightarrow> CheckAddRemoteSAPermission c said" and f: "0 \<le> ep_dumpFlags prop" "ep_dumpFlags prop < 2 ^ 31"
  shows "runs view (AddSystemAbilityInner P c m)
    [Int32 said, Object x, Bool (ep_isDistributed prop), Int32 (ep_dumpFlags prop), String16 (ep_capability prop), String16 (ep_permission prop)] [] w
    (eval_st (m_AddSystemAbility m said x prop) w) [] [Int32 (eval_st (m_AddSystemAbility m said x prop) w)]
    (exec (m_AddSystemAbility m said x prop) w)"
proof -
  have n: "to_uint32 (ep_dumpFlags prop) = ep_dumpFlags prop"
    using f by (auto simp: to_uint32_def take_bit_int_eq_self)
  have "runs view (UnmarshalingSaExtraProp P) [Bool (ep_isDistributed prop), Int32 (ep_dumpFlags prop), String16 (ep_capability prop),
      String16 (ep_permission prop)] [] w (Inr prop) [] [] w" for w :: 'b
    unfolding UnmarshalingSaExtraProp_def using f n
    by (intro call_intros laws) auto
  note unmarshal = runs_bind [OF this]
  show ?thesis
    unfolding AddSystemAbilityInner_def read_said_def using assms
    by (intro call_intros laws unmarshal) (auto intro!: call_intros answer_runs)
qed

text \<open>
  The end of a call whose handler answers with its result: the client returns the result, on success by
  reading it from the reply, otherwise as the error of the transaction.
\<close>
definition left_over :: "'p ipc_ops \<Rightarrow> int \<Rightarrow> item list" where
  "left_over P r = (if r = OK P then [] else [Int32 r])"

lemma result_runs:
  assumes laws: "parcel_laws P view" and R: "transports P R (OnRemoteRequest P dflt c m)" and "opt \<noteq> TF_ASYNC"
    and h: "(code_of code, h) \<in> set (memberFuncMap P c m)" and run: "runs view h is [] (prior_set c w) r [] [Int32 r] w'"
  shows "runs view (transact P R code opt id (read_result P id ret)) (Token SAMANAGER_INTERFACE_TOKEN # is) qs w r
    (Token SAMANAGER_INTERFACE_TOKEN # is) (left_over P r) w'"
proof (rule transact_runs [where r = r])
  show "transports P R (OnRemoteRequest P dflt c m)" by (rule R)
  show "runs view (OnRemoteRequest P dflt c m (code_of code)) (Token SAMANAGER_INTERFACE_TOKEN # is) [] w r [] [Int32 r] w'"
    by (rule dispatch_runs [OF laws h run])
  assume "r = OK P"
  then show "runs view (read_result P id ret) (Token SAMANAGER_INTERFACE_TOKEN # is) [Int32 r] w' r (Token SAMANAGER_INTERFACE_TOKEN # is)
      (left_over P r) w'"
    unfolding read_result_def left_over_def by (auto intro!: call_intros laws)
qed (use assms(3) write_rules(1) [OF laws] in \<open>auto simp: left_over_def\<close>)

lemma in_table:
  "(code_of ADD_SYSTEM_ABILITY, AddSystemAbilityInner P c m) \<in> set (memberFuncMap P c m)"
  "(code_of REMOVE_SYSTEM_ABILITY, RemoveSystemAbilityInner P c m) \<in> set (memberFuncMap P c m)"
  "(code_of LOAD_SYSTEM_ABILITY, LoadSystemAbilityInner P c m) \<in> set (memberFuncMap P c m)"
  "(code_of UPDATE_ONDEAMND_POLICY, UpdateOnDemandPolicyInner P c m) \<in> set (memberFuncMap P c m)"
  "(code_of GET_ONDEAMND_POLICY, GetOnDemandPolicyInner P c m) \<in> set (memberFuncMap P c m)"
  "(code_of GET_RUNNING_SYSTEM_PROCESS, GetRunningSystemProcessInner P c m) \<in> set (memberFuncMap P c m)"
  "(code_of CHECK_SYSTEM_ABILITY, CheckSystemAbilityInner P c m) \<in> set (memberFuncMap P c m)"
  "(code_of CHECK_SYSTEM_ABILITY_IMMEDIATELY, CheckSystemAbilityImmeInner P c m) \<in> set (memberFuncMap P c m)"
  by (simp_all add: memberFuncMap_def SetAbilityFuncMap_def SetProcessFuncMap_def)

abbreviation TOKEN :: item where "TOKEN \<equiv> Token SAMANAGER_INTERFACE_TOKEN"

lemma add_request_run:
  fixes w :: "'b stub_state_scheme" and x :: obj
  assumes laws: "parcel_laws P view" and R: "transports P R (OnRemoteRequest P dflt c m)"
    and "CheckInputSysAbilityId said" and "CanRequest c" "CheckAddOrRemovePermission c said"
    and "ep_isDistributed prop \<longrightarrow> CheckAddRemoteSAPermission c said" and f: "0 \<le> ep_dumpFlags prop" "ep_dumpFlags prop < 2 ^ 31"
  defines "r \<equiv> eval_st (m_AddSystemAbility m said x prop) (prior_set c w)"
  shows "eval_st (with_parcels P (add_request P (Some R) said (Some x) prop)) w = r
    \<and> exec (with_parcels P (add_request P (Some R) said (Some x) prop)) w = exec (m_AddSystemAbility m said x prop) (prior_set c w)"
proof -
  let ?items = "[Int32 said, Object x, Bool (ep_isDistributed prop), Int32 (ep_dumpFlags prop), String16 (ep_capability prop),
    String16 (ep_permission prop)]"
  have n: "to_int32 (ep_dumpFlags prop) = ep_dumpFlags prop" using f by (auto intro!: to_int32_id simp: is_int32_def)
  have marshal: "runs view (cl_MarshalSAExtraProp P prop) is qs w (OK P) (is @ drop 2 ?items) qs w" for "is" qs and w :: "'b stub_state_scheme"
    unfolding cl_MarshalSAExtraProp_def n
    by (rule write_intros(4) [OF laws] write_intros [OF laws])+ (auto intro: call_intros)
  show ?thesis
    unfolding add_request_def cl_AddSystemAbilityWrapper_def
    using result_runs [OF laws R _ in_table(1) add_handler_runs [OF laws assms(3-8), of m x], of TF_SYNC] r_def
    by (intro with_parcels_runs [OF laws, where xs = "TOKEN # ?items" and ys = "left_over P r"]
        call_intros laws runs_bind [OF marshal]) simp_all
qed

lemma remove_request_run:
  fixes w :: "'b stub_state_scheme"
  assumes laws: "parcel_laws P view" and R: "transports P R (OnRemoteRequest P dflt c m)"
    and "CheckInputSysAbilityId said" and "CanRequest c" "CheckAddOrRemovePermission c said"
  defines "r \<equiv> eval_st (m_RemoveSystemAbility m said) (prior_set c w)"
  shows "eval_st (with_parcels P (remove_request P (Some R) said)) w = r
    \<and> exec (with_parcels P (remove_request P (Some R) said)) w = exec (m_RemoveSystemAbility m said) (prior_set c w)"
proof -
  have "runs view (RemoveSystemAbilityInner P c m) [Int32 said] [] w (eval_st (m_RemoveSystemAbility m said) w) []
      [Int32 (eval_st (m_RemoveSystemAbility m said) w)] (exec (m_RemoveSystemAbility m said) w)" for w
    unfolding RemoveSystemAbilityInner_def read_said_def using assms(3-5)
    by (intro call_intros laws) (auto intro!: call_intros answer_runs laws)
  from result_runs [OF laws R _ in_table(2) this, of TF_SYNC] r_def show ?thesis
    unfolding remove_request_def cl_RemoveSystemAbilityWrapper_def
    by (intro with_parcels_runs [OF laws, where xs = "[TOKEN, Int32 said]" and ys = "left_over P r"]
        call_intros laws) simp_all
qed

section \<open>Loading\<close>

lemma load_request_run:
  fixes w :: "'b stub_state_scheme"
  assumes laws: "parcel_laws P view" and R: "transports P R (OnRemoteRequest P dflt c m)"
    and "LoadSACheck P c said = OK P" and "CheckInputSysAbilityId said" and x: "AsObject cb = Some x" and "c_cast c x = Some l"
  defines "r \<equiv> eval_st (m_LoadSystemAbility m said l) (prior_set c w)"
  shows "eval_st (cl_LoadSystemAbility P (Some R) said (Some cb)) w = r
    \<and> exec (cl_LoadSystemAbility P (Some R) said (Some cb)) w = exec (m_LoadSystemAbility m said l) (prior_set c w)"
proof -
  have "runs view (LoadSystemAbilityInner P c m) [Int32 said, Object x] [] w (eval_st (m_LoadSystemAbility m said l) w) []
      [Int32 (eval_st (m_LoadSystemAbility m said l) w)] (exec (m_LoadSystemAbility m said l) w)" for w
    unfolding LoadSystemAbilityInner_def read_iface_def using assms(3-6)
    by (intro call_intros laws) (auto intro!: call_intros answer_runs laws)
  from result_runs [OF laws R _ in_table(3) this, of TF_IMAGE] r_def assms(4) show ?thesis
    unfolding cl_LoadSystemAbility_def option.sel x
    by (intro with_parcels_runs [OF laws, where xs = "[TOKEN, Int32 said, Object x]" and ys = "left_over P r"]
        call_intros laws) simp_all
qed

section \<open>Policies\<close>

text \<open>A handler that always succeeds and answers with a result and further items.\<close>
lemma reply_runs:
  assumes laws: "parcel_laws P view" and R: "transports P R (OnRemoteRequest P dflt c m)" and "opt \<noteq> TF_ASYNC"
    and h: "(code_of code, h) \<in> set (memberFuncMap P c m)" and run: "runs view h is [] (prior_set c w) (OK P) [] os w'"
    and k: "runs view k (TOKEN # is) os w' a is' qs' w''"
  shows "runs view (transact P R code opt f k) (TOKEN # is) qs w a is' qs' w''"
proof (rule transact_runs [OF R assms(3) write_rules(1) [OF laws] dispatch_runs [OF laws h run]])
  show "runs view k (TOKEN # is) os w' a is' qs' w''" by (rule k)
qed simp

lemma answer_ok_runs: "parcel_laws P view \<Longrightarrow> runs view (answer_ok P r) is [] w (OK P) is [Int32 r] w"
  unfolding answer_ok_def using write_intros by (auto intro!: call_intros)

lemma update_policy_run:
  fixes w :: "'b stub_state_scheme" and said ty :: int
  assumes laws: "parcel_laws P view" and R: "transports P R (OnRemoteRequest P dflt c m)" and "CanRequest c" and fits: "policy_fits evs"
  defines "r \<equiv> eval_st (m_UpdateOnDemandPolicy m said ty evs) (prior_set c w)"
  shows "eval_st (cl_UpdateOnDemandPolicy P (Some R) said ty evs) w = r
    \<and> exec (cl_UpdateOnDemandPolicy P (Some R) said ty evs) w = exec (m_UpdateOnDemandPolicy m said ty evs) (prior_set c w)"
proof -
  let ?is = "Int32 said # Int32 ty # policy_items evs"
  have read: "runs view (on_data (run_state (ReadOnDemandEventsFromParcel P [])) \<bind> k) (policy_items evs) qs w a is' qs' w'"
    if "runs view (k (True, evs)) [] qs w a is' qs' w'" for k qs a is' qs' and w w' :: "'b stub_state_scheme"
    using runs_get_data [OF policy_read [OF laws fits, of "[]"], of k "[]"] that by simp
  have h: "runs view (UpdateOnDemandPolicyInner P c m) ?is [] w (OK P) []
      [Int32 (eval_st (m_UpdateOnDemandPolicy m said ty evs) w)] (exec (m_UpdateOnDemandPolicy m said ty evs) w)" for w
    unfolding UpdateOnDemandPolicyInner_def using assms(3)
    by (intro call_intros laws read) (auto intro!: call_intros laws answer_ok_runs)
  have "runs view (read_result P id ret) (TOKEN # ?is) [Int32 r] w r (TOKEN # ?is) [] w" for w :: "'b stub_state_scheme"
    unfolding read_result_def by (intro call_intros laws) simp
  from reply_runs [OF laws R _ in_table(4) h [of "prior_set c w", folded r_def] this, of TF_SYNC id] show ?thesis
    unfolding cl_UpdateOnDemandPolicy_def
    by (intro with_parcels_runs [OF laws, where xs = "TOKEN # ?is" and ys = "[]"] call_intros laws
        runs_write_data [OF policy_written [OF laws]]) simp_all
qed

lemma get_policy_run:
  assumes laws: "parcel_laws P view" and R: "transports P R (OnRemoteRequest P dflt c m)" and "CanRequest c"
    and res: "eval_st (m_GetOnDemandPolicy m said ty) (prior_set c w) = (r, evs)" and fits: "policy_fits evs"
  shows "eval_st (cl_GetOnDemandPolicy P (Some R) said ty out) w = (if r = OK P then (OK P, out @ evs) else (r, out))
    \<and> exec (cl_GetOnDemandPolicy P (Some R) said ty out) w = exec (m_GetOnDemandPolicy m said ty) (prior_set c w)"
proof -
  let ?is = "[Int32 said, Int32 ty]"
  let ?w = "exec (m_GetOnDemandPolicy m said ty) (prior_set c w)"
  have h: "runs view (GetOnDemandPolicyInner P c m) ?is [] (prior_set c w) (OK P) [] (Int32 r # policy_items evs) ?w"
    unfolding GetOnDemandPolicyInner_def using assms(3)
    by (intro call_intros laws; simp add: res; intro call_intros laws runs_write_reply [OF policy_written [OF laws]]) (auto intro: call_intros)
  have read: "runs view (on_reply (run_state (ReadOnDemandEventsFromParcel P out)) \<bind> k) is (policy_items evs) w a is' qs' w'"
    if "runs view (k (True, out @ evs)) is [] w a is' qs' w'" for k "is" a is' qs' and w w' :: "'b stub_state_scheme"
    using runs_get_reply [OF policy_read [OF laws fits, of out], of k "is" "[]"] that by simp
  let ?k = "read_result P (\<lambda>e. (e, out)) (\<lambda>result. check_or (result = OK P) (result, out) (do {
       (ok, evs) \<leftarrow> on_reply (run_state (ReadOnDemandEventsFromParcel P out));
       ret (if ok then OK P else FLATTEN_OBJECT P, evs) }))"
  obtain a ys where k: "runs view ?k (TOKEN # ?is) (Int32 r # policy_items evs) ?w a (TOKEN # ?is) ys ?w"
    and a: "a = (if r = OK P then (OK P, out @ evs) else (r, out))"
  proof (cases "r = OK P")
    case True
    have "runs view ?k (TOKEN # ?is) (Int32 r # policy_items evs) ?w (OK P, out @ evs) (TOKEN # ?is) [] ?w"
      unfolding read_result_def using True by (intro call_intros laws read) (auto intro!: call_intros)
    with that True show ?thesis by simp
  next
    case False
    have "runs view ?k (TOKEN # ?is) (Int32 r # policy_items evs) ?w (r, out) (TOKEN # ?is) (policy_items evs) ?w"
      unfolding read_result_def check_or_def using False by (intro call_intros laws) (auto intro!: call_intros)
    with that False show ?thesis by simp
  qed
  from reply_runs [OF laws R _ in_table(5) h k, of TF_SYNC] show ?thesis
    unfolding cl_GetOnDemandPolicy_def Let_def a [symmetric]
    by (intro with_parcels_runs [OF laws, where xs = "TOKEN # ?is" and ys = ys] call_intros laws) simp_all
qed

section \<open>Running processes\<close>

definition process_items :: "SystemProcessInfo \<Rightarrow> item list" where
  "process_items i = [String (spi_processName i), Int32 (spi_pid i), Int32 (spi_uid i)]"

lemma write_process_runs:
  "parcel_laws P view \<Longrightarrow> runs view (write_process P i) is qs w True is (qs @ process_items i) w"
  unfolding write_process_def process_items_def
  by (rule write_intros; assumption?)+ (simp add: runs_ret)

lemma read_process_runs:
  "parcel_laws P view \<Longrightarrow> runs view (read_process P) is (process_items i @ qs) w (Some i) is qs w"
  unfolding read_process_def process_items_def append.simps by (intro call_intros) simp_all

text \<open>A counted list, as the stub writes it and the client reads it.\<close>
lemma read_sized_runs:
  assumes laws: "parcel_laws P view" and r: "\<And>x qs w is. x \<in> set xs \<Longrightarrow> runs view r is (enc x @ qs) w (Some x) is qs w"
    and e: "\<And>x. enc x \<noteq> []" and n: "int (length xs) < 2 ^ 31"
  shows "runs view (read_sized P r out) is (Int32 (int (length xs)) # concat (map enc xs)) w (OK P, xs) is [] w"
proof -
  have each: "runs view (read_n (length xs) r) is (concat (map enc xs)) w (True, xs) is [] w"
    using runs_read_each [of xs view r enc "is" "[]" w] r by simp
  show ?thesis
    unfolding runs_def
  proof (intro allI impI)
    fix s :: "('a, 'c) call"
    assume s: "view (data s) = is" "view (reply s) = Int32 (int (length xs)) # concat (map enc xs)" "world s = w"
    let ?s = "s \<lparr> reply := snd (ReadInt32 P (reply s)) \<rparr>"
    have p: "fst (ReadInt32 P (reply s)) = Some (int (length xs))" "view (reply ?s) = concat (map enc xs)"
      using s by (simp_all add: read_rules [OF laws])
    have "length xs \<le> length (view (reply ?s))" unfolding p(2) by (rule length_concat_ge) (rule e)
    then have "\<not> bad_size P (int (length xs)) (reply ?s)" by (rule good_size [OF laws _ n])
    moreover have "eval_st (read_n (length xs) r) ?s = (True, xs) \<and> view (data (exec (read_n (length xs) r) ?s)) = is \<and>
        view (reply (exec (read_n (length xs) r) ?s)) = [] \<and> world (exec (read_n (length xs) r) ?s) = w"
      using each s p(2) by (simp add: runs_def)
    ultimately show "eval_st (read_sized P r out) s = (OK P, xs) \<and> view (data (exec (read_sized P r out) s)) = is \<and>
        view (reply (exec (read_sized P r out) s)) = [] \<and> world (exec (read_sized P r out) s) = w"
      using s p e unfolding read_sized_def by (cases "xs = []") (simp_all add: run_simps)
  qed
qed

lemma running_process_run:
  assumes laws: "parcel_laws P view" and R: "transports P R (OnRemoteRequest P dflt c m)" and "CanRequest c"
    and res: "eval_st (m_GetRunningSystemProcess m) (prior_set c w) = (r, infos)" and n: "int (length infos) < 2 ^ 31"
  shows "eval_st (cl_GetRunningSystemProcess P (Some R) out) w = (if r = OK P then (OK P, infos) else (r, out))
    \<and> exec (cl_GetRunningSystemProcess P (Some R) out) w = exec (m_GetRunningSystemProcess m) (prior_set c w)"
proof -
  let ?w = "exec (m_GetRunningSystemProcess m) (prior_set c w)"
  let ?os = "if r = OK P then Int32 r # Int32 (int (length infos)) # concat (map process_items infos) else [Int32 r]"
  have h: "runs view (GetRunningSystemProcessInner P c m) [] [] (prior_set c w) (OK P) [] ?os ?w"
  proof (cases "r = OK P")
    case True
    show ?thesis
      unfolding GetRunningSystemProcessInner_def to_int32_size [OF n] using True assms(3)
      by (intro call_intros laws; simp add: res to_int32_size [OF n]; intro call_intros laws runs_write_each [where enc = process_items] write_process_runs)
        (auto intro!: call_intros)
  next
    case False
    then show ?thesis
      unfolding GetRunningSystemProcessInner_def check_or_def using assms(3)
      by (simp; intro call_intros laws; simp add: res; intro call_intros laws) (auto intro: call_intros)
  qed
  let ?k = "read_result P (\<lambda>e. (e, out)) (\<lambda>result. check_or (result = OK P) (result, out) (cl_ReadSystemProcessFromParcel P out))"
  have k: "runs view ?k [TOKEN] ?os ?w (if r = OK P then (OK P, infos) else (r, out)) [TOKEN] [] ?w"
  proof (cases "r = OK P")
    case True
    then show ?thesis
      unfolding read_result_def cl_ReadSystemProcessFromParcel_def
      by simp (intro call_intros laws read_sized_runs [OF laws _ _ n] read_process_runs; simp add: process_items_def)
  next
    case False
    then show ?thesis unfolding read_result_def check_or_def by simp (intro call_intros laws; simp add: runs_ret)
  qed
  from reply_runs [OF laws R _ in_table(6) h k, of TF_SYNC] show ?thesis
    unfolding cl_GetRunningSystemProcess_def Let_def
    by (intro with_parcels_runs [OF laws, where xs = "[TOKEN]" and ys = "[]"] call_intros laws) simp_all
qed

section \<open>Lookups\<close>

lemma answer_object_runs:
  assumes "parcel_laws P view"
  shows "runs view (answer_object P ob) is [] w (case ob of None \<Rightarrow> NULL_OBJECT P | Some x \<Rightarrow> OK P) is
    (case ob of None \<Rightarrow> [] | Some x \<Rightarrow> [Object x]) w"
  unfolding answer_object_def using assms by (cases ob) (auto intro!: call_intros)

lemma transaction_object_runs:
  assumes laws: "parcel_laws P view" and R: "transports P R (OnRemoteRequest P dflt c m)" and h: "(code_of code, h) \<in> set (memberFuncMap P c m)"
    and run: "runs view h is [] (prior_set c w) (case ob of None \<Rightarrow> NULL_OBJECT P | Some x \<Rightarrow> OK P) [] (case ob of None \<Rightarrow> [] | Some x \<Rightarrow> [Object x]) w'"
  shows "runs view (cl_CheckSystemAbilityWrapper P (Some R) code e) (TOKEN # is) qs w (ob, case ob of None \<Rightarrow> NULL_OBJECT P | Some x \<Rightarrow> e) (TOKEN # is) [] w'"
proof -
  have n: "NULL_OBJECT P \<noteq> OK P" using write_rules [OF laws] by simp
  have k: "runs view (do { x \<leftarrow> on_reply (ReadRemoteObject P); ret (x, e) }) (TOKEN # is) [Object x] w' (Some x, e) (TOKEN # is) [] w'" for x
    by (intro runs_item_reply [OF item_reads(6) [OF laws]] runs_ret refl)
  show ?thesis
    unfolding cl_CheckSystemAbilityWrapper_def
    by (rule runs_remote, rule transact_runs [OF R _ write_rules(1) [OF laws] dispatch_runs [OF laws h run]])
      (use n k in \<open>auto split: option.splits\<close>)
qed

lemma check_transaction_run:
  assumes laws: "parcel_laws P view" and R: "transports P R (OnRemoteRequest P dflt c m)"
    and "CheckInputSysAbilityId said" and "penglai_ok c said" and "CheckGetSAPermission c said"
  shows "eval_st (cl_CheckSystemAbilityTransaction P (Some R) said) w = eval_st (m_CheckSystemAbility m said) (prior_set c w)
    \<and> exec (cl_CheckSystemAbilityTransaction P (Some R) said) w = exec (m_CheckSystemAbility m said) (prior_set c w)"
proof -
  let ?ob = "eval_st (m_CheckSystemAbility m said) (prior_set c w)"
  let ?w = "exec (m_CheckSystemAbility m said) (prior_set c w)"
  have "runs view (CheckSystemAbilityInner P c m) [Int32 said] [] (prior_set c w) (case ?ob of None \<Rightarrow> NULL_OBJECT P | Some x \<Rightarrow> OK P) []
      (case ?ob of None \<Rightarrow> [] | Some x \<Rightarrow> [Object x]) ?w"
    unfolding CheckSystemAbilityInner_def read_said_def using assms(3-5)
    by (intro call_intros laws) (auto intro!: call_intros answer_object_runs laws)
  from transaction_object_runs [OF laws R in_table(7) this, of "OK P"] show ?thesis
    unfolding cl_CheckSystemAbilityTransaction_def
    by (intro with_parcels_runs [OF laws, where xs = "[TOKEN, Int32 said]" and ys = "[]"] call_intros laws)
      (auto intro!: runs_bind call_intros)
qed

section \<open>Requests that are refused\<close>

text \<open>A handler that refuses the caller: it reads nothing, calls nothing and writes nothing.\<close>
definition refuses :: "'p ipc_ops \<Rightarrow> ('p, 's, int) C \<Rightarrow> bool" where
  "refuses P h \<longleftrightarrow> (\<forall>s. eval_st h s = DENIED P \<and> exec h s = s)"

lemma refuses_check: "\<not> b \<Longrightarrow> refuses P (check_or b (DENIED P) k)"
  by (simp add: refuses_def run_simps)

text \<open>The requests that only a native process may make.\<close>
definition native_only :: "'p ipc_ops \<Rightarrow> caller \<Rightarrow> ('p, 's) sam_methods \<Rightarrow> (interface_code \<times> ('p, 's, int) C) list" where
  "native_only P c m = [(LIST_SYSTEM_ABILITY, ListSystemAbilityInner P c m), (CHECK_REMOTE_SYSTEM_ABILITY, CheckRemtSystemAbilityInner P c m),
     (ADD_ONDEMAND_SYSTEM_ABILITY, AddOndemandSystemAbilityInner P c m), (ADD_SYSTEM_ABILITY, AddSystemAbilityInner P c m),
     (REMOVE_SYSTEM_ABILITY, RemoveSystemAbilityInner P c m), (ADD_SYSTEM_PROCESS, AddSystemProcessInner P c m),
     (ONSTART_SYSTEM_ABILITY_FAIL, OnStartSystemAbilityFailInner P c m), (GET_SYSTEM_PROCESS_INFO, GetSystemProcessInfoInner P c m),
     (GET_RUNNING_SYSTEM_PROCESS, GetRunningSystemProcessInner P c m), (SUBSCRIBE_SYSTEM_PROCESS, SubscribeSystemProcessInner P c m),
     (UNSUBSCRIBE_SYSTEM_PROCESS, UnSubscribeSystemProcessInner P c m),
     (SUBSCRIBE_LOWMEM_SYSTEM_PROCESS, SubscribeLowMemSystemProcessInner P c m),
     (UNSUBSCRIBE_LOWMEM_SYSTEM_PROCESS, UnSubscribeLowMemSystemProcessInner P c m),
     (GET_ONDEMAND_REASON_EXTRA_DATA, GetOnDemandReasonExtraDataInner P c m), (GET_ONDEAMND_POLICY, GetOnDemandPolicyInner P c m),
     (UPDATE_ONDEAMND_POLICY, UpdateOnDemandPolicyInner P c m), (SEND_STRATEGY, SendStrategyInner P c m),
     (GET_EXTENSION_SA_IDS, GetExtensionSaIdsInner P c m), (GET_EXTERNSION_SA_LIST, GetExtensionRunningSaListInner P c m),
     (GET_COMMON_EVENT_EXTRA_ID_LIST, GetCommonEventExtraDataIdlistInner P c m)]"

lemma native_only_in_table: "list_all (\<lambda>(code, h). (code_of code, h) \<in> set (memberFuncMap P c m)) (native_only P c m)"
  by (simp add: native_only_def memberFuncMap_def SetAbilityFuncMap_def SetProcessFuncMap_def)

lemma native_only_refuses: "\<not> CanRequest c \<Longrightarrow> list_all (\<lambda>(code, h). refuses P h) (native_only P c m)"
  unfolding native_only_def list.pred_inject prod.case
  unfolding ListSystemAbilityInner_def CheckRemtSystemAbilityInner_def AddOndemandSystemAbilityInner_def AddSystemAbilityInner_def
      RemoveSystemAbilityInner_def AddSystemProcessInner_def OnStartSystemAbilityFailInner_def GetSystemProcessInfoInner_def
      GetRunningSystemProcessInner_def SubscribeSystemProcessInner_def UnSubscribeSystemProcessInner_def
      SubscribeLowMemSystemProcessInner_def UnSubscribeLowMemSystemProcessInner_def GetOnDemandReasonExtraDataInner_def
      GetOnDemandPolicyInner_def UpdateOnDemandPolicyInner_def SendStrategyInner_def GetExtensionSaIdsInner_def
      GetExtensionRunningSaListInner_def GetCommonEventExtraDataIdlistInner_def
  by (simp add: refuses_check)

text \<open>The requests reserved for one process.\<close>
definition reserved :: "'p ipc_ops \<Rightarrow> caller \<Rightarrow> ('p, 's) sam_methods \<Rightarrow> (interface_code \<times> string \<times> ('p, 's, int) C) list" where
  "reserved P c m = [(UNLOAD_IDLE_PROCESS_BYLIST, ''memmgrservice'', UnloadProcessInner P c m),
     (GET_LRU_IDLE_SYSTEM_ABILITY_PROCESS, ''memmgrservice'', GetLruIdleSystemAbilityProcInner P c m),
     (SET_SAMGR_IPC_PRIOR, ''resource_schedule_service'', SetSamgrIpcPriorInner P c m)]"

lemma reserved_in_table: "list_all (\<lambda>(code, proc, h). (code_of code, h) \<in> set (memberFuncMap P c m)) (reserved P c m)"
  by (simp add: reserved_def memberFuncMap_def)

lemma reserved_refuses: "list_all (\<lambda>(code, proc, h). CheckCallerProcessName (c_env c) proc \<or> refuses P h) (reserved P c m)"
  unfolding reserved_def list.pred_inject prod.case
  by (simp add: UnloadProcessInner_def GetLruIdleSystemAbilityProcInner_def SetSamgrIpcPriorInner_def refuses_check disj_imp)

lemma refused_request:
  assumes "(code, h) \<in> set (memberFuncMap P c m)" and "refuses P h"
  shows "eval_st (OnRemoteRequest P dflt c m code) s = DENIED P
    \<and> reply (exec (OnRemoteRequest P dflt c m code) s) = reply s
    \<and> (world (exec (OnRemoteRequest P dflt c m code) s) = world s \<or> world (exec (OnRemoteRequest P dflt c m code) s) = prior_set c (world s))"
  using assms(2) by (simp add: OnRemoteRequest_def EnforceInterceToken_def run_simps member_func [OF assms(1)] refuses_def prior_set_def)

lemma wrong_token_refused:
  assumes "fst (ReadInterfaceToken P (data s)) \<noteq> SAMANAGER_INTERFACE_TOKEN"
  shows "eval_st (OnRemoteRequest P dflt c m code) s = DENIED P
    \<and> reply (exec (OnRemoteRequest P dflt c m code) s) = reply s \<and> world (exec (OnRemoteRequest P dflt c m code) s) = world s"
  using assms by (simp add: OnRemoteRequest_def EnforceInterceToken_def run_simps)

end
