(* ===== verification/Service.thy ===== *)
theory Service
  imports Remote_Calls System
begin

text \<open>
  The service object behind the stub: the methods of the stub implemented by the operations of the ability
  manager, and the scheduling priority of the IPC threads (\<^verbatim>\<open>SetSamgrIpcPrior\<close> of \<^verbatim>\<open>system_ability_manager.cpp\<close>
  with \<^verbatim>\<open>SetIpcPrior\<close> and \<^verbatim>\<open>ResetIpcPrior\<close> of the stub).
\<close>

section \<open>The object\<close>

record samgr_service = stub_state +
  priorRefCnt :: int \<comment> \<open>\<^verbatim>\<open>int32_t\<close>, with the wrap-around written out where it is counted\<close>
  priorHandler :: "unit ffrt_handler" \<comment> \<open>the tasks \<^verbatim>\<open>RESET_IPC_PRIOR\<close> of \<^verbatim>\<open>workHandler_\<close>\<close>
  impl :: samgr

definition on_impl :: "'a M \<Rightarrow> (samgr_service, 'a) state" where
  "on_impl m = State (\<lambda>s. (eval_st m (impl s), s \<lparr> impl := exec m (impl s) \<rparr>))"

text \<open>An operation of the manager as a method: its error code as a number.\<close>
definition with_code :: "'p ipc_ops \<Rightarrow> SamgrErrCode M \<Rightarrow> (samgr_service, int) state" where
  "with_code P m = do { r \<leftarrow> on_impl m; ret (err P r) }"

definition with_code_of :: "'p ipc_ops \<Rightarrow> (SamgrErrCode \<times> 'a) M \<Rightarrow> (samgr_service, int \<times> 'a) state" where
  "with_code_of P m = do { (r, x) \<leftarrow> on_impl m; ret (err P r, x) }"

section \<open>Priority of the IPC threads\<close>

definition RESET_IPC_PRIOR :: string where "RESET_IPC_PRIOR = ''resetIpcPrior''"
definition RESET_IPC_PRIOR_TIMEOUT :: int where "RESET_IPC_PRIOR_TIMEOUT = 5 * 1000"

text \<open>\<open>acc\<close>: the queue accepts the task.\<close>
definition FlushResetPriorTask :: "bool \<Rightarrow> (samgr_service, unit) state" where
  "FlushResetPriorTask acc = do {
     pending \<leftarrow> gets (\<lambda>s. HasInnerEvent RESET_IPC_PRIOR (priorHandler s));
     onlyif pending (modify (\<lambda>s. s \<lparr> priorHandler := RemoveTask RESET_IPC_PRIOR (priorHandler s) \<rparr>));
     modify (\<lambda>s. s \<lparr> priorHandler := snd (PostNamedTask acc (Some ()) RESET_IPC_PRIOR RESET_IPC_PRIOR_TIMEOUT (priorHandler s)) \<rparr>) }"

text \<open>The task that is posted; \<open>tid\<close> is the thread that runs it. The queue forgets its name afterwards.\<close>
definition resetTimeoutTask :: "int \<Rightarrow> (samgr_service, unit) state" where
  "resetTimeoutTask tid = do {
     modify (\<lambda>s. s \<lparr> priorEnable := False \<rparr>);
     ResetIpcPrior tid;
     modify (\<lambda>s. s \<lparr> priorRefCnt := 0 \<rparr>);
     modify (\<lambda>s. s \<lparr> priorHandler := DelTask RESET_IPC_PRIOR (priorHandler s) \<rparr>) }"

definition SetSamgrIpcPrior :: "bool \<Rightarrow> int \<Rightarrow> bool \<Rightarrow> (samgr_service, SamgrErrCode) state" where
  "SetSamgrIpcPrior acc tid enable = do {
     supported \<leftarrow> gets isSupportSetPrior;
     if \<not> supported then ret ERR_INVALID_OPERATION
     else if enable then do {
       enabled \<leftarrow> gets priorEnable;
       onlyif (\<not> enabled) (modify (\<lambda>s. s \<lparr> priorEnable := True \<rparr>));
       modify (\<lambda>s. s \<lparr> priorRefCnt := to_int32 (priorRefCnt s + 1) \<rparr>);
       FlushResetPriorTask acc;
       ret ERR_OK }
     else do {
       invalid \<leftarrow> gets (\<lambda>s. \<not> priorEnable s \<or> priorRefCnt s \<le> 0);
       if invalid then ret ERR_OK
       else do {
         modify (\<lambda>s. s \<lparr> priorRefCnt := to_int32 (priorRefCnt s - 1) \<rparr>);
         n \<leftarrow> gets priorRefCnt;
         onlyif (n = 0) (do {
           modify (\<lambda>s. s \<lparr> priorEnable := False \<rparr>);
           ResetIpcPrior tid;
           modify (\<lambda>s. s \<lparr> priorHandler := RemoveTask RESET_IPC_PRIOR (priorHandler s) \<rparr>) });
         ret ERR_OK } } }"

section \<open>The methods\<close>

text \<open>
  The methods that the ability manager model implements, with the answers \<open>e\<close> of the environment; \<open>rest\<close> holds
  the methods that only forward to parts outside the model.
\<close>
definition samgr_methods :: "'p ipc_ops \<Rightarrow> env \<Rightarrow> bool \<Rightarrow> int \<Rightarrow> ('p, samgr_service) sam_methods \<Rightarrow> ('p, samgr_service) sam_methods" where
  "samgr_methods P e acc tid rest = rest \<lparr>
     m_ListSystemAbilities := \<lambda>_. on_impl (ListSystemAbilities e),
     m_SubscribeSystemAbility := \<lambda>said l. with_code P (SubscribeSystemAbility e said (Some l)),
     m_UnSubscribeSystemAbility := \<lambda>said l. with_code P (UnSubscribeSystemAbility said (Some l)),
     m_GetSystemAbility := \<lambda>said. on_impl (CheckSystemAbility e said),
     m_CheckSystemAbility := \<lambda>said. on_impl (CheckSystemAbility e said),
     m_CheckSystemAbilityExist := \<lambda>said b. on_impl (CheckSystemAbilityExist e said b),
     m_AddOnDemandSystemAbilityInfo := \<lambda>said n. with_code P (AddOnDemandSystemAbilityInfo e said n),
     m_AddSystemAbility := \<lambda>said x prop. with_code P (AddSystemAbility e said (Some x) (ep_isDistributed prop)),
     m_RemoveSystemAbility := \<lambda>said. with_code P (RemoveSystemAbility e said),
     m_AddSystemProcess := \<lambda>n x. with_code P (AddSystemProcess e n (Some x)),
     m_LoadSystemAbility := \<lambda>said l. with_code P (LoadSystemAbility e said (Some l)),
     m_UnloadSystemAbility := \<lambda>said. with_code P (UnloadSystemAbility e said),
     m_CancelUnloadSystemAbility := \<lambda>said. with_code P (CancelUnloadSystemAbility e said),
     m_UnloadAllIdleSystemAbility := with_code P (mgr_UnloadAllIdleSystemAbility e),
     m_UnloadProcess := \<lambda>ps. with_code P (mgr_UnloadProcess e ps),
     m_GetLruIdleSystemAbilityProc := with_code_of P (GetLruIdleSystemAbilityProc e),
     m_OnStartSystemAbilityFail := \<lambda>said c. with_code P (OnStartSystemAbilityFail e said c),
     m_SubscribeLowMemSystemProcess := \<lambda>l. with_code P (mgr_SubscribeLowMemSystemProcess e (Some l)),
     m_UnSubscribeLowMemSystemProcess := \<lambda>l. with_code P (mgr_UnSubscribeLowMemSystemProcess e (Some l)),
     m_SendStrategy := \<lambda>ty ids level action. with_code P (SendStrategy e ty ids level action),
     m_GetOnDemandSystemAbilityIds := with_code_of P GetOnDemandSystemAbilityIds,
     m_GetSystemProcessInfo := \<lambda>said. do {
       (r, i) \<leftarrow> on_impl (mgr_GetSystemProcessInfo e said);
       ret (err P r, case i of Some v \<Rightarrow> v | None \<Rightarrow> \<lparr> spi_processName = [], spi_pid = -1, spi_uid = -1 \<rparr>) },
     m_GetRunningSystemProcess := with_code_of P mgr_GetRunningSystemProcess,
     m_SubscribeSystemProcess := \<lambda>l. with_code P (mgr_SubscribeSystemProcess (Some l)),
     m_UnSubscribeSystemProcess := \<lambda>l. with_code P (mgr_UnSubscribeSystemProcess (Some l)),
     m_GetExtensionSaIds := \<lambda>ext. do { ids \<leftarrow> on_impl (GetExtensionSaIds ext); ret (err P ERR_OK, ids) },
     m_GetExtensionRunningSaList := \<lambda>ext. do { obs \<leftarrow> on_impl (GetExtensionRunningSaList ext); ret (err P ERR_OK, map Some obs) },
     m_GetRunningSaExtensionInfoList := \<lambda>ext. do {
       infos \<leftarrow> on_impl (GetRunningSaExtensionInfoList ext);
       ret (err P ERR_OK, map (\<lambda>(k, ob). \<lparr> ext_saId = k, ext_processObj = Some ob \<rparr>) infos) },
     m_GetLocalAbilityManagerProxy := \<lambda>said. on_impl (GetLocalAbilityManagerProxy said),
     m_SetSamgrIpcPrior := \<lambda>b. do { r \<leftarrow> SetSamgrIpcPrior acc tid b; ret (err P r) } \<rparr>"

lemma on_impl_run [run_simps]:
  "eval_st (on_impl m) s = eval_st m (impl s)" "exec (on_impl m) s = s \<lparr> impl := exec m (impl s) \<rparr>"
  by (simp_all add: on_impl_def eval_st_def exec_def)

lemma prior_set_impl [simp]: "impl (prior_set c w) = impl w"
  by (simp add: prior_set_def SetIpcPrior_def SetIpcPrior_check_def SetIpcPrior_boost_def run_simps)

end
