(* ===== verification/Service_Requests.thy ===== *)
theory Service_Requests
  imports Service
begin

text \<open>
  What a request can do to the state of the service. The contract \<open>method_contract\<close> asks that every method of the
  service object keeps a property; then every request keeps it, whatever its code and its parcels hold.
\<close>

section \<open>Programs that keep a property of the world\<close>

abbreviation keeps :: "('w \<Rightarrow> bool) \<Rightarrow> ('p, 'w, 'a) C \<Rightarrow> bool" where
  "keeps K m \<equiv> preserves (\<lambda>s. K (world s)) m"

lemma keeps_parcel [hoare_intros]: "keeps K (on_data f)" "keeps K (on_reply g)"
  by (simp_all add: hoare_def run_simps)

lemma keeps_invoke [hoare_intros]: "preserves K m \<Longrightarrow> keeps K (invoke m)"
  by (simp add: hoare_def run_simps)

lemma preserves_write_or [hoare_intros]: "preserves I m \<Longrightarrow> preserves I k \<Longrightarrow> preserves I (write_or m e k)"
  unfolding write_or_def by (intro hoare_intros)

lemma preserves_read_or [hoare_intros]: "preserves I m \<Longrightarrow> (\<And>v. preserves I (k v)) \<Longrightarrow> preserves I (read_or m e k)"
  unfolding read_or_def by (intro hoare_intros)

lemma preserves_check_or [hoare_intros]: "(b \<Longrightarrow> preserves I k) \<Longrightarrow> preserves I (check_or b e k)"
  by (simp add: check_or_def preserves_return)

lemma preserves_case_sum [hoare_intros]:
  "(\<And>v. x = Inl v \<Longrightarrow> preserves I (m v)) \<Longrightarrow> (\<And>v. x = Inr v \<Longrightarrow> preserves I (n v)) \<Longrightarrow>
   preserves I (case x of Inl v \<Rightarrow> m v | Inr v \<Rightarrow> n v)"
  by (cases x) simp_all

lemma preserves_write_all [hoare_intros]: "(\<And>x. x \<in> set xs \<Longrightarrow> preserves I (w x)) \<Longrightarrow> preserves I (write_all w xs)"
  by (induction xs) (auto intro!: hoare_intros)

lemma keeps_steps [hoare_intros]:
  "(\<And>a. keeps K (k a)) \<Longrightarrow> keeps K (read_said P e k)" "(\<And>l. keeps K (i l)) \<Longrightarrow> keeps K (read_iface P c e i)"
  "keeps K (answer P r)" "keeps K (answer_ok P r)" "keeps K (answer_object P ob)"
  "keeps K (write_process P p)" "keeps K (write_idle_process P q)" "keeps K (UnmarshalingSaExtraProp P)"
  unfolding read_said_def read_iface_def answer_def answer_ok_def answer_object_def write_process_def write_idle_process_def
    UnmarshalingSaExtraProp_def
  by (intro hoare_intros; assumption)+

section \<open>The contract of a service object\<close>

definition methods_keep :: "('s \<Rightarrow> bool) \<Rightarrow> ('p, 's) sam_methods \<Rightarrow> bool" where
  "methods_keep K m \<longleftrightarrow>
     (\<forall>a. preserves K (m_ListSystemAbilities m a))
     \<and> (\<forall>a b. preserves K (m_SubscribeSystemAbility m a b))
     \<and> (\<forall>a b. preserves K (m_UnSubscribeSystemAbility m a b))
     \<and> (\<forall>a. preserves K (m_GetSystemAbility m a))
     \<and> (\<forall>a b. preserves K (m_GetSystemAbilityRemote m a b))
     \<and> (\<forall>a. preserves K (m_CheckSystemAbility m a))
     \<and> (\<forall>a b. preserves K (m_CheckSystemAbilityExist m a b))
     \<and> (\<forall>a b. preserves K (m_AddOnDemandSystemAbilityInfo m a b))
     \<and> (\<forall>a b d. preserves K (m_AddSystemAbility m a b d))
     \<and> (\<forall>a. preserves K (m_RemoveSystemAbility m a))
     \<and> (\<forall>a b. preserves K (m_AddSystemProcess m a b))
     \<and> (\<forall>a b. preserves K (m_LoadSystemAbility m a b))
     \<and> (\<forall>a b d. preserves K (m_LoadRemoteSystemAbility m a b d))
     \<and> (\<forall>a. preserves K (m_UnloadSystemAbility m a))
     \<and> (\<forall>a. preserves K (m_CancelUnloadSystemAbility m a))
     \<and> preserves K (m_UnloadAllIdleSystemAbility m)
     \<and> (\<forall>a. preserves K (m_UnloadProcess m a))
     \<and> preserves K (m_GetLruIdleSystemAbilityProc m)
     \<and> (\<forall>a b. preserves K (m_OnStartSystemAbilityFail m a b))
     \<and> (\<forall>a. preserves K (m_GetSystemProcessInfo m a))
     \<and> preserves K (m_GetRunningSystemProcess m)
     \<and> (\<forall>a. preserves K (m_SubscribeSystemProcess m a))
     \<and> (\<forall>a. preserves K (m_UnSubscribeSystemProcess m a))
     \<and> (\<forall>a. preserves K (m_SubscribeLowMemSystemProcess m a))
     \<and> (\<forall>a. preserves K (m_UnSubscribeLowMemSystemProcess m a))
     \<and> (\<forall>a b. preserves K (m_GetOnDemandReasonExtraData m a b))
     \<and> (\<forall>a b. preserves K (m_GetOnDemandPolicy m a b))
     \<and> (\<forall>a b d. preserves K (m_UpdateOnDemandPolicy m a b d))
     \<and> (\<forall>a b d f. preserves K (m_SendStrategy m a b d f))
     \<and> preserves K (m_GetOnDemandSystemAbilityIds m)
     \<and> (\<forall>a. preserves K (m_GetExtensionSaIds m a))
     \<and> (\<forall>a. preserves K (m_GetExtensionRunningSaList m a))
     \<and> (\<forall>a. preserves K (m_GetRunningSaExtensionInfoList m a))
     \<and> (\<forall>a b. preserves K (m_GetCommonEventExtraDataIdlist m a b))
     \<and> (\<forall>a. preserves K (m_GetLocalAbilityManagerProxy m a))
     \<and> (\<forall>a. preserves K (m_SetSamgrIpcPrior m a))
     \<and> (\<forall>a b. preserves K (m_OnUserStateChanged m a b))
     \<and> (\<forall>a b. preserves K (m_GetSystemAbilityUser m a b))
     \<and> (\<forall>a b. preserves K (m_CheckSystemAbilityUser m a b))
     \<and> (\<forall>a b d. preserves K (m_CheckSystemAbilityByUserId m a b d))
     \<and> (\<forall>a b. preserves K (m_GetSystemProcessInfoUser m a b))
     \<and> (\<forall>a b. preserves K (m_GetLocalAbilityManagerProxyUser m a b))
     \<and> (\<forall>a b d. preserves K (m_LoadSystemAbilityUser m a b d))
     \<and> (\<forall>a b d. preserves K (m_SubscribeSystemAbilityUser m a b d))
     \<and> (\<forall>a b d. preserves K (m_UnSubscribeSystemAbilityUser m a b d))
     \<and> (\<forall>a b. preserves K (m_SubscribeSystemProcessUser m a b))
     \<and> (\<forall>a b. preserves K (m_UnSubscribeSystemProcessUser m a b))"

locale method_contract =
  fixes K :: "'a stub_state_scheme \<Rightarrow> bool" and m :: "('p, 'a stub_state_scheme) sam_methods"
  assumes methods: "methods_keep K m"
    and prior: "preserves K (SetIpcPrior tid)"
begin

lemma method_keeps:
  shows "preserves K (m_ListSystemAbilities m a1)"
    "preserves K (m_SubscribeSystemAbility m a2 b2)"
    "preserves K (m_UnSubscribeSystemAbility m a3 b3)"
    "preserves K (m_GetSystemAbility m a4)"
    "preserves K (m_GetSystemAbilityRemote m a5 b5)"
    "preserves K (m_CheckSystemAbility m a6)"
    "preserves K (m_CheckSystemAbilityExist m a7 b7)"
    "preserves K (m_AddOnDemandSystemAbilityInfo m a8 b8)"
    "preserves K (m_AddSystemAbility m a9 b9 d9)"
    "preserves K (m_RemoveSystemAbility m a10)"
    "preserves K (m_AddSystemProcess m a11 b11)"
    "preserves K (m_LoadSystemAbility m a12 b12)"
    "preserves K (m_LoadRemoteSystemAbility m a13 b13 d13)"
    "preserves K (m_UnloadSystemAbility m a14)"
    "preserves K (m_CancelUnloadSystemAbility m a15)"
    "preserves K (m_UnloadAllIdleSystemAbility m)"
    "preserves K (m_UnloadProcess m a17)"
    "preserves K (m_GetLruIdleSystemAbilityProc m)"
    "preserves K (m_OnStartSystemAbilityFail m a19 b19)"
    "preserves K (m_GetSystemProcessInfo m a20)"
    "preserves K (m_GetRunningSystemProcess m)"
    "preserves K (m_SubscribeSystemProcess m a22)"
    "preserves K (m_UnSubscribeSystemProcess m a23)"
    "preserves K (m_SubscribeLowMemSystemProcess m a24)"
    "preserves K (m_UnSubscribeLowMemSystemProcess m a25)"
    "preserves K (m_GetOnDemandReasonExtraData m a26 b26)"
    "preserves K (m_GetOnDemandPolicy m a27 b27)"
    "preserves K (m_UpdateOnDemandPolicy m a28 b28 d28)"
    "preserves K (m_SendStrategy m a29 b29 d29 f29)"
    "preserves K (m_GetOnDemandSystemAbilityIds m)"
    "preserves K (m_GetExtensionSaIds m a31)"
    "preserves K (m_GetExtensionRunningSaList m a32)"
    "preserves K (m_GetRunningSaExtensionInfoList m a33)"
    "preserves K (m_GetCommonEventExtraDataIdlist m a34 b34)"
    "preserves K (m_GetLocalAbilityManagerProxy m a35)"
    "preserves K (m_SetSamgrIpcPrior m a36)"
    "preserves K (m_OnUserStateChanged m a37 b37)"
    "preserves K (m_GetSystemAbilityUser m a38 b38)"
    "preserves K (m_CheckSystemAbilityUser m a39 b39)"
    "preserves K (m_CheckSystemAbilityByUserId m a40 b40 d40)"
    "preserves K (m_GetSystemProcessInfoUser m a41 b41)"
    "preserves K (m_GetLocalAbilityManagerProxyUser m a42 b42)"
    "preserves K (m_LoadSystemAbilityUser m a43 b43 d43)"
    "preserves K (m_SubscribeSystemAbilityUser m a44 b44 d44)"
    "preserves K (m_UnSubscribeSystemAbilityUser m a45 b45 d45)"
    "preserves K (m_SubscribeSystemProcessUser m a46 b46)"
    "preserves K (m_UnSubscribeSystemProcessUser m a47 b47)"
  using methods by (simp_all add: methods_keep_def)

lemma handler_keeps:
  "(code, h) \<in> set (memberFuncMap P c m) \<Longrightarrow> keeps K h"
proof -
  have "list_all (\<lambda>(code, h). keeps K h) (memberFuncMap P c m)"
    unfolding memberFuncMap_def SetAbilityFuncMap_def SetProcessFuncMap_def SetMultiInstanceFuncMap_def
      ListSystemAbilityInner_def SubsSystemAbilityInner_def UnSubsSystemAbilityInner_def CheckRemtSystemAbilityInner_def AddOndemandSystemAbilityInner_def
      CheckSystemAbilityImmeInner_def AddSystemAbilityInner_def GetSystemAbilityInner_def CheckSystemAbilityInner_def RemoveSystemAbilityInner_def
      LoadSystemAbilityInner_def LoadRemoteSystemAbilityInner_def UnloadSystemAbilityInner_def CancelUnloadSystemAbilityInner_def
      UnloadAllIdleSystemAbilityInner_def UnloadProcessInner_def OnStartSystemAbilityFailInner_def AddSystemProcessInner_def
      GetLruIdleSystemAbilityProcInner_def GetSystemProcessInfoInner_def GetRunningSystemProcessInner_def SubscribeSystemProcessInner_def
      UnSubscribeSystemProcessInner_def SubscribeLowMemSystemProcessInner_def UnSubscribeLowMemSystemProcessInner_def GetOnDemandReasonExtraDataInner_def
      GetOnDemandPolicyInner_def UpdateOnDemandPolicyInner_def SendStrategyInner_def GetOnDemandSystemAbilityIdsInner_def GetExtensionSaIdsInner_def
      GetExtensionRunningSaListInner_def GetRunningSaExtensionInfoListInner_def GetCommonEventExtraDataIdlistInner_def GetLocalAbilityManagerProxyInner_def
      SetSamgrIpcPriorInner_def OnUserStateChangedInner_def GetSystemAbilityWithUserIdInner_def CheckSystemAbilityWithUserIdInner_def
      CheckSystemAbilityByUserIdInner_def GetSystemProcessInfoWithUserIdInner_def GetLocalAbilityManagerProxyWithUserIdInner_def
      LoadSystemAbilityWithUserIdInner_def SubsSystemAbilityWithUserIdInner_def UnSubsSystemAbilityWithUserIdInner_def
      SubscribeSystemProcessWithUserIdInner_def UnSubscribeSystemProcessWithUserIdInner_def
    by (simp; intro conjI impI hoare_intros method_keeps)
  then show "(code, h) \<in> set (memberFuncMap P c m) \<Longrightarrow> keeps K h" by (auto simp: list_all_iff)
qed

lemma request_keeps:
  assumes "\<And>code. keeps K (dflt code)"
  shows "keeps K (OnRemoteRequest P dflt c m code)"
  unfolding OnRemoteRequest_def EnforceInterceToken_def
  by (intro hoare_intros prior assms) (auto dest: map_of_SomeD intro: handler_keeps)

end

end
