(* ===== verification/Service_Inv.thy ===== *)
theory Service_Inv
  imports Service_Requests
begin

text \<open>
  The contract of a service object, met by the model of the manager in two ways: every request leads from a
  reachable state to a reachable state, and every request keeps the bookkeeping of the IPC priorities.
\<close>

section \<open>Methods outside the model\<close>

text \<open>Methods that change nothing; the witnesses run the service with them.\<close>
definition idle_methods :: "('p, 's) sam_methods" where
  "idle_methods = \<lparr>
     m_ListSystemAbilities = \<lambda>_. ret [],
     m_SubscribeSystemAbility = \<lambda>_ _. ret 0,
     m_UnSubscribeSystemAbility = \<lambda>_ _. ret 0,
     m_GetSystemAbility = \<lambda>_. ret None,
     m_GetSystemAbilityRemote = \<lambda>_ _. ret None,
     m_CheckSystemAbility = \<lambda>_. ret None,
     m_CheckSystemAbilityExist = \<lambda>_ _. ret (None, False),
     m_AddOnDemandSystemAbilityInfo = \<lambda>_ _. ret 0,
     m_AddSystemAbility = \<lambda>_ _ _. ret 0,
     m_RemoveSystemAbility = \<lambda>_. ret 0,
     m_AddSystemProcess = \<lambda>_ _. ret 0,
     m_LoadSystemAbility = \<lambda>_ _. ret 0,
     m_LoadRemoteSystemAbility = \<lambda>_ _ _. ret 0,
     m_UnloadSystemAbility = \<lambda>_. ret 0,
     m_CancelUnloadSystemAbility = \<lambda>_. ret 0,
     m_UnloadAllIdleSystemAbility = ret 0,
     m_UnloadProcess = \<lambda>_. ret 0,
     m_GetLruIdleSystemAbilityProc = ret (0, []),
     m_OnStartSystemAbilityFail = \<lambda>_ _. ret 0,
     m_GetSystemProcessInfo = \<lambda>_. ret (0, \<lparr> spi_processName = [], spi_pid = -1, spi_uid = -1 \<rparr>),
     m_GetRunningSystemProcess = ret (0, []),
     m_SubscribeSystemProcess = \<lambda>_. ret 0,
     m_UnSubscribeSystemProcess = \<lambda>_. ret 0,
     m_SubscribeLowMemSystemProcess = \<lambda>_. ret 0,
     m_UnSubscribeLowMemSystemProcess = \<lambda>_. ret 0,
     m_GetOnDemandReasonExtraData = \<lambda>_ d. ret (0, d),
     m_GetOnDemandPolicy = \<lambda>_ _. ret (0, []),
     m_UpdateOnDemandPolicy = \<lambda>_ _ _. ret 0,
     m_SendStrategy = \<lambda>_ _ _ _. ret 0,
     m_GetOnDemandSystemAbilityIds = ret (0, []),
     m_GetExtensionSaIds = \<lambda>_. ret (0, []),
     m_GetExtensionRunningSaList = \<lambda>_. ret (0, []),
     m_GetRunningSaExtensionInfoList = \<lambda>_. ret (0, []),
     m_GetCommonEventExtraDataIdlist = \<lambda>_ _. ret (0, []),
     m_GetLocalAbilityManagerProxy = \<lambda>_. ret None,
     m_SetSamgrIpcPrior = \<lambda>_. ret 0,
     m_OnUserStateChanged = \<lambda>_ _. ret 0,
     m_GetSystemAbilityUser = \<lambda>_ _. ret None,
     m_CheckSystemAbilityUser = \<lambda>_ _. ret None,
     m_CheckSystemAbilityByUserId = \<lambda>_ _ _. ret (None, False),
     m_GetSystemProcessInfoUser = \<lambda>_ _. ret (0, \<lparr> spi_processName = [], spi_pid = -1, spi_uid = -1 \<rparr>),
     m_GetLocalAbilityManagerProxyUser = \<lambda>_ _. ret None,
     m_LoadSystemAbilityUser = \<lambda>_ _ _. ret 0,
     m_SubscribeSystemAbilityUser = \<lambda>_ _ _. ret 0,
     m_UnSubscribeSystemAbilityUser = \<lambda>_ _ _. ret 0,
     m_SubscribeSystemProcessUser = \<lambda>_ _. ret 0,
     m_UnSubscribeSystemProcessUser = \<lambda>_ _. ret 0 \<rparr>"

lemma idle_methods_keep: "methods_keep K idle_methods"
  by (simp add: methods_keep_def idle_methods_def hoare_intros)

section \<open>Reachable states\<close>

definition service_reachable :: "SaProfile list \<Rightarrow> samgr_service \<Rightarrow> bool" where
  "service_reachable prs w \<longleftrightarrow> reachable prs (impl w)"

lemma preserves_with_code [hoare_intros]:
  "preserves I (on_impl m) \<Longrightarrow> preserves I (with_code P m)" "preserves I (on_impl n) \<Longrightarrow> preserves I (with_code_of P n)"
  unfolding with_code_def with_code_of_def by (intro hoare_intros; assumption)+

lemma by_request:
  assumes "run_request e r = do { _ \<leftarrow> m; ret () }"
  shows "preserves (service_reachable prs) (on_impl m)"
proof -
  have "exec (run_request e r) s = exec m s" for s using assms by (simp add: run_simps)
  then show ?thesis
    using reachable.step [OF _ step.request [of _ e r]] by (auto simp: hoare_def service_reachable_def run_simps)
qed

lemma run_request_eqs:
  "run_request e (ReqSubscribeSystemAbility a l) = do { _ \<leftarrow> SubscribeSystemAbility e a l; ret () }"
  "run_request e (ReqUnSubscribeSystemAbility a l) = do { _ \<leftarrow> UnSubscribeSystemAbility a l; ret () }"
  "run_request e (ReqCheckSystemAbility a) = do { _ \<leftarrow> CheckSystemAbility e a; ret () }"
  "run_request e (ReqCheckSystemAbilityExist a b) = do { _ \<leftarrow> CheckSystemAbilityExist e a b; ret () }"
  "run_request e (ReqAddOnDemandSystemAbilityInfo a n) = do { _ \<leftarrow> AddOnDemandSystemAbilityInfo e a n; ret () }"
  "run_request e (ReqAddSystemAbility a ob b) = do { _ \<leftarrow> AddSystemAbility e a ob b; ret () }"
  "run_request e (ReqRemoveSystemAbility a) = do { _ \<leftarrow> RemoveSystemAbility e a; ret () }"
  "run_request e (ReqAddSystemProcess n ob) = do { _ \<leftarrow> AddSystemProcess e n ob; ret () }"
  "run_request e (ReqLoadSystemAbility a l) = do { _ \<leftarrow> LoadSystemAbility e a l; ret () }"
  "run_request e (ReqUnloadSystemAbility a) = do { _ \<leftarrow> UnloadSystemAbility e a; ret () }"
  "run_request e (ReqCancelUnloadSystemAbility a) = do { _ \<leftarrow> CancelUnloadSystemAbility e a; ret () }"
  "run_request e ReqUnloadAllIdleSystemAbility = do { _ \<leftarrow> mgr_UnloadAllIdleSystemAbility e; ret () }"
  "run_request e (ReqUnloadProcess ps) = do { _ \<leftarrow> mgr_UnloadProcess e ps; ret () }"
  "run_request e ReqGetLruIdleSystemAbilityProc = do { _ \<leftarrow> GetLruIdleSystemAbilityProc e; ret () }"
  "run_request e (ReqOnStartSystemAbilityFail a c) = do { _ \<leftarrow> OnStartSystemAbilityFail e a c; ret () }"
  "run_request e (ReqSubscribeSystemProcess l) = do { _ \<leftarrow> mgr_SubscribeSystemProcess l; ret () }"
  "run_request e (ReqUnSubscribeSystemProcess l) = do { _ \<leftarrow> mgr_UnSubscribeSystemProcess l; ret () }"
  "run_request e (ReqSubscribeLowMemSystemProcess l) = do { _ \<leftarrow> mgr_SubscribeLowMemSystemProcess e l; ret () }"
  "run_request e (ReqUnSubscribeLowMemSystemProcess l) = do { _ \<leftarrow> mgr_UnSubscribeLowMemSystemProcess e l; ret () }"
  "run_request e (ReqSendStrategy t sas lv ac) = do { _ \<leftarrow> SendStrategy e t sas lv ac; ret () }"
  by (simp_all add: run_request_def)

lemmas reachable_methods = run_request_eqs [THEN by_request]

text \<open>Operations that only read.\<close>
lemma reader_on_impl: "(\<And>s. exec m s = s) \<Longrightarrow> preserves (service_reachable prs) (on_impl m)"
  by (simp add: hoare_def service_reachable_def run_simps)

lemma reachable_readers:
  "preserves (service_reachable prs) (on_impl (ListSystemAbilities e))"
  "preserves (service_reachable prs) (on_impl GetOnDemandSystemAbilityIds)"
  "preserves (service_reachable prs) (on_impl (GetLocalAbilityManagerProxy a))"
  "preserves (service_reachable prs) (on_impl (mgr_GetSystemProcessInfo e a))"
  "preserves (service_reachable prs) (on_impl mgr_GetRunningSystemProcess)"
  "preserves (service_reachable prs) (on_impl (GetExtensionSaIds x))"
  "preserves (service_reachable prs) (on_impl (GetExtensionRunningSaList x))"
  "preserves (service_reachable prs) (on_impl (GetRunningSaExtensionInfoList x))"
  by (rule reader_on_impl; simp add: ListSystemAbilities_def GetOnDemandSystemAbilityIds_def GetLocalAbilityManagerProxy_def GetSaProfile_def
      GetSystemProcess_def mgr_GetSystemProcessInfo_def sch_GetSystemProcessInfo_def GetSystemAbilityContext_def mgr_GetRunningSystemProcess_def
      sch_GetRunningSystemProcess_def GetExtensionSaIds_def GetExtensionRunningSaList_def GetRunningSaExtensionInfoList_def
      getM_def getS_def run_simps split: option.split)+

lemma reachable_prior: "preserves (service_reachable prs) (SetSamgrIpcPrior acc tid b)" "preserves (service_reachable prs) (SetIpcPrior tid)"
  by (simp_all add: hoare_def service_reachable_def SetSamgrIpcPrior_def FlushResetPriorTask_def ResetIpcPrior_def SetIpcPrior_def
      SetIpcPrior_check_def SetIpcPrior_boost_def run_simps)

lemma samgr_methods_reachable:
  assumes "methods_keep (service_reachable prs) rest"
  shows "methods_keep (service_reachable prs) (samgr_methods P e acc tid rest)"
  using assms unfolding methods_keep_def samgr_methods_def
  by (auto intro!: hoare_intros reachable_methods reachable_readers reachable_prior)

section \<open>Priorities of the IPC threads\<close>

text \<open>The threads whose priority is raised after a sequence of calls to the QoS library.\<close>
fun apply_qos :: "qos_call \<Rightarrow> int set \<Rightarrow> int set" where
  "apply_qos (SetThreadQos t) B = insert t B"
| "apply_qos (ResetThreadQos t) B = B - {t}"
| "apply_qos (ResetQosForOtherThread t) B = B - {t}"

definition boosted :: "qos_call list \<Rightarrow> int set" where
  "boosted cs = fold apply_qos cs {}"

definition reset_pending :: "unit ffrt_handler \<Rightarrow> bool" where
  "reset_pending h \<longleftrightarrow> (\<exists>k d. handles RESET_IPC_PRIOR h = [k] \<and> (k, d, ()) \<in> set (submitted h))"

text \<open>
  The recorded threads are the raised ones; while raising is disabled nobody is raised and the counter is 0; while it
  is enabled exactly one reset is queued. Every enabling request posts a reset, so the counter is at most the number of
  handles given out, and as long as these are fewer than 2147483648 it has not wrapped and decides whether raising is enabled.
\<close>
definition prior_inv :: "samgr_service \<Rightarrow> bool" where
  "prior_inv w \<longleftrightarrow> is_int32 (priorRefCnt w) \<and> (\<not> priorEnable w \<longrightarrow> priorRefCnt w = 0)
     \<and> (nextHandle (priorHandler w) < 2 ^ 31 \<longrightarrow> priorRefCnt w \<le> int (nextHandle (priorHandler w)) \<and> (priorEnable w \<longrightarrow> 0 < priorRefCnt w))
     \<and> boosted (qos_calls w) = set (highPrioTidSet w)
     \<and> (\<not> priorEnable w \<longrightarrow> highPrioTidSet w = []) \<and> ffrt_ok (priorHandler w) \<and> queue (priorHandler w)
     \<and> (priorEnable w \<longrightarrow> reset_pending (priorHandler w))"

lemma boosted_append: "boosted (cs @ ds) = fold apply_qos ds (boosted cs)"
  by (simp add: boosted_def)

lemma reset_each: "fold apply_qos (map ResetQosForOtherThread ts) B = B - set ts"
  by (induction ts arbitrary: B) auto

lemma ResetIpcPrior_boosted:
  "boosted (qos_calls w) = set (highPrioTidSet w) \<Longrightarrow> boosted (qos_calls (exec (ResetIpcPrior tid) w)) = {}"
  by (auto simp: ResetIpcPrior_def run_simps boosted_append reset_each)

lemma prior_inv_on_impl: "preserves prior_inv (on_impl m)"
  by (simp add: hoare_def prior_inv_def run_simps)

lemma prior_inv_SetIpcPrior: "preserves prior_inv (SetIpcPrior tid)"
  by (auto simp: hoare_def prior_inv_def SetIpcPrior_def SetIpcPrior_check_def SetIpcPrior_boost_def run_simps boosted_append set_insort_key)

lemma prior_inv_reset:
  assumes "prior_inv w" and "ffrt_ok h" and "queue h"
  shows "prior_inv ((exec (ResetIpcPrior tid) (w \<lparr> priorEnable := False \<rparr>)) \<lparr> priorRefCnt := 0, priorHandler := h \<rparr>)"
proof -
  have "boosted (qos_calls (exec (ResetIpcPrior tid) (w \<lparr> priorEnable := False \<rparr>))) = {}"
    using assms(1) by (intro ResetIpcPrior_boosted) (simp add: prior_inv_def)
  moreover have "priorEnable (exec (ResetIpcPrior tid) (w \<lparr> priorEnable := False \<rparr>)) = False"
    "highPrioTidSet (exec (ResetIpcPrior tid) (w \<lparr> priorEnable := False \<rparr>)) = []"
    by (simp_all add: ResetIpcPrior_def run_simps)
  ultimately show ?thesis using assms(2,3) by (simp add: prior_inv_def is_int32_def)
qed

lemma flush_pending:
  assumes "ffrt_ok h" and "queue h" and "handles RESET_IPC_PRIOR h = []"
  shows "reset_pending (snd (PostNamedTask True (Some ()) RESET_IPC_PRIOR RESET_IPC_PRIOR_TIMEOUT h))"
  using assms by (simp add: reset_pending_def handles_PostNamedTask)
    (simp add: PostNamedTask_def RESET_IPC_PRIOR_TIMEOUT_def MAX_UINT64_def CONVERSION_FACTOR_def queue_submit_def, blast)

lemma queue_kept [simp]: "queue (RemoveTask n h) = queue h" "queue (DelTask n h) = queue h" "queue (snd (PostNamedTask acc t n d h)) = queue h"
  by (auto simp: RemoveTask_def DelTask_def PostNamedTask_def Let_def queue_submit_def submitted_cancel_all split: option.split)

lemma nextHandle_kept [simp]: "nextHandle (RemoveTask n h) = nextHandle h" "nextHandle (DelTask n h) = nextHandle h"
  by (simp_all add: RemoveTask_def DelTask_def Let_def split: option.split)

lemma nextHandle_posted: "queue h \<Longrightarrow> nextHandle (snd (PostNamedTask True (Some ()) RESET_IPC_PRIOR RESET_IPC_PRIOR_TIMEOUT h)) = Suc (nextHandle h)"
  by (simp add: PostNamedTask_def RESET_IPC_PRIOR_TIMEOUT_def MAX_UINT64_def CONVERSION_FACTOR_def queue_submit_def)

text \<open>Counting one more: in range whatever happens, exact below the limit.\<close>
lemma counted_once_more:
  assumes "is_int32 n" and "k < 2 ^ 31 \<Longrightarrow> n \<le> int k \<and> (b \<longrightarrow> 0 < n)" and "\<not> b \<Longrightarrow> n = 0"
  shows "is_int32 (to_int32 (n + 1))" and "Suc k < 2 ^ 31 \<Longrightarrow> to_int32 (n + 1) \<le> int (Suc k) \<and> 0 < to_int32 (n + 1)"
proof -
  show "is_int32 (to_int32 (n + 1))" by (rule to_int32_range)
  assume k: "Suc k < 2 ^ 31"
  then have "0 \<le> n" "n \<le> int k" using assms(2,3) by (cases b; force)+
  then show "to_int32 (n + 1) \<le> int (Suc k) \<and> 0 < to_int32 (n + 1)" using k by (simp add: to_int32_id is_int32_def)
qed

lemma prior_inv_enable:
  assumes "prior_inv w"
  shows "prior_inv (exec (FlushResetPriorTask True) (w \<lparr> priorEnable := True, priorRefCnt := to_int32 (priorRefCnt w + 1) \<rparr>))"
proof -
  let ?h = "if HasInnerEvent RESET_IPC_PRIOR (priorHandler w) then RemoveTask RESET_IPC_PRIOR (priorHandler w) else priorHandler w"
  let ?g = "snd (PostNamedTask True (Some ()) RESET_IPC_PRIOR RESET_IPC_PRIOR_TIMEOUT ?h)"
  have h: "ffrt_ok ?h" "queue ?h" "handles RESET_IPC_PRIOR ?h = []"
    using assms by (auto simp: prior_inv_def ffrt_ok_RemoveTask HasInnerEvent_handles)
  have "ffrt_ok ?g" "queue ?g" "reset_pending ?g" "nextHandle ?g = Suc (nextHandle (priorHandler w))"
    using flush_pending [OF h] ffrt_ok_PostNamedTask [OF h(1)] h(2) nextHandle_posted [OF h(2)] by simp_all
  moreover have "exec (FlushResetPriorTask True) (w \<lparr> priorEnable := True, priorRefCnt := to_int32 (priorRefCnt w + 1) \<rparr>)
      = w \<lparr> priorEnable := True, priorRefCnt := to_int32 (priorRefCnt w + 1), priorHandler := ?g \<rparr>"
    by (simp add: FlushResetPriorTask_def run_simps)
  moreover have "is_int32 (to_int32 (priorRefCnt w + 1))"
    "Suc (nextHandle (priorHandler w)) < 2 ^ 31 \<Longrightarrow>
       to_int32 (priorRefCnt w + 1) \<le> int (Suc (nextHandle (priorHandler w))) \<and> 0 < to_int32 (priorRefCnt w + 1)"
    using counted_once_more [of "priorRefCnt w" "nextHandle (priorHandler w)" "priorEnable w"] assms by (auto simp: prior_inv_def)
  ultimately show ?thesis using assms by (simp add: prior_inv_def)
qed

lemma enabled_same: "(if priorEnable w then w else w \<lparr> priorEnable := True \<rparr>) = w \<lparr> priorEnable := True \<rparr>" for w :: samgr_service
  by (cases w) simp

lemma prior_inv_SetSamgrIpcPrior: "preserves prior_inv (SetSamgrIpcPrior True tid b)"
  unfolding hoare_def
proof (intro allI impI)
  fix w assume w: "prior_inv w"
  show "prior_inv (exec (SetSamgrIpcPrior True tid b) w)"
  proof (cases "isSupportSetPrior w \<and> b")
    case True
    have "exec (SetSamgrIpcPrior True tid b) w =
        exec (FlushResetPriorTask True) ((if priorEnable w then w else w \<lparr> priorEnable := True \<rparr>) \<lparr> priorRefCnt := to_int32 (priorRefCnt w + 1) \<rparr>)"
      using True by (simp add: SetSamgrIpcPrior_def run_simps)
    with prior_inv_enable [OF w] show ?thesis unfolding enabled_same by simp
  next
    case False
    have counts: "0 < priorRefCnt w \<Longrightarrow> to_int32 (priorRefCnt w - 1) = priorRefCnt w - 1"
      using w by (intro to_int32_id) (simp add: prior_inv_def is_int32_def)
    show ?thesis
    proof (cases "isSupportSetPrior w \<and> priorEnable w \<and> 0 < priorRefCnt w")
      case True
      show ?thesis
      proof (cases "priorRefCnt w = 1")
        case one: True
        have "exec (SetSamgrIpcPrior True tid b) w = (exec (ResetIpcPrior tid) (w \<lparr> priorEnable := False \<rparr>))
            \<lparr> priorRefCnt := 0, priorHandler := RemoveTask RESET_IPC_PRIOR (priorHandler w) \<rparr>"
          using True False one counts by (simp add: SetSamgrIpcPrior_def ResetIpcPrior_def run_simps)
        moreover have "ffrt_ok (RemoveTask RESET_IPC_PRIOR (priorHandler w))" "queue (RemoveTask RESET_IPC_PRIOR (priorHandler w))"
          using w by (simp_all add: prior_inv_def ffrt_ok_RemoveTask)
        ultimately show ?thesis using prior_inv_reset [OF w] by simp
      next
        case more: False
        have "exec (SetSamgrIpcPrior True tid b) w = w \<lparr> priorRefCnt := priorRefCnt w - 1 \<rparr>"
          using True False more counts by (simp add: SetSamgrIpcPrior_def run_simps)
        then show ?thesis using True more w by (auto simp: prior_inv_def is_int32_def)
      qed
    next
      case invalid: False
      then have "exec (SetSamgrIpcPrior True tid b) w = w" using False by (auto simp: SetSamgrIpcPrior_def run_simps)
      then show ?thesis using w by simp
    qed
  qed
qed

lemma samgr_methods_prior:
  assumes "methods_keep prior_inv rest"
  shows "methods_keep prior_inv (samgr_methods P e True tid rest)"
  using assms unfolding methods_keep_def samgr_methods_def
  by (auto intro!: hoare_intros prior_inv_on_impl prior_inv_SetSamgrIpcPrior)

text \<open>The runtime starts a queued reset.\<close>
lemma prior_inv_timeout:
  assumes w: "prior_inv w" and "queue_start k (priorHandler w) = Some (t, h)"
  shows "prior_inv (exec (resetTimeoutTask tid) (w \<lparr> priorHandler := h \<rparr>))"
proof -
  have "ffrt_ok h" using assms by (auto simp: prior_inv_def intro: ffrt_ok_queue_start)
  moreover have "queue h" using assms by (auto simp: prior_inv_def queue_start_def queue_cancel_def split: option.splits)
  ultimately have "ffrt_ok (DelTask RESET_IPC_PRIOR h)" "queue (DelTask RESET_IPC_PRIOR h)" by (simp_all add: ffrt_ok_DelTask)
  moreover have "exec (resetTimeoutTask tid) (w \<lparr> priorHandler := h \<rparr>) =
      (exec (ResetIpcPrior tid) (w \<lparr> priorEnable := False \<rparr>)) \<lparr> priorRefCnt := 0, priorHandler := DelTask RESET_IPC_PRIOR h \<rparr>"
    by (simp add: resetTimeoutTask_def ResetIpcPrior_def run_simps)
  ultimately show ?thesis using prior_inv_reset [OF w] by simp
qed

section \<open>The service as a transition system\<close>

text \<open>
  A step of the service object: a request with arbitrary code and parcels from an arbitrary caller, the timer of the
  priorities, or a step inside the manager.
\<close>
inductive serves :: "'p ipc_ops \<Rightarrow> (nat \<Rightarrow> ('p, samgr_service, int) C) \<Rightarrow> ('p, samgr_service) sam_methods \<Rightarrow> bool \<Rightarrow> samgr_service \<Rightarrow> samgr_service \<Rightarrow> bool"
  for P dflt rest acc where
  remote: "serves P dflt rest acc (world s) (world (exec (OnRemoteRequest P dflt c (samgr_methods P e acc tid rest) code) s))"
| timer: "queue_start k (priorHandler w) = Some (t, h) \<Longrightarrow> serves P dflt rest acc w (exec (resetTimeoutTask tid) (w \<lparr> priorHandler := h \<rparr>))"
| inside: "step (impl w) i \<Longrightarrow> serves P dflt rest acc w (w \<lparr> impl := i \<rparr>)"

text \<open>What keeps the contract and survives the other two kinds of step holds for ever.\<close>
lemma serves_keeps:
  assumes "(serves P dflt rest acc)\<^sup>*\<^sup>* w w'" and "K w"
    and m: "\<And>e tid. method_contract K (samgr_methods P e acc tid rest)" and d: "\<And>code. keeps K (dflt code)"
    and timer: "\<And>w k t h tid. K w \<Longrightarrow> queue_start k (priorHandler w) = Some (t, h) \<Longrightarrow> K (exec (resetTimeoutTask tid) (w \<lparr> priorHandler := h \<rparr>))"
    and inside: "\<And>w i. K w \<Longrightarrow> step (impl w) i \<Longrightarrow> K (w \<lparr> impl := i \<rparr>)"
  shows "K w'"
  using assms(1,2)
proof (induction rule: rtranclp_induct)
  case (step w1 w2)
  from step.hyps(2) step.IH [OF step.prems] show ?case
    by cases (auto intro: timer inside preservesD [OF method_contract.request_keeps [OF m d]])
qed

lemma serves_reachable:
  assumes "(serves P dflt rest acc)\<^sup>*\<^sup>* w w'" and "service_reachable prs w"
    and "methods_keep (service_reachable prs) rest" and "\<And>code. keeps (service_reachable prs) (dflt code)"
  shows "service_reachable prs w'"
  using assms(1,2)
proof (rule serves_keeps [OF _ _ _ assms(4)])
  show "method_contract (service_reachable prs) (samgr_methods P e acc tid rest)" for e tid
    by (intro method_contract.intro samgr_methods_reachable assms(3) reachable_prior)
qed (auto simp: service_reachable_def resetTimeoutTask_def ResetIpcPrior_def run_simps intro: reachable.step)

lemma serves_prior:
  assumes "(serves P dflt rest True)\<^sup>*\<^sup>* w w'" and "prior_inv w"
    and "methods_keep prior_inv rest" and "\<And>code. keeps prior_inv (dflt code)"
  shows "prior_inv w'"
  using assms(1,2)
proof (rule serves_keeps [OF _ _ _ assms(4)])
  show "method_contract prior_inv (samgr_methods P e True tid rest)" for e tid
    by (intro method_contract.intro samgr_methods_prior assms(3) prior_inv_SetIpcPrior)
qed (erule prior_inv_timeout, assumption, simp add: prior_inv_def)

text \<open>The service without the parts outside the model meets the contract in both ways.\<close>
interpretation reachable_service: method_contract "service_reachable prs" "samgr_methods P e acc tid idle_methods"
  by (intro method_contract.intro samgr_methods_reachable idle_methods_keep reachable_prior)

interpretation prior_service: method_contract prior_inv "samgr_methods P e True tid idle_methods"
  by (intro method_contract.intro samgr_methods_prior idle_methods_keep prior_inv_SetIpcPrior)

end
