(* ===== verification/Client_Lemmas.thy ===== *)
theory Client_Lemmas
  imports Remote_Calls
begin

text \<open>
  Lemmas on the state of the client library: the retry loop, the cache of the last query and the blocking
  load.
\<close>

section \<open>The retry loop\<close>

text \<open>One attempt: the object found and whether the caller is refused.\<close>
definition attempt :: "'p ipc_ops \<Rightarrow> ('p, 'w) remote option \<Rightarrow> int \<Rightarrow> string \<Rightarrow> bool \<Rightarrow> ('w client, obj option \<times> bool \<times> int) state" where
  "attempt P R said dev isExist =
     (if dev = [] then cl_CheckSystemAbilityExist P R said isExist (OK P)
      else do { (x, e) \<leftarrow> at_service (cl_CheckSystemAbilityRemote P R said dev (OK P)); ret (x, isExist, e) })"

lemma attempt_slept [simp]: "slept (exec (attempt P R said dev b) s) = slept s"
  by (auto simp: attempt_def cl_CheckSystemAbilityExist_def GetAbility_def run_simps split: option.split prod.split)

lemma wrapper_loop_step:
  "wrapper_loop P R said dev timeout isExist = do {
     (svc, isExist', errCode) \<leftarrow> attempt P R said dev isExist;
     if errCode = DENIED P then ret None
     else case svc of
       Some x \<Rightarrow> ret (Some x)
     | None \<Rightarrow> do {
         onlyif (timeout > 0) (usleep 200000);
         case timeout of 0 \<Rightarrow> ret None | Suc n \<Rightarrow> wrapper_loop P R said dev n isExist' } }"
proof -
  have us: "SLEEP_ONE_MILLI_SECOND_TIME * SLEEP_INTERVAL_TIME = 200000"
    by (simp add: SLEEP_ONE_MILLI_SECOND_TIME_def SLEEP_INTERVAL_TIME_def)
  show ?thesis unfolding attempt_def using wrapper_loop.simps [of P R said dev timeout isExist] unfolding us .
qed

lemma wrapper_loop_slept: "slept (exec (wrapper_loop P R said dev n b) s) \<le> slept s + 200000 * int n"
proof (induction n arbitrary: b s)
  case 0
  show ?case
    by (subst wrapper_loop_step) (simp add: run_simps split_beta split: option.split)
next
  case (Suc n)
  let ?a = "attempt P R said dev b"
  have "slept (exec (wrapper_loop P R said dev n (fst (snd (eval_st ?a s)))) (exec (usleep 200000) (exec ?a s))) \<le> slept s + 200000 + 200000 * int n"
    using Suc [of _ "exec (usleep 200000) (exec ?a s)"] by (simp add: usleep_def run_simps)
  then show ?case
    by (subst wrapper_loop_step) (simp add: run_simps split_beta algebra_simps split: option.split)
qed

text \<open>The states after each attempt and pause, as long as nothing is found.\<close>
fun attempts :: "'p ipc_ops \<Rightarrow> ('p, 'w) remote option \<Rightarrow> int \<Rightarrow> string \<Rightarrow> nat \<Rightarrow> bool \<Rightarrow> 'w client \<Rightarrow> (obj option \<times> int) list" where
  "attempts P R said dev timeout b s = (let a = attempt P R said dev b; (x, b', e) = eval_st a s
     in (x, e) # (if e = DENIED P \<or> x \<noteq> None then [] else case timeout of 0 \<Rightarrow> []
        | Suc n \<Rightarrow> attempts P R said dev n b' (exec (usleep 200000) (exec a s))))"

declare attempts.simps [simp del]

lemma attempts_length: "length (attempts P R said dev n b s) \<le> Suc n"
proof (induction n arbitrary: b s)
  case 0 show ?case by (subst attempts.simps) (simp add: Let_def split: prod.split)
next
  case (Suc n) then show ?case by (subst attempts.simps) (auto simp: Let_def split: prod.split)
qed

lemma wrapper_loop_result:
  "eval_st (wrapper_loop P R said dev n b) s =
     (let (x, e) = last (attempts P R said dev n b s) in if e = DENIED P then None else x)"
proof (induction n arbitrary: b s)
  case 0
  show ?case
    by (subst wrapper_loop_step, subst attempts.simps) (auto simp: run_simps Let_def split: prod.split option.split)
next
  case (Suc n)
  have "attempts P R said dev n b s \<noteq> []" for b s by (subst attempts.simps) (simp add: Let_def split: prod.split)
  then show ?case
    by (subst wrapper_loop_step, subst attempts.simps)
      (auto simp: run_simps Let_def Suc split: prod.split option.split)
qed

section \<open>The cache of the last query\<close>

lemma QueryResult_hit:
  assumes "CanUseCache q said ''default'' s"
  shows "eval_st (QueryResult P q R said code) s = lastQuerySaProxy s" "exec (QueryResult P q R said code) s = s"
  using assms by (simp_all add: QueryResult_def run_simps)

lemma QueryResult_miss:
  assumes "\<not> CanUseCache q said ''default'' s"
  shows "eval_st (QueryResult P q R said code) s = eval_st (cl_Recompute P R said code) s"
    "eval_st (QueryResult P q R said code) s = Some x \<Longrightarrow>
       lastQuerySaId (exec (QueryResult P q R said code) s) = said \<and> lastQuerySaProxy (exec (QueryResult P q R said code) s) = Some x
       \<and> sm_find cache_key (localPara (exec (QueryResult P q R said code) s)) = Some (waterLine q)"
  using assms by (auto simp: QueryResult_def run_simps split: option.splits)

lemma QueryResult_fills:
  assumes "eval_st (QueryResult P q R said code) s = Some x" and "waterLine q \<noteq> ''default''" and "\<not> isDead q x"
  shows "CanUseCache q said ''default'' (exec (QueryResult P q R said code) s)"
    "lastQuerySaProxy (exec (QueryResult P q R said code) s) = Some x"
proof -
  have "CanUseCache q said ''default'' (exec (QueryResult P q R said code) s) \<and>
      lastQuerySaProxy (exec (QueryResult P q R said code) s) = Some x"
  proof (cases "CanUseCache q said ''default'' s")
    case True
    then show ?thesis using assms(1) by (simp add: QueryResult_hit)
  next
    case False
    then show ?thesis using QueryResult_miss(2) [OF False assms(1)] assms(2,3) by (simp add: CanUseCache_def sm_count_def)
  qed
  then show "CanUseCache q said ''default'' (exec (QueryResult P q R said code) s)"
    "lastQuerySaProxy (exec (QueryResult P q R said code) s) = Some x" by simp_all
qed

section \<open>The blocking load\<close>

lemma wait_for_load_time: "list_all (\<lambda>(t, r). 0 \<le> t) rs \<Longrightarrow> 0 \<le> d \<Longrightarrow> 0 \<le> snd (wait_for_load d rs) \<and> snd (wait_for_load d rs) \<le> d"
  by (induction d rs rule: wait_for_load.induct) (auto split: option.split)

lemma wait_for_load_failures: "list_all (\<lambda>(t, r). reported_proxy r = None) rs \<Longrightarrow> wait_for_load d rs = (None, d)"
  by (induction d rs rule: wait_for_load.induct) auto

end
