(* ===== verification/Ipc_Samples.thy ===== *)
theory Ipc_Samples
  imports Service_Inv Samples Client_Lemmas
begin

text \<open>
  A concrete IPC library on which the properties of the IPC layer are exercised: a parcel is the list of its items and
  a request is handed to the stub at once. Nothing here models code.
\<close>

section \<open>Parcels as lists\<close>

definition sample_err :: "SamgrErrCode \<Rightarrow> int" where
  "sample_err e = (case e of ERR_OK \<Rightarrow> 0 | ERR_PERMISSION_DENIED \<Rightarrow> 13 | ERR_NULL_OBJECT \<Rightarrow> 7 | ERR_FLATTEN_OBJECT \<Rightarrow> 5
     | ERR_INVALID_VALUE \<Rightarrow> 22 | EXTERNAL n \<Rightarrow> n | _ \<Rightarrow> 1)"

definition take_item :: "(item \<Rightarrow> 'a option) \<Rightarrow> item list \<Rightarrow> 'a option \<times> item list" where
  "take_item f p = (case p of [] \<Rightarrow> (None, []) | i # q \<Rightarrow> (case f i of None \<Rightarrow> (None, p) | Some v \<Rightarrow> (Some v, q)))"

definition put_item :: "item \<Rightarrow> item list \<Rightarrow> bool \<times> item list" where
  "put_item i p = (True, p @ [i])"

definition list_ipc :: "item list ipc_ops" where
  "list_ipc = \<lparr> new_parcel = [],
     WriteInterfaceToken = \<lambda>t. put_item (Token t), WriteInt32 = \<lambda>i. put_item (Int32 i), WriteInt64 = \<lambda>i. put_item (Int64 i),
     WriteBool = \<lambda>b. put_item (Bool b), WriteString = \<lambda>t. put_item (String t), WriteString16 = \<lambda>t. put_item (String16 t),
     WriteRemoteObject = \<lambda>x p. (case x of None \<Rightarrow> (False, p) | Some ob \<Rightarrow> put_item (Object ob) p),
     WriteInt32Vector = \<lambda>l. put_item (Int32Vector l), WriteInt64Vector = \<lambda>l. put_item (Int64Vector l),
     WriteString16Vector = \<lambda>l. put_item (String16Vector l), WriteParcelable = \<lambda>d. put_item (ExtraData d),
     ReadInterfaceToken = \<lambda>p. (case p of Token t # q \<Rightarrow> (t, q) | _ \<Rightarrow> ([], p)),
     ReadInt32 = take_item (\<lambda>i. if is_Int32 i then Some (the_int32 i) else None),
     ReadInt64 = take_item (\<lambda>i. if is_Int64 i then Some (the_int64 i) else None),
     ReadBool = take_item (\<lambda>i. if is_Bool i then Some (the_bool i) else None),
     ReadString = take_item (\<lambda>i. if is_String i then Some (the_string i) else None),
     ReadString16 = take_item (\<lambda>i. if is_String16 i then Some (the_string16 i) else None),
     ReadRemoteObject = take_item (\<lambda>i. if is_Object i then Some (the_object i) else None),
     ReadInt32Vector = take_item (\<lambda>i. if is_Int32Vector i then Some (the_int32s i) else None),
     ReadInt64Vector = take_item (\<lambda>i. if is_Int64Vector i then Some (the_int64s i) else None),
     ReadString16Vector = take_item (\<lambda>i. if is_String16Vector i then Some (the_string16s i) else None),
     ReadParcelable = take_item (\<lambda>i. if is_ExtraData i then Some (the_extra i) else None),
     GetReadableBytes = length, err = sample_err \<rparr>"

lemma list_ipc_laws: "parcel_laws list_ipc id"
  by (auto simp: parcel_laws_def list_ipc_def writes_def reads_def put_item_def take_item_def sample_err_def
      split: SamgrErrCode.split)

section \<open>A transport that hands over at once\<close>

definition direct :: "'p ipc_ops \<Rightarrow> (nat \<Rightarrow> ('p, 'w, int) C) \<Rightarrow> ('p, 'w) remote" where
  "direct P handler code opt p = State (\<lambda>w. let s = \<lparr> data = p, reply = new_parcel P, world = w \<rparr>
     in ((eval_st (handler code) s, reply (exec (handler code) s)), world (exec (handler code) s)))"

lemma direct_transports: "transports P (direct P handler) handler"
  by (simp add: transports_def direct_def Let_def run_simps)

section \<open>A caller and a service\<close>

definition sample_caller :: caller where
  "sample_caller = \<lparr> c_env = sample_env, c_tokenType = TOKEN_NATIVE, c_granted = (\<lambda>_. True), c_selinux = False,
     c_getServiceCheck = (\<lambda>_. 0), c_addServiceCheck = (\<lambda>_. 0), c_getRemoteServiceCheck = (\<lambda>_. 0), c_addRemoteServiceCheck = (\<lambda>_. 0),
     c_listServiceCheck = 0, c_isPengLai = False, c_penglaiFunc = None, c_cast = (\<lambda>x. Some (Iface x (Some x))), c_tid = 77, c_multi = False \<rparr>"

lemma sample_caller_allowed:
  "CanRequest sample_caller" "CheckAddOrRemovePermission sample_caller a" "CheckGetSAPermission sample_caller a" "penglai_ok sample_caller a"
  by (simp_all add: sample_caller_def CanRequest_def CheckAddOrRemovePermission_def CheckGetSAPermission_def penglai_ok_def)

definition sample_service :: "samgr \<Rightarrow> samgr_service" where
  "sample_service i = \<lparr> isSupportSetPrior = True, priorEnable = False, highPrioTidSet = [], qos_calls = [],
     priorRefCnt = 0, priorHandler = FFRTHandler 5, impl = i \<rparr>"

definition no_default :: "nat \<Rightarrow> ('p, 's, int) C" where "no_default code = ret 305"

definition sample_stub :: "nat \<Rightarrow> (item list, samgr_service, int) C" where
  "sample_stub = OnRemoteRequest list_ipc no_default sample_caller (samgr_methods list_ipc sample_env True 77 idle_methods)"

definition sample_client :: "'w \<Rightarrow> 'w client" where
  "sample_client w = \<lparr> localSAMap = [], onDemandSystemAbilityIdsSet = [], localPara = [], lastQuerySaId = -1, lastQuerySaProxy = None,
     cache_events = [], slept = 0, service = w \<rparr>"

lemma sample_transports:
  "transports list_ipc (direct list_ipc sample_stub) (OnRemoteRequest list_ipc no_default sample_caller (samgr_methods list_ipc sample_env True 77 idle_methods))"
  unfolding sample_stub_def by (rule direct_transports)

lemma sample_service_prior: "prior_inv (sample_service i)"
  by (simp add: prior_inv_def sample_service_def is_int32_def boosted_def FFRTHandler_def ffrt_ok_def handles_def sm_get_def)

end
