(* ===== verification/Ipc_Props.thy ===== *)
theory Ipc_Props
  imports Ipc_Samples Manager_Props
begin

text \<open>
  The properties of the IPC layer: calls through proxy, parcel and stub have the effect of the operation they name,
  refused requests have none, no request leads outside the reachable states, and the client library's loops and
  waits are bounded.
\<close>

section \<open>Calls end to end\<close>

lemma remote_add_run:
  assumes laws: "parcel_laws P view" and R: "transports P R (OnRemoteRequest P dflt c (samgr_methods P e acc tid rest))"
    and "CanRequest c" "CheckAddOrRemovePermission c a" and "ep_isDistributed prop \<longrightarrow> CheckAddRemoteSAPermission c a"
    and f: "0 \<le> ep_dumpFlags prop" "ep_dumpFlags prop < 2 ^ 31" and can: "can_add a (Some x) (ep_isDistributed prop) (mgr (impl (service s)))"
  shows "eval_st (cl_AddSystemAbility P (Some R) a (Some x) prop) s = OK P"
    "impl (service (exec (cl_AddSystemAbility P (Some R) a (Some x) prop) s)) =
       exec (AddSystemAbility e a (Some x) (ep_isDistributed prop)) (impl (service s))"
    "eval_st (GetAbility a) (exec (cl_AddSystemAbility P (Some R) a (Some x) prop) s) = Some x"
proof -
  have id: "CheckInputSysAbilityId a" using can by (simp add: can_add_def CheckInputSysAbilityId_def)
  note run = add_request_run [OF laws R id assms(3-5) f, of x "service s"]
  have m: "m_AddSystemAbility (samgr_methods P e acc tid rest) a x prop = with_code P (AddSystemAbility e a (Some x) (ep_isDistributed prop))"
    by (simp add: samgr_methods_def)
  show "eval_st (cl_AddSystemAbility P (Some R) a (Some x) prop) s = OK P"
    "impl (service (exec (cl_AddSystemAbility P (Some R) a (Some x) prop) s)) =
       exec (AddSystemAbility e a (Some x) (ep_isDistributed prop)) (impl (service s))"
    "eval_st (GetAbility a) (exec (cl_AddSystemAbility P (Some R) a (Some x) prop) s) = Some x"
    using run id can
    by (simp_all add: cl_AddSystemAbility_def run_simps m with_code_def AddSystemAbility_result(1) AddAbility_def GetAbility_def)
qed

lemma remote_check_run:
  assumes "parcel_laws P view" and "transports P R (OnRemoteRequest P dflt c (samgr_methods P e acc tid rest))"
    and "CheckInputSysAbilityId a" "penglai_ok c a" "CheckGetSAPermission c a"
  shows "eval_st (cl_CheckSystemAbilityTransaction P (Some R) a) w = running_obj a (mgr (impl w))"
  using check_transaction_run [OF assms] assms(3) by (simp add: samgr_methods_def run_simps CheckSystemAbility_result)

text \<open>
  C4. Registration and lookup between two processes: when a native process that may register the ability registers an
  object over IPC and the manager can take it, the call returns success, the registering process finds the object in
  its own table, and a lookup over IPC from any other permitted process returns that object.
\<close>
theorem remote_registration_found:
  assumes "parcel_laws P view"
    and "transports P Ra (OnRemoteRequest P dflt ca (samgr_methods P ea acc tid rest))" and "CanRequest ca" "CheckAddOrRemovePermission ca a"
    and "ep_isDistributed prop \<longrightarrow> CheckAddRemoteSAPermission ca a" and "0 \<le> ep_dumpFlags prop" "ep_dumpFlags prop < 2 ^ 31"
    and "can_add a (Some x) (ep_isDistributed prop) (mgr (impl (service s)))"
    and "transports P Rb (OnRemoteRequest P dflt cb (samgr_methods P eb acc tid rest))" and "penglai_ok cb a" "CheckGetSAPermission cb a"
  defines "s' \<equiv> exec (cl_AddSystemAbility P (Some Ra) a (Some x) prop) s"
  shows "eval_st (cl_AddSystemAbility P (Some Ra) a (Some x) prop) s = OK P \<and> eval_st (GetAbility a) s' = Some x
    \<and> eval_st (cl_CheckSystemAbilityTransaction P (Some Rb) a) (service s') = Some x"
proof -
  note add = remote_add_run [OF assms(1-8)]
  have "CheckInputSysAbilityId a" using assms(8) by (simp add: can_add_def CheckInputSysAbilityId_def)
  then show ?thesis
    using add remote_check_run [OF assms(1,9) _ assms(10,11), of "service s'"] assms(8)
    by (simp add: s'_def AddSystemAbility_result(2) running_obj_def)
qed

definition sample_prop :: SAExtraProp where
  "sample_prop = \<lparr> ep_isDistributed = False, ep_dumpFlags = 1, ep_capability = [], ep_permission = [] \<rparr>"

theorem remote_registration_found_witness:
  "eval_st (cl_CheckSystemAbilityTransaction list_ipc (Some (direct list_ipc sample_stub)) 402)
     (service (exec (cl_AddSystemAbility list_ipc (Some (direct list_ipc sample_stub)) 402 (Some 12) sample_prop)
       (sample_client (sample_service loaded)))) = Some 12"
proof -
  have "can_add 402 (Some 12) False (mgr loaded)" by code_simp
  then show ?thesis
    using remote_registration_found [OF list_ipc_laws sample_transports sample_caller_allowed(1,2) _ _ _ _ sample_transports sample_caller_allowed(4,3),
        of sample_prop 402 12 "sample_client (sample_service loaded)"]
    by (simp add: sample_prop_def sample_client_def sample_service_def)
qed

text \<open>
  The list of running processes that a native client gets over IPC is the list that the scheduler keeps, element
  by element, and the service's state is not changed beyond the priority of the serving thread.
\<close>
theorem remote_running_processes:
  assumes "parcel_laws P view" and "transports P R (OnRemoteRequest P dflt c (samgr_methods P e acc tid rest))" and "CanRequest c"
    and "abilityStateScheduler (mgr (impl w))" and "int (length (runningProcessList (sch (impl w)))) < 2 ^ 31"
  shows "eval_st (cl_GetRunningSystemProcess P (Some R) out) w = (OK P, runningProcessList (sch (impl w)))
    \<and> exec (cl_GetRunningSystemProcess P (Some R) out) w = prior_set c w"
proof -
  have g: "m_GetRunningSystemProcess (samgr_methods P e acc tid rest) = with_code_of P mgr_GetRunningSystemProcess" by (simp add: samgr_methods_def)
  have "eval_st (with_code_of P mgr_GetRunningSystemProcess) (prior_set c w) = (OK P, runningProcessList (sch (impl w)))"
    "exec (with_code_of P mgr_GetRunningSystemProcess) (prior_set c w) = prior_set c w"
    using assms(4) by (simp_all add: with_code_of_def run_simps mgr_GetRunningSystemProcess_def sch_GetRunningSystemProcess_def getM_def getS_def)
  with running_process_run [OF assms(1-3), of w "OK P" "runningProcessList (sch (impl w))" out] assms(5) show ?thesis
    unfolding g by simp
qed

theorem remote_running_processes_witness:
  "eval_st (cl_GetRunningSystemProcess list_ipc (Some (direct list_ipc sample_stub)) []) (sample_service loaded)
     = (OK list_ipc, runningProcessList (sch loaded)) \<and> runningProcessList (sch loaded) \<noteq> []"
proof -
  have "abilityStateScheduler (mgr loaded)" "runningProcessList (sch loaded) \<noteq> []" "length (runningProcessList (sch loaded)) < 10" by code_simp+
  then show ?thesis
    using remote_running_processes [OF list_ipc_laws sample_transports sample_caller_allowed(1), of "sample_service loaded" "[]"]
    by (auto simp: sample_service_def)
qed

section \<open>On-demand policies\<close>

text \<open>
  C34. A policy survives marshalling: what a client that may send requests writes for a list of on-demand events, conditions included, the
  stub reads back as the same list, and the service's method is called with exactly that list; its result is what the
  client gets.
\<close>
theorem remote_policy_update:
  assumes "parcel_laws P view" and "transports P R (OnRemoteRequest P dflt c m)" and "CanRequest c" and "policy_fits evs"
  shows "eval_st (cl_UpdateOnDemandPolicy P (Some R) a ty evs) w = eval_st (m_UpdateOnDemandPolicy m a ty evs) (prior_set c w)
    \<and> exec (cl_UpdateOnDemandPolicy P (Some R) a ty evs) w = exec (m_UpdateOnDemandPolicy m a ty evs) (prior_set c w)"
  by (rule update_policy_run [OF assms])

definition sample_events :: "SystemAbilityOnDemandEvent list" where
  "sample_events = [\<lparr> ode_eventId = 3, ode_name = ''usb'', ode_value = ''on'', ode_persistence = False,
     ode_conditions = [\<lparr> odc_eventId = 1, odc_name = ''wifi'', odc_value = ''up'' \<rparr>], ode_enableOnce = True \<rparr>]"

text \<open>A service that counts the conditions of the policy it is given.\<close>
definition counting :: "(item list, stub_state) sam_methods" where
  "counting = idle_methods \<lparr> m_UpdateOnDemandPolicy := \<lambda>_ _ evs. ret (int (length (concat (map ode_conditions evs)))) \<rparr>"

theorem remote_policy_update_witness:
  "eval_st (cl_UpdateOnDemandPolicy list_ipc (Some (direct list_ipc (OnRemoteRequest list_ipc no_default sample_caller counting))) 401 1 sample_events)
     \<lparr> isSupportSetPrior = False, priorEnable = False, highPrioTidSet = [], qos_calls = [] \<rparr> = 1"
proof -
  have "policy_fits sample_events" by (simp add: policy_fits_def sample_events_def)
  from remote_policy_update [OF list_ipc_laws direct_transports sample_caller_allowed(1) this, of no_default counting 401 1] show ?thesis
    by (simp add: counting_def sample_events_def run_simps)
qed

text \<open>
  The reader of policies is safe on arbitrary parcels: it never returns more new events than the parcel had bytes
  left after the count, however large the count is that a caller wrote.
\<close>
theorem policy_reader_bounded:
  assumes "reads_int32 P"
  shows "length (snd (eval_st (ReadOnDemandEventsFromParcel P evs) p)) \<le> length evs + GetReadableBytes P (snd (ReadInt32 P p))"
  by (rule policy_bounded [OF assms])

definition list_ipc32 :: "item list ipc_ops" where
  "list_ipc32 = list_ipc \<lparr> ReadInt32 := take_item (\<lambda>i. if is_Int32 i \<and> is_int32 (the_int32 i) then Some (the_int32 i) else None) \<rparr>"

theorem policy_reader_bounded_witness:
  "snd (eval_st (ReadOnDemandEventsFromParcel list_ipc32 []) [Int32 2147483647]) = []"
proof -
  have "reads_int32 list_ipc32" by (auto simp: reads_int32_def list_ipc32_def take_item_def split: list.split)
  from policy_reader_bounded [OF this, of "[]" "[Int32 2147483647]"] show ?thesis
    by (simp add: list_ipc32_def list_ipc_def take_item_def is_int32_def)
qed

section \<open>Refused requests\<close>

text \<open>
  C6. Requests that must be refused are: a request with a wrong interface token, a request of the native interface from
  a caller that is not a native process, and a reserved request from another process than the one it is reserved
  for. Each returns \<^verbatim>\<open>ERR_PERMISSION_DENIED\<close>, writes nothing to the reply and calls no method of the service; at most the
  priority of the serving thread changes.
\<close>
theorem refused_requests_have_no_effect:
  assumes "fst (ReadInterfaceToken P (data s)) \<noteq> SAMANAGER_INTERFACE_TOKEN
    \<or> \<not> CanRequest c \<and> (\<exists>h. (ic, h) \<in> set (native_only P c m) \<and> code = code_of ic)
    \<or> (\<exists>proc h. (ic, proc, h) \<in> set (reserved P c m) \<and> \<not> CheckCallerProcessName (c_env c) proc \<and> code = code_of ic)"
  shows "eval_st (OnRemoteRequest P dflt c m code) s = DENIED P \<and> reply (exec (OnRemoteRequest P dflt c m code) s) = reply s
    \<and> world (exec (OnRemoteRequest P dflt c m code) s) \<in> {world s, prior_set c (world s)}"
  using assms
proof (elim disjE conjE exE)
  fix h assume "\<not> CanRequest c" "(ic, h) \<in> set (native_only P c m)" "code = code_of ic"
  then have "(code, h) \<in> set (memberFuncMap P c m)" "refuses P h"
    using native_only_in_table [of P c m] native_only_refuses [of c P m] by (auto simp: list_all_iff)
  from refused_request [OF this] show ?thesis by auto
next
  fix proc h assume "(ic, proc, h) \<in> set (reserved P c m)" "\<not> CheckCallerProcessName (c_env c) proc" "code = code_of ic"
  then have "(code, h) \<in> set (memberFuncMap P c m)" "refuses P h"
    using reserved_in_table [of P c m] reserved_refuses [of c P m] by (auto simp: list_all_iff)
  from refused_request [OF this] show ?thesis by auto
next
  assume "fst (ReadInterfaceToken P (data s)) \<noteq> SAMANAGER_INTERFACE_TOKEN"
  from wrong_token_refused [OF this] show ?thesis by auto
qed

theorem refused_requests_have_no_effect_witness:
  "eval_st (OnRemoteRequest list_ipc no_default (sample_caller \<lparr> c_tokenType := OTHER_TOKEN 0 \<rparr>) idle_methods (code_of ADD_SYSTEM_ABILITY))
     \<lparr> data = [TOKEN], reply = [], world = sample_service loaded \<rparr> = 13"
proof -
  let ?c = "sample_caller \<lparr> c_tokenType := OTHER_TOKEN 0 \<rparr>"
  have "\<exists>h. (ADD_SYSTEM_ABILITY, h) \<in> set (native_only list_ipc ?c idle_methods)" by (simp add: native_only_def)
  moreover have "\<not> CanRequest ?c" by (simp add: CanRequest_def)
  ultimately have "eval_st (OnRemoteRequest list_ipc no_default ?c idle_methods (code_of ADD_SYSTEM_ABILITY))
      \<lparr> data = [TOKEN], reply = [], world = sample_service loaded \<rparr> = DENIED list_ipc"
    by (intro refused_requests_have_no_effect [THEN conjunct1]) blast
  then show ?thesis by (simp add: list_ipc_def sample_err_def)
qed

section \<open>The service under arbitrary requests\<close>



text \<open>
  The check of \<^verbatim>\<open>priorEnable_\<close> and the raising of the thread are not one atomic step: when the last disabling request
  runs between them, the thread stays raised although raising is disabled, and neither a further disabling request nor
  requests on that thread lower it again.
\<close>
theorem ipc_priority_race:
  fixes acc :: bool
  assumes "isSupportSetPrior w" and "priorEnable w" and "priorRefCnt w = 1" and "t \<noteq> tid"
  defines "w' \<equiv> exec (SetIpcPrior_boost t) (exec (SetSamgrIpcPrior acc tid False) w)"
  shows "eval_st SetIpcPrior_check w \<and> \<not> priorEnable w' \<and> t \<in> boosted (qos_calls w')
    \<and> t \<in> boosted (qos_calls (exec (SetSamgrIpcPrior acc tid False) w')) \<and> t \<in> boosted (qos_calls (exec (SetIpcPrior t) w'))"
  using assms to_int32_id [of 0]
  by (simp add: SetSamgrIpcPrior_def SetIpcPrior_boost_def SetIpcPrior_check_def SetIpcPrior_def ResetIpcPrior_def run_simps boosted_append is_int32_def)

theorem ipc_priority_race_witness:
  "78 \<in> boosted (qos_calls (exec (SetIpcPrior_boost 78) (exec (SetSamgrIpcPrior True 77 False)
     (exec (SetSamgrIpcPrior True 77 True) (sample_service loaded)))))"
proof -
  let ?w = "exec (SetSamgrIpcPrior True 77 True) (sample_service loaded)"
  have "isSupportSetPrior ?w" "priorEnable ?w" "priorRefCnt ?w = 1"
    by (simp_all add: SetSamgrIpcPrior_def FlushResetPriorTask_def run_simps sample_service_def to_int32_id is_int32_def)
  from ipc_priority_race [OF this, of 78 77 True] show ?thesis by simp
qed

section \<open>The client library\<close>

text \<open>
  C37. Getting an ability ends: the retry loop makes at most seven attempts and sleeps at most 1.2 seconds in all. It
  returns the object of the last attempt, nothing when that attempt was refused, and nothing for an identifier out of
  range.
\<close>
theorem get_system_ability_bounded:
  "length (attempts P R a dev RETRY_TIME_OUT_NUMBER False s) \<le> 7
   \<and> slept (exec (cl_GetSystemAbilityWrapper P R a dev) s) \<le> slept s + 1200000
   \<and> eval_st (cl_GetSystemAbilityWrapper P R a dev) s = (if \<not> CheckInputSysAbilityId a then None
       else let (x, e) = last (attempts P R a dev RETRY_TIME_OUT_NUMBER False s) in if e = DENIED P then None else x)"
  using attempts_length [of P R a dev 6 False s] wrapper_loop_slept [of P R a dev 6 False s]
  by (simp add: cl_GetSystemAbilityWrapper_def RETRY_TIME_OUT_NUMBER_def run_simps wrapper_loop_result)

text \<open>
  The cache of the last query: once a query has found an object, queries for the same ability return that object
  without a request and without a change of state exactly as long as the cache parameter has the same value and
  the object lives; otherwise the manager is asked again.
\<close>
theorem cached_query:
  assumes "eval_st (QueryResult P q R a code) s = Some x" and "waterLine q \<noteq> ''default''" and "\<not> isDead q x"
  defines "s' \<equiv> exec (QueryResult P q R a code) s"
  shows "if waterLine q' = waterLine q \<and> \<not> isDead q' x
    then eval_st (QueryResult P q' R' a code') s' = Some x \<and> exec (QueryResult P q' R' a code') s' = s'
    else eval_st (QueryResult P q' R' a code') s' = eval_st (cl_Recompute P R' a code') s'"
proof -
  note fills = QueryResult_fills [OF assms(1-3), folded s'_def]
  then have "CanUseCache q' a ''default'' s' \<longleftrightarrow> waterLine q' = waterLine q \<and> \<not> isDead q' x"
    using assms(2) by (auto simp: CanUseCache_def)
  then show ?thesis
    using fills(2) QueryResult_hit [of q' a s' P R' code'] QueryResult_miss(1) [of q' a s' P R' code'] by simp
qed

theorem cached_query_witness:
  "exec (QueryResult list_ipc \<lparr> waterLine = ''1'', isDead = (\<lambda>_. False) \<rparr> None 401 2)
     (sample_client () \<lparr> localPara := [(cache_key, ''1'')], lastQuerySaId := 401, lastQuerySaProxy := Some 11 \<rparr>)
   = sample_client () \<lparr> localPara := [(cache_key, ''1'')], lastQuerySaId := 401, lastQuerySaProxy := Some 11 \<rparr>"
proof -
  let ?q = "\<lparr> waterLine = ''1'', isDead = (\<lambda>_. False) \<rparr>"
  let ?s = "sample_client () \<lparr> localPara := [(cache_key, ''1'')], lastQuerySaId := 401, lastQuerySaProxy := Some 11 \<rparr>"
  have c: "CanUseCache ?q 401 ''default'' ?s" by (simp add: CanUseCache_def sample_client_def sm_count_def sm_find_def)
  have "eval_st (QueryResult list_ipc ?q None 401 2) ?s = Some 11" "exec (QueryResult list_ipc ?q None 401 2) ?s = ?s"
    using QueryResult_hit [OF c, of list_ipc None 2] by simp_all
  with cached_query [of list_ipc ?q None 401 2 ?s 11 ?q None 2] show ?thesis by simp
qed

text \<open>
  The blocking load returns within the bound of its timeout, at most twelve seconds; when the request is refused it
  returns at once. A report that the load failed does not end the wait: if only failures are reported the caller
  waits for the whole timeout.
\<close>
theorem blocking_load_bounded:
  assumes "list_all (\<lambda>(t, r). 0 \<le> t) reports"
  shows "let r = eval_st (cl_LoadSystemAbility P R a (Some cb)) w; v = eval_st (cl_LoadSystemAbilityTimeout P extended cb reports R a timeout) w
    in 0 \<le> snd v \<and> snd v \<le> 12000 \<and> (r \<noteq> OK P \<longrightarrow> v = (None, 0))
     \<and> (r = OK P \<and> list_all (\<lambda>(t, r). reported_proxy r = None) reports \<longrightarrow> v = (None, 1000 * clamp_timeout extended timeout))"
proof -
  have "0 \<le> 1000 * clamp_timeout extended timeout" "1000 * clamp_timeout extended timeout \<le> 12000"
    by (simp_all add: clamp_timeout_def MAX_TIMEOUT_def MIN_TIMEOUT_def)
  then show ?thesis
    using wait_for_load_time [OF assms, of "1000 * clamp_timeout extended timeout"] wait_for_load_failures [of reports]
    by (auto simp: Let_def cl_LoadSystemAbilityTimeout_def run_simps)
qed

theorem blocking_load_bounded_witness:
  "eval_st (cl_LoadSystemAbilityTimeout list_ipc False (Iface 3 (Some 30)) [(100, LoadFail)]
     (Some (direct list_ipc (OnRemoteRequest list_ipc no_default sample_caller idle_methods))) 401 10)
     \<lparr> isSupportSetPrior = False, priorEnable = False, highPrioTidSet = [], qos_calls = [] \<rparr> = (None, 4000)"
proof -
  let ?w = "\<lparr> isSupportSetPrior = False, priorEnable = False, highPrioTidSet = [], qos_calls = [] \<rparr>"
  have id: "CheckInputSysAbilityId 401" by (simp add: CheckInputSysAbilityId_def)
  have "LoadSACheck list_ipc sample_caller 401 = OK list_ipc" using id by (simp add: LoadSACheck_def sample_caller_allowed)
  from load_request_run [OF list_ipc_laws direct_transports this id, of "Iface 3 (Some 30)" 30 "Iface 30 (Some 30)" no_default idle_methods ?w]
  have "eval_st (cl_LoadSystemAbility list_ipc (Some (direct list_ipc (OnRemoteRequest list_ipc no_default sample_caller idle_methods))) 401
      (Some (Iface 3 (Some 30)))) ?w = OK list_ipc"
    by (simp add: sample_caller_def idle_methods_def run_simps) (simp add: list_ipc_def sample_err_def)
  with blocking_load_bounded [of "[(100, LoadFail)]" list_ipc _ 401 "Iface 3 (Some 30)" ?w False 10] show ?thesis
    by (simp add: Let_def reported_proxy_def clamp_timeout_def MAX_TIMEOUT_def MIN_TIMEOUT_def)
qed

section \<open>Load reports\<close>

text \<open>A one-way transport that works hands the request to the handler of the other side.\<close>
definition delivers :: "'p ipc_ops \<Rightarrow> ('p, 'w) remote \<Rightarrow> (nat \<Rightarrow> ('p, 'w, int) C) \<Rightarrow> bool" where
  "delivers P R handler \<longleftrightarrow> (\<forall>code p w. exec (R code TF_ASYNC p) w = world (exec (handler code) \<lparr> data = p, reply = new_parcel P, world = w \<rparr>))"

lemma direct_delivers: "delivers P (direct P handler) handler"
  by (simp add: delivers_def direct_def Let_def run_simps)

text \<open>
  Reports of a load reach the callback of the client unchanged: a success with its object and a failure with its code
  call the corresponding method once with these values. A success without an object and reports for an identifier
  that is not positive call nothing.
\<close>
theorem load_reports_delivered:
  assumes "parcel_laws P view" and "delivers P R (st_load_OnRemoteRequest P dflt m)" and "a \<le> 0x00ffffff"
  shows "exec (px_OnLoadSystemAbilitySuccess P (Some R) a ob) w =
      (if a > 0 \<and> ob \<noteq> None then exec (cb_OnLoadSystemAbilitySuccess m a ob) w else w)
    \<and> exec (px_OnLoadSystemAbilityFailCode P (Some R) a code) w = (if a > 0 then exec (cb_OnLoadSystemAbilityFailCode m a code) w else w)"
  using assms(2,3)
  by (auto simp: px_OnLoadSystemAbilitySuccess_def px_OnLoadSystemAbilityFailCode_def notify_def send_async_def run_simps delivers_def
      write_rules [OF assms(1)] st_load_OnRemoteRequest_def enforce_descriptor_def st_OnLoadSystemAbilitySuccessInner_def
      st_OnLoadSystemAbilityFailWithCodeInner_def read_rules [OF assms(1)] CheckInputSystemAbilityId_def
      ON_LOAD_SYSTEM_ABILITY_SUCCESS_def ON_LOAD_SYSTEM_ABILITY_FAIL_def ON_LOAD_SYSTEM_ABILITY_COMPLETE_FOR_REMOTE_def
      ON_LOAD_SYSTEM_ABILITY_FAIL_WITH_CODE_def)

text \<open>A callback that keeps the reports it gets.\<close>
definition recording :: "(int \<times> load_report) list load_callback" where
  "recording = \<lparr> cb_OnLoadSystemAbilitySuccess = \<lambda>a ob. modify (\<lambda>l. l @ [(a, LoadSuccess ob)]), cb_OnLoadSystemAbilityFail = \<lambda>a. modify (\<lambda>l. l @ [(a, LoadFail)]),
     cb_OnLoadSystemAbilityFailCode = \<lambda>a _. modify (\<lambda>l. l @ [(a, LoadFail)]), cb_OnLoadSACompleteForRemote = \<lambda>_ a ob. modify (\<lambda>l. l @ [(a, LoadSuccess ob)]) \<rparr>"

theorem load_reports_delivered_witness:
  "exec (px_OnLoadSystemAbilitySuccess list_ipc (Some (direct list_ipc (st_load_OnRemoteRequest list_ipc no_default recording))) 401 (Some 11)) []
     = [(401, LoadSuccess (Some 11))]"
  using load_reports_delivered [OF list_ipc_laws direct_delivers, of 401 no_default recording "Some 11" "[]"]
  by (simp add: recording_def run_simps)

end
