(* ===== verification/Collect_State.thy ===== *)
theory Collect_State
  imports System Parcel
begin

text \<open>
  State of the collect manager (\<^verbatim>\<open>collect/device_status_collect_manager.cpp\<close>) and of its plugins, and what the plugins call
  of it: reporting an event and posting a task (\<^verbatim>\<open>collect/icollect_plugin.cpp\<close>). The collect manager holds the manager
  whose abilities it starts and stops, the field \<open>host\<close>; a call of the manager runs the manager's own operation.

  The build has preferences, the device manager, common events and switches enabled. A \<^verbatim>\<open>std::set\<close> is an ordered
  map to \<open>unit\<close>; a closure that is posted or stored is a value of \<open>collect_task\<close>.
\<close>

section \<open>Plugins\<close>

type_synonym 'k oset = "('k, unit) smap"

text \<open>Closures on the queue of the collect manager; the flag of a timed or loop task is its persistence.\<close>
datatype collect_task =
    StartCollectTask
  | ReportTask OnDemandEvent
  | LoopTask bool int
  | TimedTask bool string
  | WatchParametersTask
  | SubscribeSwitchTask
  | UnrefTask "SaControlInfo list"

text \<open>Closures on the queues of the plugins for common events and for networking: \<^verbatim>\<open>ProcessEvent(eventId, extraDataId)\<close>.\<close>
datatype plugin_task = ProcessEventTask int int

record TimeInfo =
  ti_normal :: bool
  ti_awake :: bool

record timed_collect =
  nonPersitenceLoopEventSet :: "int oset"
  persitenceLoopEventSet :: "int oset"
  nonPersitenceLoopTasks :: "(int, collect_task option) smap" \<comment> \<open>\<open>None\<close> is an empty \<^verbatim>\<open>std::function\<close>\<close>
  persitenceLoopTasks :: "(int, collect_task option) smap"
  timeInfos :: "(int, TimeInfo) smap"

record param_collect =
  pendingParams :: "string oset"
  params :: "string oset"
  lowMemPrepareList :: "int list"

record switch_collect =
  needListenSwitchEvent :: bool
  switchEventSubscriber :: bool \<comment> \<open>not null\<close>
  isListenSwitchEvent :: bool

record refcount_collect =
  unrefUnloadSaList :: "int list"
  ref_timer :: bool \<comment> \<open>the periodic timer is registered\<close>

record networking_collect =
  net_workHandler :: "plugin_task ffrt_handler option"
  initCallback :: bool
  stateCallback :: "string oset option" \<comment> \<open>\<^verbatim>\<open>deviceOnlineSet_\<close> of the callback, \<open>None\<close> when it is null\<close>

record common_collect =
  commonEventNames :: "string oset"
  ce_workHandler :: "plugin_task ffrt_handler option"
  unsubHandler :: "plugin_task ffrt_handler option"
  commonEventSubscriber :: "string oset option" \<comment> \<open>the events of its subscribe info\<close>
  commonEventWhitelist :: "string oset"
  commonEventConditionExtraData :: "(string, (string, string) smap) smap"
  commonEventConditionValue :: "(string, string) smap"
  lastExtraDataId :: int \<comment> \<open>\<^verbatim>\<open>extraDataId_\<close>\<close>
  extraDatas :: "(int, OnDemandReasonExtraData) smap"
  saExtraDataIdMap :: "(int, int list) smap"
  isTriggerTaskStart :: bool
  reclaimThreads :: nat \<comment> \<open>detached threads of \<^verbatim>\<open>SendKernalReclaimIpcThread\<close> that have not ended\<close>
  isCancel :: bool
  keepRunning :: bool
  reclaims :: nat \<comment> \<open>calls of \<^verbatim>\<open>TriggerSystemIPCThreadReclaim\<close>\<close>

section \<open>The collect manager\<close>

record CollMgrSaProfile =
  cm_saId :: int
  startOnDemandEvents :: "OnDemandEvent list"
  stopOnDemandEvents :: "OnDemandEvent list"
  cm_cacheCommonEvent :: bool

datatype pref_value = PrefLong int | PrefString string

record collector =
  collectPluginMap :: "int oset" \<comment> \<open>the plugins that are present; none is null\<close>
  collectHandler :: "collect_task ffrt_handler option"
  wakeTasks :: "(int \<times> collect_task) list" \<comment> \<open>delay in seconds and task, posted to \<^verbatim>\<open>SamgrTimeHandler\<close>\<close>
  onDemandSaProfiles :: "CollMgrSaProfile list"
  prefs :: "(string, pref_value) smap" \<comment> \<open>the preferences file\<close>
  timed :: timed_collect
  param :: param_collect
  switches :: switch_collect
  refCount :: refcount_collect
  networking :: networking_collect
  common :: common_collect
  coll_faulted :: bool
  host :: samgr

text \<open>The answers of the platform during a step.\<close>
record collect_env =
  ce_env :: env \<comment> \<open>for the operations of the manager\<close>
  ce_accept :: bool \<comment> \<open>the FFRT runtime takes a task\<close>
  ce_wake :: bool \<comment> \<open>\<^verbatim>\<open>SamgrTimeHandler::PostTask\<close> succeeds\<close>
  ce_now :: int \<comment> \<open>\<^verbatim>\<open>TimeUtils::GetTimestamp\<close> and \<^verbatim>\<open>time\<close>\<close>
  ce_mktime :: "string \<Rightarrow> int" \<comment> \<open>\<^verbatim>\<open>strptime\<close> and \<^verbatim>\<open>mktime\<close>\<close>
  ce_strToInt :: "string \<Rightarrow> int option" \<comment> \<open>\<^verbatim>\<open>StrToInt\<close> of the C utilities\<close>
  ce_split :: "string \<Rightarrow> string list" \<comment> \<open>\<^verbatim>\<open>SplitStr(value, "+", ...)\<close> of the C utilities\<close>
  ce_param :: "string \<Rightarrow> string"
  ce_watch :: "string \<Rightarrow> int"
  ce_unwatch :: "string \<Rightarrow> int"
  ce_subscribe :: bool \<comment> \<open>the common event service accepts a subscription\<close>
  ce_unsubscribe :: bool
  ce_prefs :: bool \<comment> \<open>the preferences file can be opened\<close>
  ce_put :: bool \<comment> \<open>the preferences accept a change\<close>
  ce_flush :: bool \<comment> \<open>the change is written to the file\<close>
  ce_manager :: bool \<comment> \<open>\<^verbatim>\<open>manager_.lock() != nullptr\<close>\<close>
  ce_multi :: bool \<comment> \<open>\<^verbatim>\<open>SUPPORT_MULTI_INSTANCE\<close>\<close>
  ce_userId :: int \<comment> \<open>\<^verbatim>\<open>manager->GetUserId()\<close>\<close>
  ce_refCountOf :: "obj \<Rightarrow> nat"
  ce_isDead :: "obj \<Rightarrow> bool"
  ce_dmInit :: int
  ce_trusted :: "int \<times> string list" \<comment> \<open>\<^verbatim>\<open>GetTrustedDeviceList\<close>: result and network identifiers\<close>
  ce_dmRegister :: int
  ce_delayDbinder :: bool \<comment> \<open>\<^verbatim>\<open>SAMGR_ENABLE_DELAY_DBINDER\<close>\<close>
  ce_dbinder :: bool \<comment> \<open>\<^verbatim>\<open>DBinderService::GetInstance()\<close> is not null\<close>
  ce_listener :: iface \<comment> \<open>a listener object created in the step\<close>

type_synonym 'a K = "(collector, 'a) state"

definition on_host :: "'a M \<Rightarrow> 'a K" where
  "on_host m = State (\<lambda>s. (eval_st m (host s), s \<lparr> host := exec m (host s) \<rparr>))"

definition modT :: "(timed_collect \<Rightarrow> timed_collect) \<Rightarrow> unit K" where "modT f = modify (\<lambda>s. s \<lparr> timed := f (timed s) \<rparr>)"
definition modPar :: "(param_collect \<Rightarrow> param_collect) \<Rightarrow> unit K" where "modPar f = modify (\<lambda>s. s \<lparr> param := f (param s) \<rparr>)"
definition modSw :: "(switch_collect \<Rightarrow> switch_collect) \<Rightarrow> unit K" where "modSw f = modify (\<lambda>s. s \<lparr> switches := f (switches s) \<rparr>)"
definition modNet :: "(networking_collect \<Rightarrow> networking_collect) \<Rightarrow> unit K" where "modNet f = modify (\<lambda>s. s \<lparr> networking := f (networking s) \<rparr>)"
definition modC :: "(common_collect \<Rightarrow> common_collect) \<Rightarrow> unit K" where "modC f = modify (\<lambda>s. s \<lparr> common := f (common s) \<rparr>)"

section \<open>What a plugin calls\<close>

text \<open>A call through the pointer \<^verbatim>\<open>collectHandler_\<close>; a null pointer is a fault.\<close>
definition post_collect :: "(collect_task ffrt_handler \<Rightarrow> bool \<times> collect_task ffrt_handler) \<Rightarrow> unit K" where
  "post_collect f = modify (\<lambda>s. case collectHandler s of
       None \<Rightarrow> s \<lparr> coll_faulted := True \<rparr>
     | Some h \<Rightarrow> s \<lparr> collectHandler := Some (snd (f h)) \<rparr>)"

definition coll_ReportEvent :: "collect_env \<Rightarrow> OnDemandEvent \<Rightarrow> unit K" where
  "coll_ReportEvent e event = do {
     h \<leftarrow> gets collectHandler;
     if h = None then ret () else post_collect (PostTask (ce_accept e) (Some (ReportTask event))) }"

definition coll_PostTask :: "collect_env \<Rightarrow> collect_task \<Rightarrow> unit K" where
  "coll_PostTask e t = post_collect (PostTask (ce_accept e) (Some t))"

definition TO_MILLISECOND :: int where "TO_MILLISECOND = 1000"

text \<open>The delay in seconds is a 32-bit parameter.\<close>
definition coll_PostDelayTask :: "collect_env \<Rightarrow> collect_task option \<Rightarrow> int \<Rightarrow> unit K" where
  "coll_PostDelayTask e t secs = (let d = to_int32 secs in
     if d < 0 \<or> d > 2147483647 div TO_MILLISECOND then ret ()
     else post_collect (PostDelayTask (ce_accept e) t (d * TO_MILLISECOND)))"

text \<open>
  \<^verbatim>\<open>SamgrTimeHandler::PostTask\<close>: whether the alarm timer can be created and armed is an answer of the system; the
  delay is unsigned.
\<close>
definition time_PostTask :: "collect_env \<Rightarrow> collect_task option \<Rightarrow> int \<Rightarrow> bool K" where
  "time_PostTask e func secs = (case func of
       None \<Rightarrow> ret False
     | Some t \<Rightarrow> if \<not> ce_wake e then ret False
         else do { modify (\<lambda>s. s \<lparr> wakeTasks := wakeTasks s @ [(to_uint64 secs, t)] \<rparr>); ret True })"

text \<open>\<^verbatim>\<open>std::set\<close> operations.\<close>
abbreviation set_insert :: "'k::linorder \<Rightarrow> 'k oset \<Rightarrow> 'k oset" where "set_insert k \<equiv> sm_ins k ()"

text \<open>
  \<^verbatim>\<open>atoi\<close>: blanks, a sign, digits; everything after the first other character is ignored. A number that does not fit
  is undefined in C and reduced to 32 bits here.
\<close>
definition is_digit :: "char \<Rightarrow> bool" where "is_digit c \<longleftrightarrow> 48 \<le> (of_char c :: nat) \<and> of_char c \<le> (57::nat)"

definition is_blank :: "char \<Rightarrow> bool" where "is_blank c \<longleftrightarrow> of_char c = (32::nat) \<or> 9 \<le> (of_char c :: nat) \<and> of_char c \<le> (13::nat)"

definition atoi :: "string \<Rightarrow> int" where
  "atoi t = (let s = dropWhile is_blank t in to_int32 (case s of
       [] \<Rightarrow> 0
     | c # r \<Rightarrow> if c = CHR ''-'' then - int (read_nat (takeWhile is_digit r))
               else if c = CHR ''+'' then int (read_nat (takeWhile is_digit r))
               else int (read_nat (takeWhile is_digit s))))"

lemma is_digit_char: "d < 10 \<Longrightarrow> is_digit (digit_char d)" "d < 10 \<Longrightarrow> \<not> is_blank (digit_char d)"
  "d < 10 \<Longrightarrow> digit_char d \<noteq> CHR ''+''"
proof -
  assume d: "d < 10"
  then have c: "of_char (digit_char d) = d + 48" by (simp add: digit_char_def of_char_of)
  show "is_digit (digit_char d)" "\<not> is_blank (digit_char d)" using d by (simp_all add: is_digit_def is_blank_def c)
  show "digit_char d \<noteq> CHR ''+''"
  proof
    assume "digit_char d = CHR ''+''"
    then have "of_char (digit_char d) = (of_char (CHR ''+'') :: nat)" by simp
    with c show False by simp
  qed
qed

lemma show_nat_digits: "list_all is_digit (show_nat n)"
proof (induction n rule: show_nat.induct)
  case (1 n) then show ?case by (subst show_nat.simps) (auto simp: is_digit_char)
qed

lemma to_string_chars: "\<not> is_digit c \<Longrightarrow> c \<noteq> CHR ''-'' \<Longrightarrow> c \<notin> set (to_string i)"
  using show_nat_digits [of "nat i"] show_nat_digits [of "nat (- i)"] by (auto simp: to_string_def list_all_iff)

lemma takeWhile_digits: "rest = [] \<or> \<not> is_digit (hd rest) \<Longrightarrow> takeWhile is_digit (show_nat n @ rest) = show_nat n"
  using show_nat_digits [of n] by (cases rest) (auto simp: list_all_iff)

text \<open>\<^verbatim>\<open>atoi\<close> reads a printed number, whatever follows it, unless it is a digit.\<close>
lemma atoi_to_string:
  assumes "is_int32 i" and "rest = [] \<or> \<not> is_digit (hd rest)"
  shows "atoi (to_string i @ rest) = i"
proof (cases "i < 0")
  case True
  then show ?thesis
    using assms takeWhile_digits [OF assms(2), of "nat (- i)"]
    by (simp add: atoi_def to_string_def is_blank_def read_show_nat to_int32_id)
next
  case False
  obtain d cs where d: "d < 10" "show_nat (nat i) = digit_char d # cs" using show_nat_head by blast
  have "takeWhile is_digit (digit_char d # cs @ rest) = digit_char d # cs" "read_nat (digit_char d # cs) = nat i"
    using takeWhile_digits [OF assms(2), of "nat i"] read_show_nat [of "nat i"] by (simp_all only: d append_Cons)
  moreover have "to_string i @ rest = digit_char d # cs @ rest" using False d by (simp add: to_string_def)
  ultimately show ?thesis
    unfolding atoi_def Let_def
    using False assms(1) is_digit_char(2,3) [OF d(1)] digit_char_not_minus [OF d(1)] by (simp add: to_int32_id)
qed

lemma on_host_run [run_simps]:
  "eval_st (on_host m) s = eval_st m (host s)" "exec (on_host m) s = s \<lparr> host := exec m (host s) \<rparr>"
  by (simp_all add: on_host_def eval_st_def exec_def)

lemma mod_runs [run_simps]:
  "exec (modT f) s = s \<lparr> timed := f (timed s) \<rparr>" "exec (modPar g) s = s \<lparr> param := g (param s) \<rparr>"
  "exec (modSw i) s = s \<lparr> switches := i (switches s) \<rparr>" "exec (modNet j) s = s \<lparr> networking := j (networking s) \<rparr>"
  "exec (modC k) s = s \<lparr> common := k (common s) \<rparr>"
  by (simp_all add: modT_def modPar_def modSw_def modNet_def modC_def run_simps)

end
