(* ===== verification/Timed_Collect.thy ===== *)
theory Timed_Collect
  imports Collect_State
begin

text \<open>
  The plugin for timed events (\<^verbatim>\<open>collect/device_timed_collect.cpp\<close>) with the preferences it keeps across restarts
  (\<^verbatim>\<open>collect/device_timed_collect_tool.cpp\<close>). A loop event names an interval; the plugin keeps a set of intervals, posts one
  task per interval that reports the event and posts itself again, and remembers per interval whether a normal or an
  awake event asked for it. The persistent tasks save the time of their next run in the preferences, which
  \<open>ProcessPersistenceTasks\<close> reads after a restart. The second half shows what the intervals satisfy in every state and
  what a run of a loop task does.
\<close>

section \<open>Preferences\<close>

definition BASE_USER :: int where "BASE_USER = 0"

definition GetPathForUser :: "int \<Rightarrow> string" where
  "GetPathForUser user = (if user = BASE_USER then ''/data/samgr/samgr.xml'' else ''/data/samgr/samgr_'' @ to_string user @ ''.xml'')"

definition pref_Save :: "collect_env \<Rightarrow> string \<Rightarrow> pref_value \<Rightarrow> bool K" where
  "pref_Save e key v =
     (if \<not> ce_prefs e then ret False
      else if \<not> ce_put e then ret False
      else do { modify (\<lambda>s. s \<lparr> prefs := sm_ins key v (prefs s) \<rparr>); ret (ce_flush e) })"

definition SaveLong :: "collect_env \<Rightarrow> string \<Rightarrow> int \<Rightarrow> bool K" where "SaveLong e key v = pref_Save e key (PrefLong v)"

definition SaveString :: "collect_env \<Rightarrow> string \<Rightarrow> string \<Rightarrow> bool K" where "SaveString e key v = pref_Save e key (PrefString v)"

definition ObtainAll :: "collect_env \<Rightarrow> (string, pref_value) smap K" where
  "ObtainAll e = (if \<not> ce_prefs e then ret [] else gets prefs)"

text \<open>\<^verbatim>\<open>GetString\<close> of the preferences returns the default for an absent key and for a value of another type.\<close>
definition ObtainString :: "collect_env \<Rightarrow> string \<Rightarrow> string \<Rightarrow> string K" where
  "ObtainString e key defValue = (if \<not> ce_prefs e then ret defValue
     else gets (\<lambda>s. case sm_find key (prefs s) of Some (PrefString v) \<Rightarrow> v | _ \<Rightarrow> defValue))"

definition IsExist :: "collect_env \<Rightarrow> string \<Rightarrow> bool K" where
  "IsExist e key = (if \<not> ce_prefs e then ret False else gets (\<lambda>s. sm_count key (prefs s)))"

definition pref_Remove :: "collect_env \<Rightarrow> string \<Rightarrow> bool K" where
  "pref_Remove e key =
     (if \<not> ce_prefs e then ret False
      else if \<not> ce_put e then ret False
      else do { modify (\<lambda>s. s \<lparr> prefs := sm_erase key (prefs s) \<rparr>); ret (ce_flush e) })"

section \<open>Intervals\<close>

definition LOOP_EVENT :: string where "LOOP_EVENT = ''loopevent''"
definition AWAKE_LOOP_EVENT :: string where "AWAKE_LOOP_EVENT = ''awakeloopevent''"
definition ORDER_TIMED_EVENT :: string where "ORDER_TIMED_EVENT = ''timedevent''"
definition MIN_INTERVAL :: int where "MIN_INTERVAL = 30"
definition MIN_AWAKE_INTERVAL :: int where "MIN_AWAKE_INTERVAL = 3600"

definition IsMultiUser :: "collect_env \<Rightarrow> bool" where
  "IsMultiUser e \<longleftrightarrow> ce_multi e \<and> ce_manager e \<and> ce_userId e \<noteq> BASE_USER"

text \<open>The event that a task reports: \<^verbatim>\<open>{ TIMED_EVENT, name, value, -1, persistence }\<close>.\<close>
definition timed_event :: "string \<Rightarrow> string \<Rightarrow> bool \<Rightarrow> OnDemandEvent" where
  "timed_event n v p = (mk_event TIMED_EVENT n v) \<lparr> persistence := p \<rparr>"

definition SaveTimedInfos :: "OnDemandEvent \<Rightarrow> int \<Rightarrow> unit K" where
  "SaveTimedInfos onDemandEvent interval = modT (\<lambda>t. t \<lparr> timeInfos :=
     (let m = sm_touch \<lparr> ti_normal = False, ti_awake = False \<rparr> interval (timeInfos t);
          m = (if ev_name onDemandEvent = LOOP_EVENT then sm_upd interval (\<lambda>i. i \<lparr> ti_normal := True \<rparr>) m else m)
      in if ev_name onDemandEvent = AWAKE_LOOP_EVENT then sm_upd interval (\<lambda>i. i \<lparr> ti_awake := True \<rparr>) m else m) \<rparr>)"

definition SaveTimedEvent :: "OnDemandEvent \<Rightarrow> unit K" where
  "SaveTimedEvent onDemandEvent =
     (if eventId onDemandEvent = TIMED_EVENT \<and> (ev_name onDemandEvent = LOOP_EVENT \<or> ev_name onDemandEvent = AWAKE_LOOP_EVENT)
      then let interval = atoi (ev_value onDemandEvent) in
        if interval < MIN_INTERVAL then ret ()
        else if interval < MIN_AWAKE_INTERVAL \<and> ev_name onDemandEvent = AWAKE_LOOP_EVENT then ret ()
        else do {
          (if persistence onDemandEvent
           then modT (\<lambda>t. t \<lparr> persitenceLoopEventSet := set_insert interval (persitenceLoopEventSet t) \<rparr>)
           else modT (\<lambda>t. t \<lparr> nonPersitenceLoopEventSet := set_insert interval (nonPersitenceLoopEventSet t) \<rparr>));
          SaveTimedInfos onDemandEvent interval }
      else ret ())"

definition timed_Init :: "SaProfile list \<Rightarrow> unit K" where
  "timed_Init saProfiles = for_each saProfiles (\<lambda>saProfile. do {
     for_each (start_onDemandEvents (startOnDemand saProfile)) SaveTimedEvent;
     for_each (stop_onDemandEvents (stopOnDemand saProfile)) SaveTimedEvent })"

definition ReportEventByTimeInfo :: "collect_env \<Rightarrow> int \<Rightarrow> bool \<Rightarrow> unit K" where
  "ReportEventByTimeInfo e interval persist = do {
     infos \<leftarrow> gets (\<lambda>s. timeInfos (timed s));
     case sm_find interval infos of
       None \<Rightarrow> ret ()
     | Some i \<Rightarrow> do {
         onlyif (ti_normal i) (coll_ReportEvent e (timed_event LOOP_EVENT (to_string interval) persist));
         onlyif (ti_awake i) (coll_ReportEvent e (timed_event AWAKE_LOOP_EVENT (to_string interval) persist)) } }"

text \<open>An alarm timer for the base user, a delayed task of the collect queue otherwise or when no alarm can be set.\<close>
definition post_alarm :: "collect_env \<Rightarrow> collect_task option \<Rightarrow> int \<Rightarrow> unit K" where
  "post_alarm e callback secs =
     (if IsMultiUser e then coll_PostDelayTask e callback secs
      else do { ok \<leftarrow> time_PostTask e callback secs; onlyif (\<not> ok) (coll_PostDelayTask e callback secs) })"

definition PostDelayTaskByTimeInfo :: "collect_env \<Rightarrow> collect_task option \<Rightarrow> int \<Rightarrow> int \<Rightarrow> unit K" where
  "PostDelayTaskByTimeInfo e callback interval disTime = do {
     infos \<leftarrow> gets (\<lambda>s. timeInfos (timed s));
     case sm_find interval infos of
       None \<Rightarrow> ret ()
     | Some i \<Rightarrow> if ti_awake i then post_alarm e callback (to_int32 disTime)
                else coll_PostDelayTask e callback (to_int32 disTime) }"

definition PostPersistenceDelayTask :: "collect_env \<Rightarrow> collect_task option \<Rightarrow> int \<Rightarrow> int \<Rightarrow> unit K" where
  "PostPersistenceDelayTask e postTask interval disTime = do {
     _ \<leftarrow> SaveLong e (to_string interval) (ce_now e + to_int32 disTime);
     PostDelayTaskByTimeInfo e postTask interval disTime }"

text \<open>The stored closure, read with \<^verbatim>\<open>operator[]\<close>.\<close>
definition persist_task :: "int \<Rightarrow> collect_task option K" where
  "persist_task interval = do {
     modT (\<lambda>t. t \<lparr> persitenceLoopTasks := sm_touch None interval (persitenceLoopTasks t) \<rparr>);
     gets (\<lambda>s. sm_get None interval (persitenceLoopTasks (timed s))) }"

definition nonpersist_task :: "int \<Rightarrow> collect_task option K" where
  "nonpersist_task interval = do {
     modT (\<lambda>t. t \<lparr> nonPersitenceLoopTasks := sm_touch None interval (nonPersitenceLoopTasks t) \<rparr>);
     gets (\<lambda>s. sm_get None interval (nonPersitenceLoopTasks (timed s))) }"

definition PostPersistenceLoopTaskLocked :: "collect_env \<Rightarrow> int \<Rightarrow> unit K" where
  "PostPersistenceLoopTaskLocked e interval = do {
     tasks \<leftarrow> gets (\<lambda>s. persitenceLoopTasks (timed s));
     if sm_count interval tasks then ret ()
     else do {
       modT (\<lambda>t. t \<lparr> persitenceLoopTasks := sm_ins interval (Some (LoopTask True interval)) (persitenceLoopTasks t) \<rparr>);
       task \<leftarrow> persist_task interval;
       PostPersistenceDelayTask e task interval interval } }"

definition PostNonPersistenceLoopTaskLocked :: "collect_env \<Rightarrow> int \<Rightarrow> unit K" where
  "PostNonPersistenceLoopTaskLocked e interval = do {
     tasks \<leftarrow> gets (\<lambda>s. nonPersitenceLoopTasks (timed s));
     if sm_count interval tasks then ret ()
     else do {
       modT (\<lambda>t. t \<lparr> nonPersitenceLoopTasks := sm_ins interval (Some (LoopTask False interval)) (nonPersitenceLoopTasks t) \<rparr>);
       task \<leftarrow> nonpersist_task interval;
       PostDelayTaskByTimeInfo e task interval interval } }"

text \<open>The bodies of the closures, which the two \<^verbatim>\<open>Post...LoopTaskLocked\<close> functions and \<^verbatim>\<open>ProcessPersistenceLoopTask\<close> create.\<close>
definition run_loop_task :: "collect_env \<Rightarrow> bool \<Rightarrow> int \<Rightarrow> unit K" where
  "run_loop_task e persist interval =
     (if persist then do {
        tasks \<leftarrow> gets (\<lambda>s. persitenceLoopTasks (timed s));
        if sm_count interval tasks then do {
          ReportEventByTimeInfo e interval True;
          task \<leftarrow> persist_task interval;
          PostPersistenceDelayTask e task interval interval }
        else ret () }
      else do {
        events \<leftarrow> gets (\<lambda>s. nonPersitenceLoopEventSet (timed s));
        if sm_count interval events then do {
          ReportEventByTimeInfo e interval False;
          task \<leftarrow> nonpersist_task interval;
          PostDelayTaskByTimeInfo e task interval interval }
        else ret () })"

definition run_timed_task :: "collect_env \<Rightarrow> bool \<Rightarrow> string \<Rightarrow> unit K" where
  "run_timed_task e persist timeString = do {
     coll_ReportEvent e (timed_event ORDER_TIMED_EVENT timeString persist);
     onlyif persist (do { _ \<leftarrow> pref_Remove e timeString; ret () }) }"

section \<open>Start\<close>

definition ProcessPersistenceTimedTask :: "collect_env \<Rightarrow> int \<Rightarrow> string \<Rightarrow> unit K" where
  "ProcessPersistenceTimedTask e disTime timeString =
     (if disTime \<le> 0 then run_timed_task e True timeString
      else post_alarm e (Some (TimedTask True timeString)) disTime)"

definition ProcessPersistenceLoopTask :: "collect_env \<Rightarrow> int \<Rightarrow> int \<Rightarrow> string \<Rightarrow> unit K" where
  "ProcessPersistenceLoopTask e disTime triggerTime strInterval = (let interval = atoi strInterval in do {
     tasks \<leftarrow> gets (\<lambda>s. persitenceLoopTasks (timed s));
     if sm_count interval tasks then ret ()
     else if triggerTime - interval > ce_now e then ret ()
     else if interval < MIN_INTERVAL then ret ()
     else do {
       modT (\<lambda>t. t \<lparr> persitenceLoopTasks := sm_ins interval (Some (LoopTask True interval)) (persitenceLoopTasks t) \<rparr>);
       if disTime \<le> 0 then do {
         ReportEventByTimeInfo e interval True;
         PostPersistenceDelayTask e (Some (LoopTask True interval)) interval (interval - \<bar>disTime\<bar> mod interval) }
       else PostDelayTaskByTimeInfo e (Some (LoopTask True interval)) interval disTime } })"

text \<open>The loop over the preferences; a key with a colon ends it.\<close>
fun process_persistence :: "collect_env \<Rightarrow> (string, pref_value) smap \<Rightarrow> unit K" where
  "process_persistence e [] = ret ()"
| "process_persistence e ((strInterval, triggerTime) # rest) =
     (if CHR ''_'' \<in> set strInterval then process_persistence e rest
      else case triggerTime of
        PrefString _ \<Rightarrow> process_persistence e rest
      | PrefLong v \<Rightarrow> let disTime = v - ce_now e in
          if CHR '':'' \<in> set strInterval then ProcessPersistenceTimedTask e disTime strInterval
          else do { ProcessPersistenceLoopTask e disTime v strInterval; process_persistence e rest })"

definition ProcessPersistenceTasks :: "collect_env \<Rightarrow> unit K" where
  "ProcessPersistenceTasks e = do { allData \<leftarrow> ObtainAll e; process_persistence e allData }"

definition PostNonPersistenceLoopTasks :: "collect_env \<Rightarrow> unit K" where
  "PostNonPersistenceLoopTasks e = do {
     events \<leftarrow> gets (\<lambda>s. nonPersitenceLoopEventSet (timed s));
     for_each (sm_keys events) (PostNonPersistenceLoopTaskLocked e) }"

definition PostPersistenceLoopTasks :: "collect_env \<Rightarrow> unit K" where
  "PostPersistenceLoopTasks e = do {
     events \<leftarrow> gets (\<lambda>s. persitenceLoopEventSet (timed s));
     for_each (sm_keys events) (PostPersistenceLoopTaskLocked e) }"

definition timed_OnStart :: "collect_env \<Rightarrow> SamgrErrCode K" where
  "timed_OnStart e = do {
     ProcessPersistenceTasks e;
     PostNonPersistenceLoopTasks e;
     PostPersistenceLoopTasks e;
     ret ERR_OK }"

definition timed_OnStop :: "SamgrErrCode K" where "timed_OnStop = ret ERR_OK"

section \<open>Events added and removed at run time\<close>

definition CalculateDelayTime :: "collect_env \<Rightarrow> string \<Rightarrow> int" where
  "CalculateDelayTime e timeString = ce_mktime e timeString - ce_now e"

definition PostPersistenceTimedTaskLocked :: "collect_env \<Rightarrow> string \<Rightarrow> int \<Rightarrow> unit K" where
  "PostPersistenceTimedTaskLocked e timeString timeGap =
     (if timeGap \<le> 0 then ret ()
      else do {
        _ \<leftarrow> SaveLong e timeString (ce_now e + timeGap);
        post_alarm e (Some (TimedTask True timeString)) timeGap })"

definition PostNonPersistenceTimedTaskLocked :: "collect_env \<Rightarrow> string \<Rightarrow> int \<Rightarrow> unit K" where
  "PostNonPersistenceTimedTaskLocked e timeString timeGap =
     (if timeGap \<le> 0 then ret () else post_alarm e (Some (TimedTask False timeString)) timeGap)"

fun timed_AddCollectEvent :: "collect_env \<Rightarrow> OnDemandEvent list \<Rightarrow> SamgrErrCode K" where
  "timed_AddCollectEvent e [] = ret ERR_OK"
| "timed_AddCollectEvent e (event # events) =
     (if ev_name event \<noteq> LOOP_EVENT \<and> ev_name event \<noteq> ORDER_TIMED_EVENT \<and> ev_name event \<noteq> AWAKE_LOOP_EVENT
      then ret ERR_INVALID_VALUE
      else if ev_name event = ORDER_TIMED_EVENT then do {
        (let timeGap = CalculateDelayTime e (ev_value event) in
          if persistence event then PostPersistenceTimedTaskLocked e (ev_value event) timeGap
          else PostNonPersistenceTimedTaskLocked e (ev_value event) timeGap);
        timed_AddCollectEvent e events }
      else if persistence event then ret ERR_INVALID_VALUE
      else let interval = atoi (ev_value event) in
        if interval < MIN_INTERVAL then ret ERR_INVALID_VALUE
        else if interval < MIN_AWAKE_INTERVAL \<and> ev_name event = AWAKE_LOOP_EVENT then ret ERR_INVALID_VALUE
        else do {
          SaveTimedInfos event interval;
          old \<leftarrow> gets (\<lambda>s. nonPersitenceLoopEventSet (timed s));
          onlyif (\<not> sm_count interval old) (do {
            modT (\<lambda>t. t \<lparr> nonPersitenceLoopEventSet := set_insert interval (nonPersitenceLoopEventSet t) \<rparr>);
            PostNonPersistenceLoopTaskLocked e interval });
          timed_AddCollectEvent e events })"

definition RemoveTimesInfo :: "OnDemandEvent \<Rightarrow> int \<Rightarrow> unit K" where
  "RemoveTimesInfo onDemandEvent interval = modT (\<lambda>t. case sm_find interval (timeInfos t) of
       None \<Rightarrow> t
     | Some i \<Rightarrow>
         let i = (if ev_name onDemandEvent = LOOP_EVENT then i \<lparr> ti_normal := False \<rparr> else i);
             i = (if ev_name onDemandEvent = AWAKE_LOOP_EVENT then i \<lparr> ti_awake := False \<rparr> else i)
         in t \<lparr> timeInfos := (if \<not> ti_normal i \<and> \<not> ti_awake i then sm_erase interval (timeInfos t)
                              else sm_ins interval i (timeInfos t)) \<rparr>)"

definition RemoveNonPersistenceLoopTask :: "int \<Rightarrow> unit K" where
  "RemoveNonPersistenceLoopTask interval = modT (\<lambda>t.
     if sm_count interval (nonPersitenceLoopEventSet t)
     then t \<lparr> nonPersitenceLoopEventSet := sm_erase interval (nonPersitenceLoopEventSet t),
              nonPersitenceLoopTasks := sm_erase interval (nonPersitenceLoopTasks t) \<rparr>
     else t)"

definition RemovePersistenceLoopTask :: "int \<Rightarrow> unit K" where
  "RemovePersistenceLoopTask interval = modT (\<lambda>t.
     if sm_count interval (persitenceLoopEventSet t)
     then t \<lparr> persitenceLoopEventSet := sm_erase interval (persitenceLoopEventSet t),
              persitenceLoopTasks := sm_erase interval (persitenceLoopTasks t) \<rparr>
     else t)"

definition timed_RemoveUnusedEvent :: "OnDemandEvent \<Rightarrow> SamgrErrCode K" where
  "timed_RemoveUnusedEvent event =
     (if ev_name event \<noteq> LOOP_EVENT \<and> ev_name event \<noteq> AWAKE_LOOP_EVENT then ret ERR_INVALID_VALUE
      else let interval = atoi (ev_value event) in do {
        (if persistence event then RemovePersistenceLoopTask interval else RemoveNonPersistenceLoopTask interval);
        RemoveTimesInfo event interval;
        ret ERR_OK })"

end
