(* ===== verification/Collect_Plugins.thy ===== *)
theory Collect_Plugins
  imports Collect_State
begin

text \<open>
  The plugins for parameters (\<^verbatim>\<open>collect/device_param_collect.cpp\<close>), unreferenced abilities (\<^verbatim>\<open>collect/ref_count_collect.cpp\<close>),
  switches (\<^verbatim>\<open>collect/device_switch_collect.cpp\<close>) and networking (\<^verbatim>\<open>collect/device_networking_collect.cpp\<close>). The parameter,
  event and device services are outside the repository; their answers are fields of the environment. The
  prefix of a definition names the plugin when two plugins have a method of the same name.
\<close>

section \<open>Parameters\<close>

definition PARAM_WATCHER_DISTRIBUTED_SERVICE_ID :: int where "PARAM_WATCHER_DISTRIBUTED_SERVICE_ID = 3901"

definition DeviceParamCallback :: "collect_env \<Rightarrow> string \<Rightarrow> string \<Rightarrow> unit K" where
  "DeviceParamCallback e key v = coll_ReportEvent e (mk_event PARAM key v)"

definition param_CheckCondition :: "collect_env \<Rightarrow> OnDemandCondition \<Rightarrow> bool" where
  "param_CheckCondition e condition \<longleftrightarrow> ce_param e (cond_name condition) = cond_value condition"

definition CheckLowMemSA :: "string \<Rightarrow> int \<Rightarrow> unit K" where
  "CheckLowMemSA name said = onlyif (name = PARAM_LOW_MEM_PREPARE_NAME)
     (modPar (\<lambda>p. p \<lparr> lowMemPrepareList := lowMemPrepareList p @ [said] \<rparr>))"

definition add_pending :: "OnDemandEvent \<Rightarrow> unit K" where
  "add_pending event = modPar (\<lambda>p. p \<lparr> pendingParams := set_insert (ev_name event) (pendingParams p) \<rparr>)"

definition param_Init :: "SaProfile list \<Rightarrow> unit K" where
  "param_Init saProfiles = for_each saProfiles (\<lambda>saProfile. do {
     for_each (start_onDemandEvents (startOnDemand saProfile)) (\<lambda>event.
       onlyif (eventId event = PARAM) (add_pending event));
     for_each (stop_onDemandEvents (stopOnDemand saProfile)) (\<lambda>event.
       onlyif (eventId event = PARAM) (do { CheckLowMemSA (ev_name event) (saId saProfile); add_pending event })) })"

definition param_OnStart :: "collect_env \<Rightarrow> SamgrErrCode K" where
  "param_OnStart e = do {
     _ \<leftarrow> on_host (SubscribeSystemAbility (ce_env e) PARAM_WATCHER_DISTRIBUTED_SERVICE_ID (Some (ce_listener e)));
     ret ERR_OK }"

definition param_OnStop :: "SamgrErrCode K" where "param_OnStop = ret ERR_OK"

definition WatchParameters :: "collect_env \<Rightarrow> unit K" where
  "WatchParameters e = do {
     pending \<leftarrow> gets (\<lambda>s. pendingParams (param s));
     for_each (sm_keys pending) (\<lambda>name.
       if ce_watch e name \<noteq> 0 then ret ()
       else modPar (\<lambda>p. p \<lparr> params := set_insert name (params p) \<rparr>));
     modPar (\<lambda>p. p \<lparr> pendingParams := [] \<rparr>) }"

fun param_AddCollectEvent :: "collect_env \<Rightarrow> OnDemandEvent list \<Rightarrow> SamgrErrCode K" where
  "param_AddCollectEvent e [] = ret ERR_OK"
| "param_AddCollectEvent e (event # events) = do {
     watched \<leftarrow> gets (\<lambda>s. params (param s));
     if sm_count (ev_name event) watched then param_AddCollectEvent e events
     else if ce_watch e (ev_name event) \<noteq> 0 then ret (ext_code (ce_watch e (ev_name event)))
     else do {
       modPar (\<lambda>p. p \<lparr> params := set_insert (ev_name event) (params p) \<rparr>);
       param_AddCollectEvent e events } }"

definition param_RemoveUnusedEvent :: "collect_env \<Rightarrow> OnDemandEvent \<Rightarrow> SamgrErrCode K" where
  "param_RemoveUnusedEvent e event = do {
     watched \<leftarrow> gets (\<lambda>s. params (param s));
     if sm_count (ev_name event) watched
     then if ce_unwatch e (ev_name event) \<noteq> 0 then ret (ext_code (ce_unwatch e (ev_name event)))
       else do { modPar (\<lambda>p. p \<lparr> params := sm_erase (ev_name event) (params p) \<rparr>); ret ERR_OK }
     else ret ERR_OK }"

definition param_GetLowMemPrepareList :: "int list K" where
  "param_GetLowMemPrepareList = gets (\<lambda>s. lowMemPrepareList (param s))"

text \<open>\<^verbatim>\<open>SystemAbilityStatusChange\<close>, the listener registered by \<open>param_OnStart\<close>.\<close>
definition param_OnAddSystemAbility :: "collect_env \<Rightarrow> int \<Rightarrow> unit K" where
  "param_OnAddSystemAbility e said =
     (if said = PARAM_WATCHER_DISTRIBUTED_SERVICE_ID then coll_PostDelayTask e (Some WatchParametersTask) 0 else ret ())"

section \<open>Unreferenced abilities\<close>

text \<open>\<^verbatim>\<open>SaControlInfo{id, saId}\<close> with the defaults of the other members.\<close>
definition mk_control :: "int \<Rightarrow> int \<Rightarrow> SaControlInfo" where
  "mk_control i said = \<lparr> ondemandId = i, sc_saId = said, sc_enableOnce = False, sc_loadPriority = LOW_PRIORITY, sc_cacheCommonEvent = False \<rparr>"

definition ref_Init :: "SaProfile list \<Rightarrow> unit K" where
  "ref_Init saProfiles = for_each saProfiles (\<lambda>saProfile.
     if unrefUnload (stopOnDemand saProfile)
     then modify (\<lambda>s. s \<lparr> refCount := (refCount s) \<lparr> unrefUnloadSaList := unrefUnloadSaList (refCount s) @ [saId saProfile] \<rparr> \<rparr>)
     else ret ())"

definition ref_OnStart :: "SamgrErrCode K" where
  "ref_OnStart = do {
     modify (\<lambda>s. s \<lparr> refCount := (refCount s) \<lparr> ref_timer := (unrefUnloadSaList (refCount s) \<noteq> []) \<rparr> \<rparr>);
     ret ERR_OK }"

definition ref_OnStop :: "SamgrErrCode K" where
  "ref_OnStop = do { modify (\<lambda>s. s \<lparr> refCount := (refCount s) \<lparr> ref_timer := False \<rparr> \<rparr>); ret ERR_OK }"

text \<open>The callback of the timer. The count of an object is the answer of the IPC layer.\<close>
definition IdentifyUnrefOndemand :: "collect_env \<Rightarrow> unit K" where
  "IdentifyUnrefOndemand e = do {
     sas \<leftarrow> gets (\<lambda>s. unrefUnloadSaList (refCount s));
     saControlList \<leftarrow> collect sas (\<lambda>said. do {
       ob \<leftarrow> (if ce_manager e then on_host (CheckSystemAbility (ce_env e) said) else ret None);
       ret (case ob of None \<Rightarrow> None
         | Some x \<Rightarrow> if ce_refCountOf e x = 1 then Some (mk_control STOP_ON_DEMAND said) else None) });
     if saControlList = [] then ret ()
     else if \<not> ce_manager e then ret ()
     else coll_PostTask e (UnrefTask saControlList) }"

section \<open>Switches\<close>

definition BLUETOOTH_NAME :: string where "BLUETOOTH_NAME = ''bluetooth_status''"
definition WIFI_NAME :: string where "WIFI_NAME = ''wifi_status''"
definition COMMON_EVENT_SERVICE_ID :: int where "COMMON_EVENT_SERVICE_ID = 3299"

definition InitCommonEventSubscriber :: "unit K" where
  "InitCommonEventSubscriber = modSw (\<lambda>w. w \<lparr> switchEventSubscriber := True, isListenSwitchEvent := False \<rparr>)"

text \<open>The subscriber's own method, then the plugin's.\<close>
definition sub_SubscribeSwitchEvent :: "collect_env \<Rightarrow> SamgrErrCode K" where
  "sub_SubscribeSwitchEvent e = do {
     listening \<leftarrow> gets (\<lambda>s. isListenSwitchEvent (switches s));
     if listening then ret ERR_OK
     else if ce_subscribe e then do { modSw (\<lambda>w. w \<lparr> isListenSwitchEvent := True \<rparr>); ret ERR_OK }
     else ret ERR_INVALID_VALUE }"

definition sub_UnSubscribeSwitchEvent :: "collect_env \<Rightarrow> SamgrErrCode K" where
  "sub_UnSubscribeSwitchEvent e = do {
     listening \<leftarrow> gets (\<lambda>s. isListenSwitchEvent (switches s));
     if \<not> listening then ret ERR_OK
     else if ce_unsubscribe e then do { modSw (\<lambda>w. w \<lparr> isListenSwitchEvent := False \<rparr>); ret ERR_OK }
     else ret ERR_INVALID_VALUE }"

definition SubscribeSwitchEvent :: "collect_env \<Rightarrow> SamgrErrCode K" where
  "SubscribeSwitchEvent e = do {
     present \<leftarrow> gets (\<lambda>s. switchEventSubscriber (switches s));
     if \<not> present then ret ERR_INVALID_VALUE else sub_SubscribeSwitchEvent e }"

definition CheckSwitchEvent :: "OnDemandEvent \<Rightarrow> SamgrErrCode" where
  "CheckSwitchEvent event =
     (if eventId event \<noteq> SETTING_SWITCH then ERR_INVALID_VALUE
      else if ev_name event \<noteq> WIFI_NAME \<and> ev_name event \<noteq> BLUETOOTH_NAME then ERR_INVALID_VALUE
      else ERR_OK)"

definition profile_events :: "SaProfile \<Rightarrow> OnDemandEvent list" where
  "profile_events pr = start_onDemandEvents (startOnDemand pr) @ stop_onDemandEvents (stopOnDemand pr)"

text \<open>The two nested loops return at the first switch event.\<close>
definition switch_Init :: "SaProfile list \<Rightarrow> unit K" where
  "switch_Init saProfiles = do {
     InitCommonEventSubscriber;
     onlyif (\<exists>pr \<in> set saProfiles. \<exists>event \<in> set (profile_events pr). CheckSwitchEvent event = ERR_OK)
       (modSw (\<lambda>w. w \<lparr> needListenSwitchEvent := True \<rparr>)) }"

definition switch_OnStart :: "collect_env \<Rightarrow> SamgrErrCode K" where
  "switch_OnStart e = do {
     need \<leftarrow> gets (\<lambda>s. needListenSwitchEvent (switches s));
     if \<not> need then ret ERR_OK
     else on_host (SubscribeSystemAbility (ce_env e) COMMON_EVENT_SERVICE_ID (Some (ce_listener e))) }"

definition switch_OnStop :: "collect_env \<Rightarrow> SamgrErrCode K" where
  "switch_OnStop e = do {
     present \<leftarrow> gets (\<lambda>s. switchEventSubscriber (switches s));
     onlyif present (do { _ \<leftarrow> sub_UnSubscribeSwitchEvent e; ret () });
     ret ERR_OK }"

fun switch_AddCollectEvent :: "collect_env \<Rightarrow> OnDemandEvent list \<Rightarrow> SamgrErrCode K" where
  "switch_AddCollectEvent e [] = ret ERR_OK"
| "switch_AddCollectEvent e (event # events) =
     (if CheckSwitchEvent event \<noteq> ERR_OK then ret ERR_INVALID_VALUE
      else do {
        r \<leftarrow> SubscribeSwitchEvent e;
        if r \<noteq> ERR_OK then ret r else switch_AddCollectEvent e events })"

text \<open>\<^verbatim>\<open>CesStateListener::OnAddSystemAbility\<close>.\<close>
definition ces_OnAddSystemAbility :: "collect_env \<Rightarrow> int \<Rightarrow> unit K" where
  "ces_OnAddSystemAbility e said =
     (if said \<noteq> COMMON_EVENT_SERVICE_ID then ret () else coll_PostDelayTask e (Some SubscribeSwitchTask) 0)"

definition switch_value :: "int \<Rightarrow> int \<Rightarrow> int \<Rightarrow> string option" where
  "switch_value on off code = (if code = on then Some ''on'' else if code = off then Some ''off'' else None)"

definition OnReceiveWifiEvent :: "collect_env \<Rightarrow> int \<Rightarrow> unit K" where
  "OnReceiveWifiEvent e code = (case switch_value 3 1 code of
     None \<Rightarrow> ret () | Some v \<Rightarrow> coll_ReportEvent e (mk_event SETTING_SWITCH WIFI_NAME v))"

definition OnReceiveBluetoothEvent :: "collect_env \<Rightarrow> int \<Rightarrow> unit K" where
  "OnReceiveBluetoothEvent e code = (case switch_value 1 3 code of
     None \<Rightarrow> ret () | Some v \<Rightarrow> coll_ReportEvent e (mk_event SETTING_SWITCH BLUETOOTH_NAME v))"

definition COMMON_EVENT_WIFI_POWER_STATE :: string where "COMMON_EVENT_WIFI_POWER_STATE = ''usual.event.wifi.POWER_STATE''"
definition COMMON_EVENT_BLUETOOTH_HOST_STATE_UPDATE :: string where
  "COMMON_EVENT_BLUETOOTH_HOST_STATE_UPDATE = ''usual.event.bluetooth.host.STATE_UPDATE''"

definition switch_OnReceiveEvent :: "collect_env \<Rightarrow> string \<Rightarrow> int \<Rightarrow> unit K" where
  "switch_OnReceiveEvent e action code =
     (if action = COMMON_EVENT_WIFI_POWER_STATE then OnReceiveWifiEvent e code
      else if action = COMMON_EVENT_BLUETOOTH_HOST_STATE_UPDATE then OnReceiveBluetoothEvent e code
      else ret ())"

section \<open>Networking\<close>

definition SA_TAG_DEVICE_ON_LINE :: string where "SA_TAG_DEVICE_ON_LINE = ''deviceonline''"
definition NET_INIT_EVENT :: int where "NET_INIT_EVENT = 10"
definition DM_DIED_EVENT :: int where "DM_DIED_EVENT = 11"
definition NET_DELAY_TIME :: int where "NET_DELAY_TIME = 1000"
definition DISTRIBUTED_HARDWARE_DEVICEMANAGER_SA_ID :: int where "DISTRIBUTED_HARDWARE_DEVICEMANAGER_SA_ID = 4802"

text \<open>The collect plugin of a user other than the base user does nothing here.\<close>
definition other_user :: "collect_env \<Rightarrow> bool" where
  "other_user e \<longleftrightarrow> ce_multi e \<and> ce_manager e \<and> ce_userId e \<noteq> 0"

definition device_event :: "string \<Rightarrow> OnDemandEvent" where "device_event v = mk_event DEVICE_ONLINE SA_TAG_DEVICE_ON_LINE v"

definition net_SendEvent :: "collect_env \<Rightarrow> int \<Rightarrow> unit K" where
  "net_SendEvent e event = modNet (\<lambda>n. n \<lparr> net_workHandler :=
     map_option (\<lambda>h. snd (PostTask (ce_accept e) (Some (ProcessEventTask event 0)) h)) (net_workHandler n) \<rparr>)"

definition net_SendDelayed :: "collect_env \<Rightarrow> int \<Rightarrow> int \<Rightarrow> unit K" where
  "net_SendDelayed e event delay = modNet (\<lambda>n. n \<lparr> net_workHandler :=
     map_option (\<lambda>h. snd (PostDelayTask (ce_accept e) (Some (ProcessEventTask event 0)) delay h)) (net_workHandler n) \<rparr>)"

definition net_CleanFfrt :: "unit K" where
  "net_CleanFfrt = modNet (\<lambda>n. n \<lparr> net_workHandler := map_option CleanFfrt (net_workHandler n) \<rparr>)"

definition net_SetFfrt :: "unit K" where
  "net_SetFfrt = modNet (\<lambda>n. n \<lparr> net_workHandler := map_option (SetFfrt QOS_DEFAULT) (net_workHandler n) \<rparr>)"

definition net_IsOnline :: "bool K" where
  "net_IsOnline = gets (\<lambda>s. case stateCallback (networking s) of None \<Rightarrow> False | Some online \<Rightarrow> online \<noteq> [])"

definition UpdateDeviceOnlineSet :: "string \<Rightarrow> unit K" where
  "UpdateDeviceOnlineSet device = modNet (\<lambda>n. n \<lparr> stateCallback := map_option (set_insert device) (stateCallback n) \<rparr>)"

definition ClearDeviceOnlineSet :: "unit K" where
  "ClearDeviceOnlineSet = modNet (\<lambda>n. n \<lparr> stateCallback := map_option (\<lambda>_. []) (stateCallback n) \<rparr>)"

definition net_OnStart :: "collect_env \<Rightarrow> SamgrErrCode K" where
  "net_OnStart e = (if other_user e then ret ERR_OK
     else do {
       modNet (\<lambda>n. n \<lparr> net_workHandler := Some (FFRTHandler QOS_DEFAULT), initCallback := True, stateCallback := Some [] \<rparr>);
       net_SendEvent e NET_INIT_EVENT;
       ret ERR_OK })"

definition net_OnStop :: "collect_env \<Rightarrow> SamgrErrCode K" where
  "net_OnStop e = (if other_user e then ret ERR_OK
     else do {
       net_CleanFfrt;
       modNet (\<lambda>n. n \<lparr> net_workHandler := None, initCallback := False \<rparr>);
       ClearDeviceOnlineSet;
       modNet (\<lambda>n. n \<lparr> stateCallback := None \<rparr>);
       ret ERR_OK })"

definition IsDmReady :: "collect_env \<Rightarrow> bool K" where
  "IsDmReady e = do {
     dmProxy \<leftarrow> (if ce_manager e then on_host (CheckSystemAbility (ce_env e) DISTRIBUTED_HARDWARE_DEVICEMANAGER_SA_ID) else ret None);
     ret (case dmProxy of None \<Rightarrow> False | Some x \<Rightarrow> \<not> ce_isDead e x) }"

definition ReportMissedEvents :: "collect_env \<Rightarrow> bool K" where
  "ReportMissedEvents e = (let (r, devList) = ce_trusted e in
     if r \<noteq> 0 then ret False
     else do {
       isPreviousOnline \<leftarrow> net_IsOnline;
       (if isPreviousOnline then do {
          ClearDeviceOnlineSet;
          (if devList = [] then coll_ReportEvent e (device_event ''off'')
           else for_each devList UpdateDeviceOnlineSet) }
        else onlyif (devList \<noteq> []) (do {
          for_each devList UpdateDeviceOnlineSet;
          coll_ReportEvent e (device_event ''on'') }));
       ret True })"

definition AddDeviceChangeListener :: "collect_env \<Rightarrow> bool K" where
  "AddDeviceChangeListener e = do {
     ready \<leftarrow> IsDmReady e;
     if ready then
       if ce_dmInit e \<noteq> 0 then ret False
       else do {
         reported \<leftarrow> ReportMissedEvents e;
         if \<not> reported then ret False
         else ret (ce_dmRegister e = 0) }
     else ret False }"

definition net_CheckCondition :: "OnDemandCondition \<Rightarrow> bool K" where
  "net_CheckCondition condition = do {
     isOnline \<leftarrow> net_IsOnline;
     ret (cond_value condition = ''on'' \<and> isOnline \<or> cond_value condition = ''off'' \<and> \<not> isOnline) }"

definition net_OnRemoteDied :: "collect_env \<Rightarrow> unit K" where
  "net_OnRemoteDied e = do {
     present \<leftarrow> gets (\<lambda>s. initCallback (networking s));
     onlyif present (net_SendDelayed e DM_DIED_EVENT NET_DELAY_TIME) }"

text \<open>The methods of the state callback, which the device manager calls while it is registered.\<close>
definition OnDeviceOnline :: "collect_env \<Rightarrow> string \<Rightarrow> unit K" where
  "OnDeviceOnline e device = do {
     onlyif (ce_delayDbinder e \<and> ce_manager e) (on_host (InitDbinderService (ce_env e) (ce_dbinder e)));
     UpdateDeviceOnlineSet device;
     coll_ReportEvent e (device_event ''on'') }"

definition OnDeviceOffline :: "collect_env \<Rightarrow> string \<Rightarrow> unit K" where
  "OnDeviceOffline e device = do {
     modNet (\<lambda>n. n \<lparr> stateCallback := map_option (sm_erase device) (stateCallback n) \<rparr>);
     isOnline \<leftarrow> net_IsOnline;
     onlyif (\<not> isOnline) (coll_ReportEvent e (device_event ''off'')) }"

definition OnDeviceReady :: "collect_env \<Rightarrow> unit K" where
  "OnDeviceReady e = coll_ReportEvent e (device_event ''ready'')"

text \<open>A task of the work queue: connect to the device manager, and try again in a second when this fails.\<close>
definition net_ProcessEvent :: "collect_env \<Rightarrow> int \<Rightarrow> unit K" where
  "net_ProcessEvent e event =
     (if event \<noteq> NET_INIT_EVENT \<and> event \<noteq> DM_DIED_EVENT then ret ()
      else do {
        present \<leftarrow> gets (\<lambda>s. net_workHandler (networking s) \<noteq> None);
        if \<not> present then ret ()
        else do {
          ok \<leftarrow> AddDeviceChangeListener e;
          onlyif (\<not> ok) (net_SendDelayed e NET_INIT_EVENT NET_DELAY_TIME) } })"

end
