(* ===== verification/Common_Event_Collect.thy ===== *)
theory Common_Event_Collect
  imports Collect_State
begin

text \<open>
  The plugin for common events (\<^verbatim>\<open>collect/common_event_collect.cpp\<close>) and the comparison of a reported value with the value
  of a profile (\<^verbatim>\<open>ParseUtil::CheckLogicRelationship\<close>). The plugin subscribes to the events that the profiles name, keeps
  the state that conditions ask about (a white list of the last screen, charging and power events, the last code and
  parameters of an event), stores the parameters of every event under a fresh number for five minutes, and records per
  ability the numbers of the events that have been cached for it.

  An event comes as the record \<open>CommonEventData\<close>, with the typed getters of its \<^verbatim>\<open>Want\<close>, a class of the ability framework.
\<close>

section \<open>Comparison with a profile value\<close>

datatype logic = EQ | GREATER | GREATER_EQ | LESS | LESS_EQ

text \<open>The operator at the front of a profile value and its length. Beyond the end, \<^verbatim>\<open>operator[]\<close> reads a null character.\<close>
definition logic_of :: "string \<Rightarrow> logic \<times> nat" where
  "logic_of profile = (case profile of
       c # r \<Rightarrow>
         if c = CHR ''>'' then (if r \<noteq> [] \<and> hd r = CHR ''='' then (GREATER_EQ, 2) else (GREATER, 1))
         else if c = CHR ''<'' then (if r \<noteq> [] \<and> hd r = CHR ''='' then (LESS_EQ, 2) else (LESS, 1))
         else (EQ, 0)
     | [] \<Rightarrow> (EQ, 0))"

text \<open>\<^verbatim>\<open>s.substr(pos, count)\<close> for a position in the string.\<close>
definition substr :: "string \<Rightarrow> nat \<Rightarrow> nat \<Rightarrow> string" where "substr s pos n = take n (drop pos s)"

definition CheckLogicRelationship :: "(string \<Rightarrow> int option) \<Rightarrow> string \<Rightarrow> string \<Rightarrow> bool" where
  "CheckLogicRelationship strToInt stateValue profile =
     (if profile = [] \<or> stateValue = profile then True
      else if stateValue = [] then False
      else let (logicRelationship, valueStartPosition) = logic_of profile in
        case strToInt (substr profile valueStartPosition (length profile - 1)) of
          None \<Rightarrow> False
        | Some profileInt \<Rightarrow> (case strToInt stateValue of
            None \<Rightarrow> False
          | Some stateInt \<Rightarrow> (case logicRelationship of
              EQ \<Rightarrow> stateInt = profileInt
            | GREATER_EQ \<Rightarrow> stateInt \<ge> profileInt
            | GREATER \<Rightarrow> stateInt > profileInt
            | LESS_EQ \<Rightarrow> stateInt \<le> profileInt
            | LESS \<Rightarrow> stateInt < profileInt)))"

section \<open>Events\<close>

record CommonEventData =
  ced_code :: int
  ced_data :: string
  want_action :: string
  want_bundle :: string
  want_keys :: "string list" \<comment> \<open>\<^verbatim>\<open>GetParams().KeySet()\<close>\<close>
  want_int :: "string \<Rightarrow> int \<Rightarrow> int" \<comment> \<open>\<^verbatim>\<open>GetIntParam(key, default)\<close>\<close>
  want_string :: "string \<Rightarrow> string"
  want_bool :: "string \<Rightarrow> bool \<Rightarrow> bool"

text \<open>Names of \<^verbatim>\<open>CommonEventSupport\<close>.\<close>
definition SCREEN_ON :: string where "SCREEN_ON = ''usual.event.SCREEN_ON''"
definition SCREEN_OFF :: string where "SCREEN_OFF = ''usual.event.SCREEN_OFF''"
definition CHARGING :: string where "CHARGING = ''usual.event.CHARGING''"
definition DISCHARGING :: string where "DISCHARGING = ''usual.event.DISCHARGING''"
definition POWER_CONNECTED :: string where "POWER_CONNECTED = ''usual.event.POWER_CONNECTED''"
definition POWER_DISCONNECTED :: string where "POWER_DISCONNECTED = ''usual.event.POWER_DISCONNECTED''"
definition USER_UNLOCKED :: string where "USER_UNLOCKED = ''usual.event.USER_UNLOCKED''"
definition COMMON_RECENT_EVENT :: string where "COMMON_RECENT_EVENT = ''RECENT_EVENT''"
definition COMMON_RECENT_CLEAR_ALL :: string where "COMMON_RECENT_CLEAR_ALL = ''RECENT_CLEAR_ALL''"
definition UID :: string where "UID = ''uid''"
definition NET_TYPE :: string where "NET_TYPE = ''NetType''"
definition BUNDLE_NAME :: string where "BUNDLE_NAME = ''bundleName''"
definition COMMON_EVENT_ACTION_NAME :: string where "COMMON_EVENT_ACTION_NAME = ''common_event_action_name''"

lemmas event_names = SCREEN_ON_def SCREEN_OFF_def CHARGING_def DISCHARGING_def POWER_CONNECTED_def POWER_DISCONNECTED_def
  USER_UNLOCKED_def

definition INIT_EVENT :: int where "INIT_EVENT = 10"
definition SUB_COMMON_EVENT :: int where "SUB_COMMON_EVENT = 11"
definition REMOVE_EXTRA_DATA_EVENT :: int where "REMOVE_EXTRA_DATA_EVENT = 12"
definition REMOVE_EXTRA_DATA_DELAY_TIME :: int where "REMOVE_EXTRA_DATA_DELAY_TIME = 300000"
definition MAX_EXTRA_DATA_ID :: int where "MAX_EXTRA_DATA_ID = 1000000000"
definition CES_ID :: int where "CES_ID = 3299"

section \<open>Start and stop\<close>

definition foreign_user :: "collect_env \<Rightarrow> bool" where
  "foreign_user e \<longleftrightarrow> ce_multi e \<and> ce_manager e \<and> ce_userId e \<noteq> 0"

definition ce_SendEvent :: "collect_env \<Rightarrow> int \<Rightarrow> unit K" where
  "ce_SendEvent e event = modC (\<lambda>c. c \<lparr> ce_workHandler :=
     map_option (\<lambda>h. snd (PostTask (ce_accept e) (Some (ProcessEventTask event 0)) h)) (ce_workHandler c) \<rparr>)"

definition ce_SendDelayed :: "collect_env \<Rightarrow> int \<Rightarrow> int \<Rightarrow> int \<Rightarrow> unit K" where
  "ce_SendDelayed e event dataId delay = modC (\<lambda>c. c \<lparr> ce_workHandler :=
     map_option (\<lambda>h. snd (PostDelayTask (ce_accept e) (Some (ProcessEventTask event dataId)) delay h)) (ce_workHandler c) \<rparr>)"

definition ce_RemoveWhiteCommonEvent :: "unit K" where
  "ce_RemoveWhiteCommonEvent = modC (\<lambda>c. c \<lparr> commonEventWhitelist := sm_erase USER_UNLOCKED (commonEventWhitelist c) \<rparr>)"

definition ce_CleanFfrt :: "unit K" where
  "ce_CleanFfrt = modC (\<lambda>c. c \<lparr> ce_workHandler := map_option CleanFfrt (ce_workHandler c),
     unsubHandler := map_option CleanFfrt (unsubHandler c) \<rparr>)"

definition ce_SetFfrt :: "unit K" where
  "ce_SetFfrt = modC (\<lambda>c. c \<lparr> ce_workHandler := map_option (SetFfrt QOS_DEFAULT) (ce_workHandler c),
     unsubHandler := map_option (SetFfrt QOS_DEFAULT) (unsubHandler c) \<rparr>)"

definition StartMonitorThread :: "unit K" where "StartMonitorThread = modC (\<lambda>c. c \<lparr> keepRunning := True \<rparr>)"

definition StopMonitorThread :: "unit K" where
  "StopMonitorThread = do { run \<leftarrow> gets (\<lambda>s. keepRunning (common s)); onlyif run (modC (\<lambda>c. c \<lparr> keepRunning := False \<rparr>)) }"

definition ce_OnStart :: "collect_env \<Rightarrow> SamgrErrCode K" where
  "ce_OnStart e = do {
     names \<leftarrow> gets (\<lambda>s. commonEventNames (common s));
     if names = [] then ret ERR_OK
     else do {
       modC (\<lambda>c. c \<lparr> ce_workHandler := Some (FFRTHandler QOS_DEFAULT), unsubHandler := Some (FFRTHandler QOS_DEFAULT) \<rparr>);
       ce_SendEvent e INIT_EVENT;
       if foreign_user e then ret ERR_OK else do { StartMonitorThread; ret ERR_OK } } }"

definition ce_OnStop :: "collect_env \<Rightarrow> SamgrErrCode K" where
  "ce_OnStop e = do {
     ce_CleanFfrt;
     modC (\<lambda>c. c \<lparr> ce_workHandler := None, unsubHandler := None \<rparr>);
     if foreign_user e then ret ERR_OK else do { StopMonitorThread; ret ERR_OK } }"

definition insert_name :: "string \<Rightarrow> unit K" where
  "insert_name n = modC (\<lambda>c. c \<lparr> commonEventNames := set_insert n (commonEventNames c) \<rparr>)"

definition white_insert :: "string \<Rightarrow> unit K" where
  "white_insert n = modC (\<lambda>c. c \<lparr> commonEventWhitelist := set_insert n (commonEventWhitelist c) \<rparr>)"

definition white_erase :: "string \<Rightarrow> unit K" where
  "white_erase n = modC (\<lambda>c. c \<lparr> commonEventWhitelist := sm_erase n (commonEventWhitelist c) \<rparr>)"

definition InitCommonEventState :: "OnDemandEvent \<Rightarrow> unit K" where
  "InitCommonEventState event = do {
     onlyif (eventId event = COMMON_EVENT) (insert_name (ev_name event));
     for_each (conditions event) (\<lambda>condition.
       if cond_eventId condition \<noteq> COMMON_EVENT then ret ()
       else do {
         insert_name (cond_name condition);
         onlyif (cond_extraMessages condition \<noteq> []) (for_each (sm_keys (cond_extraMessages condition)) (\<lambda>key.
           modC (\<lambda>c. c \<lparr> commonEventConditionExtraData :=
             sm_ins (cond_name condition) (sm_ins key [] (sm_get [] (cond_name condition) (commonEventConditionExtraData c)))
               (commonEventConditionExtraData c) \<rparr>))) }) }"

definition ce_Init :: "SaProfile list \<Rightarrow> unit K" where
  "ce_Init saProfiles = do {
     for_each [SCREEN_ON, DISCHARGING, POWER_DISCONNECTED] white_insert;
     for_each [SCREEN_ON, SCREEN_OFF, CHARGING, DISCHARGING, POWER_CONNECTED, POWER_DISCONNECTED, USER_UNLOCKED,
       COMMON_RECENT_EVENT] insert_name;
     for_each saProfiles (\<lambda>profile. do {
       for_each (start_onDemandEvents (startOnDemand profile)) InitCommonEventState;
       for_each (stop_onDemandEvents (stopOnDemand profile)) InitCommonEventState }) }"

section \<open>Subscription\<close>

text \<open>A subscriber is created, or the present one is given the new set of events; the service may refuse either.\<close>
definition CreateCommonEventSubscriberLocked :: "collect_env \<Rightarrow> bool K" where
  "CreateCommonEventSubscriberLocked e = do {
     modC (\<lambda>c. c \<lparr> commonEventSubscriber := Some (commonEventNames c) \<rparr>);
     ret (ce_subscribe e) }"

text \<open>\<^verbatim>\<open>skill\<close> is a copy of the subscriber's skills, so removing events from it has no effect.\<close>
definition CleanFailedEventLocked :: "string list \<Rightarrow> unit K" where
  "CleanFailedEventLocked eventNames = do {
     sub \<leftarrow> gets (\<lambda>s. commonEventSubscriber (common s));
     if sub = None then ret ()
     else for_each eventNames (\<lambda>n. modC (\<lambda>c. c \<lparr> commonEventNames := sm_erase n (commonEventNames c) \<rparr>)) }"

fun AddCommonEventName :: "OnDemandEvent list \<Rightarrow> string list K" where
  "AddCommonEventName [] = ret []"
| "AddCommonEventName (event # events) = do {
     names \<leftarrow> gets (\<lambda>s. commonEventNames (common s));
     if sm_count (ev_name event) names then AddCommonEventName events
     else do {
       insert_name (ev_name event);
       inserted \<leftarrow> AddCommonEventName events;
       ret (ev_name event # inserted) } }"

definition ce_AddCollectEvent :: "collect_env \<Rightarrow> OnDemandEvent list \<Rightarrow> SamgrErrCode K" where
  "ce_AddCollectEvent e events = do {
     insertNames \<leftarrow> AddCommonEventName events;
     if insertNames = [] then ret ERR_OK
     else do {
       created \<leftarrow> CreateCommonEventSubscriberLocked e;
       if \<not> created then do {
         CleanFailedEventLocked insertNames;
         _ \<leftarrow> CreateCommonEventSubscriberLocked e;
         ret ERR_INVALID_VALUE }
       else ret ERR_OK } }"

definition ce_RemoveUnusedEvent :: "OnDemandEvent \<Rightarrow> SamgrErrCode K" where
  "ce_RemoveUnusedEvent event = do {
     modC (\<lambda>c. c \<lparr> commonEventNames := sm_erase (ev_name event) (commonEventNames c) \<rparr>);
     ret ERR_OK }"

text \<open>\<^verbatim>\<open>CommonEventListener::OnAddSystemAbility\<close>.\<close>
definition ce_OnAddSystemAbility :: "collect_env \<Rightarrow> int \<Rightarrow> unit K" where
  "ce_OnAddSystemAbility e said = onlyif (said = CES_ID) (ce_SendEvent e SUB_COMMON_EVENT)"

section \<open>Conditions\<close>

definition swap_white :: "string \<Rightarrow> string \<Rightarrow> unit K" where
  "swap_white new old = do { white_insert new; white_erase old }"

definition SaveAction :: "string \<Rightarrow> unit K" where
  "SaveAction action =
     (if action = SCREEN_ON then swap_white SCREEN_ON SCREEN_OFF
      else if action = SCREEN_OFF then swap_white SCREEN_OFF SCREEN_ON
      else if action = CHARGING then swap_white CHARGING DISCHARGING
      else if action = DISCHARGING then swap_white DISCHARGING CHARGING
      else if action = POWER_CONNECTED then swap_white POWER_CONNECTED POWER_DISCONNECTED
      else if action = POWER_DISCONNECTED then swap_white POWER_DISCONNECTED POWER_CONNECTED
      else if action = USER_UNLOCKED then white_insert USER_UNLOCKED
      else ret ())"

definition state_events :: "string list" where
  "state_events = [SCREEN_ON, SCREEN_OFF, CHARGING, DISCHARGING, POWER_CONNECTED, POWER_DISCONNECTED, USER_UNLOCKED]"

definition ce_CheckCondition :: "collect_env \<Rightarrow> OnDemandCondition \<Rightarrow> bool K" where
  "ce_CheckCondition e condition = do {
     modC (\<lambda>c. c \<lparr> commonEventConditionExtraData := sm_touch [] (cond_name condition) (commonEventConditionExtraData c) \<rparr>);
     stateMap \<leftarrow> gets (\<lambda>s. sm_get [] (cond_name condition) (commonEventConditionExtraData (common s)));
     if \<exists>(key, profileValue) \<in> set (cond_extraMessages condition).
          \<not> CheckLogicRelationship (ce_strToInt e) (sm_get [] key stateMap) profileValue
     then ret False
     else do {
       modC (\<lambda>c. c \<lparr> commonEventConditionValue := sm_touch [] (cond_name condition) (commonEventConditionValue c) \<rparr>);
       v \<leftarrow> gets (\<lambda>s. sm_get [] (cond_name condition) (commonEventConditionValue (common s)));
       if v \<noteq> cond_value condition \<and> cond_value condition \<noteq> [] then ret False
       else if cond_name condition \<in> set state_events
         then gets (\<lambda>s. sm_count (cond_name condition) (commonEventWhitelist (common s)))
       else ret True } }"

definition GetParamFromWant :: "string \<Rightarrow> CommonEventData \<Rightarrow> string" where
  "GetParamFromWant key want =
     (let valueInt = want_int want key (-1);
          valueString = (if valueInt = -1 then want_string want key else to_string valueInt)
      in if want_bool want key False then ''true''
         else if \<not> want_bool want key True then ''false''
         else valueString)"

definition SaveOnDemandConditionExtraData :: "CommonEventData \<Rightarrow> unit K" where
  "SaveOnDemandConditionExtraData d = modC (\<lambda>c. c \<lparr>
     commonEventConditionValue := sm_ins (want_action d) (to_string (ced_code d)) (commonEventConditionValue c),
     commonEventConditionExtraData := sm_ins (want_action d)
       (map (\<lambda>(key, v). (key, GetParamFromWant key d)) (sm_get [] (want_action d) (commonEventConditionExtraData c)))
       (commonEventConditionExtraData c) \<rparr>)"

section \<open>Extra data\<close>

definition ce_GetOnDemandReasonExtraData :: "int \<Rightarrow> OnDemandReasonExtraData option K" where
  "ce_GetOnDemandReasonExtraData dataId = gets (\<lambda>s. sm_find dataId (extraDatas (common s)))"

definition ce_CheckExtraMessage :: "collect_env \<Rightarrow> int \<Rightarrow> OnDemandEvent \<Rightarrow> bool K" where
  "ce_CheckExtraMessage e dataId profileEvent = do {
     extraData \<leftarrow> ce_GetOnDemandReasonExtraData dataId;
     ret (case extraData of None \<Rightarrow> False
       | Some x \<Rightarrow> \<forall>(key, profileValue) \<in> set (extraMessages profileEvent).
           CheckLogicRelationship (ce_strToInt e) (sm_get [] key (xd_want x)) profileValue) }"

definition GenerateExtraDataIdLocked :: "int K" where
  "GenerateExtraDataIdLocked = do {
     modC (\<lambda>c. c \<lparr> lastExtraDataId := (let i = lastExtraDataId c + 1 in if i > MAX_EXTRA_DATA_ID then 1 else i) \<rparr>);
     gets (\<lambda>s. lastExtraDataId (common s)) }"

definition want_map :: "CommonEventData \<Rightarrow> (string, string) smap" where
  "want_map d =
     (let m = foldl (\<lambda>m key. sm_ins key (GetParamFromWant key d) m) [] (want_keys d);
          m = sm_ins UID (to_string (want_int d UID (-1))) m;
          m = sm_ins NET_TYPE (to_string (want_int d NET_TYPE (-1))) m;
          m = sm_ins BUNDLE_NAME (want_bundle d) m
      in sm_ins COMMON_EVENT_ACTION_NAME (want_action d) m)"

definition SaveOnDemandReasonExtraData :: "collect_env \<Rightarrow> CommonEventData \<Rightarrow> int K" where
  "SaveOnDemandReasonExtraData e d = do {
     dataId \<leftarrow> GenerateExtraDataIdLocked;
     modC (\<lambda>c. c \<lparr> extraDatas := sm_ins dataId \<lparr> xd_code = ced_code d, xd_data = ced_data d, xd_want = want_map d \<rparr> (extraDatas c) \<rparr>);
     present \<leftarrow> gets (\<lambda>s. ce_workHandler (common s) \<noteq> None);
     if \<not> present then ret (-1)
     else do {
       ce_SendDelayed e REMOVE_EXTRA_DATA_EVENT dataId REMOVE_EXTRA_DATA_DELAY_TIME;
       ret dataId } }"

definition remove_id :: "int \<Rightarrow> (int, int list) smap \<Rightarrow> (int, int list) smap" where
  "remove_id dataId m = filter (\<lambda>(sa, ids). ids \<noteq> []) (map (\<lambda>(sa, ids). (sa, remove1 dataId ids)) m)"

definition RemoveSaExtraDataId :: "int \<Rightarrow> unit K" where
  "RemoveSaExtraDataId dataId = modC (\<lambda>c. c \<lparr> saExtraDataIdMap := remove_id dataId (saExtraDataIdMap c) \<rparr>)"

definition RemoveOnDemandReasonExtraData :: "int \<Rightarrow> unit K" where
  "RemoveOnDemandReasonExtraData dataId = do {
     modC (\<lambda>c. c \<lparr> extraDatas := sm_erase dataId (extraDatas c) \<rparr>);
     RemoveSaExtraDataId dataId }"

definition ce_SaveSaExtraDataId :: "int \<Rightarrow> int \<Rightarrow> unit K" where
  "ce_SaveSaExtraDataId said dataId = modC (\<lambda>c. c \<lparr> saExtraDataIdMap :=
     sm_ins said (sm_get [] said (saExtraDataIdMap c) @ [dataId]) (saExtraDataIdMap c) \<rparr>)"

definition GetCacheCommonEventSa :: "OnDemandEvent \<Rightarrow> SaControlInfo list \<Rightarrow> int list" where
  "GetCacheCommonEventSa event saControlList =
     (if eventId event \<noteq> COMMON_EVENT \<or> extraDataId event = -1 then []
      else map sc_saId (filter sc_cacheCommonEvent saControlList))"

definition ce_SaveCacheCommonEventSaExtraId :: "OnDemandEvent \<Rightarrow> SaControlInfo list \<Rightarrow> unit K" where
  "ce_SaveCacheCommonEventSaExtraId event saControlList =
     for_each (GetCacheCommonEventSa event saControlList) (\<lambda>said. ce_SaveSaExtraDataId said (extraDataId event))"

definition ce_ClearSaExtraDataId :: "int \<Rightarrow> unit K" where
  "ce_ClearSaExtraDataId said = modC (\<lambda>c. c \<lparr> saExtraDataIdMap := sm_erase said (saExtraDataIdMap c) \<rparr>)"

definition ce_GetSaExtraDataIdList :: "int \<Rightarrow> string \<Rightarrow> (SamgrErrCode \<times> int list) K" where
  "ce_GetSaExtraDataIdList said eventName = do {
     temp \<leftarrow> gets (\<lambda>s. sm_find said (saExtraDataIdMap (common s)));
     case temp of
       None \<Rightarrow> ret (ERR_OK, [])
     | Some ids \<Rightarrow>
         if eventName = [] then ret (ERR_OK, ids)
         else do {
           found \<leftarrow> collect ids (\<lambda>i. do {
             extraData \<leftarrow> ce_GetOnDemandReasonExtraData i;
             ret (case extraData of None \<Rightarrow> None
               | Some x \<Rightarrow> if sm_get [] COMMON_EVENT_ACTION_NAME (xd_want x) \<noteq> eventName then None else Some i) });
           ret (ERR_OK, found) } }"

section \<open>Reclaiming IPC threads\<close>

definition TriggerSystemIPCThreadReclaim :: "unit K" where
  "TriggerSystemIPCThreadReclaim = modC (\<lambda>c. c \<lparr> reclaims := Suc (reclaims c) \<rparr>)"

definition SendKernalReclaimIpcThread :: "unit K" where
  "SendKernalReclaimIpcThread = modC (\<lambda>c. c \<lparr> reclaimThreads := Suc (reclaimThreads c) \<rparr>)"

text \<open>
  The thread looks at \<^verbatim>\<open>isCancel_\<close> every two seconds of 130; \<open>cancelled i\<close> is what it reads in second \<open>i\<close>.
\<close>
fun reclaim_waits :: "(nat \<Rightarrow> bool) \<Rightarrow> nat list \<Rightarrow> bool" where
  "reclaim_waits cancelled [] = True"
| "reclaim_waits cancelled (i # rest) = (if cancelled i then False else reclaim_waits cancelled rest)"

definition run_reclaim_thread :: "(nat \<Rightarrow> bool) \<Rightarrow> unit K" where
  "run_reclaim_thread cancelled = do {
     onlyif (reclaim_waits cancelled (map (\<lambda>i. 2 * i) [0..<65])) TriggerSystemIPCThreadReclaim;
     modC (\<lambda>c. c \<lparr> isTriggerTaskStart := False, reclaimThreads := reclaimThreads c - 1 \<rparr>) }"

definition StartReclaimIpcThreadWork :: "collect_env \<Rightarrow> CommonEventData \<Rightarrow> unit K" where
  "StartReclaimIpcThreadWork e d =
     (if foreign_user e then ret ()
      else do {
        isTrigger \<leftarrow>
          (if want_action d = SCREEN_OFF then do { modC (\<lambda>c. c \<lparr> isCancel := False \<rparr>); ret True }
           else if want_action d = SCREEN_ON then do { modC (\<lambda>c. c \<lparr> isCancel := True \<rparr>); ret False }
           else if want_action d = COMMON_RECENT_EVENT \<and> ced_data d = COMMON_RECENT_CLEAR_ALL then do {
             modC (\<lambda>c. c \<lparr> isCancel := False \<rparr>); TriggerSystemIPCThreadReclaim; ret True }
           else ret False);
        onlyif isTrigger (do {
          started \<leftarrow> gets (\<lambda>s. isTriggerTaskStart (common s));
          modC (\<lambda>c. c \<lparr> isTriggerTaskStart := True \<rparr>);
          onlyif (\<not> started) SendKernalReclaimIpcThread }) })"

text \<open>
  One round of \<^verbatim>\<open>MonitorCpuUsageThread\<close>: \<open>loads0\<close> and \<open>loads1\<close> are the averages of \<^verbatim>\<open>sysinfo\<close>, fixed-point numbers with 16
  fractional bits in an \<^verbatim>\<open>unsigned long\<close>; \<open>low_usage\<close> says that the float \<^verbatim>\<open>GetCpuUsage\<close> returns is above 0 and at most 10.
\<close>
definition cpu_idle :: "64 word \<Rightarrow> 64 word \<Rightarrow> 64 word \<Rightarrow> bool \<Rightarrow> bool" where
  "cpu_idle coreNum loads0 loads1 low_usage \<longleftrightarrow>
     (let baseLoad = push_bit 16 coreNum in
      loads0 - baseLoad < push_bit 16 1 \<and> loads0 < loads1 \<and> low_usage)"

definition monitor_round :: "64 word \<Rightarrow> (64 word \<times> 64 word) option \<Rightarrow> bool \<Rightarrow> unit K" where
  "monitor_round coreNum sysinfo low_usage = (case sysinfo of
     None \<Rightarrow> ret ()
   | Some (loads0, loads1) \<Rightarrow> onlyif (cpu_idle coreNum loads0 loads1 low_usage) TriggerSystemIPCThreadReclaim)"

section \<open>Events received and tasks\<close>

definition ce_OnReceiveEvent :: "collect_env \<Rightarrow> CommonEventData \<Rightarrow> unit K" where
  "ce_OnReceiveEvent e d = do {
     SaveAction (want_action d);
     dataId \<leftarrow> SaveOnDemandReasonExtraData e d;
     SaveOnDemandConditionExtraData d;
     coll_ReportEvent e ((mk_event COMMON_EVENT (want_action d) (to_string (ced_code d))) \<lparr> extraDataId := dataId \<rparr>);
     StartReclaimIpcThreadWork e d }"

definition ce_ProcessEvent :: "collect_env \<Rightarrow> int \<Rightarrow> int \<Rightarrow> unit K" where
  "ce_ProcessEvent e event dataId =
     (if event \<noteq> INIT_EVENT \<and> event \<noteq> REMOVE_EXTRA_DATA_EVENT \<and> event \<noteq> SUB_COMMON_EVENT then ret ()
      else if event = REMOVE_EXTRA_DATA_EVENT then RemoveOnDemandReasonExtraData dataId
      else if event = SUB_COMMON_EVENT then do { _ \<leftarrow> CreateCommonEventSubscriberLocked e; ret () }
      else do { _ \<leftarrow> on_host (SubscribeSystemAbility (ce_env e) CES_ID (Some (ce_listener e))); ret () })"

end
