(* ===== verification/Collect_Manager.thy ===== *)
theory Collect_Manager
  imports Timed_Collect Collect_Plugins Common_Event_Collect On_Demand_Codec
begin

text \<open>
  The collect manager (\<^verbatim>\<open>collect/device_status_collect_manager.cpp\<close>): the profiles with their start and stop events, the
  table of plugins, the list of abilities that an event starts or stops, policies that are read and updated at run
  time, and the manager's operations that go through it (\<^verbatim>\<open>base_system_ability_manager.cpp\<close>,
  \<^verbatim>\<open>system_ability_manager_util.cpp\<close>). A virtual call of a plugin is a case distinction on its event number.

  The last part is the transition system of the manager together with its collectors: a step is a call of the outside,
  a task of one of the queues, or a step of the manager whose calls of the collect manager are delivered to it.
\<close>

section \<open>Virtual methods of the plugins\<close>

definition plugin_OnStart :: "collect_env \<Rightarrow> int \<Rightarrow> SamgrErrCode K" where
  "plugin_OnStart e i =
     (if i = PARAM then param_OnStart e else if i = DEVICE_ONLINE then net_OnStart e
      else if i = COMMON_EVENT then ce_OnStart e else if i = SETTING_SWITCH then switch_OnStart e
      else if i = TIMED_EVENT then timed_OnStart e else ref_OnStart)"

definition plugin_OnStop :: "collect_env \<Rightarrow> int \<Rightarrow> SamgrErrCode K" where
  "plugin_OnStop e i =
     (if i = PARAM then param_OnStop else if i = DEVICE_ONLINE then net_OnStop e
      else if i = COMMON_EVENT then ce_OnStop e else if i = SETTING_SWITCH then switch_OnStop e
      else if i = TIMED_EVENT then timed_OnStop else ref_OnStop)"

definition plugin_CheckCondition :: "collect_env \<Rightarrow> int \<Rightarrow> OnDemandCondition \<Rightarrow> bool K" where
  "plugin_CheckCondition e i condition =
     (if i = PARAM then ret (param_CheckCondition e condition) else if i = DEVICE_ONLINE then net_CheckCondition condition
      else if i = COMMON_EVENT then ce_CheckCondition e condition else ret False)"

definition plugin_CheckExtraMessage :: "collect_env \<Rightarrow> int \<Rightarrow> int \<Rightarrow> OnDemandEvent \<Rightarrow> bool K" where
  "plugin_CheckExtraMessage e i dataId profileEvent =
     (if i = COMMON_EVENT then ce_CheckExtraMessage e dataId profileEvent else ret True)"

definition plugin_AddCollectEvent :: "collect_env \<Rightarrow> int \<Rightarrow> OnDemandEvent list \<Rightarrow> SamgrErrCode K" where
  "plugin_AddCollectEvent e i events =
     (if i = PARAM then param_AddCollectEvent e events else if i = COMMON_EVENT then ce_AddCollectEvent e events
      else if i = SETTING_SWITCH then switch_AddCollectEvent e events
      else if i = TIMED_EVENT then timed_AddCollectEvent e events else ret ERR_OK)"

definition plugin_RemoveUnusedEvent :: "collect_env \<Rightarrow> int \<Rightarrow> OnDemandEvent \<Rightarrow> SamgrErrCode K" where
  "plugin_RemoveUnusedEvent e i event =
     (if i = PARAM then param_RemoveUnusedEvent e event else if i = COMMON_EVENT then ce_RemoveUnusedEvent event
      else if i = TIMED_EVENT then timed_RemoveUnusedEvent event else ret ERR_OK)"

definition IsExistInPluginMap :: "int \<Rightarrow> bool K" where
  "IsExistInPluginMap i = gets (\<lambda>s. sm_count i (collectPluginMap s))"

section \<open>Start and stop\<close>

definition FilterOnDemandSaProfiles :: "SaProfile list \<Rightarrow> unit K" where
  "FilterOnDemandSaProfiles saProfiles = for_each saProfiles (\<lambda>saProfile.
     if start_onDemandEvents (startOnDemand saProfile) = [] \<and> stop_onDemandEvents (stopOnDemand saProfile) = [] then ret ()
     else modify (\<lambda>s. s \<lparr> onDemandSaProfiles := onDemandSaProfiles s @
       [\<lparr> cm_saId = saId saProfile, startOnDemandEvents = start_onDemandEvents (startOnDemand saProfile),
          stopOnDemandEvents = stop_onDemandEvents (stopOnDemand saProfile), cm_cacheCommonEvent = cacheCommonEvent saProfile \<rparr>] \<rparr>))"

definition set_plugin :: "int \<Rightarrow> unit K" where
  "set_plugin i = modify (\<lambda>s. s \<lparr> collectPluginMap := set_insert i (collectPluginMap s) \<rparr>)"

definition StartCollect :: "collect_env \<Rightarrow> unit K" where
  "StartCollect e = do {
     h \<leftarrow> gets collectHandler;
     if h = None then ret () else post_collect (PostTask (ce_accept e) (Some StartCollectTask)) }"

definition coll_Init :: "collect_env \<Rightarrow> SaProfile list \<Rightarrow> unit K" where
  "coll_Init e saProfiles = do {
     FilterOnDemandSaProfiles saProfiles;
     modify (\<lambda>s. s \<lparr> collectHandler := Some (FFRTHandler QOS_DEFAULT) \<rparr>);
     param_Init saProfiles; set_plugin PARAM;
     set_plugin DEVICE_ONLINE;
     ce_Init saProfiles; set_plugin COMMON_EVENT;
     switch_Init saProfiles; set_plugin SETTING_SWITCH;
     timed_Init saProfiles; set_plugin TIMED_EVENT;
     ref_Init saProfiles; set_plugin UNREF_EVENT;
     StartCollect e }"

definition coll_UnInit :: "collect_env \<Rightarrow> unit K" where
  "coll_UnInit e = do {
     modify (\<lambda>s. s \<lparr> collectHandler := None \<rparr>);
     plugins \<leftarrow> gets collectPluginMap;
     for_each (sm_keys plugins) (\<lambda>i. do { _ \<leftarrow> plugin_OnStop e i; ret () });
     modify (\<lambda>s. s \<lparr> collectPluginMap := [] \<rparr>) }"

definition coll_CleanFfrt :: "unit K" where
  "coll_CleanFfrt = do {
     plugins \<leftarrow> gets collectPluginMap;
     for_each (sm_keys plugins) (\<lambda>i. if i = DEVICE_ONLINE then net_CleanFfrt else if i = COMMON_EVENT then ce_CleanFfrt else ret ());
     modify (\<lambda>s. s \<lparr> collectHandler := map_option CleanFfrt (collectHandler s) \<rparr>) }"

definition coll_SetFfrt :: "unit K" where
  "coll_SetFfrt = do {
     plugins \<leftarrow> gets collectPluginMap;
     for_each (sm_keys plugins) (\<lambda>i. if i = DEVICE_ONLINE then net_SetFfrt else if i = COMMON_EVENT then ce_SetFfrt else ret ());
     modify (\<lambda>s. s \<lparr> collectHandler := map_option (SetFfrt QOS_DEFAULT) (collectHandler s) \<rparr>) }"

section \<open>The abilities that an event concerns\<close>

definition coll_IsSameEvent :: "OnDemandEvent \<Rightarrow> OnDemandEvent \<Rightarrow> bool" where
  "coll_IsSameEvent ev1 ev2 \<longleftrightarrow> eventId ev1 = eventId ev2 \<and> ev_name ev1 = ev_name ev2 \<and> persistence ev1 = persistence ev2
     \<and> (ev_value ev1 = ev_value ev2 \<or> ev_value ev2 = [])"

definition IsSameEventName :: "OnDemandEvent \<Rightarrow> OnDemandEvent \<Rightarrow> bool" where
  "IsSameEventName ev1 ev2 \<longleftrightarrow>
     (if eventId ev1 \<noteq> TIMED_EVENT then eventId ev1 = eventId ev2 \<and> ev_name ev1 = ev_name ev2
      else eventId ev1 = eventId ev2 \<and> ev_name ev1 = ev_name ev2 \<and> ev_value ev1 = ev_value ev2
        \<and> persistence ev1 = persistence ev2)"

fun check_conditions :: "collect_env \<Rightarrow> OnDemandCondition list \<Rightarrow> bool K" where
  "check_conditions e [] = ret True"
| "check_conditions e (condition # rest) = do {
     present \<leftarrow> IsExistInPluginMap (cond_eventId condition);
     if \<not> present then ret False
     else do {
       ok \<leftarrow> plugin_CheckCondition e (cond_eventId condition) condition;
       if \<not> ok then ret False else check_conditions e rest } }"

definition CheckConditions :: "collect_env \<Rightarrow> OnDemandEvent \<Rightarrow> bool K" where
  "CheckConditions e onDemandEvent = check_conditions e (conditions onDemandEvent)"

definition CheckExtraMessages :: "collect_env \<Rightarrow> OnDemandEvent \<Rightarrow> OnDemandEvent \<Rightarrow> bool K" where
  "CheckExtraMessages e ev1 ev2 = do {
     present \<leftarrow> IsExistInPluginMap (eventId ev1);
     if \<not> present then ret False else plugin_CheckExtraMessage e (eventId ev1) (extraDataId ev1) ev2 }"

definition matches :: "collect_env \<Rightarrow> OnDemandEvent \<Rightarrow> OnDemandEvent \<Rightarrow> bool K" where
  "matches e event ev =
     (if \<not> coll_IsSameEvent event ev then ret False
      else do { ok \<leftarrow> CheckConditions e ev; if \<not> ok then ret False else CheckExtraMessages e event ev })"

text \<open>The loop over the events of a profile, up to the first that matches.\<close>
fun first_match :: "collect_env \<Rightarrow> OnDemandEvent \<Rightarrow> OnDemandEvent list \<Rightarrow> OnDemandEvent option K" where
  "first_match e event [] = ret None"
| "first_match e event (ev # evs) = do { ok \<leftarrow> matches e event ev; if ok then ret (Some ev) else first_match e event evs }"

definition control_of :: "int \<Rightarrow> CollMgrSaProfile \<Rightarrow> OnDemandEvent \<Rightarrow> SaControlInfo" where
  "control_of i profile ev = \<lparr> ondemandId = i, sc_saId = cm_saId profile, sc_enableOnce = ev_enableOnce ev,
     sc_loadPriority = ev_loadPriority ev, sc_cacheCommonEvent = cm_cacheCommonEvent profile \<rparr>"

definition profile_controls :: "collect_env \<Rightarrow> OnDemandEvent \<Rightarrow> CollMgrSaProfile \<Rightarrow> SaControlInfo list K" where
  "profile_controls e event profile = do {
     start \<leftarrow> first_match e event (startOnDemandEvents profile);
     stop \<leftarrow> first_match e event (stopOnDemandEvents profile);
     ret ((case start of None \<Rightarrow> [] | Some ev \<Rightarrow> [control_of START_ON_DEMAND profile ev])
        @ (case stop of None \<Rightarrow> [] | Some ev \<Rightarrow> [control_of STOP_ON_DEMAND profile ev])) }"

fun concat_controls :: "collect_env \<Rightarrow> OnDemandEvent \<Rightarrow> CollMgrSaProfile list \<Rightarrow> SaControlInfo list K" where
  "concat_controls e event [] = ret []"
| "concat_controls e event (profile # profiles) = do {
     cs \<leftarrow> profile_controls e event profile;
     rest \<leftarrow> concat_controls e event profiles;
     ret (cs @ rest) }"

definition GetSaControlListByEvent :: "collect_env \<Rightarrow> OnDemandEvent \<Rightarrow> SaControlInfo list K" where
  "GetSaControlListByEvent e event = do {
     profiles \<leftarrow> gets onDemandSaProfiles;
     concat_controls e event profiles }"

definition START_POLICY :: int where "START_POLICY = 0"
definition STOP_POLICY :: int where "STOP_POLICY = 1"

definition TypeAndSaidToString :: "int \<Rightarrow> int \<Rightarrow> string" where
  "TypeAndSaidToString type said =
     (if type = START_POLICY then ''start#'' @ to_string said @ ''#''
      else if type = STOP_POLICY then ''stop#'' @ to_string said @ ''#''
      else [])"

text \<open>The outputs keep their initial values \<open>START_POLICY\<close> and \<open>-1\<close> when the text cannot be read.\<close>
definition StringToTypeAndSaid :: "string \<Rightarrow> int \<times> int" where
  "StringToTypeAndSaid eventStr =
     (if CHR ''#'' \<notin> set eventStr then (START_POLICY, -1)
      else let strType = takeWhile (\<lambda>c. c \<noteq> CHR ''#'') eventStr; rest = drop (length strType + 1) eventStr in
        if strType = ''start'' then (START_POLICY, atoi rest)
        else if strType = ''stop'' then (STOP_POLICY, atoi rest)
        else (START_POLICY, -1))"

text \<open>\<^verbatim>\<open>OnDemandEvent::ToString\<close>.\<close>
definition event_string :: "OnDemandEvent \<Rightarrow> string" where "event_string event = ev_name event @ ''_'' @ ev_value event"

definition GetSaControlListByPersistEvent :: "collect_env \<Rightarrow> OnDemandEvent \<Rightarrow> SaControlInfo list K" where
  "GetSaControlListByPersistEvent e event =
     (if \<not> ce_manager e then ret []
      else do {
        v \<leftarrow> ObtainString e (event_string event) [];
        if v = [] then ret []
        else ret (map (\<lambda>str. let (type, said) = StringToTypeAndSaid str in
               mk_control (if type = START_POLICY then START_ON_DEMAND else STOP_ON_DEMAND) said) (ce_split e v)) })"

definition SortSaControlListByLoadPriority :: "SaControlInfo list \<Rightarrow> SaControlInfo list" where
  "SortSaControlListByLoadPriority saControlList = sort_key sc_loadPriority saControlList"

definition coll_controls :: "collect_env \<Rightarrow> OnDemandEvent \<Rightarrow> SaControlInfo list K" where
  "coll_controls e event = do {
     l1 \<leftarrow> GetSaControlListByEvent e event;
     l2 \<leftarrow> GetSaControlListByPersistEvent e event;
     ret (SortSaControlListByLoadPriority (l1 @ l2)) }"

section \<open>Extra data\<close>

definition coll_RemoveWhiteCommonEvent :: "unit K" where
  "coll_RemoveWhiteCommonEvent = do { present \<leftarrow> IsExistInPluginMap COMMON_EVENT; onlyif present ce_RemoveWhiteCommonEvent }"

definition coll_GetOnDemandReasonExtraData :: "int \<Rightarrow> OnDemandReasonExtraData option K" where
  "coll_GetOnDemandReasonExtraData dataId = do {
     present \<leftarrow> IsExistInPluginMap COMMON_EVENT;
     if \<not> present then ret None else ce_GetOnDemandReasonExtraData dataId }"

definition coll_SaveSaExtraDataId :: "int \<Rightarrow> int \<Rightarrow> unit K" where
  "coll_SaveSaExtraDataId said dataId = do {
     present \<leftarrow> IsExistInPluginMap COMMON_EVENT; onlyif present (ce_SaveSaExtraDataId said dataId) }"

definition coll_ClearSaExtraDataId :: "int \<Rightarrow> unit K" where
  "coll_ClearSaExtraDataId said = do { present \<leftarrow> IsExistInPluginMap COMMON_EVENT; onlyif present (ce_ClearSaExtraDataId said) }"

definition coll_SaveCacheCommonEventSaExtraId :: "OnDemandEvent \<Rightarrow> SaControlInfo list \<Rightarrow> unit K" where
  "coll_SaveCacheCommonEventSaExtraId event saControlList = do {
     present \<leftarrow> IsExistInPluginMap COMMON_EVENT;
     onlyif present (ce_SaveCacheCommonEventSaExtraId event saControlList) }"

definition coll_GetSaExtraDataIdList :: "int \<Rightarrow> string \<Rightarrow> (SamgrErrCode \<times> int list) K" where
  "coll_GetSaExtraDataIdList said eventName = do {
     present \<leftarrow> IsExistInPluginMap COMMON_EVENT;
     if \<not> present then ret (ERR_INVALID_VALUE, []) else ce_GetSaExtraDataIdList said eventName }"

section \<open>Calls of the manager\<close>

text \<open>What the manager calls of the collect manager, recorded as effects of the manager.\<close>
definition deliver :: "effect \<Rightarrow> unit K" where
  "deliver x = (case x of
       SaveCacheCommonEventSaExtraId event controls \<Rightarrow> coll_SaveCacheCommonEventSaExtraId event controls
     | ClearSaExtraDataId said \<Rightarrow> coll_ClearSaExtraDataId said
     | RemoveWhiteCommonEvent \<Rightarrow> coll_RemoveWhiteCommonEvent
     | _ \<Rightarrow> ret ())"

definition host_call :: "'a M \<Rightarrow> 'a K" where
  "host_call m = do {
     n \<leftarrow> gets (\<lambda>s. length (effects (host s)));
     r \<leftarrow> on_host m;
     new \<leftarrow> gets (\<lambda>s. drop n (effects (host s)));
     for_each new deliver;
     ret r }"

text \<open>The closure that \<open>coll_ReportEvent\<close> posts.\<close>
definition run_report :: "collect_env \<Rightarrow> OnDemandEvent \<Rightarrow> unit K" where
  "run_report e event = do {
     saControlList \<leftarrow> coll_controls e event;
     if saControlList = [] then ret ()
     else onlyif (ce_manager e) (host_call (ProcessOnDemandEvent (ce_env e) event saControlList)) }"

section \<open>Policies\<close>

definition group_events :: "OnDemandEvent list \<Rightarrow> (int, OnDemandEvent list) smap" where
  "group_events events = foldl (\<lambda>m ev. sm_ins (eventId ev) (sm_get [] (eventId ev) m @ [ev]) m) [] events"

fun add_groups :: "collect_env \<Rightarrow> (int, OnDemandEvent list) smap \<Rightarrow> SamgrErrCode K" where
  "add_groups e [] = ret ERR_OK"
| "add_groups e ((i, events) # rest) = do {
     r \<leftarrow> plugin_AddCollectEvent e i events;
     if r \<noteq> ERR_OK then ret r else add_groups e rest }"

definition AddCollectEvents :: "collect_env \<Rightarrow> OnDemandEvent list \<Rightarrow> SamgrErrCode K" where
  "AddCollectEvents e events =
     (if events = [] then ret ERR_OK
      else do {
        plugins \<leftarrow> gets collectPluginMap;
        if \<exists>ev \<in> set events. \<not> sm_count (eventId ev) plugins then ret ERR_INVALID_VALUE
        else add_groups e (group_events events) })"

definition find_profile :: "int \<Rightarrow> CollMgrSaProfile list \<Rightarrow> CollMgrSaProfile option" where
  "find_profile said profiles = find (\<lambda>p. cm_saId p = said) profiles"

text \<open>Assignment through the iterator of the first profile with the identifier.\<close>
fun upd_profile :: "int \<Rightarrow> (CollMgrSaProfile \<Rightarrow> CollMgrSaProfile) \<Rightarrow> CollMgrSaProfile list \<Rightarrow> CollMgrSaProfile list" where
  "upd_profile said f [] = []"
| "upd_profile said f (p # ps) = (if cm_saId p = said then f p # ps else p # upd_profile said f ps)"

definition GetOnDemandEvents :: "int \<Rightarrow> int \<Rightarrow> (SamgrErrCode \<times> OnDemandEvent list) K" where
  "GetOnDemandEvents said type = do {
     profiles \<leftarrow> gets onDemandSaProfiles;
     ret (case find_profile said profiles of
         None \<Rightarrow> (ERR_INVALID_VALUE, [])
       | Some p \<Rightarrow>
           if type = START_POLICY then (ERR_OK, startOnDemandEvents p)
           else if type = STOP_POLICY then (ERR_OK, stopOnDemandEvents p)
           else (ERR_INVALID_VALUE, [])) }"

definition event_used :: "OnDemandEvent \<Rightarrow> CollMgrSaProfile list \<Rightarrow> bool" where
  "event_used event profiles \<longleftrightarrow> (\<exists>p \<in> set profiles. \<exists>ev \<in> set (startOnDemandEvents p @ stopOnDemandEvents p). IsSameEventName event ev)"

definition CheckEventUsedLocked :: "OnDemandEvent \<Rightarrow> bool K" where
  "CheckEventUsedLocked event = gets (\<lambda>s. event_used event (onDemandSaProfiles s))"

definition RemoveUnusedEventsLocked :: "collect_env \<Rightarrow> OnDemandEvent list \<Rightarrow> unit K" where
  "RemoveUnusedEventsLocked e events = for_each events (\<lambda>event. do {
     present \<leftarrow> IsExistInPluginMap (eventId event);
     onlyif present (do {
       eventUsed \<leftarrow> CheckEventUsedLocked event;
       onlyif (\<not> eventUsed) (do { _ \<leftarrow> plugin_RemoveUnusedEvent e (eventId event) event; ret () }) }) })"

definition NeedPersistOnDemandEvent :: "OnDemandEvent \<Rightarrow> bool" where
  "NeedPersistOnDemandEvent event \<longleftrightarrow> eventId event = TIMED_EVENT \<and> ev_name event = ''timedevent'' \<and> persistence event"

definition persist_one :: "collect_env \<Rightarrow> int \<Rightarrow> int \<Rightarrow> OnDemandEvent \<Rightarrow> unit K" where
  "persist_one e said type event =
     (if \<not> NeedPersistOnDemandEvent event then ret ()
      else do {
        known \<leftarrow> IsExist e (event_string event);
        if known then do {
          old \<leftarrow> ObtainString e (event_string event) [];
          _ \<leftarrow> SaveString e (event_string event) (old @ ''+'' @ TypeAndSaidToString type said);
          ret () }
        else do { _ \<leftarrow> SaveString e (event_string event) (TypeAndSaidToString type said); ret () } })"

definition PersistOnDemandEvent :: "collect_env \<Rightarrow> int \<Rightarrow> int \<Rightarrow> OnDemandEvent list \<Rightarrow> unit K" where
  "PersistOnDemandEvent e said type events =
     (if \<not> ce_manager e then ret () else for_each events (persist_one e said type))"

definition UpdateOnDemandEvents :: "collect_env \<Rightarrow> int \<Rightarrow> int \<Rightarrow> OnDemandEvent list \<Rightarrow> SamgrErrCode K" where
  "UpdateOnDemandEvents e said type events = do {
     profiles \<leftarrow> gets onDemandSaProfiles;
     case find_profile said profiles of
       None \<Rightarrow> ret ERR_INVALID_VALUE
     | Some p \<Rightarrow> do {
         r \<leftarrow> AddCollectEvents e events;
         if r \<noteq> ERR_OK then ret ERR_INVALID_VALUE
         else if type = START_POLICY then do {
           modify (\<lambda>s. s \<lparr> onDemandSaProfiles := upd_profile said (\<lambda>p. p \<lparr> startOnDemandEvents := events \<rparr>) (onDemandSaProfiles s) \<rparr>);
           PersistOnDemandEvent e said type events;
           RemoveUnusedEventsLocked e (startOnDemandEvents p);
           ret ERR_OK }
         else if type = STOP_POLICY then do {
           modify (\<lambda>s. s \<lparr> onDemandSaProfiles := upd_profile said (\<lambda>p. p \<lparr> stopOnDemandEvents := events \<rparr>) (onDemandSaProfiles s) \<rparr>);
           PersistOnDemandEvent e said type events;
           RemoveUnusedEventsLocked e (stopOnDemandEvents p);
           ret ERR_OK }
         else ret ERR_INVALID_VALUE } }"

definition CheckAllowUpdate :: "int \<Rightarrow> CommonSaProfile \<Rightarrow> bool" where
  "CheckAllowUpdate type prof \<longleftrightarrow> type = START_POLICY \<and> startAllowUpdate prof \<or> type = STOP_POLICY \<and> stopAllowUpdate prof"

definition ConvertToOnDemandEvent :: "SystemAbilityOnDemandEvent \<Rightarrow> OnDemandEvent" where
  "ConvertToOnDemandEvent from = (mk_event (ode_eventId from) (ode_name from) (ode_value from))
     \<lparr> persistence := ode_persistence from,
       conditions := map (\<lambda>c. \<lparr> cond_eventId = odc_eventId c, cond_name = odc_name c, cond_value = odc_value c, cond_extraMessages = [] \<rparr>)
         (ode_conditions from),
       ev_enableOnce := ode_enableOnce from \<rparr>"

definition ConvertToSystemAbilityOnDemandEvent :: "OnDemandEvent \<Rightarrow> SystemAbilityOnDemandEvent" where
  "ConvertToSystemAbilityOnDemandEvent from = \<lparr> ode_eventId = eventId from, ode_name = ev_name from, ode_value = ev_value from,
     ode_persistence = persistence from,
     ode_conditions = map (\<lambda>c. \<lparr> odc_eventId = cond_eventId c, odc_name = cond_name c, odc_value = cond_value c \<rparr>) (conditions from),
     ode_enableOnce = ev_enableOnce from \<rparr>"

text \<open>The checks that both policy requests start with; \<open>None\<close> when they pass.\<close>
definition policy_check :: "collect_env \<Rightarrow> int \<Rightarrow> int \<Rightarrow> SamgrErrCode option K" where
  "policy_check e said type = do {
     prof \<leftarrow> on_host (GetSaProfile said);
     present \<leftarrow> on_host (getM collectManager);
     ret (case prof of
         None \<Rightarrow> Some ERR_INVALID_VALUE
       | Some q \<Rightarrow>
           if \<not> CheckCallerProcess (ce_env e) q then Some ERR_INVALID_VALUE
           else if \<not> CheckAllowUpdate type q then Some ERR_PERMISSION_DENIED
           else if \<not> present then Some ERR_INVALID_VALUE
           else None) }"

definition GetOnDemandPolicy :: "collect_env \<Rightarrow> int \<Rightarrow> int \<Rightarrow> (SamgrErrCode \<times> SystemAbilityOnDemandEvent list) K" where
  "GetOnDemandPolicy e said type = do {
     refused \<leftarrow> policy_check e said type;
     case refused of
       Some code \<Rightarrow> ret (code, [])
     | None \<Rightarrow> do {
         (r, events) \<leftarrow> GetOnDemandEvents said type;
         if r \<noteq> ERR_OK then ret (r, []) else ret (ERR_OK, map ConvertToSystemAbilityOnDemandEvent events) } }"

definition UpdateOnDemandPolicy :: "collect_env \<Rightarrow> int \<Rightarrow> int \<Rightarrow> SystemAbilityOnDemandEvent list \<Rightarrow> SamgrErrCode K" where
  "UpdateOnDemandPolicy e said type events = do {
     refused \<leftarrow> policy_check e said type;
     case refused of
       Some code \<Rightarrow> ret code
     | None \<Rightarrow> UpdateOnDemandEvents e said type (map ConvertToOnDemandEvent events) }"

definition mgr_GetOnDemandReasonExtraData :: "int \<Rightarrow> OnDemandReasonExtraData option K" where
  "mgr_GetOnDemandReasonExtraData dataId = do {
     present \<leftarrow> on_host (getM collectManager);
     if \<not> present then ret None else coll_GetOnDemandReasonExtraData dataId }"

definition GetCommonEventExtraDataIdlist :: "int \<Rightarrow> string \<Rightarrow> (SamgrErrCode \<times> int list) K" where
  "GetCommonEventExtraDataIdlist said eventName = do {
     cached \<leftarrow> on_host (IsCacheCommonEvent said);
     if \<not> cached then ret (ERR_OK, [])
     else do {
       present \<leftarrow> on_host (getM collectManager);
       if \<not> present then ret (ERR_INVALID_VALUE, []) else coll_GetSaExtraDataIdList said eventName } }"

section \<open>Tasks and steps\<close>

definition run_collect_task :: "collect_env \<Rightarrow> collect_task \<Rightarrow> unit K" where
  "run_collect_task e t = (case t of
       StartCollectTask \<Rightarrow> do {
         plugins \<leftarrow> gets collectPluginMap;
         for_each (sm_keys plugins) (\<lambda>i. do { _ \<leftarrow> plugin_OnStart e i; ret () }) }
     | ReportTask event \<Rightarrow> run_report e event
     | LoopTask persist interval \<Rightarrow> run_loop_task e persist interval
     | TimedTask persist timeString \<Rightarrow> run_timed_task e persist timeString
     | WatchParametersTask \<Rightarrow> WatchParameters e
     | SubscribeSwitchTask \<Rightarrow> do { _ \<leftarrow> SubscribeSwitchEvent e; ret () }
     | UnrefTask controls \<Rightarrow>
         if ce_manager e then host_call (ProcessOnDemandEvent (ce_env e) (mk_event UNREF_EVENT [] []) controls) else ret ())"

text \<open>Calls of the outside: of the parameter, device, event and timer services, of clients, and of the manager.\<close>
datatype collect_call =
    ParamChanged string string
  | ParamWatcherAdded int
  | RefTimer
  | EventServiceAdded int
  | EventListenerAdded int
  | SwitchEvent string int
  | DmDied
  | DeviceOnline string
  | DeviceOffline string
  | DeviceReady
  | ReceiveEvent CommonEventData
  | ReclaimThread "nat \<Rightarrow> bool"
  | MonitorRound "64 word" "(64 word \<times> 64 word) option" bool
  | UpdatePolicy int int "SystemAbilityOnDemandEvent list"
  | GetPolicy int int
  | GetExtraData int
  | GetExtraIds int string
  | CleanQueues
  | SetQueues
  | ManagerRequest request

definition run_call :: "collect_env \<Rightarrow> collect_call \<Rightarrow> unit K" where
  "run_call e c = (case c of
       ParamChanged k v \<Rightarrow> DeviceParamCallback e k v
     | ParamWatcherAdded a \<Rightarrow> param_OnAddSystemAbility e a
     | RefTimer \<Rightarrow> IdentifyUnrefOndemand e
     | EventServiceAdded a \<Rightarrow> ces_OnAddSystemAbility e a
     | EventListenerAdded a \<Rightarrow> ce_OnAddSystemAbility e a
     | SwitchEvent action code \<Rightarrow> switch_OnReceiveEvent e action code
     | DmDied \<Rightarrow> net_OnRemoteDied e
     | DeviceOnline d \<Rightarrow> OnDeviceOnline e d
     | DeviceOffline d \<Rightarrow> OnDeviceOffline e d
     | DeviceReady \<Rightarrow> OnDeviceReady e
     | ReceiveEvent d \<Rightarrow> ce_OnReceiveEvent e d
     | ReclaimThread f \<Rightarrow> run_reclaim_thread f
     | MonitorRound n l u \<Rightarrow> monitor_round n l u
     | UpdatePolicy a ty evs \<Rightarrow> do { _ \<leftarrow> UpdateOnDemandPolicy e a ty evs; ret () }
     | GetPolicy a ty \<Rightarrow> do { _ \<leftarrow> GetOnDemandPolicy e a ty; ret () }
     | GetExtraData i \<Rightarrow> do { _ \<leftarrow> mgr_GetOnDemandReasonExtraData i; ret () }
     | GetExtraIds a n \<Rightarrow> do { _ \<leftarrow> GetCommonEventExtraDataIdlist a n; ret () }
     | CleanQueues \<Rightarrow> coll_CleanFfrt
     | SetQueues \<Rightarrow> coll_SetFfrt
     | ManagerRequest r \<Rightarrow> host_call (run_request (ce_env e) r))"

inductive collect_step :: "collector \<Rightarrow> collector \<Rightarrow> bool" where
  call: "collect_step s (exec (run_call e c) s)"
| task: "collectHandler s = Some h \<Longrightarrow> queue_start k h = Some (t, h') \<Longrightarrow>
    collect_step s (exec (run_collect_task e t) (s \<lparr> collectHandler := Some h' \<rparr>))"
| alarm: "wakeTasks s = xs @ (d, t) # ys \<Longrightarrow>
    collect_step s (exec (run_collect_task e t) (s \<lparr> wakeTasks := xs @ ys \<rparr>))"
| event_task: "ce_workHandler (common s) = Some h \<Longrightarrow> queue_start k h = Some (ProcessEventTask i d, h') \<Longrightarrow>
    collect_step s (exec (ce_ProcessEvent e i d) (s \<lparr> common := (common s) \<lparr> ce_workHandler := Some h' \<rparr> \<rparr>))"
| network_task: "net_workHandler (networking s) = Some h \<Longrightarrow> queue_start k h = Some (ProcessEventTask i d, h') \<Longrightarrow>
    collect_step s (exec (net_ProcessEvent e i) (s \<lparr> networking := (networking s) \<lparr> net_workHandler := Some h' \<rparr> \<rparr>))"
| manager_task: "get_queue q (host s) = Some h \<Longrightarrow> queue_start k h = Some (t, h') \<Longrightarrow>
    collect_step s (exec (host_call (run_task e t)) (s \<lparr> host := put_queue q h' (host s) \<rparr>))"

definition empty_collector :: "(string, pref_value) smap \<Rightarrow> samgr \<Rightarrow> collector" where
  "empty_collector file m = \<lparr> collectPluginMap = [], collectHandler = None, wakeTasks = [], onDemandSaProfiles = [], prefs = file,
     timed = \<lparr> nonPersitenceLoopEventSet = [], persitenceLoopEventSet = [], nonPersitenceLoopTasks = [], persitenceLoopTasks = [],
       timeInfos = [] \<rparr>,
     param = \<lparr> pendingParams = [], params = [], lowMemPrepareList = [] \<rparr>,
     switches = \<lparr> needListenSwitchEvent = False, switchEventSubscriber = False, isListenSwitchEvent = False \<rparr>,
     refCount = \<lparr> unrefUnloadSaList = [], ref_timer = False \<rparr>,
     networking = \<lparr> net_workHandler = None, initCallback = False, stateCallback = None \<rparr>,
     common = \<lparr> commonEventNames = [], ce_workHandler = None, unsubHandler = None, commonEventSubscriber = None,
       commonEventWhitelist = [], commonEventConditionExtraData = [], commonEventConditionValue = [], lastExtraDataId = 0,
       extraDatas = [], saExtraDataIdMap = [], isTriggerTaskStart = False, reclaimThreads = 0, isCancel = False,
       keepRunning = False, reclaims = 0 \<rparr>,
     coll_faulted = False, host = m \<rparr>"

text \<open>The collect manager is initialised on the preferences \<open>file\<close> that the previous run has left.\<close>
inductive collect_reachable :: "SaProfile list \<Rightarrow> collector \<Rightarrow> bool" for profiles where
  init: "sm_ok file \<Longrightarrow> collect_reachable profiles
    (exec (coll_Init e profiles) (empty_collector file (boot (ce_env e) profiles this)))"
| step: "collect_reachable profiles s \<Longrightarrow> collect_step s s' \<Longrightarrow> collect_reachable profiles s'"

end
