(* ===== verification/Collect_Inv.thy ===== *)
theory Collect_Inv
  imports Collect_Manager
begin

text \<open>
  What the plugins for timed and for common events keep true of their own state, and the changes they make to it: one
  lemma per kind of change. The operations are related to these in \<open>Collect_Contract\<close>.
\<close>

section \<open>Invariants of the plugins\<close>

text \<open>
  Intervals are at least half a minute, an hour for awake events; an interval is remembered only while an event asks for
  it; a stored closure is the loop task of its interval.
\<close>
definition stored_ok :: "bool \<Rightarrow> (int, collect_task option) smap \<Rightarrow> bool" where
  "stored_ok p m \<longleftrightarrow> sm_ok m \<and> (\<forall>i x. sm_find i m = Some x \<longrightarrow> MIN_INTERVAL \<le> i \<and> (x = None \<or> x = Some (LoopTask p i)))"

definition intervals_ok :: "int oset \<Rightarrow> bool" where
  "intervals_ok m \<longleftrightarrow> sm_ok m \<and> (\<forall>i. sm_count i m \<longrightarrow> MIN_INTERVAL \<le> i)"

definition infos_ok :: "(int, TimeInfo) smap \<Rightarrow> bool" where
  "infos_ok m \<longleftrightarrow> sm_ok m \<and> (\<forall>i x. sm_find i m = Some x \<longrightarrow> MIN_INTERVAL \<le> i \<and> (ti_awake x \<longrightarrow> MIN_AWAKE_INTERVAL \<le> i)
     \<and> (ti_normal x \<or> ti_awake x))"

definition timed_ok :: "timed_collect \<Rightarrow> bool" where
  "timed_ok t \<longleftrightarrow> intervals_ok (nonPersitenceLoopEventSet t) \<and> intervals_ok (persitenceLoopEventSet t)
     \<and> stored_ok False (nonPersitenceLoopTasks t) \<and> stored_ok True (persitenceLoopTasks t) \<and> infos_ok (timeInfos t)"

definition task_ok :: "collect_task \<Rightarrow> bool" where
  "task_ok t \<longleftrightarrow> (case t of LoopTask p i \<Rightarrow> MIN_INTERVAL \<le> i | _ \<Rightarrow> True)"

text \<open>Of each pair of opposite events exactly one is in the white list; extra data has the numbers 1 to 1000000000.\<close>
definition white_ok :: "common_collect \<Rightarrow> bool" where
  "white_ok c \<longleftrightarrow>
     sm_count SCREEN_ON (commonEventWhitelist c) \<noteq> sm_count SCREEN_OFF (commonEventWhitelist c)
   \<and> sm_count CHARGING (commonEventWhitelist c) \<noteq> sm_count DISCHARGING (commonEventWhitelist c)
   \<and> sm_count POWER_CONNECTED (commonEventWhitelist c) \<noteq> sm_count POWER_DISCONNECTED (commonEventWhitelist c)"

definition extra_ok :: "common_collect \<Rightarrow> bool" where
  "extra_ok c \<longleftrightarrow> 0 \<le> lastExtraDataId c \<and> lastExtraDataId c \<le> MAX_EXTRA_DATA_ID \<and> sm_ok (extraDatas c)
   \<and> (\<forall>i. sm_count i (extraDatas c) \<longrightarrow> 1 \<le> i \<and> i \<le> MAX_EXTRA_DATA_ID)
   \<and> sm_ok (saExtraDataIdMap c) \<and> (\<forall>a ids. sm_find a (saExtraDataIdMap c) = Some ids \<longrightarrow> ids \<noteq> [])"

definition common_ok :: "common_collect \<Rightarrow> bool" where "common_ok c \<longleftrightarrow> white_ok c \<and> extra_ok c"

definition queue_ok :: "collector \<Rightarrow> bool" where
  "queue_ok s \<longleftrightarrow> (\<forall>h. collectHandler s = Some h \<longrightarrow> (\<forall>(k, d, x) \<in> set (submitted h). task_ok x)) \<and> (\<forall>(d, x) \<in> set (wakeTasks s). task_ok x)"

definition collect_inv :: "collector \<Rightarrow> bool" where
  "collect_inv s \<longleftrightarrow> timed_ok (timed s) \<and> common_ok (common s) \<and> queue_ok s"

definition opt_ok :: "collect_task option \<Rightarrow> bool" where "opt_ok t \<longleftrightarrow> (case t of None \<Rightarrow> True | Some x \<Rightarrow> task_ok x)"

section \<open>The changes that keep them\<close>

lemma stored_okD: "stored_ok p m \<Longrightarrow> opt_ok (sm_get None i m)"
  by (fastforce simp: stored_ok_def sm_get_def opt_ok_def task_ok_def split: option.splits collect_task.splits)

lemma timed_ok_get: "timed_ok t \<Longrightarrow> opt_ok (sm_get None i (persitenceLoopTasks t))" "timed_ok t \<Longrightarrow> opt_ok (sm_get None i (nonPersitenceLoopTasks t))"
  by (auto simp: timed_ok_def stored_okD)

lemma timed_ok_interval: "timed_ok t \<Longrightarrow> sm_count i (nonPersitenceLoopEventSet t) \<Longrightarrow> MIN_INTERVAL \<le> i"
  "timed_ok t \<Longrightarrow> sm_count i (persitenceLoopEventSet t) \<Longrightarrow> MIN_INTERVAL \<le> i"
  "timed_ok t \<Longrightarrow> sm_count i (persitenceLoopTasks t) \<Longrightarrow> MIN_INTERVAL \<le> i"
  by (auto simp: timed_ok_def intervals_ok_def stored_ok_def sm_count_def)

lemma timed_ok_insert:
  assumes "timed_ok t" "MIN_INTERVAL \<le> i"
  shows "timed_ok (t \<lparr> nonPersitenceLoopEventSet := set_insert i (nonPersitenceLoopEventSet t) \<rparr>)"
    "timed_ok (t \<lparr> persitenceLoopEventSet := set_insert i (persitenceLoopEventSet t) \<rparr>)"
    "timed_ok (t \<lparr> nonPersitenceLoopTasks := sm_ins i (Some (LoopTask False i)) (nonPersitenceLoopTasks t) \<rparr>)"
    "timed_ok (t \<lparr> persitenceLoopTasks := sm_ins i (Some (LoopTask True i)) (persitenceLoopTasks t) \<rparr>)"
    "timed_ok (t \<lparr> nonPersitenceLoopTasks := sm_touch None i (nonPersitenceLoopTasks t) \<rparr>)"
    "timed_ok (t \<lparr> persitenceLoopTasks := sm_touch None i (persitenceLoopTasks t) \<rparr>)"
proof -
  note d = timed_ok_def intervals_ok_def stored_ok_def
  show "timed_ok (t \<lparr> nonPersitenceLoopEventSet := set_insert i (nonPersitenceLoopEventSet t) \<rparr>)"
    "timed_ok (t \<lparr> persitenceLoopEventSet := set_insert i (persitenceLoopEventSet t) \<rparr>)"
    "timed_ok (t \<lparr> nonPersitenceLoopTasks := sm_ins i (Some (LoopTask False i)) (nonPersitenceLoopTasks t) \<rparr>)"
    "timed_ok (t \<lparr> persitenceLoopTasks := sm_ins i (Some (LoopTask True i)) (persitenceLoopTasks t) \<rparr>)"
    using assms by (auto simp: d split: if_splits)
  have touch: "stored_ok p m \<Longrightarrow> stored_ok p (sm_touch None i m)" for p m
    using assms(2) by (auto simp: stored_ok_def sm_get_def split: if_splits option.splits)
  then show "timed_ok (t \<lparr> nonPersitenceLoopTasks := sm_touch None i (nonPersitenceLoopTasks t) \<rparr>)"
    "timed_ok (t \<lparr> persitenceLoopTasks := sm_touch None i (persitenceLoopTasks t) \<rparr>)"
    using assms(1) by (auto simp: timed_ok_def)
qed

lemma infos_ok_upd:
  assumes "infos_ok m" "\<And>x. sm_find i m = Some x \<Longrightarrow> MIN_INTERVAL \<le> i \<and> (ti_awake (f x) \<longrightarrow> MIN_AWAKE_INTERVAL \<le> i) \<and> (ti_normal (f x) \<or> ti_awake (f x))"
  shows "infos_ok (sm_upd i f m)"
  using assms by (auto simp: infos_ok_def split: if_splits)

lemma infos_ok_save:
  assumes "infos_ok m" "MIN_INTERVAL \<le> i" "n = LOOP_EVENT \<or> n = AWAKE_LOOP_EVENT" "n = AWAKE_LOOP_EVENT \<longrightarrow> MIN_AWAKE_INTERVAL \<le> i"
  shows "infos_ok (let m = sm_touch \<lparr> ti_normal = False, ti_awake = False \<rparr> i m;
          m = (if n = LOOP_EVENT then sm_upd i (\<lambda>i. i \<lparr> ti_normal := True \<rparr>) m else m)
      in if n = AWAKE_LOOP_EVENT then sm_upd i (\<lambda>i. i \<lparr> ti_awake := True \<rparr>) m else m)"
  using assms
  by (auto simp: infos_ok_def Let_def sm_get_def LOOP_EVENT_def AWAKE_LOOP_EVENT_def split: if_splits option.splits)

lemma timed_ok_remove:
  assumes "timed_ok t"
  shows "timed_ok (t \<lparr> nonPersitenceLoopEventSet := sm_erase i (nonPersitenceLoopEventSet t),
      nonPersitenceLoopTasks := sm_erase i (nonPersitenceLoopTasks t) \<rparr>)"
    "timed_ok (t \<lparr> persitenceLoopEventSet := sm_erase i (persitenceLoopEventSet t),
      persitenceLoopTasks := sm_erase i (persitenceLoopTasks t) \<rparr>)"
    "timed_ok (t \<lparr> timeInfos := sm_erase i (timeInfos t) \<rparr>)"
  using assms by (auto simp: timed_ok_def intervals_ok_def stored_ok_def infos_ok_def split: if_splits)

lemma timed_ok_infos: "timed_ok t \<Longrightarrow> infos_ok m \<Longrightarrow> timed_ok (t \<lparr> timeInfos := m \<rparr>)"
  by (simp add: timed_ok_def)

lemma common_ok_other [simp]:
  "common_ok (c \<lparr> commonEventNames := a \<rparr>) = common_ok c" "common_ok (c \<lparr> ce_workHandler := b \<rparr>) = common_ok c"
  "common_ok (c \<lparr> unsubHandler := b \<rparr>) = common_ok c" "common_ok (c \<lparr> commonEventSubscriber := d \<rparr>) = common_ok c"
  "common_ok (c \<lparr> commonEventConditionExtraData := f \<rparr>) = common_ok c" "common_ok (c \<lparr> commonEventConditionValue := g \<rparr>) = common_ok c"
  "common_ok (c \<lparr> isTriggerTaskStart := x \<rparr>) = common_ok c" "common_ok (c \<lparr> isCancel := x \<rparr>) = common_ok c"
  "common_ok (c \<lparr> keepRunning := x \<rparr>) = common_ok c" "common_ok (c \<lparr> reclaims := n \<rparr>) = common_ok c"
  "common_ok (c \<lparr> reclaimThreads := n \<rparr>) = common_ok c"
  by (simp_all add: common_ok_def white_ok_def extra_ok_def)

lemma white_erase_ok: "common_ok c \<Longrightarrow> common_ok (c \<lparr> commonEventWhitelist := sm_erase USER_UNLOCKED (commonEventWhitelist c) \<rparr>)"
  "common_ok c \<Longrightarrow> common_ok (c \<lparr> commonEventWhitelist := set_insert USER_UNLOCKED (commonEventWhitelist c) \<rparr>)"
  by (auto simp: common_ok_def white_ok_def extra_ok_def event_names)

lemma white_swap_ok:
  assumes "common_ok c"
    and "(a, b) \<in> {(SCREEN_ON, SCREEN_OFF), (CHARGING, DISCHARGING), (POWER_CONNECTED, POWER_DISCONNECTED)} \<or>
      (b, a) \<in> {(SCREEN_ON, SCREEN_OFF), (CHARGING, DISCHARGING), (POWER_CONNECTED, POWER_DISCONNECTED)}"
  shows "common_ok (c \<lparr> commonEventWhitelist := sm_erase b (set_insert a (commonEventWhitelist c)) \<rparr>)"
  using assms by (auto simp: common_ok_def white_ok_def extra_ok_def event_names)

lemma remove_id_Cons: "remove_id d ((a, ids) # m) = (if remove1 d ids = [] then remove_id d m else (a, remove1 d ids) # remove_id d m)"
  by (simp add: remove_id_def)

lemma remove_id_find:
  "sm_ok m \<Longrightarrow> sm_find a (remove_id d m) = (case sm_find a m of None \<Rightarrow> None | Some ids \<Rightarrow> if remove1 d ids = [] then None else Some (remove1 d ids))"
proof (induction m)
  case Nil show ?case by (simp add: remove_id_def)
next
  case (Cons kv m)
  obtain k ids where kv: "kv = (k, ids)" by (cases kv)
  have "sm_ok m" "sm_find k m = None" using Cons.prems by (auto simp: kv sm_ok_def sm_keys_def sm_find_def map_of_eq_None_iff)
  with Cons.IH show ?case by (auto simp: kv remove_id_Cons sm_find_Cons split: option.splits)
qed

lemma remove_id_ok: "sm_ok m \<Longrightarrow> sm_ok (remove_id d m)"
proof -
  assume "sm_ok m"
  moreover have "map fst (map (\<lambda>(sa, ids). (sa, remove1 d ids)) m) = map fst m" by (induction m) auto
  ultimately show ?thesis unfolding sm_ok_def sm_keys_def remove_id_def by (metis distinct_map_filter sorted_filter)
qed

lemma extra_ok_changes:
  assumes "common_ok c"
  shows "common_ok (c \<lparr> lastExtraDataId := (let i = lastExtraDataId c + 1 in if i > MAX_EXTRA_DATA_ID then 1 else i) \<rparr>)"
    "common_ok (c \<lparr> extraDatas := sm_erase i (extraDatas c) \<rparr>)"
    "common_ok (c \<lparr> saExtraDataIdMap := sm_erase a (saExtraDataIdMap c) \<rparr>)"
    "common_ok (c \<lparr> saExtraDataIdMap := sm_ins a (ids @ [i]) (saExtraDataIdMap c) \<rparr>)"
    "common_ok (c \<lparr> saExtraDataIdMap := remove_id i (saExtraDataIdMap c) \<rparr>)"
  using assms by (auto simp: remove_id_find remove_id_ok common_ok_def white_ok_def extra_ok_def Let_def MAX_EXTRA_DATA_ID_def
    split: if_splits option.splits)

definition next_id :: "int \<Rightarrow> int" where "next_id i = (if i + 1 > MAX_EXTRA_DATA_ID then 1 else i + 1)"

lemma extra_ok_save:
  assumes "common_ok c"
  shows "common_ok (c \<lparr> lastExtraDataId := next_id (lastExtraDataId c), extraDatas := sm_ins (next_id (lastExtraDataId c)) x (extraDatas c) \<rparr>)"
proof -
  have "1 \<le> next_id (lastExtraDataId c) \<and> next_id (lastExtraDataId c) \<le> MAX_EXTRA_DATA_ID"
    using assms by (auto simp: next_id_def common_ok_def extra_ok_def MAX_EXTRA_DATA_ID_def)
  with assms show ?thesis by (auto simp: common_ok_def white_ok_def extra_ok_def)
qed

end
