(* ===== verification/Collect_Contract.thy ===== *)
theory Collect_Contract
  imports Collect_Inv
begin

text \<open>
  What the collect component may change, as three locales over a reflexive and transitive relation \<open>R\<close> between the states
  before and after a program. \<open>plugin_contract\<close> allows a plugin to change its own part, the preferences and the collect
  queue; \<open>host_contract\<close> adds steps of the manager, \<open>collect_contract\<close> changes of the profiles and of the table of plugins.
  Every operation is shown once, inside the locales, to respect \<open>R\<close> and to keep the invariant \<open>collect_inv\<close>;
  \<open>Collect_Props\<close> reads off what holds in every state of the composed system.
\<close>

section \<open>Plugins\<close>

locale plugin_contract =
  fixes R :: "collector \<Rightarrow> collector \<Rightarrow> bool"
  assumes R_refl: "R s s"
    and R_trans: "R s1 s2 \<Longrightarrow> R s2 s3 \<Longrightarrow> R s1 s3"
    and R_timed: "R s (s \<lparr> timed := t \<rparr>)"
    and R_common: "R s (s \<lparr> common := c \<rparr>)"
    and R_param: "R s (s \<lparr> param := p \<rparr>)"
    and R_switches: "R s (s \<lparr> switches := w \<rparr>)"
    and R_refCount: "R s (s \<lparr> refCount := r \<rparr>)"
    and R_networking: "R s (s \<lparr> networking := n \<rparr>)"
    and R_prefs: "R s (s \<lparr> prefs := f \<rparr>)"
    and R_fault: "R s (s \<lparr> coll_faulted := b \<rparr>)"
    and R_wake: "R s (s \<lparr> wakeTasks := ws \<rparr>)"
    and R_handler: "R s (s \<lparr> collectHandler := h \<rparr>)"
begin

definition resp :: "'a K \<Rightarrow> bool" where
  "resp m \<longleftrightarrow> (\<forall>s. collect_inv s \<longrightarrow> collect_inv (exec m s) \<and> R s (exec m s))"

lemma respD: "resp m \<Longrightarrow> collect_inv s \<Longrightarrow> collect_inv (exec m s)" "resp m \<Longrightarrow> collect_inv s \<Longrightarrow> R s (exec m s)"
  by (simp_all add: resp_def)

lemma resp_ret: "resp (ret x)" by (simp add: resp_def run_simps R_refl)

text \<open>The value that a read returns is known to come from a state with the invariant.\<close>
lemma resp_read: "(\<And>s. collect_inv s \<Longrightarrow> resp (g (f s))) \<Longrightarrow> resp (gets f \<bind> g)"
  by (simp add: resp_def run_simps)

lemma resp_gets: "resp (gets f)" by (simp add: resp_def run_simps R_refl)

lemma resp_bind: "resp m \<Longrightarrow> (\<And>x. resp (g x)) \<Longrightarrow> resp (m \<bind> g)"
  by (auto simp: resp_def run_simps intro: R_trans)

lemma resp_if: "(b \<Longrightarrow> resp m) \<Longrightarrow> (\<not> b \<Longrightarrow> resp n) \<Longrightarrow> resp (if b then m else n)" by simp

lemma resp_when: "(b \<Longrightarrow> resp m) \<Longrightarrow> resp (onlyif b m)" by (simp add: onlyif_def resp_ret)

lemma resp_option: "(x = None \<Longrightarrow> resp m) \<Longrightarrow> (\<And>v. x = Some v \<Longrightarrow> resp (n v)) \<Longrightarrow> resp (case x of None \<Rightarrow> m | Some v \<Rightarrow> n v)"
  by (cases x) auto

lemma resp_prod: "(\<And>a b. x = (a, b) \<Longrightarrow> resp (m a b)) \<Longrightarrow> resp (case x of (a, b) \<Rightarrow> m a b)" by (cases x) auto

lemma resp_Let: "(\<And>v. v = x \<Longrightarrow> resp (m v)) \<Longrightarrow> resp (Let x m)" by simp

lemma resp_for_each: "(\<And>x. x \<in> set xs \<Longrightarrow> resp (g x)) \<Longrightarrow> resp (for_each xs g)"
  by (induction xs) (auto intro!: resp_ret resp_bind)

lemma resp_collect: "(\<And>x. x \<in> set xs \<Longrightarrow> resp (g x)) \<Longrightarrow> resp (collect xs g)"
  by (induction xs) (auto intro!: resp_ret resp_bind)

lemmas resp_intros = resp_ret resp_read resp_bind resp_gets resp_if resp_when resp_option resp_prod resp_Let resp_for_each resp_collect

text \<open>The changes of the parts.\<close>
lemma resp_modT: "(\<And>t. timed_ok t \<Longrightarrow> timed_ok (f t)) \<Longrightarrow> resp (modT f)"
  by (simp add: resp_def run_simps R_timed collect_inv_def queue_ok_def)

lemma resp_modC: "(\<And>c. common_ok c \<Longrightarrow> common_ok (f c)) \<Longrightarrow> resp (modC f)"
  by (simp add: resp_def run_simps R_common collect_inv_def queue_ok_def)

lemma resp_mods: "resp (modPar f)" "resp (modSw g)" "resp (modNet j)"
  "resp (modify (\<lambda>s. s \<lparr> refCount := k s \<rparr>))" "resp (modify (\<lambda>s. s \<lparr> prefs := l s \<rparr>))"
  by (simp_all add: resp_def run_simps R_param R_switches R_networking R_refCount R_prefs collect_inv_def queue_ok_def)

text \<open>Posting.\<close>
lemma submitted_post:
  "(k, d, x) \<in> set (submitted (snd (PostTask a t h))) \<Longrightarrow> (k, d, x) \<in> set (submitted h) \<or> t = Some x"
  "(k, d, x) \<in> set (submitted (snd (PostDelayTask a t u h))) \<Longrightarrow> (k, d, x) \<in> set (submitted h) \<or> t = Some x"
  by (auto simp: PostTask_def PostDelayTask_def queue_submit_def split: option.splits if_splits)

lemma post_resp:
  assumes "\<And>h k d x. (k, d, x) \<in> set (submitted (snd (f h))) \<Longrightarrow> (k, d, x) \<in> set (submitted h) \<or> task_ok x"
  shows "resp (post_collect f)"
  unfolding resp_def post_collect_def
  using assms by (fastforce simp: run_simps collect_inv_def queue_ok_def R_fault R_handler split: option.splits)

lemma report_resp: "resp (coll_ReportEvent e event)"
  unfolding coll_ReportEvent_def
  by (intro resp_intros post_resp) (auto dest!: submitted_post simp: task_ok_def)

lemma post_task_resp: "task_ok t \<Longrightarrow> resp (coll_PostTask e t)"
  unfolding coll_PostTask_def by (intro post_resp) (auto dest!: submitted_post)

lemma delay_resp: "opt_ok t \<Longrightarrow> resp (coll_PostDelayTask e t n)"
  unfolding coll_PostDelayTask_def by (intro resp_intros post_resp) (auto simp: opt_ok_def dest!: submitted_post)

lemma time_post_resp: "opt_ok t \<Longrightarrow> resp (time_PostTask e t n)"
  unfolding time_PostTask_def
  by (intro resp_intros) (auto simp: resp_def run_simps R_wake collect_inv_def queue_ok_def opt_ok_def)

lemma alarm_resp: "opt_ok t \<Longrightarrow> resp (post_alarm e t n)"
  unfolding post_alarm_def by (intro resp_intros time_post_resp delay_resp)

lemma by_time_info_resp: "opt_ok t \<Longrightarrow> resp (PostDelayTaskByTimeInfo e t i n)"
  unfolding PostDelayTaskByTimeInfo_def by (intro resp_intros alarm_resp delay_resp)

lemma pref_resp: "resp (pref_Save e k v)" "resp (SaveLong e k n)" "resp (SaveString e k x)" "resp (pref_Remove e k)"
  "resp (ObtainAll e)" "resp (ObtainString e k d)" "resp (IsExist e k)"
  unfolding SaveLong_def SaveString_def pref_Save_def pref_Remove_def ObtainAll_def ObtainString_def IsExist_def
  by (intro resp_intros resp_mods)+

lemma persist_delay_resp: "opt_ok t \<Longrightarrow> resp (PostPersistenceDelayTask e t i n)"
  unfolding PostPersistenceDelayTask_def by (intro resp_intros pref_resp by_time_info_resp)

section \<open>Timed events\<close>

lemma report_info_resp: "resp (ReportEventByTimeInfo e i p)"
  unfolding ReportEventByTimeInfo_def by (intro resp_intros report_resp)

lemma save_infos_resp:
  assumes "MIN_INTERVAL \<le> i" "ev_name ev = LOOP_EVENT \<or> ev_name ev = AWAKE_LOOP_EVENT" "ev_name ev = AWAKE_LOOP_EVENT \<longrightarrow> MIN_AWAKE_INTERVAL \<le> i"
  shows "resp (SaveTimedInfos ev i)"
  unfolding SaveTimedInfos_def using assms
  by (intro resp_modT timed_ok_infos infos_ok_save) (auto simp: timed_ok_def)

lemma save_event_resp: "resp (SaveTimedEvent ev)"
  unfolding SaveTimedEvent_def
  by (intro resp_intros save_infos_resp resp_modT timed_ok_insert) auto

lemma timed_init_resp: "resp (timed_Init prs)"
  unfolding timed_Init_def by (intro resp_intros save_event_resp)

lemma stored_resp: "MIN_INTERVAL \<le> i \<Longrightarrow> resp (do { t \<leftarrow> persist_task i; PostPersistenceDelayTask e t i n })"
  "MIN_INTERVAL \<le> i \<Longrightarrow> resp (do { t \<leftarrow> nonpersist_task i; PostDelayTaskByTimeInfo e t i n })"
  unfolding persist_task_def nonpersist_task_def bind_assoc
  by (intro resp_bind [OF resp_modT] resp_read persist_delay_resp by_time_info_resp timed_ok_insert timed_ok_get;
      simp add: collect_inv_def)+

lemma loop_task_resp: "MIN_INTERVAL \<le> i \<Longrightarrow> resp (PostPersistenceLoopTaskLocked e i)"
  "MIN_INTERVAL \<le> i \<Longrightarrow> resp (PostNonPersistenceLoopTaskLocked e i)"
  unfolding PostPersistenceLoopTaskLocked_def PostNonPersistenceLoopTaskLocked_def
  by (intro resp_read resp_if resp_ret resp_bind [OF resp_modT] timed_ok_insert stored_resp; assumption)+

lemma loop_tasks_resp: "resp (PostPersistenceLoopTasks e)" "resp (PostNonPersistenceLoopTasks e)"
  unfolding PostPersistenceLoopTasks_def PostNonPersistenceLoopTasks_def
  by (intro resp_read resp_for_each loop_task_resp timed_ok_interval; simp add: collect_inv_def sm_count_iff)+

lemma run_loop_resp: "resp (run_loop_task e p i)"
  unfolding run_loop_task_def
  by (intro resp_read resp_if resp_ret resp_bind [OF report_info_resp] stored_resp) (auto simp: collect_inv_def intro: timed_ok_interval)

lemma run_timed_resp: "resp (run_timed_task e p t)"
  unfolding run_timed_task_def by (intro resp_intros report_resp pref_resp)

lemma opt_ok_simps: "opt_ok (Some (TimedTask p t))" "opt_ok (Some WatchParametersTask)" "opt_ok (Some SubscribeSwitchTask)"
  "MIN_INTERVAL \<le> i \<Longrightarrow> opt_ok (Some (LoopTask p i))"
  by (simp_all add: opt_ok_def task_ok_def)

lemma persistence_resp: "resp (ProcessPersistenceTimedTask e d t)" "resp (ProcessPersistenceLoopTask e d v t)"
  unfolding ProcessPersistenceTimedTask_def ProcessPersistenceLoopTask_def
  by (intro resp_intros run_timed_resp alarm_resp opt_ok_simps report_info_resp persist_delay_resp by_time_info_resp resp_modT timed_ok_insert;
      simp)+

lemma process_persistence_resp: "resp (process_persistence e m)"
proof (induction e m rule: process_persistence.induct)
  case (2 e k v rest)
  then show ?case by (cases v) (auto intro!: resp_intros persistence_resp simp: Let_def)
qed (simp add: resp_ret)

lemma timed_start_resp: "resp (timed_OnStart e)"
  unfolding timed_OnStart_def ProcessPersistenceTasks_def
  by (intro resp_intros process_persistence_resp loop_tasks_resp pref_resp)

lemma timed_add_resp: "resp (timed_AddCollectEvent e evs)"
proof (induction evs)
  case (Cons ev evs)
  show ?case
    unfolding timed_AddCollectEvent.simps PostPersistenceTimedTaskLocked_def PostNonPersistenceTimedTaskLocked_def
    by (intro resp_intros Cons pref_resp alarm_resp opt_ok_simps save_infos_resp resp_modT timed_ok_insert loop_task_resp; auto)
qed (simp add: resp_ret)

lemma timed_remove_resp: "resp (timed_RemoveUnusedEvent ev)"
proof -
  have "resp (RemoveTimesInfo ev i)" for i
    unfolding RemoveTimesInfo_def
    by (intro resp_modT) (auto simp: timed_ok_def infos_ok_def Let_def split: option.splits if_splits)
  moreover have "resp (RemoveNonPersistenceLoopTask i)" "resp (RemovePersistenceLoopTask i)" for i
    unfolding RemoveNonPersistenceLoopTask_def RemovePersistenceLoopTask_def by (intro resp_modT; simp add: timed_ok_remove)+
  ultimately show ?thesis unfolding timed_RemoveUnusedEvent_def by (intro resp_intros) auto
qed

section \<open>Parameters, references, switches, networking\<close>

lemma param_resp: "resp (param_Init prs)" "resp param_OnStop" "resp (WatchParameters e)" "resp (param_RemoveUnusedEvent e ev)"
  "resp (DeviceParamCallback e k v)" "resp (param_OnAddSystemAbility e a)"
  unfolding param_Init_def CheckLowMemSA_def add_pending_def param_OnStop_def WatchParameters_def param_RemoveUnusedEvent_def
    DeviceParamCallback_def param_OnAddSystemAbility_def
  by (intro resp_intros resp_mods report_resp delay_resp opt_ok_simps)+

lemma param_add_resp: "resp (param_AddCollectEvent e evs)"
  by (induction evs) (auto intro!: resp_intros resp_mods)

lemma ref_resp: "resp (ref_Init prs)" "resp ref_OnStart" "resp ref_OnStop"
  unfolding ref_Init_def ref_OnStart_def ref_OnStop_def by (intro resp_intros resp_mods)+

lemma switch_resp: "resp (switch_Init prs)" "resp (SubscribeSwitchEvent e)" "resp (switch_OnStop e)" "resp (ces_OnAddSystemAbility e a)"
  "resp (switch_OnReceiveEvent e act code)"
  unfolding switch_Init_def InitCommonEventSubscriber_def SubscribeSwitchEvent_def sub_SubscribeSwitchEvent_def switch_OnStop_def
    sub_UnSubscribeSwitchEvent_def ces_OnAddSystemAbility_def switch_OnReceiveEvent_def OnReceiveWifiEvent_def OnReceiveBluetoothEvent_def
  by (intro resp_intros resp_mods delay_resp report_resp opt_ok_simps)+

lemma switch_add_resp: "resp (switch_AddCollectEvent e evs)"
  by (induction evs) (auto intro!: resp_intros switch_resp)

lemma net_small_resp: "resp net_IsOnline" "resp (UpdateDeviceOnlineSet d)" "resp ClearDeviceOnlineSet" "resp net_CleanFfrt" "resp net_SetFfrt"
  "resp (net_SendEvent e i)" "resp (net_SendDelayed e i n)"
  unfolding net_IsOnline_def UpdateDeviceOnlineSet_def ClearDeviceOnlineSet_def net_CleanFfrt_def net_SetFfrt_def net_SendEvent_def net_SendDelayed_def
  by (intro resp_intros resp_mods)+

lemma net_resp: "resp (net_OnStart e)" "resp (net_OnStop e)" "resp (ReportMissedEvents e)" "resp (net_CheckCondition c)" "resp (net_OnRemoteDied e)"
  "resp (OnDeviceOffline e d)" "resp (OnDeviceReady e)"
  unfolding net_OnStart_def net_OnStop_def ReportMissedEvents_def net_CheckCondition_def net_OnRemoteDied_def OnDeviceOffline_def OnDeviceReady_def
  by (intro resp_intros resp_mods net_small_resp report_resp)+

section \<open>Common events\<close>

lemma common_mods:
  "resp (modC (\<lambda>c. c \<lparr> commonEventNames := f1 c \<rparr>))" "resp (modC (\<lambda>c. c \<lparr> ce_workHandler := f2 c \<rparr>))"
  "resp (modC (\<lambda>c. c \<lparr> ce_workHandler := f2 c, unsubHandler := f3 c \<rparr>))" "resp (modC (\<lambda>c. c \<lparr> commonEventSubscriber := f4 c \<rparr>))"
  "resp (modC (\<lambda>c. c \<lparr> commonEventConditionExtraData := f5 c \<rparr>))" "resp (modC (\<lambda>c. c \<lparr> commonEventConditionValue := f6 c \<rparr>))"
  "resp (modC (\<lambda>c. c \<lparr> commonEventConditionValue := f6 c, commonEventConditionExtraData := f5 c \<rparr>))"
  "resp (modC (\<lambda>c. c \<lparr> isTriggerTaskStart := f7 c \<rparr>))" "resp (modC (\<lambda>c. c \<lparr> isTriggerTaskStart := f7 c, reclaimThreads := f8 c \<rparr>))"
  "resp (modC (\<lambda>c. c \<lparr> reclaimThreads := f8 c \<rparr>))" "resp (modC (\<lambda>c. c \<lparr> isCancel := f9 c \<rparr>))"
  "resp (modC (\<lambda>c. c \<lparr> keepRunning := f10 c \<rparr>))" "resp (modC (\<lambda>c. c \<lparr> reclaims := f11 c \<rparr>))"
  by (rule resp_modC; simp)+

lemma ce_small_resp: "resp (ce_SendEvent e i)" "resp (ce_SendDelayed e i d n)" "resp ce_CleanFfrt" "resp ce_SetFfrt" "resp StartMonitorThread"
  "resp StopMonitorThread" "resp (insert_name n')" "resp (CreateCommonEventSubscriberLocked e)" "resp (CleanFailedEventLocked ns)"
  "resp (ce_RemoveUnusedEvent ev)" "resp TriggerSystemIPCThreadReclaim" "resp SendKernalReclaimIpcThread" "resp (run_reclaim_thread f)"
  "resp (SaveOnDemandConditionExtraData d')" "resp (ce_GetOnDemandReasonExtraData i')"
  unfolding ce_SendEvent_def ce_SendDelayed_def ce_CleanFfrt_def ce_SetFfrt_def StartMonitorThread_def StopMonitorThread_def insert_name_def
    CreateCommonEventSubscriberLocked_def CleanFailedEventLocked_def ce_RemoveUnusedEvent_def TriggerSystemIPCThreadReclaim_def
    SendKernalReclaimIpcThread_def run_reclaim_thread_def SaveOnDemandConditionExtraData_def ce_GetOnDemandReasonExtraData_def
  by (intro resp_intros common_mods)+

lemma ce_resp: "resp (ce_OnStart e)" "resp (ce_OnStop e)" "resp (InitCommonEventState ev)" "resp (ce_CheckCondition e c)"
  "resp (ce_CheckExtraMessage e d ev)" "resp (StartReclaimIpcThreadWork e x)" "resp (monitor_round n l u)" "resp (ce_OnAddSystemAbility e a)"
  unfolding ce_OnStart_def ce_OnStop_def InitCommonEventState_def ce_CheckCondition_def ce_CheckExtraMessage_def StartReclaimIpcThreadWork_def
    monitor_round_def ce_OnAddSystemAbility_def
  by (intro resp_intros common_mods ce_small_resp)+

lemma add_names_resp: "resp (AddCommonEventName evs)"
  by (induction evs) (auto intro!: resp_intros ce_small_resp)

lemma ce_add_resp: "resp (ce_AddCollectEvent e evs)"
  unfolding ce_AddCollectEvent_def by (intro resp_intros add_names_resp ce_small_resp)

lemma white_resp: "resp ce_RemoveWhiteCommonEvent" "resp (SaveAction a)"
proof -
  show "resp ce_RemoveWhiteCommonEvent" unfolding ce_RemoveWhiteCommonEvent_def by (intro resp_modC white_erase_ok)
  have swap: "resp (swap_white x y)"
    if "(x, y) \<in> {(SCREEN_ON, SCREEN_OFF), (CHARGING, DISCHARGING), (POWER_CONNECTED, POWER_DISCONNECTED)} \<or>
      (y, x) \<in> {(SCREEN_ON, SCREEN_OFF), (CHARGING, DISCHARGING), (POWER_CONNECTED, POWER_DISCONNECTED)}" for x y
    unfolding resp_def swap_white_def white_insert_def white_erase_def
    using white_swap_ok [OF _ that] by (auto simp: run_simps collect_inv_def queue_ok_def R_common)
  show "resp (SaveAction a)"
    unfolding SaveAction_def
    by (intro resp_intros swap) (auto simp: white_insert_def intro!: resp_modC white_erase_ok)
qed

lemma extra_resp: "resp (RemoveOnDemandReasonExtraData i)" "resp (ce_SaveCacheCommonEventSaExtraId ev l)" "resp (ce_ClearSaExtraDataId a)"
  "resp (ce_SaveSaExtraDataId a i)" "resp (ce_GetSaExtraDataIdList a n)"
  unfolding RemoveOnDemandReasonExtraData_def RemoveSaExtraDataId_def ce_SaveCacheCommonEventSaExtraId_def ce_SaveSaExtraDataId_def
    ce_ClearSaExtraDataId_def ce_GetSaExtraDataIdList_def
  by (intro resp_intros resp_modC extra_ok_changes ce_small_resp; assumption)+

text \<open>The number is fresh data of the state in which it is used.\<close>
lemma save_extra_resp: "resp (SaveOnDemandReasonExtraData e d)"
proof -
  have "resp (do { i \<leftarrow> GenerateExtraDataIdLocked; modC (\<lambda>c. c \<lparr> extraDatas := sm_ins i x (extraDatas c) \<rparr>); g i })" if "\<And>i. resp (g i)" for x g
  proof -
    let ?c = "\<lambda>s. (common s) \<lparr> lastExtraDataId := next_id (lastExtraDataId (common s)),
      extraDatas := sm_ins (next_id (lastExtraDataId (common s))) x (extraDatas (common s)) \<rparr>"
    have eq: "exec (do { i \<leftarrow> GenerateExtraDataIdLocked; modC (\<lambda>c. c \<lparr> extraDatas := sm_ins i x (extraDatas c) \<rparr>); g i }) s
        = exec (g (next_id (lastExtraDataId (common s)))) (s \<lparr> common := ?c s \<rparr>)" for s
      by (simp add: run_simps GenerateExtraDataIdLocked_def next_id_def Let_def)
    have inv: "collect_inv (s \<lparr> common := ?c s \<rparr>)" if "collect_inv s" for s
      using that extra_ok_save [of "common s" x] by (simp add: collect_inv_def queue_ok_def)
    show ?thesis
      unfolding resp_def eq
      by (intro allI impI conjI respD(1) [OF that inv] R_trans [OF R_common respD(2) [OF that inv]])
  qed
  then show ?thesis
    unfolding SaveOnDemandReasonExtraData_def by this (intro resp_intros ce_small_resp)
qed

lemma receive_resp: "resp (ce_OnReceiveEvent e d)"
  unfolding ce_OnReceiveEvent_def by (intro resp_intros white_resp save_extra_resp ce_small_resp ce_resp report_resp)

section \<open>The collect manager\<close>

lemma plugin_resp: "resp (plugin_OnStop e i)" "resp (plugin_CheckCondition e i c)" "resp (plugin_CheckExtraMessage e i d ev)"
  "resp (plugin_AddCollectEvent e i evs)" "resp (plugin_RemoveUnusedEvent e i ev)" "resp (IsExistInPluginMap i)"
  unfolding plugin_OnStop_def plugin_CheckCondition_def plugin_CheckExtraMessage_def plugin_AddCollectEvent_def plugin_RemoveUnusedEvent_def
    IsExistInPluginMap_def timed_OnStop_def
  by (intro resp_intros param_resp param_add_resp ref_resp switch_resp switch_add_resp net_resp ce_resp ce_add_resp ce_small_resp
      timed_add_resp timed_remove_resp)+

lemma conditions_resp: "resp (check_conditions e cs)"
  by (induction cs) (auto intro!: resp_intros plugin_resp)

lemma matches_resp: "resp (matches e event ev)"
  unfolding matches_def CheckConditions_def CheckExtraMessages_def by (intro resp_intros conditions_resp plugin_resp)

lemma first_match_resp: "resp (first_match e event evs)"
  by (induction evs) (auto intro!: resp_intros matches_resp)

lemma concat_controls_resp: "resp (concat_controls e event ps)"
  by (induction ps) (auto intro!: resp_intros first_match_resp simp: profile_controls_def)

lemma controls_resp: "resp (coll_controls e event)"
  unfolding coll_controls_def GetSaControlListByEvent_def GetSaControlListByPersistEvent_def
  by (intro resp_intros concat_controls_resp pref_resp)

lemma deliver_resp: "resp (deliver x)"
  unfolding deliver_def coll_SaveCacheCommonEventSaExtraId_def coll_ClearSaExtraDataId_def coll_RemoveWhiteCommonEvent_def
  by (cases x; simp only: effect.case; intro resp_intros plugin_resp extra_resp white_resp)

lemma add_groups_resp: "resp (add_groups e m)"
  by (induction e m rule: add_groups.induct) (auto intro!: resp_intros plugin_resp)

lemma add_collect_resp: "resp (AddCollectEvents e evs)"
  unfolding AddCollectEvents_def by (intro resp_intros add_groups_resp)

lemma remove_unused_resp: "resp (RemoveUnusedEventsLocked e evs)"
  unfolding RemoveUnusedEventsLocked_def CheckEventUsedLocked_def by (intro resp_intros plugin_resp)

lemma persist_resp: "resp (PersistOnDemandEvent e a ty evs)"
  unfolding PersistOnDemandEvent_def persist_one_def by (intro resp_intros pref_resp)

lemma reads_resp: "resp (GetOnDemandEvents a ty)" "resp (coll_GetOnDemandReasonExtraData i)" "resp (coll_GetSaExtraDataIdList a n)"
  unfolding GetOnDemandEvents_def coll_GetOnDemandReasonExtraData_def coll_GetSaExtraDataIdList_def
  by (intro resp_intros plugin_resp extra_resp ce_small_resp)+

lemma handler_resp: "(\<And>h. set (submitted (f h)) \<subseteq> set (submitted h)) \<Longrightarrow> resp (modify (\<lambda>s. s \<lparr> collectHandler := map_option f (collectHandler s) \<rparr>))"
  by (fastforce simp: resp_def run_simps R_handler collect_inv_def queue_ok_def)

end

section \<open>The manager\<close>

locale host_contract = plugin_contract +
  assumes R_host: "step\<^sup>*\<^sup>* (host s) m \<Longrightarrow> R s (s \<lparr> host := m \<rparr>)"
begin

lemma host_resp: "(\<And>s. step\<^sup>*\<^sup>* s (exec m s)) \<Longrightarrow> resp (on_host m)"
  by (simp add: resp_def run_simps R_host collect_inv_def queue_ok_def)

lemma request_resp: "(\<And>s. exec m s = exec (run_request e r) s) \<Longrightarrow> resp (on_host m)"
  by (intro host_resp) (auto intro!: step.request)

lemma requests_resp: "resp (on_host (SubscribeSystemAbility e a l))" "resp (on_host (CheckSystemAbility e a))"
  "resp (on_host (InitDbinderService e b))" "resp (on_host (ProcessOnDemandEvent e ev cs))"
  by (rule request_resp [of _ e "ReqSubscribeSystemAbility a l"], simp add: run_request_def run_simps)
    (rule request_resp [of _ e "ReqCheckSystemAbility a"], simp add: run_request_def run_simps,
     rule request_resp [of _ e "ReqInitDbinderService b"], simp add: run_request_def run_simps,
     rule request_resp [of _ e "ReqProcessOnDemandEvent ev cs"], simp add: run_request_def run_simps)

lemma read_host_resp: "resp (on_host (getM f))" "resp (on_host (GetSaProfile a))" "resp (on_host (IsCacheCommonEvent a))"
  by (auto intro!: host_resp simp: IsCacheCommonEvent_def GetSaProfile_def getM_def run_simps)

lemma host_call_resp: "(\<And>s. step\<^sup>*\<^sup>* s (exec m s)) \<Longrightarrow> resp (host_call m)"
  unfolding host_call_def by (intro resp_intros host_resp deliver_resp) auto

lemma starts_resp: "resp (plugin_OnStart e i)"
  unfolding plugin_OnStart_def param_OnStart_def switch_OnStart_def
  by (intro resp_intros requests_resp net_resp ce_resp timed_start_resp ref_resp)

lemma unref_resp: "resp (IdentifyUnrefOndemand e)"
  unfolding IdentifyUnrefOndemand_def by (intro resp_intros requests_resp post_task_resp) (simp add: task_ok_def)

lemma net_process_resp: "resp (net_ProcessEvent e i)"
  unfolding net_ProcessEvent_def AddDeviceChangeListener_def IsDmReady_def
  by (intro resp_intros requests_resp net_resp net_small_resp)

lemma online_resp: "resp (OnDeviceOnline e d)"
  unfolding OnDeviceOnline_def by (intro resp_intros requests_resp net_small_resp report_resp)

lemma ce_process_resp: "resp (ce_ProcessEvent e i d)"
  unfolding ce_ProcessEvent_def by (intro resp_intros requests_resp extra_resp ce_small_resp)

lemma process_event_resp: "resp (host_call (ProcessOnDemandEvent e ev cs))"
proof (rule host_call_resp)
  fix s show "step\<^sup>*\<^sup>* s (exec (ProcessOnDemandEvent e ev cs) s)"
    using step.request [of s e "ReqProcessOnDemandEvent ev cs"] by (simp add: run_request_def)
qed

lemma run_task_resp: "resp (run_collect_task e t)"
  unfolding run_collect_task_def run_report_def
  by (cases t; simp only: collect_task.case)
    (intro resp_intros starts_resp controls_resp process_event_resp run_loop_resp run_timed_resp param_resp switch_resp)+

lemma policy_reads_resp: "resp (policy_check e a ty)" "resp (GetOnDemandPolicy e a ty)" "resp (mgr_GetOnDemandReasonExtraData i)"
  "resp (GetCommonEventExtraDataIdlist a n)"
  unfolding policy_check_def GetOnDemandPolicy_def mgr_GetOnDemandReasonExtraData_def GetCommonEventExtraDataIdlist_def
  by (intro resp_intros read_host_resp reads_resp)+

end

section \<open>Policies and steps\<close>

locale collect_contract = host_contract +
  assumes R_profiles: "R s (s \<lparr> onDemandSaProfiles := ps \<rparr>)"
begin

lemma profiles_resp: "resp (modify (\<lambda>s. s \<lparr> onDemandSaProfiles := f s \<rparr>))"
  by (simp add: resp_def run_simps R_profiles collect_inv_def queue_ok_def)

lemma update_resp: "resp (UpdateOnDemandPolicy e a ty evs)"
  unfolding UpdateOnDemandPolicy_def UpdateOnDemandEvents_def
  by (intro resp_intros policy_reads_resp add_collect_resp profiles_resp persist_resp remove_unused_resp)

lemma queues_resp: "resp coll_CleanFfrt" "resp coll_SetFfrt"
  unfolding coll_CleanFfrt_def coll_SetFfrt_def
  by (intro resp_intros net_small_resp ce_small_resp handler_resp; simp add: CleanFfrt_def SetFfrt_def)+

lemma call_resp: "resp (run_call e c)"
  unfolding run_call_def
  by (cases c; simp only: collect_call.case)
    (intro resp_intros param_resp unref_resp switch_resp net_resp online_resp receive_resp ce_small_resp ce_resp update_resp
      policy_reads_resp queues_resp host_call_resp r_into_rtranclp [of step] step.request)+

text \<open>Taking a task from a queue keeps the invariant.\<close>
lemma start_inv: "collect_inv s \<Longrightarrow> collectHandler s = Some h \<Longrightarrow> queue_start k h = Some (t, h') \<Longrightarrow> collect_inv (s \<lparr> collectHandler := Some h' \<rparr>)"
  by (auto simp: collect_inv_def queue_ok_def queue_start_def queue_cancel_def split: option.splits)

lemma step_resp: "collect_step s s' \<Longrightarrow> collect_inv s \<Longrightarrow> collect_inv s' \<and> R s s'"
proof (induction rule: collect_step.induct)
  case (call s e c)
  then show ?case using respD [OF call_resp] by blast
next
  case (task s h k t h' e)
  then show ?case using respD [OF run_task_resp start_inv] R_trans [OF R_handler] by blast
next
  case (alarm s xs d t ys e)
  then have "collect_inv (s \<lparr> wakeTasks := xs @ ys \<rparr>)" by (auto simp: collect_inv_def queue_ok_def)
  then show ?case using respD [OF run_task_resp] R_trans [OF R_wake] by blast
next
  case (event_task s h k i d h' e)
  then have "collect_inv (s \<lparr> common := (common s) \<lparr> ce_workHandler := Some h' \<rparr> \<rparr>)" by (simp add: collect_inv_def queue_ok_def)
  then show ?case using respD [OF ce_process_resp] R_trans [OF R_common] by blast
next
  case (network_task s h k i d h' e)
  then have "collect_inv (s \<lparr> networking := (networking s) \<lparr> net_workHandler := Some h' \<rparr> \<rparr>)" by (simp add: collect_inv_def queue_ok_def)
  then show ?case using respD [OF net_process_resp] R_trans [OF R_networking] by blast
next
  case (manager_task q s h k t h' e)
  let ?m = "exec (run_task e t) (put_queue q h' (host s))"
  let ?s = "s \<lparr> host := ?m \<rparr>" and ?new = "drop (length (effects (put_queue q h' (host s)))) (effects ?m)"
  have "exec (host_call (run_task e t)) (s \<lparr> host := put_queue q h' (host s) \<rparr>) = exec (for_each ?new deliver) ?s"
    by (simp add: host_call_def run_simps)
  moreover have "resp (for_each ?new deliver)" by (intro resp_intros deliver_resp)
  moreover have "collect_inv ?s" using manager_task by (simp add: collect_inv_def queue_ok_def)
  moreover have "R s ?s" using manager_task step.task [of q "host s"] by (intro R_host r_into_rtranclp)
  ultimately show ?case using respD R_trans by metis
qed

end

end
