(* ===== verification/Collect_Samples.thy ===== *)
theory Collect_Samples
  imports Collect_Manager Samples
begin

text \<open>
  The device on which the properties of the collect component are exercised: three abilities, of which 401 is started by a
  parameter and may update its policy, an environment in which every service answers, and a splitter and a number reader
  with the documented behaviour of \<^verbatim>\<open>SplitStr\<close> and \<^verbatim>\<open>StrToInt\<close>. Nothing here models code.
\<close>

fun parts :: "string \<Rightarrow> string list" where
  "parts [] = [[]]"
| "parts (c # s) = (if c = CHR ''+'' then [] # parts s else (c # hd (parts s)) # tl (parts s))"

definition split_plus :: "string \<Rightarrow> string list" where "split_plus s = filter (\<lambda>x. x \<noteq> []) (parts s)"

lemma parts_nonempty: "parts s \<noteq> []" by (induction s) auto

lemma parts_append: "parts (a @ CHR ''+'' # b) = parts a @ parts b"
  by (induction a) (auto simp: parts_nonempty)

lemma parts_single: "CHR ''+'' \<notin> set b \<Longrightarrow> parts b = [b]"
  by (induction b) auto

definition sample_cenv :: collect_env where
  "sample_cenv = \<lparr> ce_env = sample_env \<lparr> e_tokenInfo := (0, ''foo'') \<rparr>, ce_accept = True, ce_wake = True, ce_now = 1000, ce_mktime = (\<lambda>_. 0),
     ce_strToInt = (\<lambda>s. Some (read_int s)), ce_split = split_plus, ce_param = (\<lambda>_. ''true''), ce_watch = (\<lambda>_. 0), ce_unwatch = (\<lambda>_. 0),
     ce_subscribe = True, ce_unsubscribe = True, ce_prefs = True, ce_put = True, ce_flush = True, ce_manager = True, ce_multi = False,
     ce_userId = 0, ce_refCountOf = (\<lambda>_. 1), ce_isDead = (\<lambda>_. False), ce_dmInit = 0, ce_trusted = (0, []), ce_dmRegister = 0,
     ce_delayDbinder = False, ce_dbinder = True, ce_listener = Iface 900 (Some 900) \<rparr>"

definition on_param :: OnDemandEvent where "on_param = mk_event PARAM ''sys.ready'' ''true''"

definition coll_profiles :: "SaProfile list" where
  "coll_profiles = [(sample_profile ''foo'' 401) \<lparr> startOnDemand := \<lparr> start_allowUpdate = True, start_onDemandEvents = [on_param] \<rparr> \<rparr>,
     sample_profile ''bar'' 402, sample_profile ''foo'' 403]"

definition sample_collector :: collector where
  "sample_collector = exec (coll_Init sample_cenv coll_profiles) (empty_collector [] (boot (ce_env sample_cenv) coll_profiles 7))"

lemma coll_profiles_ok: "profiles_ok coll_profiles"
  by (simp add: profiles_ok_def coll_profiles_def managed_def sample_profile_def u16_def SAMGR_PROCESS_NAME_def)

lemma sample_collector_reachable: "collect_reachable coll_profiles sample_collector"
  unfolding sample_collector_def by (rule collect_reachable.init) simp

text \<open>A collector with one profile and one plugin, on empty preferences.\<close>
definition small_collector :: "int \<Rightarrow> OnDemandEvent list \<Rightarrow> collector" where
  "small_collector i evs = (empty_collector [] empty_samgr) \<lparr> collectPluginMap := [(i, ())], collectHandler := Some (FFRTHandler 2),
     onDemandSaProfiles := [\<lparr> cm_saId = 401, startOnDemandEvents = evs, stopOnDemandEvents = [], cm_cacheCommonEvent = False \<rparr>] \<rparr>"

text \<open>The same, with the white list after the start and a manager that knows ability 401.\<close>
definition policy_collector :: collector where
  "policy_collector = (small_collector PARAM [on_param])
     \<lparr> common := (common (small_collector PARAM [])) \<lparr> commonEventWhitelist := [(DISCHARGING, ()), (POWER_DISCONNECTED, ()), (SCREEN_ON, ())] \<rparr>,
       host := empty_samgr \<lparr> mgr := empty_manager \<lparr> saProfileMap := [(401, FilterCommonSaProfile (hd coll_profiles))], collectManager := True \<rparr> \<rparr> \<rparr>"

text \<open>A collector with a normal and an awake event of one hour.\<close>
definition hourly :: collector where
  "hourly = (small_collector TIMED_EVENT []) \<lparr> timed := \<lparr> nonPersitenceLoopEventSet = [(3600, ())], persitenceLoopEventSet = [],
     nonPersitenceLoopTasks = [(3600, Some (LoopTask False 3600))], persitenceLoopTasks = [], timeInfos = [(3600, \<lparr> ti_normal = True, ti_awake = True \<rparr>)] \<rparr> \<rparr>"

text \<open>A collector whose plugin for common events has been started, and an event.\<close>
definition listening :: collector where
  "listening = (small_collector COMMON_EVENT []) \<lparr> common := (common (small_collector COMMON_EVENT [])) \<lparr> ce_workHandler := Some (FFRTHandler 2) \<rparr> \<rparr>"

definition screen_event :: CommonEventData where
  "screen_event = \<lparr> ced_code = 3, ced_data = ''x'', want_action = SCREEN_OFF, want_bundle = ''b'', want_keys = [''k''], want_int = (\<lambda>k d. d),
     want_string = (\<lambda>k. ''v''), want_bool = (\<lambda>k d. d) \<rparr>"

lemmas collect_samples = small_collector_def empty_collector_def sample_cenv_def

end
