(* ===== verification/Collect_Props.thy ===== *)
theory Collect_Props
  imports Collect_Contract Collect_Samples
begin

text \<open>
  What holds of the collect manager and its plugins. The contracts of \<open>Collect_Contract\<close> are discharged for the two relations
  the properties need: that the manager only makes steps of its own, and that a plugin leaves profiles, plugin table and
  manager alone.
\<close>

section \<open>The contracts\<close>

interpretation manager_steps: collect_contract "\<lambda>s s'. step\<^sup>*\<^sup>* (host s) (host s')"
  by unfold_locales auto

interpretation plugin_frame: plugin_contract
  "\<lambda>s s'. onDemandSaProfiles s' = onDemandSaProfiles s \<and> collectPluginMap s' = collectPluginMap s \<and> host s' = host s"
  by unfold_locales auto

interpretation host_frame: plugin_contract "\<lambda>s s'. host s' = host s"
  by unfold_locales auto

section \<open>The initial state\<close>

lemma filter_frames: "frames (\<lambda>s. (timed s, common s, wakeTasks s, collectHandler s, host s)) (FilterOnDemandSaProfiles prs)"
  unfolding FilterOnDemandSaProfiles_def by (intro frame_intros frames_modify) simp

lemma param_init_frames: "frames (\<lambda>s. (timed s, common s, wakeTasks s, collectHandler s, host s)) (param_Init prs)"
  unfolding param_Init_def add_pending_def CheckLowMemSA_def modPar_def by (intro frame_intros frames_modify) simp_all

text \<open>The state in which the white list has been filled; the rest of the initialisation keeps the invariant.\<close>
lemma init_white:
  assumes "timed s = timed (empty_collector f m)" "common s = common (empty_collector f m)" "wakeTasks s = []" "collectHandler s = Some (FFRTHandler q)"
  shows "collect_inv (exec (for_each [SCREEN_ON, DISCHARGING, POWER_DISCONNECTED] white_insert) s)"
  using assms
  by (simp add: run_simps white_insert_def collect_inv_def queue_ok_def FFRTHandler_def empty_collector_def timed_ok_def intervals_ok_def stored_ok_def
      infos_ok_def common_ok_def white_ok_def extra_ok_def event_names MAX_EXTRA_DATA_ID_def sm_count_def sm_find_Cons)

lemma plugin_map_resp: "host_frame.resp (set_plugin i)" "host_frame.resp (StartCollect e)"
  unfolding set_plugin_def StartCollect_def
  by (simp_all add: host_frame.resp_def run_simps collect_inv_def queue_ok_def post_collect_def PostTask_def queue_submit_def task_ok_def
      split: option.splits if_splits) 

definition init_rest :: "collect_env \<Rightarrow> SaProfile list \<Rightarrow> unit K" where
  "init_rest e prs = do {
     for_each [SCREEN_ON, SCREEN_OFF, CHARGING, DISCHARGING, POWER_CONNECTED, POWER_DISCONNECTED, USER_UNLOCKED,
       COMMON_RECENT_EVENT] insert_name;
     for_each prs (\<lambda>profile. do {
       for_each (start_onDemandEvents (startOnDemand profile)) InitCommonEventState;
       for_each (stop_onDemandEvents (stopOnDemand profile)) InitCommonEventState });
     set_plugin COMMON_EVENT;
     switch_Init prs; set_plugin SETTING_SWITCH;
     timed_Init prs; set_plugin TIMED_EVENT;
     ref_Init prs; set_plugin UNREF_EVENT;
     StartCollect e }"

lemma init_rest_resp: "host_frame.resp (init_rest e prs)"
  unfolding init_rest_def
  by (intro host_frame.resp_intros plugin_map_resp host_frame.ce_small_resp host_frame.ce_resp host_frame.switch_resp
      host_frame.timed_init_resp host_frame.ref_resp)

text \<open>The initialisation leaves the manager alone and establishes the invariant of the plugins.\<close>
lemma init_inv:
  "collect_inv (exec (coll_Init e prs) (empty_collector f m)) \<and> host (exec (coll_Init e prs) (empty_collector f m)) = m"
proof -
  define s1 where "s1 = exec (do { FilterOnDemandSaProfiles prs; modify (\<lambda>s. s \<lparr> collectHandler := Some (FFRTHandler QOS_DEFAULT) \<rparr>);
     param_Init prs; set_plugin PARAM; set_plugin DEVICE_ONLINE }) (empty_collector f m)"
  define s2 where "s2 = exec (for_each [SCREEN_ON, DISCHARGING, POWER_DISCONNECTED] white_insert) s1"
  have s1: "timed s1 = timed (empty_collector f m)" "common s1 = common (empty_collector f m)" "wakeTasks s1 = []"
    "collectHandler s1 = Some (FFRTHandler QOS_DEFAULT)" "host s1 = m"
    using framesD [OF filter_frames, of prs "empty_collector f m"] framesD [OF param_init_frames]
    by (simp_all add: s1_def run_simps set_plugin_def) (simp_all add: empty_collector_def)
  have "collect_inv s2" unfolding s2_def by (rule init_white [OF s1(1-4)])
  moreover have "host s2 = m" using s1(5) by (simp add: s2_def run_simps white_insert_def)
  moreover have "exec (coll_Init e prs) (empty_collector f m) = exec (init_rest e prs) s2"
    unfolding s2_def s1_def coll_Init_def ce_Init_def init_rest_def exec_bind by simp
  ultimately show ?thesis using host_frame.respD [OF init_rest_resp] by metis
qed

lemma reachable_steps: "step\<^sup>*\<^sup>* s s' \<Longrightarrow> reachable prs s \<Longrightarrow> reachable prs s'"
  by (induction rule: rtranclp_induct) (auto intro: reachable.step)

lemma collect_reachable_ok: "collect_reachable prs s \<Longrightarrow> collect_inv s \<and> reachable prs (host s)"
proof (induction rule: collect_reachable.induct)
  case (init f e ob)
  then show ?case using init_inv reachable.boot by metis
next
  case (step s s')
  then show ?case using manager_steps.step_resp reachable_steps by blast
qed

section \<open>Every state of the composed system\<close>



text \<open>In every reachable state exactly one of screen on and screen off, of charging and discharging, and of power connected
  and disconnected is in the white list that conditions are checked against, and stored extra data has a number from 1 to 1000000000.\<close>
theorem white_list_exclusive:
  assumes "collect_reachable prs s"
  shows "(sm_count SCREEN_ON (commonEventWhitelist (common s)) \<noteq> sm_count SCREEN_OFF (commonEventWhitelist (common s)))
    \<and> (sm_count CHARGING (commonEventWhitelist (common s)) \<noteq> sm_count DISCHARGING (commonEventWhitelist (common s)))
    \<and> (sm_count POWER_CONNECTED (commonEventWhitelist (common s)) \<noteq> sm_count POWER_DISCONNECTED (commonEventWhitelist (common s)))
    \<and> (\<forall>i. sm_count i (extraDatas (common s)) \<longrightarrow> 1 \<le> i \<and> i \<le> 1000000000)"
  using collect_reachable_ok [OF assms]
  by (simp add: collect_inv_def common_ok_def white_ok_def extra_ok_def MAX_EXTRA_DATA_ID_def)

theorem white_list_exclusive_witness:
  "collect_reachable coll_profiles sample_collector \<and>
   (sm_count SCREEN_ON (commonEventWhitelist (common sample_collector)) \<noteq> sm_count SCREEN_OFF (commonEventWhitelist (common sample_collector)))"
  using sample_collector_reachable white_list_exclusive [OF sample_collector_reachable] by blast

section \<open>Policies\<close>

lemma upd_profile_find:
  "find_profile a ps = Some p \<Longrightarrow> (\<And>q. cm_saId (f q) = cm_saId q) \<Longrightarrow> find_profile a (upd_profile a f ps) = Some (f p)"
  by (induction ps) (auto simp: find_profile_def split: if_splits)

lemma convert_roundtrip: "ConvertToSystemAbilityOnDemandEvent (ConvertToOnDemandEvent x) = x"
proof -
  have "map (\<lambda>c. \<lparr> odc_eventId = odc_eventId c, odc_name = odc_name c, odc_value = odc_value c \<rparr>) cs = cs" for cs :: "SystemAbilityOnDemandCondition list"
    by (induction cs) simp_all
  then show ?thesis by (cases x) (simp add: ConvertToSystemAbilityOnDemandEvent_def ConvertToOnDemandEvent_def mk_event_def comp_def)
qed

lemma policy_check_run: "exec (policy_check e a ty) s = s" "host s' = host s \<Longrightarrow> eval_st (policy_check e a ty) s' = eval_st (policy_check e a ty) s"
  by (simp_all add: policy_check_def run_simps GetSaProfile_def getM_def cong: option.case_cong)

text \<open>The state after an accepted update, up to what plugins change.\<close>
lemma update_result:
  fixes e a ty evs s
  assumes inv: "collect_inv s"
  defines "s' \<equiv> exec (UpdateOnDemandEvents e a ty evs) s"
  shows "host s' = host s \<and> collectPluginMap s' = collectPluginMap s \<and>
    (if eval_st (UpdateOnDemandEvents e a ty evs) s = ERR_OK
     then \<exists>p. find_profile a (onDemandSaProfiles s) = Some p \<and>
       (ty = START_POLICY \<and> onDemandSaProfiles s' = upd_profile a (\<lambda>p. p \<lparr> startOnDemandEvents := evs \<rparr>) (onDemandSaProfiles s) \<or>
        ty = STOP_POLICY \<and> onDemandSaProfiles s' = upd_profile a (\<lambda>p. p \<lparr> stopOnDemandEvents := evs \<rparr>) (onDemandSaProfiles s))
     else onDemandSaProfiles s' = onDemandSaProfiles s)"
proof -
  note add = plugin_frame.respD [OF plugin_frame.add_collect_resp inv, of e evs]
  have rest: "collect_inv t \<Longrightarrow> onDemandSaProfiles u = onDemandSaProfiles t \<and> collectPluginMap u = collectPluginMap t \<and> host u = host t"
    if "u = exec (RemoveUnusedEventsLocked e old) (exec (PersistOnDemandEvent e a ty evs) t)" for t u old
    using plugin_frame.respD [OF plugin_frame.persist_resp, of t e a ty evs]
      plugin_frame.respD [OF plugin_frame.remove_unused_resp, of "exec (PersistOnDemandEvent e a ty evs) t" e old] that by simp
  have inv': "collect_inv t \<Longrightarrow> collect_inv (t \<lparr> onDemandSaProfiles := ps \<rparr>)" for t ps by (simp add: collect_inv_def queue_ok_def)
  show ?thesis
    unfolding s'_def UpdateOnDemandEvents_def
    using add rest [OF refl inv' [OF add(1)]]
    by (auto simp: run_simps START_POLICY_def STOP_POLICY_def split: option.splits)
qed

text \<open>C17. A policy update that succeeds is what the next query of the policy returns, event by event; an update that fails leaves the
  policies of every ability as they are. Neither touches the manager.\<close>
theorem policy_update_then_read:
  fixes e a ty evs s
  assumes "collect_inv s"
  defines "r \<equiv> eval_st (UpdateOnDemandPolicy e a ty evs) s" and "s' \<equiv> exec (UpdateOnDemandPolicy e a ty evs) s"
  shows "(r = ERR_OK \<longrightarrow> eval_st (GetOnDemandPolicy e a ty) s' = (ERR_OK, evs))
    \<and> (r \<noteq> ERR_OK \<longrightarrow> onDemandSaProfiles s' = onDemandSaProfiles s) \<and> host s' = host s"
proof (cases "eval_st (policy_check e a ty) s")
  case (Some code)
  moreover have "code \<noteq> ERR_OK"
    using Some by (auto simp: policy_check_def run_simps split: option.splits if_splits)
  ultimately show ?thesis
    by (simp add: r_def s'_def UpdateOnDemandPolicy_def run_simps policy_check_run(1))
next
  case None
  let ?evs = "map ConvertToOnDemandEvent evs"
  have run: "r = eval_st (UpdateOnDemandEvents e a ty ?evs) s" "s' = exec (UpdateOnDemandEvents e a ty ?evs) s"
    using None by (simp_all add: r_def s'_def UpdateOnDemandPolicy_def run_simps policy_check_run(1))
  note up = update_result [OF assms(1), of e a ty ?evs, folded run]
  have conv: "map ConvertToSystemAbilityOnDemandEvent ?evs = evs" by (simp add: comp_def convert_roundtrip)
  have "eval_st (GetOnDemandPolicy e a ty) s' = (ERR_OK, evs)" if ok: "r = ERR_OK"
  proof -
    have "eval_st (policy_check e a ty) s' = None" using up None policy_check_run(2) by metis
    moreover have "eval_st (GetOnDemandEvents a ty) s' = (ERR_OK, ?evs)"
    proof -
      obtain p where p: "find_profile a (onDemandSaProfiles s) = Some p" using up ok by auto
      have "find_profile a (onDemandSaProfiles s') = Some (p \<lparr> startOnDemandEvents := ?evs \<rparr>) \<and> ty = START_POLICY \<or>
          find_profile a (onDemandSaProfiles s') = Some (p \<lparr> stopOnDemandEvents := ?evs \<rparr>) \<and> ty = STOP_POLICY"
        using up ok upd_profile_find [OF p] by auto
      then show ?thesis by (auto simp: GetOnDemandEvents_def run_simps START_POLICY_def STOP_POLICY_def)
    qed
    ultimately have "eval_st (GetOnDemandPolicy e a ty) s' = (ERR_OK, map ConvertToSystemAbilityOnDemandEvent ?evs)"
      by (simp add: GetOnDemandPolicy_def run_simps policy_check_run(1) split_beta)
    then show ?thesis by (simp only: conv)
  qed
  with up show ?thesis by (simp split: if_splits)
qed

definition new_policy :: "SystemAbilityOnDemandEvent list" where
  "new_policy = [\<lparr> ode_eventId = PARAM, ode_name = ''sys.idle'', ode_value = ''1'', ode_persistence = False, ode_conditions = [], ode_enableOnce = False \<rparr>]"

lemma update_accepted: "eval_st (UpdateOnDemandPolicy sample_cenv 401 START_POLICY new_policy) policy_collector = ERR_OK"
  by code_simp

lemma policy_collector_inv: "collect_inv policy_collector"
  by (simp add: policy_collector_def small_collector_def collect_inv_def queue_ok_def FFRTHandler_def empty_collector_def timed_ok_def
      intervals_ok_def stored_ok_def infos_ok_def common_ok_def white_ok_def extra_ok_def event_names MAX_EXTRA_DATA_ID_def sm_count_def sm_find_Cons)

theorem policy_update_then_read_witness:
  "eval_st (UpdateOnDemandPolicy sample_cenv 401 START_POLICY new_policy) policy_collector = ERR_OK \<and>
   eval_st (GetOnDemandPolicy sample_cenv 401 START_POLICY) (exec (UpdateOnDemandPolicy sample_cenv 401 START_POLICY new_policy) policy_collector)
     = (ERR_OK, new_policy)"
  using policy_update_then_read [OF policy_collector_inv, of sample_cenv 401 START_POLICY new_policy] update_accepted by blast

section \<open>Policies across a restart\<close>

lemma to_string_plain: "CHR ''+'' \<notin> set (to_string i)" "CHR ''#'' \<notin> set (to_string i)" "CHR '' '' \<notin> set (to_string i)"
  by (simp_all add: to_string_chars is_digit_def)

lemma type_said_roundtrip:
  assumes "ty = START_POLICY \<or> ty = STOP_POLICY" "is_int32 a"
  shows "StringToTypeAndSaid (TypeAndSaidToString ty a) = (ty, a)"
    "TypeAndSaidToString ty a \<noteq> []" "CHR ''+'' \<notin> set (TypeAndSaidToString ty a)" "CHR '' '' \<notin> set (TypeAndSaidToString ty a)"
  using assms atoi_to_string [OF assms(2), of "''#''"] to_string_plain [of a]
  by (auto simp: StringToTypeAndSaid_def TypeAndSaidToString_def START_POLICY_def STOP_POLICY_def is_digit_def)

text \<open>
  \<^verbatim>\<open>SplitStr\<close> of the platform's utilities with the separator plus: it cuts at every separator, trims the blanks around each part
  and drops empty parts. What the code relies on is only said of parts that trimming leaves alone: a last part that is not
  empty and has neither separator nor blank is split off, whatever stands before it.
\<close>
definition splits_at_plus :: "(string \<Rightarrow> string list) \<Rightarrow> bool" where
  "splits_at_plus f \<longleftrightarrow>
     (\<forall>b. b \<noteq> [] \<longrightarrow> CHR ''+'' \<notin> set b \<longrightarrow> CHR '' '' \<notin> set b \<longrightarrow> f b = [b] \<and> (\<forall>a. f (a @ ''+'' @ b) = f a @ [b]))"

definition entry :: "string \<Rightarrow> collector \<Rightarrow> string" where
  "entry k s = (case sm_find k (prefs s) of Some (PrefString v) \<Rightarrow> v | _ \<Rightarrow> [])"

text \<open>The text \<open>c\<close> is one of the parts stored under a key.\<close>
definition stored_part :: "collect_env \<Rightarrow> string \<Rightarrow> string \<Rightarrow> collector \<Rightarrow> bool" where
  "stored_part e k c s \<longleftrightarrow> entry k s \<noteq> [] \<and> c \<in> set (ce_split e (entry k s))"

lemma persist_one_run:
  assumes "ce_prefs e" "ce_put e" "NeedPersistOnDemandEvent ev"
  shows "entry (event_string ev) (exec (persist_one e a ty ev) s) =
    (if sm_count (event_string ev) (prefs s) then entry (event_string ev) s @ ''+'' else []) @ TypeAndSaidToString ty a"
  using assms by (simp add: persist_one_def IsExist_def ObtainString_def SaveString_def pref_Save_def run_simps entry_def)

lemma entry_other: "k \<noteq> event_string ev \<Longrightarrow> entry k (exec (persist_one e a ty ev) s) = entry k s"
  by (simp add: persist_one_def IsExist_def ObtainString_def SaveString_def pref_Save_def run_simps entry_def)

definition prefs_work :: "collect_env \<Rightarrow> bool" where
  "prefs_work e \<longleftrightarrow> ce_manager e \<and> ce_prefs e \<and> ce_put e \<and> splits_at_plus (ce_split e)"

definition policy_ok :: "int \<Rightarrow> int \<Rightarrow> bool" where
  "policy_ok ty a \<longleftrightarrow> (ty = START_POLICY \<or> ty = STOP_POLICY) \<and> is_int32 a"

lemma persist_adds:
  assumes "prefs_work e" "policy_ok ty a" "NeedPersistOnDemandEvent ev"
  shows "stored_part e (event_string ev) (TypeAndSaidToString ty a) (exec (persist_one e a ty ev) s)"
  using assms type_said_roundtrip [of ty a] by (auto simp: stored_part_def persist_one_run splits_at_plus_def prefs_work_def policy_ok_def)

lemma persist_keeps:
  assumes "prefs_work e" "policy_ok ty a" "stored_part e k c s"
  shows "stored_part e k c (exec (persist_one e a ty ev) s)"
proof (cases "NeedPersistOnDemandEvent ev \<and> k = event_string ev")
  case True
  moreover have "sm_count k (prefs s)" using assms(3) by (auto simp: stored_part_def entry_def sm_count_def split: option.splits)
  ultimately show ?thesis
    using assms type_said_roundtrip [of ty a]
    by (auto simp: stored_part_def persist_one_run splits_at_plus_def prefs_work_def policy_ok_def)
next
  case False
  then have "entry k (exec (persist_one e a ty ev) s) = entry k s"
    by (cases "k = event_string ev") (simp_all add: entry_other, simp add: persist_one_def run_simps)
  with assms show ?thesis by (simp add: stored_part_def)
qed

lemma persist_all_keeps:
  "prefs_work e \<Longrightarrow> policy_ok ty a \<Longrightarrow> stored_part e k c s \<Longrightarrow> stored_part e k c (exec (for_each evs (persist_one e a ty)) s)"
  by (induction evs arbitrary: s) (simp_all add: run_simps persist_keeps)

lemma persist_all_adds:
  assumes "prefs_work e" "policy_ok ty a" "ev \<in> set evs" "NeedPersistOnDemandEvent ev"
  shows "stored_part e (event_string ev) (TypeAndSaidToString ty a) (exec (for_each evs (persist_one e a ty)) s)"
  using assms(3)
proof (induction evs arbitrary: s)
  case (Cons x evs)
  then show ?case using assms persist_adds persist_all_keeps by (cases "ev = x") (auto simp: run_simps)
qed simp

lemma remove_unused_prefs: "frames prefs (RemoveUnusedEventsLocked e evs)"
proof -
  have "frames prefs (plugin_RemoveUnusedEvent e i ev)" for i ev
    unfolding plugin_RemoveUnusedEvent_def param_RemoveUnusedEvent_def ce_RemoveUnusedEvent_def timed_RemoveUnusedEvent_def
      RemovePersistenceLoopTask_def RemoveNonPersistenceLoopTask_def RemoveTimesInfo_def modPar_def modC_def modT_def
    by (intro frame_intros frames_modify) simp_all
  then show ?thesis
    unfolding RemoveUnusedEventsLocked_def IsExistInPluginMap_def CheckEventUsedLocked_def by (intro frame_intros)
qed

lemma update_persists:
  assumes "prefs_work e" "policy_ok ty a" "ev \<in> set evs" "NeedPersistOnDemandEvent ev"
    and "eval_st (UpdateOnDemandEvents e a ty evs) s = ERR_OK"
  shows "stored_part e (event_string ev) (TypeAndSaidToString ty a) (exec (UpdateOnDemandEvents e a ty evs) s)"
proof -
  have "stored_part e (event_string ev) (TypeAndSaidToString ty a) (exec (RemoveUnusedEventsLocked e old) (exec (PersistOnDemandEvent e a ty evs) t))" for old t
  proof -
    have "PersistOnDemandEvent e a ty evs = for_each evs (persist_one e a ty)" using assms(1) by (simp add: PersistOnDemandEvent_def prefs_work_def)
    then show ?thesis
      using persist_all_adds [OF assms(1-4), of t] framesD [OF remove_unused_prefs, of e old "exec (PersistOnDemandEvent e a ty evs) t"]
      by (simp only: stored_part_def entry_def) simp
  qed
  with assms(5) show ?thesis
    unfolding UpdateOnDemandEvents_def by (auto simp: run_simps split: option.splits if_splits)
qed

lemma check_frames: "frames prefs (plugin_CheckCondition e i c)" "frames prefs (plugin_CheckExtraMessage e i d ev)" "frames prefs (IsExistInPluginMap i)"
  unfolding plugin_CheckCondition_def plugin_CheckExtraMessage_def IsExistInPluginMap_def net_CheckCondition_def net_IsOnline_def
    ce_CheckCondition_def ce_CheckExtraMessage_def ce_GetOnDemandReasonExtraData_def modC_def
  by (intro frame_intros frames_modify; simp)+

lemma conditions_frames: "frames prefs (check_conditions e cs)"
  by (induction cs) (auto intro!: frame_intros check_frames)

lemma first_match_frames: "frames prefs (first_match e event evs)"
  by (induction evs) (auto intro!: frame_intros conditions_frames check_frames simp: matches_def CheckConditions_def CheckExtraMessages_def)

lemma by_event_frames: "frames prefs (GetSaControlListByEvent e event)"
proof -
  have "frames prefs (concat_controls e event ps)" for ps
    by (induction ps) (auto intro!: frame_intros first_match_frames simp: profile_controls_def)
  then show ?thesis unfolding GetSaControlListByEvent_def by (intro frame_intros)
qed

text \<open>The entries that the preferences add to the list of an event.\<close>
lemma persist_controls:
  assumes "prefs_work e" "policy_ok ty a" "stored_part e (event_string ev) (TypeAndSaidToString ty a) s"
  shows "mk_control (if ty = START_POLICY then START_ON_DEMAND else STOP_ON_DEMAND) a \<in> set (eval_st (GetSaControlListByPersistEvent e ev) s)"
proof -
  have eq: "eval_st (GetSaControlListByPersistEvent e ev) s = map (\<lambda>str. let (type, said) = StringToTypeAndSaid str in
      mk_control (if type = START_POLICY then START_ON_DEMAND else STOP_ON_DEMAND) said) (ce_split e (entry (event_string ev) s))"
    using assms(1,3) by (simp add: GetSaControlListByPersistEvent_def ObtainString_def run_simps stored_part_def entry_def prefs_work_def cong: option.case_cong pref_value.case_cong)
  have "(let (type, said) = StringToTypeAndSaid (TypeAndSaidToString ty a) in mk_control (if type = START_POLICY then START_ON_DEMAND else STOP_ON_DEMAND) said)
      = mk_control (if ty = START_POLICY then START_ON_DEMAND else STOP_ON_DEMAND) a"
    using assms(2) type_said_roundtrip [of ty a] by (simp add: policy_ok_def)
  with assms(3) show ?thesis unfolding eq stored_part_def set_map by (metis image_eqI)
qed

text \<open>C18. As long as the storage works (the preferences open, a write to them succeeds, and the platform's splitter cuts the
  stored text at the separator): when an update of the start (or stop) policy of an ability, whose number has 32 bits, with a persistent timed event has
  succeeded, every
  later collect manager on the same preferences, in particular the one after a restart, hands the manager a list with the
  entry that starts (or stops) the ability when it handles a report of that event, whatever else that list holds.\<close>
theorem persisted_policy_survives_restart:
  assumes "prefs_work e" "policy_ok ty a" "ev \<in> set evs" "NeedPersistOnDemandEvent ev"
    and "eval_st (UpdateOnDemandEvents e a ty evs) s = ERR_OK"
    and "prefs_work e'" "ce_split e' = ce_split e" "prefs s' = prefs (exec (UpdateOnDemandEvents e a ty evs) s)"
  shows "\<exists>l. mk_control (if ty = START_POLICY then START_ON_DEMAND else STOP_ON_DEMAND) a \<in> set l
    \<and> exec (run_report e' ev) s' = exec (host_call (ProcessOnDemandEvent (ce_env e') ev l)) (exec (GetSaControlListByEvent e' ev) s')"
proof -
  let ?c = "mk_control (if ty = START_POLICY then START_ON_DEMAND else STOP_ON_DEMAND) a"
  have "stored_part e' (event_string ev) (TypeAndSaidToString ty a) (exec (GetSaControlListByEvent e' ev) s')"
    using update_persists [OF assms(1-5)] assms(7,8) framesD [OF by_event_frames, of e' ev s'] by (simp add: stored_part_def entry_def)
  from persist_controls [OF assms(6,2) this] have "?c \<in> set (eval_st (coll_controls e' ev) s')"
    by (simp add: coll_controls_def run_simps SortSaControlListByLoadPriority_def)
  moreover from this have "exec (run_report e' ev) s' = exec (host_call (ProcessOnDemandEvent (ce_env e') ev (eval_st (coll_controls e' ev) s')))
      (exec (coll_controls e' ev) s')"
    using assms(6) by (auto simp: run_report_def run_simps prefs_work_def)
  moreover have "exec (coll_controls e' ev) s' = exec (GetSaControlListByEvent e' ev) s'"
    by (simp add: coll_controls_def GetSaControlListByPersistEvent_def ObtainString_def run_simps)
  ultimately show ?thesis by auto
qed

definition order_event :: OnDemandEvent where "order_event = (mk_event TIMED_EVENT ''timedevent'' ''2030-01-01-00:00:00'') \<lparr> persistence := True \<rparr>"

lemma prefs_work_sample: "prefs_work sample_cenv"
  by (simp add: prefs_work_def sample_cenv_def splits_at_plus_def split_plus_def parts_append parts_single)

lemma order_accepted: "eval_st (UpdateOnDemandEvents sample_cenv 401 START_POLICY [order_event]) (small_collector TIMED_EVENT []) = ERR_OK"
  by code_simp

theorem persisted_policy_survives_restart_witness:
  "let s' = empty_collector (prefs (exec (UpdateOnDemandEvents sample_cenv 401 START_POLICY [order_event]) (small_collector TIMED_EVENT []))) empty_samgr
   in \<exists>l. mk_control START_ON_DEMAND 401 \<in> set l \<and> exec (run_report sample_cenv order_event) s'
     = exec (host_call (ProcessOnDemandEvent (ce_env sample_cenv) order_event l)) (exec (GetSaControlListByEvent sample_cenv order_event) s')"
  using persisted_policy_survives_restart [of sample_cenv START_POLICY 401 order_event "[order_event]" "small_collector TIMED_EVENT []" sample_cenv
      "empty_collector (prefs (exec (UpdateOnDemandEvents sample_cenv 401 START_POLICY [order_event]) (small_collector TIMED_EVENT []))) empty_samgr"]
    prefs_work_sample order_accepted
  unfolding Let_def by (simp add: policy_ok_def is_int32_def NeedPersistOnDemandEvent_def order_event_def mk_event_def empty_collector_def)

end
