(* ===== verification/Timed_Props.thy ===== *)
theory Timed_Props
  imports Collect_Samples
begin

text \<open>
  What the loop and timed tasks do: a loop task reports its events and posts itself again, a persisted one keeps the
  phase of its timer across a restart, and the places where a timer is lost.
\<close>

section \<open>Running a program of the timed plugin\<close>

text \<open>The tasks of the collect queue with their delays in microseconds.\<close>
definition queued :: "collector \<Rightarrow> (int \<times> collect_task) list" where
  "queued s = (case collectHandler s of None \<Rightarrow> [] | Some h \<Rightarrow> map snd (submitted h))"

definition live :: "collector \<Rightarrow> bool" where
  "live s \<longleftrightarrow> (case collectHandler s of None \<Rightarrow> False | Some h \<Rightarrow> queue h)"

text \<open>What a program of the plugin that only posts does: it appends \<open>xs\<close> to the queue and \<open>ws\<close> to the alarms.\<close>
definition posts :: "'a K \<Rightarrow> collector \<Rightarrow> (int \<times> collect_task) list \<Rightarrow> (int \<times> collect_task) list \<Rightarrow> bool" where
  "posts m s xs ws \<longleftrightarrow> live (exec m s) \<and> queued (exec m s) = queued s @ xs \<and> wakeTasks (exec m s) = wakeTasks s @ ws
     \<and> timed (exec m s) = timed s"

lemma posts_none: "live s \<Longrightarrow> posts (ret x) s [] []" "live s \<Longrightarrow> posts (gets f) s [] []"
  by (simp_all add: posts_def run_simps)

lemma posts_bind: "posts m s xs ws \<Longrightarrow> posts (g (eval_st m s)) (exec m s) ys us \<Longrightarrow> posts (m \<bind> g) s (xs @ ys) (ws @ us)"
  by (simp add: posts_def run_simps)

lemma posts_report: "live s \<Longrightarrow> ce_accept e \<Longrightarrow> posts (coll_ReportEvent e ev) s [(0, ReportTask ev)] []"
  by (auto simp: posts_def coll_ReportEvent_def post_collect_def PostTask_def queue_submit_def run_simps live_def queued_def split: option.splits)

lemma posts_delay:
  assumes "live s" "ce_accept e" "0 \<le> d" "d \<le> 2147483"
  shows "posts (coll_PostDelayTask e (Some t) d) s [(d * 1000000, t)] []"
proof -
  have "to_int32 d = d" using assms by (intro to_int32_id) (simp add: is_int32_def)
  with assms show ?thesis
    by (auto simp: posts_def coll_PostDelayTask_def post_collect_def PostDelayTask_def queue_submit_def run_simps live_def queued_def
        TO_MILLISECOND_def CONVERSION_FACTOR_def MAX_UINT64_def split: option.splits)
qed

lemma delay_dropped: "2147483 < d \<Longrightarrow> is_int32 d \<Longrightarrow> exec (coll_PostDelayTask e t d) s = s"
  by (simp add: coll_PostDelayTask_def to_int32_id TO_MILLISECOND_def run_simps)

lemma posts_alarm:
  assumes "live s" "ce_accept e" "0 \<le> d" "d \<le> 2147483"
  shows "posts (post_alarm e (Some t) d) s (if IsMultiUser e \<or> \<not> ce_wake e then [(d * 1000000, t)] else [])
    (if IsMultiUser e \<or> \<not> ce_wake e then [] else [(d, t)])"
proof -
  have d: "to_uint64 d = d" using assms by (simp add: to_uint64_nonneg)
  show ?thesis
    using posts_delay [OF assms, of t] assms(1) d
    by (auto simp: post_alarm_def time_PostTask_def posts_def run_simps live_def queued_def)
qed

definition loop_reports :: "TimeInfo \<Rightarrow> int \<Rightarrow> bool \<Rightarrow> (int \<times> collect_task) list" where
  "loop_reports x i p =
     (if ti_normal x then [(0, ReportTask (timed_event LOOP_EVENT (to_string i) p))] else [])
   @ (if ti_awake x then [(0, ReportTask (timed_event AWAKE_LOOP_EVENT (to_string i) p))] else [])"

lemma posts_report_info:
  assumes "live s" "ce_accept e" "sm_find i (timeInfos (timed s)) = Some x"
  shows "posts (ReportEventByTimeInfo e i p) s (loop_reports x i p) []"
proof -
  have cond: "posts (onlyif b (coll_ReportEvent e ev)) t (if b then [(0, ReportTask ev)] else []) []" if "live t" for b ev t
    using that assms(2) posts_report by (auto simp: onlyif_def posts_none)
  have "posts (do { onlyif (ti_normal x) (coll_ReportEvent e ev); onlyif (ti_awake x) (coll_ReportEvent e ev') }) s
      ((if ti_normal x then [(0, ReportTask ev)] else []) @ (if ti_awake x then [(0, ReportTask ev')] else [])) ([] @ [])" for ev ev'
    using cond assms(1) by (intro posts_bind cond) (auto simp: posts_def)
  then show ?thesis using assms(3) by (simp add: ReportEventByTimeInfo_def posts_def run_simps loop_reports_def)
qed

text \<open>The delayed task of an interval goes to the alarm timer when an awake event asks for the interval.\<close>
definition by_alarm :: "collect_env \<Rightarrow> TimeInfo \<Rightarrow> bool" where
  "by_alarm e x \<longleftrightarrow> ti_awake x \<and> \<not> IsMultiUser e \<and> ce_wake e"

lemma posts_by_info:
  assumes "live s" "ce_accept e" "sm_find i (timeInfos (timed s)) = Some x" "0 \<le> d" "d \<le> 2147483"
  shows "posts (PostDelayTaskByTimeInfo e (Some t) i d) s (if by_alarm e x then [] else [(d * 1000000, t)]) (if by_alarm e x then [(d, t)] else [])"
proof -
  have d: "to_int32 d = d" using assms by (intro to_int32_id) (simp add: is_int32_def)
  show ?thesis
    using assms posts_delay [of s e d t] posts_alarm [of s e d t]
    by (auto simp: PostDelayTaskByTimeInfo_def posts_def run_simps d by_alarm_def split: if_splits)
qed

lemma posts_persist_delay:
  assumes "live s" "ce_accept e" "sm_find i (timeInfos (timed s)) = Some x" "0 \<le> d" "d \<le> 2147483"
  shows "posts (PostPersistenceDelayTask e (Some t) i d) s (if by_alarm e x then [] else [(d * 1000000, t)]) (if by_alarm e x then [(d, t)] else [])"
proof -
  have save: "posts (SaveLong e k v) s [] []" for k v
    using assms(1) by (simp add: SaveLong_def pref_Save_def posts_def run_simps live_def queued_def)
  let ?s = "exec (SaveLong e (to_string i) (ce_now e + to_int32 d)) s"
  have "posts (PostDelayTaskByTimeInfo e (Some t) i d) ?s (if by_alarm e x then [] else [(d * 1000000, t)]) (if by_alarm e x then [(d, t)] else [])"
    using save assms by (intro posts_by_info) (auto simp: posts_def)
  with save show ?thesis by (simp add: PostPersistenceDelayTask_def posts_def run_simps)
qed

section \<open>Loop tasks\<close>

text \<open>The interval is still wanted: a persistent loop is stopped by dropping its task, another one by dropping its interval.\<close>
definition loop_wanted :: "bool \<Rightarrow> int \<Rightarrow> collector \<Rightarrow> bool" where
  "loop_wanted p i s \<longleftrightarrow> (if p then sm_find i (persitenceLoopTasks (timed s)) = Some (Some (LoopTask True i))
     else sm_count i (nonPersitenceLoopEventSet (timed s)) \<and> sm_find i (nonPersitenceLoopTasks (timed s)) = Some (Some (LoopTask False i)))"

lemma run_loop_wanted:
  assumes "loop_wanted p i s" "timed (exec (ReportEventByTimeInfo e i p) s) = timed s"
  shows "exec (run_loop_task e p i) s =
    exec ((if p then PostPersistenceDelayTask else PostDelayTaskByTimeInfo) e (Some (LoopTask p i)) i i) (exec (ReportEventByTimeInfo e i p) s)"
proof -
  let ?s = "exec (ReportEventByTimeInfo e i p) s"
  have "?s \<lparr> timed := timed s \<rparr> = ?s" unfolding assms(2) [symmetric] by simp
  then show ?thesis
    using assms by (simp add: loop_wanted_def run_loop_task_def persist_task_def nonpersist_task_def run_simps sm_touch_def sm_count_def sm_get_def
        split: if_splits)
qed

text \<open>C27. While the collect queue lives and takes tasks: a loop task, persistent or not, of an interval between 0 and 2147483 seconds that is
  still wanted and whose kinds of events (normal, awake) are recorded reports these events and posts itself again with the same interval, so the interval is reported again and again. It
  posts itself as an alarm exactly when an awake event asks for the interval, the collect manager is not that of a user, and the alarm can be set;
  otherwise as a delayed task of the queue.\<close>
theorem loop_task_repeats:
  assumes "live s" "ce_accept e" "loop_wanted p i s"
    and "sm_find i (timeInfos (timed s)) = Some x" "0 \<le> i" "i \<le> 2147483"
  shows "live (exec (run_loop_task e p i) s) \<and> timed (exec (run_loop_task e p i) s) = timed s \<and> loop_wanted p i (exec (run_loop_task e p i) s)
    \<and> queued (exec (run_loop_task e p i) s) = queued s @ loop_reports x i p
       @ (if ti_awake x \<and> \<not> IsMultiUser e \<and> ce_wake e then [] else [(i * 1000000, LoopTask p i)])
    \<and> wakeTasks (exec (run_loop_task e p i) s) = wakeTasks s
       @ (if ti_awake x \<and> \<not> IsMultiUser e \<and> ce_wake e then [(i, LoopTask p i)] else [])"
proof -
  let ?m = "ReportEventByTimeInfo e i p" and ?n = "(if p then PostPersistenceDelayTask else PostDelayTaskByTimeInfo) e (Some (LoopTask p i)) i i"
  note report = posts_report_info [OF assms(1,2,4), of p]
  have same: "timed (exec ?m s) = timed s" "live (exec ?m s)" using report by (simp_all add: posts_def)
  have "posts ?n (exec ?m s) (if by_alarm e x then [] else [(i * 1000000, LoopTask p i)]) (if by_alarm e x then [(i, LoopTask p i)] else [])"
    using assms same posts_by_info [of "exec ?m s" e i x i "LoopTask p i"] posts_persist_delay [of "exec ?m s" e i x i "LoopTask p i"]
    by (cases p) (simp_all only: if_True if_False simp_thms)
  moreover have "loop_wanted p i t" if "timed t = timed s" for t using assms(3) that by (simp add: loop_wanted_def)
  ultimately show ?thesis
    using report unfolding run_loop_wanted [OF assms(3) same(1)] by_alarm_def by (simp add: posts_def)
qed

theorem loop_task_repeats_witness:
  "wakeTasks (exec (run_loop_task sample_cenv False 3600) hourly) = [(3600, LoopTask False 3600)] \<and>
   queued (exec (run_loop_task sample_cenv False 3600) hourly) = loop_reports \<lparr> ti_normal = True, ti_awake = True \<rparr> 3600 False"
  using loop_task_repeats [of hourly sample_cenv False 3600 "\<lparr> ti_normal = True, ti_awake = True \<rparr>"]
  by (simp add: hourly_def collect_samples live_def queued_def FFRTHandler_def sm_count_def sm_find_Cons IsMultiUser_def loop_wanted_def)

lemma atoi_interval: "is_int32 i \<Longrightarrow> atoi (to_string i) = i"
  using atoi_to_string [of i "[]"] by simp

text \<open>The delay until the next point of the grid that the saved time and the interval span.\<close>
definition next_due :: "int \<Rightarrow> int \<Rightarrow> int \<Rightarrow> int" where
  "next_due now trig i = (if trig \<le> now then i - (now - trig) mod i else trig - now)"

lemma next_due_ok: "0 < i \<Longrightarrow> trig - i \<le> now \<Longrightarrow> 0 < next_due now trig i \<and> next_due now trig i \<le> i \<and> (now + next_due now trig i - trig) mod i = 0"
proof -
  assume i: "0 < i" "trig - i \<le> now"
  have m: "0 \<le> (now - trig) mod i" "(now - trig) mod i < i" using i(1) by simp_all
  have "now + (i - (now - trig) mod i) - trig = i * ((now - trig) div i + 1)"
    using minus_mod_eq_mult_div [of "now - trig" i] by (simp add: algebra_simps)
  then have "(now + (i - (now - trig) mod i) - trig) mod i = 0" by (simp only: mod_mult_self1_is_0)
  with i m show ?thesis by (auto simp: next_due_def)
qed

text \<open>A persistent loop task that is recovered after a restart is due within one interval, at the next point of the grid that
  the saved time and the interval span; if a run was missed, its events are reported at once.\<close>
theorem restart_keeps_phase:
  assumes "live s" "ce_accept e" "\<not> sm_count i (persitenceLoopTasks (timed s))" "sm_find i (timeInfos (timed s)) = Some x"
    and "30 \<le> i" "i \<le> 2147483" "trig - i \<le> ce_now e"
  shows "\<exists>d. 0 < d \<and> d \<le> i \<and> (ce_now e + d - trig) mod i = 0
    \<and> queued (exec (ProcessPersistenceLoopTask e (trig - ce_now e) trig (to_string i)) s)
      = queued s @ (if trig \<le> ce_now e then loop_reports x i True else []) @ (if by_alarm e x then [] else [(d * 1000000, LoopTask True i)])
    \<and> wakeTasks (exec (ProcessPersistenceLoopTask e (trig - ce_now e) trig (to_string i)) s)
      = wakeTasks s @ (if by_alarm e x then [(d, LoopTask True i)] else [])"
proof -
  let ?d = "next_due (ce_now e) trig i"
  let ?s = "s \<lparr> timed := (timed s) \<lparr> persitenceLoopTasks := sm_ins i (Some (LoopTask True i)) (persitenceLoopTasks (timed s)) \<rparr> \<rparr>"
  have a: "atoi (to_string i) = i" using assms by (intro atoi_interval) (simp add: is_int32_def)
  have d: "0 < ?d \<and> ?d \<le> i \<and> (ce_now e + ?d - trig) mod i = 0" using assms by (intro next_due_ok) auto
  have s: "live ?s" "sm_find i (timeInfos (timed ?s)) = Some x" "queued ?s = queued s" "wakeTasks ?s = wakeTasks s"
    using assms by (simp_all add: live_def queued_def)
  let ?t = "exec (ReportEventByTimeInfo e i True) ?s"
  note rep = posts_report_info [OF s(1) assms(2) s(2), of True]
  have t: "live ?t" "sm_find i (timeInfos (timed ?t)) = Some x" using rep s by (simp_all add: posts_def)
  show ?thesis
  proof (cases "trig \<le> ce_now e")
    case True
    then have "exec (ProcessPersistenceLoopTask e (trig - ce_now e) trig (to_string i)) s
        = exec (PostPersistenceDelayTask e (Some (LoopTask True i)) i ?d) ?t"
      using assms by (simp add: ProcessPersistenceLoopTask_def run_simps a MIN_INTERVAL_def next_due_def)
    with d posts_persist_delay [OF t(1) assms(2) t(2), of ?d "LoopTask True i"] rep True s assms(6) show ?thesis
      by (intro exI [of _ ?d]) (auto simp: posts_def)
  next
    case False
    then have "exec (ProcessPersistenceLoopTask e (trig - ce_now e) trig (to_string i)) s
        = exec (PostDelayTaskByTimeInfo e (Some (LoopTask True i)) i ?d) ?s"
      using assms by (simp add: ProcessPersistenceLoopTask_def run_simps a MIN_INTERVAL_def next_due_def)
    with d posts_by_info [OF s(1) assms(2) s(2), of ?d "LoopTask True i"] False s assms(6) show ?thesis
      by (intro exI [of _ ?d]) (auto simp: posts_def)
  qed
qed

theorem restart_keeps_phase_witness:
  "\<exists>d. 0 < d \<and> d \<le> 3600 \<and> (1000 + d - (- 100)) mod 3600 = 0 \<and>
    wakeTasks (exec (ProcessPersistenceLoopTask sample_cenv (- 1100) (- 100) (to_string 3600)) hourly) = [(d, LoopTask True 3600)]"
  using restart_keeps_phase [of hourly sample_cenv 3600 "\<lparr> ti_normal = True, ti_awake = True \<rparr>" "- 100"]
  by (auto simp: hourly_def collect_samples live_def FFRTHandler_def sm_count_def sm_find_Cons by_alarm_def IsMultiUser_def)

section \<open>Timers that are lost\<close>

text \<open>When the normal loop event of an interval is removed while an awake event of the same interval is still wanted, the interval
  is taken out of the set of intervals although its awake flag stays: the pending loop task reports nothing and does not
  post itself again, so the awake event is never reported any more.\<close>
theorem removed_loop_stops_awake:
  assumes "sm_find i (timeInfos (timed s)) = Some x" "ti_awake x" "is_int32 i"
  shows "let s' = exec (timed_RemoveUnusedEvent (timed_event LOOP_EVENT (to_string i) False)) s in
    (\<exists>y. sm_find i (timeInfos (timed s')) = Some y \<and> ti_awake y) \<and> exec (run_loop_task e False i) s' = s'"
  using assms
  by (simp add: timed_RemoveUnusedEvent_def timed_event_def mk_event_def atoi_interval RemoveNonPersistenceLoopTask_def RemoveTimesInfo_def
      run_loop_task_def run_simps Let_def LOOP_EVENT_def AWAKE_LOOP_EVENT_def)

theorem removed_loop_stops_awake_witness:
  "let s' = exec (timed_RemoveUnusedEvent (timed_event LOOP_EVENT (to_string 3600) False)) hourly in
    (\<exists>y. sm_find 3600 (timeInfos (timed s')) = Some y \<and> ti_awake y) \<and> exec (run_loop_task sample_cenv False 3600) s' = s'"
  using removed_loop_stops_awake [of 3600 hourly "\<lparr> ti_normal = True, ti_awake = True \<rparr>" sample_cenv]
  by (simp add: hourly_def sm_find_Cons is_int32_def)

text \<open>A loop event with an interval of more than 2147483 seconds is accepted and its interval is recorded, but no task is posted for it.\<close>
theorem long_interval_never_posted:
  assumes "2147483 < i" "is_int32 i" "sm_find i (timeInfos (timed s)) = None" "\<not> sm_count i (nonPersitenceLoopEventSet (timed s))"
  shows "let r = timed_AddCollectEvent e [timed_event LOOP_EVENT (to_string i) False] in
    eval_st r s = ERR_OK \<and> sm_count i (nonPersitenceLoopEventSet (timed (exec r s)))
    \<and> queued (exec r s) = queued s \<and> wakeTasks (exec r s) = wakeTasks s"
proof -
  have post: "exec (PostDelayTaskByTimeInfo e t i i) u = u" if "sm_find i (timeInfos (timed u)) = Some y" "\<not> ti_awake y" for t u y
    using that assms by (simp add: PostDelayTaskByTimeInfo_def run_simps to_int32_id delay_dropped)
  show ?thesis
    using assms
    by (simp add: timed_event_def mk_event_def atoi_interval SaveTimedInfos_def PostNonPersistenceLoopTaskLocked_def nonpersist_task_def
        run_simps Let_def LOOP_EVENT_def AWAKE_LOOP_EVENT_def ORDER_TIMED_EVENT_def MIN_INTERVAL_def post sm_get_def queued_def)
qed

theorem long_interval_never_posted_witness:
  "let r = timed_AddCollectEvent sample_cenv [timed_event LOOP_EVENT (to_string 3000000) False] in
    eval_st r hourly = ERR_OK \<and> sm_count 3000000 (nonPersitenceLoopEventSet (timed (exec r hourly)))
    \<and> queued (exec r hourly) = queued hourly \<and> wakeTasks (exec r hourly) = wakeTasks hourly"
  using long_interval_never_posted [of 3000000 hourly sample_cenv]
  by (simp add: hourly_def sm_find_Cons sm_count_def is_int32_def)

text \<open>The recovery after a restart ends at the first preference whose key is a point in time: whatever comes after it in
  the order of the keys, timed or loop, is not recovered.\<close>
theorem recovery_ends_at_timed_key:
  assumes "CHR '':'' \<in> set k" "CHR ''_'' \<notin> set k"
  shows "exec (process_persistence e (before @ (k, PrefLong v) # after)) s = exec (process_persistence e (before @ [(k, PrefLong v)])) s"
  using assms
proof (induction before arbitrary: s)
  case (Cons kv before)
  obtain k' v' where kv: "kv = (k', v')" by (cases kv)
  show ?case using Cons by (cases v') (auto simp: kv run_simps Let_def)
qed simp

theorem recovery_ends_at_timed_key_witness:
  "exec (process_persistence sample_cenv ([] @ (''2030-01-01-00:00:00'', PrefLong 2000) # [(''2030-01-02-00:00:00'', PrefLong 3000)])) hourly
   = exec (process_persistence sample_cenv ([] @ [(''2030-01-01-00:00:00'', PrefLong 2000)])) hourly"
  by (rule recovery_ends_at_timed_key) simp_all

end
