(* ===== verification/Common_Event_Props.thy ===== *)
theory Common_Event_Props
  imports Collect_Inv Collect_Samples
begin

text \<open>
  What the report of an event does, the data of common events from their arrival to their removal, the comparison of
  reported values with values of profiles, and the load condition of the CPU monitor.
\<close>

section \<open>The report of an event\<close>

text \<open>The entries a profile without conditions contributes: the first start event and the first stop event that match.\<close>
definition wanted :: "OnDemandEvent \<Rightarrow> CollMgrSaProfile \<Rightarrow> SaControlInfo list" where
  "wanted event p =
     (case find (coll_IsSameEvent event) (startOnDemandEvents p) of None \<Rightarrow> [] | Some ev \<Rightarrow> [control_of START_ON_DEMAND p ev])
   @ (case find (coll_IsSameEvent event) (stopOnDemandEvents p) of None \<Rightarrow> [] | Some ev \<Rightarrow> [control_of STOP_ON_DEMAND p ev])"

definition plain :: "CollMgrSaProfile \<Rightarrow> bool" where
  "plain p \<longleftrightarrow> (\<forall>ev \<in> set (startOnDemandEvents p @ stopOnDemandEvents p). conditions ev = [])"

lemma first_match_plain:
  assumes "sm_count (eventId event) (collectPluginMap s)" "eventId event \<noteq> COMMON_EVENT" "\<forall>ev \<in> set evs. conditions ev = []"
  shows "eval_st (first_match e event evs) s = find (coll_IsSameEvent event) evs \<and> exec (first_match e event evs) s = s"
  using assms(3)
proof (induction evs)
  case (Cons ev evs)
  then have "eval_st (matches e event ev) s = coll_IsSameEvent event ev \<and> exec (matches e event ev) s = s"
    using assms by (simp add: matches_def CheckConditions_def CheckExtraMessages_def IsExistInPluginMap_def plugin_CheckExtraMessage_def run_simps)
  with Cons show ?case by (simp add: run_simps)
qed (simp add: run_simps)

lemma concat_controls_plain:
  assumes "sm_count (eventId event) (collectPluginMap s)" "eventId event \<noteq> COMMON_EVENT" "\<forall>p \<in> set ps. plain p"
  shows "eval_st (concat_controls e event ps) s = concat (map (wanted event) ps) \<and> exec (concat_controls e event ps) s = s"
  using assms(3)
proof (induction ps)
  case (Cons p ps)
  have "\<forall>ev \<in> set (startOnDemandEvents p). conditions ev = []" "\<forall>ev \<in> set (stopOnDemandEvents p). conditions ev = []"
    using Cons.prems by (auto simp: plain_def)
  with Cons show ?case
    using first_match_plain [OF assms(1,2)] by (simp add: profile_controls_def wanted_def run_simps)
qed (simp add: run_simps)

text \<open>C19. Where the events of the profiles have no conditions, the report of an event other than a common event, whose plugin is present, hands the manager
  exactly one start entry for every profile with a matching start event and one stop entry for every profile with a matching
  stop event, with the priority of the first match, followed by the entries of the preferences, in stable order of priority; with
  no entry nothing happens.\<close>
theorem report_dispatches:
  assumes "sm_count (eventId event) (collectPluginMap s)" "eventId event \<noteq> COMMON_EVENT" "\<forall>p \<in> set (onDemandSaProfiles s). plain p" "ce_manager e"
  shows "let l = sort_key sc_loadPriority (concat (map (wanted event) (onDemandSaProfiles s)) @ eval_st (GetSaControlListByPersistEvent e event) s)
    in exec (run_report e event) s = (if l = [] then s else exec (host_call (ProcessOnDemandEvent (ce_env e) event l)) s)"
proof -
  have "exec (GetSaControlListByPersistEvent e event) s = s"
    by (simp add: GetSaControlListByPersistEvent_def ObtainString_def run_simps)
  then show ?thesis
    using concat_controls_plain [OF assms(1-3)] assms(4)
    by (simp add: run_report_def coll_controls_def GetSaControlListByEvent_def SortSaControlListByLoadPriority_def run_simps Let_def)
qed

theorem report_dispatches_witness:
  "let s = small_collector PARAM [on_param]; l = [control_of START_ON_DEMAND (hd (onDemandSaProfiles s)) on_param] in
   exec (run_report sample_cenv on_param) s = exec (host_call (ProcessOnDemandEvent (ce_env sample_cenv) on_param l)) s"
  using report_dispatches [of on_param "small_collector PARAM [on_param]" sample_cenv]
  by (simp add: collect_samples on_param_def mk_event_def PARAM_def COMMON_EVENT_def sm_count_def sm_find_Cons plain_def wanted_def coll_IsSameEvent_def
      GetSaControlListByPersistEvent_def ObtainString_def run_simps Let_def)

section \<open>Comparison with profile values\<close>

text \<open>\<^verbatim>\<open>StrToInt\<close> reads the decimal text of a 32-bit number.\<close>
definition reads_numbers :: "(string \<Rightarrow> int option) \<Rightarrow> bool" where
  "reads_numbers f \<longleftrightarrow> (\<forall>i. is_int32 i \<longrightarrow> f (to_string i) = Some i)"

lemma to_string_head: "to_string i \<noteq> []" "hd (to_string i) \<notin> {CHR ''<'', CHR ''='', CHR ''>''}"
proof -
  obtain d cs where "d < 10" "show_nat (nat i) = digit_char d # cs" using show_nat_head by blast
  moreover from this have "of_char (digit_char d) = d + 48" by (simp add: digit_char_def of_char_of)
  ultimately have "show_nat (nat i) \<noteq> []" "is_digit (hd (show_nat (nat i)))" by (simp_all add: is_digit_def)
  then show "to_string i \<noteq> []" "hd (to_string i) \<notin> {CHR ''<'', CHR ''='', CHR ''>''}" by (auto simp: to_string_def is_digit_def)
qed

text \<open>A reported number is compared with a profile value as its operator says, for the four operators.\<close>
theorem logic_relationship_compares:
  assumes "reads_numbers f" "is_int32 n" "is_int32 k"
  shows "(CheckLogicRelationship f (to_string n) (''>='' @ to_string k) \<longleftrightarrow> n \<ge> k)
    \<and> (CheckLogicRelationship f (to_string n) (''>'' @ to_string k) \<longleftrightarrow> n > k)
    \<and> (CheckLogicRelationship f (to_string n) (''<='' @ to_string k) \<longleftrightarrow> n \<le> k)
    \<and> (CheckLogicRelationship f (to_string n) (''<'' @ to_string k) \<longleftrightarrow> n < k)"
proof -
  have ne: "to_string n \<noteq> CHR ''>'' # r" "to_string n \<noteq> CHR ''<'' # r" for r using to_string_head [of n] by auto
  show ?thesis
    using assms to_string_head [of k] to_string_head(1) [of n] ne
    by (simp add: CheckLogicRelationship_def logic_of_def substr_def reads_numbers_def)
qed

lemma read_int_reads: "reads_numbers (\<lambda>s. Some (read_int s))"
  by (simp add: reads_numbers_def)

theorem logic_relationship_compares_witness:
  "CheckLogicRelationship (\<lambda>s. Some (read_int s)) (to_string 7) (''>='' @ to_string 5) \<and>
   \<not> CheckLogicRelationship (\<lambda>s. Some (read_int s)) (to_string 7) (''<'' @ to_string 5)"
  using logic_relationship_compares [OF read_int_reads, of 7 5] by (simp add: is_int32_def)

text \<open>A profile value without operator is compared after its last character has been cut off: a reported number matches every value
  that extends it by one more character.\<close>
theorem equality_ignores_last_character:
  assumes "reads_numbers f" "is_int32 n"
  shows "CheckLogicRelationship f (to_string n) (to_string n @ [c])"
proof -
  obtain x xs where x: "to_string n = x # xs" using to_string_head(1) [of n] by (cases "to_string n") auto
  then have "logic_of (to_string n @ [c]) = (EQ, 0)" using to_string_head(2) [of n] by (auto simp: logic_of_def)
  moreover have "f (x # xs) = Some n" using assms by (simp add: reads_numbers_def flip: x)
  ultimately show ?thesis by (simp add: CheckLogicRelationship_def substr_def x)
qed

theorem equality_ignores_last_character_witness:
  "CheckLogicRelationship (\<lambda>s. Some (read_int s)) (to_string 1) (to_string 1 @ ''2'')"
  by (rule equality_ignores_last_character [OF read_int_reads]) (simp add: is_int32_def)

section \<open>The CPU monitor\<close>

text \<open>The monitor sees an idle CPU only when the load of the last minute is at least the number of cores and below that number plus
  one: a smaller load makes the unsigned difference wrap around, so that a device with less load is never found idle.\<close>
theorem cpu_idle_needs_full_load:
  assumes "unat coreNum < 2 ^ 40"
  shows "cpu_idle coreNum loads0 loads1 low \<longleftrightarrow>
    unat coreNum * 65536 \<le> unat loads0 \<and> unat loads0 < (unat coreNum + 1) * 65536 \<and> loads0 < loads1 \<and> low"
proof -
  let ?b = "push_bit 16 coreNum"
  have b: "unat ?b = unat coreNum * 65536"
    using assms by (simp add: push_bit_eq_mult unat_word_ariths)
  have unat_l: "unat loads0 < 2 ^ 64" using unsigned_less [of loads0] by simp
  have "loads0 - ?b < push_bit 16 1 \<longleftrightarrow> unat (loads0 - ?b) < 65536" by (simp add: word_less_nat_alt push_bit_eq_mult)
  also have "\<dots> \<longleftrightarrow> unat ?b \<le> unat loads0 \<and> unat loads0 - unat ?b < 65536"
    using assms b unat_l by (auto simp: unat_sub_if' word_le_nat_alt)
  finally show ?thesis using b by (auto simp: cpu_idle_def)
qed

theorem cpu_idle_needs_full_load_witness: "\<not> cpu_idle 8 65536 131072 True"
  using cpu_idle_needs_full_load [of 8 65536 131072 True] by simp

section \<open>The data of an event\<close>

lemma want_map_action: "sm_find COMMON_EVENT_ACTION_NAME (want_map d) = Some (want_action d)"
  by (simp add: want_map_def Let_def)

text \<open>The number of the next event, and the state after its data has been stored.\<close>
lemma save_extra_run:
  fixes s d
  defines "i \<equiv> next_id (lastExtraDataId (common s))"
  assumes "ce_workHandler (common s) \<noteq> None"
  shows "eval_st (SaveOnDemandReasonExtraData e d) s = i
    \<and> extraDatas (common (exec (SaveOnDemandReasonExtraData e d) s))
      = sm_ins i \<lparr> xd_code = ced_code d, xd_data = ced_data d, xd_want = want_map d \<rparr> (extraDatas (common s))
    \<and> collectHandler (exec (SaveOnDemandReasonExtraData e d) s) = collectHandler s"
  using assms
  by (auto simp: SaveOnDemandReasonExtraData_def GenerateExtraDataIdLocked_def ce_SendDelayed_def run_simps next_id_def Let_def)

lemma after_save_frames:
  "frames (\<lambda>s. extraDatas (common s)) (SaveOnDemandConditionExtraData d)" "frames (\<lambda>s. extraDatas (common s)) (StartReclaimIpcThreadWork e d)"
  "frames (\<lambda>s. extraDatas (common s)) (coll_ReportEvent e ev)"
  "frames collectHandler (SaveOnDemandConditionExtraData d)" "frames collectHandler (StartReclaimIpcThreadWork e d)"
  unfolding SaveOnDemandConditionExtraData_def StartReclaimIpcThreadWork_def TriggerSystemIPCThreadReclaim_def SendKernalReclaimIpcThread_def
    coll_ReportEvent_def post_collect_def modC_def
  by (intro frame_intros frames_modify; simp split: option.splits)+

lemma save_action_frames: "frames (\<lambda>s. (lastExtraDataId (common s), extraDatas (common s), ce_workHandler (common s))) (SaveAction a)"
  "frames collectHandler (SaveAction a)"
  unfolding SaveAction_def swap_white_def white_insert_def white_erase_def modC_def by (intro frame_intros frames_modify; simp)+

text \<open>The data of a common event is stored under the next number, the report that is posted carries that number, a query of the number
  returns the event's code, data and action, no other number is affected, and the removal task forgets that number and no other.\<close>
theorem event_data_lifetime:
  fixes e d s
  defines "i \<equiv> next_id (lastExtraDataId (common s))" and "s' \<equiv> exec (ce_OnReceiveEvent e d) s"
  assumes "ce_workHandler (common s) \<noteq> None" "collectHandler s = Some h" "queue h" "ce_accept e"
  shows "(\<exists>x. eval_st (ce_GetOnDemandReasonExtraData i) s' = Some x \<and> xd_code x = ced_code d \<and> xd_data x = ced_data d
      \<and> sm_find COMMON_EVENT_ACTION_NAME (xd_want x) = Some (want_action d))
    \<and> (\<forall>j. j \<noteq> i \<longrightarrow> eval_st (ce_GetOnDemandReasonExtraData j) s' = eval_st (ce_GetOnDemandReasonExtraData j) s)
    \<and> (\<exists>h'. collectHandler s' = Some h' \<and> submitted h' = submitted h @
         [(nextHandle h, 0, ReportTask ((mk_event COMMON_EVENT (want_action d) (to_string (ced_code d))) \<lparr> extraDataId := i \<rparr>))])
    \<and> (\<forall>j. eval_st (ce_GetOnDemandReasonExtraData j) (exec (ce_ProcessEvent e REMOVE_EXTRA_DATA_EVENT i) s')
        = (if j = i then None else eval_st (ce_GetOnDemandReasonExtraData j) s'))"
proof -
  let ?a = "exec (SaveAction (want_action d)) s"
  let ?b = "exec (SaveOnDemandReasonExtraData e d) ?a"
  let ?c = "exec (SaveOnDemandConditionExtraData d) ?b"
  let ?ev = "(mk_event COMMON_EVENT (want_action d) (to_string (ced_code d))) \<lparr> extraDataId := i \<rparr>"
  have a: "lastExtraDataId (common ?a) = lastExtraDataId (common s)" "extraDatas (common ?a) = extraDatas (common s)"
    "ce_workHandler (common ?a) \<noteq> None" "collectHandler ?a = Some h"
    using framesD [OF save_action_frames(1), of "want_action d" s] framesD [OF save_action_frames(2), of "want_action d" s] assms(3,4) by simp_all
  note b = save_extra_run [OF a(3), of e d, unfolded a]
  have s': "s' = exec (StartReclaimIpcThreadWork e d) (exec (coll_ReportEvent e ?ev) ?c)"
    using b by (simp add: s'_def ce_OnReceiveEvent_def run_simps i_def)
  have data: "extraDatas (common s') = sm_ins i \<lparr> xd_code = ced_code d, xd_data = ced_data d, xd_want = want_map d \<rparr> (extraDatas (common s))"
    unfolding s' using b framesD [OF after_save_frames(2)] framesD [OF after_save_frames(3)] framesD [OF after_save_frames(1)] by (simp add: i_def)
  have "collectHandler ?c = Some h" using b a(4) framesD [OF after_save_frames(4)] by simp
  then have queue: "\<exists>h'. collectHandler s' = Some h' \<and> submitted h' = submitted h @ [(nextHandle h, 0, ReportTask ?ev)]"
    unfolding s' framesD [OF after_save_frames(5)]
    using assms(5,6) by (simp add: coll_ReportEvent_def post_collect_def PostTask_def queue_submit_def run_simps)
  show ?thesis
    using data queue
    by (simp add: ce_GetOnDemandReasonExtraData_def run_simps want_map_action ce_ProcessEvent_def RemoveOnDemandReasonExtraData_def
        RemoveSaExtraDataId_def REMOVE_EXTRA_DATA_EVENT_def INIT_EVENT_def SUB_COMMON_EVENT_def)
qed

theorem event_data_lifetime_witness:
  "\<exists>x. eval_st (ce_GetOnDemandReasonExtraData 1) (exec (ce_OnReceiveEvent sample_cenv screen_event) listening) = Some x \<and> xd_code x = 3
     \<and> sm_find COMMON_EVENT_ACTION_NAME (xd_want x) = Some SCREEN_OFF"
proof -
  have "ce_workHandler (common listening) \<noteq> None" "collectHandler listening = Some (FFRTHandler 2)" "queue (FFRTHandler 2)" "ce_accept sample_cenv"
    "next_id (lastExtraDataId (common listening)) = 1" "ced_code screen_event = 3" "want_action screen_event = SCREEN_OFF"
    by (simp_all add: listening_def collect_samples FFRTHandler_def next_id_def MAX_EXTRA_DATA_ID_def screen_event_def)
  then show ?thesis using event_data_lifetime [of listening "FFRTHandler 2" sample_cenv screen_event] by auto
qed

end
