(* ===== verification/Multi_Manager.thy ===== *)
theory Multi_Manager
  imports Collect_Manager
begin

text \<open>
  The manager of one user (\<^verbatim>\<open>multi_system_ability_manager.cpp\<close>, built with \<^verbatim>\<open>SUPPORT_MULTI_INSTANCE\<close>). It is a
  \<^verbatim>\<open>BaseSystemAbilityManager\<close> of its own, with scheduler and collect manager, the field \<open>inner\<close>, and it knows for every
  listener whether it asked for this user or for the foreground user, whoever that is. An operation that the class
  does not override is the one of the base manager, run by \<open>on_base\<close>; what it asks of the platform is asked for this user,
  whose number the environment carries.
\<close>

section \<open>State\<close>

record SubscriberInfo =
  si_object :: obj \<comment> \<open>a weak pointer\<close>
  si_direct :: bool \<comment> \<open>\<^verbatim>\<open>hasDirectSubscription\<close>\<close>
  si_foreground :: bool \<comment> \<open>\<^verbatim>\<open>hasForegroundSubscription\<close>\<close>

record GlobalSystemAbilitySubscription =
  gs_said :: int
  gs_object :: "obj option"
  gs_callingPid :: int

record GlobalSubscriptionInfo =
  systemAbilitySubscriptions :: "GlobalSystemAbilitySubscription list"
  systemProcessSubscriptions :: "obj option list"

record multi_manager =
  mu_userId :: int
  mu_subscriptions :: GlobalSubscriptionInfo \<comment> \<open>\<^verbatim>\<open>globalSubscriptions_\<close>\<close>
  subscriberInfoMap :: "(int, SubscriberInfo list) smap"
  inner :: collector

text \<open>The answers of the platform, beside those for the base manager.\<close>
record multi_env =
  me_cenv :: collect_env
  me_gone :: "obj \<Rightarrow> bool" \<comment> \<open>a weak pointer to the object cannot be promoted\<close>
  me_dead :: "obj \<Rightarrow> bool" \<comment> \<open>\<^verbatim>\<open>IsObjectDead\<close>\<close>
  me_cast :: "obj \<Rightarrow> iface option" \<comment> \<open>\<^verbatim>\<open>iface_cast\<close>\<close>
  me_samgr :: bool \<comment> \<open>\<^verbatim>\<open>SystemAbilityManager::GetInstance()\<close> is not null\<close>
  me_foreground :: int \<comment> \<open>\<^verbatim>\<open>GetForegroundUserId\<close> of it\<close>
  me_multiIds :: "int list" \<comment> \<open>\<^verbatim>\<open>GetMultiInstanceSaIds\<close> of it\<close>
  me_callingUserID :: "64 word" \<comment> \<open>\<^verbatim>\<open>IPCSkeleton::GetCallingUserID()\<close>\<close>
  me_waitStopped :: "string \<Rightarrow> int" \<comment> \<open>\<^verbatim>\<open>ServiceWaitForStatusByUserId\<close>\<close>
  me_stopService :: "string \<Rightarrow> int" \<comment> \<open>\<^verbatim>\<open>ServiceControlWithExtraByUserId\<close> with \<^verbatim>\<open>STOP\<close>\<close>
  me_deletePrefs :: bool \<comment> \<open>\<^verbatim>\<open>DeletePreferences\<close> returns \<^verbatim>\<open>E_OK\<close>\<close>
  me_prefsOf :: "int \<Rightarrow> (string, pref_value) smap" \<comment> \<open>the preferences file of a user\<close>

type_synonym 'a U = "(multi_manager, 'a) state"

definition on_inner :: "'a K \<Rightarrow> 'a U" where
  "on_inner m = State (\<lambda>s. (eval_st m (inner s), s \<lparr> inner := exec m (inner s) \<rparr>))"

definition on_base :: "'a M \<Rightarrow> 'a U" where
  "on_base m = on_inner (host_call m)"

text \<open>The environment of the operations of a user's manager: the answers of the platform, for that user.\<close>
definition user_env :: "multi_env \<Rightarrow> int \<Rightarrow> env" where
  "user_env e u = (ce_env (me_cenv e)) \<lparr> e_userId := u, e_foregroundUser := (me_samgr e \<and> u \<noteq> -1 \<and> u = me_foreground e) \<rparr>"

definition user_cenv :: "multi_env \<Rightarrow> int \<Rightarrow> collect_env" where
  "user_cenv e u = (me_cenv e) \<lparr> ce_env := user_env e u, ce_multi := True, ce_userId := u, ce_manager := True \<rparr>"

definition with_env :: "multi_env \<Rightarrow> (env \<Rightarrow> 'a U) \<Rightarrow> 'a U" where
  "with_env e f = do { u \<leftarrow> gets mu_userId; f (user_env e u) }"

definition GlobalSubscriptionInfo_empty :: GlobalSubscriptionInfo where
  "GlobalSubscriptionInfo_empty = \<lparr> systemAbilitySubscriptions = [], systemProcessSubscriptions = [] \<rparr>"

text \<open>
  The constructor; \<open>file\<close> is the content of the user's preferences. The base class leaves \<^verbatim>\<open>OnSystemAbilityRegistered\<close>, the hook
  for the distributed binder, empty: the manager of a user never announces or saves an ability for it.
\<close>
definition MultiSystemAbilityManager :: "int \<Rightarrow> GlobalSubscriptionInfo \<Rightarrow> (string, pref_value) smap \<Rightarrow> multi_manager" where
  "MultiSystemAbilityManager u subs file =
     \<lparr> mu_userId = u, mu_subscriptions = subs, subscriberInfoMap = [], inner = empty_collector file (empty_samgr \<lparr> mgr := empty_manager \<lparr> isDbinderServiceInit := True \<rparr> \<rparr>) \<rparr>"

section \<open>Who asked for what\<close>

text \<open>
  The loops over the entries of an ability: entries of objects that are gone are dropped until the object is found; the
  result is what was kept before it, its entry, and the rest.
\<close>
fun scan_subscribers :: "(obj \<Rightarrow> bool) \<Rightarrow> obj \<Rightarrow> SubscriberInfo list \<Rightarrow> SubscriberInfo list \<times> SubscriberInfo option \<times> SubscriberInfo list" where
  "scan_subscribers gone ob [] = ([], None, [])"
| "scan_subscribers gone ob (i # rest) =
     (if gone (si_object i) then scan_subscribers gone ob rest
      else if si_object i = ob then ([], Some i, rest)
      else let (kept, found, tl) = scan_subscribers gone ob rest in (i # kept, found, tl))"

definition set_infos :: "int \<Rightarrow> SubscriberInfo list \<Rightarrow> unit U" where
  "set_infos said infos = modify (\<lambda>s. s \<lparr> subscriberInfoMap := sm_ins said infos (subscriberInfoMap s) \<rparr>)"

text \<open>Write the entries back, or erase the key when none is left.\<close>
definition put_infos :: "int \<Rightarrow> SubscriberInfo list \<Rightarrow> unit U" where
  "put_infos said infos = modify (\<lambda>s. s \<lparr> subscriberInfoMap :=
     (if infos = [] then sm_erase said (subscriberInfoMap s) else sm_ins said infos (subscriberInfoMap s)) \<rparr>)"

definition listener_object :: "iface option \<Rightarrow> obj option" where
  "listener_object l = (case l of None \<Rightarrow> None | Some x \<Rightarrow> AsObject x)"

definition AddSubscriberInfo :: "multi_env \<Rightarrow> int \<Rightarrow> iface option \<Rightarrow> bool \<Rightarrow> unit U" where
  "AddSubscriberInfo e said l foregroundOnly = (case listener_object l of
       None \<Rightarrow> ret ()
     | Some ob \<Rightarrow> do {
         infos \<leftarrow> gets (\<lambda>s. sm_get [] said (subscriberInfoMap s));
         case scan_subscribers (me_gone e) ob infos of
           (kept, Some i, rest) \<Rightarrow>
             set_infos said (kept @ (if foregroundOnly then i \<lparr> si_foreground := True \<rparr> else i \<lparr> si_direct := True \<rparr>) # rest)
         | (kept, None, rest) \<Rightarrow>
             set_infos said (kept @ [\<lparr> si_object = ob, si_direct = \<not> foregroundOnly, si_foreground = foregroundOnly \<rparr>]) })"

definition RemoveSubscriberInfo :: "multi_env \<Rightarrow> int \<Rightarrow> iface option \<Rightarrow> bool \<Rightarrow> bool U" where
  "RemoveSubscriberInfo e said l foregroundOnly = (case listener_object l of
       None \<Rightarrow> ret False
     | Some ob \<Rightarrow> do {
         known \<leftarrow> gets (\<lambda>s. sm_find said (subscriberInfoMap s));
         case known of
           None \<Rightarrow> ret True
         | Some infos \<Rightarrow> (case scan_subscribers (me_gone e) ob infos of
             (kept, Some i, rest) \<Rightarrow>
               (let i' = (if foregroundOnly then i \<lparr> si_foreground := False \<rparr> else i \<lparr> si_direct := False \<rparr>) in
                if si_direct i' \<or> si_foreground i' then do { set_infos said (kept @ i' # rest); ret False }
                else do { put_infos said (kept @ rest); ret True })
           | (kept, None, rest) \<Rightarrow> do { put_infos said kept; ret True }) })"

definition ShouldNotifySubscriber :: "multi_env \<Rightarrow> int \<Rightarrow> iface option \<Rightarrow> bool U" where
  "ShouldNotifySubscriber e said l = (case listener_object l of
       None \<Rightarrow> ret False
     | Some ob \<Rightarrow> do {
         known \<leftarrow> gets (\<lambda>s. sm_find said (subscriberInfoMap s));
         case known of
           None \<Rightarrow> ret False
         | Some infos \<Rightarrow> (case scan_subscribers (me_gone e) ob infos of
             (kept, Some i, rest) \<Rightarrow> do {
               set_infos said (kept @ i # rest);
               if si_direct i then ret True
               else gets (\<lambda>s. \<not> si_foreground i \<or> me_samgr e \<and> mu_userId s = me_foreground e) }
           | (kept, None, rest) \<Rightarrow> do { put_infos said kept; ret False }) })"

section \<open>Subscriptions\<close>

definition SubscribeSystemAbilityWithPid :: "multi_env \<Rightarrow> int \<Rightarrow> iface option \<Rightarrow> bool \<Rightarrow> int \<Rightarrow> SamgrErrCode U" where
  "SubscribeSystemAbilityWithPid e said l foregroundOnly callingPid = do {
     AddSubscriberInfo e said l foregroundOnly;
     result \<leftarrow> with_env e (\<lambda>be. on_base (SubscribeSystemAbilityInner be said l callingPid));
     onlyif (result \<noteq> ERR_OK) (do { _ \<leftarrow> RemoveSubscriberInfo e said l foregroundOnly; ret () });
     ret result }"

definition multi_SubscribeSystemAbility :: "multi_env \<Rightarrow> int \<Rightarrow> iface option \<Rightarrow> bool \<Rightarrow> SamgrErrCode U" where
  "multi_SubscribeSystemAbility e said l foregroundOnly =
     SubscribeSystemAbilityWithPid e said l foregroundOnly (e_callingPid (ce_env (me_cenv e)))"

definition multi_UnSubscribeSystemAbility :: "multi_env \<Rightarrow> int \<Rightarrow> iface option \<Rightarrow> bool \<Rightarrow> SamgrErrCode U" where
  "multi_UnSubscribeSystemAbility e said l foregroundOnly =
     (if \<not> CheckInputSysAbilityId said \<or> listener_object l = None then ret ERR_INVALID_VALUE
      else do {
        last \<leftarrow> RemoveSubscriberInfo e said l foregroundOnly;
        if \<not> last then ret ERR_OK else on_base (UnSubscribeSystemAbility said l) })"

text \<open>\<^verbatim>\<open>UnSubscribeSystemAbility(remoteObject)\<close>: the listener died.\<close>
definition multi_UnSubscribeSystemAbilityDied :: "multi_env \<Rightarrow> obj option \<Rightarrow> unit U" where
  "multi_UnSubscribeSystemAbilityDied e ob = (case ob of
       None \<Rightarrow> ret ()
     | Some x \<Rightarrow> do {
         on_base (UnSubscribeSystemAbilityDied ob);
         modify (\<lambda>s. s \<lparr> subscriberInfoMap := filter (\<lambda>(said, infos). infos \<noteq> [])
           (map (\<lambda>(said, infos). (said, filter (\<lambda>i. \<not> (me_gone e (si_object i) \<or> si_object i = x)) infos)) (subscriberInfoMap s)) \<rparr>) })"

definition multi_SubscribeSystemProcess :: "iface option \<Rightarrow> bool \<Rightarrow> SamgrErrCode U" where
  "multi_SubscribeSystemProcess l foregroundOnly = do {
     present \<leftarrow> on_base (getM abilityStateScheduler);
     if \<not> present then ret ERR_INVALID_VALUE else on_base (sch_SubscribeSystemProcess l foregroundOnly) }"

definition multi_UnSubscribeSystemProcess :: "iface option \<Rightarrow> bool \<Rightarrow> SamgrErrCode U" where
  "multi_UnSubscribeSystemProcess l foregroundOnly = do {
     present \<leftarrow> on_base (getM abilityStateScheduler);
     if \<not> present then ret ERR_INVALID_VALUE else on_base (sch_UnSubscribeSystemProcess l foregroundOnly) }"

section \<open>Notifications\<close>

definition multi_NotifySystemAbilityChanged :: "multi_env \<Rightarrow> int \<Rightarrow> string \<Rightarrow> SamgrInterfaceCode \<Rightarrow> iface option \<Rightarrow> unit U" where
  "multi_NotifySystemAbilityChanged e said dev code l = do {
     notify \<leftarrow> ShouldNotifySubscriber e said l;
     if \<not> notify then ret () else on_base (NotifySystemAbilityChanged said dev code l) }"

text \<open>
  The method of the base class with its test of the user: the manager of a user in the background stays silent. Every
  manager of a user overrides the method, and for the base user the test has no effect.
\<close>
definition base_FindSystemAbilityNotify :: "multi_env \<Rightarrow> int \<Rightarrow> int \<Rightarrow> string \<Rightarrow> SamgrInterfaceCode \<Rightarrow> SamgrErrCode M" where
  "base_FindSystemAbilityNotify e userId said dev code =
     (if userId \<noteq> BASE_USER \<and> me_samgr e \<and> userId \<noteq> me_foreground e then ret ERR_OK else FindSystemAbilityNotify said dev code)"

lemma base_user_notifies: "base_FindSystemAbilityNotify e BASE_USER said dev code = FindSystemAbilityNotify said dev code"
  by (simp add: base_FindSystemAbilityNotify_def)

definition multi_FindSystemAbilityNotify :: "multi_env \<Rightarrow> int \<Rightarrow> string \<Rightarrow> SamgrInterfaceCode \<Rightarrow> SamgrErrCode U" where
  "multi_FindSystemAbilityNotify e said dev code = do {
     known \<leftarrow> on_base (getM (\<lambda>m. sm_find said (listenerMap m)));
     case known of
       None \<Rightarrow> ret ERR_OK
     | Some items \<Rightarrow> (case code of
         ADD_SYSTEM_ABILITY_TRANSACTION \<Rightarrow> do {
           for_each items (\<lambda>i. onlyif (sal_state i = INIT) (multi_NotifySystemAbilityChanged e said dev code (sal_listener i)));
           on_base (modM (\<lambda>m. m \<lparr> listenerMap := sm_ins said
             (map (\<lambda>i. if sal_state i = INIT then i \<lparr> sal_state := NOTIFIED \<rparr> else i) items) (listenerMap m) \<rparr>));
           ret ERR_OK }
       | REMOVE_SYSTEM_ABILITY_TRANSACTION \<Rightarrow> do {
           for_each items (\<lambda>i. multi_NotifySystemAbilityChanged e said dev code (sal_listener i));
           on_base (modM (\<lambda>m. m \<lparr> listenerMap := sm_ins said (map (\<lambda>i. i \<lparr> sal_state := INIT \<rparr>) items) (listenerMap m) \<rparr>));
           ret ERR_OK }) }"

text \<open>The tasks of the manager's queues; those that notify call the overridden methods.\<close>
definition multi_run_task :: "multi_env \<Rightarrow> task \<Rightarrow> unit U" where
  "multi_run_task e t = (case t of
       NotifyAddedTask a ob \<Rightarrow> do {
         _ \<leftarrow> multi_FindSystemAbilityNotify e a [] ADD_SYSTEM_ABILITY_TRANSACTION;
         on_base (NotifySystemAbilityLoaded a ob) }
     | NotifyRemovedTask a \<Rightarrow> do { _ \<leftarrow> multi_FindSystemAbilityNotify e a [] REMOVE_SYSTEM_ABILITY_TRANSACTION; ret () }
     | ListenerNotifyTask a l \<Rightarrow> multi_NotifySystemAbilityChanged e a [] ADD_SYSTEM_ABILITY_TRANSACTION (Some l)
     | UnSubscribeTask ob \<Rightarrow> multi_UnSubscribeSystemAbilityDied e (Some ob)
     | _ \<Rightarrow> with_env e (\<lambda>be. on_base (run_task be t)))"

section \<open>Initialisation\<close>

text \<open>Undo, in the opposite order, what has been restored.\<close>
definition RollbackGlobalSubscriptions :: "multi_env \<Rightarrow> (int \<times> iface) list \<Rightarrow> iface list \<Rightarrow> unit U" where
  "RollbackGlobalSubscriptions e sas procs = do {
     for_each (rev procs) (\<lambda>l. do { _ \<leftarrow> multi_UnSubscribeSystemProcess (Some l) True; ret () });
     for_each (rev sas) (\<lambda>(said, l). do { _ \<leftarrow> multi_UnSubscribeSystemAbility e said (Some l) True; ret () }) }"

definition live_listener :: "multi_env \<Rightarrow> obj option \<Rightarrow> iface option" where
  "live_listener e ob = (case ob of None \<Rightarrow> None | Some x \<Rightarrow> if me_dead e x then None else me_cast e x)"

fun restore_sas :: "multi_env \<Rightarrow> GlobalSystemAbilitySubscription list \<Rightarrow> (int \<times> iface) list \<Rightarrow> (SamgrErrCode \<times> (int \<times> iface) list) U" where
  "restore_sas e [] restored = ret (ERR_OK, restored)"
| "restore_sas e (g # gs) restored = (case live_listener e (gs_object g) of
       None \<Rightarrow> restore_sas e gs restored
     | Some l \<Rightarrow> do {
         result \<leftarrow> SubscribeSystemAbilityWithPid e (gs_said g) (Some l) True (gs_callingPid g);
         if result \<noteq> ERR_OK then ret (result, restored) else restore_sas e gs (restored @ [(gs_said g, l)]) })"

fun restore_processes :: "multi_env \<Rightarrow> obj option list \<Rightarrow> iface list \<Rightarrow> (SamgrErrCode \<times> iface list) U" where
  "restore_processes e [] restored = ret (ERR_OK, restored)"
| "restore_processes e (g # gs) restored = (case live_listener e g of
       None \<Rightarrow> restore_processes e gs restored
     | Some l \<Rightarrow> do {
         result \<leftarrow> multi_SubscribeSystemProcess (Some l) True;
         if result \<noteq> ERR_OK then ret (result, restored) else restore_processes e gs (restored @ [l]) })"

definition InitGlobalSubscriptions :: "multi_env \<Rightarrow> SamgrErrCode U" where
  "InitGlobalSubscriptions e = do {
     subscriptions \<leftarrow> gets mu_subscriptions;
     modify (\<lambda>s. s \<lparr> mu_subscriptions := GlobalSubscriptionInfo_empty \<rparr>);
     (r, sas) \<leftarrow> restore_sas e (systemAbilitySubscriptions subscriptions) [];
     if r \<noteq> ERR_OK then do { RollbackGlobalSubscriptions e sas []; ret r }
     else do {
       (r', procs) \<leftarrow> restore_processes e (systemProcessSubscriptions subscriptions) [];
       if r' \<noteq> ERR_OK then do { RollbackGlobalSubscriptions e sas procs; ret r' } else ret ERR_OK } }"

definition filtered_profiles :: "int list \<Rightarrow> SaProfile list \<Rightarrow> SaProfile list" where
  "filtered_profiles ids saProfiles = filter (\<lambda>p. saId p \<in> set ids) saProfiles"

definition InitSaProfiles :: "int list \<Rightarrow> SaProfile list \<Rightarrow> SaProfile list U" where
  "InitSaProfiles ids saProfiles = do {
     let filtered = filtered_profiles ids saProfiles;
     on_base (do {
       modM (\<lambda>m. m \<lparr> saProfileMap := [], onDemandSaIdsSet := [] \<rparr>);
       for_each filtered (\<lambda>pr. do {
         modM (\<lambda>m. m \<lparr> saProfileMap := sm_ins (saId pr) (FilterCommonSaProfile pr) (saProfileMap m) \<rparr>);
         onlyif (\<not> runOnCreate pr) (modM (\<lambda>m. m \<lparr> onDemandSaIdsSet := sm_ins (saId pr) () (onDemandSaIdsSet m) \<rparr>)) }) });
     ret filtered }"

definition multi_Init :: "multi_env \<Rightarrow> SaProfile list \<Rightarrow> SamgrErrCode U" where
  "multi_Init e saProfiles = do {
     on_base (do {
       modS (\<lambda>c. c \<lparr> manager := True \<rparr>);
       modM (\<lambda>m. m \<lparr> abilityDeath := True, systemProcessDeath := True, abilityStatusDeath := True,
         abilityCallbackDeath := True, remoteCallbackDeath := True \<rparr>);
       modM (\<lambda>m. m \<lparr> workHandler := (case workHandler m of None \<Rightarrow> Some (FFRTHandler QOS_DEFAULT) | Some h \<Rightarrow> Some h) \<rparr>);
       modM (\<lambda>m. m \<lparr> deathHandler := (case deathHandler m of
           None \<Rightarrow> if e_deathPrior (ce_env (me_cenv e)) then Some (FFRTHandler QOS_USER_INTERACTIVE) else None | Some h \<Rightarrow> Some h) \<rparr>) });
     if \<not> me_samgr e then ret ERR_INVALID_VALUE
     else do {
       filtered \<leftarrow> InitSaProfiles (me_multiIds e) saProfiles;
       on_base (do { modM (\<lambda>m. m \<lparr> abilityStateScheduler := True \<rparr>); sch_Init filtered });
       u \<leftarrow> gets mu_userId;
       on_base (modM (\<lambda>m. m \<lparr> collectManager := True \<rparr>));
       on_inner (coll_Init (user_cenv e u) filtered);
       InitGlobalSubscriptions e } }"

section \<open>Stopping\<close>

definition GetSystemProcessNames :: "u16string list M" where
  "GetSystemProcessNames = getM (\<lambda>m. sm_keys (systemProcessMap m))"

definition stop_event :: OnDemandEvent where "stop_event = mk_event INTERFACE_CALL ''userStopping'' []"

definition NotifyAllSAsToStop :: "multi_env \<Rightarrow> unit U" where
  "NotifyAllSAsToStop e = with_env e (\<lambda>be. on_base (do {
     ids \<leftarrow> getM (\<lambda>m. sm_keys (abilityMap m));
     saList \<leftarrow> collect ids (\<lambda>said. do {
       profile \<leftarrow> GetSaProfile said;
       ret (case profile of None \<Rightarrow> None | Some p \<Rightarrow> Some (said, cp_process p)) });
     for_each saList (\<lambda>(said, procName). do { _ \<leftarrow> StopOnDemandAbility be procName said stop_event; ret () }) }))"

definition SAMGR_INVALID_USER_ID :: int where "SAMGR_INVALID_USER_ID = -1"

text \<open>\<^verbatim>\<open>PreferencesUtil::DeleteUserPreferences\<close>\<close>
definition DeleteUserPreferences :: "multi_env \<Rightarrow> int \<Rightarrow> SamgrErrCode K" where
  "DeleteUserPreferences e u =
     (if u = BASE_USER \<or> u = SAMGR_INVALID_USER_ID then ret ERR_INVALID_VALUE
      else if \<not> me_deletePrefs e then ret ERR_INVALID_OPERATION
      else do { modify (\<lambda>s. s \<lparr> prefs := [] \<rparr>); ret ERR_OK })"

definition StopEventCollection :: "multi_env \<Rightarrow> unit U" where
  "StopEventCollection e = do {
     u \<leftarrow> gets mu_userId;
     collect' \<leftarrow> on_base (getM collectManager);
     onlyif collect' (on_inner (coll_UnInit (user_cenv e u)));
     present \<leftarrow> on_base (getM abilityStateScheduler);
     onlyif present (on_base sch_CleanFfrt);
     _ \<leftarrow> on_inner (DeleteUserPreferences e u);
     ret () }"

text \<open>The collect manager is cleaned and released inside the base manager's \<^verbatim>\<open>CleanFfrt\<close> and \<^verbatim>\<open>ReleaseSubSystems\<close>.\<close>
definition multi_Destroy :: "multi_env \<Rightarrow> unit U" where
  "multi_Destroy e = do {
     u \<leftarrow> gets mu_userId;
     collect' \<leftarrow> on_base (getM collectManager);
     onlyif collect' (on_inner coll_CleanFfrt);
     on_base mgr_CleanFfrt;
     on_base RemoveAllDeathRecipients;
     onlyif collect' (on_inner (coll_UnInit (user_cenv e u)));
     on_base ReleaseSubSystems;
     on_base (modS (\<lambda>c. c \<lparr> manager := False \<rparr>));
     modify (\<lambda>s. s \<lparr> subscriberInfoMap := [] \<rparr>) }"

end
