(* ===== verification/User_Lifecycle.thy ===== *)
theory User_Lifecycle
  imports Multi_Manager
begin

text \<open>
  The life of the users (\<^verbatim>\<open>user_lifecycle_manager.cpp\<close>): a manager is created when a user is activated, the foreground user is
  recorded, and a stopping user's manager is kept aside until its processes have stopped or five seconds have passed.
  Subscriptions of the base user for multi-instance abilities are kept globally, given to every active manager and replayed
  to every new one.

  A stopping context is an object that a timeout task points to; the contexts are a store, \<open>stoppings\<close>, and the pointers are
  its keys. The manager of a user is held either by the table of managers or by one context, never by both.
\<close>

section \<open>State\<close>

datatype SamgrUserState = USER_STATE_ACTIVATING | USER_STATE_SWITCHING | USER_STATE_STOPPING

record UserStopping =
  us_manager :: multi_manager
  us_processNames :: "u16string list"
  us_finalizing :: bool

text \<open>The closure of \<open>PostUserStopTimeoutTask\<close>, and the calls of init for the processes of a user.\<close>
datatype stop_task = StopTimeout int nat

datatype user_effect = WaitUserProcess string int | StopUserProcess string int

record lifecycle =
  userStateMap :: "(int, SamgrUserState) smap"
  multiUserManagers :: "(int, multi_manager) smap"
  userStoppingContexts :: "(int, nat) smap"
  stoppings :: "(nat, UserStopping) smap"
  nextStopping :: nat
  stopTaskHandlers :: "(int, stop_task ffrt_handler) smap"
  validUserIds :: "int oset"
  foregroundUserId :: int
  tasksAlive :: bool \<comment> \<open>\<^verbatim>\<open>taskState_->alive\<close>\<close>
  globalSubscriptions :: GlobalSubscriptionInfo
  allSaProfiles :: "SaProfile list option"
  userEffects :: "user_effect list"

type_synonym 'a L = "(lifecycle, 'a) state"

definition empty_lifecycle :: lifecycle where
  "empty_lifecycle = \<lparr> userStateMap = [], multiUserManagers = [], userStoppingContexts = [], stoppings = [], nextStopping = 0,
     stopTaskHandlers = [], validUserIds = [], foregroundUserId = SAMGR_INVALID_USER_ID, tasksAlive = True,
     globalSubscriptions = GlobalSubscriptionInfo_empty, allSaProfiles = None, userEffects = [] \<rparr>"

definition SetSaProfiles :: "SaProfile list \<Rightarrow> unit L" where
  "SetSaProfiles profiles = modify (\<lambda>s. s \<lparr> allSaProfiles := Some profiles \<rparr>)"

text \<open>The environment of a call inside a manager, with the foreground user of now.\<close>
definition at_foreground :: "multi_env \<Rightarrow> lifecycle \<Rightarrow> multi_env" where
  "at_foreground e s = e \<lparr> me_foreground := foregroundUserId s \<rparr>"

text \<open>A call of the manager of an active user, and of the manager a stopping context holds; \<open>d\<close> when there is none.\<close>
definition on_user :: "multi_env \<Rightarrow> int \<Rightarrow> 'a \<Rightarrow> (multi_env \<Rightarrow> 'a U) \<Rightarrow> 'a L" where
  "on_user e u d f = State (\<lambda>s. case sm_find u (multiUserManagers s) of
       None \<Rightarrow> (d, s)
     | Some m \<Rightarrow> let c = f (at_foreground e s) in
         (eval_st c m, s \<lparr> multiUserManagers := sm_ins u (exec c m) (multiUserManagers s) \<rparr>))"

definition on_stopping :: "multi_env \<Rightarrow> nat \<Rightarrow> 'a \<Rightarrow> (multi_env \<Rightarrow> 'a U) \<Rightarrow> 'a L" where
  "on_stopping e c d f = State (\<lambda>s. case sm_find c (stoppings s) of
       None \<Rightarrow> (d, s)
     | Some x \<Rightarrow> let p = f (at_foreground e s) in
         (eval_st p (us_manager x), s \<lparr> stoppings := sm_ins c (x \<lparr> us_manager := exec p (us_manager x) \<rparr>) (stoppings s) \<rparr>))"

section \<open>Queries\<close>

definition GetForegroundUserId :: "int L" where "GetForegroundUserId = gets foregroundUserId"
definition IsValidUser :: "int \<Rightarrow> bool L" where "IsValidUser u = gets (\<lambda>s. sm_count u (validUserIds s))"
definition HasMultiUserManager :: "int \<Rightarrow> bool L" where "HasMultiUserManager u = gets (\<lambda>s. sm_count u (multiUserManagers s))"
definition IsUserStopping :: "int \<Rightarrow> bool L" where "IsUserStopping u = gets (\<lambda>s. sm_count u (userStoppingContexts s))"
definition GetActiveUserCount :: "nat L" where "GetActiveUserCount = gets (\<lambda>s. sm_size (multiUserManagers s))"
definition GetValidUserIds :: "int list L" where "GetValidUserIds = gets (\<lambda>s. sm_keys (validUserIds s))"

section \<open>Activating and switching\<close>

definition is_expired :: "multi_env \<Rightarrow> obj option \<Rightarrow> bool" where
  "is_expired e ob \<longleftrightarrow> (case ob of None \<Rightarrow> True | Some x \<Rightarrow> me_dead e x)"

definition RemoveExpiredGlobalSubscriptionsLocked :: "multi_env \<Rightarrow> unit L" where
  "RemoveExpiredGlobalSubscriptionsLocked e = modify (\<lambda>s. s \<lparr> globalSubscriptions :=
     \<lparr> systemAbilitySubscriptions = filter (\<lambda>g. \<not> is_expired e (gs_object g)) (systemAbilitySubscriptions (globalSubscriptions s)),
       systemProcessSubscriptions = filter (\<lambda>g. \<not> is_expired e g) (systemProcessSubscriptions (globalSubscriptions s)) \<rparr> \<rparr>)"

text \<open>A manager whose initialisation fails is destroyed and dropped.\<close>
definition HandleUserActivating :: "multi_env \<Rightarrow> int \<Rightarrow> SamgrErrCode L" where
  "HandleUserActivating e u = do {
     st \<leftarrow> gets (\<lambda>s. sm_find u (userStateMap s));
     if st = Some USER_STATE_STOPPING then ret ERR_INVALID_OPERATION
     else do {
       present \<leftarrow> HasMultiUserManager u;
       if present then ret ERR_OK
       else do {
         RemoveExpiredGlobalSubscriptionsLocked e;
         profiles \<leftarrow> gets allSaProfiles;
         case profiles of
           None \<Rightarrow> ret ERR_INVALID_VALUE
         | Some prs \<Rightarrow> do {
             subs \<leftarrow> gets globalSubscriptions;
             e' \<leftarrow> gets (at_foreground e);
             let m = MultiSystemAbilityManager u subs (me_prefsOf e u);
             let r = eval_st (multi_Init e' prs) m;
             if r \<noteq> ERR_OK then ret r
             else do {
               modify (\<lambda>s. s \<lparr> multiUserManagers := sm_ins u (exec (multi_Init e' prs) m) (multiUserManagers s),
                 validUserIds := set_insert u (validUserIds s),
                 userStateMap := sm_ins u USER_STATE_ACTIVATING (userStateMap s) \<rparr>);
               ret ERR_OK } } } } }"

definition HandleUserSwitching :: "int \<Rightarrow> SamgrErrCode L" where
  "HandleUserSwitching u = do {
     st \<leftarrow> gets (\<lambda>s. sm_find u (userStateMap s));
     if st = Some USER_STATE_STOPPING then ret ERR_INVALID_VALUE
     else do {
       fg \<leftarrow> GetForegroundUserId;
       if u = fg then ret ERR_OK
       else do {
         present \<leftarrow> HasMultiUserManager u;
         if \<not> present then ret ERR_INVALID_VALUE
         else do {
           modify (\<lambda>s. s \<lparr> userStateMap := sm_ins u USER_STATE_SWITCHING (userStateMap s), foregroundUserId := u \<rparr>);
           ret ERR_OK } } } }"

section \<open>Stopping\<close>

definition emit_user :: "user_effect \<Rightarrow> unit L" where
  "emit_user x = modify (\<lambda>s. s \<lparr> userEffects := userEffects s @ [x] \<rparr>)"

text \<open>A process that init does not report as stopped is asked to stop; the answer is only logged.\<close>
definition stop_user_process :: "multi_env \<Rightarrow> int \<Rightarrow> u16string \<Rightarrow> unit L" where
  "stop_user_process e u procName = (let name = e_str16to8 (ce_env (me_cenv e)) procName in do {
     emit_user (WaitUserProcess name u);
     onlyif (me_waitStopped e name \<noteq> 0) (emit_user (StopUserProcess name u)) })"

definition CompleteUserStopping :: "multi_env \<Rightarrow> int \<Rightarrow> nat \<Rightarrow> unit L" where
  "CompleteUserStopping e u c = do {
     ctx \<leftarrow> gets (\<lambda>s. sm_find c (stoppings s));
     case ctx of
       None \<Rightarrow> ret ()
     | Some x \<Rightarrow>
         if us_finalizing x then ret ()
         else do {
           modify (\<lambda>s. s \<lparr> stoppings := sm_ins c (x \<lparr> us_finalizing := True \<rparr>) (stoppings s) \<rparr>);
           for_each (us_processNames x) (stop_user_process e u);
           on_stopping e c () StopEventCollection;
           on_stopping e c () multi_Destroy;
           same \<leftarrow> gets (\<lambda>s. sm_find u (userStoppingContexts s) = Some c);
           onlyif same (do {
             modify (\<lambda>s. s \<lparr> userStoppingContexts := sm_erase u (userStoppingContexts s) \<rparr>);
             st \<leftarrow> gets (\<lambda>s. sm_find u (userStateMap s));
             onlyif (st = Some USER_STATE_STOPPING) (modify (\<lambda>s. s \<lparr> userStateMap := sm_erase u (userStateMap s) \<rparr>)) }) } }"

definition USER_STOP_TIMEOUT :: int where "USER_STOP_TIMEOUT = 5 * 1000"

definition PostUserStopTimeoutTask :: "multi_env \<Rightarrow> int \<Rightarrow> nat \<Rightarrow> unit L" where
  "PostUserStopTimeoutTask e u c = do {
     h \<leftarrow> gets (\<lambda>s. sm_get (FFRTHandler QOS_DEFAULT) u (stopTaskHandlers s));
     let r = PostDelayTask (ce_accept (me_cenv e)) (Some (StopTimeout u c)) USER_STOP_TIMEOUT h;
     modify (\<lambda>s. s \<lparr> stopTaskHandlers := sm_ins u (snd r) (stopTaskHandlers s) \<rparr>);
     onlyif (\<not> fst r) (CompleteUserStopping e u c) }"

text \<open>The body of the timeout task.\<close>
definition run_stop_task :: "multi_env \<Rightarrow> stop_task \<Rightarrow> unit L" where
  "run_stop_task e t = (case t of StopTimeout u c \<Rightarrow> do {
     alive \<leftarrow> gets tasksAlive;
     onlyif alive (CompleteUserStopping e u c) })"

definition StartUserStopping :: "multi_env \<Rightarrow> int \<Rightarrow> multi_manager \<Rightarrow> unit L" where
  "StartUserStopping e u m = do {
     c \<leftarrow> gets nextStopping;
     let names = eval_st (on_base GetSystemProcessNames) m;
     modify (\<lambda>s. s \<lparr> nextStopping := Suc c,
       stoppings := sm_ins c \<lparr> us_manager = m, us_processNames = names, us_finalizing = False \<rparr> (stoppings s),
       userStoppingContexts := sm_ins u c (userStoppingContexts s),
       stopTaskHandlers := sm_touch (FFRTHandler QOS_DEFAULT) u (stopTaskHandlers s) \<rparr>);
     on_stopping e c () NotifyAllSAsToStop;
     if names = [] then CompleteUserStopping e u c else PostUserStopTimeoutTask e u c }"

definition HandleUserStopping :: "multi_env \<Rightarrow> int \<Rightarrow> SamgrErrCode L" where
  "HandleUserStopping e u = do {
     stopping \<leftarrow> IsUserStopping u;
     if stopping then ret ERR_OK
     else do {
       modify (\<lambda>s. s \<lparr> userStateMap := sm_ins u USER_STATE_STOPPING (userStateMap s),
         validUserIds := sm_erase u (validUserIds s) \<rparr>);
       found \<leftarrow> gets (\<lambda>s. sm_find u (multiUserManagers s));
       case found of
         None \<Rightarrow> do { modify (\<lambda>s. s \<lparr> userStateMap := sm_erase u (userStateMap s) \<rparr>); ret ERR_INVALID_VALUE }
       | Some m \<Rightarrow> do {
           modify (\<lambda>s. s \<lparr> multiUserManagers := sm_erase u (multiUserManagers s),
             foregroundUserId := (if u = foregroundUserId s then SAMGR_INVALID_USER_ID else foregroundUserId s) \<rparr>);
           StartUserStopping e u m;
           ret ERR_OK } } }"

text \<open>The destructor.\<close>
definition CancelPendingStopTasks :: "unit L" where
  "CancelPendingStopTasks = modify (\<lambda>s. s \<lparr> tasksAlive := False, stopTaskHandlers := [], userStoppingContexts := [] \<rparr>)"

text \<open>The state is an enumeration of the caller; 0, 1 and 2 are its values.\<close>
definition lm_OnUserStateChanged :: "multi_env \<Rightarrow> int \<Rightarrow> int \<Rightarrow> SamgrErrCode L" where
  "lm_OnUserStateChanged e u userState =
     (if userState = 0 then HandleUserActivating e u
      else if userState = 1 then HandleUserSwitching u
      else if userState = 2 then HandleUserStopping e u
      else ret ERR_INVALID_VALUE)"

section \<open>Subscriptions for all users\<close>

text \<open>The loops over the managers: they stop at the first failure and return the users served so far.\<close>
fun all_users :: "(int \<Rightarrow> SamgrErrCode L) \<Rightarrow> int list \<Rightarrow> int list \<Rightarrow> (SamgrErrCode \<times> int list) L" where
  "all_users f [] served = ret (ERR_OK, served)"
| "all_users f (u # us) served = do {
     result \<leftarrow> f u;
     if result \<noteq> ERR_OK then ret (result, served) else all_users f us (served @ [u]) }"

definition user_ids :: "int list L" where "user_ids = gets (\<lambda>s. sm_keys (multiUserManagers s))"

definition RollbackSaSubscribe :: "multi_env \<Rightarrow> int list \<Rightarrow> int \<Rightarrow> iface option \<Rightarrow> unit L" where
  "RollbackSaSubscribe e users said l = for_each (rev users) (\<lambda>u. do {
     _ \<leftarrow> on_user e u ERR_OK (\<lambda>e. multi_UnSubscribeSystemAbility e said l True); ret () })"

definition RollbackSaUnsubscribe :: "multi_env \<Rightarrow> int list \<Rightarrow> int \<Rightarrow> iface option \<Rightarrow> int \<Rightarrow> unit L" where
  "RollbackSaUnsubscribe e users said l callingPid = for_each (rev users) (\<lambda>u. do {
     _ \<leftarrow> on_user e u ERR_OK (\<lambda>e. SubscribeSystemAbilityWithPid e said l True callingPid); ret () })"

definition RollbackProcessSubscribe :: "multi_env \<Rightarrow> int list \<Rightarrow> iface option \<Rightarrow> unit L" where
  "RollbackProcessSubscribe e users l = for_each (rev users) (\<lambda>u. do {
     _ \<leftarrow> on_user e u ERR_OK (\<lambda>e. multi_UnSubscribeSystemProcess l True); ret () })"

definition RollbackProcessUnsubscribe :: "multi_env \<Rightarrow> int list \<Rightarrow> iface option \<Rightarrow> unit L" where
  "RollbackProcessUnsubscribe e users l = for_each (rev users) (\<lambda>u. do {
     _ \<leftarrow> on_user e u ERR_OK (\<lambda>e. multi_SubscribeSystemProcess l True); ret () })"

definition mod_global :: "(GlobalSubscriptionInfo \<Rightarrow> GlobalSubscriptionInfo) \<Rightarrow> unit L" where
  "mod_global f = modify (\<lambda>s. s \<lparr> globalSubscriptions := f (globalSubscriptions s) \<rparr>)"

definition find_global :: "int \<Rightarrow> obj option \<Rightarrow> GlobalSystemAbilitySubscription list \<Rightarrow> GlobalSystemAbilitySubscription option" where
  "find_global said ob gs = find (\<lambda>g. gs_said g = said \<and> gs_object g = ob) gs"

definition SubscribeSystemAbilityForAllUsers :: "multi_env \<Rightarrow> int \<Rightarrow> iface option \<Rightarrow> int \<Rightarrow> SamgrErrCode L" where
  "SubscribeSystemAbilityForAllUsers e said l callingPid =
     (if listener_object l = None then ret ERR_INVALID_VALUE
      else do {
        RemoveExpiredGlobalSubscriptionsLocked e;
        subs \<leftarrow> gets (\<lambda>s. systemAbilitySubscriptions (globalSubscriptions s));
        if find_global said (listener_object l) subs \<noteq> None then ret ERR_OK
        else if int (length (filter (\<lambda>g. gs_callingPid g = callingPid) subs)) \<ge> MGR_MAX_SUBSCRIBE_COUNT then ret ERR_PERMISSION_DENIED
        else do {
          users \<leftarrow> user_ids;
          (result, served) \<leftarrow> all_users (\<lambda>u. on_user e u ERR_OK (\<lambda>e. SubscribeSystemAbilityWithPid e said l True callingPid)) users [];
          if result \<noteq> ERR_OK then do { RollbackSaSubscribe e served said l; ret result }
          else do {
            mod_global (\<lambda>g. g \<lparr> systemAbilitySubscriptions := systemAbilitySubscriptions g
              @ [\<lparr> gs_said = said, gs_object = listener_object l, gs_callingPid = callingPid \<rparr>] \<rparr>);
            ret ERR_OK } } })"

definition UnSubscribeSystemAbilityForAllUsers :: "multi_env \<Rightarrow> int \<Rightarrow> iface option \<Rightarrow> SamgrErrCode L" where
  "UnSubscribeSystemAbilityForAllUsers e said l =
     (if listener_object l = None then ret ERR_INVALID_VALUE
      else do {
        RemoveExpiredGlobalSubscriptionsLocked e;
        subs \<leftarrow> gets (\<lambda>s. systemAbilitySubscriptions (globalSubscriptions s));
        case find_global said (listener_object l) subs of
          None \<Rightarrow> ret ERR_OK
        | Some g \<Rightarrow> do {
            users \<leftarrow> user_ids;
            (result, served) \<leftarrow> all_users (\<lambda>u. on_user e u ERR_OK (\<lambda>e. multi_UnSubscribeSystemAbility e said l True)) users [];
            if result \<noteq> ERR_OK then do { RollbackSaUnsubscribe e served said l (gs_callingPid g); ret result }
            else do {
              mod_global (\<lambda>i. i \<lparr> systemAbilitySubscriptions := remove1 g (systemAbilitySubscriptions i) \<rparr>);
              ret ERR_OK } } })"

text \<open>The second component is the out parameter \<^verbatim>\<open>subscriptionAdded\<close>.\<close>
definition SubscribeSystemProcessForAllUsers :: "multi_env \<Rightarrow> iface option \<Rightarrow> (SamgrErrCode \<times> bool) L" where
  "SubscribeSystemProcessForAllUsers e l =
     (if listener_object l = None then ret (ERR_INVALID_VALUE, False)
      else do {
        RemoveExpiredGlobalSubscriptionsLocked e;
        subs \<leftarrow> gets (\<lambda>s. systemProcessSubscriptions (globalSubscriptions s));
        if listener_object l \<in> set subs then ret (ERR_OK, False)
        else do {
          users \<leftarrow> user_ids;
          (result, served) \<leftarrow> all_users (\<lambda>u. on_user e u ERR_OK (\<lambda>e. multi_SubscribeSystemProcess l True)) users [];
          if result \<noteq> ERR_OK then do { RollbackProcessSubscribe e served l; ret (result, False) }
          else do {
            mod_global (\<lambda>g. g \<lparr> systemProcessSubscriptions := systemProcessSubscriptions g @ [listener_object l] \<rparr>);
            ret (ERR_OK, True) } } })"

definition UnSubscribeSystemProcessForAllUsers :: "multi_env \<Rightarrow> iface option \<Rightarrow> SamgrErrCode L" where
  "UnSubscribeSystemProcessForAllUsers e l =
     (if listener_object l = None then ret ERR_INVALID_VALUE
      else do {
        RemoveExpiredGlobalSubscriptionsLocked e;
        subs \<leftarrow> gets (\<lambda>s. systemProcessSubscriptions (globalSubscriptions s));
        if listener_object l \<notin> set subs then ret ERR_OK
        else do {
          users \<leftarrow> user_ids;
          (result, served) \<leftarrow> all_users (\<lambda>u. on_user e u ERR_OK (\<lambda>e. multi_UnSubscribeSystemProcess l True)) users [];
          if result \<noteq> ERR_OK then do { RollbackProcessUnsubscribe e served l; ret result }
          else do {
            mod_global (\<lambda>g. g \<lparr> systemProcessSubscriptions := remove1 (listener_object l) (systemProcessSubscriptions g) \<rparr>);
            ret ERR_OK } } })"

end
