(* ===== verification/Multi_Service.thy ===== *)
theory Multi_Service
  imports User_Lifecycle
begin

text \<open>
  The service of a device with several users: the parts of \<^verbatim>\<open>system_ability_manager.cpp\<close> under \<^verbatim>\<open>SUPPORT_MULTI_INSTANCE\<close>. An
  ability is either one of the base user or a multi-instance ability, which every user has for itself. A request goes to the
  base manager or to the manager of a user, as the ability and the user of the caller decide; some requests go to all. A
  function of the service has the prefix \<open>sv_\<close>, with \<open>User\<close> at the end when the caller names the user.
\<close>

section \<open>State\<close>

record multi_service =
  sv_base :: collector \<comment> \<open>the base user's manager with its collect manager\<close>
  sv_users :: lifecycle \<comment> \<open>\<^verbatim>\<open>userLifecycleManager_\<close>\<close>
  sv_multiIds :: "int list" \<comment> \<open>\<^verbatim>\<open>multiInstanceSaIds_\<close>\<close>

type_synonym 'a V = "(multi_service, 'a) state"

definition on_sbase :: "'a K \<Rightarrow> 'a V" where
  "on_sbase m = State (\<lambda>s. (eval_st m (sv_base s), s \<lparr> sv_base := exec m (sv_base s) \<rparr>))"

definition on_users :: "'a L \<Rightarrow> 'a V" where
  "on_users m = State (\<lambda>s. (eval_st m (sv_users s), s \<lparr> sv_users := exec m (sv_users s) \<rparr>))"

text \<open>The environment of the base user's manager.\<close>
definition sbase_cenv :: "multi_env \<Rightarrow> collect_env" where
  "sbase_cenv e = (me_cenv e) \<lparr> ce_env := (ce_env (me_cenv e)) \<lparr> e_userId := 0 \<rparr>, ce_multi := True, ce_userId := 0 \<rparr>"

text \<open>A call of the base class, and of a method that the manager of a user inherits from it.\<close>
definition base_call :: "multi_env \<Rightarrow> (env \<Rightarrow> 'a M) \<Rightarrow> 'a V" where
  "base_call e f = on_sbase (host_call (f (ce_env (sbase_cenv e))))"

definition inherited :: "(env \<Rightarrow> 'a M) \<Rightarrow> multi_env \<Rightarrow> 'a U" where
  "inherited f e = with_env e (\<lambda>be. on_base (f be))"

text \<open>A method that works on the collect manager of a user.\<close>
definition inherited_collect :: "(collect_env \<Rightarrow> 'a K) \<Rightarrow> multi_env \<Rightarrow> 'a U" where
  "inherited_collect f e = do { u \<leftarrow> gets mu_userId; on_inner (f (user_cenv e u)) }"

text \<open>A call through \<^verbatim>\<open>GetMultiUserManager(u)\<close>; \<open>d\<close> when that is null.\<close>
definition at_user :: "multi_env \<Rightarrow> int \<Rightarrow> 'a \<Rightarrow> (multi_env \<Rightarrow> 'a U) \<Rightarrow> 'a V" where
  "at_user e u d f = do {
     ids \<leftarrow> gets sv_multiIds;
     on_users (on_user (e \<lparr> me_samgr := True, me_multiIds := ids \<rparr>) u d f) }"

section \<open>Routing\<close>

definition IsMultiInstanceSaId :: "int \<Rightarrow> bool V" where
  "IsMultiInstanceSaId said = gets (\<lambda>s. said \<in> set (sv_multiIds s))"

text \<open>The user of the caller is the high half of the 64-bit number; all ones stand for the base user.\<close>
definition BASE_CALLING_USER :: "32 word" where "BASE_CALLING_USER = 0xffffffff"

definition GetCallingUserId :: "multi_env \<Rightarrow> int" where
  "GetCallingUserId e = (let callingUserId = (ucast (drop_bit 32 (me_callingUserID e)) :: 32 word) in
     if callingUserId = BASE_CALLING_USER then BASE_USER else sint callingUserId)"

definition RouteForUser :: "int \<Rightarrow> int \<Rightarrow> int V" where
  "RouteForUser said caller = do {
     multi \<leftarrow> IsMultiInstanceSaId said;
     if \<not> multi then ret BASE_USER
     else if caller = BASE_USER then on_users GetForegroundUserId else ret caller }"

definition RouteForSa :: "int \<Rightarrow> int \<Rightarrow> SamgrErrCode V" where
  "RouteForSa said caller = do {
     multi \<leftarrow> IsMultiInstanceSaId said;
     ret (if caller = BASE_USER then (if multi then SA_OPERATION_NOT_ALLOWED else ERR_OK)
       else if multi then ERR_OK else SA_OPERATION_NOT_ALLOWED) }"

text \<open>
  The two frames of the routed methods: reading requests follow \<open>RouteForUser\<close>, requests of the owner of an ability follow
  \<open>RouteForSa\<close>; \<open>fail\<close> makes the answer for an error code.
\<close>
definition route_user :: "multi_env \<Rightarrow> int \<Rightarrow> 'a \<Rightarrow> 'a V \<Rightarrow> (multi_env \<Rightarrow> 'a U) \<Rightarrow> 'a V" where
  "route_user e said none base user = do {
     target \<leftarrow> RouteForUser said (GetCallingUserId e);
     if target \<noteq> BASE_USER then at_user e target none user else base }"

definition route_sa :: "multi_env \<Rightarrow> int \<Rightarrow> (SamgrErrCode \<Rightarrow> 'a) \<Rightarrow> 'a V \<Rightarrow> (multi_env \<Rightarrow> 'a U) \<Rightarrow> 'a V" where
  "route_sa e said fail base user = do {
     routeResult \<leftarrow> RouteForSa said (GetCallingUserId e);
     if routeResult \<noteq> ERR_OK then ret (fail routeResult)
     else if GetCallingUserId e \<noteq> BASE_USER then at_user e (GetCallingUserId e) (fail ERR_INVALID_VALUE) user
     else base }"

section \<open>Requests about one ability\<close>

definition sv_CheckSystemAbility :: "multi_env \<Rightarrow> int \<Rightarrow> obj option V" where
  "sv_CheckSystemAbility e said = route_user e said None
     (base_call e (\<lambda>be. CheckSystemAbility be said)) (inherited (\<lambda>be. CheckSystemAbility be said))"

definition sv_GetSystemAbility :: "multi_env \<Rightarrow> int \<Rightarrow> obj option V" where
  "sv_GetSystemAbility e said = route_user e said None (sv_CheckSystemAbility e said) (inherited (\<lambda>be. CheckSystemAbility be said))"

definition sv_CheckSystemAbilityExist :: "multi_env \<Rightarrow> int \<Rightarrow> bool \<Rightarrow> (obj option \<times> bool) V" where
  "sv_CheckSystemAbilityExist e said isExist = route_user e said (None, isExist)
     (base_call e (\<lambda>be. CheckSystemAbilityExist be said isExist)) (inherited (\<lambda>be. CheckSystemAbilityExist be said isExist))"

definition sv_AddSystemAbility :: "multi_env \<Rightarrow> int \<Rightarrow> obj option \<Rightarrow> bool \<Rightarrow> SamgrErrCode V" where
  "sv_AddSystemAbility e said ability distributed' = route_sa e said id
     (base_call e (\<lambda>be. AddSystemAbility be said ability distributed')) (inherited (\<lambda>be. AddSystemAbility be said ability distributed'))"

text \<open>While a user is stopping, its abilities are removed from the manager that has been put aside.\<close>
definition sv_RemoveSystemAbility :: "multi_env \<Rightarrow> int \<Rightarrow> SamgrErrCode V" where
  "sv_RemoveSystemAbility e said = (let caller = GetCallingUserId e in do {
     routeResult \<leftarrow> RouteForSa said caller;
     if routeResult \<noteq> ERR_OK then ret routeResult
     else if caller \<noteq> BASE_USER then do {
       stopping \<leftarrow> on_users (IsUserStopping caller);
       if stopping then do {
         c \<leftarrow> gets (\<lambda>s. sm_get 0 caller (userStoppingContexts (sv_users s)));
         on_users (on_stopping (e \<lparr> me_samgr := True \<rparr>) c ERR_INVALID_VALUE (inherited (\<lambda>be. RemoveSystemAbility be said))) }
       else at_user e caller ERR_INVALID_VALUE (inherited (\<lambda>be. RemoveSystemAbility be said)) }
     else base_call e (\<lambda>be. RemoveSystemAbility be said) })"

definition sv_AddOnDemandSystemAbilityInfo :: "multi_env \<Rightarrow> int \<Rightarrow> u16string \<Rightarrow> SamgrErrCode V" where
  "sv_AddOnDemandSystemAbilityInfo e said procName = route_sa e said id
     (base_call e (\<lambda>be. AddOnDemandSystemAbilityInfo be said procName)) (inherited (\<lambda>be. AddOnDemandSystemAbilityInfo be said procName))"

definition sv_LoadSystemAbility :: "multi_env \<Rightarrow> int \<Rightarrow> iface option \<Rightarrow> SamgrErrCode V" where
  "sv_LoadSystemAbility e said callback = route_user e said ERR_INVALID_VALUE
     (base_call e (\<lambda>be. LoadSystemAbility be said callback)) (inherited (\<lambda>be. LoadSystemAbility be said callback))"

definition sv_UnloadSystemAbility :: "multi_env \<Rightarrow> int \<Rightarrow> SamgrErrCode V" where
  "sv_UnloadSystemAbility e said = route_sa e said id
     (base_call e (\<lambda>be. UnloadSystemAbility be said)) (inherited (\<lambda>be. UnloadSystemAbility be said))"

definition sv_CancelUnloadSystemAbility :: "multi_env \<Rightarrow> int \<Rightarrow> SamgrErrCode V" where
  "sv_CancelUnloadSystemAbility e said = route_sa e said id
     (base_call e (\<lambda>be. CancelUnloadSystemAbility be said)) (inherited (\<lambda>be. CancelUnloadSystemAbility be said))"

definition sv_GetSystemProcessInfo :: "multi_env \<Rightarrow> int \<Rightarrow> (SamgrErrCode \<times> SystemProcessInfo option) V" where
  "sv_GetSystemProcessInfo e said = route_user e said (ERR_INVALID_VALUE, None)
     (base_call e (\<lambda>be. mgr_GetSystemProcessInfo be said)) (inherited (\<lambda>be. mgr_GetSystemProcessInfo be said))"

definition sv_GetLocalAbilityManagerProxy :: "multi_env \<Rightarrow> int \<Rightarrow> obj option V" where
  "sv_GetLocalAbilityManagerProxy e said = route_user e said None
     (base_call e (\<lambda>be. GetLocalAbilityManagerProxy said)) (inherited (\<lambda>be. GetLocalAbilityManagerProxy said))"

definition sv_GetOnDemandPolicy :: "multi_env \<Rightarrow> int \<Rightarrow> int \<Rightarrow> (SamgrErrCode \<times> SystemAbilityOnDemandEvent list) V" where
  "sv_GetOnDemandPolicy e said type = route_sa e said (\<lambda>r. (r, []))
     (on_sbase (GetOnDemandPolicy (sbase_cenv e) said type)) (inherited_collect (\<lambda>ce. GetOnDemandPolicy ce said type))"

definition sv_UpdateOnDemandPolicy :: "multi_env \<Rightarrow> int \<Rightarrow> int \<Rightarrow> SystemAbilityOnDemandEvent list \<Rightarrow> SamgrErrCode V" where
  "sv_UpdateOnDemandPolicy e said type events = route_sa e said id
     (on_sbase (UpdateOnDemandPolicy (sbase_cenv e) said type events)) (inherited_collect (\<lambda>ce. UpdateOnDemandPolicy ce said type events))"

definition sv_GetCommonEventExtraDataIdlist :: "multi_env \<Rightarrow> int \<Rightarrow> string \<Rightarrow> (SamgrErrCode \<times> int list) V" where
  "sv_GetCommonEventExtraDataIdlist e said eventName = route_sa e said (\<lambda>r. (r, []))
     (on_sbase (GetCommonEventExtraDataIdlist said eventName)) (inherited_collect (\<lambda>ce. GetCommonEventExtraDataIdlist said eventName))"

text \<open>
  Not routed: the report of a failed start goes to the base manager, whoever sends it. Only the look at the registry is the
  overridden \<^verbatim>\<open>CheckSystemAbility\<close>, which asks the manager of the user. (The other methods reach the base manager only for
  abilities whose lookup is routed to the base manager too.)
\<close>
definition sv_OnStartSystemAbilityFail :: "multi_env \<Rightarrow> int \<Rightarrow> int \<Rightarrow> SamgrErrCode V" where
  "sv_OnStartSystemAbilityFail e said code = do {
     targetObject \<leftarrow> sv_CheckSystemAbility e said;
     if targetObject \<noteq> None then ret ERR_OK else base_call e (\<lambda>be. OnStartSystemAbilityFail_absent be said code) }"

section \<open>Subscriptions\<close>

text \<open>The base user's subscription to a multi-instance ability is one for all users.\<close>
definition sv_SubscribeSystemAbility :: "multi_env \<Rightarrow> int \<Rightarrow> iface option \<Rightarrow> SamgrErrCode V" where
  "sv_SubscribeSystemAbility e said l = (let caller = GetCallingUserId e in do {
     multi \<leftarrow> IsMultiInstanceSaId said;
     if caller = BASE_USER \<and> multi then
       (if \<not> CheckInputSysAbilityId said \<or> listener_object l = None then ret ERR_INVALID_VALUE
        else on_users (SubscribeSystemAbilityForAllUsers (e \<lparr> me_samgr := True \<rparr>) said l (e_callingPid (ce_env (me_cenv e)))))
     else do {
       target \<leftarrow> RouteForUser said caller;
       if target \<noteq> BASE_USER then at_user e target ERR_INVALID_VALUE (\<lambda>e. multi_SubscribeSystemAbility e said l False)
       else base_call e (\<lambda>be. SubscribeSystemAbility be said l) } })"

definition sv_UnSubscribeSystemAbility :: "multi_env \<Rightarrow> int \<Rightarrow> iface option \<Rightarrow> SamgrErrCode V" where
  "sv_UnSubscribeSystemAbility e said l = (let caller = GetCallingUserId e in do {
     multi \<leftarrow> IsMultiInstanceSaId said;
     if caller = BASE_USER \<and> multi then on_users (UnSubscribeSystemAbilityForAllUsers (e \<lparr> me_samgr := True \<rparr>) said l)
     else do {
       target \<leftarrow> RouteForUser said caller;
       if target \<noteq> BASE_USER then at_user e target ERR_INVALID_VALUE (\<lambda>e. multi_UnSubscribeSystemAbility e said l False)
       else base_call e (\<lambda>be. UnSubscribeSystemAbility said l) } })"

definition sv_SubscribeSystemProcess :: "multi_env \<Rightarrow> iface option \<Rightarrow> SamgrErrCode V" where
  "sv_SubscribeSystemProcess e l = (let caller = GetCallingUserId e; ue = e \<lparr> me_samgr := True \<rparr> in
     if caller = BASE_USER then do {
       (result, added) \<leftarrow> on_users (SubscribeSystemProcessForAllUsers ue l);
       if result \<noteq> ERR_OK then ret result
       else do {
         r \<leftarrow> base_call e (\<lambda>be. mgr_SubscribeSystemProcess l);
         onlyif (r \<noteq> ERR_OK \<and> added) (do { _ \<leftarrow> on_users (UnSubscribeSystemProcessForAllUsers ue l); ret () });
         ret r } }
     else at_user e caller ERR_INVALID_VALUE (\<lambda>e. multi_SubscribeSystemProcess l False))"

definition sv_UnSubscribeSystemProcess :: "multi_env \<Rightarrow> iface option \<Rightarrow> SamgrErrCode V" where
  "sv_UnSubscribeSystemProcess e l = (let caller = GetCallingUserId e; ue = e \<lparr> me_samgr := True \<rparr> in
     if caller = BASE_USER then do {
       result \<leftarrow> on_users (UnSubscribeSystemProcessForAllUsers ue l);
       if result \<noteq> ERR_OK then ret result
       else do {
         r \<leftarrow> base_call e (\<lambda>be. mgr_UnSubscribeSystemProcess l);
         onlyif (r \<noteq> ERR_OK) (do { _ \<leftarrow> on_users (SubscribeSystemProcessForAllUsers ue l); ret () });
         ret r } }
     else at_user e caller ERR_INVALID_VALUE (\<lambda>e. multi_UnSubscribeSystemProcess l False))"

section \<open>Requests for all users\<close>

definition sv_AddSystemProcess :: "multi_env \<Rightarrow> u16string \<Rightarrow> obj option \<Rightarrow> SamgrErrCode V" where
  "sv_AddSystemProcess e procName procObject' =
     (if GetCallingUserId e \<noteq> BASE_USER
      then at_user e (GetCallingUserId e) ERR_INVALID_VALUE (inherited (\<lambda>be. AddSystemProcess be procName procObject'))
      else base_call e (\<lambda>be. AddSystemProcess be procName procObject'))"

text \<open>
  The loops over the valid users: the code is the first failure, the lists are put together. A user without manager is
  skipped, or ends the loop with an error where \<open>strict\<close>.
\<close>
fun merge_users :: "bool \<Rightarrow> (int \<Rightarrow> (SamgrErrCode \<times> 'a list) option V) \<Rightarrow> int list \<Rightarrow> SamgrErrCode \<Rightarrow> 'a list \<Rightarrow> (SamgrErrCode \<times> 'a list) V" where
  "merge_users strict f [] result infos = ret (result, infos)"
| "merge_users strict f (u # us) result infos = do {
     answer \<leftarrow> f u;
     case answer of
       None \<Rightarrow> if strict then ret (ERR_INVALID_VALUE, infos) else merge_users strict f us result infos
     | Some (userResult, userInfos) \<Rightarrow>
         if userResult = ERR_OK then merge_users strict f us result (infos @ userInfos)
         else merge_users strict f us (if result = ERR_OK then userResult else result) infos }"

definition for_all :: "multi_env \<Rightarrow> bool \<Rightarrow> (env \<Rightarrow> (SamgrErrCode \<times> 'a list) M) \<Rightarrow> (SamgrErrCode \<times> 'a list) V" where
  "for_all e strict f = do {
     (result, infos) \<leftarrow> base_call e f;
     users \<leftarrow> on_users GetValidUserIds;
     merge_users strict (\<lambda>u. at_user e u None (\<lambda>e. do { x \<leftarrow> inherited f e; ret (Some x) })) users result infos }"

definition code_only :: "SamgrErrCode M \<Rightarrow> (SamgrErrCode \<times> unit list) M" where
  "code_only m = do { r \<leftarrow> m; ret (r, []) }"

definition list_only :: "'a list M \<Rightarrow> (SamgrErrCode \<times> 'a list) M" where
  "list_only m = do { l \<leftarrow> m; ret (ERR_OK, l) }"

definition sv_GetRunningSystemProcess :: "multi_env \<Rightarrow> (SamgrErrCode \<times> SystemProcessInfo list) V" where
  "sv_GetRunningSystemProcess e = for_all e True (\<lambda>be. mgr_GetRunningSystemProcess)"

definition sv_UnloadAllIdleSystemAbility :: "multi_env \<Rightarrow> SamgrErrCode V" where
  "sv_UnloadAllIdleSystemAbility e = do { (r, _) \<leftarrow> for_all e False (\<lambda>be. code_only (mgr_UnloadAllIdleSystemAbility be)); ret r }"

definition sv_UnloadProcess :: "multi_env \<Rightarrow> u16string list \<Rightarrow> SamgrErrCode V" where
  "sv_UnloadProcess e processList = do { (r, _) \<leftarrow> for_all e False (\<lambda>be. code_only (mgr_UnloadProcess be processList)); ret r }"

definition sv_GetLruIdleSystemAbilityProc :: "multi_env \<Rightarrow> (SamgrErrCode \<times> IdleProcessInfo list) V" where
  "sv_GetLruIdleSystemAbilityProc e = for_all e False GetLruIdleSystemAbilityProc"

definition sv_GetExtensionRunningSaList :: "multi_env \<Rightarrow> string \<Rightarrow> (SamgrErrCode \<times> obj list) V" where
  "sv_GetExtensionRunningSaList e extension' = for_all e False (\<lambda>be. list_only (GetExtensionRunningSaList extension'))"

definition sv_GetRunningSaExtensionInfoList :: "multi_env \<Rightarrow> string \<Rightarrow> (SamgrErrCode \<times> (int \<times> obj) list) V" where
  "sv_GetRunningSaExtensionInfoList e extension' = for_all e False (\<lambda>be. list_only (GetRunningSaExtensionInfoList extension'))"

text \<open>The loop of \<^verbatim>\<open>SendStrategyToUsers\<close>, with the flag \<^verbatim>\<open>dispatched\<close>.\<close>
fun SendStrategyToUsers :: "multi_env \<Rightarrow> int \<Rightarrow> int list \<Rightarrow> int \<Rightarrow> string \<Rightarrow> int list \<Rightarrow> SamgrErrCode \<Rightarrow> bool \<Rightarrow> (SamgrErrCode \<times> bool) V" where
  "SendStrategyToUsers e type sas level action [] result dispatched = ret (result, dispatched)"
| "SendStrategyToUsers e type sas level action (u # us) result dispatched = do {
     answer \<leftarrow> at_user e u None (\<lambda>e. do { x \<leftarrow> inherited (\<lambda>be. SendStrategy be type sas level action) e; ret (Some x) });
     case answer of
       None \<Rightarrow> SendStrategyToUsers e type sas level action us result dispatched
     | Some r \<Rightarrow> SendStrategyToUsers e type sas level action us (if result = ERR_OK \<and> r \<noteq> ERR_OK then r else result) True }"

definition sv_SendStrategy :: "multi_env \<Rightarrow> int \<Rightarrow> int list \<Rightarrow> int \<Rightarrow> string \<Rightarrow> SamgrErrCode V" where
  "sv_SendStrategy e type sas level action =
     (if sas = [] then base_call e (\<lambda>be. SendStrategy be type sas level action)
      else do {
        ids \<leftarrow> gets sv_multiIds;
        let baseSaIds = filter (\<lambda>a. a \<notin> set ids) sas;
        let multiSaIds = filter (\<lambda>a. a \<in> set ids) sas;
        result \<leftarrow> (if baseSaIds = [] then ret ERR_OK else base_call e (\<lambda>be. SendStrategy be type baseSaIds level action));
        (result, dispatched) \<leftarrow> (if multiSaIds = [] then ret (result, baseSaIds \<noteq> [])
          else do {
            users \<leftarrow> on_users GetValidUserIds;
            (multiResult, d) \<leftarrow> SendStrategyToUsers e type multiSaIds level action users ERR_OK (baseSaIds \<noteq> []);
            ret (if result = ERR_OK then multiResult else result, d) });
        ret (if dispatched then result else ERR_INVALID_VALUE) })"

text \<open>
  An event that the base user's collect manager has matched. Going online or offline concerns every user, whose collect
  manager matches the event against its own profiles.
\<close>
definition sv_ProcessOnDemandEvent :: "multi_env \<Rightarrow> OnDemandEvent \<Rightarrow> SaControlInfo list \<Rightarrow> unit V" where
  "sv_ProcessOnDemandEvent e event saControlList = do {
     base_call e (\<lambda>be. ProcessOnDemandEvent be event saControlList);
     if eventId event \<noteq> DEVICE_ONLINE then ret ()
     else do {
       users \<leftarrow> on_users GetValidUserIds;
       for_each users (\<lambda>u. at_user e u () (\<lambda>e. do {
         present \<leftarrow> on_base (getM collectManager);
         if present then inherited_collect (\<lambda>ce. coll_ReportEvent ce event) e else ret () })) } }"

section \<open>Requests that name a user\<close>

text \<open>Only the base user may name another user.\<close>
definition for_user :: "multi_env \<Rightarrow> int \<Rightarrow> (SamgrErrCode \<Rightarrow> 'a) \<Rightarrow> (multi_env \<Rightarrow> 'a U) \<Rightarrow> 'a V" where
  "for_user e u fail f =
     (if GetCallingUserId e \<noteq> BASE_USER then ret (fail ERR_PERMISSION_DENIED)
      else do {
        valid \<leftarrow> on_users (IsValidUser u);
        if \<not> valid then ret (fail INVALID_CALLING_USER_ID) else at_user e u (fail ERR_INVALID_VALUE) f })"

definition sv_GetSystemAbilityUser :: "multi_env \<Rightarrow> int \<Rightarrow> int \<Rightarrow> obj option V" where
  "sv_GetSystemAbilityUser e said u = for_user e u (\<lambda>_. None) (inherited (\<lambda>be. CheckSystemAbility be said))"

definition sv_CheckSystemAbilityUser :: "multi_env \<Rightarrow> int \<Rightarrow> int \<Rightarrow> obj option V" where
  "sv_CheckSystemAbilityUser e said u = for_user e u (\<lambda>_. None) (inherited (\<lambda>be. CheckSystemAbility be said))"

definition sv_CheckSystemAbilityByUserId :: "multi_env \<Rightarrow> int \<Rightarrow> int \<Rightarrow> (obj option \<times> bool) V" where
  "sv_CheckSystemAbilityByUserId e said u = for_user e u (\<lambda>_. (None, False)) (inherited (\<lambda>be. CheckSystemAbilityExist be said False))"

definition sv_GetSystemProcessInfoUser :: "multi_env \<Rightarrow> int \<Rightarrow> int \<Rightarrow> (SamgrErrCode \<times> SystemProcessInfo option) V" where
  "sv_GetSystemProcessInfoUser e said u = for_user e u (\<lambda>r. (r, None)) (inherited (\<lambda>be. mgr_GetSystemProcessInfo be said))"

definition sv_GetLocalAbilityManagerProxyUser :: "multi_env \<Rightarrow> int \<Rightarrow> int \<Rightarrow> obj option V" where
  "sv_GetLocalAbilityManagerProxyUser e said u = for_user e u (\<lambda>_. None) (inherited (\<lambda>be. GetLocalAbilityManagerProxy said))"

definition sv_LoadSystemAbilityUser :: "multi_env \<Rightarrow> int \<Rightarrow> iface option \<Rightarrow> int \<Rightarrow> SamgrErrCode V" where
  "sv_LoadSystemAbilityUser e said callback u = for_user e u id (inherited (\<lambda>be. LoadSystemAbility be said callback))"

definition sv_SubscribeSystemAbilityUser :: "multi_env \<Rightarrow> int \<Rightarrow> iface option \<Rightarrow> int \<Rightarrow> SamgrErrCode V" where
  "sv_SubscribeSystemAbilityUser e said l u = for_user e u id (\<lambda>e. multi_SubscribeSystemAbility e said l False)"

definition sv_UnSubscribeSystemAbilityUser :: "multi_env \<Rightarrow> int \<Rightarrow> iface option \<Rightarrow> int \<Rightarrow> SamgrErrCode V" where
  "sv_UnSubscribeSystemAbilityUser e said l u = for_user e u id (\<lambda>e. multi_UnSubscribeSystemAbility e said l False)"

definition sv_SubscribeSystemProcessUser :: "multi_env \<Rightarrow> iface option \<Rightarrow> int \<Rightarrow> SamgrErrCode V" where
  "sv_SubscribeSystemProcessUser e l u = for_user e u id (\<lambda>e. multi_SubscribeSystemProcess l False)"

definition sv_UnSubscribeSystemProcessUser :: "multi_env \<Rightarrow> iface option \<Rightarrow> int \<Rightarrow> SamgrErrCode V" where
  "sv_UnSubscribeSystemProcessUser e l u = for_user e u id (\<lambda>e. multi_UnSubscribeSystemProcess l False)"

section \<open>Users\<close>

definition sv_OnUserStateChanged :: "multi_env \<Rightarrow> int \<Rightarrow> int \<Rightarrow> SamgrErrCode V" where
  "sv_OnUserStateChanged e u userState =
     (if u = SAMGR_INVALID_USER_ID \<or> u = BASE_USER then ret ERR_INVALID_VALUE
      else do {
        ids \<leftarrow> gets sv_multiIds;
        on_users (lm_OnUserStateChanged (e \<lparr> me_samgr := True, me_multiIds := ids \<rparr>) u userState) })"

text \<open>
  \<^verbatim>\<open>InitSaProfile\<close> of the multi-instance build: the users get all profiles, the base manager those of its own abilities.
\<close>
definition multi_boot :: "multi_env \<Rightarrow> SaProfile list \<Rightarrow> int list \<Rightarrow> (string, pref_value) smap \<Rightarrow> obj \<Rightarrow> multi_service" where
  "multi_boot e saInfos ids file this = (let own = filter (\<lambda>p. saId p \<notin> set ids) saInfos in
     \<lparr> sv_base = exec (coll_Init (sbase_cenv e) own) (empty_collector file (boot (ce_env (sbase_cenv e)) own this)),
       sv_users = exec (SetSaProfiles saInfos) empty_lifecycle, sv_multiIds = ids \<rparr>)"

section \<open>Steps\<close>

text \<open>
  What a user's manager does without a request of the service: a task of one of its queues, a death notice, a call or a task
  of its collect manager.
\<close>
definition status_listener_died :: "multi_env \<Rightarrow> obj \<Rightarrow> unit U" where
  "status_listener_died e ob = (if e_deathPrior (ce_env (me_cenv e))
     then with_env e (\<lambda>be. on_base (AsyncUnSubscribeSystemAbility be (Some ob))) else multi_UnSubscribeSystemAbilityDied e (Some ob))"

inductive manager_step :: "multi_env \<Rightarrow> multi_manager \<Rightarrow> multi_manager \<Rightarrow> bool" for e where
  task: "get_queue q (host (inner m)) = Some h \<Longrightarrow> queue_start k h = Some (t, h') \<Longrightarrow>
    manager_step e m (exec (multi_run_task e t) (m \<lparr> inner := (inner m) \<lparr> host := put_queue q h' (host (inner m)) \<rparr> \<rparr>))"
| died: "r \<in> {AbilityDied ob, ProcessDied ob, CallbackDied ob, RemoteCallbackDied ob, ProcessListenerDied ob} \<Longrightarrow>
    manager_step e m (exec (with_env e (\<lambda>be. on_base (run_request be r))) m)"
| listener_died: "manager_step e m (exec (status_listener_died e ob) m)"
| call: "(\<And>r. c \<noteq> ManagerRequest r) \<Longrightarrow> manager_step e m (exec (inherited_collect (\<lambda>ce. run_call ce c) e) m)"
| collect_task: "collectHandler (inner m) = Some h \<Longrightarrow> queue_start k h = Some (t, h') \<Longrightarrow>
    manager_step e m (exec (inherited_collect (\<lambda>ce. run_collect_task ce t) e) (m \<lparr> inner := (inner m) \<lparr> collectHandler := Some h' \<rparr> \<rparr>))"
| alarm: "wakeTasks (inner m) = xs @ (d, t) # ys \<Longrightarrow>
    manager_step e m (exec (inherited_collect (\<lambda>ce. run_collect_task ce t) e) (m \<lparr> inner := (inner m) \<lparr> wakeTasks := xs @ ys \<rparr> \<rparr>))"
| event_task: "ce_workHandler (common (inner m)) = Some h \<Longrightarrow> queue_start k h = Some (ProcessEventTask i d, h') \<Longrightarrow>
    manager_step e m (exec (inherited_collect (\<lambda>ce. ce_ProcessEvent ce i d) e)
      (m \<lparr> inner := (inner m) \<lparr> common := (common (inner m)) \<lparr> ce_workHandler := Some h' \<rparr> \<rparr> \<rparr>))"
| network_task: "net_workHandler (networking (inner m)) = Some h \<Longrightarrow> queue_start k h = Some (ProcessEventTask i d, h') \<Longrightarrow>
    manager_step e m (exec (inherited_collect (\<lambda>ce. net_ProcessEvent ce i) e)
      (m \<lparr> inner := (inner m) \<lparr> networking := (networking (inner m)) \<lparr> net_workHandler := Some h' \<rparr> \<rparr> \<rparr>))"

text \<open>
  A step of the service: a request, a step of the base user's manager, of the manager of an active user, of a manager that is
  being stopped, or a timeout task of a stopping user. The environment of a step is arbitrary.
\<close>
definition service_env :: "multi_env \<Rightarrow> multi_service \<Rightarrow> multi_env" where
  "service_env e s = at_foreground (e \<lparr> me_samgr := True, me_multiIds := sv_multiIds s \<rparr>) (sv_users s)"

inductive multi_step :: "multi_service \<Rightarrow> multi_service \<Rightarrow> bool" where
  CheckSystemAbility: "multi_step s (exec (sv_CheckSystemAbility e a) s)"
| GetSystemAbility: "multi_step s (exec (sv_GetSystemAbility e a) s)"
| CheckSystemAbilityExist: "multi_step s (exec (sv_CheckSystemAbilityExist e a b) s)"
| AddSystemAbility: "multi_step s (exec (sv_AddSystemAbility e a ob b) s)"
| RemoveSystemAbility: "multi_step s (exec (sv_RemoveSystemAbility e a) s)"
| AddOnDemandSystemAbilityInfo: "multi_step s (exec (sv_AddOnDemandSystemAbilityInfo e a p) s)"
| LoadSystemAbility: "multi_step s (exec (sv_LoadSystemAbility e a l) s)"
| UnloadSystemAbility: "multi_step s (exec (sv_UnloadSystemAbility e a) s)"
| CancelUnloadSystemAbility: "multi_step s (exec (sv_CancelUnloadSystemAbility e a) s)"
| GetSystemProcessInfo: "multi_step s (exec (sv_GetSystemProcessInfo e a) s)"
| GetLocalAbilityManagerProxy: "multi_step s (exec (sv_GetLocalAbilityManagerProxy e a) s)"
| GetOnDemandPolicy: "multi_step s (exec (sv_GetOnDemandPolicy e a n) s)"
| UpdateOnDemandPolicy: "multi_step s (exec (sv_UpdateOnDemandPolicy e a n evs) s)"
| GetCommonEventExtraDataIdlist: "multi_step s (exec (sv_GetCommonEventExtraDataIdlist e a x) s)"
| OnStartSystemAbilityFail: "multi_step s (exec (sv_OnStartSystemAbilityFail e a n) s)"
| SubscribeSystemAbility: "multi_step s (exec (sv_SubscribeSystemAbility e a l) s)"
| UnSubscribeSystemAbility: "multi_step s (exec (sv_UnSubscribeSystemAbility e a l) s)"
| SubscribeSystemProcess: "multi_step s (exec (sv_SubscribeSystemProcess e l) s)"
| UnSubscribeSystemProcess: "multi_step s (exec (sv_UnSubscribeSystemProcess e l) s)"
| AddSystemProcess: "multi_step s (exec (sv_AddSystemProcess e p ob) s)"
| GetRunningSystemProcess: "multi_step s (exec (sv_GetRunningSystemProcess e) s)"
| UnloadAllIdleSystemAbility: "multi_step s (exec (sv_UnloadAllIdleSystemAbility e) s)"
| UnloadProcess: "multi_step s (exec (sv_UnloadProcess e ps) s)"
| GetLruIdleSystemAbilityProc: "multi_step s (exec (sv_GetLruIdleSystemAbilityProc e) s)"
| GetExtensionRunningSaList: "multi_step s (exec (sv_GetExtensionRunningSaList e x) s)"
| GetRunningSaExtensionInfoList: "multi_step s (exec (sv_GetRunningSaExtensionInfoList e x) s)"
| SendStrategy: "multi_step s (exec (sv_SendStrategy e n sas i x) s)"
| ProcessOnDemandEvent: "multi_step s (exec (sv_ProcessOnDemandEvent e ev cs) s)"
| GetSystemAbilityUser: "multi_step s (exec (sv_GetSystemAbilityUser e a u) s)"
| CheckSystemAbilityUser: "multi_step s (exec (sv_CheckSystemAbilityUser e a u) s)"
| CheckSystemAbilityByUserId: "multi_step s (exec (sv_CheckSystemAbilityByUserId e a u) s)"
| GetSystemProcessInfoUser: "multi_step s (exec (sv_GetSystemProcessInfoUser e a u) s)"
| GetLocalAbilityManagerProxyUser: "multi_step s (exec (sv_GetLocalAbilityManagerProxyUser e a u) s)"
| LoadSystemAbilityUser: "multi_step s (exec (sv_LoadSystemAbilityUser e a l u) s)"
| SubscribeSystemAbilityUser: "multi_step s (exec (sv_SubscribeSystemAbilityUser e a l u) s)"
| UnSubscribeSystemAbilityUser: "multi_step s (exec (sv_UnSubscribeSystemAbilityUser e a l u) s)"
| SubscribeSystemProcessUser: "multi_step s (exec (sv_SubscribeSystemProcessUser e l u) s)"
| UnSubscribeSystemProcessUser: "multi_step s (exec (sv_UnSubscribeSystemProcessUser e l u) s)"
| OnUserStateChanged: "multi_step s (exec (sv_OnUserStateChanged e u n) s)"
| base_step: "collect_step (sv_base s) b \<Longrightarrow> multi_step s (s \<lparr> sv_base := b \<rparr>)"
| user_step: "sm_find u (multiUserManagers (sv_users s)) = Some m \<Longrightarrow> manager_step (service_env e s) m m' \<Longrightarrow>
    multi_step s (s \<lparr> sv_users := (sv_users s) \<lparr> multiUserManagers := sm_ins u m' (multiUserManagers (sv_users s)) \<rparr> \<rparr>)"
| stopping_step: "sm_find u (userStoppingContexts (sv_users s)) = Some c \<Longrightarrow> sm_find c (stoppings (sv_users s)) = Some x \<Longrightarrow>
    manager_step (service_env e s) (us_manager x) m' \<Longrightarrow>
    multi_step s (s \<lparr> sv_users := (sv_users s) \<lparr> stoppings := sm_ins c (x \<lparr> us_manager := m' \<rparr>) (stoppings (sv_users s)) \<rparr> \<rparr>)"
| stop_task: "sm_find u (stopTaskHandlers (sv_users s)) = Some h \<Longrightarrow> queue_start k h = Some (t, h') \<Longrightarrow>
    multi_step s (s \<lparr> sv_users := exec (run_stop_task (service_env e s) t)
      ((sv_users s) \<lparr> stopTaskHandlers := sm_ins u h' (stopTaskHandlers (sv_users s)) \<rparr>) \<rparr>)"

text \<open>\<open>ids\<close> are the multi-instance abilities that the profiles name.\<close>
inductive multi_reachable :: "SaProfile list \<Rightarrow> int list \<Rightarrow> multi_service \<Rightarrow> bool" for profiles ids where
  boot: "sm_ok f \<Longrightarrow> multi_reachable profiles ids (multi_boot e profiles ids f this)"
| step: "multi_reachable profiles ids s \<Longrightarrow> multi_step s s' \<Longrightarrow> multi_reachable profiles ids s'"

end
