(* ===== verification/Multi_Inv.thy ===== *)
theory Multi_Inv
  imports Multi_Service Collect_Props
begin

text \<open>
  The manager of one user keeps the invariants of its parts: those of the scheduler and of the plugins hold after its
  initialisation and after every operation, because everything it does goes through the base manager or the collect manager.
  The contract of the collect component is discharged for the relation that the scheduler's invariant is not lost.
\<close>

section \<open>Programs inside a manager\<close>

interpretation keeps_SI: collect_contract "\<lambda>s s'. SI (host s) \<longrightarrow> SI (host s')"
proof unfold_locales
  have "step\<^sup>*\<^sup>* m m' \<Longrightarrow> SI m \<Longrightarrow> SI m'" for m m' by (induction rule: rtranclp_induct) (auto intro: SI_step)
  then show "step\<^sup>*\<^sup>* (host s) m \<Longrightarrow> SI (host s) \<longrightarrow> SI (host (s \<lparr> host := m \<rparr>))" for s m by simp
qed auto

definition manager_ok :: "multi_manager \<Rightarrow> bool" where
  "manager_ok m \<longleftrightarrow> collect_inv (inner m) \<and> SI (host (inner m))"

named_theorems manager_intros \<open>preservation of the invariant of a user's manager, operation by operation\<close>
named_theorems user_frames \<open>operations that leave the number of the user alone\<close>

lemma manager_on_inner: "keeps_SI.resp m \<Longrightarrow> preserves manager_ok (on_inner m)"
  using keeps_SI.respD by (fastforce simp: hoare_def on_inner_def manager_ok_def run_simps)

lemma SI_on_host: "preserves SI m \<Longrightarrow> keeps_SI.resp (on_host m)"
  by (simp add: keeps_SI.resp_def hoare_def run_simps collect_inv_def queue_ok_def)

lemma SI_host_call: "preserves SI m \<Longrightarrow> keeps_SI.resp (host_call m)"
  unfolding host_call_def by (intro keeps_SI.resp_intros SI_on_host keeps_SI.deliver_resp)

lemma manager_on_base [manager_intros]: "preserves SI m \<Longrightarrow> preserves manager_ok (on_base m)"
  unfolding on_base_def by (intro manager_on_inner SI_host_call)

lemma manager_with_env [manager_intros]: "(\<And>be. preserves manager_ok (f be)) \<Longrightarrow> preserves manager_ok (with_env e f)"
  unfolding with_env_def by (intro hoare_intros)

lemma manager_infos [manager_intros]: "preserves manager_ok (set_infos a is)" "preserves manager_ok (put_infos a is)"
  "preserves manager_ok (modify (\<lambda>s. s \<lparr> subscriberInfoMap := f s \<rparr>))" "preserves manager_ok (modify (\<lambda>s. s \<lparr> mu_subscriptions := g s \<rparr>))"
  unfolding set_infos_def put_infos_def by (simp_all add: hoare_def run_simps manager_ok_def)

lemma user_on_inner [user_frames]: "frames mu_userId (on_inner m)" "frames mu_userId (on_base n)"
  by (simp_all add: frames_def on_base_def on_inner_def run_simps)

lemma user_with_env [user_frames]: "(\<And>be. frames mu_userId (f be)) \<Longrightarrow> frames mu_userId (with_env e f)"
  unfolding with_env_def by (intro frame_intros)

lemma user_infos [user_frames]: "frames mu_userId (set_infos a is)" "frames mu_userId (put_infos a is)"
  "frames mu_userId (modify (\<lambda>s. s \<lparr> subscriberInfoMap := f s \<rparr>))" "frames mu_userId (modify (\<lambda>s. s \<lparr> mu_subscriptions := g s \<rparr>))"
  unfolding set_infos_def put_infos_def by (simp_all add: frames_def run_simps)

section \<open>The operations\<close>

lemma SI_single [si_intros]: "preserves SI (NotifySystemAbilityChanged a d c l)" "preserves SI (UnSubscribeSystemAbility a l)"
  "preserves SI GetSystemProcessNames" "preserves SI (GetSaProfile a)"
  unfolding GetSystemProcessNames_def GetSaProfile_def by (intro hoare_intros si_intros)+

lemma subscriber_infos [manager_intros]:
  "preserves manager_ok (AddSubscriberInfo e a l b)" "preserves manager_ok (RemoveSubscriberInfo e a l b)"
  "preserves manager_ok (ShouldNotifySubscriber e a l)"
  unfolding AddSubscriberInfo_def RemoveSubscriberInfo_def ShouldNotifySubscriber_def by (intro hoare_intros manager_intros)+

lemma subscriptions_kept [manager_intros]:
  "preserves manager_ok (SubscribeSystemAbilityWithPid e a l b n)" "preserves manager_ok (multi_SubscribeSystemAbility e a l b)"
  "preserves manager_ok (multi_UnSubscribeSystemAbility e a l b)" "preserves manager_ok (multi_UnSubscribeSystemAbilityDied e ob)"
  "preserves manager_ok (multi_SubscribeSystemProcess l b)" "preserves manager_ok (multi_UnSubscribeSystemProcess l b)"
  unfolding SubscribeSystemAbilityWithPid_def multi_SubscribeSystemAbility_def multi_UnSubscribeSystemAbility_def
    multi_UnSubscribeSystemAbilityDied_def multi_SubscribeSystemProcess_def multi_UnSubscribeSystemProcess_def
  by (intro hoare_intros manager_intros si_intros)+

lemma notifications_kept [manager_intros]:
  "preserves manager_ok (multi_NotifySystemAbilityChanged e a d c l)" "preserves manager_ok (multi_FindSystemAbilityNotify e a d c)"
  unfolding multi_FindSystemAbilityNotify_def multi_NotifySystemAbilityChanged_def
  by (cases c; simp only: SamgrInterfaceCode.case; intro hoare_intros manager_intros si_intros)+

lemma tasks_kept_ok [manager_intros]: "preserves manager_ok (multi_run_task e t)"
  unfolding multi_run_task_def by (cases t; simp only: task.case; intro hoare_intros manager_intros si_intros SI_run_task)

lemma uninit_resp: "keeps_SI.resp (coll_UnInit e)" "keeps_SI.resp (DeleteUserPreferences me u)"
proof -
  have "keeps_SI.resp (modify (\<lambda>s. s \<lparr> collectHandler := None \<rparr>))" "keeps_SI.resp (modify (\<lambda>s. s \<lparr> collectPluginMap := [] \<rparr>))"
    by (simp_all add: keeps_SI.resp_def run_simps collect_inv_def queue_ok_def)
  then show "keeps_SI.resp (coll_UnInit e)"
    unfolding coll_UnInit_def by (intro keeps_SI.resp_intros keeps_SI.plugin_resp)
  show "keeps_SI.resp (DeleteUserPreferences me u)"
    unfolding DeleteUserPreferences_def by (intro keeps_SI.resp_intros keeps_SI.resp_mods)
qed

lemma stopping_kept [manager_intros]: "preserves manager_ok (NotifyAllSAsToStop e)" "preserves manager_ok (StopEventCollection e)"
  unfolding NotifyAllSAsToStop_def StopEventCollection_def
  by (intro hoare_intros manager_intros si_intros manager_on_inner uninit_resp)+

lemmas subscription_defs = SubscribeSystemAbilityWithPid_def multi_SubscribeSystemAbility_def multi_UnSubscribeSystemAbility_def
    multi_UnSubscribeSystemAbilityDied_def multi_SubscribeSystemProcess_def multi_UnSubscribeSystemProcess_def

lemma user_subscriptions [user_frames]:
  "frames mu_userId (AddSubscriberInfo e a l b)" "frames mu_userId (RemoveSubscriberInfo e a l b)"
  "frames mu_userId (ShouldNotifySubscriber e a l)"
  unfolding AddSubscriberInfo_def RemoveSubscriberInfo_def ShouldNotifySubscriber_def by (intro frame_intros user_frames)+

lemma user_requests [user_frames]:
  "frames mu_userId (SubscribeSystemAbilityWithPid e a l b n)" "frames mu_userId (multi_SubscribeSystemAbility e a l b)"
  "frames mu_userId (multi_UnSubscribeSystemAbility e a l b)" "frames mu_userId (multi_UnSubscribeSystemAbilityDied e ob)"
  "frames mu_userId (multi_SubscribeSystemProcess l b)" "frames mu_userId (multi_UnSubscribeSystemProcess l b)"
  unfolding subscription_defs by (intro frame_intros user_frames)+

lemma user_notifications [user_frames]:
  "frames mu_userId (multi_NotifySystemAbilityChanged e a d c l)" "frames mu_userId (multi_FindSystemAbilityNotify e a d c)"
  unfolding multi_FindSystemAbilityNotify_def multi_NotifySystemAbilityChanged_def
  by (cases c; simp only: SamgrInterfaceCode.case; intro frame_intros user_frames)+

lemma user_stopping [user_frames]:
  "frames mu_userId (multi_run_task e t)" "frames mu_userId (NotifyAllSAsToStop e)" "frames mu_userId (StopEventCollection e)"
  "frames mu_userId (multi_Destroy e)"
  unfolding multi_run_task_def NotifyAllSAsToStop_def StopEventCollection_def multi_Destroy_def
  by (cases t; simp only: task.case; intro frame_intros user_frames) (intro frame_intros user_frames)+

section \<open>Initialisation\<close>

lemma on_base_quiet: "frames effects m \<Longrightarrow> exec (on_base m) s = s \<lparr> inner := (inner s) \<lparr> host := exec m (host (inner s)) \<rparr> \<rparr>"
  by (simp add: on_base_def on_inner_def host_call_def run_simps framesD)

lemma empty_collector_host [simp]: "(empty_collector f m) \<lparr> host := m' \<rparr> = empty_collector f m'" "host (empty_collector f m) = m"
  by (simp_all add: empty_collector_def)

lemma quiet: "frames effects (modM f)" "frames effects (modS g)" "frames effects (modP p k)" "frames effects (getS h)"
  by (simp_all add: frames_def modM_def modS_def modP_def getS_def run_simps)

lemma profiles_ok_filter: "profiles_ok prs \<Longrightarrow> profiles_ok (filter P prs)"
proof -
  have "managed (filter P prs) = filter P (managed prs)" by (simp add: managed_def conj_commute)
  then show "profiles_ok prs \<Longrightarrow> profiles_ok (filter P prs)"
    by (auto simp: profiles_ok_def distinct_map_filter intro: le_less_trans [OF length_filter_le])
qed

lemma filtered_ok: "profiles_ok prs \<Longrightarrow> profiles_ok (filtered_profiles ids prs)"
  unfolding filtered_profiles_def by (rule profiles_ok_filter)

lemma sch_Init_SI:
  assumes ok: "profiles_ok prs" and empty: "sch s = empty_scheduler \<lparr> manager := True \<rparr>"
  shows "SI (exec (sch_Init prs) s)"
proof -
  have "SI s" unfolding empty using SI_empty by (simp add: sched_inv_cong [of "empty_scheduler \<lparr> manager := True \<rparr>" empty_scheduler])
  moreover have "length (managed prs) < 2 ^ 32"
    using ok by (auto simp: profiles_ok_def managed_def intro: le_less_trans [OF length_filter_le])
  ultimately have "SI (exec (InitStateContext prs) s)"
    using ok by (intro InitStateContext_SI [of _ 0]) (auto simp: profiles_ok_def empty sas_le_def empty_scheduler_def)
  then show ?thesis using sched_inv_cong [OF sch_Init_tables] by blast
qed

lemma restore_sas_kept: "preserves manager_ok (restore_sas e gs r)"
  by (induction gs arbitrary: r) (auto intro!: hoare_intros manager_intros split: option.splits)

lemma restore_processes_kept: "preserves manager_ok (restore_processes e gs r)"
  by (induction gs arbitrary: r) (auto intro!: hoare_intros manager_intros split: option.splits)

lemma init_subscriptions_kept: "preserves manager_ok (InitGlobalSubscriptions e)"
  unfolding InitGlobalSubscriptions_def RollbackGlobalSubscriptions_def
  by (intro hoare_intros manager_intros restore_sas_kept restore_processes_kept)

lemma user_restore [user_frames]: "frames mu_userId (restore_sas e gs r)" "frames mu_userId (restore_processes e os p)"
proof -
  show "frames mu_userId (restore_sas e gs r)"
    by (induction gs arbitrary: r) (auto intro!: frame_intros user_frames split: option.splits)
  show "frames mu_userId (restore_processes e os p)"
    by (induction os arbitrary: p) (auto intro!: frame_intros user_frames split: option.splits)
qed

lemma user_init: "mu_userId (exec (multi_Init e prs) (MultiSystemAbilityManager u subs f)) = u"
proof -
  have "frames mu_userId (multi_Init e prs)"
    unfolding multi_Init_def InitSaProfiles_def InitGlobalSubscriptions_def RollbackGlobalSubscriptions_def
    by (intro frame_intros user_frames)
  then show ?thesis by (simp add: framesD MultiSystemAbilityManager_def)
qed

text \<open>The base manager of a new user before its collect manager starts, and the new manager without subscriptions.\<close>
definition init_host :: "multi_env \<Rightarrow> SaProfile list \<Rightarrow> samgr" where
  "init_host e fs = exec (do {
       modS (\<lambda>c. c \<lparr> manager := True \<rparr>);
       modM (\<lambda>m. m \<lparr> abilityDeath := True, systemProcessDeath := True, abilityStatusDeath := True,
         abilityCallbackDeath := True, remoteCallbackDeath := True \<rparr>);
       modM (\<lambda>m. m \<lparr> workHandler := (case workHandler m of None \<Rightarrow> Some (FFRTHandler QOS_DEFAULT) | Some h \<Rightarrow> Some h) \<rparr>);
       modM (\<lambda>m. m \<lparr> deathHandler := (case deathHandler m of
           None \<Rightarrow> if e_deathPrior (ce_env (me_cenv e)) then Some (FFRTHandler QOS_USER_INTERACTIVE) else None | Some h \<Rightarrow> Some h) \<rparr>);
       modM (\<lambda>m. m \<lparr> saProfileMap := [], onDemandSaIdsSet := [] \<rparr>);
       for_each fs (\<lambda>pr. do {
         modM (\<lambda>m. m \<lparr> saProfileMap := sm_ins (saId pr) (FilterCommonSaProfile pr) (saProfileMap m) \<rparr>);
         onlyif (\<not> runOnCreate pr) (modM (\<lambda>m. m \<lparr> onDemandSaIdsSet := sm_ins (saId pr) () (onDemandSaIdsSet m) \<rparr>)) });
       modM (\<lambda>m. m \<lparr> abilityStateScheduler := True \<rparr>);
       sch_Init fs;
       modM (\<lambda>m. m \<lparr> collectManager := True \<rparr>) })
     (empty_samgr \<lparr> mgr := empty_manager \<lparr> isDbinderServiceInit := True \<rparr> \<rparr>)"

definition new_manager :: "multi_env \<Rightarrow> int \<Rightarrow> SaProfile list \<Rightarrow> GlobalSubscriptionInfo \<Rightarrow> (string, pref_value) smap \<Rightarrow> multi_manager" where
  "new_manager e u fs subs f = \<lparr> mu_userId = u, mu_subscriptions = subs, subscriberInfoMap = [],
     inner = exec (coll_Init (user_cenv e u) fs) (empty_collector f (init_host e fs)) \<rparr>"

lemma sch_Init_quiet: "frames effects (sch_Init fs)" "frames mgr (sch_Init fs)"
proof -
  have "frames mgr (modS g)" "frames mgr (modP p k)" "frames mgr (getS h)" for g p k and h :: "scheduler \<Rightarrow> 'b"
    by (simp_all add: frames_def modS_def modP_def getS_def run_simps)
  then show "frames mgr (sch_Init fs)"
    unfolding sch_Init_def InitStateContext_def InitLowMemProcessList_def by (intro frame_intros)
  show "frames effects (sch_Init fs)"
    unfolding sch_Init_def InitStateContext_def InitLowMemProcessList_def by (intro frame_intros quiet)
qed

lemma multi_Init_run:
  assumes "me_samgr e"
  shows "exec (multi_Init e prs) (MultiSystemAbilityManager u subs f)
      = exec (InitGlobalSubscriptions e) (new_manager e u (filtered_profiles (me_multiIds e) prs) subs f)"
    "eval_st (multi_Init e prs) (MultiSystemAbilityManager u subs f)
      = eval_st (InitGlobalSubscriptions e) (new_manager e u (filtered_profiles (me_multiIds e) prs) subs f)"
proof -
  have small: "frames effects (m \<bind> g)" if "frames effects m" "\<And>x. frames effects (g x)" for m :: "'b M" and g :: "'b \<Rightarrow> 'c M"
    using that by (rule frames_bind)
  note run = on_base_quiet small quiet frame_intros sch_Init_quiet(1)
  show "exec (multi_Init e prs) (MultiSystemAbilityManager u subs f)
      = exec (InitGlobalSubscriptions e) (new_manager e u (filtered_profiles (me_multiIds e) prs) subs f)"
    "eval_st (multi_Init e prs) (MultiSystemAbilityManager u subs f)
      = eval_st (InitGlobalSubscriptions e) (new_manager e u (filtered_profiles (me_multiIds e) prs) subs f)"
    unfolding multi_Init_def InitSaProfiles_def MultiSystemAbilityManager_def new_manager_def init_host_def exec_bind eval_bind Let_def
    using assms by (simp_all add: exec_bind run run_simps on_inner_def)
qed

lemma init_host_SI: "profiles_ok fs \<Longrightarrow> SI (init_host e fs)"
proof -
  assume ok: "profiles_ok fs"
  have loop: "frames sch (for_each fs (\<lambda>pr. do {
         modM (\<lambda>m. m \<lparr> saProfileMap := sm_ins (saId pr) (FilterCommonSaProfile pr) (saProfileMap m) \<rparr>);
         onlyif (\<not> runOnCreate pr) (modM (\<lambda>m. m \<lparr> onDemandSaIdsSet := sm_ins (saId pr) () (onDemandSaIdsSet m) \<rparr>)) }))"
    by (intro frame_intros frame_sch)
  have "SI (exec (modM f) s) = SI s" for f s by (simp add: modM_def run_simps)
  note last = this [of "\<lambda>m. m \<lparr> collectManager := True \<rparr>"]
  show ?thesis
    unfolding init_host_def exec_bind last
    by (rule sch_Init_SI [OF ok]) (simp add: modM_def modS_def run_simps framesD [OF loop, unfolded modM_def run_simps] empty_samgr_def)
qed

text \<open>The manager of a new user satisfies its invariant when the profiles of the device are in order.\<close>
lemma multi_Init_ok:
  assumes ok: "profiles_ok prs" and samgr: "me_samgr e"
  shows "manager_ok (exec (multi_Init e prs) (MultiSystemAbilityManager u subs f))"
proof -
  let ?fs = "filtered_profiles (me_multiIds e) prs"
  have "manager_ok (new_manager e u ?fs subs f)"
    using init_inv [of "user_cenv e u" ?fs f "init_host e ?fs"] init_host_SI [OF filtered_ok [OF ok]] by (simp add: new_manager_def manager_ok_def)
  then show ?thesis unfolding multi_Init_run [OF samgr] by (rule preservesD [OF init_subscriptions_kept])
qed

end
