(* ===== verification/User_Inv.thy ===== *)
theory User_Inv
  imports Multi_Inv
begin

text \<open>
  What the life cycle of the users keeps true: who is active, who is stopping, who is in the foreground, and that every
  stopping user has a timeout task in its queue. The laws that it needs of a manager are a locale; under them, what
  holds of every new manager holds of all managers in use, whatever the order of the requests.
\<close>

section \<open>The invariant\<close>

definition is_user :: "int \<Rightarrow> bool" where "is_user u \<longleftrightarrow> u \<noteq> BASE_USER \<and> u \<noteq> SAMGR_INVALID_USER_ID"

definition active_ok :: "lifecycle \<Rightarrow> bool" where
  "active_ok s \<longleftrightarrow> sm_ok (multiUserManagers s) \<and> sm_ok (validUserIds s)
     \<and> (\<forall>u. sm_count u (validUserIds s) \<longleftrightarrow> sm_count u (multiUserManagers s))
     \<and> (\<forall>u m. sm_find u (multiUserManagers s) = Some m \<longrightarrow> is_user u \<and> mu_userId m = u)
     \<and> (foregroundUserId s = SAMGR_INVALID_USER_ID \<or> sm_count (foregroundUserId s) (multiUserManagers s))"

text \<open>The user whose manager a context holds, and whether its end has begun.\<close>
definition owner :: "lifecycle \<Rightarrow> nat \<Rightarrow> int option" where
  "owner s c = map_option (\<lambda>x. mu_userId (us_manager x)) (sm_find c (stoppings s))"

definition finalized :: "lifecycle \<Rightarrow> nat \<Rightarrow> bool" where
  "finalized s c \<longleftrightarrow> (case sm_find c (stoppings s) of None \<Rightarrow> False | Some x \<Rightarrow> us_finalizing x)"

definition contexts_ok :: "lifecycle \<Rightarrow> bool" where
  "contexts_ok s \<longleftrightarrow> (\<forall>u c. sm_find u (userStoppingContexts s) = Some c \<longrightarrow>
       is_user u \<and> \<not> sm_count u (multiUserManagers s) \<and> owner s c = Some u \<and> \<not> finalized s c)
     \<and> (\<forall>c. owner s c \<noteq> None \<longrightarrow> c < nextStopping s)"

definition states_ok :: "lifecycle \<Rightarrow> bool" where
  "states_ok s \<longleftrightarrow> (\<forall>u. (sm_find u (userStateMap s) = Some USER_STATE_STOPPING \<longleftrightarrow> sm_count u (userStoppingContexts s))
     \<and> (sm_count u (userStateMap s) \<longleftrightarrow> sm_count u (multiUserManagers s) \<or> sm_count u (userStoppingContexts s)))"

text \<open>The tasks in the queue of a user are timeouts of contexts of that user.\<close>
definition tasks_ok :: "lifecycle \<Rightarrow> bool" where
  "tasks_ok s \<longleftrightarrow> tasksAlive s \<and> (\<forall>u h. sm_find u (stopTaskHandlers s) = Some h \<longrightarrow> ffrt_ok h
     \<and> (\<forall>k d v c. (k, d, StopTimeout v c) \<in> set (submitted h) \<longrightarrow>
v = u \<and> owner s c = Some u))"

definition timeout_queued :: "int \<Rightarrow> nat \<Rightarrow> lifecycle \<Rightarrow> bool" where
  "timeout_queued u c s \<longleftrightarrow> (\<exists>h k d. sm_find u (stopTaskHandlers s) = Some h \<and> (k, d, StopTimeout u c) \<in> set (submitted h))"

definition all_queued :: "int set \<Rightarrow> lifecycle \<Rightarrow> bool" where
  "all_queued us s \<longleftrightarrow> (\<forall>u c. u \<in> us \<longrightarrow> sm_find u (userStoppingContexts s) = Some c \<longrightarrow> timeout_queued u c s)"

definition users_wf :: "lifecycle \<Rightarrow> bool" where
  "users_wf s \<longleftrightarrow> active_ok s \<and> contexts_ok s \<and> states_ok s \<and> tasks_ok s"

definition users_ok :: "lifecycle \<Rightarrow> bool" where
  "users_ok s \<longleftrightarrow> users_wf s \<and> all_queued UNIV s"

text \<open>A property of all managers in use; the profiles are needed for the managers to come.\<close>
definition managers_all :: "(multi_manager \<Rightarrow> bool) \<Rightarrow> lifecycle \<Rightarrow> bool" where
  "managers_all Q s \<longleftrightarrow> (\<forall>u m. sm_find u (multiUserManagers s) = Some m \<longrightarrow> Q m)
     \<and> (\<forall>c x. sm_find c (stoppings s) = Some x \<longrightarrow> \<not> us_finalizing x \<longrightarrow> Q (us_manager x))
     \<and> (\<forall>prs. allSaProfiles s = Some prs \<longrightarrow> profiles_ok prs)"

lemmas users_defs = users_wf_def active_ok_def contexts_ok_def states_ok_def tasks_ok_def owner_def finalized_def

section \<open>Calls inside a manager\<close>

text \<open>Changing what a table holds, without changing whose manager it is.\<close>
lemma wf_user_changed:
  assumes "users_wf s" "sm_find u (multiUserManagers s) = Some m" "mu_userId m' = mu_userId m"
  shows "users_wf (s \<lparr> multiUserManagers := sm_ins u m' (multiUserManagers s) \<rparr>)"
proof -
  have "sm_count u (multiUserManagers s)" using assms(2) by (simp add: sm_count_def)
  then have count: "sm_count v (sm_ins u m' (multiUserManagers s)) \<longleftrightarrow> sm_count v (multiUserManagers s)" for v by auto
  show ?thesis
    unfolding users_wf_def
  proof (intro conjI)
    show "active_ok (s \<lparr> multiUserManagers := sm_ins u m' (multiUserManagers s) \<rparr>)"
      using assms by (simp add: users_wf_def active_ok_def count del: sm_count_ins)
  qed (use assms in \<open>simp_all add: users_defs count del: sm_count_ins\<close>)
qed

lemma wf_context_changed:
  assumes "users_wf s" "sm_find c (stoppings s) = Some x" "mu_userId (us_manager x') = mu_userId (us_manager x)"
    and "us_finalizing x' = us_finalizing x \<or> (\<forall>u. sm_find u (userStoppingContexts s) \<noteq> Some c)"
  shows "users_wf (s \<lparr> stoppings := sm_ins c x' (stoppings s) \<rparr>)"
proof -
  let ?s = "s \<lparr> stoppings := sm_ins c x' (stoppings s) \<rparr>"
  have owner: "owner ?s = owner s" using assms(2,3) by (auto simp: owner_def)
  moreover have "finalized ?s d = finalized s d" if "sm_find u (userStoppingContexts s) = Some d" for u d
    using assms(2,4) that by (auto simp: finalized_def)
  ultimately have "contexts_ok ?s" using assms(1) by (auto simp: users_wf_def contexts_ok_def)
  with assms(1) owner show ?thesis by (simp add: users_wf_def active_ok_def states_ok_def tasks_ok_def)
qed

lemma on_user_kept:
  assumes "\<And>e. preserves Q (f e)" "\<And>e. frames mu_userId (f e)"
  shows "preserves (\<lambda>s. users_ok s \<and> managers_all Q s) (on_user e u d f)"
proof (rule hoareI, elim conjE)
  fix s assume s: "users_ok s" "managers_all Q s"
  show "users_ok (exec (on_user e u d f) s) \<and> managers_all Q (exec (on_user e u d f) s)"
  proof (cases "sm_find u (multiUserManagers s)")
    case None
    then show ?thesis using s by (simp add: on_user_def run_simps)
  next
    case (Some m)
    let ?m = "exec (f (at_foreground e s)) m"
    have run: "exec (on_user e u d f) s = s \<lparr> multiUserManagers := sm_ins u ?m (multiUserManagers s) \<rparr>"
      using Some by (simp add: on_user_def run_simps Let_def)
    have "users_ok (s \<lparr> multiUserManagers := sm_ins u ?m (multiUserManagers s) \<rparr>)"
      using wf_user_changed [OF _ Some, of ?m] s(1) framesD [OF assms(2)] by (simp add: users_ok_def all_queued_def timeout_queued_def)
    moreover have "managers_all Q (s \<lparr> multiUserManagers := sm_ins u ?m (multiUserManagers s) \<rparr>)"
      using s(2) Some preservesD [OF assms(1)] by (simp add: managers_all_def)
    ultimately show ?thesis unfolding run ..
  qed
qed

lemma on_stopping_inv:
  assumes "\<And>e. preserves Q (f e)" "\<And>e. frames mu_userId (f e)" and s: "users_wf s" "all_queued us s" "managers_all Q s"
  shows "users_wf (exec (on_stopping e c d f) s) \<and> all_queued us (exec (on_stopping e c d f) s) \<and> managers_all Q (exec (on_stopping e c d f) s)"
proof (cases "sm_find c (stoppings s)")
  case None
  then show ?thesis using s by (simp add: on_stopping_def run_simps)
next
  case (Some x)
  let ?x = "x \<lparr> us_manager := exec (f (at_foreground e s)) (us_manager x) \<rparr>"
  have run: "exec (on_stopping e c d f) s = s \<lparr> stoppings := sm_ins c ?x (stoppings s) \<rparr>"
    using Some by (simp add: on_stopping_def run_simps Let_def)
  have "users_wf (s \<lparr> stoppings := sm_ins c ?x (stoppings s) \<rparr>)"
    using wf_context_changed [OF s(1) Some, of ?x] framesD [OF assms(2)] by simp
  moreover have "managers_all Q (s \<lparr> stoppings := sm_ins c ?x (stoppings s) \<rparr>)"
    using s(3) Some preservesD [OF assms(1)] by (simp add: managers_all_def)
  ultimately show ?thesis unfolding run using s(2) by (simp add: all_queued_def timeout_queued_def)
qed

lemma on_stopping_kept:
  assumes "\<And>e. preserves Q (f e)" "\<And>e. frames mu_userId (f e)"
  shows "preserves (\<lambda>s. users_ok s \<and> managers_all Q s) (on_stopping e c d f)"
  unfolding hoare_def users_ok_def using on_stopping_inv [where Q = Q and f = f, OF assms] by blast

section \<open>The end of a stopping user\<close>

lemma stop_processes_run: "\<exists>w. exec (for_each ps (stop_user_process e u)) s = s \<lparr> userEffects := w \<rparr>"
proof -
  have "frames (\<lambda>s. s \<lparr> userEffects := [] \<rparr>) (for_each ps (stop_user_process e u))"
    unfolding stop_user_process_def emit_user_def by (intro frame_intros frames_modify) simp_all
  then have same: "(exec (for_each ps (stop_user_process e u)) s) \<lparr> userEffects := [] \<rparr> = s \<lparr> userEffects := [] \<rparr>" by (rule framesD)
  let ?t = "exec (for_each ps (stop_user_process e u)) s"
  have "?t = (?t \<lparr> userEffects := [] \<rparr>) \<lparr> userEffects := userEffects ?t \<rparr>" by simp
  then show ?thesis unfolding same by (intro exI [of _ "userEffects ?t"]) simp
qed

lemma sm_ins_twice: "sm_ins k v (sm_ins k w m) = sm_ins k v m"
  by (induction m) auto

text \<open>
  A context whose end has not begun ends: it is marked, its manager destroyed, and the user that is recorded with it is
  forgotten.
\<close>
lemma complete_run:
  assumes "sm_find c (stoppings s) = Some x" "\<not> us_finalizing x"
  shows "\<exists>x' w. us_finalizing x' \<and> mu_userId (us_manager x') = mu_userId (us_manager x) \<and>
    exec (CompleteUserStopping e u c) s = (let s1 = s \<lparr> userEffects := w, stoppings := sm_ins c x' (stoppings s) \<rparr> in
      if sm_find u (userStoppingContexts s) = Some c
      then s1 \<lparr> userStoppingContexts := sm_erase u (userStoppingContexts s),
        userStateMap := (if sm_find u (userStateMap s) = Some USER_STATE_STOPPING then sm_erase u (userStateMap s) else userStateMap s) \<rparr>
      else s1)"
proof -
  let ?s1 = "s \<lparr> stoppings := sm_ins c (x \<lparr> us_finalizing := True \<rparr>) (stoppings s) \<rparr>"
  obtain w where w: "exec (for_each (us_processNames x) (stop_user_process e u)) ?s1 = ?s1 \<lparr> userEffects := w \<rparr>"
    using stop_processes_run by blast
  define m where "m = exec (multi_Destroy (at_foreground e s)) (exec (StopEventCollection (at_foreground e s)) (us_manager x))"
  have user: "mu_userId m = mu_userId (us_manager x)"
    unfolding m_def using framesD [OF user_stopping(3)] framesD [OF user_stopping(4)] by metis
  have fg: "at_foreground e (s \<lparr> userEffects := b, stoppings := a \<rparr>) = at_foreground e s \<and> at_foreground e (s \<lparr> stoppings := a, userEffects := b \<rparr>) = at_foreground e s" for a b by (simp add: at_foreground_def)
  show ?thesis
    using assms user
    by (intro exI [of _ "x \<lparr> us_finalizing := True, us_manager := m \<rparr>"] exI [of _ w])
      (simp add: CompleteUserStopping_def run_simps w on_stopping_def Let_def fg sm_ins_twice m_def)
qed

lemma wf_forget:
  assumes "users_wf s" "sm_find u (userStoppingContexts s) = Some c"
  shows "users_wf (s \<lparr> userStoppingContexts := sm_erase u (userStoppingContexts s), userStateMap := sm_erase u (userStateMap s) \<rparr>)"
    (is "users_wf ?s")
proof -
  have "states_ok ?s"
    using assms by (auto simp: users_wf_def states_ok_def contexts_ok_def)
  with assms show ?thesis by (simp add: users_defs)
qed

lemma wf_effects [simp]: "users_wf (s \<lparr> userEffects := w \<rparr>) = users_wf s" "managers_all Q (s \<lparr> userEffects := w \<rparr>) = managers_all Q s"
  "all_queued us (s \<lparr> userEffects := w \<rparr>) = all_queued us s"
  by (simp_all add: users_defs managers_all_def all_queued_def timeout_queued_def)

lemma complete_kept:
  fixes e
  assumes wf: "users_wf s" and own: "owner s c = Some u" and queued: "all_queued us s" and all: "managers_all Q s"
  defines "s' \<equiv> exec (CompleteUserStopping e u c) s"
  shows "users_wf s' \<and> all_queued us s' \<and> managers_all Q s' \<and> multiUserManagers s' = multiUserManagers s \<and>
    userStoppingContexts s' = (if sm_find u (userStoppingContexts s) = Some c then sm_erase u (userStoppingContexts s) else userStoppingContexts s)"
proof -
  obtain x where x: "sm_find c (stoppings s) = Some x" "mu_userId (us_manager x) = u" using own by (auto simp: owner_def)
  have others: "v = u" if "sm_find v (userStoppingContexts s) = Some c" for v
    using wf own that by (simp add: users_wf_def contexts_ok_def)
  show ?thesis
  proof (cases "us_finalizing x")
    case True
    then have "finalized s c" using x by (simp add: finalized_def)
    then have "sm_find u (userStoppingContexts s) \<noteq> Some c" using wf by (auto simp: users_wf_def contexts_ok_def)
    with True x wf queued all show ?thesis by (simp add: s'_def CompleteUserStopping_def run_simps)
  next
    case False
    let ?same = "sm_find u (userStoppingContexts s) = Some c"
    define s0 where "s0 = (if ?same then s \<lparr> userStoppingContexts := sm_erase u (userStoppingContexts s), userStateMap := sm_erase u (userStateMap s) \<rparr> else s)"
    have s0: "stoppings s0 = stoppings s" "multiUserManagers s0 = multiUserManagers s" "allSaProfiles s0 = allSaProfiles s"
      "stopTaskHandlers s0 = stopTaskHandlers s"
      "userStoppingContexts s0 = (if ?same then sm_erase u (userStoppingContexts s) else userStoppingContexts s)"
      by (simp_all add: s0_def)
    have free: "sm_find v (userStoppingContexts s0) \<noteq> Some c" for v
      unfolding s0(5) using others [of v] by (cases "v = u") (simp_all split: if_splits, blast)
    have stopping: "sm_find u (userStateMap s) = Some USER_STATE_STOPPING" if ?same
      using wf that by (simp add: users_wf_def states_ok_def sm_count_def)
    obtain x' w where x': "us_finalizing x'" "mu_userId (us_manager x') = mu_userId (us_manager x)"
      and ended: "s' = (let s1 = s \<lparr> userEffects := w, stoppings := sm_ins c x' (stoppings s) \<rparr> in
      if ?same
      then s1 \<lparr> userStoppingContexts := sm_erase u (userStoppingContexts s),
        userStateMap := (if sm_find u (userStateMap s) = Some USER_STATE_STOPPING then sm_erase u (userStateMap s) else userStateMap s) \<rparr>
      else s1)"
      using complete_run [OF x(1) False, of e u] unfolding s'_def by blast
    have run: "s' = (s0 \<lparr> stoppings := sm_ins c x' (stoppings s0) \<rparr>) \<lparr> userEffects := w \<rparr>"
      using ended stopping by (intro lifecycle.equality) (simp_all add: Let_def s0_def)
    have "users_wf s0" using wf wf_forget by (simp add: s0_def)
    then have "users_wf s'"
      unfolding run wf_effects using x(1) x'(2) free by (intro wf_context_changed [where x = x]) (simp_all only: s0(1), simp)
    moreover have "managers_all Q s'"
      unfolding run wf_effects using all x'(1) by (simp add: managers_all_def s0(1-3))
    moreover have "all_queued us s'"
      unfolding run wf_effects using queued by (simp add: all_queued_def timeout_queued_def s0(4,5))
    ultimately show ?thesis unfolding run by (simp add: s0)
  qed
qed

lemma queue_start_taken:
  assumes "queue_start k h = Some (t, h')"
  shows "(\<exists>d. (k, d, t) \<in> set (submitted h)) \<and> h' = queue_cancel k h"
proof -
  obtain i d where "find (\<lambda>(i, d, t). i = k) (submitted h) = Some (i, d, t)" and h': "h' = queue_cancel k h"
    using assms by (auto simp: queue_start_def split: option.splits)
  moreover have "find P xs = Some x \<Longrightarrow> x \<in> set xs \<and> P x" for P xs and x :: "nat \<times> int \<times> 'a" by (induction xs) (auto split: if_splits)
  ultimately show ?thesis by fastforce
qed

lemma all_queued_erase: "all_queued (- {u}) s \<Longrightarrow> userStoppingContexts s = sm_erase u m \<Longrightarrow> all_queued UNIV s"
  by (auto simp: all_queued_def split: if_splits)

lemma all_queued_add: "all_queued (- {u}) s \<Longrightarrow> (\<And>c. sm_find u (userStoppingContexts s) = Some c \<Longrightarrow> timeout_queued u c s) \<Longrightarrow> all_queued UNIV s"
  unfolding all_queued_def by (metis ComplI singletonD)

lemma queue_start_mem:
  assumes "ffrt_ok h" "(k, d, t) \<in> set (submitted h)"
  shows "queue_start k h = Some (t, queue_cancel k h)"
proof -
  have "distinct (map fst xs) \<Longrightarrow> (k, d, t) \<in> set xs \<Longrightarrow> find (\<lambda>(i, d, t). i = k) xs = Some (k, d, t)" for xs
    by (induction xs) (force split: if_splits)+
  then show ?thesis using assms by (simp add: ffrt_ok_def queue_start_def)
qed

text \<open>Taking a task from the queue of a user; every other stopping user keeps its task.\<close>
lemma stop_task_taken:
  assumes ok: "users_ok s" and h: "sm_find u (stopTaskHandlers s) = Some h" and start: "queue_start k h = Some (StopTimeout v c, h')"
  defines "s1 \<equiv> s \<lparr> stopTaskHandlers := sm_ins u h' (stopTaskHandlers s) \<rparr>"
  shows "v = u \<and> owner s c = Some u \<and> users_wf s1 \<and> all_queued (- {u}) s1 \<and> (sm_find u (userStoppingContexts s) \<noteq> Some c \<longrightarrow> all_queued UNIV s1)"
proof -
  have wf: "users_wf s" and queued: "all_queued UNIV s" using ok by (auto simp: users_ok_def)
  have tasks: "ffrt_ok h" "\<And>k d v c. (k, d, StopTimeout v c) \<in> set (submitted h) \<Longrightarrow> v = u \<and> owner s c = Some u"
    using wf h by (auto simp: users_wf_def tasks_ok_def)
  obtain d where d: "(k, d, StopTimeout v c) \<in> set (submitted h)" and h': "h' = queue_cancel k h"
    using queue_start_taken [OF start] by blast
  have ffrt: "ffrt_ok h'" unfolding h' by (rule ffrt_ok_cancel [OF tasks(1)])
  have keys: "distinct (map fst (submitted h))" using tasks(1) by (simp add: ffrt_ok_def)
  have others: "(j, i, StopTimeout u c') \<in> set (submitted h')" if "(j, i, StopTimeout u c') \<in> set (submitted h)" "c' \<noteq> c" for j i c'
    using that d eq_key_imp_eq_value [OF keys, of k "(d, StopTimeout v c)" "(i, StopTimeout u c')"] by (auto simp: h' queue_cancel_def)
  have "owner s1 = owner s" by (auto simp: s1_def owner_def)
  moreover have "set (submitted h') \<subseteq> set (submitted h)" by (auto simp: h' queue_cancel_def)
  ultimately have "tasks_ok s1"
    using wf ffrt tasks(2) by (auto simp: s1_def users_wf_def tasks_ok_def)
  then have "users_wf s1" using wf unfolding s1_def by (simp add: users_defs)
  moreover have rest: "all_queued (- {u}) s1" using queued by (auto simp: s1_def all_queued_def timeout_queued_def)
  have own: "timeout_queued u c' s1" if "sm_find u (userStoppingContexts s) = Some c'" "c' \<noteq> c" for c'
    using queued that others h by (fastforce simp: s1_def all_queued_def timeout_queued_def)
  have "all_queued UNIV s1" if "sm_find u (userStoppingContexts s) \<noteq> Some c"
    using that own by (intro all_queued_add [OF rest]) (auto simp: s1_def)
  ultimately show ?thesis using tasks(2) [OF d] rest by blast
qed

lemma run_stop_kept:
  fixes e
  assumes ok: "users_ok s" and all: "managers_all Q s" and h: "sm_find u (stopTaskHandlers s) = Some h" and start: "queue_start k h = Some (t, h')"
  defines "s' \<equiv> exec (run_stop_task e t) (s \<lparr> stopTaskHandlers := sm_ins u h' (stopTaskHandlers s) \<rparr>)"
  shows "users_ok s' \<and> managers_all Q s'"
proof -
  obtain v c where t: "t = StopTimeout v c" by (cases t)
  let ?s1 = "s \<lparr> stopTaskHandlers := sm_ins u h' (stopTaskHandlers s) \<rparr>"
  note taken = stop_task_taken [OF ok h start [unfolded t]]
  have run: "s' = exec (CompleteUserStopping e u c) ?s1"
    using taken ok by (simp add: s'_def t run_stop_task_def run_simps users_ok_def users_wf_def tasks_ok_def)
  have pre: "owner ?s1 c = Some u" "managers_all Q ?s1" "users_wf ?s1" using taken all by (auto simp: owner_def managers_all_def)
  show ?thesis
  proof (cases "sm_find u (userStoppingContexts s) = Some c")
    case True
    then show ?thesis
      using complete_kept [OF pre(3,1) _ pre(2), of "- {u}" e] taken all_queued_erase unfolding run users_ok_def by auto
  next
    case False
    then show ?thesis
      using complete_kept [OF pre(3,1) _ pre(2), of UNIV e] taken unfolding run users_ok_def by auto
  qed
qed

section \<open>The changes of the state of a user\<close>

lemma wf_activate:
  assumes "users_wf s" "is_user u" "\<not> sm_count u (multiUserManagers s)" "sm_find u (userStateMap s) \<noteq> Some USER_STATE_STOPPING" "mu_userId m = u"
  shows "users_wf (s \<lparr> multiUserManagers := sm_ins u m (multiUserManagers s), validUserIds := set_insert u (validUserIds s),
    userStateMap := sm_ins u USER_STATE_ACTIVATING (userStateMap s) \<rparr>)" (is "users_wf ?s")
proof -
  have none: "\<not> sm_count u (userStoppingContexts s)" using assms(1,4) by (auto simp: users_wf_def states_ok_def)
  have "active_ok ?s" using assms by (auto simp: users_wf_def active_ok_def)
  moreover have "contexts_ok ?s" using assms(1) none by (auto simp: users_wf_def contexts_ok_def owner_def finalized_def sm_count_def)
  moreover have "states_ok ?s" using assms(1) none by (auto simp: users_wf_def states_ok_def)
  moreover have "tasks_ok ?s" using assms(1) by (simp add: users_wf_def tasks_ok_def owner_def)
  ultimately show ?thesis by (simp add: users_wf_def)
qed

lemma active_not_stopping: "users_wf s \<Longrightarrow> sm_count u (multiUserManagers s) \<Longrightarrow> \<not> sm_count u (userStoppingContexts s)"
  by (cases "sm_find u (userStoppingContexts s)") (auto simp: users_wf_def contexts_ok_def sm_count_def [of _ "userStoppingContexts s"])

lemma wf_switch:
  assumes "users_wf s" "sm_count u (multiUserManagers s)"
  shows "users_wf (s \<lparr> userStateMap := sm_ins u USER_STATE_SWITCHING (userStateMap s), foregroundUserId := u \<rparr>)" (is "users_wf ?s")
proof -
  have none: "\<not> sm_count u (userStoppingContexts s)" by (rule active_not_stopping [OF assms])
  have "states_ok ?s" using assms none by (auto simp: users_wf_def states_ok_def)
  then show ?thesis using assms by (simp add: users_wf_def active_ok_def contexts_ok_def tasks_ok_def owner_def finalized_def)
qed

text \<open>The manager moves from the table of active users to a new context.\<close>
lemma wf_start_stopping:
  fixes names
  assumes ok: "users_ok s" and m: "sm_find u (multiUserManagers s) = Some m"
  defines "c \<equiv> nextStopping s"
  defines "s' \<equiv> s \<lparr> userStateMap := sm_ins u USER_STATE_STOPPING (userStateMap s), validUserIds := sm_erase u (validUserIds s),
      multiUserManagers := sm_erase u (multiUserManagers s),
      foregroundUserId := (if u = foregroundUserId s then SAMGR_INVALID_USER_ID else foregroundUserId s),
      nextStopping := Suc c, stoppings := sm_ins c \<lparr> us_manager = m, us_processNames = names, us_finalizing = False \<rparr> (stoppings s),
      userStoppingContexts := sm_ins u c (userStoppingContexts s),
      stopTaskHandlers := sm_touch (FFRTHandler QOS_DEFAULT) u (stopTaskHandlers s) \<rparr>"
  shows "users_wf s' \<and> all_queued (- {u}) s' \<and> owner s' c = Some u"
proof -
  have wf: "users_wf s" and queued: "all_queued UNIV s" using ok by (auto simp: users_ok_def)
  have u: "is_user u" "mu_userId m = u" using wf m by (auto simp: users_wf_def active_ok_def)
  have fresh: "owner s c = None" using wf unfolding users_wf_def contexts_ok_def c_def by blast
  have owner: "owner s' d = (if d = c then Some u else owner s d)" for d using u by (simp add: s'_def owner_def)
  have fin: "finalized s' d = (if d = c then False else finalized s d)" for d by (simp add: s'_def finalized_def)
  have fields: "userStoppingContexts s' = sm_ins u c (userStoppingContexts s)" "nextStopping s' = Suc c"
    "multiUserManagers s' = sm_erase u (multiUserManagers s)" "tasksAlive s' = tasksAlive s"
    "stopTaskHandlers s' = sm_touch (FFRTHandler QOS_DEFAULT) u (stopTaskHandlers s)"
    by (simp_all add: s'_def)
  have ctx: "is_user v \<and> \<not> sm_count v (multiUserManagers s) \<and> owner s d = Some v \<and> \<not> finalized s d \<and> d \<noteq> c"
    if "sm_find v (userStoppingContexts s) = Some d" for v d
    using wf that fresh by (auto simp: users_wf_def contexts_ok_def)
  have bound: "d < c" if "owner s d = Some v" for d v using wf that by (auto simp: users_wf_def contexts_ok_def c_def)
  have "active_ok s'" using wf by (auto simp: users_wf_def active_ok_def s'_def)
  moreover have "contexts_ok s'"
    unfolding contexts_ok_def fields owner fin using ctx u(1) bound by (auto simp: less_SucI split: if_splits)
  moreover have "states_ok s'" using wf by (auto simp: users_wf_def states_ok_def s'_def)
  moreover have "tasks_ok s'"
  proof -
    have "submitted (FFRTHandler QOS_DEFAULT :: stop_task ffrt_handler) = []" by (simp add: FFRTHandler_def)
    then show ?thesis
      using wf fresh unfolding users_wf_def tasks_ok_def owner fields
      by (auto simp: sm_get_def ffrt_ok_new split: if_splits option.splits)
  qed
  moreover have "all_queued (- {u}) s'" using queued by (auto simp: s'_def all_queued_def timeout_queued_def)
  ultimately show ?thesis by (simp add: users_wf_def owner)
qed

section \<open>The laws of a manager\<close>

text \<open>
  What the life cycle asks of a manager: a property of every new manager that no call of the life cycle on a manager in use
  destroys.
\<close>
locale user_managers =
  fixes Q :: "multi_manager \<Rightarrow> bool"
  assumes Q_init: "profiles_ok prs \<Longrightarrow> me_samgr e \<Longrightarrow> Q (exec (multi_Init e prs) (MultiSystemAbilityManager u subs f))"
    and Q_subscribe: "preserves Q (SubscribeSystemAbilityWithPid e a l b n)" "preserves Q (multi_UnSubscribeSystemAbility e a l b)"
    and Q_processes: "preserves Q (multi_SubscribeSystemProcess l b)" "preserves Q (multi_UnSubscribeSystemProcess l b)"
    and Q_stop: "preserves Q (NotifyAllSAsToStop e)"
begin

abbreviation inv :: "lifecycle \<Rightarrow> bool" where "inv s \<equiv> users_ok s \<and> managers_all Q s"

lemma global_kept: "preserves inv (RemoveExpiredGlobalSubscriptionsLocked e)" "preserves inv (mod_global f)"
  unfolding RemoveExpiredGlobalSubscriptionsLocked_def mod_global_def
  by (simp_all add: hoare_def run_simps users_ok_def users_defs all_queued_def timeout_queued_def managers_all_def)

lemma activating_kept: "is_user u \<Longrightarrow> me_samgr e \<Longrightarrow> preserves inv (HandleUserActivating e u)"
proof (rule hoareI)
  fix s assume u: "is_user u" "me_samgr e" and "inv s"
  then have ok: "users_ok s" "managers_all Q s" by auto
  let ?s1 = "exec (RemoveExpiredGlobalSubscriptionsLocked e) s"
  have ok1: "users_ok ?s1" "managers_all Q ?s1" using preservesD [OF global_kept(1)] ok by blast+
  have same: "multiUserManagers ?s1 = multiUserManagers s" "userStateMap ?s1 = userStateMap s"
    by (simp_all add: RemoveExpiredGlobalSubscriptionsLocked_def run_simps)
  show "inv (exec (HandleUserActivating e u) s)"
  proof (cases "sm_find u (userStateMap s) = Some USER_STATE_STOPPING \<or> sm_count u (multiUserManagers s) \<or> allSaProfiles ?s1 = None")
    case True
    then show ?thesis using ok ok1 by (auto simp: HandleUserActivating_def HasMultiUserManager_def run_simps)
  next
    case False
    then obtain prs where prs: "allSaProfiles ?s1 = Some prs" by auto
    let ?m0 = "MultiSystemAbilityManager u (globalSubscriptions ?s1) (me_prefsOf e u)" and ?init = "multi_Init (at_foreground e ?s1) prs"
    let ?s2 = "?s1 \<lparr> multiUserManagers := sm_ins u (exec ?init ?m0) (multiUserManagers ?s1), validUserIds := set_insert u (validUserIds ?s1),
        userStateMap := sm_ins u USER_STATE_ACTIVATING (userStateMap ?s1) \<rparr>"
    have run: "exec (HandleUserActivating e u) s = (if eval_st ?init ?m0 = ERR_OK then ?s2 else ?s1)"
      using False prs by (simp add: HandleUserActivating_def HasMultiUserManager_def run_simps Let_def)
    have "users_wf ?s2"
      using ok1 u False same by (intro wf_activate) (auto simp: users_ok_def user_init)
    moreover have "all_queued UNIV ?s2" using ok1 by (simp add: users_ok_def all_queued_def timeout_queued_def)
    moreover have "managers_all Q ?s2"
      using ok1 prs u Q_init [of prs "at_foreground e ?s1"] by (simp add: managers_all_def at_foreground_def)
    ultimately show ?thesis unfolding run using ok1 by (simp add: users_ok_def)
  qed
qed

lemma switching_kept: "preserves inv (HandleUserSwitching u)"
proof (rule hoareI)
  fix s assume "inv s"
  then have ok: "users_ok s" "managers_all Q s" by auto
  let ?s = "s \<lparr> userStateMap := sm_ins u USER_STATE_SWITCHING (userStateMap s), foregroundUserId := u \<rparr>"
  have "inv ?s" if "sm_count u (multiUserManagers s)"
    using ok that wf_switch by (simp add: users_ok_def all_queued_def timeout_queued_def managers_all_def)
  with ok show "inv (exec (HandleUserSwitching u) s)"
    by (simp add: HandleUserSwitching_def HasMultiUserManager_def GetForegroundUserId_def run_simps)
qed

lemma post_timeout_kept:
  assumes wf: "users_wf s" and own: "owner s c = Some u" and ctx: "sm_find u (userStoppingContexts s) = Some c"
    and queued: "all_queued (- {u}) s" and all: "managers_all Q s"
  shows "inv (exec (PostUserStopTimeoutTask e u c) s)"
proof -
  let ?h = "sm_get (FFRTHandler QOS_DEFAULT) u (stopTaskHandlers s)"
  let ?r = "PostDelayTask (ce_accept (me_cenv e)) (Some (StopTimeout u c)) USER_STOP_TIMEOUT ?h"
  let ?s1 = "s \<lparr> stopTaskHandlers := sm_ins u (snd ?r) (stopTaskHandlers s) \<rparr>"
  have run: "exec (PostUserStopTimeoutTask e u c) s = (if fst ?r then ?s1 else exec (CompleteUserStopping e u c) ?s1)"
    by (simp add: PostUserStopTimeoutTask_def run_simps Let_def)
  have "submitted (FFRTHandler QOS_DEFAULT :: stop_task ffrt_handler) = []" by (simp add: FFRTHandler_def)
  then have old: "ffrt_ok ?h" "\<And>k d v c. (k, d, StopTimeout v c) \<in> set (submitted ?h) \<Longrightarrow> v = u \<and> owner s c = Some u"
    using wf by (auto simp: users_wf_def tasks_ok_def sm_get_def ffrt_ok_new split: option.splits)
  have sub: "(k, d, t) \<in> set (submitted (snd ?r)) \<Longrightarrow> (k, d, t) \<in> set (submitted ?h) \<or> t = StopTimeout u c" for k d t
    by (auto simp: PostDelayTask_def queue_submit_def split: if_splits)
  have new: "v = u \<and> owner s c' = Some u" if "(k, d, StopTimeout v c') \<in> set (submitted (snd ?r))" for k d v c'
    using sub [OF that] old(2) own by blast
  have owner: "owner ?s1 = owner s" by (auto simp: owner_def)
  have "tasks_ok ?s1"
    using wf new ffrt_ok_PostDelayTask [OF old(1)] unfolding tasks_ok_def owner by (auto simp: users_wf_def tasks_ok_def)
  then have wf1: "users_wf ?s1" using wf by (simp add: users_wf_def active_ok_def contexts_ok_def states_ok_def owner_def finalized_def)
  have queued1: "all_queued (- {u}) ?s1" using queued by (auto simp: all_queued_def timeout_queued_def)
  have all1: "managers_all Q ?s1" using all by (simp add: managers_all_def)
  show ?thesis
  proof (cases "fst ?r")
    case True
    then have "timeout_queued u c ?s1" by (auto simp: timeout_queued_def PostDelayTask_def queue_submit_def split: if_splits)
    then have "all_queued UNIV ?s1" using ctx by (intro all_queued_add [OF queued1]) auto
    then show ?thesis unfolding run using True wf1 all1 by (simp add: users_ok_def)
  next
    case False
    then show ?thesis
      unfolding run using complete_kept [OF wf1 _ queued1 all1, of c u e] own ctx all_queued_erase [of u] by (auto simp: owner users_ok_def)
  qed
qed

lemma stopping_kept_all: "preserves inv (HandleUserStopping e u)"
proof (rule hoareI)
  fix s assume "inv s"
  then have ok: "users_ok s" "managers_all Q s" by auto
  have none: "sm_erase u (sm_ins u x m) = sm_erase u m" for x :: SamgrUserState and m
    by (induction m) (auto simp: sm_erase_def)
  show "inv (exec (HandleUserStopping e u) s)"
  proof (cases "sm_find u (multiUserManagers s)")
    case None
    have state: "sm_erase u (userStateMap s) = userStateMap s" if "\<not> sm_count u (userStoppingContexts s)"
    proof (rule sm_erase_absent)
      have "\<not> sm_count u (userStateMap s)"
        using ok None that by (simp add: users_ok_def users_wf_def states_ok_def sm_count_def [of u "multiUserManagers s"])
      then show "sm_find u (userStateMap s) = None" by (simp add: sm_count_def)
    qed
    have valid: "sm_erase u (validUserIds s) = validUserIds s"
    proof (rule sm_erase_absent)
      have "\<not> sm_count u (validUserIds s)" using ok None by (simp add: users_ok_def users_wf_def active_ok_def sm_count_def)
      then show "sm_find u (validUserIds s) = None" unfolding sm_count_def by blast
    qed
    show ?thesis using ok None by (simp add: HandleUserStopping_def IsUserStopping_def run_simps none state valid)
  next
    case (Some m)
    then have new: "\<not> sm_count u (userStoppingContexts s)" using ok active_not_stopping by (simp add: users_ok_def sm_count_def)
    let ?c = "nextStopping s" and ?names = "eval_st (on_base GetSystemProcessNames) m"
    let ?s1 = "s \<lparr> userStateMap := sm_ins u USER_STATE_STOPPING (userStateMap s), validUserIds := sm_erase u (validUserIds s),
      multiUserManagers := sm_erase u (multiUserManagers s),
      foregroundUserId := (if u = foregroundUserId s then SAMGR_INVALID_USER_ID else foregroundUserId s),
      nextStopping := Suc ?c, stoppings := sm_ins ?c \<lparr> us_manager = m, us_processNames = ?names, us_finalizing = False \<rparr> (stoppings s),
      userStoppingContexts := sm_ins u ?c (userStoppingContexts s),
      stopTaskHandlers := sm_touch (FFRTHandler QOS_DEFAULT) u (stopTaskHandlers s) \<rparr>"
    let ?s2 = "exec (on_stopping e ?c () NotifyAllSAsToStop) ?s1"
    have run: "exec (HandleUserStopping e u) s = (if ?names = [] then exec (CompleteUserStopping e u ?c) ?s2 else exec (PostUserStopTimeoutTask e u ?c) ?s2)"
      using new Some by (simp add: HandleUserStopping_def IsUserStopping_def StartUserStopping_def run_simps Let_def)
    note start = wf_start_stopping [OF ok(1) Some, of ?names]
    have "managers_all Q ?s1" using ok(2) Some by (simp add: managers_all_def)
    then have two: "users_wf ?s2" "all_queued (- {u}) ?s2" "managers_all Q ?s2"
      using start on_stopping_inv [where s = ?s1 and Q = Q and f = NotifyAllSAsToStop and us = "- {u}" and e = e and c = ?c and d = "()", OF Q_stop user_stopping(2)]
      by blast+
    have ctx: "sm_find u (userStoppingContexts ?s2) = Some ?c"
      by (simp add: on_stopping_def run_simps Let_def)
    then have "owner ?s2 ?c = Some u" using two(1) by (simp add: users_wf_def contexts_ok_def)
    then show ?thesis
      unfolding run using complete_kept [OF two(1) _ two(2,3), of ?c u e] post_timeout_kept [OF two(1) _ ctx two(2,3)] ctx all_queued_erase [of u]
      by (auto simp: users_ok_def)
  qed
qed

lemma state_changed_kept: "is_user u \<Longrightarrow> me_samgr e \<Longrightarrow> preserves inv (lm_OnUserStateChanged e u n)"
  unfolding lm_OnUserStateChanged_def by (intro hoare_intros activating_kept switching_kept stopping_kept_all)

section \<open>Subscriptions for all users\<close>

lemma all_users_kept: "(\<And>u. preserves inv (f u)) \<Longrightarrow> preserves inv (all_users f us served)"
  by (induction us arbitrary: served) (auto intro!: hoare_intros)

lemmas user_calls = on_user_kept [OF Q_subscribe(1) user_requests(1)] on_user_kept [OF Q_subscribe(2) user_requests(3)]
  on_user_kept [OF Q_processes(1) user_requests(5)] on_user_kept [OF Q_processes(2) user_requests(6)]

lemma rollbacks_kept: "preserves inv (RollbackSaSubscribe e us a l)" "preserves inv (RollbackSaUnsubscribe e us a l n)"
  "preserves inv (RollbackProcessSubscribe e us l)" "preserves inv (RollbackProcessUnsubscribe e us l)"
  unfolding RollbackSaSubscribe_def RollbackSaUnsubscribe_def RollbackProcessSubscribe_def RollbackProcessUnsubscribe_def
  by (intro hoare_intros user_calls)+

lemma for_all_users_kept: "preserves inv (SubscribeSystemAbilityForAllUsers e a l n)" "preserves inv (UnSubscribeSystemAbilityForAllUsers e a l)"
  "preserves inv (SubscribeSystemProcessForAllUsers e l)" "preserves inv (UnSubscribeSystemProcessForAllUsers e l)"
  unfolding SubscribeSystemAbilityForAllUsers_def UnSubscribeSystemAbilityForAllUsers_def SubscribeSystemProcessForAllUsers_def
    UnSubscribeSystemProcessForAllUsers_def user_ids_def
  by (intro hoare_intros global_kept all_users_kept user_calls rollbacks_kept)+

end

interpretation sound_managers: user_managers manager_ok
  by unfold_locales (auto intro: multi_Init_ok manager_intros)

end
