(* ===== verification/Multi_System.thy ===== *)
theory Multi_System
  imports User_Inv
begin

text \<open>
  The service of a device with several users keeps, in every reachable state and for every order of requests, tasks and
  death notices: the invariants of the base user's manager, of every user's manager, and of the tables of the users.
\<close>

section \<open>The invariant\<close>

definition service_ok :: "multi_service \<Rightarrow> bool" where
  "service_ok s \<longleftrightarrow> collect_inv (sv_base s) \<and> SI (host (sv_base s)) \<and> users_ok (sv_users s) \<and> managers_all manager_ok (sv_users s)"

named_theorems service_intros \<open>preservation of the invariant of the service, operation by operation\<close>

lemma service_on_sbase: "keeps_SI.resp m \<Longrightarrow> preserves service_ok (on_sbase m)"
  using keeps_SI.respD by (fastforce simp: hoare_def on_sbase_def service_ok_def run_simps)

lemma service_base_call [service_intros]: "(\<And>be. preserves SI (f be)) \<Longrightarrow> preserves service_ok (base_call e f)"
  unfolding base_call_def by (intro service_on_sbase SI_host_call)

lemma service_on_users: "preserves (\<lambda>s. users_ok s \<and> managers_all manager_ok s) m \<Longrightarrow> preserves service_ok (on_users m)"
  by (simp add: hoare_def on_users_def service_ok_def run_simps)

lemma service_at_user [service_intros]:
  "(\<And>e. preserves manager_ok (f e)) \<Longrightarrow> (\<And>e. frames mu_userId (f e)) \<Longrightarrow> preserves service_ok (at_user e u d f)"
  unfolding at_user_def by (intro hoare_intros service_on_users on_user_kept)

lemma inherited_kept [manager_intros]: "(\<And>be. preserves SI (f be)) \<Longrightarrow> preserves manager_ok (inherited f e)"
  unfolding inherited_def by (intro manager_intros)

lemma inherited_collect_kept [manager_intros]: "(\<And>ce. keeps_SI.resp (f ce)) \<Longrightarrow> preserves manager_ok (inherited_collect f e)"
  unfolding inherited_collect_def by (intro hoare_intros manager_on_inner)

lemma inherited_user [user_frames]: "frames mu_userId (inherited f e)" "frames mu_userId (inherited_collect g e)"
  unfolding inherited_def inherited_collect_def by (intro frame_intros user_frames)+

lemma service_reads [service_intros]: "preserves service_ok (IsMultiInstanceSaId a)" "preserves service_ok (RouteForSa a c)"
  "preserves service_ok (on_users (gets f))"
proof -
  show "preserves service_ok (on_users (gets f))" by (simp add: hoare_def on_users_def run_simps)
  show "preserves service_ok (IsMultiInstanceSaId a)" "preserves service_ok (RouteForSa a c)"
    unfolding RouteForSa_def IsMultiInstanceSaId_def by (intro hoare_intros)+
qed

lemma service_queries [service_intros]: "preserves service_ok (on_users GetForegroundUserId)" "preserves service_ok (on_users (IsUserStopping u))"
  "preserves service_ok (on_users (IsValidUser u))" "preserves service_ok (on_users GetValidUserIds)" "preserves service_ok (RouteForUser a c)"
  unfolding GetForegroundUserId_def IsUserStopping_def IsValidUser_def GetValidUserIds_def RouteForUser_def
  by (intro hoare_intros service_intros)+

lemma service_routes [service_intros]:
  "preserves service_ok b \<Longrightarrow> (\<And>e. preserves manager_ok (f e)) \<Longrightarrow> (\<And>e. frames mu_userId (f e)) \<Longrightarrow> preserves service_ok (route_user e a n b f)"
  "preserves service_ok b \<Longrightarrow> (\<And>e. preserves manager_ok (f e)) \<Longrightarrow> (\<And>e. frames mu_userId (f e)) \<Longrightarrow> preserves service_ok (route_sa e a k b f)"
  "(\<And>e. preserves manager_ok (f e)) \<Longrightarrow> (\<And>e. frames mu_userId (f e)) \<Longrightarrow> preserves service_ok (for_user e u k f)"
  unfolding route_user_def route_sa_def for_user_def by (intro hoare_intros service_intros; assumption)+

section \<open>The requests\<close>

lemma SI_reads [si_intros]: "preserves SI (mgr_GetSystemProcessInfo e a)" "preserves SI (GetLocalAbilityManagerProxy a)"
  "preserves SI mgr_GetRunningSystemProcess" "preserves SI (GetExtensionRunningSaList x)" "preserves SI (GetRunningSaExtensionInfoList x)"
  unfolding mgr_GetSystemProcessInfo_def GetLocalAbilityManagerProxy_def mgr_GetRunningSystemProcess_def GetExtensionRunningSaList_def
    GetRunningSaExtensionInfoList_def
  by (intro hoare_intros si_intros)+

lemmas request_intros = hoare_intros frame_intros service_intros manager_intros user_frames si_intros

lemma ability_requests [service_intros]:
  "preserves service_ok (sv_CheckSystemAbility e a)" "preserves service_ok (sv_GetSystemAbility e a)" "preserves service_ok (sv_CheckSystemAbilityExist e a b)"
  "preserves service_ok (sv_AddSystemAbility e a ob b)" "preserves service_ok (sv_AddOnDemandSystemAbilityInfo e a p)"
  "preserves service_ok (sv_LoadSystemAbility e a l)" "preserves service_ok (sv_UnloadSystemAbility e a)"
  "preserves service_ok (sv_CancelUnloadSystemAbility e a)" "preserves service_ok (sv_GetSystemProcessInfo e a)"
  "preserves service_ok (sv_GetLocalAbilityManagerProxy e a)" "preserves service_ok (sv_OnStartSystemAbilityFail e a n)"
  "preserves service_ok (sv_AddSystemProcess e p ob)"
  unfolding sv_CheckSystemAbility_def sv_GetSystemAbility_def sv_CheckSystemAbilityExist_def sv_AddSystemAbility_def sv_AddOnDemandSystemAbilityInfo_def
    sv_LoadSystemAbility_def sv_UnloadSystemAbility_def sv_CancelUnloadSystemAbility_def sv_GetSystemProcessInfo_def
    sv_GetLocalAbilityManagerProxy_def sv_OnStartSystemAbilityFail_def sv_AddSystemProcess_def
  by (intro request_intros)+

lemma policy_requests [service_intros]:
  "preserves service_ok (sv_GetOnDemandPolicy e a n)" "preserves service_ok (sv_UpdateOnDemandPolicy e a n evs)"
  "preserves service_ok (sv_GetCommonEventExtraDataIdlist e a x)"
  unfolding sv_GetOnDemandPolicy_def sv_UpdateOnDemandPolicy_def sv_GetCommonEventExtraDataIdlist_def
  by (intro request_intros service_on_sbase keeps_SI.policy_reads_resp keeps_SI.update_resp)+

lemma remove_request [service_intros]: "preserves service_ok (sv_RemoveSystemAbility e a)"
  unfolding sv_RemoveSystemAbility_def by (intro request_intros service_on_users on_stopping_kept)

lemma subscription_requests [service_intros]:
  "preserves service_ok (sv_SubscribeSystemAbility e a l)" "preserves service_ok (sv_UnSubscribeSystemAbility e a l)"
  "preserves service_ok (sv_SubscribeSystemProcess e l)" "preserves service_ok (sv_UnSubscribeSystemProcess e l)"
  unfolding sv_SubscribeSystemAbility_def sv_UnSubscribeSystemAbility_def sv_SubscribeSystemProcess_def sv_UnSubscribeSystemProcess_def
  by (intro request_intros service_on_users sound_managers.for_all_users_kept)+

lemma merge_kept: "(\<And>u. preserves service_ok (f u)) \<Longrightarrow> preserves service_ok (merge_users b f us r is)"
  by (induction us arbitrary: r "is") (auto intro!: hoare_intros split: option.splits prod.splits)

lemma for_all_kept [service_intros]: "(\<And>be. preserves SI (f be)) \<Longrightarrow> preserves service_ok (for_all e b f)"
  unfolding for_all_def by (intro request_intros merge_kept) simp_all

lemma strategy_kept: "preserves service_ok (SendStrategyToUsers e n sas i x us r b)"
  by (induction us arbitrary: r b) (auto intro!: request_intros split: option.splits)

lemma all_requests [service_intros]:
  "preserves service_ok (sv_GetRunningSystemProcess e)" "preserves service_ok (sv_UnloadAllIdleSystemAbility e)" "preserves service_ok (sv_UnloadProcess e ps)"
  "preserves service_ok (sv_GetLruIdleSystemAbilityProc e)" "preserves service_ok (sv_GetExtensionRunningSaList e x)"
  "preserves service_ok (sv_GetRunningSaExtensionInfoList e x)" "preserves service_ok (sv_SendStrategy e n sas i x)"
  "preserves service_ok (sv_ProcessOnDemandEvent e ev cs)"
  unfolding sv_GetRunningSystemProcess_def sv_UnloadAllIdleSystemAbility_def sv_UnloadProcess_def sv_GetLruIdleSystemAbilityProc_def
    sv_GetExtensionRunningSaList_def sv_GetRunningSaExtensionInfoList_def sv_SendStrategy_def sv_ProcessOnDemandEvent_def code_only_def list_only_def
  by (intro request_intros for_all_kept strategy_kept keeps_SI.report_resp)+

lemma named_user_requests [service_intros]:
  "preserves service_ok (sv_GetSystemAbilityUser e a u)" "preserves service_ok (sv_CheckSystemAbilityUser e a u)"
  "preserves service_ok (sv_CheckSystemAbilityByUserId e a u)" "preserves service_ok (sv_GetSystemProcessInfoUser e a u)"
  "preserves service_ok (sv_GetLocalAbilityManagerProxyUser e a u)" "preserves service_ok (sv_LoadSystemAbilityUser e a l u)"
  "preserves service_ok (sv_SubscribeSystemAbilityUser e a l u)" "preserves service_ok (sv_UnSubscribeSystemAbilityUser e a l u)"
  "preserves service_ok (sv_SubscribeSystemProcessUser e l u)" "preserves service_ok (sv_UnSubscribeSystemProcessUser e l u)"
  unfolding sv_GetSystemAbilityUser_def sv_CheckSystemAbilityUser_def sv_CheckSystemAbilityByUserId_def sv_GetSystemProcessInfoUser_def
    sv_GetLocalAbilityManagerProxyUser_def sv_LoadSystemAbilityUser_def sv_SubscribeSystemAbilityUser_def sv_UnSubscribeSystemAbilityUser_def
    sv_SubscribeSystemProcessUser_def sv_UnSubscribeSystemProcessUser_def
  by (intro request_intros)+

lemma user_state_request [service_intros]: "preserves service_ok (sv_OnUserStateChanged e u n)"
  unfolding sv_OnUserStateChanged_def by (intro request_intros service_on_users sound_managers.state_changed_kept) (auto simp: is_user_def)

section \<open>The steps\<close>

lemma manager_ok_inner: "keeps_SI.resp m \<Longrightarrow> manager_ok (x \<lparr> inner := c \<rparr>) \<Longrightarrow> manager_ok (exec (on_inner m) (x \<lparr> inner := c \<rparr>))"
  by (rule preservesD [OF manager_on_inner])

text \<open>A step of the collect component that the contract covers, taken by a user's manager.\<close>
lemma collect_step_user: "collect_step (inner m) c \<Longrightarrow> manager_ok m \<Longrightarrow> manager_ok (m \<lparr> inner := c \<rparr>)"
  using keeps_SI.step_resp by (auto simp: manager_ok_def)

lemma exec_inherited_collect: "exec (inherited_collect f e) m = m \<lparr> inner := exec (f (user_cenv e (mu_userId m))) (inner m) \<rparr>"
  by (simp add: inherited_collect_def on_inner_def run_simps)

lemma listener_died_kept: "preserves manager_ok (status_listener_died e ob)" "frames mu_userId (status_listener_died e ob)"
  unfolding status_listener_died_def by (intro request_intros)+

lemma manager_step_user: "manager_step e m m' \<Longrightarrow> mu_userId m' = mu_userId m"
  by (induction rule: manager_step.induct)
    (simp_all add: framesD [OF user_stopping(1)] framesD [OF user_with_env [OF user_on_inner(2)]] framesD [OF listener_died_kept(2)]
      exec_inherited_collect)

lemma manager_step_kept: "manager_step e m m' \<Longrightarrow> manager_ok m \<Longrightarrow> manager_ok m'"
proof (induction rule: manager_step.induct)
  case (task q m h k t h')
  then have "manager_ok (m \<lparr> inner := (inner m) \<lparr> host := put_queue q h' (host (inner m)) \<rparr> \<rparr>)"
    by (simp add: manager_ok_def collect_inv_def queue_ok_def)
  then show ?case by (rule preservesD [OF tasks_kept_ok])
next
  case (died r ob m)
  have "preserves manager_ok (with_env e (\<lambda>be. on_base (run_request be r)))" by (intro manager_intros SI_run_request)
  then show ?case using died.prems by (rule preservesD)
next
  case (listener_died m ob)
  then show ?case by (rule preservesD [OF listener_died_kept(1)])
next
  case (call c m)
  then show ?case
    unfolding exec_inherited_collect by (intro collect_step_user collect_step.call)
next
  case (collect_task m h k t h')
  then show ?case using collect_step_user [OF collect_step.task] by (simp add: exec_inherited_collect)
next
  case (alarm m xs d t ys)
  then show ?case using collect_step_user [OF collect_step.alarm] by (simp add: exec_inherited_collect)
next
  case (event_task m h k i d h')
  then show ?case using collect_step_user [OF collect_step.event_task] by (simp add: exec_inherited_collect)
next
  case (network_task m h k i d h')
  then show ?case using collect_step_user [OF collect_step.network_task] by (simp add: exec_inherited_collect)
qed

lemma service_step: "multi_step s s' \<Longrightarrow> service_ok s \<Longrightarrow> service_ok s'"
proof (induction rule: multi_step.induct)
  case (base_step s b)
  then show ?case using keeps_SI.step_resp by (auto simp: service_ok_def)
next
  case (user_step u s m e m')
  then have "manager_ok m" by (simp add: service_ok_def managers_all_def)
  then have "manager_ok m'" using user_step(2) manager_step_kept by blast
  then show ?case
    using user_step(1,3) wf_user_changed [of "sv_users s" u m m'] manager_step_user [OF user_step(2)]
    by (simp add: service_ok_def managers_all_def users_ok_def all_queued_def timeout_queued_def)
next
  case (stopping_step u s c x e m')
  then have "\<not> finalized (sv_users s) c" unfolding service_ok_def users_ok_def users_wf_def contexts_ok_def by blast
  then have x: "\<not> us_finalizing x" using stopping_step(2) by (simp add: finalized_def)
  then have "manager_ok (us_manager x)" using stopping_step(2,4) by (simp add: service_ok_def managers_all_def)
  then have "manager_ok m'" using stopping_step(3) manager_step_kept by blast
  then show ?case
    using stopping_step(2,4) wf_context_changed [of "sv_users s" c x "x \<lparr> us_manager := m' \<rparr>"] manager_step_user [OF stopping_step(3)]
    by (simp add: service_ok_def managers_all_def users_ok_def all_queued_def timeout_queued_def)
next
  case (stop_task u s h k t h' e)
  then show ?case using run_stop_kept [of "sv_users s"] by (auto simp: service_ok_def)
qed (auto intro: preservesD service_intros)

lemma service_boot:
  assumes "profiles_ok prs"
  shows "service_ok (multi_boot e prs ids f this)"
proof -
  let ?own = "filter (\<lambda>p. saId p \<notin> set ids) prs"
  have "SI (boot be ?own this)" for be by (rule SI_boot [OF profiles_ok_filter [OF assms]])
  then have "collect_inv (sv_base (multi_boot e prs ids f this)) \<and> SI (host (sv_base (multi_boot e prs ids f this)))"
    using init_inv [of "sbase_cenv e" ?own f "boot (ce_env (sbase_cenv e)) ?own this"] by (simp add: multi_boot_def Let_def)
  moreover have "users_ok (sv_users (multi_boot e prs ids f this))" "managers_all manager_ok (sv_users (multi_boot e prs ids f this))"
    using assms
    by (simp_all add: multi_boot_def Let_def SetSaProfiles_def run_simps empty_lifecycle_def users_ok_def users_defs all_queued_def managers_all_def)
  ultimately show ?thesis by (simp add: service_ok_def)
qed

lemma service_reachable: "multi_reachable prs ids s \<Longrightarrow> profiles_ok prs \<Longrightarrow> service_ok s"
  by (induction rule: multi_reachable.induct) (auto intro: service_boot service_step)

end
