(* ===== verification/Multi_Samples.thy ===== *)
theory Multi_Samples
  imports Multi_System Registry_Props
begin

text \<open>
  A device with users: ability 401 is a multi-instance ability, 402 one of the base user; users 100 and 101 are activated, 101
  is switched to the foreground. Nothing here models code.
\<close>

definition sample_menv :: multi_env where
  "sample_menv = \<lparr> me_cenv = sample_cenv, me_gone = (\<lambda>_. False), me_dead = (\<lambda>_. False), me_cast = (\<lambda>ob. Some (Iface ob (Some ob))), me_samgr = True,
     me_foreground = -1, me_multiIds = [], me_callingUserID = 0xffffffff00000000, me_waitStopped = (\<lambda>_. 0), me_stopService = (\<lambda>_. 0),
     me_deletePrefs = True, me_prefsOf = (\<lambda>_. []) \<rparr>"

definition as_user :: "int \<Rightarrow> multi_env" where
  "as_user u = sample_menv \<lparr> me_callingUserID := push_bit 32 (word_of_int u) \<rparr>"

lemma sample_callers: "GetCallingUserId sample_menv = 0" "GetCallingUserId (as_user 100) = 100" "GetCallingUserId (as_user 101) = 101"
  by code_simp+

definition multi_profiles :: "SaProfile list" where
  "multi_profiles = [sample_profile ''foo'' 401, sample_profile ''bar'' 402]"

lemma multi_profiles_ok: "profiles_ok multi_profiles"
  by (simp add: profiles_ok_def multi_profiles_def managed_def sample_profile_def u16_def SAMGR_PROCESS_NAME_def)

definition started :: multi_service where
  "started = multi_boot sample_menv multi_profiles [401] [] 7"

definition active :: multi_service where
  "active = exec (sv_OnUserStateChanged sample_menv 101 1) (exec (sv_OnUserStateChanged sample_menv 101 0)
     (exec (sv_OnUserStateChanged sample_menv 100 0) started))"

lemma active_reachable: "multi_reachable multi_profiles [401] active"
  unfolding active_def started_def by (intro multi_reachable.step [OF _ multi_step.OnUserStateChanged] multi_reachable.boot) simp

text \<open>What activating a user does on a device without subscriptions.\<close>
lemma init_without_subscriptions:
  assumes "me_samgr e"
  shows "exec (multi_Init e prs) (MultiSystemAbilityManager u GlobalSubscriptionInfo_empty f)
      = new_manager e u (filtered_profiles (me_multiIds e) prs) GlobalSubscriptionInfo_empty f"
    "eval_st (multi_Init e prs) (MultiSystemAbilityManager u GlobalSubscriptionInfo_empty f) = ERR_OK"
  by (simp_all add: multi_Init_run [OF assms] InitGlobalSubscriptions_def GlobalSubscriptionInfo_empty_def run_simps new_manager_def)

definition sample_manager :: "multi_env \<Rightarrow> int \<Rightarrow> multi_manager" where
  "sample_manager e u = new_manager e u [sample_profile ''foo'' 401] GlobalSubscriptionInfo_empty []"

lemma activate:
  assumes "is_user u" "sv_multiIds s = [401]" "allSaProfiles (sv_users s) = Some multi_profiles" "globalSubscriptions (sv_users s) = GlobalSubscriptionInfo_empty"
    and "\<not> sm_count u (multiUserManagers (sv_users s))" "sm_find u (userStateMap (sv_users s)) = None"
  shows "exec (sv_OnUserStateChanged sample_menv u 0) s = s \<lparr> sv_users := (sv_users s) \<lparr>
    multiUserManagers := sm_ins u (sample_manager (at_foreground (sample_menv \<lparr> me_multiIds := [401] \<rparr>) (sv_users s)) u) (multiUserManagers (sv_users s)),
    validUserIds := set_insert u (validUserIds (sv_users s)), userStateMap := sm_ins u USER_STATE_ACTIVATING (userStateMap (sv_users s)) \<rparr> \<rparr>"
proof -
  let ?e = "sample_menv \<lparr> me_multiIds := [401] \<rparr>"
  have e: "sample_menv \<lparr> me_samgr := True, me_multiIds := [401] \<rparr> = ?e" by (simp add: sample_menv_def)
  have clean: "exec (RemoveExpiredGlobalSubscriptionsLocked e') (sv_users s) = sv_users s" for e'
    using assms(4) by (simp add: RemoveExpiredGlobalSubscriptionsLocked_def run_simps GlobalSubscriptionInfo_empty_def)
  have fs: "filtered_profiles [401] multi_profiles = [sample_profile ''foo'' 401]"
    by (simp add: filtered_profiles_def multi_profiles_def sample_profile_def)
  have prefs: "me_prefsOf sample_menv u = []" and samgr: "me_samgr (at_foreground ?e (sv_users s))" "me_multiIds (at_foreground ?e (sv_users s)) = [401]"
    by (simp_all add: sample_menv_def at_foreground_def)
  show ?thesis
    using assms
    by (simp add: sv_OnUserStateChanged_def is_user_def run_simps on_users_def lm_OnUserStateChanged_def e HandleUserActivating_def
        HasMultiUserManager_def clean prefs init_without_subscriptions [OF samgr(1)] samgr(2) fs sample_manager_def)
qed

lemma started_users: "sv_users started = empty_lifecycle \<lparr> allSaProfiles := Some multi_profiles \<rparr>" "sv_multiIds started = [401]"
  by (simp_all add: started_def multi_boot_def Let_def SetSaProfiles_def run_simps)

lemma active_users:
  "\<exists>e e'. multiUserManagers (sv_users active) = [(100, sample_manager e 100), (101, sample_manager e' 101)]"
  "sv_multiIds active = [401]" "validUserIds (sv_users active) = [(100, ()), (101, ())]" "foregroundUserId (sv_users active) = 101"
  "userStoppingContexts (sv_users active) = []" "stopTaskHandlers (sv_users active) = []" "nextStopping (sv_users active) = 0"
  "globalSubscriptions (sv_users active) = GlobalSubscriptionInfo_empty" "allSaProfiles (sv_users active) = Some multi_profiles"
proof -
  have one: "exec (sv_OnUserStateChanged sample_menv 100 0) started = started \<lparr> sv_users := (sv_users started) \<lparr>
    multiUserManagers := [(100, sample_manager (at_foreground (sample_menv \<lparr> me_multiIds := [401] \<rparr>) (sv_users started)) 100)],
    validUserIds := [(100, ())], userStateMap := [(100, USER_STATE_ACTIVATING)] \<rparr> \<rparr>" (is "_ = ?one")
    by (subst activate) (simp_all add: started_users empty_lifecycle_def is_user_def BASE_USER_def SAMGR_INVALID_USER_ID_def)
  have two: "exec (sv_OnUserStateChanged sample_menv 101 0) ?one = ?one \<lparr> sv_users := (sv_users ?one) \<lparr>
    multiUserManagers := sm_ins 101 (sample_manager (at_foreground (sample_menv \<lparr> me_multiIds := [401] \<rparr>) (sv_users ?one)) 101) (multiUserManagers (sv_users ?one)),
    validUserIds := [(100, ()), (101, ())], userStateMap := [(100, USER_STATE_ACTIVATING), (101, USER_STATE_ACTIVATING)] \<rparr> \<rparr>"
    by (subst activate) (simp_all add: started_users empty_lifecycle_def is_user_def BASE_USER_def SAMGR_INVALID_USER_ID_def sm_count_def sm_find_Cons)
  show "\<exists>e e'. multiUserManagers (sv_users active) = [(100, sample_manager e 100), (101, sample_manager e' 101)]"
    "sv_multiIds active = [401]" "validUserIds (sv_users active) = [(100, ()), (101, ())]" "foregroundUserId (sv_users active) = 101"
    "userStoppingContexts (sv_users active) = []" "stopTaskHandlers (sv_users active) = []" "nextStopping (sv_users active) = 0"
    "globalSubscriptions (sv_users active) = GlobalSubscriptionInfo_empty" "allSaProfiles (sv_users active) = Some multi_profiles"
    unfolding active_def one two
    by (simp_all add: sv_OnUserStateChanged_def lm_OnUserStateChanged_def HandleUserSwitching_def GetForegroundUserId_def HasMultiUserManager_def
        run_simps on_users_def started_users empty_lifecycle_def BASE_USER_def SAMGR_INVALID_USER_ID_def sm_count_def sm_find_Cons) blast
qed

lemma sample_manager_mgr:
  "abilityMap (mgr (host (inner (sample_manager e u)))) = []" "systemProcessMap (mgr (host (inner (sample_manager e u)))) = []"
  "abilityStateScheduler (mgr (host (inner (sample_manager e u))))" "listenerMap (mgr (host (inner (sample_manager e u)))) = []"
  "subscribeCountMap (mgr (host (inner (sample_manager e u)))) = []"
  "profile_distributed 401 (mgr (host (inner (sample_manager e u)))) = False" "mu_userId (sample_manager e u) = u"
  "subscriberInfoMap (sample_manager e u) = []"
proof -
  have host: "host (inner (sample_manager e u)) = init_host e [sample_profile ''foo'' 401]"
    using init_inv by (simp add: sample_manager_def new_manager_def)
  show "abilityMap (mgr (host (inner (sample_manager e u)))) = []" "systemProcessMap (mgr (host (inner (sample_manager e u)))) = []"
    "abilityStateScheduler (mgr (host (inner (sample_manager e u))))" "listenerMap (mgr (host (inner (sample_manager e u)))) = []"
    "subscribeCountMap (mgr (host (inner (sample_manager e u)))) = []"
    "profile_distributed 401 (mgr (host (inner (sample_manager e u)))) = False"
    unfolding host init_host_def exec_bind
    by (simp_all add: framesD [OF sch_Init_quiet(2)] modM_def modS_def run_simps empty_samgr_def empty_manager_def profile_distributed_def
        sm_find_Cons FilterCommonSaProfile_def sample_profile_def)
qed (simp_all add: sample_manager_def new_manager_def)

end
