(* ===== verification/Multi_Props.thy ===== *)
theory Multi_Props
  imports Multi_Samples
begin

text \<open>What holds of a device with several users.\<close>

section \<open>Calls through the service\<close>

lemma on_base_host: "manager_ok m \<Longrightarrow> host (inner (exec (on_base p) m)) = exec p (host (inner m))" "eval_st (on_base p) m = eval_st p (host (inner m))"
proof -
  assume "manager_ok m"
  then have "collect_inv ((inner m) \<lparr> host := exec p (host (inner m)) \<rparr>)" by (simp add: manager_ok_def collect_inv_def queue_ok_def)
  moreover have "host_frame.resp (for_each xs deliver)" for xs by (intro host_frame.resp_for_each host_frame.deliver_resp)
  ultimately have "host (exec (for_each xs deliver) ((inner m) \<lparr> host := exec p (host (inner m)) \<rparr>)) = exec p (host (inner m))" for xs
    using host_frame.respD(2) by fastforce
  then show "host (inner (exec (on_base p) m)) = exec p (host (inner m))"
    by (simp add: on_base_def on_inner_def host_call_def run_simps)
qed (simp add: on_base_def on_inner_def host_call_def run_simps)

lemma inherited_host:
  "manager_ok m \<Longrightarrow> host (inner (exec (inherited f e) m)) = exec (f (user_env e (mu_userId m))) (host (inner m))"
  "eval_st (inherited f e) m = eval_st (f (user_env e (mu_userId m))) (host (inner m))"
  by (simp_all add: inherited_def with_env_def run_simps on_base_host)

text \<open>The manager that a call for a user reaches, before and after it.\<close>
lemma at_user_run:
  assumes "sm_find u (multiUserManagers (sv_users s)) = Some m"
  shows "eval_st (at_user e u d f) s = eval_st (f (service_env e s)) m"
    "exec (at_user e u d f) s = s \<lparr> sv_users := (sv_users s) \<lparr> multiUserManagers := sm_ins u (exec (f (service_env e s)) m) (multiUserManagers (sv_users s)) \<rparr> \<rparr>"
  using assms by (simp_all add: at_user_def on_users_def on_user_def run_simps Let_def service_env_def)

lemma at_user_none:
  assumes "sm_find u (multiUserManagers (sv_users s)) = None"
  shows "eval_st (at_user e u d f) s = d" "exec (at_user e u d f) s = s"
  using assms by (simp_all add: at_user_def on_users_def on_user_def run_simps)

section \<open>Every reachable state\<close>

lemma reachable_users:
  assumes "profiles_ok prs" "multi_reachable prs ids s"
  shows "users_wf (sv_users s)" "all_queued UNIV (sv_users s)" "managers_all manager_ok (sv_users s)" "users_ok (sv_users s)"
  using service_reachable [OF assms(2,1)] by (auto simp: service_ok_def users_ok_def)

lemma sm_keys_eq: "sm_ok m \<Longrightarrow> sm_ok n \<Longrightarrow> (\<And>k. sm_count k m \<longleftrightarrow> sm_count k n) \<Longrightarrow> sm_keys m = sm_keys n"
  unfolding sm_ok_def sm_count_iff by (intro sorted_distinct_set_unique) auto

text \<open>C8. The tables of the users are well formed in every reachable state: the valid users are the users with a manager, in the
  same order; the foreground user is one of them, or there is none; a user has a state exactly when it is active or stopping, the state
  STOPPING exactly when it is stopping, and no user is both; neither the base user nor the invalid number is ever a user.\<close>
theorem users_well_formed:
  fixes prs ids s
  assumes "profiles_ok prs" "multi_reachable prs ids s"
  defines "l \<equiv> sv_users s"
  shows "sm_keys (validUserIds l) = sm_keys (multiUserManagers l)
    \<and> (foregroundUserId l = -1 \<or> foregroundUserId l \<in> set (sm_keys (multiUserManagers l)))
    \<and> set (sm_keys (userStateMap l)) = set (sm_keys (multiUserManagers l)) \<union> set (sm_keys (userStoppingContexts l))
    \<and> {u. sm_find u (userStateMap l) = Some USER_STATE_STOPPING} = set (sm_keys (userStoppingContexts l))
    \<and> set (sm_keys (multiUserManagers l)) \<inter> set (sm_keys (userStoppingContexts l)) = {}
    \<and> {0, -1} \<inter> set (sm_keys (userStateMap l)) = {}"
proof -
  have wf: "users_wf l" unfolding l_def by (rule reachable_users [OF assms(1,2)])
  have states: "sm_count u (userStateMap l) \<longleftrightarrow> sm_count u (multiUserManagers l) \<or> sm_count u (userStoppingContexts l)"
    "sm_find u (userStateMap l) = Some USER_STATE_STOPPING \<longleftrightarrow> sm_count u (userStoppingContexts l)" for u
    using wf by (auto simp: users_wf_def states_ok_def)
  have users: "is_user u" if "sm_count u (multiUserManagers l) \<or> sm_count u (userStoppingContexts l)" for u
    using wf that by (auto simp: users_wf_def active_ok_def contexts_ok_def sm_count_def)
  have "sm_keys (validUserIds l) = sm_keys (multiUserManagers l)"
    using wf by (intro sm_keys_eq) (auto simp: users_wf_def active_ok_def)
  moreover have "foregroundUserId l = -1 \<or> foregroundUserId l \<in> set (sm_keys (multiUserManagers l))"
    using wf by (simp add: users_wf_def active_ok_def SAMGR_INVALID_USER_ID_def sm_count_iff)
  moreover have "{0, -1} \<inter> set (sm_keys (userStateMap l)) = {}"
    using states(1) users by (auto simp: sm_count_iff [symmetric] is_user_def BASE_USER_def SAMGR_INVALID_USER_ID_def)
  ultimately show ?thesis
    using states active_not_stopping [OF wf] by (auto simp: sm_count_iff)
qed

theorem users_well_formed_witness:
  "profiles_ok multi_profiles \<and> multi_reachable multi_profiles [401] active \<and> sm_keys (validUserIds (sv_users active)) = [100, 101]
   \<and> sm_keys (multiUserManagers (sv_users active)) = [100, 101] \<and> foregroundUserId (sv_users active) = 101"
  using users_well_formed [OF multi_profiles_ok active_reachable] multi_profiles_ok active_reachable active_users
  by (auto simp: sm_keys_def)

text \<open>C7. In every reachable state the manager of every active user is that user's, its scheduler satisfies the invariant of the
  counters and the limits and its plugins theirs; the same holds of a manager that is kept aside until its user has stopped, and of
  the base user's manager.\<close>
theorem user_managers_sound:
  fixes prs ids s
  assumes "profiles_ok prs" "multi_reachable prs ids s"
  defines "l \<equiv> sv_users s"
  shows "(\<forall>u m. sm_find u (multiUserManagers l) = Some m \<longrightarrow> mu_userId m = u \<and> SI (host (inner m)) \<and> collect_inv (inner m))
    \<and> (\<forall>u c. sm_find u (userStoppingContexts l) = Some c \<longrightarrow> (\<exists>x. sm_find c (stoppings l) = Some x \<and> mu_userId (us_manager x) = u
        \<and> SI (host (inner (us_manager x))) \<and> collect_inv (inner (us_manager x))))
    \<and> SI (host (sv_base s)) \<and> collect_inv (sv_base s)"
proof -
  have wf: "users_wf l" and all: "managers_all manager_ok l" unfolding l_def by (rule reachable_users [OF assms(1,2)])+
  have "\<exists>x. sm_find c (stoppings l) = Some x \<and> mu_userId (us_manager x) = u \<and> SI (host (inner (us_manager x))) \<and> collect_inv (inner (us_manager x))"
    if "sm_find u (userStoppingContexts l) = Some c" for u c
  proof -
    have "owner l c = Some u" "\<not> finalized l c" using wf that by (auto simp: users_wf_def contexts_ok_def)
    then show ?thesis using all by (auto simp: owner_def finalized_def managers_all_def manager_ok_def)
  qed
  moreover have "mu_userId m = u \<and> SI (host (inner m)) \<and> collect_inv (inner m)" if "sm_find u (multiUserManagers l) = Some m" for u m
    using wf all that by (simp add: users_wf_def active_ok_def managers_all_def manager_ok_def)
  ultimately show ?thesis using service_reachable [OF assms(2,1)] by (simp add: service_ok_def)
qed

theorem user_managers_sound_witness:
  "\<exists>m. sm_find 100 (multiUserManagers (sv_users active)) = Some m \<and> SI (host (inner m)) \<and> collect_inv (inner m)"
proof -
  obtain m where "sm_find 100 (multiUserManagers (sv_users active)) = Some m"
    using active_users(1) by (auto simp: sm_find_Cons)
  then show ?thesis using user_managers_sound [OF multi_profiles_ok active_reachable] by blast
qed

section \<open>The end of a user\<close>

text \<open>C9. A user that is stopping comes to its end: its timeout task is in its queue, whatever happened since it began to stop, and the
  runtime may start it; when it has run, whatever the platform answers, the user is not stopping any more and has no state, so
  that it may be activated again.\<close>
theorem stopping_user_ends:
  fixes prs ids s u c
  assumes "profiles_ok prs" "multi_reachable prs ids s" "sm_find u (userStoppingContexts (sv_users s)) = Some c"
  shows "\<exists>h k h'. sm_find u (stopTaskHandlers (sv_users s)) = Some h \<and> queue_start k h = Some (StopTimeout u c, h') \<and>
    (\<forall>e. let s' = s \<lparr> sv_users := exec (run_stop_task (service_env e s) (StopTimeout u c))
              ((sv_users s) \<lparr> stopTaskHandlers := sm_ins u h' (stopTaskHandlers (sv_users s)) \<rparr>) \<rparr>
         in multi_step s s' \<and> \<not> sm_count u (userStoppingContexts (sv_users s')) \<and> sm_find u (userStateMap (sv_users s')) = None)"
proof -
  let ?l = "sv_users s"
  note ok = reachable_users [OF assms(1,2)]
  obtain h k d where h: "sm_find u (stopTaskHandlers ?l) = Some h" "(k, d, StopTimeout u c) \<in> set (submitted h)"
    using ok(2) assms(3) unfolding all_queued_def timeout_queued_def by blast
  have "ffrt_ok h" using ok(1) h(1) by (simp add: users_wf_def tasks_ok_def)
  then have start: "queue_start k h = Some (StopTimeout u c, queue_cancel k h)" using h(2) by (rule queue_start_mem)
  let ?l1 = "?l \<lparr> stopTaskHandlers := sm_ins u (queue_cancel k h) (stopTaskHandlers ?l) \<rparr>"
  note taken = stop_task_taken [OF ok(4) h(1) start]
  have "\<not> sm_count u (userStoppingContexts l') \<and> sm_find u (userStateMap l') = None"
    if "l' = exec (run_stop_task e (StopTimeout u c)) ?l1" for e l'
  proof -
    have "l' = exec (CompleteUserStopping e u c) ?l1"
      using that ok(1) by (simp add: run_stop_task_def run_simps users_wf_def tasks_ok_def)
    moreover have "owner ?l1 c = Some u" "managers_all manager_ok ?l1" using taken ok(3) by (auto simp: owner_def managers_all_def)
    ultimately have l': "users_wf l'" "multiUserManagers l' = multiUserManagers ?l" "userStoppingContexts l' = sm_erase u (userStoppingContexts ?l)"
      using complete_kept [of ?l1 c u "- {u}" manager_ok e] taken assms(3) by auto
    moreover have "\<not> sm_count u (multiUserManagers ?l)" using ok(1) assms(3) by (simp add: users_wf_def contexts_ok_def)
    ultimately have "\<not> sm_count u (userStateMap l')" by (simp add: users_wf_def states_ok_def)
    then show ?thesis using l' by (simp add: sm_count_def)
  qed
  then show ?thesis
    using h(1) start multi_step.stop_task [OF h(1) start] unfolding Let_def
    by (intro exI [of _ h] exI [of _ k] exI [of _ "queue_cancel k h"]) simp
qed

definition with_process :: multi_service where
  "with_process = exec (sv_AddSystemProcess (as_user 100) foo (Some 10)) active"

definition stopping :: multi_service where
  "stopping = exec (sv_OnUserStateChanged sample_menv 100 2) with_process"

lemma stopping_reachable: "multi_reachable multi_profiles [401] stopping"
  unfolding stopping_def with_process_def
  by (intro multi_reachable.step [OF _ multi_step.OnUserStateChanged] multi_reachable.step [OF _ multi_step.AddSystemProcess] active_reachable)

lemma add_process_map:
  "p \<noteq> [] \<Longrightarrow> sm_size (systemProcessMap (mgr s)) < 1000 \<Longrightarrow>
   systemProcessMap (mgr (exec (AddSystemProcess e p (Some x)) s)) = sm_ins p x (systemProcessMap (mgr s))"
  unfolding AddSystemProcess_def
  by (auto simp: run_simps getM_def modM_def MAX_SERVICES_def registry_frames SendProcessStateEvent_registries(2))

lemma stopping_context: "sm_find 100 (userStoppingContexts (sv_users stopping)) = Some 0"
proof -
  obtain e where m: "sm_find 100 (multiUserManagers (sv_users active)) = Some (sample_manager e 100)"
    using active_users(1) by (auto simp: sm_find_Cons)
  then have "manager_ok (sample_manager e 100)"
    using reachable_users(3) [OF multi_profiles_ok active_reachable] by (simp add: managers_all_def)
  note after = inherited_host(1) [OF this, of "\<lambda>be. AddSystemProcess be foo (Some 10)" "service_env (as_user 100) active"]
  let ?m = "exec (inherited (\<lambda>be. AddSystemProcess be foo (Some 10)) (service_env (as_user 100) active)) (sample_manager e 100)"
  have with_p: "sv_users with_process = (sv_users active) \<lparr> multiUserManagers := sm_ins 100 ?m (multiUserManagers (sv_users active)) \<rparr>"
    by (simp add: with_process_def sv_AddSystemProcess_def sample_callers BASE_USER_def at_user_run [OF m])
  have names: "eval_st (on_base GetSystemProcessNames) ?m = [foo]"
  proof -
    have "foo \<noteq> []" by (simp add: foo_def u16_def)
    then show ?thesis
      by (simp add: on_base_host(2) after GetSystemProcessNames_def getM_def run_simps add_process_map sample_manager_mgr sm_keys_def sm_size_def)
  qed
  show ?thesis
    using active_users
    by (simp add: stopping_def sv_OnUserStateChanged_def BASE_USER_def SAMGR_INVALID_USER_ID_def run_simps on_users_def lm_OnUserStateChanged_def
        with_p HandleUserStopping_def IsUserStopping_def StartUserStopping_def names on_stopping_def PostUserStopTimeoutTask_def Let_def
        PostDelayTask_def sample_menv_def sample_cenv_def USER_STOP_TIMEOUT_def MAX_UINT64_def CONVERSION_FACTOR_def FFRTHandler_def sm_get_def sm_count_def sm_find_Cons)
qed

theorem stopping_user_ends_witness:
  "multi_reachable multi_profiles [401] stopping \<and> sm_find 100 (userStoppingContexts (sv_users stopping)) = Some 0 \<and>
   (\<exists>s'. multi_step stopping s' \<and> \<not> sm_count 100 (userStoppingContexts (sv_users s')) \<and> sm_find 100 (userStateMap (sv_users s')) = None)"
  using stopping_reachable stopping_context stopping_user_ends [OF multi_profiles_ok stopping_reachable stopping_context]
  by (auto simp: Let_def)

section \<open>Isolation of the users\<close>









lemma route_reads: "exec (RouteForUser a c) s = s" "exec (RouteForSa a c) s = s" "exec (IsMultiInstanceSaId a) s = s"
  "exec (on_users (gets g)) s = s" "eval_st (on_users (gets g)) s = g (sv_users s)" "eval_st (IsMultiInstanceSaId a) s = (a \<in> set (sv_multiIds s))"
  by (simp_all add: RouteForUser_def RouteForSa_def IsMultiInstanceSaId_def GetForegroundUserId_def run_simps on_users_def)

text \<open>Where a request of a user goes.\<close>
lemma routes_of_user:
  assumes "GetCallingUserId e = u" "u \<noteq> BASE_USER"
  shows "exec (route_user e a n b f) s = (if a \<in> set (sv_multiIds s) then exec (at_user e u n f) s else exec b s)"
    "eval_st (route_user e a n b f) s = (if a \<in> set (sv_multiIds s) then eval_st (at_user e u n f) s else eval_st b s)"
    "exec (route_sa e a k b f) s = (if a \<in> set (sv_multiIds s) then exec (at_user e u (k ERR_INVALID_VALUE) f) s else s)"
    "eval_st (route_sa e a k b f) s = (if a \<in> set (sv_multiIds s) then eval_st (at_user e u (k ERR_INVALID_VALUE) f) s else k SA_OPERATION_NOT_ALLOWED)"
    "exec (for_user e v k f) s = s" "eval_st (for_user e v k f) s = k ERR_PERMISSION_DENIED"
  using assms by (simp_all add: route_user_def route_sa_def for_user_def run_simps route_reads, simp_all add: RouteForUser_def RouteForSa_def run_simps route_reads)













section \<open>Registration\<close>

text \<open>C11. A user that has registered a multi-instance ability finds it, and so does the base user while that user is in the foreground;
  what another user finds is what it found before.\<close>
theorem user_registration_found:
  fixes prs ids s e a ob d u
  assumes "profiles_ok prs" "multi_reachable prs ids s" "GetCallingUserId e = u" "u \<noteq> BASE_USER"
    and "eval_st (sv_AddSystemAbility e a ob d) s = ERR_OK"
  defines "s' \<equiv> exec (sv_AddSystemAbility e a ob d) s"
  shows "(\<forall>e'. GetCallingUserId e' = u \<longrightarrow> eval_st (sv_CheckSystemAbility e' a) s' = ob)
    \<and> (\<forall>e'. GetCallingUserId e' = BASE_USER \<longrightarrow> foregroundUserId (sv_users s) = u \<longrightarrow> eval_st (sv_CheckSystemAbility e' a) s' = ob)
    \<and> (\<forall>e' b. GetCallingUserId e' \<notin> {u, BASE_USER} \<longrightarrow> eval_st (sv_CheckSystemAbility e' b) s' = eval_st (sv_CheckSystemAbility e' b) s)"
proof -
  have multi: "a \<in> set (sv_multiIds s)" using assms(3-5) by (auto simp: sv_AddSystemAbility_def routes_of_user split: if_splits)
  then have add: "eval_st (at_user e u ERR_INVALID_VALUE (inherited (\<lambda>be. AddSystemAbility be a ob d))) s = ERR_OK"
    and s': "s' = exec (at_user e u ERR_INVALID_VALUE (inherited (\<lambda>be. AddSystemAbility be a ob d))) s"
    using assms(3-5) by (simp_all add: sv_AddSystemAbility_def routes_of_user s'_def)
  then obtain m where m: "sm_find u (multiUserManagers (sv_users s)) = Some m"
    by (cases "sm_find u (multiUserManagers (sv_users s))") (simp_all add: at_user_none)
  let ?be = "user_env (service_env e s) (mu_userId m)" and ?m = "exec (inherited (\<lambda>be. AddSystemAbility be a ob d) (service_env e s)) m"
  have ok: "manager_ok m" using reachable_users(3) [OF assms(1,2)] m by (simp add: managers_all_def)
  have can: "can_add a ob d (mgr (host (inner m)))"
    using add by (simp add: at_user_run [OF m] inherited_host AddSystemAbility_result(1) split: if_splits)
  then have found: "eval_st (CheckSystemAbility be a) (host (inner ?m)) = ob" for be
    by (auto simp: inherited_host(1) [OF ok] CheckSystemAbility_result running_obj_def AddSystemAbility_result(2) [OF can])
      (simp add: can_add_def CheckInputSysAbilityId_def)
  have after: "sm_find u (multiUserManagers (sv_users s')) = Some ?m" "sv_multiIds s' = sv_multiIds s"
    "foregroundUserId (sv_users s') = foregroundUserId (sv_users s)" "sv_base s' = sv_base s"
    "\<And>v. v \<noteq> u \<Longrightarrow> sm_find v (multiUserManagers (sv_users s')) = sm_find v (multiUserManagers (sv_users s))"
    by (simp_all add: s' at_user_run [OF m])
  have "eval_st (sv_CheckSystemAbility e' a) s' = ob" if "GetCallingUserId e' = u" for e'
    using that multi assms(4) after found
    by (simp add: sv_CheckSystemAbility_def routes_of_user at_user_run [OF after(1)] inherited_host)
  moreover have "eval_st (sv_CheckSystemAbility e' a) s' = ob" if "GetCallingUserId e' = BASE_USER" "foregroundUserId (sv_users s) = u" for e'
    using that multi assms(4) after found
    by (simp add: sv_CheckSystemAbility_def route_user_def run_simps route_reads RouteForUser_def GetForegroundUserId_def at_user_run [OF after(1)] inherited_host)
  moreover have "eval_st (sv_CheckSystemAbility e' b) s' = eval_st (sv_CheckSystemAbility e' b) s" if "GetCallingUserId e' \<notin> {u, BASE_USER}" for e' b
  proof (cases "sm_find (GetCallingUserId e') (multiUserManagers (sv_users s))")
    case None
    then show ?thesis
      using that after by (simp add: sv_CheckSystemAbility_def routes_of_user [OF refl] at_user_none base_call_def on_sbase_def run_simps)
  next
    case (Some m')
    then have "sm_find (GetCallingUserId e') (multiUserManagers (sv_users s')) = Some m'" using that after by simp
    with Some show ?thesis
      using that after by (simp add: sv_CheckSystemAbility_def routes_of_user [OF refl] at_user_run inherited_host CheckSystemAbility_result
        base_call_def on_sbase_def run_simps)
  qed
  ultimately show ?thesis by blast
qed

theorem user_registration_found_witness:
  "eval_st (sv_AddSystemAbility (as_user 101) 401 (Some 11) False) active = ERR_OK \<and>
   (let s' = exec (sv_AddSystemAbility (as_user 101) 401 (Some 11) False) active
    in eval_st (sv_CheckSystemAbility (as_user 101) 401) s' = Some 11 \<and> eval_st (sv_CheckSystemAbility sample_menv 401) s' = Some 11
     \<and> eval_st (sv_CheckSystemAbility (as_user 100) 401) s' = None)"
proof -
  obtain e e' where m: "sm_find 101 (multiUserManagers (sv_users active)) = Some (sample_manager e 101)"
    "sm_find 100 (multiUserManagers (sv_users active)) = Some (sample_manager e' 100)"
    using active_users(1) by (auto simp: sm_find_Cons)
  note caller = routes_of_user [OF sample_callers(3), simplified BASE_USER_def, OF _ , simplified] routes_of_user [OF sample_callers(2), simplified BASE_USER_def, OF _ , simplified]
  have ok: "eval_st (sv_AddSystemAbility (as_user 101) 401 (Some 11) False) active = ERR_OK"
    by (simp add: sv_AddSystemAbility_def caller active_users(2) at_user_run [OF m(1)] inherited_host AddSystemAbility_result(1) can_add_def
        sample_manager_mgr sm_size_def)
  have "eval_st (sv_CheckSystemAbility (as_user 100) 401) active = None"
    by (simp add: sv_CheckSystemAbility_def caller active_users(2) at_user_run [OF m(2)] inherited_host CheckSystemAbility_result running_obj_def
        sample_manager_mgr)
  then show ?thesis
    using ok user_registration_found [OF multi_profiles_ok active_reachable sample_callers(3) _ ok] sample_callers active_users(4)
    by (simp add: BASE_USER_def Let_def)
qed

section \<open>Subscriptions for all users\<close>

text \<open>The manager knows that the listener asked for the foreground user.\<close>
definition foreground_listener :: "int \<Rightarrow> obj \<Rightarrow> multi_manager \<Rightarrow> bool" where
  "foreground_listener a ob m \<longleftrightarrow> (\<exists>i \<in> set (sm_get [] a (subscriberInfoMap m)). si_object i = ob \<and> si_foreground i)"

lemma scan_found: "scan_subscribers gone ob infos = (kept, Some i, rest) \<Longrightarrow> si_object i = ob"
  by (induction infos arbitrary: kept) (auto split: if_splits prod.splits)

lemma subscribed_marked:
  assumes "listener_object l = Some ob" "eval_st (SubscribeSystemAbilityWithPid e a l True n) m = ERR_OK"
  shows "foreground_listener a ob (exec (SubscribeSystemAbilityWithPid e a l True n) m)"
proof -
  have "foreground_listener a ob (exec (AddSubscriberInfo e a l True) m)"
    using assms(1) scan_found [of "me_gone e" ob]
    by (cases "scan_subscribers (me_gone e) ob (sm_get [] a (subscriberInfoMap m))" rule: prod_cases3)
      (auto simp: AddSubscriberInfo_def set_infos_def foreground_listener_def run_simps split: option.splits)
  then show ?thesis
    using assms(2) by (simp add: SubscribeSystemAbilityWithPid_def run_simps with_env_def on_base_def on_inner_def foreground_listener_def)
qed

definition marked :: "(multi_manager \<Rightarrow> bool) \<Rightarrow> int \<Rightarrow> lifecycle \<Rightarrow> bool" where
  "marked P u s \<longleftrightarrow> (\<forall>m. sm_find u (multiUserManagers s) = Some m \<longrightarrow> P m)"

lemma on_user_marked:
  assumes "\<And>e m. eval_st (g e) m = ERR_OK \<Longrightarrow> P (exec (g e) m)" "eval_st (on_user e u ERR_OK g) s = ERR_OK"
  shows "marked P u (exec (on_user e u ERR_OK g) s)" "marked P v s \<Longrightarrow> marked P v (exec (on_user e u ERR_OK g) s)"
  using assms by (auto simp: marked_def on_user_def run_simps Let_def split: option.splits)

lemma on_user_frame: "frames (\<lambda>s. (\<lambda>v. sm_count v (multiUserManagers s), globalSubscriptions s)) (on_user e u d g)"
  by (auto simp: frames_def on_user_def run_simps Let_def sm_count_def fun_eq_iff split: option.splits)

lemma all_users_frame: "(\<And>u. frames h (f u)) \<Longrightarrow> frames h (all_users f us served)"
  by (induction us arbitrary: served) (auto intro!: frame_intros)

text \<open>A loop over the users that succeeds has served all of them.\<close>
lemma all_users_marked:
  assumes "\<And>e m. eval_st (g e) m = ERR_OK \<Longrightarrow> P (exec (g e) m)" "fst (eval_st (all_users (\<lambda>u. on_user e u ERR_OK g) us served) s) = ERR_OK"
    and "u \<in> set us \<or> marked P u s"
  shows "marked P u (exec (all_users (\<lambda>u. on_user e u ERR_OK g) us served) s)"
  using assms(2,3)
proof (induction us arbitrary: s served)
  case (Cons v us)
  have ok: "eval_st (on_user e v ERR_OK g) s = ERR_OK" using Cons.prems(1) by (auto simp: run_simps split: if_splits)
  moreover have "u \<in> set us \<or> marked P u (exec (on_user e v ERR_OK g) s)"
    using Cons.prems(2) on_user_marked [where P = P and g = g, OF assms(1) ok] by auto
  ultimately show ?case using Cons.IH Cons.prems(1) by (simp add: run_simps)
qed (simp add: run_simps)

text \<open>The listener is among the subscriptions for all users, and it is not expired.\<close>
definition subscribed_for_all :: "multi_env \<Rightarrow> int \<Rightarrow> obj \<Rightarrow> multi_service \<Rightarrow> bool" where
  "subscribed_for_all e a ob s \<longleftrightarrow> \<not> is_expired e (Some ob)
     \<and> (\<exists>g \<in> set (systemAbilitySubscriptions (globalSubscriptions (sv_users s))). gs_said g = a \<and> gs_object g = Some ob)"

lemma subscribed_again:
  assumes "GetCallingUserId e = BASE_USER" "a \<in> set (sv_multiIds s)" "listener_object l = Some ob"
    and "subscribed_for_all e a ob s" "CheckInputSysAbilityId a"
  shows "eval_st (sv_SubscribeSystemAbility e a l) s = ERR_OK"
    "multiUserManagers (sv_users (exec (sv_SubscribeSystemAbility e a l) s)) = multiUserManagers (sv_users s)"
    "subscribed_for_all e a ob (exec (sv_SubscribeSystemAbility e a l) s)"
proof -
  let ?e = "e \<lparr> me_samgr := True \<rparr>" and ?l1 = "exec (RemoveExpiredGlobalSubscriptionsLocked (e \<lparr> me_samgr := True \<rparr>)) (sv_users s)"
  have l1: "multiUserManagers ?l1 = multiUserManagers (sv_users s)" "systemAbilitySubscriptions (globalSubscriptions ?l1) =
      filter (\<lambda>g. \<not> is_expired e (gs_object g)) (systemAbilitySubscriptions (globalSubscriptions (sv_users s)))"
    by (simp_all add: RemoveExpiredGlobalSubscriptionsLocked_def run_simps is_expired_def cong: option.case_cong)
  have found: "find_global a (Some ob) (systemAbilitySubscriptions (globalSubscriptions ?l1)) \<noteq> None"
    using assms(4) by (auto simp: l1(2) find_global_def find_None_iff subscribed_for_all_def)
  have "eval_st (sv_SubscribeSystemAbility e a l) s = ERR_OK \<and> sv_users (exec (sv_SubscribeSystemAbility e a l) s) = ?l1"
    using assms(1-3,5) found by (simp add: sv_SubscribeSystemAbility_def run_simps route_reads on_users_def SubscribeSystemAbilityForAllUsers_def)
  then show "eval_st (sv_SubscribeSystemAbility e a l) s = ERR_OK"
    "multiUserManagers (sv_users (exec (sv_SubscribeSystemAbility e a l) s)) = multiUserManagers (sv_users s)"
    "subscribed_for_all e a ob (exec (sv_SubscribeSystemAbility e a l) s)"
    using l1 assms(4) by (auto simp: subscribed_for_all_def)
qed

lemma subscribed_newly:
  fixes s e a l ob
  assumes "GetCallingUserId e = BASE_USER" "a \<in> set (sv_multiIds s)" "listener_object l = Some ob" "\<not> subscribed_for_all e a ob s"
  defines "r \<equiv> eval_st (sv_SubscribeSystemAbility e a l) s" and "s' \<equiv> exec (sv_SubscribeSystemAbility e a l) s"
  shows "(r = ERR_OK \<longrightarrow> (\<forall>u m. sm_find u (multiUserManagers (sv_users s')) = Some m \<longrightarrow> foreground_listener a ob m)
      \<and> \<lparr> gs_said = a, gs_object = Some ob, gs_callingPid = e_callingPid (ce_env (me_cenv e)) \<rparr> \<in> set (systemAbilitySubscriptions (globalSubscriptions (sv_users s'))))
    \<and> (r \<noteq> ERR_OK \<longrightarrow> set (systemAbilitySubscriptions (globalSubscriptions (sv_users s'))) \<subseteq> set (systemAbilitySubscriptions (globalSubscriptions (sv_users s))))"
proof -
  let ?e = "e \<lparr> me_samgr := True \<rparr>" and ?n = "e_callingPid (ce_env (me_cenv e))"
  let ?g = "\<lambda>e. SubscribeSystemAbilityWithPid e a l True ?n"
  let ?l1 = "exec (RemoveExpiredGlobalSubscriptionsLocked ?e) (sv_users s)"
  let ?us = "sm_keys (multiUserManagers (sv_users s))"
  let ?loop = "all_users (\<lambda>u. on_user ?e u ERR_OK ?g) ?us []"
  have l1: "set (systemAbilitySubscriptions (globalSubscriptions ?l1)) \<subseteq> set (systemAbilitySubscriptions (globalSubscriptions (sv_users s)))"
    "multiUserManagers ?l1 = multiUserManagers (sv_users s)"
    by (auto simp: RemoveExpiredGlobalSubscriptionsLocked_def run_simps)
  have new: "find_global a (Some ob) (systemAbilitySubscriptions (globalSubscriptions ?l1)) = None"
    using assms(4) by (auto simp: find_global_def find_None_iff subscribed_for_all_def RemoveExpiredGlobalSubscriptionsLocked_def run_simps
        is_expired_def cong: option.case_cong)
  have frame: "frames (\<lambda>s. (\<lambda>v. sm_count v (multiUserManagers s), globalSubscriptions s)) ?loop" by (intro all_users_frame on_user_frame)
  have rollback: "frames (\<lambda>s. (\<lambda>v. sm_count v (multiUserManagers s), globalSubscriptions s)) (RollbackSaSubscribe ?e us a l)" for us
    unfolding RollbackSaSubscribe_def by (intro frame_intros on_user_frame)
  let ?full = "MGR_MAX_SUBSCRIBE_COUNT \<le> int (length (filter (\<lambda>g. gs_callingPid g = ?n) (systemAbilitySubscriptions (globalSubscriptions ?l1))))"
  let ?item = "\<lparr> gs_said = a, gs_object = Some ob, gs_callingPid = ?n \<rparr>"
  let ?out = "fst (eval_st ?loop ?l1)" and ?served = "snd (eval_st ?loop ?l1)"
  have run: "r = (if \<not> CheckInputSysAbilityId a then ERR_INVALID_VALUE else if ?full then ERR_PERMISSION_DENIED else ?out)"
    "sv_users s' = (if \<not> CheckInputSysAbilityId a then sv_users s else if ?full then ?l1
       else if ?out \<noteq> ERR_OK then exec (RollbackSaSubscribe ?e ?served a l) (exec ?loop ?l1)
       else exec (mod_global (\<lambda>g. g \<lparr> systemAbilitySubscriptions := systemAbilitySubscriptions g @ [?item] \<rparr>)) (exec ?loop ?l1))"
    using assms(1-3) new l1(2)
    by (simp_all add: r_def s'_def sv_SubscribeSystemAbility_def run_simps route_reads on_users_def SubscribeSystemAbilityForAllUsers_def user_ids_def split_beta)
  have globals: "globalSubscriptions (exec ?loop ?l1) = globalSubscriptions ?l1"
    "globalSubscriptions (exec (RollbackSaSubscribe ?e us a l) x) = globalSubscriptions x" for us x
    using framesD [OF frame, of ?l1] framesD [OF rollback, of us x] by simp_all
  show ?thesis
  proof (cases "r = ERR_OK")
    case True
    then have ok: "?out = ERR_OK" "CheckInputSysAbilityId a" "\<not> ?full" unfolding run(1) by (auto split: if_splits)
    have "foreground_listener a ob m" if m: "sm_find u (multiUserManagers (exec ?loop ?l1)) = Some m" for u m
    proof -
      have "u \<in> set ?us" using m framesD [OF frame, of ?l1] l1(2) by (auto simp: fun_eq_iff sm_count_iff [symmetric]) (auto simp: sm_count_def)
      then have "marked (foreground_listener a ob) u (exec ?loop ?l1)"
        using subscribed_marked [OF assms(3)] ok(1) by (intro all_users_marked) auto
      with m show ?thesis by (simp add: marked_def)
    qed
    then show ?thesis using True ok run(2) by (simp add: mod_global_def run_simps)
  next
    case False
    then show ?thesis using run l1(1) globals by auto
  qed
qed

text \<open>C12. A subscription of the base user for a multi-instance ability with a valid identifier, by a listener that has an object. If the listener is among the subscriptions for all users
  already, and its object is not expired, the request succeeds and no manager changes. Otherwise a subscription that succeeds
  reaches everybody: every active user's manager knows the listener as one for the foreground user, and the subscription is kept
  for the users to come. One that fails adds nothing to the subscriptions for all users.\<close>
theorem subscription_reaches_all_users:
  fixes s e a l ob
  assumes "GetCallingUserId e = BASE_USER" "a \<in> set (sv_multiIds s)" "CheckInputSysAbilityId a" "listener_object l = Some ob"
  defines "r \<equiv> eval_st (sv_SubscribeSystemAbility e a l) s" and "s' \<equiv> exec (sv_SubscribeSystemAbility e a l) s"
  shows "if subscribed_for_all e a ob s
    then r = ERR_OK \<and> multiUserManagers (sv_users s') = multiUserManagers (sv_users s) \<and> subscribed_for_all e a ob s'
    else (r = ERR_OK \<longrightarrow> (\<forall>u m. sm_find u (multiUserManagers (sv_users s')) = Some m \<longrightarrow> foreground_listener a ob m)
      \<and> \<lparr> gs_said = a, gs_object = Some ob, gs_callingPid = e_callingPid (ce_env (me_cenv e)) \<rparr> \<in> set (systemAbilitySubscriptions (globalSubscriptions (sv_users s'))))
    \<and> (r \<noteq> ERR_OK \<longrightarrow> set (systemAbilitySubscriptions (globalSubscriptions (sv_users s'))) \<subseteq> set (systemAbilitySubscriptions (globalSubscriptions (sv_users s))))"
  using subscribed_again [OF assms(1,2,4) _ assms(3)] subscribed_newly [OF assms(1,2,4)] by (simp add: r_def s'_def)

lemma subscribe_all_count: "frames (\<lambda>s v. sm_count v (multiUserManagers s)) (SubscribeSystemAbilityForAllUsers e a l n)"
proof -
  have "frames (\<lambda>s v. sm_count v (multiUserManagers s)) (on_user e u d g)" for e u d and g :: "multi_env \<Rightarrow> SamgrErrCode U"
    using on_user_frame [of e u d g] by (simp add: frames_def)
  then show ?thesis
    unfolding SubscribeSystemAbilityForAllUsers_def RollbackSaSubscribe_def RemoveExpiredGlobalSubscriptionsLocked_def mod_global_def user_ids_def
    by (intro frame_intros all_users_frame frames_modify) simp_all
qed

definition sample_listener :: "iface option" where "sample_listener = Some (Iface 5 (Some 55))"

lemma sample_subscribed:
  "eval_st (SubscribeSystemAbilityWithPid e 401 sample_listener True 42) (sample_manager e' u) = ERR_OK"
proof -
  have "eval_st (SubscribeSystemAbilityInner be 401 (Some l) 42) m = ERR_OK" if "subscribeCountMap (mgr m) = []" for be l m
    using that by (simp add: SubscribeSystemAbilityInner_def run_simps getM_def modM_def CheckInputSysAbilityId_def sm_get_def MGR_MAX_SUBSCRIBE_COUNT_def)
  moreover have "inner (exec (AddSubscriberInfo e 401 sample_listener True) (sample_manager e' u)) = inner (sample_manager e' u)"
    by (simp add: AddSubscriberInfo_def sample_listener_def listener_object_def sample_manager_mgr sm_get_def run_simps set_infos_def)
  ultimately show ?thesis
    by (simp add: SubscribeSystemAbilityWithPid_def run_simps with_env_def on_base_host(2) sample_manager_mgr sample_listener_def)
qed

theorem subscription_reaches_all_users_witness:
  "eval_st (sv_SubscribeSystemAbility sample_menv 401 sample_listener) active = ERR_OK \<and>
   (\<exists>m. sm_find 100 (multiUserManagers (sv_users (exec (sv_SubscribeSystemAbility sample_menv 401 sample_listener) active))) = Some m
      \<and> foreground_listener 401 55 m)"
proof -
  obtain e e' where users: "multiUserManagers (sv_users active) = [(100, sample_manager e 100), (101, sample_manager e' 101)]"
    using active_users(1) by blast
  let ?s' = "exec (sv_SubscribeSystemAbility sample_menv 401 sample_listener) active"
  have env: "e_callingPid (ce_env (me_cenv sample_menv)) = 42" by (simp add: sample_menv_def sample_cenv_def sample_env_def)
  have ok: "eval_st (sv_SubscribeSystemAbility sample_menv 401 sample_listener) active = ERR_OK"
    using active_users users
    by (simp add: sv_SubscribeSystemAbility_def run_simps route_reads sample_callers BASE_USER_def on_users_def SubscribeSystemAbilityForAllUsers_def
        user_ids_def split_beta RemoveExpiredGlobalSubscriptionsLocked_def GlobalSubscriptionInfo_empty_def find_global_def MGR_MAX_SUBSCRIBE_COUNT_def
        sm_keys_def on_user_def sm_find_Cons Let_def env sample_subscribed CheckInputSysAbilityId_def)
      (simp add: sample_listener_def listener_object_def)
  have "sm_count 100 (multiUserManagers (sv_users ?s'))"
    using framesD [OF subscribe_all_count, of "sample_menv \<lparr> me_samgr := True \<rparr>" 401 sample_listener 42 "sv_users active"] users active_users(2)
    by (simp add: sv_SubscribeSystemAbility_def run_simps route_reads sample_callers BASE_USER_def on_users_def env CheckInputSysAbilityId_def fun_eq_iff)
      (simp add: sm_count_def sm_find_Cons)
  then obtain m where "sm_find 100 (multiUserManagers (sv_users ?s')) = Some m" by (auto simp: sm_count_def)
  then show ?thesis
    using ok subscription_reaches_all_users [of sample_menv 401 active sample_listener 55] active_users sample_callers
    by (simp add: BASE_USER_def sample_listener_def listener_object_def GlobalSubscriptionInfo_empty_def subscribed_for_all_def CheckInputSysAbilityId_def)
qed

section \<open>Listeners of the foreground user\<close>

text \<open>A listener that asked for the foreground user and whose ability is added while its manager's user is in the background is
  recorded as told although nothing is sent to it: it is not told of this ability later either, even after its user has come to the
  foreground and the ability has been added again.\<close>
theorem background_listener_missed:
  fixes e e' m a dev l ob n
  assumes "sm_find a (listenerMap (mgr (host (inner m)))) = Some [\<lparr> sal_listener = Some l, sal_callingPid = n, sal_state = INIT \<rparr>]"
    and "sm_find a (subscriberInfoMap m) = Some [\<lparr> si_object = ob, si_direct = False, si_foreground = True \<rparr>]"
    and "AsObject l = Some ob" "\<not> me_gone e ob" "me_foreground e \<noteq> mu_userId m"
  defines "m1 \<equiv> exec (multi_FindSystemAbilityNotify e a dev ADD_SYSTEM_ABILITY_TRANSACTION) m"
    and "m2 \<equiv> exec (multi_FindSystemAbilityNotify e' a dev ADD_SYSTEM_ABILITY_TRANSACTION)
      (exec (multi_FindSystemAbilityNotify e a dev ADD_SYSTEM_ABILITY_TRANSACTION) m)"
  shows "sm_find a (listenerMap (mgr (host (inner m1)))) = Some [\<lparr> sal_listener = Some l, sal_callingPid = n, sal_state = NOTIFIED \<rparr>]
    \<and> effects (host (inner m1)) = effects (host (inner m)) \<and> effects (host (inner m2)) = effects (host (inner m))"
proof -
  have reads: "exec (on_base (getM f)) x = x" "eval_st (on_base (getM f)) x = f (mgr (host (inner x)))" for x and f :: "sa_manager \<Rightarrow> 'b"
    using on_base_quiet [of "getM f" x] by (simp_all add: frames_def getM_def run_simps on_base_host(2))
  have writes: "exec (on_base (modM f)) x = x \<lparr> inner := (inner x) \<lparr> host := (host (inner x)) \<lparr> mgr := f (mgr (host (inner x))) \<rparr> \<rparr> \<rparr>" for x f
    using on_base_quiet [OF quiet(1), of f x] by (simp add: modM_def run_simps)
  have skip: "exec (multi_NotifySystemAbilityChanged e a dev ADD_SYSTEM_ABILITY_TRANSACTION (Some l)) m
      = m \<lparr> subscriberInfoMap := sm_ins a [\<lparr> si_object = ob, si_direct = False, si_foreground = True \<rparr>] (subscriberInfoMap m) \<rparr>"
    using assms by (auto simp: multi_NotifySystemAbilityChanged_def ShouldNotifySubscriber_def listener_object_def set_infos_def run_simps)
  have m1: "listenerMap (mgr (host (inner m1))) = sm_ins a [\<lparr> sal_listener = Some l, sal_callingPid = n, sal_state = NOTIFIED \<rparr>] (listenerMap (mgr (host (inner m))))"
    "effects (host (inner m1)) = effects (host (inner m))"
    using assms(1) by (simp_all add: m1_def multi_FindSystemAbilityNotify_def run_simps reads writes skip)
  have "effects (host (inner m2)) = effects (host (inner m1))"
    unfolding m2_def m1_def [symmetric] by (simp add: multi_FindSystemAbilityNotify_def run_simps reads writes m1(1))
  with m1 show ?thesis by simp
qed

definition background_manager :: multi_manager where
  "background_manager = (let m = MultiSystemAbilityManager 100 GlobalSubscriptionInfo_empty [] in
     m \<lparr> subscriberInfoMap := [(401, [\<lparr> si_object = 55, si_direct = False, si_foreground = True \<rparr>])],
       inner := (inner m) \<lparr> host := empty_samgr \<lparr> mgr := empty_manager \<lparr> listenerMap :=
         [(401, [\<lparr> sal_listener = Some (Iface 5 (Some 55)), sal_callingPid = 42, sal_state = INIT \<rparr>])] \<rparr> \<rparr> \<rparr> \<rparr>)"

theorem background_listener_missed_witness:
  "me_foreground (sample_menv \<lparr> me_foreground := 101 \<rparr>) = 101 \<and> mu_userId background_manager = 100 \<and>
   (let notify = \<lambda>u. multi_FindSystemAbilityNotify (sample_menv \<lparr> me_foreground := u \<rparr>) 401 [] ADD_SYSTEM_ABILITY_TRANSACTION;
        m2 = exec (notify 100) (exec (notify 101) background_manager)
    in effects (host (inner m2)) = effects (host (inner background_manager)))"
  using background_listener_missed [of 401 background_manager "Iface 5 (Some 55)" 42 55 "sample_menv \<lparr> me_foreground := 101 \<rparr>" "[]" "sample_menv \<lparr> me_foreground := 100 \<rparr>"]
  by (simp add: background_manager_def MultiSystemAbilityManager_def Let_def sm_find_Cons sample_menv_def)

end
