(* ===== verification/Parse_Util.thy ===== *)
theory Parse_Util
  imports Collect_State
begin

text \<open>
  The profile parser (\<^verbatim>\<open>services/common/src/parse_util.cpp\<close> and \<^verbatim>\<open>parse_util.h\<close>) and the choice of the profile files
  (\<^verbatim>\<open>SamgrUtil::GetFilesByPriority\<close> and the loop of \<^verbatim>\<open>InitSaProfile\<close>).

  A JSON text is read by a library; what the parser sees of it is a value of type \<open>json\<close>, where an object is an ordered map. A lookup
  in a value that is not an object finds nothing, and a conversion to 32 bits keeps the low bits. The one conversion that is
  not guarded by a test of the type, that of the extensions, raises an exception: \<open>Inl TypeError\<close>. The file system, the reader
  of JSON and the loader of libraries answer through \<open>parse_env\<close>.
\<close>

section \<open>JSON values\<close>

datatype json = JNull | JBool bool | JInt int | JFloat string | JString string | JArray "json list" | JObject "(string, json) smap"

datatype type_error = TypeError

fun json_find :: "string \<Rightarrow> json \<Rightarrow> json option" where
  "json_find key (JObject m) = sm_find key m"
| "json_find key _ = None"

text \<open>The readers of \<^verbatim>\<open>parse_util.h\<close>; \<open>out\<close> is the value of the reference argument before and the result its value after the call.\<close>
definition GetBoolFromJson :: "json \<Rightarrow> string \<Rightarrow> bool \<Rightarrow> bool" where
  "GetBoolFromJson j key out = (case json_find key j of Some (JBool b) \<Rightarrow> b | _ \<Rightarrow> out)"

definition GetStringFromJson :: "json \<Rightarrow> string \<Rightarrow> string \<Rightarrow> string" where
  "GetStringFromJson j key out = (case json_find key j of Some (JString s) \<Rightarrow> s | _ \<Rightarrow> out)"

definition GetInt32FromJson :: "json \<Rightarrow> string \<Rightarrow> int \<Rightarrow> int" where
  "GetInt32FromJson j key out = (case json_find key j of Some (JInt i) \<Rightarrow> to_int32 i | _ \<Rightarrow> out)"

definition json_items :: "string \<Rightarrow> json \<Rightarrow> json list" where
  "json_items key j = (case json_find key j of Some (JArray items) \<Rightarrow> items | _ \<Rightarrow> [])"

definition GetStringArrayFromJson :: "json \<Rightarrow> string \<Rightarrow> string list \<Rightarrow> string list" where
  "GetStringArrayFromJson j key out =
     out @ List.map_filter (\<lambda>item. case item of JString s \<Rightarrow> Some s | _ \<Rightarrow> None) (json_items key j)"

definition GetIntArrayFromJson :: "json \<Rightarrow> string \<Rightarrow> int list \<Rightarrow> int list" where
  "GetIntArrayFromJson j key out =
     out @ List.map_filter (\<lambda>item. case item of JInt i \<Rightarrow> Some (to_int32 i) | _ \<Rightarrow> None) (json_items key j)"

definition GetIntSetFromJson :: "json \<Rightarrow> string \<Rightarrow> int oset \<Rightarrow> int oset" where
  "GetIntSetFromJson j key out =
     fold (\<lambda>item s. case item of JInt i \<Rightarrow> set_insert (to_int32 i) s | _ \<Rightarrow> s) (json_items key j) out"

section \<open>Constants\<close>

definition MAX_JSON_OBJECT_SIZE :: int where "MAX_JSON_OBJECT_SIZE = 50 * 1024"
definition MAX_JSON_STRING_LENGTH :: nat where "MAX_JSON_STRING_LENGTH = 128"
definition MAX_EXTENSIONO_NUM :: nat where "MAX_EXTENSIONO_NUM = 100"
definition PU_FIRST_SYS_ABILITY_ID :: int where "PU_FIRST_SYS_ABILITY_ID = 0x00000000"
definition PU_LAST_SYS_ABILITY_ID :: int where "PU_LAST_SYS_ABILITY_ID = 0x00ffffff"
definition BOOT_START :: int where "BOOT_START = 1"
definition CORE_START :: int where "CORE_START = 2"
definition OTHER_START :: int where "OTHER_START = 3"
definition HIGH_PRIORITY :: int where "HIGH_PRIORITY = 1"
definition MEDIUM_PRIORITY :: int where "MEDIUM_PRIORITY = 2"

definition GetBootPriorityPara :: "string \<Rightarrow> int" where
  "GetBootPriorityPara phase = (if phase = ''BootStartPhase'' then BOOT_START
     else if phase = ''CoreStartPhase'' then CORE_START else OTHER_START)"

definition GetOndemandPriorityPara :: "string \<Rightarrow> int" where
  "GetOndemandPriorityPara p = (if p = ''HighPriority'' then HIGH_PRIORITY
     else if p = ''MediumPriority'' then MEDIUM_PRIORITY else LOW_PRIORITY)"

section \<open>On-demand events\<close>

definition GetOnDemandExtraMessagesFromJson :: "json \<Rightarrow> string \<Rightarrow> (string, string) smap \<Rightarrow> (string, string) smap" where
  "GetOnDemandExtraMessagesFromJson j key out = (case json_find key j of
       Some (JObject m) \<Rightarrow> fold (\<lambda>(k, v) out. case v of JString s \<Rightarrow> sm_ins k s out | _ \<Rightarrow> out) m out
     | _ \<Rightarrow> out)"

definition condition_event :: "string \<Rightarrow> int option" where
  "condition_event type = (if type = ''deviceonline'' then Some DEVICE_ONLINE
     else if type = ''settingswitch'' then Some SETTING_SWITCH
     else if type = ''commonevent'' then Some COMMON_EVENT
     else if type = ''param'' then Some PARAM
     else if type = ''timedevent'' then Some TIMED_EVENT
     else None)"

text \<open>One condition of an event; \<open>None\<close> when its kind is not known.\<close>
definition condition_of_json :: "json \<Rightarrow> OnDemandCondition option" where
  "condition_of_json j =
    (let type = GetStringFromJson j ''eventId'' [];
         name = GetStringFromJson j ''name'' [];
         val = GetStringFromJson j ''value'' []
     in case condition_event type of
          None \<Rightarrow> None
        | Some i \<Rightarrow> Some \<lparr> cond_eventId = i, cond_name = name, cond_value = val,
            cond_extraMessages = GetOnDemandExtraMessagesFromJson j ''extra-messages'' [] \<rparr>)"

definition GetOnDemandConditionsFromJson :: "json \<Rightarrow> string \<Rightarrow> OnDemandCondition list \<Rightarrow> OnDemandCondition list" where
  "GetOnDemandConditionsFromJson j key out = out @ List.map_filter condition_of_json (json_items key j)"

text \<open>One item of an array of events; \<open>None\<close> when its name or value has a bad length.\<close>
definition event_of_json :: "int \<Rightarrow> json \<Rightarrow> OnDemandEvent option" where
  "event_of_json i j =
    (let name = GetStringFromJson j ''name'' [];
         val = GetStringFromJson j ''value'' [];
         persist = GetBoolFromJson j ''persistence'' False;
         conds = GetOnDemandConditionsFromJson j ''conditions'' [];
         once = GetBoolFromJson j ''enable-once'' False;
         priority = GetOndemandPriorityPara (GetStringFromJson j ''load-priority'' []);
         extra = GetOnDemandExtraMessagesFromJson j ''extra-messages'' []
     in if name \<noteq> [] \<and> length name \<le> MAX_JSON_STRING_LENGTH \<and> length val \<le> MAX_JSON_STRING_LENGTH
        then Some \<lparr> eventId = i, ev_name = name, ev_value = val, extraDataId = -1, persistence = persist,
          conditions = conds, ev_enableOnce = once, ev_loadPriority = priority, extraMessages = extra \<rparr>
        else None)"

definition GetOnDemandArrayFromJson :: "int \<Rightarrow> json \<Rightarrow> string \<Rightarrow> OnDemandEvent list \<Rightarrow> OnDemandEvent list" where
  "GetOnDemandArrayFromJson i j key out = out @ List.map_filter (event_of_json i) (json_items key j)"

definition ParseOndemandTag :: "json \<Rightarrow> OnDemandEvent list \<Rightarrow> OnDemandEvent list" where
  "ParseOndemandTag j =
     GetOnDemandArrayFromJson TIMED_EVENT j ''timedevent'' \<circ>
     GetOnDemandArrayFromJson PARAM j ''param'' \<circ>
     GetOnDemandArrayFromJson COMMON_EVENT j ''commonevent'' \<circ>
     GetOnDemandArrayFromJson SETTING_SWITCH j ''settingswitch'' \<circ>
     GetOnDemandArrayFromJson DEVICE_ONLINE j ''deviceonline''"

definition ParseJsonTag :: "json \<Rightarrow> string \<Rightarrow> json option" where
  "ParseJsonTag j tag = (case json_find tag j of Some (JObject m) \<Rightarrow> Some (JObject m) | _ \<Rightarrow> None)"

definition ParseStartOndemandTag :: "json \<Rightarrow> string \<Rightarrow> StartOnDemand \<Rightarrow> StartOnDemand" where
  "ParseStartOndemandTag j tag out = (case ParseJsonTag j tag of
       None \<Rightarrow> out
     | Some d \<Rightarrow> out \<lparr> start_onDemandEvents := ParseOndemandTag d (start_onDemandEvents out),
         start_allowUpdate := GetBoolFromJson d ''allow-update'' (start_allowUpdate out) \<rparr>)"

definition ParseStopOndemandTag :: "json \<Rightarrow> string \<Rightarrow> StopOnDemand \<Rightarrow> StopOnDemand" where
  "ParseStopOndemandTag j tag out = (case ParseJsonTag j tag of
       None \<Rightarrow> out
     | Some d \<Rightarrow> out \<lparr> stop_onDemandEvents := ParseOndemandTag d (stop_onDemandEvents out),
         stop_allowUpdate := GetBoolFromJson d ''allow-update'' (stop_allowUpdate out),
         unrefUnload := GetBoolFromJson d ''unreferenced-unload'' (unrefUnload out),
         delayTime := GetInt32FromJson d ''recycle-delaytime'' (delayTime out),
         unusedTimeout := GetInt32FromJson d ''longtimeunused-unload'' (unusedTimeout out) \<rparr>)"

section \<open>One ability\<close>

text \<open>\<^verbatim>\<open>SaProfile saProfile = { procName_ }\<close>.\<close>
definition mk_profile :: "u16string \<Rightarrow> SaProfile" where
  "mk_profile proc = \<lparr> process = proc, saId = 0, libPath = [], dependSa = [], dependTimeout = 0, runOnCreate = False, moduleUpdate = False,
     autoRestart = False, distributed = False, dumpLevel = 0, bootPhase = 3,
     startOnDemand = \<lparr> start_allowUpdate = False, start_onDemandEvents = [] \<rparr>,
     stopOnDemand = \<lparr> stop_allowUpdate = False, unrefUnload = False, delayTime = 20000, unusedTimeout = -1, stop_onDemandEvents = [] \<rparr>,
     recycleStrategy = IMMEDIATELY, extension = [], cacheCommonEvent = False, sp_independentUnload = False \<rparr>"

definition ParseSystemAbilityGetSaBaseInfo :: "SaProfile \<Rightarrow> json \<Rightarrow> bool \<times> SaProfile" where
  "ParseSystemAbilityGetSaBaseInfo p j = (let p = p \<lparr> saId := GetInt32FromJson j ''name'' (saId p) \<rparr> in
     if saId p = 0 then (False, p)
     else if saId p < PU_FIRST_SYS_ABILITY_ID \<or> saId p > PU_LAST_SYS_ABILITY_ID then (False, p)
     else let p = p \<lparr> libPath := GetStringFromJson j ''libpath'' (libPath p) \<rparr> in
       if libPath p = [] then (False, p)
       else if length (libPath p) > MAX_JSON_STRING_LENGTH then (False, p)
       else (True, p))"

definition CheckRecycleStrategy :: "string \<Rightarrow> int option" where
  "CheckRecycleStrategy s = (if s = [] \<or> s = ''immediately'' then Some IMMEDIATELY
     else if s = ''low-memory'' then Some LOW_MEMORY else None)"

text \<open>The loop over the extensions: the flag is the returned value, the list \<^verbatim>\<open>saProfile.extension\<close>.\<close>
fun extensions :: "json list \<Rightarrow> string list \<Rightarrow> type_error + (bool \<times> string list)" where
  "extensions [] xs = Inr (True, xs)"
| "extensions (j # js) xs = (case j of
       JString x \<Rightarrow>
         if length x > MAX_JSON_STRING_LENGTH then Inr (False, xs)
         else if length xs \<ge> MAX_EXTENSIONO_NUM then Inr (False, xs)
         else extensions js (if x \<in> set xs then xs else xs @ [x])
     | _ \<Rightarrow> Inl TypeError)"

definition ParseSystemAbilityGetExtension :: "SaProfile \<Rightarrow> json \<Rightarrow> type_error + (bool \<times> SaProfile)" where
  "ParseSystemAbilityGetExtension p j = (case extensions (json_items ''extension'' j) (extension p) of
       Inl x \<Rightarrow> Inl x
     | Inr (ok, xs) \<Rightarrow> Inr (ok, p \<lparr> extension := xs \<rparr>))"

text \<open>The members that are read without a check, up to the tags of the on-demand events.\<close>
definition read_members :: "json \<Rightarrow> SaProfile \<Rightarrow> SaProfile" where
  "read_members j p =
    (let timeout = GetInt32FromJson j ''depend-time-out'' (dependTimeout p) in
     p \<lparr> runOnCreate := GetBoolFromJson j ''run-on-create'' (runOnCreate p),
       moduleUpdate := GetBoolFromJson j ''module-update'' (moduleUpdate p),
       autoRestart := GetBoolFromJson j ''auto-restart'' (autoRestart p),
       distributed := GetBoolFromJson j ''distributed'' (distributed p),
       cacheCommonEvent := GetBoolFromJson j ''cache-common-event'' (cacheCommonEvent p),
       sp_independentUnload := GetBoolFromJson j ''independent-unload'' (sp_independentUnload p),
       dependSa := GetIntArrayFromJson j ''depend'' (dependSa p),
       dependTimeout := (if timeout = 0 then GetInt32FromJson j ''depend_time_out'' timeout else timeout),
       dumpLevel := GetInt32FromJson j ''dump-level'' (dumpLevel p),
       bootPhase := GetBootPriorityPara (GetStringFromJson j ''bootphase'' []),
       startOnDemand := ParseStartOndemandTag j ''start-on-demand'' (startOnDemand p),
       stopOnDemand := ParseStopOndemandTag j ''stop-on-demand'' (stopOnDemand p) \<rparr>)"

definition ParseSystemAbilityGetSaExtInfo :: "SaProfile \<Rightarrow> json \<Rightarrow> type_error + (bool \<times> SaProfile)" where
  "ParseSystemAbilityGetSaExtInfo p j = (let p = read_members j p in
     case CheckRecycleStrategy (GetStringFromJson j ''recycle-strategy'' []) of
       None \<Rightarrow> Inr (False, p)
     | Some r \<Rightarrow> ParseSystemAbilityGetExtension (p \<lparr> recycleStrategy := r \<rparr>) j)"

definition ParseSystemAbility :: "SaProfile \<Rightarrow> json \<Rightarrow> type_error + (bool \<times> SaProfile)" where
  "ParseSystemAbility p j = (case ParseSystemAbilityGetSaBaseInfo p j of
       (False, p) \<Rightarrow> Inr (False, p)
     | (True, p) \<Rightarrow> ParseSystemAbilityGetSaExtInfo p j)"

section \<open>State and environment\<close>

text \<open>A profile with the library handle that \<^verbatim>\<open>SaProfile::handle\<close> holds; only the parser uses it.\<close>
record loaded_profile =
  lp_profile :: SaProfile
  lp_handle :: "nat option"

datatype dl_effect = Dlopened nat | Dlclosed nat | LoadFailed int string

record parse_util =
  saProfiles :: "loaded_profile list"
  pu_procName :: u16string
  pu_multiInstanceSaIds :: "int oset"
  dlEffects :: "dl_effect list"

type_synonym 'a P = "(parse_util, 'a) state"

definition empty_parser :: parse_util where
  "empty_parser = \<lparr> saProfiles = [], pu_procName = [], pu_multiInstanceSaIds = [], dlEffects = [] \<rparr>"

record parse_env =
  pe_realpath :: "string \<Rightarrow> string option"
  pe_good :: "string \<Rightarrow> bool" \<comment> \<open>an \<^verbatim>\<open>ifstream\<close> of the path is good\<close>
  pe_content :: "string \<Rightarrow> string option" \<comment> \<open>the characters of a file that can be opened\<close>
  pe_json :: "string \<Rightarrow> json option" \<comment> \<open>\<^verbatim>\<open>json::parse\<close> without exceptions; \<open>None\<close>: discarded\<close>
  pe_str8to16 :: "string \<Rightarrow> u16string"
  pe_dlopen :: "string \<Rightarrow> nat option"
  pe_splitSlash :: "string \<Rightarrow> string list" \<comment> \<open>\<^verbatim>\<open>SplitStr(path, "/", ...)\<close>\<close>

section \<open>Files\<close>

definition GetRealPath :: "parse_env \<Rightarrow> string \<Rightarrow> string" where
  "GetRealPath e path = (case pe_realpath e path of None \<Rightarrow> [] | Some p \<Rightarrow> p)"

definition CheckPathExist :: "parse_env \<Rightarrow> string \<Rightarrow> bool" where
  "CheckPathExist e path = pe_good e path"

text \<open>\<^verbatim>\<open>std::string::rfind\<close>: the position of the last occurrence, searching from position \<open>n\<close> down.\<close>
fun rfind :: "string \<Rightarrow> string \<Rightarrow> nat \<Rightarrow> nat option" where
  "rfind src sub n = (if take (length sub) (drop n src) = sub then Some n
     else case n of 0 \<Rightarrow> None | Suc k \<Rightarrow> rfind src sub k)"

definition Endswith :: "string \<Rightarrow> string \<Rightarrow> bool" where
  "Endswith src sub \<longleftrightarrow> length src \<ge> length sub \<and> rfind src sub (length src) = Some (length src - length sub)"

text \<open>The loop that reads a file character by character, with the counter \<^verbatim>\<open>readSize\<close>; \<open>None\<close> when the file is too big.\<close>
fun read_file :: "int \<Rightarrow> string \<Rightarrow> string \<Rightarrow> string option" where
  "read_file readSize [] buffer = Some buffer"
| "read_file readSize (ch # rest) buffer =
     (if readSize + 1 < MAX_JSON_OBJECT_SIZE then read_file (readSize + 1) rest (buffer @ [ch]) else None)"

definition ParseJsonObj :: "parse_env \<Rightarrow> string \<Rightarrow> json option" where
  "ParseJsonObj e path = (case pe_content e path of
       None \<Rightarrow> None
     | Some content \<Rightarrow> (case read_file 0 content [] of None \<Rightarrow> None | Some text \<Rightarrow> pe_json e text))"

section \<open>Profile files\<close>

fun parse_abilities :: "json list \<Rightarrow> (type_error + unit) P" where
  "parse_abilities [] = ret (Inr ())"
| "parse_abilities (j # js) = do {
     proc \<leftarrow> gets pu_procName;
     case ParseSystemAbility (mk_profile proc) j of
       Inl x \<Rightarrow> ret (Inl x)
     | Inr (ok, p) \<Rightarrow> do {
         onlyif ok (modify (\<lambda>s. s \<lparr> saProfiles := saProfiles s @ [\<lparr> lp_profile = p, lp_handle = None \<rparr>] \<rparr>));
         parse_abilities js } }"

text \<open>The identifiers of a file in which every ability is marked; \<open>None\<close> as soon as one is not.\<close>
fun multi_instance_ids :: "json list \<Rightarrow> int oset \<Rightarrow> int oset option" where
  "multi_instance_ids [] tmp = Some tmp"
| "multi_instance_ids (j # js) tmp =
     (if \<not> GetBoolFromJson j ''multi-instance'' False then None
      else multi_instance_ids js (set_insert (GetInt32FromJson j ''name'' 0) tmp))"

definition ParseMultiInstanceSaIds :: "json list \<Rightarrow> unit P" where
  "ParseMultiInstanceSaIds js = (case multi_instance_ids js [] of
       None \<Rightarrow> ret ()
     | Some tmp \<Rightarrow> modify (\<lambda>s. s \<lparr> pu_multiInstanceSaIds := fold set_insert (sm_keys tmp) (pu_multiInstanceSaIds s) \<rparr>))"

definition ParseJsonFile :: "parse_env \<Rightarrow> string \<Rightarrow> (type_error + bool) P" where
  "ParseJsonFile e path = (case ParseJsonObj e path of
       None \<Rightarrow> ret (Inr False)
     | Some j \<Rightarrow>
         let proc = GetStringFromJson j ''process'' [] in
         if proc = [] then ret (Inr False)
         else if length proc > MAX_JSON_STRING_LENGTH then ret (Inr False)
         else do {
           modify (\<lambda>s. s \<lparr> pu_procName := pe_str8to16 e proc \<rparr>);
           case json_find ''systemability'' j of
             Some (JArray items) \<Rightarrow> do {
               r \<leftarrow> parse_abilities items;
               case r of
                 Inl x \<Rightarrow> ret (Inl x)
               | Inr _ \<Rightarrow> do {
                   ParseMultiInstanceSaIds items;
                   empty \<leftarrow> gets (\<lambda>s. saProfiles s = []);
                   ret (Inr (\<not> empty)) } }
           | _ \<Rightarrow> ret (Inr False) })"

definition ParseSaProfiles :: "parse_env \<Rightarrow> string \<Rightarrow> (type_error + bool) P" where
  "ParseSaProfiles e path = (let real = GetRealPath e path in
     if \<not> CheckPathExist e real then ret (Inr False)
     else if Endswith real ''.json'' then ParseJsonFile e real
     else ret (Inr False))"

text \<open>The table of trusted abilities per process; the second component is the out parameter \<^verbatim>\<open>values\<close>.\<close>
definition ParseTrustConfig :: "parse_env \<Rightarrow> string \<Rightarrow> (u16string, int oset) smap \<Rightarrow> bool \<times> (u16string, int oset) smap" where
  "ParseTrustConfig e path vals = (let real = GetRealPath e path in
     if \<not> CheckPathExist e real then (False, vals)
     else case ParseJsonObj e real of
       None \<Rightarrow> (False, vals)
     | Some j \<Rightarrow>
         let proc = GetStringFromJson j ''process'' [] in
         if proc = [] then (False, vals)
         else if length proc > MAX_JSON_STRING_LENGTH then (False, vals)
         else let key = pe_str8to16 e proc in
           (True, sm_ins key (GetIntSetFromJson j ''said'' (sm_get [] key vals)) vals))"

section \<open>Profiles and their libraries\<close>

definition GetAllSaProfiles :: "SaProfile list P" where
  "GetAllSaProfiles = gets (\<lambda>s. map lp_profile (saProfiles s))"

definition GetMultiInstanceSaIds :: "int oset P" where "GetMultiInstanceSaIds = gets pu_multiInstanceSaIds"

definition GetProcessName :: "u16string P" where "GetProcessName = gets pu_procName"

definition GetProfile :: "int \<Rightarrow> SaProfile option P" where
  "GetProfile a = gets (\<lambda>s. find (\<lambda>p. saId p = a) (map lp_profile (saProfiles s)))"

definition RemoveSaProfile :: "int \<Rightarrow> unit P" where
  "RemoveSaProfile a = modify (\<lambda>s. s \<lparr> saProfiles := filter (\<lambda>p. saId (lp_profile p) \<noteq> a) (saProfiles s) \<rparr>)"

definition emit_dl :: "dl_effect \<Rightarrow> unit P" where
  "emit_dl x = modify (\<lambda>s. s \<lparr> dlEffects := dlEffects s @ [x] \<rparr>)"

text \<open>Operations on one profile return the profile; the loops write it back.\<close>
definition CloseHandle :: "loaded_profile \<Rightarrow> loaded_profile P" where
  "CloseHandle p = (case lp_handle p of
       None \<Rightarrow> ret p
     | Some h \<Rightarrow> do { emit_dl (Dlclosed h); ret (p \<lparr> lp_handle := None \<rparr>) })"

definition OpenSo :: "parse_env \<Rightarrow> loaded_profile \<Rightarrow> loaded_profile P" where
  "OpenSo e p = (case lp_handle p of
       Some _ \<Rightarrow> ret p
     | None \<Rightarrow> (case pe_dlopen e (libPath (lp_profile p)) of
           None \<Rightarrow> (let parts = pe_splitSlash e (libPath (lp_profile p)) in do {
             emit_dl (LoadFailed (saId (lp_profile p)) (if parts = [] then [] else last parts)); ret p })
         | Some h \<Rightarrow> do { emit_dl (Dlopened h); ret (p \<lparr> lp_handle := Some h \<rparr>) }))"

fun each_profile :: "(loaded_profile \<Rightarrow> loaded_profile P) \<Rightarrow> loaded_profile list \<Rightarrow> loaded_profile list P" where
  "each_profile f [] = ret []"
| "each_profile f (p # ps) = do { p' \<leftarrow> f p; ps' \<leftarrow> each_profile f ps; ret (p' # ps') }"

text \<open>The loops that end at the first profile of the ability; the flag says whether there was one.\<close>
fun first_profile :: "int \<Rightarrow> (loaded_profile \<Rightarrow> loaded_profile P) \<Rightarrow> loaded_profile list \<Rightarrow> (bool \<times> loaded_profile list) P" where
  "first_profile a f [] = ret (False, [])"
| "first_profile a f (p # ps) =
     (if saId (lp_profile p) = a then do { p' \<leftarrow> f p; ret (True, p' # ps) }
      else do { (found, ps') \<leftarrow> first_profile a f ps; ret (found, p # ps') })"

definition CloseSo :: "unit P" where
  "CloseSo = do {
     ps \<leftarrow> gets saProfiles;
     ps' \<leftarrow> each_profile CloseHandle ps;
     modify (\<lambda>s. s \<lparr> saProfiles := ps' \<rparr>) }"

definition CloseSo_ability :: "int \<Rightarrow> unit P" where
  "CloseSo_ability a = do {
     ps \<leftarrow> gets saProfiles;
     (_, ps') \<leftarrow> first_profile a CloseHandle ps;
     modify (\<lambda>s. s \<lparr> saProfiles := ps' \<rparr>) }"

definition OpenSo_phase :: "parse_env \<Rightarrow> int \<Rightarrow> unit P" where
  "OpenSo_phase e phase = do {
     ps \<leftarrow> gets saProfiles;
     ps' \<leftarrow> each_profile (\<lambda>p. if runOnCreate (lp_profile p) \<and> bootPhase (lp_profile p) = phase then OpenSo e p else ret p) ps;
     modify (\<lambda>s. s \<lparr> saProfiles := ps' \<rparr>) }"

definition LoadSaLib :: "parse_env \<Rightarrow> int \<Rightarrow> bool P" where
  "LoadSaLib e a = do {
     ps \<leftarrow> gets saProfiles;
     (found, ps') \<leftarrow> first_profile a (OpenSo e) ps;
     modify (\<lambda>s. s \<lparr> saProfiles := ps' \<rparr>);
     ret found }"

definition ClearResource :: "unit P" where
  "ClearResource = do { CloseSo; modify (\<lambda>s. s \<lparr> saProfiles := [], pu_multiInstanceSaIds := [] \<rparr>) }"

section \<open>Events as text\<close>

definition StringToJsonObj :: "(string \<Rightarrow> json option) \<Rightarrow> string \<Rightarrow> json" where
  "StringToJsonObj parse eventStr = (if eventStr = [] then JObject []
     else case parse eventStr of Some (JObject m) \<Rightarrow> JObject m | _ \<Rightarrow> JObject [])"

definition JsonObjToMap :: "json \<Rightarrow> (string, string) smap" where
  "JsonObjToMap j = fold (\<lambda>key m. sm_ins key (GetStringFromJson j key []) m) [''eventId'', ''name'', ''value''] []"

definition StringToMap :: "(string \<Rightarrow> json option) \<Rightarrow> string \<Rightarrow> (string, string) smap" where
  "StringToMap parse eventStr = JsonObjToMap (StringToJsonObj parse eventStr)"

section \<open>Choosing the files\<close>

text \<open>\<^verbatim>\<open>fs::path(file).filename()\<close>: what follows the last slash.\<close>
definition filename :: "string \<Rightarrow> string" where
  "filename path = rev (takeWhile (\<lambda>c. c \<noteq> CHR ''/'') (rev path))"

text \<open>The files of the directories that the configuration policy names for a path, in its order; a later file of the same name wins.\<close>
definition GetFilesFromPath :: "(string \<Rightarrow> string option list option) \<Rightarrow> (string \<Rightarrow> string list) \<Rightarrow> string \<Rightarrow> (string, string) smap \<Rightarrow> (string, string) smap" where
  "GetFilesFromPath cfgFiles dirFiles path m = (case cfgFiles path of
       None \<Rightarrow> m
     | Some dirs \<Rightarrow> fold (\<lambda>f m. sm_ins (filename f) f m) (concat (map (\<lambda>d. case d of None \<Rightarrow> [] | Some p \<Rightarrow> dirFiles p) dirs)) m)"

definition PENGLAI_PATH :: string where "PENGLAI_PATH = ''profile/penglai''"

definition GetFilesByPriority :: "(string \<Rightarrow> string option list option) \<Rightarrow> (string \<Rightarrow> string list) \<Rightarrow> bool \<Rightarrow> string \<Rightarrow> string list" where
  "GetFilesByPriority cfgFiles dirFiles penglai path =
     (let m = GetFilesFromPath cfgFiles dirFiles path [];
          m = (if penglai then GetFilesFromPath cfgFiles dirFiles PENGLAI_PATH m else m)
      in map snd m)"

fun str_contains :: "string \<Rightarrow> string \<Rightarrow> bool" where
  "str_contains sub [] \<longleftrightarrow> sub = []"
| "str_contains sub (c # cs) \<longleftrightarrow> take (length sub) (c # cs) = sub \<or> str_contains sub cs"

definition is_profile_file :: "string \<Rightarrow> bool" where
  "is_profile_file f \<longleftrightarrow> f \<noteq> [] \<and> str_contains ''.json'' f \<and> \<not> str_contains ''_trust.json'' f"

text \<open>The loop of \<^verbatim>\<open>InitSaProfile\<close> over the files; what a file's parsing returns is not used, an exception ends it.\<close>
fun parse_files :: "parse_env \<Rightarrow> string list \<Rightarrow> (type_error + unit) P" where
  "parse_files e [] = ret (Inr ())"
| "parse_files e (f # fs) =
     (if \<not> is_profile_file f then parse_files e fs
      else do {
        r \<leftarrow> ParseSaProfiles e f;
        case r of Inl x \<Rightarrow> ret (Inl x) | Inr _ \<Rightarrow> parse_files e fs })"

end
