(* ===== verification/Parse_Props.thy ===== *)
theory Parse_Props
  imports Parse_Util
begin

text \<open>
  What the profile parser accepts and what it makes of it: the profiles it can produce are exactly the valid ones, each file is taken as a
  whole for the marking of multi-instance abilities, and library handles are neither lost nor closed twice.
\<close>

section \<open>Files and strings\<close>

text \<open>The loop that reads a file is a test of its length.\<close>
lemma read_file_run: "read_file n cs buf = (if n + int (length cs) < MAX_JSON_OBJECT_SIZE \<or> cs = [] then Some (buf @ cs) else None)"
proof (induction cs arbitrary: n buf)
  case (Cons c cs)
  show ?case unfolding read_file.simps Cons.IH by auto
qed simp

lemma ParseJsonObj_run:
  "ParseJsonObj e path = (case pe_content e path of None \<Rightarrow> None | Some content \<Rightarrow> if length content < 51200 then pe_json e content else None)"
  by (auto simp: ParseJsonObj_def read_file_run MAX_JSON_OBJECT_SIZE_def split: option.splits)

declare rfind.simps [simp del]

lemma rfind_Some: "rfind src sub n = Some k \<Longrightarrow> k \<le> n \<and> take (length sub) (drop k src) = sub"
proof (induction n)
  case (Suc n)
  then show ?case by (subst (asm) rfind.simps) (auto split: if_splits)
qed (subst (asm) rfind.simps, auto split: if_splits)

lemma rfind_at: "take (length sub) (drop k src) = sub \<Longrightarrow> (\<And>i. k < i \<Longrightarrow> take (length sub) (drop i src) \<noteq> sub) \<Longrightarrow> k \<le> n \<Longrightarrow> rfind src sub n = Some k"
proof (induction n)
  case (Suc n)
  then show ?case by (cases "k = Suc n") (subst rfind.simps, auto simp: le_Suc_eq)+
qed (subst rfind.simps, auto)

text \<open>\<^verbatim>\<open>Endswith\<close> means what its name says.\<close>
lemma Endswith_iff: "sub \<noteq> [] \<Longrightarrow> Endswith src sub \<longleftrightarrow> (\<exists>base. src = base @ sub)"
proof
  assume "Endswith src sub"
  then have "take (length sub) (drop (length src - length sub) src) = sub" by (auto simp: Endswith_def dest: rfind_Some)
  then show "\<exists>base. src = base @ sub" by (metis append_take_drop_id append_take_drop_id length_drop diff_diff_cancel Endswith_def \<open>Endswith src sub\<close> take_all_iff order_refl)
next
  assume sub: "sub \<noteq> []" and "\<exists>base. src = base @ sub"
  then obtain base where src: "src = base @ sub" by blast
  have "take (length sub) (drop i src) \<noteq> sub" if "length base < i" for i
  proof
    assume "take (length sub) (drop i src) = sub"
    from arg_cong [where f = length, OF this] have "length sub \<le> length src - i" by simp
    moreover have "0 < length sub" using sub by simp
    ultimately show False using that unfolding src length_append by linarith
  qed
  then have "rfind src sub (length src) = Some (length base)" by (intro rfind_at) (auto simp: src)
  then show "Endswith src sub" by (simp add: Endswith_def src)
qed

section \<open>Valid profiles\<close>

definition valid_condition :: "OnDemandCondition \<Rightarrow> bool" where
  "valid_condition c \<longleftrightarrow> cond_eventId c \<in> {1, 2, 3, 4, 5} \<and> sm_ok (cond_extraMessages c)"

definition valid_event :: "OnDemandEvent \<Rightarrow> bool" where
  "valid_event e \<longleftrightarrow> ev_name e \<noteq> [] \<and> length (ev_name e) \<le> 128 \<and> length (ev_value e) \<le> 128 \<and> extraDataId e = -1
     \<and> list_all valid_condition (conditions e) \<and> ev_loadPriority e \<in> {1, 2, 3} \<and> sm_ok (extraMessages e)"

text \<open>Events come grouped by their kind, in the order in which the parser looks for the kinds.\<close>
definition valid_events :: "OnDemandEvent list \<Rightarrow> bool" where
  "valid_events es \<longleftrightarrow> list_all valid_event es \<and> es = concat (map (\<lambda>i. filter (\<lambda>e. eventId e = i) es) [1, 2, 4, 3, 5])"

definition valid_profile :: "SaProfile \<Rightarrow> bool" where
  "valid_profile p \<longleftrightarrow> 0 < saId p \<and> saId p \<le> 0xffffff \<and> libPath p \<noteq> [] \<and> length (libPath p) \<le> 128
     \<and> list_all is_int32 (dependSa p) \<and> is_int32 (dependTimeout p) \<and> is_int32 (dumpLevel p) \<and> bootPhase p \<in> {1, 2, 3}
     \<and> valid_events (start_onDemandEvents (startOnDemand p)) \<and> valid_events (stop_onDemandEvents (stopOnDemand p))
     \<and> is_int32 (delayTime (stopOnDemand p)) \<and> is_int32 (unusedTimeout (stopOnDemand p)) \<and> recycleStrategy p \<in> {0, 1}
     \<and> distinct (extension p) \<and> length (extension p) \<le> 100 \<and> list_all (\<lambda>x. length x \<le> 128) (extension p)"

subsection \<open>What is parsed is valid\<close>

lemma GetInt32_range: "is_int32 out \<Longrightarrow> is_int32 (GetInt32FromJson j key out)"
  by (auto simp: GetInt32FromJson_def to_int32_range split: option.splits json.splits)

lemma messages_ok: "sm_ok out \<Longrightarrow> sm_ok (GetOnDemandExtraMessagesFromJson j key out)"
proof -
  have "sm_ok out \<Longrightarrow> sm_ok (fold (\<lambda>(k, v) out. case v of JString s \<Rightarrow> sm_ins k s out | _ \<Rightarrow> out) m out)" for m :: "(string, json) smap" and out
    by (induction m arbitrary: out) (auto split: json.splits)
  then show "sm_ok out \<Longrightarrow> ?thesis" by (auto simp: GetOnDemandExtraMessagesFromJson_def split: option.splits json.splits)
qed

lemma set_map_filter: "x \<in> set (List.map_filter f xs) \<longleftrightarrow> (\<exists>y \<in> set xs. f y = Some x)"
  by (auto simp: map_filter_def image_iff)

lemmas kind_defs = DEVICE_ONLINE_def SETTING_SWITCH_def PARAM_def COMMON_EVENT_def TIMED_EVENT_def

lemma condition_of_json_valid: "condition_of_json j = Some c \<Longrightarrow> valid_condition c"
  by (auto simp: condition_of_json_def Let_def valid_condition_def messages_ok condition_event_def kind_defs split: if_splits)

lemma conditions_valid: "list_all valid_condition (GetOnDemandConditionsFromJson j key [])"
  by (auto simp: GetOnDemandConditionsFromJson_def list_all_iff set_map_filter dest: condition_of_json_valid)

lemma event_of_json_valid: "event_of_json i j = Some e \<Longrightarrow> valid_event e \<and> eventId e = i"
  by (auto simp: event_of_json_def Let_def valid_event_def conditions_valid messages_ok MAX_JSON_STRING_LENGTH_def GetOndemandPriorityPara_def
      HIGH_PRIORITY_def MEDIUM_PRIORITY_def LOW_PRIORITY_def split: if_splits)

lemma filter_all: "(\<And>x. x \<in> set xs \<Longrightarrow> P x) \<Longrightarrow> filter P xs = xs" "(\<And>x. x \<in> set xs \<Longrightarrow> \<not> P x) \<Longrightarrow> filter P xs = []"
  by (auto simp: filter_empty_conv)

lemma ondemand_valid: "valid_events (ParseOndemandTag j [])"
proof -
  let ?g = "\<lambda>i key. List.map_filter (event_of_json i) (json_items key j)"
  have all: "list_all (\<lambda>e. valid_event e \<and> eventId e = i) (?g i key)" for i key
    by (auto simp: list_all_iff set_map_filter dest: event_of_json_valid)
  then have "filter (\<lambda>e. eventId e = k) (?g i key) = (if i = k then ?g i key else [])" for i k key
    using filter_all [of "?g i key" "\<lambda>e. eventId e = k"] by (auto simp: list_all_iff)
  moreover have "ParseOndemandTag j [] = ?g 1 ''deviceonline'' @ ?g 2 ''settingswitch'' @ ?g 4 ''commonevent'' @ ?g 3 ''param'' @ ?g 5 ''timedevent''"
    by (simp add: ParseOndemandTag_def GetOnDemandArrayFromJson_def kind_defs)
  moreover have "list_all valid_event (?g i key)" for i key using all by (simp add: list_all_iff)
  ultimately show ?thesis by (simp add: valid_events_def)
qed

lemma extensions_valid:
  "extensions js xs = Inr (True, ys) \<Longrightarrow> distinct xs \<and> length xs \<le> 100 \<and> list_all (\<lambda>x. length x \<le> 128) xs
     \<Longrightarrow> distinct ys \<and> length ys \<le> 100 \<and> list_all (\<lambda>x. length x \<le> 128) ys"
  by (induction js xs rule: extensions.induct)
    (auto simp: MAX_JSON_STRING_LENGTH_def MAX_EXTENSIONO_NUM_def split: json.splits if_splits)

lemma valid_no_events: "valid_events []"
  by (simp add: valid_events_def)

text \<open>Every profile that one ability of a file gives is valid.\<close>
lemma ParseSystemAbility_valid:
  assumes "ParseSystemAbility (mk_profile proc) j = Inr (True, p)"
  shows "valid_profile p \<and> process p = proc"
proof -
  let ?b = "(mk_profile proc) \<lparr> saId := GetInt32FromJson j ''name'' 0, libPath := GetStringFromJson j ''libpath'' [] \<rparr>"
  let ?m = "read_members j ?b"
  have base: "saId ?b \<noteq> 0" "0 \<le> saId ?b" "saId ?b \<le> 0xffffff" "libPath ?b \<noteq> []" "length (libPath ?b) \<le> 128"
    and ext: "ParseSystemAbilityGetSaExtInfo ?b j = Inr (True, p)"
    using assms by (auto simp: ParseSystemAbility_def ParseSystemAbilityGetSaBaseInfo_def Let_def mk_profile_def MAX_JSON_STRING_LENGTH_def
        PU_FIRST_SYS_ABILITY_ID_def PU_LAST_SYS_ABILITY_ID_def split: if_splits)
  obtain r xs where r: "CheckRecycleStrategy (GetStringFromJson j ''recycle-strategy'' []) = Some r"
    and xs: "extensions (json_items ''extension'' j) [] = Inr (True, xs)" and p: "p = ?m \<lparr> recycleStrategy := r, extension := xs \<rparr>"
    using ext by (auto simp: ParseSystemAbilityGetSaExtInfo_def ParseSystemAbilityGetExtension_def Let_def read_members_def mk_profile_def
        split: option.splits sum.splits)
  have "r \<in> {0, 1}" using r by (auto simp: CheckRecycleStrategy_def IMMEDIATELY_def LOW_MEMORY_def split: if_splits)
  moreover have "(case i of JInt n \<Rightarrow> Some (to_int32 n) | _ \<Rightarrow> None) = Some x \<Longrightarrow> is_int32 x" for i x by (cases i) (auto simp: to_int32_range)
  then have "list_all is_int32 (GetIntArrayFromJson j ''depend'' [])"
    by (auto simp: GetIntArrayFromJson_def list_all_iff set_map_filter)
  moreover have "is_int32 0" "is_int32 20000" "is_int32 (-1)" by (simp_all add: is_int32_def)
  moreover have "GetBootPriorityPara s \<in> {1, 2, 3}" for s by (simp add: GetBootPriorityPara_def BOOT_START_def CORE_START_def OTHER_START_def)
  ultimately show ?thesis
    using base extensions_valid [OF xs]
    by (auto simp: p valid_profile_def read_members_def Let_def mk_profile_def GetInt32_range ParseStartOndemandTag_def ParseStopOndemandTag_def
        ondemand_valid valid_no_events split: option.splits)
qed

subsection \<open>Every valid profile is parsed\<close>

text \<open>A profile written as JSON, with the number \<open>n\<close> for its identifier and the mark \<open>multi\<close>.\<close>
definition json_object :: "(string \<times> json) list \<Rightarrow> json" where
  "json_object kvs = JObject (fold (\<lambda>(k, v). sm_ins k v) kvs [])"

definition messages_json :: "(string, string) smap \<Rightarrow> json" where
  "messages_json m = JObject (map (\<lambda>(k, v). (k, JString v)) m)"

definition kind_tag :: "int \<Rightarrow> string" where
  "kind_tag i = (if i = DEVICE_ONLINE then ''deviceonline'' else if i = SETTING_SWITCH then ''settingswitch''
     else if i = COMMON_EVENT then ''commonevent'' else if i = PARAM then ''param'' else ''timedevent'')"

definition condition_json :: "OnDemandCondition \<Rightarrow> json" where
  "condition_json c = json_object [(''eventId'', JString (kind_tag (cond_eventId c))), (''name'', JString (cond_name c)),
     (''value'', JString (cond_value c)), (''extra-messages'', messages_json (cond_extraMessages c))]"

definition priority_text :: "int \<Rightarrow> string" where
  "priority_text i = (if i = HIGH_PRIORITY then ''HighPriority'' else if i = MEDIUM_PRIORITY then ''MediumPriority'' else ''LowPriority'')"

definition event_json :: "OnDemandEvent \<Rightarrow> json" where
  "event_json e = json_object [(''name'', JString (ev_name e)), (''value'', JString (ev_value e)), (''persistence'', JBool (persistence e)),
     (''conditions'', JArray (map condition_json (conditions e))), (''enable-once'', JBool (ev_enableOnce e)),
     (''load-priority'', JString (priority_text (ev_loadPriority e))), (''extra-messages'', messages_json (extraMessages e))]"

definition events_json :: "OnDemandEvent list \<Rightarrow> (string \<times> json) list" where
  "events_json es = map (\<lambda>i. (kind_tag i, JArray (map event_json (filter (\<lambda>e. eventId e = i) es)))) [1, 2, 4, 3, 5]"

definition start_json :: "StartOnDemand \<Rightarrow> json" where
  "start_json d = json_object ((''allow-update'', JBool (start_allowUpdate d)) # events_json (start_onDemandEvents d))"

definition stop_json :: "StopOnDemand \<Rightarrow> json" where
  "stop_json d = json_object ((''allow-update'', JBool (stop_allowUpdate d)) # (''unreferenced-unload'', JBool (unrefUnload d)) #
     (''recycle-delaytime'', JInt (delayTime d)) # (''longtimeunused-unload'', JInt (unusedTimeout d)) # events_json (stop_onDemandEvents d))"

definition phase_text :: "int \<Rightarrow> string" where
  "phase_text i = (if i = BOOT_START then ''BootStartPhase'' else if i = CORE_START then ''CoreStartPhase'' else ''OthersStartPhase'')"

definition profile_json :: "int \<Rightarrow> bool \<Rightarrow> SaProfile \<Rightarrow> json" where
  "profile_json n multi p = json_object [(''name'', JInt n), (''libpath'', JString (libPath p)), (''run-on-create'', JBool (runOnCreate p)),
     (''module-update'', JBool (moduleUpdate p)), (''auto-restart'', JBool (autoRestart p)), (''distributed'', JBool (distributed p)),
     (''cache-common-event'', JBool (cacheCommonEvent p)), (''independent-unload'', JBool (sp_independentUnload p)),
     (''depend'', JArray (map JInt (dependSa p))), (''depend-time-out'', JInt (dependTimeout p)), (''dump-level'', JInt (dumpLevel p)),
     (''bootphase'', JString (phase_text (bootPhase p))), (''start-on-demand'', start_json (startOnDemand p)),
     (''stop-on-demand'', stop_json (stopOnDemand p)),
     (''recycle-strategy'', JString (if recycleStrategy p = IMMEDIATELY then ''immediately'' else ''low-memory'')),
     (''extension'', JArray (map JString (extension p))), (''multi-instance'', JBool multi)]"

lemma sm_find_fold: "distinct (map fst kvs) \<Longrightarrow> sm_find k (fold (\<lambda>(k, v). sm_ins k v) kvs m) = (case map_of kvs k of None \<Rightarrow> sm_find k m | Some v \<Rightarrow> Some v)"
proof (induction kvs arbitrary: m)
  case (Cons kv kvs)
  then have "map_of kvs (fst kv) = None" by (simp add: map_of_eq_None_iff)
  with Cons show ?case by (cases kv) (auto split: option.splits)
qed simp

lemma json_find_object: "distinct (map fst kvs) \<Longrightarrow> json_find k (json_object kvs) = map_of kvs k"
  by (simp add: json_object_def sm_find_fold split: option.splits)

lemma sm_ins_last: "(\<And>k'. k' \<in> set (sm_keys m) \<Longrightarrow> k' < k) \<Longrightarrow> sm_ins k v m = m @ [(k, v)]"
  by (induction m) (fastforce simp: sm_keys_def)+

lemma sm_rebuild: "sm_ok (acc @ m) \<Longrightarrow> fold (\<lambda>(k, v). sm_ins k v) m acc = acc @ m"
proof (induction m arbitrary: acc)
  case (Cons kv m)
  obtain k v where kv: "kv = (k, v)" by (cases kv)
  have "sm_ins k v acc = acc @ [(k, v)]"
    using Cons.prems by (intro sm_ins_last) (auto simp: kv sm_ok_def sm_keys_def sorted_append order.strict_iff_order)
  then show ?case using Cons.IH [of "acc @ [(k, v)]"] Cons.prems by (simp add: kv)
qed simp

lemma messages_round_trip: "json_find key j = Some (messages_json m) \<Longrightarrow> sm_ok m \<Longrightarrow> GetOnDemandExtraMessagesFromJson j key [] = m"
proof -
  have "fold (\<lambda>(k, v) out. case v of JString s \<Rightarrow> sm_ins k s out | _ \<Rightarrow> out) (map (\<lambda>(k, v). (k, JString v)) m) out
      = fold (\<lambda>(k, v). sm_ins k v) m out" for out by (simp add: fold_map comp_def split_def)
  then show "json_find key j = Some (messages_json m) \<Longrightarrow> sm_ok m \<Longrightarrow> GetOnDemandExtraMessagesFromJson j key [] = m"
    using sm_rebuild [of "[]" m] by (simp add: GetOnDemandExtraMessagesFromJson_def messages_json_def)
qed

lemma map_filter_map: "(\<And>x. x \<in> set xs \<Longrightarrow> f (g x) = Some x) \<Longrightarrow> List.map_filter f (map g xs) = xs"
  by (induction xs) (simp_all add: map_filter_simps)

lemma condition_of_json_round_trip: "valid_condition c \<Longrightarrow> condition_of_json (condition_json c) = Some c"
proof -
  assume v: "valid_condition c"
  have find: "json_find k (condition_json c) = map_of [(''eventId'', JString (kind_tag (cond_eventId c))), (''name'', JString (cond_name c)),
     (''value'', JString (cond_value c)), (''extra-messages'', messages_json (cond_extraMessages c))] k" for k
    by (simp add: condition_json_def json_find_object)
  have "GetOnDemandExtraMessagesFromJson (condition_json c) ''extra-messages'' [] = cond_extraMessages c"
    using v by (intro messages_round_trip) (simp_all add: valid_condition_def find)
  moreover have "condition_event (kind_tag (cond_eventId c)) = Some (cond_eventId c)"
    using v by (auto simp: valid_condition_def kind_tag_def kind_defs condition_event_def)
  ultimately show ?thesis by (simp add: condition_of_json_def Let_def GetStringFromJson_def find)
qed

lemma condition_round_trip:
  "json_find key j = Some (JArray (map condition_json cs)) \<Longrightarrow> list_all valid_condition cs \<Longrightarrow> GetOnDemandConditionsFromJson j key [] = cs"
  by (simp add: GetOnDemandConditionsFromJson_def json_items_def list_all_iff condition_of_json_round_trip map_filter_map)

lemma event_round_trip: "valid_event e \<Longrightarrow> event_of_json (eventId e) (event_json e) = Some e"
proof -
  assume v: "valid_event e"
  have find: "json_find k (event_json e) = map_of [(''name'', JString (ev_name e)), (''value'', JString (ev_value e)), (''persistence'', JBool (persistence e)),
     (''conditions'', JArray (map condition_json (conditions e))), (''enable-once'', JBool (ev_enableOnce e)),
     (''load-priority'', JString (priority_text (ev_loadPriority e))), (''extra-messages'', messages_json (extraMessages e))] k" for k
    by (simp add: event_json_def json_find_object)
  have "GetOnDemandConditionsFromJson (event_json e) ''conditions'' [] = conditions e"
    "GetOnDemandExtraMessagesFromJson (event_json e) ''extra-messages'' [] = extraMessages e"
    using v by (auto simp: valid_event_def find intro!: condition_round_trip messages_round_trip)
  moreover have "GetOndemandPriorityPara (priority_text (ev_loadPriority e)) = ev_loadPriority e"
    using v by (auto simp: valid_event_def GetOndemandPriorityPara_def priority_text_def HIGH_PRIORITY_def MEDIUM_PRIORITY_def LOW_PRIORITY_def)
  ultimately show ?thesis
    using v by (simp add: event_of_json_def Let_def GetStringFromJson_def GetBoolFromJson_def find valid_event_def MAX_JSON_STRING_LENGTH_def)
qed

lemma kind_tags: "map kind_tag [1, 2, 4, 3, 5] = [''deviceonline'', ''settingswitch'', ''commonevent'', ''param'', ''timedevent'']"
  by (simp add: kind_tag_def kind_defs)

lemma events_round_trip:
  assumes "valid_events es" "\<And>i. i \<in> {1, 2, 4, 3, 5} \<Longrightarrow> json_find (kind_tag i) j = Some (JArray (map event_json (filter (\<lambda>e. eventId e = i) es)))"
  shows "ParseOndemandTag j [] = es"
proof -
  have "List.map_filter (event_of_json i) (json_items (kind_tag i) j) = filter (\<lambda>e. eventId e = i) es" if "i \<in> {1, 2, 4, 3, 5}" for i
    unfolding json_items_def assms(2) [OF that] option.case json.case
    using assms(1) by (intro map_filter_map) (auto simp: valid_events_def list_all_iff dest: event_round_trip)
  from this [of 1] this [of 2] this [of 3] this [of 4] this [of 5]
  have "ParseOndemandTag j [] = concat (map (\<lambda>i. filter (\<lambda>e. eventId e = i) es) [1, 2, 4, 3, 5])"
    by (simp add: ParseOndemandTag_def GetOnDemandArrayFromJson_def kind_tag_def kind_defs)
  then show ?thesis using assms(1) by (simp add: valid_events_def)
qed

lemma events_found:
  assumes "distinct (map fst pre)" "set (map fst pre) \<inter> {''deviceonline'', ''settingswitch'', ''commonevent'', ''param'', ''timedevent''} = {}"
  shows "i \<in> {1, 2, 4, 3, 5} \<Longrightarrow> json_find (kind_tag i) (json_object (pre @ events_json es)) = Some (JArray (map event_json (filter (\<lambda>e. eventId e = i) es)))"
    "k \<in> set (map fst pre) \<Longrightarrow> json_find k (json_object (pre @ events_json es)) = map_of pre k"
proof -
  have keys: "map fst (events_json es) = [''deviceonline'', ''settingswitch'', ''commonevent'', ''param'', ''timedevent'']"
    by (simp add: events_json_def kind_tag_def kind_defs)
  have d: "distinct (map fst (pre @ events_json es))" using assms by (simp add: keys)
  show "json_find k (json_object (pre @ events_json es)) = map_of pre k" if "k \<in> set (map fst pre)"
    using that keys assms unfolding json_find_object [OF d] map_of_append by (auto simp: map_add_def map_of_eq_None_iff split: option.splits dest: map_of_SomeD)
  show "json_find (kind_tag i) (json_object (pre @ events_json es)) = Some (JArray (map event_json (filter (\<lambda>e. eventId e = i) es)))"
    if "i \<in> {1, 2, 4, 3, 5}"
  proof -
    have "kind_tag i \<notin> set (map fst pre)" using assms(2) by (auto simp: kind_tag_def)
    then have "map_of pre (kind_tag i) = None" by (simp add: map_of_eq_None_iff)
    then have "json_find (kind_tag i) (json_object (pre @ events_json es)) = map_of (events_json es) (kind_tag i)"
      by (simp only: json_find_object [OF d] map_of_append map_add_def option.case)
    then show ?thesis using that by (auto simp: events_json_def kind_tag_def kind_defs)
  qed
qed

lemma start_round_trip:
  assumes "valid_events (start_onDemandEvents d)" "json_find tag j = Some (start_json d)" "start_onDemandEvents out = []"
  shows "ParseStartOndemandTag j tag out = d"
proof -
  let ?pre = "[(''allow-update'', JBool (start_allowUpdate d))]"
  have "ParseOndemandTag (start_json d) [] = start_onDemandEvents d"
    using assms(1) events_found(1) [of ?pre _ "start_onDemandEvents d"] by (intro events_round_trip) (auto simp: start_json_def)
  moreover have "GetBoolFromJson (start_json d) ''allow-update'' (start_allowUpdate out) = start_allowUpdate d"
    using events_found(2) [of ?pre "''allow-update''" "start_onDemandEvents d"] by (simp add: GetBoolFromJson_def start_json_def)
  moreover have "ParseJsonTag j tag = Some (start_json d)" using assms(2) by (simp add: ParseJsonTag_def start_json_def json_object_def)
  ultimately show ?thesis by (simp add: ParseStartOndemandTag_def assms(3))
qed

lemma stop_round_trip:
  assumes "valid_events (stop_onDemandEvents d)" "is_int32 (delayTime d)" "is_int32 (unusedTimeout d)" "json_find tag j = Some (stop_json d)"
    "stop_onDemandEvents out = []"
  shows "ParseStopOndemandTag j tag out = d"
proof -
  let ?pre = "[(''allow-update'', JBool (stop_allowUpdate d)), (''unreferenced-unload'', JBool (unrefUnload d)),
    (''recycle-delaytime'', JInt (delayTime d)), (''longtimeunused-unload'', JInt (unusedTimeout d))]"
  have "ParseOndemandTag (stop_json d) [] = stop_onDemandEvents d"
    using assms(1) events_found(1) [of ?pre _ "stop_onDemandEvents d"] by (intro events_round_trip) (auto simp: stop_json_def)
  moreover have "json_find k (stop_json d) = map_of ?pre k" if "k \<in> set (map fst ?pre)" for k
    using events_found(2) [of ?pre k "stop_onDemandEvents d"] that by (simp add: stop_json_def)
  moreover have "ParseJsonTag j tag = Some (stop_json d)" using assms(4) by (simp add: ParseJsonTag_def stop_json_def json_object_def)
  ultimately show ?thesis
    using assms(2,3,5) by (simp add: ParseStopOndemandTag_def GetBoolFromJson_def GetInt32FromJson_def to_int32_id)
qed

lemma extensions_round_trip:
  "distinct (xs @ ys) \<Longrightarrow> length (xs @ ys) \<le> 100 \<Longrightarrow> list_all (\<lambda>x. length x \<le> 128) ys \<Longrightarrow> extensions (map JString ys) xs = Inr (True, xs @ ys)"
  by (induction ys arbitrary: xs) (auto simp: MAX_JSON_STRING_LENGTH_def MAX_EXTENSIONO_NUM_def)

lemma ParseSystemAbility_round_trip:
  assumes v: "valid_profile p" and n: "to_int32 n = saId p"
  shows "ParseSystemAbility (mk_profile (process p)) (profile_json n multi p) = Inr (True, p)"
proof -
  let ?j = "profile_json n multi p" and ?b = "(mk_profile (process p)) \<lparr> saId := saId p, libPath := libPath p \<rparr>"
  note find = json_find_object [of "[(''name'', JInt n), (''libpath'', JString (libPath p)), (''run-on-create'', JBool (runOnCreate p)),
     (''module-update'', JBool (moduleUpdate p)), (''auto-restart'', JBool (autoRestart p)), (''distributed'', JBool (distributed p)),
     (''cache-common-event'', JBool (cacheCommonEvent p)), (''independent-unload'', JBool (sp_independentUnload p)),
     (''depend'', JArray (map JInt (dependSa p))), (''depend-time-out'', JInt (dependTimeout p)), (''dump-level'', JInt (dumpLevel p)),
     (''bootphase'', JString (phase_text (bootPhase p))), (''start-on-demand'', start_json (startOnDemand p)),
     (''stop-on-demand'', stop_json (stopOnDemand p)),
     (''recycle-strategy'', JString (if recycleStrategy p = IMMEDIATELY then ''immediately'' else ''low-memory'')),
     (''extension'', JArray (map JString (extension p))), (''multi-instance'', JBool multi)]", folded profile_json_def]
  have base: "ParseSystemAbilityGetSaBaseInfo (mk_profile (process p)) ?j = (True, ?b)"
    using v n by (simp add: ParseSystemAbilityGetSaBaseInfo_def Let_def GetInt32FromJson_def GetStringFromJson_def find mk_profile_def valid_profile_def
        PU_FIRST_SYS_ABILITY_ID_def PU_LAST_SYS_ABILITY_ID_def MAX_JSON_STRING_LENGTH_def)
  have start: "ParseStartOndemandTag ?j ''start-on-demand'' \<lparr> start_allowUpdate = False, start_onDemandEvents = [] \<rparr> = startOnDemand p"
    using v by (intro start_round_trip) (simp_all add: valid_profile_def find)
  have stop: "ParseStopOndemandTag ?j ''stop-on-demand'' (stopOnDemand (mk_profile (process p))) = stopOnDemand p"
    using v by (intro stop_round_trip) (simp_all add: valid_profile_def find mk_profile_def)
  have depend: "GetIntArrayFromJson ?j ''depend'' [] = dependSa p"
    using v by (simp add: GetIntArrayFromJson_def json_items_def find valid_profile_def list_all_iff map_filter_map to_int32_id)
  have timeout: "GetInt32FromJson ?j ''depend-time-out'' 0 = dependTimeout p" "GetInt32FromJson ?j ''depend_time_out'' 0 = 0"
    "GetInt32FromJson ?j ''dump-level'' 0 = dumpLevel p"
    using v by (simp_all add: GetInt32FromJson_def find valid_profile_def to_int32_id)
  have phase: "GetBootPriorityPara (GetStringFromJson ?j ''bootphase'' []) = bootPhase p"
    using v by (auto simp: GetStringFromJson_def find valid_profile_def GetBootPriorityPara_def phase_text_def BOOT_START_def CORE_START_def OTHER_START_def)
  have recycle: "CheckRecycleStrategy (GetStringFromJson ?j ''recycle-strategy'' []) = Some (recycleStrategy p)"
    using v by (auto simp: GetStringFromJson_def find valid_profile_def CheckRecycleStrategy_def IMMEDIATELY_def LOW_MEMORY_def)
  have ext: "extensions (json_items ''extension'' ?j) [] = Inr (True, extension p)"
    using v extensions_round_trip [of "[]" "extension p"] by (simp add: json_items_def find valid_profile_def)
  have "(read_members ?j ?b) \<lparr> recycleStrategy := recycleStrategy p, extension := extension p \<rparr> = p"
    using start stop depend timeout phase by (simp add: read_members_def Let_def mk_profile_def GetBoolFromJson_def find)
  moreover have "extension (read_members ?j ?b) = []" by (simp add: read_members_def Let_def mk_profile_def)
  ultimately show ?thesis
    using base recycle ext by (simp add: ParseSystemAbility_def ParseSystemAbilityGetSaExtInfo_def ParseSystemAbilityGetExtension_def Let_def)
qed

section \<open>Profile files\<close>

definition unloaded :: "SaProfile \<Rightarrow> loaded_profile" where "unloaded p = \<lparr> lp_profile = p, lp_handle = None \<rparr>"

text \<open>The profiles of a file: the accepted ones, in order, up to the first exception.\<close>
fun accepted :: "u16string \<Rightarrow> json list \<Rightarrow> SaProfile list" where
  "accepted proc [] = []"
| "accepted proc (j # js) = (case ParseSystemAbility (mk_profile proc) j of Inl _ \<Rightarrow> [] | Inr (ok, p) \<Rightarrow> (if ok then [p] else []) @ accepted proc js)"

lemma parse_abilities_run:
  "exec (parse_abilities js) s = s \<lparr> saProfiles := saProfiles s @ map unloaded (accepted (pu_procName s) js) \<rparr>"
  "eval_st (parse_abilities js) s = (if list_ex (\<lambda>j. ParseSystemAbility (mk_profile (pu_procName s)) j = Inl TypeError) js then Inl TypeError else Inr ())"
proof (induction js arbitrary: s)
  case (Cons j js)
  case 1
  show ?case using Cons.IH by (auto simp: run_simps unloaded_def split: sum.splits)
  case 2
  have "x = TypeError" for x by (cases x) simp
  then show ?case using Cons.IH by (auto simp: run_simps split: sum.splits)
qed (simp_all add: run_simps)

lemma accepted_valid: "list_all (\<lambda>p. valid_profile p \<and> process p = proc) (accepted proc js)"
  by (induction js) (auto split: sum.splits dest: ParseSystemAbility_valid)

text \<open>A mark of an ability, and its number as the marking reads it.\<close>
definition is_marked :: "json \<Rightarrow> bool" where "is_marked j = GetBoolFromJson j ''multi-instance'' False"

lemma multi_ids_run: "multi_instance_ids js tmp = (if list_all is_marked js then Some (fold (\<lambda>j. set_insert (GetInt32FromJson j ''name'' 0)) js tmp) else None)"
  by (induction js arbitrary: tmp) (auto simp: is_marked_def)

lemma fold_set_insert: "set (sm_keys (fold (\<lambda>x. set_insert (f x)) xs m)) = f ` set xs \<union> set (sm_keys m)" "sm_ok m \<Longrightarrow> sm_ok (fold (\<lambda>x. set_insert (f x)) xs m)"
  by (induction xs arbitrary: m) (auto simp: sm_keys_ins)

lemma ParseMultiInstanceSaIds_run:
  "set (sm_keys (pu_multiInstanceSaIds (exec (ParseMultiInstanceSaIds js) s)))
    = set (sm_keys (pu_multiInstanceSaIds s)) \<union> (if list_all is_marked js then (\<lambda>j. GetInt32FromJson j ''name'' 0) ` set js else {})"
  "saProfiles (exec (ParseMultiInstanceSaIds js) s) = saProfiles s" "dlEffects (exec (ParseMultiInstanceSaIds js) s) = dlEffects s"
  using fold_set_insert(1) [of "\<lambda>x. x"] fold_set_insert(1) [of "\<lambda>j. GetInt32FromJson j ''name'' 0" js "[]"]
  by (auto simp: ParseMultiInstanceSaIds_def multi_ids_run run_simps) (auto simp: sm_keys_def)

text \<open>What a file must be to be looked at: its name, its size, its process and its list of abilities.\<close>
definition profile_file :: "parse_env \<Rightarrow> string \<Rightarrow> u16string \<Rightarrow> json list \<Rightarrow> bool" where
  "profile_file e path proc js \<longleftrightarrow> pe_good e (GetRealPath e path) \<and> (\<exists>base. GetRealPath e path = base @ ''.json'') \<and>
     (\<exists>content j name. pe_content e (GetRealPath e path) = Some content \<and> length content < 51200 \<and> pe_json e content = Some j
        \<and> json_find ''process'' j = Some (JString name) \<and> name \<noteq> [] \<and> length name \<le> 128 \<and> proc = pe_str8to16 e name
        \<and> json_find ''systemability'' j = Some (JArray js))"

lemma ParseSaProfiles_refused:
  assumes "\<nexists>proc js. profile_file e path proc js"
  shows "eval_st (ParseSaProfiles e path) s = Inr False \<and> saProfiles (exec (ParseSaProfiles e path) s) = saProfiles s
    \<and> pu_multiInstanceSaIds (exec (ParseSaProfiles e path) s) = pu_multiInstanceSaIds s \<and> dlEffects (exec (ParseSaProfiles e path) s) = dlEffects s"
  using assms
  by (auto simp: profile_file_def ParseSaProfiles_def ParseJsonFile_def Let_def run_simps Endswith_iff CheckPathExist_def ParseJsonObj_run
      GetStringFromJson_def MAX_JSON_STRING_LENGTH_def split: option.splits json.splits if_splits)

lemma ParseSaProfiles_accepted:
  assumes "profile_file e path proc js"
  shows "saProfiles (exec (ParseSaProfiles e path) s) = saProfiles s @ map unloaded (accepted proc js)"
    "dlEffects (exec (ParseSaProfiles e path) s) = dlEffects s"
    "list_ex (\<lambda>j. ParseSystemAbility (mk_profile proc) j = Inl TypeError) js \<Longrightarrow> eval_st (ParseSaProfiles e path) s = Inl TypeError"
    "\<not> list_ex (\<lambda>j. ParseSystemAbility (mk_profile proc) j = Inl TypeError) js \<Longrightarrow>
       eval_st (ParseSaProfiles e path) s = Inr (saProfiles s \<noteq> [] \<or> accepted proc js \<noteq> [])
       \<and> set (sm_keys (pu_multiInstanceSaIds (exec (ParseSaProfiles e path) s)))
         = set (sm_keys (pu_multiInstanceSaIds s)) \<union> (if list_all is_marked js then (\<lambda>j. GetInt32FromJson j ''name'' 0) ` set js else {})"
proof -
  obtain base content j name where at: "GetRealPath e path = base @ ''.json''" "pe_good e (base @ ''.json'')"
    "pe_content e (base @ ''.json'') = Some content" "length content < 51200" "pe_json e content = Some j" "json_find ''process'' j = Some (JString name)"
    "name \<noteq> []" "length name \<le> 128" "proc = pe_str8to16 e name" "json_find ''systemability'' j = Some (JArray js)"
    using assms unfolding profile_file_def by metis
  have "ParseSaProfiles e path = do {
      modify (\<lambda>s. s \<lparr> pu_procName := proc \<rparr>);
      r \<leftarrow> parse_abilities js;
      case r of Inl x \<Rightarrow> ret (Inl x)
      | Inr _ \<Rightarrow> do { ParseMultiInstanceSaIds js; empty \<leftarrow> gets (\<lambda>s. saProfiles s = []); ret (Inr (\<not> empty)) } }"
    using at by (simp add: ParseSaProfiles_def ParseJsonFile_def Let_def Endswith_iff CheckPathExist_def ParseJsonObj_run
      GetStringFromJson_def MAX_JSON_STRING_LENGTH_def)
  note run = this
  show "saProfiles (exec (ParseSaProfiles e path) s) = saProfiles s @ map unloaded (accepted proc js)"
    "dlEffects (exec (ParseSaProfiles e path) s) = dlEffects s"
    by (simp_all add: run run_simps parse_abilities_run ParseMultiInstanceSaIds_run)
  show "eval_st (ParseSaProfiles e path) s = Inl TypeError" if "list_ex (\<lambda>j. ParseSystemAbility (mk_profile proc) j = Inl TypeError) js"
    using that by (simp add: run run_simps parse_abilities_run)
  show "eval_st (ParseSaProfiles e path) s = Inr (saProfiles s \<noteq> [] \<or> accepted proc js \<noteq> [])
       \<and> set (sm_keys (pu_multiInstanceSaIds (exec (ParseSaProfiles e path) s)))
         = set (sm_keys (pu_multiInstanceSaIds s)) \<union> (if list_all is_marked js then (\<lambda>j. GetInt32FromJson j ''name'' 0) ` set js else {})"
    if "\<not> list_ex (\<lambda>j. ParseSystemAbility (mk_profile proc) j = Inl TypeError) js"
    using that by (simp add: run run_simps parse_abilities_run ParseMultiInstanceSaIds_run)
qed

section \<open>Properties of the files\<close>

text \<open>A device with one profile file.\<close>
definition one_file :: "string \<Rightarrow> json \<Rightarrow> parse_env" where
  "one_file path j = \<lparr> pe_realpath = Some, pe_good = (\<lambda>p. p = path), pe_content = (\<lambda>p. if p = path then Some ''{}'' else None),
     pe_json = (\<lambda>_. Some j), pe_str8to16 = u16, pe_dlopen = (\<lambda>_. Some 7), pe_splitSlash = (\<lambda>p. [p]) \<rparr>"

text \<open>The JSON of a profile file.\<close>
definition file_json :: "string \<Rightarrow> bool \<Rightarrow> SaProfile list \<Rightarrow> json" where
  "file_json proc multi ps = json_object [(''process'', JString proc), (''systemability'', JArray (map (\<lambda>p. profile_json (saId p) multi p) ps))]"

lemma file_json_finds:
  "json_find ''process'' (file_json proc multi ps) = Some (JString proc)"
  "json_find ''systemability'' (file_json proc multi ps) = Some (JArray (map (\<lambda>p. profile_json (saId p) multi p) ps))"
  by (simp_all add: file_json_def json_find_object)

lemma profile_json_finds:
  "GetBoolFromJson (profile_json n multi p) ''multi-instance'' False = multi" "GetInt32FromJson (profile_json n multi p) ''name'' k = to_int32 n"
  by (simp_all add: profile_json_def json_find_object GetBoolFromJson_def GetInt32FromJson_def)

lemma valid_id: "valid_profile p \<Longrightarrow> to_int32 (saId p) = saId p"
  by (simp add: valid_profile_def to_int32_id is_int32_def)

text \<open>C15. A profile file is read back: from the JSON of a process and any list of valid profiles of it the parser gets exactly these
  profiles, every member of every one, in order and after those it has, and returns true unless it has none; their identifiers become
  multi-instance ones exactly when they are marked so.\<close>
theorem profile_file_round_trip:
  fixes e path base content proc multi ps s
  assumes "GetRealPath e path = base @ ''.json''" "pe_good e (base @ ''.json'')" "pe_content e (base @ ''.json'') = Some content" "length content < 51200"
    and "pe_json e content = Some (file_json proc multi ps)" "proc \<noteq> []" "length proc \<le> 128"
    and "\<forall>p \<in> set ps. valid_profile p \<and> process p = pe_str8to16 e proc"
  defines "s' \<equiv> exec (ParseSaProfiles e path) s"
  shows "eval_st (ParseSaProfiles e path) s = Inr (saProfiles s \<noteq> [] \<or> ps \<noteq> [])
    \<and> saProfiles s' = saProfiles s @ map unloaded ps
    \<and> set (sm_keys (pu_multiInstanceSaIds s')) = set (sm_keys (pu_multiInstanceSaIds s)) \<union> (if multi then saId ` set ps else {})"
proof -
  let ?j = "\<lambda>p. profile_json (saId p) multi p"
  have "profile_file e path (pe_str8to16 e proc) (map ?j ps)"
    using assms(1-7) by (simp add: profile_file_def file_json_finds)
  note run = ParseSaProfiles_accepted [OF this]
  have parsed: "ParseSystemAbility (mk_profile (pe_str8to16 e proc)) (?j p) = Inr (True, p)" if "p \<in> set ps" for p
    using assms(8) that ParseSystemAbility_round_trip [of p "saId p" multi] valid_id [of p] by auto
  then have "accepted (pe_str8to16 e proc) (map ?j ps) = ps" by (induction ps) auto
  moreover have "\<not> list_ex (\<lambda>j. ParseSystemAbility (mk_profile (pe_str8to16 e proc)) j = Inl TypeError) (map ?j ps)"
    using parsed by (simp add: list_ex_iff)
  moreover have "(\<lambda>j. GetInt32FromJson j ''name'' 0) ` set (map ?j ps) = saId ` set ps"
    using assms(8) valid_id by (auto simp: profile_json_finds image_iff)
  moreover have "list_all is_marked (map ?j ps) \<longleftrightarrow> multi \<or> ps = []" by (auto simp: list_all_iff is_marked_def profile_json_finds)
  ultimately show ?thesis using run(1,4) by (auto simp: s'_def)
qed

definition written_profile :: SaProfile where
  "written_profile = (mk_profile (u16 ''p'')) \<lparr> saId := 401, libPath := ''lib.z.so'', dependSa := [3], bootPhase := 2, extension := [''backup''],
     startOnDemand := \<lparr> start_allowUpdate = True, start_onDemandEvents = [mk_event DEVICE_ONLINE ''deviceonline'' ''on''] \<rparr>, recycleStrategy := 1 \<rparr>"

lemma written_profile_valid: "valid_profile written_profile" "process written_profile = u16 ''p''" "saId written_profile = 401"
  by (simp_all add: written_profile_def mk_profile_def valid_profile_def valid_events_def valid_event_def mk_event_def is_int32_def kind_defs LOW_PRIORITY_def)

theorem profile_file_round_trip_witness:
  "let e = one_file ''/a.json'' (file_json ''p'' True [written_profile]); s' = exec (ParseSaProfiles e ''/a.json'') empty_parser in
   eval_st (ParseSaProfiles e ''/a.json'') empty_parser = Inr True \<and> saProfiles s' = [unloaded written_profile] \<and> set (sm_keys (pu_multiInstanceSaIds s')) = {401}"
  using profile_file_round_trip [of "one_file ''/a.json'' (file_json ''p'' True [written_profile])" "''/a.json''" "''/a''" "''{}''" "''p''" True "[written_profile]" empty_parser]
  by (simp add: one_file_def GetRealPath_def written_profile_valid empty_parser_def sm_keys_def)

text \<open>C16. Whatever the files contain, every profile that the parser has after reading any list of files is valid: its identifier, its texts, its
  numbers and its extensions are within their limits, its boot phase, recycle strategy, priorities and conditions are known ones, and its
  events are grouped by kind with names; nothing has been loaded yet.\<close>
theorem parsed_profiles_valid:
  "list_all (\<lambda>p. valid_profile (lp_profile p) \<and> lp_handle p = None) (saProfiles (exec (parse_files e fs) empty_parser))"
proof -
  have one: "list_all (\<lambda>p. valid_profile (lp_profile p) \<and> lp_handle p = None) (saProfiles (exec (ParseSaProfiles e f) s))"
    if "list_all (\<lambda>p. valid_profile (lp_profile p) \<and> lp_handle p = None) (saProfiles s)" for f s
  proof (cases "\<exists>proc js. profile_file e f proc js")
    case True
    then obtain proc js where "profile_file e f proc js" by blast
    then show ?thesis using that accepted_valid [of proc js] by (auto simp: ParseSaProfiles_accepted list_all_iff unloaded_def)
  next
    case False
    then show ?thesis using that by (simp add: ParseSaProfiles_refused)
  qed
  have "list_all (\<lambda>p. valid_profile (lp_profile p) \<and> lp_handle p = None) (saProfiles (exec (parse_files e fs) s))"
    if "list_all (\<lambda>p. valid_profile (lp_profile p) \<and> lp_handle p = None) (saProfiles s)" for s
    using that by (induction fs arbitrary: s) (auto simp: run_simps one split: sum.splits)
  then show ?thesis by (simp add: empty_parser_def)
qed

text \<open>The mark of multi-instance abilities counts for a whole file: when a file has been read without exception, either every ability of
  its list is marked and the numbers of all of them, also of those whose profiles were refused, become multi-instance ones, or none does. A file
  that is not there, has another name or at least 50 KB, is not JSON or names no process of at most 128 characters or no list is refused and
  adds nothing.\<close>
theorem multi_instance_whole_files:
  fixes e path s
  defines "ids \<equiv> set (sm_keys (pu_multiInstanceSaIds s))" and "s' \<equiv> exec (ParseSaProfiles e path) s"
  shows "(\<forall>proc js. profile_file e path proc js \<longrightarrow> eval_st (ParseSaProfiles e path) s \<noteq> Inl TypeError \<longrightarrow>
      set (sm_keys (pu_multiInstanceSaIds s')) = ids \<union> (if list_all is_marked js then (\<lambda>j. GetInt32FromJson j ''name'' 0) ` set js else {}))
    \<and> ((\<nexists>proc js. profile_file e path proc js) \<longrightarrow> eval_st (ParseSaProfiles e path) s = Inr False \<and> saProfiles s' = saProfiles s
      \<and> pu_multiInstanceSaIds s' = pu_multiInstanceSaIds s)"
  using ParseSaProfiles_accepted(3,4) [of e path _ _ s] ParseSaProfiles_refused [of e path s] unfolding ids_def s'_def by blast

theorem multi_instance_whole_files_witness:
  "let j = json_object [(''process'', JString ''p''), (''systemability'', JArray [profile_json 401 True written_profile, profile_json 402 False written_profile])];
       s' = exec (ParseSaProfiles (one_file ''/a.json'' j) ''/a.json'') empty_parser
   in profile_file (one_file ''/a.json'' j) ''/a.json'' (u16 ''p'') [profile_json 401 True written_profile, profile_json 402 False written_profile]
      \<and> set (sm_keys (pu_multiInstanceSaIds s')) = {}"
proof -
  let ?js = "[profile_json 401 True written_profile, profile_json 402 False written_profile]"
  let ?j = "json_object [(''process'', JString ''p''), (''systemability'', JArray ?js)]"
  let ?e = "one_file ''/a.json'' ?j"
  have at: "profile_file ?e ''/a.json'' (u16 ''p'') ?js"
    by (simp add: profile_file_def one_file_def GetRealPath_def json_find_object)
  have "to_int32 402 = (402 :: int)" by (simp add: to_int32_id is_int32_def)
  then have "ParseSystemAbility (mk_profile (u16 ''p'')) (profile_json 402 False written_profile) \<noteq> Inl TypeError"
    using ParseSystemAbility_round_trip [of "written_profile \<lparr> saId := 402 \<rparr>" 402 False] written_profile_valid
    by (simp add: valid_profile_def profile_json_def)
  moreover have "ParseSystemAbility (mk_profile (u16 ''p'')) (profile_json 401 True written_profile) \<noteq> Inl TypeError"
    using ParseSystemAbility_round_trip [of written_profile 401 True] written_profile_valid by (simp add: to_int32_id is_int32_def)
  ultimately have "eval_st (ParseSaProfiles ?e ''/a.json'') empty_parser \<noteq> Inl TypeError"
    using ParseSaProfiles_accepted(4) [OF at, of empty_parser] by simp
  then have "set (sm_keys (pu_multiInstanceSaIds (exec (ParseSaProfiles ?e ''/a.json'') empty_parser))) = {}"
    using multi_instance_whole_files [of ?e "''/a.json''" empty_parser] at by (auto simp: is_marked_def profile_json_finds empty_parser_def sm_keys_def)
  with at show ?thesis by (simp add: Let_def)
qed

text \<open>The number of an ability is cut to 32 bits before its range is checked: a file may name an ability by its number plus any multiple
  of two to the 32, and the profile is accepted as that ability's.\<close>
theorem identifier_wraps:
  assumes "valid_profile p"
  shows "ParseSystemAbility (mk_profile (process p)) (profile_json (saId p + 2 ^ 32 * k) multi p) = Inr (True, p)"
proof -
  have "to_int32 (saId p + 2 ^ 32 * k) = to_int32 (saId p)"
    by (simp add: to_int32_def signed_take_bit_eq_iff_take_bit_eq take_bit_eq_mod)
  then show ?thesis using ParseSystemAbility_round_trip assms valid_id by simp
qed

theorem identifier_wraps_witness:
  "ParseSystemAbility (mk_profile (u16 ''p'')) (profile_json 4294967697 False written_profile) = Inr (True, written_profile)"
  using identifier_wraps [OF written_profile_valid(1), of 1 False] by (simp add: written_profile_valid)

section \<open>Library handles\<close>

text \<open>Handles that were opened, were closed, and are held by profiles.\<close>
definition opened :: "parse_util \<Rightarrow> int" where "opened s = int (length (filter (\<lambda>x. case x of Dlopened _ \<Rightarrow> True | _ \<Rightarrow> False) (dlEffects s)))"
definition closed :: "parse_util \<Rightarrow> int" where "closed s = int (length (filter (\<lambda>x. case x of Dlclosed _ \<Rightarrow> True | _ \<Rightarrow> False) (dlEffects s)))"
definition held :: "loaded_profile list \<Rightarrow> int" where "held ps = int (length (filter (\<lambda>p. lp_handle p \<noteq> None) ps))"

definition lost :: "parse_util \<Rightarrow> int" where "lost s = opened s - closed s - held (saProfiles s)"

lemma held_simps [simp]: "held [] = 0" "held (p # ps) = (if lp_handle p \<noteq> None then 1 else 0) + held ps" "held (ps @ qs) = held ps + held qs"
  by (simp_all add: held_def)

text \<open>An operation on one profile moves as many handles as it opens or closes.\<close>
definition moves_handles :: "(loaded_profile \<Rightarrow> loaded_profile P) \<Rightarrow> bool" where
  "moves_handles f \<longleftrightarrow> (\<forall>p s. saProfiles (exec (f p) s) = saProfiles s \<and>
     opened (exec (f p) s) - closed (exec (f p) s) - held [eval_st (f p) s] = opened s - closed s - held [p])"

lemma moves_CloseHandle: "moves_handles CloseHandle"
  by (auto simp: moves_handles_def CloseHandle_def run_simps emit_dl_def opened_def closed_def split: option.splits)

lemma moves_OpenSo: "moves_handles (OpenSo e)"
  by (auto simp: moves_handles_def OpenSo_def run_simps emit_dl_def opened_def closed_def Let_def split: option.splits)

lemma moves_if: "moves_handles f \<Longrightarrow> moves_handles (\<lambda>p. if b p then f p else ret p)"
  unfolding moves_handles_def
proof (intro allI)
  fix p s
  assume "\<forall>p s. saProfiles (exec (f p) s) = saProfiles s \<and> opened (exec (f p) s) - closed (exec (f p) s) - held [eval_st (f p) s] = opened s - closed s - held [p]"
  then show "saProfiles (exec (if b p then f p else ret p) s) = saProfiles s \<and> opened (exec (if b p then f p else ret p) s)
      - closed (exec (if b p then f p else ret p) s) - held [eval_st (if b p then f p else ret p) s] = opened s - closed s - held [p]"
    by (cases "b p") (simp_all only: if_True if_False run_simps simp_thms)
qed

lemma each_profile_moves:
  assumes "moves_handles f"
  shows "opened (exec (each_profile f ps) s) - closed (exec (each_profile f ps) s) - held (eval_st (each_profile f ps) s) = opened s - closed s - held ps
    \<and> saProfiles (exec (each_profile f ps) s) = saProfiles s"
proof (induction ps arbitrary: s)
  case (Cons p ps)
  show ?case using Cons.IH [of "exec (f p) s"] assms [unfolded moves_handles_def, rule_format, of p s] by (auto simp: run_simps)
qed (simp add: run_simps)

lemma first_profile_moves:
  assumes "moves_handles f"
  shows "opened (exec (first_profile a f ps) s) - closed (exec (first_profile a f ps) s) - held (snd (eval_st (first_profile a f ps) s)) = opened s - closed s - held ps
    \<and> saProfiles (exec (first_profile a f ps) s) = saProfiles s"
proof (induction ps arbitrary: s)
  case (Cons p ps)
  show ?case using Cons.IH [of s] assms [unfolded moves_handles_def, rule_format, of p s] by (auto simp: run_simps split_beta)
qed (simp add: run_simps)

lemma lost_update: "lost (s \<lparr> saProfiles := ps \<rparr>) = opened s - closed s - held ps"
  by (simp add: lost_def opened_def closed_def)

lemma ParseSaProfiles_lost: "lost (exec (ParseSaProfiles e path) s) = lost s"
proof -
  have "held (map unloaded ps) = 0" for ps by (induction ps) (simp_all add: unloaded_def)
  then show ?thesis
    using ParseSaProfiles_accepted(1,2) [of e path _ _ s] ParseSaProfiles_refused [of e path s]
    by (cases "\<exists>proc js. profile_file e path proc js") (auto simp: lost_def opened_def closed_def)
qed

lemma closed_handles: "held (eval_st (each_profile CloseHandle ps) s) = 0"
  by (induction ps arbitrary: s) (auto simp: run_simps CloseHandle_def split: option.splits)

text \<open>C35. Library handles are accounted for: reading a file, loading the libraries of a boot phase or of an ability, and closing them
  never lose a handle and never close one that is not held; after \<^verbatim>\<open>ClearResource\<close> none is held. Only \<^verbatim>\<open>RemoveSaProfile\<close> loses handles: as many
  as the removed profiles held.\<close>
theorem library_handles_accounted:
  "lost (exec (ParseSaProfiles e path) s) = lost s \<and> lost (exec (OpenSo_phase e phase) s) = lost s \<and> lost (exec (LoadSaLib e a) s) = lost s
   \<and> lost (exec (CloseSo_ability a) s) = lost s \<and> lost (exec ClearResource s) = lost s \<and> saProfiles (exec ClearResource s) = []
   \<and> lost (exec (RemoveSaProfile a) s) = lost s + held (filter (\<lambda>p. saId (lp_profile p) = a) (saProfiles s))"
proof -
  have "lost (exec (OpenSo_phase e phase) s) = lost s"
    using each_profile_moves [OF moves_if [OF moves_OpenSo], of "\<lambda>p. runOnCreate (lp_profile p) \<and> bootPhase (lp_profile p) = phase" e "saProfiles s" s] by (simp add: OpenSo_phase_def run_simps lost_update) (simp add: lost_def)
  moreover have "lost (exec (LoadSaLib e a) s) = lost s" "lost (exec (CloseSo_ability a) s) = lost s"
    using first_profile_moves [OF moves_OpenSo, of a e "saProfiles s" s] first_profile_moves [OF moves_CloseHandle, of a "saProfiles s" s]
    by (simp_all add: LoadSaLib_def CloseSo_ability_def run_simps lost_update split_beta) (simp_all add: lost_def)
  moreover have "lost (exec ClearResource s) = lost s" "saProfiles (exec ClearResource s) = []"
    using each_profile_moves [OF moves_CloseHandle, of "saProfiles s" s] closed_handles [of "saProfiles s" s]
    by (simp_all add: ClearResource_def CloseSo_def run_simps lost_def opened_def closed_def)
  moreover have split: "held ps = held (filter (\<lambda>p. saId (lp_profile p) \<noteq> a) ps) + held (filter (\<lambda>p. saId (lp_profile p) = a) ps)" for ps
    by (induction ps) auto
  have "lost (exec (RemoveSaProfile a) s) = lost s + held (filter (\<lambda>p. saId (lp_profile p) = a) (saProfiles s))"
    unfolding RemoveSaProfile_def run_simps lost_update using split [of "saProfiles s"] unfolding lost_def by linarith
  ultimately show ?thesis by (intro conjI ParseSaProfiles_lost)
qed

section \<open>The choice of the files\<close>

text \<open>The files of all directories in the order of the policy.\<close>
definition policy_files :: "(string \<Rightarrow> string option list option) \<Rightarrow> (string \<Rightarrow> string list) \<Rightarrow> string \<Rightarrow> string list" where
  "policy_files cfgFiles dirFiles path = (case cfgFiles path of None \<Rightarrow> []
     | Some dirs \<Rightarrow> concat (map (\<lambda>d. case d of None \<Rightarrow> [] | Some p \<Rightarrow> dirFiles p) dirs))"

definition chosen :: "string list \<Rightarrow> (string, string) smap \<Rightarrow> bool" where
  "chosen fs m \<longleftrightarrow> sm_ok m \<and> (\<forall>n. sm_find n m = find (\<lambda>f. filename f = n) (rev fs))"

lemma chosen_fold: "chosen fs m \<Longrightarrow> chosen (fs @ gs) (fold (\<lambda>f m. sm_ins (filename f) f m) gs m)"
proof (induction gs arbitrary: fs m)
  case (Cons g gs)
  have "chosen (fs @ [g]) (sm_ins (filename g) g m)" using Cons.prems by (auto simp: chosen_def)
  from Cons.IH [OF this] show ?case by simp
qed simp

lemma chosen_path: "chosen fs m \<Longrightarrow> chosen (fs @ policy_files cfgFiles dirFiles path) (GetFilesFromPath cfgFiles dirFiles path m)"
  by (auto simp: GetFilesFromPath_def policy_files_def chosen_fold split: option.splits)

text \<open>Of the files that the directories of the configuration hold, one of each name is read, in the order of the names: the last in the
  order of the directories, with those of the directories for the mini system last, where that is the mode.\<close>
theorem files_by_priority:
  fixes cfgFiles dirFiles penglai path
  defines "files \<equiv> policy_files cfgFiles dirFiles path @ (if penglai then policy_files cfgFiles dirFiles PENGLAI_PATH else [])"
    and "r \<equiv> GetFilesByPriority cfgFiles dirFiles penglai path"
  shows "sorted (map filename r) \<and> distinct (map filename r) \<and> set r = {f. find (\<lambda>g. filename g = filename f) (rev files) = Some f}"
proof -
  let ?m = "(if penglai then GetFilesFromPath cfgFiles dirFiles PENGLAI_PATH else id) (GetFilesFromPath cfgFiles dirFiles path [])"
  have "chosen [] []" by (simp add: chosen_def)
  from chosen_path [OF this, of cfgFiles dirFiles path]
  have m: "chosen files ?m" by (simp add: files_def chosen_path)
  have name: "filename f = n" if "(n, f) \<in> set ?m" for n f
    using m that sm_find_mem [of ?m n f] by (auto simp: chosen_def find_Some_iff)
  have r: "r = map snd ?m" by (simp add: r_def GetFilesByPriority_def Let_def)
  have keys: "map filename r = sm_keys ?m" unfolding r sm_keys_def map_map by (intro map_cong) (auto dest: name)
  have "f \<in> set r \<longleftrightarrow> sm_find (filename f) ?m = Some f" for f
  proof
    assume "f \<in> set r"
    then obtain n where "(n, f) \<in> set ?m" by (auto simp: r)
    then show "sm_find (filename f) ?m = Some f" using m name sm_find_mem [of ?m n f] by (simp add: chosen_def)
  next
    assume "sm_find (filename f) ?m = Some f"
    then show "f \<in> set r" unfolding r set_map by (rule sm_find_SomeD [THEN rev_image_eqI]) simp
  qed
  then have "set r = {f. find (\<lambda>g. filename g = filename f) (rev files) = Some f}" using m by (auto simp: chosen_def)
  moreover have "sm_ok ?m" using m by (simp add: chosen_def)
  ultimately show ?thesis unfolding keys sm_ok_def by blast
qed

end
