(* ===== verification/Remote_Load.thy ===== *)
theory Remote_Load
  imports Registry Tools
begin

text \<open>
  Abilities of other devices: loading one from here (\<^verbatim>\<open>LoadSystemAbility(systemAbilityId, deviceId, callback)\<close> of
  \<^verbatim>\<open>system_ability_manager.cpp\<close>) and letting another device load one of ours (\<^verbatim>\<open>rpc_callback_imp.cpp\<close>).

  A remote load starts a detached thread, which asks the distributed binder, tells the callback, and only then takes the lock again to
  forget the callback. A thread is therefore a value with a phase, and its two halves are separate steps between which requests, death notices
  and other threads run. A callback that stands for another device (\<^verbatim>\<open>LoadCallbackImp\<close>) is an object of the service itself: what the
  manager tells it is a call of its method, which hands a task to the FFRT runtime.
\<close>

section \<open>State\<close>

datatype thread_phase = Binding | Answered

record remote_thread =
  rt_said :: int
  rt_callingPid :: int
  rt_callingUid :: int
  rt_device :: string
  rt_callback :: iface
  rt_phase :: thread_phase

datatype remote_effect =
    MakeRemoteBinder u16string string int int int
  | OnLoadSACompleteForRemote iface string int "obj option"
  | LoadSystemAbilityComplete string int "obj option"

text \<open>The closure of \<open>NotifyRpcLoadCompleted\<close>.\<close>
datatype rpc_task = RpcNotify string int "obj option"

record remote_samgr =
  rs_host :: samgr
  rs_threads :: "remote_thread list"
  rs_imps :: "(nat, string) smap" \<comment> \<open>the \<^verbatim>\<open>LoadCallbackImp\<close> objects with their \<^verbatim>\<open>srcNetWorkId_\<close>\<close>
  rs_tasks :: "rpc_task list" \<comment> \<open>submitted to the FFRT runtime\<close>
  rs_effects :: "remote_effect list"

type_synonym 'a W = "(remote_samgr, 'a) state"

record remote_env =
  re_env :: env
  re_trusted :: "(string \<times> string) list option" \<comment> \<open>\<^verbatim>\<open>GetTrustedDeviceList\<close>: device and network identifiers, \<open>None\<close> on an error\<close>
  re_binder :: "obj option" \<comment> \<open>\<^verbatim>\<open>dBinderService_->MakeRemoteBinder\<close>\<close>

definition emit_remote :: "remote_effect \<Rightarrow> unit W" where
  "emit_remote x = modify (\<lambda>s. s \<lparr> rs_effects := rs_effects s @ [x] \<rparr>)"

definition on_rhost :: "'a M \<Rightarrow> 'a W" where
  "on_rhost m = State (\<lambda>s. (eval_st m (rs_host s), s \<lparr> rs_host := exec m (rs_host s) \<rparr>))"

section \<open>Loading from another device\<close>

definition remote_key :: "int \<Rightarrow> string \<Rightarrow> string" where
  "remote_key said dev = to_string said @ ''_'' @ dev"

definition DeviceIdToNetworkId :: "(string \<times> string) list option \<Rightarrow> string \<Rightarrow> string" where
  "DeviceIdToNetworkId devList networkId = (case devList of None \<Rightarrow> networkId
     | Some ds \<Rightarrow> (case find (\<lambda>d. networkId = fst d) ds of None \<Rightarrow> networkId | Some d \<Rightarrow> snd d))"

definition DoMakeRemoteBinder :: "remote_env \<Rightarrow> int \<Rightarrow> int \<Rightarrow> int \<Rightarrow> string \<Rightarrow> obj option W" where
  "DoMakeRemoteBinder e said callingPid callingUid dev = do {
     let networkId = DeviceIdToNetworkId (re_trusted e) dev;
     present \<leftarrow> on_rhost (getM dBinderService);
     if present then do {
       emit_remote (MakeRemoteBinder (e_str8to16 (re_env e) (to_string said)) networkId said callingPid callingUid);
       ret (re_binder e) }
     else ret None }"

text \<open>\<^verbatim>\<open>LoadSystemAbility(systemAbilityId, deviceId, callback)\<close>.\<close>
definition LoadRemoteSystemAbility :: "remote_env \<Rightarrow> int \<Rightarrow> string \<Rightarrow> iface \<Rightarrow> SamgrErrCode W" where
  "LoadRemoteSystemAbility e said dev callback = (let key = remote_key said dev in do {
     callbacks \<leftarrow> on_rhost (getM (\<lambda>m. sm_get [] key (remoteCallbacks m)));
     if list_ex (\<lambda>c. AsObject callback = AsObject c) callbacks then ret ERR_OK
     else do {
       death \<leftarrow> on_rhost (getM remoteCallbackDeath);
       onlyif death (on_rhost (add_death (AsObject callback) RemoteCallbackDeath));
       on_rhost (modM (\<lambda>m. m \<lparr> remoteCallbacks := sm_ins key (callbacks @ [callback]) (remoteCallbacks m) \<rparr>));
       modify (\<lambda>s. s \<lparr> rs_threads := rs_threads s @ [\<lparr> rt_said = said, rt_callingPid = e_callingPid (re_env e),
         rt_callingUid = e_callingUid (re_env e), rt_device = dev, rt_callback = callback, rt_phase = Binding \<rparr>] \<rparr>);
       ret ERR_OK } })"

text \<open>\<^verbatim>\<open>DoLoadRemoteSystemAbility\<close>, the body of the thread: up to the call of the callback, and the block under the lock.\<close>
definition DoLoadRemote_answer :: "remote_env \<Rightarrow> remote_thread \<Rightarrow> unit W" where
  "DoLoadRemote_answer e t = do {
     remoteBinder \<leftarrow> DoMakeRemoteBinder e (rt_said t) (rt_callingPid t) (rt_callingUid t) (rt_device t);
     emit_remote (OnLoadSACompleteForRemote (rt_callback t) (rt_device t) (rt_said t) remoteBinder) }"

definition DoLoadRemote_forget :: "remote_thread \<Rightarrow> unit W" where
  "DoLoadRemote_forget t = (let key = remote_key (rt_said t) (rt_device t) in on_rhost (do {
     death \<leftarrow> getM remoteCallbackDeath;
     onlyif death (remove_death (AsObject (rt_callback t)) RemoteCallbackDeath);
     callbacks \<leftarrow> getM (\<lambda>m. removeAll (rt_callback t) (sm_get [] key (remoteCallbacks m)));
     modM (\<lambda>m. m \<lparr> remoteCallbacks := (if callbacks = [] then sm_erase key (remoteCallbacks m)
       else sm_ins key callbacks (remoteCallbacks m)) \<rparr>) }))"

section \<open>Loading for another device\<close>

definition NotifyRpcLoadCompleted :: "string \<Rightarrow> int \<Rightarrow> obj option \<Rightarrow> unit W" where
  "NotifyRpcLoadCompleted srcDeviceId said remoteObject = do {
     present \<leftarrow> on_rhost (getM (\<lambda>m. workHandler m \<noteq> None));
     onlyif present (modify (\<lambda>s. s \<lparr> rs_tasks := rs_tasks s @ [RpcNotify srcDeviceId said remoteObject] \<rparr>)) }"

definition run_rpc_task :: "rpc_task \<Rightarrow> unit W" where
  "run_rpc_task t = (case t of RpcNotify srcDeviceId said remoteObject \<Rightarrow> do {
     present \<leftarrow> on_rhost (getM dBinderService);
     onlyif present (emit_remote (LoadSystemAbilityComplete srcDeviceId said remoteObject)) })"

text \<open>The methods of \<^verbatim>\<open>LoadCallbackImp\<close>: what the manager sends to a callback that is such an object.\<close>
definition rpc_deliver :: "effect \<Rightarrow> unit W" where
  "rpc_deliver x = (case x of
       OnLoadSystemAbilitySuccess cb said remoteObject \<Rightarrow> do {
         imp \<leftarrow> gets (\<lambda>s. sm_find (proxyId cb) (rs_imps s));
         case imp of None \<Rightarrow> ret () | Some srcNetWorkId \<Rightarrow> NotifyRpcLoadCompleted srcNetWorkId said remoteObject }
     | OnLoadSystemAbilityFail cb said _ \<Rightarrow> do {
         imp \<leftarrow> gets (\<lambda>s. sm_find (proxyId cb) (rs_imps s));
         case imp of None \<Rightarrow> ret () | Some srcNetWorkId \<Rightarrow> NotifyRpcLoadCompleted srcNetWorkId said None }
     | _ \<Rightarrow> ret ())"

definition rhost_call :: "'a M \<Rightarrow> 'a W" where
  "rhost_call m = do {
     n \<leftarrow> gets (\<lambda>s. length (effects (rs_host s)));
     r \<leftarrow> on_rhost m;
     new \<leftarrow> gets (\<lambda>s. drop n (effects (rs_host s)));
     for_each new rpc_deliver;
     ret r }"

text \<open>\<^verbatim>\<open>RpcCallbackImp::LoadSystemAbilityFromRemote\<close>; \<open>imp\<close> is the object that \<^verbatim>\<open>new LoadCallbackImp\<close> returns.\<close>
definition LoadSystemAbilityFromRemote :: "env \<Rightarrow> iface \<Rightarrow> string \<Rightarrow> int \<Rightarrow> bool W" where
  "LoadSystemAbilityFromRemote e imp srcNetworkId said = do {
     modify (\<lambda>s. s \<lparr> rs_imps := sm_ins (proxyId imp) srcNetworkId (rs_imps s) \<rparr>);
     rhost_call (LoadSystemAbilityFromRpc e srcNetworkId said (Some imp)) }"

section \<open>Loading everything for performance tests\<close>

definition GetAllOndemandSa :: "int list M" where
  "GetAllOndemandSa = getM (\<lambda>m. filter (\<lambda>a. \<not> sm_count a (abilityMap m)) (sm_keys (saProfileMap m)))"

definition DoLoadForPerf :: "env \<Rightarrow> iface \<Rightarrow> unit M" where
  "DoLoadForPerf e callback = do {
     on \<leftarrow> ask (e_boolParam e);
     onlyif on (do {
       saids \<leftarrow> GetAllOndemandSa;
       for_each saids (\<lambda>said. do { _ \<leftarrow> LoadSystemAbility e said (Some callback); ret () }) }) }"

section \<open>Steps\<close>

inductive remote_step :: "remote_samgr \<Rightarrow> remote_samgr \<Rightarrow> bool" where
  load: "remote_step s (exec (LoadRemoteSystemAbility e said dev cb) s)"
| answer: "rs_threads s = ts @ t # us \<Longrightarrow> rt_phase t = Binding \<Longrightarrow>
    remote_step s (exec (DoLoadRemote_answer e t) (s \<lparr> rs_threads := ts @ t \<lparr> rt_phase := Answered \<rparr> # us \<rparr>))"
| forget: "rs_threads s = ts @ t # us \<Longrightarrow> rt_phase t = Answered \<Longrightarrow> remote_step s (exec (DoLoadRemote_forget t) (s \<lparr> rs_threads := ts @ us \<rparr>))"
| from_remote: "remote_step s (exec (LoadSystemAbilityFromRemote e imp src said) s)"
| rpc_task: "rs_tasks s = ts @ t # us \<Longrightarrow> remote_step s (exec (run_rpc_task t) (s \<lparr> rs_tasks := ts @ us \<rparr>))"
| request: "remote_step s (exec (rhost_call (run_request e r)) s)"
| host_task: "get_queue q (rs_host s) = Some h \<Longrightarrow> queue_start k h = Some (t, h') \<Longrightarrow>
    remote_step s (exec (rhost_call (run_task e t)) (s \<lparr> rs_host := put_queue q h' (rs_host s) \<rparr>))"

definition remote_start :: "samgr \<Rightarrow> remote_samgr" where
  "remote_start h = \<lparr> rs_host = h, rs_threads = [], rs_imps = [], rs_tasks = [], rs_effects = [] \<rparr>"

inductive remote_reachable :: "SaProfile list \<Rightarrow> remote_samgr \<Rightarrow> bool" for profiles where
  start: "remote_reachable profiles (remote_start (boot e profiles this))"
| step: "remote_reachable profiles s \<Longrightarrow> remote_step s s' \<Longrightarrow> remote_reachable profiles s'"

end
