(* ===== verification/Remote_Props.thy ===== *)
theory Remote_Props
  imports Remote_Load Manager_Props Collect_State
begin

text \<open>
  Loading across devices: every callback the manager remembers belongs to a thread that has not ended, every accepted request is answered,
  one that comes between the answer and the forgetting is lost, and every answer of the manager to another device becomes one completion.
\<close>

section \<open>Frames\<close>

lemma on_rhost_run [run_simps]: "exec (on_rhost m) s = s \<lparr> rs_host := exec m (rs_host s) \<rparr>" "eval_st (on_rhost m) s = eval_st m (rs_host s)"
  by (simp_all add: on_rhost_def exec_def eval_st_def)

lemma emit_remote_run [run_simps]: "exec (emit_remote x) s = s \<lparr> rs_effects := rs_effects s @ [x] \<rparr>"
  by (simp add: emit_remote_def run_simps)

lemma getM_run: "exec (getM f) h = h" "eval_st (getM f) h = f (mgr h)"
  by (simp_all add: getM_def run_simps)

lemma modM_run: "exec (modM f) h = h \<lparr> mgr := f (mgr h) \<rparr>"
  by (simp add: modM_def run_simps)

lemma death_mgr: "mgr (exec (add_death ob r) h) = mgr h" "mgr (exec (remove_death ob r) h) = mgr h"
  by (simp_all add: add_death_def remove_death_def emit_def null_deref_def run_simps split: option.splits)

text \<open>The answer of the manager to a callback that stands for another device.\<close>
definition completion :: "(nat, string) smap \<Rightarrow> effect \<Rightarrow> rpc_task option" where
  "completion imps x = (case x of
       OnLoadSystemAbilitySuccess cb said ob \<Rightarrow> map_option (\<lambda>src. RpcNotify src said ob) (sm_find (proxyId cb) imps)
     | OnLoadSystemAbilityFail cb said _ \<Rightarrow> map_option (\<lambda>src. RpcNotify src said None) (sm_find (proxyId cb) imps)
     | _ \<Rightarrow> None)"

lemma rpc_deliver_run: "exec (rpc_deliver x) s = s \<lparr> rs_tasks := rs_tasks s @
    (if workHandler (mgr (rs_host s)) = None then [] else case completion (rs_imps s) x of None \<Rightarrow> [] | Some t \<Rightarrow> [t]) \<rparr>"
  by (cases x) (auto simp: rpc_deliver_def completion_def NotifyRpcLoadCompleted_def run_simps getM_run split: option.splits)

lemma rpc_deliver_all: "exec (for_each xs rpc_deliver) s = s \<lparr> rs_tasks := rs_tasks s @
    (if workHandler (mgr (rs_host s)) = None then [] else List.map_filter (completion (rs_imps s)) xs) \<rparr>"
  by (induction xs arbitrary: s) (auto simp: run_simps rpc_deliver_run map_filter_simps split: option.splits)

lemma rhost_call_run: "exec (rhost_call m) s = s \<lparr> rs_host := exec m (rs_host s), rs_tasks := rs_tasks s @
    (if workHandler (mgr (exec m (rs_host s))) = None then []
     else List.map_filter (completion (rs_imps s)) (drop (length (effects (rs_host s))) (effects (exec m (rs_host s))))) \<rparr>"
  by (simp add: rhost_call_def run_simps rpc_deliver_all)

section \<open>Callbacks belong to threads\<close>

definition thread_key :: "remote_thread \<Rightarrow> string" where "thread_key t = remote_key (rt_said t) (rt_device t)"

definition tracked :: "(string \<times> iface) set \<Rightarrow> (string, iface list) smap \<Rightarrow> bool" where
  "tracked T rc \<longleftrightarrow> (\<forall>k. (\<forall>c \<in> set (sm_get [] k rc). (k, c) \<in> T) \<and> distinct (map AsObject (sm_get [] k rc)))"

definition thread_callbacks :: "remote_thread list \<Rightarrow> (string \<times> iface) set" where
  "thread_callbacks ts = (\<lambda>t. (thread_key t, rt_callback t)) ` set ts"

definition remote_inv :: "remote_samgr \<Rightarrow> bool" where
  "remote_inv s \<longleftrightarrow> tracked (thread_callbacks (rs_threads s)) (remoteCallbacks (mgr (rs_host s)))"

lemma tracked_ins: "tracked T rc \<Longrightarrow> set cs \<subseteq> {c. (k, c) \<in> T} \<Longrightarrow> distinct (map AsObject cs) \<Longrightarrow> tracked T (sm_ins k cs rc)"
  by (auto simp: tracked_def)

lemma sm_get_erase: "sm_get d k (sm_erase k' m) = (if k = k' then d else sm_get d k m)"
  by (simp add: sm_get_def)

lemma tracked_erase: "tracked T rc \<Longrightarrow> tracked T (sm_erase k rc)"
  by (auto simp: tracked_def sm_get_erase)

lemma distinct_map_removeAll: "distinct (map f xs) \<Longrightarrow> distinct (map f (removeAll x xs))"
  by (simp add: removeAll_filter_not_eq distinct_map_filter)

lemma tracked_removeAll: "tracked T rc \<Longrightarrow> tracked T (sm_ins k (removeAll c (sm_get [] k rc)) rc)"
  by (rule tracked_ins) (auto simp: tracked_def distinct_map_removeAll)

interpretation tracked_callbacks: step_property "\<lambda>m. tracked T (remoteCallbacks m)" for T
  by unfold_locales (simp_all add: tracked_removeAll tracked_erase)

lemma callbacks_registered:
  "preserves (\<lambda>s. tracked T (remoteCallbacks (mgr s))) (AddSystemAbility e a ob d)"
  "preserves (\<lambda>s. tracked T (remoteCallbacks (mgr s))) (AddSystemProcess e p ob)"
proof -
  have registers: "preserves (\<lambda>s. tracked T (remoteCallbacks (mgr s))) (modM (\<lambda>m. m \<lparr> abilityMap := f m \<rparr>))"
    "preserves (\<lambda>s. tracked T (remoteCallbacks (mgr s))) (modM (\<lambda>m. m \<lparr> systemProcessMap := g m \<rparr>))" for f g
    by (simp_all add: modM_def preserves_modify)
  show "preserves (\<lambda>s. tracked T (remoteCallbacks (mgr s))) (AddSystemAbility e a ob d)"
    "preserves (\<lambda>s. tracked T (remoteCallbacks (mgr s))) (AddSystemProcess e p ob)"
    unfolding AddSystemAbility_def AddSystemProcess_def by (intro hoare_intros registers tracked_callbacks.kept)+
qed

lemma request_tracked: "preserves (\<lambda>s. tracked T (remoteCallbacks (mgr s))) (run_request e r)"
proof (cases "registers r")
  case False
  then show ?thesis by (rule tracked_callbacks.request_kept)
next
  case True
  then show ?thesis unfolding run_request_def
    by (auto simp: registers_def split: request.splits intro!: hoare_intros callbacks_registered)
qed

lemma boot_callbacks: "remoteCallbacks (mgr (boot e prs this)) = []"
proof -
  have "frames (\<lambda>s. remoteCallbacks (mgr s)) (do { mgr_Init e prs; AddSamgrToAbilityMap e this })"
    unfolding mgr_Init_def InitSaProfile_def sch_Init_def InitStateContext_def InitLowMemProcessList_def AddSamgrToAbilityMap_def
      InitSamgrProcessContext_def Let_def
    by (intro frame_intros frame_view callback_view.view_modM; simp)
  from framesD [OF this] show ?thesis by (simp add: boot_def empty_samgr_def empty_manager_def)
qed

lemma remote_inv_load: "remote_inv s \<Longrightarrow> remote_inv (exec (LoadRemoteSystemAbility e a dev cb) s)"
proof -
  assume inv: "remote_inv s"
  let ?T = "thread_callbacks (rs_threads s)" and ?rc = "remoteCallbacks (mgr (rs_host s))" and ?k = "remote_key a dev"
  have "tracked (insert (?k, cb) ?T) (sm_ins ?k (sm_get [] ?k ?rc @ [cb]) ?rc)" if "\<not> list_ex (\<lambda>c. AsObject cb = AsObject c) (sm_get [] ?k ?rc)"
    using inv that by (auto simp: remote_inv_def tracked_def list_ex_iff)
  then show ?thesis
    using inv by (auto simp: LoadRemoteSystemAbility_def Let_def run_simps getM_run modM_run death_mgr remote_inv_def thread_callbacks_def thread_key_def)
qed

lemma remote_inv_forget:
  assumes "remote_inv s" "rs_threads s = ts @ t # us"
  shows "remote_inv (exec (DoLoadRemote_forget t) (s \<lparr> rs_threads := ts @ us \<rparr>))"
proof -
  let ?T = "thread_callbacks (ts @ us)" and ?rc = "remoteCallbacks (mgr (rs_host s))" and ?k = "thread_key t"
  have "tracked (insert (?k, rt_callback t) ?T) ?rc" using assms by (simp add: remote_inv_def thread_callbacks_def)
  then have "tracked ?T (sm_ins ?k (removeAll (rt_callback t) (sm_get [] ?k ?rc)) ?rc)" by (auto simp: tracked_def distinct_map_removeAll)
  moreover from this have "tracked ?T (sm_erase ?k ?rc)" by (auto simp: tracked_def sm_get_erase split: if_splits)
  ultimately show ?thesis
    by (simp add: DoLoadRemote_forget_def Let_def run_simps getM_run modM_run death_mgr remote_inv_def thread_key_def)
qed

lemma remote_inv_step:
  assumes "remote_step s s'" "remote_inv s"
  shows "remote_inv s'"
  using assms(1)
proof cases
  case (load e said dev cb)
  then show ?thesis using remote_inv_load [OF assms(2)] by simp
next
  case (answer ts t us e)
  then show ?thesis
    using assms(2) by (simp add: DoLoadRemote_answer_def DoMakeRemoteBinder_def Let_def run_simps getM_run remote_inv_def thread_callbacks_def thread_key_def)
next
  case (forget ts t us)
  then show ?thesis using remote_inv_forget [OF assms(2)] by simp
next
  case (from_remote e imp src said)
  then show ?thesis
    using preservesD [OF tracked_callbacks.requests(2)] assms(2) by (simp add: LoadSystemAbilityFromRemote_def run_simps rhost_call_run remote_inv_def)
next
  case (rpc_task ts t us)
  then show ?thesis using assms(2) by (cases t) (simp add: run_rpc_task_def run_simps getM_run remote_inv_def)
next
  case (request e r)
  then show ?thesis using preservesD [OF request_tracked] assms(2) by (simp add: rhost_call_run remote_inv_def)
next
  case (host_task q h k t h' e)
  moreover have "remoteCallbacks (mgr (put_queue q h' (rs_host s))) = remoteCallbacks (mgr (rs_host s))" by (cases q) (simp_all add: put_queue_def)
  ultimately show ?thesis using preservesD [OF tracked_callbacks.task_kept] assms(2) by (simp add: rhost_call_run remote_inv_def)
qed

lemma remote_key_said: "takeWhile (\<lambda>c. c \<noteq> CHR ''_'') (remote_key a d) = to_string a"
  using to_string_chars [of "CHR ''_''" a] by (auto simp: remote_key_def is_digit_def takeWhile_append)

text \<open>The keys of different abilities or devices are different texts.\<close>
lemma remote_key_inj: "remote_key a d = remote_key a' d' \<longleftrightarrow> a = a' \<and> d = d'"
proof
  assume same: "remote_key a d = remote_key a' d'"
  then have "to_string a = to_string a'" using remote_key_said [of a d] remote_key_said [of a' d'] by simp
  with same show "a = a' \<and> d = d'" by (simp add: remote_key_def)
qed simp

text \<open>C13. In every reachable state each callback that the manager remembers for a remote load belongs to a thread for the same ability and
  device that has not ended, and no list holds two callbacks of one object; when no thread is left, nothing is remembered. This holds
  whatever requests, tasks, death notices and threads run in between.\<close>
theorem remote_callbacks_tracked:
  fixes prs s
  assumes "remote_reachable prs s"
  defines "rc \<equiv> remoteCallbacks (mgr (rs_host s))"
  shows "(\<forall>said dev c. c \<in> set (sm_get [] (remote_key said dev) rc) \<longrightarrow>
      (\<exists>t \<in> set (rs_threads s). rt_said t = said \<and> rt_device t = dev \<and> rt_callback t = c))
    \<and> (\<forall>k. distinct (map AsObject (sm_get [] k rc))) \<and> (rs_threads s = [] \<longrightarrow> (\<forall>k. sm_get [] k rc = []))"
proof -
  have "remote_inv s"
    using assms(1)
  proof (induction rule: remote_reachable.induct)
    case (start e this)
    then show ?case by (simp add: remote_inv_def remote_start_def boot_callbacks tracked_def sm_get_def)
  qed (rule remote_inv_step)
  then have inv: "tracked (thread_callbacks (rs_threads s)) rc" by (simp add: remote_inv_def rc_def)
  then have once: "distinct (map AsObject (sm_get [] k rc))" for k by (simp add: tracked_def)
  have known: "\<exists>t \<in> set (rs_threads s). k = thread_key t \<and> c = rt_callback t" if "c \<in> set (sm_get [] k rc)" for k c
  proof -
    have "(k, c) \<in> thread_callbacks (rs_threads s)" using inv that by (simp add: tracked_def)
    then show ?thesis by (auto simp: thread_callbacks_def)
  qed
  have "\<exists>t \<in> set (rs_threads s). rt_said t = said \<and> rt_device t = dev \<and> rt_callback t = c" if "c \<in> set (sm_get [] (remote_key said dev) rc)" for said dev c
    using known [OF that] by (auto simp: thread_key_def remote_key_inj)
  moreover have "sm_get [] k rc = []" if "rs_threads s = []" for k
    using known [of _ k] that by (cases "sm_get [] k rc") auto
  ultimately show ?thesis using once by simp
qed

section \<open>A run\<close>

definition sample_remote :: remote_env where
  "sample_remote = \<lparr> re_env = sample_env, re_trusted = Some [(''udid'', ''net'')], re_binder = Some 77 \<rparr>"

definition rcb :: iface where "rcb = Iface 3 (Some 33)"

definition r_loading :: remote_samgr where
  "r_loading = exec (LoadRemoteSystemAbility sample_remote 401 ''udid'' rcb) (remote_start booted)"

definition r_thread :: "thread_phase \<Rightarrow> remote_thread" where
  "r_thread ph = \<lparr> rt_said = 401, rt_callingPid = 42, rt_callingUid = 1000, rt_device = ''udid'', rt_callback = rcb, rt_phase = ph \<rparr>"

definition r_answered :: remote_samgr where
  "r_answered = exec (DoLoadRemote_answer sample_remote (r_thread Binding)) (r_loading \<lparr> rs_threads := [r_thread Answered] \<rparr>)"

lemma r_loading_eval: "rs_threads r_loading = [r_thread Binding]" "sm_get [] ''401_udid'' (remoteCallbacks (mgr (rs_host r_loading))) = [rcb]"
  by code_simp+

lemma r_answered_eval: "rs_threads r_answered = [r_thread Answered]" "sm_get [] (remote_key 401 ''udid'') (remoteCallbacks (mgr (rs_host r_answered))) = [rcb]"
  by code_simp+

lemma r_answered_reachable: "remote_reachable sample_profiles r_answered"
proof -
  have start: "remote_reachable sample_profiles (remote_start booted)" unfolding booted_def by (rule remote_reachable.start)
  have "remote_reachable sample_profiles r_loading" unfolding r_loading_def by (rule remote_reachable.step [OF start remote_step.load])
  moreover have "remote_step r_loading r_answered"
    using remote_step.answer [of r_loading "[]" "r_thread Binding" "[]" sample_remote] by (simp add: r_loading_eval r_answered_def r_thread_def)
  ultimately show ?thesis by (rule remote_reachable.step)
qed

theorem remote_callbacks_tracked_witness:
  "(\<exists>t \<in> set (rs_threads r_answered). rt_said t = 401 \<and> rt_device t = ''udid'' \<and> rt_callback t = rcb)
    \<and> distinct (map AsObject (sm_get [] (remote_key 401 ''udid'') (remoteCallbacks (mgr (rs_host r_answered)))))"
  using remote_callbacks_tracked [OF r_answered_reachable] r_answered_eval(2) by (metis list.set_intros(1))

section \<open>Answers\<close>

lemma load_accepted_run:
  fixes e
  assumes "\<not> list_ex (\<lambda>c. AsObject cb = AsObject c) (sm_get [] (remote_key a dev) (remoteCallbacks (mgr (rs_host s))))"
  defines "t \<equiv> \<lparr> rt_said = a, rt_callingPid = e_callingPid (re_env e), rt_callingUid = e_callingUid (re_env e), rt_device = dev,
    rt_callback = cb, rt_phase = Binding \<rparr>" and "s' \<equiv> exec (LoadRemoteSystemAbility e a dev cb) s"
  shows "eval_st (LoadRemoteSystemAbility e a dev cb) s = ERR_OK" "rs_threads s' = rs_threads s @ [t]" "rs_effects s' = rs_effects s"
    "remoteCallbacks (mgr (rs_host s')) = sm_ins (remote_key a dev)
       (sm_get [] (remote_key a dev) (remoteCallbacks (mgr (rs_host s))) @ [cb]) (remoteCallbacks (mgr (rs_host s)))"
    "dBinderService (mgr (rs_host s')) = dBinderService (mgr (rs_host s))"
  using assms(1) unfolding t_def s'_def by (simp_all add: LoadRemoteSystemAbility_def Let_def run_simps getM_run modM_run death_mgr)

lemma answer_run:
  "rs_host (exec (DoLoadRemote_answer e t) s) = rs_host s" "rs_threads (exec (DoLoadRemote_answer e t) s) = rs_threads s"
  "rs_effects (exec (DoLoadRemote_answer e t) s) = rs_effects s @
     (if dBinderService (mgr (rs_host s)) then [MakeRemoteBinder (e_str8to16 (re_env e) (to_string (rt_said t)))
       (DeviceIdToNetworkId (re_trusted e) (rt_device t)) (rt_said t) (rt_callingPid t) (rt_callingUid t)] else []) @
     [OnLoadSACompleteForRemote (rt_callback t) (rt_device t) (rt_said t) (if dBinderService (mgr (rs_host s)) then re_binder e else None)]"
  by (simp_all add: DoLoadRemote_answer_def DoMakeRemoteBinder_def Let_def run_simps getM_run)

lemma forget_run:
  "rs_threads (exec (DoLoadRemote_forget t) s) = rs_threads s" "rs_effects (exec (DoLoadRemote_forget t) s) = rs_effects s"
  "sm_get [] k (remoteCallbacks (mgr (rs_host (exec (DoLoadRemote_forget t) s)))) = (if k = thread_key t
     then removeAll (rt_callback t) (sm_get [] k (remoteCallbacks (mgr (rs_host s)))) else sm_get [] k (remoteCallbacks (mgr (rs_host s))))"
  by (simp_all add: DoLoadRemote_forget_def Let_def run_simps getM_run modM_run death_mgr thread_key_def sm_get_erase)

text \<open>C22. A remote load with a callback that is not yet remembered for this ability and device is accepted, and the thread it starts can
  always run to its end: it asks the distributed binder of this device, when there is one, for the network identifier of the device, tells the
  callback exactly once with the object it got, and leaves the callbacks and the threads as they were before the request.\<close>
theorem remote_load_answered:
  fixes e
  assumes "\<not> list_ex (\<lambda>c. AsObject cb = AsObject c) (sm_get [] (remote_key a dev) (remoteCallbacks (mgr (rs_host s))))"
  defines "bound \<equiv> dBinderService (mgr (rs_host s))" and "s1 \<equiv> exec (LoadRemoteSystemAbility e a dev cb) s"
  shows "eval_st (LoadRemoteSystemAbility e a dev cb) s = ERR_OK \<and> remote_step s s1 \<and>
    (\<exists>s2 s3. remote_step s1 s2 \<and> remote_step s2 s3 \<and> rs_threads s3 = rs_threads s \<and>
      (\<forall>k. sm_get [] k (remoteCallbacks (mgr (rs_host s3))) = sm_get [] k (remoteCallbacks (mgr (rs_host s)))) \<and>
      rs_effects s3 = rs_effects s @ (if bound then [MakeRemoteBinder (e_str8to16 (re_env e) (to_string a)) (DeviceIdToNetworkId (re_trusted e) dev) a
        (e_callingPid (re_env e)) (e_callingUid (re_env e))] else []) @ [OnLoadSACompleteForRemote cb dev a (if bound then re_binder e else None)])"
proof -
  let ?t = "\<lparr> rt_said = a, rt_callingPid = e_callingPid (re_env e), rt_callingUid = e_callingUid (re_env e), rt_device = dev,
    rt_callback = cb, rt_phase = Binding \<rparr>"
  note run = load_accepted_run [OF assms(1), of e, folded s1_def]
  let ?s2 = "exec (DoLoadRemote_answer e ?t) (s1 \<lparr> rs_threads := rs_threads s @ [?t \<lparr> rt_phase := Answered \<rparr>] \<rparr>)"
  let ?s3 = "exec (DoLoadRemote_forget (?t \<lparr> rt_phase := Answered \<rparr>)) (?s2 \<lparr> rs_threads := rs_threads s \<rparr>)"
  have "cb \<notin> set (sm_get [] (remote_key a dev) (remoteCallbacks (mgr (rs_host s))))" using assms(1) by (auto simp: list_ex_iff)
  moreover have "remote_step s1 ?s2" using remote_step.answer [of s1 "rs_threads s" ?t "[]" e] run(2) by simp
  moreover have "remote_step ?s2 ?s3"
    using remote_step.forget [of ?s2 "rs_threads s" "?t \<lparr> rt_phase := Answered \<rparr>" "[]"] by (simp add: answer_run)
  ultimately show ?thesis
    using run remote_step.load [of s e a dev cb, folded s1_def]
    by (intro conjI exI [of _ ?s2] exI [of _ ?s3]) (simp_all add: answer_run forget_run thread_key_def bound_def)
qed

theorem remote_load_answered_witness:
  "eval_st (LoadRemoteSystemAbility sample_remote 401 ''udid'' rcb) (remote_start booted) = ERR_OK \<and> (\<exists>s2 s3. remote_step r_loading s2 \<and>
    remote_step s2 s3 \<and> rs_effects s3 = [OnLoadSACompleteForRemote rcb ''udid'' 401 None] \<and> rs_threads s3 = [])"
proof -
  have "\<not> list_ex (\<lambda>c. AsObject rcb = AsObject c) (sm_get [] (remote_key 401 ''udid'') (remoteCallbacks (mgr (rs_host (remote_start booted)))))"
    "\<not> dBinderService (mgr (rs_host (remote_start booted)))" by code_simp+
  with remote_load_answered [OF this(1), of sample_remote] show ?thesis by (auto simp: r_loading_def remote_start_def)
qed

text \<open>C40. A request that comes between the answer of a thread and its end is lost: the callback is still remembered, so the request is accepted
  and starts nothing; when the thread ends, the callback is forgotten without having been told of the second request.\<close>
theorem remote_load_race:
  fixes e
  assumes "rs_threads s = ts @ t # us" "rt_phase t = Answered"
    and "rt_callback t \<in> set (sm_get [] (remote_key (rt_said t) (rt_device t)) (remoteCallbacks (mgr (rs_host s))))"
  defines "again \<equiv> LoadRemoteSystemAbility e (rt_said t) (rt_device t) (rt_callback t)"
  shows "eval_st again s = ERR_OK \<and> exec again s = s \<and> (\<exists>s'. remote_step (exec again s) s' \<and> rs_threads s' = ts @ us \<and> rs_effects s' = rs_effects s \<and>
    rt_callback t \<notin> set (sm_get [] (remote_key (rt_said t) (rt_device t)) (remoteCallbacks (mgr (rs_host s')))))"
proof -
  let ?s' = "exec (DoLoadRemote_forget t) (s \<lparr> rs_threads := ts @ us \<rparr>)"
  have "list_ex (\<lambda>c. AsObject (rt_callback t) = AsObject c) (sm_get [] (remote_key (rt_said t) (rt_device t)) (remoteCallbacks (mgr (rs_host s))))"
    using assms(3) by (auto simp: list_ex_iff)
  then have "eval_st again s = ERR_OK" "exec again s = s" by (simp_all add: again_def LoadRemoteSystemAbility_def Let_def run_simps getM_run)
  moreover have "remote_step s ?s'" using assms(1,2) by (rule remote_step.forget)
  ultimately show ?thesis by (intro conjI exI [of _ ?s']) (simp_all add: forget_run thread_key_def)
qed

theorem remote_load_race_witness:
  "eval_st (LoadRemoteSystemAbility sample_remote 401 ''udid'' rcb) r_answered = ERR_OK \<and>
   exec (LoadRemoteSystemAbility sample_remote 401 ''udid'' rcb) r_answered = r_answered \<and>
   (\<exists>s'. remote_step r_answered s' \<and> rs_threads s' = [] \<and> rs_effects s' = rs_effects r_answered)"
  using remote_load_race [of r_answered "[]" "r_thread Answered" "[]" sample_remote] by (auto simp: r_answered_eval r_thread_def)

section \<open>Answers to other devices\<close>

lemma completion_none: "load_notices [x] = [] \<Longrightarrow> completion imps x = None"
  by (cases x) (simp_all add: load_notices_def completion_def)

lemma completion_notices: "List.map_filter (completion imps) xs = List.map_filter (completion imps) (load_notices xs)"
proof (induction xs)
  case (Cons x xs)
  have "load_notices (x # xs) = x # load_notices xs \<or> load_notices (x # xs) = load_notices xs \<and> load_notices [x] = []"
    by (simp add: load_notices_def)
  with Cons show ?case by (auto simp: map_filter_simps completion_none split: option.splits)
qed (simp add: load_notices_def)

lemma drop_callback_effects: "\<exists>xs. effects (exec (RemoveStartingAbilityCallbackLocked c) s) = effects s @ xs \<and> load_notices xs = []"
  by (auto simp: RemoveStartingAbilityCallbackLocked_def run_simps getM_def modM_def remove_death_def null_deref_def emit_def
      load_notices_def split: option.splits)

lemma drop_callback_handlers:
  "workHandler (mgr (exec (RemoveStartingAbilityCallbackLocked c) s)) = workHandler (mgr s)"
  "dBinderService (mgr (exec (RemoveStartingAbilityCallbackLocked c) s)) = dBinderService (mgr s)"
  by (auto simp: RemoveStartingAbilityCallbackLocked_def run_simps getM_def modM_def remove_death_def null_deref_def emit_def split: option.splits)

lemma answers_appended:
  assumes "\<And>c. load_notices [ans c] = [ans c]"
  shows "(\<lambda>s'. (\<exists>xs. effects s' = effects s @ xs \<and> load_notices xs = map ans cs) \<and> workHandler (mgr s') = workHandler (mgr s) \<and>
      dBinderService (mgr s') = dBinderService (mgr s))
    (exec (for_each cs (\<lambda>c. do { emit (ans c); RemoveStartingAbilityCallbackLocked c })) s)"
proof (induction cs arbitrary: s)
  case (Cons c cs)
  let ?s = "s \<lparr> effects := effects s @ [ans c] \<rparr>"
  obtain ys where "effects (exec (RemoveStartingAbilityCallbackLocked c) ?s) = effects s @ ans c # ys" "load_notices ys = []"
    using drop_callback_effects [of c ?s] by auto
  moreover have "load_notices (ans c # ys @ xs) = ans c # load_notices ys @ load_notices xs" for xs
    using assms [of c] load_notices_append [of "[ans c]" "ys @ xs"] by simp
  ultimately show ?case
    using Cons [of "exec (RemoveStartingAbilityCallbackLocked c) ?s"] by (auto simp: run_simps emit_def drop_callback_handlers)
qed (simp add: run_simps load_notices_def)

fun complete :: "rpc_task \<Rightarrow> remote_effect" where
  "complete (RpcNotify src said ob) = LoadSystemAbilityComplete src said ob"

lemma rpc_tasks_run: "dBinderService (mgr (rs_host s)) \<Longrightarrow> exec (for_each ts run_rpc_task) s = s \<lparr> rs_effects := rs_effects s @ map complete ts \<rparr>"
proof (induction ts arbitrary: s)
  case (Cons t ts)
  then show ?case by (cases t) (simp add: run_simps run_rpc_task_def getM_run)
qed (simp add: run_simps)

text \<open>When an ability has been loaded on which other devices wait, the manager's answer to each of their callbacks becomes one completion for
  the device that the callback stands for, in the order in which the callbacks are stored, with the object of the ability; callbacks of this
  device cause none.\<close>
theorem rpc_load_completed:
  fixes ob
  assumes "sm_find a (startingAbilityMap (mgr (rs_host s))) = Some i" "workHandler (mgr (rs_host s)) \<noteq> None" "dBinderService (mgr (rs_host s))"
  defines "s' \<equiv> exec (rhost_call (NotifySystemAbilityLoaded a ob)) s"
    and "srcs \<equiv> List.map_filter (\<lambda>c. sm_find (proxyId (fst c)) (rs_imps s)) (all_callbacks i)"
  shows "rs_tasks s' = rs_tasks s @ map (\<lambda>src. RpcNotify src a ob) srcs \<and>
    rs_effects (exec (for_each (drop (length (rs_tasks s)) (rs_tasks s')) run_rpc_task) s') =
      rs_effects s @ map (\<lambda>src. LoadSystemAbilityComplete src a ob) srcs"
proof -
  let ?ans = "\<lambda>c. OnLoadSystemAbilitySuccess (fst c) a ob" and ?h = "exec (NotifySystemAbilityLoaded a ob) (rs_host s)"
  obtain xs where xs: "effects ?h = effects (rs_host s) @ xs" "load_notices xs = map ?ans (all_callbacks i)"
    "workHandler (mgr ?h) = workHandler (mgr (rs_host s))" "dBinderService (mgr ?h) = dBinderService (mgr (rs_host s))"
    using answers_appended [of ?ans "all_callbacks i" "rs_host s"] assms(1)
    by (auto simp: NotifySystemAbilityLoaded_def NotifySystemAbilityLoadedTo_def run_simps getM_def erase_item_def modM_def load_notices_def)
  have "List.map_filter (completion imps) (map ?ans cs) = map (\<lambda>src. RpcNotify src a ob) (List.map_filter (\<lambda>c. sm_find (proxyId (fst c)) imps) cs)" for imps cs
    by (induction cs) (auto simp: map_filter_simps completion_def split: option.splits)
  then have "List.map_filter (completion (rs_imps s)) xs = map (\<lambda>src. RpcNotify src a ob) srcs"
    using completion_notices [of "rs_imps s" xs] by (simp only: xs(2) srcs_def)
  moreover have "workHandler (mgr ?h) \<noteq> None" using xs(3) assms(2) by metis
  ultimately have "rs_tasks s' = rs_tasks s @ map (\<lambda>src. RpcNotify src a ob) srcs" by (auto simp: s'_def rhost_call_run xs(1))
  moreover have "dBinderService (mgr (rs_host s'))" "rs_effects s' = rs_effects s" using xs(4) assms(3) by (simp_all add: s'_def rhost_call_run)
  ultimately show ?thesis by (simp add: rpc_tasks_run comp_def)
qed

definition r_waiting :: remote_samgr where
  "r_waiting = (remote_start (waiting \<lparr> mgr := mgr waiting \<lparr> dBinderService := True \<rparr> \<rparr>)) \<lparr> rs_imps := [(5, ''peer'')] \<rparr>"

theorem rpc_load_completed_witness:
  "rs_tasks (exec (rhost_call (NotifySystemAbilityLoaded 403 (Some 12))) r_waiting) = [RpcNotify ''peer'' 403 (Some 12)]"
proof -
  have "sm_count 403 (startingAbilityMap (mgr waiting))" and cbs: "all_callbacks (item 403 (mgr waiting)) = [(Iface 5 (Some 50), 42)]"
    and "workHandler (mgr waiting) \<noteq> None" by code_simp+
  then have "sm_find 403 (startingAbilityMap (mgr (rs_host r_waiting))) = Some (item 403 (mgr waiting))"
    "workHandler (mgr (rs_host r_waiting)) \<noteq> None" "dBinderService (mgr (rs_host r_waiting))"
    by (auto simp: item_def sm_get_def sm_count_def r_waiting_def remote_start_def)
  from rpc_load_completed [OF this, of "Some 12"] show ?thesis by (simp add: cbs r_waiting_def remote_start_def map_filter_simps sm_find_Cons)
qed

section \<open>Loading everything\<close>

lemma DoLoadForPerf_SI: "preserves SI (DoLoadForPerf e cb)"
  unfolding DoLoadForPerf_def GetAllOndemandSa_def by (intro hoare_intros si_intros)

end
