(* ===== verification/Dump_Info.thy ===== *)
theory Dump_Info
  imports Multi_Service
begin

text \<open>
  The texts of the dumper: the states of abilities and processes that the scheduler prints (the end of
  \<^verbatim>\<open>system_ability_state_scheduler.cpp\<close>) and the summaries of the status listeners (\<^verbatim>\<open>system_ability_manager_dumper.cpp\<close>). The source appends to a
  string; a definition here is the text that is appended.
\<close>

definition nl :: string where "nl = [CHR 0x0A]"

section \<open>States of abilities and processes\<close>

fun SA_STATE_ENUM_STR :: "SystemAbilityState \<Rightarrow> string" where
  "SA_STATE_ENUM_STR NOT_LOADED = ''NOT_LOADED''"
| "SA_STATE_ENUM_STR LOADING = ''LOADING''"
| "SA_STATE_ENUM_STR LOADED = ''LOADED''"
| "SA_STATE_ENUM_STR UNLOADABLE = ''UNLOADABLE''"
| "SA_STATE_ENUM_STR UNLOADING = ''UNLOADING''"

fun PROCESS_STATE_ENUM_STR :: "SystemProcessState \<Rightarrow> string" where
  "PROCESS_STATE_ENUM_STR NOT_STARTED = ''NOT_STARTED''"
| "PROCESS_STATE_ENUM_STR STARTED = ''STARTED''"
| "PROCESS_STATE_ENUM_STR STOPPING = ''STOPPING''"

fun PENDINGEVENT_ENUM_STR :: "PendingEvent \<Rightarrow> string" where
  "PENDINGEVENT_ENUM_STR NO_EVENT = ''NO_EVENT''"
| "PENDINGEVENT_ENUM_STR LOAD_ABILITY_EVENT = ''LOAD_ABILITY_EVENT''"
| "PENDINGEVENT_ENUM_STR UNLOAD_ABILITY_EVENT = ''UNLOAD_ABILITY_EVENT''"

definition separator :: string where "separator = nl @ ''---------------------------------------------------'' @ nl"

definition said_line :: "int \<Rightarrow> string" where "said_line a = ''said:                           '' @ to_string a @ nl"
definition state_line :: "SystemAbilityContext \<Rightarrow> string" where "state_line A = ''sa_state:                       '' @ SA_STATE_ENUM_STR (sa_state A) @ nl"
definition pending_text :: "SystemAbilityContext \<Rightarrow> string" where
  "pending_text A = ''sa_pending_event:               '' @ PENDINGEVENT_ENUM_STR (pendingEvent A)"
definition process_line :: "env \<Rightarrow> SystemProcessContext \<Rightarrow> string" where
  "process_line e P = ''process_name:                   '' @ e_str16to8 e (processName P) @ nl"
definition process_state_line :: "SystemProcessContext \<Rightarrow> string" where
  "process_state_line P = ''process_state:                  '' @ PROCESS_STATE_ENUM_STR (proc_state P) @ nl"
definition pid_text :: "SystemProcessContext \<Rightarrow> string" where "pid_text P = ''pid:                            '' @ to_string (pid P)"
definition uid_text :: "SystemProcessContext \<Rightarrow> string" where "uid_text P = ''uid:                            '' @ to_string (uid P)"

text \<open>The body of the loops of \<^verbatim>\<open>GetAllSystemAbilityInfo\<close> and \<^verbatim>\<open>GetAllSystemAbilityInfoByState\<close>.\<close>
definition ability_entry :: "env \<Rightarrow> scheduler \<Rightarrow> SystemAbilityContext \<Rightarrow> string" where
  "ability_entry e c A = said_line (systemAbilityId A) @ state_line A @ pending_text A @
     (case ownProcessContext A of None \<Rightarrow> []
      | Some p \<Rightarrow> nl @ process_line e (pctx p c) @ pid_text (pctx p c) @ nl @ uid_text (pctx p c)) @ separator"

definition GetAllSystemAbilityInfo :: "env \<Rightarrow> scheduler \<Rightarrow> string" where
  "GetAllSystemAbilityInfo e c = concat (map (\<lambda>(a, A). ability_entry e c A) (abilityContextMap c))"

definition GetAllSystemAbilityInfoByState :: "env \<Rightarrow> string \<Rightarrow> scheduler \<Rightarrow> string" where
  "GetAllSystemAbilityInfoByState e state c =
     concat (map (\<lambda>(a, A). if SA_STATE_ENUM_STR (sa_state A) \<noteq> state then [] else ability_entry e c A) (abilityContextMap c))"

text \<open>What \<open>GetSystemAbilityContext\<close> finds: a context that has a process.\<close>
definition ability_context :: "int \<Rightarrow> scheduler \<Rightarrow> SystemAbilityContext option" where
  "ability_context said c = (case sm_find said (abilityContextMap c) of None \<Rightarrow> None
     | Some A \<Rightarrow> if ownProcessContext A = None then None else Some A)"

definition GetSystemAbilityInfo :: "env \<Rightarrow> int \<Rightarrow> scheduler \<Rightarrow> string" where
  "GetSystemAbilityInfo e said c = (case ability_context said c of
       None \<Rightarrow> ''said is not exist''
     | Some A \<Rightarrow> let P = pctx (own said c) c in
         said_line said @ state_line A @ pending_text A @ nl @ process_line e P @ process_state_line P @ pid_text P @ nl)"

text \<open>The loop over \<^verbatim>\<open>saList\<close>, which returns at the first ability without a context.\<close>
fun process_abilities :: "scheduler \<Rightarrow> int list \<Rightarrow> string" where
  "process_abilities c [] = []"
| "process_abilities c (a # as) = (case ability_context a c of
       None \<Rightarrow> ''process said is not exist''
     | Some A \<Rightarrow> said_line (systemAbilityId A) @ state_line A @ pending_text A @ separator @ process_abilities c as)"

definition GetProcessInfo :: "env \<Rightarrow> string \<Rightarrow> scheduler \<Rightarrow> string" where
  "GetProcessInfo e processNameStr c = (case sm_find (e_str8to16 e processNameStr) (processContextMap c) of
       None \<Rightarrow> ''process is not exist''
     | Some P \<Rightarrow> process_line e P @ process_state_line P @ pid_text P @ separator @ process_abilities c (saList P))"

section \<open>Listeners\<close>

text \<open>\<^verbatim>\<open>saListener.listener->AsObject()\<close>, of a listener that is not null.\<close>
definition sal_object :: "SAListener \<Rightarrow> obj option" where
  "sal_object l = (case sal_listener l of None \<Rightarrow> None | Some i \<Rightarrow> AsObject i)"

text \<open>\<^verbatim>\<open>cnt[f(x)]++\<close> for every element.\<close>
definition count_by :: "('a \<Rightarrow> int) \<Rightarrow> 'a list \<Rightarrow> (int, int) smap" where
  "count_by f xs = fold (\<lambda>x m. sm_ins (f x) (sm_get 0 (f x) m + 1) m) xs []"

definition count_lines :: "string \<Rightarrow> (int, int) smap \<Rightarrow> string" where
  "count_lines label m = concat (map (\<lambda>(k, n). nl @ label @ to_string k @ '', cnt:'' @ to_string n) m)"

definition dashes :: string where "dashes = ''--------------------------------''"
definition stars :: string where "stars = ''********************************''"

text \<open>The loops over all listeners, ability by ability.\<close>
definition subscriptions :: "(int, SAListener list) smap \<Rightarrow> (int \<times> SAListener) list" where
  "subscriptions listeners = concat (map (\<lambda>(said, ls). map (Pair said) ls) listeners)"

definition ShowAllBySA :: "(int, SAListener list) smap \<Rightarrow> string" where
  "ShowAllBySA listeners = stars @ ''ShowAllBySA'' @ stars @
     concat (map (\<lambda>(said, ls). if length ls = 0 then [] else
       nl @ nl @ dashes @ ''SA:'' @ to_string said @ '', SubCnt:'' @ to_string (int (length ls)) @ dashes @
       count_lines ''callingPid:'' (count_by sal_callingPid ls)) listeners) @
     nl @ dashes @ ''TotalListenerCnt:'' @ to_string (int (length (remdups (map (\<lambda>(said, l). sal_object l) (subscriptions listeners))))) @ dashes @
     nl @ ''***************************************************************************'' @ nl"

type_synonym pid_listeners = "(int \<times> obj option list) list"

definition subscribe_map :: "(int, SAListener list) smap \<Rightarrow> (int, (int \<times> SAListener) list) smap" where
  "subscribe_map listeners = fold (\<lambda>x m. sm_ins (sal_callingPid (snd x)) (sm_get [] (sal_callingPid (snd x)) m @ [x]) m) (subscriptions listeners) []"

definition pid_listener_map :: "(int, SAListener list) smap \<Rightarrow> (int, obj option list) smap" where
  "pid_listener_map listeners = fold (\<lambda>x m. sm_ins (sal_callingPid (snd x))
     (List.insert (sal_object (snd x)) (sm_get [] (sal_callingPid (snd x)) m)) m) (subscriptions listeners) []"

text \<open>\<^verbatim>\<open>sort(vec.begin(), vec.end(), cmp)\<close> leaves the order of processes with equally many listeners open; \<open>srt\<close> is the order it takes.\<close>
definition ShowAllByCallingPid :: "(pid_listeners \<Rightarrow> pid_listeners) \<Rightarrow> (int, SAListener list) smap \<Rightarrow> string" where
  "ShowAllByCallingPid srt listeners = (let vec = srt (pid_listener_map listeners) in
     stars @ ''ShowAllByCallingPid'' @ stars @
     concat (map (\<lambda>(p, obs). nl @ nl @ dashes @ ''CallingPid:'' @ to_string p @ '', ListenerCnt:'' @ to_string (int (length obs)) @ dashes @
       count_lines ''SA:'' (count_by fst (sm_get [] p (subscribe_map listeners)))) vec) @
     nl @ dashes @ ''TotalListenerCnt:'' @ to_string (int (sum_list (map (\<lambda>(p, obs). length obs) vec))) @ dashes @
     nl @ ''***********************************************************************************'' @ nl)"

definition ShowCallingPidBySA :: "(int, SAListener list) smap \<Rightarrow> int \<Rightarrow> string" where
  "ShowCallingPidBySA listeners said = (let pidCnt = (case find (\<lambda>x. fst x = said) listeners of
       None \<Rightarrow> [] | Some (a, ls) \<Rightarrow> count_by sal_callingPid ls) in
     stars @ ''ShowCallingPidBySA'' @ stars @ nl @ dashes @ ''SA:'' @ to_string said @ dashes @
     count_lines ''callingPid:'' pidCnt @
     nl @ dashes @ ''TotalSubCnt:'' @ to_string (sum_list (map snd pidCnt)) @ dashes @
     nl @ ''**********************************************************************************'' @ nl)"

definition ShowSAByCallingPid :: "(int, SAListener list) smap \<Rightarrow> int \<Rightarrow> string" where
  "ShowSAByCallingPid listeners callingPid = (let mine = filter (\<lambda>x. sal_callingPid (snd x) = callingPid) (subscriptions listeners) in
     stars @ ''ShowSAByCallingPid'' @ stars @ nl @ dashes @ ''CallingPid:'' @ to_string callingPid @ dashes @
     count_lines ''SA:'' (count_by fst mine) @
     nl @ dashes @ ''ListenerCnt:'' @ to_string (int (length (remdups (map (\<lambda>x. sal_object (snd x)) mine)))) @ dashes @
     nl @ ''**********************************************************************************'' @ nl)"

section \<open>Counting\<close>

lemma count_by_get: "sm_get 0 k (fold (\<lambda>x m. sm_ins (f x) (sm_get 0 (f x) m + 1) m) xs m) = sm_get 0 k m + int (length (filter (\<lambda>x. f x = k) xs))"
  by (induction xs arbitrary: m) auto

end
