(* ===== verification/Dumper.thy ===== *)
theory Dumper
  imports Dump_Info
begin

text \<open>
  \<^verbatim>\<open>system_ability_manager_dumper.cpp\<close> and \<^verbatim>\<open>SystemAbilityManager::Dump\<close>: the permission check, the choice of the command from its arguments, and the
  statistics of the FFRT runtime, which are the only state the dumper has. A command reads the service \<open>v\<close> and cannot change it; what it does is
  written to \<open>dumpEffects\<close>. The runtime fills the statistics buffer while it collects, and starts the delayed task that releases the buffer; between
  its start and its taking of the lock other commands run.
\<close>

section \<open>State\<close>

record ffrt_stat =
  taskName :: string
  startTime :: "64 word"
  endTime :: "64 word"

datatype clear_task = ClearTask

datatype dump_effect =
    SaveStringToFd int string
  | FfrtDumpStart | FfrtDumpStop
  | FfrtStatCmdProc obj int int
  | FfrtDumperProc obj
  | IpcStatCmdProc obj int int
  | IpcStartStatistics | IpcStopStatistics

record dumper =
  dumpHandler :: "clear_task ffrt_handler option" \<comment> \<open>\<^verbatim>\<open>handler_\<close>\<close>
  ffrtMetricBuffer :: "ffrt_stat list option"
  collectEnable :: bool
  clearsStarted :: nat \<comment> \<open>started release tasks that wait for \<^verbatim>\<open>ffrtMetricLock\<close>\<close>
  dumpEffects :: "dump_effect list"
  dump_faulted :: bool

type_synonym 'a D = "(dumper, 'a) state"

text \<open>The answers of the platform. The IPC statistics and the peers are outside the repository.\<close>
record dump_env =
  de_env :: env
  de_strToInt :: "string \<Rightarrow> int option"
  de_save :: bool \<comment> \<open>\<^verbatim>\<open>SaveStringToFd\<close> succeeds\<close>
  de_startStat :: int \<comment> \<open>\<^verbatim>\<open>ffrt_dump(DUMP_START_STAT)\<close>\<close>
  de_stopStat :: int
  de_accept :: bool \<comment> \<open>the FFRT runtime takes a task\<close>
  de_infoAll :: string \<comment> \<open>\<^verbatim>\<open>ffrt_dump(DUMP_INFO_ALL)\<close>\<close>
  de_ffrtDumper :: "obj \<Rightarrow> string option" \<comment> \<open>the answer of a process to \<^verbatim>\<open>FfrtDumperProc\<close>\<close>
  de_sort :: "pid_listeners \<Rightarrow> pid_listeners"
  de_ipcStart :: bool
  de_ipcStop :: bool
  de_totalCount :: int
  de_totalCost :: int
  de_pids :: "int list"
  de_count :: "int \<Rightarrow> int"
  de_cost :: "int \<Rightarrow> int"
  de_descriptors :: "int \<Rightarrow> (u16string \<times> int) list"
  de_codeCount :: "int \<Rightarrow> u16string \<times> int \<Rightarrow> int"
  de_codeCost :: "int \<Rightarrow> u16string \<times> int \<Rightarrow> int \<times> int \<times> int \<times> int" \<comment> \<open>total, maximum, minimum, average\<close>

definition empty_dumper :: dumper where
  "empty_dumper = \<lparr> dumpHandler = None, ffrtMetricBuffer = None, collectEnable = False, clearsStarted = 0, dumpEffects = [], dump_faulted = False \<rparr>"

definition emit_dump :: "dump_effect \<Rightarrow> unit D" where
  "emit_dump x = modify (\<lambda>s. s \<lparr> dumpEffects := dumpEffects s @ [x] \<rparr>)"

definition dump_null :: "unit D" where "dump_null = modify (\<lambda>s. s \<lparr> dump_faulted := True \<rparr>)"

section \<open>Permission, texts and output\<close>

definition HIDUMPER_PROCESS_NAME :: string where "HIDUMPER_PROCESS_NAME = ''hidumper_service''"

definition CanDump :: "env \<Rightarrow> bool" where
  "CanDump e \<longleftrightarrow> fst (e_tokenInfo e) = 0 \<and> snd (e_tokenInfo e) = HIDUMPER_PROCESS_NAME"

definition IllegalInput :: string where "IllegalInput = ''The arguments are illegal and you can enter '' @ [CHR 39] @ ''-h'' @ [CHR 39] @ '' for help.'' @ nl"

definition ShowListenerHelp :: string where
  "ShowListenerHelp = ''SystemAbilityManager Listener Dump options:'' @ nl @ ''  [-h] [cmd]...'' @ nl @ ''cmd maybe one of:'' @ nl @
     ''  -sa [said]: query sa listener infos.'' @ nl @ ''  -p [pid]: query process listener infos.'' @ nl @
     ''  -l [-sa | -p]: query all sa listener infos by [sa | process].'' @ nl"

definition ShowHelp :: string where
  "ShowHelp = ''SystemAbilityManager Dump options:'' @ nl @ ''  [-h] [cmd]...'' @ nl @ ''cmd maybe one of:'' @ nl @
     ''  -sa said: query sa state infos.'' @ nl @ ''  -p processname: query process state infos.'' @ nl @
     ''  -sm state: query all sa based on state infos.'' @ nl @ ''  -l: query all sa state infos.'' @ nl @
     ''  --listener -h: help text for listener.'' @ nl @
     ''  --ffrt [pid1|pid2] --start-stat/--stop-stat/--stat: start/stop/get'' @ '' the FFRT load statistics of a process.'' @ nl @
     ''  --ffrt [pid1|pid2]: query the FFRT dump infos of a process.'' @ nl @
     ''  --ipc procname/all --start-stat/--stop-stat/--stat: start/stop/get'' @ '' the IPC load statistics of a process.'' @ nl @
     ''  --multi-instance: query all multi-instance SA IDs.'' @ nl"

definition SaveDumpResultToFd :: "dump_env \<Rightarrow> int \<Rightarrow> string \<Rightarrow> SamgrErrCode D" where
  "SaveDumpResultToFd e fd result = do { emit_dump (SaveStringToFd fd result); ret (if de_save e then ERR_OK else SAVE_FD_FAIL) }"

section \<open>Statistics of the FFRT runtime\<close>

definition COLLECT_FFRT_METRIC_MAX_SIZE :: nat where "COLLECT_FFRT_METRIC_MAX_SIZE = 5000"
definition DELAY_TIME :: int where "DELAY_TIME = 60 * 1000"
definition FFRT_STAT_CMD_START :: int where "FFRT_STAT_CMD_START = 0"
definition FFRT_STAT_CMD_STOP :: int where "FFRT_STAT_CMD_STOP = 1"
definition FFRT_STAT_CMD_GET :: int where "FFRT_STAT_CMD_GET = 2"

text \<open>The loop of \<^verbatim>\<open>FfrtStatisticsParser\<close>: it ends at the end of the buffer or at a slot without a name.\<close>
record stat_acc =
  taskInfo :: string
  maxTime :: "64 word"
  minTime :: "64 word"
  sumTime :: "64 word"
  statCount :: "64 word"

fun stat_loop :: "ffrt_stat list \<Rightarrow> stat_acc \<Rightarrow> stat_acc" where
  "stat_loop [] r = r"
| "stat_loop (c # cs) r =
     (if taskName c = [] then r
      else if startTime c > endTime c then stat_loop cs r
      else let duration = endTime c - startTime c in
        stat_loop cs \<lparr> taskInfo = taskInfo r @ taskName c @ '' '' @ to_string (uint (startTime c)) @ '' '' @ to_string (uint (endTime c)) @ nl,
          maxTime = max (maxTime r) duration, minTime = min (minTime r) duration, sumTime = sumTime r + duration, statCount = statCount r + 1 \<rparr>)"

definition stat_start :: stat_acc where
  "stat_start = \<lparr> taskInfo = [], maxTime = 0, minTime = - 1, sumTime = 0, statCount = 0 \<rparr>"

definition ffrt_summary :: "ffrt_stat list \<Rightarrow> stat_acc \<times> 64 word" where
  "ffrt_summary buffer = (let r = stat_loop buffer stat_start in
     if statCount r = 0 then (r \<lparr> minTime := 0 \<rparr>, 0) else (r, sumTime r div statCount r))"

definition stat_rule :: string where
  "stat_rule = ''-------------------------------------------------------------------------------------------'' @ nl"

definition FfrtStatisticsParser :: "ffrt_stat list \<Rightarrow> string" where
  "FfrtStatisticsParser buffer = (case ffrt_summary buffer of (r, avgTime) \<Rightarrow>
     ''sumTime:'' @ to_string (uint (sumTime r)) @ '' maxTime:'' @ to_string (uint (maxTime r)) @
     '' minTime:'' @ to_string (uint (minTime r)) @ '' avgTime:'' @ to_string (uint avgTime) @ '' cntTime:'' @ to_string (uint (statCount r)) @ nl @
     stat_rule @ ''taskName                                                        startTime(us)   endTime(us)'' @ nl @ stat_rule @
     taskInfo r @ stat_rule)"

definition ClearFfrtStatisticsBufferLocked :: "unit D" where
  "ClearFfrtStatisticsBufferLocked = do {
     modify (\<lambda>s. s \<lparr> ffrtMetricBuffer := None \<rparr>);
     modify (\<lambda>s. s \<lparr> dumpHandler := map_option (RemoveTask ''ClearFfrtStatistics'') (dumpHandler s) \<rparr>) }"

definition StartFfrtStatistics :: "dump_env \<Rightarrow> (bool \<times> string) D" where
  "StartFfrtStatistics e = do {
     enabled \<leftarrow> gets collectEnable;
     if enabled then ret (False, ''collect has been started'' @ nl)
     else do {
       ClearFfrtStatisticsBufferLocked;
       modify (\<lambda>s. s \<lparr> ffrtMetricBuffer := Some (replicate COLLECT_FFRT_METRIC_MAX_SIZE \<lparr> taskName = [], startTime = 0, endTime = 0 \<rparr>) \<rparr>);
       emit_dump FfrtDumpStart;
       if de_startStat e \<noteq> 0 then do {
         ClearFfrtStatisticsBufferLocked;
         ret (False, ''collect start failed'' @ nl) }
       else do {
         modify (\<lambda>s. s \<lparr> collectEnable := True \<rparr>);
         modify (\<lambda>s. s \<lparr> dumpHandler := (case dumpHandler s of None \<Rightarrow> Some (FFRTHandler QOS_DEFAULT) | Some h \<Rightarrow> Some h) \<rparr>);
         modify (\<lambda>s. s \<lparr> dumpHandler :=
           map_option (\<lambda>h. snd (PostNamedTask (de_accept e) (Some ClearTask) ''ClearFfrtStatistics'' DELAY_TIME h)) (dumpHandler s) \<rparr>);
         ret (True, ''collect start success'' @ nl) } } }"

definition StopFfrtStatistics :: "dump_env \<Rightarrow> (bool \<times> string) D" where
  "StopFfrtStatistics e = do {
     enabled \<leftarrow> gets collectEnable;
     if \<not> enabled then ret (False, ''collect has not been started'' @ nl)
     else do {
       modify (\<lambda>s. s \<lparr> collectEnable := False \<rparr>);
       emit_dump FfrtDumpStop;
       if de_stopStat e \<noteq> 0 then do {
         ClearFfrtStatisticsBufferLocked;
         ret (False, ''collect stop failed'' @ nl) }
       else ret (True, ''collect stop success'' @ nl) } }"

definition GetFfrtStatistics :: "(bool \<times> string) D" where
  "GetFfrtStatistics = do {
     enabled \<leftarrow> gets collectEnable;
     if enabled then ret (False, ''collect has not been stopped'' @ nl)
     else do {
       b \<leftarrow> gets ffrtMetricBuffer;
       case b of
         None \<Rightarrow> ret (False, ''info not collected'' @ nl)
       | Some buffer \<Rightarrow> do {
           ClearFfrtStatisticsBufferLocked;
           modify (\<lambda>s. s \<lparr> dumpHandler := None \<rparr>);
           ret (True, FfrtStatisticsParser buffer) } } }"

text \<open>The delayed task, from the point where it has the lock.\<close>
definition ClearFfrtStatistics :: "unit D" where
  "ClearFfrtStatistics = do {
     enabled \<leftarrow> gets collectEnable;
     onlyif enabled (do {
       emit_dump FfrtDumpStop;
       modify (\<lambda>s. s \<lparr> collectEnable := False \<rparr>) });
     ClearFfrtStatisticsBufferLocked }"

definition CollectFfrtStatistics :: "dump_env \<Rightarrow> int \<Rightarrow> (bool \<times> string) D" where
  "CollectFfrtStatistics e cmd = do {
     (r, text) \<leftarrow> (if cmd = FFRT_STAT_CMD_START then StartFfrtStatistics e
       else if cmd = FFRT_STAT_CMD_STOP then StopFfrtStatistics e
       else if cmd = FFRT_STAT_CMD_GET then GetFfrtStatistics
       else ret (False, []));
     ret (r, ''pid:'' @ to_string (e_getpid (de_env e)) @ '' '' @ text) }"

section \<open>Commands for other processes\<close>

text \<open>The schedulers a command reads: that of the base manager, and that of the foreground user's manager.\<close>
definition base_host :: "multi_service \<Rightarrow> samgr" where "base_host v = host (sv_base v)"

definition base_scheduler :: "multi_service \<Rightarrow> scheduler option" where
  "base_scheduler v = (if abilityStateScheduler (mgr (base_host v)) then Some (sch (base_host v)) else None)"

definition GetForegroundUserScheduler :: "multi_service \<Rightarrow> scheduler option" where
  "GetForegroundUserScheduler v = (case sm_find (foregroundUserId (sv_users v)) (multiUserManagers (sv_users v)) of
       None \<Rightarrow> None
     | Some m \<Rightarrow> let h = host (inner m) in if abilityStateScheduler (mgr h) then Some (sch h) else None)"

definition GetProcByProcessId :: "dump_env \<Rightarrow> multi_service \<Rightarrow> int \<Rightarrow> obj option D" where
  "GetProcByProcessId e v processId = (case base_scheduler v of
       None \<Rightarrow> do { dump_null; ret None }
     | Some c \<Rightarrow> (case eval_st (GetProcessNameByProcessId processId) (base_host v) of (queryResult, name) \<Rightarrow>
         if queryResult \<noteq> ERR_OK then ret None else ret (eval_st (procObject (de_env e) name) (base_host v))))"

text \<open>The loop of \<^verbatim>\<open>FfrtDumpParser\<close> over the text with a separator at its end.\<close>
function ffrt_pids :: "(string \<Rightarrow> int option) \<Rightarrow> string \<Rightarrow> int list" where
  "ffrt_pids f s = (if CHR ''|'' \<notin> set s then []
     else let processIdStr = takeWhile (\<lambda>c. c \<noteq> CHR ''|'') s; rest = drop (length processIdStr + 1) s in
       (case f processIdStr of
          None \<Rightarrow> ffrt_pids f rest
        | Some processId \<Rightarrow> if processId > 0 then processId # ffrt_pids f rest else ffrt_pids f rest))"
  by pat_completeness auto
termination by (relation "measure (\<lambda>(f, s). length s)") (auto intro!: diff_less length_pos_if_in_set)

declare ffrt_pids.simps [simp del]

definition FfrtDumpParser :: "(string \<Rightarrow> int option) \<Rightarrow> string \<Rightarrow> int list" where
  "FfrtDumpParser f processIdsStr = ffrt_pids f (processIdsStr @ ''|'')"

definition FfrtStatCmdParser :: "string list \<Rightarrow> int option" where
  "FfrtStatCmdParser args = (if args ! 2 = ''--start-stat'' then Some FFRT_STAT_CMD_START
     else if args ! 2 = ''--stop-stat'' then Some FFRT_STAT_CMD_STOP
     else if args ! 2 = ''--stat'' then Some FFRT_STAT_CMD_GET
     else None)"

definition not_found :: "int \<Rightarrow> string" where "not_found p = ''process '' @ to_string p @ '' not found!'' @ nl"

fun CollectFfrtMetricInfoInProcs :: "dump_env \<Rightarrow> multi_service \<Rightarrow> int \<Rightarrow> int list \<Rightarrow> int \<Rightarrow> string D" where
  "CollectFfrtMetricInfoInProcs e v fd [] cmd = ret []"
| "CollectFfrtMetricInfoInProcs e v fd (p # ps) cmd = do {
     text \<leftarrow> (if p = e_getpid (de_env e) then do { (r, t) \<leftarrow> CollectFfrtStatistics e cmd; ret t }
       else do {
         ob \<leftarrow> GetProcByProcessId e v p;
         case ob of None \<Rightarrow> ret (not_found p)
         | Some x \<Rightarrow> do { emit_dump (FfrtStatCmdProc x fd cmd); ret [] } });
     rest \<leftarrow> CollectFfrtMetricInfoInProcs e v fd ps cmd;
     ret (text @ rest) }"

definition GetFfrtLoadMetrics :: "dump_env \<Rightarrow> multi_service \<Rightarrow> int \<Rightarrow> string list \<Rightarrow> string D" where
  "GetFfrtLoadMetrics e v fd args = (let processIds = FfrtDumpParser (de_strToInt e) (args ! 1) in
     if processIds = [] then ret IllegalInput
     else (case FfrtStatCmdParser args of None \<Rightarrow> ret IllegalInput | Some cmd \<Rightarrow> CollectFfrtMetricInfoInProcs e v fd processIds cmd))"

definition GetSAMgrFfrtInfo :: "dump_env \<Rightarrow> string" where
  "GetSAMgrFfrtInfo e = (if de_infoAll e = [] then [] else de_infoAll e @ nl)"

definition DumpFfrtInfoInProc :: "dump_env \<Rightarrow> multi_service \<Rightarrow> int \<Rightarrow> string D" where
  "DumpFfrtInfoInProc e v p = do {
     ob \<leftarrow> GetProcByProcessId e v p;
     case ob of None \<Rightarrow> ret (not_found p)
     | Some x \<Rightarrow> do {
         emit_dump (FfrtDumperProc x);
         ret (case de_ffrtDumper e x of None \<Rightarrow> [] | Some text \<Rightarrow> text @ nl) } }"

fun ffrt_info :: "dump_env \<Rightarrow> multi_service \<Rightarrow> int list \<Rightarrow> string D" where
  "ffrt_info e v [] = ret []"
| "ffrt_info e v (p # ps) = do {
     text \<leftarrow> (if p = e_getpid (de_env e) then ret (GetSAMgrFfrtInfo e) else DumpFfrtInfoInProc e v p);
     rest \<leftarrow> ffrt_info e v ps;
     ret (text @ rest) }"

definition GetFfrtDumpInfoProc :: "dump_env \<Rightarrow> multi_service \<Rightarrow> string list \<Rightarrow> string D" where
  "GetFfrtDumpInfoProc e v args = (let processIds = FfrtDumpParser (de_strToInt e) (args ! 1) in
     if processIds = [] then ret IllegalInput else ffrt_info e v processIds)"

definition FfrtDumpProc :: "dump_env \<Rightarrow> multi_service \<Rightarrow> int \<Rightarrow> string list \<Rightarrow> SamgrErrCode D" where
  "FfrtDumpProc e v fd args = (if \<not> CanDump (de_env e) then ret ERR_PERMISSION_DENIED
     else do {
       result \<leftarrow> (if length args < 2 \<or> args ! 1 = [] then ret IllegalInput
         else if length args = 2 then GetFfrtDumpInfoProc e v args
         else if length args = 3 then GetFfrtLoadMetrics e v fd args
         else ret IllegalInput);
       SaveDumpResultToFd e fd result })"

section \<open>Listeners\<close>

text \<open>The text, and the listeners whose object the command asks for.\<close>
definition GetListenerDumpProc :: "dump_env \<Rightarrow> (int, SAListener list) smap \<Rightarrow> string list \<Rightarrow> string \<times> SAListener list" where
  "GetListenerDumpProc e listeners args = (let all = map snd (subscriptions listeners) in
     if length args = 2 \<and> args ! 1 = ''-h'' then (ShowListenerHelp, [])
     else if length args = 3 \<and> args ! 1 = ''-l'' \<and> args ! 2 = ''-sa'' then (ShowAllBySA listeners, all)
     else if length args = 3 \<and> args ! 1 = ''-l'' \<and> args ! 2 = ''-p'' then (ShowAllByCallingPid (de_sort e) listeners, all)
     else if length args = 3 \<and> args ! 1 = ''-sa'' then (ShowCallingPidBySA listeners (atoi (args ! 2)), [])
     else if length args = 3 \<and> args ! 1 = ''-p'' then
       (ShowSAByCallingPid listeners (atoi (args ! 2)), filter (\<lambda>l. sal_callingPid l = atoi (args ! 2)) all)
     else (IllegalInput, []))"

definition ListenerDumpProc :: "dump_env \<Rightarrow> (int, SAListener list) smap \<Rightarrow> int \<Rightarrow> string list \<Rightarrow> SamgrErrCode D" where
  "ListenerDumpProc e listeners fd args = (if \<not> CanDump (de_env e) then ret ERR_PERMISSION_DENIED
     else (case GetListenerDumpProc e listeners args of (result, asked) \<Rightarrow> do {
       onlyif (list_ex (\<lambda>l. sal_listener l = None) asked) dump_null;
       SaveDumpResultToFd e fd result }))"

section \<open>Statistics of the IPC layer\<close>

definition IPC_DUMP_SUCCESS :: string where "IPC_DUMP_SUCCESS = '' success'' @ nl"
definition IPC_DUMP_FAIL :: string where "IPC_DUMP_FAIL = '' fail'' @ nl"

definition StartSamgrIpcStatistics :: "dump_env \<Rightarrow> (bool \<times> string) D" where
  "StartSamgrIpcStatistics e = do {
     emit_dump IpcStartStatistics;
     ret (de_ipcStart e, ''StartIpcStatistics pid:'' @ to_string (e_getpid (de_env e)) @ (if de_ipcStart e then IPC_DUMP_SUCCESS else IPC_DUMP_FAIL)) }"

definition StopSamgrIpcStatistics :: "dump_env \<Rightarrow> (bool \<times> string) D" where
  "StopSamgrIpcStatistics e = do {
     emit_dump IpcStopStatistics;
     ret (de_ipcStop e, ''StopSamgrIpcStatistics pid:'' @ to_string (e_getpid (de_env e)) @ (if de_ipcStop e then IPC_DUMP_SUCCESS else IPC_DUMP_FAIL)) }"

definition descriptor_text :: "dump_env \<Rightarrow> int \<Rightarrow> u16string \<times> int \<Rightarrow> string" where
  "descriptor_text e p d = (case de_codeCost e p d of (totalc, maxc, minc, aver) \<Rightarrow>
     nl @ ''~~~~~~~~~~~~~~~~~~~~~~~~~~~~~~~~InterfaceStatisticsInfo~~~~~~~~~~~~~~~~~~~~~~~~~~~~~'' @
     nl @ ''DescriptorCode:'' @ e_str16to8 (de_env e) (fst d) @ ''_'' @ to_string (snd d) @
     nl @ ''DescriptorCodeCount:'' @ to_string (de_codeCount e p d) @
     nl @ ''DescriptorCodeTimeCost:'' @ nl @ ''Total:'' @ to_string totalc @ '' | Max:'' @ to_string maxc @ '' | Min:'' @ to_string minc @
     '' | Avg:'' @ to_string aver @
     nl @ ''~~~~~~~~~~~~~~~~~~~~~~~~~~~~~~~~~~~~~~~~~~~~~~~~~~~~~~~~~~~~~~~~~~~~~~~~~~~~~~~~~~~~'')"

definition GetSamgrIpcStatistics :: "dump_env \<Rightarrow> bool \<times> string" where
  "GetSamgrIpcStatistics e = (True,
     ''********************************GlobalStatisticsInfo********************************'' @
     nl @ ''CurrentPid:'' @ to_string (e_getpid (de_env e)) @ nl @ ''TotalCount:'' @ to_string (de_totalCount e) @
     nl @ ''TotalTimeCost:'' @ to_string (de_totalCost e) @
     concat (map (\<lambda>p. nl @ ''--------------------------------ProcessStatisticsInfo-------------------------------'' @
       nl @ ''CallingPid:'' @ to_string p @ nl @ ''CallingPidTotalCount:'' @ to_string (de_count e p) @
       nl @ ''CallingPidTotalTimeCost:'' @ to_string (de_cost e p) @
       concat (map (descriptor_text e p) (de_descriptors e p)) @
       nl @ ''------------------------------------------------------------------------------------'') (de_pids e)) @
     nl @ ''************************************************************************************'' @ nl)"

definition IpcDumpCmdParser :: "dump_env \<Rightarrow> string list \<Rightarrow> int option" where
  "IpcDumpCmdParser e args = (if \<not> CanDump (de_env e) then None
     else if length args < 3 then None
     else if args ! 2 = ''--start-stat'' then Some 0
     else if args ! 2 = ''--stop-stat'' then Some 1
     else if args ! 2 = ''--stat'' then Some 2
     else None)"

definition IpcStatSamgrProc :: "dump_env \<Rightarrow> int \<Rightarrow> int \<Rightarrow> bool D" where
  "IpcStatSamgrProc e fd cmd = (if cmd < 0 \<or> cmd \<ge> 3 then ret False
     else do {
       (r, result) \<leftarrow> (if cmd = 0 then StartSamgrIpcStatistics e else if cmd = 1 then StopSamgrIpcStatistics e else ret (GetSamgrIpcStatistics e));
       emit_dump (SaveStringToFd fd result);
       ret (de_save e \<and> r) })"

definition IpcDumpAllProcess :: "dump_env \<Rightarrow> multi_service \<Rightarrow> int \<Rightarrow> int \<Rightarrow> unit D" where
  "IpcDumpAllProcess e v fd cmd = for_each (systemProcessMap (mgr (base_host v)))
     (\<lambda>(name, ob). onlyif (e_iface_cast (de_env e) ob) (emit_dump (IpcStatCmdProc ob fd cmd)))"

definition IpcDumpSamgrProcess :: "dump_env \<Rightarrow> int \<Rightarrow> int \<Rightarrow> unit D" where
  "IpcDumpSamgrProcess e fd cmd = do { _ \<leftarrow> IpcStatSamgrProc e fd cmd; ret () }"

definition IpcDumpSingleProcess :: "dump_env \<Rightarrow> multi_service \<Rightarrow> int \<Rightarrow> int \<Rightarrow> string \<Rightarrow> unit D" where
  "IpcDumpSingleProcess e v fd cmd name = (case eval_st (procObject (de_env e) (e_str8to16 (de_env e) name)) (base_host v) of
       None \<Rightarrow> ret () | Some ob \<Rightarrow> emit_dump (IpcStatCmdProc ob fd cmd))"

definition IpcDumpIsAllProcess :: "string \<Rightarrow> bool" where "IpcDumpIsAllProcess name \<longleftrightarrow> name = ''all''"
definition IpcDumpIsSamgr :: "string \<Rightarrow> bool" where "IpcDumpIsSamgr name \<longleftrightarrow> name = ''samgr''"

definition IpcDumpProc :: "dump_env \<Rightarrow> multi_service \<Rightarrow> int \<Rightarrow> string list \<Rightarrow> SamgrErrCode D" where
  "IpcDumpProc e v fd args = (case IpcDumpCmdParser e args of
       None \<Rightarrow> ret ERR_INVALID_VALUE
     | Some cmd \<Rightarrow> do {
         (if IpcDumpIsAllProcess (args ! 1) then do { IpcDumpAllProcess e v fd cmd; IpcDumpSamgrProcess e fd cmd }
          else if IpcDumpIsSamgr (args ! 1) then IpcDumpSamgrProcess e fd cmd
          else IpcDumpSingleProcess e v fd cmd (args ! 1));
         ret ERR_OK })"

section \<open>States\<close>

definition ShowMultiInstanceSaIds :: "multi_service \<Rightarrow> string" where
  "ShowMultiInstanceSaIds v = ''Multi-instance SA IDs:'' @ nl @
     (if sv_multiIds v = [] then ''  (empty)'' @ nl else concat (map (\<lambda>a. ''  '' @ to_string a @ nl) (sort (remdups (sv_multiIds v)))))"

text \<open>A text of the base scheduler, when there is one, followed by that of the foreground user's.\<close>
definition both_schedulers :: "multi_service \<Rightarrow> (scheduler \<Rightarrow> string) \<Rightarrow> string" where
  "both_schedulers v f = (case base_scheduler v of None \<Rightarrow> []
     | Some c \<Rightarrow> f c @ (case GetForegroundUserScheduler v of None \<Rightarrow> [] | Some c' \<Rightarrow> f c'))"

definition ShowAllSystemAbilityInfo :: "env \<Rightarrow> multi_service \<Rightarrow> string" where
  "ShowAllSystemAbilityInfo e v = both_schedulers v (GetAllSystemAbilityInfo e)"

definition ShowProcessInfo :: "env \<Rightarrow> string \<Rightarrow> multi_service \<Rightarrow> string" where
  "ShowProcessInfo e name v = both_schedulers v (GetProcessInfo e name)"

definition ShowAllSystemAbilityInfoInState :: "env \<Rightarrow> string \<Rightarrow> multi_service \<Rightarrow> string" where
  "ShowAllSystemAbilityInfoInState e state v = both_schedulers v (GetAllSystemAbilityInfoByState e state)"

definition ShowSystemAbilityInfo :: "env \<Rightarrow> int \<Rightarrow> multi_service \<Rightarrow> string" where
  "ShowSystemAbilityInfo e said v = (case base_scheduler v of None \<Rightarrow> []
     | Some c \<Rightarrow> (case (said \<in> set (sv_multiIds v), GetForegroundUserScheduler v) of
         (True, Some c') \<Rightarrow> GetSystemAbilityInfo e said c'
       | _ \<Rightarrow> GetSystemAbilityInfo e said c))"

definition dumper_Dump :: "env \<Rightarrow> multi_service \<Rightarrow> string list \<Rightarrow> bool \<times> string" where
  "dumper_Dump e v args = (if \<not> CanDump e then (False, [])
     else if length args = 1 \<and> args ! 0 = ''--multi-instance'' then (True, ShowMultiInstanceSaIds v)
     else if length args = 1 \<and> args ! 0 = ''-l'' then (True, ShowAllSystemAbilityInfo e v)
     else if length args = 1 \<and> args ! 0 = ''-h'' then (True, ShowHelp)
     else if length args = 2 \<and> args ! 0 = ''-sa'' then (True, ShowSystemAbilityInfo e (atoi (args ! 1)) v)
     else if length args = 2 \<and> args ! 0 = ''-p'' then (True, ShowProcessInfo e (args ! 1) v)
     else if length args = 2 \<and> args ! 0 = ''-sm'' then (True, ShowAllSystemAbilityInfoInState e (args ! 1) v)
     else (False, IllegalInput))"

text \<open>\<^verbatim>\<open>SystemAbilityManager::Dump\<close>.\<close>
definition Dump :: "dump_env \<Rightarrow> multi_service \<Rightarrow> int \<Rightarrow> u16string list \<Rightarrow> SamgrErrCode D" where
  "Dump e v fd args = (let args8 = map (e_str16to8 (de_env e)) args in
     if length args8 > 0 \<and> args8 ! 0 = ''--ffrt'' then FfrtDumpProc e v fd args8
     else if length args8 > 0 \<and> args8 ! 0 = ''--listener'' then ListenerDumpProc e (listenerMap (mgr (base_host v))) fd args8
     else if length args8 > 0 \<and> args8 ! 0 = ''--ipc'' then IpcDumpProc e v fd args8
     else do {
       emit_dump (SaveStringToFd fd (snd (dumper_Dump (de_env e) v args8)));
       ret (if de_save e then ERR_OK else ERR_INVALID_VALUE) })"

section \<open>Steps\<close>

text \<open>What the runtime does with the release task on its own: it starts the task when it is due, and the task runs under the lock.\<close>
inductive release_step :: "dumper \<Rightarrow> dumper \<Rightarrow> bool" where
  started: "dumpHandler s = Some h \<Longrightarrow> queue_start k h = Some (t, h') \<Longrightarrow>
    release_step s (s \<lparr> dumpHandler := Some h', clearsStarted := Suc (clearsStarted s) \<rparr>)"
| released: "clearsStarted s = Suc n \<Longrightarrow> release_step s (exec ClearFfrtStatistics (s \<lparr> clearsStarted := n \<rparr>))"

text \<open>
  Every step: a command of a client, a write of the runtime into the buffer it was given, or a step of the release task. \<open>E\<close> holds the
  platforms that occur.
\<close>
inductive dump_step :: "(dump_env \<Rightarrow> bool) \<Rightarrow> dumper \<Rightarrow> dumper \<Rightarrow> bool" for E where
  command: "E e \<Longrightarrow> dump_step E s (exec (Dump e v fd args) s)"
| collected: "collectEnable s \<Longrightarrow> ffrtMetricBuffer s = Some b \<Longrightarrow> length b' = length b \<Longrightarrow> dump_step E s (s \<lparr> ffrtMetricBuffer := Some b' \<rparr>)"
| release: "release_step s s' \<Longrightarrow> dump_step E s s'"

inductive dump_reachable :: "(dump_env \<Rightarrow> bool) \<Rightarrow> dumper \<Rightarrow> bool" for E where
  start: "dump_reachable E empty_dumper"
| step: "dump_reachable E s \<Longrightarrow> dump_step E s s' \<Longrightarrow> dump_reachable E s'"

end
