(* ===== verification/Dump_Props.thy ===== *)
theory Dump_Props
  imports Dumper Common_Event_Props Multi_Samples
begin

text \<open>
  The dumper answers nobody but \<^verbatim>\<open>hidumper_service\<close>; its statistics buffer is released whatever the commands do; the numbers it prints are the
  numbers of what it read.
\<close>

section \<open>Permission\<close>

lemma emit_dump_run [run_simps]: "exec (emit_dump x) s = s \<lparr> dumpEffects := dumpEffects s @ [x] \<rparr>"
  by (simp add: emit_dump_def run_simps)

text \<open>C21. A caller that is not \<^verbatim>\<open>hidumper_service\<close> learns nothing: whatever the arguments are, no process is asked, no statistics are started, stopped
  or released, and the only thing that may be written is an empty text, which the caller is told is a success.\<close>
theorem dump_denied:
  assumes "\<not> CanDump (de_env e)"
  shows "(exec (Dump e v fd args) s = s \<and> eval_st (Dump e v fd args) s \<in> {ERR_PERMISSION_DENIED, ERR_INVALID_VALUE}) \<or>
    (exec (Dump e v fd args) s = s \<lparr> dumpEffects := dumpEffects s @ [SaveStringToFd fd []] \<rparr> \<and>
     eval_st (Dump e v fd args) s = (if de_save e then ERR_OK else ERR_INVALID_VALUE))"
  using assms
  by (auto simp: Dump_def Let_def FfrtDumpProc_def ListenerDumpProc_def IpcDumpProc_def IpcDumpCmdParser_def dumper_Dump_def run_simps)

section \<open>Release of the statistics\<close>

definition clear_queued :: "dumper \<Rightarrow> bool" where
  "clear_queued s \<longleftrightarrow> (case dumpHandler s of None \<Rightarrow> False | Some h \<Rightarrow> submitted h \<noteq> [])"

text \<open>The tasks of the handler are those posted under its only name, and there is at most one.\<close>
definition clear_handler_ok :: "clear_task ffrt_handler \<Rightarrow> bool" where
  "clear_handler_ok h \<longleftrightarrow> queue h \<and> length (submitted h) \<le> 1 \<and> set (map fst (submitted h)) \<subseteq> set (sm_get [] ''ClearFfrtStatistics'' (taskMap h))"

definition dump_inv :: "dumper \<Rightarrow> bool" where
  "dump_inv s \<longleftrightarrow> (collectEnable s \<longrightarrow> ffrtMetricBuffer s \<noteq> None)
    \<and> (ffrtMetricBuffer s \<noteq> None \<longrightarrow> clearsStarted s > 0 \<or> clear_queued s)
    \<and> (\<forall>b. ffrtMetricBuffer s = Some b \<longrightarrow> length b = COLLECT_FFRT_METRIC_MAX_SIZE)
    \<and> (\<forall>h. dumpHandler s = Some h \<longrightarrow> clear_handler_ok h)"

lemma clear_removed:
  assumes "clear_handler_ok h"
  shows "clear_handler_ok (RemoveTask ''ClearFfrtStatistics'' h)" "submitted (RemoveTask ''ClearFfrtStatistics'' h) = []"
proof -
  have "filter (\<lambda>(i, d, t). i \<notin> set ks) xs = []" if "fst ` set xs \<subseteq> set ks" for ks and xs :: "(nat \<times> int \<times> clear_task) list"
    using that by (fastforce simp: filter_empty_conv)
  then show none: "submitted (RemoveTask ''ClearFfrtStatistics'' h) = []"
    using assms by (auto simp: RemoveTask_def clear_handler_ok_def submitted_cancel_all sm_get_def split: option.splits)
  then show "clear_handler_ok (RemoveTask ''ClearFfrtStatistics'' h)"
    using assms by (auto simp: clear_handler_ok_def RemoveTask_def split: option.splits)
qed

lemma clear_posted:
  assumes "clear_handler_ok h" "submitted h = []"
  shows "clear_handler_ok (snd (PostNamedTask True (Some ClearTask) ''ClearFfrtStatistics'' DELAY_TIME h))"
    "submitted (snd (PostNamedTask True (Some ClearTask) ''ClearFfrtStatistics'' DELAY_TIME h)) \<noteq> []"
  using assms by (simp_all add: clear_handler_ok_def PostNamedTask_def queue_submit_def DELAY_TIME_def MAX_UINT64_def CONVERSION_FACTOR_def)

lemma clear_handler_new: "clear_handler_ok (FFRTHandler q)" "submitted (FFRTHandler q) = []"
  by (simp_all add: clear_handler_ok_def FFRTHandler_def)

lemma clear_handler_start: "clear_handler_ok h \<Longrightarrow> queue_start k h = Some (t, h') \<Longrightarrow> clear_handler_ok h'"
  by (auto simp: clear_handler_ok_def queue_start_def queue_cancel_def image_subset_iff split: option.splits intro: order_trans [OF length_filter_le])
    (metis fst_conv)

lemmas stat_defs = CollectFfrtStatistics_def StartFfrtStatistics_def StopFfrtStatistics_def GetFfrtStatistics_def ClearFfrtStatistics_def
  ClearFfrtStatisticsBufferLocked_def

lemma stat_start_inv: "de_accept e \<Longrightarrow> preserves dump_inv (StartFfrtStatistics e)"
  by (rule hoareI) (auto simp: stat_defs run_simps dump_inv_def clear_queued_def clear_removed clear_posted clear_handler_new split: option.splits)

lemma stat_stop_inv: "preserves dump_inv (StopFfrtStatistics e)"
  by (rule hoareI) (auto simp: stat_defs run_simps dump_inv_def clear_queued_def clear_removed split: option.splits)

lemma stat_get_inv: "preserves dump_inv GetFfrtStatistics"
  by (rule hoareI) (auto simp: stat_defs run_simps dump_inv_def clear_queued_def split: option.splits)

lemma dump_inv_effects:
  "preserves dump_inv (emit_dump x)" "preserves dump_inv dump_null"
  by (auto intro!: preserves_modify simp: emit_dump_def dump_null_def dump_inv_def clear_queued_def)

lemma stat_collect_inv: "de_accept e \<Longrightarrow> preserves dump_inv (CollectFfrtStatistics e cmd)"
  unfolding CollectFfrtStatistics_def by (intro hoare_intros stat_start_inv stat_stop_inv stat_get_inv)

lemma stat_proc_inv: "preserves dump_inv (GetProcByProcessId e v p)"
  unfolding GetProcByProcessId_def by (intro hoare_intros dump_inv_effects)

lemma metric_procs_inv: "de_accept e \<Longrightarrow> preserves dump_inv (CollectFfrtMetricInfoInProcs e v fd ps cmd)"
  by (induction ps) (auto intro!: hoare_intros dump_inv_effects stat_proc_inv stat_collect_inv)

lemma ffrt_info_inv: "preserves dump_inv (ffrt_info e v ps)"
  by (induction ps) (auto simp: DumpFfrtInfoInProc_def intro!: hoare_intros dump_inv_effects stat_proc_inv)

lemma Dump_inv: "de_accept e \<Longrightarrow> preserves dump_inv (Dump e v fd args)"
  unfolding Dump_def FfrtDumpProc_def GetFfrtDumpInfoProc_def GetFfrtLoadMetrics_def ListenerDumpProc_def SaveDumpResultToFd_def IpcDumpProc_def
    IpcDumpAllProcess_def IpcDumpSamgrProcess_def IpcDumpSingleProcess_def IpcStatSamgrProc_def StartSamgrIpcStatistics_def StopSamgrIpcStatistics_def Let_def
  by (intro hoare_intros dump_inv_effects metric_procs_inv ffrt_info_inv)

lemma released_run:
  assumes "dump_inv s"
  defines "s' \<equiv> exec ClearFfrtStatistics s"
  shows "ffrtMetricBuffer s' = None" "\<not> collectEnable s'" "\<not> clear_queued s'" "dump_inv s'"
  using assms(1) unfolding s'_def by (auto simp: stat_defs run_simps dump_inv_def clear_queued_def clear_removed split: option.splits)

lemma dump_inv_reachable:
  assumes "dump_reachable E s" "\<And>e. E e \<Longrightarrow> de_accept e"
  shows "dump_inv s"
  using assms(1)
proof (induction rule: dump_reachable.induct)
  case start
  show ?case by (simp add: dump_inv_def empty_dumper_def)
next
  case (step s s')
  from step(2) show ?case
  proof cases
    case (command e v fd args)
    then show ?thesis using preservesD [OF Dump_inv [OF assms(2)]] step(3) by simp
  next
    case (collected b b')
    then show ?thesis using step(3) by (auto simp: dump_inv_def clear_queued_def)
  next
    case release
    then show ?thesis
    proof cases
      case (started h k t h')
      then show ?thesis using step(3) clear_handler_start [OF _ started(3)] by (auto simp: dump_inv_def)
    next
      case (released n)
      have "ffrtMetricBuffer (exec ClearFfrtStatistics x) = None" for x by (simp add: stat_defs run_simps)
      then show ?thesis using released step(3) by (auto simp: dump_inv_def stat_defs run_simps clear_removed)
    qed
  qed
qed

text \<open>If the runtime takes the tasks it is given, then in every reachable state statistics are only collected into a buffer, the buffer has its
  full size, at most one release task is queued, and while there is a buffer a release task is queued or has started, however starts, stops, reads
  and failures of the runtime follow on each other.\<close>
theorem statistics_buffer_accounted:
  assumes "dump_reachable E s" "\<And>e. E e \<Longrightarrow> de_accept e"
  shows "(collectEnable s \<longrightarrow> ffrtMetricBuffer s \<noteq> None) \<and> (\<forall>b. ffrtMetricBuffer s = Some b \<longrightarrow> length b = COLLECT_FFRT_METRIC_MAX_SIZE)
    \<and> (\<forall>h. dumpHandler s = Some h \<longrightarrow> length (submitted h) \<le> 1)
    \<and> (ffrtMetricBuffer s \<noteq> None \<longrightarrow> clearsStarted s > 0 \<or> (\<exists>h. dumpHandler s = Some h \<and> submitted h \<noteq> []))"
  using dump_inv_reachable [OF assms] unfolding dump_inv_def clear_queued_def clear_handler_ok_def by (auto split: option.splits)

text \<open>C20. If the runtime takes the release tasks it is given, then from every reachable state with a buffer, whatever commands led there, the release
  task alone, with no further command of a client, reaches in at most two steps (its start, unless one has started already, and its run) a state
  in which the buffer is released, no statistics are collected and no release task is queued.\<close>
theorem statistics_released:
  assumes "dump_reachable E s" "\<And>e. E e \<Longrightarrow> de_accept e" "ffrtMetricBuffer s \<noteq> None"
  shows "\<exists>s1 s2. (s1 = s \<or> release_step s s1) \<and> release_step s1 s2 \<and> ffrtMetricBuffer s2 = None \<and> \<not> collectEnable s2 \<and>
    (\<forall>h. dumpHandler s2 = Some h \<longrightarrow> submitted h = [])"
proof -
  have gone: "\<exists>s2. release_step x s2 \<and> ffrtMetricBuffer s2 = None \<and> \<not> collectEnable s2 \<and> (\<forall>h. dumpHandler s2 = Some h \<longrightarrow> submitted h = [])"
    if "clearsStarted x = Suc n" "\<forall>h. dumpHandler x = Some h \<longrightarrow> clear_handler_ok h" for x n
    using release_step.released [OF that(1)] that(2)
    by (intro exI [of _ "exec ClearFfrtStatistics (x \<lparr> clearsStarted := n \<rparr>)"]) (auto simp: stat_defs run_simps clear_removed)
  have inv: "dump_inv s" by (rule dump_inv_reachable [OF assms(1,2)])
  show ?thesis
  proof (cases "clearsStarted s")
    case (Suc n)
    then show ?thesis using gone [OF Suc] inv unfolding dump_inv_def by blast
  next
    case 0
    then obtain h k d t xs where h: "dumpHandler s = Some h" "submitted h = (k, d, t) # xs"
      using inv assms(3) by (auto simp: dump_inv_def clear_queued_def neq_Nil_conv split: option.splits)
    then have start: "queue_start k h = Some (t, queue_cancel k h)" by (simp add: queue_start_def)
    let ?s1 = "s \<lparr> dumpHandler := Some (queue_cancel k h), clearsStarted := Suc (clearsStarted s) \<rparr>"
    have "clear_handler_ok (queue_cancel k h)" using inv h(1) clear_handler_start [OF _ start] by (simp add: dump_inv_def)
    then have "\<exists>s2. release_step ?s1 s2 \<and> ffrtMetricBuffer s2 = None \<and> \<not> collectEnable s2 \<and> (\<forall>h. dumpHandler s2 = Some h \<longrightarrow> submitted h = [])"
      using gone [of ?s1 "clearsStarted s"] by simp
    moreover have "release_step s ?s1" by (rule release_step.started [OF h(1) start])
    ultimately show ?thesis by blast
  qed
qed

section \<open>The numbers of the statistics\<close>

text \<open>The slots the parser counts: before the first one without a name, those whose times are in order.\<close>
definition timed_slots :: "ffrt_stat list \<Rightarrow> ffrt_stat list" where
  "timed_slots b = filter (\<lambda>c. startTime c \<le> endTime c) (takeWhile (\<lambda>c. taskName c \<noteq> []) b)"

definition durations :: "ffrt_stat list \<Rightarrow> int list" where
  "durations b = map (\<lambda>c. uint (endTime c) - uint (startTime c)) (timed_slots b)"

lemma uint_minmax: "uint (max a b) = max (uint a) (uint b)" "uint (min a b) = min (uint a) (uint b)"
  for a b :: "64 word"
  by (auto simp: max_def min_def word_le_def)

lemma stat_loop_run:
  "uint (maxTime (stat_loop b r)) = fold max (durations b) (uint (maxTime r))
   \<and> uint (minTime (stat_loop b r)) = fold min (durations b) (uint (minTime r))
   \<and> sumTime (stat_loop b r) = sumTime r + of_int (sum_list (durations b))
   \<and> statCount (stat_loop b r) = statCount r + of_nat (length (durations b))"
proof (induction b arbitrary: r)
  case (Cons c cs)
  consider "taskName c = []" | "taskName c \<noteq> []" "startTime c > endTime c" | "taskName c \<noteq> []" "\<not> startTime c > endTime c" by blast
  then show ?case
  proof cases
    case 3
    then have slots: "timed_slots (c # cs) = c # timed_slots cs" by (simp add: timed_slots_def not_less)
    have dur: "uint (endTime c - startTime c) = uint (endTime c) - uint (startTime c)"
      using 3 by (simp add: uint_sub_lem [THEN iffD1] word_le_def not_less)
    then have "endTime c - startTime c = of_int (uint (endTime c) - uint (startTime c))" by simp
    then show ?thesis using 3 Cons dur slots by (simp add: durations_def Let_def uint_minmax max.commute min.commute del: of_int_diff)
  qed (use Cons in \<open>simp_all add: durations_def timed_slots_def\<close>)
qed (simp add: durations_def timed_slots_def)

lemma durations_bounds: "d \<in> set (durations b) \<Longrightarrow> 0 \<le> d \<and> d \<le> 2 ^ 64 - 1"
proof -
  assume "d \<in> set (durations b)"
  then obtain c where c: "c \<in> set (timed_slots b)" "d = uint (endTime c) - uint (startTime c)" by (auto simp: durations_def)
  then have "uint (startTime c) \<le> uint (endTime c)" by (simp add: timed_slots_def word_le_def)
  moreover have "uint (endTime c) < 2 ^ 64" "0 \<le> uint (startTime c)" using uint_lt2p [of "endTime c"] by simp_all
  ultimately show ?thesis using c(2) by linarith
qed

lemma durations_count: "length (durations b) \<le> length b"
  unfolding durations_def timed_slots_def length_map by (rule order_trans [OF length_filter_le length_takeWhile_le])

lemma average_between:
  fixes xs :: "int list"
  assumes "xs \<noteq> []"
  shows "Min (set xs) \<le> sum_list xs div int (length xs)" "sum_list xs div int (length xs) \<le> Max (set xs)"
proof -
  have "int (length xs) * Min (set xs) \<le> sum_list xs" using sum_list_mono [of xs "\<lambda>_. Min (set xs)" id] by (simp add: sum_list_triv)
  then show "Min (set xs) \<le> sum_list xs div int (length xs)" using assms zdiv_mono1 [of "int (length xs) * Min (set xs)" "sum_list xs" "int (length xs)"] by simp
  have "sum_list xs \<le> int (length xs) * Max (set xs)" using sum_list_mono [of xs id "\<lambda>_. Max (set xs)"] by (simp add: sum_list_triv)
  then show "sum_list xs div int (length xs) \<le> Max (set xs)" using assms zdiv_mono1 [of "sum_list xs" "int (length xs) * Max (set xs)" "int (length xs)"] by simp
qed

text \<open>C36. The numbers that the dumper prints for a statistics buffer: the count is the number of named slots before the first unnamed one whose times
  are in order, the sum is the sum of their durations modulo the width, maximum and minimum are those of the durations, or zero when there is none, and
  while the sum does not wrap the average is the rounded quotient and lies between the two.\<close>
theorem ffrt_summary_numbers:
  fixes r
  assumes "length b \<le> COLLECT_FFRT_METRIC_MAX_SIZE" "ffrt_summary b = (r, avgTime)"
  defines "ds \<equiv> durations b"
  shows "uint (statCount r) = int (length ds) \<and> uint (sumTime r) = sum_list ds mod 2 ^ 64 \<and>
    (if ds = [] then maxTime r = 0 \<and> minTime r = 0 \<and> avgTime = 0
     else uint (maxTime r) = Max (set ds) \<and> uint (minTime r) = Min (set ds) \<and>
       (sum_list ds < 2 ^ 64 \<longrightarrow> uint avgTime = sum_list ds div int (length ds) \<and> uint (minTime r) \<le> uint avgTime \<and> uint avgTime \<le> uint (maxTime r)))"
proof -
  let ?r = "stat_loop b stat_start"
  have "length ds \<le> 5000" using assms(1) durations_count [of b] by (simp add: ds_def COLLECT_FFRT_METRIC_MAX_SIZE_def)
  then have count: "uint (statCount ?r) = int (length ds)"
    by (simp add: stat_loop_run stat_start_def ds_def [symmetric] uint_nat unat_of_nat)
  have total: "uint (sumTime ?r) = sum_list ds mod 2 ^ 64"
    by (simp add: stat_loop_run stat_start_def ds_def [symmetric] uint_word_of_int)
  have none: "statCount ?r = 0 \<longleftrightarrow> ds = []" using count by (metis length_0_conv of_nat_eq_0_iff uint_0_iff)
  have fields: "statCount r = statCount ?r" "sumTime r = sumTime ?r" using assms(2) by (auto simp: ffrt_summary_def Let_def split: if_splits)
  show ?thesis
  proof (cases "ds = []")
    case True
    then have "maxTime ?r = 0" using stat_loop_run [of b stat_start] by (simp add: ds_def stat_start_def uint_0_iff)
    then show ?thesis using True none count total fields assms(2) by (auto simp: ffrt_summary_def Let_def)
  next
    case False
    then have r: "r = ?r" "avgTime = sumTime ?r div statCount ?r" using none assms(2) by (auto simp: ffrt_summary_def Let_def)
    have "uint (maxTime ?r) = Max (set (0 # ds))" by (simp only: Max.set_eq_fold stat_loop_run ds_def) (simp add: stat_start_def)
    moreover have "Max (set ds) \<ge> 0" using False durations_bounds [of _ b] by (metis List.finite_set Max_in ds_def set_empty)
    ultimately have hi: "uint (maxTime ?r) = Max (set ds)" using False by (simp add: max_def)
    have "uint (minTime ?r) = Min (set ((2 ^ 64 - 1) # ds))" by (simp only: Min.set_eq_fold stat_loop_run ds_def) (simp add: stat_start_def unsigned_minus_1_eq_mask mask_eq_exp_minus_1)
    moreover have "Min (set ds) \<le> 2 ^ 64 - 1" using False durations_bounds [of _ b] by (metis List.finite_set Min_in ds_def set_empty)
    moreover have "Min (set ((2 ^ 64 - 1) # ds)) = min (2 ^ 64 - 1) (Min (set ds))" unfolding list.set(2) using False by (intro Min_insert) simp_all
    ultimately have lo: "uint (minTime ?r) = Min (set ds)" by (simp only: min.absorb2)
    have "uint avgTime = sum_list ds div int (length ds)" if "sum_list ds < 2 ^ 64"
    proof -
      have "0 \<le> sum_list ds" using durations_bounds [of _ b] by (simp add: sum_list_nonneg ds_def)
      then show ?thesis using that count total by (simp add: r(2) uint_div)
    qed
    then show ?thesis using False count total fields hi lo average_between [OF False] by (simp add: r(1))
  qed
qed

section \<open>A round of statistics\<close>

lemma ffrt_pids_one:
  assumes "reads_numbers f" "is_int32 p" "p > 0"
  shows "ffrt_pids f (to_string p @ CHR ''|'' # rest) = p # ffrt_pids f rest"
proof -
  have "CHR ''|'' \<notin> set (to_string p)" by (rule to_string_chars) (simp_all add: is_digit_def)
  then have "takeWhile (\<lambda>c. c \<noteq> CHR ''|'') (to_string p @ CHR ''|'' # rest) = to_string p" by (auto simp: takeWhile_append)
  then show ?thesis using assms by (subst ffrt_pids.simps) (simp add: Let_def reads_numbers_def)
qed

lemma ffrt_pids_end: "ffrt_pids f [] = []"
  by (subst ffrt_pids.simps) simp

text \<open>The process identifiers of a command are read back from their text: positive 32-bit numbers with a bar between them give just these numbers, in
  their order.\<close>
theorem ffrt_pids_round_trip:
  assumes "reads_numbers f" "\<forall>q \<in> set (p # qs). is_int32 q \<and> q > 0"
  shows "FfrtDumpParser f (to_string p @ concat (map (\<lambda>q. ''|'' @ to_string q) qs)) = p # qs"
proof -
  have "ffrt_pids f (to_string p @ concat (map (\<lambda>q. ''|'' @ to_string q) qs) @ ''|'') = p # qs"
    using assms(2)
  proof (induction qs arbitrary: p)
    case Nil
    then show ?case using ffrt_pids_one [OF assms(1), of p "[]"] by (simp add: ffrt_pids_end)
  next
    case (Cons q qs)
    then show ?case
      using ffrt_pids_one [OF assms(1), of p "to_string q @ concat (map (\<lambda>q. ''|'' @ to_string q) qs) @ ''|''"] by simp
  qed
  then show ?thesis by (simp add: FfrtDumpParser_def)
qed

theorem ffrt_pids_round_trip_witness: "FfrtDumpParser (\<lambda>s. Some (read_int s)) (to_string 42 @ concat (map (\<lambda>q. ''|'' @ to_string q) [7])) = [42, 7]"
  using ffrt_pids_round_trip [OF read_int_reads, of 42 "[7]"] by (simp add: is_int32_def)

lemma own_statistics:
  assumes "CanDump (de_env e)" "reads_numbers (de_strToInt e)" "is_int32 (e_getpid (de_env e))" "e_getpid (de_env e) > 0"
    and "map (e_str16to8 (de_env e)) args = [''--ffrt'', to_string (e_getpid (de_env e)), word]"
    and "FfrtStatCmdParser [''--ffrt'', to_string (e_getpid (de_env e)), word] = Some cmd"
  shows "exec (Dump e v fd args) s = (exec (CollectFfrtStatistics e cmd) s) \<lparr> dumpEffects :=
    dumpEffects (exec (CollectFfrtStatistics e cmd) s) @ [SaveStringToFd fd (snd (eval_st (CollectFfrtStatistics e cmd) s))] \<rparr>"
proof -
  have "FfrtDumpParser (de_strToInt e) (to_string (e_getpid (de_env e))) = [e_getpid (de_env e)]"
    using ffrt_pids_one [OF assms(2-4), of "[]"] by (simp add: FfrtDumpParser_def ffrt_pids_end)
  then show ?thesis
    using assms(1,5,6) to_string_head(1)
    by (simp add: Dump_def FfrtDumpProc_def GetFfrtLoadMetrics_def SaveDumpResultToFd_def run_simps split_beta)
qed

text \<open>The three commands for the service's own statistics, given one after the other while the runtime fills the buffer: the first starts the
  collection, the second stops it, the third writes the numbers of just what the runtime wrote and releases the buffer and the queue.\<close>
theorem own_statistics_dumped:
  fixes v v' v'' fd b
  assumes "CanDump (de_env e)" "reads_numbers (de_strToInt e)" "is_int32 (e_getpid (de_env e))" "e_getpid (de_env e) > 0"
    and "de_startStat e = 0" "de_stopStat e = 0" "\<not> collectEnable s"
    and "map (e_str16to8 (de_env e)) start = [''--ffrt'', to_string (e_getpid (de_env e)), ''--start-stat'']"
    and "map (e_str16to8 (de_env e)) stop = [''--ffrt'', to_string (e_getpid (de_env e)), ''--stop-stat'']"
    and "map (e_str16to8 (de_env e)) get = [''--ffrt'', to_string (e_getpid (de_env e)), ''--stat'']"
  defines "s1 \<equiv> exec (Dump e v fd start) s"
  defines "s2 \<equiv> exec (Dump e v' fd stop) (s1 \<lparr> ffrtMetricBuffer := Some b \<rparr>)"
  defines "s3 \<equiv> exec (Dump e v'' fd get) s2" and "me \<equiv> ''pid:'' @ to_string (e_getpid (de_env e)) @ '' ''"
  shows "collectEnable s1 \<and> ffrtMetricBuffer s1 \<noteq> None \<and> \<not> collectEnable s2 \<and> ffrtMetricBuffer s3 = None \<and> dumpHandler s3 = None \<and> \<not> collectEnable s3 \<and>
    dumpEffects s3 = dumpEffects s @ [FfrtDumpStart, SaveStringToFd fd (me @ ''collect start success'' @ nl), FfrtDumpStop,
      SaveStringToFd fd (me @ ''collect stop success'' @ nl), SaveStringToFd fd (me @ FfrtStatisticsParser b)]"
proof -
  have cmds: "FFRT_STAT_CMD_STOP \<noteq> FFRT_STAT_CMD_START" "FFRT_STAT_CMD_GET \<noteq> FFRT_STAT_CMD_START" "FFRT_STAT_CMD_GET \<noteq> FFRT_STAT_CMD_STOP"
    by (simp_all add: FFRT_STAT_CMD_START_def FFRT_STAT_CMD_STOP_def FFRT_STAT_CMD_GET_def)
  note run = own_statistics [OF assms(1-4)]
  have s1: "s1 = (exec (CollectFfrtStatistics e FFRT_STAT_CMD_START) s) \<lparr> dumpEffects := dumpEffects s @ [FfrtDumpStart, SaveStringToFd fd (me @ ''collect start success'' @ nl)] \<rparr>"
    "collectEnable s1" "ffrtMetricBuffer s1 \<noteq> None"
    unfolding s1_def using run [OF assms(8), of FFRT_STAT_CMD_START] assms(5,7)
    by (simp_all add: FfrtStatCmdParser_def stat_defs run_simps me_def split_beta)
  have s2: "s2 = s1 \<lparr> ffrtMetricBuffer := Some b, collectEnable := False, dumpEffects := dumpEffects s1 @ [FfrtDumpStop, SaveStringToFd fd (me @ ''collect stop success'' @ nl)] \<rparr>"
    unfolding s2_def using run [OF assms(9), of FFRT_STAT_CMD_STOP] assms(6) s1(2) cmds
    by (simp add: FfrtStatCmdParser_def stat_defs run_simps me_def split_beta)
  have "s3 = s2 \<lparr> ffrtMetricBuffer := None, dumpHandler := None, dumpEffects := dumpEffects s2 @ [SaveStringToFd fd (me @ FfrtStatisticsParser b)] \<rparr>"
    unfolding s3_def using run [OF assms(10), of FFRT_STAT_CMD_GET] cmds s2
    by (simp add: FfrtStatCmdParser_def stat_defs run_simps me_def split_beta)
  then show ?thesis using s1 s2 by simp
qed

section \<open>Counts of listeners\<close>

abbreviation count_from :: "('a \<Rightarrow> int) \<Rightarrow> 'a list \<Rightarrow> (int, int) smap \<Rightarrow> (int, int) smap" where
  "count_from f xs m \<equiv> fold (\<lambda>x m. sm_ins (f x) (sm_get 0 (f x) m + 1) m) xs m"

lemma sum_ins: "sm_ok m \<Longrightarrow> sum_list (map snd (sm_ins k (sm_get 0 k m + 1) m)) = sum_list (map snd m) + 1"
  for k :: int and m :: "(int, int) smap"
proof (induction m)
  case (Cons p m)
  have "map_of m k = None" if "k < fst p" "\<forall>x \<in> set m. fst p \<le> fst x" using that by (force simp: map_of_eq_None_iff)
  with Cons show ?case by (cases p) (auto simp: sm_ok_def sm_keys_def sm_get_def sm_find_def)
qed (simp add: sm_get_def)

lemma count_by_sum: "sm_ok m \<Longrightarrow> sum_list (map snd (count_from f xs m)) = sum_list (map snd m) + int (length xs)"
  by (induction xs arbitrary: m) (simp_all add: sum_ins)

lemma count_by_ok: "sm_ok m \<Longrightarrow> sm_ok (count_from f xs m)"
  by (induction xs arbitrary: m) auto

lemma count_by_keys: "set (sm_keys (count_from f xs m)) = set (sm_keys m) \<union> f ` set xs"
  by (induction xs arbitrary: m) (auto simp: sm_keys_ins)

text \<open>The table of counts is the sorted list of the values with how often each occurs.\<close>
lemma count_by_table: "count_by f xs = map (\<lambda>k. (k, int (length (filter (\<lambda>x. f x = k) xs)))) (sorted_list_of_set (f ` set xs))"
proof -
  let ?m = "count_by f xs"
  have ok: "sm_ok ?m" unfolding count_by_def by (rule count_by_ok) simp
  have "set (sm_keys ?m) = f ` set xs" unfolding count_by_def count_by_keys by (simp add: sm_keys_def)
  then have keys: "sm_keys ?m = sorted_list_of_set (f ` set xs)"
    using ok by (metis sm_ok_def sorted_list_of_set.idem_if_sorted_distinct)
  have "?m = map (\<lambda>k. (k, sm_get 0 k ?m)) (sm_keys ?m)"
    using ok by (auto simp: sm_keys_def sm_get_def sm_find_mem intro!: nth_equalityI) (metis nth_mem option.simps(5) prod.collapse sm_find_mem)
  then show ?thesis using count_by_get [of _ f xs "[]"] unfolding keys by (simp add: count_by_def sm_get_def)
qed

lemma find_fst: "sm_find a m = map_option snd (find (\<lambda>x. fst x = a) m)"
  by (induction m) (auto simp: sm_find_def)

text \<open>What the dumper prints of the listeners of an ability is exact: one line for every process that has subscribed, in ascending order, with the
  number of its subscriptions, and as the total the number of all subscriptions of the ability; for an ability nobody has subscribed to the total
  is zero and there is no line.\<close>
theorem listeners_of_ability_exact:
  fixes listeners a
  defines "ls \<equiv> sm_get [] a listeners"
  shows "ShowCallingPidBySA listeners a = stars @ ''ShowCallingPidBySA'' @ stars @ nl @ dashes @ ''SA:'' @ to_string a @ dashes @
    concat (map (\<lambda>p. nl @ ''callingPid:'' @ to_string p @ '', cnt:'' @ to_string (int (length (filter (\<lambda>l. sal_callingPid l = p) ls))))
      (sorted_list_of_set (sal_callingPid ` set ls))) @
    nl @ dashes @ ''TotalSubCnt:'' @ to_string (int (length ls)) @ dashes @
    nl @ ''**********************************************************************************'' @ nl"
proof -
  have "(case find (\<lambda>x. fst x = a) listeners of None \<Rightarrow> [] | Some (b, xs) \<Rightarrow> count_by sal_callingPid xs) = count_by sal_callingPid ls"
    by (auto simp: ls_def sm_get_def find_fst count_by_def split: option.splits)
  moreover have "sum_list (map snd (count_by sal_callingPid ls)) = int (length ls)" unfolding count_by_def by (simp add: count_by_sum)
  ultimately show ?thesis by (simp add: ShowCallingPidBySA_def Let_def count_lines_def count_by_table comp_def)
qed

section \<open>Witnesses\<close>

definition dump_sample :: dump_env where
  "dump_sample = \<lparr> de_env = sample_env \<lparr> e_tokenInfo := (0, ''hidumper_service'') \<rparr>, de_strToInt = (\<lambda>s. Some (read_int s)), de_save = True,
     de_startStat = 0, de_stopStat = 0, de_accept = True, de_infoAll = [], de_ffrtDumper = (\<lambda>_. None), de_sort = sort_key (\<lambda>x. - int (length (snd x))),
     de_ipcStart = True, de_ipcStop = True, de_totalCount = 0, de_totalCost = 0, de_pids = [], de_count = (\<lambda>_. 0), de_cost = (\<lambda>_. 0),
     de_descriptors = (\<lambda>_. []), de_codeCount = (\<lambda>_ _. 0), de_codeCost = (\<lambda>_ _. (0, 0, 0, 0)) \<rparr>"

definition own_command :: "string \<Rightarrow> u16string list" where "own_command w = [u16 ''--ffrt'', u16 ''9'', u16 w]"

lemma own_command_text:
  "map (e_str16to8 (de_env dump_sample)) (own_command ''--start-stat'') = [''--ffrt'', to_string (e_getpid (de_env dump_sample)), ''--start-stat'']"
  "map (e_str16to8 (de_env dump_sample)) (own_command ''--stop-stat'') = [''--ffrt'', to_string (e_getpid (de_env dump_sample)), ''--stop-stat'']"
  "map (e_str16to8 (de_env dump_sample)) (own_command ''--stat'') = [''--ffrt'', to_string (e_getpid (de_env dump_sample)), ''--stat'']"
  by code_simp+

lemma dump_sample_ok: "CanDump (de_env dump_sample)" "reads_numbers (de_strToInt dump_sample)" "is_int32 (e_getpid (de_env dump_sample))"
  "e_getpid (de_env dump_sample) > 0" "de_startStat dump_sample = 0" "de_stopStat dump_sample = 0" "de_accept dump_sample"
  by (simp_all add: dump_sample_def CanDump_def HIDUMPER_PROCESS_NAME_def read_int_reads is_int32_def sample_env_def)

theorem dump_denied_witness:
  "\<not> CanDump sample_env \<and> dumpHandler (exec (Dump (dump_sample \<lparr> de_env := sample_env \<rparr>) started 1 (own_command ''--start-stat'')) empty_dumper) = None"
proof -
  have "\<not> CanDump (de_env (dump_sample \<lparr> de_env := sample_env \<rparr>))" by code_simp
  from this dump_denied [OF this, of started 1 "own_command ''--start-stat''" empty_dumper] show ?thesis by (auto simp: empty_dumper_def)
qed

theorem own_statistics_dumped_witness:
  "ffrtMetricBuffer (exec (Dump dump_sample started 1 (own_command ''--stat'')) (exec (Dump dump_sample started 1 (own_command ''--stop-stat''))
     (exec (Dump dump_sample started 1 (own_command ''--start-stat'')) empty_dumper \<lparr> ffrtMetricBuffer := Some [] \<rparr>))) = None"
  using own_statistics_dumped [OF dump_sample_ok(1-6) _ own_command_text, of empty_dumper started 1 started "[]" started] by (simp add: empty_dumper_def)

definition collecting :: dumper where "collecting = exec (Dump dump_sample started 1 (own_command ''--start-stat'')) empty_dumper"

lemma collecting_reachable: "dump_reachable de_accept collecting"
  unfolding collecting_def by (rule dump_reachable.step [OF dump_reachable.start dump_step.command]) (rule dump_sample_ok)

lemma collecting_buffer: "collectEnable collecting" "ffrtMetricBuffer collecting \<noteq> None"
proof -
  have "FfrtStatCmdParser [''--ffrt'', to_string (e_getpid (de_env dump_sample)), ''--start-stat''] = Some FFRT_STAT_CMD_START" by (simp add: FfrtStatCmdParser_def)
  from own_statistics [OF dump_sample_ok(1-4) own_command_text(1) this, of started 1 empty_dumper]
  show "collectEnable collecting" "ffrtMetricBuffer collecting \<noteq> None"
    unfolding collecting_def by (simp_all add: stat_defs run_simps empty_dumper_def dump_sample_ok split_beta)
qed

theorem statistics_buffer_accounted_witness:
  "collectEnable collecting \<and> (clearsStarted collecting > 0 \<or> (\<exists>h. dumpHandler collecting = Some h \<and> submitted h \<noteq> []))"
  using statistics_buffer_accounted [OF collecting_reachable] collecting_buffer by blast

theorem statistics_released_witness:
  "\<exists>s1 s2. (s1 = collecting \<or> release_step collecting s1) \<and> release_step s1 s2 \<and> ffrtMetricBuffer s2 = None \<and> \<not> collectEnable s2"
  using statistics_released [OF collecting_reachable _ collecting_buffer(2)] by blast

theorem ffrt_summary_numbers_witness:
  "let b = [\<lparr> taskName = ''a'', startTime = 10, endTime = 30 \<rparr>, \<lparr> taskName = ''b'', startTime = 9, endTime = 8 \<rparr>, \<lparr> taskName = ''c'', startTime = 5, endTime = 6 \<rparr>]
   in uint (statCount (fst (ffrt_summary b))) = 2 \<and> uint (sumTime (fst (ffrt_summary b))) = 21"
proof -
  let ?b = "[\<lparr> taskName = ''a'', startTime = 10, endTime = 30 \<rparr>, \<lparr> taskName = ''b'', startTime = 9, endTime = 8 \<rparr>, \<lparr> taskName = ''c'', startTime = 5, endTime = 6 \<rparr>]"
  have "length ?b \<le> COLLECT_FFRT_METRIC_MAX_SIZE" "ffrt_summary ?b = (fst (ffrt_summary ?b), snd (ffrt_summary ?b))" by (simp_all add: COLLECT_FFRT_METRIC_MAX_SIZE_def)
  moreover have "durations ?b = [20, 1]" by code_simp
  ultimately show ?thesis using ffrt_summary_numbers [of ?b "fst (ffrt_summary ?b)" "snd (ffrt_summary ?b)"] by (simp add: Let_def)
qed

end
