(* ===== verification/Time_Handler.thy ===== *)
theory Time_Handler
  imports Prelude "HOL-Library.Multiset"
begin

text \<open>
  The alarm timers of \<^verbatim>\<open>samgr_time_handler.cpp\<close> over the locked map of \<^verbatim>\<open>concurrent_map.h\<close>. A posted function gets a one-shot kernel timer; threads wait for
  timers with epoll, read the one that expired, call its function and close it. A thread ends when the map is empty; the post that finds the map
  empty starts a thread. An operation of the map runs under its lock, so a thread and a post are sequences of steps, each of which uses the map at
  most once. The kernel is an argument: it says which calls succeed, gives descriptors that are not open, and lets an armed timer expire once.
\<close>

section \<open>The locked map\<close>

definition cm_Size :: "('k, 'v) smap \<Rightarrow> nat" where "cm_Size m = sm_size m"

definition cm_IsEmpty :: "('k, 'v) smap \<Rightarrow> bool" where "cm_IsEmpty m \<longleftrightarrow> m = []"

text \<open>\<^verbatim>\<open>std::map::insert\<close> keeps an entry that is there.\<close>
definition cm_Insert :: "'k::linorder \<Rightarrow> 'v \<Rightarrow> ('k, 'v) smap \<Rightarrow> bool \<times> ('k, 'v) smap" where
  "cm_Insert k v m = (if sm_count k m then (False, m) else (True, sm_ins k v m))"

definition cm_EnsureInsert :: "'k::linorder \<Rightarrow> 'v \<Rightarrow> ('k, 'v) smap \<Rightarrow> ('k, 'v) smap" where
  "cm_EnsureInsert k v m = (case cm_Insert k v m of (True, m') \<Rightarrow> m' | (False, m') \<Rightarrow> snd (cm_Insert k v (sm_erase k m')))"

definition cm_FirstInsert :: "'k::linorder \<Rightarrow> 'v \<Rightarrow> ('k, 'v) smap \<Rightarrow> bool \<times> ('k, 'v) smap" where
  "cm_FirstInsert k v m = (cm_IsEmpty m, cm_EnsureInsert k v m)"

definition cm_Find :: "'k \<Rightarrow> ('k, 'v) smap \<Rightarrow> 'v option" where "cm_Find k m = sm_find k m"

definition cm_Erase :: "'k \<Rightarrow> ('k, 'v) smap \<Rightarrow> ('k, 'v) smap" where "cm_Erase k m = sm_erase k m"

text \<open>\<^verbatim>\<open>Clear(func)\<close>: the keys the function is called with, and the map.\<close>
definition cm_Clear :: "('k, 'v) smap \<Rightarrow> 'k list \<times> ('k, 'v) smap" where "cm_Clear m = (sm_keys m, [])"

lemma ensure_insert_find: "sm_find k (cm_EnsureInsert k' v m) = (if k = k' then Some v else sm_find k m)"
  by (simp add: cm_EnsureInsert_def cm_Insert_def)

lemma ensure_insert_new: "\<not> sm_count k m \<Longrightarrow> cm_EnsureInsert k v m = sm_ins k v m"
  by (simp add: cm_EnsureInsert_def cm_Insert_def)

section \<open>Timers and threads\<close>

text \<open>
  A thread tests the map, waits, has expired descriptors to look at, calls the function of one, has erased it from the map and is about to close it, or
  hangs in \<^verbatim>\<open>read\<close> on a timer that another thread has read already.
\<close>
datatype timer_thread = Checking | Waiting | Handling "nat list" | Calling nat "nat list" | Closing nat "nat list" | Blocked

record 't timers =
  timeFunc :: "(nat, 't) smap"
  opened :: "nat list" \<comment> \<open>timer descriptors that are open and registered with epoll\<close>
  armed :: "nat list"
  due :: "nat list" \<comment> \<open>expired and not yet read\<close>
  posting :: "(nat \<times> 't) list" \<comment> \<open>posts that have armed their timer and not yet inserted their function\<close>
  threads :: "timer_thread list"
  called :: "'t list"
  broken :: bool \<comment> \<open>an empty function was called\<close>

definition no_timers :: "'t timers" where
  "no_timers = \<lparr> timeFunc = [], opened = [], armed = [], due = [], posting = [], threads = [], called = [], broken = False \<rparr>"

text \<open>The answers of the kernel to a post; \<open>-1\<close> is a failure.\<close>
record timer_kernel =
  tk_alarm :: "nat \<Rightarrow> int" \<comment> \<open>\<^verbatim>\<open>timerfd_create(CLOCK_BOOTTIME_ALARM)\<close>, per attempt\<close>
  tk_monotonic :: int
  tk_add :: bool
  tk_settime :: bool

definition RETRY_TIMES :: nat where "RETRY_TIMES = 3"

fun create_retry :: "(nat \<Rightarrow> int) \<Rightarrow> nat \<Rightarrow> nat \<Rightarrow> int" where
  "create_retry f i 0 = -1"
| "create_retry f i (Suc n) = (if f i \<noteq> -1 then f i else create_retry f (Suc i) n)"

definition CreateAndRetry :: "(nat \<Rightarrow> int) \<Rightarrow> int" where "CreateAndRetry f = create_retry f 0 RETRY_TIMES"

text \<open>The first part of \<^verbatim>\<open>PostTask\<close>, up to \<^verbatim>\<open>timerfd_settime\<close>: the descriptor of the armed timer. A delay of zero disarms.\<close>
definition timer_descriptor :: "timer_kernel \<Rightarrow> int" where
  "timer_descriptor e = (let fd = CreateAndRetry (tk_alarm e) in if fd = -1 then tk_monotonic e else fd)"

definition PostTask_arm :: "timer_kernel \<Rightarrow> 't option \<Rightarrow> int \<Rightarrow> 't timers \<Rightarrow> bool \<times> 't timers" where
  "PostTask_arm e func delayTime s = (case func of
       None \<Rightarrow> (False, s)
     | Some f \<Rightarrow> let timerfd = timer_descriptor e in
         if timerfd = -1 then (False, s)
         else if \<not> tk_add e then (False, s)
         else if \<not> tk_settime e then (False, s)
         else (True, s \<lparr> opened := nat timerfd # opened s, armed := (if delayTime = 0 then armed s else nat timerfd # armed s),
           posting := (nat timerfd, f) # posting s \<rparr>))"

text \<open>The second part, and \<^verbatim>\<open>StartThread\<close>.\<close>
definition StartThread :: "'t timers \<Rightarrow> 't timers" where
  "StartThread s = s \<lparr> threads := threads s @ [Checking] \<rparr>"

definition PostTask_insert :: "nat \<Rightarrow> 't \<Rightarrow> 't timers \<Rightarrow> 't timers" where
  "PostTask_insert timerfd f s = (case cm_FirstInsert timerfd f (timeFunc s) of (isFirst, m) \<Rightarrow>
     let s' = s \<lparr> timeFunc := m \<rparr> in if isFirst then StartThread s' else s')"

text \<open>The loop of a thread, and the body of the loop of \<^verbatim>\<open>OnTime\<close> for one descriptor: what \<^verbatim>\<open>read\<close> and the map say, and the two parts after the call: the entry is erased from the map before
  the descriptor leaves epoll and is closed, and only a closed descriptor can be given to another post.\<close>
definition thread_check :: "'t timers \<Rightarrow> timer_thread list" where
  "thread_check s = (if cm_IsEmpty (timeFunc s) then [] else [Waiting])"

definition OnTime_read :: "nat \<Rightarrow> nat list \<Rightarrow> 't timers \<Rightarrow> timer_thread \<times> 't timers" where
  "OnTime_read timerfd rest s =
     (if timerfd \<in> set (due s) then (case cm_Find timerfd (timeFunc s) of
        None \<Rightarrow> (Blocked, s \<lparr> broken := True \<rparr>)
      | Some funcTime \<Rightarrow> (Calling timerfd rest, s \<lparr> due := removeAll timerfd (due s), called := called s @ [funcTime] \<rparr>))
      else if timerfd \<in> set (opened s) then (Blocked, s)
      else (Handling rest, s))"

definition OnTime_erase :: "nat \<Rightarrow> 't timers \<Rightarrow> 't timers" where
  "OnTime_erase timerfd s = s \<lparr> timeFunc := cm_Erase timerfd (timeFunc s) \<rparr>"

definition OnTime_close :: "nat \<Rightarrow> 't timers \<Rightarrow> 't timers" where
  "OnTime_close timerfd s = s \<lparr> opened := removeAll timerfd (opened s) \<rparr>"

text \<open>\<open>D\<close> holds the delays that are posted.\<close>
inductive timer_step :: "(int \<Rightarrow> bool) \<Rightarrow> 't timers \<Rightarrow> 't timers \<Rightarrow> bool" for D where
  post: "\<not> broken s \<Longrightarrow> D delayTime \<Longrightarrow> timer_descriptor e = -1 \<or> nat (timer_descriptor e) \<notin> set (opened s) \<Longrightarrow>
    timer_step D s (snd (PostTask_arm e func delayTime s))"
| insert: "\<not> broken s \<Longrightarrow> posting s = xs @ (fd, f) # ys \<Longrightarrow> timer_step D s (PostTask_insert fd f (s \<lparr> posting := xs @ ys \<rparr>))"
| expire: "\<not> broken s \<Longrightarrow> armed s = xs @ fd # ys \<Longrightarrow> timer_step D s (s \<lparr> armed := xs @ ys, due := fd # due s \<rparr>)"
| check: "\<not> broken s \<Longrightarrow> threads s = xs @ Checking # ys \<Longrightarrow> timer_step D s (s \<lparr> threads := xs @ thread_check s @ ys \<rparr>)"
| woken: "\<not> broken s \<Longrightarrow> threads s = xs @ Waiting # ys \<Longrightarrow> set fds \<subseteq> set (due s) \<Longrightarrow> distinct fds \<Longrightarrow> length fds \<le> 8 \<Longrightarrow>
    timer_step D s (s \<lparr> threads := xs @ Handling fds # ys \<rparr>)"
| handled: "\<not> broken s \<Longrightarrow> threads s = xs @ Handling [] # ys \<Longrightarrow> timer_step D s (s \<lparr> threads := xs @ Checking # ys \<rparr>)"
| read: "\<not> broken s \<Longrightarrow> threads s = xs @ Handling (fd # fds) # ys \<Longrightarrow> fd \<notin> set (armed s) \<Longrightarrow> OnTime_read fd fds s = (t, s') \<Longrightarrow>
    timer_step D s (s' \<lparr> threads := xs @ t # ys \<rparr>)"
| returned: "\<not> broken s \<Longrightarrow> threads s = xs @ Calling fd fds # ys \<Longrightarrow> timer_step D s (OnTime_erase fd (s \<lparr> threads := xs @ Closing fd fds # ys \<rparr>))"
| closed: "\<not> broken s \<Longrightarrow> threads s = xs @ Closing fd fds # ys \<Longrightarrow> timer_step D s (OnTime_close fd (s \<lparr> threads := xs @ Handling fds # ys \<rparr>))"

inductive timer_reachable :: "(int \<Rightarrow> bool) \<Rightarrow> 't timers \<Rightarrow> bool" for D where
  start: "timer_reachable D no_timers"
| step: "timer_reachable D s \<Longrightarrow> timer_step D s s' \<Longrightarrow> timer_reachable D s'"

text \<open>The destructor closes the timers of the map.\<close>
definition timers_Destroy :: "'t timers \<Rightarrow> 't timers" where
  "timers_Destroy s = (case cm_Clear (timeFunc s) of (fds, m) \<Rightarrow> s \<lparr> timeFunc := m, opened := filter (\<lambda>fd. fd \<notin> set fds) (opened s) \<rparr>)"

end
