(* ===== verification/Alarm_Props.thy ===== *)
theory Alarm_Props
  imports Time_Handler
begin

text \<open>
  The alarm timers keep every accepted function until it runs, run it at most once, and always have a thread for it; two threads may serve the timers,
  and then one of them can hang for ever.
\<close>

section \<open>Invariant\<close>

fun calls_of :: "timer_thread \<Rightarrow> nat list" where
  "calls_of (Calling fd fds) = [fd]"
| "calls_of _ = []"

definition calling :: "timer_thread list \<Rightarrow> nat list" where "calling ts = concat (map calls_of ts)"

lemma calling_simps [simp]: "calling [] = []" "calling (t # ts) = calls_of t @ calling ts" "calling (xs @ ys) = calling xs @ calling ys"
  by (simp_all add: calling_def)

fun closes_of :: "timer_thread \<Rightarrow> nat list" where
  "closes_of (Closing fd fds) = [fd]"
| "closes_of _ = []"

definition closing :: "timer_thread list \<Rightarrow> nat list" where "closing ts = concat (map closes_of ts)"

lemma closing_simps [simp]: "closing [] = []" "closing (t # ts) = closes_of t @ closing ts" "closing (xs @ ys) = closing xs @ closing ys"
  by (simp_all add: closing_def)

definition keys :: "'t timers \<Rightarrow> nat set" where "keys s = set (sm_keys (timeFunc s))"

definition posting_fds :: "'t timers \<Rightarrow> nat set" where "posting_fds s = fst ` set (posting s)"

text \<open>
  The sets of descriptors: of posts that are not finished, of entries of the map, of functions being called, of timers about to be closed, armed,
  expired, open. Every open timer belongs to one post, to one entry or to one thread that is about to close it, and is armed or expired unless a thread
  is calling its function or has called it.
\<close>
definition books :: "nat set \<Rightarrow> nat set \<Rightarrow> nat set \<Rightarrow> nat set \<Rightarrow> nat set \<Rightarrow> nat set \<Rightarrow> nat set \<Rightarrow> bool" where
  "books P F C L A U O' \<longleftrightarrow> P \<inter> F = {} \<and> L \<inter> (P \<union> F) = {} \<and> O' = P \<union> F \<union> L \<and> C \<subseteq> F \<and> A \<inter> U = {} \<and> A \<union> U = (P \<union> F) - C"

lemma books_post: "books P F C L A U Q \<Longrightarrow> fd \<notin> Q \<Longrightarrow> books (insert fd P) F C L (insert fd A) U (insert fd Q)"
  unfolding books_def by blast

lemma books_insert: "books (insert fd P) F C L A U Q \<Longrightarrow> fd \<notin> P \<Longrightarrow> books P (insert fd F) C L A U Q"
  unfolding books_def by blast

lemma books_expire: "books P F C L (insert fd A) U Q \<Longrightarrow> fd \<notin> A \<Longrightarrow> books P F C L A (insert fd U) Q"
  unfolding books_def by blast

lemma books_call: "books P F C L A U Q \<Longrightarrow> fd \<in> U \<Longrightarrow> fd \<in> F \<Longrightarrow> books P F (insert fd C) L A (U - {fd}) Q \<and> fd \<notin> C"
  unfolding books_def by blast

lemma books_erase: "books P F (insert fd C) L A U Q \<Longrightarrow> fd \<notin> C \<Longrightarrow> books P (F - {fd}) C (insert fd L) A U Q \<and> fd \<notin> L"
  unfolding books_def by blast

lemma books_close: "books P F C (insert fd L) A U Q \<Longrightarrow> fd \<notin> L \<Longrightarrow> books P F C L A U (Q - {fd})"
  unfolding books_def by blast

abbreviation timer_books :: "'t timers \<Rightarrow> bool" where
  "timer_books s \<equiv> books (posting_fds s) (keys s) (set (calling (threads s))) (set (closing (threads s))) (set (armed s)) (set (due s)) (set (opened s))"

definition timers_ok :: "'t timers \<Rightarrow> bool" where
  "timers_ok s \<longleftrightarrow> sm_ok (timeFunc s) \<and> distinct (calling (threads s)) \<and> distinct (closing (threads s)) \<and> distinct (armed s) \<and> distinct (map fst (posting s))
    \<and> timer_books s \<and> (timeFunc s \<noteq> [] \<longrightarrow> (\<exists>t \<in> set (threads s). t \<noteq> Blocked))"

lemma timers_ok_post:
  assumes "timers_ok s" "timer_descriptor e = -1 \<or> nat (timer_descriptor e) \<notin> set (opened s)" "d \<noteq> 0"
  shows "timers_ok (snd (PostTask_arm e func d s))"
proof (cases "snd (PostTask_arm e func d s) = s")
  case False
  let ?fd = "nat (timer_descriptor e)"
  obtain f where f: "func = Some f" and run: "snd (PostTask_arm e func d s) = s \<lparr> opened := ?fd # opened s,
      armed := ?fd # armed s, posting := (?fd, f) # posting s \<rparr>" "timer_descriptor e \<noteq> -1"
    using False assms(3) by (auto simp: PostTask_arm_def Let_def split: option.splits if_splits)
  have new: "?fd \<notin> set (opened s)" using assms(2) run(2) by blast
  have old: "timer_books s" using assms(1) by (simp add: timers_ok_def)
  then have "?fd \<notin> set (armed s)" "?fd \<notin> posting_fds s" using new by (auto simp: books_def)
  then show ?thesis using assms(1) books_post [OF old new] unfolding run(1) timers_ok_def by (simp add: posting_fds_def keys_def)
qed (use assms in simp)

lemma timers_ok_insert:
  assumes "timers_ok s" "posting s = xs @ (fd, f) # ys"
  shows "timers_ok (PostTask_insert fd f (s \<lparr> posting := xs @ ys \<rparr>))"
proof -
  let ?P = "fst ` set (xs @ ys)"
  have fresh: "fd \<notin> ?P" using assms by (auto simp: timers_ok_def)
  have "books (insert fd ?P) (keys s) (set (calling (threads s))) (set (closing (threads s))) (set (armed s)) (set (due s)) (set (opened s))"
    using assms by (simp add: timers_ok_def posting_fds_def Un_commute)
  then have new: "books ?P (insert fd (keys s)) (set (calling (threads s))) (set (closing (threads s))) (set (armed s)) (set (due s)) (set (opened s))" "fd \<notin> keys s"
    using fresh by (auto intro: books_insert simp: books_def)
  let ?s = "PostTask_insert fd f (s \<lparr> posting := xs @ ys \<rparr>)"
  have "\<not> sm_count fd (timeFunc s)" using new(2) by (simp add: keys_def sm_count_iff)
  then have fields: "timeFunc ?s = sm_ins fd f (timeFunc s)" "threads ?s = threads s @ (if timeFunc s = [] then [Checking] else [])" "posting ?s = xs @ ys"
    "armed ?s = armed s" "due ?s = due s" "opened ?s = opened s"
    by (simp_all add: PostTask_insert_def cm_FirstInsert_def cm_IsEmpty_def ensure_insert_new StartThread_def Let_def)
  have "keys ?s = insert fd (keys s)" "posting_fds ?s = ?P" by (simp_all only: keys_def posting_fds_def fields sm_keys_ins)
  moreover have "calling (threads ?s) = calling (threads s)" "closing (threads ?s) = closing (threads s)" by (simp_all add: fields(2))
  moreover have "\<exists>t \<in> set (threads ?s). t \<noteq> Blocked" using assms(1) by (auto simp: fields(2) timers_ok_def)
  ultimately show ?thesis using assms new(1) unfolding timers_ok_def by (simp add: fields del: sm_ins.simps)
qed

lemma timers_ok_thread:
  assumes "timers_ok s" "threads s = xs @ t # ys" "calls_of t = []" "closes_of t = []" "calling ts = []" "closing ts = []" "timeFunc s \<noteq> [] \<Longrightarrow> \<exists>u \<in> set (xs @ ts @ ys). u \<noteq> Blocked"
  shows "timers_ok (s \<lparr> threads := xs @ ts @ ys \<rparr>)"
  using assms by (simp add: timers_ok_def keys_def posting_fds_def)

lemma unblocked: "fd \<in> set (calling ts) \<union> set (closing ts) \<Longrightarrow> \<exists>u \<in> set ts. u \<noteq> Blocked"
proof (induction ts)
  case (Cons t ts)
  then show ?case by (cases "t = Blocked") auto
qed simp

lemma timers_ok_read:
  assumes "timers_ok s" "threads s = xs @ Handling (fd # fds) # ys" "fd \<notin> set (armed s)" "OnTime_read fd fds s = (t, u)" "\<not> broken u"
  shows "timers_ok (u \<lparr> threads := xs @ t # ys \<rparr>)"
proof -
  have old: "books (posting_fds s) (keys s) (set (calling (xs @ ys))) (set (closing (xs @ ys))) (set (armed s)) (set (due s)) (set (opened s))" using assms(1,2) by (simp add: timers_ok_def)
  consider f where "fd \<in> set (due s)" "sm_find fd (timeFunc s) = Some f" "t = Calling fd fds" "u = s \<lparr> due := removeAll fd (due s), called := called s @ [f] \<rparr>"
    | "fd \<notin> set (due s)" "fd \<in> set (opened s)" "t = Blocked" "u = s"
    | "t = Handling fds" "u = s"
    using assms(4,5) by (auto simp: OnTime_read_def cm_Find_def split: option.splits if_splits)
  then show ?thesis
  proof cases
    case 1
    then have "fd \<in> keys s" unfolding keys_def by (metis option.distinct(1) sm_find_None_iff)
    from books_call [OF old 1(1) this] show ?thesis using assms(1,2) 1 by (auto simp: timers_ok_def keys_def posting_fds_def)
  next
    case 2
    with old assms(3) have "fd \<in> set (calling (xs @ ys)) \<union> set (closing (xs @ ys))" by (auto simp: books_def)
    from unblocked [OF this] show ?thesis using timers_ok_thread [OF assms(1,2), of "[Blocked]"] 2 by simp
  next
    case 3
    then show ?thesis using timers_ok_thread [OF assms(1,2), of "[Handling fds]"] by simp
  qed
qed

lemma timers_ok_returned:
  assumes "timers_ok s" "threads s = xs @ Calling fd fds # ys"
  shows "timers_ok (OnTime_erase fd (s \<lparr> threads := xs @ Closing fd fds # ys \<rparr>))"
proof -
  have once: "fd \<notin> set (calling (xs @ ys))" using assms by (auto simp: timers_ok_def)
  have "books (posting_fds s) (keys s) (insert fd (set (calling (xs @ ys)))) (set (closing (xs @ ys))) (set (armed s)) (set (due s)) (set (opened s))"
    using assms by (simp add: timers_ok_def)
  note erased = books_erase [OF this once]
  have "keys (OnTime_erase fd (s \<lparr> threads := xs @ Closing fd fds # ys \<rparr>)) = keys s - {fd}"
    by (auto simp: keys_def OnTime_erase_def cm_Erase_def sm_keys_erase)
  then show ?thesis using assms erased by (simp add: timers_ok_def OnTime_erase_def cm_Erase_def posting_fds_def)
qed

lemma timers_ok_closed:
  assumes "timers_ok s" "threads s = xs @ Closing fd fds # ys"
  shows "timers_ok (OnTime_close fd (s \<lparr> threads := xs @ Handling fds # ys \<rparr>))"
proof -
  have once: "fd \<notin> set (closing (xs @ ys))" using assms by (auto simp: timers_ok_def)
  have "books (posting_fds s) (keys s) (set (calling (xs @ ys))) (insert fd (set (closing (xs @ ys)))) (set (armed s)) (set (due s)) (set (opened s))"
    using assms by (simp add: timers_ok_def)
  from books_close [OF this once] show ?thesis using assms by (simp add: timers_ok_def OnTime_close_def posting_fds_def keys_def)
qed

lemma timers_ok_step:
  assumes "timer_step D s s'" "timers_ok s" "\<And>d. D d \<Longrightarrow> d \<noteq> 0" "\<not> broken s'"
  shows "timers_ok s'"
  using assms(1)
proof cases
  case (post d e func)
  then show ?thesis using timers_ok_post [OF assms(2)] assms(3) by blast
next
  case (insert xs fd f ys)
  then show ?thesis using timers_ok_insert [OF assms(2)] by simp
next
  case (expire xs fd ys)
  have "books (posting_fds s) (keys s) (set (calling (threads s))) (set (closing (threads s))) (set (xs @ ys)) (insert fd (set (due s))) (set (opened s))"
    using assms(2) expire by (intro books_expire) (auto simp: timers_ok_def)
  then show ?thesis using assms(2) expire by (simp add: timers_ok_def keys_def posting_fds_def)
next
  case (check xs ys)
  then show ?thesis using timers_ok_thread [OF assms(2) check(3), of "thread_check s"] by (auto simp: thread_check_def cm_IsEmpty_def)
next
  case (woken xs ys fds)
  then show ?thesis using timers_ok_thread [OF assms(2) woken(3), of "[Handling fds]"] by simp
next
  case (handled xs ys)
  then show ?thesis using timers_ok_thread [OF assms(2) handled(3), of "[Checking]"] by simp
next
  case (read xs fd fds ys t u)
  then show ?thesis using timers_ok_read [OF assms(2) read(3-5)] assms(4) by simp
next
  case (returned xs fd fds ys)
  then show ?thesis using timers_ok_returned [OF assms(2)] by simp
next
  case (closed xs fd fds ys)
  then show ?thesis using timers_ok_closed [OF assms(2)] by simp
qed

lemma broken_stays: "timer_step D s s' \<Longrightarrow> \<not> broken s"
  by (cases rule: timer_step.cases) auto

lemma timers_ok_reachable:
  assumes "timer_reachable D s" "\<And>d. D d \<Longrightarrow> d \<noteq> 0"
  shows "broken s \<or> timers_ok s"
  using assms(1)
proof (induction rule: timer_reachable.induct)
  case start
  show ?case by (simp add: timers_ok_def books_def no_timers_def posting_fds_def keys_def sm_keys_def)
next
  case (step s s')
  then show ?case using timers_ok_step [OF step(2) _ assms(2)] broken_stays by blast
qed

section \<open>What the timers promise\<close>

text \<open>The functions that have been accepted and not yet called.\<close>
definition pending :: "'t timers \<Rightarrow> 't multiset" where
  "pending s = image_mset snd (filter_mset (\<lambda>x. fst x \<notin> set (calling (threads s))) (mset (timeFunc s)))"

text \<open>C5. If delays are positive, then in every reachable state in which no empty function was called, every function in the map has its own open timer,
  which is armed or has expired unless a thread is just calling the function; every other open timer belongs to a post that is not finished or is about to
  be closed; and while
  the map holds a function, there is a thread that does not hang.\<close>
theorem alarms_served:
  assumes "timer_reachable D s" "\<And>d. D d \<Longrightarrow> d \<noteq> 0" "\<not> broken s"
  shows "set (opened s) = fst ` set (posting s) \<union> set (sm_keys (timeFunc s)) \<union> set (closing (threads s)) \<and> sm_ok (timeFunc s)
    \<and> (\<forall>fd. sm_count fd (timeFunc s) \<longrightarrow> (fd \<in> set (armed s) \<union> set (due s) \<longleftrightarrow> fd \<notin> set (calling (threads s))))
    \<and> (timeFunc s \<noteq> [] \<longrightarrow> (\<exists>t \<in> set (threads s). t \<noteq> Blocked))"
proof -
  have ok: "timers_ok s" using timers_ok_reachable [OF assms(1,2)] assms(3) by blast
  then have "fd \<in> set (armed s) \<union> set (due s) \<longleftrightarrow> fd \<notin> set (calling (threads s))" if "fd \<in> keys s" for fd
    using that by (auto simp: timers_ok_def books_def)
  then show ?thesis using ok by (auto simp: timers_ok_def books_def keys_def posting_fds_def sm_count_iff)
qed

lemma mset_ins: "\<not> sm_count k m \<Longrightarrow> mset (sm_ins k v m) = add_mset (k, v) (mset m)"
  by (induction m) (auto simp: sm_count_def sm_find_Cons split: if_splits)

lemma pending_insert:
  assumes "timers_ok s" "posting s = xs @ (fd, f) # ys"
  shows "pending (PostTask_insert fd f (s \<lparr> posting := xs @ ys \<rparr>)) = add_mset f (pending s)"
proof -
  have fd: "fd \<notin> keys s" "fd \<notin> set (calling (threads s))" using assms by (auto simp: timers_ok_def books_def posting_fds_def)
  then have "\<not> sm_count fd (timeFunc s)" by (simp add: keys_def sm_count_iff)
  then show ?thesis using fd(2)
    by (auto simp: pending_def PostTask_insert_def cm_FirstInsert_def ensure_insert_new StartThread_def Let_def mset_ins)
qed

lemma pending_call:
  assumes "timers_ok s" "threads s = xs @ Handling (fd # fds) # ys" "fd \<in> set (due s)" "sm_find fd (timeFunc s) = Some f"
  shows "pending s = add_mset f (pending (s \<lparr> due := d, called := c, threads := xs @ Calling fd fds # ys \<rparr>))"
proof -
  obtain as bs where m: "timeFunc s = as @ (fd, f) # bs" using sm_find_SomeD [OF assms(4)] by (auto simp: in_set_conv_decomp)
  have "distinct (map fst (timeFunc s))" using assms(1) by (simp add: timers_ok_def sm_ok_def sm_keys_def)
  then have "\<forall>x \<in> set (as @ bs). fst x \<noteq> fd" by (auto simp: m)
  then have others: "filter (\<lambda>x. fst x \<noteq> fd \<and> fst x \<notin> C) (as @ bs) = filter (\<lambda>x. fst x \<notin> C) (as @ bs)" for C by (intro filter_cong) auto
  have "fd \<notin> set (calling (xs @ ys))" using assms by (auto simp: timers_ok_def books_def)
  then have "mset (filter (\<lambda>x. fst x \<notin> set (calling (xs @ ys))) (timeFunc s))
      = add_mset (fd, f) (mset (filter (\<lambda>x. fst x \<noteq> fd \<and> fst x \<notin> set (calling (xs @ ys))) (timeFunc s)))"
    using others [of "set (calling (xs @ ys))"] by (simp add: m)
  then show ?thesis using assms(2) by (simp add: pending_def flip: mset_filter)
qed

lemma pending_returned: "threads s = xs @ Calling fd fds # ys \<Longrightarrow> pending (OnTime_erase fd (s \<lparr> threads := xs @ Closing fd fds # ys \<rparr>)) = pending s"
  by (auto simp: pending_def OnTime_erase_def cm_Erase_def sm_erase_def conj_commute simp flip: mset_filter intro!: arg_cong [of _ _ "image_mset snd"] arg_cong [of _ _ mset] filter_cong)

text \<open>C23. Seen from outside the timers are a bag of functions: with positive delays every step from a reachable state that calls no empty function either
  leaves the bag and the calls alone, or adds one function, or takes one function out of the bag and calls it. So an accepted function is called
  at most once, and nothing else is called, however many threads there are.\<close>
theorem alarms_refine_bag:
  assumes "timer_reachable D s" "\<And>d. D d \<Longrightarrow> d \<noteq> 0" "timer_step D s s'" "\<not> broken s'"
  shows "(pending s' = pending s \<and> called s' = called s) \<or> (\<exists>f. pending s' = add_mset f (pending s) \<and> called s' = called s)
    \<or> (\<exists>f. pending s = add_mset f (pending s') \<and> called s' = called s @ [f])"
proof -
  have ok: "timers_ok s" using timers_ok_reachable [OF assms(1,2)] broken_stays [OF assms(3)] by blast
  show ?thesis
    using assms(3)
  proof cases
    case (post d e func)
    then show ?thesis by (auto simp: PostTask_arm_def pending_def Let_def split: option.splits)
  next
    case (insert xs fd f ys)
    then have "called s' = called s" by (simp add: PostTask_insert_def StartThread_def Let_def split_beta)
    with pending_insert [OF ok insert(3)] insert(1) show ?thesis by blast
  next
    case (check xs ys)
    then show ?thesis by (simp add: pending_def thread_check_def)
  next
    case (read xs fd fds ys t u)
    show ?thesis
    proof (cases "fd \<in> set (due s)")
      case True
      then obtain f where f: "sm_find fd (timeFunc s) = Some f" "t = Calling fd fds" "u = s \<lparr> due := removeAll fd (due s), called := called s @ [f] \<rparr>"
        using read assms(4) by (auto simp: OnTime_read_def cm_Find_def split: option.splits)
      show ?thesis using pending_call [OF ok read(3) True f(1), where d = "removeAll fd (due s)" and c = "called s @ [f]"] read(1) f(2,3) by auto
    next
      case False
      then show ?thesis using read by (auto simp: OnTime_read_def pending_def split: if_splits)
    qed
  next
    case (returned xs fd fds ys)
    then show ?thesis using pending_returned [OF returned(3)] by (simp add: OnTime_erase_def)
  next
    case (closed xs fd fds ys)
    then show ?thesis by (simp add: OnTime_close_def pending_def)
  qed (auto simp: pending_def)
qed

section \<open>Two threads\<close>

lemma blocked_stays: "(timer_step D)\<^sup>*\<^sup>* s s' \<Longrightarrow> Blocked \<in> set (threads s) \<Longrightarrow> Blocked \<in> set (threads s')"
proof (induction rule: rtranclp_induct)
  case (step y z)
  from step(2) step(3,4) show ?case
    by (cases rule: timer_step.cases)
      (auto simp: PostTask_arm_def PostTask_insert_def StartThread_def OnTime_read_def OnTime_erase_def OnTime_close_def Let_def split_beta split: option.splits if_splits)
qed

definition alarm_kernel :: timer_kernel where "alarm_kernel = \<lparr> tk_alarm = (\<lambda>_. 3), tk_monotonic = -1, tk_add = True, tk_settime = True \<rparr>"

text \<open>States of a run with one timer at a time, which has descriptor 3.\<close>
definition tstate :: "(nat, 't) smap \<Rightarrow> nat list \<Rightarrow> nat list \<Rightarrow> nat list \<Rightarrow> (nat \<times> 't) list \<Rightarrow> timer_thread list \<Rightarrow> 't list \<Rightarrow> 't timers" where
  "tstate F Q A U P ts cs = \<lparr> timeFunc = F, opened = Q, armed = A, due = U, posting = P, threads = ts, called = cs, broken = False \<rparr>"

lemma tstate_posted:
  assumes "timer_reachable (\<lambda>d. d > 0) (tstate [] [] [] [] [] ts cs)"
  shows "timer_reachable (\<lambda>d. d > 0) (tstate [(3, f)] [3] [] [3] [] (ts @ [Checking]) cs)"
proof -
  have desc: "timer_descriptor alarm_kernel = 3" by code_simp
  have "timer_reachable (\<lambda>d. d > 0) (tstate [] [3] [3] [] [(3, f)] ts cs)"
    using timer_reachable.step [OF assms timer_step.post [of _ _ 1 alarm_kernel "Some f"]] desc
    by (simp add: tstate_def PostTask_arm_def Let_def) (simp add: alarm_kernel_def)
  from timer_reachable.step [OF this timer_step.insert [of _ "[]" 3 f "[]"]]
  have "timer_reachable (\<lambda>d. d > 0) (tstate [(3, f)] [3] [3] [] [] (ts @ [Checking]) cs)"
    by (simp add: tstate_def PostTask_insert_def cm_FirstInsert_def cm_IsEmpty_def cm_EnsureInsert_def cm_Insert_def StartThread_def)
  from timer_reachable.step [OF this timer_step.expire [of _ "[]" 3 "[]"]] show ?thesis by (simp add: tstate_def)
qed

lemma tstate_woken:
  assumes "timer_reachable (\<lambda>d. d > 0) (tstate [(3, f)] [3] [] [3] [] (xs @ Checking # ys) cs)"
  shows "timer_reachable (\<lambda>d. d > 0) (tstate [(3, f)] [3] [] [3] [] (xs @ Handling [3] # ys) cs)"
proof -
  from timer_reachable.step [OF assms timer_step.check [of _ xs ys]]
  have "timer_reachable (\<lambda>d. d > 0) (tstate [(3, f)] [3] [] [3] [] (xs @ Waiting # ys) cs)" by (simp add: tstate_def thread_check_def cm_IsEmpty_def)
  from timer_reachable.step [OF this timer_step.woken [of _ xs ys "[3]"]] show ?thesis by (simp add: tstate_def)
qed

lemma tstate_called:
  assumes "timer_reachable (\<lambda>d. d > 0) (tstate [(3, f)] [3] [] [3] [] (xs @ Handling [3] # ys) cs)"
  shows "timer_reachable (\<lambda>d. d > 0) (tstate [(3, f)] [3] [] [] [] (xs @ Calling 3 [] # ys) (cs @ [f]))"
  using timer_reachable.step [OF assms timer_step.read [of _ xs 3 "[]" ys]] by (simp add: tstate_def OnTime_read_def cm_Find_def sm_find_Cons)

lemma tstate_idle:
  assumes "timer_reachable (\<lambda>d. d > 0) (tstate [(3, f)] [3] [] [] [] (xs @ Calling 3 [] # ys) cs)"
  shows "timer_reachable (\<lambda>d. d > 0) (tstate [] [] [] [] [] (xs @ Checking # ys) cs)"
proof -
  from timer_reachable.step [OF assms timer_step.returned [of _ xs 3 "[]" ys]]
  have "timer_reachable (\<lambda>d. d > 0) (tstate [] [3] [] [] [] (xs @ Closing 3 [] # ys) cs)" by (simp add: tstate_def OnTime_erase_def cm_Erase_def sm_erase_def)
  from timer_reachable.step [OF this timer_step.closed [of _ xs 3 "[]" ys]]
  have "timer_reachable (\<lambda>d. d > 0) (tstate [] [] [] [] [] (xs @ Handling [] # ys) cs)" by (simp add: tstate_def OnTime_close_def)
  from timer_reachable.step [OF this timer_step.handled [of _ xs ys]] show ?thesis by (simp add: tstate_def)
qed

definition two_threads :: "nat timers" where "two_threads = tstate [(3, 2)] [3] [] [] [] [Calling 3 [], Blocked] [1, 2]"

lemma two_threads_reachable: "timer_reachable (\<lambda>d. d > 0) two_threads"
proof -
  have "timer_reachable (\<lambda>d. d > 0) (tstate [] [] [] [] [] [] ([] :: nat list))" using timer_reachable.start by (simp add: no_timers_def tstate_def)
  from tstate_posted [OF this, of 1] have "timer_reachable (\<lambda>d. d > 0) (tstate [(3, 1)] [3] [] [3] [] ([] @ Checking # []) ([] :: nat list))" by simp
  from tstate_posted [OF tstate_idle [OF tstate_called [OF tstate_woken [OF this]]], of 2]
  have "timer_reachable (\<lambda>d. d > 0) (tstate [(3, 2)] [3] [] [3] [] ([] @ Checking # [Checking]) [1 :: nat])" by simp
  from tstate_woken [OF this] have "timer_reachable (\<lambda>d. d > 0) (tstate [(3, 2)] [3] [] [3] [] ([Handling [3]] @ Checking # []) [1 :: nat])" by simp
  from tstate_woken [OF this] have "timer_reachable (\<lambda>d. d > 0) (tstate [(3, 2)] [3] [] [3] [] ([] @ Handling [3] # [Handling [3]]) [1 :: nat])" by simp
  from tstate_called [OF this] have "timer_reachable (\<lambda>d. d > 0) (tstate [(3, 2)] [3] [] [] [] [Calling 3 [], Handling [3]] [1 :: nat, 2])" by simp
  from timer_reachable.step [OF this timer_step.read [of _ "[Calling 3 []]" 3 "[]" "[]"]] show ?thesis
    by (simp add: tstate_def two_threads_def OnTime_read_def)
qed

text \<open>C39. The map is tested for emptiness by a thread that ends and by a post that starts one, at different times: a post between the last removal and the
  test starts a second thread while the first goes on. Both can be woken by the same timer; then one of them hangs in \<^verbatim>\<open>read\<close> for ever.\<close>
theorem alarm_thread_hangs:
  "\<exists>s :: nat timers. timer_reachable (\<lambda>d. d > 0) s \<and> \<not> broken s \<and> length (threads s) = 2 \<and> Blocked \<in> set (threads s) \<and>
    (\<forall>s'. (timer_step (\<lambda>d. d > 0))\<^sup>*\<^sup>* s s' \<longrightarrow> Blocked \<in> set (threads s'))"
  using two_threads_reachable blocked_stays [of _ two_threads]
  by (intro exI [of _ two_threads]) (auto simp: two_threads_def tstate_def)

theorem alarms_served_witness: "\<exists>t \<in> set (threads two_threads). t \<noteq> Blocked"
  using alarms_served [OF two_threads_reachable] by (simp add: two_threads_def tstate_def)

theorem alarms_refine_bag_witness: "\<exists>s' :: nat timers. threads s' = [Closing 3 [], Blocked] \<and>
    ((pending s' = pending two_threads \<and> called s' = called two_threads) \<or> (\<exists>f. pending s' = add_mset f (pending two_threads) \<and> called s' = called two_threads)
    \<or> (\<exists>f. pending two_threads = add_mset f (pending s') \<and> called s' = called two_threads @ [f]))"
proof -
  let ?s = "OnTime_erase 3 (two_threads \<lparr> threads := [] @ Closing 3 [] # [Blocked] \<rparr>)"
  have step: "timer_step (\<lambda>d. d > 0) two_threads ?s" by (rule timer_step.returned) (simp_all add: two_threads_def tstate_def)
  have "\<not> broken ?s" "threads ?s = [Closing 3 [], Blocked]" by (simp_all add: two_threads_def tstate_def OnTime_erase_def)
  with alarms_refine_bag [OF two_threads_reachable _ step] show ?thesis by (intro exI [of _ ?s]) auto
qed

theorem alarm_thread_hangs_witness: "\<exists>s :: nat timers. timer_reachable (\<lambda>d. d > 0) s \<and> length (threads s) = 2 \<and> Blocked \<in> set (threads s)"
  using alarm_thread_hangs by blast

end
