(* ===== verification/Peer_Process.thy ===== *)
theory Peer_Process
  imports Parse_Util
begin

text \<open>
  The helpers of \<^verbatim>\<open>system_ability_manager_util.cpp\<close> that read process information: the name in a command line, the process a thread waits for in the
  transaction list of the binder driver, and the stop of that process when a call to it takes too long. The files of \<^verbatim>\<open>/proc\<close>, \<^verbatim>\<open>SplitStr\<close> and init are
  arguments; \<open>None\<close> is a file that cannot be opened.
\<close>

definition GetProcessNameFromCmdline :: "string option \<Rightarrow> string" where
  "GetProcessNameFromCmdline cmdline = (case cmdline of None \<Rightarrow> []
     | Some text \<Rightarrow> filename (takeWhile (\<lambda>c. c \<noteq> CHR 0x00) text))"

definition ParseRemoteSaName :: "env \<Rightarrow> (string \<Rightarrow> string list) \<Rightarrow> u16string \<Rightarrow> string \<times> u16string \<Rightarrow> string \<times> u16string" where
  "ParseRemoteSaName e splitter name out = (case splitter (e_str16to8 e name) of [dev, sa] \<Rightarrow> (dev, e_str8to16 e sa) | _ \<Rightarrow> out)"

definition CheckDistributedPermission :: "env \<Rightarrow> bool" where
  "CheckDistributedPermission e \<longleftrightarrow> e_callingUid e = 0 \<or> e_callingUid e = 1000"

definition MIN_WAIT_NUM :: int where "MIN_WAIT_NUM = 60"
definition INIT_PID :: int where "INIT_PID = 1"
definition MAX_STRLIST_SIZE :: nat where "MAX_STRLIST_SIZE = 7"

text \<open>\<^verbatim>\<open>while (lineStream >> tmpstr)\<close>: the words of a line.\<close>
function line_words :: "string \<Rightarrow> string list" where
  "line_words s = (let t = dropWhile is_blank s in
     if t = [] then [] else takeWhile (\<lambda>c. \<not> is_blank c) t # line_words (dropWhile (\<lambda>c. \<not> is_blank c) t))"
  by pat_completeness auto
termination
proof (relation "measure length", goal_cases)
  case (2 s t)
  then obtain c cs where t: "t = c # cs" by (meson neq_Nil_conv)
  have "\<not> is_blank c" using 2 t by (metis dropWhile_eq_Cons_conv)
  then have "length (dropWhile (\<lambda>c. \<not> is_blank c) t) \<le> length cs" by (simp add: t length_dropWhile_le)
  also have "\<dots> < length s" using length_dropWhile_le [of is_blank s] 2(1) t by (metis Suc_le_lessD length_Cons)
  finally show ?case by simp
qed simp

declare line_words.simps [simp del]

definition split_phase :: "(string \<Rightarrow> string list) \<Rightarrow> string \<Rightarrow> nat \<Rightarrow> string" where
  "split_phase colon s i = (if i < length (colon s) then colon s ! i else [])"

text \<open>A line that names a waiting call of the thread: the process it waits for.\<close>
definition waiting_for :: "(string \<Rightarrow> string list) \<Rightarrow> string list \<Rightarrow> int \<Rightarrow> int \<Rightarrow> int option" where
  "waiting_for colon strList pid1 tid = (let client = split_phase colon (strList ! 0) 0; clientTid = split_phase colon (strList ! 0) 1;
       server = split_phase colon (strList ! 2) 0; wait = split_phase colon (strList ! 5) 1 in
     if server = [] \<or> client = [] \<or> wait = [] then None
     else if atoi client \<noteq> pid1 \<or> atoi clientTid \<noteq> tid \<or> atoi wait < MIN_WAIT_NUM then None
     else Some (atoi server))"

fun ParsePeerBinderPid :: "(string \<Rightarrow> string list) \<Rightarrow> string list \<Rightarrow> int \<Rightarrow> int \<Rightarrow> int" where
  "ParsePeerBinderPid colon [] pid1 tid = -1"
| "ParsePeerBinderPid colon (line # rest) pid1 tid =
     (if str_contains (''async'' @ [CHR 0x09]) line then ParsePeerBinderPid colon rest pid1 tid
      else let strList = line_words line in
        if length strList \<ge> MAX_STRLIST_SIZE then (case waiting_for colon strList pid1 tid of
          None \<Rightarrow> ParsePeerBinderPid colon rest pid1 tid
        | Some server \<Rightarrow> server)
        else if str_contains ''context'' line then -1
        else ParsePeerBinderPid colon rest pid1 tid)"

record kill_env =
  ke_transactions :: "string list option" \<comment> \<open>the lines of \<^verbatim>\<open>/proc/transaction_proc\<close>\<close>
  ke_colon :: "string \<Rightarrow> string list" \<comment> \<open>\<^verbatim>\<open>SplitStr(str, ":", ...)\<close>\<close>
  ke_cmdline :: "int \<Rightarrow> string option"
  ke_stop :: "string \<Rightarrow> int" \<comment> \<open>\<^verbatim>\<open>ServiceControlWithExtra\<close> with \<^verbatim>\<open>STOP\<close>\<close>

text \<open>The answer, and the service that init is asked to stop.\<close>
definition KillProcessByPid :: "kill_env \<Rightarrow> int \<Rightarrow> int \<Rightarrow> bool \<times> string option" where
  "KillProcessByPid e pid1 tid = (case ke_transactions e of
       None \<Rightarrow> (False, None)
     | Some fin \<Rightarrow> let peer = ParsePeerBinderPid (ke_colon e) fin pid1 tid in
         if peer \<le> INIT_PID \<or> peer = pid1 then (False, None)
         else let name = GetProcessNameFromCmdline (ke_cmdline e peer) in (ke_stop e name = 0, Some name))"

section \<open>Who is stopped\<close>

lemma parse_peer_found:
  assumes "ParsePeerBinderPid colon fin p tid = r" "r \<noteq> -1"
  shows "\<exists>line \<in> set fin. \<not> str_contains (''async'' @ [CHR 0x09]) line \<and> length (line_words line) \<ge> MAX_STRLIST_SIZE
    \<and> waiting_for colon (line_words line) p tid = Some r"
  using assms
proof (induction colon fin p tid rule: ParsePeerBinderPid.induct)
  case (2 colon line rest p tid)
  then show ?case by (auto simp: Let_def split: if_splits option.splits)
qed simp

lemma waiting_for_fields:
  assumes "waiting_for colon w p tid = Some server"
  shows "split_phase colon (w ! 0) 0 \<noteq> []" "atoi (split_phase colon (w ! 0) 0) = p" "atoi (split_phase colon (w ! 0) 1) = tid"
    "split_phase colon (w ! 2) 0 \<noteq> []" "server = atoi (split_phase colon (w ! 2) 0)"
    "split_phase colon (w ! 5) 1 \<noteq> []" "atoi (split_phase colon (w ! 5) 1) \<ge> 60"
  using assms by (auto simp: waiting_for_def Let_def MIN_WAIT_NUM_def split: if_splits)

text \<open>C26. A stop is asked for only for a reason in the list of transactions: a line, not one of an asynchronous call, of at least seven words, whose first
  word names exactly this process and this thread as the caller and whose sixth says that the call has waited for at least 60 seconds. The service asked to stop is
  the one in the command line of the process that the third word names, which is neither init nor the service itself, and the answer is true exactly
  if init accepts the stop. Without a stop the answer is false.\<close>
theorem kill_needs_waiting_call:
  "case snd (KillProcessByPid e p tid) of
     None \<Rightarrow> \<not> fst (KillProcessByPid e p tid)
   | Some name \<Rightarrow> (fst (KillProcessByPid e p tid) \<longleftrightarrow> ke_stop e name = 0) \<and>
      (\<exists>fin line. ke_transactions e = Some fin \<and> line \<in> set fin \<and> \<not> str_contains (''async'' @ [CHR 0x09]) line \<and>
       (let w = line_words line; part = split_phase (ke_colon e); server = atoi (part (w ! 2) 0)
        in length w \<ge> 7 \<and> part (w ! 0) 0 \<noteq> [] \<and> atoi (part (w ! 0) 0) = p \<and> atoi (part (w ! 0) 1) = tid
         \<and> part (w ! 5) 1 \<noteq> [] \<and> atoi (part (w ! 5) 1) \<ge> 60
         \<and> part (w ! 2) 0 \<noteq> [] \<and> server > 1 \<and> server \<noteq> p \<and> name = GetProcessNameFromCmdline (ke_cmdline e server)))"
proof (cases "snd (KillProcessByPid e p tid)")
  case None
  then show ?thesis by (auto simp: KillProcessByPid_def Let_def split: option.splits if_splits)
next
  case (Some name)
  then obtain fin where fin: "ke_transactions e = Some fin" by (auto simp: KillProcessByPid_def split: option.splits)
  let ?r = "ParsePeerBinderPid (ke_colon e) fin p tid"
  have r: "?r > 1" "?r \<noteq> p" "name = GetProcessNameFromCmdline (ke_cmdline e ?r)" "fst (KillProcessByPid e p tid) \<longleftrightarrow> ke_stop e name = 0"
    using Some fin by (auto simp: KillProcessByPid_def Let_def INIT_PID_def split: if_splits)
  obtain line where line: "line \<in> set fin" "\<not> str_contains (''async'' @ [CHR 0x09]) line" "length (line_words line) \<ge> 7"
    "waiting_for (ke_colon e) (line_words line) p tid = Some ?r"
    using parse_peer_found [of "ke_colon e" fin p tid ?r] r(1) by (auto simp: MAX_STRLIST_SIZE_def)
  note fields = waiting_for_fields [OF line(4)]
  note server = r(1-3) [unfolded fields(5)]
  show ?thesis unfolding Some option.case Let_def using fin line(1-3) fields(1-4,6,7) server r(4) by blast
qed

definition sample_kill :: kill_env where
  "sample_kill = \<lparr> ke_transactions = Some [''42:43 to 77:78 code 5 wait:61 s''], ke_colon = (\<lambda>s. [takeWhile (\<lambda>c. c \<noteq> CHR '':'') s, drop 1 (dropWhile (\<lambda>c. c \<noteq> CHR '':'') s)]),
     ke_cmdline = (\<lambda>_. Some ''/system/bin/foo''), ke_stop = (\<lambda>_. 0) \<rparr>"

text \<open>A stop happens: the thread has waited for 61 seconds.\<close>
lemma sample_stopped: "KillProcessByPid sample_kill 42 43 = (True, Some ''foo'')"
  by code_simp

end
