(* ===== verification/Local_Commands.thy ===== *)
theory Local_Commands
  imports Remote_Calls
begin

text \<open>
  The commands of \<^verbatim>\<open>local_ability_manager_proxy.cpp\<close> that carry a file descriptor or go to an ext, the proxy of the old service registry in
  \<^verbatim>\<open>service_registry.cpp\<close>, and the cached objects of the client library. The stub that receives a command belongs to the ability framework; what
  the proxies need beside \<open>ipc_ops\<close> is a second record.
\<close>

section \<open>Commands to a process\<close>

record 'p command_ops =
  WriteFileDescriptor :: "int \<Rightarrow> 'p \<Rightarrow> bool \<times> 'p"
  INVALID_DATA :: int \<comment> \<open>two codes of \<^verbatim>\<open>ipc_types.h\<close>\<close>
  OBJECT_NULL :: int

text \<open>\<^verbatim>\<open>IpcStatCmdProc\<close> and \<^verbatim>\<open>FfrtStatCmdProc\<close> are the same function but for their code.\<close>
definition stat_command :: "'p ipc_ops \<Rightarrow> 'p command_ops \<Rightarrow> ('p, 'w) remote option \<Rightarrow> SafwkInterfaceCode \<Rightarrow> int \<Rightarrow> int \<Rightarrow> ('w, bool) state" where
  "stat_command P F R code fd cmd = with_parcels P (
     with_local P R False (\<lambda>iro.
     write_or (on_data (WriteFileDescriptor F fd)) False (
     write_or (on_data (WriteInt32 P cmd)) False (
     safwk_send P iro code TF_SYNC False (
     read_or (on_reply (ReadBool P)) False ret)))))"

definition px_IpcStatCmdProc :: "'p ipc_ops \<Rightarrow> 'p command_ops \<Rightarrow> ('p, 'w) remote option \<Rightarrow> int \<Rightarrow> int \<Rightarrow> ('w, bool) state" where
  "px_IpcStatCmdProc P F R fd cmd = stat_command P F R IPC_STAT_CMD fd cmd"

definition px_FfrtStatCmdProc :: "'p ipc_ops \<Rightarrow> 'p command_ops \<Rightarrow> ('p, 'w) remote option \<Rightarrow> int \<Rightarrow> int \<Rightarrow> ('w, bool) state" where
  "px_FfrtStatCmdProc P F R fd cmd = stat_command P F R FFRT_STAT_CMD fd cmd"

definition PrepareData :: "'p ipc_ops \<Rightarrow> int \<Rightarrow> string \<Rightarrow> ('p, 'w, bool) C" where
  "PrepareData P said ext =
     write_or (on_data (WriteInterfaceToken P LOCAL_ABILITY_MANAGER_INTERFACE_TOKEN)) False (
     write_or (on_data (WriteInt32 P said)) False (
     write_or (on_data (WriteString P ext)) False (ret True)))"

text \<open>\<^verbatim>\<open>SystemAbilityExtensionPara\<close>: what it writes into the request and what it takes from the reply, \<open>None\<close> if it returns false.\<close>
record ('p, 'b) extension_para =
  InputParaSet :: "'p \<Rightarrow> bool \<times> 'p"
  OutputParaGet :: "'p \<Rightarrow> 'b option \<times> 'p"

text \<open>The code and what the parameter object took from the reply.\<close>
definition px_SystemAbilityExtProc ::
  "'p ipc_ops \<Rightarrow> 'p command_ops \<Rightarrow> ('p, 'w) remote option \<Rightarrow> string \<Rightarrow> int \<Rightarrow> ('p, 'b) extension_para option \<Rightarrow> bool \<Rightarrow> ('w, int \<times> 'b option) state" where
  "px_SystemAbilityExtProc P F R ext said callback isAsync = with_parcels P (
     let invalid = (INVALID_DATA F, None) in
     check_or (\<not> said \<le> 0) invalid (
     check_or (ext \<noteq> []) invalid (
     with_remote R (OBJECT_NULL F, None) (\<lambda>iro.
     write_or (PrepareData P said ext) invalid (
     write_or (case callback of None \<Rightarrow> ret True | Some c \<Rightarrow> on_data (InputParaSet c)) invalid (do {
       status \<leftarrow> SendRequest iro (safwk_code SYSTEM_ABILITY_EXT) (if isAsync then TF_ASYNC else TF_SYNC);
       check_or (status = OK P) (status, None) (
         if isAsync then ret (OK P, None)
         else case callback of
           None \<Rightarrow> ret (OK P, None)
         | Some c \<Rightarrow> read_or (on_reply (OutputParaGet c)) invalid (\<lambda>b. ret (OK P, Some b))) }))))))"

definition px_ServiceControlCmd :: "'p ipc_ops \<Rightarrow> 'p command_ops \<Rightarrow> ('p, 'w) remote option \<Rightarrow> int \<Rightarrow> int \<Rightarrow> u16string list \<Rightarrow> ('w, int) state" where
  "px_ServiceControlCmd P F R fd said args = with_parcels P (
     check_or (\<not> said \<le> 0) (INVALID_DATA F) (
     with_remote R (OBJECT_NULL F) (\<lambda>iro.
     write_or (on_data (WriteInterfaceToken P LOCAL_ABILITY_MANAGER_INTERFACE_TOKEN)) (INVALID_DATA F) (
     write_or (on_data (WriteInt32 P said)) (INVALID_DATA F) (
     write_or (on_data (WriteFileDescriptor F fd)) (INVALID_DATA F) (
     write_or (on_data (WriteString16Vector P args)) (INVALID_DATA F) (
     SendRequest iro (safwk_code SERVICE_CONTROL_CMD) TF_SYNC)))))))"

section \<open>The service registry\<close>

definition MASK :: int where "MASK = 0x100"
definition INTERFACE_TOKEN :: int where "INTERFACE_TOKEN = 0"
definition SLEEP_TIME :: nat where "SLEEP_TIME = 1"
definition SR_RETRY_TIMES :: nat where "SR_RETRY_TIMES = 10"
definition CHECK_SERVICE_TRANSACTION :: nat where "CHECK_SERVICE_TRANSACTION = 2"
definition ADD_SERVICE_TRANSACTION :: nat where "ADD_SERVICE_TRANSACTION = 3"

text \<open>\<^verbatim>\<open>WriteString16(name.data())\<close> writes the name up to its first null character; the descriptor of the interface is empty.\<close>
definition registry_header :: "'p ipc_ops \<Rightarrow> u16string \<Rightarrow> 'a \<Rightarrow> ('p, 'w, 'a) C \<Rightarrow> ('p, 'w, 'a) C" where
  "registry_header P name e k =
     write_or (on_data (WriteInt32 P MASK)) e (
     write_or (on_data (WriteInt32 P INTERFACE_TOKEN)) e (
     write_or (on_data (WriteString16 P [])) e (
     write_or (on_data (WriteString16 P (takeWhile (\<lambda>c. c \<noteq> 0) name))) e k)))"

definition CheckService :: "'p ipc_ops \<Rightarrow> ('p, 'w) remote option \<Rightarrow> u16string \<Rightarrow> ('w, obj option) state" where
  "CheckService P R name = with_parcels P (
     registry_header P name None (
     with_remote R None (\<lambda>remote. do {
       status \<leftarrow> SendRequest remote CHECK_SERVICE_TRANSACTION TF_SYNC;
       if status = OK P then on_reply (ReadRemoteObject P) else ret None })))"

definition AddService :: "'p ipc_ops \<Rightarrow> ('p, 'w) remote option \<Rightarrow> u16string \<Rightarrow> obj option \<Rightarrow> bool \<Rightarrow> int \<Rightarrow> ('w, int) state" where
  "AddService P R name svc allowIsolated dumpsysPriority = with_parcels P (
     registry_header P name (FLATTEN_OBJECT P) (
     write_or (on_data (WriteRemoteObject P svc)) (FLATTEN_OBJECT P) (
     write_or (on_data (WriteInt32 P (if allowIsolated then 1 else 0))) (FLATTEN_OBJECT P) (
     write_or (on_data (WriteInt32 P dumpsysPriority)) (FLATTEN_OBJECT P) (
     with_remote R (INVALID_OPERATION P) (\<lambda>remote. SendRequest remote ADD_SERVICE_TRANSACTION TF_SYNC))))))"

text \<open>The seconds spent in \<^verbatim>\<open>sleep\<close> and the other side.\<close>
record 'w patient =
  seconds :: nat
  other :: 'w

definition ask_other :: "('w, 'a) state \<Rightarrow> ('w patient, 'a) state" where
  "ask_other m = State (\<lambda>s. (eval_st m (other s), s \<lparr> other := exec m (other s) \<rparr>))"

text \<open>\<^verbatim>\<open>while (retry--)\<close>, by the value of \<^verbatim>\<open>retry\<close>.\<close>
fun get_service_loop :: "'p ipc_ops \<Rightarrow> ('p, 'w) remote option \<Rightarrow> u16string \<Rightarrow> nat \<Rightarrow> ('w patient, obj option) state" where
  "get_service_loop P R name 0 = ret None"
| "get_service_loop P R name (Suc retry) = do {
     modify (\<lambda>s. s \<lparr> seconds := seconds s + SLEEP_TIME \<rparr>);
     svc \<leftarrow> ask_other (CheckService P R name);
     case svc of Some x \<Rightarrow> ret (Some x) | None \<Rightarrow> get_service_loop P R name retry }"

definition GetService :: "'p ipc_ops \<Rightarrow> ('p, 'w) remote option \<Rightarrow> u16string \<Rightarrow> ('w patient, obj option) state" where
  "GetService P R name = do {
     svc \<leftarrow> ask_other (CheckService P R name);
     case svc of Some x \<Rightarrow> ret (Some x) | None \<Rightarrow> get_service_loop P R name SR_RETRY_TIMES }"

section \<open>The cached proxies\<close>

text \<open>\<open>ctx\<close> is \<^verbatim>\<open>IPCSkeleton::GetContextObject()\<close> and \<open>cast\<close> is \<^verbatim>\<open>iface_cast\<close>; the state is the cached proxy.\<close>
definition registry_GetInstance :: "obj option \<Rightarrow> (obj \<Rightarrow> 'i option) \<Rightarrow> ('i option, 'i option) state" where
  "registry_GetInstance ctx cast = do {
     cached \<leftarrow> gets id;
     case cached of
       Some i \<Rightarrow> ret (Some i)
     | None \<Rightarrow> (case ctx of
         None \<Rightarrow> ret None
       | Some x \<Rightarrow> do { modify (\<lambda>_. cast x); ret (cast x) }) }"

definition GetSystemAbilityManager :: "obj option \<Rightarrow> (obj \<Rightarrow> 'i option) \<Rightarrow> ('i option, 'i option) state" where
  "GetSystemAbilityManager ctx cast = do {
     cached \<leftarrow> gets id;
     case cached of
       Some i \<Rightarrow> ret (Some i)
     | None \<Rightarrow> (case ctx of
         None \<Rightarrow> ret None
       | Some x \<Rightarrow> do { modify (\<lambda>_. cast x); ret (cast x) }) }"

definition DestroySystemAbilityManagerObject :: "('i option, unit) state" where
  "DestroySystemAbilityManagerObject = modify (\<lambda>_. None)"

lemma manager_cached:
  "eval_st (GetSystemAbilityManager c cast) s = exec (GetSystemAbilityManager c cast) s"
  "s \<noteq> None \<Longrightarrow> exec (GetSystemAbilityManager c cast) s = s"
  by (auto simp: GetSystemAbilityManager_def run_simps split: option.splits)

end
