(* ===== verification/Command_Props.thy ===== *)
theory Command_Props
  imports Local_Commands Ipc_Samples
begin

text \<open>What the commands to a process and the lookups of the service registry do.\<close>

section \<open>What a command does\<close>

lemma runs_local [call_intros]:
  "parcel_laws P view \<Longrightarrow> runs view (k R) (is @ [Token LOCAL_ABILITY_MANAGER_INTERFACE_TOKEN]) qs w a is' qs' w' \<Longrightarrow>
   runs view (with_local P (Some R) e k) is qs w a is' qs' w'"
  unfolding with_local_def by (simp add: runs_write_data [OF item_writes(1)])

lemma runs_safwk:
  assumes "transports P R h" "opt \<noteq> TF_ASYNC" "runs view (h (safwk_code code)) is [] w (OK P) js rs w1" "parcel_laws P view"
    and "runs view k is rs w1 a is' qs' w'"
  shows "runs view (safwk_send P R code opt e k) is qs w a is' qs' w'"
  using assms unfolding safwk_send_def runs_def by (auto simp: run_simps transports_def Let_def write_rules(1))

text \<open>A command is answered by the process: it gets the descriptor and the command, and the caller gets its answer.\<close>
theorem stat_command_answered:
  assumes "parcel_laws P view" and "writes view (WriteFileDescriptor F fd) [d]" and "transports P R h"
    and "runs view (h (safwk_code code)) [Token LOCAL_ABILITY_MANAGER_INTERFACE_TOKEN, d, Int32 cmd] [] w (OK P) js [Bool b] w'"
  shows "eval_st (stat_command P F (Some R) code fd cmd) w = b \<and> exec (stat_command P F (Some R) code fd cmd) w = w'"
proof -
  have read: "runs view (read_or (on_reply (ReadBool P)) False ret) is [Bool b] w' b is [] w'" for "is"
    by (intro call_intros assms(1)) simp
  show ?thesis unfolding stat_command_def
    by (intro with_parcels_runs [OF assms(1)] runs_local [OF assms(1)] runs_write_data [OF assms(2)] runs_write_data [OF item_writes(2) [OF assms(1)]])
      (use assms(4) in \<open>auto intro: runs_safwk [OF assms(3) _ _ assms(1) read]\<close>)
qed

text \<open>No request leaves for an invalid identifier, for no extension, or without a remote.\<close>
theorem commands_guarded:
  "said \<le> 0 \<or> ext = [] \<or> R = None \<Longrightarrow> exec (px_SystemAbilityExtProc P F R ext said c isAsync) w = w"
  "said \<le> 0 \<or> R = None \<Longrightarrow> exec (px_ServiceControlCmd P F R fd said args) w = w"
  "exec (stat_command P F None code fd cmd) w = w"
  by (auto simp: px_SystemAbilityExtProc_def px_ServiceControlCmd_def stat_command_def with_local_def with_remote_def run_simps Let_def)

section \<open>How long a lookup waits\<close>

text \<open>The other side after \<open>k\<close> attempts.\<close>
definition after :: "'p ipc_ops \<Rightarrow> ('p, 'w) remote option \<Rightarrow> u16string \<Rightarrow> nat \<Rightarrow> 'w \<Rightarrow> 'w" where
  "after P R name k w = (exec (CheckService P R name) ^^ k) w"

lemma after_simps [simp]: "after P R name 0 w = w" "after P R name k (exec (CheckService P R name) w) = after P R name (Suc k) w"
  by (simp_all add: after_def funpow_swap1)

lemma ask_other_run [run_simps]:
  "eval_st (ask_other m) s = eval_st m (other s)" "exec (ask_other m) s = s \<lparr> other := exec m (other s) \<rparr>"
  by (simp_all add: ask_other_def run_simps)

text \<open>From the state after one failed attempt.\<close>
lemma get_service_loop_run:
  "(\<exists>k x. k < n \<and> (\<forall>i < k. eval_st (CheckService P R name) (after P R name i (other s)) = None)
      \<and> eval_st (CheckService P R name) (after P R name k (other s)) = Some x \<and> eval_st (get_service_loop P R name n) s = Some x
      \<and> exec (get_service_loop P R name n) s = \<lparr> seconds = seconds s + Suc k, other = after P R name (Suc k) (other s) \<rparr>)
   \<or> ((\<forall>i < n. eval_st (CheckService P R name) (after P R name i (other s)) = None) \<and> eval_st (get_service_loop P R name n) s = None
      \<and> exec (get_service_loop P R name n) s = \<lparr> seconds = seconds s + n, other = after P R name n (other s) \<rparr>)"
  (is "(\<exists>k x. ?found n s k x) \<or> ?failed n s")
proof (induction n arbitrary: s)
  case (Suc n)
  let ?c = "CheckService P R name"
  let ?s = "s \<lparr> seconds := Suc (seconds s), other := exec ?c (other s) \<rparr>"
  show ?case
  proof (cases "eval_st ?c (other s)")
    case None
    from Suc.IH [of ?s] show ?thesis
    proof
      assume "\<exists>k x. ?found n ?s k x"
      then obtain k x where "?found n ?s k x" by blast
      then have "?found (Suc n) s (Suc k) x" using None by (auto simp: run_simps SLEEP_TIME_def less_Suc_eq_0_disj)
      then show ?thesis by blast
    next
      assume "?failed n ?s"
      then show ?thesis using None by (auto simp: run_simps SLEEP_TIME_def less_Suc_eq_0_disj)
    qed
  next
    case (Some x)
    then have "?found (Suc n) s 0 x" by (simp add: run_simps SLEEP_TIME_def after_def)
    then show ?thesis by blast
  qed
qed (simp add: run_simps)

text \<open>A lookup that waits asks at most eleven times, once at first and then once after each second: it returns the first object it gets, after as many
  seconds as attempts have failed, or null after ten seconds and eleven failures, and it has no other effect than that of its attempts.\<close>
theorem get_service_waits:
  fixes P :: "'p ipc_ops" and R :: "('p, 'w) remote option" and s :: "'w patient" and name :: u16string
  defines "got \<equiv> \<lambda>k. eval_st (CheckService P R name) (after P R name k (other s))"
  shows "(\<exists>k \<le> 10. \<exists>x. (\<forall>i < k. got i = None) \<and> got k = Some x \<and> eval_st (GetService P R name) s = Some x
      \<and> exec (GetService P R name) s = \<lparr> seconds = seconds s + k, other = after P R name (Suc k) (other s) \<rparr>)
   \<or> ((\<forall>i \<le> 10. got i = None) \<and> eval_st (GetService P R name) s = None
      \<and> exec (GetService P R name) s = \<lparr> seconds = seconds s + 10, other = after P R name 11 (other s) \<rparr>)"
proof (cases "got 0")
  case (Some x)
  then show ?thesis by (intro disjI1 exI [of _ 0]) (simp add: got_def GetService_def run_simps after_def)
next
  case None
  let ?c = "CheckService P R name" and ?s = "s \<lparr> other := exec (CheckService P R name) (other s) \<rparr>"
  have run: "eval_st (GetService P R name) s = eval_st (get_service_loop P R name 10) ?s" "exec (GetService P R name) s = exec (get_service_loop P R name 10) ?s"
    using None by (simp_all add: got_def GetService_def run_simps SR_RETRY_TIMES_def del: get_service_loop.simps)
  have shift: "eval_st ?c (after P R name i (other ?s)) = got (Suc i)" for i by (simp add: got_def)
  have upto: "(\<forall>i < Suc k. got i = None) \<longleftrightarrow> (\<forall>i < k. got (Suc i) = None)" for k using None by (auto simp: less_Suc_eq_0_disj)
  from get_service_loop_run [of 10 P R name ?s, folded run, unfolded shift] show ?thesis
  proof (elim disjE exE)
    fix k x
    assume "k < 10 \<and> (\<forall>i < k. got (Suc i) = None) \<and> got (Suc k) = Some x \<and> eval_st (GetService P R name) s = Some x
      \<and> exec (GetService P R name) s = \<lparr> seconds = seconds ?s + Suc k, other = after P R name (Suc k) (other ?s) \<rparr>"
    then show ?thesis using upto [of k] by (intro disjI1 exI [of _ "Suc k"]) simp
  next
    assume "(\<forall>i < 10. got (Suc i) = None) \<and> eval_st (GetService P R name) s = None
      \<and> exec (GetService P R name) s = \<lparr> seconds = seconds ?s + 10, other = after P R name 10 (other ?s) \<rparr>"
    then show ?thesis using upto [of 10] by (intro disjI2) (simp add: less_Suc_eq_le)
  qed
qed

text \<open>A registry that has the service from its third request on.\<close>
definition third_time :: "(item list, nat) remote" where
  "third_time code opt p = State (\<lambda>n. ((0, if n \<ge> 2 then [Object 7] else []), Suc n))"

lemma third_check:
  "eval_st (CheckService list_ipc (Some third_time) []) n = (if n \<ge> 2 then Some 7 else None)"
  "exec (CheckService list_ipc (Some third_time) []) n = Suc n"
  by (simp_all add: CheckService_def registry_header_def with_remote_def run_simps third_time_def list_ipc_def put_item_def take_item_def sample_err_def)

lemma third_after: "after list_ipc (Some third_time) [] k n = n + k"
  by (induction k) (simp_all add: after_def third_check)

theorem get_service_waits_witness:
  "exec (GetService list_ipc (Some third_time) []) \<lparr> seconds = 0, other = 0 \<rparr> = \<lparr> seconds = 2, other = 3 \<rparr>"
proof -
  let ?s = "\<lparr> seconds = 0, other = 0 \<rparr> :: nat patient"
  have two: "(\<forall>i < k. \<not> 2 \<le> i) \<Longrightarrow> 2 \<le> k \<Longrightarrow> k = 2" for k :: nat by (metis le_neq_implies_less order_refl)
  from get_service_waits [of list_ipc "Some third_time" "[]" ?s] show ?thesis
    by (auto simp: third_check third_after split: if_splits dest!: two)
qed

end
