(* ===== verification/Rust_Wrapper.thy ===== *)
theory Rust_Wrapper
  imports Client_Cache Callbacks
begin

text \<open>
  The layer between Rust and the client library, \<^verbatim>\<open>innerkits/rust/src/cxx\<close>: \<^verbatim>\<open>system_ability_manager_wrapper.cpp\<close> and \<^verbatim>\<open>status_change_wrapper.cpp\<close>. A
  function is \<open>rs_\<close> and its name. Its argument \<open>sysm\<close> is \<^verbatim>\<open>GetSystemAbilityManager()\<close>: null, or the proxy with its \<^verbatim>\<open>Remote()\<close>. A new listener or callback
  object is an argument. Names are valid UTF-8 and UTF-16; \<open>narrow\<close> and \<open>widen\<close> convert them.
\<close>

type_synonym ('p, 'w) sysm = "('p, 'w) remote option option"

definition with_sysm :: "('p, 'w) sysm \<Rightarrow> 'a \<Rightarrow> (('p, 'w) remote option \<Rightarrow> ('s, 'a) state) \<Rightarrow> ('s, 'a) state" where
  "with_sysm sysm e k = (case sysm of None \<Rightarrow> ret e | Some R \<Rightarrow> k R)"

text \<open>A string that is passed on by \<^verbatim>\<open>data()\<close> ends at its first null character.\<close>
definition c_str :: "string \<Rightarrow> string" where "c_str s = takeWhile (\<lambda>c. c \<noteq> CHR 0x00) s"
definition c_str16 :: "u16string \<Rightarrow> u16string" where "c_str16 s = takeWhile (\<lambda>c. c \<noteq> 0) s"

definition DUMP_FLAG_PRIORITY_DEFAULT :: int where "DUMP_FLAG_PRIORITY_DEFAULT = 2 ^ 3"
definition DUMP_FLAG_PRIORITY_ALL :: int where "DUMP_FLAG_PRIORITY_ALL = 2 ^ 0 + 2 ^ 1 + 2 ^ 2 + 2 ^ 3"
definition MAX_RUST_STR_LEN :: nat where "MAX_RUST_STR_LEN = 1024"

section \<open>Lists and lookups\<close>

definition rs_ListSystemAbilitiesWithDumpFlag ::
  "'p ipc_ops \<Rightarrow> (u16string \<Rightarrow> string) \<Rightarrow> ('p, 'w) sysm \<Rightarrow> int \<Rightarrow> ('w client, string list) state" where
  "rs_ListSystemAbilitiesWithDumpFlag P narrow sysm dumpFlags = with_sysm sysm [] (\<lambda>R. do {
     names \<leftarrow> at_service (cl_ListSystemAbilities P R dumpFlags);
     ret (map (\<lambda>s. narrow (c_str16 s)) names) })"

definition rs_ListSystemAbilities :: "'p ipc_ops \<Rightarrow> (u16string \<Rightarrow> string) \<Rightarrow> ('p, 'w) sysm \<Rightarrow> ('w client, string list) state" where
  "rs_ListSystemAbilities P narrow sysm = with_sysm sysm [] (\<lambda>R. do {
     names \<leftarrow> at_service (cl_ListSystemAbilities P R DUMP_FLAG_PRIORITY_ALL);
     ret (map (\<lambda>s. narrow (c_str16 s)) names) })"

definition rs_GetContextManager :: "obj option \<Rightarrow> obj option" where "rs_GetContextManager ctx = ctx"

definition rs_GetSystemAbility :: "'p ipc_ops \<Rightarrow> query_env \<Rightarrow> ('p, 'w) sysm \<Rightarrow> int \<Rightarrow> ('w client, obj option) state" where
  "rs_GetSystemAbility P q sysm said = with_sysm sysm None (\<lambda>R. cl_GetSystemAbility P q R said)"

definition rs_CheckSystemAbility :: "'p ipc_ops \<Rightarrow> query_env \<Rightarrow> ('p, 'w) sysm \<Rightarrow> int \<Rightarrow> ('w client, obj option) state" where
  "rs_CheckSystemAbility P q sysm said = with_sysm sysm None (\<lambda>R. cl_CheckSystemAbility P q R said)"

definition rs_GetSystemAbilityWithDeviceId :: "'p ipc_ops \<Rightarrow> ('p, 'w) sysm \<Rightarrow> int \<Rightarrow> string \<Rightarrow> ('w client, obj option) state" where
  "rs_GetSystemAbilityWithDeviceId P sysm said dev = with_sysm sysm None (\<lambda>R. cl_GetSystemAbilityRemote P R said dev)"

definition rs_CheckSystemAbilityWithDeviceId :: "'p ipc_ops \<Rightarrow> ('p, 'w) sysm \<Rightarrow> int \<Rightarrow> string \<Rightarrow> ('w client, obj option) state" where
  "rs_CheckSystemAbilityWithDeviceId P sysm said dev = with_sysm sysm None (\<lambda>R. do {
     (x, _) \<leftarrow> at_service (cl_CheckSystemAbilityRemote P R said dev (OK P));
     ret x })"

definition rs_GetSystemAbilityByUserId :: "'p ipc_ops \<Rightarrow> ('p, 'w) sysm \<Rightarrow> int \<Rightarrow> int \<Rightarrow> ('w client, obj option) state" where
  "rs_GetSystemAbilityByUserId P sysm said userId = with_sysm sysm None (\<lambda>R. at_service (cl_GetSystemAbilityUser P R said userId))"

definition rs_CheckSystemAbilityByUserId :: "'p ipc_ops \<Rightarrow> ('p, 'w) sysm \<Rightarrow> int \<Rightarrow> int \<Rightarrow> ('w client, obj option) state" where
  "rs_CheckSystemAbilityByUserId P sysm said userId = with_sysm sysm None (\<lambda>R. at_service (cl_CheckSystemAbilityUser P R said userId))"

section \<open>Loads\<close>

text \<open>The blocking loads: the arguments up to \<open>reports\<close> are those of the client library.\<close>
definition rs_LoadSystemAbility ::
  "'p ipc_ops \<Rightarrow> bool \<Rightarrow> iface \<Rightarrow> (int \<times> load_report) list \<Rightarrow> ('p, 'w) sysm \<Rightarrow> int \<Rightarrow> int \<Rightarrow> ('w client, obj option) state" where
  "rs_LoadSystemAbility P extended callback reports sysm said timeout = with_sysm sysm None (\<lambda>R. do {
     (x, _) \<leftarrow> at_service (cl_LoadSystemAbilityTimeout P extended callback reports R said timeout);
     ret x })"

definition rs_LoadSystemAbilityByUserId ::
  "'p ipc_ops \<Rightarrow> bool \<Rightarrow> iface \<Rightarrow> (int \<times> load_report) list \<Rightarrow> ('p, 'w) sysm \<Rightarrow> int \<Rightarrow> int \<Rightarrow> int \<Rightarrow> ('w client, obj option) state" where
  "rs_LoadSystemAbilityByUserId P extended callback reports sysm said timeout userId = with_sysm sysm None (\<lambda>R. do {
     (x, _) \<leftarrow> at_service (cl_LoadSystemAbilityTimeoutUser P extended callback reports R said timeout userId);
     ret x })"

definition rs_LoadSystemAbilityWithCallback :: "'p ipc_ops \<Rightarrow> ('p, 'w) sysm \<Rightarrow> int \<Rightarrow> iface \<Rightarrow> ('w client, int) state" where
  "rs_LoadSystemAbilityWithCallback P sysm said callback = with_sysm sysm (-1) (\<lambda>R. at_service (cl_LoadSystemAbility P R said (Some callback)))"

definition rs_LoadSystemAbilityWithCallbackByUserId :: "'p ipc_ops \<Rightarrow> ('p, 'w) sysm \<Rightarrow> int \<Rightarrow> iface \<Rightarrow> int \<Rightarrow> ('w client, int) state" where
  "rs_LoadSystemAbilityWithCallbackByUserId P sysm said callback userId =
     with_sysm sysm (-1) (\<lambda>R. at_service (cl_LoadSystemAbilityUser P R said (Some callback) userId))"

text \<open>\<^verbatim>\<open>LoadCallbackWrapper\<close>: the two methods it overrides, and the defaults of the interface, of which the failure with a code calls the one without.\<close>
definition LoadCallbackWrapper :: "('s, unit) state \<Rightarrow> ('s, unit) state \<Rightarrow> 's load_callback" where
  "LoadCallbackWrapper on_success on_fail = \<lparr> cb_OnLoadSystemAbilitySuccess = \<lambda>_ _. on_success, cb_OnLoadSystemAbilityFail = \<lambda>_. on_fail,
     cb_OnLoadSystemAbilityFailCode = \<lambda>_ _. on_fail, cb_OnLoadSACompleteForRemote = \<lambda>_ _ _. ret () \<rparr>"

section \<open>Registration\<close>

record AddSystemAbilityConfig =
  is_distributed :: bool
  dump_flags :: int
  capability :: string
  permission :: string

text \<open>The default of the argument \<^verbatim>\<open>extraProp\<close>.\<close>
definition default_extra :: SAExtraProp where
  "default_extra = \<lparr> ep_isDistributed = False, ep_dumpFlags = DUMP_FLAG_PRIORITY_DEFAULT, ep_capability = [], ep_permission = [] \<rparr>"

text \<open>\<open>stub\<close> is the object of the new \<^verbatim>\<open>RemoteServiceStub\<close>. The properties made from the configuration are not passed on.\<close>
definition rs_AddSystemAbility :: "'p ipc_ops \<Rightarrow> (string \<Rightarrow> u16string) \<Rightarrow> ('p, 'w) sysm \<Rightarrow> int \<Rightarrow> obj \<Rightarrow> AddSystemAbilityConfig \<Rightarrow> ('w client, int) state" where
  "rs_AddSystemAbility P widen sysm said stub config = with_sysm sysm (-1) (\<lambda>R.
     let extra = \<lparr> ep_isDistributed = is_distributed config, ep_dumpFlags = dump_flags config,
       ep_capability = widen (capability config), ep_permission = widen (permission config) \<rparr>
     in cl_AddSystemAbility P R said (Some stub) default_extra)"

definition rs_RemoveSystemAbility :: "'p ipc_ops \<Rightarrow> ('p, 'w) sysm \<Rightarrow> int \<Rightarrow> ('w client, int) state" where
  "rs_RemoveSystemAbility P sysm said = with_sysm sysm (-1) (\<lambda>R. cl_RemoveSystemAbility P R said)"

definition rs_AddOnDemandSystemAbilityInfo :: "'p ipc_ops \<Rightarrow> (string \<Rightarrow> u16string) \<Rightarrow> ('p, 'w) sysm \<Rightarrow> int \<Rightarrow> string \<Rightarrow> ('w client, int) state" where
  "rs_AddOnDemandSystemAbilityInfo P widen sysm said localAbilityManagerName =
     check_or (\<not> length localAbilityManagerName > MAX_RUST_STR_LEN) (-1) (
     with_sysm sysm (-1) (\<lambda>R. at_service (cl_AddOnDemandSystemAbilityInfo P R said (widen localAbilityManagerName))))"

definition rs_UnloadSystemAbility :: "'p ipc_ops \<Rightarrow> ('p, 'w) sysm \<Rightarrow> int \<Rightarrow> ('w client, int) state" where
  "rs_UnloadSystemAbility P sysm said = with_sysm sysm (-1) (\<lambda>R. at_service (cl_UnloadSystemAbility P R said))"

definition rs_CancelUnloadSystemAbility :: "'p ipc_ops \<Rightarrow> ('p, 'w) sysm \<Rightarrow> int \<Rightarrow> ('w client, int) state" where
  "rs_CancelUnloadSystemAbility P sysm said = with_sysm sysm (-1) (\<lambda>R. at_service (cl_CancelUnloadSystemAbility P R said))"

definition rs_UnloadAllIdleSystemAbility :: "'p ipc_ops \<Rightarrow> ('p, 'w) sysm \<Rightarrow> ('w client, int) state" where
  "rs_UnloadAllIdleSystemAbility P sysm = with_sysm sysm (-1) (\<lambda>R. at_service (cl_UnloadAllIdleSystemAbility P R))"

text \<open>\<^verbatim>\<open>RemoteServiceStub\<close>: requests go to the Rust object, a dump does nothing.\<close>
definition rs_OnRemoteRequest :: "(nat \<Rightarrow> ('p, 'w, int) C) \<Rightarrow> nat \<Rightarrow> ('p, 'w, int) C" where
  "rs_OnRemoteRequest on_remote_request code = on_remote_request code"

definition rs_OnRemoteDump :: "nat \<Rightarrow> ('p, 'w, int) C" where "rs_OnRemoteDump code = ret 0"

section \<open>Subscriptions\<close>

record UnSubscribeSystemAbilityHandler =
  said_h :: int
  listener_h :: iface

text \<open>A handle comes back even if the subscription failed; the function for one user checks the result.\<close>
definition rs_SubscribeSystemAbility :: "'p ipc_ops \<Rightarrow> ('p, 'w) sysm \<Rightarrow> int \<Rightarrow> iface \<Rightarrow> ('w client, UnSubscribeSystemAbilityHandler option) state" where
  "rs_SubscribeSystemAbility P sysm said lis = with_sysm sysm None (\<lambda>R. do {
     _ \<leftarrow> at_service (cl_SubscribeSystemAbility P R said (Some lis));
     ret (Some \<lparr> said_h = said, listener_h = lis \<rparr>) })"

definition rs_SubscribeSystemAbilityByUserId ::
  "'p ipc_ops \<Rightarrow> ('p, 'w) sysm \<Rightarrow> int \<Rightarrow> iface \<Rightarrow> int \<Rightarrow> ('w client, UnSubscribeSystemAbilityHandler option) state" where
  "rs_SubscribeSystemAbilityByUserId P sysm said lis userId = with_sysm sysm None (\<lambda>R. do {
     r \<leftarrow> at_service (cl_SubscribeSystemAbilityUser P R said (Some lis) userId);
     ret (if r \<noteq> OK P then None else Some \<lparr> said_h = said, listener_h = lis \<rparr>) })"

text \<open>\<open>None\<close>: the null manager is dereferenced.\<close>
definition rs_UnSubscribe :: "'p ipc_ops \<Rightarrow> ('p, 'w) sysm \<Rightarrow> UnSubscribeSystemAbilityHandler \<Rightarrow> ('w client, unit option) state" where
  "rs_UnSubscribe P sysm h = with_sysm sysm None (\<lambda>R. do {
     _ \<leftarrow> at_service (cl_UnSubscribeSystemAbility P R (said_h h) (Some (listener_h h)));
     ret (Some ()) })"

definition rs_UnSubscribeSystemAbilityByUserId :: "'p ipc_ops \<Rightarrow> ('p, 'w) sysm \<Rightarrow> UnSubscribeSystemAbilityHandler \<Rightarrow> int \<Rightarrow> ('w client, int) state" where
  "rs_UnSubscribeSystemAbilityByUserId P sysm h userId =
     with_sysm sysm (-1) (\<lambda>R. at_service (cl_UnSubscribeSystemAbilityUser P R (said_h h) (Some (listener_h h)) userId))"

text \<open>The handle of a process subscription is its listener.\<close>
definition rs_SubscribeSystemProcess :: "'p ipc_ops \<Rightarrow> ('p, 'w) sysm \<Rightarrow> iface \<Rightarrow> ('w client, iface option) state" where
  "rs_SubscribeSystemProcess P sysm lis = with_sysm sysm None (\<lambda>R. do {
     _ \<leftarrow> at_service (cl_SubscribeSystemProcess P R (Some lis));
     ret (Some lis) })"

definition rs_SubscribeSystemProcessByUserId :: "'p ipc_ops \<Rightarrow> ('p, 'w) sysm \<Rightarrow> iface \<Rightarrow> int \<Rightarrow> ('w client, iface option) state" where
  "rs_SubscribeSystemProcessByUserId P sysm lis userId = with_sysm sysm None (\<lambda>R. do {
     r \<leftarrow> at_service (cl_SubscribeSystemProcessUser P R (Some lis) userId);
     ret (if r \<noteq> OK P then None else Some lis) })"

definition rs_UnSubscribe_process :: "'p ipc_ops \<Rightarrow> ('p, 'w) sysm \<Rightarrow> iface \<Rightarrow> ('w client, unit option) state" where
  "rs_UnSubscribe_process P sysm lis = with_sysm sysm None (\<lambda>R. do {
     _ \<leftarrow> at_service (cl_UnSubscribeSystemProcess P R (Some lis));
     ret (Some ()) })"

definition rs_UnSubscribeSystemProcessByUserId :: "'p ipc_ops \<Rightarrow> ('p, 'w) sysm \<Rightarrow> iface \<Rightarrow> int \<Rightarrow> ('w client, int) state" where
  "rs_UnSubscribeSystemProcessByUserId P sysm lis userId = with_sysm sysm (-1) (\<lambda>R. at_service (cl_UnSubscribeSystemProcessUser P R (Some lis) userId))"

section \<open>Information\<close>

definition no_process :: SystemProcessInfo where "no_process = \<lparr> spi_processName = [], spi_pid = -1, spi_uid = -1 \<rparr>"

definition rs_info :: "SystemProcessInfo \<Rightarrow> SystemProcessInfo" where
  "rs_info info = \<lparr> spi_processName = c_str (spi_processName info), spi_pid = spi_pid info, spi_uid = spi_uid info \<rparr>"

definition rs_GetSystemProcessInfo :: "'p ipc_ops \<Rightarrow> ('p, 'w) sysm \<Rightarrow> int \<Rightarrow> ('w client, SystemProcessInfo) state" where
  "rs_GetSystemProcessInfo P sysm said = with_sysm sysm (rs_info no_process) (\<lambda>R. do {
     (_, info) \<leftarrow> at_service (cl_GetSystemProcessInfo P R said no_process);
     ret (rs_info info) })"

definition rs_GetSystemProcessInfoByUserId :: "'p ipc_ops \<Rightarrow> ('p, 'w) sysm \<Rightarrow> int \<Rightarrow> int \<Rightarrow> ('w client, SystemProcessInfo) state" where
  "rs_GetSystemProcessInfoByUserId P sysm said userId = do {
     info \<leftarrow> with_sysm sysm no_process (\<lambda>R. do {
       (_, info) \<leftarrow> at_service (cl_GetSystemProcessInfoUser P R said no_process userId);
       ret info });
     ret (rs_info info) }"

definition rs_GetRunningSystemProcess :: "'p ipc_ops \<Rightarrow> ('p, 'w) sysm \<Rightarrow> ('w client, SystemProcessInfo list) state" where
  "rs_GetRunningSystemProcess P sysm = with_sysm sysm [] (\<lambda>R. do {
     (_, infos) \<leftarrow> at_service (cl_GetRunningSystemProcess P R []);
     ret infos })"

text \<open>The code and the caller's list, to which the identifiers are added.\<close>
definition rs_GetCommonEventExtraDataIdlist ::
  "'p ipc_ops \<Rightarrow> ('p, 'w) sysm \<Rightarrow> int \<Rightarrow> int list \<Rightarrow> string \<Rightarrow> ('w client, int \<times> int list) state" where
  "rs_GetCommonEventExtraDataIdlist P sysm said extraDataIdList eventName = with_sysm sysm (-1, extraDataIdList) (\<lambda>R. do {
     (r, idList) \<leftarrow> at_service (cl_GetCommonEventExtraDataIdlist P R said [] eventName);
     ret (if r \<noteq> OK P then (r, extraDataIdList) else (r, extraDataIdList @ idList)) })"

definition rs_GetOnDemandReasonExtraData :: "'p ipc_ops \<Rightarrow> ('p, 'w) sysm \<Rightarrow> int \<Rightarrow> 'p \<Rightarrow> ('w client, int \<times> 'p) state" where
  "rs_GetOnDemandReasonExtraData P sysm dataId parcel = with_sysm sysm (-1, parcel) (\<lambda>R. at_service (cl_GetOnDemandReasonExtraData P R dataId parcel))"

definition rs_SendStrategy :: "'p ipc_ops \<Rightarrow> ('p, 'w) sysm \<Rightarrow> int \<Rightarrow> int list \<Rightarrow> int \<Rightarrow> string \<Rightarrow> ('w client, int) state" where
  "rs_SendStrategy P sysm type saids level action = with_sysm sysm (-1) (\<lambda>R. at_service (cl_SendStrategy P R type saids level action))"

text \<open>\<^verbatim>\<open>SystemAbilityStatusChangeWrapper\<close> and \<^verbatim>\<open>SystemProcessStatusChangeWrapper\<close>.\<close>
record 's rust_listener =
  onAdd :: "int \<Rightarrow> string \<Rightarrow> ('s, unit) state"
  onRemove :: "int \<Rightarrow> string \<Rightarrow> ('s, unit) state"

record 's rust_process_listener =
  onStart :: "SystemProcessInfo \<Rightarrow> ('s, unit) state"
  onStop :: "SystemProcessInfo \<Rightarrow> ('s, unit) state"

definition rs_OnAddSystemAbility :: "'s rust_listener \<Rightarrow> int \<Rightarrow> string \<Rightarrow> ('s, unit) state" where
  "rs_OnAddSystemAbility l said dev = onAdd l said dev"

definition rs_OnRemoveSystemAbility :: "'s rust_listener \<Rightarrow> int \<Rightarrow> string \<Rightarrow> ('s, unit) state" where
  "rs_OnRemoveSystemAbility l said dev = onRemove l said dev"

definition rs_OnSystemProcessStarted :: "'s rust_process_listener \<Rightarrow> SystemProcessInfo \<Rightarrow> ('s, unit) state" where
  "rs_OnSystemProcessStarted l info = onStart l info"

definition rs_OnSystemProcessStopped :: "'s rust_process_listener \<Rightarrow> SystemProcessInfo \<Rightarrow> ('s, unit) state" where
  "rs_OnSystemProcessStopped l info = onStop l info"

end
