(* ===== verification/Rust_Props.thy ===== *)
theory Rust_Props
  imports Rust_Wrapper Ipc_Props
begin

text \<open>What a registration and a subscription from Rust amount to.\<close>

text \<open>C25. A registration from Rust, sent by a caller that may send requests and has the permission to register this ability, is one of an ability that is not
  distributed, whatever the configuration says: it is accepted exactly when the manager can take such an ability, and the entry is then the given
  object, not distributed; otherwise, and so for every ability whose profile is distributed, the answer is the code of an invalid value.\<close>
theorem rust_registration_result:
  fixes s :: "samgr_service client" and x :: obj and widen :: "string \<Rightarrow> u16string" and config :: AddSystemAbilityConfig
  assumes "parcel_laws P view" and "transports P R (OnRemoteRequest P dflt c (samgr_methods P e acc tid rest))"
    and "CanRequest c" "CheckAddOrRemovePermission c a"
  defines "run \<equiv> rs_AddSystemAbility P widen (Some (Some R)) a x config" and "m \<equiv> mgr (impl (service s))"
  shows "eval_st run s = (if can_add a (Some x) False m then OK P else INVALID_VALUE P)
    \<and> (can_add a (Some x) False m \<longrightarrow> sm_find a (abilityMap (mgr (impl (service (exec run s))))) = Some \<lparr> remoteObj = Some x, isDistributed = False \<rparr>)
    \<and> (profile_distributed a m \<longrightarrow> eval_st run s \<noteq> OK P)"
proof -
  have flat: "\<not> ep_isDistributed default_extra" "0 \<le> ep_dumpFlags default_extra" "ep_dumpFlags default_extra < 2 ^ 31"
    by (simp_all add: default_extra_def DUMP_FLAG_PRIORITY_DEFAULT_def)
  have run: "run = cl_AddSystemAbility P (Some R) a (Some x) default_extra" by (simp add: run_def rs_AddSystemAbility_def with_sysm_def)
  have "eval_st run s = (if can_add a (Some x) False m then OK P else INVALID_VALUE P)"
  proof (cases "CheckInputSysAbilityId a")
    case True
    have "m_AddSystemAbility (samgr_methods P e acc tid rest) a x default_extra = with_code P (AddSystemAbility e a (Some x) False)"
      using flat(1) by (simp add: samgr_methods_def)
    then show ?thesis using add_request_run [OF assms(1,2) True assms(3,4) _ flat(2,3), of x "service s"] True flat(1)
      by (simp add: run cl_AddSystemAbility_def run_simps with_code_def AddSystemAbility_result(1) m_def)
  next
    case False
    then show ?thesis by (auto simp: run cl_AddSystemAbility_def run_simps can_add_def CheckInputSysAbilityId_def)
  qed
  moreover have "sm_find a (abilityMap (mgr (impl (service (exec run s))))) = Some \<lparr> remoteObj = Some x, isDistributed = False \<rparr>"
    if "can_add a (Some x) False m"
    using remote_add_run(2) [OF assms(1-4) _ flat(2,3), of x s] flat(1) that by (simp add: run m_def AddSystemAbility_result(2))
  moreover have "INVALID_VALUE P \<noteq> OK P" using assms(1) by (simp add: parcel_laws_def)
  ultimately show ?thesis by (auto simp: can_add_def)
qed

definition sample_config :: AddSystemAbilityConfig where
  "sample_config = \<lparr> is_distributed = True, dump_flags = 1, capability = ''cap'', permission = ''perm'' \<rparr>"

theorem rust_registration_result_witness:
  "sm_find 402 (abilityMap (mgr (impl (service (exec (rs_AddSystemAbility list_ipc u16 (Some (Some (direct list_ipc sample_stub))) 402 12 sample_config)
     (sample_client (sample_service loaded))))))) = Some \<lparr> remoteObj = Some 12, isDistributed = False \<rparr>"
proof -
  have "can_add 402 (Some 12) False (mgr loaded)" by code_simp
  then show ?thesis
    using rust_registration_result [OF list_ipc_laws sample_transports sample_caller_allowed(1,2), where s = "sample_client (sample_service loaded)" and widen = u16 and a = 402 and x = 12 and config = sample_config]
    by (simp add: sample_client_def sample_service_def)
qed

text \<open>A handle of a subscription for one user exists only if the service accepted the subscription; the other function returns one for any answer.\<close>
theorem rust_handles:
  "eval_st (rs_SubscribeSystemAbilityByUserId P (Some R) a lis u) s = Some h \<Longrightarrow> eval_st (cl_SubscribeSystemAbilityUser P R a (Some lis) u) (service s) = OK P"
  "\<exists>h. eval_st (rs_SubscribeSystemAbility P (Some R) a lis) s = Some h"
  by (auto simp: rs_SubscribeSystemAbilityByUserId_def rs_SubscribeSystemAbility_def with_sysm_def run_simps split: if_splits)

end
