(* ===== verification/Cpu_Usage.thy ===== *)
theory Cpu_Usage
  imports Complex_Main Prelude "HOL-Library.Word"
begin

text \<open>
  The measurement behind the CPU monitor of \<^verbatim>\<open>common_event_collect.cpp\<close>: \<^verbatim>\<open>GetCpuTimes\<close> and \<^verbatim>\<open>GetCpuUsage\<close>. The first line of \<^verbatim>\<open>/proc/stat\<close> at the two
  readings is an argument, \<open>None\<close> if it cannot be read; times are 64-bit words, and a number that does not fit is taken modulo \<open>2 ^ 64\<close>. The float
  quotient is an argument. A local variable that is not initialised holds an arbitrary word, an argument too.
\<close>

section \<open>Reading the times\<close>

definition is_decimal :: "char \<Rightarrow> bool" where "is_decimal c \<longleftrightarrow> CHR ''0'' \<le> c \<and> c \<le> CHR ''9''"

definition digits_word :: "string \<Rightarrow> 64 word" where
  "digits_word ds = foldl (\<lambda>n c. 10 * n + of_nat (of_char c - of_char CHR ''0'' :: nat)) 0 ds"

definition is_space_char :: "char \<Rightarrow> bool" where "is_space_char c \<longleftrightarrow> c = CHR '' '' \<or> CHR 0x09 \<le> c \<and> c \<le> CHR 0x0D"

text \<open>The conversions of \<^verbatim>\<open>sscanf_s\<close>: blanks, a sign, then digits, up to \<open>n\<close> times; the first that fails ends the scan.\<close>
fun scan_numbers :: "nat \<Rightarrow> string \<Rightarrow> 64 word list" where
  "scan_numbers 0 s = []"
| "scan_numbers (Suc n) s = (let t = dropWhile is_space_char s; sign = take 1 t; u = (if sign = ''+'' \<or> sign = ''-'' then drop 1 t else t);
       ds = takeWhile is_decimal u in
     if ds = [] then [] else (if sign = ''-'' then - digits_word ds else digits_word ds) # scan_numbers n (dropWhile is_decimal u))"

definition scan_cpu_line :: "string \<Rightarrow> 64 word list" where
  "scan_cpu_line line = (if take 3 line = ''cpu'' then scan_numbers 10 (drop 3 line) else [])"

definition CPU_STAT_MIN_FIELDS :: nat where "CPU_STAT_MIN_FIELDS = 7"

definition field_or :: "64 word list \<Rightarrow> nat \<Rightarrow> 64 word \<Rightarrow> 64 word" where
  "field_or xs i d = (if i < length xs then xs ! i else d)"

text \<open>\<open>stack\<close> is what the variables hold before the scan; the result is \<^verbatim>\<open>total\<close> and \<^verbatim>\<open>idle\<close>.\<close>
definition GetCpuTimes :: "64 word \<Rightarrow> string option \<Rightarrow> (64 word \<times> 64 word) option" where
  "GetCpuTimes stack line = (case line of
       None \<Rightarrow> None
     | Some l \<Rightarrow> let xs = scan_cpu_line l; num = length xs; user = field_or xs 0 stack; nice = field_or xs 1 stack; system = field_or xs 2 stack;
         idle = field_or xs 3 stack; iowait = field_or xs 4 stack; irq = field_or xs 5 stack; softirq = field_or xs 6 stack; steal = field_or xs 7 stack;
         guest = field_or xs 8 0; guestNice = field_or xs 9 0 in
       if num < CPU_STAT_MIN_FIELDS then None
       else let sum = user + nice + system + idle + iowait + irq + softirq + steal in
         Some (if num > CPU_STAT_MIN_FIELDS then sum + (guest + guestNice) else sum, idle))"

section \<open>The usage\<close>

definition MAX_U64 :: "64 word" where "MAX_U64 = - 1"

definition cpu_delta :: "64 word \<Rightarrow> 64 word \<Rightarrow> 64 word" where
  "cpu_delta pre cur = (if cur \<ge> pre then cur - pre else MAX_U64 - pre + cur)"

text \<open>\<open>None\<close> is \<^verbatim>\<open>CPU_LOAD_INVALID\<close>; otherwise the two numbers of the quotient.\<close>
definition cpu_fraction :: "(64 word \<times> 64 word) option \<Rightarrow> (64 word \<times> 64 word) option \<Rightarrow> (64 word \<times> 64 word) option" where
  "cpu_fraction before now = (case before of None \<Rightarrow> None | Some (totalPre, idlePre) \<Rightarrow> (case now of None \<Rightarrow> None | Some (totalNow, idle) \<Rightarrow>
     let totalDelta = cpu_delta totalPre totalNow; idleDelta = cpu_delta idlePre idle in
     if totalDelta = 0 \<or> totalDelta < idleDelta then None else Some (totalDelta - idleDelta, totalDelta)))"

text \<open>\<open>fdiv\<close> is \<^verbatim>\<open>static_cast<float>(a) / b * CPU_LOAD_PERCENT\<close>. The two readings are \<open>interval\<close> seconds apart.\<close>
definition GetCpuUsage :: "(64 word \<Rightarrow> 64 word \<Rightarrow> real) \<Rightarrow> (64 word \<times> 64 word) \<Rightarrow> nat \<Rightarrow> string option \<Rightarrow> string option \<Rightarrow> real" where
  "GetCpuUsage fdiv stack interval line1 line2 = (if interval = 0 then 0
     else case cpu_fraction (GetCpuTimes (fst stack) line1) (GetCpuTimes (snd stack) line2) of
       None \<Rightarrow> 0
     | Some (a, b) \<Rightarrow> fdiv a b)"

section \<open>Bounds\<close>

lemma cpu_fraction_bounds: "cpu_fraction x y = Some (a, b) \<Longrightarrow> b \<noteq> 0 \<and> a \<le> b"
proof (cases x; cases y)
  fix p q
  assume *: "cpu_fraction x y = Some (a, b)" "x = Some p" "y = Some q"
  obtain tp ip t i where pq: "p = (tp, ip)" "q = (t, i)" by (metis surj_pair)
  let ?t = "cpu_delta tp t" and ?i = "cpu_delta ip i"
  have ab: "?t \<noteq> 0" "\<not> ?t < ?i" "a = ?t - ?i" "b = ?t" using * pq by (auto simp: cpu_fraction_def Let_def split: if_splits)
  then have "?i \<le> ?t" by simp
  then show ?thesis using ab by (simp add: word_sub_le)
qed (auto simp: cpu_fraction_def)

text \<open>Whatever the two readings are, no division by zero takes place and the usage is a percentage: with a quotient that is right for a numerator that
  is at most the denominator, the result lies between 0 and 100.\<close>
theorem cpu_usage_percentage:
  assumes "\<And>a b. b \<noteq> 0 \<Longrightarrow> a \<le> b \<Longrightarrow> 0 \<le> fdiv a b \<and> fdiv a b \<le> 100"
  shows "0 \<le> GetCpuUsage fdiv stack interval line1 line2 \<and> GetCpuUsage fdiv stack interval line1 line2 \<le> 100"
  using assms cpu_fraction_bounds by (auto simp: GetCpuUsage_def split: option.split)

text \<open>When a counter has wrapped around between the readings, the difference is one less than the time that passed.\<close>
theorem cpu_delta_wrapped: "cpu_delta pre cur = (if cur \<ge> pre then cur - pre else cur - pre - 1)"
  by (simp add: cpu_delta_def MAX_U64_def)

text \<open>With exactly seven numbers the line is accepted, and the total contains the variable that was not set.\<close>
theorem cpu_total_uninitialised:
  "GetCpuTimes stack (Some ''cpu 1 2 3 4 5 6 7'') = Some (28 + stack, 4)"
proof -
  have "scan_cpu_line ''cpu 1 2 3 4 5 6 7'' = [1, 2, 3, 4, 5, 6, 7]" by code_simp
  then show ?thesis by (simp add: GetCpuTimes_def field_or_def CPU_STAT_MIN_FIELDS_def Let_def)
qed

theorem cpu_usage_percentage_witness: "GetCpuUsage (\<lambda>a b. if a \<le> b then 50 else 101) (0, 0) 5 (Some ''cpu 1 2 3 4 5 6 7 8'') (Some ''cpu 9 2 3 6 5 6 7 8'') \<le> 100"
  using cpu_usage_percentage [of "\<lambda>a b. if a \<le> b then 50 else 101"] by simp

end
