(* ===== verification/Dfx.thy ===== *)
theory Dfx
  imports Prelude
begin

text \<open>
  The reports of \<^verbatim>\<open>services/dfx\<close>: what \<^verbatim>\<open>hisysevent_adapter.cpp\<close> writes to the system event log, compared with the declaration of the events in
  \<^verbatim>\<open>hisysevent.yaml\<close>, and the watchdog timer of \<^verbatim>\<open>samgr_xcollie.cpp\<close>. A report is the event that is handed to \<^verbatim>\<open>HiSysEventWrite\<close>, or none; its
  result is only logged.
\<close>

section \<open>Events\<close>

datatype event_type = FAULT | BEHAVIOR | STATISTIC
datatype event_value = INT32 int | UINT32 int | INT64 int | STRING string

record hisysevent =
  hse_name :: string
  hse_type :: event_type
  hse_fields :: "(string \<times> event_value) list"

definition HiSysEventWrite :: "string \<Rightarrow> event_type \<Rightarrow> (string \<times> event_value) list \<Rightarrow> hisysevent option" where
  "HiSysEventWrite name type values = Some \<lparr> hse_name = name, hse_type = type, hse_fields = values \<rparr>"

definition CONTAINER_SA_MIN :: int where "CONTAINER_SA_MIN = 0x00010500"
definition CONTAINER_SA_MAX :: int where "CONTAINER_SA_MAX = 0x0001055f"
definition SA_LOAD_DURATION_THRESHOLD_MS :: int where "SA_LOAD_DURATION_THRESHOLD_MS = 200"
definition SA_UNLOAD_DURATION_THRESHOLD_MS :: int where "SA_UNLOAD_DURATION_THRESHOLD_MS = 100"
definition PROCESS_DURATION_THRESHOLD_MS :: int where "PROCESS_DURATION_THRESHOLD_MS = 500"

definition crash_whiteList :: "int list" where
  "crash_whiteList = [1205, 1213, 1215, 9999, 65537, 65830, 65850, 65888, 69930, 131071, 345135]"

definition IsInCrashWhiteList :: "int \<Rightarrow> bool" where
  "IsInCrashWhiteList said \<longleftrightarrow> (if said \<in> set crash_whiteList then True
     else if said \<ge> CONTAINER_SA_MIN \<and> said \<le> CONTAINER_SA_MAX then True else False)"

definition ReportSaCrash :: "int \<Rightarrow> hisysevent option" where
  "ReportSaCrash said = (if IsInCrashWhiteList said then None
     else HiSysEventWrite ''SA_CRASH'' FAULT [(''SAID'', INT32 said)])"

definition ReportSaUnLoadFail :: "int \<Rightarrow> int \<Rightarrow> int \<Rightarrow> string \<Rightarrow> hisysevent option" where
  "ReportSaUnLoadFail said p uid reason = HiSysEventWrite ''SA_UNLOAD_FAIL'' FAULT
     [(''SAID'', INT32 said), (''PID'', INT32 p), (''UID'', INT32 uid), (''REASON'', STRING reason)]"

definition ReportSaDuration :: "string \<Rightarrow> int \<Rightarrow> int \<Rightarrow> int \<Rightarrow> hisysevent option" where
  "ReportSaDuration eventName said keyStage duration = (if duration \<le> 0 then None
     else HiSysEventWrite eventName BEHAVIOR [(''SAID'', INT32 said), (''KEY_STAGE'', INT32 keyStage), (''DURATION'', INT64 duration)])"

definition ReportSaMainExit :: "string \<Rightarrow> hisysevent option" where
  "ReportSaMainExit reason = HiSysEventWrite ''SA_MAIN_EXIT'' FAULT [(''REASON'', STRING reason)]"

definition ReportSaLoadDuration :: "int \<Rightarrow> int \<Rightarrow> int \<Rightarrow> hisysevent option" where
  "ReportSaLoadDuration said keyStage duration = (if duration < SA_LOAD_DURATION_THRESHOLD_MS then None
     else ReportSaDuration ''SA_LOAD_DURATION'' said keyStage duration)"

definition ReportSaUnLoadDuration :: "int \<Rightarrow> int \<Rightarrow> int \<Rightarrow> hisysevent option" where
  "ReportSaUnLoadDuration said keyStage duration = (if duration < SA_UNLOAD_DURATION_THRESHOLD_MS then None
     else ReportSaDuration ''SA_UNLOAD_DURATION'' said keyStage duration)"

definition ReportProcessDuration :: "string \<Rightarrow> string \<Rightarrow> int \<Rightarrow> int \<Rightarrow> int \<Rightarrow> hisysevent option" where
  "ReportProcessDuration eventName name p uid duration = (if duration \<le> 0 then None
     else HiSysEventWrite eventName BEHAVIOR
       [(''PROCESS_NAME'', STRING name), (''PID'', INT32 p), (''UID'', INT32 uid), (''DURATION'', INT64 duration)])"

record ProcessStartDurationInfo =
  calleeProcessName :: string
  calleePid :: int
  calleeUid :: int
  duration_ms :: int
  callingProcessName :: string
  callingPid :: int
  callingUid :: int
  calleeSaId :: int

definition ReportProcessStartDuration :: "ProcessStartDurationInfo \<Rightarrow> hisysevent option" where
  "ReportProcessStartDuration i = (if duration_ms i \<le> PROCESS_DURATION_THRESHOLD_MS then None
     else HiSysEventWrite ''PROCESS_START_DURATION'' BEHAVIOR
       [(''CALLEE_PROCESS_NAME'', STRING (calleeProcessName i)), (''CALLEE_PID'', INT32 (calleePid i)), (''CALLEE_UID'', INT32 (calleeUid i)),
        (''CALLEE_SAID'', INT32 (calleeSaId i)), (''CALLING_PROCESS_NAME'', STRING (callingProcessName i)), (''CALLING_PID'', INT32 (callingPid i)),
        (''CALLING_UID'', INT32 (callingUid i)), (''DURATION'', INT64 (duration_ms i))])"

definition ReportProcessStopDuration :: "string \<Rightarrow> int \<Rightarrow> int \<Rightarrow> int \<Rightarrow> hisysevent option" where
  "ReportProcessStopDuration name p uid duration = (if duration \<le> PROCESS_DURATION_THRESHOLD_MS then None
     else ReportProcessDuration ''PROCESS_STOP_DURATION'' name p uid duration)"

definition ReportProcessFail :: "string \<Rightarrow> string \<Rightarrow> int \<Rightarrow> int \<Rightarrow> string \<Rightarrow> hisysevent option" where
  "ReportProcessFail eventName name p uid reason = HiSysEventWrite eventName FAULT
     [(''PROCESS_NAME'', STRING name), (''PID'', INT32 p), (''UID'', INT32 uid), (''REASON'', STRING reason)]"

definition ReportProcessStartFail :: "string \<Rightarrow> int \<Rightarrow> int \<Rightarrow> string \<Rightarrow> hisysevent option" where
  "ReportProcessStartFail name p uid reason = ReportProcessFail ''PROCESS_START_FAIL'' name p uid reason"

definition ReportProcessStopFail :: "string \<Rightarrow> int \<Rightarrow> int \<Rightarrow> string \<Rightarrow> hisysevent option" where
  "ReportProcessStopFail name p uid reason = ReportProcessFail ''PROCESS_STOP_FAIL'' name p uid reason"

definition ReportSamgrSaLoadFail :: "int \<Rightarrow> int \<Rightarrow> int \<Rightarrow> string \<Rightarrow> hisysevent option" where
  "ReportSamgrSaLoadFail said p uid reason = HiSysEventWrite ''ONDEMAND_SA_LOAD_FAIL'' FAULT
     [(''SAID'', INT32 said), (''PID'', INT32 p), (''UID'', INT32 uid), (''REASON'', STRING reason)]"

record SamgrSaLoadInfo =
  sli_said :: int
  sli_callingProcessName :: string
  sli_callingPid :: int
  sli_callingUid :: int
  sli_eventId :: int
  sli_calleeProcessName :: string
  sli_calleePid :: int
  sli_calleeUid :: int

definition ReportSamgrSaLoad :: "SamgrSaLoadInfo \<Rightarrow> hisysevent option" where
  "ReportSamgrSaLoad i = HiSysEventWrite ''ONDEMAND_SA_LOAD'' BEHAVIOR
     [(''SAID'', INT32 (sli_said i)), (''CALLING_PROCESS_NAME'', STRING (sli_callingProcessName i)), (''CALLING_PID'', INT32 (sli_callingPid i)),
      (''CALLING_UID'', INT32 (sli_callingUid i)), (''EVENT'', INT32 (sli_eventId i)), (''CALLEE_PROCESS_NAME'', STRING (sli_calleeProcessName i)),
      (''CALLEE_PID'', INT32 (sli_calleePid i)), (''CALLEE_UID'', INT32 (sli_calleeUid i))]"

definition ReportSamgrSaUnload :: "int \<Rightarrow> int \<Rightarrow> int \<Rightarrow> int \<Rightarrow> hisysevent option" where
  "ReportSamgrSaUnload said p uid ev = HiSysEventWrite ''ONDEMAND_SA_UNLOAD'' BEHAVIOR
     [(''SAID'', INT32 said), (''PID'', INT32 p), (''UID'', INT32 uid), (''EVENT'', INT32 ev)]"

definition IsOpenSoWhiteList :: "int \<Rightarrow> bool" where "IsOpenSoWhiteList said \<longleftrightarrow> said \<in> set [4606]"

definition ReportAddSystemAbilityFailed :: "int \<Rightarrow> int \<Rightarrow> int \<Rightarrow> string \<Rightarrow> hisysevent option" where
  "ReportAddSystemAbilityFailed said p uid filaName = (if IsOpenSoWhiteList said then None
     else HiSysEventWrite ''ADD_SYSTEMABILITY_FAIL'' FAULT
       [(''SAID'', INT32 said), (''PID'', INT32 p), (''UID'', INT32 uid), (''FILE_NAME'', STRING filaName)])"

definition ReportGetSAFrequency :: "int \<Rightarrow> int \<Rightarrow> int \<Rightarrow> hisysevent option" where
  "ReportGetSAFrequency callerUid said count = HiSysEventWrite ''GETSA_FREQUENCY'' STATISTIC
     [(''CALLER_UID'', UINT32 callerUid), (''SAID'', UINT32 said), (''COUNT'', INT32 count)]"

definition WatchDogSendEvent :: "int \<Rightarrow> int \<Rightarrow> string \<Rightarrow> string \<Rightarrow> hisysevent option" where
  "WatchDogSendEvent p uid sendMsg eventName = HiSysEventWrite eventName FAULT
     [(''PID'', INT32 p), (''UID'', UINT32 uid), (''MSG'', STRING sendMsg)]"

definition ReportSaAbnormallyFrozen :: "int \<Rightarrow> string \<Rightarrow> string \<Rightarrow> hisysevent option" where
  "ReportSaAbnormallyFrozen said name reason = HiSysEventWrite ''SA_ABNORMALLY_FROZEN'' FAULT
     [(''SAID'', INT32 said), (''PROCESS_NAME'', STRING name), (''REASON'', STRING reason)]"

section \<open>The watchdog timer\<close>

text \<open>\<open>running\<close> holds the identifiers of the timers that are set, \<open>stops\<close> those that were cancelled.\<close>
record xcollie_timers =
  running :: "int list"
  stops :: "int list"

record SamgrXCollie =
  xc_tag :: string
  xc_id :: int
  isCanceled :: bool

text \<open>\<open>enabled\<close> is \<^verbatim>\<open>HICOLLIE_ENABLE\<close>, \<open>new_id\<close> what \<^verbatim>\<open>SetTimer\<close> returns.\<close>
definition SamgrXCollie_new :: "bool \<Rightarrow> int \<Rightarrow> string \<Rightarrow> xcollie_timers \<Rightarrow> SamgrXCollie \<times> xcollie_timers" where
  "SamgrXCollie_new enabled new_id tag x =
     (if enabled then (\<lparr> xc_tag = tag, xc_id = new_id, isCanceled = False \<rparr>, x \<lparr> running := new_id # running x \<rparr>)
      else (\<lparr> xc_tag = tag, xc_id = -1, isCanceled = False \<rparr>, x))"

definition CancelSamgrXCollie :: "bool \<Rightarrow> SamgrXCollie \<times> xcollie_timers \<Rightarrow> SamgrXCollie \<times> xcollie_timers" where
  "CancelSamgrXCollie enabled = (\<lambda>(c, x). if isCanceled c then (c, x)
     else (c \<lparr> isCanceled := True \<rparr>, if enabled then x \<lparr> running := removeAll (xc_id c) (running x), stops := stops x @ [xc_id c] \<rparr> else x))"

text \<open>The destructor cancels.\<close>
definition SamgrXCollie_delete :: "bool \<Rightarrow> SamgrXCollie \<times> xcollie_timers \<Rightarrow> xcollie_timers" where
  "SamgrXCollie_delete enabled p = snd (CancelSamgrXCollie enabled p)"

section \<open>Reports and their declaration\<close>

datatype value_type = T_INT32 | T_UINT32 | T_INT64 | T_STRING

fun type_of_value :: "event_value \<Rightarrow> value_type" where
  "type_of_value (INT32 _) = T_INT32"
| "type_of_value (UINT32 _) = T_UINT32"
| "type_of_value (INT64 _) = T_INT64"
| "type_of_value (STRING _) = T_STRING"

text \<open>\<^verbatim>\<open>hisysevent.yaml\<close>: the type of every event and of its parameters.\<close>
definition declarations :: "(string \<times> event_type \<times> (string \<times> value_type) list) list" where
  "declarations = (let i = (\<lambda>n. (n, T_INT32)); t = (\<lambda>n. (n, T_STRING)); said = i ''SAID''; p = i ''PID''; u = i ''UID''; dur = (''DURATION'', T_INT64) in
    [(''SA_MAIN_EXIT'', FAULT, [t ''REASON'']),
     (''PROCESS_STOP_DURATION'', BEHAVIOR, [t ''PROCESS_NAME'', p, u, dur]),
     (''PROCESS_START_DURATION'', BEHAVIOR, [dur, t ''CALLEE_PROCESS_NAME'', i ''CALLEE_PID'', i ''CALLEE_UID'', i ''CALLEE_SAID'',
        t ''CALLING_PROCESS_NAME'', i ''CALLING_PID'', i ''CALLING_UID'']),
     (''PROCESS_STOP_FAIL'', FAULT, [t ''PROCESS_NAME'', p, u, t ''REASON'']),
     (''PROCESS_START_FAIL'', FAULT, [t ''PROCESS_NAME'', p, u, t ''REASON'']),
     (''SA_CRASH'', FAULT, [said]),
     (''SA_LOAD_DURATION'', BEHAVIOR, [said, i ''KEY_STAGE'', dur]),
     (''SA_UNLOAD_DURATION'', BEHAVIOR, [said, i ''KEY_STAGE'', dur]),
     (''SA_UNLOAD_FAIL'', FAULT, [said, p, u, t ''REASON'']),
     (''ONDEMAND_SA_LOAD_FAIL'', FAULT, [said, p, u, t ''REASON'']),
     (''ONDEMAND_SA_LOAD'', BEHAVIOR, [said, i ''EVENT'', t ''CALLING_PROCESS_NAME'', i ''CALLING_PID'', i ''CALLING_UID'',
        t ''CALLEE_PROCESS_NAME'', i ''CALLEE_PID'', i ''CALLEE_UID'']),
     (''ONDEMAND_SA_UNLOAD'', BEHAVIOR, [said, p, u, i ''EVENT'']),
     (''GETSA_FREQUENCY'', STATISTIC, [(''CALLER_UID'', T_UINT32), (''SAID'', T_UINT32), i ''COUNT'']),
     (''ADD_SYSTEMABILITY_FAIL'', FAULT, [said, p, u, t ''FILE_NAME'']),
     (''SERVICE_BLOCK'', FAULT, [p, (''UID'', T_UINT32), t ''MSG'']),
     (''SA_ABNORMALLY_FROZEN'', FAULT, [said, t ''PROCESS_NAME'', t ''REASON''])])"

text \<open>An event is declared if its type is right and it has each declared parameter once, with the declared type, and no other.\<close>
definition declared :: "hisysevent option \<Rightarrow> bool" where
  "declared r \<longleftrightarrow> (case r of None \<Rightarrow> True | Some ev \<Rightarrow> (case map_of declarations (hse_name ev) of
       None \<Rightarrow> False
     | Some (type, params) \<Rightarrow> hse_type ev = type \<and> distinct (map fst (hse_fields ev)) \<and>
         set (map (map_prod id type_of_value) (hse_fields ev)) = set params))"

lemmas report_defs = ReportSaCrash_def ReportSaUnLoadFail_def ReportSaDuration_def ReportSaMainExit_def ReportSaLoadDuration_def ReportSaUnLoadDuration_def
  ReportProcessDuration_def ReportProcessStartDuration_def ReportProcessStopDuration_def ReportProcessFail_def ReportProcessStartFail_def
  ReportProcessStopFail_def ReportSamgrSaLoadFail_def ReportSamgrSaLoad_def ReportSamgrSaUnload_def ReportAddSystemAbilityFailed_def
  ReportGetSAFrequency_def WatchDogSendEvent_def ReportSaAbnormallyFrozen_def

lemmas declare_simps = declared_def HiSysEventWrite_def declarations_def Let_def insert_commute

text \<open>Every report of the adapter writes an event as \<^verbatim>\<open>hisysevent.yaml\<close> declares it: under a declared name, with the declared event type and exactly
  the declared parameters, each with its declared type; the watchdog does so for the one event it is declared to send.\<close>
theorem reports_declared:
  "declared (ReportSaCrash said) \<and> declared (ReportSaUnLoadFail said p uid reason) \<and> declared (ReportSaMainExit reason)
   \<and> declared (ReportSaLoadDuration said stage dur) \<and> declared (ReportSaUnLoadDuration said stage dur)
   \<and> declared (ReportProcessStartDuration info) \<and> declared (ReportProcessStopDuration name p uid dur)
   \<and> declared (ReportProcessStartFail name p uid reason) \<and> declared (ReportProcessStopFail name p uid reason)
   \<and> declared (ReportSamgrSaLoadFail said p uid reason) \<and> declared (ReportSamgrSaLoad load) \<and> declared (ReportSamgrSaUnload said p uid ev)
   \<and> declared (ReportAddSystemAbilityFailed said p uid reason) \<and> declared (ReportGetSAFrequency uid said count)
   \<and> declared (WatchDogSendEvent p uid reason ''SERVICE_BLOCK'') \<and> declared (ReportSaAbnormallyFrozen said name reason)"
  by (intro conjI) (simp_all add: report_defs declare_simps)

text \<open>When a report is written: not for the listed abilities, and only for durations from the thresholds on.\<close>
theorem reports_written:
  "ReportSaCrash said \<noteq> None \<longleftrightarrow> \<not> (said \<in> set crash_whiteList \<or> 66816 \<le> said \<and> said \<le> 66911)"
  "ReportSaLoadDuration said stage dur \<noteq> None \<longleftrightarrow> dur \<ge> 200"
  "ReportSaUnLoadDuration said stage dur \<noteq> None \<longleftrightarrow> dur \<ge> 100"
  "ReportProcessStopDuration name p uid dur \<noteq> None \<longleftrightarrow> dur > 500"
  "ReportProcessStartDuration info \<noteq> None \<longleftrightarrow> duration_ms info > 500"
  by (auto simp: report_defs HiSysEventWrite_def IsInCrashWhiteList_def CONTAINER_SA_MIN_def CONTAINER_SA_MAX_def
      SA_LOAD_DURATION_THRESHOLD_MS_def SA_UNLOAD_DURATION_THRESHOLD_MS_def PROCESS_DURATION_THRESHOLD_MS_def)

text \<open>However often a watchdog timer is cancelled during its life, it is cancelled exactly once, and no later than when its object goes.\<close>
theorem watchdog_cancelled_once:
  assumes "SamgrXCollie_new True i tag x = p"
  shows "stops (SamgrXCollie_delete True ((CancelSamgrXCollie True ^^ n) p)) = stops x @ [i]"
    and "i \<notin> set (running (SamgrXCollie_delete True ((CancelSamgrXCollie True ^^ n) p)))"
proof -
  have again: "CancelSamgrXCollie True (CancelSamgrXCollie True q) = CancelSamgrXCollie True q" for q
    by (simp add: CancelSamgrXCollie_def split: prod.splits)
  have "CancelSamgrXCollie True ((CancelSamgrXCollie True ^^ n) p) = CancelSamgrXCollie True p"
    by (induction n) (simp_all add: again)
  then show "stops (SamgrXCollie_delete True ((CancelSamgrXCollie True ^^ n) p)) = stops x @ [i]"
    and "i \<notin> set (running (SamgrXCollie_delete True ((CancelSamgrXCollie True ^^ n) p)))"
    using assms by (auto simp: SamgrXCollie_delete_def SamgrXCollie_new_def CancelSamgrXCollie_def)
qed

end
