(* ===== verification/Platform_Reports.thy ===== *)
theory Platform_Reports
  imports Dfx Multi_Props
begin

text \<open>
  What the service reports to and asks of the platform on its own: the periodic report of the access counters
  (\<^verbatim>\<open>ReportGetSAPeriodically\<close> of \<^verbatim>\<open>system_ability_manager.cpp\<close>), the parameters that \<^verbatim>\<open>system_ability_manager_util.cpp\<close> reads, and the lookup of a running
  process in the scheduler.
\<close>

section \<open>Parameters\<close>

text \<open>\<open>param\<close> holds the parameters that are set; \<open>started_text\<close> is the text of \<^verbatim>\<open>ServiceStatus::SERVICE_STARTED\<close> of init.\<close>
record platform =
  param :: "string \<Rightarrow> string option"
  bool_param :: "string \<Rightarrow> bool option"
  started_text :: string

definition GetParameter :: "platform \<Rightarrow> string \<Rightarrow> string \<Rightarrow> string" where
  "GetParameter p key d = (case param p key of None \<Rightarrow> d | Some v \<Rightarrow> v)"

definition GetBoolParameter :: "platform \<Rightarrow> string \<Rightarrow> bool \<Rightarrow> bool" where
  "GetBoolParameter p key d = (case bool_param p key of None \<Rightarrow> d | Some v \<Rightarrow> v)"

definition CheckPengLai :: "platform \<Rightarrow> bool" where
  "CheckPengLai p \<longleftrightarrow> GetParameter p ''ohos.boot.minisys.mode'' [] = ''penglai''"

definition CheckSystemProcessStarted :: "env \<Rightarrow> platform \<Rightarrow> u16string \<Rightarrow> bool" where
  "CheckSystemProcessStarted e p procName \<longleftrightarrow> GetParameter p (''startup.service.ctl.'' @ e_str16to8 e procName) ''-1'' = started_text p"

text \<open>The user \<open>0\<close> is \<^verbatim>\<open>BASE_USER\<close>.\<close>
definition CheckSystemProcessStartedUser :: "env \<Rightarrow> platform \<Rightarrow> u16string \<Rightarrow> int \<Rightarrow> bool" where
  "CheckSystemProcessStartedUser e p procName userId \<longleftrightarrow>
     (if userId = 0 then CheckSystemProcessStarted e p procName
      else GetParameter p (''startup.service.ctl.'' @ e_str16to8 e procName @ ''.userid.'' @ to_string userId) ''-1'' = started_text p)"

text \<open>\<^verbatim>\<open>CheckProcessStarted\<close> of the scheduler; \<open>None\<close> is a manager that has gone, whose user is \<open>-1\<close>.\<close>
definition CheckProcessStarted :: "env \<Rightarrow> platform \<Rightarrow> int option \<Rightarrow> u16string \<Rightarrow> bool" where
  "CheckProcessStarted e p manager_user procName \<longleftrightarrow> (let userId = (case manager_user of None \<Rightarrow> -1 | Some u \<Rightarrow> u) in
     if userId = -1 then False else CheckSystemProcessStartedUser e p procName userId)"

definition CheckSupportSetPrior :: "platform \<Rightarrow> bool" where
  "CheckSupportSetPrior p = GetBoolParameter p ''const.samgr.setprior.support'' False"

text \<open>\<^verbatim>\<open>InitPenglaiFunc\<close>: the function, and whether the library stays open. \<open>so\<close> is what \<^verbatim>\<open>dlopen\<close> and then \<^verbatim>\<open>dlsym\<close> give.\<close>
definition InitPenglaiFunc :: "platform \<Rightarrow> 'f option option \<Rightarrow> 'f option \<times> bool" where
  "InitPenglaiFunc p so = (if \<not> CheckPengLai p then (None, False)
     else case so of
       None \<Rightarrow> (None, False)
     | Some None \<Rightarrow> (None, False)
     | Some (Some f) \<Rightarrow> (Some f, True))"

lemma penglai_library_open: "snd (InitPenglaiFunc p so) \<longleftrightarrow> fst (InitPenglaiFunc p so) \<noteq> None"
  by (simp add: InitPenglaiFunc_def split: option.split)

section \<open>A running process by its name\<close>

text \<open>The given record, with the name set and, if the process is in the list, its numbers.\<close>
definition GetRunningSystemProcess_name :: "env \<Rightarrow> u16string \<Rightarrow> SystemProcessInfo \<Rightarrow> SystemProcessInfo M" where
  "GetRunningSystemProcess_name e name info = do {
     ps \<leftarrow> getS runningProcessList;
     let info' = info \<lparr> spi_processName := e_str16to8 e name \<rparr>;
     ret (case find (\<lambda>i. spi_processName i = spi_processName info') ps of
         None \<Rightarrow> info'
       | Some i \<Rightarrow> info' \<lparr> spi_pid := spi_pid i, spi_uid := spi_uid i \<rparr>) }"

lemma running_process_found:
  "i \<in> set (runningProcessList (sch s)) \<Longrightarrow> distinct (map spi_processName (runningProcessList (sch s))) \<Longrightarrow> spi_processName i = e_str16to8 e name \<Longrightarrow>
   eval_st (GetRunningSystemProcess_name e name info) s = i"
proof -
  assume *: "i \<in> set (runningProcessList (sch s))" "distinct (map spi_processName (runningProcessList (sch s)))" "spi_processName i = e_str16to8 e name"
  have "find (\<lambda>j. spi_processName j = spi_processName i) ps = Some i" if "i \<in> set ps" "distinct (map spi_processName ps)" for ps
    using that by (induction ps) (auto simp: image_iff)
  from this [OF *(1,2)] *(3) show ?thesis by (simp add: GetRunningSystemProcess_name_def run_simps getS_def Let_def)
qed

section \<open>The report of the access counters\<close>

























end
