(* ===== verification/Spec2Isabelle.thy ===== *)
theory Spec2Isabelle
  imports Scheduler_Props Manager_Props Queue_Props Event_Props Registry_Props Ipc_Props
    Collect_Props Timed_Props Common_Event_Props Multi_Props Parse_Props Remote_Props Dump_Props
    Alarm_Props Peer_Process Command_Props Rust_Props Cpu_Usage Platform_Reports
begin

text \<open>
  Verification of the system ability manager (samgr) of OpenHarmony.

  \<^bold>\<open>The program.\<close> A system ability is a service that a process offers under a number. The manager keeps the table of
  registered abilities and processes, starts and stops the processes of on-demand abilities, and tells listeners
  about changes. Processes talk to it over IPC through a client library. Inside the service a request goes through
  these parts: the IPC stub unmarshals it and checks the caller; the ability manager carries it out on its tables; for
  everything that loads, unloads, starts or stops it asks the state scheduler, which keeps one context per ability and
  per process; the state machine admits or refuses each change of state and keeps the counters from which the
  scheduler decides whether a process can be unloaded or killed; the event handler translates reports of the outside
  (loaded, failed, process started or stopped) into transitions; delayed work is posted to named task queues.

  \<^bold>\<open>Theories and sources\<close> (under \<^verbatim>\<open>src/services/samgr/native/source/\<close> unless said otherwise).

  \<^item> \<open>Prelude\<close>: ordered maps as association lists (\<open>smap\<close>, for \<^verbatim>\<open>std::map\<close>), the state monad with its symbolic execution
    (\<open>run_simps\<close>), Hoare and frame rules (\<open>hoare_intros\<close>, \<open>frame_intros\<close>), and the 32- and 64-bit conversions.
  \<^item> \<open>Ffrt_Handler\<close>: \<^verbatim>\<open>ffrt_handler.cpp\<close>, named and delayed tasks; \<open>submitted\<close> are the tasks that the FFRT runtime holds.
  \<^item> \<open>Samgr_Types\<close>, \<open>Samgr_State\<close>: the data of \<^verbatim>\<open>sa_profiles.h\<close>, \<^verbatim>\<open>system_ability_state_context.h\<close> and the two headers of
    manager and scheduler; the record \<open>samgr\<close> holds both objects, the effects sent to the outside and a fault flag; the
    record \<open>env\<close> holds the answers of the outside to one step.
  \<^item> \<open>State_Machine\<close>, \<open>Event_Handler\<close>, \<open>Scheduler\<close>, \<open>Scheduler_Admin\<close>: the files of \<^verbatim>\<open>schedule/\<close>, one definition per function,
    with the function's name. State machine and event handler are given the listener that the scheduler is.
  \<^item> \<open>Manager_Core\<close>, \<open>Manager\<close>: \<^verbatim>\<open>base_system_ability_manager.cpp\<close>, the parts of \<^verbatim>\<open>system_ability_manager.cpp\<close> for remote
    abilities, and the helpers of \<^verbatim>\<open>system_ability_manager_util.cpp\<close>. A prefix \<open>mgr_\<close> or \<open>sch_\<close> distinguishes functions
    of the same name in manager and scheduler. \<open>Tools\<close>: the string helpers of \<^verbatim>\<open>utils/native/source/tools.cpp\<close>.
  \<^item> \<open>System\<close>: the service as a transition system. A step is a request, a death notice (\<^verbatim>\<open>ability_death_recipient.cpp\<close>), or a
    task that a queue starts; \<open>boot\<close> is \<^verbatim>\<open>main.cpp\<close>.
  \<^item> \<open>Parcel\<close>, \<open>On_Demand_Codec\<close>: marshalling; \<^verbatim>\<open>MessageParcel\<close> is the parameter \<open>ipc_ops\<close> with the laws \<open>parcel_laws\<close>, and
    \<^verbatim>\<open>frameworks/native/source/system_ability_on_demand_event.cpp\<close> is modelled over it.
  \<^item> \<open>Stub\<close>, \<open>Stub_Handlers\<close>: \<^verbatim>\<open>system_ability_manager_stub.cpp\<close>. \<open>Service\<close>: the stub's virtual methods implemented by the
    manager, and the priorities of IPC threads in \<^verbatim>\<open>system_ability_manager.cpp\<close>.
  \<^item> \<open>Client\<close>, \<open>Client_Cache\<close>: \<^verbatim>\<open>frameworks/native/source/system_ability_manager_proxy.cpp\<close>, \<^verbatim>\<open>dynamic_cache.cpp\<close> and
    \<^verbatim>\<open>local_abilitys.cpp\<close>; a function of the client has the prefix \<open>cl_\<close>.
  \<^item> \<open>Callbacks\<close>: the proxies and stubs of load callbacks and listeners and the proxy of the local ability manager
    (\<^verbatim>\<open>services/lsamgr/src/local_ability_manager_proxy.cpp\<close>).

  \<^item> \<open>Collect_State\<close>, \<open>Timed_Collect\<close>, \<open>Collect_Plugins\<close>, \<open>Common_Event_Collect\<close>, \<open>Collect_Manager\<close>: the files of \<^verbatim>\<open>collect/\<close>, the
    collect manager with its six plugins, which reports events of the device to the manager. The record \<open>collector\<close>
    holds the collect manager, the plugins, the preferences and, as \<open>host\<close>, the manager; \<open>collect_env\<close> holds the answers of the platform.
    \<open>collect_step\<close> composes both: a step is a call of a service or client, a task of a queue, an alarm, or a step of the manager.
  \<^item> \<open>Parse_Util\<close>: \<^verbatim>\<open>services/common/src/parse_util.cpp\<close>, from the choice of the profile files to the profiles that are the argument of
    \<open>boot\<close> and \<open>multi_boot\<close>, over JSON values.
  \<^item> \<open>Multi_Manager\<close>, \<open>User_Lifecycle\<close>, \<open>Multi_Service\<close>: the device with several users (\<^verbatim>\<open>SUPPORT_MULTI_INSTANCE\<close>). \<open>Multi_Manager\<close>
    is \<^verbatim>\<open>multi_system_ability_manager.cpp\<close>, the manager of one user, which extends the base manager: its record holds a
    \<open>collector\<close> and the subscribers. \<open>User_Lifecycle\<close> is \<^verbatim>\<open>user_lifecycle_manager.cpp\<close>: the managers of the active and of the stopping
    users and the subscriptions for all users. \<open>Multi_Service\<close> is the rest of \<^verbatim>\<open>system_ability_manager.cpp\<close>: the routing of
    a request by the ability and the user of the caller; a function of the service has the prefix \<open>sv_\<close>. \<open>multi_step\<close> is the
    transition system of all of it: a request, a change of a user's state, a timeout, a death notice, or a step of one of the managers.
  \<^item> \<open>Remote_Load\<close>: loading abilities of other devices, and for other devices (\<^verbatim>\<open>system_ability_manager.cpp\<close>, \<^verbatim>\<open>rpc_callback_imp.cpp\<close>). The record
    \<open>remote_samgr\<close> adds the loading threads, the callbacks that stand for other devices and the tasks they hand on to the record of the manager;
    \<open>remote_step\<close> interleaves requests, tasks and the two halves of a thread.
  \<^item> \<open>Dump_Info\<close>, \<open>Dumper\<close>: \<^verbatim>\<open>system_ability_manager_dumper.cpp\<close>, the texts of \<^verbatim>\<open>system_ability_state_scheduler.cpp\<close> and \<^verbatim>\<open>Dump\<close> of
    \<^verbatim>\<open>system_ability_manager.cpp\<close>. A command reads the service of a device with users; the record \<open>dumper\<close> is the state of the FFRT statistics, and
    \<open>dump_step\<close> interleaves commands, writes of the runtime and, as \<open>release_step\<close>, what the runtime does with the release task.
  \<^item> \<open>Time_Handler\<close>: the alarm timers of \<^verbatim>\<open>samgr_time_handler.cpp\<close> over the locked map of \<^verbatim>\<open>concurrent_map.h\<close>. The record \<open>timers\<close> has the map, the kernel's view
    of the descriptors, posts that are half done and any number of threads; \<open>timer_step\<close> interleaves their steps, each of which uses the map or the descriptors once; an entry is erased one step before its descriptor is closed.
  \<^item> \<open>Local_Commands\<close>: the other requests of \<^verbatim>\<open>local_ability_manager_proxy.cpp\<close>, and \<^verbatim>\<open>service_registry.cpp\<close>. \<open>Rust_Wrapper\<close>: the layer of the client library for Rust
    (\<^verbatim>\<open>innerkits/rust/src/cxx\<close>); a function has the prefix \<open>rs_\<close>.
  \<^item> \<open>Peer_Process\<close>: the helpers of \<^verbatim>\<open>system_ability_manager_util.cpp\<close> that find and stop a peer that does not answer. \<open>Cpu_Usage\<close>: the CPU times of
    \<^verbatim>\<open>common_event_collect.cpp\<close>. \<open>Dfx\<close>: the reports and the watchdog of \<^verbatim>\<open>services/dfx\<close>.
    \<open>Platform_Reports\<close>: the report of the access counters of \<^verbatim>\<open>system_ability_manager.cpp\<close> and the parameters that the utilities read.

  \<^bold>\<open>What is shown.\<close>

  \<^item> \<open>Scheduler_Inv\<close> and the lemmas of \<open>Scheduler\<close>, \<open>Scheduler_Admin\<close> and \<open>System\<close>: the invariant \<open>SI\<close> of the contexts, kept by
    every operation and so true in every reachable state. Its locales state what the machine asks of its
    listener and what the event handler asks of the machine.
  \<^item> \<open>Scheduler_Frames\<close>, \<open>Manager_Frames\<close>, \<open>Manager_Services\<close>: what the operations leave unchanged; the contract of the
    manager's services, as the scheduler uses them, is a locale.
  \<^item> \<open>Lifecycle\<close>, \<open>Scheduler_Props\<close>, \<open>Event_Props\<close>: counters are exact, a process is killed exactly when all its abilities are
    not loaded, the outcome of every event and transition, restart limits, pending loads and unloads, enable-once.
  \<^item> \<open>Registry\<close>, \<open>Registry_Props\<close>: a property of the manager that survives the removals is kept by every request that does not register and by every
    task (locales \<open>manager_view\<close> and \<open>step_property\<close>, with four instances); the registries refine a specification by bounded maps. \<open>Manager_Props\<close>: registration,
    lookup, listeners and load callbacks. \<open>Queue_Props\<close>: task queues and delayed unloads.
  \<^item> \<open>Remote_Calls\<close>: a calculus that runs a call through proxy, parcel, dispatcher and handler. \<open>Client_Lemmas\<close>: retry loop,
    cache, blocking load. \<open>Service_Requests\<close>: the contract of the service object, a locale, and that every request keeps
    what the methods keep; \<open>Service_Inv\<close> discharges it twice and defines the transition system \<open>serves\<close>.
  \<^item> \<open>Ipc_Props\<close>: calls end to end, refused requests, the priorities of the threads under arbitrary requests with the 32-bit counter, and the bounds of the client.
  \<^item> \<open>Collect_Inv\<close>: the invariant of the collect manager and its plugins. \<open>Collect_Contract\<close>: what a plugin, the manager and the
    collect manager respect, as locales that extend each other; \<open>Collect_Props\<close> interprets them and shows that the composed
    system keeps the invariant, so that intervals are bounded, and that policies can be read back and, while the storage works, survive a restart.
    \<open>Timed_Props\<close>: loop tasks, persistent or not, repeat, recovery after a restart keeps the phase. \<open>Common_Event_Props\<close>: dispatch of a report,
    comparison of values, life of the data of an event.
  \<^item> \<open>Multi_Inv\<close>: the manager of a user keeps the invariants of scheduler and collect manager. \<open>User_Inv\<close>: the tables of the users are well
    formed and a timeout is queued for every stopping user; a locale lifts what every manager keeps to all users. \<open>Multi_System\<close>:
    every step of the service keeps both. \<open>Multi_Props\<close>: what follows for a user: isolation (with the two requests that are not routed, a failed start and a strategy,
    told apart), registration, subscriptions, new and repeated, and stopping.
  \<^item> \<open>Parse_Props\<close>: the parser produces exactly the valid profiles, a written file is read back, marks count for whole files, handles are
    accounted for.
  \<^item> \<open>Remote_Props\<close>: remembered callbacks belong to threads that have not ended, a remote load is answered, except one that comes between the answer
    and the end of a thread, and every answer for another device becomes one completion.
  \<^item> \<open>Dump_Props\<close>: nobody but \<^verbatim>\<open>hidumper_service\<close> is served, the buffer of the statistics is released, and the printed numbers are exact.
    \<open>Tools\<close> shows that the deletion of marks ends and what it keeps.
  \<^item> \<open>Alarm_Props\<close>: the alarm timers are a bag from which every accepted function is called at most once, by whatever thread; a second thread can come up
    and hang. \<open>Command_Props\<close>: a command reaches its process and its answer comes back; a lookup in the service registry waits at most ten seconds.
    \<open>Rust_Props\<close>: a registration from Rust, end to end. \<open>Peer_Process\<close>: a process is stopped only for a call of the asking thread that has waited a minute. \<open>Dfx\<close>: every report agrees
    with its declaration in \<^verbatim>\<open>hisysevent.yaml\<close>, and a watchdog timer is cancelled once. \<open>Cpu_Usage\<close>: the usage is a percentage.
    \<open>Platform_Reports\<close>: the report of the access counters names every caller and ability with the number of lookups that the base manager answered.
  \<^item> \<open>Samples\<close>, \<open>Ipc_Samples\<close>, \<open>Collect_Samples\<close>, \<open>Multi_Samples\<close>: the devices and the list parcel on which the witnesses evaluate the properties.

  \<^bold>\<open>Loops.\<close> Nearly every loop of the modelled code is a structural recursion over a list or a counter, so no definition has fuel
  and every operation returns; the retry loop of the client recurses on its counter, which starts at 6, the lookup of the service registry on one that starts at 10, the parsers of
  process identifiers and of the words of a line on the length of their text. \<open>DeleteAllMark\<close> is a partial function, whose result is shown to exist for every mark that is not empty.

  \<^bold>\<open>Assumptions of the model.\<close> A request or task runs without interruption, as the locks of the sources intend; the places
  where a check and its use are not under one lock (\<^verbatim>\<open>SetIpcPrior\<close>, the remote loading thread, the release of the statistics, the alarm timers) are modelled in several steps. Everything the code
  asks of the outside (clock, caller, parameters, init, peers) is an argument of the step. Log and trace are left out, and
  so are the calls of most event reports, which \<open>Dfx\<close> models on their own. The distributed binder is enabled. The transition systems \<open>run_request\<close>, \<open>collect_step\<close> and \<open>serves\<close> are of the
  build with one manager, and \<open>multi_step\<close> is of the build with a manager per user. The stub is modelled over an arbitrary service object
  and composed with the base manager; the functions \<open>sv_\<close> are entered after the stub.

  \<^bold>\<open>Not modelled.\<close> The JSON library that turns a text into a value, a parameter of the parser. The float quotient of the CPU usage, an argument.
  The stub of the local ability manager, which is in the ability framework. Code that has no state of its own or only prepares the platform: the
  construction of singletons, the publication of the service, the constructors that pin a shared object, the request for
  priorities at the scheduling service, and the declarations of the interfaces.
\<close>

end
